(* ===== verification/Prelude.thy ===== *)
theory Prelude
  imports Main "HOL-Library.Word" "HOL-Library.Finite_Map"
begin

text \<open>
  Shared ground of the development: the machine integers, the Go strings and the parts of Go's
  standard library the modelled packages call, and the generic lemmas on options, lists and
  finite maps that carry the component proofs.

  \<^item> Integers: \<open>uint8\<close>, \<open>uint32\<close> and \<open>uint64\<close> are words of that width, because the code
    increments and compares them. \<open>int64\<close> identifiers are only compared, never computed with, so
    they are \<open>int\<close>.
  \<^item> Strings: a Go string is a byte sequence, so it is Isabelle's \<open>string\<close> (a list of 8-bit
    characters) and \<open>length\<close> is Go's \<open>len\<close>. A loop \<open>for _, c := range s\<close> decodes
    UTF-8; \<open>go_runes\<close> is that decoding.
  \<^item> Times: \<open>time.Time\<close> is an instant counted from the zero time, so \<open>IsZero\<close> is equality
    with 0 and \<open>Equal\<close>, \<open>Before\<close>, \<open>After\<close> are the integer comparisons. Locations and
    monotonic readings are not represented.
  \<^item> Maps: a Go map is a finite map; a nil map and an empty map are the same value, since every
    use of the code treats them alike.
  \<^item> Pointers: a \<open>*T\<close> that may be nil is \<open>T option\<close>; values are copied, never shared.
\<close>

named_theorems go_simps \<open>evaluation rules for Go's library functions\<close>

type_synonym u8 = "8 word"
type_synonym u32 = "32 word"
type_synonym u64 = "64 word"
type_synonym int64 = int
type_synonym instant = int

definition zero_time :: instant where
  "zero_time = 0"

definition is_zero_time :: "instant \<Rightarrow> bool" where
  "is_zero_time t \<longleftrightarrow> t = zero_time"

section \<open>Bytes, runes and strings\<close>

definition go_bytes :: "string \<Rightarrow> nat list" where
  "go_bytes s = map of_char s"

text \<open>A continuation byte, and the ranges of the second byte that \<open>unicode/utf8\<close> accepts
  after each lead byte.\<close>

definition utf8_cont :: "nat \<Rightarrow> bool" where
  "utf8_cont b \<longleftrightarrow> 128 \<le> b \<and> b \<le> 191"

definition utf8_second :: "nat \<Rightarrow> nat \<Rightarrow> bool" where
  "utf8_second lead b \<longleftrightarrow>
     (if lead = 224 then 160 \<le> b \<and> b \<le> 191
      else if lead = 237 then 128 \<le> b \<and> b \<le> 159
      else if lead = 240 then 144 \<le> b \<and> b \<le> 191
      else if lead = 244 then 128 \<le> b \<and> b \<le> 143
      else utf8_cont b)"

text \<open>One step of \<open>utf8.DecodeRune\<close>: the rune and how many bytes it takes. A malformed
  sequence is the replacement rune U+FFFD of width one, marked by \<open>False\<close>.\<close>

definition utf8_decode1 :: "nat list \<Rightarrow> nat \<times> nat \<times> bool" where
  "utf8_decode1 bs =
     (case bs of
        [] \<Rightarrow> (65533, 0, False)
      | b0 # r0 \<Rightarrow>
          if b0 < 128 then (b0, 1, True)
          else if 194 \<le> b0 \<and> b0 \<le> 223 then
            (case r0 of
               b1 # _ \<Rightarrow> if utf8_cont b1 then ((b0 - 192) * 64 + (b1 - 128), 2, True)
                         else (65533, 1, False)
             | [] \<Rightarrow> (65533, 1, False))
          else if 224 \<le> b0 \<and> b0 \<le> 239 then
            (case r0 of
               b1 # b2 # _ \<Rightarrow>
                 if utf8_second b0 b1 \<and> utf8_cont b2
                 then ((b0 - 224) * 4096 + (b1 - 128) * 64 + (b2 - 128), 3, True)
                 else (65533, 1, False)
             | _ \<Rightarrow> (65533, 1, False))
          else if 240 \<le> b0 \<and> b0 \<le> 244 then
            (case r0 of
               b1 # b2 # b3 # _ \<Rightarrow>
                 if utf8_second b0 b1 \<and> utf8_cont b2 \<and> utf8_cont b3
                 then ((b0 - 240) * 262144 + (b1 - 128) * 4096 + (b2 - 128) * 64 + (b3 - 128), 4, True)
                 else (65533, 1, False)
             | _ \<Rightarrow> (65533, 1, False))
          else (65533, 1, False))"

text \<open>The decoding of a whole string, each rune with the bytes it came from and whether they
  were well formed.\<close>

function utf8_segments :: "nat list \<Rightarrow> (nat \<times> nat list \<times> bool) list" where
  "utf8_segments [] = []"
| "utf8_segments (b # bs) =
     (fst (utf8_decode1 (b # bs)),
      b # take (fst (snd (utf8_decode1 (b # bs))) - 1) bs,
      snd (snd (utf8_decode1 (b # bs))))
     # utf8_segments (drop (fst (snd (utf8_decode1 (b # bs))) - 1) bs)"
  by pat_completeness auto
termination
  by (relation "measure length") auto

definition go_runes :: "string \<Rightarrow> nat list" where
  "go_runes s = map fst (utf8_segments (go_bytes s))"

definition utf8_valid_string :: "string \<Rightarrow> bool" where
  "utf8_valid_string s \<longleftrightarrow> list_all (\<lambda>(_, _, ok). ok) (utf8_segments (go_bytes s))"

text \<open>\<open>unicode.IsSpace\<close> and \<open>unicode.IsControl\<close>.\<close>

definition is_space_rune :: "nat \<Rightarrow> bool" where
  "is_space_rune r \<longleftrightarrow>
     (9 \<le> r \<and> r \<le> 13) \<or> r = 32 \<or> r = 133 \<or> r = 160 \<or> r = 5760 \<or> (8192 \<le> r \<and> r \<le> 8202)
     \<or> r = 8232 \<or> r = 8233 \<or> r = 8239 \<or> r = 8287 \<or> r = 12288"

definition is_control_rune :: "nat \<Rightarrow> bool" where
  "is_control_rune r \<longleftrightarrow> r < 32 \<or> (127 \<le> r \<and> r \<le> 159)"

text \<open>\<open>strings.TrimSpace\<close>, as the bytes that remain.\<close>

definition trim_space_bytes :: "string \<Rightarrow> nat list" where
  "trim_space_bytes s =
     concat (map (\<lambda>(_, bs, _). bs)
       (rev (dropWhile (\<lambda>(r, _, _). is_space_rune r)
         (rev (dropWhile (\<lambda>(r, _, _). is_space_rune r) (utf8_segments (go_bytes s)))))))"

definition trims_to_empty :: "string \<Rightarrow> bool" where
  "trims_to_empty s \<longleftrightarrow> trim_space_bytes s = []"

definition trim_space_fixed :: "string \<Rightarrow> bool" where
  "trim_space_fixed s \<longleftrightarrow> trim_space_bytes s = go_bytes s"

definition contains_nul :: "string \<Rightarrow> bool" where
  "contains_nul s \<longleftrightarrow> list_ex (\<lambda>b. b = 0) (go_bytes s)"

lemma concat_utf8_segments: "concat (map (\<lambda>(_, bs, _). bs) (utf8_segments bs)) = bs"
  by (induction bs rule: utf8_segments.induct) simp_all

lemma utf8_segment_nonempty: "(r, ys, ok) \<in> set (utf8_segments xs) \<Longrightarrow> ys \<noteq> []"
  by (induction xs rule: utf8_segments.induct) auto

lemma dropWhile_all_iff: "(\<forall>x \<in> set (dropWhile P xs). P x) \<longleftrightarrow> (\<forall>x \<in> set xs. P x)"
  by (induction xs) auto

lemma trims_to_empty_iff:
  "trims_to_empty s \<longleftrightarrow> list_all is_space_rune (go_runes s)"
proof -
  let ?S = "utf8_segments (go_bytes s)"
  let ?sp = "\<lambda>(r, _ :: nat list, _ :: bool). is_space_rune r"
  have conc: "concat (map (\<lambda>(_, bs, _). bs) ys) = [] \<longleftrightarrow> ys = []"
    if "set ys \<subseteq> set ?S" for ys
    using that utf8_segment_nonempty by (cases ys) fastforce+
  have "trims_to_empty s \<longleftrightarrow> rev (dropWhile ?sp (rev (dropWhile ?sp ?S))) = []"
    unfolding trims_to_empty_def trim_space_bytes_def
    by (rule conc) (auto dest!: set_dropWhileD)
  also have "\<dots> \<longleftrightarrow> (\<forall>x \<in> set (dropWhile ?sp ?S). ?sp x)"
    by simp
  also have "\<dots> \<longleftrightarrow> (\<forall>x \<in> set ?S. ?sp x)"
    by (rule dropWhile_all_iff)
  finally show ?thesis
    by (auto simp: go_runes_def list_all_iff)
qed

text \<open>ASCII strings decode byte by byte, so the library functions on them reduce to list
  functions that \<open>simp\<close> evaluates.\<close>

definition ascii :: "string \<Rightarrow> bool" where
  "ascii s \<longleftrightarrow> list_all (\<lambda>b. b < 128) (go_bytes s)"

lemma ascii_simps [go_simps]:
  "ascii [] = True" "ascii (c # s) \<longleftrightarrow> (of_char c :: nat) < 128 \<and> ascii s"
  by (simp_all add: ascii_def go_bytes_def)

lemma go_bytes_simps [go_simps]:
  "go_bytes [] = []" "go_bytes (c # s) = of_char c # go_bytes s"
  by (simp_all add: go_bytes_def)

lemma utf8_segments_ascii:
  "list_all (\<lambda>b. b < 128) bs \<Longrightarrow> utf8_segments bs = map (\<lambda>b. (b, [b], True)) bs"
  by (induction bs) (simp_all add: utf8_decode1_def)

lemma go_runes_ascii [go_simps]: "ascii s \<Longrightarrow> go_runes s = go_bytes s"
  by (simp add: go_runes_def ascii_def utf8_segments_ascii comp_def)

lemma utf8_valid_ascii [go_simps]: "ascii s \<Longrightarrow> utf8_valid_string s"
  by (simp add: utf8_valid_string_def ascii_def utf8_segments_ascii list_all_iff)

lemma dropWhile_map_segments:
  "dropWhile (\<lambda>(r, _, _). P r) (map (\<lambda>b. (b, [b], True)) bs)
     = map (\<lambda>b. (b, [b], True)) (dropWhile P bs)"
  by (induction bs) auto

lemma concat_map_segments:
  "concat (map (\<lambda>(_, bs, _). bs) (map (\<lambda>b. (b, [b], True)) bs)) = bs"
  by (induction bs) auto

lemma trim_space_bytes_ascii:
  "ascii s \<Longrightarrow> trim_space_bytes s = rev (dropWhile is_space_rune (rev (dropWhile is_space_rune (go_bytes s))))"
  unfolding trim_space_bytes_def
  by (simp only: ascii_def utf8_segments_ascii dropWhile_map_segments rev_map concat_map_segments)

lemma dropWhile_eq_self: "dropWhile P xs = xs \<longleftrightarrow> xs = [] \<or> \<not> P (hd xs)"
proof (cases xs)
  case (Cons a list)
  have "length (dropWhile P list) < length (a # list)"
    by (simp add: le_imp_less_Suc length_dropWhile_le)
  then have "dropWhile P list \<noteq> a # list" by (metis less_irrefl)
  with Cons show ?thesis by simp
qed simp

lemma trim_space_fixed_ascii [go_simps]:
  assumes "ascii s"
  shows "trim_space_fixed s \<longleftrightarrow>
    (case go_bytes s of [] \<Rightarrow> True | b # bs \<Rightarrow> \<not> is_space_rune b \<and> \<not> is_space_rune (last (b # bs)))"
proof (cases "go_bytes s")
  case Nil
  then show ?thesis using assms by (simp add: trim_space_fixed_def trim_space_bytes_ascii)
next
  case (Cons b bs)
  let ?d = "dropWhile is_space_rune (b # bs)"
  have len: "length (rev (dropWhile is_space_rune (rev ?d))) \<le> length ?d"
    by (metis length_dropWhile_le length_rev)
  show ?thesis
  proof (cases "is_space_rune b")
    case True
    then have "length ?d < length (b # bs)"
      by (simp add: le_imp_less_Suc length_dropWhile_le)
    with len have "rev (dropWhile is_space_rune (rev ?d)) \<noteq> b # bs"
      by (metis leD)
    with True Cons assms show ?thesis
      by (simp add: trim_space_fixed_def trim_space_bytes_ascii)
  next
    case False
    then have d: "?d = b # bs" by simp
    have "rev (dropWhile is_space_rune (rev (b # bs))) = b # bs
          \<longleftrightarrow> dropWhile is_space_rune (rev (b # bs)) = rev (b # bs)"
      by (metis rev_rev_ident)
    also have "\<dots> \<longleftrightarrow> \<not> is_space_rune (last (b # bs))"
      unfolding dropWhile_eq_self by (simp add: hd_rev)
    finally show ?thesis
      using False Cons assms d by (simp add: trim_space_fixed_def trim_space_bytes_ascii)
  qed
qed

lemma trims_to_empty_ascii [go_simps]:
  "ascii s \<Longrightarrow> trims_to_empty s \<longleftrightarrow> list_all is_space_rune (go_bytes s)"
  by (simp add: trims_to_empty_iff go_runes_ascii)

text \<open>The \<open>%d\<close> verb of \<open>fmt.Sprintf\<close> for an unsigned integer.\<close>

fun decimal :: "nat \<Rightarrow> string" where
  "decimal n = (if n < 10 then [char_of (48 + n)] else decimal (n div 10) @ [char_of (48 + n mod 10)])"

declare decimal.simps [simp del]

section \<open>Iterating over a finite map\<close>

text \<open>A loop over a map that only looks for one entry does not depend on Go's iteration
  order: \<open>fmap_any\<close> is the search, \<open>fmpred\<close> its dual.\<close>

definition fmap_any :: "('k \<Rightarrow> 'v \<Rightarrow> bool) \<Rightarrow> ('k, 'v) fmap \<Rightarrow> bool" where
  "fmap_any P m \<longleftrightarrow> \<not> fmpred (\<lambda>k v. \<not> P k v) m"

lemma fmap_any_iff: "fmap_any P m \<longleftrightarrow> (\<exists>k v. fmlookup m k = Some v \<and> P k v)"
  by (auto simp: fmap_any_def fmpred_iff)

text \<open>Indexing a Go map: an absent key reads as the zero value.\<close>

definition fm_get :: "'v \<Rightarrow> ('k, 'v) fmap \<Rightarrow> 'k \<Rightarrow> 'v" where
  "fm_get zero m k = (case fmlookup m k of None \<Rightarrow> zero | Some v \<Rightarrow> v)"

lemma fm_get_upd [simp]: "fm_get z (fmupd k v m) k' = (if k' = k then v else fm_get z m k')"
  by (simp add: fm_get_def)

lemma fm_get_empty [simp]: "fm_get z fmempty k = z"
  by (simp add: fm_get_def)

lemma fmap_anyI [intro]: "fmlookup m k = Some v \<Longrightarrow> P k v \<Longrightarrow> fmap_any P m"
  by (auto simp: fmap_any_iff)

section \<open>Options and words\<close>

lemma option_neq_None_iff: "x \<noteq> None \<longleftrightarrow> (\<exists>y. x = Some y)"
  by simp

lemma word_succ_neq [simp]: "(w :: 'a :: len word) + 1 \<noteq> w" "w \<noteq> (w :: 'a :: len word) + 1"
  by simp_all

lemma word_add_gr_zero:
  "(w :: 'a :: len word) < l \<Longrightarrow> w + 1 \<le> l"
  by (metis inc_le)

section \<open>Loops that return early with an error\<close>

text \<open>\<open>foldE f xs s\<close> is the Go loop \<open>for _, x := range xs\<close> over the local state \<open>s\<close> whose
  body \<open>f x s\<close> either returns an error from the enclosing function or goes on.\<close>

fun foldE :: "('a \<Rightarrow> 's \<Rightarrow> 'e + 's) \<Rightarrow> 'a list \<Rightarrow> 's \<Rightarrow> 'e + 's" where
  "foldE f [] s = Inr s"
| "foldE f (x # xs) s = (case f x s of Inl e \<Rightarrow> Inl e | Inr s' \<Rightarrow> foldE f xs s')"

lemma foldE_append:
  "foldE f (xs @ ys) s = (case foldE f xs s of Inl e \<Rightarrow> Inl e | Inr s' \<Rightarrow> foldE f ys s')"
  by (induction xs arbitrary: s) (auto split: sum.splits)

text \<open>The loop rule: an invariant relating the elements already handled to the state.\<close>

lemma foldE_prefix_induct [consumes 1, case_names start step]:
  assumes "foldE f xs s = Inr t"
    and "I [] s"
    and "\<And>ys x u v. \<exists>zs. xs = ys @ x # zs \<Longrightarrow> I ys u \<Longrightarrow> f x u = Inr v \<Longrightarrow> I (ys @ [x]) v"
  shows "I xs t"
proof -
  have "I (ys @ zs) t" if "xs = ys @ zs" "I ys u" "foldE f zs u = Inr t" for ys zs u
    using that
  proof (induction zs arbitrary: ys u)
    case Nil
    then show ?case by simp
  next
    case (Cons z zs)
    then obtain v where v: "f z u = Inr v" "foldE f zs v = Inr t"
      by (auto split: sum.splits)
    from Cons.prems(1) have "xs = (ys @ [z]) @ zs" by simp
    moreover have "I (ys @ [z]) v"
      using assms(3) [OF _ Cons.prems(2) v(1)] Cons.prems(1) by blast
    ultimately have "I ((ys @ [z]) @ zs) t" using Cons.IH v(2) by blast
    then show ?case by simp
  qed
  from this [of "[]" xs s] assms(1,2) show ?thesis by simp
qed

lemma foldE_invariant:
  assumes "foldE f xs s = Inr t" and "I s"
    and "\<And>x u v. x \<in> set xs \<Longrightarrow> I u \<Longrightarrow> f x u = Inr v \<Longrightarrow> I v"
  shows "I t"
  using assms(1,2)
  by (rule foldE_prefix_induct [where I = "\<lambda>_. I"]) (use assms(3) in fastforce)

end
