(* ===== verification/Role_Catalog.thy ===== *)
theory Role_Catalog
  imports Prelude
begin

text \<open>
  The Roles of the deployment (\<open>internal/role\<close>): canonical Role identities, the immutable
  Role Catalog of \<open>catalog.go\<close>, and the Role Policies of \<open>policy.go\<close> that decide which
  capabilities a Role has and under which repository identity each of them runs.
  Constructors return \<open>Inl\<close> of the error or \<open>Inr\<close> of the catalog. The locale
  \<open>role_registry\<close> is the interface both catalogs offer to their clients.
\<close>

type_synonym role_id = string

definition Developer :: role_id where "Developer = ''DEVELOPER''"
definition Reviewer :: role_id where "Reviewer = ''REVIEWER''"
definition Planner :: role_id where "Planner = ''PLANNER''"

lemma roles_distinct [simp]:
  "Developer \<noteq> Reviewer" "Reviewer \<noteq> Developer" "Developer \<noteq> Planner"
  "Planner \<noteq> Developer" "Reviewer \<noteq> Planner" "Planner \<noteq> Reviewer"
  "Developer \<noteq> []" "Reviewer \<noteq> []" "Planner \<noteq> []"
  by (simp_all add: Developer_def Reviewer_def Planner_def)

section \<open>The Role Catalog\<close>

record role_metadata =
  md_ID :: role_id
  md_DisplayName :: string
  md_Description :: string

record role_catalog =
  cat_ordered :: "role_id list"
  cat_byID :: "(role_id, role_metadata) fmap"

datatype catalog_error =
    NoRoles
  | InvalidMetadata role_id
  | DuplicateRole role_id

definition max_role_id_length :: nat where
  "max_role_id_length = 64"

definition role_id_rune :: "nat \<Rightarrow> bool" where
  "role_id_rune c \<longleftrightarrow> (65 \<le> c \<and> c \<le> 90) \<or> (48 \<le> c \<and> c \<le> 57) \<or> c = 95"

definition ValidID :: "role_id \<Rightarrow> bool" where
  "ValidID v \<longleftrightarrow>
     (case go_bytes v of
        [] \<Rightarrow> False
      | b # _ \<Rightarrow> length v \<le> max_role_id_length \<and> 65 \<le> b \<and> b \<le> 90
                \<and> list_all role_id_rune (go_runes (tl v)))"

definition containsControl :: "string \<Rightarrow> bool" where
  "containsControl v \<longleftrightarrow> list_ex is_control_rune (go_runes v)"

definition valid_metadata :: "role_metadata \<Rightarrow> bool" where
  "valid_metadata m \<longleftrightarrow>
     ValidID (md_ID m)
     \<and> \<not> trims_to_empty (md_DisplayName m) \<and> trim_space_fixed (md_DisplayName m)
     \<and> \<not> trims_to_empty (md_Description m) \<and> trim_space_fixed (md_Description m)
     \<and> \<not> containsControl (md_DisplayName m) \<and> \<not> containsControl (md_Description m)"

definition catalog_add :: "role_metadata \<Rightarrow> role_catalog \<Rightarrow> catalog_error + role_catalog" where
  "catalog_add m c =
     (if \<not> valid_metadata m then Inl (InvalidMetadata (md_ID m))
      else if fmlookup (cat_byID c) (md_ID m) \<noteq> None then Inl (DuplicateRole (md_ID m))
      else Inr (c\<lparr>cat_ordered := cat_ordered c @ [md_ID m],
                  cat_byID := fmupd (md_ID m) m (cat_byID c)\<rparr>))"

definition NewCatalog :: "role_metadata list \<Rightarrow> catalog_error + role_catalog" where
  "NewCatalog metadata =
     (if metadata = [] then Inl NoRoles
      else foldE catalog_add metadata \<lparr>cat_ordered = [], cat_byID = fmempty\<rparr>)"

text \<open>\<open>BuiltinCatalog\<close> panics when \<open>NewCatalog\<close> refuses its constants: the panic is \<open>Inl\<close>.\<close>

definition BuiltinCatalog :: "catalog_error + role_catalog" where
  "BuiltinCatalog = NewCatalog
     [\<lparr>md_ID = Developer, md_DisplayName = ''Developer'',
       md_Description = ''Implements and revises the Change Proposal.''\<rparr>,
      \<lparr>md_ID = Reviewer, md_DisplayName = ''Reviewer'',
       md_Description = ''Evaluates the current Change Proposal.''\<rparr>,
      \<lparr>md_ID = Planner, md_DisplayName = ''Planner'',
       md_Description = ''Investigates and discusses requirements and technical plans without authorizing implementation.''\<rparr>]"

definition catalog_Contains :: "role_catalog \<Rightarrow> role_id \<Rightarrow> bool" where
  "catalog_Contains c r \<longleftrightarrow> fmlookup (cat_byID c) r \<noteq> None"

definition catalog_Lookup :: "role_catalog \<Rightarrow> role_id \<Rightarrow> role_metadata option" where
  "catalog_Lookup c r = fmlookup (cat_byID c) r"

definition catalog_IDs :: "role_catalog \<Rightarrow> role_id list" where
  "catalog_IDs c = cat_ordered c"

section \<open>Role Policies\<close>

datatype credential_authority =
    OrchestratorAuthority
  | ReviewerAuthority
  | AuthorityOther string

record role_policy =
  pol_Role :: role_id
  pol_MCPTools :: "string list"
  pol_RequiresChangeProposal :: bool
  pol_RepositoryCredentialAuthority :: credential_authority
  pol_ToolCredentialAuthorities :: "(string, credential_authority) fmap"
  pol_AllowFileEdits :: bool
  pol_DiscardWorkspace :: bool
  pol_AllowHumanSessionControl :: bool

record policy_catalog =
  pc_ordered :: "role_id list"
  pc_byRole :: "(role_id, role_policy) fmap"

datatype policy_error =
    PolicyInvalidRole
  | PolicyMissingCapabilities
  | PolicyInvalidTool string
  | PolicyDuplicateTool string
  | PolicySubmitReviewAuthority
  | PolicyConfirmationAuthority
  | PolicyInvalidOverride

datatype policy_catalog_error =
    NoReferencesOrPolicies
  | InvalidReference role_id
  | DuplicateReference role_id
  | UnreferencedPolicy role_id
  | DuplicatePolicy role_id
  | PolicyRefused role_id policy_error
  | MissingPolicy role_id
  | NoBuiltinPolicy role_id

definition containsString :: "string list \<Rightarrow> string \<Rightarrow> bool" where
  "containsString values target \<longleftrightarrow> list_ex (\<lambda>v. v = target) values"

definition validCredentialAuthority :: "credential_authority \<Rightarrow> bool" where
  "validCredentialAuthority a \<longleftrightarrow> a = OrchestratorAuthority \<or> a = ReviewerAuthority"

definition tool_name_rune :: "nat \<Rightarrow> bool" where
  "tool_name_rune c \<longleftrightarrow> (97 \<le> c \<and> c \<le> 122) \<or> (48 \<le> c \<and> c \<le> 57) \<or> c = 95"

definition validToolName :: "string \<Rightarrow> bool" where
  "validToolName v \<longleftrightarrow> v \<noteq> [] \<and> trim_space_fixed v \<and> list_all tool_name_rune (go_runes v)"

definition CredentialAuthorityForTool :: "role_policy \<Rightarrow> string \<Rightarrow> credential_authority option" where
  "CredentialAuthorityForTool p tool =
     (if \<not> containsString (pol_MCPTools p) tool then None
      else case fmlookup (pol_ToolCredentialAuthorities p) tool of
             Some authority \<Rightarrow> Some authority
           | None \<Rightarrow> Some (pol_RepositoryCredentialAuthority p))"

text \<open>The loop of \<open>validatePolicy\<close> over the tools keeps the set of the tools seen. A missing
  entry of the overrides reads as the empty authority, which is not the Reviewer's.\<close>

definition validate_tool :: "role_policy \<Rightarrow> string \<Rightarrow> string list \<Rightarrow> policy_error + string list" where
  "validate_tool p tool seen =
     (if \<not> validToolName tool then Inl (PolicyInvalidTool tool)
      else if tool \<in> set seen then Inl (PolicyDuplicateTool tool)
      else if tool = ''submit_review''
              \<and> fmlookup (pol_ToolCredentialAuthorities p) tool \<noteq> Some ReviewerAuthority
        then Inl PolicySubmitReviewAuthority
      else if tool = ''confirm_prior_terminal_intent'' \<and> pol_Role p = Reviewer
              \<and> fmlookup (pol_ToolCredentialAuthorities p) tool \<noteq> Some ReviewerAuthority
        then Inl PolicyConfirmationAuthority
      else Inr (seen @ [tool]))"

definition invalid_override :: "string list \<Rightarrow> string \<Rightarrow> credential_authority \<Rightarrow> bool" where
  "invalid_override seen tool authority \<longleftrightarrow>
     tool \<notin> set seen \<or> \<not> validCredentialAuthority authority
     \<or> (authority = ReviewerAuthority \<and> tool \<noteq> ''submit_review''
        \<and> tool \<noteq> ''confirm_prior_terminal_intent'')"

definition validatePolicy :: "role_policy \<Rightarrow> policy_error option" where
  "validatePolicy p =
     (if \<not> ValidID (pol_Role p) then Some PolicyInvalidRole
      else if pol_MCPTools p = [] \<or> pol_RepositoryCredentialAuthority p \<noteq> OrchestratorAuthority
        then Some PolicyMissingCapabilities
      else case foldE (validate_tool p) (pol_MCPTools p) [] of
             Inl e \<Rightarrow> Some e
           | Inr seen \<Rightarrow>
               if fmap_any (invalid_override seen) (pol_ToolCredentialAuthorities p)
               then Some PolicyInvalidOverride else None)"

definition clonePolicy :: "role_policy \<Rightarrow> role_policy" where
  "clonePolicy p =
     p\<lparr>pol_MCPTools := [] @ pol_MCPTools p,
       pol_ToolCredentialAuthorities := pol_ToolCredentialAuthorities p\<rparr>"

lemma clonePolicy_id [simp]: "clonePolicy p = p"
  by (simp add: clonePolicy_def)

definition add_reference :: "role_id \<Rightarrow> role_id list \<Rightarrow> policy_catalog_error + role_id list" where
  "add_reference r ordered =
     (if \<not> ValidID r then Inl (InvalidReference r)
      else if r \<in> set ordered then Inl (DuplicateReference r)
      else Inr (ordered @ [r]))"

definition add_policy ::
  "role_id list \<Rightarrow> role_policy \<Rightarrow> policy_catalog \<Rightarrow> policy_catalog_error + policy_catalog" where
  "add_policy references p c =
     (if pol_Role p \<notin> set references then Inl (UnreferencedPolicy (pol_Role p))
      else if fmlookup (pc_byRole c) (pol_Role p) \<noteq> None then Inl (DuplicatePolicy (pol_Role p))
      else case validatePolicy p of
             Some e \<Rightarrow> Inl (PolicyRefused (pol_Role p) e)
           | None \<Rightarrow> Inr (c\<lparr>pc_byRole := fmupd (pol_Role p) (clonePolicy p) (pc_byRole c)\<rparr>))"

definition NewPolicyCatalog ::
  "role_id list \<Rightarrow> role_policy list \<Rightarrow> policy_catalog_error + policy_catalog" where
  "NewPolicyCatalog referenced policies =
     (if referenced = [] \<or> policies = [] then Inl NoReferencesOrPolicies
      else case foldE add_reference referenced [] of
             Inl e \<Rightarrow> Inl e
           | Inr ordered \<Rightarrow>
               (case foldE (add_policy ordered) policies \<lparr>pc_ordered = ordered, pc_byRole = fmempty\<rparr> of
                  Inl e \<Rightarrow> Inl e
                | Inr c \<Rightarrow>
                    (case find (\<lambda>r. fmlookup (pc_byRole c) r = None) ordered of
                       Some r \<Rightarrow> Inl (MissingPolicy r)
                     | None \<Rightarrow> Inr c)))"

definition planner_policy :: role_policy where
  "planner_policy =
     \<lparr>pol_Role = Planner,
      pol_MCPTools =
        [''publish_plan_checkpoint'', ''complete_planning'', ''get_issue'', ''list_issue_comments'',
         ''get_pull_request'', ''list_pull_request_reviews'', ''list_review_threads'',
         ''get_check_runs'', ''get_check_run_diagnostics'', ''list_ci_runs'', ''get_ci_run'',
         ''get_ci_job_logs'', ''search_ci_job_logs'', ''refresh_default_branch'',
         ''comment_on_issue'', ''request_clarification'', ''resolve_clarification'',
         ''assess_human_input'', ''get_collaboration_record'', ''report_blocked''],
      pol_RequiresChangeProposal = False,
      pol_RepositoryCredentialAuthority = OrchestratorAuthority,
      pol_ToolCredentialAuthorities = fmempty,
      pol_AllowFileEdits = True, pol_DiscardWorkspace = True, pol_AllowHumanSessionControl = True\<rparr>"

definition developer_policy :: role_policy where
  "developer_policy =
     \<lparr>pol_Role = Developer,
      pol_MCPTools =
        [''get_issue'', ''list_issue_comments'', ''get_pull_request'', ''list_pull_request_reviews'',
         ''list_review_threads'', ''get_check_runs'', ''get_handoff'',
         ''get_check_run_diagnostics'', ''list_ci_runs'', ''get_ci_run'', ''get_ci_job_logs'',
         ''search_ci_job_logs'', ''refresh_default_branch'', ''publish_changes'', ''open_pr'',
         ''request_review'', ''confirm_prior_terminal_intent'', ''comment_on_issue'',
         ''comment_on_pull_request'', ''report_blocked'', ''request_clarification'',
         ''resolve_clarification'', ''assess_human_input'', ''get_collaboration_record''],
      pol_RequiresChangeProposal = False,
      pol_RepositoryCredentialAuthority = OrchestratorAuthority,
      pol_ToolCredentialAuthorities = fmempty,
      pol_AllowFileEdits = True, pol_DiscardWorkspace = False, pol_AllowHumanSessionControl = True\<rparr>"

definition reviewer_policy :: role_policy where
  "reviewer_policy =
     \<lparr>pol_Role = Reviewer,
      pol_MCPTools =
        [''get_issue'', ''list_issue_comments'', ''get_pull_request'', ''list_pull_request_reviews'',
         ''list_review_threads'', ''get_check_runs'', ''get_handoff'',
         ''get_check_run_diagnostics'', ''list_ci_runs'', ''get_ci_run'', ''get_ci_job_logs'',
         ''search_ci_job_logs'', ''refresh_default_branch'', ''submit_review'',
         ''confirm_prior_terminal_intent'', ''comment_on_issue'', ''comment_on_pull_request'',
         ''report_blocked'', ''request_clarification'', ''resolve_clarification'',
         ''assess_human_input'', ''get_collaboration_record''],
      pol_RequiresChangeProposal = True,
      pol_RepositoryCredentialAuthority = OrchestratorAuthority,
      pol_ToolCredentialAuthorities =
        fmap_of_list [(''submit_review'', ReviewerAuthority),
                      (''confirm_prior_terminal_intent'', ReviewerAuthority)],
      pol_AllowFileEdits = False, pol_DiscardWorkspace = True, pol_AllowHumanSessionControl = True\<rparr>"

definition builtin_policy :: "role_id \<Rightarrow> role_policy option" where
  "builtin_policy r =
     (if r = Planner then Some planner_policy
      else if r = Developer then Some developer_policy
      else if r = Reviewer then Some reviewer_policy else None)"

definition NewBuiltinPolicyCatalog :: "role_id list \<Rightarrow> policy_catalog_error + policy_catalog" where
  "NewBuiltinPolicyCatalog referenced =
     (case foldE (\<lambda>r ps. case builtin_policy r of None \<Rightarrow> Inl (NoBuiltinPolicy r)
                                                 | Some p \<Rightarrow> Inr (ps @ [p])) referenced [] of
        Inl e \<Rightarrow> Inl e
      | Inr policies \<Rightarrow> NewPolicyCatalog referenced policies)"

text \<open>As for the Role Catalog, the panic of \<open>BuiltinPolicyCatalog\<close> is \<open>Inl\<close>.\<close>

definition BuiltinPolicyCatalog :: "policy_catalog_error + policy_catalog" where
  "BuiltinPolicyCatalog = NewBuiltinPolicyCatalog [Planner, Developer, Reviewer]"

definition policy_Lookup :: "policy_catalog \<Rightarrow> role_id \<Rightarrow> role_policy option" where
  "policy_Lookup c r = map_option clonePolicy (fmlookup (pc_byRole c) r)"

definition policy_Contains :: "policy_catalog \<Rightarrow> role_id \<Rightarrow> bool" where
  "policy_Contains c r \<longleftrightarrow> fmlookup (pc_byRole c) r \<noteq> None"

definition policy_Roles :: "policy_catalog \<Rightarrow> role_id list" where
  "policy_Roles c = pc_ordered c"

section \<open>The interface of a Role registry\<close>

text \<open>Both catalogs promise the same to their clients: \<open>Contains\<close> agrees with \<open>Lookup\<close>, and
  the listed identities are distinct, well formed and exactly the registered ones.\<close>

locale role_registry =
  fixes built :: "'c \<Rightarrow> bool"
    and contains :: "'c \<Rightarrow> role_id \<Rightarrow> bool"
    and lookup :: "'c \<Rightarrow> role_id \<Rightarrow> 'v option"
    and ids :: "'c \<Rightarrow> role_id list"
  assumes contains_lookup: "contains c r \<longleftrightarrow> lookup c r \<noteq> None"
    and ids_distinct: "built c \<Longrightarrow> distinct (ids c)"
    and ids_exact: "built c \<Longrightarrow> r \<in> set (ids c) \<longleftrightarrow> lookup c r \<noteq> None"
    and ids_valid: "built c \<Longrightarrow> r \<in> set (ids c) \<Longrightarrow> ValidID r"
begin

lemma contains_ids: "built c \<Longrightarrow> contains c r \<longleftrightarrow> r \<in> set (ids c)"
  by (simp add: contains_lookup ids_exact)

lemma contains_valid: "built c \<Longrightarrow> contains c r \<Longrightarrow> ValidID r"
  by (simp add: contains_ids ids_valid)

lemma lookup_valid: "built c \<Longrightarrow> lookup c r = Some v \<Longrightarrow> ValidID r"
  using ids_exact ids_valid by fastforce

end

subsection \<open>The Role Catalog provides it\<close>

definition catalog_built :: "role_catalog \<Rightarrow> bool" where
  "catalog_built c \<longleftrightarrow> (\<exists>ms. NewCatalog ms = Inr c)"

definition catalog_inv :: "role_catalog \<Rightarrow> bool" where
  "catalog_inv c \<longleftrightarrow> distinct (cat_ordered c) \<and> set (cat_ordered c) = fmdom' (cat_byID c)
     \<and> fmpred (\<lambda>r m. md_ID m = r \<and> valid_metadata m) (cat_byID c)"

lemma catalog_add_inv: "catalog_inv c \<Longrightarrow> catalog_add m c = Inr c' \<Longrightarrow> catalog_inv c'"
  by (auto simp: catalog_add_def catalog_inv_def fmlookup_dom'_iff fmpred_iff split: if_splits)

lemma catalog_inv_empty: "catalog_inv \<lparr>cat_ordered = [], cat_byID = fmempty\<rparr>"
  by (simp add: catalog_inv_def)

lemma catalog_built_inv: "catalog_built c \<Longrightarrow> catalog_inv c"
  unfolding catalog_built_def NewCatalog_def
  by (auto split: if_splits elim!: foldE_invariant intro: catalog_add_inv catalog_inv_empty)

interpretation role_catalog: role_registry catalog_built catalog_Contains catalog_Lookup catalog_IDs
proof unfold_locales
  fix c r assume "catalog_built c"
  then have inv: "catalog_inv c" by (rule catalog_built_inv)
  then show "distinct (catalog_IDs c)"
    by (simp add: catalog_inv_def catalog_IDs_def)
  from inv show ex: "r \<in> set (catalog_IDs c) \<longleftrightarrow> catalog_Lookup c r \<noteq> None"
    by (simp add: catalog_inv_def catalog_IDs_def catalog_Lookup_def fmlookup_dom'_iff)
  assume "r \<in> set (catalog_IDs c)"
  with ex obtain m where "fmlookup (cat_byID c) r = Some m"
    by (auto simp: catalog_Lookup_def)
  with inv show "ValidID r"
    by (auto simp: catalog_inv_def fmpred_iff valid_metadata_def)
qed (simp add: catalog_Contains_def catalog_Lookup_def)

subsection \<open>The Role Policy Catalog provides it\<close>

definition policies_built :: "policy_catalog \<Rightarrow> bool" where
  "policies_built c \<longleftrightarrow> (\<exists>refs ps. NewPolicyCatalog refs ps = Inr c)"

definition policies_inv :: "policy_catalog \<Rightarrow> bool" where
  "policies_inv c \<longleftrightarrow> distinct (pc_ordered c) \<and> list_all ValidID (pc_ordered c)
     \<and> fmpred (\<lambda>r p. pol_Role p = r \<and> r \<in> set (pc_ordered c) \<and> validatePolicy p = None) (pc_byRole c)"

lemma add_references_ordered:
  "foldE add_reference refs [] = Inr ordered \<Longrightarrow>
     ordered = refs \<and> distinct refs \<and> list_all ValidID refs"
  by (erule foldE_prefix_induct [where I = "\<lambda>ys us. us = ys \<and> distinct ys \<and> list_all ValidID ys"])
     (auto simp: add_reference_def split: if_splits)

lemma add_policy_inv:
  assumes "policies_inv c" "add_policy refs p c = Inr c'" "pc_ordered c = refs"
  shows "policies_inv c' \<and> pc_ordered c' = refs"
  using assms by (auto simp: add_policy_def policies_inv_def split: if_splits option.splits)

lemma NewPolicyCatalog_inv:
  assumes "NewPolicyCatalog refs ps = Inr c"
  shows "policies_inv c" and "pc_ordered c = refs"
    and "\<forall>r \<in> set refs. fmlookup (pc_byRole c) r \<noteq> None"
proof -
  from assms obtain ord where
    ord: "foldE add_reference refs [] = Inr ord" and
    pol: "foldE (add_policy ord) ps \<lparr>pc_ordered = ord, pc_byRole = fmempty\<rparr> = Inr c" and
    all: "find (\<lambda>r. fmlookup (pc_byRole c) r = None) ord = None"
    by (auto simp: NewPolicyCatalog_def split: if_splits sum.splits option.splits)
  from add_references_ordered [OF ord]
  have refs: "ord = refs" "distinct refs" "list_all ValidID refs" by auto
  have "policies_inv c \<and> pc_ordered c = ord"
    using pol
  proof (rule foldE_invariant)
    show "policies_inv \<lparr>pc_ordered = ord, pc_byRole = fmempty\<rparr>
          \<and> pc_ordered \<lparr>pc_ordered = ord, pc_byRole = fmempty\<rparr> = ord"
      using refs by (simp add: policies_inv_def)
  qed (use add_policy_inv in blast)
  then show "policies_inv c" and "pc_ordered c = refs" using refs by auto
  from all show "\<forall>r \<in> set refs. fmlookup (pc_byRole c) r \<noteq> None"
    using refs by (simp add: find_None_iff)
qed

interpretation role_policies: role_registry policies_built policy_Contains policy_Lookup policy_Roles
proof unfold_locales
  fix c r assume "policies_built c"
  then obtain refs ps where new: "NewPolicyCatalog refs ps = Inr c"
    by (auto simp: policies_built_def)
  note inv = NewPolicyCatalog_inv [OF new]
  then show "distinct (policy_Roles c)"
    by (simp add: policy_Roles_def policies_inv_def)
  from inv show "r \<in> set (policy_Roles c) \<longleftrightarrow> policy_Lookup c r \<noteq> None"
    by (auto simp: policy_Roles_def policy_Lookup_def policies_inv_def fmpred_iff)
  assume "r \<in> set (policy_Roles c)"
  with inv show "ValidID r"
    by (simp add: policy_Roles_def policies_inv_def list_all_iff)
qed (simp add: policy_Contains_def policy_Lookup_def)

section \<open>What a valid policy grants\<close>

lemma validate_tools_seen:
  assumes "foldE (validate_tool p) tools [] = Inr seen"
  shows "seen = tools \<and> distinct tools \<and>
     (\<forall>t \<in> set tools. validToolName t
        \<and> (t = ''submit_review'' \<longrightarrow> fmlookup (pol_ToolCredentialAuthorities p) t = Some ReviewerAuthority))"
  using assms
  by (rule foldE_prefix_induct [where I = "\<lambda>ys seen. seen = ys \<and> distinct ys \<and>
     (\<forall>t \<in> set ys. validToolName t
        \<and> (t = ''submit_review'' \<longrightarrow> fmlookup (pol_ToolCredentialAuthorities p) t = Some ReviewerAuthority))"])
     (auto simp: validate_tool_def split: if_splits)

lemma validatePolicy_tools:
  assumes "validatePolicy p = None"
  shows "pol_MCPTools p \<noteq> []" "distinct (pol_MCPTools p)"
    "pol_RepositoryCredentialAuthority p = OrchestratorAuthority"
    "''submit_review'' \<in> set (pol_MCPTools p) \<Longrightarrow>
       fmlookup (pol_ToolCredentialAuthorities p) ''submit_review'' = Some ReviewerAuthority"
    "fmlookup (pol_ToolCredentialAuthorities p) t = Some a \<Longrightarrow>
       t \<in> set (pol_MCPTools p) \<and> (a = OrchestratorAuthority \<or> a = ReviewerAuthority
         \<and> (t = ''submit_review'' \<or> t = ''confirm_prior_terminal_intent''))"
proof -
  from assms obtain seen where
    base: "pol_MCPTools p \<noteq> []" "pol_RepositoryCredentialAuthority p = OrchestratorAuthority" and
    seen: "foldE (validate_tool p) (pol_MCPTools p) [] = Inr seen" and
    ovr: "\<not> fmap_any (invalid_override seen) (pol_ToolCredentialAuthorities p)"
    by (auto simp: validatePolicy_def split: if_splits sum.splits)
  note tools = validate_tools_seen [OF seen]
  from base show "pol_MCPTools p \<noteq> []" "pol_RepositoryCredentialAuthority p = OrchestratorAuthority"
    by auto
  from tools show "distinct (pol_MCPTools p)"
    "''submit_review'' \<in> set (pol_MCPTools p) \<Longrightarrow>
       fmlookup (pol_ToolCredentialAuthorities p) ''submit_review'' = Some ReviewerAuthority"
    by auto
  assume "fmlookup (pol_ToolCredentialAuthorities p) t = Some a"
  with ovr have "\<not> invalid_override seen t a" by (auto simp: fmap_any_iff)
  with tools show "t \<in> set (pol_MCPTools p) \<and> (a = OrchestratorAuthority \<or> a = ReviewerAuthority
         \<and> (t = ''submit_review'' \<or> t = ''confirm_prior_terminal_intent''))"
    by (auto simp: invalid_override_def validCredentialAuthority_def)
qed

lemma authority_for_tool_cases:
  assumes "validatePolicy p = None" and "CredentialAuthorityForTool p t = Some a"
  shows "t \<in> set (pol_MCPTools p)"
    and "a = ReviewerAuthority \<or> a = OrchestratorAuthority"
    and "a = ReviewerAuthority \<Longrightarrow> t = ''submit_review'' \<or> t = ''confirm_prior_terminal_intent''"
    and "t = ''submit_review'' \<Longrightarrow> a = ReviewerAuthority"
  using assms validatePolicy_tools [OF assms(1)]
  by (auto simp: CredentialAuthorityForTool_def containsString_def list_ex_iff
      split: if_splits option.splits)

section \<open>The built-in catalogs\<close>

lemmas role_syntax_defs =
  max_role_id_length_def role_id_rune_def validToolName_def tool_name_rune_def is_space_rune_def

lemma ValidID_builtin [simp]: "ValidID Developer" "ValidID Reviewer" "ValidID Planner"
  by (simp_all add: ValidID_def role_syntax_defs Developer_def Reviewer_def Planner_def go_simps)

lemma builtin_policies_valid [simp]:
  "validatePolicy planner_policy = None"
  "validatePolicy developer_policy = None"
  "validatePolicy reviewer_policy = None"
  by (simp_all add: validatePolicy_def planner_policy_def developer_policy_def reviewer_policy_def
      validate_tool_def role_syntax_defs go_simps fmap_any_iff invalid_override_def
      validCredentialAuthority_def fmlookup_of_list)

lemma valid_builtin_metadata:
  "valid_metadata \<lparr>md_ID = Developer, md_DisplayName = ''Developer'',
     md_Description = ''Implements and revises the Change Proposal.''\<rparr>"
  "valid_metadata \<lparr>md_ID = Reviewer, md_DisplayName = ''Reviewer'',
     md_Description = ''Evaluates the current Change Proposal.''\<rparr>"
  "valid_metadata \<lparr>md_ID = Planner, md_DisplayName = ''Planner'',
     md_Description = ''Investigates and discusses requirements and technical plans without authorizing implementation.''\<rparr>"
  by (simp_all add: valid_metadata_def containsControl_def is_control_rune_def role_syntax_defs go_simps)

lemma BuiltinCatalog_ok:
  obtains c where "BuiltinCatalog = Inr c" and "catalog_IDs c = [Developer, Reviewer, Planner]"
  by (simp add: BuiltinCatalog_def NewCatalog_def catalog_add_def valid_builtin_metadata catalog_IDs_def)

definition builtin_policy_catalog :: policy_catalog where
  "builtin_policy_catalog =
     \<lparr>pc_ordered = [Planner, Developer, Reviewer],
      pc_byRole = fmupd Reviewer reviewer_policy (fmupd Developer developer_policy
                    (fmupd Planner planner_policy fmempty))\<rparr>"

lemma builtin_policy_roles [simp]:
  "pol_Role planner_policy = Planner" "pol_Role developer_policy = Developer"
  "pol_Role reviewer_policy = Reviewer"
  by (simp_all add: planner_policy_def developer_policy_def reviewer_policy_def)

lemma BuiltinPolicyCatalog_eq: "BuiltinPolicyCatalog = Inr builtin_policy_catalog"
  by (simp add: BuiltinPolicyCatalog_def NewBuiltinPolicyCatalog_def builtin_policy_def
      NewPolicyCatalog_def add_reference_def add_policy_def builtin_policy_catalog_def)

lemma granted_iff: "CredentialAuthorityForTool p tool \<noteq> None \<longleftrightarrow> tool \<in> set (pol_MCPTools p)"
  by (auto simp: CredentialAuthorityForTool_def containsString_def list_ex_iff split: option.splits)

lemma builtin_Lookup_cases:
  assumes "policy_Lookup builtin_policy_catalog r = Some p"
  obtains "r = Planner" "p = planner_policy" | "r = Developer" "p = developer_policy"
    | "r = Reviewer" "p = reviewer_policy"
  using assms by (auto simp: policy_Lookup_def builtin_policy_catalog_def split: if_splits)

section \<open>Properties\<close>

text \<open>Least authority. In every Role Policy Catalog that \<open>NewPolicyCatalog\<close> accepts, a Role is
  granted a tool under the Reviewer identity only for the review submission and the confirmation
  of a prior terminal intent; a granted review submission always runs under the Reviewer identity;
  every other granted tool runs under the Orchestrator identity; no tool outside the Role's list
  is granted at all.\<close>

theorem policy_least_authority:
  assumes "NewPolicyCatalog refs ps = Inr c"
    and "policy_Lookup c r = Some p"
    and "CredentialAuthorityForTool p tool = Some a"
  shows "tool \<in> set (pol_MCPTools p) \<and> r \<in> set refs \<and> pol_Role p = r
    \<and> (a = ReviewerAuthority \<and> (tool = ''submit_review'' \<or> tool = ''confirm_prior_terminal_intent'')
       \<or> a = OrchestratorAuthority \<and> tool \<noteq> ''submit_review'')"
proof -
  from assms(2) have look: "fmlookup (pc_byRole c) r = Some p"
    by (auto simp: policy_Lookup_def)
  note inv = NewPolicyCatalog_inv [OF assms(1)]
  with look have "validatePolicy p = None" "pol_Role p = r" "r \<in> set refs"
    by (auto simp: policies_inv_def fmpred_iff)
  with authority_for_tool_cases [OF _ assms(3)] show ?thesis by blast
qed

theorem policy_least_authority_witness:
  "CredentialAuthorityForTool reviewer_policy ''submit_review'' = Some ReviewerAuthority
   \<and> ''submit_review'' \<in> set (pol_MCPTools reviewer_policy)"
proof -
  have new: "NewPolicyCatalog [Planner, Developer, Reviewer]
      [planner_policy, developer_policy, reviewer_policy] = Inr builtin_policy_catalog"
    using BuiltinPolicyCatalog_eq
    by (simp add: BuiltinPolicyCatalog_def NewBuiltinPolicyCatalog_def builtin_policy_def)
  have look: "policy_Lookup builtin_policy_catalog Reviewer = Some reviewer_policy"
    by (simp add: policy_Lookup_def builtin_policy_catalog_def)
  have auth: "CredentialAuthorityForTool reviewer_policy ''submit_review'' = Some ReviewerAuthority"
    by (simp add: CredentialAuthorityForTool_def containsString_def reviewer_policy_def fmlookup_of_list)
  from policy_least_authority [OF new look auth] auth show ?thesis by simp
qed

text \<open>The built-in policies. The built-in Role Policy Catalog is built without panicking and
  holds exactly the Planner, Developer and Reviewer policies: only the Reviewer can submit a
  review, only the Developer can publish changes, open a Pull Request or request a review, and
  only the Planner can publish a plan checkpoint or complete planning.\<close>

theorem builtin_policy_separation:
  "BuiltinPolicyCatalog = Inr builtin_policy_catalog
   \<and> policy_Roles builtin_policy_catalog = [Planner, Developer, Reviewer]
   \<and> (policy_Lookup builtin_policy_catalog r = Some p \<longrightarrow>
       (CredentialAuthorityForTool p ''submit_review'' \<noteq> None \<longleftrightarrow> r = Reviewer)
     \<and> (CredentialAuthorityForTool p ''publish_changes'' \<noteq> None \<longleftrightarrow> r = Developer)
     \<and> (CredentialAuthorityForTool p ''open_pr'' \<noteq> None \<longleftrightarrow> r = Developer)
     \<and> (CredentialAuthorityForTool p ''request_review'' \<noteq> None \<longleftrightarrow> r = Developer)
     \<and> (CredentialAuthorityForTool p ''publish_plan_checkpoint'' \<noteq> None \<longleftrightarrow> r = Planner)
     \<and> (CredentialAuthorityForTool p ''complete_planning'' \<noteq> None \<longleftrightarrow> r = Planner))"
  unfolding granted_iff
proof (intro conjI impI)
  assume "policy_Lookup builtin_policy_catalog r = Some p"
  then show "''submit_review'' \<in> set (pol_MCPTools p) \<longleftrightarrow> r = Reviewer"
    and "''publish_changes'' \<in> set (pol_MCPTools p) \<longleftrightarrow> r = Developer"
    and "''open_pr'' \<in> set (pol_MCPTools p) \<longleftrightarrow> r = Developer"
    and "''request_review'' \<in> set (pol_MCPTools p) \<longleftrightarrow> r = Developer"
    and "''publish_plan_checkpoint'' \<in> set (pol_MCPTools p) \<longleftrightarrow> r = Planner"
    and "''complete_planning'' \<in> set (pol_MCPTools p) \<longleftrightarrow> r = Planner"
    by (cases rule: builtin_Lookup_cases;
        simp add: planner_policy_def developer_policy_def reviewer_policy_def)+
qed (simp_all add: BuiltinPolicyCatalog_eq policy_Roles_def, simp add: builtin_policy_catalog_def)

theorem builtin_policy_separation_witness:
  "CredentialAuthorityForTool developer_policy ''submit_review'' = None
   \<and> CredentialAuthorityForTool developer_policy ''open_pr'' \<noteq> None"
  using builtin_policy_separation [of Developer developer_policy]
  by (simp add: policy_Lookup_def builtin_policy_catalog_def)

end
