(* ===== verification/Workflow_Model.thy ===== *)
theory Workflow_Model
  imports Role_Catalog
begin

text \<open>
  The data of the Workflow reducer (\<open>internal/workflow/model.go\<close>). Go's string enumerations
  are datatypes with the source's constants as constructors; where a value of the type can also
  come from outside (durable rows, configuration) a last constructor \<open>...Other s\<close> stands for
  every string \<open>s\<close> that is not one of the constants, the empty string included. Structs are
  records whose field names carry a prefix of their type. The interfaces \<open>Event\<close> and
  \<open>Action\<close> are datatypes with one constructor per implementing struct.
\<close>

type_synonym stage_id = string

datatype wf_state =
    StatePlanning | StatePlanReady | StateAbsent | StateDormant | StateDeveloping
  | StateReviewing | StatePRReady | StateNeedsHuman | StateClosing | StateClosed
  | StateOther string

datatype disposition =
    DispositionApplied | DispositionDeferred | DispositionDuplicate | DispositionStale
  | DispositionUnrelated | DispositionIllegal | DispositionReconciliationFailed

datatype reason =
    ReasonTriggered | ReasonChangeProposalReady | ReasonChangesRequested | ReasonApproved
  | ReasonReviewBudgetExhausted | ReasonReviewHeadReplaced | ReasonAgentBlocked
  | ReasonInfrastructureRetry | ReasonInfrastructureRetriesExhausted
  | ReasonTerminalCorroborationExhausted | ReasonTerminalCorroborationPrerequisite
  | ReasonTerminalRevalidationHumanControl | ReasonClosureStarted | ReasonClosureSettled
  | ReasonClosureCancellationRecorded | ReasonIssueReopened | ReasonActiveTurn
  | ReasonEventDuplicate | ReasonReviewDuplicate | ReasonReviewIdentityConflict
  | ReasonStateRevisionStale | ReasonEventOutOfOrder | ReasonSynchronizationStale
  | ReasonSynchronizationDuplicate | ReasonWorkItemUnrelated | ReasonReviewerActorUnrelated
  | ReasonTurnGuardStale | ReasonChangeProposalUnrelated | ReasonAssignmentsCollected
  | ReasonRetentionGenerationStale | ReasonRetentionCancelled | ReasonRetentionNotDue
  | ReasonEventIllegalInState | ReasonInvariantViolation | ReasonInvalidEvent
  | ReasonWorkflowAbsent | ReasonAttemptAlreadyActive | ReasonCorroborationWithoutActiveTurn
  | ReasonAssignmentConfigurationConflict | ReasonAgentTurnPreparationFailed
  | ReasonAgentTurnMutationReconciliationExhausted | ReasonWorkflowActionExhausted
  | ReasonWorkflowDefinitionIncompatible
  | ReasonOther string

abbreviation "NoReason \<equiv> ReasonOther ''''"

record work_item =
  wi_RepositoryID :: int64
  wi_IssueID :: int64
  wi_IssueNumber :: int64

record attempt_budget =
  ab_Used :: u8
  ab_Limit :: u8

datatype attempt_lifecycle = AttemptActive | AttemptLifecycleOther string

record workflow_attempt =
  at_ID :: string
  at_Number :: u64
  at_StartedAt :: instant
  at_Lifecycle :: attempt_lifecycle
  at_CurrentStage :: stage_id
  at_ReviewUsage :: "(stage_id, u8) fmap"
  at_InfrastructureRetryBudget :: attempt_budget

datatype attempt_completion_reason = AttemptCompletionSuperseded | AttemptCompletionIssueClosed

record active_turn =
  tn_ID :: string
  tn_SessionID :: string
  tn_AttemptID :: string
  tn_Stage :: stage_id
  tn_Role :: role_id
  tn_Epoch :: u64
  tn_ControlRevision :: u64
  tn_ChangeProposalID :: int64
  tn_ExpectedHeadSHA :: string

record turn_guard =
  tg_RetryOfTurnID :: string
  tg_TurnID :: string
  tg_SessionID :: string
  tg_AttemptID :: string
  tg_Stage :: stage_id
  tg_Role :: role_id
  tg_Epoch :: u64
  tg_ControlRevision :: u64
  tg_ChangeProposalID :: int64
  tg_ExpectedHeadSHA :: string

record change_proposal =
  cp_ID :: int64
  cp_Number :: int64
  cp_HeadSHA :: string
  cp_Open :: bool
  cp_ReadyForSHA :: string

record review_identity =
  rv_ID :: int64
  rv_NodeID :: string
  rv_ChangeProposalID :: int64
  rv_ActorID :: int64
  rv_HeadSHA :: string

datatype assignment_status =
    AssignmentActive | AssignmentWaitingForHuman | AssignmentCompleted
  | AssignmentStatusOther string

datatype runtime_state =
    RuntimeStateActive | RuntimeStateRetained | RuntimeStateCollected | RuntimeStateOther string

record assignments =
  as_Status :: assignment_status
  as_RuntimeState :: runtime_state
  as_RetainedUntil :: instant
  as_RetentionToken :: string

record closure =
  cl_ID :: string
  cl_RetainUntil :: instant
  cl_RetentionToken :: string
  cl_ReopenRequested :: bool

record snapshot =
  sn_PlanningOnly :: bool
  sn_ClarificationWaiting :: bool
  sn_State :: wf_state
  sn_Revision :: u64
  sn_WorkItem :: work_item
  sn_CurrentAttempt :: "workflow_attempt option"
  sn_ChangeProposal :: "change_proposal option"
  sn_ActiveTurn :: "active_turn option"
  sn_ContinuationStage :: stage_id
  sn_ResumeRole :: role_id
  sn_Assignments :: assignments
  sn_Closure :: "closure option"
  sn_LastAttemptNumber :: u64

text \<open>\<open>Snapshot{State: StateAbsent}\<close>: every other field has Go's zero value.\<close>

definition absent_snapshot :: snapshot where
  "absent_snapshot =
     \<lparr>sn_PlanningOnly = False, sn_ClarificationWaiting = False, sn_State = StateAbsent,
      sn_Revision = 0, sn_WorkItem = \<lparr>wi_RepositoryID = 0, wi_IssueID = 0, wi_IssueNumber = 0\<rparr>,
      sn_CurrentAttempt = None, sn_ChangeProposal = None, sn_ActiveTurn = None,
      sn_ContinuationStage = '''', sn_ResumeRole = '''',
      sn_Assignments = \<lparr>as_Status = AssignmentStatusOther '''',
        as_RuntimeState = RuntimeStateOther '''', as_RetainedUntil = zero_time,
        as_RetentionToken = ''''\<rparr>,
      sn_Closure = None, sn_LastAttemptNumber = 0\<rparr>"

section \<open>Events\<close>

record event_metadata =
  em_ID :: string
  em_ObservedAt :: instant
  em_WorkItem :: work_item
  em_ExpectedRevision :: u64

record trigger_event =
  te_PlanningCompleted :: bool
  te_PlanningOnly :: bool
  te_EventMetadata :: event_metadata
  te_AttemptID :: string
  te_AttemptNumber :: u64
  te_PriorTerminalTurnID :: string
  te_PriorTerminalStage :: stage_id
  te_PriorTerminalRole :: role_id
  te_PriorTerminalControlBlocked :: bool
  te_PriorTerminalExpectedHeadSHA :: string

datatype turn_outcome =
    TurnOutcomePlanningReady | TurnOutcomeClarificationWait | TurnOutcomeChangeProposalReady
  | TurnOutcomeChangesRequested | TurnOutcomeApproved | TurnOutcomeBlocked
  | TurnOutcomePrerequisiteFailed | TurnOutcomeInfrastructureFailed
  | TurnOutcomeOther string

record pending_events =
  pe_Count :: u32
  pe_RequiresReconciliation :: bool
  pe_LatestObservedHeadSHA :: string

record turn_settled_event =
  ts_PublicationAssociation :: "change_proposal option"
  ts_EventMetadata :: event_metadata
  ts_Turn :: turn_guard
  ts_Outcome :: turn_outcome
  ts_ChangeProposal :: "change_proposal option"
  ts_Review :: "review_identity option"
  ts_ExistingReview :: "review_identity option"
  ts_AuthorizedReviewerActorID :: int64
  ts_HumanInputPending :: bool
  ts_PendingEvents :: pending_events
  ts_Diagnostic :: string
  ts_CorroborationHandoffReason :: reason

record terminal_intent_revalidated_event =
  ti_HumanInputPending :: bool
  ti_EventMetadata :: event_metadata
  ti_AttemptID :: string
  ti_SourceTurn :: turn_guard
  ti_Outcome :: turn_outcome
  ti_ChangeProposal :: "change_proposal option"
  ti_Review :: "review_identity option"
  ti_ExistingReview :: "review_identity option"
  ti_AuthorizedReviewerActorID :: int64

record terminal_revalidation_failed_event =
  tf_EventMetadata :: event_metadata
  tf_AttemptID :: string
  tf_SourceTurnID :: string
  tf_Reason :: reason
  tf_Diagnostic :: string

record synchronization_event =
  sy_EventMetadata :: event_metadata
  sy_ChangeProposalID :: int64
  sy_PreviousHeadSHA :: string
  sy_HeadSHA :: string

record review_observed_event =
  ro_EventMetadata :: event_metadata
  ro_Review :: review_identity

record change_proposal_observed_event =
  po_EventMetadata :: event_metadata
  po_ChangeProposal :: change_proposal

record issue_closed_event =
  ic_EventMetadata :: event_metadata
  ic_ClosureID :: string
  ic_RetainUntil :: instant
  ic_RetentionToken :: string

record closure_settled_event =
  cs_EventMetadata :: event_metadata
  cs_ClosureID :: string
  cs_Turn :: "turn_guard option"
  cs_AssignmentsExist :: bool

record issue_reopened_event =
  ir_EventMetadata :: event_metadata

record assignments_collected_event =
  ac_EventMetadata :: event_metadata
  ac_RetentionToken :: string
  ac_RetainUntil :: instant
  ac_CollectedAt :: instant

record assignment_configuration_conflict_event =
  cc_EventMetadata :: event_metadata
  cc_Role :: role_id

record agent_turn_preparation_failed_event =
  pf_EventMetadata :: event_metadata
  pf_Role :: role_id
  pf_Diagnostic :: string
  pf_AssignmentsExist :: bool

record mutation_reconciliation_exhausted_event =
  mx_EventMetadata :: event_metadata
  mx_Role :: role_id
  mx_Diagnostic :: string

record workflow_action_exhausted_event =
  wx_EventMetadata :: event_metadata
  wx_ResumeRole :: role_id
  wx_Diagnostic :: string

datatype event =
    TriggerEvent trigger_event
  | TurnSettledEvent turn_settled_event
  | TerminalIntentRevalidatedEvent terminal_intent_revalidated_event
  | TerminalRevalidationFailedEvent terminal_revalidation_failed_event
  | SynchronizationEvent synchronization_event
  | ReviewObservedEvent review_observed_event
  | ChangeProposalObservedEvent change_proposal_observed_event
  | IssueClosedEvent issue_closed_event
  | ClosureSettledEvent closure_settled_event
  | IssueReopenedEvent issue_reopened_event
  | AssignmentsCollectedEvent assignments_collected_event
  | AssignmentConfigurationConflictEvent assignment_configuration_conflict_event
  | AgentTurnPreparationFailedEvent agent_turn_preparation_failed_event
  | AgentTurnMutationReconciliationExhaustedEvent mutation_reconciliation_exhausted_event
  | WorkflowActionExhaustedEvent workflow_action_exhausted_event
  | UnlistedEvent

text \<open>\<open>UnlistedEvent\<close> stands for the interface values the type switches do not list: \<open>nil\<close> and
  pointers to the event structs.\<close>

datatype event_kind =
    EventKindTrigger | EventKindTurnSettled | EventKindTerminalIntentRevalidated
  | EventKindTerminalRevalidationFailed | EventKindSynchronization | EventKindReviewObserved
  | EventKindChangeProposalObserved | EventKindIssueClosed | EventKindClosureSettled
  | EventKindIssueReopened | EventKindAssignmentsCollected
  | EventKindAssignmentConfigurationConflict | EventKindAgentTurnPreparationFailed
  | EventKindAgentTurnMutationReconciliationExhausted | EventKindWorkflowActionExhausted

section \<open>Actions and decisions\<close>

datatype turn_purpose =
    TurnPurposeInitialPlanning | TurnPurposeInitialDevelopment | TurnPurposeReview
  | TurnPurposeRequestedChanges | TurnPurposeRetry | TurnPurposeSynchronization
  | TurnPurposeReactivation
  | TurnPurposeOther string

abbreviation "NoPurpose \<equiv> TurnPurposeOther ''''"
abbreviation "NoState \<equiv> StateOther ''''"

datatype assignment_generation =
    AssignmentGenerationCurrent | AssignmentGenerationRetained | AssignmentGenerationNew

record enqueue_turn =
  eq_Stage :: stage_id
  eq_Role :: role_id
  eq_Purpose :: turn_purpose
  eq_ExpectedHeadSHA :: string
  eq_RetryOfTurnID :: string

record reconcile_pending_events =
  rp_SourceTurn :: turn_guard
  rp_Count :: u32
  rp_LatestObservedHeadSHA :: string
  rp_FallbackRole :: role_id
  rp_FallbackStage :: stage_id
  rp_FallbackPurpose :: turn_purpose
  rp_FallbackExpectedHead :: string
  rp_RetryOfTurnID :: string

datatype wf_action =
    EnsureAssignmentsAction assignment_generation
  | CompleteAttemptAction string attempt_completion_reason
  | CreateAttemptAction workflow_attempt
  | ConsumeRunLabelAction
  | EnqueueTurnAction enqueue_turn
  | EnqueueTerminalRevalidationAction string
  | ReconcileLabelsAction wf_state string
  | RecordReviewAction review_identity bool
  | PreserveHumanHandoffAction u64
  | MarkHumanHandoffAction reason string
  | CloseMutationAdmissionAction turn_guard
  | StopTurnAction turn_guard
  | InterruptTurnForHumanHandoffAction turn_guard
  | SettleClosureAction string
  | CompleteAssignmentsAction
  | ScheduleRetentionAction string instant
  | CancelRetentionAction string
  | RecordPendingEventAction string event_kind instant
  | ReconcilePendingEventsAction reconcile_pending_events

record decision =
  de_Snapshot :: snapshot
  de_Disposition :: disposition
  de_Reason :: reason
  de_Actions :: "wf_action list"

text \<open>Composite literals the handlers write over and over: an event that is not applied keeps
  the Snapshot and asks for nothing.\<close>

definition Applied :: "snapshot \<Rightarrow> reason \<Rightarrow> wf_action list \<Rightarrow> decision" where
  "Applied s r acts =
     \<lparr>de_Snapshot = s, de_Disposition = DispositionApplied, de_Reason = r, de_Actions = acts\<rparr>"

definition Refused :: "snapshot \<Rightarrow> disposition \<Rightarrow> reason \<Rightarrow> decision" where
  "Refused s d r = \<lparr>de_Snapshot = s, de_Disposition = d, de_Reason = r, de_Actions = []\<rparr>"

lemma decision_literals [simp]:
  "de_Snapshot (Applied s r acts) = s" "de_Disposition (Applied s r acts) = DispositionApplied"
  "de_Reason (Applied s r acts) = r" "de_Actions (Applied s r acts) = acts"
  "de_Snapshot (Refused s d r) = s" "de_Disposition (Refused s d r) = d"
  "de_Reason (Refused s d r) = r" "de_Actions (Refused s d r) = []"
  by (simp_all add: Applied_def Refused_def)

end
