(* ===== verification/Workflow_Definition.thy ===== *)
theory Workflow_Definition
  imports Workflow_Model
begin

text \<open>
  Workflow Definitions (\<open>internal/workflow/definition.go\<close>, \<open>builtin.go\<close>): the immutable graph
  of Stages and outcome transitions, its validating constructor \<open>NewDefinition\<close>, the readers
  the reducer uses, and the built-in Definition of the deployment. The two instruction files
  that \<open>instructions.go\<close> embeds are parameters of the built-in Definition.

  The locale \<open>stage_graph\<close> states what \<open>NewDefinition\<close> guarantees to its clients; every built
  Definition satisfies it, and it is interpreted on the built-in one.
\<close>

section \<open>Data\<close>

record stage_entry =
  se_Stage :: stage_id
  se_Purpose :: turn_purpose

record outcome_transition =
  ot_Outcome :: turn_outcome
  ot_NextStage :: stage_id
  ot_NextPurpose :: turn_purpose
  ot_TerminalState :: wf_state
  ot_ContinuationStage :: stage_id
  ot_ConsumesReviewCycle :: bool

record stage_definition =
  sd_ID :: stage_id
  sd_Role :: role_id
  sd_State :: wf_state
  sd_AcceptedPurposes :: "turn_purpose list"
  sd_Transitions :: "outcome_transition list"
  sd_ReviewLimit :: u8
  sd_Instructions :: string
  sd_PurposeInstructions :: "(turn_purpose, string) fmap"

record wf_definition =
  df_initial :: stage_entry
  df_ordered :: "stage_id list"
  df_stages :: "(stage_id, stage_definition) fmap"

datatype definition_error =
    InvalidInitialConfiguration
  | InvalidStage stage_id
  | DuplicateStage stage_id
  | InvalidPurpose stage_id
  | DuplicatePurpose stage_id
  | InvalidStageInstructions stage_id
  | InvalidPurposeInstructions stage_id
  | OmitsOperationalPurpose stage_id
  | InvalidOutcome stage_id
  | DuplicateOutcome stage_id
  | InvalidTransition stage_id
  | RequiresSuccessor stage_id
  | RequiresTerminal stage_id
  | InitialNotAccepted
  | InvalidSuccessor stage_id
  | InvalidContinuation stage_id
  | EmptyDefinition
  | StageWithoutPolicy stage_id
  | OutcomeNotGranted stage_id string

section \<open>Validation\<close>

definition max_stage_id_length :: nat where
  "max_stage_id_length = 64"

definition stage_id_rune :: "nat \<Rightarrow> bool" where
  "stage_id_rune c \<longleftrightarrow> (97 \<le> c \<and> c \<le> 122) \<or> (48 \<le> c \<and> c \<le> 57) \<or> c = 45"

definition validStageID :: "stage_id \<Rightarrow> bool" where
  "validStageID v \<longleftrightarrow>
     (case go_bytes v of
        [] \<Rightarrow> False
      | b # _ \<Rightarrow> length v \<le> max_stage_id_length \<and> 97 \<le> b \<and> b \<le> 122 \<and> trim_space_fixed v
                \<and> list_all stage_id_rune (go_runes (tl v)))"

fun validTurnPurpose :: "turn_purpose \<Rightarrow> bool" where
  "validTurnPurpose (TurnPurposeOther _) = False"
| "validTurnPurpose _ = True"

definition validDefinitionOutcome :: "turn_outcome \<Rightarrow> bool" where
  "validDefinitionOutcome out \<longleftrightarrow>
     out = TurnOutcomePlanningReady \<or> out = TurnOutcomeChangeProposalReady
     \<or> out = TurnOutcomeChangesRequested \<or> out = TurnOutcomeApproved"

definition containsPurpose :: "turn_purpose list \<Rightarrow> turn_purpose \<Rightarrow> bool" where
  "containsPurpose purposes p \<longleftrightarrow> list_ex (\<lambda>c. c = p) purposes"

lemma containsPurpose_iff [simp]: "containsPurpose ps p \<longleftrightarrow> p \<in> set ps"
  by (auto simp: containsPurpose_def list_ex_iff)

definition cloneStageDefinition :: "stage_definition \<Rightarrow> stage_definition" where
  "cloneStageDefinition st =
     st\<lparr>sd_AcceptedPurposes := [] @ sd_AcceptedPurposes st,
        sd_Transitions := [] @ sd_Transitions st,
        sd_PurposeInstructions := sd_PurposeInstructions st\<rparr>"

lemma cloneStageDefinition_id [simp]: "cloneStageDefinition st = st"
  by (simp add: cloneStageDefinition_def)

definition check_purpose ::
  "stage_id \<Rightarrow> turn_purpose \<Rightarrow> turn_purpose list \<Rightarrow> definition_error + turn_purpose list" where
  "check_purpose sid p purposeSet =
     (if \<not> validTurnPurpose p then Inl (InvalidPurpose sid)
      else if p \<in> set purposeSet then Inl (DuplicatePurpose sid)
      else Inr (purposeSet @ [p]))"

definition valid_instructions :: "string \<Rightarrow> bool" where
  "valid_instructions s \<longleftrightarrow> utf8_valid_string s \<and> \<not> contains_nul s"

definition transition_successor :: "outcome_transition \<Rightarrow> bool" where
  "transition_successor t \<longleftrightarrow> ot_NextStage t \<noteq> '''' \<or> ot_NextPurpose t \<noteq> NoPurpose"

definition transition_terminal :: "outcome_transition \<Rightarrow> bool" where
  "transition_terminal t \<longleftrightarrow> ot_TerminalState t \<noteq> NoState \<or> ot_ContinuationStage t \<noteq> ''''"

definition malformed_transition :: "u8 \<Rightarrow> outcome_transition \<Rightarrow> bool" where
  "malformed_transition reviewLimit t \<longleftrightarrow>
     transition_successor t = transition_terminal t
     \<or> (transition_successor t
         \<and> (\<not> validStageID (ot_NextStage t) \<or> \<not> validTurnPurpose (ot_NextPurpose t)))
     \<or> (transition_terminal t
         \<and> ((ot_TerminalState t \<noteq> StatePlanReady \<and> ot_TerminalState t \<noteq> StatePRReady)
             \<or> \<not> validStageID (ot_ContinuationStage t)))
     \<or> (ot_ConsumesReviewCycle t \<and> reviewLimit = 0)"

definition check_transition ::
  "stage_definition \<Rightarrow> outcome_transition \<Rightarrow> turn_outcome list \<Rightarrow> definition_error + turn_outcome list" where
  "check_transition st t outcomeSet =
     (if \<not> validDefinitionOutcome (ot_Outcome t) then Inl (InvalidOutcome (sd_ID st))
      else if ot_Outcome t \<in> set outcomeSet then Inl (DuplicateOutcome (sd_ID st))
      else if malformed_transition (sd_ReviewLimit st) t then Inl (InvalidTransition (sd_ID st))
      else if (ot_Outcome t = TurnOutcomeChangeProposalReady \<or> ot_Outcome t = TurnOutcomeChangesRequested)
              \<and> \<not> transition_successor t then Inl (RequiresSuccessor (sd_ID st))
      else if (ot_Outcome t = TurnOutcomePlanningReady \<or> ot_Outcome t = TurnOutcomeApproved)
              \<and> \<not> transition_terminal t then Inl (RequiresTerminal (sd_ID st))
      else Inr (outcomeSet @ [ot_Outcome t]))"

definition active_stage_state :: "wf_state \<Rightarrow> bool" where
  "active_stage_state s \<longleftrightarrow> s = StatePlanning \<or> s = StateDeveloping \<or> s = StateReviewing"

definition add_stage ::
  "(role_id \<Rightarrow> bool) \<Rightarrow> stage_definition \<Rightarrow> wf_definition \<Rightarrow> definition_error + wf_definition" where
  "add_stage catalogContains st d =
     (if \<not> validStageID (sd_ID st) \<or> \<not> catalogContains (sd_Role st) \<or> \<not> active_stage_state (sd_State st)
         \<or> sd_AcceptedPurposes st = [] \<or> sd_Transitions st = [] then Inl (InvalidStage (sd_ID st))
      else if fmlookup (df_stages d) (sd_ID st) \<noteq> None then Inl (DuplicateStage (sd_ID st))
      else case foldE (check_purpose (sd_ID st)) (sd_AcceptedPurposes st) [] of
        Inl e \<Rightarrow> Inl e
      | Inr purposeSet \<Rightarrow>
          if \<not> valid_instructions (sd_Instructions st) then Inl (InvalidStageInstructions (sd_ID st))
          else if fmap_any (\<lambda>p i. p \<notin> set purposeSet \<or> \<not> valid_instructions i) (sd_PurposeInstructions st)
            then Inl (InvalidPurposeInstructions (sd_ID st))
          else if \<not> containsPurpose (sd_AcceptedPurposes st) TurnPurposeRetry
                  \<or> \<not> containsPurpose (sd_AcceptedPurposes st) TurnPurposeReactivation
                  \<or> (sd_State st = StateReviewing
                      \<and> \<not> containsPurpose (sd_AcceptedPurposes st) TurnPurposeSynchronization)
            then Inl (OmitsOperationalPurpose (sd_ID st))
          else case foldE (check_transition st) (sd_Transitions st) [] of
            Inl e \<Rightarrow> Inl e
          | Inr _ \<Rightarrow>
              Inr (d\<lparr>df_ordered := df_ordered d @ [sd_ID st],
                     df_stages := fmupd (sd_ID st) (cloneStageDefinition st) (df_stages d)\<rparr>))"

text \<open>The last loop of \<open>NewDefinition\<close> ranges over a Go map, whose order is unspecified; the
  model ranges in declaration order. Which violated relation is reported may differ, whether
  one is reported does not.\<close>

definition check_relation ::
  "wf_definition \<Rightarrow> stage_id \<Rightarrow> outcome_transition \<Rightarrow> unit \<Rightarrow> definition_error + unit" where
  "check_relation d sid t u =
     (if ot_NextStage t \<noteq> ''''
         \<and> (case fmlookup (df_stages d) (ot_NextStage t) of
              None \<Rightarrow> True
            | Some target \<Rightarrow> \<not> containsPurpose (sd_AcceptedPurposes target) (ot_NextPurpose t))
        then Inl (InvalidSuccessor sid)
      else if ot_ContinuationStage t \<noteq> '''' \<and> fmlookup (df_stages d) (ot_ContinuationStage t) = None
        then Inl (InvalidContinuation sid)
      else Inr u)"

definition check_stage_relations ::
  "wf_definition \<Rightarrow> stage_id \<Rightarrow> unit \<Rightarrow> definition_error + unit" where
  "check_stage_relations d sid u =
     (case fmlookup (df_stages d) sid of
        None \<Rightarrow> Inr u
      | Some st \<Rightarrow> foldE (check_relation d sid) (sd_Transitions st) u)"

definition NewDefinition ::
  "(role_id \<Rightarrow> bool) option \<Rightarrow> stage_entry \<Rightarrow> stage_definition list \<Rightarrow> definition_error + wf_definition" where
  "NewDefinition catalog initial stages =
     (case catalog of
        None \<Rightarrow> Inl InvalidInitialConfiguration
      | Some catalogContains \<Rightarrow>
          if stages = [] \<or> \<not> validStageID (se_Stage initial) \<or> \<not> validTurnPurpose (se_Purpose initial)
          then Inl InvalidInitialConfiguration
          else case foldE (add_stage catalogContains) stages
                      \<lparr>df_initial = initial, df_ordered = [], df_stages = fmempty\<rparr> of
            Inl e \<Rightarrow> Inl e
          | Inr d \<Rightarrow>
              (case fmlookup (df_stages d) (se_Stage initial) of
                 None \<Rightarrow> Inl InitialNotAccepted
               | Some initialStage \<Rightarrow>
                   if sd_State initialStage \<noteq> StateDeveloping
                      \<or> \<not> containsPurpose (sd_AcceptedPurposes initialStage) (se_Purpose initial)
                   then Inl InitialNotAccepted
                   else case foldE (check_stage_relations d) (df_ordered d) () of
                     Inl e \<Rightarrow> Inl e
                   | Inr _ \<Rightarrow> Inr d))"

section \<open>Readers\<close>

definition InitialEntry :: "wf_definition \<Rightarrow> stage_entry" where
  "InitialEntry d = df_initial d"

definition definition_Valid :: "wf_definition \<Rightarrow> bool" where
  "definition_Valid d \<longleftrightarrow> df_ordered d \<noteq> [] \<and> fcard (fmdom (df_stages d)) = length (df_ordered d)"

definition Stage :: "wf_definition \<Rightarrow> stage_id \<Rightarrow> stage_definition option" where
  "Stage d sid = map_option cloneStageDefinition (fmlookup (df_stages d) sid)"

definition Transition :: "wf_definition \<Rightarrow> stage_id \<Rightarrow> turn_outcome \<Rightarrow> outcome_transition option" where
  "Transition d sid out =
     (case fmlookup (df_stages d) sid of
        None \<Rightarrow> None
      | Some st \<Rightarrow> find (\<lambda>t. ot_Outcome t = out) (sd_Transitions st))"

definition ExpectedOutcomes :: "wf_definition \<Rightarrow> stage_id \<Rightarrow> turn_outcome list" where
  "ExpectedOutcomes d sid =
     (case fmlookup (df_stages d) sid of
        None \<Rightarrow> []
      | Some st \<Rightarrow> map ot_Outcome (sd_Transitions st))"

definition StageIDs :: "wf_definition \<Rightarrow> stage_id list" where
  "StageIDs d = df_ordered d"

text \<open>\<open>Roles\<close> looks every ordered Stage up; a Stage that is missing from the map reads as the
  zero Stage, whose Role is empty.\<close>

definition definition_Roles :: "wf_definition \<Rightarrow> role_id list" where
  "definition_Roles d =
     fold (\<lambda>sid roles.
       let r = (case fmlookup (df_stages d) sid of None \<Rightarrow> '''' | Some st \<Rightarrow> sd_Role st)
       in if r \<in> set roles then roles else roles @ [r]) (df_ordered d) []"

definition ContainsRole :: "wf_definition \<Rightarrow> role_id \<Rightarrow> bool" where
  "ContainsRole d r \<longleftrightarrow> fmap_any (\<lambda>_ st. sd_Role st = r) (df_stages d)"

definition AcceptsPurpose :: "wf_definition \<Rightarrow> stage_id \<Rightarrow> turn_purpose \<Rightarrow> bool" where
  "AcceptsPurpose d sid p \<longleftrightarrow>
     (case fmlookup (df_stages d) sid of
        None \<Rightarrow> False
      | Some st \<Rightarrow> containsPurpose (sd_AcceptedPurposes st) p)"

text \<open>The tools a Stage's Role must be granted for the outcomes the Stage accepts.\<close>

definition required_tools :: "stage_definition \<Rightarrow> string list" where
  "required_tools st =
     ''report_blocked'' #
     concat (map (\<lambda>t.
       if ot_Outcome t = TurnOutcomePlanningReady then [''complete_planning'']
       else if ot_Outcome t = TurnOutcomeChangeProposalReady then [''request_review'']
       else if ot_Outcome t = TurnOutcomeChangesRequested \<or> ot_Outcome t = TurnOutcomeApproved
         then [''submit_review''] else []) (sd_Transitions st))"

definition check_stage_policy ::
  "wf_definition \<Rightarrow> policy_catalog \<Rightarrow> stage_id \<Rightarrow> unit \<Rightarrow> definition_error + unit" where
  "check_stage_policy d policies sid u =
     (case fmlookup (df_stages d) sid of
        None \<Rightarrow> Inl (StageWithoutPolicy sid)
      | Some st \<Rightarrow>
          (case policy_Lookup policies (sd_Role st) of
             None \<Rightarrow> Inl (StageWithoutPolicy sid)
           | Some policy \<Rightarrow>
               (case find (\<lambda>tool. CredentialAuthorityForTool policy tool = None) (required_tools st) of
                  Some tool \<Rightarrow> Inl (OutcomeNotGranted sid tool)
                | None \<Rightarrow> Inr u)))"

definition ValidateRolePolicies :: "wf_definition \<Rightarrow> policy_catalog \<Rightarrow> definition_error + unit" where
  "ValidateRolePolicies d policies =
     (if \<not> definition_Valid d then Inl EmptyDefinition
      else foldE (check_stage_policy d policies) (df_ordered d) ())"

section \<open>What a built Definition guarantees\<close>

definition wf_transition :: "stage_definition \<Rightarrow> outcome_transition \<Rightarrow> bool" where
  "wf_transition st t \<longleftrightarrow>
     validDefinitionOutcome (ot_Outcome t) \<and> \<not> malformed_transition (sd_ReviewLimit st) t
     \<and> (ot_Outcome t = TurnOutcomeChangeProposalReady \<or> ot_Outcome t = TurnOutcomeChangesRequested
          \<longrightarrow> transition_successor t)
     \<and> (ot_Outcome t = TurnOutcomePlanningReady \<or> ot_Outcome t = TurnOutcomeApproved
          \<longrightarrow> transition_terminal t)"

definition wf_stage :: "stage_definition \<Rightarrow> bool" where
  "wf_stage st \<longleftrightarrow>
     validStageID (sd_ID st) \<and> active_stage_state (sd_State st)
     \<and> distinct (sd_AcceptedPurposes st) \<and> list_all validTurnPurpose (sd_AcceptedPurposes st)
     \<and> TurnPurposeRetry \<in> set (sd_AcceptedPurposes st)
     \<and> TurnPurposeReactivation \<in> set (sd_AcceptedPurposes st)
     \<and> (sd_State st = StateReviewing \<longrightarrow> TurnPurposeSynchronization \<in> set (sd_AcceptedPurposes st))
     \<and> sd_Transitions st \<noteq> [] \<and> distinct (map ot_Outcome (sd_Transitions st))
     \<and> list_all (wf_transition st) (sd_Transitions st)"

definition stages_inv :: "wf_definition \<Rightarrow> bool" where
  "stages_inv d \<longleftrightarrow> distinct (df_ordered d) \<and> set (df_ordered d) = fmdom' (df_stages d)
     \<and> fmpred (\<lambda>sid st. sd_ID st = sid \<and> wf_stage st) (df_stages d)"

lemma validStageID_nonempty: "validStageID v \<Longrightarrow> v \<noteq> ''''"
  by (auto simp: validStageID_def go_bytes_def)

lemma find_distinct_key:
  "t \<in> set ts \<Longrightarrow> distinct (map f ts) \<Longrightarrow> find (\<lambda>u. f u = f t) ts = Some t"
  by (induction ts) (auto simp: rev_image_eqI)

lemma check_purposes_set:
  assumes "foldE (check_purpose sid) ps [] = Inr purposeSet"
  shows "purposeSet = ps \<and> distinct ps \<and> list_all validTurnPurpose ps"
  using assms
  by (rule foldE_prefix_induct [where I = "\<lambda>ys us. us = ys \<and> distinct ys \<and> list_all validTurnPurpose ys"])
     (auto simp: check_purpose_def split: if_splits)

lemma check_transitions_set:
  assumes "foldE (check_transition st) ts [] = Inr outs"
  shows "outs = map ot_Outcome ts \<and> distinct (map ot_Outcome ts) \<and> list_all (wf_transition st) ts"
  using assms
  by (rule foldE_prefix_induct [where I = "\<lambda>ys us. us = map ot_Outcome ys
        \<and> distinct (map ot_Outcome ys) \<and> list_all (wf_transition st) ys"])
     (auto simp: check_transition_def wf_transition_def split: if_splits)

lemma add_stage_Inr:
  assumes "add_stage catalogContains st d = Inr d'"
  shows "wf_stage st" "fmlookup (df_stages d) (sd_ID st) = None" "catalogContains (sd_Role st)"
    "d' = d\<lparr>df_ordered := df_ordered d @ [sd_ID st], df_stages := fmupd (sd_ID st) st (df_stages d)\<rparr>"
  using assms
  by (auto simp: add_stage_def wf_stage_def split: if_splits sum.splits
      dest!: check_purposes_set check_transitions_set)

lemma add_stage_inv:
  assumes "stages_inv d" "add_stage catalogContains st d = Inr d'"
  shows "stages_inv d'"
  using assms(1) add_stage_Inr [OF assms(2)]
  by (auto simp: stages_inv_def fmlookup_dom'_iff)

lemma check_relations_stage:
  assumes "foldE (check_relation d sid) ts u = Inr v" "t \<in> set ts"
  shows "check_relation d sid t () = Inr ()"
  using assms by (induction ts) (auto split: sum.splits)

lemma check_stage_relations_all:
  assumes "foldE (check_stage_relations d) sids u = Inr v" "sid \<in> set sids"
    "fmlookup (df_stages d) sid = Some st" "t \<in> set (sd_Transitions st)"
  shows "check_relation d sid t () = Inr ()"
  using assms
  by (induction sids) (auto simp: check_stage_relations_def split: sum.splits dest: check_relations_stage)

lemma NewDefinition_Inr:
  assumes "NewDefinition catalog initial stages = Inr d"
  shows "stages_inv d" and "df_initial d = initial" and "df_ordered d = map sd_ID stages"
    and "\<exists>st. fmlookup (df_stages d) (se_Stage initial) = Some st \<and> sd_State st = StateDeveloping
           \<and> se_Purpose initial \<in> set (sd_AcceptedPurposes st)"
    and "\<And>sid st t. fmlookup (df_stages d) sid = Some st \<Longrightarrow> t \<in> set (sd_Transitions st)
           \<Longrightarrow> check_relation d sid t () = Inr ()"
    and "stages \<noteq> []"
proof -
  from assms obtain contains st0 where
    loop: "foldE (add_stage contains) stages
             \<lparr>df_initial = initial, df_ordered = [], df_stages = fmempty\<rparr> = Inr d" and
    init: "fmlookup (df_stages d) (se_Stage initial) = Some st0" "sd_State st0 = StateDeveloping"
      "se_Purpose initial \<in> set (sd_AcceptedPurposes st0)" and
    rel: "foldE (check_stage_relations d) (df_ordered d) () = Inr ()" and
    ne: "stages \<noteq> []"
    by (auto simp: NewDefinition_def split: if_splits option.splits sum.splits)
  from init ne show "\<exists>st. fmlookup (df_stages d) (se_Stage initial) = Some st \<and> sd_State st = StateDeveloping
      \<and> se_Purpose initial \<in> set (sd_AcceptedPurposes st)" and "stages \<noteq> []" by auto
  have inv: "stages_inv d \<and> df_initial d = initial \<and> df_ordered d = map sd_ID stages"
    using loop
  proof (rule foldE_prefix_induct [where I = "\<lambda>(ys :: stage_definition list) e. stages_inv e
           \<and> df_initial e = initial \<and> df_ordered e = map sd_ID ys"])
    show "stages_inv \<lparr>df_initial = initial, df_ordered = [], df_stages = fmempty\<rparr> \<and>
      df_initial \<lparr>df_initial = initial, df_ordered = [], df_stages = fmempty\<rparr> = initial \<and>
      df_ordered \<lparr>df_initial = initial, df_ordered = [], df_stages = fmempty\<rparr> = map sd_ID ([] :: stage_definition list)"
      by (simp add: stages_inv_def)
  next
    fix ys :: "stage_definition list" and x u v
    assume I: "stages_inv u \<and> df_initial u = initial \<and> df_ordered u = map sd_ID ys"
      and step: "add_stage contains x u = Inr v"
    from I add_stage_inv [OF _ step] add_stage_Inr [OF step]
    show "stages_inv v \<and> df_initial v = initial \<and> df_ordered v = map sd_ID (ys @ [x])" by simp
  qed
  then show "stages_inv d" "df_initial d = initial" "df_ordered d = map sd_ID stages" by auto
  fix sid st t
  assume st: "fmlookup (df_stages d) sid = Some st" "t \<in> set (sd_Transitions st)"
  then have "sid \<in> fmdom' (df_stages d)" by (auto simp: fmlookup_dom'_iff)
  with inv have "sid \<in> set (df_ordered d)" unfolding stages_inv_def by metis
  from check_stage_relations_all [OF rel this st] show "check_relation d sid t () = Inr ()" .
qed

text \<open>The contract of a built Definition, as its clients use it.\<close>

locale stage_graph =
  fixes d :: wf_definition
  assumes valid_definition: "definition_Valid d"
    and stage_key: "Stage d sid = Some st \<Longrightarrow> sd_ID st = sid \<and> wf_stage st"
    and initial_stage: "\<exists>st. Stage d (se_Stage (InitialEntry d)) = Some st
          \<and> sd_State st = StateDeveloping \<and> se_Purpose (InitialEntry d) \<in> set (sd_AcceptedPurposes st)"
    and successor_exists: "Transition d sid out = Some t \<Longrightarrow> ot_NextStage t \<noteq> '''' \<Longrightarrow>
          \<exists>st. Stage d (ot_NextStage t) = Some st \<and> ot_NextPurpose t \<in> set (sd_AcceptedPurposes st)"
    and continuation_exists: "Transition d sid out = Some t \<Longrightarrow> ot_ContinuationStage t \<noteq> '''' \<Longrightarrow>
          Stage d (ot_ContinuationStage t) \<noteq> None"
begin

lemma Transition_in_stage:
  assumes "Transition d sid out = Some t"
  shows "\<exists>st. Stage d sid = Some st \<and> t \<in> set (sd_Transitions st) \<and> ot_Outcome t = out"
  using assms
  by (auto simp: Transition_def Stage_def find_Some_iff split: option.splits)

lemma Transition_wf:
  assumes "Transition d sid out = Some t"
  shows "ot_Outcome t = out" "\<exists>st. Stage d sid = Some st \<and> wf_transition st t"
  using Transition_in_stage [OF assms] stage_key by (fastforce simp: wf_stage_def list_all_iff)+

lemma successor_outcome:
  assumes "Transition d sid out = Some t"
    and "out = TurnOutcomeChangeProposalReady \<or> out = TurnOutcomeChangesRequested"
  shows "ot_NextStage t \<noteq> '''' \<and>
    (\<exists>st. Stage d (ot_NextStage t) = Some st \<and> ot_NextPurpose t \<in> set (sd_AcceptedPurposes st))"
proof -
  from Transition_wf [OF assms(1)] assms(2) obtain st where
    "wf_transition st t" "transition_successor t" by (auto simp: wf_transition_def)
  then have "validStageID (ot_NextStage t)"
    by (auto simp: wf_transition_def malformed_transition_def)
  then have "ot_NextStage t \<noteq> ''''" by (auto simp: validStageID_def go_bytes_def)
  with successor_exists [OF assms(1)] show ?thesis by blast
qed

lemma terminal_outcome:
  assumes "Transition d sid out = Some t"
    and "out = TurnOutcomePlanningReady \<or> out = TurnOutcomeApproved"
  shows "(ot_TerminalState t = StatePlanReady \<or> ot_TerminalState t = StatePRReady)
    \<and> Stage d (ot_ContinuationStage t) \<noteq> None"
proof -
  from Transition_wf [OF assms(1)] assms(2) obtain st where
    "wf_transition st t" "transition_terminal t" by (auto simp: wf_transition_def)
  then have "validStageID (ot_ContinuationStage t)"
    and "ot_TerminalState t = StatePlanReady \<or> ot_TerminalState t = StatePRReady"
    by (auto simp: wf_transition_def malformed_transition_def)
  moreover from this(1) have "ot_ContinuationStage t \<noteq> ''''"
    by (auto simp: validStageID_def go_bytes_def)
  ultimately show ?thesis using continuation_exists [OF assms(1)] by blast
qed

lemma accepts_operational:
  assumes "Stage d sid = Some st"
  shows "AcceptsPurpose d sid TurnPurposeRetry" "AcceptsPurpose d sid TurnPurposeReactivation"
    "sd_State st = StateReviewing \<Longrightarrow> AcceptsPurpose d sid TurnPurposeSynchronization"
  using stage_key [OF assms] assms
  by (auto simp: AcceptsPurpose_def Stage_def wf_stage_def split: option.splits)

lemma Transition_of:
  assumes "Stage d sid = Some st" "t \<in> set (sd_Transitions st)"
  shows "Transition d sid (ot_Outcome t) = Some t"
proof -
  from stage_key [OF assms(1)] have "distinct (map ot_Outcome (sd_Transitions st))"
    by (simp add: wf_stage_def)
  with assms(2) have "find (\<lambda>u. ot_Outcome u = ot_Outcome t) (sd_Transitions st) = Some t"
    by (rule find_distinct_key)
  with assms(1) show ?thesis by (auto simp: Transition_def Stage_def split: option.splits)
qed

lemma stage_transitions_closed:
  assumes "Stage d sid = Some st" "t \<in> set (sd_Transitions st)"
  shows "transition_successor t \<noteq> transition_terminal t"
    and "transition_successor t \<Longrightarrow> \<exists>target. Stage d (ot_NextStage t) = Some target
           \<and> AcceptsPurpose d (ot_NextStage t) (ot_NextPurpose t)"
    and "transition_terminal t \<Longrightarrow> ot_TerminalState t \<in> {StatePlanReady, StatePRReady}
           \<and> Stage d (ot_ContinuationStage t) \<noteq> None"
proof -
  note tr = Transition_of [OF assms]
  from stage_key [OF assms(1)] assms(2) have "\<not> malformed_transition (sd_ReviewLimit st) t"
    by (auto simp: wf_stage_def wf_transition_def list_all_iff)
  then have m: "transition_successor t \<noteq> transition_terminal t"
    "transition_successor t \<Longrightarrow> validStageID (ot_NextStage t)"
    "transition_terminal t \<Longrightarrow> validStageID (ot_ContinuationStage t)"
    "transition_terminal t \<Longrightarrow> ot_TerminalState t \<in> {StatePlanReady, StatePRReady}"
    by (auto simp: malformed_transition_def)
  show "transition_successor t \<noteq> transition_terminal t" by (rule m(1))
  show "\<exists>target. Stage d (ot_NextStage t) = Some target
      \<and> AcceptsPurpose d (ot_NextStage t) (ot_NextPurpose t)" if "transition_successor t"
  proof -
    from m(2) [OF that] have "ot_NextStage t \<noteq> ''''" by (rule validStageID_nonempty)
    from successor_exists [OF tr this] show ?thesis
      by (auto simp: AcceptsPurpose_def Stage_def)
  qed
  show "ot_TerminalState t \<in> {StatePlanReady, StatePRReady} \<and> Stage d (ot_ContinuationStage t) \<noteq> None"
    if "transition_terminal t"
    using m(4) [OF that] continuation_exists [OF tr validStageID_nonempty [OF m(3) [OF that]]] by blast
qed

lemma stage_role_contained: "Stage d sid = Some st \<Longrightarrow> ContainsRole d (sd_Role st)"
  by (auto simp: Stage_def ContainsRole_def)

end

lemma NewDefinition_stage_graph:
  assumes "NewDefinition catalog initial stages = Inr d"
  shows "stage_graph d"
proof
  note new = NewDefinition_Inr [OF assms]
  have "distinct (df_ordered d)" "set (df_ordered d) = fmdom' (df_stages d)"
    using new(1) by (simp_all add: stages_inv_def)
  then have "length (df_ordered d) = card (fmdom' (df_stages d))"
    by (metis distinct_card)
  moreover have "card (fmdom' (df_stages d)) = fcard (fmdom (df_stages d))"
    by (simp add: fcard.rep_eq fmdom'_alt_def)
  ultimately show "definition_Valid d"
    using new(3,6) by (simp add: definition_Valid_def)
  show "\<exists>st. Stage d (se_Stage (InitialEntry d)) = Some st \<and> sd_State st = StateDeveloping
      \<and> se_Purpose (InitialEntry d) \<in> set (sd_AcceptedPurposes st)"
    using new(2,4) by (auto simp: Stage_def InitialEntry_def)
  show "sd_ID st = sid \<and> wf_stage st" if "Stage d sid = Some st" for sid st
    using new(1) that by (auto simp: Stage_def stages_inv_def fmpred_iff)
  have rel: "check_relation d sid t () = Inr ()" if "Transition d sid out = Some t" for sid out t
    using that new(5) by (fastforce simp: Transition_def find_Some_iff split: option.splits)
  show "\<exists>st. Stage d (ot_NextStage t) = Some st \<and> ot_NextPurpose t \<in> set (sd_AcceptedPurposes st)"
    if "Transition d sid out = Some t" "ot_NextStage t \<noteq> ''''" for sid out t
    using rel [OF that(1)] that(2)
    by (auto simp: check_relation_def Stage_def split: if_splits option.splits)
  show "Stage d (ot_ContinuationStage t) \<noteq> None"
    if "Transition d sid out = Some t" "ot_ContinuationStage t \<noteq> ''''" for sid out t
    using rel [OF that(1)] that(2)
    by (auto simp: check_relation_def Stage_def split: if_splits option.splits)
qed

section \<open>The built-in Definition\<close>

definition StagePlanning :: stage_id where "StagePlanning = ''planning''"
definition StageImplementation :: stage_id where "StageImplementation = ''implementation''"
definition StageReview :: stage_id where "StageReview = ''review''"

lemma stages_distinct [simp]:
  "StagePlanning \<noteq> StageImplementation" "StageImplementation \<noteq> StagePlanning"
  "StagePlanning \<noteq> StageReview" "StageReview \<noteq> StagePlanning"
  "StageImplementation \<noteq> StageReview" "StageReview \<noteq> StageImplementation"
  "StagePlanning \<noteq> ''''" "StageImplementation \<noteq> ''''" "StageReview \<noteq> ''''"
  "'''' \<noteq> StagePlanning" "'''' \<noteq> StageImplementation" "'''' \<noteq> StageReview"
  by (simp_all add: StagePlanning_def StageImplementation_def StageReview_def)

definition BuiltinInfrastructureRetryLimit :: u8 where
  "BuiltinInfrastructureRetryLimit = 1"

definition planning_instructions :: string where
  "planning_instructions = ''Investigate and discuss; publish paired checkpoints, await exact-revision human confirmation, revalidate and finish planning only. Never allocate implementation or create a Change Proposal.''"

definition initial_development_instructions :: string where
  "initial_development_instructions = ''Implement the Work Item and create its initial Change Proposal.''"

definition requested_changes_instructions :: string where
  "requested_changes_instructions = ''Inspect all substantive review findings before revising the existing Change Proposal; explain the changes since the previous review in the new handoff summary.''"

definition synchronization_instructions :: string where
  "synchronization_instructions = ''The Change Proposal head changed; evaluate the current head and recheck earlier findings rather than carrying forward a stale verdict.''"

definition no_transition :: "turn_outcome \<Rightarrow> outcome_transition" where
  "no_transition out =
     \<lparr>ot_Outcome = out, ot_NextStage = '''', ot_NextPurpose = NoPurpose, ot_TerminalState = NoState,
      ot_ContinuationStage = '''', ot_ConsumesReviewCycle = False\<rparr>"

definition planning_stage :: stage_definition where
  "planning_stage =
     \<lparr>sd_ID = StagePlanning, sd_Role = Planner, sd_State = StatePlanning,
      sd_AcceptedPurposes = [TurnPurposeInitialPlanning, TurnPurposeReactivation, TurnPurposeRetry],
      sd_Transitions = [(no_transition TurnOutcomePlanningReady)
        \<lparr>ot_TerminalState := StatePlanReady, ot_ContinuationStage := StagePlanning\<rparr>],
      sd_ReviewLimit = 0, sd_Instructions = planning_instructions, sd_PurposeInstructions = fmempty\<rparr>"

definition implementation_stage :: "string \<Rightarrow> stage_definition" where
  "implementation_stage implementationInstructions =
     \<lparr>sd_ID = StageImplementation, sd_Role = Developer, sd_State = StateDeveloping,
      sd_AcceptedPurposes = [TurnPurposeInitialDevelopment, TurnPurposeRequestedChanges,
        TurnPurposeRetry, TurnPurposeReactivation],
      sd_Transitions = [(no_transition TurnOutcomeChangeProposalReady)
        \<lparr>ot_NextStage := StageReview, ot_NextPurpose := TurnPurposeReview\<rparr>],
      sd_ReviewLimit = 0, sd_Instructions = implementationInstructions,
      sd_PurposeInstructions = fmap_of_list
        [(TurnPurposeInitialDevelopment, initial_development_instructions),
         (TurnPurposeRequestedChanges, requested_changes_instructions)]\<rparr>"

definition review_stage :: "string \<Rightarrow> stage_definition" where
  "review_stage reviewInstructions =
     \<lparr>sd_ID = StageReview, sd_Role = Reviewer, sd_State = StateReviewing,
      sd_AcceptedPurposes = [TurnPurposeReview, TurnPurposeRetry, TurnPurposeSynchronization,
        TurnPurposeReactivation],
      sd_Transitions =
        [(no_transition TurnOutcomeChangesRequested)
           \<lparr>ot_NextStage := StageImplementation, ot_NextPurpose := TurnPurposeRequestedChanges,
            ot_ConsumesReviewCycle := True\<rparr>,
         (no_transition TurnOutcomeApproved)
           \<lparr>ot_TerminalState := StatePRReady, ot_ContinuationStage := StageReview,
            ot_ConsumesReviewCycle := True\<rparr>],
      sd_ReviewLimit = 3, sd_Instructions = reviewInstructions,
      sd_PurposeInstructions = fmap_of_list
        [(TurnPurposeSynchronization, synchronization_instructions)]\<rparr>"

definition NewBuiltinDefinition ::
  "string \<Rightarrow> string \<Rightarrow> (role_id \<Rightarrow> bool) option \<Rightarrow> definition_error + wf_definition" where
  "NewBuiltinDefinition implementationInstructions reviewInstructions catalog =
     NewDefinition catalog
       \<lparr>se_Stage = StageImplementation, se_Purpose = TurnPurposeInitialDevelopment\<rparr>
       [planning_stage, implementation_stage implementationInstructions, review_stage reviewInstructions]"

text \<open>The value the construction yields, with its Stages in declaration order.\<close>

definition builtin_definition :: "string \<Rightarrow> string \<Rightarrow> wf_definition" where
  "builtin_definition impl revw =
     \<lparr>df_initial = \<lparr>se_Stage = StageImplementation, se_Purpose = TurnPurposeInitialDevelopment\<rparr>,
      df_ordered = [StagePlanning, StageImplementation, StageReview],
      df_stages = fmupd StageReview (review_stage revw)
        (fmupd StageImplementation (implementation_stage impl) (fmupd StagePlanning planning_stage fmempty))\<rparr>"

lemma builtin_stage_ids [simp]:
  "validStageID StagePlanning" "validStageID StageImplementation" "validStageID StageReview"
  by (simp_all add: StagePlanning_def StageImplementation_def StageReview_def validStageID_def
      max_stage_id_length_def stage_id_rune_def is_space_rune_def go_simps)

lemma builtin_texts_valid [simp]:
  "valid_instructions planning_instructions"
  "valid_instructions initial_development_instructions"
  "valid_instructions requested_changes_instructions"
  "valid_instructions synchronization_instructions"
  by (simp_all add: valid_instructions_def contains_nul_def planning_instructions_def
      initial_development_instructions_def requested_changes_instructions_def
      synchronization_instructions_def go_simps)

lemmas builtin_stages = planning_stage_def implementation_stage_def review_stage_def no_transition_def

lemmas transition_checks = check_transition_def malformed_transition_def transition_successor_def
  transition_terminal_def validDefinitionOutcome_def

lemma add_planning_stage:
  assumes "catalogContains Planner" "fmlookup (df_stages d) StagePlanning = None"
  shows "add_stage catalogContains planning_stage d =
    Inr (d\<lparr>df_ordered := df_ordered d @ [StagePlanning],
           df_stages := fmupd StagePlanning planning_stage (df_stages d)\<rparr>)"
  using assms
  by (simp add: add_stage_def builtin_stages active_stage_state_def check_purpose_def
      transition_checks fmap_any_def)

lemma add_implementation_stage:
  assumes "catalogContains Developer" "fmlookup (df_stages d) StageImplementation = None"
    "valid_instructions impl"
  shows "add_stage catalogContains (implementation_stage impl) d =
    Inr (d\<lparr>df_ordered := df_ordered d @ [StageImplementation],
           df_stages := fmupd StageImplementation (implementation_stage impl) (df_stages d)\<rparr>)"
  using assms
  by (simp add: add_stage_def builtin_stages active_stage_state_def check_purpose_def
      transition_checks fmap_any_def fmpred_iff fmlookup_of_list)

lemma add_review_stage:
  assumes "catalogContains Reviewer" "fmlookup (df_stages d) StageReview = None"
    "valid_instructions revw"
  shows "add_stage catalogContains (review_stage revw) d =
    Inr (d\<lparr>df_ordered := df_ordered d @ [StageReview],
           df_stages := fmupd StageReview (review_stage revw) (df_stages d)\<rparr>)"
  using assms
  by (simp add: add_stage_def builtin_stages active_stage_state_def check_purpose_def
      transition_checks fmap_any_def fmpred_iff fmlookup_of_list)

lemma builtin_lookup [simp]:
  "fmlookup (df_stages (builtin_definition impl revw)) StagePlanning = Some planning_stage"
  "fmlookup (df_stages (builtin_definition impl revw)) StageImplementation = Some (implementation_stage impl)"
  "fmlookup (df_stages (builtin_definition impl revw)) StageReview = Some (review_stage revw)"
  "df_initial (builtin_definition impl revw) =
     \<lparr>se_Stage = StageImplementation, se_Purpose = TurnPurposeInitialDevelopment\<rparr>"
  "df_ordered (builtin_definition impl revw) = [StagePlanning, StageImplementation, StageReview]"
  by (simp_all add: builtin_definition_def)

lemma builtin_Stage_cases:
  assumes "Stage (builtin_definition impl revw) sid = Some st"
  obtains "sid = StagePlanning" "st = planning_stage"
    | "sid = StageImplementation" "st = implementation_stage impl"
    | "sid = StageReview" "st = review_stage revw"
  using assms by (auto simp: Stage_def builtin_definition_def split: if_splits)

lemma NewBuiltinDefinition_Inr:
  assumes "contains Planner" "contains Developer" "contains Reviewer"
    "valid_instructions impl" "valid_instructions revw"
  shows "NewBuiltinDefinition impl revw (Some contains) = Inr (builtin_definition impl revw)"
proof -
  have loop: "foldE (add_stage contains) [planning_stage, implementation_stage impl, review_stage revw]
      \<lparr>df_initial = \<lparr>se_Stage = StageImplementation, se_Purpose = TurnPurposeInitialDevelopment\<rparr>,
       df_ordered = [], df_stages = fmempty\<rparr> = Inr (builtin_definition impl revw)"
    using assms
    by (simp add: add_planning_stage add_implementation_stage add_review_stage builtin_definition_def)
  have rel: "foldE (check_stage_relations (builtin_definition impl revw))
      [StagePlanning, StageImplementation, StageReview] () = Inr ()"
  proof -
    have "check_stage_relations (builtin_definition impl revw) sid () = Inr ()"
      if "sid \<in> {StagePlanning, StageImplementation, StageReview}" for sid
      using that by (auto simp: check_stage_relations_def) (simp_all add: builtin_stages check_relation_def)
    then show ?thesis by simp
  qed
  show ?thesis
    unfolding NewBuiltinDefinition_def NewDefinition_def
    using rel by (simp add: loop del: foldE.simps) (simp add: implementation_stage_def)
qed

lemma builtin_stage_graph: "stage_graph (builtin_definition impl revw)"
proof
  show "definition_Valid (builtin_definition impl revw)"
    by (simp add: definition_Valid_def builtin_definition_def fcard_finsert_if)
next
  fix sid st
  assume "Stage (builtin_definition impl revw) sid = Some st"
  then show "sd_ID st = sid \<and> wf_stage st"
    by (cases rule: builtin_Stage_cases)
      (simp_all add: builtin_stages wf_stage_def wf_transition_def transition_checks active_stage_state_def)
next
  show "\<exists>st. Stage (builtin_definition impl revw) (se_Stage (InitialEntry (builtin_definition impl revw))) = Some st
      \<and> sd_State st = StateDeveloping
      \<and> se_Purpose (InitialEntry (builtin_definition impl revw)) \<in> set (sd_AcceptedPurposes st)"
    by (simp add: Stage_def InitialEntry_def implementation_stage_def)
qed (auto simp: Transition_def Stage_def builtin_definition_def builtin_stages split: if_splits)

lemma builtin_role_policies:
  "ValidateRolePolicies (builtin_definition impl revw) builtin_policy_catalog = Inr ()"
proof -
  have "check_stage_policy (builtin_definition impl revw) builtin_policy_catalog sid () = Inr ()"
    if "sid \<in> {StagePlanning, StageImplementation, StageReview}" for sid
    using that
    by (auto simp: check_stage_policy_def policy_Lookup_def builtin_policy_catalog_def builtin_stages
        required_tools_def CredentialAuthorityForTool_def containsString_def planner_policy_def
        developer_policy_def reviewer_policy_def)
  moreover have "definition_Valid (builtin_definition impl revw)"
    by (rule stage_graph.valid_definition [OF builtin_stage_graph])
  ultimately show ?thesis by (simp add: ValidateRolePolicies_def)
qed

interpretation builtin: stage_graph "builtin_definition impl revw" for impl revw
  by (rule builtin_stage_graph)

section \<open>Properties\<close>

text \<open>A built Definition is closed. Whatever Stages \<open>NewDefinition\<close> accepts, every outcome
  transition of the Definition it returns either continues in a Stage that exists and accepts the
  purpose it hands over, or ends in PLAN_READY or PR_READY with a continuation Stage that exists,
  never both; no outcome of a Stage has two transitions; the Stages keep their order; and every
  Stage can be retried and reactivated, a reviewing one also re-synchronised.\<close>

theorem built_definition_closed:
  assumes "NewDefinition catalog initial stages = Inr d" "Stage d sid = Some st"
    "t \<in> set (sd_Transitions st)"
  shows "transition_successor t \<noteq> transition_terminal t
    \<and> (transition_successor t \<longrightarrow> (\<exists>target. Stage d (ot_NextStage t) = Some target
          \<and> AcceptsPurpose d (ot_NextStage t) (ot_NextPurpose t)))
    \<and> (transition_terminal t \<longrightarrow> ot_TerminalState t \<in> {StatePlanReady, StatePRReady}
          \<and> Stage d (ot_ContinuationStage t) \<noteq> None)
    \<and> Transition d sid (ot_Outcome t) = Some t
    \<and> StageIDs d = map sd_ID stages \<and> distinct (StageIDs d)
    \<and> AcceptsPurpose d sid TurnPurposeRetry \<and> AcceptsPurpose d sid TurnPurposeReactivation
    \<and> (sd_State st = StateReviewing \<longrightarrow> AcceptsPurpose d sid TurnPurposeSynchronization)"
proof -
  note graph = NewDefinition_stage_graph [OF assms(1)]
  have "distinct (df_ordered d)" "df_ordered d = map sd_ID stages"
    using NewDefinition_Inr(1,3) [OF assms(1)] by (simp_all add: stages_inv_def)
  with stage_graph.stage_transitions_closed [OF graph assms(2,3)]
    stage_graph.Transition_of [OF graph assms(2,3)] stage_graph.accepts_operational [OF graph assms(2)]
  show ?thesis by (simp add: StageIDs_def)
qed

theorem built_definition_closed_witness:
  "Stage (builtin_definition [] []) StageReview \<noteq> None
   \<and> AcceptsPurpose (builtin_definition [] []) StageReview TurnPurposeReview"
proof -
  have new: "NewDefinition (Some (\<lambda>_. True))
      \<lparr>se_Stage = StageImplementation, se_Purpose = TurnPurposeInitialDevelopment\<rparr>
      [planning_stage, implementation_stage [], review_stage []] = Inr (builtin_definition [] [])"
    using NewBuiltinDefinition_Inr [of "\<lambda>_. True" "[]" "[]"]
    by (simp add: NewBuiltinDefinition_def valid_instructions_def contains_nul_def go_simps)
  have stage: "Stage (builtin_definition [] []) StageImplementation = Some (implementation_stage [])"
    by (simp add: Stage_def)
  from built_definition_closed [OF new stage, of "hd (sd_Transitions (implementation_stage []))"]
  show ?thesis by (auto simp: builtin_stages transition_successor_def)
qed

text \<open>The built-in Definition. For instruction texts that are valid UTF-8 without NUL, the
  deployment's Definition is built, passes the check of its Stages against the built-in Role
  policies, and is the pipeline Developer to Reviewer with a separate Planner: an implementing
  Turn hands over to review, a review either returns to implementation or ends in PR_READY, both
  consuming one of the three review cycles, and planning ends in PLAN_READY without a
  successor.\<close>

theorem builtin_definition_pipeline:
  assumes "valid_instructions impl" "valid_instructions revw"
  shows "NewBuiltinDefinition impl revw (Some (\<lambda>r. r \<in> {Planner, Developer, Reviewer}))
      = Inr (builtin_definition impl revw)
    \<and> ValidateRolePolicies (builtin_definition impl revw) builtin_policy_catalog = Inr ()
    \<and> (Transition (builtin_definition impl revw) sid out = Some t \<longrightarrow>
        (sid, out, ot_NextStage t, ot_TerminalState t, ot_ConsumesReviewCycle t) \<in>
          {(StagePlanning, TurnOutcomePlanningReady, '''', StatePlanReady, False),
           (StageImplementation, TurnOutcomeChangeProposalReady, StageReview, NoState, False),
           (StageReview, TurnOutcomeChangesRequested, StageImplementation, NoState, True),
           (StageReview, TurnOutcomeApproved, '''', StatePRReady, True)})
    \<and> (Stage (builtin_definition impl revw) sid = Some st \<longrightarrow>
        (sid, sd_Role st, sd_State st, sd_ReviewLimit st) \<in>
          {(StagePlanning, Planner, StatePlanning, 0),
           (StageImplementation, Developer, StateDeveloping, 0),
           (StageReview, Reviewer, StateReviewing, 3)})"
proof (intro conjI impI)
  show "NewBuiltinDefinition impl revw (Some (\<lambda>r. r \<in> {Planner, Developer, Reviewer}))
      = Inr (builtin_definition impl revw)"
    by (rule NewBuiltinDefinition_Inr) (simp_all add: assms)
  show "ValidateRolePolicies (builtin_definition impl revw) builtin_policy_catalog = Inr ()"
    by (rule builtin_role_policies)
qed (auto simp: Transition_def Stage_def builtin_definition_def builtin_stages
  split: option.splits if_splits)

theorem builtin_definition_pipeline_witness:
  "ValidateRolePolicies (builtin_definition ''impl'' ''review'') builtin_policy_catalog = Inr ()"
  using builtin_definition_pipeline [of "''impl''" "''review''"]
  by (simp add: valid_instructions_def contains_nul_def go_simps)

end
