(* ===== verification/Workflow_Validation.thy ===== *)
theory Workflow_Validation
  imports Workflow_Definition
begin

text \<open>
  The checks that guard the reducer (\<open>internal/workflow/validation.go\<close>): which Events are well
  formed, which Snapshots are states a deployment can be in, and which kinds of Event a state
  accepts. A comparison that reads through a nil pointer is False here; \<open>validStateShape\<close> reads
  the current Attempt only in states for which \<open>validAttempt\<close>, checked before it, requires one
  (lemma \<open>validAttempt_required\<close>).
\<close>

section \<open>Events\<close>

fun eventDetails :: "event \<Rightarrow> (event_metadata \<times> event_kind) option" where
  "eventDetails (TriggerEvent e) = Some (te_EventMetadata e, EventKindTrigger)"
| "eventDetails (TurnSettledEvent e) = Some (ts_EventMetadata e, EventKindTurnSettled)"
| "eventDetails (TerminalIntentRevalidatedEvent e) =
     Some (ti_EventMetadata e, EventKindTerminalIntentRevalidated)"
| "eventDetails (TerminalRevalidationFailedEvent e) =
     Some (tf_EventMetadata e, EventKindTerminalRevalidationFailed)"
| "eventDetails (SynchronizationEvent e) = Some (sy_EventMetadata e, EventKindSynchronization)"
| "eventDetails (ReviewObservedEvent e) = Some (ro_EventMetadata e, EventKindReviewObserved)"
| "eventDetails (ChangeProposalObservedEvent e) =
     Some (po_EventMetadata e, EventKindChangeProposalObserved)"
| "eventDetails (IssueClosedEvent e) = Some (ic_EventMetadata e, EventKindIssueClosed)"
| "eventDetails (ClosureSettledEvent e) = Some (cs_EventMetadata e, EventKindClosureSettled)"
| "eventDetails (IssueReopenedEvent e) = Some (ir_EventMetadata e, EventKindIssueReopened)"
| "eventDetails (AssignmentsCollectedEvent e) =
     Some (ac_EventMetadata e, EventKindAssignmentsCollected)"
| "eventDetails (AssignmentConfigurationConflictEvent e) =
     Some (cc_EventMetadata e, EventKindAssignmentConfigurationConflict)"
| "eventDetails (AgentTurnPreparationFailedEvent e) =
     Some (pf_EventMetadata e, EventKindAgentTurnPreparationFailed)"
| "eventDetails (AgentTurnMutationReconciliationExhaustedEvent e) =
     Some (mx_EventMetadata e, EventKindAgentTurnMutationReconciliationExhausted)"
| "eventDetails (WorkflowActionExhaustedEvent e) =
     Some (wx_EventMetadata e, EventKindWorkflowActionExhausted)"
| "eventDetails UnlistedEvent = None"

definition EventMetadataOf :: "event \<Rightarrow> event_metadata option" where
  "EventMetadataOf e = map_option fst (eventDetails e)"

definition validWorkItem :: "work_item \<Rightarrow> bool" where
  "validWorkItem w \<longleftrightarrow> wi_RepositoryID w > 0 \<and> wi_IssueID w > 0 \<and> wi_IssueNumber w > 0"

fun validState :: "wf_state \<Rightarrow> bool" where
  "validState (StateOther _) = False"
| "validState _ = True"

definition validTurnGuard :: "wf_definition \<Rightarrow> turn_guard \<Rightarrow> bool" where
  "validTurnGuard d t \<longleftrightarrow>
     Stage d (tg_Stage t) \<noteq> None \<and> ContainsRole d (tg_Role t) \<and> tg_TurnID t \<noteq> ''''
     \<and> tg_SessionID t \<noteq> '''' \<and> tg_AttemptID t \<noteq> '''' \<and> tg_Epoch t > 0 \<and> tg_ControlRevision t > 0"

definition validChangeProposal :: "change_proposal option \<Rightarrow> bool" where
  "validChangeProposal proposal \<longleftrightarrow>
     (case proposal of
        None \<Rightarrow> False
      | Some p \<Rightarrow> cp_ID p > 0 \<and> cp_Number p > 0 \<and> cp_HeadSHA p \<noteq> '''' \<and> cp_Open p)"

definition validReview :: "review_identity option \<Rightarrow> bool" where
  "validReview review \<longleftrightarrow>
     (case review of
        None \<Rightarrow> False
      | Some r \<Rightarrow> rv_ID r > 0 \<and> rv_NodeID r \<noteq> '''' \<and> rv_ChangeProposalID r > 0 \<and> rv_ActorID r > 0
               \<and> rv_HeadSHA r \<noteq> '''')"

definition validPendingObservation :: "pending_events \<Rightarrow> bool" where
  "validPendingObservation p \<longleftrightarrow>
     (if pe_Count p = 0 then \<not> pe_RequiresReconciliation p \<and> pe_LatestObservedHeadSHA p = ''''
      else \<not> pe_RequiresReconciliation p \<or> pe_LatestObservedHeadSHA p \<noteq> '''')"

definition valid_trigger :: "wf_definition \<Rightarrow> trigger_event \<Rightarrow> bool" where
  "valid_trigger d e \<longleftrightarrow>
     te_AttemptID e \<noteq> '''' \<and> te_AttemptNumber e > 0
     \<and> (\<not> te_PriorTerminalControlBlocked e \<or> te_PriorTerminalTurnID e \<noteq> '''')
     \<and> ((te_PriorTerminalTurnID e = '''' \<and> te_PriorTerminalStage e = '''' \<and> te_PriorTerminalRole e = '''')
         \<or> (te_PriorTerminalTurnID e \<noteq> '''' \<and> te_PriorTerminalStage e \<noteq> ''''
             \<and> ContainsRole d (te_PriorTerminalRole e)))"

definition valid_turn_settled :: "wf_definition \<Rightarrow> turn_settled_event \<Rightarrow> bool" where
  "valid_turn_settled d e \<longleftrightarrow>
     (if \<not> validTurnGuard d (ts_Turn e) \<or> \<not> validPendingObservation (ts_PendingEvents e)
         \<or> (case ts_PublicationAssociation e of
              None \<Rightarrow> False
            | Some p \<Rightarrow> \<not> validChangeProposal (Some p) \<or> cp_ReadyForSHA p \<noteq> ''''
                      \<or> tg_ChangeProposalID (ts_Turn e) \<noteq> 0 \<or> tg_Role (ts_Turn e) \<noteq> Developer)
      then False
      else case ts_Outcome e of
        TurnOutcomePlanningReady \<Rightarrow>
          ts_CorroborationHandoffReason e = NoReason \<and> tg_Role (ts_Turn e) = Planner
          \<and> ts_ChangeProposal e = None \<and> ts_Review e = None \<and> ts_ExistingReview e = None
      | TurnOutcomeChangeProposalReady \<Rightarrow>
          ts_CorroborationHandoffReason e = NoReason \<and> validChangeProposal (ts_ChangeProposal e)
          \<and> ts_Review e = None \<and> ts_ExistingReview e = None
      | TurnOutcomeChangesRequested \<Rightarrow>
          ts_CorroborationHandoffReason e = NoReason \<and> ts_AuthorizedReviewerActorID e > 0
          \<and> validChangeProposal (ts_ChangeProposal e) \<and> validReview (ts_Review e)
          \<and> (ts_ExistingReview e = None \<or> validReview (ts_ExistingReview e))
      | TurnOutcomeApproved \<Rightarrow>
          ts_CorroborationHandoffReason e = NoReason \<and> ts_AuthorizedReviewerActorID e > 0
          \<and> validChangeProposal (ts_ChangeProposal e) \<and> validReview (ts_Review e)
          \<and> (ts_ExistingReview e = None \<or> validReview (ts_ExistingReview e))
      | TurnOutcomeClarificationWait \<Rightarrow>
          ts_CorroborationHandoffReason e = NoReason
          \<and> (case ts_ChangeProposal e of
               None \<Rightarrow> True
             | Some p \<Rightarrow> validChangeProposal (Some p) \<and> cp_ReadyForSHA p = '''')
          \<and> ts_Review e = None \<and> ts_ExistingReview e = None
      | TurnOutcomeBlocked \<Rightarrow>
          ts_CorroborationHandoffReason e = NoReason
          \<and> ts_ChangeProposal e = None \<and> ts_Review e = None \<and> ts_ExistingReview e = None
      | TurnOutcomePrerequisiteFailed \<Rightarrow>
          ts_CorroborationHandoffReason e = NoReason
          \<and> ts_ChangeProposal e = None \<and> ts_Review e = None \<and> ts_ExistingReview e = None
      | TurnOutcomeInfrastructureFailed \<Rightarrow>
          (ts_CorroborationHandoffReason e = NoReason
            \<or> ts_CorroborationHandoffReason e = ReasonTerminalCorroborationExhausted
            \<or> ts_CorroborationHandoffReason e = ReasonTerminalCorroborationPrerequisite)
          \<and> ts_ChangeProposal e = None \<and> ts_Review e = None \<and> ts_ExistingReview e = None
      | TurnOutcomeOther _ \<Rightarrow> False)"

definition valid_terminal_intent :: "wf_definition \<Rightarrow> terminal_intent_revalidated_event \<Rightarrow> bool" where
  "valid_terminal_intent d e \<longleftrightarrow>
     (if ti_AttemptID e = '''' \<or> \<not> validTurnGuard d (ti_SourceTurn e)
         \<or> tg_AttemptID (ti_SourceTurn e) = ti_AttemptID e
      then False
      else case ti_Outcome e of
        TurnOutcomeClarificationWait \<Rightarrow>
          ti_ChangeProposal e = None \<and> ti_Review e = None \<and> ti_ExistingReview e = None
      | TurnOutcomeChangeProposalReady \<Rightarrow>
          validChangeProposal (ti_ChangeProposal e) \<and> ti_Review e = None \<and> ti_ExistingReview e = None
      | TurnOutcomeChangesRequested \<Rightarrow>
          validChangeProposal (ti_ChangeProposal e) \<and> validReview (ti_Review e)
          \<and> ti_AuthorizedReviewerActorID e > 0
          \<and> (ti_ExistingReview e = None \<or> validReview (ti_ExistingReview e))
      | TurnOutcomeApproved \<Rightarrow>
          validChangeProposal (ti_ChangeProposal e) \<and> validReview (ti_Review e)
          \<and> ti_AuthorizedReviewerActorID e > 0
          \<and> (ti_ExistingReview e = None \<or> validReview (ti_ExistingReview e))
      | _ \<Rightarrow> False)"

fun valid_event_body :: "wf_definition \<Rightarrow> event_metadata \<Rightarrow> event \<Rightarrow> bool" where
  "valid_event_body d m (TriggerEvent e) = valid_trigger d e"
| "valid_event_body d m (TurnSettledEvent e) = valid_turn_settled d e"
| "valid_event_body d m (TerminalIntentRevalidatedEvent e) = valid_terminal_intent d e"
| "valid_event_body d m (TerminalRevalidationFailedEvent e) \<longleftrightarrow>
     tf_AttemptID e \<noteq> '''' \<and> tf_SourceTurnID e \<noteq> '''' \<and> tf_Diagnostic e \<noteq> ''''
     \<and> (tf_Reason e = ReasonTerminalCorroborationExhausted
         \<or> tf_Reason e = ReasonTerminalCorroborationPrerequisite)"
| "valid_event_body d m (SynchronizationEvent e) \<longleftrightarrow>
     sy_ChangeProposalID e > 0 \<and> sy_PreviousHeadSHA e \<noteq> '''' \<and> sy_HeadSHA e \<noteq> ''''"
| "valid_event_body d m (ReviewObservedEvent e) = validReview (Some (ro_Review e))"
| "valid_event_body d m (ChangeProposalObservedEvent e) = validChangeProposal (Some (po_ChangeProposal e))"
| "valid_event_body d m (IssueClosedEvent e) \<longleftrightarrow>
     ic_ClosureID e \<noteq> '''' \<and> ic_RetentionToken e \<noteq> '''' \<and> ic_RetainUntil e > em_ObservedAt m"
| "valid_event_body d m (ClosureSettledEvent e) \<longleftrightarrow>
     cs_ClosureID e \<noteq> '''' \<and> (case cs_Turn e of None \<Rightarrow> True | Some t \<Rightarrow> validTurnGuard d t)"
| "valid_event_body d m (IssueReopenedEvent e) = True"
| "valid_event_body d m (AssignmentsCollectedEvent e) \<longleftrightarrow>
     ac_RetentionToken e \<noteq> '''' \<and> \<not> is_zero_time (ac_RetainUntil e) \<and> \<not> is_zero_time (ac_CollectedAt e)"
| "valid_event_body d m (AssignmentConfigurationConflictEvent e) = ContainsRole d (cc_Role e)"
| "valid_event_body d m (AgentTurnPreparationFailedEvent e) \<longleftrightarrow>
     ContainsRole d (pf_Role e) \<and> pf_Diagnostic e \<noteq> ''''"
| "valid_event_body d m (AgentTurnMutationReconciliationExhaustedEvent e) \<longleftrightarrow>
     ContainsRole d (mx_Role e) \<and> mx_Diagnostic e \<noteq> ''''"
| "valid_event_body d m (WorkflowActionExhaustedEvent e) \<longleftrightarrow>
     (wx_ResumeRole e = '''' \<or> ContainsRole d (wx_ResumeRole e)) \<and> wx_Diagnostic e \<noteq> ''''"
| "valid_event_body d m UnlistedEvent = False"

definition validEvent :: "wf_definition \<Rightarrow> event \<Rightarrow> event_metadata \<Rightarrow> bool" where
  "validEvent d e m \<longleftrightarrow>
     em_ID m \<noteq> '''' \<and> \<not> is_zero_time (em_ObservedAt m) \<and> validWorkItem (em_WorkItem m)
     \<and> valid_event_body d m e"

section \<open>Snapshots\<close>

definition validAssignments :: "snapshot \<Rightarrow> bool" where
  "validAssignments s \<longleftrightarrow>
     (let a = sn_Assignments s;
          unretained = is_zero_time (as_RetainedUntil a) \<and> as_RetentionToken a = ''''
      in case sn_State s of
        StatePlanning \<Rightarrow> as_Status a = AssignmentActive \<and> as_RuntimeState a = RuntimeStateActive \<and> unretained
      | StatePlanReady \<Rightarrow> as_Status a = AssignmentActive \<and> as_RuntimeState a = RuntimeStateActive \<and> unretained
      | StateDeveloping \<Rightarrow> as_Status a = AssignmentActive \<and> as_RuntimeState a = RuntimeStateActive \<and> unretained
      | StateReviewing \<Rightarrow> as_Status a = AssignmentActive \<and> as_RuntimeState a = RuntimeStateActive \<and> unretained
      | StatePRReady \<Rightarrow> as_Status a = AssignmentActive \<and> as_RuntimeState a = RuntimeStateActive \<and> unretained
      | StateNeedsHuman \<Rightarrow>
          as_Status a = AssignmentWaitingForHuman
          \<and> (as_RuntimeState a = RuntimeStateActive \<or> as_RuntimeState a = RuntimeStateCollected) \<and> unretained
      | StateClosing \<Rightarrow>
          if as_Status a = AssignmentActive \<or> as_Status a = AssignmentWaitingForHuman
          then sn_CurrentAttempt s \<noteq> None
               \<and> (as_RuntimeState a = RuntimeStateActive
                   \<or> (as_Status a = AssignmentWaitingForHuman \<and> as_RuntimeState a = RuntimeStateCollected))
               \<and> unretained
          else as_Status a = AssignmentCompleted \<and> sn_CurrentAttempt s = None
               \<and> (as_RuntimeState a = RuntimeStateRetained \<or> as_RuntimeState a = RuntimeStateCollected)
               \<and> unretained
      | StateClosed \<Rightarrow>
          as_Status a = AssignmentCompleted
          \<and> ((as_RuntimeState a = RuntimeStateRetained \<and> \<not> is_zero_time (as_RetainedUntil a)
                \<and> as_RetentionToken a \<noteq> '''')
             \<or> (as_RuntimeState a = RuntimeStateCollected \<and> unretained))
      | StateDormant \<Rightarrow>
          as_Status a = AssignmentCompleted
          \<and> (as_RuntimeState a = RuntimeStateRetained \<or> as_RuntimeState a = RuntimeStateCollected)
          \<and> unretained
      | _ \<Rightarrow> False)"

definition attempt_required :: "wf_state \<Rightarrow> bool" where
  "attempt_required st \<longleftrightarrow>
     st = StatePlanning \<or> st = StatePlanReady \<or> st = StateDeveloping \<or> st = StateReviewing
     \<or> st = StatePRReady \<or> st = StateNeedsHuman"

definition usage_exceeds :: "wf_definition \<Rightarrow> stage_id \<Rightarrow> u8 \<Rightarrow> bool" where
  "usage_exceeds d sid used \<longleftrightarrow>
     (case Stage d sid of
        None \<Rightarrow> True
      | Some configured \<Rightarrow> sd_ReviewLimit configured = 0 \<or> used > sd_ReviewLimit configured)"

definition validAttempt :: "wf_definition \<Rightarrow> u8 \<Rightarrow> snapshot \<Rightarrow> bool" where
  "validAttempt d infrastructureRetryLimit s \<longleftrightarrow>
     (let required = attempt_required (sn_State s) in
      case sn_CurrentAttempt s of
        None \<Rightarrow> \<not> required \<and> sn_LastAttemptNumber s > 0
      | Some attempt \<Rightarrow>
          (required \<or> sn_State s = StateClosing)
          \<and> (case Stage d (at_CurrentStage attempt) of
               None \<Rightarrow> False
             | Some stage \<Rightarrow>
                 at_ID attempt \<noteq> '''' \<and> at_Number attempt \<noteq> 0 \<and> \<not> is_zero_time (at_StartedAt attempt)
                 \<and> at_Lifecycle attempt = AttemptActive
                 \<and> ab_Limit (at_InfrastructureRetryBudget attempt) = infrastructureRetryLimit
                 \<and> ab_Used (at_InfrastructureRetryBudget attempt)
                     \<le> ab_Limit (at_InfrastructureRetryBudget attempt)
                 \<and> \<not> fmap_any (usage_exceeds d) (at_ReviewUsage attempt)
                 \<and> at_Number attempt = sn_LastAttemptNumber s
                 \<and> (sn_State s \<noteq> StateReviewing \<or> sd_ReviewLimit stage = 0
                     \<or> fm_get 0 (at_ReviewUsage attempt) (at_CurrentStage attempt) < sd_ReviewLimit stage)))"

definition validActiveStageState :: "wf_definition \<Rightarrow> snapshot \<Rightarrow> bool" where
  "validActiveStageState d s \<longleftrightarrow>
     (case sn_CurrentAttempt s of
        None \<Rightarrow> False
      | Some attempt \<Rightarrow>
          (case Stage d (at_CurrentStage attempt) of
             None \<Rightarrow> False
           | Some stage \<Rightarrow> sd_State stage = sn_State s))"

definition validOptionalActiveTurn :: "wf_definition \<Rightarrow> snapshot \<Rightarrow> bool" where
  "validOptionalActiveTurn d s \<longleftrightarrow>
     (case sn_ActiveTurn s of
        None \<Rightarrow> True
      | Some turn \<Rightarrow>
          (case sn_CurrentAttempt s of
             None \<Rightarrow> False
           | Some attempt \<Rightarrow>
               (case Stage d (at_CurrentStage attempt) of
                  None \<Rightarrow> False
                | Some stage \<Rightarrow>
                    tn_ID turn \<noteq> '''' \<and> tn_SessionID turn \<noteq> '''' \<and> tn_AttemptID turn = at_ID attempt
                    \<and> tn_Stage turn = sd_ID stage \<and> tn_Role turn = sd_Role stage
                    \<and> tn_Epoch turn \<noteq> 0 \<and> tn_ControlRevision turn \<noteq> 0
                    \<and> (case sn_ChangeProposal s of
                         None \<Rightarrow> tn_ChangeProposalID turn = 0 \<and> tn_ExpectedHeadSHA turn = ''''
                       | Some p \<Rightarrow> tn_ChangeProposalID turn = cp_ID p \<and> tn_ExpectedHeadSHA turn = cp_HeadSHA p))))"

definition validClosingTurn :: "snapshot \<Rightarrow> bool" where
  "validClosingTurn s \<longleftrightarrow>
     (case sn_ActiveTurn s of
        None \<Rightarrow> True
      | Some turn \<Rightarrow>
          (case sn_CurrentAttempt s of
             None \<Rightarrow> False
           | Some attempt \<Rightarrow>
               tn_ID turn \<noteq> '''' \<and> tn_SessionID turn \<noteq> '''' \<and> tn_AttemptID turn = at_ID attempt
               \<and> tn_Stage turn = at_CurrentStage attempt \<and> tn_Epoch turn > 0 \<and> tn_ControlRevision turn > 0))"

definition attempt_stage_exists :: "wf_definition \<Rightarrow> snapshot \<Rightarrow> bool" where
  "attempt_stage_exists d s \<longleftrightarrow>
     (case sn_CurrentAttempt s of None \<Rightarrow> False | Some a \<Rightarrow> Stage d (at_CurrentStage a) \<noteq> None)"

definition validStateShape :: "wf_definition \<Rightarrow> snapshot \<Rightarrow> bool" where
  "validStateShape d s \<longleftrightarrow>
     (case sn_State s of
        StateDormant \<Rightarrow> sn_CurrentAttempt s = None \<and> sn_ActiveTurn s = None \<and> sn_Closure s = None
      | StateClosed \<Rightarrow> sn_CurrentAttempt s = None \<and> sn_ActiveTurn s = None \<and> sn_Closure s = None
      | StatePlanning \<Rightarrow>
          sn_Closure s = None \<and> validActiveStageState d s \<and> validOptionalActiveTurn d s
      | StateDeveloping \<Rightarrow>
          sn_Closure s = None \<and> validActiveStageState d s \<and> validOptionalActiveTurn d s
      | StateReviewing \<Rightarrow>
          sn_Closure s = None \<and> validChangeProposal (sn_ChangeProposal s)
          \<and> validActiveStageState d s \<and> validOptionalActiveTurn d s
      | StatePlanReady \<Rightarrow>
          sn_PlanningOnly s
          \<and> (case sn_CurrentAttempt s of None \<Rightarrow> False | Some a \<Rightarrow> at_CurrentStage a = StagePlanning)
          \<and> sn_Closure s = None \<and> sn_ActiveTurn s = None \<and> sn_ChangeProposal s = None
      | StatePRReady \<Rightarrow>
          attempt_stage_exists d s \<and> sn_Closure s = None \<and> sn_ActiveTurn s = None
          \<and> (case sn_ChangeProposal s of
               None \<Rightarrow> False
             | Some p \<Rightarrow> validChangeProposal (Some p) \<and> cp_ReadyForSHA p = cp_HeadSHA p)
      | StateNeedsHuman \<Rightarrow>
          attempt_stage_exists d s \<and> sn_Closure s = None \<and> sn_ActiveTurn s = None
      | StateClosing \<Rightarrow>
          (case sn_Closure s of
             None \<Rightarrow> False
           | Some c \<Rightarrow> cl_ID c \<noteq> '''' \<and> cl_RetentionToken c \<noteq> '''' \<and> \<not> is_zero_time (cl_RetainUntil c))
          \<and> validClosingTurn s
      | _ \<Rightarrow> False)"

text \<open>A Snapshot and its current Attempt agree on whether the Work Item is planning only, and a
  planning-only one has no Change Proposal.\<close>

definition planning_consistent :: "snapshot \<Rightarrow> bool" where
  "planning_consistent s \<longleftrightarrow>
     \<not> (sn_PlanningOnly s
         \<and> (sn_ChangeProposal s \<noteq> None
             \<or> (case sn_CurrentAttempt s of None \<Rightarrow> False | Some a \<Rightarrow> at_CurrentStage a \<noteq> StagePlanning)))
     \<and> \<not> (\<not> sn_PlanningOnly s
         \<and> (case sn_CurrentAttempt s of None \<Rightarrow> False | Some a \<Rightarrow> at_CurrentStage a = StagePlanning))"

definition ready_only_when_ready :: "snapshot \<Rightarrow> bool" where
  "ready_only_when_ready s \<longleftrightarrow>
     \<not> (case sn_ChangeProposal s of
          None \<Rightarrow> False
        | Some p \<Rightarrow> sn_State s \<noteq> StatePRReady \<and> cp_ReadyForSHA p \<noteq> '''')"

definition validSnapshot :: "wf_definition \<Rightarrow> u8 \<Rightarrow> snapshot \<Rightarrow> bool" where
  "validSnapshot d infrastructureRetryLimit s \<longleftrightarrow>
     (if \<not> validState (sn_State s) then False
      else if sn_State s = StateAbsent then s = absent_snapshot
      else if \<not> validWorkItem (sn_WorkItem s) \<or> \<not> validAssignments s
              \<or> \<not> validAttempt d infrastructureRetryLimit s \<or> \<not> validStateShape d s then False
      else if \<not> planning_consistent s then False
      else if sn_ResumeRole s \<noteq> '''' \<and> \<not> ContainsRole d (sn_ResumeRole s) then False
      else ready_only_when_ready s)"

section \<open>Legality of an event kind in a state\<close>

definition legalInState :: "wf_state \<Rightarrow> event_kind \<Rightarrow> bool" where
  "legalInState st k \<longleftrightarrow>
     (case k of
        EventKindTrigger \<Rightarrow> st \<in> {StateAbsent, StateDormant, StatePRReady, StateNeedsHuman}
      | EventKindTurnSettled \<Rightarrow> st \<in> {StatePlanning, StateDeveloping, StateReviewing}
      | EventKindSynchronization \<Rightarrow>
          st \<in> {StatePlanning, StateDeveloping, StateReviewing, StatePRReady, StateNeedsHuman}
      | EventKindReviewObserved \<Rightarrow> st \<in> {StatePlanning, StateDeveloping, StateReviewing}
      | EventKindChangeProposalObserved \<Rightarrow> st \<in> {StatePlanning, StateDeveloping, StateReviewing}
      | EventKindIssueClosed \<Rightarrow>
          st \<in> {StatePlanning, StatePlanReady, StateDormant, StateDeveloping, StateReviewing,
                StatePRReady, StateNeedsHuman}
      | EventKindClosureSettled \<Rightarrow> st = StateClosing
      | EventKindIssueReopened \<Rightarrow>
          st \<in> {StatePlanning, StateDeveloping, StateReviewing, StateClosing, StateClosed}
      | EventKindAssignmentsCollected \<Rightarrow> st \<in> {StateClosed, StateDormant}
      | EventKindAssignmentConfigurationConflict \<Rightarrow>
          st \<in> {StatePlanning, StateDeveloping, StateReviewing}
      | EventKindAgentTurnPreparationFailed \<Rightarrow> st \<in> {StatePlanning, StateDeveloping, StateReviewing}
      | EventKindAgentTurnMutationReconciliationExhausted \<Rightarrow>
          st \<in> {StatePlanning, StateDeveloping, StateReviewing}
      | EventKindWorkflowActionExhausted \<Rightarrow>
          st \<in> {StatePlanReady, StatePlanning, StateDeveloping, StateReviewing, StatePRReady, StateNeedsHuman}
      | EventKindTerminalIntentRevalidated \<Rightarrow> False
      | EventKindTerminalRevalidationFailed \<Rightarrow> False)"

section \<open>What a valid Snapshot guarantees\<close>

lemma validAttempt_required:
  assumes "validAttempt d l s" "attempt_required (sn_State s)"
  shows "\<exists>a. sn_CurrentAttempt s = Some a"
  using assms by (auto simp: validAttempt_def Let_def split: option.splits)

lemma validSnapshot_absent [simp]: "validSnapshot d l absent_snapshot"
  by (simp add: validSnapshot_def absent_snapshot_def)

lemma validSnapshotD:
  assumes "validSnapshot d l s" "sn_State s \<noteq> StateAbsent"
  shows "validState (sn_State s)" "validWorkItem (sn_WorkItem s)" "validAssignments s" "validAttempt d l s"
    "validStateShape d s" "planning_consistent s"
    "sn_ResumeRole s \<noteq> '''' \<Longrightarrow> ContainsRole d (sn_ResumeRole s)" "ready_only_when_ready s"
  using assms by (simp_all add: validSnapshot_def split: if_split_asm)

lemma validSnapshotI:
  assumes "validState (sn_State s)" "sn_State s \<noteq> StateAbsent" "validWorkItem (sn_WorkItem s)"
    "validAssignments s" "validAttempt d l s" "validStateShape d s" "planning_consistent s"
    "sn_ResumeRole s \<noteq> '''' \<Longrightarrow> ContainsRole d (sn_ResumeRole s)" "ready_only_when_ready s"
  shows "validSnapshot d l s"
  using assms by (auto simp: validSnapshot_def)

lemma shape_closing:
  assumes "validSnapshot d l s" "sn_State s = StateClosing"
  obtains c where "sn_Closure s = Some c" "cl_ID c \<noteq> ''''" "cl_RetentionToken c \<noteq> ''''"
    "\<not> is_zero_time (cl_RetainUntil c)" "validClosingTurn s"
  using validSnapshotD(5) [OF assms(1)] assms(2) by (auto simp: validStateShape_def split: option.split_asm)

lemma shape_turn_state:
  assumes "validSnapshot d l s" "sn_State s \<in> {StatePlanning, StateDeveloping, StateReviewing}"
  obtains a stage where "sn_CurrentAttempt s = Some a" "Stage d (at_CurrentStage a) = Some stage"
    "sd_State stage = sn_State s" "sn_Closure s = None" "validOptionalActiveTurn d s"
    "sn_State s = StateReviewing \<Longrightarrow> validChangeProposal (sn_ChangeProposal s)"
proof -
  have "sn_State s \<noteq> StateAbsent" using assms(2) by auto
  from validSnapshotD(5) [OF assms(1) this] assms(2)
  have shape: "validActiveStageState d s" "validOptionalActiveTurn d s" "sn_Closure s = None"
    "sn_State s = StateReviewing \<Longrightarrow> validChangeProposal (sn_ChangeProposal s)"
    by (auto simp: validStateShape_def)
  from shape(1) obtain a stage where "sn_CurrentAttempt s = Some a"
    "Stage d (at_CurrentStage a) = Some stage" "sd_State stage = sn_State s"
    by (auto simp: validActiveStageState_def split: option.split_asm)
  with that shape show ?thesis by blast
qed

lemma shape_attempt_stage:
  assumes "validSnapshot d l s" "sn_CurrentAttempt s = Some a"
  obtains stage where "Stage d (at_CurrentStage a) = Some stage" "at_Number a = sn_LastAttemptNumber s"
    "at_ID a \<noteq> ''''" "at_Number a \<noteq> 0" "\<not> is_zero_time (at_StartedAt a)" "at_Lifecycle a = AttemptActive"
    "ab_Limit (at_InfrastructureRetryBudget a) = l"
    "ab_Used (at_InfrastructureRetryBudget a) \<le> ab_Limit (at_InfrastructureRetryBudget a)"
    "\<not> fmap_any (usage_exceeds d) (at_ReviewUsage a)"
    "sn_State s = StateReviewing \<Longrightarrow> sd_ReviewLimit stage = 0
       \<or> fm_get 0 (at_ReviewUsage a) (at_CurrentStage a) < sd_ReviewLimit stage"
proof -
  have "sn_State s \<noteq> StateAbsent"
    using assms by (auto simp: validSnapshot_def absent_snapshot_def)
  from validSnapshotD(4) [OF assms(1) this] assms(2) that show ?thesis
    by (auto simp: validAttempt_def Let_def split: option.split_asm)
qed

lemma shape_active_turn:
  assumes "validSnapshot d l s" "sn_State s \<in> {StatePlanning, StateDeveloping, StateReviewing}"
    "sn_ActiveTurn s = Some turn" "sn_CurrentAttempt s = Some a" "Stage d (at_CurrentStage a) = Some stage"
  shows "tn_AttemptID turn = at_ID a" "tn_Stage turn = sd_ID stage" "tn_Role turn = sd_Role stage"
    "tn_ChangeProposalID turn = (case sn_ChangeProposal s of None \<Rightarrow> 0 | Some p \<Rightarrow> cp_ID p)"
    "tn_ExpectedHeadSHA turn = (case sn_ChangeProposal s of None \<Rightarrow> '''' | Some p \<Rightarrow> cp_HeadSHA p)"
proof -
  obtain a' stage' where "validOptionalActiveTurn d s"
    by (rule shape_turn_state [OF assms(1,2)])
  with assms(3-5) show "tn_AttemptID turn = at_ID a" "tn_Stage turn = sd_ID stage" "tn_Role turn = sd_Role stage"
    "tn_ChangeProposalID turn = (case sn_ChangeProposal s of None \<Rightarrow> 0 | Some p \<Rightarrow> cp_ID p)"
    "tn_ExpectedHeadSHA turn = (case sn_ChangeProposal s of None \<Rightarrow> '''' | Some p \<Rightarrow> cp_HeadSHA p)"
    by (auto simp: validOptionalActiveTurn_def split: option.split_asm option.split)
qed

lemma shape_pr_ready:
  assumes "validSnapshot d l s" "sn_State s = StatePRReady"
  obtains p where "sn_ChangeProposal s = Some p" "validChangeProposal (Some p)" "cp_ReadyForSHA p = cp_HeadSHA p"
    "sn_ActiveTurn s = None"
  using validSnapshotD(5) [OF assms(1)] assms(2) by (auto simp: validStateShape_def split: option.split_asm)

lemma shape_not_ready:
  assumes "validSnapshot d l s" "sn_State s \<noteq> StatePRReady" "sn_ChangeProposal s = Some p"
  shows "cp_ReadyForSHA p = ''''"
proof -
  have "sn_State s \<noteq> StateAbsent"
    using assms by (auto simp: validSnapshot_def absent_snapshot_def)
  from validSnapshotD(8) [OF assms(1) this] assms(2,3) show ?thesis by (simp add: ready_only_when_ready_def)
qed

lemma shape_planning:
  assumes "validSnapshot d l s" "sn_CurrentAttempt s = Some a"
  shows "sn_PlanningOnly s \<longleftrightarrow> at_CurrentStage a = StagePlanning"
    and "sn_PlanningOnly s \<Longrightarrow> sn_ChangeProposal s = None"
proof -
  have "sn_State s \<noteq> StateAbsent"
    using assms by (auto simp: validSnapshot_def absent_snapshot_def)
  from validSnapshotD(6) [OF assms(1) this] assms(2)
  show "sn_PlanningOnly s \<longleftrightarrow> at_CurrentStage a = StagePlanning"
    and "sn_PlanningOnly s \<Longrightarrow> sn_ChangeProposal s = None"
    by (auto simp: planning_consistent_def)
qed

end
