(* ===== verification/Workflow_Reducer.thy ===== *)
theory Workflow_Reducer
  imports Workflow_Validation "HOL-Library.Monad_Syntax"
begin

text \<open>
  The Workflow reducer (\<open>internal/workflow/reducer.go\<close>): one handler per Event, composed by
  \<open>dispatch\<close> and \<open>Reduce\<close>. A handler that follows a pointer returns an \<open>option\<close>: \<open>None\<close> is
  the panic of a nil dereference, so that the absence of panics is a theorem and not a
  convention. \<open>next\<close> of the source is \<open>nxt\<close>; assignments to it are record updates in the order
  of the source. Revisions are 64-bit words, so \<open>Revision++\<close> wraps as in Go.
\<close>

section \<open>Reducers\<close>

record reducer =
  rd_definition :: wf_definition
  rd_infrastructureRetryLimit :: u8

definition NewReducer :: "wf_definition \<Rightarrow> u8 \<Rightarrow> reducer option" where
  "NewReducer d infrastructureRetryLimit =
     (if \<not> definition_Valid d \<or> infrastructureRetryLimit = 0 then None
      else Some \<lparr>rd_definition = d, rd_infrastructureRetryLimit = infrastructureRetryLimit\<rparr>)"

definition reducer_Valid :: "reducer \<Rightarrow> bool" where
  "reducer_Valid r \<longleftrightarrow> definition_Valid (rd_definition r) \<and> rd_infrastructureRetryLimit r > 0"

text \<open>The zero values the source reads when it ignores the second result of a lookup.\<close>

definition zero_stage :: stage_definition where
  "zero_stage =
     \<lparr>sd_ID = '''', sd_Role = '''', sd_State = NoState, sd_AcceptedPurposes = [], sd_Transitions = [],
      sd_ReviewLimit = 0, sd_Instructions = '''', sd_PurposeInstructions = fmempty\<rparr>"

definition stage_or_zero :: "wf_definition \<Rightarrow> stage_id \<Rightarrow> stage_definition" where
  "stage_or_zero d sid = (case Stage d sid of None \<Rightarrow> zero_stage | Some st \<Rightarrow> st)"

definition transition_or_zero :: "wf_definition \<Rightarrow> stage_id \<Rightarrow> turn_outcome \<Rightarrow> outcome_transition" where
  "transition_or_zero d sid out =
     (case Transition d sid out of
        None \<Rightarrow> no_transition (TurnOutcomeOther '''')
      | Some t \<Rightarrow> t)"

definition turn_state :: "wf_state \<Rightarrow> bool" where
  "turn_state st \<longleftrightarrow> st = StatePlanning \<or> st = StateDeveloping \<or> st = StateReviewing"

text \<open>\<open>cloneSnapshot\<close> copies every pointed-to value, so on values it is the identity; the copy is
  what makes an update of \<open>next\<close> invisible in \<open>snapshot\<close>, which value semantics gives here.\<close>

definition cloneSnapshot :: "snapshot \<Rightarrow> snapshot" where
  "cloneSnapshot s =
     s\<lparr>sn_CurrentAttempt := map_option (\<lambda>a. a\<lparr>at_ReviewUsage := at_ReviewUsage a\<rparr>) (sn_CurrentAttempt s),
       sn_ChangeProposal := map_option (\<lambda>p. p) (sn_ChangeProposal s),
       sn_ActiveTurn := map_option (\<lambda>t. t) (sn_ActiveTurn s),
       sn_Closure := map_option (\<lambda>c. c) (sn_Closure s)\<rparr>"

lemma cloneSnapshot_id [simp]: "cloneSnapshot s = s"
  by (simp add: cloneSnapshot_def option.map_ident)

section \<open>Turns, pending events and handoffs\<close>

definition turnMatches :: "active_turn \<Rightarrow> turn_guard \<Rightarrow> bool" where
  "turnMatches t g \<longleftrightarrow>
     tn_ID t = tg_TurnID g \<and> tn_SessionID t = tg_SessionID g \<and> tn_AttemptID t = tg_AttemptID g
     \<and> tn_Stage t = tg_Stage g \<and> tn_Role t = tg_Role g \<and> tn_Epoch t = tg_Epoch g
     \<and> tn_ControlRevision t = tg_ControlRevision g \<and> tn_ChangeProposalID t = tg_ChangeProposalID g
     \<and> tn_ExpectedHeadSHA t = tg_ExpectedHeadSHA g"

definition guardFromTurn :: "active_turn \<Rightarrow> turn_guard" where
  "guardFromTurn t =
     \<lparr>tg_RetryOfTurnID = '''', tg_TurnID = tn_ID t, tg_SessionID = tn_SessionID t,
      tg_AttemptID = tn_AttemptID t, tg_Stage = tn_Stage t, tg_Role = tn_Role t,
      tg_Epoch = tn_Epoch t, tg_ControlRevision = tn_ControlRevision t,
      tg_ChangeProposalID = tn_ChangeProposalID t, tg_ExpectedHeadSHA = tn_ExpectedHeadSHA t\<rparr>"

definition pendingRequiresReconciliation :: "pending_events \<Rightarrow> bool" where
  "pendingRequiresReconciliation p \<longleftrightarrow> pe_Count p > 0"

definition reconcilePendingAction :: "turn_guard \<Rightarrow> pending_events \<Rightarrow> enqueue_turn \<Rightarrow> wf_action" where
  "reconcilePendingAction sourceTurn p fallback =
     ReconcilePendingEventsAction
       \<lparr>rp_SourceTurn = sourceTurn, rp_Count = pe_Count p,
        rp_LatestObservedHeadSHA = pe_LatestObservedHeadSHA p,
        rp_FallbackRole = eq_Role fallback, rp_FallbackStage = eq_Stage fallback,
        rp_FallbackPurpose = eq_Purpose fallback, rp_FallbackExpectedHead = eq_ExpectedHeadSHA fallback,
        rp_RetryOfTurnID = eq_RetryOfTurnID fallback\<rparr>"

definition zero_enqueue :: enqueue_turn where
  "zero_enqueue =
     \<lparr>eq_Stage = '''', eq_Role = '''', eq_Purpose = NoPurpose, eq_ExpectedHeadSHA = '''', eq_RetryOfTurnID = ''''\<rparr>"

definition enqueue :: "stage_id \<Rightarrow> role_id \<Rightarrow> turn_purpose \<Rightarrow> string \<Rightarrow> enqueue_turn" where
  "enqueue sid r p head =
     \<lparr>eq_Stage = sid, eq_Role = r, eq_Purpose = p, eq_ExpectedHeadSHA = head, eq_RetryOfTurnID = ''''\<rparr>"

definition successorActions :: "turn_guard \<Rightarrow> pending_events \<Rightarrow> enqueue_turn \<Rightarrow> wf_action list" where
  "successorActions sourceTurn p intent =
     (if pendingRequiresReconciliation p then [reconcilePendingAction sourceTurn p intent]
      else [EnqueueTurnAction intent])"

text \<open>The four handoff branches of a settled Turn prepend the pending events, if any.\<close>

definition with_pending :: "turn_guard \<Rightarrow> pending_events \<Rightarrow> wf_action list \<Rightarrow> wf_action list" where
  "with_pending sourceTurn p acts =
     (if pendingRequiresReconciliation p then [reconcilePendingAction sourceTurn p zero_enqueue] @ acts
      else acts)"

text \<open>\<open>State = StateNeedsHuman; ResumeRole = r; Assignments.Status = AssignmentWaitingForHuman;
  Revision++\<close>, the assignments every Human Handoff makes.\<close>

definition hand_off :: "role_id \<Rightarrow> snapshot \<Rightarrow> snapshot" where
  "hand_off r s =
     s\<lparr>sn_State := StateNeedsHuman, sn_ResumeRole := r,
       sn_Assignments := (sn_Assignments s)\<lparr>as_Status := AssignmentWaitingForHuman\<rparr>,
       sn_Revision := sn_Revision s + 1\<rparr>"

text \<open>\<open>if next.ChangeProposal != nil { next.ChangeProposal.ReadyForSHA = "" }\<close>\<close>

definition clear_ready :: "snapshot \<Rightarrow> snapshot" where
  "clear_ready s =
     s\<lparr>sn_ChangeProposal := map_option (\<lambda>p. p\<lparr>cp_ReadyForSHA := ''''\<rparr>) (sn_ChangeProposal s)\<rparr>"

definition reset_retries :: "workflow_attempt \<Rightarrow> workflow_attempt" where
  "reset_retries a =
     a\<lparr>at_InfrastructureRetryBudget := (at_InfrastructureRetryBudget a)\<lparr>ab_Used := 0\<rparr>\<rparr>"

definition proposal_head :: "snapshot \<Rightarrow> string" where
  "proposal_head s = (case sn_ChangeProposal s of None \<Rightarrow> '''' | Some p \<Rightarrow> cp_HeadSHA p)"

definition illegalInState :: "snapshot \<Rightarrow> decision" where
  "illegalInState s = Refused (cloneSnapshot s) DispositionIllegal ReasonEventIllegalInState"

definition expectedRevisionDecision :: "snapshot \<Rightarrow> event_metadata \<Rightarrow> decision option" where
  "expectedRevisionDecision s m =
     (if em_ExpectedRevision m < sn_Revision s
      then Some (Refused (cloneSnapshot s) DispositionStale ReasonStateRevisionStale)
      else if em_ExpectedRevision m > sn_Revision s
      then Some (Refused (cloneSnapshot s) DispositionStale ReasonEventOutOfOrder)
      else None)"

definition deferForActiveTurn :: "snapshot \<Rightarrow> event_metadata \<Rightarrow> event_kind \<Rightarrow> decision" where
  "deferForActiveTurn s m k =
     \<lparr>de_Snapshot = cloneSnapshot s, de_Disposition = DispositionDeferred, de_Reason = ReasonActiveTurn,
      de_Actions = [RecordPendingEventAction (em_ID m) k (em_ObservedAt m)]\<rparr>"

definition clarificationWaitDecision :: "snapshot \<Rightarrow> turn_guard \<Rightarrow> bool \<Rightarrow> decision" where
  "clarificationWaitDecision nxt turn pending =
     (let nxt = nxt\<lparr>sn_ClarificationWaiting := True, sn_Revision := sn_Revision nxt + 1\<rparr>
      in Applied nxt (ReasonOther ''clarification_wait'')
           (if pending
            then [EnqueueTurnAction (enqueue (tg_Stage turn) (tg_Role turn) TurnPurposeReactivation
                    (proposal_head nxt))]
            else []))"

section \<open>Definitions the deployment no longer knows\<close>

definition DefinitionCompatible :: "reducer \<Rightarrow> snapshot \<Rightarrow> bool" where
  "DefinitionCompatible r s \<longleftrightarrow>
     (if sn_State s = StateAbsent then True
      else if (case sn_CurrentAttempt s of
                 None \<Rightarrow> False
               | Some a \<Rightarrow>
                   (case Stage (rd_definition r) (at_CurrentStage a) of
                      None \<Rightarrow> True
                    | Some stage \<Rightarrow> turn_state (sn_State s) \<and> sd_State stage \<noteq> sn_State s)
                   \<or> fmap_any (usage_exceeds (rd_definition r)) (at_ReviewUsage a)) then False
      else if sn_ContinuationStage s \<noteq> '''' \<and> Stage (rd_definition r) (sn_ContinuationStage s) = None then False
      else if (case sn_ActiveTurn s of
                 None \<Rightarrow> False
               | Some turn \<Rightarrow>
                   (case Stage (rd_definition r) (tn_Stage turn) of
                      None \<Rightarrow> True
                    | Some stage \<Rightarrow> sd_Role stage \<noteq> tn_Role turn)) then False
      else if sn_ResumeRole s \<noteq> '''' \<and> sn_ResumeRole s \<notin> set (definition_Roles (rd_definition r)) then False
      else True)"

definition DefinitionIncompatible :: "reducer \<Rightarrow> snapshot \<Rightarrow> decision" where
  "DefinitionIncompatible r s =
     (if sn_State s = StateNeedsHuman
      then Refused (cloneSnapshot s) DispositionDuplicate ReasonWorkflowDefinitionIncompatible
      else
        let nxt = (cloneSnapshot s)\<lparr>sn_State := StateNeedsHuman,
                    sn_Assignments := (sn_Assignments s)\<lparr>as_Status := AssignmentWaitingForHuman\<rparr>\<rparr>;
            nxt = (case sn_ActiveTurn nxt of
                     None \<Rightarrow> nxt
                   | Some turn \<Rightarrow> nxt\<lparr>sn_ResumeRole := tn_Role turn, sn_ActiveTurn := None\<rparr>);
            nxt = nxt\<lparr>sn_Revision := sn_Revision nxt + 1\<rparr>;
            actions = (case sn_ActiveTurn s of
                         None \<Rightarrow> []
                       | Some turn \<Rightarrow> [CloseMutationAdmissionAction (guardFromTurn turn),
                                      InterruptTurnForHumanHandoffAction (guardFromTurn turn)])
        in Applied nxt ReasonWorkflowDefinitionIncompatible
             (actions @
              [MarkHumanHandoffAction ReasonWorkflowDefinitionIncompatible
                 ''Durable Workflow state is incompatible with the deployed Workflow Definition'',
               ReconcileLabelsAction StateNeedsHuman '''']))"

fun targets_execution :: "wf_action \<Rightarrow> bool" where
  "targets_execution (CloseMutationAdmissionAction _) = True"
| "targets_execution (InterruptTurnForHumanHandoffAction _) = True"
| "targets_execution _ = False"

definition CorroborationDefinitionIncompatible :: "reducer \<Rightarrow> snapshot \<Rightarrow> decision" where
  "CorroborationDefinitionIncompatible r s =
     (let d = DefinitionIncompatible r s in
      if de_Disposition d \<noteq> DispositionApplied then d
      else d\<lparr>de_Actions := filter (\<lambda>a. \<not> targets_execution a) (de_Actions d)\<rparr>)"

section \<open>Handoffs of work that cannot go on\<close>

definition reduceWorkflowActionExhausted ::
  "reducer \<Rightarrow> snapshot \<Rightarrow> workflow_action_exhausted_event \<Rightarrow> decision option" where
  "reduceWorkflowActionExhausted r s e =
     (case expectedRevisionDecision s (wx_EventMetadata e) of
        Some stale \<Rightarrow> Some stale
      | None \<Rightarrow>
          if \<not> legalInState (sn_State s) EventKindWorkflowActionExhausted then Some (illegalInState s)
          else if sn_State s = StateNeedsHuman
          then Some (Refused (cloneSnapshot s) DispositionDuplicate ReasonWorkflowActionExhausted)
          else if sn_ActiveTurn s \<noteq> None
          then Some (Refused (cloneSnapshot s) DispositionDeferred ReasonActiveTurn)
          else do {
            attempt \<leftarrow> sn_CurrentAttempt s;
            case Stage (rd_definition r) (at_CurrentStage attempt) of
              None \<Rightarrow> Some (Refused (cloneSnapshot s) DispositionStale ReasonTurnGuardStale)
            | Some stage \<Rightarrow>
                Some (Applied (hand_off (sd_Role stage) (clear_ready (cloneSnapshot s)))
                  ReasonWorkflowActionExhausted
                  [MarkHumanHandoffAction ReasonWorkflowActionExhausted (wx_Diagnostic e),
                   ReconcileLabelsAction StateNeedsHuman ''''])
          })"

definition reduceAgentTurnMutationReconciliationExhausted ::
  "reducer \<Rightarrow> snapshot \<Rightarrow> mutation_reconciliation_exhausted_event \<Rightarrow> decision option" where
  "reduceAgentTurnMutationReconciliationExhausted r s e =
     (case expectedRevisionDecision s (mx_EventMetadata e) of
        Some stale \<Rightarrow> Some stale
      | None \<Rightarrow>
          if \<not> legalInState (sn_State s) EventKindAgentTurnMutationReconciliationExhausted
          then Some (illegalInState s)
          else if sn_ActiveTurn s \<noteq> None
          then Some (Refused (cloneSnapshot s) DispositionStale ReasonActiveTurn)
          else do {
            attempt \<leftarrow> sn_CurrentAttempt s;
            case Stage (rd_definition r) (at_CurrentStage attempt) of
              None \<Rightarrow> Some (Refused (cloneSnapshot s) DispositionStale ReasonTurnGuardStale)
            | Some stage \<Rightarrow>
                if mx_Role e \<noteq> sd_Role stage
                then Some (Refused (cloneSnapshot s) DispositionStale ReasonTurnGuardStale)
                else Some (Applied (hand_off (mx_Role e) (cloneSnapshot s))
                  ReasonAgentTurnMutationReconciliationExhausted
                  [MarkHumanHandoffAction ReasonAgentTurnMutationReconciliationExhausted (mx_Diagnostic e),
                   ReconcileLabelsAction StateNeedsHuman ''''])
          })"

definition reduceAgentTurnPreparationFailed ::
  "reducer \<Rightarrow> snapshot \<Rightarrow> agent_turn_preparation_failed_event \<Rightarrow> decision option" where
  "reduceAgentTurnPreparationFailed r s e =
     (case expectedRevisionDecision s (pf_EventMetadata e) of
        Some stale \<Rightarrow> Some stale
      | None \<Rightarrow>
          if \<not> legalInState (sn_State s) EventKindAgentTurnPreparationFailed then Some (illegalInState s)
          else if sn_ActiveTurn s \<noteq> None
          then Some (Refused (cloneSnapshot s) DispositionStale ReasonActiveTurn)
          else do {
            attempt \<leftarrow> sn_CurrentAttempt s;
            case Stage (rd_definition r) (at_CurrentStage attempt) of
              None \<Rightarrow> Some (Refused (cloneSnapshot s) DispositionStale ReasonTurnGuardStale)
            | Some stage \<Rightarrow>
                if pf_Role e \<noteq> sd_Role stage
                then Some (Refused (cloneSnapshot s) DispositionStale ReasonTurnGuardStale)
                else
                  let nxt = cloneSnapshot s;
                      nxt = (if \<not> pf_AssignmentsExist e
                             then nxt\<lparr>sn_Assignments :=
                                    (sn_Assignments nxt)\<lparr>as_RuntimeState := RuntimeStateCollected\<rparr>\<rparr>
                             else nxt)
                  in Some (Applied (hand_off (pf_Role e) nxt) ReasonAgentTurnPreparationFailed
                       [MarkHumanHandoffAction ReasonAgentTurnPreparationFailed (pf_Diagnostic e),
                        ReconcileLabelsAction StateNeedsHuman ''''])
          })"

definition reduceAssignmentConfigurationConflict ::
  "reducer \<Rightarrow> snapshot \<Rightarrow> assignment_configuration_conflict_event \<Rightarrow> decision option" where
  "reduceAssignmentConfigurationConflict r s e =
     (case expectedRevisionDecision s (cc_EventMetadata e) of
        Some stale \<Rightarrow> Some stale
      | None \<Rightarrow>
          if \<not> legalInState (sn_State s) EventKindAssignmentConfigurationConflict
          then Some (illegalInState s)
          else if sn_ActiveTurn s \<noteq> None
          then Some (Refused (cloneSnapshot s) DispositionStale ReasonActiveTurn)
          else do {
            attempt \<leftarrow> sn_CurrentAttempt s;
            case Stage (rd_definition r) (at_CurrentStage attempt) of
              None \<Rightarrow> Some (Refused (cloneSnapshot s) DispositionStale ReasonTurnGuardStale)
            | Some stage \<Rightarrow>
                if cc_Role e \<noteq> sd_Role stage
                then Some (Refused (cloneSnapshot s) DispositionStale ReasonTurnGuardStale)
                else Some (Applied (hand_off (cc_Role e) (cloneSnapshot s))
                  ReasonAssignmentConfigurationConflict
                  [MarkHumanHandoffAction ReasonAssignmentConfigurationConflict '''',
                   ReconcileLabelsAction StateNeedsHuman ''''])
          })"

section \<open>Triggers\<close>

definition new_attempt :: "reducer \<Rightarrow> trigger_event \<Rightarrow> stage_id \<Rightarrow> workflow_attempt" where
  "new_attempt r e sid =
     \<lparr>at_ID = te_AttemptID e, at_Number = te_AttemptNumber e,
      at_StartedAt = em_ObservedAt (te_EventMetadata e), at_Lifecycle = AttemptActive,
      at_CurrentStage = sid, at_ReviewUsage = fmempty,
      at_InfrastructureRetryBudget = \<lparr>ab_Used = 0, ab_Limit = rd_infrastructureRetryLimit r\<rparr>\<rparr>"

definition assignment_mode :: "snapshot \<Rightarrow> assignment_generation" where
  "assignment_mode s =
     (if sn_State s = StateAbsent \<or> as_RuntimeState (sn_Assignments s) = RuntimeStateCollected
      then AssignmentGenerationNew
      else if as_RuntimeState (sn_Assignments s) = RuntimeStateRetained then AssignmentGenerationRetained
      else AssignmentGenerationCurrent)"

text \<open>The entry a Trigger starts at: Stage and purpose.\<close>

definition trigger_entry :: "reducer \<Rightarrow> snapshot \<Rightarrow> trigger_event \<Rightarrow> stage_entry" where
  "trigger_entry r s e =
     (let entry = (if te_PlanningOnly e
                   then \<lparr>se_Stage = StagePlanning, se_Purpose = TurnPurposeInitialPlanning\<rparr>
                   else InitialEntry (rd_definition r))
      in if sn_State s \<noteq> StateAbsent
         then \<lparr>se_Stage = (case sn_CurrentAttempt s of
                  Some a \<Rightarrow> at_CurrentStage a
                | None \<Rightarrow> if sn_ContinuationStage s \<noteq> '''' then sn_ContinuationStage s else se_Stage entry),
               se_Purpose = TurnPurposeReactivation\<rparr>
         else entry)"

text \<open>The Attempt that a Trigger starts in \<open>stage\<close>.\<close>

definition start_attempt ::
  "reducer \<Rightarrow> snapshot \<Rightarrow> trigger_event \<Rightarrow> stage_id \<Rightarrow> stage_definition \<Rightarrow> turn_purpose \<Rightarrow> decision" where
  "start_attempt r s e entryStage stage purpose =
     (let attempt = new_attempt r e entryStage;
          nxt = clear_ready ((cloneSnapshot s)
            \<lparr>sn_PlanningOnly := sn_PlanningOnly s \<or> te_PlanningOnly e,
             sn_WorkItem := em_WorkItem (te_EventMetadata e),
             sn_CurrentAttempt := Some attempt,
             sn_LastAttemptNumber := te_AttemptNumber e,
             sn_ActiveTurn := None, sn_ContinuationStage := '''', sn_Closure := None\<rparr>);
          completed = (case sn_CurrentAttempt s of
                         None \<Rightarrow> []
                       | Some a \<Rightarrow> [CompleteAttemptAction (at_ID a) AttemptCompletionSuperseded]);
          mode = assignment_mode s;
          head = proposal_head nxt;
          nxt = nxt\<lparr>sn_Assignments := \<lparr>as_Status = AssignmentActive, as_RuntimeState = RuntimeStateActive,
                       as_RetainedUntil = zero_time, as_RetentionToken = ''''\<rparr>,
                    sn_ResumeRole := '''', sn_State := sd_State stage,
                    sn_Revision := sn_Revision nxt + 1\<rparr>;
          deferLabels = (sn_ChangeProposal nxt \<noteq> None
                         \<and> (sn_State s = StateNeedsHuman \<or> sn_State s = StatePRReady));
          labels = (if \<not> deferLabels
                    then [ConsumeRunLabelAction, ReconcileLabelsAction (sn_State nxt) ''''] else []);
          turn = (if te_PriorTerminalTurnID e \<noteq> '''' \<and> sn_State s = StateNeedsHuman
                     \<and> te_PriorTerminalStage e = sd_ID stage \<and> te_PriorTerminalRole e = sd_Role stage
                     \<and> sn_ResumeRole s = sd_Role stage \<and> mode \<noteq> AssignmentGenerationNew
                     \<and> te_PriorTerminalExpectedHeadSHA e = head
                  then EnqueueTerminalRevalidationAction (te_PriorTerminalTurnID e)
                  else EnqueueTurnAction (enqueue (sd_ID stage) (sd_Role stage) purpose head))
      in Applied nxt ReasonTriggered
           (completed @ [EnsureAssignmentsAction mode, CreateAttemptAction attempt] @ labels @ [turn]))"

definition human_control_diagnostic :: string where
  "human_control_diagnostic =
     ''Agent Session is human-controlled; transfer control to automation before re-adding omnigrex:run''"

definition reduceTrigger :: "reducer \<Rightarrow> snapshot \<Rightarrow> trigger_event \<Rightarrow> decision" where
  "reduceTrigger r s e =
     (if (te_PlanningOnly e \<and> sn_State s \<noteq> StateAbsent)
         \<or> (sn_PlanningOnly s \<and> sn_State s \<noteq> StateNeedsHuman) then illegalInState s
      else case expectedRevisionDecision s (te_EventMetadata e) of
        Some stale \<Rightarrow> stale
      | None \<Rightarrow>
          if turn_state (sn_State s) then
            (if sn_ActiveTurn s \<noteq> None then deferForActiveTurn s (te_EventMetadata e) EventKindTrigger
             else Refused (cloneSnapshot s) DispositionDuplicate ReasonAttemptAlreadyActive)
          else if \<not> legalInState (sn_State s) EventKindTrigger then illegalInState s
          else if sn_PlanningOnly s \<and> sn_State s = StateNeedsHuman \<and> te_PlanningCompleted e then
            Applied ((cloneSnapshot s)\<lparr>sn_State := StatePlanReady, sn_ResumeRole := '''',
                sn_Assignments := (sn_Assignments s)\<lparr>as_Status := AssignmentActive\<rparr>,
                sn_Revision := sn_Revision s + 1\<rparr>)
              ReasonTriggered [ConsumeRunLabelAction, ReconcileLabelsAction StatePlanReady '''']
          else if te_PriorTerminalControlBlocked e \<and> sn_State s = StateNeedsHuman then
            Applied ((cloneSnapshot s)\<lparr>sn_Revision := sn_Revision s + 1\<rparr>)
              ReasonTerminalRevalidationHumanControl
              [ConsumeRunLabelAction,
               MarkHumanHandoffAction ReasonTerminalRevalidationHumanControl human_control_diagnostic,
               ReconcileLabelsAction StateNeedsHuman '''']
          else if te_AttemptNumber e \<noteq> sn_LastAttemptNumber s + 1
                  \<or> (case sn_CurrentAttempt s of None \<Rightarrow> False | Some a \<Rightarrow> te_AttemptID e = at_ID a)
          then Refused (cloneSnapshot s) DispositionIllegal ReasonInvalidEvent
          else
            let entry = trigger_entry r s e in
            (case Stage (rd_definition r) (se_Stage entry) of
               None \<Rightarrow> Refused (cloneSnapshot s) DispositionIllegal ReasonInvariantViolation
             | Some stage \<Rightarrow>
                 if \<not> AcceptsPurpose (rd_definition r) (se_Stage entry) (se_Purpose entry)
                 then Refused (cloneSnapshot s) DispositionIllegal ReasonInvariantViolation
                 else if sd_State stage = StateReviewing \<and> sn_ChangeProposal s = None
                 then let entry = InitialEntry (rd_definition r) in
                      start_attempt r s e (se_Stage entry)
                        (stage_or_zero (rd_definition r) (se_Stage entry)) (se_Purpose entry)
                 else start_attempt r s e (se_Stage entry) stage (se_Purpose entry)))"

section \<open>Settled Turns\<close>

definition change_proposal_unrelated :: "snapshot \<Rightarrow> decision" where
  "change_proposal_unrelated s =
     Refused (cloneSnapshot s) DispositionUnrelated ReasonChangeProposalUnrelated"

definition reduceDeveloperSettled ::
  "reducer \<Rightarrow> snapshot \<Rightarrow> snapshot \<Rightarrow> turn_settled_event \<Rightarrow> decision option" where
  "reduceDeveloperSettled r s nxt e = do {
     unrelated \<leftarrow> (case sn_ChangeProposal s of
         Some cp \<Rightarrow> do {
           observed \<leftarrow> ts_ChangeProposal e;
           Some (cp_ID observed \<noteq> cp_ID cp \<or> tg_ChangeProposalID (ts_Turn e) \<noteq> cp_ID cp)
         }
       | None \<Rightarrow> Some (tg_ChangeProposalID (ts_Turn e) \<noteq> 0));
     if unrelated then Some (change_proposal_unrelated s)
     else do {
       observed \<leftarrow> ts_ChangeProposal e;
       attempt \<leftarrow> sn_CurrentAttempt s;
       let proposal = observed\<lparr>cp_ReadyForSHA := ''''\<rparr>;
       let transition = transition_or_zero (rd_definition r) (at_CurrentStage attempt) (ts_Outcome e);
       (case Stage (rd_definition r) (ot_NextStage transition) of
          None \<Rightarrow> Some (Refused (cloneSnapshot s) DispositionIllegal ReasonInvariantViolation)
        | Some target \<Rightarrow> do {
            current \<leftarrow> sn_CurrentAttempt nxt;
            let nxt = nxt\<lparr>sn_ChangeProposal := Some proposal,
                          sn_CurrentAttempt := Some (reset_retries (current\<lparr>at_CurrentStage := sd_ID target\<rparr>)),
                          sn_State := sd_State target, sn_Revision := sn_Revision nxt + 1\<rparr>;
            let intent = enqueue (sd_ID target) (sd_Role target) (ot_NextPurpose transition) (cp_HeadSHA proposal);
            Some (Applied nxt ReasonChangeProposalReady
              (successorActions (ts_Turn e) (ts_PendingEvents e) intent
               @ [ReconcileLabelsAction (sd_State target) '''']))
          })
     }
   }"

text \<open>What a review that passed the identity checks does to the Snapshot: a review of a replaced
  head is recorded and repeated, an accepted one consumes a cycle and follows its transition.\<close>

definition stale_review_head ::
  "change_proposal \<Rightarrow> turn_settled_event \<Rightarrow> review_identity \<Rightarrow> change_proposal \<Rightarrow> bool" where
  "stale_review_head cp e review proposal \<longleftrightarrow>
     (let pendingHead = pe_LatestObservedHeadSHA (ts_PendingEvents e);
          pendingHeadReplaced =
            (pendingHead \<noteq> '''' \<and> (pendingHead \<noteq> rv_HeadSHA review
              \<or> pendingHead \<noteq> tg_ExpectedHeadSHA (ts_Turn e)))
      in rv_HeadSHA review \<noteq> tg_ExpectedHeadSHA (ts_Turn e) \<or> rv_HeadSHA review \<noteq> cp_HeadSHA proposal
         \<or> cp_HeadSHA cp \<noteq> tg_ExpectedHeadSHA (ts_Turn e) \<or> pendingHeadReplaced)"

definition repeat_review ::
  "reducer \<Rightarrow> snapshot \<Rightarrow> turn_settled_event \<Rightarrow> review_identity \<Rightarrow> change_proposal \<Rightarrow> stage_definition \<Rightarrow> decision" where
  "repeat_review r nxt e review proposal stage =
     Applied (nxt\<lparr>sn_State := sd_State stage, sn_Revision := sn_Revision nxt + 1\<rparr>) ReasonReviewHeadReplaced
       ([RecordReviewAction review False]
        @ successorActions (ts_Turn e) (ts_PendingEvents e)
            (enqueue (sd_ID stage) (sd_Role stage) TurnPurposeSynchronization (cp_HeadSHA proposal))
        @ [ReconcileLabelsAction (sd_State stage) ''''])"

definition consume_cycle :: "outcome_transition \<Rightarrow> stage_id \<Rightarrow> workflow_attempt \<Rightarrow> workflow_attempt" where
  "consume_cycle t sourceStage a =
     (if ot_ConsumesReviewCycle t
      then a\<lparr>at_ReviewUsage :=
             fmupd sourceStage (fm_get 0 (at_ReviewUsage a) sourceStage + 1) (at_ReviewUsage a)\<rparr>
      else a)"

definition approve ::
  "snapshot \<Rightarrow> turn_settled_event \<Rightarrow> review_identity \<Rightarrow> change_proposal \<Rightarrow> workflow_attempt
    \<Rightarrow> outcome_transition \<Rightarrow> decision" where
  "approve nxt e review proposal attempt t =
     Applied (nxt\<lparr>sn_State := ot_TerminalState t,
                  sn_CurrentAttempt := Some (attempt\<lparr>at_CurrentStage := ot_ContinuationStage t\<rparr>),
                  sn_ChangeProposal := Some (proposal\<lparr>cp_ReadyForSHA := rv_HeadSHA review\<rparr>),
                  sn_Revision := sn_Revision nxt + 1\<rparr>) ReasonApproved
       (with_pending (ts_Turn e) (ts_PendingEvents e)
          [RecordReviewAction review True, ReconcileLabelsAction StatePRReady (rv_HeadSHA review)])"

definition exhaust_budget ::
  "snapshot \<Rightarrow> turn_settled_event \<Rightarrow> review_identity \<Rightarrow> workflow_attempt \<Rightarrow> stage_definition \<Rightarrow> decision" where
  "exhaust_budget nxt e review attempt target =
     Applied (hand_off (sd_Role target)
               (nxt\<lparr>sn_CurrentAttempt := Some (attempt\<lparr>at_CurrentStage := sd_ID target\<rparr>)\<rparr>))
       ReasonReviewBudgetExhausted
       (with_pending (ts_Turn e) (ts_PendingEvents e)
          [RecordReviewAction review True, MarkHumanHandoffAction ReasonReviewBudgetExhausted '''',
           ReconcileLabelsAction StateNeedsHuman ''''])"

definition request_changes ::
  "snapshot \<Rightarrow> turn_settled_event \<Rightarrow> review_identity \<Rightarrow> change_proposal \<Rightarrow> workflow_attempt
    \<Rightarrow> outcome_transition \<Rightarrow> stage_definition \<Rightarrow> decision" where
  "request_changes nxt e review proposal attempt t target =
     Applied (nxt\<lparr>sn_CurrentAttempt := Some (attempt\<lparr>at_CurrentStage := sd_ID target\<rparr>),
                  sn_State := sd_State target, sn_Revision := sn_Revision nxt + 1\<rparr>) ReasonChangesRequested
       ([RecordReviewAction review True]
        @ successorActions (ts_Turn e) (ts_PendingEvents e)
            (enqueue (sd_ID target) (sd_Role target) (ot_NextPurpose t) (cp_HeadSHA proposal))
        @ [ReconcileLabelsAction (sd_State target) ''''])"

definition settle_review ::
  "reducer \<Rightarrow> snapshot \<Rightarrow> snapshot \<Rightarrow> turn_settled_event \<Rightarrow> change_proposal \<Rightarrow> review_identity
    \<Rightarrow> change_proposal \<Rightarrow> decision option" where
  "settle_review r s nxt e cp review observed = do {
     let proposal = observed\<lparr>cp_ReadyForSHA := ''''\<rparr>;
     current \<leftarrow> sn_CurrentAttempt nxt;
     source \<leftarrow> sn_CurrentAttempt s;
     let nxt = nxt\<lparr>sn_ChangeProposal := Some proposal, sn_CurrentAttempt := Some (reset_retries current)\<rparr>;
     let sourceStage = at_CurrentStage source;
     let stage = stage_or_zero (rd_definition r) sourceStage;
     if stale_review_head cp e review proposal then Some (repeat_review r nxt e review proposal stage)
     else do {
       let transition = transition_or_zero (rd_definition r) sourceStage (ts_Outcome e);
       let attempt = consume_cycle transition sourceStage (reset_retries current);
       if ts_Outcome e = TurnOutcomeApproved then Some (approve nxt e review proposal attempt transition)
       else case Stage (rd_definition r) (ot_NextStage transition) of
         None \<Rightarrow> Some (Refused (cloneSnapshot s) DispositionIllegal ReasonInvariantViolation)
       | Some target \<Rightarrow>
           if ot_ConsumesReviewCycle transition
              \<and> fm_get 0 (at_ReviewUsage attempt) sourceStage \<ge> sd_ReviewLimit stage
           then Some (exhaust_budget nxt e review attempt target)
           else Some (request_changes nxt e review proposal attempt transition target)
     }
   }"

definition reduceReviewSettled ::
  "reducer \<Rightarrow> snapshot \<Rightarrow> snapshot \<Rightarrow> turn_settled_event \<Rightarrow> decision option" where
  "reduceReviewSettled r s nxt e =
     (case sn_ChangeProposal s of
        None \<Rightarrow> Some (change_proposal_unrelated s)
      | Some cp \<Rightarrow>
          if tg_ChangeProposalID (ts_Turn e) \<noteq> cp_ID cp then Some (change_proposal_unrelated s)
          else do {
            review \<leftarrow> ts_Review e;
            if rv_ChangeProposalID review \<noteq> cp_ID cp then Some (change_proposal_unrelated s)
            else do {
              observed \<leftarrow> ts_ChangeProposal e;
              if cp_ID observed \<noteq> cp_ID cp then Some (change_proposal_unrelated s)
              else if rv_ActorID review \<noteq> ts_AuthorizedReviewerActorID e
              then Some (Refused (cloneSnapshot s) DispositionUnrelated ReasonReviewerActorUnrelated)
              else settle_review r s nxt e cp review observed
            }
          })"

definition reduceBlocked :: "snapshot \<Rightarrow> turn_settled_event \<Rightarrow> decision" where
  "reduceBlocked nxt e =
     Applied (hand_off (tg_Role (ts_Turn e)) nxt) ReasonAgentBlocked
       (with_pending (ts_Turn e) (ts_PendingEvents e)
          [MarkHumanHandoffAction ReasonAgentBlocked (ts_Diagnostic e),
           ReconcileLabelsAction StateNeedsHuman ''''])"

definition retries_exhausted_diagnostic :: "turn_settled_event \<Rightarrow> attempt_budget \<Rightarrow> string" where
  "retries_exhausted_diagnostic e b =
     ts_Diagnostic e @ '' [agent_turn_id='' @ tg_TurnID (ts_Turn e) @ '' retry_of_turn_id=''
     @ tg_RetryOfTurnID (ts_Turn e) @ '' infrastructure_retry_budget='' @ decimal (unat (ab_Used b))
     @ ''/'' @ decimal (unat (ab_Limit b)) @ ''; see orchestrator logs]''"

definition reduceInfrastructureFailure :: "snapshot \<Rightarrow> turn_settled_event \<Rightarrow> decision option" where
  "reduceInfrastructureFailure nxt e = do {
     attempt \<leftarrow> sn_CurrentAttempt nxt;
     let budget = at_InfrastructureRetryBudget attempt;
     if ab_Used budget < ab_Limit budget then
       Some (Applied
         (nxt\<lparr>sn_CurrentAttempt := Some (attempt\<lparr>at_InfrastructureRetryBudget := budget\<lparr>ab_Used := ab_Used budget + 1\<rparr>\<rparr>),
              sn_Revision := sn_Revision nxt + 1\<rparr>) ReasonInfrastructureRetry
         (successorActions (ts_Turn e) (ts_PendingEvents e)
            \<lparr>eq_Stage = tg_Stage (ts_Turn e), eq_Role = tg_Role (ts_Turn e), eq_Purpose = TurnPurposeRetry,
             eq_ExpectedHeadSHA = (case ts_PublicationAssociation e of
                 None \<Rightarrow> tg_ExpectedHeadSHA (ts_Turn e)
               | Some p \<Rightarrow> cp_HeadSHA p),
             eq_RetryOfTurnID = tg_TurnID (ts_Turn e)\<rparr>))
     else
       Some (Applied (hand_off (tg_Role (ts_Turn e)) nxt) ReasonInfrastructureRetriesExhausted
         (with_pending (ts_Turn e) (ts_PendingEvents e)
            [MarkHumanHandoffAction ReasonInfrastructureRetriesExhausted (retries_exhausted_diagnostic e budget),
             ReconcileLabelsAction StateNeedsHuman '''']))
   }"

definition reduceTerminalCorroborationHandoff :: "snapshot \<Rightarrow> turn_settled_event \<Rightarrow> decision" where
  "reduceTerminalCorroborationHandoff nxt e =
     Applied (hand_off (tg_Role (ts_Turn e)) nxt) (ts_CorroborationHandoffReason e)
       (with_pending (ts_Turn e) (ts_PendingEvents e)
          [MarkHumanHandoffAction (ts_CorroborationHandoffReason e) (ts_Diagnostic e),
           ReconcileLabelsAction StateNeedsHuman ''''])"

definition needs_no_transition :: "turn_outcome \<Rightarrow> bool" where
  "needs_no_transition out \<longleftrightarrow>
     out = TurnOutcomeClarificationWait \<or> out = TurnOutcomeBlocked \<or> out = TurnOutcomePrerequisiteFailed
     \<or> out = TurnOutcomeInfrastructureFailed"

definition reduceClarificationWait :: "snapshot \<Rightarrow> snapshot \<Rightarrow> turn_settled_event \<Rightarrow> decision" where
  "reduceClarificationWait s nxt e =
     (case ts_ChangeProposal e of
        None \<Rightarrow> clarificationWaitDecision nxt (ts_Turn e) (ts_HumanInputPending e)
      | Some observed \<Rightarrow>
          if (case sn_ChangeProposal nxt of None \<Rightarrow> False | Some p \<Rightarrow> cp_ID p \<noteq> cp_ID observed)
          then change_proposal_unrelated s
          else clarificationWaitDecision
                 (nxt\<lparr>sn_ChangeProposal := Some (observed\<lparr>cp_ReadyForSHA := ''''\<rparr>)\<rparr>)
                 (ts_Turn e) (ts_HumanInputPending e))"

definition reducePlanningReady :: "snapshot \<Rightarrow> snapshot \<Rightarrow> turn_settled_event \<Rightarrow> decision" where
  "reducePlanningReady s nxt e =
     (if \<not> sn_PlanningOnly s \<or> sn_ChangeProposal s \<noteq> None \<or> ts_PublicationAssociation e \<noteq> None
      then illegalInState s
      else if ts_HumanInputPending e then clarificationWaitDecision nxt (ts_Turn e) True
      else Applied (nxt\<lparr>sn_State := StatePlanReady, sn_Revision := sn_Revision nxt + 1\<rparr>) ReasonApproved
             [ReconcileLabelsAction StatePlanReady ''''])"

definition settle_outcome ::
  "reducer \<Rightarrow> snapshot \<Rightarrow> snapshot \<Rightarrow> turn_settled_event \<Rightarrow> decision option" where
  "settle_outcome r s nxt e =
     (case ts_Outcome e of
        TurnOutcomeClarificationWait \<Rightarrow> Some (reduceClarificationWait s nxt e)
      | TurnOutcomePlanningReady \<Rightarrow> Some (reducePlanningReady s nxt e)
      | TurnOutcomeChangeProposalReady \<Rightarrow> reduceDeveloperSettled r s nxt e
      | TurnOutcomeChangesRequested \<Rightarrow> reduceReviewSettled r s nxt e
      | TurnOutcomeApproved \<Rightarrow> reduceReviewSettled r s nxt e
      | TurnOutcomeBlocked \<Rightarrow> Some (reduceBlocked nxt e)
      | TurnOutcomePrerequisiteFailed \<Rightarrow> Some (reduceBlocked nxt e)
      | TurnOutcomeInfrastructureFailed \<Rightarrow>
          if ts_CorroborationHandoffReason e \<noteq> NoReason
          then Some (reduceTerminalCorroborationHandoff nxt e)
          else reduceInfrastructureFailure nxt e
      | TurnOutcomeOther _ \<Rightarrow> Some (Refused (cloneSnapshot s) DispositionIllegal ReasonInvalidEvent))"

definition reduceTurnSettled :: "reducer \<Rightarrow> snapshot \<Rightarrow> turn_settled_event \<Rightarrow> decision option" where
  "reduceTurnSettled r s e =
     (case ts_ExistingReview e of
        Some existing \<Rightarrow> do {
          review \<leftarrow> ts_Review e;
          Some (if rv_ID existing \<noteq> rv_ID review \<or> existing \<noteq> review
                then Refused (cloneSnapshot s) DispositionIllegal ReasonReviewIdentityConflict
                else Refused (cloneSnapshot s) DispositionDuplicate ReasonReviewDuplicate)
        }
      | None \<Rightarrow>
          (case expectedRevisionDecision s (ts_EventMetadata e) of
             Some stale \<Rightarrow> Some stale
           | None \<Rightarrow>
               if \<not> legalInState (sn_State s) EventKindTurnSettled then Some (illegalInState s)
               else if (case sn_ActiveTurn s of None \<Rightarrow> True | Some turn \<Rightarrow> \<not> turnMatches turn (ts_Turn e))
               then Some (Refused (cloneSnapshot s) DispositionStale ReasonTurnGuardStale)
               else
                 let nxt = (cloneSnapshot s)\<lparr>sn_ActiveTurn := None, sn_ResumeRole := ''''\<rparr> in
                 if (case ts_PublicationAssociation e of
                       None \<Rightarrow> False
                     | Some p \<Rightarrow>
                         sn_ChangeProposal s \<noteq> None
                         \<or> (ts_Outcome e = TurnOutcomeChangeProposalReady \<and> ts_ChangeProposal e \<noteq> Some p))
                 then Some (change_proposal_unrelated s)
                 else
                   let nxt = (case ts_PublicationAssociation e of
                                None \<Rightarrow> nxt
                              | Some p \<Rightarrow> nxt\<lparr>sn_ChangeProposal := Some p\<rparr>) in
                   if needs_no_transition (ts_Outcome e) then settle_outcome r s nxt e
                   else do {
                     attempt \<leftarrow> sn_CurrentAttempt s;
                     if Transition (rd_definition r) (at_CurrentStage attempt) (ts_Outcome e) = None
                     then Some (Refused (cloneSnapshot s) DispositionIllegal ReasonInvalidEvent)
                     else settle_outcome r s nxt e
                   }))"

section \<open>Revalidated terminal intents\<close>

definition reducePreviouslyAcceptedTerminalReview ::
  "reducer \<Rightarrow> snapshot \<Rightarrow> terminal_intent_revalidated_event \<Rightarrow> decision option" where
  "reducePreviouslyAcceptedTerminalReview r s e =
     (case (sn_ChangeProposal s, ti_ChangeProposal e, ti_Review e) of
        (Some cp, Some observed, Some review) \<Rightarrow>
          if tg_ChangeProposalID (ti_SourceTurn e) \<noteq> cp_ID cp \<or> rv_ChangeProposalID review \<noteq> cp_ID cp
             \<or> cp_ID observed \<noteq> cp_ID cp \<or> rv_ActorID review \<noteq> ti_AuthorizedReviewerActorID e
          then Some (change_proposal_unrelated s)
          else do {
            attempt \<leftarrow> sn_CurrentAttempt s;
            case Transition (rd_definition r) (at_CurrentStage attempt) (ti_Outcome e) of
              None \<Rightarrow> Some (Refused (cloneSnapshot s) DispositionIllegal ReasonInvalidEvent)
            | Some transition \<Rightarrow>
                let proposal = observed\<lparr>cp_ReadyForSHA := ''''\<rparr>;
                    nxt = (cloneSnapshot s)\<lparr>sn_ChangeProposal := Some proposal,
                             sn_CurrentAttempt := Some (reset_retries attempt),
                             sn_Revision := sn_Revision s + 1\<rparr>
                in
                if rv_HeadSHA review \<noteq> tg_ExpectedHeadSHA (ti_SourceTurn e)
                   \<or> rv_HeadSHA review \<noteq> cp_HeadSHA proposal
                   \<or> cp_HeadSHA cp \<noteq> tg_ExpectedHeadSHA (ti_SourceTurn e)
                then Some (Applied nxt ReasonReviewHeadReplaced
                  [EnqueueTurnAction (enqueue (at_CurrentStage attempt) (tg_Role (ti_SourceTurn e))
                     TurnPurposeSynchronization (cp_HeadSHA proposal)),
                   ReconcileLabelsAction (sn_State s) ''''])
                else if ti_Outcome e = TurnOutcomeApproved
                then Some (Applied
                  (nxt\<lparr>sn_State := ot_TerminalState transition,
                       sn_CurrentAttempt :=
                         Some ((reset_retries attempt)\<lparr>at_CurrentStage := ot_ContinuationStage transition\<rparr>),
                       sn_ChangeProposal := Some (proposal\<lparr>cp_ReadyForSHA := rv_HeadSHA review\<rparr>)\<rparr>)
                  ReasonApproved [ReconcileLabelsAction StatePRReady (rv_HeadSHA review)])
                else case Stage (rd_definition r) (ot_NextStage transition) of
                  None \<Rightarrow> Some (Refused (cloneSnapshot s) DispositionIllegal ReasonInvariantViolation)
                | Some target \<Rightarrow>
                    Some (Applied
                      (nxt\<lparr>sn_CurrentAttempt :=
                             Some ((reset_retries attempt)\<lparr>at_CurrentStage := sd_ID target\<rparr>),
                           sn_State := sd_State target\<rparr>)
                      ReasonChangesRequested
                      [EnqueueTurnAction (enqueue (sd_ID target) (sd_Role target)
                         (ot_NextPurpose transition) (cp_HeadSHA proposal)),
                       ReconcileLabelsAction (sd_State target) ''''])
          }
      | _ \<Rightarrow> Some (change_proposal_unrelated s))"

definition settled_from_intent :: "terminal_intent_revalidated_event \<Rightarrow> turn_settled_event" where
  "settled_from_intent e =
     \<lparr>ts_PublicationAssociation = None, ts_EventMetadata = ti_EventMetadata e,
      ts_Turn = ti_SourceTurn e, ts_Outcome = ti_Outcome e, ts_ChangeProposal = ti_ChangeProposal e,
      ts_Review = ti_Review e, ts_ExistingReview = None,
      ts_AuthorizedReviewerActorID = ti_AuthorizedReviewerActorID e, ts_HumanInputPending = False,
      ts_PendingEvents = \<lparr>pe_Count = 0, pe_RequiresReconciliation = False, pe_LatestObservedHeadSHA = ''''\<rparr>,
      ts_Diagnostic = '''', ts_CorroborationHandoffReason = NoReason\<rparr>"

text \<open>\<open>HumanInputPending\<close>: the intent is put aside and its Role gets a Turn for the new input.\<close>

definition answer_human_input ::
  "snapshot \<Rightarrow> terminal_intent_revalidated_event \<Rightarrow> stage_definition \<Rightarrow> decision" where
  "answer_human_input s e stage =
     (let nxt = (cloneSnapshot s)\<lparr>sn_Revision := sn_Revision s + 1\<rparr>;
          (nxt, head) = (case ti_ChangeProposal e of
              None \<Rightarrow> (nxt, '''')
            | Some observed \<Rightarrow>
                (nxt\<lparr>sn_ChangeProposal := Some (observed\<lparr>cp_ReadyForSHA := ''''\<rparr>)\<rparr>, cp_HeadSHA observed))
      in Applied nxt (ReasonOther ''human_input_pending'')
           [EnqueueTurnAction (enqueue (sd_ID stage) (sd_Role stage) TurnPurposeReactivation head)])"

definition reduceTerminalIntentRevalidated ::
  "reducer \<Rightarrow> snapshot \<Rightarrow> terminal_intent_revalidated_event \<Rightarrow> decision option" where
  "reduceTerminalIntentRevalidated r s e =
     (case expectedRevisionDecision s (ti_EventMetadata e) of
        Some stale \<Rightarrow> Some stale
      | None \<Rightarrow>
          if (case sn_CurrentAttempt s of
                None \<Rightarrow> True
              | Some a \<Rightarrow> at_ID a \<noteq> ti_AttemptID e \<or> sn_ActiveTurn s \<noteq> None
                         \<or> at_CurrentStage a \<noteq> tg_Stage (ti_SourceTurn e))
             \<or> \<not> turn_state (sn_State s)
          then Some (Refused (cloneSnapshot s) DispositionStale ReasonTurnGuardStale)
          else case Stage (rd_definition r) (tg_Stage (ti_SourceTurn e)) of
            None \<Rightarrow> Some (Refused (cloneSnapshot s) DispositionIllegal ReasonInvariantViolation)
          | Some stage \<Rightarrow>
              if sd_Role stage \<noteq> tg_Role (ti_SourceTurn e) \<or> sd_State stage \<noteq> sn_State s
              then Some (Refused (cloneSnapshot s) DispositionIllegal ReasonInvariantViolation)
              else if ti_Outcome e = TurnOutcomeClarificationWait
              then Some (clarificationWaitDecision ((cloneSnapshot s)\<lparr>sn_ResumeRole := ''''\<rparr>)
                     (ti_SourceTurn e) (ti_HumanInputPending e))
              else if ti_HumanInputPending e then Some (answer_human_input s e stage)
              else (case ti_ExistingReview e of
                  Some existing \<Rightarrow>
                    if ti_Review e \<noteq> Some existing
                    then Some (Refused (cloneSnapshot s) DispositionIllegal ReasonReviewIdentityConflict)
                    else reducePreviouslyAcceptedTerminalReview r s e
                | None \<Rightarrow>
                    if Transition (rd_definition r) (sd_ID stage) (ti_Outcome e) = None
                    then Some (Refused (cloneSnapshot s) DispositionIllegal ReasonInvalidEvent)
                    else
                      let nxt = (cloneSnapshot s)\<lparr>sn_ResumeRole := ''''\<rparr> in
                      if ti_Outcome e = TurnOutcomeChangeProposalReady
                      then reduceDeveloperSettled r s nxt (settled_from_intent e)
                      else reduceReviewSettled r s nxt (settled_from_intent e)))"

definition reduceTerminalRevalidationFailed ::
  "reducer \<Rightarrow> snapshot \<Rightarrow> terminal_revalidation_failed_event \<Rightarrow> decision" where
  "reduceTerminalRevalidationFailed r s e =
     (case expectedRevisionDecision s (tf_EventMetadata e) of
        Some stale \<Rightarrow> stale
      | None \<Rightarrow>
          (case sn_CurrentAttempt s of
             None \<Rightarrow> Refused (cloneSnapshot s) DispositionStale ReasonTurnGuardStale
           | Some attempt \<Rightarrow>
               if at_ID attempt \<noteq> tf_AttemptID e \<or> sn_ActiveTurn s \<noteq> None \<or> \<not> turn_state (sn_State s)
               then Refused (cloneSnapshot s) DispositionStale ReasonTurnGuardStale
               else case Stage (rd_definition r) (at_CurrentStage attempt) of
                 None \<Rightarrow> Refused (cloneSnapshot s) DispositionIllegal ReasonInvariantViolation
               | Some stage \<Rightarrow>
                   if sd_State stage \<noteq> sn_State s
                   then Refused (cloneSnapshot s) DispositionIllegal ReasonInvariantViolation
                   else Applied (hand_off (sd_Role stage) (cloneSnapshot s)) (tf_Reason e)
                     [MarkHumanHandoffAction (tf_Reason e) (tf_Diagnostic e),
                      ReconcileLabelsAction StateNeedsHuman '''']))"

section \<open>Observations\<close>

text \<open>The Synchronization of a known Change Proposal whose head moved.\<close>

definition synchronize ::
  "reducer \<Rightarrow> snapshot \<Rightarrow> synchronization_event \<Rightarrow> change_proposal \<Rightarrow> decision option" where
  "synchronize r s e cp = do {
     let nxt = (cloneSnapshot s)
       \<lparr>sn_ChangeProposal := Some (cp\<lparr>cp_HeadSHA := sy_HeadSHA e, cp_ReadyForSHA := ''''\<rparr>),
        sn_ActiveTurn := None\<rparr>;
     attempt \<leftarrow> sn_CurrentAttempt s;
     (case Stage (rd_definition r) (at_CurrentStage attempt) of
        None \<Rightarrow> Some (Refused (cloneSnapshot s) DispositionIllegal ReasonInvariantViolation)
      | Some stage \<Rightarrow>
          Some (if sn_State s = StateNeedsHuman then
              Applied (nxt\<lparr>sn_Revision := sn_Revision nxt + 1\<rparr>) ReasonReviewHeadReplaced
                [PreserveHumanHandoffAction (sn_Revision s), ReconcileLabelsAction StateNeedsHuman '''']
            else if sd_State stage = StateDeveloping \<or> sn_ClarificationWaiting s then
              Applied (nxt\<lparr>sn_Revision := sn_Revision nxt + 1\<rparr>) ReasonReviewHeadReplaced
                [ReconcileLabelsAction (sd_State stage) '''']
            else if sd_ReviewLimit stage > 0
                    \<and> fm_get 0 (at_ReviewUsage attempt) (sd_ID stage) \<ge> sd_ReviewLimit stage then
              Applied (hand_off (sd_Role stage) nxt) ReasonReviewBudgetExhausted
                [MarkHumanHandoffAction ReasonReviewBudgetExhausted '''', ReconcileLabelsAction StateNeedsHuman '''']
            else
              Applied (nxt\<lparr>sn_State := sd_State stage, sn_Revision := sn_Revision nxt + 1\<rparr>)
                ReasonReviewHeadReplaced
                [EnqueueTurnAction (enqueue (sd_ID stage) (sd_Role stage) TurnPurposeSynchronization (sy_HeadSHA e)),
                 ReconcileLabelsAction (sd_State stage) '''']))
   }"

definition reduceSynchronization :: "reducer \<Rightarrow> snapshot \<Rightarrow> synchronization_event \<Rightarrow> decision option" where
  "reduceSynchronization r s e =
     (case expectedRevisionDecision s (sy_EventMetadata e) of
        Some stale \<Rightarrow> Some stale
      | None \<Rightarrow>
          if sn_ActiveTurn s \<noteq> None \<and> turn_state (sn_State s)
          then Some (deferForActiveTurn s (sy_EventMetadata e) EventKindSynchronization)
          else if \<not> legalInState (sn_State s) EventKindSynchronization then Some (illegalInState s)
          else case sn_ChangeProposal s of
            None \<Rightarrow> Some (change_proposal_unrelated s)
          | Some cp \<Rightarrow>
              if cp_ID cp \<noteq> sy_ChangeProposalID e then Some (change_proposal_unrelated s)
              else if sy_HeadSHA e = cp_HeadSHA cp
              then Some (Refused (cloneSnapshot s) DispositionDuplicate ReasonSynchronizationDuplicate)
              else if sy_PreviousHeadSHA e \<noteq> cp_HeadSHA cp
              then Some (Refused (cloneSnapshot s) DispositionStale ReasonSynchronizationStale)
              else synchronize r s e cp)"

definition reduceReviewObserved :: "snapshot \<Rightarrow> review_observed_event \<Rightarrow> decision" where
  "reduceReviewObserved s e =
     (case expectedRevisionDecision s (ro_EventMetadata e) of
        Some stale \<Rightarrow> stale
      | None \<Rightarrow>
          if sn_ActiveTurn s = None
          then Refused (cloneSnapshot s) DispositionUnrelated ReasonCorroborationWithoutActiveTurn
          else if \<not> legalInState (sn_State s) EventKindReviewObserved then illegalInState s
          else deferForActiveTurn s (ro_EventMetadata e) EventKindReviewObserved)"

definition reduceChangeProposalObserved :: "snapshot \<Rightarrow> change_proposal_observed_event \<Rightarrow> decision" where
  "reduceChangeProposalObserved s e =
     (case expectedRevisionDecision s (po_EventMetadata e) of
        Some stale \<Rightarrow> stale
      | None \<Rightarrow>
          if sn_ActiveTurn s = None
          then Refused (cloneSnapshot s) DispositionUnrelated ReasonCorroborationWithoutActiveTurn
          else if \<not> legalInState (sn_State s) EventKindChangeProposalObserved then illegalInState s
          else deferForActiveTurn s (po_EventMetadata e) EventKindChangeProposalObserved)"

section \<open>Closing, reopening and retention\<close>

definition reduceIssueClosed :: "reducer \<Rightarrow> snapshot \<Rightarrow> issue_closed_event \<Rightarrow> decision" where
  "reduceIssueClosed r s e =
     (case expectedRevisionDecision s (ic_EventMetadata e) of
        Some stale \<Rightarrow> stale
      | None \<Rightarrow>
          if \<not> legalInState (sn_State s) EventKindIssueClosed then illegalInState s
          else
            let nxt = (cloneSnapshot s)\<lparr>sn_State := StateClosing\<rparr>;
                nxt = (case sn_CurrentAttempt nxt of
                         None \<Rightarrow> nxt
                       | Some a \<Rightarrow> nxt\<lparr>sn_ContinuationStage := at_CurrentStage a\<rparr>);
                nxt = nxt\<lparr>sn_Closure := Some \<lparr>cl_ID = ic_ClosureID e, cl_RetainUntil = ic_RetainUntil e,
                            cl_RetentionToken = ic_RetentionToken e, cl_ReopenRequested = False\<rparr>\<rparr>;
                nxt = (case sn_ActiveTurn nxt of
                         Some turn \<Rightarrow> nxt\<lparr>sn_ResumeRole := tn_Role turn\<rparr>
                       | None \<Rightarrow>
                           if sn_ContinuationStage nxt \<noteq> '''' then
                             (case Stage (rd_definition r) (sn_ContinuationStage nxt) of
                                None \<Rightarrow> nxt
                              | Some stage \<Rightarrow> nxt\<lparr>sn_ResumeRole := sd_Role stage\<rparr>)
                           else nxt);
                nxt = clear_ready nxt;
                nxt = nxt\<lparr>sn_Revision := sn_Revision nxt + 1\<rparr>;
                stop = (case sn_ActiveTurn nxt of
                          None \<Rightarrow> []
                        | Some turn \<Rightarrow> [CloseMutationAdmissionAction (guardFromTurn turn),
                                       StopTurnAction (guardFromTurn turn)])
            in Applied nxt ReasonClosureStarted
                 (stop @ [SettleClosureAction (ic_ClosureID e), ReconcileLabelsAction StateClosing '''']))"

text \<open>The settled closure: the Work Item becomes DORMANT when a reopen was requested meanwhile,
  CLOSED with a retention deadline otherwise.\<close>

definition settle_closure :: "snapshot \<Rightarrow> closure_settled_event \<Rightarrow> closure \<Rightarrow> decision" where
  "settle_closure s e c =
     (let nxt = (cloneSnapshot s)\<lparr>sn_CurrentAttempt := None, sn_ActiveTurn := None, sn_Closure := None,
            sn_Assignments := (sn_Assignments s)\<lparr>as_Status := AssignmentCompleted\<rparr>\<rparr>;
          nxt = (if \<not> cs_AssignmentsExist e
                 then nxt\<lparr>sn_Assignments := (sn_Assignments nxt)\<lparr>as_RuntimeState := RuntimeStateCollected\<rparr>\<rparr>
                 else nxt);
          nxt = clear_ready nxt;
          completed = (case sn_CurrentAttempt s of
                         None \<Rightarrow> []
                       | Some a \<Rightarrow> [CompleteAttemptAction (at_ID a) AttemptCompletionIssueClosed]);
          collected = as_RuntimeState (sn_Assignments nxt) = RuntimeStateCollected;
          actions = completed @ [CompleteAssignmentsAction];
          (nxt, actions) =
            (if cl_ReopenRequested c then
               (nxt\<lparr>sn_State := StateDormant,
                    sn_Assignments := (sn_Assignments nxt)
                      \<lparr>as_RuntimeState := (if collected then RuntimeStateCollected else RuntimeStateRetained),
                       as_RetainedUntil := zero_time, as_RetentionToken := ''''\<rparr>\<rparr>, actions)
             else if \<not> collected then
               (nxt\<lparr>sn_State := StateClosed,
                    sn_Assignments := (sn_Assignments nxt)
                      \<lparr>as_RuntimeState := RuntimeStateRetained, as_RetainedUntil := cl_RetainUntil c,
                       as_RetentionToken := cl_RetentionToken c\<rparr>\<rparr>,
                actions @ [ScheduleRetentionAction (cl_RetentionToken c) (cl_RetainUntil c)])
             else
               (nxt\<lparr>sn_State := StateClosed,
                    sn_Assignments := (sn_Assignments nxt)
                      \<lparr>as_RetainedUntil := zero_time, as_RetentionToken := ''''\<rparr>\<rparr>, actions));
          nxt = nxt\<lparr>sn_Revision := sn_Revision nxt + 1\<rparr>
      in Applied nxt ReasonClosureSettled (actions @ [ReconcileLabelsAction (sn_State nxt) '''']))"

definition reduceClosureSettled :: "snapshot \<Rightarrow> closure_settled_event \<Rightarrow> decision" where
  "reduceClosureSettled s e =
     (case expectedRevisionDecision s (cs_EventMetadata e) of
        Some stale \<Rightarrow> stale
      | None \<Rightarrow>
          if \<not> legalInState (sn_State s) EventKindClosureSettled then illegalInState s
          else case sn_Closure s of
            None \<Rightarrow> Refused (cloneSnapshot s) DispositionStale ReasonTurnGuardStale
          | Some c \<Rightarrow>
              if cl_ID c \<noteq> cs_ClosureID e
              then Refused (cloneSnapshot s) DispositionStale ReasonTurnGuardStale
              else if (case (sn_ActiveTurn s, cs_Turn e) of
                         (None, None) \<Rightarrow> False
                       | (Some turn, Some g) \<Rightarrow> \<not> turnMatches turn g
                       | _ \<Rightarrow> True)
              then Refused (cloneSnapshot s) DispositionStale ReasonTurnGuardStale
              else settle_closure s e c)"

definition reduceIssueReopened :: "snapshot \<Rightarrow> issue_reopened_event \<Rightarrow> decision option" where
  "reduceIssueReopened s e =
     (case expectedRevisionDecision s (ir_EventMetadata e) of
        Some stale \<Rightarrow> Some stale
      | None \<Rightarrow>
          if sn_ActiveTurn s \<noteq> None \<and> turn_state (sn_State s)
          then Some (deferForActiveTurn s (ir_EventMetadata e) EventKindIssueReopened)
          else if \<not> legalInState (sn_State s) EventKindIssueReopened then Some (illegalInState s)
          else if sn_State s = StateClosing then do {
            c \<leftarrow> sn_Closure s;
            Some (if cl_ReopenRequested c
              then Refused (cloneSnapshot s) DispositionDuplicate ReasonEventDuplicate
              else Applied ((cloneSnapshot s)\<lparr>sn_Closure := Some (c\<lparr>cl_ReopenRequested := True\<rparr>),
                              sn_Revision := sn_Revision s + 1\<rparr>) ReasonClosureCancellationRecorded
                     [CancelRetentionAction (cl_RetentionToken c), ReconcileLabelsAction StateClosing ''''])
          }
          else if sn_State s \<noteq> StateClosed
          then Some (Refused (cloneSnapshot s) DispositionIllegal ReasonEventIllegalInState)
          else
            let token = as_RetentionToken (sn_Assignments s);
                nxt = (cloneSnapshot s)\<lparr>sn_State := StateDormant,
                  sn_Assignments := (sn_Assignments s)\<lparr>as_RetentionToken := '''', as_RetainedUntil := zero_time\<rparr>,
                  sn_Revision := sn_Revision s + 1\<rparr>
            in Some (Applied nxt ReasonIssueReopened
                 ((if token \<noteq> '''' then [CancelRetentionAction token] else [])
                  @ [ReconcileLabelsAction StateDormant ''''])))"

definition reduceAssignmentsCollected :: "snapshot \<Rightarrow> assignments_collected_event \<Rightarrow> decision" where
  "reduceAssignmentsCollected s e =
     (case expectedRevisionDecision s (ac_EventMetadata e) of
        Some stale \<Rightarrow> stale
      | None \<Rightarrow>
          if \<not> legalInState (sn_State s) EventKindAssignmentsCollected then illegalInState s
          else if sn_State s = StateDormant
          then Refused (cloneSnapshot s) DispositionStale ReasonRetentionCancelled
          else if as_RuntimeState (sn_Assignments s) = RuntimeStateCollected
          then Refused (cloneSnapshot s) DispositionDuplicate ReasonEventDuplicate
          else if ac_RetentionToken e \<noteq> as_RetentionToken (sn_Assignments s)
                  \<or> ac_RetainUntil e \<noteq> as_RetainedUntil (sn_Assignments s)
          then Refused (cloneSnapshot s) DispositionStale ReasonRetentionGenerationStale
          else if ac_CollectedAt e < ac_RetainUntil e
          then Refused (cloneSnapshot s) DispositionIllegal ReasonRetentionNotDue
          else Applied ((cloneSnapshot s)\<lparr>sn_Assignments := (sn_Assignments s)
                  \<lparr>as_RuntimeState := RuntimeStateCollected, as_RetentionToken := '''',
                   as_RetainedUntil := zero_time\<rparr>,
                  sn_Revision := sn_Revision s + 1\<rparr>) ReasonAssignmentsCollected [])"

section \<open>Dispatch and Reduce\<close>

fun dispatch :: "reducer \<Rightarrow> snapshot \<Rightarrow> event \<Rightarrow> decision option" where
  "dispatch r s (TriggerEvent e) = Some (reduceTrigger r s e)"
| "dispatch r s (TurnSettledEvent e) = reduceTurnSettled r s e"
| "dispatch r s (TerminalIntentRevalidatedEvent e) = reduceTerminalIntentRevalidated r s e"
| "dispatch r s (TerminalRevalidationFailedEvent e) = Some (reduceTerminalRevalidationFailed r s e)"
| "dispatch r s (SynchronizationEvent e) = reduceSynchronization r s e"
| "dispatch r s (ReviewObservedEvent e) = Some (reduceReviewObserved s e)"
| "dispatch r s (ChangeProposalObservedEvent e) = Some (reduceChangeProposalObserved s e)"
| "dispatch r s (IssueClosedEvent e) = Some (reduceIssueClosed r s e)"
| "dispatch r s (ClosureSettledEvent e) = Some (reduceClosureSettled s e)"
| "dispatch r s (IssueReopenedEvent e) = reduceIssueReopened s e"
| "dispatch r s (AssignmentsCollectedEvent e) = Some (reduceAssignmentsCollected s e)"
| "dispatch r s (AssignmentConfigurationConflictEvent e) = reduceAssignmentConfigurationConflict r s e"
| "dispatch r s (AgentTurnPreparationFailedEvent e) = reduceAgentTurnPreparationFailed r s e"
| "dispatch r s (AgentTurnMutationReconciliationExhaustedEvent e) =
     reduceAgentTurnMutationReconciliationExhausted r s e"
| "dispatch r s (WorkflowActionExhaustedEvent e) = reduceWorkflowActionExhausted r s e"
| "dispatch r s UnlistedEvent = Some (Refused (cloneSnapshot s) DispositionIllegal ReasonInvalidEvent)"

text \<open>What \<open>Reduce\<close> does to a handler's decision before it is returned.\<close>

definition normalize :: "reducer \<Rightarrow> snapshot \<Rightarrow> decision \<Rightarrow> decision" where
  "normalize r s d =
     (let d = (if de_Disposition d \<noteq> DispositionApplied
               then d\<lparr>de_Snapshot := (de_Snapshot d)\<lparr>sn_Revision := sn_Revision s\<rparr>\<rparr> else d);
          d = (if de_Reason d = NoReason then d\<lparr>de_Reason := ReasonInvalidEvent\<rparr> else d)
      in if \<not> validSnapshot (rd_definition r) (rd_infrastructureRetryLimit r) (de_Snapshot d)
         then Refused (cloneSnapshot s) DispositionIllegal ReasonInvariantViolation
         else d)"

definition Reduce :: "reducer \<Rightarrow> snapshot \<Rightarrow> event \<Rightarrow> decision option" where
  "Reduce r s e =
     (if \<not> validSnapshot (rd_definition r) (rd_infrastructureRetryLimit r) s
      then Some (Refused (cloneSnapshot s) DispositionIllegal ReasonInvariantViolation)
      else case eventDetails e of
        None \<Rightarrow> Some (Refused (cloneSnapshot s) DispositionIllegal ReasonInvalidEvent)
      | Some (metadata, kind) \<Rightarrow>
          if \<not> validEvent (rd_definition r) e metadata
          then Some (Refused (cloneSnapshot s) DispositionIllegal ReasonInvalidEvent)
          else if sn_State s = StateAbsent \<and> kind \<noteq> EventKindTrigger
          then Some (Refused (cloneSnapshot s) DispositionUnrelated ReasonWorkflowAbsent)
          else if sn_State s \<noteq> StateAbsent \<and> em_WorkItem metadata \<noteq> sn_WorkItem s
          then Some (Refused (cloneSnapshot s) DispositionUnrelated ReasonWorkItemUnrelated)
          else map_option (normalize r s) (dispatch r s e))"

end
