(* ===== verification/Workflow_Shapes.thy ===== *)
theory Workflow_Shapes
  imports Workflow_Reducer
begin

text \<open>
  What each handler of the reducer can return, as one shape lemma per handler: either the
  Event is refused, which leaves the Snapshot alone and at most records the Event as pending,
  or it is applied in one of the listed ways under the listed guards. The properties of the
  reducer are proved from these shapes and do not unfold the handlers again.
\<close>

section \<open>Selectors of the helper updates\<close>

fun records_pending :: "wf_action \<Rightarrow> bool" where
  "records_pending (RecordPendingEventAction _ _ _) = True"
| "records_pending _ = False"

definition refused :: "snapshot \<Rightarrow> decision \<Rightarrow> bool" where
  "refused s d \<longleftrightarrow>
     de_Disposition d \<noteq> DispositionApplied \<and> de_Snapshot d = s \<and> list_all records_pending (de_Actions d)"

lemma refused_Refused [simp]: "refused s (Refused s x rs) \<longleftrightarrow> x \<noteq> DispositionApplied"
  by (simp add: refused_def)

lemma refused_defer [simp]: "refused s (deferForActiveTurn s m k)"
  by (simp add: refused_def deferForActiveTurn_def)

lemma refused_illegalInState [simp]: "refused s (illegalInState s)"
  by (simp add: illegalInState_def)

lemma refused_unrelated [simp]: "refused s (change_proposal_unrelated s)"
  by (simp add: change_proposal_unrelated_def)

lemma refused_Applied [simp]: "\<not> refused s (Applied n rs acts)"
  by (simp add: refused_def)

lemma Applied_eq_iff [simp]:
  "Applied n rs acts = Applied n' rs' acts' \<longleftrightarrow> n = n' \<and> rs = rs' \<and> acts = acts'"
  by (simp add: Applied_def)

lemma Refused_neq_Applied [simp]:
  "x \<noteq> DispositionApplied \<Longrightarrow> Refused s x rs \<noteq> Applied n rs' acts"
  by (simp add: Applied_def Refused_def)

lemma expectedRevision_None [simp]:
  "expectedRevisionDecision s m = None \<longleftrightarrow> em_ExpectedRevision m = sn_Revision s"
  by (auto simp: expectedRevisionDecision_def not_less intro: antisym)

lemma expectedRevision_refused: "expectedRevisionDecision s m = Some d \<Longrightarrow> refused s d"
  by (auto simp: expectedRevisionDecision_def split: if_split_asm)

lemma hand_off_sel [simp]:
  "sn_Revision (hand_off r s) = sn_Revision s + 1" "sn_State (hand_off r s) = StateNeedsHuman"
  "sn_ActiveTurn (hand_off r s) = sn_ActiveTurn s" "sn_ChangeProposal (hand_off r s) = sn_ChangeProposal s"
  "sn_CurrentAttempt (hand_off r s) = sn_CurrentAttempt s" "sn_ResumeRole (hand_off r s) = r"
  "sn_LastAttemptNumber (hand_off r s) = sn_LastAttemptNumber s" "sn_Closure (hand_off r s) = sn_Closure s"
  "sn_PlanningOnly (hand_off r s) = sn_PlanningOnly s" "sn_WorkItem (hand_off r s) = sn_WorkItem s"
  "sn_ClarificationWaiting (hand_off r s) = sn_ClarificationWaiting s"
  "sn_ContinuationStage (hand_off r s) = sn_ContinuationStage s"
  by (simp_all add: hand_off_def)

lemma clear_ready_sel [simp]:
  "sn_Revision (clear_ready s) = sn_Revision s" "sn_State (clear_ready s) = sn_State s"
  "sn_ActiveTurn (clear_ready s) = sn_ActiveTurn s" "sn_CurrentAttempt (clear_ready s) = sn_CurrentAttempt s"
  "sn_LastAttemptNumber (clear_ready s) = sn_LastAttemptNumber s" "sn_Closure (clear_ready s) = sn_Closure s"
  "sn_PlanningOnly (clear_ready s) = sn_PlanningOnly s" "sn_WorkItem (clear_ready s) = sn_WorkItem s"
  "sn_Assignments (clear_ready s) = sn_Assignments s" "sn_ResumeRole (clear_ready s) = sn_ResumeRole s"
  "sn_ContinuationStage (clear_ready s) = sn_ContinuationStage s"
  "sn_ClarificationWaiting (clear_ready s) = sn_ClarificationWaiting s"
  "(sn_ChangeProposal (clear_ready s) = None) = (sn_ChangeProposal s = None)"
  "proposal_head (clear_ready s) = proposal_head s"
  by (simp_all add: clear_ready_def proposal_head_def option.map_comp split: option.split)

lemma reset_retries_sel [simp]:
  "at_ID (reset_retries a) = at_ID a" "at_Number (reset_retries a) = at_Number a"
  "at_CurrentStage (reset_retries a) = at_CurrentStage a" "at_ReviewUsage (reset_retries a) = at_ReviewUsage a"
  "ab_Used (at_InfrastructureRetryBudget (reset_retries a)) = 0"
  "ab_Limit (at_InfrastructureRetryBudget (reset_retries a)) = ab_Limit (at_InfrastructureRetryBudget a)"
  "at_StartedAt (reset_retries a) = at_StartedAt a" "at_Lifecycle (reset_retries a) = at_Lifecycle a"
  by (simp_all add: reset_retries_def)

lemma consume_cycle_sel [simp]:
  "at_ID (consume_cycle t sid a) = at_ID a" "at_Number (consume_cycle t sid a) = at_Number a"
  "at_CurrentStage (consume_cycle t sid a) = at_CurrentStage a"
  "at_InfrastructureRetryBudget (consume_cycle t sid a) = at_InfrastructureRetryBudget a"
  "at_StartedAt (consume_cycle t sid a) = at_StartedAt a" "at_Lifecycle (consume_cycle t sid a) = at_Lifecycle a"
  by (simp_all add: consume_cycle_def)

lemma bind_None_iff [simp]: "Option.bind x f = None \<longleftrightarrow> x = None \<or> (\<exists>y. x = Some y \<and> f y = None)"
  by (cases x) auto

text \<open>The results of a handler as positive cases.\<close>

lemma case_option_eq:
  "(case x of None \<Rightarrow> a | Some y \<Rightarrow> f y) = z \<longleftrightarrow> x = None \<and> a = z \<or> (\<exists>y. x = Some y \<and> f y = z)"
  by (cases x) auto

lemma if_eq: "(if b then x else y) = z \<longleftrightarrow> b \<and> x = z \<or> \<not> b \<and> y = z"
  by auto

lemmas result_cases = bind_eq_Some_conv case_option_eq if_eq

section \<open>Handoffs\<close>

text \<open>The handlers that give up on a Turn that could not be prepared or settled: they hand the
  current Stage's Role to a human.\<close>

definition handed_off ::
  "reducer \<Rightarrow> snapshot \<Rightarrow> event_metadata \<Rightarrow> reason \<Rightarrow> string \<Rightarrow> snapshot set \<Rightarrow> decision \<Rightarrow> bool" where
  "handed_off r s m rs diag starts d \<longleftrightarrow>
     em_ExpectedRevision m = sn_Revision s \<and> sn_ActiveTurn s = None
     \<and> (\<exists>a stage n. sn_CurrentAttempt s = Some a
           \<and> Stage (rd_definition r) (at_CurrentStage a) = Some stage \<and> n \<in> starts
           \<and> d = Applied (hand_off (sd_Role stage) n) rs
                   [MarkHumanHandoffAction rs diag, ReconcileLabelsAction StateNeedsHuman ''''])"

definition collect_runtime :: "snapshot \<Rightarrow> snapshot" where
  "collect_runtime s = s\<lparr>sn_Assignments := (sn_Assignments s)\<lparr>as_RuntimeState := RuntimeStateCollected\<rparr>\<rparr>"

lemma workflow_action_shape:
  assumes "reduceWorkflowActionExhausted r s e = Some d"
  shows "refused s d \<or> sn_State s \<in> {StatePlanReady, StatePlanning, StateDeveloping, StateReviewing, StatePRReady}
    \<and> handed_off r s (wx_EventMetadata e) ReasonWorkflowActionExhausted (wx_Diagnostic e) {clear_ready s} d"
  using assms
  by (auto simp: reduceWorkflowActionExhausted_def handed_off_def result_cases legalInState_def
      dest: expectedRevision_refused)

lemma mutation_shape:
  assumes "reduceAgentTurnMutationReconciliationExhausted r s e = Some d"
  shows "refused s d \<or> turn_state (sn_State s)
    \<and> handed_off r s (mx_EventMetadata e) ReasonAgentTurnMutationReconciliationExhausted (mx_Diagnostic e) {s} d"
  using assms
  by (auto simp: reduceAgentTurnMutationReconciliationExhausted_def handed_off_def result_cases
      legalInState_def turn_state_def dest: expectedRevision_refused)

lemma preparation_shape:
  assumes "reduceAgentTurnPreparationFailed r s e = Some d"
  shows "refused s d \<or> turn_state (sn_State s)
    \<and> handed_off r s (pf_EventMetadata e) ReasonAgentTurnPreparationFailed (pf_Diagnostic e)
        {s, collect_runtime s} d"
  using assms
  by (auto simp: reduceAgentTurnPreparationFailed_def handed_off_def collect_runtime_def result_cases
      legalInState_def turn_state_def Let_def dest: expectedRevision_refused)

lemma conflict_shape:
  assumes "reduceAssignmentConfigurationConflict r s e = Some d"
  shows "refused s d \<or> turn_state (sn_State s)
    \<and> handed_off r s (cc_EventMetadata e) ReasonAssignmentConfigurationConflict '''' {s} d"
  using assms
  by (auto simp: reduceAssignmentConfigurationConflict_def handed_off_def result_cases
      legalInState_def turn_state_def dest: expectedRevision_refused)

lemma revalidation_failed_shape:
  assumes "reduceTerminalRevalidationFailed r s e = d"
  shows "refused s d \<or> turn_state (sn_State s)
    \<and> handed_off r s (tf_EventMetadata e) (tf_Reason e) (tf_Diagnostic e) {s} d"
  using assms
  by (auto simp: reduceTerminalRevalidationFailed_def handed_off_def result_cases
      dest: expectedRevision_refused)

section \<open>Triggers\<close>

lemma trigger_shape:
  "reduceTrigger r s e = d \<Longrightarrow> refused s d
    \<or> em_ExpectedRevision (te_EventMetadata e) = sn_Revision s
      \<and> sn_State s \<in> {StateAbsent, StateDormant, StatePRReady, StateNeedsHuman}
      \<and> (te_PlanningOnly e \<longrightarrow> sn_State s = StateAbsent)
      \<and> (sn_PlanningOnly s \<longrightarrow> sn_State s = StateNeedsHuman)
      \<and> (sn_PlanningOnly s \<and> sn_State s = StateNeedsHuman \<and> te_PlanningCompleted e
          \<and> d = Applied (s\<lparr>sn_State := StatePlanReady, sn_ResumeRole := '''',
                sn_Assignments := (sn_Assignments s)\<lparr>as_Status := AssignmentActive\<rparr>,
                sn_Revision := sn_Revision s + 1\<rparr>)
              ReasonTriggered [ConsumeRunLabelAction, ReconcileLabelsAction StatePlanReady '''']
        \<or> te_PriorTerminalControlBlocked e \<and> sn_State s = StateNeedsHuman
          \<and> d = Applied (s\<lparr>sn_Revision := sn_Revision s + 1\<rparr>) ReasonTerminalRevalidationHumanControl
              [ConsumeRunLabelAction,
               MarkHumanHandoffAction ReasonTerminalRevalidationHumanControl human_control_diagnostic,
               ReconcileLabelsAction StateNeedsHuman '''']
        \<or> te_AttemptNumber e = sn_LastAttemptNumber s + 1
          \<and> (\<forall>a. sn_CurrentAttempt s = Some a \<longrightarrow> te_AttemptID e \<noteq> at_ID a)
          \<and> (\<exists>stage. Stage (rd_definition r) (se_Stage (trigger_entry r s e)) = Some stage
               \<and> AcceptsPurpose (rd_definition r) (se_Stage (trigger_entry r s e)) (se_Purpose (trigger_entry r s e))
               \<and> (sd_State stage = StateReviewing \<and> sn_ChangeProposal s = None
                   \<and> d = start_attempt r s e (se_Stage (InitialEntry (rd_definition r)))
                        (stage_or_zero (rd_definition r) (se_Stage (InitialEntry (rd_definition r))))
                        (se_Purpose (InitialEntry (rd_definition r)))
                  \<or> \<not> (sd_State stage = StateReviewing \<and> sn_ChangeProposal s = None)
                   \<and> d = start_attempt r s e (se_Stage (trigger_entry r s e)) stage
                        (se_Purpose (trigger_entry r s e)))))"
  unfolding reduceTrigger_def Let_def cloneSnapshot_id result_cases
  by (elim disjE conjE exE; hypsubst; (rule disjI1, (simp add: expectedRevision_refused; fail))?;
      simp add: legalInState_def split: option.split_asm)

section \<open>Settled Turns\<close>

text \<open>The Snapshot a settled Turn starts from: the Turn has ended, and a Change Proposal it
  published is associated.\<close>

definition settling :: "snapshot \<Rightarrow> turn_settled_event \<Rightarrow> snapshot" where
  "settling s e =
     s\<lparr>sn_ActiveTurn := None, sn_ResumeRole := '''',
       sn_ChangeProposal := (case ts_PublicationAssociation e of
          None \<Rightarrow> sn_ChangeProposal s
        | Some p \<Rightarrow> Some p)\<rparr>"

lemma settling_sel [simp]:
  "sn_Revision (settling s e) = sn_Revision s" "sn_State (settling s e) = sn_State s"
  "sn_ActiveTurn (settling s e) = None" "sn_CurrentAttempt (settling s e) = sn_CurrentAttempt s"
  "sn_LastAttemptNumber (settling s e) = sn_LastAttemptNumber s" "sn_Closure (settling s e) = sn_Closure s"
  "sn_PlanningOnly (settling s e) = sn_PlanningOnly s" "sn_WorkItem (settling s e) = sn_WorkItem s"
  "sn_Assignments (settling s e) = sn_Assignments s" "sn_ResumeRole (settling s e) = ''''"
  "sn_ContinuationStage (settling s e) = sn_ContinuationStage s"
  "sn_ClarificationWaiting (settling s e) = sn_ClarificationWaiting s"
  by (simp_all add: settling_def)

lemma settling_case:
  "(case ts_PublicationAssociation e of
      None \<Rightarrow> s\<lparr>sn_ActiveTurn := None, sn_ResumeRole := ''''\<rparr>
    | Some p \<Rightarrow> s\<lparr>sn_ActiveTurn := None, sn_ResumeRole := '''', sn_ChangeProposal := Some p\<rparr>)
   = settling s e"
  by (cases s) (simp add: settling_def split: option.split)

lemma turn_settled_shape:
  "reduceTurnSettled r s e = Some d \<Longrightarrow> refused s d
    \<or> ts_ExistingReview e = None \<and> em_ExpectedRevision (ts_EventMetadata e) = sn_Revision s
      \<and> turn_state (sn_State s)
      \<and> (\<exists>turn. sn_ActiveTurn s = Some turn \<and> turnMatches turn (ts_Turn e))
      \<and> (\<forall>p. ts_PublicationAssociation e = Some p \<longrightarrow> sn_ChangeProposal s = None
            \<and> (ts_Outcome e = TurnOutcomeChangeProposalReady \<longrightarrow> ts_ChangeProposal e = Some p))
      \<and> (needs_no_transition (ts_Outcome e)
          \<or> (\<exists>a t. sn_CurrentAttempt s = Some a
               \<and> Transition (rd_definition r) (at_CurrentStage a) (ts_Outcome e) = Some t))
      \<and> settle_outcome r s (settling s e) e = Some d"
  unfolding reduceTurnSettled_def Let_def cloneSnapshot_id result_cases option.inject settling_case
  by (elim disjE conjE exE; hypsubst?; (rule disjI1, (simp add: expectedRevision_refused; fail))?;
      simp add: legalInState_def turn_state_def split: option.split_asm)

text \<open>The hand over from one Stage to the next.\<close>

definition hand_over ::
  "snapshot \<Rightarrow> change_proposal \<Rightarrow> workflow_attempt \<Rightarrow> stage_definition \<Rightarrow> snapshot" where
  "hand_over n proposal a target =
     n\<lparr>sn_ChangeProposal := Some proposal,
       sn_CurrentAttempt := Some (reset_retries (a\<lparr>at_CurrentStage := sd_ID target\<rparr>)),
       sn_State := sd_State target, sn_Revision := sn_Revision n + 1\<rparr>"

lemma developer_shape:
  "reduceDeveloperSettled r s n e = Some d \<Longrightarrow> refused s d
    \<or> (\<exists>observed a b target.
         ts_ChangeProposal e = Some observed \<and> sn_CurrentAttempt s = Some a \<and> sn_CurrentAttempt n = Some b
         \<and> (case sn_ChangeProposal s of
              None \<Rightarrow> tg_ChangeProposalID (ts_Turn e) = 0
            | Some cp \<Rightarrow> cp_ID observed = cp_ID cp \<and> tg_ChangeProposalID (ts_Turn e) = cp_ID cp)
         \<and> Stage (rd_definition r)
             (ot_NextStage (transition_or_zero (rd_definition r) (at_CurrentStage a) (ts_Outcome e))) = Some target
         \<and> d = Applied (hand_over n (observed\<lparr>cp_ReadyForSHA := ''''\<rparr>) b target) ReasonChangeProposalReady
             (successorActions (ts_Turn e) (ts_PendingEvents e)
                (enqueue (sd_ID target) (sd_Role target)
                   (ot_NextPurpose (transition_or_zero (rd_definition r) (at_CurrentStage a) (ts_Outcome e)))
                   (cp_HeadSHA observed))
              @ [ReconcileLabelsAction (sd_State target) '''']))"
  unfolding reduceDeveloperSettled_def hand_over_def Let_def cloneSnapshot_id result_cases option.inject
  by (elim disjE conjE exE; hypsubst?; (rule disjI1, (simp add: expectedRevision_refused; fail))?; simp)

text \<open>A settled review: the Change Proposal and its observation, the review and the Attempt, and
  the four things that can happen.\<close>

definition review_identified ::
  "snapshot \<Rightarrow> turn_settled_event \<Rightarrow> change_proposal \<Rightarrow> review_identity \<Rightarrow> change_proposal \<Rightarrow> bool" where
  "review_identified s e cp review observed \<longleftrightarrow>
     sn_ChangeProposal s = Some cp \<and> ts_Review e = Some review \<and> ts_ChangeProposal e = Some observed
     \<and> tg_ChangeProposalID (ts_Turn e) = cp_ID cp \<and> rv_ChangeProposalID review = cp_ID cp
     \<and> cp_ID observed = cp_ID cp \<and> rv_ActorID review = ts_AuthorizedReviewerActorID e"

definition reviewed ::
  "snapshot \<Rightarrow> change_proposal \<Rightarrow> workflow_attempt \<Rightarrow> snapshot" where
  "reviewed n proposal b =
     n\<lparr>sn_ChangeProposal := Some proposal, sn_CurrentAttempt := Some (reset_retries b)\<rparr>"

lemma reviewed_sel [simp]:
  "sn_Revision (reviewed n p b) = sn_Revision n" "sn_State (reviewed n p b) = sn_State n"
  "sn_ActiveTurn (reviewed n p b) = sn_ActiveTurn n" "sn_CurrentAttempt (reviewed n p b) = Some (reset_retries b)"
  "sn_LastAttemptNumber (reviewed n p b) = sn_LastAttemptNumber n" "sn_Closure (reviewed n p b) = sn_Closure n"
  "sn_PlanningOnly (reviewed n p b) = sn_PlanningOnly n" "sn_WorkItem (reviewed n p b) = sn_WorkItem n"
  "sn_Assignments (reviewed n p b) = sn_Assignments n" "sn_ResumeRole (reviewed n p b) = sn_ResumeRole n"
  "sn_ChangeProposal (reviewed n p b) = Some p"
  "sn_ClarificationWaiting (reviewed n p b) = sn_ClarificationWaiting n"
  "sn_ContinuationStage (reviewed n p b) = sn_ContinuationStage n"
  by (simp_all add: reviewed_def)

definition review_branch ::
  "reducer \<Rightarrow> snapshot \<Rightarrow> turn_settled_event \<Rightarrow> change_proposal \<Rightarrow> review_identity \<Rightarrow> change_proposal
    \<Rightarrow> workflow_attempt \<Rightarrow> workflow_attempt \<Rightarrow> decision \<Rightarrow> bool" where
  "review_branch r n e cp review observed a b d \<longleftrightarrow>
     (let proposal = observed\<lparr>cp_ReadyForSHA := ''''\<rparr>;
          n' = reviewed n proposal b;
          stage = stage_or_zero (rd_definition r) (at_CurrentStage a);
          t = transition_or_zero (rd_definition r) (at_CurrentStage a) (ts_Outcome e);
          att = consume_cycle t (at_CurrentStage a) (reset_retries b);
          exhausted = (ot_ConsumesReviewCycle t
            \<and> fm_get 0 (at_ReviewUsage att) (at_CurrentStage a) \<ge> sd_ReviewLimit stage)
      in stale_review_head cp e review proposal \<and> d = repeat_review r n' e review proposal stage
         \<or> \<not> stale_review_head cp e review proposal
           \<and> (ts_Outcome e = TurnOutcomeApproved \<and> d = approve n' e review proposal att t
             \<or> ts_Outcome e \<noteq> TurnOutcomeApproved
               \<and> (\<exists>target. Stage (rd_definition r) (ot_NextStage t) = Some target
                    \<and> (exhausted \<and> d = exhaust_budget n' e review att target
                      \<or> \<not> exhausted \<and> d = request_changes n' e review proposal att t target))))"

lemma settle_review_shape:
  "settle_review r s n e cp review observed = Some d \<Longrightarrow> refused s d
    \<or> (\<exists>a b. sn_CurrentAttempt s = Some a \<and> sn_CurrentAttempt n = Some b
         \<and> review_branch r n e cp review observed a b d)"
  unfolding settle_review_def review_branch_def Let_def cloneSnapshot_id result_cases option.inject
    reviewed_def [symmetric]
  by (elim disjE conjE exE; hypsubst; (rule disjI1, (simp; fail))?; simp)

lemma review_shape:
  "reduceReviewSettled r s n e = Some d \<Longrightarrow> refused s d
    \<or> (\<exists>cp review observed a b. review_identified s e cp review observed
         \<and> sn_CurrentAttempt s = Some a \<and> sn_CurrentAttempt n = Some b
         \<and> review_branch r n e cp review observed a b d)"
  unfolding reduceReviewSettled_def cloneSnapshot_id result_cases option.inject
  by (elim disjE conjE exE; hypsubst?; (rule disjI1, (simp; fail))?;
      drule settle_review_shape; auto simp: review_identified_def)

text \<open>The outcomes that need no review.\<close>

definition retry_intent :: "turn_settled_event \<Rightarrow> enqueue_turn" where
  "retry_intent e =
     \<lparr>eq_Stage = tg_Stage (ts_Turn e), eq_Role = tg_Role (ts_Turn e), eq_Purpose = TurnPurposeRetry,
      eq_ExpectedHeadSHA = (case ts_PublicationAssociation e of
          None \<Rightarrow> tg_ExpectedHeadSHA (ts_Turn e)
        | Some p \<Rightarrow> cp_HeadSHA p),
      eq_RetryOfTurnID = tg_TurnID (ts_Turn e)\<rparr>"

definition use_retry :: "workflow_attempt \<Rightarrow> workflow_attempt" where
  "use_retry a = a\<lparr>at_InfrastructureRetryBudget := (at_InfrastructureRetryBudget a)
     \<lparr>ab_Used := ab_Used (at_InfrastructureRetryBudget a) + 1\<rparr>\<rparr>"

lemma use_retry_sel [simp]:
  "at_ID (use_retry a) = at_ID a" "at_Number (use_retry a) = at_Number a"
  "at_CurrentStage (use_retry a) = at_CurrentStage a" "at_ReviewUsage (use_retry a) = at_ReviewUsage a"
  "ab_Used (at_InfrastructureRetryBudget (use_retry a)) = ab_Used (at_InfrastructureRetryBudget a) + 1"
  "ab_Limit (at_InfrastructureRetryBudget (use_retry a)) = ab_Limit (at_InfrastructureRetryBudget a)"
  "at_StartedAt (use_retry a) = at_StartedAt a" "at_Lifecycle (use_retry a) = at_Lifecycle a"
  by (simp_all add: use_retry_def)

lemma infrastructure_shape:
  "reduceInfrastructureFailure n e = Some d \<Longrightarrow>
    (\<exists>b. sn_CurrentAttempt n = Some b
      \<and> (ab_Used (at_InfrastructureRetryBudget b) < ab_Limit (at_InfrastructureRetryBudget b)
          \<and> d = Applied (n\<lparr>sn_CurrentAttempt := Some (use_retry b), sn_Revision := sn_Revision n + 1\<rparr>)
                ReasonInfrastructureRetry
                (successorActions (ts_Turn e) (ts_PendingEvents e) (retry_intent e))
        \<or> ab_Limit (at_InfrastructureRetryBudget b) \<le> ab_Used (at_InfrastructureRetryBudget b)
          \<and> d = Applied (hand_off (tg_Role (ts_Turn e)) n) ReasonInfrastructureRetriesExhausted
                (with_pending (ts_Turn e) (ts_PendingEvents e)
                   [MarkHumanHandoffAction ReasonInfrastructureRetriesExhausted
                      (retries_exhausted_diagnostic e (at_InfrastructureRetryBudget b)),
                    ReconcileLabelsAction StateNeedsHuman ''''])))"
  unfolding reduceInfrastructureFailure_def Let_def result_cases option.inject use_retry_def retry_intent_def
  by (elim disjE conjE exE; hypsubst; simp add: not_less)

lemma clarification_shape:
  "reduceClarificationWait s n e = d \<Longrightarrow> refused s d
    \<or> (\<exists>proposal. (proposal = sn_ChangeProposal n
           \<or> (\<exists>observed. ts_ChangeProposal e = Some observed
                \<and> (\<forall>p. sn_ChangeProposal n = Some p \<longrightarrow> cp_ID p = cp_ID observed)
                \<and> proposal = Some (observed\<lparr>cp_ReadyForSHA := ''''\<rparr>)))
         \<and> d = clarificationWaitDecision (n\<lparr>sn_ChangeProposal := proposal\<rparr>) (ts_Turn e) (ts_HumanInputPending e))"
  unfolding reduceClarificationWait_def result_cases
  by (elim disjE conjE exE; hypsubst; (rule disjI1, (simp; fail))?;
      force split: option.split_asm)

lemma planning_shape:
  "reducePlanningReady s n e = d \<Longrightarrow> refused s d
    \<or> sn_PlanningOnly s \<and> sn_ChangeProposal s = None \<and> ts_PublicationAssociation e = None
      \<and> (ts_HumanInputPending e \<and> d = clarificationWaitDecision n (ts_Turn e) True
        \<or> \<not> ts_HumanInputPending e
          \<and> d = Applied (n\<lparr>sn_State := StatePlanReady, sn_Revision := sn_Revision n + 1\<rparr>) ReasonApproved
                [ReconcileLabelsAction StatePlanReady ''''])"
  unfolding reducePlanningReady_def result_cases
  by (elim disjE conjE exE; hypsubst; (rule disjI1, (simp; fail))?; simp)

definition turn_handed_off :: "snapshot \<Rightarrow> turn_settled_event \<Rightarrow> decision \<Rightarrow> bool" where
  "turn_handed_off n e d \<longleftrightarrow>
     (\<exists>rs diag. d = Applied (hand_off (tg_Role (ts_Turn e)) n) rs
        (with_pending (ts_Turn e) (ts_PendingEvents e)
           [MarkHumanHandoffAction rs diag, ReconcileLabelsAction StateNeedsHuman '''']))"

definition turn_retried :: "snapshot \<Rightarrow> turn_settled_event \<Rightarrow> decision \<Rightarrow> bool" where
  "turn_retried n e d \<longleftrightarrow>
     (\<exists>b. sn_CurrentAttempt n = Some b
        \<and> ab_Used (at_InfrastructureRetryBudget b) < ab_Limit (at_InfrastructureRetryBudget b)
        \<and> d = Applied (n\<lparr>sn_CurrentAttempt := Some (use_retry b), sn_Revision := sn_Revision n + 1\<rparr>)
                ReasonInfrastructureRetry
                (successorActions (ts_Turn e) (ts_PendingEvents e) (retry_intent e)))"

lemma settle_outcome_shape:
  assumes "settle_outcome r s n e = Some d"
  shows "refused s d
    \<or> (\<exists>proposal pending. (proposal = sn_ChangeProposal n
         \<or> (\<exists>observed. ts_ChangeProposal e = Some observed
              \<and> (\<forall>p. sn_ChangeProposal n = Some p \<longrightarrow> cp_ID p = cp_ID observed)
              \<and> ts_Outcome e = TurnOutcomeClarificationWait
              \<and> proposal = Some (observed\<lparr>cp_ReadyForSHA := ''''\<rparr>)))
         \<and> d = clarificationWaitDecision (n\<lparr>sn_ChangeProposal := proposal\<rparr>) (ts_Turn e) pending)
    \<or> ts_Outcome e = TurnOutcomePlanningReady \<and> sn_PlanningOnly s \<and> sn_ChangeProposal s = None
        \<and> ts_PublicationAssociation e = None
        \<and> d = Applied (n\<lparr>sn_State := StatePlanReady, sn_Revision := sn_Revision n + 1\<rparr>) ReasonApproved
               [ReconcileLabelsAction StatePlanReady '''']
    \<or> ts_Outcome e = TurnOutcomeChangeProposalReady \<and> reduceDeveloperSettled r s n e = Some d
    \<or> ts_Outcome e \<in> {TurnOutcomeChangesRequested, TurnOutcomeApproved} \<and> reduceReviewSettled r s n e = Some d
    \<or> ts_Outcome e \<in> {TurnOutcomeBlocked, TurnOutcomePrerequisiteFailed, TurnOutcomeInfrastructureFailed}
        \<and> turn_handed_off n e d
    \<or> ts_Outcome e = TurnOutcomeInfrastructureFailed \<and> turn_retried n e d"
proof (cases "ts_Outcome e")
  case TurnOutcomePlanningReady
  with assms have "reducePlanningReady s n e = d" by (simp add: settle_outcome_def)
  from planning_shape [OF this] TurnOutcomePlanningReady show ?thesis
    by (elim disjE) (auto intro: exI [of _ "sn_ChangeProposal n"])
next
  case TurnOutcomeClarificationWait
  with assms have "reduceClarificationWait s n e = d" by (simp add: settle_outcome_def)
  from clarification_shape [OF this] TurnOutcomeClarificationWait show ?thesis by blast
next
  case TurnOutcomeInfrastructureFailed
  show ?thesis
  proof (cases "ts_CorroborationHandoffReason e = NoReason")
    case True
    with TurnOutcomeInfrastructureFailed assms have "reduceInfrastructureFailure n e = Some d"
      by (simp add: settle_outcome_def)
    from infrastructure_shape [OF this] TurnOutcomeInfrastructureFailed show ?thesis
      by (auto simp: turn_handed_off_def turn_retried_def)
  next
    case False
    with TurnOutcomeInfrastructureFailed assms show ?thesis
      by (auto simp: settle_outcome_def reduceTerminalCorroborationHandoff_def turn_handed_off_def)
  qed
qed (use assms in \<open>auto simp: settle_outcome_def reduceBlocked_def turn_handed_off_def\<close>)

section \<open>Revalidated intents\<close>

definition repeat_previous_review ::
  "snapshot \<Rightarrow> terminal_intent_revalidated_event \<Rightarrow> change_proposal \<Rightarrow> workflow_attempt \<Rightarrow> decision" where
  "repeat_previous_review s e proposal a =
     Applied (s\<lparr>sn_ChangeProposal := Some proposal, sn_CurrentAttempt := Some (reset_retries a),
                sn_Revision := sn_Revision s + 1\<rparr>) ReasonReviewHeadReplaced
       [EnqueueTurnAction (enqueue (at_CurrentStage a) (tg_Role (ti_SourceTurn e))
          TurnPurposeSynchronization (cp_HeadSHA proposal)),
        ReconcileLabelsAction (sn_State s) '''']"

definition approve_previous_review ::
  "snapshot \<Rightarrow> review_identity \<Rightarrow> change_proposal \<Rightarrow> workflow_attempt \<Rightarrow> outcome_transition \<Rightarrow> decision" where
  "approve_previous_review s review proposal a t =
     Applied (s\<lparr>sn_State := ot_TerminalState t,
                sn_CurrentAttempt := Some ((reset_retries a)\<lparr>at_CurrentStage := ot_ContinuationStage t\<rparr>),
                sn_ChangeProposal := Some (proposal\<lparr>cp_ReadyForSHA := rv_HeadSHA review\<rparr>),
                sn_Revision := sn_Revision s + 1\<rparr>)
       ReasonApproved [ReconcileLabelsAction StatePRReady (rv_HeadSHA review)]"

definition return_previous_review ::
  "snapshot \<Rightarrow> change_proposal \<Rightarrow> workflow_attempt \<Rightarrow> outcome_transition \<Rightarrow> stage_definition \<Rightarrow> decision" where
  "return_previous_review s proposal a t target =
     Applied (s\<lparr>sn_ChangeProposal := Some proposal,
                sn_CurrentAttempt := Some ((reset_retries a)\<lparr>at_CurrentStage := sd_ID target\<rparr>),
                sn_State := sd_State target, sn_Revision := sn_Revision s + 1\<rparr>)
       ReasonChangesRequested
       [EnqueueTurnAction (enqueue (sd_ID target) (sd_Role target) (ot_NextPurpose t) (cp_HeadSHA proposal)),
        ReconcileLabelsAction (sd_State target) '''']"

definition previous_review_identified ::
  "snapshot \<Rightarrow> terminal_intent_revalidated_event \<Rightarrow> change_proposal \<Rightarrow> review_identity \<Rightarrow> change_proposal \<Rightarrow> bool" where
  "previous_review_identified s e cp review observed \<longleftrightarrow>
     sn_ChangeProposal s = Some cp \<and> ti_ChangeProposal e = Some observed \<and> ti_Review e = Some review
     \<and> tg_ChangeProposalID (ti_SourceTurn e) = cp_ID cp \<and> rv_ChangeProposalID review = cp_ID cp
     \<and> cp_ID observed = cp_ID cp \<and> rv_ActorID review = ti_AuthorizedReviewerActorID e"

definition previous_head_current ::
  "terminal_intent_revalidated_event \<Rightarrow> change_proposal \<Rightarrow> review_identity \<Rightarrow> change_proposal \<Rightarrow> bool" where
  "previous_head_current e cp review observed \<longleftrightarrow>
     rv_HeadSHA review = tg_ExpectedHeadSHA (ti_SourceTurn e) \<and> rv_HeadSHA review = cp_HeadSHA observed
     \<and> cp_HeadSHA cp = tg_ExpectedHeadSHA (ti_SourceTurn e)"

lemma previous_review_shape:
  "reducePreviouslyAcceptedTerminalReview r s e = Some d \<Longrightarrow> refused s d
    \<or> (\<exists>cp observed review a t. previous_review_identified s e cp review observed
         \<and> sn_CurrentAttempt s = Some a
         \<and> Transition (rd_definition r) (at_CurrentStage a) (ti_Outcome e) = Some t
         \<and> (\<not> previous_head_current e cp review observed
             \<and> d = repeat_previous_review s e (observed\<lparr>cp_ReadyForSHA := ''''\<rparr>) a
           \<or> previous_head_current e cp review observed \<and> ti_Outcome e = TurnOutcomeApproved
             \<and> d = approve_previous_review s review (observed\<lparr>cp_ReadyForSHA := ''''\<rparr>) a t
           \<or> previous_head_current e cp review observed \<and> ti_Outcome e \<noteq> TurnOutcomeApproved
             \<and> (\<exists>target. Stage (rd_definition r) (ot_NextStage t) = Some target
                  \<and> d = return_previous_review s (observed\<lparr>cp_ReadyForSHA := ''''\<rparr>) a t target)))"
  unfolding reducePreviouslyAcceptedTerminalReview_def Let_def cloneSnapshot_id prod.case result_cases
    option.inject
  by (elim disjE conjE exE; hypsubst; (rule disjI1, (simp; fail))?;
      simp add: previous_review_identified_def previous_head_current_def repeat_previous_review_def
        approve_previous_review_def return_previous_review_def; auto?)

lemma terminal_intent_shape:
  "reduceTerminalIntentRevalidated r s e = Some d \<Longrightarrow> refused s d
    \<or> em_ExpectedRevision (ti_EventMetadata e) = sn_Revision s \<and> turn_state (sn_State s)
      \<and> sn_ActiveTurn s = None
      \<and> (\<exists>a stage. sn_CurrentAttempt s = Some a \<and> at_ID a = ti_AttemptID e
           \<and> at_CurrentStage a = tg_Stage (ti_SourceTurn e)
           \<and> Stage (rd_definition r) (at_CurrentStage a) = Some stage
           \<and> sd_Role stage = tg_Role (ti_SourceTurn e) \<and> sd_State stage = sn_State s
           \<and> (ti_Outcome e = TurnOutcomeClarificationWait
               \<and> d = clarificationWaitDecision (s\<lparr>sn_ResumeRole := ''''\<rparr>) (ti_SourceTurn e) (ti_HumanInputPending e)
             \<or> ti_Outcome e \<noteq> TurnOutcomeClarificationWait
               \<and> (ti_HumanInputPending e \<and> d = answer_human_input s e stage
                 \<or> \<not> ti_HumanInputPending e
                   \<and> (ti_ExistingReview e \<noteq> None \<and> ti_Review e = ti_ExistingReview e
                       \<and> reducePreviouslyAcceptedTerminalReview r s e = Some d
                     \<or> ti_ExistingReview e = None \<and> Transition (rd_definition r) (sd_ID stage) (ti_Outcome e) \<noteq> None
                       \<and> (ti_Outcome e = TurnOutcomeChangeProposalReady
                           \<and> reduceDeveloperSettled r s (s\<lparr>sn_ResumeRole := ''''\<rparr>) (settled_from_intent e) = Some d
                         \<or> ti_Outcome e \<noteq> TurnOutcomeChangeProposalReady
                           \<and> reduceReviewSettled r s (s\<lparr>sn_ResumeRole := ''''\<rparr>) (settled_from_intent e)
                             = Some d)))))"
  unfolding reduceTerminalIntentRevalidated_def Let_def cloneSnapshot_id result_cases option.inject
  by (elim disjE conjE exE; hypsubst?; (rule disjI1, (simp add: expectedRevision_refused; fail))?;
      simp split: option.split_asm)

section \<open>Synchronizations\<close>

definition synchronized :: "snapshot \<Rightarrow> synchronization_event \<Rightarrow> change_proposal \<Rightarrow> snapshot" where
  "synchronized s e cp =
     s\<lparr>sn_ChangeProposal := Some (cp\<lparr>cp_HeadSHA := sy_HeadSHA e, cp_ReadyForSHA := ''''\<rparr>),
       sn_ActiveTurn := None\<rparr>"

lemma synchronized_sel [simp]:
  "sn_Revision (synchronized s e cp) = sn_Revision s" "sn_State (synchronized s e cp) = sn_State s"
  "sn_ActiveTurn (synchronized s e cp) = None" "sn_CurrentAttempt (synchronized s e cp) = sn_CurrentAttempt s"
  "sn_LastAttemptNumber (synchronized s e cp) = sn_LastAttemptNumber s"
  "sn_Closure (synchronized s e cp) = sn_Closure s"
  "sn_PlanningOnly (synchronized s e cp) = sn_PlanningOnly s"
  "sn_WorkItem (synchronized s e cp) = sn_WorkItem s"
  "sn_Assignments (synchronized s e cp) = sn_Assignments s"
  "sn_ResumeRole (synchronized s e cp) = sn_ResumeRole s"
  "sn_ChangeProposal (synchronized s e cp) = Some (cp\<lparr>cp_HeadSHA := sy_HeadSHA e, cp_ReadyForSHA := ''''\<rparr>)"
  "sn_ClarificationWaiting (synchronized s e cp) = sn_ClarificationWaiting s"
  "sn_ContinuationStage (synchronized s e cp) = sn_ContinuationStage s"
  by (simp_all add: synchronized_def)

definition bump :: "snapshot \<Rightarrow> snapshot" where
  "bump s = s\<lparr>sn_Revision := sn_Revision s + 1\<rparr>"

lemma bump_sel [simp]:
  "sn_Revision (bump s) = sn_Revision s + 1" "sn_State (bump s) = sn_State s"
  "sn_ActiveTurn (bump s) = sn_ActiveTurn s" "sn_CurrentAttempt (bump s) = sn_CurrentAttempt s"
  "sn_LastAttemptNumber (bump s) = sn_LastAttemptNumber s" "sn_Closure (bump s) = sn_Closure s"
  "sn_PlanningOnly (bump s) = sn_PlanningOnly s" "sn_WorkItem (bump s) = sn_WorkItem s"
  "sn_Assignments (bump s) = sn_Assignments s" "sn_ResumeRole (bump s) = sn_ResumeRole s"
  "sn_ChangeProposal (bump s) = sn_ChangeProposal s"
  "sn_ClarificationWaiting (bump s) = sn_ClarificationWaiting s"
  "sn_ContinuationStage (bump s) = sn_ContinuationStage s"
  by (simp_all add: bump_def)

definition sync_branch ::
  "snapshot \<Rightarrow> synchronization_event \<Rightarrow> snapshot \<Rightarrow> workflow_attempt \<Rightarrow> stage_definition \<Rightarrow> decision \<Rightarrow> bool" where
  "sync_branch s e n a stage d \<longleftrightarrow>
     sn_State s = StateNeedsHuman
       \<and> d = Applied (bump n) ReasonReviewHeadReplaced
               [PreserveHumanHandoffAction (sn_Revision s), ReconcileLabelsAction StateNeedsHuman '''']
     \<or> sn_State s \<noteq> StateNeedsHuman \<and> (sd_State stage = StateDeveloping \<or> sn_ClarificationWaiting s)
       \<and> d = Applied (bump n) ReasonReviewHeadReplaced [ReconcileLabelsAction (sd_State stage) '''']
     \<or> sn_State s \<noteq> StateNeedsHuman \<and> sd_State stage \<noteq> StateDeveloping \<and> \<not> sn_ClarificationWaiting s
       \<and> d = Applied (hand_off (sd_Role stage) n) ReasonReviewBudgetExhausted
               [MarkHumanHandoffAction ReasonReviewBudgetExhausted '''', ReconcileLabelsAction StateNeedsHuman '''']
     \<or> sn_State s \<noteq> StateNeedsHuman \<and> sd_State stage \<noteq> StateDeveloping \<and> \<not> sn_ClarificationWaiting s
       \<and> \<not> (sd_ReviewLimit stage > 0 \<and> sd_ReviewLimit stage \<le> fm_get 0 (at_ReviewUsage a) (sd_ID stage))
       \<and> d = Applied (bump (n\<lparr>sn_State := sd_State stage\<rparr>)) ReasonReviewHeadReplaced
               [EnqueueTurnAction (enqueue (sd_ID stage) (sd_Role stage) TurnPurposeSynchronization (sy_HeadSHA e)),
                ReconcileLabelsAction (sd_State stage) '''']"

lemma synchronization_shape:
  "reduceSynchronization r s e = Some d \<Longrightarrow> refused s d
    \<or> em_ExpectedRevision (sy_EventMetadata e) = sn_Revision s
      \<and> sn_State s \<in> {StatePlanning, StateDeveloping, StateReviewing, StatePRReady, StateNeedsHuman}
      \<and> (sn_ActiveTurn s = None \<or> \<not> turn_state (sn_State s))
      \<and> (\<exists>cp a stage. sn_ChangeProposal s = Some cp \<and> cp_ID cp = sy_ChangeProposalID e
           \<and> sy_PreviousHeadSHA e = cp_HeadSHA cp \<and> sy_HeadSHA e \<noteq> cp_HeadSHA cp
           \<and> sn_CurrentAttempt s = Some a \<and> Stage (rd_definition r) (at_CurrentStage a) = Some stage
           \<and> sync_branch s e (synchronized s e cp) a stage d)"
  unfolding reduceSynchronization_def synchronize_def Let_def cloneSnapshot_id result_cases option.inject
  by (elim disjE conjE exE; hypsubst?; (rule disjI1, (simp add: expectedRevision_refused; fail))?;
      simp add: legalInState_def sync_branch_def synchronized_def bump_def)

section \<open>Observations, closing, reopening and retention\<close>

lemma review_observed_refused: "refused s (reduceReviewObserved s e)"
  by (auto simp: reduceReviewObserved_def dest: expectedRevision_refused split: option.split)

lemma proposal_observed_refused: "refused s (reduceChangeProposalObserved s e)"
  by (auto simp: reduceChangeProposalObserved_def dest: expectedRevision_refused split: option.split)

text \<open>A closing Work Item: the Attempt's Stage is kept as the continuation, the Turn and the
  Attempt stay until the closure settles.\<close>

definition closing ::
  "reducer \<Rightarrow> snapshot \<Rightarrow> issue_closed_event \<Rightarrow> snapshot \<Rightarrow> bool" where
  "closing r s e n \<longleftrightarrow>
     sn_State n = StateClosing \<and> sn_Revision n = sn_Revision s + 1
     \<and> sn_PlanningOnly n = sn_PlanningOnly s \<and> sn_ClarificationWaiting n = sn_ClarificationWaiting s
     \<and> sn_WorkItem n = sn_WorkItem s
     \<and> sn_CurrentAttempt n = sn_CurrentAttempt s \<and> sn_ActiveTurn n = sn_ActiveTurn s
     \<and> sn_ChangeProposal n = sn_ChangeProposal (clear_ready s)
     \<and> sn_Assignments n = sn_Assignments s \<and> sn_LastAttemptNumber n = sn_LastAttemptNumber s
     \<and> sn_ContinuationStage n = (case sn_CurrentAttempt s of
          None \<Rightarrow> sn_ContinuationStage s | Some a \<Rightarrow> at_CurrentStage a)
     \<and> sn_Closure n = Some \<lparr>cl_ID = ic_ClosureID e, cl_RetainUntil = ic_RetainUntil e,
          cl_RetentionToken = ic_RetentionToken e, cl_ReopenRequested = False\<rparr>
     \<and> (sn_ResumeRole n = sn_ResumeRole s
         \<or> (\<exists>turn. sn_ActiveTurn s = Some turn \<and> sn_ResumeRole n = tn_Role turn)
         \<or> (\<exists>sid stage. Stage (rd_definition r) sid = Some stage \<and> sn_ResumeRole n = sd_Role stage))"

lemma issue_closed_shape:
  "reduceIssueClosed r s e = d \<Longrightarrow> refused s d
    \<or> em_ExpectedRevision (ic_EventMetadata e) = sn_Revision s
      \<and> sn_State s \<in> {StatePlanning, StatePlanReady, StateDormant, StateDeveloping, StateReviewing,
                      StatePRReady, StateNeedsHuman}
      \<and> (\<exists>n. closing r s e n
           \<and> d = Applied n ReasonClosureStarted
               ((case sn_ActiveTurn s of
                   None \<Rightarrow> []
                 | Some turn \<Rightarrow> [CloseMutationAdmissionAction (guardFromTurn turn),
                                StopTurnAction (guardFromTurn turn)])
                @ [SettleClosureAction (ic_ClosureID e), ReconcileLabelsAction StateClosing '''']))"
  unfolding reduceIssueClosed_def Let_def cloneSnapshot_id result_cases
  by (elim disjE conjE exE; hypsubst?; (rule disjI1, (simp add: expectedRevision_refused; fail))?;
      auto simp: legalInState_def closing_def clear_ready_def split: option.splits)

definition settled_assignments :: "snapshot \<Rightarrow> closure_settled_event \<Rightarrow> closure \<Rightarrow> assignments" where
  "settled_assignments s e c =
     (if as_RuntimeState (sn_Assignments s) = RuntimeStateCollected \<or> \<not> cs_AssignmentsExist e
      then \<lparr>as_Status = AssignmentCompleted, as_RuntimeState = RuntimeStateCollected,
            as_RetainedUntil = zero_time, as_RetentionToken = ''''\<rparr>
      else if cl_ReopenRequested c
      then \<lparr>as_Status = AssignmentCompleted, as_RuntimeState = RuntimeStateRetained,
            as_RetainedUntil = zero_time, as_RetentionToken = ''''\<rparr>
      else \<lparr>as_Status = AssignmentCompleted, as_RuntimeState = RuntimeStateRetained,
            as_RetainedUntil = cl_RetainUntil c, as_RetentionToken = cl_RetentionToken c\<rparr>)"

lemma settle_closure_eq:
  "settle_closure s e c =
     (let a = settled_assignments s e c;
          n = (clear_ready s)\<lparr>sn_CurrentAttempt := None, sn_ActiveTurn := None, sn_Closure := None,
            sn_Assignments := a, sn_State := (if cl_ReopenRequested c then StateDormant else StateClosed),
            sn_Revision := sn_Revision s + 1\<rparr>
      in Applied n ReasonClosureSettled
           ((case sn_CurrentAttempt s of
               None \<Rightarrow> []
             | Some att \<Rightarrow> [CompleteAttemptAction (at_ID att) AttemptCompletionIssueClosed])
            @ [CompleteAssignmentsAction]
            @ (if \<not> cl_ReopenRequested c \<and> as_RuntimeState a = RuntimeStateRetained
               then [ScheduleRetentionAction (cl_RetentionToken c) (cl_RetainUntil c)] else [])
            @ [ReconcileLabelsAction (sn_State n) '''']))"
  by (cases s) (simp add: settle_closure_def settled_assignments_def clear_ready_def Let_def)

lemma closure_settled_shape:
  "reduceClosureSettled s e = d \<Longrightarrow> refused s d
    \<or> em_ExpectedRevision (cs_EventMetadata e) = sn_Revision s \<and> sn_State s = StateClosing
      \<and> (\<exists>c. sn_Closure s = Some c \<and> cl_ID c = cs_ClosureID e
           \<and> (case sn_ActiveTurn s of
                None \<Rightarrow> cs_Turn e = None
              | Some turn \<Rightarrow> \<exists>g. cs_Turn e = Some g \<and> turnMatches turn g)
           \<and> d = settle_closure s e c)"
  unfolding reduceClosureSettled_def cloneSnapshot_id result_cases
  by (elim disjE conjE exE; hypsubst?; (rule disjI1, (simp add: expectedRevision_refused; fail))?;
      auto simp: legalInState_def split: option.splits)

lemma reopened_shape:
  "reduceIssueReopened s e = Some d \<Longrightarrow> refused s d
    \<or> em_ExpectedRevision (ir_EventMetadata e) = sn_Revision s
      \<and> (sn_State s = StateClosing
          \<and> (\<exists>c. sn_Closure s = Some c \<and> \<not> cl_ReopenRequested c
               \<and> d = Applied (bump (s\<lparr>sn_Closure := Some (c\<lparr>cl_ReopenRequested := True\<rparr>)\<rparr>))
                      ReasonClosureCancellationRecorded
                      [CancelRetentionAction (cl_RetentionToken c), ReconcileLabelsAction StateClosing ''''])
        \<or> sn_State s = StateClosed
          \<and> d = Applied (bump (s\<lparr>sn_State := StateDormant, sn_Assignments := (sn_Assignments s)
                    \<lparr>as_RetentionToken := '''', as_RetainedUntil := zero_time\<rparr>\<rparr>))
                 ReasonIssueReopened
                 ((if as_RetentionToken (sn_Assignments s) \<noteq> ''''
                   then [CancelRetentionAction (as_RetentionToken (sn_Assignments s))] else [])
                  @ [ReconcileLabelsAction StateDormant '''']))"
  unfolding reduceIssueReopened_def Let_def cloneSnapshot_id result_cases option.inject
  by (elim disjE conjE exE; hypsubst?; (rule disjI1, (simp add: expectedRevision_refused; fail))?;
      simp add: bump_def)

lemma collected_shape:
  "reduceAssignmentsCollected s e = d \<Longrightarrow> refused s d
    \<or> em_ExpectedRevision (ac_EventMetadata e) = sn_Revision s \<and> sn_State s = StateClosed
      \<and> as_RuntimeState (sn_Assignments s) \<noteq> RuntimeStateCollected
      \<and> ac_RetentionToken e = as_RetentionToken (sn_Assignments s)
      \<and> ac_RetainUntil e = as_RetainedUntil (sn_Assignments s) \<and> ac_RetainUntil e \<le> ac_CollectedAt e
      \<and> d = Applied (bump (s\<lparr>sn_Assignments := (sn_Assignments s)
                \<lparr>as_RuntimeState := RuntimeStateCollected, as_RetentionToken := '''',
                 as_RetainedUntil := zero_time\<rparr>\<rparr>)) ReasonAssignmentsCollected []"
  unfolding reduceAssignmentsCollected_def cloneSnapshot_id result_cases
  by (elim disjE conjE exE; hypsubst?; (rule disjI1, (simp add: expectedRevision_refused; fail))?;
      auto simp: legalInState_def bump_def)

end
