(* ===== verification/Workflow_Examples.thy ===== *)
theory Workflow_Examples
  imports Workflow_Reducer
begin

text \<open>
  One concrete Workflow under the built-in Definition: a Trigger, a Developer Turn that publishes a
  Change Proposal, a Review that approves it, and the closing of the issue. The lemmas evaluate
  \<open>Reduce\<close> along it; the witnesses of the reducer properties take their inputs from here.
\<close>

section \<open>Inputs\<close>

definition demo_reducer :: reducer where
  "demo_reducer =
     \<lparr>rd_definition = builtin_definition '''' '''', rd_infrastructureRetryLimit = BuiltinInfrastructureRetryLimit\<rparr>"

definition demo_item :: work_item where
  "demo_item = \<lparr>wi_RepositoryID = 1, wi_IssueID = 2, wi_IssueNumber = 3\<rparr>"

definition demo_metadata :: "u64 \<Rightarrow> event_metadata" where
  "demo_metadata n =
     \<lparr>em_ID = ''event'', em_ObservedAt = 10, em_WorkItem = demo_item, em_ExpectedRevision = n\<rparr>"

definition demo_trigger :: trigger_event where
  "demo_trigger =
     \<lparr>te_PlanningCompleted = False, te_PlanningOnly = False, te_EventMetadata = demo_metadata 0,
      te_AttemptID = ''attempt'', te_AttemptNumber = 1, te_PriorTerminalTurnID = '''',
      te_PriorTerminalStage = '''', te_PriorTerminalRole = '''', te_PriorTerminalControlBlocked = False,
      te_PriorTerminalExpectedHeadSHA = ''''\<rparr>"

definition demo_attempt :: "stage_id \<Rightarrow> u8 \<Rightarrow> workflow_attempt" where
  "demo_attempt sid used =
     \<lparr>at_ID = ''attempt'', at_Number = 1, at_StartedAt = 10, at_Lifecycle = AttemptActive,
      at_CurrentStage = sid,
      at_ReviewUsage = (if used = 0 then fmempty else fmupd StageReview used fmempty),
      at_InfrastructureRetryBudget = \<lparr>ab_Used = 0, ab_Limit = BuiltinInfrastructureRetryLimit\<rparr>\<rparr>"

definition demo_proposal :: "string \<Rightarrow> change_proposal" where
  "demo_proposal ready =
     \<lparr>cp_ID = 7, cp_Number = 7, cp_HeadSHA = ''head'', cp_Open = True, cp_ReadyForSHA = ready\<rparr>"

definition demo_snapshot ::
  "wf_state \<Rightarrow> u64 \<Rightarrow> workflow_attempt \<Rightarrow> change_proposal option \<Rightarrow> active_turn option \<Rightarrow> snapshot" where
  "demo_snapshot st n attempt proposal turn =
     \<lparr>sn_PlanningOnly = False, sn_ClarificationWaiting = False, sn_State = st, sn_Revision = n,
      sn_WorkItem = demo_item, sn_CurrentAttempt = Some attempt, sn_ChangeProposal = proposal,
      sn_ActiveTurn = turn, sn_ContinuationStage = '''', sn_ResumeRole = '''',
      sn_Assignments = \<lparr>as_Status = AssignmentActive, as_RuntimeState = RuntimeStateActive,
        as_RetainedUntil = zero_time, as_RetentionToken = ''''\<rparr>,
      sn_Closure = None, sn_LastAttemptNumber = 1\<rparr>"

definition demo_turn :: "stage_id \<Rightarrow> role_id \<Rightarrow> int64 \<Rightarrow> string \<Rightarrow> active_turn" where
  "demo_turn sid r proposal head =
     \<lparr>tn_ID = ''turn'', tn_SessionID = ''session'', tn_AttemptID = ''attempt'', tn_Stage = sid, tn_Role = r,
      tn_Epoch = 1, tn_ControlRevision = 1, tn_ChangeProposalID = proposal, tn_ExpectedHeadSHA = head\<rparr>"

definition demo_review :: review_identity where
  "demo_review =
     \<lparr>rv_ID = 11, rv_NodeID = ''node'', rv_ChangeProposalID = 7, rv_ActorID = 5, rv_HeadSHA = ''head''\<rparr>"

definition demo_settled ::
  "u64 \<Rightarrow> active_turn \<Rightarrow> turn_outcome \<Rightarrow> change_proposal option \<Rightarrow> review_identity option \<Rightarrow> turn_settled_event" where
  "demo_settled n turn out proposal review =
     \<lparr>ts_PublicationAssociation = None, ts_EventMetadata = demo_metadata n, ts_Turn = guardFromTurn turn,
      ts_Outcome = out, ts_ChangeProposal = proposal, ts_Review = review, ts_ExistingReview = None,
      ts_AuthorizedReviewerActorID = 5, ts_HumanInputPending = False,
      ts_PendingEvents = \<lparr>pe_Count = 0, pe_RequiresReconciliation = False, pe_LatestObservedHeadSHA = ''''\<rparr>,
      ts_Diagnostic = '''', ts_CorroborationHandoffReason = NoReason\<rparr>"

section \<open>States\<close>

definition demo_developing :: "active_turn option \<Rightarrow> snapshot" where
  "demo_developing = demo_snapshot StateDeveloping 1 (demo_attempt StageImplementation 0) None"

definition demo_reviewing :: "active_turn option \<Rightarrow> snapshot" where
  "demo_reviewing = demo_snapshot StateReviewing 2 (demo_attempt StageReview 0) (Some (demo_proposal ''''))"

definition demo_ready :: snapshot where
  "demo_ready = demo_snapshot StatePRReady 3 (demo_attempt StageReview 1) (Some (demo_proposal ''head'')) None"

abbreviation "demo_developer_turn \<equiv> demo_turn StageImplementation Developer 0 ''''"
abbreviation "demo_reviewer_turn \<equiv> demo_turn StageReview Reviewer 7 ''head''"

lemma demo_Stage [simp]:
  "Stage (builtin_definition impl revw) StagePlanning = Some planning_stage"
  "Stage (builtin_definition impl revw) StageImplementation = Some (implementation_stage impl)"
  "Stage (builtin_definition impl revw) StageReview = Some (review_stage revw)"
  by (simp_all add: Stage_def)

lemma demo_stage_sel [simp]:
  "sd_ID (implementation_stage i) = StageImplementation" "sd_Role (implementation_stage i) = Developer"
  "sd_State (implementation_stage i) = StateDeveloping" "sd_ReviewLimit (implementation_stage i) = 0"
  "sd_ID (review_stage i) = StageReview" "sd_Role (review_stage i) = Reviewer"
  "sd_State (review_stage i) = StateReviewing" "sd_ReviewLimit (review_stage i) = 3"
  "sd_ID planning_stage = StagePlanning" "sd_Role planning_stage = Planner"
  "sd_State planning_stage = StatePlanning" "sd_ReviewLimit planning_stage = 0"
  by (simp_all add: builtin_stages)

lemma demo_ContainsRole [simp]:
  "ContainsRole (builtin_definition impl revw) Developer"
  "ContainsRole (builtin_definition impl revw) Reviewer"
  "ContainsRole (builtin_definition impl revw) Planner"
  using builtin.stage_role_contained [of impl revw] demo_Stage demo_stage_sel by metis+

lemma demo_Transition [simp]:
  "Transition (builtin_definition impl revw) StageImplementation TurnOutcomeChangeProposalReady =
     Some ((no_transition TurnOutcomeChangeProposalReady)
        \<lparr>ot_NextStage := StageReview, ot_NextPurpose := TurnPurposeReview\<rparr>)"
  "Transition (builtin_definition impl revw) StageReview TurnOutcomeApproved =
     Some ((no_transition TurnOutcomeApproved)
        \<lparr>ot_TerminalState := StatePRReady, ot_ContinuationStage := StageReview, ot_ConsumesReviewCycle := True\<rparr>)"
  "Transition (builtin_definition impl revw) StageReview TurnOutcomeChangesRequested =
     Some ((no_transition TurnOutcomeChangesRequested)
        \<lparr>ot_NextStage := StageImplementation, ot_NextPurpose := TurnPurposeRequestedChanges,
         ot_ConsumesReviewCycle := True\<rparr>)"
  by (simp_all add: Transition_def builtin_stages)

lemmas demo_simps = demo_reducer_def demo_item_def demo_metadata_def demo_attempt_def demo_proposal_def
  demo_snapshot_def demo_turn_def demo_review_def demo_settled_def demo_developing_def demo_reviewing_def
  demo_ready_def BuiltinInfrastructureRetryLimit_def

lemmas valid_snapshot_simps = validSnapshot_def validWorkItem_def validAssignments_def validAttempt_def
  attempt_required_def validStateShape_def validActiveStageState_def validOptionalActiveTurn_def
  planning_consistent_def ready_only_when_ready_def attempt_stage_exists_def validChangeProposal_def
  is_zero_time_def zero_time_def Let_def

lemmas valid_event_simps = validEvent_def valid_trigger_def valid_turn_settled_def validTurnGuard_def
  validPendingObservation_def validReview_def validChangeProposal_def validWorkItem_def is_zero_time_def
  zero_time_def

lemma demo_usage [simp]:
  "\<not> fmap_any (usage_exceeds (builtin_definition impl revw)) fmempty"
  "\<not> fmap_any (usage_exceeds (builtin_definition impl revw)) (fmupd StageReview 1 fmempty)"
  by (auto simp: fmap_any_iff usage_exceeds_def split: if_splits)

lemma demo_valid [simp]:
  "validSnapshot (rd_definition demo_reducer) (rd_infrastructureRetryLimit demo_reducer) (demo_developing None)"
  "validSnapshot (rd_definition demo_reducer) (rd_infrastructureRetryLimit demo_reducer)
     (demo_developing (Some demo_developer_turn))"
  "validSnapshot (rd_definition demo_reducer) (rd_infrastructureRetryLimit demo_reducer) (demo_reviewing None)"
  "validSnapshot (rd_definition demo_reducer) (rd_infrastructureRetryLimit demo_reducer)
     (demo_reviewing (Some demo_reviewer_turn))"
  "validSnapshot (rd_definition demo_reducer) (rd_infrastructureRetryLimit demo_reducer) demo_ready"
  by (simp_all add: valid_snapshot_simps demo_simps, simp_all?)

section \<open>Steps\<close>

lemma Reduce_applies:
  assumes "validSnapshot (rd_definition r) (rd_infrastructureRetryLimit r) s"
    "eventDetails e = Some (m, k)" "validEvent (rd_definition r) e m"
    "if sn_State s = StateAbsent then k = EventKindTrigger else em_WorkItem m = sn_WorkItem s"
    "dispatch r s e = Some (Applied n rs acts)" "rs \<noteq> NoReason"
    "validSnapshot (rd_definition r) (rd_infrastructureRetryLimit r) n"
  shows "Reduce r s e = Some (Applied n rs acts)"
  using assms by (auto simp: Reduce_def normalize_def Let_def split: if_split_asm)

lemma demo_trigger_step:
  "Reduce demo_reducer absent_snapshot (TriggerEvent demo_trigger) =
     Some (Applied (demo_developing None) ReasonTriggered
       [EnsureAssignmentsAction AssignmentGenerationNew,
        CreateAttemptAction (demo_attempt StageImplementation 0), ConsumeRunLabelAction,
        ReconcileLabelsAction StateDeveloping '''',
        EnqueueTurnAction (enqueue StageImplementation Developer TurnPurposeInitialDevelopment '''')])"
  by (rule Reduce_applies)
    (simp_all add: valid_event_simps reduceTrigger_def expectedRevisionDecision_def turn_state_def
      legalInState_def trigger_entry_def start_attempt_def new_attempt_def assignment_mode_def
      clear_ready_def proposal_head_def demo_trigger_def valid_snapshot_simps Let_def InitialEntry_def
      AcceptsPurpose_def implementation_stage_def demo_simps absent_snapshot_def, simp_all?)

lemmas settle_simps = reduceTurnSettled_def settle_outcome_def needs_no_transition_def turnMatches_def
  guardFromTurn_def expectedRevisionDecision_def legalInState_def Let_def reset_retries_def
  transition_or_zero_def stage_or_zero_def no_transition_def successorActions_def with_pending_def
  pendingRequiresReconciliation_def

lemma demo_developer_step:
  "Reduce demo_reducer (demo_developing (Some demo_developer_turn))
     (TurnSettledEvent (demo_settled 1 demo_developer_turn TurnOutcomeChangeProposalReady
        (Some (demo_proposal '''')) None)) =
   Some (Applied (demo_reviewing None) ReasonChangeProposalReady
     [EnqueueTurnAction (enqueue StageReview Reviewer TurnPurposeReview ''head''),
      ReconcileLabelsAction StateReviewing ''''])"
  by (rule Reduce_applies)
    (simp_all add: settle_simps reduceDeveloperSettled_def valid_event_simps valid_snapshot_simps demo_simps, simp_all?)

lemma demo_approve_step:
  "Reduce demo_reducer (demo_reviewing (Some demo_reviewer_turn))
     (TurnSettledEvent (demo_settled 2 demo_reviewer_turn TurnOutcomeApproved
        (Some (demo_proposal '''')) (Some demo_review))) =
   Some (Applied demo_ready ReasonApproved
     [RecordReviewAction demo_review True, ReconcileLabelsAction StatePRReady ''head''])"
  by (rule Reduce_applies)
    (simp_all add: settle_simps reduceReviewSettled_def settle_review_def stale_review_head_def approve_def
      consume_cycle_def valid_event_simps valid_snapshot_simps demo_simps, simp_all?)

end
