(* ===== verification/Workflow_Fence.thy ===== *)
theory Workflow_Fence
  imports Workflow_Shapes Workflow_Examples
begin

text \<open>
  \<open>Reduce\<close> as a machine that Events drive: it never dereferences nil, it applies an Event
  exactly when the Event was made for the current revision, and a refused Event changes nothing.
  The locale \<open>revision_machine\<close> derives what the store relies on when Events are redelivered,
  namely that at most one Event is applied per revision, and is interpreted on \<open>Reduce\<close>.
\<close>

section \<open>The fence\<close>

definition fenced :: "event_metadata \<Rightarrow> snapshot \<Rightarrow> decision \<Rightarrow> bool" where
  "fenced m s d \<longleftrightarrow>
     refused s d
     \<or> de_Disposition d = DispositionApplied
       \<and> em_ExpectedRevision m = sn_Revision s \<and> sn_Revision (de_Snapshot d) = sn_Revision s + 1"

lemma fenced_refused [simp]: "refused s d \<Longrightarrow> fenced m s d"
  by (simp add: fenced_def)

lemma fenced_handed_off:
  "handed_off r s m rs diag starts d \<Longrightarrow> (\<And>n. n \<in> starts \<Longrightarrow> sn_Revision n = sn_Revision s) \<Longrightarrow> fenced m s d"
  by (auto simp: handed_off_def fenced_def)

lemma clarificationWait_sel [simp]:
  "sn_Revision (de_Snapshot (clarificationWaitDecision n t p)) = sn_Revision n + 1"
  "de_Disposition (clarificationWaitDecision n t p) = DispositionApplied"
  "de_Snapshot (clarificationWaitDecision n t p)
     = n\<lparr>sn_ClarificationWaiting := True, sn_Revision := sn_Revision n + 1\<rparr>"
  by (simp_all add: clarificationWaitDecision_def Let_def)

lemma fenced_Applied [simp]:
  "fenced m s (Applied n rs acts)
    \<longleftrightarrow> em_ExpectedRevision m = sn_Revision s \<and> sn_Revision n = sn_Revision s + 1"
  by (simp add: fenced_def)

lemma fenced_clarificationWait [simp]:
  "fenced m s (clarificationWaitDecision n t p)
    \<longleftrightarrow> em_ExpectedRevision m = sn_Revision s \<and> sn_Revision n = sn_Revision s"
  by (auto simp: fenced_def refused_def)

lemma start_attempt_revision [simp]:
  "sn_Revision (de_Snapshot (start_attempt r s e sid stage p)) = sn_Revision s + 1"
  "de_Disposition (start_attempt r s e sid stage p) = DispositionApplied"
  by (simp_all add: start_attempt_def Let_def)

lemma fenced_trigger: "fenced (te_EventMetadata e) s (reduceTrigger r s e)"
  using trigger_shape [OF refl, of s r e] by (auto simp: fenced_def)

lemma fenced_developer:
  assumes "reduceDeveloperSettled r s n e = Some d" "sn_Revision n = sn_Revision s"
    "em_ExpectedRevision m = sn_Revision s"
  shows "fenced m s d"
  using developer_shape [OF assms(1)] assms(2,3) by (auto simp: hand_over_def)

lemma fenced_review:
  assumes "reduceReviewSettled r s n e = Some d" "sn_Revision n = sn_Revision s"
    "em_ExpectedRevision m = sn_Revision s"
  shows "fenced m s d"
  using review_shape [OF assms(1)] assms(2,3)
  by (auto simp: review_branch_def Let_def repeat_review_def approve_def exhaust_budget_def
      request_changes_def)

lemma fenced_turn_settled:
  assumes "reduceTurnSettled r s e = Some d"
  shows "fenced (ts_EventMetadata e) s d"
proof (cases "refused s d")
  case False
  with turn_settled_shape [OF assms] have rev: "em_ExpectedRevision (ts_EventMetadata e) = sn_Revision s"
    and settle: "settle_outcome r s (settling s e) e = Some d" by auto
  note dev = fenced_developer [where n = "settling s e" and m = "ts_EventMetadata e"]
  note rev' = fenced_review [where n = "settling s e" and m = "ts_EventMetadata e"]
  from settle_outcome_shape [OF settle] rev show ?thesis
    by (elim disjE) (auto simp: turn_handed_off_def turn_retried_def intro: dev rev')
qed simp

lemma fenced_terminal_intent:
  assumes "reduceTerminalIntentRevalidated r s e = Some d"
  shows "fenced (ti_EventMetadata e) s d"
  using terminal_intent_shape [OF assms]
  by (auto simp: answer_human_input_def Let_def repeat_previous_review_def
      approve_previous_review_def return_previous_review_def
      dest!: previous_review_shape intro: fenced_developer fenced_review split: option.splits)

lemma fenced_synchronization:
  assumes "reduceSynchronization r s e = Some d"
  shows "fenced (sy_EventMetadata e) s d"
  using synchronization_shape [OF assms] by (auto simp: sync_branch_def)

lemma fenced_dispatch:
  assumes "dispatch r s e = Some d" "eventDetails e = Some (m, k)"
  shows "fenced m s d"
proof (cases e)
  case (IssueClosedEvent x)
  with assms issue_closed_shape [OF refl, of s r x] show ?thesis by (auto simp: closing_def)
next
  case (ClosureSettledEvent x)
  with assms closure_settled_shape [OF refl, of s x] show ?thesis
    by (auto simp: settle_closure_eq Let_def)
next
  case (IssueReopenedEvent x)
  with assms reopened_shape [of s x d] show ?thesis by auto
next
  case (AssignmentsCollectedEvent x)
  with assms collected_shape [OF refl, of s x] show ?thesis by auto
next
  case (TerminalRevalidationFailedEvent x)
  with assms revalidation_failed_shape [OF refl, of s r x] show ?thesis
    by (auto intro: fenced_handed_off)
next
  case (AssignmentConfigurationConflictEvent x)
  with assms conflict_shape [of r s x d] show ?thesis by (auto intro: fenced_handed_off)
next
  case (AgentTurnPreparationFailedEvent x)
  with assms preparation_shape [of r s x d] show ?thesis
    by (auto intro: fenced_handed_off simp: collect_runtime_def)
next
  case (AgentTurnMutationReconciliationExhaustedEvent x)
  with assms mutation_shape [of r s x d] show ?thesis by (auto intro: fenced_handed_off)
next
  case (WorkflowActionExhaustedEvent x)
  with assms workflow_action_shape [of r s x d] show ?thesis by (auto intro: fenced_handed_off)
qed (use assms in \<open>auto simp: review_observed_refused proposal_observed_refused
  intro: fenced_trigger fenced_turn_settled fenced_terminal_intent fenced_synchronization\<close>)

section \<open>What an applied Event means\<close>

lemma normalize_refused:
  assumes "refused s d0" "validSnapshot (rd_definition r) (rd_infrastructureRetryLimit r) s"
  shows "refused s (normalize r s d0)"
  using assms by (auto simp: normalize_def Let_def refused_def)

lemma Reduce_applied:
  assumes "Reduce r s e = Some d" "de_Disposition d = DispositionApplied"
  obtains m k d0 where "eventDetails e = Some (m, k)" "validEvent (rd_definition r) e m"
    "validSnapshot (rd_definition r) (rd_infrastructureRetryLimit r) s"
    "validSnapshot (rd_definition r) (rd_infrastructureRetryLimit r) (de_Snapshot d)"
    "dispatch r s e = Some d0" "\<not> refused s d0" "de_Disposition d0 = DispositionApplied"
    "de_Snapshot d = de_Snapshot d0" "de_Actions d = de_Actions d0"
    "sn_State s = StateAbsent \<Longrightarrow> k = EventKindTrigger"
    "sn_State s \<noteq> StateAbsent \<Longrightarrow> em_WorkItem m = sn_WorkItem s"
proof -
  from assms obtain m k d0 where ev: "eventDetails e = Some (m, k)" and
    d0: "dispatch r s e = Some d0" "d = normalize r s d0" and
    valid: "validEvent (rd_definition r) e m"
      "validSnapshot (rd_definition r) (rd_infrastructureRetryLimit r) s" and
    guards: "sn_State s = StateAbsent \<Longrightarrow> k = EventKindTrigger"
      "sn_State s \<noteq> StateAbsent \<Longrightarrow> em_WorkItem m = sn_WorkItem s"
    by (auto simp: Reduce_def split: if_split_asm option.split_asm)
  have "\<not> refused s d0"
    using normalize_refused [of s d0 r] valid(2) d0(2) assms(2) by (auto simp: refused_def)
  moreover have "de_Disposition d0 = DispositionApplied"
    "validSnapshot (rd_definition r) (rd_infrastructureRetryLimit r) (de_Snapshot d)"
    "de_Snapshot d = de_Snapshot d0" "de_Actions d = de_Actions d0"
    using assms(2) d0(2) by (auto simp: normalize_def Let_def split: if_split_asm)
  ultimately show ?thesis using that ev d0(1) valid guards by blast
qed

lemma Reduce_refused:
  assumes "Reduce r s e = Some d" "de_Disposition d \<noteq> DispositionApplied"
  shows "refused s d"
proof (cases "validSnapshot (rd_definition r) (rd_infrastructureRetryLimit r) s")
  case True
  show ?thesis
  proof (cases "\<exists>d0. dispatch r s e = Some d0 \<and> d = normalize r s d0")
    case False
    with assms True show ?thesis by (auto simp: Reduce_def split: if_split_asm option.split_asm)
  next
    case norm: True
    then obtain d0 where d0: "dispatch r s e = Some d0" "d = normalize r s d0" by blast
    show ?thesis
    proof (cases "refused s d0")
      case True
      with normalize_refused d0(2) \<open>validSnapshot _ _ s\<close> show ?thesis by simp
    next
      case False
      have "de_Disposition d0 = DispositionApplied"
      proof (cases "eventDetails e")
        case None
        then have "e = UnlistedEvent" by (cases e) auto
        with d0(1) False show ?thesis by auto
      next
        case (Some mk)
        then obtain m k where "eventDetails e = Some (m, k)" by (cases mk) auto
        from fenced_dispatch [OF d0(1) this] False d0(1) show ?thesis
          by (simp add: fenced_def)
      qed
      with d0(2) assms(2) show ?thesis by (auto simp: normalize_def Let_def split: if_split_asm)
    qed
  qed
qed (use assms in \<open>auto simp: Reduce_def\<close>)

section \<open>No nil dereference\<close>

lemma valid_attempt:
  assumes "validSnapshot d l s" "attempt_required (sn_State s)"
  shows "\<exists>a. sn_CurrentAttempt s = Some a"
proof -
  have "sn_State s \<noteq> StateAbsent" using assms(2) by (auto simp: attempt_required_def)
  then show ?thesis using validAttempt_required validSnapshotD(4) [OF assms(1)] assms(2) by blast
qed

lemma turn_state_required: "turn_state st \<Longrightarrow> attempt_required st"
  by (auto simp: turn_state_def attempt_required_def)

lemma developer_total:
  assumes "ts_ChangeProposal e \<noteq> None" "sn_CurrentAttempt s \<noteq> None" "sn_CurrentAttempt n \<noteq> None"
  shows "reduceDeveloperSettled r s n e \<noteq> None"
  using assms by (auto simp: reduceDeveloperSettled_def Let_def split: option.splits)

lemma review_total:
  assumes "ts_ChangeProposal e \<noteq> None" "ts_Review e \<noteq> None"
    "sn_CurrentAttempt s \<noteq> None" "sn_CurrentAttempt n \<noteq> None"
  shows "reduceReviewSettled r s n e \<noteq> None"
  using assms by (auto simp: reduceReviewSettled_def settle_review_def Let_def split: option.splits)

lemma valid_settled_payload:
  assumes "valid_turn_settled d e"
  shows "ts_Outcome e \<in> {TurnOutcomeChangeProposalReady, TurnOutcomeChangesRequested, TurnOutcomeApproved}
      \<Longrightarrow> \<exists>p. ts_ChangeProposal e = Some p"
    and "ts_Outcome e \<in> {TurnOutcomeChangesRequested, TurnOutcomeApproved} \<Longrightarrow> \<exists>v. ts_Review e = Some v"
    and "ts_ExistingReview e \<noteq> None \<Longrightarrow> \<exists>v. ts_Review e = Some v"
  using assms
  by (auto simp: valid_turn_settled_def validChangeProposal_def validReview_def
      split: if_split_asm turn_outcome.split_asm option.split_asm)

lemma settle_outcome_total:
  assumes "valid_turn_settled d e" "sn_CurrentAttempt s \<noteq> None" "sn_CurrentAttempt n = sn_CurrentAttempt s"
  shows "settle_outcome r s n e \<noteq> None"
proof (cases "ts_Outcome e")
  case TurnOutcomeInfrastructureFailed
  with assms show ?thesis
    by (auto simp: settle_outcome_def reduceInfrastructureFailure_def Let_def)
qed (use valid_settled_payload [OF assms(1)] developer_total [of e s n r] review_total [of e s n r] assms(2,3)
  in \<open>auto simp: settle_outcome_def\<close>)

lemma turn_settled_total:
  assumes "validSnapshot d l s" "valid_turn_settled d' e"
  shows "reduceTurnSettled r s e \<noteq> None"
proof
  assume none: "reduceTurnSettled r s e = None"
  show False
  proof (cases "ts_ExistingReview e")
    case (Some x)
    with none have "ts_Review e = None" by (simp add: reduceTurnSettled_def)
    with Some valid_settled_payload(3) [OF assms(2)] show ?thesis by auto
  next
    case None
    have settled: "settle_outcome r s n e \<noteq> None" if "turn_state (sn_State s)"
      "sn_CurrentAttempt n = sn_CurrentAttempt s" for n
      using settle_outcome_total [OF assms(2) _ that(2)] valid_attempt [OF assms(1)]
        turn_state_required [OF that(1)] by fastforce
    have "turn_state (sn_State s)"
      using none None by (auto simp: reduceTurnSettled_def legalInState_def turn_state_def
          split: option.split_asm if_split_asm)
    moreover from this obtain a where "sn_CurrentAttempt s = Some a"
      using valid_attempt [OF assms(1)] turn_state_required by blast
    ultimately show ?thesis
      using none None settled [of "settling s e"]
      unfolding reduceTurnSettled_def Let_def cloneSnapshot_id settling_case
      by (auto split: option.split_asm if_split_asm)
  qed
qed

lemma terminal_intent_total:
  assumes "valid_terminal_intent d' e"
  shows "reduceTerminalIntentRevalidated r s e \<noteq> None"
proof -
  have prev: "reducePreviouslyAcceptedTerminalReview r s e \<noteq> None" if "sn_CurrentAttempt s \<noteq> None"
    using that by (auto simp: reducePreviouslyAcceptedTerminalReview_def Let_def split: option.splits)
  have sel: "ts_ChangeProposal (settled_from_intent e) = ti_ChangeProposal e"
    "ts_Review (settled_from_intent e) = ti_Review e" by (simp_all add: settled_from_intent_def)
  have cp: "ti_ChangeProposal e \<noteq> None" if "ti_Outcome e \<noteq> TurnOutcomeClarificationWait"
    using assms that by (auto simp: valid_terminal_intent_def validChangeProposal_def
        split: if_split_asm turn_outcome.split_asm option.split_asm)
  have rv: "ti_Review e \<noteq> None" if "ti_Outcome e \<noteq> TurnOutcomeClarificationWait"
    "ti_Outcome e \<noteq> TurnOutcomeChangeProposalReady"
    using assms that by (auto simp: valid_terminal_intent_def validReview_def
        split: if_split_asm turn_outcome.split_asm option.split_asm)
  show ?thesis
    using prev developer_total [of "settled_from_intent e" s "s\<lparr>sn_ResumeRole := ''''\<rparr>" r]
      review_total [of "settled_from_intent e" s "s\<lparr>sn_ResumeRole := ''''\<rparr>" r] cp rv
    by (auto simp: reduceTerminalIntentRevalidated_def Let_def sel split: option.splits)
qed

lemma dispatch_total:
  assumes "validSnapshot d l s" "validEvent d' e m"
  shows "dispatch r s e \<noteq> None"
proof (cases e)
  case (SynchronizationEvent x)
  have "reduceSynchronization r s x \<noteq> None"
  proof
    assume none: "reduceSynchronization r s x = None"
    then have "attempt_required (sn_State s)" "sn_CurrentAttempt s = None"
      by (auto simp: reduceSynchronization_def synchronize_def Let_def legalInState_def attempt_required_def
          split: option.split_asm if_split_asm)
    then show False using valid_attempt [OF assms(1)] by auto
  qed
  with SynchronizationEvent show ?thesis by simp
next
  case (IssueReopenedEvent x)
  have "sn_State s = StateClosing \<Longrightarrow> sn_Closure s \<noteq> None"
    by (erule shape_closing [OF assms(1)]) simp
  then have "reduceIssueReopened s x \<noteq> None"
    by (auto simp: reduceIssueReopened_def Let_def split: option.split)
  with IssueReopenedEvent show ?thesis by simp
next
  case (AssignmentConfigurationConflictEvent x)
  then show ?thesis using valid_attempt [OF assms(1)]
    by (auto simp: reduceAssignmentConfigurationConflict_def legalInState_def attempt_required_def
        split: option.split)
next
  case (AgentTurnPreparationFailedEvent x)
  then show ?thesis using valid_attempt [OF assms(1)]
    by (auto simp: reduceAgentTurnPreparationFailed_def legalInState_def attempt_required_def Let_def
        split: option.split)
next
  case (AgentTurnMutationReconciliationExhaustedEvent x)
  then show ?thesis using valid_attempt [OF assms(1)]
    by (auto simp: reduceAgentTurnMutationReconciliationExhausted_def legalInState_def attempt_required_def
        split: option.split)
next
  case (WorkflowActionExhaustedEvent x)
  then show ?thesis using valid_attempt [OF assms(1)]
    by (auto simp: reduceWorkflowActionExhausted_def legalInState_def attempt_required_def
        split: option.split)
next
  case (TurnSettledEvent x)
  then show ?thesis using turn_settled_total [OF assms(1)] assms(2) by (auto simp: validEvent_def)
next
  case (TerminalIntentRevalidatedEvent x)
  then show ?thesis using terminal_intent_total assms(2) by (auto simp: validEvent_def)
qed simp_all

lemma Reduce_total: "Reduce r s e \<noteq> None"
  using dispatch_total by (auto simp: Reduce_def split: option.split)

section \<open>Machines that apply one Event per revision\<close>

text \<open>\<open>final step es s\<close> is the state after a list of Events, \<open>accepted step expects es s\<close> the
  revisions expected by those Events that the machine applied.\<close>

fun final :: "('s \<Rightarrow> 'e \<Rightarrow> 's \<times> bool) \<Rightarrow> 'e list \<Rightarrow> 's \<Rightarrow> 's" where
  "final step [] s = s"
| "final step (e # es) s = final step es (fst (step s e))"

fun accepted :: "('s \<Rightarrow> 'e \<Rightarrow> 's \<times> bool) \<Rightarrow> ('e \<Rightarrow> u64) \<Rightarrow> 'e list \<Rightarrow> 's \<Rightarrow> u64 list" where
  "accepted step expects [] s = []"
| "accepted step expects (e # es) s =
     (case step s e of (s', ok) \<Rightarrow>
        if ok then expects e # accepted step expects es s' else accepted step expects es s')"

text \<open>The contract of a state machine whose Events carry the revision they were made for. Its
  client, the store, redelivers Events when it replays an inbox after a crash.\<close>

locale revision_machine =
  fixes step :: "'s \<Rightarrow> 'e \<Rightarrow> 's \<times> bool"
    and revision :: "'s \<Rightarrow> u64"
    and expects :: "'e \<Rightarrow> u64"
  assumes applied_step: "step s e = (s', True) \<Longrightarrow> expects e = revision s \<and> revision s' = revision s + 1"
    and refused_step: "step s e = (s', False) \<Longrightarrow> s' = s"
begin

lemma accepted_consecutive:
  "accepted step expects es s
     = map (\<lambda>i. revision s + of_nat i) [0..<length (accepted step expects es s)]"
proof (induction es arbitrary: s)
  case (Cons e es)
  obtain s' ok where st: "step s e = (s', ok)" by (cases "step s e") auto
  show ?case
  proof (cases ok)
    case True
    with st applied_step have "expects e = revision s" "revision s' = revision s + 1" by auto
    with True st Cons.IH [of s'] show ?thesis
      by (simp add: map_upt_Suc add.assoc del: upt_Suc)
  next
    case False
    with st refused_step have "s' = s" by auto
    with False st Cons.IH [of s] show ?thesis by simp
  qed
qed simp

lemma final_revision:
  "revision (final step es s) = revision s + of_nat (length (accepted step expects es s))"
proof (induction es arbitrary: s)
  case (Cons e es)
  obtain s' ok where st: "step s e = (s', ok)" by (cases "step s e") auto
  show ?case
  proof (cases ok)
    case True
    with st applied_step have "revision s' = revision s + 1" by auto
    with True st Cons.IH [of s'] show ?thesis by simp
  next
    case False
    with st refused_step have "s' = s" by auto
    with False st Cons.IH [of s] show ?thesis by simp
  qed
qed simp

lemma accepted_length: "length (accepted step expects es s) \<le> length es"
  by (induction es arbitrary: s) (auto split: prod.split intro: le_SucI)

text \<open>No revision is used twice as long as the counter does not wrap.\<close>

lemma accepted_distinct:
  assumes "length es < 2 ^ 64"
  shows "distinct (accepted step expects es s)"
proof -
  let ?n = "length (accepted step expects es s)"
  have small: "?n \<le> 2 ^ 64" using accepted_length [of es s] assms by simp
  have "inj_on (\<lambda>i. revision s + of_nat i :: u64) (set [0..<?n])"
    by (rule inj_onI) (use small in \<open>auto simp: word_of_nat_eq_iff take_bit_nat_eq_self\<close>)
  then have "distinct (map (\<lambda>i. revision s + of_nat i) [0..<?n])"
    by (simp add: distinct_map)
  with accepted_consecutive [of es s] show ?thesis by simp
qed

end

definition expected_revision :: "event \<Rightarrow> u64" where
  "expected_revision e = (case EventMetadataOf e of None \<Rightarrow> 0 | Some m \<Rightarrow> em_ExpectedRevision m)"

text \<open>\<open>Reduce\<close> as the store runs it: the next Snapshot and whether the Event was applied.\<close>

definition reduce_step :: "reducer \<Rightarrow> snapshot \<Rightarrow> event \<Rightarrow> snapshot \<times> bool" where
  "reduce_step r s e =
     (case Reduce r s e of
        None \<Rightarrow> (s, False)
      | Some d \<Rightarrow> (de_Snapshot d, de_Disposition d = DispositionApplied))"

lemma reduce_step_applied:
  assumes "reduce_step r s e = (s', True)"
  shows "expected_revision e = sn_Revision s \<and> sn_Revision s' = sn_Revision s + 1"
proof -
  from assms obtain d where d: "Reduce r s e = Some d" "de_Disposition d = DispositionApplied" "s' = de_Snapshot d"
    by (auto simp: reduce_step_def split: option.split_asm)
  from d(1,2) show ?thesis
    by (rule Reduce_applied)
      (use d(3) fenced_dispatch in \<open>fastforce simp: fenced_def expected_revision_def EventMetadataOf_def\<close>)
qed

lemma reduce_step_refused: "reduce_step r s e = (s', False) \<Longrightarrow> s' = s"
  by (auto simp: reduce_step_def refused_def dest!: Reduce_refused split: option.split_asm)

interpretation reduce: revision_machine "reduce_step r" sn_Revision expected_revision for r
  by unfold_locales (blast dest: reduce_step_applied reduce_step_refused)+

section \<open>Properties\<close>

text \<open>No panic. \<open>Reduce\<close> follows no nil pointer, whatever Snapshot and Event it is given:
  every dereference of a handler is guarded by the checks before it.\<close>

theorem reduce_never_panics: "\<exists>d. Reduce r s e = Some d"
  using Reduce_total by blast

text \<open>The revision fence. An Event is applied only if it was made for the current revision,
  and then the revision grows by one and the new Snapshot is valid; otherwise the Snapshot is
  unchanged and the only action is to record the Event as pending.\<close>

theorem reduce_fenced:
  assumes "Reduce r s e = Some d"
  shows "(de_Disposition d = DispositionApplied
      \<and> EventMetadataOf e \<noteq> None \<and> em_ExpectedRevision (the (EventMetadataOf e)) = sn_Revision s
      \<and> sn_Revision (de_Snapshot d) = sn_Revision s + 1
      \<and> validSnapshot (rd_definition r) (rd_infrastructureRetryLimit r) (de_Snapshot d))
    \<or> (de_Disposition d \<noteq> DispositionApplied \<and> de_Snapshot d = s
      \<and> list_all records_pending (de_Actions d))"
proof (cases "de_Disposition d = DispositionApplied")
  case True
  from assms True show ?thesis
    by (rule Reduce_applied) (use True fenced_dispatch in \<open>fastforce simp: fenced_def EventMetadataOf_def\<close>)
qed (use Reduce_refused [OF assms] in \<open>auto simp: refused_def\<close>)

theorem reduce_fenced_witness:
  "sn_Revision (demo_developing None) = sn_Revision absent_snapshot + 1
   \<and> validSnapshot (rd_definition demo_reducer) (rd_infrastructureRetryLimit demo_reducer) (demo_developing None)"
  using reduce_fenced [OF demo_trigger_step] by simp

text \<open>C28 (at most once). Feed any list of fewer than \<open>2 ^ 64\<close> Events to the reducer, with
  redeliveries in any order: the Events it applies were made for distinct revisions, so no
  revision, and in particular no redelivered Event, is applied twice, and the final revision
  counts the applied Events.\<close>

theorem reduce_at_most_once:
  assumes "length es < 2 ^ 64"
  shows "distinct (accepted (reduce_step r) expected_revision es s)
    \<and> sn_Revision (final (reduce_step r) es s)
       = sn_Revision s + of_nat (length (accepted (reduce_step r) expected_revision es s))"
  by (intro conjI reduce.accepted_distinct reduce.final_revision assms)

theorem reduce_at_most_once_witness:
  "distinct (accepted (reduce_step demo_reducer) expected_revision
     [TriggerEvent demo_trigger, TriggerEvent demo_trigger] absent_snapshot)"
  using reduce_at_most_once [of "[TriggerEvent demo_trigger, TriggerEvent demo_trigger]"] by simp

end
