(* ===== verification/Workflow_Effects.thy ===== *)
theory Workflow_Effects
  imports Workflow_Fence
begin

text \<open>
  The reducer as a transition relation. \<open>effect r s e d\<close> has one rule per way in which an Event
  is applied, with the guards under which it is; \<open>dispatch_effect\<close> shows that the handlers do
  nothing else. Safety properties of the reducer are case analyses on this relation.
\<close>

text \<open>Reducers whose Definition came out of \<open>NewDefinition\<close>.\<close>

definition built_reducer :: "reducer \<Rightarrow> bool" where
  "built_reducer r \<longleftrightarrow>
     (\<exists>catalog initial stages. NewDefinition catalog initial stages = Inr (rd_definition r))
     \<and> reducer_Valid r"

lemma built_stage_graph: "built_reducer r \<Longrightarrow> stage_graph (rd_definition r)"
  by (auto simp: built_reducer_def intro: NewDefinition_stage_graph)

lemma demo_built: "built_reducer demo_reducer"
proof -
  have "NewDefinition (Some (\<lambda>_. True))
      \<lparr>se_Stage = StageImplementation, se_Purpose = TurnPurposeInitialDevelopment\<rparr>
      [planning_stage, implementation_stage '''', review_stage ''''] = Inr (builtin_definition '''' '''')"
    using NewBuiltinDefinition_Inr [of "\<lambda>_. True" "''''" "''''"]
    by (simp add: NewBuiltinDefinition_def valid_instructions_def contains_nul_def go_simps)
  then show ?thesis
    using stage_graph.valid_definition [OF builtin_stage_graph]
    by (auto simp: built_reducer_def reducer_Valid_def demo_reducer_def BuiltinInfrastructureRetryLimit_def)
qed

section \<open>Settling a Turn\<close>

text \<open>\<open>settles r s e x n\<close>: the Event \<open>e\<close> settles the current Turn as \<open>x\<close>, and the decision starts
  from the Snapshot \<open>n\<close>. Either the running Turn itself reports, and its guard matches, or the
  terminal intent of an earlier Turn was revalidated for a new Attempt that has no Turn yet.\<close>

definition settles ::
  "reducer \<Rightarrow> snapshot \<Rightarrow> event \<Rightarrow> turn_settled_event \<Rightarrow> snapshot \<Rightarrow> bool" where
  "settles r s e x n \<longleftrightarrow>
     em_ExpectedRevision (ts_EventMetadata x) = sn_Revision s \<and> turn_state (sn_State s)
     \<and> ts_ExistingReview x = None
     \<and> (e = TurnSettledEvent x \<and> n = settling s x
          \<and> (\<exists>turn. sn_ActiveTurn s = Some turn \<and> turnMatches turn (ts_Turn x))
          \<and> (\<forall>p. ts_PublicationAssociation x = Some p \<longrightarrow> sn_ChangeProposal s = None
                \<and> (ts_Outcome x = TurnOutcomeChangeProposalReady \<longrightarrow> ts_ChangeProposal x = Some p))
        \<or> (\<exists>y a stage. e = TerminalIntentRevalidatedEvent y \<and> x = settled_from_intent y
             \<and> n = s\<lparr>sn_ResumeRole := ''''\<rparr> \<and> sn_ActiveTurn s = None
             \<and> sn_CurrentAttempt s = Some a \<and> at_ID a = ti_AttemptID y
             \<and> at_CurrentStage a = tg_Stage (ts_Turn x)
             \<and> Stage (rd_definition r) (at_CurrentStage a) = Some stage
             \<and> sd_Role stage = tg_Role (ts_Turn x) \<and> sd_State stage = sn_State s))"

lemma settles_sel:
  assumes "settles r s e x n"
  shows "sn_Revision n = sn_Revision s" "sn_State n = sn_State s" "sn_ActiveTurn n = None"
    "sn_CurrentAttempt n = sn_CurrentAttempt s" "sn_LastAttemptNumber n = sn_LastAttemptNumber s"
    "sn_Closure n = sn_Closure s" "sn_PlanningOnly n = sn_PlanningOnly s" "sn_WorkItem n = sn_WorkItem s"
    "sn_Assignments n = sn_Assignments s" "sn_ResumeRole n = ''''"
    "sn_ContinuationStage n = sn_ContinuationStage s"
    "sn_ClarificationWaiting n = sn_ClarificationWaiting s" "turn_state (sn_State s)"
  using assms by (auto simp: settles_def)

section \<open>The transition relation\<close>

inductive effect :: "reducer \<Rightarrow> snapshot \<Rightarrow> event \<Rightarrow> decision \<Rightarrow> bool" for r s where
  plan_completed:
    "sn_PlanningOnly s \<Longrightarrow> sn_State s = StateNeedsHuman \<Longrightarrow> te_PlanningCompleted x \<Longrightarrow>
     effect r s (TriggerEvent x)
       (Applied (s\<lparr>sn_State := StatePlanReady, sn_ResumeRole := '''',
            sn_Assignments := (sn_Assignments s)\<lparr>as_Status := AssignmentActive\<rparr>,
            sn_Revision := sn_Revision s + 1\<rparr>)
          ReasonTriggered [ConsumeRunLabelAction, ReconcileLabelsAction StatePlanReady ''''])"
| control_blocked:
    "te_PriorTerminalControlBlocked x \<Longrightarrow> sn_State s = StateNeedsHuman \<Longrightarrow>
     effect r s (TriggerEvent x)
       (Applied (s\<lparr>sn_Revision := sn_Revision s + 1\<rparr>) ReasonTerminalRevalidationHumanControl
          [ConsumeRunLabelAction,
           MarkHumanHandoffAction ReasonTerminalRevalidationHumanControl human_control_diagnostic,
           ReconcileLabelsAction StateNeedsHuman ''''])"
| started:
    "sn_State s \<in> {StateAbsent, StateDormant, StatePRReady, StateNeedsHuman} \<Longrightarrow>
     (te_PlanningOnly x \<longrightarrow> sn_State s = StateAbsent) \<Longrightarrow>
     (sn_PlanningOnly s \<longrightarrow> sn_State s = StateNeedsHuman) \<Longrightarrow>
     te_AttemptNumber x = sn_LastAttemptNumber s + 1 \<Longrightarrow>
     (\<forall>a. sn_CurrentAttempt s = Some a \<longrightarrow> te_AttemptID x \<noteq> at_ID a) \<Longrightarrow>
     Stage (rd_definition r) sid = Some stage \<Longrightarrow> AcceptsPurpose (rd_definition r) sid purpose \<Longrightarrow>
     (sd_State stage = StateReviewing \<longrightarrow> sn_ChangeProposal s \<noteq> None) \<Longrightarrow>
     sid = se_Stage (trigger_entry r s x) \<and> purpose = se_Purpose (trigger_entry r s x)
       \<or> sid = se_Stage (InitialEntry (rd_definition r)) \<and> purpose = se_Purpose (InitialEntry (rd_definition r))
         \<and> sn_ChangeProposal s = None \<Longrightarrow>
     effect r s (TriggerEvent x) (start_attempt r s x sid stage purpose)"
| gave_up:
    "eventDetails e = Some (m, k) \<Longrightarrow>
     sn_State s \<in> {StatePlanReady, StatePlanning, StateDeveloping, StateReviewing, StatePRReady} \<Longrightarrow>
     handed_off r s m rs diag {s, clear_ready s, collect_runtime s} d \<Longrightarrow>
     (sn_State s = StatePRReady \<longrightarrow> handed_off r s m rs diag {clear_ready s} d) \<Longrightarrow>
     effect r s e d"
| clarified:
    "settles r s e x n \<Longrightarrow> proposal = sn_ChangeProposal n
       \<or> (\<exists>observed. ts_ChangeProposal x = Some observed \<and> ts_Outcome x = TurnOutcomeClarificationWait
            \<and> (\<forall>p. sn_ChangeProposal n = Some p \<longrightarrow> cp_ID p = cp_ID observed)
            \<and> proposal = Some (observed\<lparr>cp_ReadyForSHA := ''''\<rparr>)) \<Longrightarrow>
     effect r s e (clarificationWaitDecision (n\<lparr>sn_ChangeProposal := proposal\<rparr>) (ts_Turn x) pending)"
| planned:
    "settles r s e x n \<Longrightarrow> ts_Outcome x = TurnOutcomePlanningReady \<Longrightarrow> sn_PlanningOnly s \<Longrightarrow>
     sn_ChangeProposal s = None \<Longrightarrow> ts_PublicationAssociation x = None \<Longrightarrow>
     effect r s e (Applied (n\<lparr>sn_State := StatePlanReady, sn_Revision := sn_Revision n + 1\<rparr>)
       ReasonApproved [ReconcileLabelsAction StatePlanReady ''''])"
| handed_over:
    "settles r s e x n \<Longrightarrow> ts_Outcome x = TurnOutcomeChangeProposalReady \<Longrightarrow>
     ts_ChangeProposal x = Some observed \<Longrightarrow> sn_CurrentAttempt s = Some a \<Longrightarrow>
     (case sn_ChangeProposal s of
        None \<Rightarrow> tg_ChangeProposalID (ts_Turn x) = 0
      | Some cp \<Rightarrow> cp_ID observed = cp_ID cp \<and> tg_ChangeProposalID (ts_Turn x) = cp_ID cp) \<Longrightarrow>
     Transition (rd_definition r) (at_CurrentStage a) TurnOutcomeChangeProposalReady = Some t \<Longrightarrow>
     Stage (rd_definition r) (ot_NextStage t) = Some target \<Longrightarrow>
     effect r s e (Applied (hand_over n (observed\<lparr>cp_ReadyForSHA := ''''\<rparr>) a target) ReasonChangeProposalReady
       (successorActions (ts_Turn x) (ts_PendingEvents x)
          (enqueue (sd_ID target) (sd_Role target) (ot_NextPurpose t) (cp_HeadSHA observed))
        @ [ReconcileLabelsAction (sd_State target) '''']))"
| reviewed:
    "settles r s e x n \<Longrightarrow> ts_Outcome x \<in> {TurnOutcomeChangesRequested, TurnOutcomeApproved} \<Longrightarrow>
     review_identified s x cp review observed \<Longrightarrow> sn_CurrentAttempt s = Some a \<Longrightarrow>
     Transition (rd_definition r) (at_CurrentStage a) (ts_Outcome x) = Some t \<Longrightarrow>
     review_branch r n x cp review observed a a d \<Longrightarrow> effect r s e d"
| turn_failed:
    "settles r s e x n \<Longrightarrow> e = TurnSettledEvent x \<Longrightarrow>
     ts_Outcome x \<in> {TurnOutcomeBlocked, TurnOutcomePrerequisiteFailed, TurnOutcomeInfrastructureFailed} \<Longrightarrow>
     turn_handed_off n x d \<Longrightarrow> effect r s e d"
| retried:
    "settles r s e x n \<Longrightarrow> e = TurnSettledEvent x \<Longrightarrow> ts_Outcome x = TurnOutcomeInfrastructureFailed \<Longrightarrow>
     turn_retried n x d \<Longrightarrow> effect r s e d"
| previous_review:
    "settles r s e (settled_from_intent y) n \<Longrightarrow> e = TerminalIntentRevalidatedEvent y \<Longrightarrow>
     ti_ExistingReview y = Some review \<Longrightarrow> previous_review_identified s y cp review observed \<Longrightarrow>
     sn_CurrentAttempt s = Some a \<Longrightarrow>
     Transition (rd_definition r) (at_CurrentStage a) (ti_Outcome y) = Some t \<Longrightarrow>
     \<not> previous_head_current y cp review observed
         \<and> d = repeat_previous_review s y (observed\<lparr>cp_ReadyForSHA := ''''\<rparr>) a
       \<or> previous_head_current y cp review observed \<and> ti_Outcome y = TurnOutcomeApproved
         \<and> d = approve_previous_review s review (observed\<lparr>cp_ReadyForSHA := ''''\<rparr>) a t
       \<or> previous_head_current y cp review observed \<and> ti_Outcome y \<noteq> TurnOutcomeApproved
         \<and> (\<exists>target. Stage (rd_definition r) (ot_NextStage t) = Some target
              \<and> d = return_previous_review s (observed\<lparr>cp_ReadyForSHA := ''''\<rparr>) a t target) \<Longrightarrow>
     effect r s e d"
| answered:
    "settles r s e (settled_from_intent y) n \<Longrightarrow> e = TerminalIntentRevalidatedEvent y \<Longrightarrow>
     ti_Outcome y \<noteq> TurnOutcomeClarificationWait \<Longrightarrow> ti_HumanInputPending y \<Longrightarrow>
     sn_CurrentAttempt s = Some a \<Longrightarrow> Stage (rd_definition r) (at_CurrentStage a) = Some stage \<Longrightarrow>
     effect r s e (answer_human_input s y stage)"
| synchronized:
    "sn_State s \<in> {StatePlanning, StateDeveloping, StateReviewing, StatePRReady, StateNeedsHuman} \<Longrightarrow>
     sn_ActiveTurn s = None \<or> \<not> turn_state (sn_State s) \<Longrightarrow>
     sn_ChangeProposal s = Some cp \<Longrightarrow> cp_ID cp = sy_ChangeProposalID x \<Longrightarrow>
     sy_PreviousHeadSHA x = cp_HeadSHA cp \<Longrightarrow> sy_HeadSHA x \<noteq> cp_HeadSHA cp \<Longrightarrow>
     sn_CurrentAttempt s = Some a \<Longrightarrow> Stage (rd_definition r) (at_CurrentStage a) = Some stage \<Longrightarrow>
     sync_branch s x (synchronized s x cp) a stage d \<Longrightarrow> effect r s (SynchronizationEvent x) d"
| closing:
    "sn_State s \<in> {StatePlanning, StatePlanReady, StateDormant, StateDeveloping, StateReviewing,
                  StatePRReady, StateNeedsHuman} \<Longrightarrow> closing r s x n \<Longrightarrow>
     effect r s (IssueClosedEvent x) (Applied n ReasonClosureStarted
       ((case sn_ActiveTurn s of
           None \<Rightarrow> []
         | Some turn \<Rightarrow> [CloseMutationAdmissionAction (guardFromTurn turn), StopTurnAction (guardFromTurn turn)])
        @ [SettleClosureAction (ic_ClosureID x), ReconcileLabelsAction StateClosing '''']))"
| closed:
    "sn_State s = StateClosing \<Longrightarrow> sn_Closure s = Some c \<Longrightarrow> cl_ID c = cs_ClosureID x \<Longrightarrow>
     (case sn_ActiveTurn s of
        None \<Rightarrow> cs_Turn x = None
      | Some turn \<Rightarrow> \<exists>g. cs_Turn x = Some g \<and> turnMatches turn g) \<Longrightarrow>
     effect r s (ClosureSettledEvent x) (settle_closure s x c)"
| reopen_recorded:
    "sn_State s = StateClosing \<Longrightarrow> sn_Closure s = Some c \<Longrightarrow> \<not> cl_ReopenRequested c \<Longrightarrow>
     effect r s (IssueReopenedEvent x)
       (Applied (bump (s\<lparr>sn_Closure := Some (c\<lparr>cl_ReopenRequested := True\<rparr>)\<rparr>)) ReasonClosureCancellationRecorded
          [CancelRetentionAction (cl_RetentionToken c), ReconcileLabelsAction StateClosing ''''])"
| reopened:
    "sn_State s = StateClosed \<Longrightarrow>
     effect r s (IssueReopenedEvent x)
       (Applied (bump (s\<lparr>sn_State := StateDormant, sn_Assignments := (sn_Assignments s)
            \<lparr>as_RetentionToken := '''', as_RetainedUntil := zero_time\<rparr>\<rparr>)) ReasonIssueReopened
          ((if as_RetentionToken (sn_Assignments s) \<noteq> ''''
            then [CancelRetentionAction (as_RetentionToken (sn_Assignments s))] else [])
           @ [ReconcileLabelsAction StateDormant '''']))"
| collected:
    "sn_State s = StateClosed \<Longrightarrow> as_RuntimeState (sn_Assignments s) \<noteq> RuntimeStateCollected \<Longrightarrow>
     ac_RetentionToken x = as_RetentionToken (sn_Assignments s) \<Longrightarrow>
     ac_RetainUntil x = as_RetainedUntil (sn_Assignments s) \<Longrightarrow> ac_RetainUntil x \<le> ac_CollectedAt x \<Longrightarrow>
     effect r s (AssignmentsCollectedEvent x)
       (Applied (bump (s\<lparr>sn_Assignments := (sn_Assignments s)
            \<lparr>as_RuntimeState := RuntimeStateCollected, as_RetentionToken := '''',
             as_RetainedUntil := zero_time\<rparr>\<rparr>)) ReasonAssignmentsCollected [])"

section \<open>The handlers implement the relation\<close>

lemma transition_or_zero_Some [simp]:
  "Transition d sid out = Some t \<Longrightarrow> transition_or_zero d sid out = t"
  by (simp add: transition_or_zero_def)

lemma settled_from_intent_sel [simp]:
  "ts_EventMetadata (settled_from_intent y) = ti_EventMetadata y"
  "ts_Turn (settled_from_intent y) = ti_SourceTurn y" "ts_Outcome (settled_from_intent y) = ti_Outcome y"
  "ts_ChangeProposal (settled_from_intent y) = ti_ChangeProposal y"
  "ts_Review (settled_from_intent y) = ti_Review y" "ts_ExistingReview (settled_from_intent y) = None"
  "ts_PublicationAssociation (settled_from_intent y) = None"
  "ts_AuthorizedReviewerActorID (settled_from_intent y) = ti_AuthorizedReviewerActorID y"
  "pe_Count (ts_PendingEvents (settled_from_intent y)) = 0"
  "pe_LatestObservedHeadSHA (ts_PendingEvents (settled_from_intent y)) = ''''"
  by (simp_all add: settled_from_intent_def)

context stage_graph begin

lemma initial_stage_obtain:
  obtains st where "Stage d (se_Stage (InitialEntry d)) = Some st" "sd_State st = StateDeveloping"
    "AcceptsPurpose d (se_Stage (InitialEntry d)) (se_Purpose (InitialEntry d))"
  using initial_stage that by (auto simp: AcceptsPurpose_def Stage_def)

end

lemma trigger_effect:
  assumes "stage_graph (rd_definition r)" "\<not> refused s (reduceTrigger r s x)"
  shows "effect r s (TriggerEvent x) (reduceTrigger r s x)"
proof -
  obtain st where init: "Stage (rd_definition r) (se_Stage (InitialEntry (rd_definition r))) = Some st"
    "sd_State st = StateDeveloping"
    "AcceptsPurpose (rd_definition r) (se_Stage (InitialEntry (rd_definition r)))
       (se_Purpose (InitialEntry (rd_definition r)))"
    by (rule stage_graph.initial_stage_obtain [OF assms(1)])
  then have zero: "stage_or_zero (rd_definition r) (se_Stage (InitialEntry (rd_definition r))) = st"
    by (simp add: stage_or_zero_def)
  note fallback = started [OF _ _ _ _ _ init(1) init(3)]
  from trigger_shape [OF refl, of s r x] assms(2) show ?thesis
    unfolding zero
    apply (elim disjE conjE exE)
    apply (simp; fail)
    apply (erule ssubst, rule plan_completed; assumption)
    apply (erule ssubst, rule control_blocked; assumption)
    apply (erule ssubst, rule fallback; simp add: init(2))
    apply (erule ssubst, rule started; (assumption | simp))
    done
qed

lemma settled_effect:
  assumes "settles r s e x n" "settle_outcome r s n x = Some d" "\<not> refused s d" "e = TurnSettledEvent x"
    "needs_no_transition (ts_Outcome x)
      \<or> (\<exists>a t. sn_CurrentAttempt s = Some a \<and> Transition (rd_definition r) (at_CurrentStage a) (ts_Outcome x) = Some t)"
  shows "effect r s e d"
  using settle_outcome_shape [OF assms(2)]
proof (elim disjE conjE)
  assume "refused s d"
  with assms(3) show ?thesis by simp
next
  assume "\<exists>proposal pending. (proposal = sn_ChangeProposal n
         \<or> (\<exists>observed. ts_ChangeProposal x = Some observed
              \<and> (\<forall>p. sn_ChangeProposal n = Some p \<longrightarrow> cp_ID p = cp_ID observed)
              \<and> ts_Outcome x = TurnOutcomeClarificationWait
              \<and> proposal = Some (observed\<lparr>cp_ReadyForSHA := ''''\<rparr>)))
         \<and> d = clarificationWaitDecision (n\<lparr>sn_ChangeProposal := proposal\<rparr>) (ts_Turn x) pending"
  with assms(1) show ?thesis by (auto intro: clarified)
next
  assume "ts_Outcome x = TurnOutcomePlanningReady" "sn_PlanningOnly s" "sn_ChangeProposal s = None"
    "ts_PublicationAssociation x = None"
    "d = Applied (n\<lparr>sn_State := StatePlanReady, sn_Revision := sn_Revision n + 1\<rparr>) ReasonApproved
       [ReconcileLabelsAction StatePlanReady '''']"
  with assms(1) show ?thesis by (auto intro: planned)
next
  assume out: "ts_Outcome x = TurnOutcomeChangeProposalReady" and "reduceDeveloperSettled r s n x = Some d"
  from developer_shape [OF this(2)] assms(1,3,5) out settles_sel(4) [OF assms(1)] show ?thesis
    by (auto simp: needs_no_transition_def intro: handed_over)
next
  assume out: "ts_Outcome x \<in> {TurnOutcomeChangesRequested, TurnOutcomeApproved}"
    and "reduceReviewSettled r s n x = Some d"
  from review_shape [OF this(2)] assms(1,3,5) out settles_sel(4) [OF assms(1)] show ?thesis
    by (auto simp: needs_no_transition_def intro: reviewed)
next
  assume "ts_Outcome x \<in> {TurnOutcomeBlocked, TurnOutcomePrerequisiteFailed, TurnOutcomeInfrastructureFailed}"
    "turn_handed_off n x d"
  with assms(1,4) show ?thesis by (blast intro: turn_failed)
next
  assume "ts_Outcome x = TurnOutcomeInfrastructureFailed" "turn_retried n x d"
  with assms(1,4) show ?thesis by (blast intro: retried)
qed

lemma turn_settled_effect:
  assumes "reduceTurnSettled r s x = Some d" "\<not> refused s d"
  shows "effect r s (TurnSettledEvent x) d"
proof -
  from turn_settled_shape [OF assms(1)] assms(2)
  have "settles r s (TurnSettledEvent x) x (settling s x)" "settle_outcome r s (settling s x) x = Some d"
    "needs_no_transition (ts_Outcome x)
      \<or> (\<exists>a t. sn_CurrentAttempt s = Some a \<and> Transition (rd_definition r) (at_CurrentStage a) (ts_Outcome x) = Some t)"
    unfolding settles_def by auto
  from settled_effect [OF this(1,2) assms(2) refl this(3)] show ?thesis .
qed

lemma terminal_intent_effect:
  assumes "reduceTerminalIntentRevalidated r s y = Some d" "\<not> refused s d"
    "stage_graph (rd_definition r)" "valid_terminal_intent d' y"
  shows "effect r s (TerminalIntentRevalidatedEvent y) d"
proof -
  let ?e = "TerminalIntentRevalidatedEvent y" and ?x = "settled_from_intent y"
    and ?n = "s\<lparr>sn_ResumeRole := ''''\<rparr>"
  note shape = terminal_intent_shape [OF assms(1)]
  from shape assms(2) obtain a stage where
    at: "sn_CurrentAttempt s = Some a" "Stage (rd_definition r) (at_CurrentStage a) = Some stage" and
    settles: "settles r s ?e ?x ?n"
    by (fastforce simp: settles_def)
  have sid: "sd_ID stage = at_CurrentStage a"
    using stage_graph.stage_key [OF assms(3) at(2)] by simp
  from shape assms(2) at consider
      "d = clarificationWaitDecision ?n (ti_SourceTurn y) (ti_HumanInputPending y)"
    | "ti_Outcome y \<noteq> TurnOutcomeClarificationWait" "ti_HumanInputPending y" "d = answer_human_input s y stage"
    | review where "ti_ExistingReview y = Some review" "ti_Review y = Some review"
        "reducePreviouslyAcceptedTerminalReview r s y = Some d"
    | "ti_Outcome y = TurnOutcomeChangeProposalReady" "reduceDeveloperSettled r s ?n ?x = Some d"
        "Transition (rd_definition r) (sd_ID stage) (ti_Outcome y) \<noteq> None"
    | "ti_Outcome y \<noteq> TurnOutcomeClarificationWait" "ti_Outcome y \<noteq> TurnOutcomeChangeProposalReady"
        "reduceReviewSettled r s ?n ?x = Some d"
        "Transition (rd_definition r) (sd_ID stage) (ti_Outcome y) \<noteq> None"
    by auto
  then show ?thesis
  proof cases
    case 1
    with clarified [OF settles, of "sn_ChangeProposal ?n" "ti_HumanInputPending y"] show ?thesis by simp
  next
    case 2
    with answered [OF settles refl _ _ at] show ?thesis by simp
  next
    case (3 review)
    from previous_review_shape [OF 3(3)] assms(2) 3(1,2) at(1) show ?thesis
      by (auto simp: previous_review_identified_def intro!: previous_review [OF settles refl])
  next
    case 4
    from developer_shape [OF 4(2)] assms(2) 4(1,3) at(1) sid show ?thesis
      by (auto intro!: handed_over [OF settles, simplified] split: option.split_asm option.split)
  next
    case 5
    have out: "ts_Outcome ?x \<in> {TurnOutcomeChangesRequested, TurnOutcomeApproved}"
      using assms(4) 5(1,2) by (auto simp: valid_terminal_intent_def split: if_split_asm turn_outcome.split_asm)
    from review_shape [OF 5(3)] assms(2) 5(4) at(1) sid show ?thesis
      by (auto intro!: reviewed [OF settles out])
  qed
qed

lemma gave_up_effect:
  assumes "handed_off r s m rs diag starts d" "eventDetails e = Some (m, k)"
    "sn_State s \<in> {StatePlanReady, StatePlanning, StateDeveloping, StateReviewing, StatePRReady}"
    "starts \<subseteq> {s, clear_ready s, collect_runtime s}" "sn_State s = StatePRReady \<Longrightarrow> starts = {clear_ready s}"
  shows "effect r s e d"
proof (rule gave_up [OF assms(2,3)])
  show "handed_off r s m rs diag {s, clear_ready s, collect_runtime s} d"
    using assms(1,4) unfolding handed_off_def by blast
qed (use assms(1,5) in auto)

theorem dispatch_effect:
  assumes "dispatch r s e = Some d" "\<not> refused s d" "stage_graph (rd_definition r)" "validEvent d' e m"
  shows "effect r s e d"
proof (cases e)
  case (TriggerEvent x)
  with assms trigger_effect [OF assms(3)] show ?thesis by auto
next
  case (TurnSettledEvent x)
  with assms turn_settled_effect show ?thesis by auto
next
  case (TerminalIntentRevalidatedEvent x)
  with assms terminal_intent_effect show ?thesis by (auto simp: validEvent_def)
next
  case (TerminalRevalidationFailedEvent x)
  with assms(1,2) revalidation_failed_shape [OF refl, of s r x] show ?thesis
    by (auto simp: turn_state_def intro!: gave_up_effect)
next
  case (SynchronizationEvent x)
  with assms(1,2) synchronization_shape [of r s x d] show ?thesis by (auto intro: synchronized)
next
  case (IssueClosedEvent x)
  with assms(1,2) issue_closed_shape [OF refl, of s r x] show ?thesis
    by (auto intro: effect.closing simp del: option.case)
next
  case (ClosureSettledEvent x)
  with assms(1,2) closure_settled_shape [OF refl, of s x] show ?thesis by (auto intro: closed)
next
  case (IssueReopenedEvent x)
  with assms(1,2) reopened_shape [of s x d] show ?thesis by (auto intro: reopen_recorded reopened)
next
  case (AssignmentsCollectedEvent x)
  with assms(1,2) collected_shape [OF refl, of s x] show ?thesis by (auto intro: collected)
next
  case (AssignmentConfigurationConflictEvent x)
  with assms(1,2) conflict_shape [of r s x d] show ?thesis
    by (auto simp: turn_state_def intro!: gave_up_effect)
next
  case (AgentTurnPreparationFailedEvent x)
  with assms(1,2) preparation_shape [of r s x d] show ?thesis
    by (auto simp: turn_state_def intro!: gave_up_effect)
next
  case (AgentTurnMutationReconciliationExhaustedEvent x)
  with assms(1,2) mutation_shape [of r s x d] show ?thesis
    by (auto simp: turn_state_def intro!: gave_up_effect)
next
  case (WorkflowActionExhaustedEvent x)
  with assms(1,2) workflow_action_shape [of r s x d] show ?thesis
    by (auto intro!: gave_up_effect)
qed (use assms(1,2) review_observed_refused proposal_observed_refused in auto)

end
