(* ===== verification/Workflow_Safety.thy ===== *)
theory Workflow_Safety
  imports Workflow_Effects
begin

text \<open>
  What the reducer can never do: safety properties of single Events, each a case analysis on
  \<open>effect\<close>. They say how a Workflow becomes ready, who can end a Turn, what a Human Handoff leaves
  behind, and that every Turn the reducer asks for fits the Stage the Workflow is in.
\<close>

section \<open>Applied Events are effects\<close>

lemma Reduce_effect:
  assumes "built_reducer r" "Reduce r s e = Some d" "de_Disposition d = DispositionApplied"
  obtains m k d0 where "effect r s e d0" "de_Snapshot d = de_Snapshot d0" "de_Actions d = de_Actions d0"
    "eventDetails e = Some (m, k)" "validEvent (rd_definition r) e m"
    "validSnapshot (rd_definition r) (rd_infrastructureRetryLimit r) s"
    "validSnapshot (rd_definition r) (rd_infrastructureRetryLimit r) (de_Snapshot d0)"
  by (rule Reduce_applied [OF assms(2,3)])
    (metis dispatch_effect [OF _ _ built_stage_graph [OF assms(1)]] that)

section \<open>What the operations change\<close>

lemma stage_state_active:
  assumes "built_reducer r" "Stage (rd_definition r) sid = Some stage"
  shows "turn_state (sd_State stage)"
  using stage_graph.stage_key [OF built_stage_graph [OF assms(1)] assms(2)]
  by (auto simp: wf_stage_def turn_state_def active_stage_state_def)

lemma stage_itself:
  assumes "built_reducer r" "Stage (rd_definition r) sid = Some stage"
  shows "Stage (rd_definition r) (sd_ID stage) = Some stage"
  using stage_graph.stage_key [OF built_stage_graph [OF assms(1)] assms(2)] assms(2) by simp

lemma stage_state_cases:
  assumes "built_reducer r" "Stage (rd_definition r) sid = Some stage" "sd_State stage = st"
  shows "turn_state st"
  using stage_state_active [OF assms(1,2)] assms(3) by simp

lemma turn_state_simps [simp]:
  "\<not> turn_state StatePRReady" "\<not> turn_state StateNeedsHuman" "\<not> turn_state StateClosing"
  "\<not> turn_state StateClosed" "\<not> turn_state StateDormant" "\<not> turn_state StateAbsent"
  "\<not> turn_state StatePlanReady" "turn_state StatePlanning" "turn_state StateDeveloping"
  "turn_state StateReviewing"
  by (simp_all add: turn_state_def)

lemma start_attempt_sel [simp]:
  "sn_State (de_Snapshot (start_attempt r s x sid stage p)) = sd_State stage"
  "sn_ActiveTurn (de_Snapshot (start_attempt r s x sid stage p)) = None"
  "sn_CurrentAttempt (de_Snapshot (start_attempt r s x sid stage p)) = Some (new_attempt r x sid)"
  "sn_LastAttemptNumber (de_Snapshot (start_attempt r s x sid stage p)) = te_AttemptNumber x"
  "sn_Closure (de_Snapshot (start_attempt r s x sid stage p)) = None"
  "sn_PlanningOnly (de_Snapshot (start_attempt r s x sid stage p)) \<longleftrightarrow> sn_PlanningOnly s \<or> te_PlanningOnly x"
  "sn_ChangeProposal (de_Snapshot (start_attempt r s x sid stage p))
     = map_option (\<lambda>p. p\<lparr>cp_ReadyForSHA := ''''\<rparr>) (sn_ChangeProposal s)"
  by (simp_all add: start_attempt_def clear_ready_def Let_def)

lemma new_attempt_sel [simp]:
  "at_ID (new_attempt r x sid) = te_AttemptID x" "at_Number (new_attempt r x sid) = te_AttemptNumber x"
  "at_CurrentStage (new_attempt r x sid) = sid" "at_ReviewUsage (new_attempt r x sid) = fmempty"
  "at_InfrastructureRetryBudget (new_attempt r x sid)
     = \<lparr>ab_Used = 0, ab_Limit = rd_infrastructureRetryLimit r\<rparr>"
  by (simp_all add: new_attempt_def)

lemma hand_off_kept [simp]:
  "sn_State (hand_off ro s) = StateNeedsHuman" "sn_ActiveTurn (hand_off ro s) = sn_ActiveTurn s"
  "sn_CurrentAttempt (hand_off ro s) = sn_CurrentAttempt s" "sn_Closure (hand_off ro s) = sn_Closure s"
  "sn_LastAttemptNumber (hand_off ro s) = sn_LastAttemptNumber s"
  "sn_ChangeProposal (hand_off ro s) = sn_ChangeProposal s"
  "sn_PlanningOnly (hand_off ro s) = sn_PlanningOnly s"
  by (simp_all add: hand_off_def)

lemma clear_ready_kept [simp]:
  "sn_State (clear_ready s) = sn_State s" "sn_ActiveTurn (clear_ready s) = sn_ActiveTurn s"
  "sn_CurrentAttempt (clear_ready s) = sn_CurrentAttempt s" "sn_Closure (clear_ready s) = sn_Closure s"
  "sn_LastAttemptNumber (clear_ready s) = sn_LastAttemptNumber s"
  "sn_PlanningOnly (clear_ready s) = sn_PlanningOnly s"
  by (simp_all add: clear_ready_def)

lemma collect_runtime_sel [simp]:
  "sn_State (collect_runtime s) = sn_State s" "sn_ActiveTurn (collect_runtime s) = sn_ActiveTurn s"
  "sn_CurrentAttempt (collect_runtime s) = sn_CurrentAttempt s" "sn_Closure (collect_runtime s) = sn_Closure s"
  "sn_LastAttemptNumber (collect_runtime s) = sn_LastAttemptNumber s"
  "sn_PlanningOnly (collect_runtime s) = sn_PlanningOnly s"
  "sn_ChangeProposal (collect_runtime s) = sn_ChangeProposal s"
  by (simp_all add: collect_runtime_def)

lemma hand_over_sel [simp]:
  "sn_State (hand_over n p a st) = sd_State st" "sn_ActiveTurn (hand_over n p a st) = sn_ActiveTurn n"
  "sn_CurrentAttempt (hand_over n p a st) = Some (reset_retries (a\<lparr>at_CurrentStage := sd_ID st\<rparr>))"
  "sn_ChangeProposal (hand_over n p a st) = Some p" "sn_Closure (hand_over n p a st) = sn_Closure n"
  "sn_LastAttemptNumber (hand_over n p a st) = sn_LastAttemptNumber n"
  "sn_PlanningOnly (hand_over n p a st) = sn_PlanningOnly n"
  by (simp_all add: hand_over_def)

lemma reset_retries_kept [simp]:
  "at_ID (reset_retries a) = at_ID a" "at_Number (reset_retries a) = at_Number a"
  "at_CurrentStage (reset_retries a) = at_CurrentStage a" "at_ReviewUsage (reset_retries a) = at_ReviewUsage a"
  by (simp_all add: reset_retries_def)

lemma consume_cycle_kept [simp]:
  "at_ID (consume_cycle t sid a) = at_ID a" "at_Number (consume_cycle t sid a) = at_Number a"
  "at_CurrentStage (consume_cycle t sid a) = at_CurrentStage a"
  by (simp_all add: consume_cycle_def)

lemma answer_human_input_sel [simp]:
  "sn_State (de_Snapshot (answer_human_input s y stage)) = sn_State s"
  "sn_ActiveTurn (de_Snapshot (answer_human_input s y stage)) = sn_ActiveTurn s"
  "sn_CurrentAttempt (de_Snapshot (answer_human_input s y stage)) = sn_CurrentAttempt s"
  "sn_Closure (de_Snapshot (answer_human_input s y stage)) = sn_Closure s"
  "sn_LastAttemptNumber (de_Snapshot (answer_human_input s y stage)) = sn_LastAttemptNumber s"
  "sn_PlanningOnly (de_Snapshot (answer_human_input s y stage)) = sn_PlanningOnly s"
  by (auto simp: answer_human_input_def Let_def split: option.split)

text \<open>The bundle that opens a single effect up.\<close>

lemmas effect_simps = handed_off_def turn_handed_off_def turn_retried_def clarificationWaitDecision_def
  repeat_previous_review_def approve_previous_review_def return_previous_review_def repeat_review_def
  approve_def exhaust_budget_def request_changes_def sync_branch_def closing_def settle_closure_eq Let_def

section \<open>Readiness\<close>

text \<open>The approval an Event reports: the Turn that reviewed, the review, and the actor the
  Orchestrator had authorised to review.\<close>

fun approval :: "event \<Rightarrow> (turn_guard \<times> review_identity \<times> int64) option" where
  "approval (TurnSettledEvent x) =
     (if ts_Outcome x = TurnOutcomeApproved
      then map_option (\<lambda>v. (ts_Turn x, v, ts_AuthorizedReviewerActorID x)) (ts_Review x) else None)"
| "approval (TerminalIntentRevalidatedEvent x) =
     (if ti_Outcome x = TurnOutcomeApproved
      then map_option (\<lambda>v. (ti_SourceTurn x, v, ti_AuthorizedReviewerActorID x)) (ti_Review x) else None)"
| "approval _ = None"

text \<open>\<open>approved_head s e p\<close>: the Event approves the current head of the Change Proposal, and \<open>p\<close> is that
  Change Proposal with the head marked as ready.\<close>

definition approved_head :: "snapshot \<Rightarrow> event \<Rightarrow> change_proposal \<Rightarrow> bool" where
  "approved_head s e p \<longleftrightarrow>
     (\<exists>turn review actor cp. approval e = Some (turn, review, actor) \<and> sn_ChangeProposal s = Some cp
        \<and> rv_ActorID review = actor \<and> rv_ChangeProposalID review = cp_ID cp
        \<and> rv_HeadSHA review = cp_HeadSHA cp \<and> tg_ExpectedHeadSHA turn = cp_HeadSHA cp
        \<and> tg_ChangeProposalID turn = cp_ID cp
        \<and> cp_ID p = cp_ID cp \<and> cp_HeadSHA p = cp_HeadSHA cp \<and> cp_ReadyForSHA p = cp_HeadSHA cp)"

lemma approved_headI:
  assumes "settles r s e x n" "ts_Outcome x = TurnOutcomeApproved" "review_identified s x cp review observed"
    "\<not> stale_review_head cp x review (observed\<lparr>cp_ReadyForSHA := ''''\<rparr>)"
  shows "approved_head s e (observed\<lparr>cp_ReadyForSHA := rv_HeadSHA review\<rparr>)"
  using assms by (auto simp: approved_head_def settles_def review_identified_def stale_review_head_def Let_def)

lemma previous_approved_headI:
  assumes "e = TerminalIntentRevalidatedEvent y" "ti_Outcome y = TurnOutcomeApproved"
    "previous_review_identified s y cp review observed" "previous_head_current y cp review observed"
  shows "approved_head s e (observed\<lparr>cp_ReadyForSHA := rv_HeadSHA review\<rparr>)"
  using assms by (auto simp: approved_head_def previous_review_identified_def previous_head_current_def)

lemma effect_ready:
  assumes "effect r s e d" "built_reducer r" "sn_State (de_Snapshot d) = StatePRReady" "sn_State s \<noteq> StatePRReady"
  shows "\<exists>p. sn_ChangeProposal (de_Snapshot d) = Some p \<and> approved_head s e p"
proof -
  note turning = stage_state_cases [OF assms(2)]
  from assms(1) show ?thesis
  proof cases
  case (reviewed x n cp review observed a t)
  let ?stage = "stage_or_zero (rd_definition r) (at_CurrentStage a)"
  obtain st where "Stage (rd_definition r) (at_CurrentStage a) = Some st"
    using stage_graph.Transition_in_stage [OF built_stage_graph [OF assms(2)] reviewed(5)] by auto
  then have "turn_state (sd_State ?stage)"
    using stage_state_active [OF assms(2)] by (simp add: stage_or_zero_def)
  with reviewed(6) assms(3)
  have "ts_Outcome x = TurnOutcomeApproved" "\<not> stale_review_head cp x review (observed\<lparr>cp_ReadyForSHA := ''''\<rparr>)"
    "sn_ChangeProposal (de_Snapshot d) = Some (observed\<lparr>cp_ReadyForSHA := rv_HeadSHA review\<rparr>)"
    by (auto simp: review_branch_def effect_simps dest: turning)
  with approved_headI [OF reviewed(1) _ reviewed(3)] show ?thesis by blast
next
  case (previous_review y n review cp observed a t)
  from previous_review(1) have "turn_state (sn_State s)" by (rule settles_sel)
  with previous_review(7) assms(3)
  have "ti_Outcome y = TurnOutcomeApproved" "previous_head_current y cp review observed"
    "sn_ChangeProposal (de_Snapshot d) = Some (observed\<lparr>cp_ReadyForSHA := rv_HeadSHA review\<rparr>)"
    by (auto simp: effect_simps dest: turning)
  with previous_approved_headI [OF previous_review(2) _ previous_review(4)] show ?thesis by blast
  qed (use assms(3,4) in \<open>auto simp: effect_simps dest: turning settles_sel(2,13) split: if_split_asm\<close>)
qed

text \<open>C1 (readiness needs an approval of the current head). A Workflow enters \<open>PR_READY\<close> only by an
  Event that reports an approving review of exactly the current head of its Change Proposal, by a
  Turn that was dispatched for that head, signed by the actor the Orchestrator authorised; and it
  is that head that is then marked as ready.\<close>

theorem ready_needs_current_approval:
  assumes "built_reducer r" "Reduce r s e = Some d" "de_Disposition d = DispositionApplied"
    "sn_State (de_Snapshot d) = StatePRReady" "sn_State s \<noteq> StatePRReady"
  shows "\<exists>p. sn_ChangeProposal (de_Snapshot d) = Some p \<and> approved_head s e p"
  by (rule Reduce_effect [OF assms(1-3)]) (use effect_ready [OF _ assms(1)] assms(4,5) in \<open>metis\<close>)

theorem ready_needs_current_approval_witness:
  "\<exists>p. sn_ChangeProposal demo_ready = Some p
     \<and> approved_head (demo_reviewing (Some demo_reviewer_turn))
         (TurnSettledEvent (demo_settled 2 demo_reviewer_turn TurnOutcomeApproved
            (Some (demo_proposal '''')) (Some demo_review))) p"
  using ready_needs_current_approval [OF demo_built demo_approve_step]
  by (simp add: demo_ready_def demo_reviewing_def demo_snapshot_def)

section \<open>Who ends a Turn\<close>

text \<open>The guard an Event carries when it reports the end of a Turn.\<close>

fun ended_turn :: "event \<Rightarrow> turn_guard option" where
  "ended_turn (TurnSettledEvent x) = Some (ts_Turn x)"
| "ended_turn (ClosureSettledEvent x) = cs_Turn x"
| "ended_turn _ = None"

lemma active_turn_state:
  assumes "validSnapshot d l s" "sn_ActiveTurn s = Some turn"
  shows "turn_state (sn_State s) \<or> sn_State s = StateClosing"
proof -
  have "sn_State s \<noteq> StateAbsent"
    using assms by (auto simp: validSnapshot_def absent_snapshot_def)
  from validSnapshotD(1,5) [OF assms(1) this] assms(2) \<open>sn_State s \<noteq> StateAbsent\<close> show ?thesis
    by (cases "sn_State s") (auto simp: validStateShape_def)
qed

text \<open>The Turn a guard stands for.\<close>

definition guarded_turn :: "turn_guard \<Rightarrow> active_turn" where
  "guarded_turn g =
     \<lparr>tn_ID = tg_TurnID g, tn_SessionID = tg_SessionID g, tn_AttemptID = tg_AttemptID g,
      tn_Stage = tg_Stage g, tn_Role = tg_Role g, tn_Epoch = tg_Epoch g,
      tn_ControlRevision = tg_ControlRevision g, tn_ChangeProposalID = tg_ChangeProposalID g,
      tn_ExpectedHeadSHA = tg_ExpectedHeadSHA g\<rparr>"

lemma turnMatches_guarded: "turnMatches turn g \<longleftrightarrow> turn = guarded_turn g"
  by (cases turn) (auto simp: turnMatches_def guarded_turn_def)

text \<open>\<open>turn_kept_or_ended s e n\<close>: the Turn of \<open>s\<close>, if it has one, goes on in \<open>n\<close> as it was, with the
  Workflow closing, or it is gone and \<open>e\<close> reported the end of exactly this Turn.\<close>

definition turn_kept_or_ended :: "snapshot \<Rightarrow> event \<Rightarrow> snapshot \<Rightarrow> bool" where
  "turn_kept_or_ended s e n \<longleftrightarrow>
     (case sn_ActiveTurn s of
        None \<Rightarrow> sn_ActiveTurn n = None
      | Some turn \<Rightarrow>
          sn_ActiveTurn n = Some turn \<and> sn_State n = StateClosing
          \<or> sn_ActiveTurn n = None \<and> (\<exists>g. ended_turn e = Some g \<and> turn = guarded_turn g))"

lemma settles_turn:
  assumes "settles r s e x n" "sn_ActiveTurn n' = None"
  shows "turn_kept_or_ended s e n'"
  using assms by (auto simp: settles_def turn_kept_or_ended_def turnMatches_guarded split: option.split)

lemma settles_turn_all:
  assumes "settles r s e x n"
  shows "sn_ActiveTurn n = None \<and> (\<forall>n'. sn_ActiveTurn n' = None \<longrightarrow> turn_kept_or_ended s e n')"
  using settles_sel(3) [OF assms] settles_turn [OF assms] by blast

lemma idle_turn:
  "sn_ActiveTurn s = None \<Longrightarrow> sn_ActiveTurn n = None \<Longrightarrow> turn_kept_or_ended s e n"
  by (simp add: turn_kept_or_ended_def)

lemma effect_turn:
  assumes "effect r s e d" "validSnapshot (rd_definition r) l s"
  shows "turn_kept_or_ended s e (de_Snapshot d)"
proof -
  have idle: "sn_ActiveTurn s = None" if "\<not> turn_state (sn_State s)" "sn_State s \<noteq> StateClosing"
    using active_turn_state [OF assms(2)] that by (cases "sn_ActiveTurn s") auto
  from assms(1) show ?thesis
  proof cases
    case (closing n)
    then show ?thesis by (auto simp: turn_kept_or_ended_def effect_simps split: option.split)
  next
    case (closed c x)
    then show ?thesis by (auto simp: turn_kept_or_ended_def turnMatches_guarded effect_simps split: option.splits)
  next
    case (synchronized cp x a stage)
    then have "sn_ActiveTurn s = None" using idle by auto
    with synchronized show ?thesis by (auto simp: turn_kept_or_ended_def effect_simps)
  next
    case (answered y n a stage)
    then have "sn_ActiveTurn s = None" by (auto simp: settles_def)
    with answered show ?thesis by (simp add: turn_kept_or_ended_def)
  next
    case (previous_review y n review cp observed a t)
    then have "sn_ActiveTurn s = None" by (auto simp: settles_def)
    with previous_review(7) show ?thesis by (auto simp: turn_kept_or_ended_def effect_simps)
  next
    case (reviewed x n cp review observed a t)
    with settles_sel(3) [OF reviewed(1)] show ?thesis
      by (auto simp: review_branch_def effect_simps intro!: settles_turn [OF reviewed(1)])
  next
    case (reopen_recorded c x)
    then show ?thesis by (auto simp: turn_kept_or_ended_def split: option.split)
  qed (use idle in \<open>auto simp: effect_simps dest!: settles_turn_all intro: idle_turn\<close>)
qed


text \<open>C14 (a Turn ends only by its own report). The reducer never makes a Turn active. While one is
  active, an Event either reports the end of this very Turn (same Turn, Session, Attempt, Stage,
  Role, execution epoch, control revision, Change Proposal and head) and then no Turn is active, or
  it leaves the Turn as it is; and if it is applied all the same, it has closed the Work Item.\<close>

theorem turn_ends_by_its_own_report:
  assumes "built_reducer r" "Reduce r s e = Some d" "de_Disposition d = DispositionApplied"
  shows "turn_kept_or_ended s e (de_Snapshot d)"
  by (rule Reduce_effect [OF assms]) (use effect_turn in \<open>metis\<close>)

theorem turn_ends_by_its_own_report_witness:
  "\<exists>g. ended_turn (TurnSettledEvent (demo_settled 1 demo_developer_turn TurnOutcomeChangeProposalReady
        (Some (demo_proposal '''')) None)) = Some g \<and> demo_developer_turn = guarded_turn g"
  using turn_ends_by_its_own_report [OF demo_built demo_developer_step]
  by (simp add: turn_kept_or_ended_def demo_developing_def demo_reviewing_def demo_snapshot_def)

section \<open>Human Handoffs\<close>

text \<open>The Turn an Action asks for: the one it enqueues, or the one that the reconciliation of the
  pending events falls back to (a fallback without a Stage is none).\<close>

fun requested_turn :: "wf_action \<Rightarrow> enqueue_turn option" where
  "requested_turn (EnqueueTurnAction i) = Some i"
| "requested_turn (ReconcilePendingEventsAction p) =
     (if rp_FallbackStage p = '''' then None
      else Some \<lparr>eq_Stage = rp_FallbackStage p, eq_Role = rp_FallbackRole p, eq_Purpose = rp_FallbackPurpose p,
                 eq_ExpectedHeadSHA = rp_FallbackExpectedHead p, eq_RetryOfTurnID = rp_RetryOfTurnID p\<rparr>)"
| "requested_turn _ = None"

fun starts_work :: "wf_action \<Rightarrow> bool" where
  "starts_work (EnqueueTerminalRevalidationAction _) = True"
| "starts_work act = (requested_turn act \<noteq> None)"

fun marks_handoff :: "wf_action \<Rightarrow> bool" where
  "marks_handoff (MarkHumanHandoffAction _ _) = True"
| "marks_handoff _ = False"

text \<open>\<open>handed_to_human r d\<close>: the decision marks the handoff, asks for no work, leaves no Turn and
  remembers the Role of the Attempt's Stage as the one to resume.\<close>

definition handed_to_human :: "reducer \<Rightarrow> decision \<Rightarrow> bool" where
  "handed_to_human r d \<longleftrightarrow>
     list_ex marks_handoff (de_Actions d) \<and> \<not> list_ex starts_work (de_Actions d)
     \<and> sn_ActiveTurn (de_Snapshot d) = None
     \<and> as_Status (sn_Assignments (de_Snapshot d)) = AssignmentWaitingForHuman
     \<and> (\<exists>a stage. sn_CurrentAttempt (de_Snapshot d) = Some a
           \<and> Stage (rd_definition r) (at_CurrentStage a) = Some stage
           \<and> sn_ResumeRole (de_Snapshot d) = sd_Role stage)"

lemma zero_fallback [simp]: "\<not> starts_work (reconcilePendingAction g p zero_enqueue)"
  "\<not> marks_handoff (reconcilePendingAction g p i)"
  by (simp_all add: reconcilePendingAction_def zero_enqueue_def)

lemma settles_stage:
  assumes "settles r s e x n" "validSnapshot (rd_definition r) l s" "built_reducer r"
  shows "\<exists>a stage. sn_CurrentAttempt s = Some a \<and> Stage (rd_definition r) (at_CurrentStage a) = Some stage
    \<and> tg_Stage (ts_Turn x) = at_CurrentStage a \<and> tg_Role (ts_Turn x) = sd_Role stage
    \<and> sd_ID stage = at_CurrentStage a \<and> sd_State stage = sn_State s"
proof -
  note key = stage_graph.stage_key [OF built_stage_graph [OF assms(3)]]
  have st: "sn_State s \<in> {StatePlanning, StateDeveloping, StateReviewing}"
    using assms(1) by (auto simp: settles_def turn_state_def)
  from shape_turn_state [OF assms(2) st] obtain a stage where
    at: "sn_CurrentAttempt s = Some a" "Stage (rd_definition r) (at_CurrentStage a) = Some stage"
      "sd_State stage = sn_State s" by blast
  from assms(1) consider turn where "sn_ActiveTurn s = Some turn" "turnMatches turn (ts_Turn x)"
    | "at_CurrentStage a = tg_Stage (ts_Turn x)" "sd_Role stage = tg_Role (ts_Turn x)"
    using at by (auto simp: settles_def)
  then show ?thesis
  proof cases
    case (1 turn)
    with shape_active_turn [OF assms(2) st 1(1) at(1,2)] key [OF at(2)] at show ?thesis
      by (auto simp: turnMatches_def)
  next
    case 2
    with at key [OF at(2)] show ?thesis by auto
  qed
qed


lemma hand_off_resume [simp]:
  "sn_ResumeRole (hand_off ro s) = ro"
  "as_Status (sn_Assignments (hand_off ro s)) = AssignmentWaitingForHuman"
  by (simp_all add: hand_off_def)

lemma with_pending_work [simp]:
  "list_ex starts_work (with_pending g p acts) \<longleftrightarrow> list_ex starts_work acts"
  "list_ex marks_handoff (with_pending g p acts) \<longleftrightarrow> list_ex marks_handoff acts"
  by (simp_all add: with_pending_def)

lemma turn_failed_handed:
  assumes "settles r s e x n" "validSnapshot (rd_definition r) l s" "built_reducer r" "turn_handed_off n x d"
  shows "handed_to_human r d"
  using settles_stage [OF assms(1-3)] settles_sel(3,4) [OF assms(1)] assms(4)
  by (auto simp: turn_handed_off_def handed_to_human_def)

lemma effect_handoff:
  assumes "effect r s e d" "built_reducer r" "validSnapshot (rd_definition r) l s"
    "sn_State (de_Snapshot d) = StateNeedsHuman" "sn_State s \<noteq> StateNeedsHuman"
  shows "handed_to_human r d"
proof -
  note turning = stage_state_cases [OF assms(2)] and itself = stage_itself [OF assms(2)]
  from assms(1) show ?thesis
  proof cases
    case (gave_up m k rs diag)
    then show ?thesis by (auto simp: handed_off_def handed_to_human_def)
  next
    case (reviewed x n cp review observed a t)
    let ?stage = "stage_or_zero (rd_definition r) (at_CurrentStage a)"
    obtain st where "Stage (rd_definition r) (at_CurrentStage a) = Some st"
      using stage_graph.Transition_in_stage [OF built_stage_graph [OF assms(2)] reviewed(5)] by auto
    then have "turn_state (sd_State ?stage)"
      using stage_state_active [OF assms(2)] by (simp add: stage_or_zero_def)
    moreover have "ot_TerminalState t = StatePlanReady \<or> ot_TerminalState t = StatePRReady"
      if "ts_Outcome x = TurnOutcomeApproved"
      using stage_graph.terminal_outcome [OF built_stage_graph [OF assms(2)] reviewed(5)] that by simp
    ultimately show ?thesis
      using reviewed(2,5,6) assms(4) settles_sel(3) [OF reviewed(1)]
      by (auto simp: review_branch_def handed_to_human_def effect_simps dest: turning itself)
  next
    case (previous_review y n review cp observed a t)
    have "ot_TerminalState t = StatePlanReady \<or> ot_TerminalState t = StatePRReady"
      if "ti_Outcome y = TurnOutcomeApproved"
      using stage_graph.terminal_outcome [OF built_stage_graph [OF assms(2)] previous_review(6)] that by simp
    with previous_review(7) assms(4,5) show ?thesis by (auto simp: effect_simps dest: turning)
  next
    case (turn_failed x n)
    with turn_failed_handed [OF turn_failed(1) assms(3,2)] show ?thesis by blast
  next
    case (synchronized cp x a stage)
    with assms(4,5) show ?thesis by (auto simp: handed_to_human_def effect_simps dest: turning)
  qed (use assms(4,5) in \<open>auto simp: effect_simps dest: turning settles_sel(2,13) split: if_split_asm\<close>)
qed

text \<open>C29 (Human Handoffs). Whenever the reducer hands a Workflow to a human, the handoff is marked
  for the user, no Agent Turn is left active, none is enqueued or revalidated, not even through the
  reconciliation of pending events, and the Role to resume is the Role of the Stage the Attempt
  stands at.\<close>

theorem handoff_stops_agents:
  assumes "built_reducer r" "Reduce r s e = Some d" "de_Disposition d = DispositionApplied"
    "sn_State (de_Snapshot d) = StateNeedsHuman" "sn_State s \<noteq> StateNeedsHuman"
  shows "handed_to_human r d"
proof (rule Reduce_effect [OF assms(1-3)])
  fix m k d0
  assume "effect r s e d0" "de_Snapshot d = de_Snapshot d0" "de_Actions d = de_Actions d0"
    "validSnapshot (rd_definition r) (rd_infrastructureRetryLimit r) s"
  with effect_handoff [of r s e d0] assms(1,4,5) show ?thesis
    by (simp add: handed_to_human_def)
qed


lemma demo_blocked_step:
  "Reduce demo_reducer (demo_developing (Some demo_developer_turn))
     (TurnSettledEvent ((demo_settled 1 demo_developer_turn TurnOutcomeBlocked None None)\<lparr>ts_Diagnostic := ''stuck''\<rparr>)) =
   Some (Applied (hand_off Developer (demo_developing None)) ReasonAgentBlocked
     [MarkHumanHandoffAction ReasonAgentBlocked ''stuck'', ReconcileLabelsAction StateNeedsHuman ''''])"
  by (rule Reduce_applies)
    (simp_all add: settle_simps reduceBlocked_def hand_off_def valid_event_simps valid_snapshot_simps demo_simps,
     simp_all?)

theorem handoff_stops_agents_witness:
  "handed_to_human demo_reducer (Applied (hand_off Developer (demo_developing None)) ReasonAgentBlocked
     [MarkHumanHandoffAction ReasonAgentBlocked ''stuck'', ReconcileLabelsAction StateNeedsHuman ''''])"
  by (rule handoff_stops_agents [OF demo_built demo_blocked_step])
    (simp_all add: demo_developing_def demo_snapshot_def)

end
