(* ===== verification/Workflow_Turns.thy ===== *)
theory Workflow_Turns
  imports Workflow_Safety
begin

text \<open>
  The Turns the reducer asks for under the built-in Definition. The store turns each such Action
  into a preparation job and never re-checks Stage, Role or purpose against the Definition, so the
  Action has to fit the Snapshot it comes with; \<open>requested_turn_fits\<close> shows that it does.
\<close>

section \<open>Definitions with one kind of review\<close>

text \<open>What the built-in Definition adds to the graph laws: only Stages in \<open>REVIEWING\<close> review, every
  review consumes a cycle of a limited budget, an approval makes the Workflow ready, and the one
  Stage that plans is \<open>planning\<close>.\<close>

locale review_pipeline = stage_graph +
  assumes review_consumes: "Transition d sid out = Some t \<Longrightarrow> out \<in> {TurnOutcomeChangesRequested, TurnOutcomeApproved} \<Longrightarrow>
      Stage d sid = Some st \<Longrightarrow> sd_State st = StateReviewing \<and> ot_ConsumesReviewCycle t \<and> sd_ReviewLimit st > 0"
    and approval_ready: "Transition d sid TurnOutcomeApproved = Some t \<Longrightarrow> ot_TerminalState t = StatePRReady"
    and planning_stage_only: "Stage d sid = Some st \<Longrightarrow> sd_State st = StatePlanning \<Longrightarrow> sid = StagePlanning"
begin

lemma reviewing_stage:
  assumes "Transition d sid out = Some t" "out \<in> {TurnOutcomeChangesRequested, TurnOutcomeApproved}"
  shows "\<exists>st. Stage d sid = Some st \<and> sd_ID st = sid \<and> sd_State st = StateReviewing \<and> sd_ReviewLimit st > 0
    \<and> AcceptsPurpose d sid TurnPurposeSynchronization \<and> stage_or_zero d sid = st"
proof -
  from Transition_in_stage [OF assms(1)] obtain st where st: "Stage d sid = Some st" by blast
  with review_consumes [OF assms st] accepts_operational(3) [OF st] stage_key [OF st] show ?thesis
    by (auto simp: stage_or_zero_def)
qed

lemma successor_accepts:
  assumes "Transition d sid out = Some t" "Stage d (ot_NextStage t) = Some target"
    "out = TurnOutcomeChangeProposalReady \<or> out = TurnOutcomeChangesRequested"
  shows "AcceptsPurpose d (sd_ID target) (ot_NextPurpose t)" "Stage d (sd_ID target) = Some target"
  using successor_outcome [OF assms(1,3)] assms(2) stage_key [OF assms(2)]
  by (auto simp: AcceptsPurpose_def Stage_def split: option.split_asm option.split)

end

lemma builtin_review_pipeline: "review_pipeline (builtin_definition impl revw)"
proof -
  have "review_pipeline_axioms (builtin_definition impl revw)"
    by unfold_locales
      (auto simp: Transition_def Stage_def builtin_definition_def builtin_stages split: if_splits)
  with builtin_stage_graph show ?thesis by (simp add: review_pipeline_def)
qed

interpretation builtin_pipeline: review_pipeline "builtin_definition impl revw" for impl revw
  by (rule builtin_review_pipeline)

text \<open>Reducers over the built-in Definition.\<close>

definition builtin_reducer :: "reducer \<Rightarrow> bool" where
  "builtin_reducer r \<longleftrightarrow>
     built_reducer r \<and> (\<exists>impl revw. rd_definition r = builtin_definition impl revw)"

lemma builtin_reducer_built [simp]: "builtin_reducer r \<Longrightarrow> built_reducer r"
  by (simp add: builtin_reducer_def)

lemma builtin_reducer_pipeline: "builtin_reducer r \<Longrightarrow> review_pipeline (rd_definition r)"
  using builtin_review_pipeline by (auto simp: builtin_reducer_def)

lemma demo_builtin: "builtin_reducer demo_reducer"
  using demo_built by (auto simp: builtin_reducer_def demo_reducer_def)

section \<open>Requested Turns\<close>

text \<open>\<open>fits d n i\<close>: a Turn for the intent \<open>i\<close> can be dispatched in the Snapshot \<open>n\<close>: no other Turn is
  active, it is for the Stage of the current Attempt and that Stage's Role, the Workflow is in that
  Stage's state, the Stage accepts the purpose, and the expected head is the one of the Change
  Proposal (empty without one).\<close>

definition fits :: "wf_definition \<Rightarrow> snapshot \<Rightarrow> enqueue_turn \<Rightarrow> bool" where
  "fits d n i \<longleftrightarrow>
     sn_ActiveTurn n = None \<and> eq_ExpectedHeadSHA i = proposal_head n
     \<and> (\<exists>a stage. sn_CurrentAttempt n = Some a \<and> at_CurrentStage a = eq_Stage i
          \<and> Stage d (eq_Stage i) = Some stage \<and> eq_Role i = sd_Role stage \<and> sn_State n = sd_State stage
          \<and> AcceptsPurpose d (eq_Stage i) (eq_Purpose i))"

fun requests :: "wf_action list \<Rightarrow> enqueue_turn list" where
  "requests [] = []"
| "requests (act # acts) = (case requested_turn act of None \<Rightarrow> requests acts | Some i \<Rightarrow> i # requests acts)"

lemma requests_append [simp]: "requests (as @ bs) = requests as @ requests bs"
  by (induction as) (auto split: option.split)

lemma requests_with_pending [simp]: "requests (with_pending g p acts) = requests acts"
  by (simp add: with_pending_def reconcilePendingAction_def zero_enqueue_def)

lemma requests_successor [simp]:
  "eq_Stage i \<noteq> '''' \<Longrightarrow> requests (successorActions g p i) = [i]"
  by (cases i) (simp add: successorActions_def reconcilePendingAction_def)

lemma enqueue_sel [simp]:
  "eq_Stage (enqueue sid ro p h) = sid" "eq_Role (enqueue sid ro p h) = ro"
  "eq_Purpose (enqueue sid ro p h) = p" "eq_ExpectedHeadSHA (enqueue sid ro p h) = h"
  by (simp_all add: enqueue_def)


text \<open>Every way of starting the next Turn: the Stage exists and its state is the new one.\<close>

lemma fitsI:
  assumes "sn_CurrentAttempt n = Some a" "at_CurrentStage a = eq_Stage i" "Stage d (eq_Stage i) = Some stage"
    "eq_Role i = sd_Role stage" "sn_State n = sd_State stage" "AcceptsPurpose d (eq_Stage i) (eq_Purpose i)"
    "sn_ActiveTurn n = None" "eq_ExpectedHeadSHA i = proposal_head n"
  shows "fits d n i"
  using assms by (auto simp: fits_def)

definition requests_fit :: "wf_definition \<Rightarrow> decision \<Rightarrow> bool" where
  "requests_fit d dec \<longleftrightarrow>
     requests (de_Actions dec) = []
     \<or> (\<exists>i. requests (de_Actions dec) = [i] \<and> fits d (de_Snapshot dec) i)"

lemma requests_fitI:
  assumes "requests (de_Actions dec) = [i]" "fits d (de_Snapshot dec) i"
  shows "requests_fit d dec"
  using assms by (auto simp: requests_fit_def)

lemma no_requests [simp]: "requests (de_Actions dec) = [] \<Longrightarrow> requests_fit d dec"
  by (simp add: requests_fit_def)

lemma stage_id_nonempty:
  assumes "built_reducer r" "Stage (rd_definition r) sid = Some stage"
  shows "sid \<noteq> ''''" "sd_ID stage \<noteq> ''''" "sd_ID stage = sid"
  using stage_graph.stage_key [OF built_stage_graph [OF assms(1)] assms(2)] validStageID_nonempty
  by (auto simp: wf_stage_def)

lemma started_fits:
  assumes "built_reducer r" "Stage (rd_definition r) sid = Some stage" "AcceptsPurpose (rd_definition r) sid purpose"
  shows "requests_fit (rd_definition r) (start_attempt r s x sid stage purpose)"
proof -
  note sid = stage_id_nonempty [OF assms(1,2)]
  let ?n = "de_Snapshot (start_attempt r s x sid stage purpose)"
  have head: "proposal_head ?n = proposal_head s"
    by (auto simp: proposal_head_def split: option.split)
  have "fits (rd_definition r) ?n (enqueue sid (sd_Role stage) purpose (proposal_head s))"
    by (rule fitsI [of _ "new_attempt r x sid" _ _ stage]) (use assms head in simp_all)
  moreover have "requests (de_Actions (start_attempt r s x sid stage purpose))
      \<in> {[], [enqueue sid (sd_Role stage) purpose (proposal_head s)]}"
    using sid head by (auto simp: start_attempt_def clear_ready_def proposal_head_def Let_def split: option.split)
  ultimately show ?thesis by (auto simp: requests_fit_def)
qed

lemma clarified_fits:
  assumes "settles r s e x n" "validSnapshot (rd_definition r) l s" "built_reducer r"
    and n: "sn_CurrentAttempt n' = sn_CurrentAttempt n" "sn_ActiveTurn n' = sn_ActiveTurn n" "sn_State n' = sn_State n"
  shows "requests_fit (rd_definition r) (clarificationWaitDecision n' (ts_Turn x) pending)"
proof -
  note sel = settles_sel [OF assms(1)]
  from settles_stage [OF assms(1-3)] obtain a stage where
    at: "sn_CurrentAttempt s = Some a" "Stage (rd_definition r) (at_CurrentStage a) = Some stage"
      "tg_Stage (ts_Turn x) = at_CurrentStage a" "tg_Role (ts_Turn x) = sd_Role stage" "sd_State stage = sn_State s"
    by blast
  with n sel stage_graph.accepts_operational(2) [OF built_stage_graph [OF assms(3)] at(2)] show ?thesis
    by (auto simp: clarificationWaitDecision_def Let_def requests_fit_def fits_def proposal_head_def)
qed

lemma settled_head:
  assumes "settles r s (TurnSettledEvent x) x n" "validSnapshot (rd_definition r) l s"
  shows "eq_ExpectedHeadSHA (retry_intent x) = proposal_head n"
proof -
  from assms(1) obtain turn where turn: "sn_ActiveTurn s = Some turn" "turnMatches turn (ts_Turn x)" and
    n: "n = settling s x" by (auto simp: settles_def)
  have st: "sn_State s \<in> {StatePlanning, StateDeveloping, StateReviewing}"
    using assms(1) by (auto simp: settles_def turn_state_def)
  from shape_turn_state [OF assms(2) st] obtain a stage where
    "sn_CurrentAttempt s = Some a" "Stage (rd_definition r) (at_CurrentStage a) = Some stage" by blast
  from shape_active_turn(5) [OF assms(2) st turn(1) this] turn(2) n show ?thesis
    by (auto simp: retry_intent_def settling_def proposal_head_def turnMatches_def split: option.split)
qed

lemma retried_fits:
  assumes "settles r s (TurnSettledEvent x) x n" "validSnapshot (rd_definition r) l s" "built_reducer r"
    "turn_retried n x d"
  shows "requests_fit (rd_definition r) d"
proof -
  note sel = settles_sel [OF assms(1)] and head = settled_head [OF assms(1,2)]
  from settles_stage [OF assms(1-3)] obtain a stage where
    at: "sn_CurrentAttempt s = Some a" "Stage (rd_definition r) (at_CurrentStage a) = Some stage"
      "tg_Stage (ts_Turn x) = at_CurrentStage a" "tg_Role (ts_Turn x) = sd_Role stage" "sd_State stage = sn_State s"
    by blast
  note sid = stage_id_nonempty [OF assms(3) at(2)]
  from assms(4) at sel sid stage_graph.accepts_operational(1) [OF built_stage_graph [OF assms(3)] at(2)] show ?thesis
    by (auto simp: turn_retried_def requests_fit_def fits_def head [symmetric, unfolded proposal_head_def]
        proposal_head_def retry_intent_def)
qed


lemma reviewed_fits:
  assumes "settles r s e x n" "validSnapshot (rd_definition r) l s" "builtin_reducer r"
    "ts_Outcome x \<in> {TurnOutcomeChangesRequested, TurnOutcomeApproved}" "sn_CurrentAttempt s = Some a"
    "Transition (rd_definition r) (at_CurrentStage a) (ts_Outcome x) = Some t"
    "review_branch r n x cp review observed a a d"
  shows "requests_fit (rd_definition r) d"
proof -
  note pipe = builtin_reducer_pipeline [OF assms(3)] and sel = settles_sel [OF assms(1)]
    and sid = stage_id_nonempty [OF builtin_reducer_built [OF assms(3)]]
  from review_pipeline.reviewing_stage [OF pipe assms(6,4)] obtain st where
    st: "Stage (rd_definition r) (at_CurrentStage a) = Some st" "sd_ID st = at_CurrentStage a"
      "sd_State st = StateReviewing" "AcceptsPurpose (rd_definition r) (at_CurrentStage a) TurnPurposeSynchronization"
      "stage_or_zero (rd_definition r) (at_CurrentStage a) = st" by blast
  note sid1 = sid [OF st(1)]
  show ?thesis
  proof (cases "\<exists>target. Stage (rd_definition r) (ot_NextStage t) = Some target")
    case False
    with assms(7) st sid1 sel assms(6) show ?thesis
      by (auto simp: review_branch_def effect_simps requests_fit_def fits_def proposal_head_def)
  next
    case True
    then obtain target where target: "Stage (rd_definition r) (ot_NextStage t) = Some target" by blast
    have next_stage: "AcceptsPurpose (rd_definition r) (sd_ID target) (ot_NextPurpose t)"
      "Stage (rd_definition r) (sd_ID target) = Some target" if "ts_Outcome x = TurnOutcomeChangesRequested"
      using review_pipeline.successor_accepts [OF pipe assms(6) target] that by simp_all
    from assms(4,7) st sid1 sel assms(6) target next_stage sid [OF target] show ?thesis
      by (auto simp: review_branch_def effect_simps requests_fit_def fits_def proposal_head_def)
  qed
qed

lemma previous_review_fits:
  assumes "settles r s e (settled_from_intent y) n" "validSnapshot (rd_definition r) l s" "builtin_reducer r"
    "sn_CurrentAttempt s = Some a" "ti_Outcome y \<in> {TurnOutcomeChangesRequested, TurnOutcomeApproved}"
    "sn_ActiveTurn s = None"
    "Transition (rd_definition r) (at_CurrentStage a) (ti_Outcome y) = Some t"
    "d = repeat_previous_review s y p a
     \<or> ti_Outcome y = TurnOutcomeApproved \<and> d = approve_previous_review s review p a t
     \<or> ti_Outcome y \<noteq> TurnOutcomeApproved \<and> Stage (rd_definition r) (ot_NextStage t) = Some target
       \<and> d = return_previous_review s p a t target"
  shows "requests_fit (rd_definition r) d"
proof -
  note pipe = builtin_reducer_pipeline [OF assms(3)]
    and sid = stage_id_nonempty [OF builtin_reducer_built [OF assms(3)]]
    and stage = settles_stage [OF assms(1,2) builtin_reducer_built [OF assms(3)]]
  from review_pipeline.reviewing_stage [OF pipe assms(7,5)] obtain st where
    st: "Stage (rd_definition r) (at_CurrentStage a) = Some st" "sd_ID st = at_CurrentStage a"
      "AcceptsPurpose (rd_definition r) (at_CurrentStage a) TurnPurposeSynchronization" by blast
  have next_stage: "AcceptsPurpose (rd_definition r) (sd_ID target) (ot_NextPurpose t)"
    "Stage (rd_definition r) (sd_ID target) = Some target"
    if "ti_Outcome y \<noteq> TurnOutcomeApproved" "Stage (rd_definition r) (ot_NextStage t) = Some target"
    using review_pipeline.successor_accepts [OF pipe assms(7) that(2)] assms(5) that(1) by auto
  from assms(4,6,8) st sid [OF st(1)] stage next_stage show ?thesis
    by (auto simp: effect_simps requests_fit_def fits_def proposal_head_def)
qed

lemma synchronized_fits:
  assumes "builtin_reducer r" "validSnapshot (rd_definition r) l s" "sn_ChangeProposal s = Some cp"
    "sn_CurrentAttempt s = Some a" "Stage (rd_definition r) (at_CurrentStage a) = Some stage"
    "sync_branch s x (synchronized s x cp) a stage d"
  shows "requests_fit (rd_definition r) d"
proof -
  note pipe = builtin_reducer_pipeline [OF assms(1)] and built = builtin_reducer_built [OF assms(1)]
  note sid = stage_id_nonempty [OF built assms(5)]
  have "\<not> sn_PlanningOnly s" using shape_planning(2) [OF assms(2,4)] assms(3) by auto
  then have "at_CurrentStage a \<noteq> StagePlanning" using shape_planning(1) [OF assms(2,4)] by simp
  with review_pipeline.planning_stage_only [OF pipe assms(5)] have "sd_State stage \<noteq> StatePlanning" by auto
  with stage_state_active [OF built assms(5)]
  have "sd_State stage = StateReviewing \<or> sd_State stage = StateDeveloping" by (auto simp: turn_state_def)
  with assms(4,5,6) sid stage_graph.accepts_operational(3) [OF built_stage_graph [OF built] assms(5)]
  show ?thesis by (auto simp: sync_branch_def requests_fit_def fits_def proposal_head_def)
qed


lemma handed_over_fits:
  assumes "settles r s e x n" "built_reducer r" "sn_CurrentAttempt s = Some a"
    "Transition (rd_definition r) (at_CurrentStage a) TurnOutcomeChangeProposalReady = Some t"
    "Stage (rd_definition r) (ot_NextStage t) = Some target"
  shows "requests_fit (rd_definition r) (Applied (hand_over n (p\<lparr>cp_ReadyForSHA := ''''\<rparr>) a target) rs
       (successorActions g pend (enqueue (sd_ID target) (sd_Role target) (ot_NextPurpose t) (cp_HeadSHA p))
        @ [ReconcileLabelsAction st h]))"
proof -
  have "AcceptsPurpose (rd_definition r) (sd_ID target) (ot_NextPurpose t)"
    "Stage (rd_definition r) (sd_ID target) = Some target"
    using stage_graph.successor_outcome [OF built_stage_graph [OF assms(2)] assms(4)] assms(5)
      stage_graph.stage_key [OF built_stage_graph [OF assms(2)] assms(5)]
    by (auto simp: AcceptsPurpose_def Stage_def split: option.split_asm option.split)
  with assms settles_sel(3) [OF assms(1)] stage_id_nonempty [OF assms(2) assms(5)] show ?thesis
    by (auto simp: requests_fit_def fits_def proposal_head_def)
qed

lemma answered_fits:
  assumes "settles r s e (settled_from_intent y) n" "e = TerminalIntentRevalidatedEvent y" "built_reducer r"
    "sn_CurrentAttempt s = Some a" "Stage (rd_definition r) (at_CurrentStage a) = Some stage"
    "ti_Outcome y \<noteq> TurnOutcomeClarificationWait" "valid_terminal_intent d' y"
  shows "requests_fit (rd_definition r) (answer_human_input s y stage)"
proof -
  from assms(6,7) obtain p where "ti_ChangeProposal y = Some p"
    by (auto simp: valid_terminal_intent_def validChangeProposal_def
        split: if_split_asm turn_outcome.split_asm option.split_asm)
  with assms(1,2,4,5) stage_graph.accepts_operational(2) [OF built_stage_graph [OF assms(3)] assms(5)]
    stage_id_nonempty [OF assms(3,5)]
  show ?thesis by (auto simp: answer_human_input_def Let_def requests_fit_def fits_def proposal_head_def settles_def)
qed

lemma effect_requests_fit:
  assumes "effect r s e d" "builtin_reducer r" "validSnapshot (rd_definition r) l s"
    "validEvent (rd_definition r) e m"
  shows "requests_fit (rd_definition r) d"
proof -
  note built = builtin_reducer_built [OF assms(2)]
  from assms(1) show ?thesis
  proof cases
    case (started sid stage)
    then show ?thesis using started_fits [OF built] by blast
  next
    case (gave_up m k rs diag)
    then show ?thesis by (auto simp: handed_off_def)
  next
    case (clarified x n proposal pending)
    show ?thesis unfolding clarified(1) by (rule clarified_fits [OF clarified(2) assms(3) built]) simp_all
  next
    case (handed_over x n observed a t target)
    show ?thesis unfolding handed_over(1) by (rule handed_over_fits [OF handed_over(2) built handed_over(5,7,8)])
  next
    case (reviewed x n cp review observed a t)
    show ?thesis by (rule reviewed_fits [OF reviewed(1) assms(3,2) reviewed(2,4-6)])
  next
    case (turn_failed x n)
    then show ?thesis by (auto simp: turn_handed_off_def)
  next
    case (retried x n)
    then show ?thesis using retried_fits [of r s x n l d] assms(3) built by simp
  next
    case (previous_review y n review cp observed a t)
    have out: "ti_Outcome y \<in> {TurnOutcomeChangesRequested, TurnOutcomeApproved}"
      using assms(4) previous_review(2,3)
      by (auto simp: validEvent_def valid_terminal_intent_def split: if_split_asm turn_outcome.split_asm)
    have idle: "sn_ActiveTurn s = None" using previous_review(1,2) by (auto simp: settles_def)
    from previous_review(7) show ?thesis
      by (elim disjE conjE exE;
          intro previous_review_fits [OF previous_review(1) assms(3,2) previous_review(5) out idle previous_review(6)];
          blast)
  next
    case (answered y n a stage)
    then show ?thesis using answered_fits [OF _ _ built] assms(4) by (auto simp: validEvent_def)
  next
    case (synchronized cp x a stage)
    then show ?thesis using synchronized_fits [OF assms(2,3)] by blast
  next
    case (closing n x)
    then show ?thesis by (auto split: option.split)
  next
    case (closed c x)
    then show ?thesis by (auto simp: settle_closure_eq Let_def split: option.split)
  qed simp_all
qed

section \<open>Properties\<close>

text \<open>C25 (requested Turns fit). Under the built-in Definition an applied Event asks for at most one
  Agent Turn, directly or as the fallback of pending events, and that Turn fits the new Snapshot:
  no Turn is active, it runs the Stage of the current Attempt under that Stage's Role in that
  Stage's state, the Stage accepts its purpose, and its expected head is the recorded one.\<close>

theorem requested_turn_fits:
  assumes "builtin_reducer r" "Reduce r s e = Some d" "de_Disposition d = DispositionApplied"
  shows "requests (de_Actions d) = []
    \<or> (\<exists>i. requests (de_Actions d) = [i] \<and> fits (rd_definition r) (de_Snapshot d) i)"
proof (rule Reduce_effect [OF builtin_reducer_built [OF assms(1)] assms(2,3)])
  fix m k d0
  assume "effect r s e d0" "de_Snapshot d = de_Snapshot d0" "de_Actions d = de_Actions d0"
    "validSnapshot (rd_definition r) (rd_infrastructureRetryLimit r) s" "validEvent (rd_definition r) e m"
  with effect_requests_fit [OF _ assms(1)] show ?thesis unfolding requests_fit_def by metis
qed

theorem requested_turn_fits_witness:
  "fits (rd_definition demo_reducer) (demo_reviewing None)
     (enqueue StageReview Reviewer TurnPurposeReview ''head'')"
  using requested_turn_fits [OF demo_builtin demo_developer_step] by (simp add: enqueue_def)

end
