(* ===== verification/Workflow_Runs.thy ===== *)
theory Workflow_Runs
  imports Workflow_Turns
begin

text \<open>
  Runs of a Workflow: Events fed to \<open>Reduce\<close>, interleaved with the one change the store makes to a
  Snapshot itself, the preparation of an Agent Turn (\<open>store/preparation.go\<close>). Invariants by rule
  induction bound the accepted reviews of an Attempt and count its Attempts; a work measure bounds
  the Turns that the Agents can cause without a human or a push.
\<close>

section \<open>Runs\<close>

text \<open>Preparing a Turn makes it the active one and ends a wait for clarification. The Turn is
  unconstrained here, so the invariants hold for any Turn the store may insert.\<close>

definition prepare_turn :: "snapshot \<Rightarrow> active_turn option \<Rightarrow> snapshot" where
  "prepare_turn s turn = s\<lparr>sn_ActiveTurn := turn, sn_ClarificationWaiting := False\<rparr>"

lemma prepare_turn_sel [simp]:
  "sn_CurrentAttempt (prepare_turn s turn) = sn_CurrentAttempt s"
  "sn_LastAttemptNumber (prepare_turn s turn) = sn_LastAttemptNumber s"
  "sn_State (prepare_turn s turn) = sn_State s"
  by (simp_all add: prepare_turn_def)

inductive run :: "reducer \<Rightarrow> wf_action list \<Rightarrow> snapshot \<Rightarrow> bool" for r where
  run_start: "run r [] absent_snapshot"
| run_reduce: "run r acts s \<Longrightarrow> Reduce r s e = Some d \<Longrightarrow> run r (acts @ de_Actions d) (de_Snapshot d)"
| run_prepare: "run r acts s \<Longrightarrow> run r acts (prepare_turn s turn)"

section \<open>Counting Attempts and reviews in the Actions\<close>

fun creates_attempt :: "wf_action \<Rightarrow> bool" where
  "creates_attempt (CreateAttemptAction _) = True"
| "creates_attempt _ = False"

fun accepts_review :: "wf_action \<Rightarrow> bool" where
  "accepts_review (RecordReviewAction _ cycle) = cycle"
| "accepts_review _ = False"

text \<open>The accepted reviews since the last Attempt was created.\<close>

definition reviews_of_attempt :: "wf_action list \<Rightarrow> nat" where
  "reviews_of_attempt acts =
     fold (\<lambda>act n. if creates_attempt act then 0 else if accepts_review act then n + 1 else n) acts 0"

definition attempts :: "wf_action list \<Rightarrow> nat" where
  "attempts acts = length (filter creates_attempt acts)"

definition accepted_reviews :: "wf_action list \<Rightarrow> nat" where
  "accepted_reviews acts = length (filter accepts_review acts)"

lemma count_simps [simp]:
  "attempts [] = 0" "attempts (act # acts) = (if creates_attempt act then Suc (attempts acts) else attempts acts)"
  "attempts (as @ bs) = attempts as + attempts bs"
  "accepted_reviews [] = 0"
  "accepted_reviews (act # acts)
     = (if accepts_review act then Suc (accepted_reviews acts) else accepted_reviews acts)"
  "accepted_reviews (as @ bs) = accepted_reviews as + accepted_reviews bs"
  by (simp_all add: attempts_def accepted_reviews_def)

lemma count_pending [simp]:
  "attempts (with_pending g p acts) = attempts acts"
  "accepted_reviews (with_pending g p acts) = accepted_reviews acts"
  "attempts (successorActions g p i) = 0" "accepted_reviews (successorActions g p i) = 0"
  by (simp_all add: with_pending_def reconcilePendingAction_def successorActions_def)

lemma reviews_of_attempt_Nil [simp]: "reviews_of_attempt [] = 0"
  by (simp add: reviews_of_attempt_def)

lemma reviews_same_attempt:
  assumes "attempts new = 0"
  shows "reviews_of_attempt (acts @ new) = reviews_of_attempt acts + accepted_reviews new"
proof -
  have "fold (\<lambda>act n. if creates_attempt act then 0 else if accepts_review act then n + 1 else n) new n
      = n + accepted_reviews new" for n
    using assms by (induction new arbitrary: n) (auto split: if_split_asm)
  then show ?thesis by (simp add: reviews_of_attempt_def)
qed

lemma reviews_new_attempt:
  assumes "attempts new > 0" "accepted_reviews new = 0"
  shows "reviews_of_attempt (acts @ new) = 0"
proof -
  let ?f = "\<lambda>act n. if creates_attempt act then 0 else if accepts_review act then n + 1 else n"
  have keep: "fold ?f new 0 = (0::nat)" if "accepted_reviews new = 0" for new
    using that by (induction new) (auto split: if_split_asm)
  have "fold ?f new n = (0::nat)" for n
    using assms
  proof (induction new arbitrary: n)
    case (Cons act new)
    then show ?case using keep [of new] by (cases act) (auto split: if_split_asm)
  qed simp
  then show ?thesis by (simp add: reviews_of_attempt_def)
qed

section \<open>What one Event does to the Attempt\<close>

text \<open>An Event creates the next Attempt, with nothing used, or it keeps the Attempt and charges its
  review budget with the reviews it accepts, or it drops the Attempt.\<close>

definition attempt_step :: "reducer \<Rightarrow> snapshot \<Rightarrow> decision \<Rightarrow> bool" where
  "attempt_step r s d \<longleftrightarrow>
     (attempts (de_Actions d) = 1 \<and> accepted_reviews (de_Actions d) = 0
        \<and> sn_LastAttemptNumber (de_Snapshot d) = sn_LastAttemptNumber s + 1
        \<and> (\<exists>b. sn_CurrentAttempt (de_Snapshot d) = Some b \<and> at_ReviewUsage b = fmempty))
     \<or> (attempts (de_Actions d) = 0 \<and> sn_LastAttemptNumber (de_Snapshot d) = sn_LastAttemptNumber s
        \<and> (sn_CurrentAttempt (de_Snapshot d) = None
           \<or> (\<exists>a b. sn_CurrentAttempt s = Some a \<and> sn_CurrentAttempt (de_Snapshot d) = Some b
                \<and> (accepted_reviews (de_Actions d) = 0 \<and> at_ReviewUsage b = at_ReviewUsage a
                  \<or> accepted_reviews (de_Actions d) = 1 \<and> sn_State s = StateReviewing
                    \<and> at_CurrentStage a = StageReview
                    \<and> at_ReviewUsage b
                      = fmupd StageReview (fm_get 0 (at_ReviewUsage a) StageReview + 1) (at_ReviewUsage a)))))"

lemma attempt_kept:
  assumes "attempts (de_Actions d) = 0" "accepted_reviews (de_Actions d) = 0"
    "sn_LastAttemptNumber (de_Snapshot d) = sn_LastAttemptNumber s"
    "map_option at_ReviewUsage (sn_CurrentAttempt (de_Snapshot d)) = map_option at_ReviewUsage (sn_CurrentAttempt s)
      \<or> sn_CurrentAttempt (de_Snapshot d) = None"
  shows "attempt_step r s d"
  using assms by (auto simp: attempt_step_def map_option_case split: option.split_asm)

lemma started_attempt: "te_AttemptNumber x = sn_LastAttemptNumber s + 1 \<Longrightarrow>
    attempt_step r s (start_attempt r s x sid stage p)"
proof -
  have "attempts (de_Actions (start_attempt r s x sid stage p)) = 1"
    "accepted_reviews (de_Actions (start_attempt r s x sid stage p)) = 0"
    by (simp_all add: start_attempt_def Let_def split: option.split)
  then show "te_AttemptNumber x = sn_LastAttemptNumber s + 1 \<Longrightarrow> ?thesis" by (simp add: attempt_step_def)
qed

lemma builtin_reviewing_stage:
  assumes "builtin_reducer r" "Transition (rd_definition r) sid out = Some t"
    "out \<in> {TurnOutcomeChangesRequested, TurnOutcomeApproved}"
  shows "sid = StageReview" "ot_ConsumesReviewCycle t"
    "Stage (rd_definition r) sid = Some st \<Longrightarrow> sd_State st = StateReviewing"
proof -
  note pipe = builtin_reducer_pipeline [OF assms(1)]
  from review_pipeline.reviewing_stage [OF pipe assms(2,3)] obtain st' where
    st': "Stage (rd_definition r) sid = Some st'" "sd_State st' = StateReviewing" by blast
  from assms(1) obtain impl revw where "rd_definition r = builtin_definition impl revw"
    by (auto simp: builtin_reducer_def)
  with st' show "sid = StageReview" by (auto elim: builtin_Stage_cases simp: builtin_stages)
  show "ot_ConsumesReviewCycle t" using review_pipeline.review_consumes [OF pipe assms(2,3) st'(1)] by simp
  show "Stage (rd_definition r) sid = Some st \<Longrightarrow> sd_State st = StateReviewing" using st' by simp
qed


lemma reviewed_attempt:
  assumes "settles r s e x n" "validSnapshot (rd_definition r) l s" "builtin_reducer r"
    "ts_Outcome x \<in> {TurnOutcomeChangesRequested, TurnOutcomeApproved}" "sn_CurrentAttempt s = Some a"
    "Transition (rd_definition r) (at_CurrentStage a) (ts_Outcome x) = Some t"
    "review_branch r n x cp review observed a a d"
  shows "attempt_step r s d"
proof -
  note sel = settles_sel [OF assms(1)]
    and review = builtin_reviewing_stage [OF assms(3,6,4)]
  from settles_stage [OF assms(1,2) builtin_reducer_built [OF assms(3)]] assms(5) review(3)
  have "sn_State s = StateReviewing" by auto
  with assms(5-7) sel review(1,2) show ?thesis
    by (auto simp: review_branch_def effect_simps attempt_step_def consume_cycle_def)
qed

lemma effect_attempt_step:
  assumes "effect r s e d" "builtin_reducer r" "validSnapshot (rd_definition r) l s"
  shows "attempt_step r s d"
  using assms(1)
proof cases
  case (started sid stage)
  then show ?thesis using started_attempt by blast
next
  case (gave_up m k rs diag)
  then show ?thesis by (auto simp: handed_off_def intro!: attempt_kept)
next
  case (clarified x n proposal pending)
  with settles_sel [OF clarified(2)] show ?thesis
    by (auto simp: clarificationWaitDecision_def Let_def intro!: attempt_kept)
next
  case (planned x n)
  with settles_sel [OF planned(2)] show ?thesis by (auto intro!: attempt_kept)
next
  case (handed_over x n observed a t target)
  with settles_sel [OF handed_over(2)] show ?thesis by (auto intro!: attempt_kept)
next
  case (reviewed x n cp review observed a t)
  show ?thesis by (rule reviewed_attempt [OF reviewed(1) assms(3,2) reviewed(2,4-6)])
next
  case (turn_failed x n)
  with settles_sel [OF turn_failed(1)] show ?thesis by (auto simp: turn_handed_off_def intro!: attempt_kept)
next
  case (retried x n)
  with settles_sel [OF retried(1)] show ?thesis by (auto simp: turn_retried_def intro!: attempt_kept)
next
  case (previous_review y n review cp observed a t)
  then show ?thesis by (auto simp: effect_simps intro!: attempt_kept)
next
  case (answered y n a stage)
  then show ?thesis
    by (intro attempt_kept) (auto simp: answer_human_input_def Let_def split: option.split)
next
  case (synchronized cp x a stage)
  then show ?thesis by (auto simp: sync_branch_def intro!: attempt_kept)
next
  case (closing n x)
  then show ?thesis by (intro attempt_kept) (auto simp: closing_def split: option.split)
next
  case (closed c x)
  then show ?thesis by (auto simp: settle_closure_eq Let_def clear_ready_def intro!: attempt_kept split: option.split)
qed (auto intro!: attempt_kept)

section \<open>The review budget of an Attempt\<close>

definition budget_inv :: "wf_action list \<Rightarrow> snapshot \<Rightarrow> bool" where
  "budget_inv acts s \<longleftrightarrow>
     (\<forall>a. sn_CurrentAttempt s = Some a \<longrightarrow>
        unat (fm_get 0 (at_ReviewUsage a) StageReview) = reviews_of_attempt acts \<and> reviews_of_attempt acts \<le> 3)"


lemma review_usage_below:
  assumes "validSnapshot (rd_definition r) l s" "builtin_reducer r" "sn_State s = StateReviewing"
    "sn_CurrentAttempt s = Some a" "at_CurrentStage a = StageReview"
  shows "fm_get 0 (at_ReviewUsage a) StageReview < 3"
proof -
  from assms(2) obtain impl revw where d: "rd_definition r = builtin_definition impl revw"
    by (auto simp: builtin_reducer_def)
  from shape_attempt_stage [OF assms(1,4)] obtain stage where
    "Stage (rd_definition r) (at_CurrentStage a) = Some stage"
    "sn_State s = StateReviewing \<Longrightarrow> sd_ReviewLimit stage = 0
       \<or> fm_get 0 (at_ReviewUsage a) (at_CurrentStage a) < sd_ReviewLimit stage" by blast
  with d assms(3,5) show ?thesis by (auto simp: builtin_stages)
qed

lemma budget_step:
  assumes "budget_inv acts s" "attempt_step r s d" "validSnapshot (rd_definition r) l s" "builtin_reducer r"
  shows "budget_inv (acts @ de_Actions d) (de_Snapshot d)"
  using assms(2) unfolding attempt_step_def
proof (elim disjE conjE exE)
  fix b
  assume "attempts (de_Actions d) = 1" "accepted_reviews (de_Actions d) = 0"
    "sn_CurrentAttempt (de_Snapshot d) = Some b" "at_ReviewUsage b = fmempty"
  then show ?thesis by (simp add: budget_inv_def reviews_new_attempt)
next
  fix a b
  assume a: "attempts (de_Actions d) = 0" "sn_CurrentAttempt s = Some a" "sn_CurrentAttempt (de_Snapshot d) = Some b"
    "accepted_reviews (de_Actions d) = 0" "at_ReviewUsage b = at_ReviewUsage a"
  with assms(1) show ?thesis by (simp add: budget_inv_def reviews_same_attempt)
next
  fix a b
  assume a: "attempts (de_Actions d) = 0" "sn_CurrentAttempt s = Some a" "sn_CurrentAttempt (de_Snapshot d) = Some b"
    "accepted_reviews (de_Actions d) = 1" "sn_State s = StateReviewing" "at_CurrentStage a = StageReview"
    "at_ReviewUsage b = fmupd StageReview (fm_get 0 (at_ReviewUsage a) StageReview + 1) (at_ReviewUsage a)"
  have lt: "fm_get 0 (at_ReviewUsage a) StageReview < 3"
    by (rule review_usage_below [OF assms(3,4) a(5,2,6)])
  then have "unat (fm_get 0 (at_ReviewUsage a) StageReview) < 3" by (simp add: word_less_nat_alt)
  moreover have "unat (fm_get 0 (at_ReviewUsage a) StageReview + 1) = unat (fm_get 0 (at_ReviewUsage a) StageReview) + 1"
    using calculation by (simp add: unat_word_ariths)
  ultimately show ?thesis
    using assms(1) a by (simp add: budget_inv_def reviews_same_attempt)
qed (simp_all add: budget_inv_def)

lemma pending_counts: "list_all records_pending acts \<Longrightarrow> attempts acts = 0 \<and> accepted_reviews acts = 0"
proof (induction acts)
  case (Cons act acts)
  then show ?case by (cases act) auto
qed simp

lemma run_invariants:
  assumes "run r acts s" "builtin_reducer r"
  shows "budget_inv acts s \<and> sn_LastAttemptNumber s = of_nat (attempts acts)"
  using assms(1)
proof induction
  case run_start
  show ?case by (simp add: budget_inv_def absent_snapshot_def)
next
  case (run_reduce acts s e d)
  show ?case
  proof (cases "de_Disposition d = DispositionApplied")
    case True
    show ?thesis
    proof (rule Reduce_effect [OF builtin_reducer_built [OF assms(2)] run_reduce.hyps(2) True])
      fix m k d0
      assume e: "effect r s e d0" "de_Snapshot d = de_Snapshot d0" "de_Actions d = de_Actions d0"
        "validSnapshot (rd_definition r) (rd_infrastructureRetryLimit r) s"
      from effect_attempt_step [OF e(1) assms(2) e(4)] have "attempt_step r s d"
        using e(2,3) by (simp add: attempt_step_def)
      with budget_step [OF _ this e(4) assms(2)] run_reduce.IH show ?thesis
        by (auto simp: attempt_step_def)
    qed
  next
    case False
    from Reduce_refused [OF run_reduce.hyps(2) False] have
      "de_Snapshot d = s" "list_all records_pending (de_Actions d)" by (auto simp: refused_def)
    with run_reduce.IH pending_counts show ?thesis by (simp add: budget_inv_def reviews_same_attempt)
  qed
next
  case (run_prepare acts s turn)
  then show ?case by (simp add: budget_inv_def)
qed


text \<open>C15 (the review budget). In every run of the built-in Workflow, however its Events are ordered,
  repeated or interleaved with the preparation of Turns, the current Attempt has recorded as many
  used review cycles as reviews were accepted since it was created, and there are at most three;
  and the Attempts are numbered by their creation.\<close>

theorem review_budget_respected:
  assumes "builtin_reducer r" "run r acts s" "sn_CurrentAttempt s = Some a"
  shows "unat (fm_get 0 (at_ReviewUsage a) StageReview) = reviews_of_attempt acts
    \<and> reviews_of_attempt acts \<le> 3 \<and> sn_LastAttemptNumber s = of_nat (attempts acts)"
  using run_invariants [OF assms(2,1)] assms(3) by (simp add: budget_inv_def)

text \<open>A run of the built-in Workflow up to an approved review.\<close>

lemma demo_prepared:
  "prepare_turn (demo_developing None) (Some t) = demo_developing (Some t)"
  "prepare_turn (demo_reviewing None) (Some t) = demo_reviewing (Some t)"
  by (simp_all add: prepare_turn_def demo_developing_def demo_reviewing_def demo_snapshot_def)

lemma run_applied: "run r acts s \<Longrightarrow> Reduce r s e = Some (Applied n rs new) \<Longrightarrow> run r (acts @ new) n"
  using run_reduce [of r acts s e "Applied n rs new"] by simp

lemma run_prepared: "run r acts s \<Longrightarrow> prepare_turn s turn = n \<Longrightarrow> run r acts n"
  using run_prepare by blast

lemma demo_run: "\<exists>acts. run demo_reducer acts demo_ready \<and> reviews_of_attempt acts = 1"
proof -
  note r1 = run_prepared [OF run_applied [OF run_start demo_trigger_step] demo_prepared(1)]
  note r2 = run_prepared [OF run_applied [OF r1 demo_developer_step] demo_prepared(2)]
  note r3 = run_applied [OF r2 demo_approve_step]
  show ?thesis
    by (rule exI, rule conjI, rule r3) (simp add: reviews_of_attempt_def)
qed

theorem review_budget_respected_witness:
  "unat (fm_get 0 (at_ReviewUsage (demo_attempt StageReview 1)) StageReview) = 1"
proof -
  from demo_run obtain acts where "run demo_reducer acts demo_ready" "reviews_of_attempt acts = 1" by blast
  with review_budget_respected [OF demo_builtin, of acts demo_ready "demo_attempt StageReview 1"] show ?thesis
    by (simp add: demo_ready_def demo_snapshot_def)
qed

end
