(* ===== verification/Workflow_Progress.thy ===== *)
theory Workflow_Progress
  imports Workflow_Runs
begin

text \<open>
  How far the Agents can drive a Workflow on their own. A settled Turn asks for the next one, or the
  Workflow stands where a human is expected; and a chain of Turns caused by nothing but settled
  Turns, with no head replaced and no human input or answer awaited, is finite: \<open>work_left\<close> decreases with every
  one of them.
\<close>

section \<open>Steps the Agents take by themselves\<close>

text \<open>Reasons that stem from outside: a push replaced the head, or a human has to answer (or has
  answered) a question.\<close>

definition outside_reason :: "reason \<Rightarrow> bool" where
  "outside_reason rs \<longleftrightarrow> rs = ReasonReviewHeadReplaced \<or> rs = ReasonOther ''clarification_wait''"

text \<open>A settled Turn asks for the next Turn, and the store prepares one.\<close>

inductive advance :: "reducer \<Rightarrow> snapshot \<Rightarrow> snapshot \<Rightarrow> bool" for r where
  advance: "Reduce r s (TurnSettledEvent x) = Some d \<Longrightarrow> de_Disposition d = DispositionApplied \<Longrightarrow>
     \<not> outside_reason (de_Reason d) \<Longrightarrow> requests (de_Actions d) \<noteq> [] \<Longrightarrow>
     advance r s (prepare_turn (de_Snapshot d) turn)"

lemma Reduce_effect_reason:
  assumes "built_reducer r" "Reduce r s e = Some d" "de_Disposition d = DispositionApplied"
  obtains d0 where "effect r s e d0" "de_Snapshot d = de_Snapshot d0" "de_Actions d = de_Actions d0"
    "validSnapshot (rd_definition r) (rd_infrastructureRetryLimit r) s"
    "de_Reason d0 = de_Reason d \<or> de_Reason d0 = NoReason"
proof (rule Reduce_applied [OF assms(2,3)])
  fix m k d0
  assume d0: "dispatch r s e = Some d0" "\<not> refused s d0" "validEvent (rd_definition r) e m"
    "de_Snapshot d = de_Snapshot d0" "de_Actions d = de_Actions d0"
    "validSnapshot (rd_definition r) (rd_infrastructureRetryLimit r) s"
  have "effect r s e d0" by (rule dispatch_effect [OF d0(1,2) built_stage_graph [OF assms(1)] d0(3)])
  moreover have "de_Reason d0 = de_Reason d \<or> de_Reason d0 = NoReason"
    using assms(2,3) d0(1)
    by (auto simp: Reduce_def normalize_def Let_def split: if_split_asm option.split_asm)
  ultimately show thesis using that d0(4-6) by blast
qed

section \<open>The work left to an Attempt\<close>

definition work_left :: "reducer \<Rightarrow> snapshot \<Rightarrow> nat" where
  "work_left r s =
     (let limit = unat (rd_infrastructureRetryLimit r) in
      case sn_CurrentAttempt s of
        None \<Rightarrow> 0
      | Some a \<Rightarrow>
          ((3 - unat (fm_get 0 (at_ReviewUsage a) StageReview)) * 2
             + (if at_CurrentStage a = StageImplementation then 1 else 0)) * (limit + 1)
          + (limit - unat (ab_Used (at_InfrastructureRetryBudget a))))"

lemma work_left_bound: "work_left r s \<le> 8 * (unat (rd_infrastructureRetryLimit r) + 1) - 1"
proof -
  let ?L = "unat (rd_infrastructureRetryLimit r)"
  have "k * (?L + 1) + (?L - u) \<le> 8 * (?L + 1) - 1" if "k \<le> 7" for k u
  proof -
    have "k * (?L + 1) \<le> 7 * (?L + 1)" using that by (rule mult_le_mono1)
    then show ?thesis by simp
  qed
  note bound = this
  show ?thesis
  proof (cases "sn_CurrentAttempt s")
    case (Some a)
    have "(3 - unat (fm_get 0 (at_ReviewUsage a) StageReview)) * 2
        + (if at_CurrentStage a = StageImplementation then 1 else 0) \<le> 7" by auto
    from bound [OF this, of "unat (ab_Used (at_InfrastructureRetryBudget a))"] Some show ?thesis
      by (simp only: work_left_def Let_def option.case)
  qed (simp add: work_left_def)
qed

lemma work_left_prepare [simp]: "work_left r (prepare_turn s turn) = work_left r s"
  by (simp add: work_left_def)

lemma builtin_transition:
  assumes "builtin_reducer r" "Transition (rd_definition r) sid out = Some t"
  shows "out = TurnOutcomeChangeProposalReady \<Longrightarrow> sid = StageImplementation \<and> ot_NextStage t = StageReview"
    and "out = TurnOutcomeChangesRequested \<Longrightarrow> sid = StageReview \<and> ot_NextStage t = StageImplementation"
proof -
  from assms(1) obtain impl revw where d: "rd_definition r = builtin_definition impl revw"
    by (auto simp: builtin_reducer_def)
  from builtin.Transition_in_stage [OF assms(2) [unfolded d]] obtain st where
    st: "Stage (builtin_definition impl revw) sid = Some st" "t \<in> set (sd_Transitions st)" "ot_Outcome t = out"
    by blast
  from st(1) show "out = TurnOutcomeChangeProposalReady \<Longrightarrow> sid = StageImplementation \<and> ot_NextStage t = StageReview"
    by (rule builtin_Stage_cases) (use st in \<open>auto simp: builtin_stages\<close>)
  from st(1) show "out = TurnOutcomeChangesRequested \<Longrightarrow> sid = StageReview \<and> ot_NextStage t = StageImplementation"
    by (rule builtin_Stage_cases) (use st in \<open>auto simp: builtin_stages\<close>)
qed

lemma builtin_stage_lookup:
  assumes "builtin_reducer r" "Stage (rd_definition r) sid = Some st"
  shows "sd_ID st = sid"
  using stage_id_nonempty(3) [OF builtin_reducer_built [OF assms(1)] assms(2)] .

lemma less_work:
  fixes L :: nat
  assumes "k < k'"
  shows "k * (L + 1) + (L - u) < k' * (L + 1) + v"
proof -
  have "(k + 1) * (L + 1) \<le> k' * (L + 1)" using assms by (intro mult_le_mono1) simp
  then show ?thesis by simp
qed

text \<open>Every step the Agents take by themselves uses up some of the work.\<close>

lemma handed_over_work:
  assumes "builtin_reducer r" "sn_CurrentAttempt s = Some a"
    "Transition (rd_definition r) (at_CurrentStage a) TurnOutcomeChangeProposalReady = Some t"
    "Stage (rd_definition r) (ot_NextStage t) = Some target"
  shows "work_left r (hand_over n p a target) < work_left r s"
proof -
  note tr = builtin_transition(1) [OF assms(1,3) refl]
  let ?L = "unat (rd_infrastructureRetryLimit r)" and ?k = "3 - unat (fm_get 0 (at_ReviewUsage a) StageReview)"
  have "sd_ID target = StageReview" using builtin_stage_lookup [OF assms(1,4)] tr by simp
  then have new: "work_left r (hand_over n p a target) = (?k * 2) * (?L + 1) + (?L - 0)"
    by (simp add: work_left_def Let_def reset_retries_def)
  have old: "work_left r s = (?k * 2 + 1) * (?L + 1) + (?L - unat (ab_Used (at_InfrastructureRetryBudget a)))"
    using tr assms(2) by (simp add: work_left_def Let_def)
  show ?thesis unfolding new old by (rule less_work) simp
qed

lemma returned_work:
  assumes "builtin_reducer r" "sn_CurrentAttempt s = Some a" "validSnapshot (rd_definition r) l s"
    "sn_State s = StateReviewing" "ot_ConsumesReviewCycle t"
    "Transition (rd_definition r) (at_CurrentStage a) TurnOutcomeChangesRequested = Some t"
    "Stage (rd_definition r) (ot_NextStage t) = Some target"
    "sn_CurrentAttempt n = Some ((consume_cycle t (at_CurrentStage a) (reset_retries a))\<lparr>at_CurrentStage := sd_ID target\<rparr>)"
  shows "work_left r n < work_left r s"
proof -
  note tr = builtin_transition(2) [OF assms(1,6) refl]
  let ?L = "unat (rd_infrastructureRetryLimit r)" and ?u = "unat (fm_get 0 (at_ReviewUsage a) StageReview)"
  have lt: "?u < 3"
    using review_usage_below [OF assms(3,1,4,2)] tr by (simp add: word_less_nat_alt)
  then have suc: "unat (fm_get 0 (at_ReviewUsage a) StageReview + 1) = ?u + 1"
    by (simp add: unat_word_ariths)
  have "sd_ID target = StageImplementation" using builtin_stage_lookup [OF assms(1,7)] tr by simp
  then have new: "work_left r n = ((3 - (?u + 1)) * 2 + 1) * (?L + 1) + (?L - 0)"
    using assms(5,8) tr suc by (simp add: work_left_def Let_def consume_cycle_def reset_retries_def)
  have old: "work_left r s = ((3 - ?u) * 2) * (?L + 1) + (?L - unat (ab_Used (at_InfrastructureRetryBudget a)))"
    using tr assms(2) by (simp add: work_left_def Let_def)
  show ?thesis unfolding new old by (rule less_work) (use lt in simp)
qed

lemma retried_work:
  assumes "validSnapshot (rd_definition r) (rd_infrastructureRetryLimit r) s" "sn_CurrentAttempt s = Some a"
    "ab_Used (at_InfrastructureRetryBudget a) < ab_Limit (at_InfrastructureRetryBudget a)"
    "sn_CurrentAttempt n = Some (use_retry a)"
  shows "work_left r n < work_left r s"
proof -
  let ?L = "unat (rd_infrastructureRetryLimit r)" and ?v = "unat (ab_Used (at_InfrastructureRetryBudget a))"
  have "ab_Limit (at_InfrastructureRetryBudget a) = rd_infrastructureRetryLimit r"
    by (rule shape_attempt_stage [OF assms(1,2)])
  then have lt: "?v < ?L" using assms(3) by (simp add: word_less_nat_alt)
  have "?L < 2 ^ 8" using unsigned_less [of "rd_infrastructureRetryLimit r"] by simp
  with lt have suc: "unat (ab_Used (at_InfrastructureRetryBudget a) + 1) = ?v + 1"
    by (simp add: unat_word_ariths)
  from assms(2,4) suc lt show ?thesis by (simp add: work_left_def Let_def)
qed

lemma reviewed_work:
  assumes "settles r s e x n" "validSnapshot (rd_definition r) l s" "builtin_reducer r"
    "ts_Outcome x \<in> {TurnOutcomeChangesRequested, TurnOutcomeApproved}" "sn_CurrentAttempt s = Some a"
    "Transition (rd_definition r) (at_CurrentStage a) (ts_Outcome x) = Some t"
    "review_branch r n x cp review observed a a d" "requests (de_Actions d) \<noteq> []"
    "de_Reason d \<noteq> ReasonReviewHeadReplaced"
  shows "work_left r (de_Snapshot d) < work_left r s"
proof -
  note review = builtin_reviewing_stage [OF assms(3,6,4)]
  from settles_stage [OF assms(1,2) builtin_reducer_built [OF assms(3)]] assms(5) review(3)
  have st: "sn_State s = StateReviewing" by auto
  from assms(7-9) obtain target where target: "Stage (rd_definition r) (ot_NextStage t) = Some target"
    "ts_Outcome x \<noteq> TurnOutcomeApproved"
    "sn_CurrentAttempt (de_Snapshot d)
       = Some ((consume_cycle t (at_CurrentStage a) (reset_retries a))\<lparr>at_CurrentStage := sd_ID target\<rparr>)"
    using assms(6) by (auto simp: review_branch_def effect_simps)
  with assms(4,6) show ?thesis
    by (intro returned_work [OF assms(3,5,2) st review(2) _ target(1,3)]) auto
qed

lemma advance_work:
  assumes "advance r s t" "builtin_reducer r"
  shows "work_left r t < work_left r s"
  using assms(1)
proof cases
  case (advance x d turn)
  show ?thesis
  proof (rule Reduce_effect_reason [OF builtin_reducer_built [OF assms(2)] advance(2,3)])
    fix d0 :: decision
    assume d0: "de_Snapshot d = de_Snapshot d0" "de_Actions d = de_Actions d0"
      "validSnapshot (rd_definition r) (rd_infrastructureRetryLimit r) s"
      "de_Reason d0 = de_Reason d \<or> de_Reason d0 = NoReason"
    from advance(4,5) d0 have req: "requests (de_Actions d0) \<noteq> []"
      and reason: "de_Reason d0 \<noteq> ReasonReviewHeadReplaced" "de_Reason d0 \<noteq> ReasonOther ''clarification_wait''"
      by (auto simp: outside_reason_def)
    assume "effect r s (TurnSettledEvent x) d0"
    then have "work_left r (de_Snapshot d0) < work_left r s"
    proof cases
      case (gave_up m k rs diag)
      with req show ?thesis by (auto simp: handed_off_def)
    next
      case (clarified x n proposal pending)
      with reason show ?thesis by (auto simp: clarificationWaitDecision_def Let_def)
    next
      case (handed_over x n observed a t target)
      with handed_over_work [OF assms(2) handed_over(5,7,8)] show ?thesis by simp
    next
      case (reviewed x n cp review observed a t)
      show ?thesis by (rule reviewed_work [OF reviewed(1) d0(3) assms(2) reviewed(2,4-6) req reason(1)])
    next
      case (turn_failed y n)
      with req show ?thesis by (auto simp: turn_handed_off_def)
    next
      case (retried y n)
      then obtain b where "sn_CurrentAttempt s = Some b"
        "ab_Used (at_InfrastructureRetryBudget b) < ab_Limit (at_InfrastructureRetryBudget b)"
        "sn_CurrentAttempt (de_Snapshot d0) = Some (use_retry b)"
        using settles_sel(4) by (auto simp: turn_retried_def)
      then show ?thesis by (rule retried_work [OF d0(3)])
    qed (use req in simp_all)
    with advance(1) d0(1) show ?thesis by simp
  qed
qed


lemma advance_chain:
  assumes "(advance r ^^ n) s t" "builtin_reducer r"
  shows "n + work_left r t \<le> work_left r s"
  using assms(1)
proof (induction n arbitrary: t)
  case (Suc n)
  then obtain u where u: "(advance r ^^ n) s u" "advance r u t" by auto
  from Suc.IH [OF u(1)] advance_work [OF u(2) assms(2)] show ?case by simp
qed simp

section \<open>A settled Turn never strands a Workflow\<close>

text \<open>Somebody is in charge of what comes next: an Agent Turn was asked for, or the Workflow waits
  for a human, either in a state that shows it or for an answer to its question.\<close>

definition carried_on :: "decision \<Rightarrow> bool" where
  "carried_on d \<longleftrightarrow>
     requests (de_Actions d) \<noteq> []
     \<or> sn_State (de_Snapshot d) \<in> {StatePlanReady, StatePRReady, StateNeedsHuman}
     \<or> sn_ClarificationWaiting (de_Snapshot d)"

lemma effect_carried_on:
  assumes "effect r s (TurnSettledEvent x) d" "builtin_reducer r"
    "validSnapshot (rd_definition r) (rd_infrastructureRetryLimit r) s"
  shows "carried_on d"
proof -
  note built = builtin_reducer_built [OF assms(2)]
  note sid = stage_id_nonempty [OF built]
  from assms(1) show ?thesis
  proof cases
    case (gave_up m k rs diag)
    then show ?thesis by (auto simp: handed_off_def carried_on_def)
  next
    case (clarified x n proposal pending)
    then show ?thesis by (simp add: clarificationWaitDecision_def Let_def carried_on_def)
  next
    case (handed_over x n observed a t target)
    with sid [OF handed_over(8)] show ?thesis by (simp add: carried_on_def)
  next
    case (reviewed x n cp review observed a t)
    from review_pipeline.reviewing_stage [OF builtin_reducer_pipeline [OF assms(2)] reviewed(5,2)]
    obtain st where st: "Stage (rd_definition r) (at_CurrentStage a) = Some st"
      "stage_or_zero (rd_definition r) (at_CurrentStage a) = st" by blast
    have "ot_TerminalState t = StatePRReady" if "ts_Outcome x = TurnOutcomeApproved"
      using review_pipeline.approval_ready [OF builtin_reducer_pipeline [OF assms(2)]] reviewed(5) that by simp
    with reviewed(2,5,6) st sid [OF st(1)] show ?thesis
      by (auto simp: review_branch_def effect_simps carried_on_def dest: sid)
  next
    case (turn_failed y n)
    then show ?thesis by (auto simp: turn_handed_off_def carried_on_def)
  next
    case (retried y n)
    from settles_stage [OF retried(1) assms(3) built] obtain a stage where
      "sn_CurrentAttempt s = Some a" "Stage (rd_definition r) (at_CurrentStage a) = Some stage" "tg_Stage (ts_Turn y) = at_CurrentStage a"
      by blast
    with sid have "eq_Stage (retry_intent y) \<noteq> ''''" by (auto simp: retry_intent_def)
    with retried show ?thesis by (auto simp: turn_retried_def carried_on_def)
  qed (simp_all add: carried_on_def)
qed

section \<open>Properties\<close>

text \<open>C27 (progress). Whenever a settled Turn is applied, the built-in Workflow either asks for the
  next Agent Turn or stands where a human is expected: ready, handed off, or waiting for an answer.
  No outcome, error and retry outcomes included, leaves it with nobody in charge.\<close>

theorem settled_turn_carries_on:
  assumes "builtin_reducer r" "Reduce r s (TurnSettledEvent x) = Some d" "de_Disposition d = DispositionApplied"
  shows "carried_on d"
proof (rule Reduce_effect [OF builtin_reducer_built [OF assms(1)] assms(2,3)])
  fix d0
  assume "effect r s (TurnSettledEvent x) d0" "de_Snapshot d = de_Snapshot d0" "de_Actions d = de_Actions d0"
    "validSnapshot (rd_definition r) (rd_infrastructureRetryLimit r) s"
  with effect_carried_on [OF _ assms(1)] show ?thesis by (simp add: carried_on_def)
qed

theorem settled_turn_carries_on_witness:
  "carried_on (Applied demo_ready ReasonApproved
     [RecordReviewAction demo_review True, ReconcileLabelsAction StatePRReady ''head''])"
  using settled_turn_carries_on [OF demo_builtin demo_approve_step] by simp

text \<open>C26 (the Agents stop). Take any chain of Turns in which each is asked for by the settling of the
  one before, where no Turn settles with the reason \<open>review_head_replaced\<close> (somebody pushed while it was
  reviewing) or \<open>clarification_wait\<close> (it waits for a human, or is asked for again because human input is unread):
  every such chain is finite, and with infrastructure retry limit \<open>L\<close> it has fewer than \<open>8 * (L + 1)\<close> Turns. Of
  chains with those two reasons nothing is claimed.\<close>

theorem autonomous_turns_bounded:
  assumes "builtin_reducer r" "(advance r ^^ n) s t"
  shows "n < 8 * (unat (rd_infrastructureRetryLimit r) + 1) \<and> wfp (advance r)\<inverse>\<inverse>"
proof
  from advance_chain [OF assms(2,1)] work_left_bound [of r s]
  show "n < 8 * (unat (rd_infrastructureRetryLimit r) + 1)" by simp
  show "wfp (advance r)\<inverse>\<inverse>"
    by (rule wfp_if_convertible_to_nat [of _ "work_left r"]) (use advance_work assms(1) in blast)
qed

theorem autonomous_turns_bounded_witness:
  "(1::nat) < 8 * (unat (rd_infrastructureRetryLimit demo_reducer) + 1)"
proof -
  have "advance demo_reducer (demo_developing (Some demo_developer_turn)) (prepare_turn (demo_reviewing None) None)"
    using advance.intros [OF demo_developer_step] by (simp add: outside_reason_def enqueue_def)
  then have "(advance demo_reducer ^^ 1) (demo_developing (Some demo_developer_turn))
      (prepare_turn (demo_reviewing None) None)" by (simp only: relpowp_1)
  from autonomous_turns_bounded [OF demo_builtin this] show ?thesis ..
qed

end
