(* ===== verification/Collab_Model.thy ===== *)
theory Collab_Model
  imports Prelude
begin

text \<open>
  The human interaction of a Work Item (\<open>internal/collaboration\<close>): its data, the short references,
  and the evidence relations between accepted inputs. A \<open>State\<close> is only reached through its pointer,
  so its methods are functions that return the next state. Operations are in \<open>Collab_Operations\<close>
  and \<open>Collab_Planning\<close>.

  A slice that the code compares with \<open>reflect.DeepEqual\<close> is a \<open>slice\<close>, which keeps a nil slice
  apart from an empty one; every other slice is a list.
\<close>

section \<open>Data\<close>

type_synonym slice = "string list option"

definition items :: "slice \<Rightarrow> string list" where
  "items sl = (case sl of None \<Rightarrow> [] | Some xs \<Rightarrow> xs)"

lemma items_simps [simp]: "items None = []" "items (Some xs) = xs"
  by (simp_all add: items_def)

text \<open>\<open>append(sl, x)\<close> on a slice that may be nil.\<close>

definition push :: "slice \<Rightarrow> string \<Rightarrow> slice" where
  "push sl x = Some (items sl @ [x])"

record co_source =
  src_Channel :: string
  src_ID :: string
  src_URL :: string

record co_actor =
  act_ID :: string
  act_Name :: string

record question =
  qst_Replaces :: string
  qst_ID :: string
  qst_Body :: string

record resolution =
  res_Sequence :: u64
  res_OriginOperationID :: string
  res_ConsideredResponseIDs :: slice
  res_Obsolete :: bool
  res_QuestionID :: string
  res_ResponseIDs :: slice
  res_Explanation :: string

record rendered_publication =
  pub_Body :: string
  pub_Marker :: string

datatype co_purpose = Clarification | PurposeOther string

record co_round =
  rnd_SupersedesReference :: string
  rnd_Artifact :: "rendered_publication option"
  rnd_Reference :: string
  rnd_Introduction :: string
  rnd_PublicationFailed :: bool
  rnd_Supersedes :: string
  rnd_ID :: string
  rnd_Purpose :: co_purpose
  rnd_ParticipantID :: string
  rnd_TurnID :: string
  rnd_HeadSHA :: string
  rnd_Questions :: "question list"
  rnd_Resolutions :: "resolution list"
  rnd_SupersededBy :: string
  rnd_Published :: bool
  rnd_Source :: "co_source option"

record co_input =
  inp_Reference :: string
  inp_Target :: string
  inp_Route :: string
  inp_ID :: string
  inp_Kind :: string
  inp_RoundID :: string
  inp_Amends :: string
  inp_Body :: string
  inp_Actor :: co_actor
  inp_Source :: co_source
  inp_AcceptedAt :: instant
  inp_ParticipantID :: string
  inp_DeliveredTo :: string
  inp_DeliveryPending :: bool

record co_receipt =
  rct_PublicationAttempt :: u64
  rct_PublicationRejected :: bool
  rct_Artifact :: "rendered_publication option"
  rct_ID :: string
  rct_Source :: co_source
  rct_ResponseID :: string
  rct_Feedback :: string

record preparation =
  prp_ParticipantID :: string
  prp_TurnID :: string

record co_reference =
  ref_Name :: string
  ref_ID :: string
  ref_Kind :: string

record assessment =
  asm_OriginOperationID :: string
  asm_InputID :: string
  asm_EvidenceIDs :: "string list"
  asm_Disposition :: string
  asm_Explanation :: string
  asm_Corrects :: "string list"
  asm_InvalidateConfirmation :: bool

record original_request =
  org_Title :: string
  org_Body :: string
  org_Source :: co_source

record planning_content =
  plc_Summary :: string
  plc_UnresolvedDecisions :: slice
  plc_Title :: string
  plc_Status :: string
  plc_Changes :: string
  plc_RequirementsBrief :: string
  plc_TechnicalPlan :: string
  plc_InvestigatedCommit :: string
  plc_Evidence :: slice
  plc_DecisionResponseIDs :: slice

record planning_revision =
  rvn_Artifact :: "rendered_publication option"
  rvn_Reference :: string
  rvn_SupersedesReference :: string
  rvn_ID :: string
  rvn_Supersedes :: string
  rvn_ParticipantID :: string
  rvn_TurnID :: string
  rvn_ProcedureVersion :: string
  rvn_Content :: planning_content
  rvn_OriginalRequest :: original_request
  rvn_Decisions :: "co_input list"
  rvn_PublicationFailed :: bool
  rvn_Published :: bool
  rvn_Source :: "co_source option"

record plan_revalidation =
  rvl_SourceInvocationID :: string
  rvl_RevisionID :: string
  rvl_ParticipantID :: string
  rvl_TurnID :: string
  rvl_RepositoryCommit :: string
  rvl_Evidence :: string
  rvl_ConfirmationInputID :: string
  rvl_ConsideredInputIDs :: slice

record checkpoint_not_applied =
  cna_OperationID :: string
  cna_ParticipantID :: string
  cna_TurnID :: string
  cna_Content :: planning_content
  cna_Reason :: string

record planning_state =
  pls_InvalidatedConfirmations :: "string list"
  pls_NonPublications :: "checkpoint_not_applied list"
  pls_OriginalRequest :: original_request
  pls_Revisions :: "planning_revision list"
  pls_CurrentRevision :: string
  pls_ReadyRevision :: string
  pls_Revalidations :: "plan_revalidation list"

record collab =
  st_InterpretationSequence :: u64
  st_Assessments :: "assessment list"
  st_References :: "co_reference list"
  st_Planning :: "planning_state option"
  st_Preparations :: "preparation list"
  st_Rounds :: "co_round list"
  st_Inputs :: "co_input list"
  st_Receipts :: "co_receipt list"
  st_CurrentRound :: string
  st_Waiting :: bool

record command =
  cmd_Kind :: string
  cmd_Target :: string
  cmd_Body :: string

record admission =
  adm_Route :: string
  adm_Active :: bool
  adm_Authorized :: bool
  adm_ParticipantID :: string
  adm_Actor :: co_actor
  adm_Source :: co_source
  adm_At :: instant

text \<open>The errors of the package: \<open>ErrInvalid\<close>, and the authoritative rejection of a checkpoint.\<close>

datatype collab_error = ErrInvalid | NotApplied checkpoint_not_applied

definition collab_empty :: collab where
  "collab_empty =
     \<lparr>st_InterpretationSequence = 0, st_Assessments = [], st_References = [], st_Planning = None,
      st_Preparations = [], st_Rounds = [], st_Inputs = [], st_Receipts = [], st_CurrentRound = '''',
      st_Waiting = False\<rparr>"

section \<open>References\<close>

text \<open>\<open>State.reference\<close>: the loop counts the references of the kind and returns early with an
  existing name; otherwise the next number is allocated.\<close>

fun find_reference :: "string \<Rightarrow> string \<Rightarrow> co_reference list \<Rightarrow> string option" where
  "find_reference kind i [] = None"
| "find_reference kind i (ref # refs) =
     (if ref_Kind ref = kind \<and> ref_ID ref = i then Some (ref_Name ref) else find_reference kind i refs)"

definition reference :: "collab \<Rightarrow> string \<Rightarrow> string \<Rightarrow> string \<times> collab" where
  "reference s kind i =
     (case find_reference kind i (st_References s) of
        Some name \<Rightarrow> (name, s)
      | None \<Rightarrow>
          let count = length (filter (\<lambda>ref. ref_Kind ref = kind) (st_References s));
              name = kind @ decimal (count + 1)
          in (name, s\<lparr>st_References := st_References s
                       @ [\<lparr>ref_Name = name, ref_ID = i, ref_Kind = kind\<rparr>]\<rparr>))"

definition target_of :: "collab \<Rightarrow> string \<Rightarrow> string \<Rightarrow> string" where
  "target_of s kind name =
     (case find (\<lambda>ref. ref_Kind ref = kind \<and> ref_Name ref = name) (st_References s) of
        None \<Rightarrow> '''' | Some ref \<Rightarrow> ref_ID ref)"

section \<open>Evidence\<close>

definition latestResolution :: "co_round \<Rightarrow> string \<Rightarrow> resolution option" where
  "latestResolution r question = find (\<lambda>x. res_QuestionID x = question) (rev (rnd_Resolutions r))"

definition questionInRound :: "collab \<Rightarrow> string \<Rightarrow> string \<Rightarrow> string \<Rightarrow> bool" where
  "questionInRound s rid question participant \<longleftrightarrow>
     list_ex (\<lambda>r. rnd_ID r = rid \<and> rnd_ParticipantID r = participant
                \<and> list_ex (\<lambda>q. qst_ID q = question) (rnd_Questions r)) (st_Rounds s)"

text \<open>The \<open>Amends\<close> field of the first input with the identity, as the loops read it.\<close>

definition amends_parent :: "collab \<Rightarrow> string \<Rightarrow> string" where
  "amends_parent s i =
     (case find (\<lambda>inp. inp_ID inp = i) (st_Inputs s) of None \<Rightarrow> '''' | Some inp \<Rightarrow> inp_Amends inp)"

text \<open>\<open>State.amends\<close> walks the chain of amended inputs. The loop ends only if the chain does, so
  the code is \<open>amends_loop\<close>, a partial function: \<open>None\<close> is divergence. \<open>amends\<close> is the walk of at
  most as many steps as there are inputs; \<open>amends_loop_terminates\<close> shows that the two agree in the
  states that the operations can reach.\<close>

partial_function (option) amends_loop :: "collab \<Rightarrow> string \<Rightarrow> string \<Rightarrow> bool option" where
  "amends_loop s i prior =
     (if i = '''' then Some False
      else if amends_parent s i = '''' then Some False
      else if amends_parent s i = prior then Some True
      else amends_loop s (amends_parent s i) prior)"

fun amends_walk :: "nat \<Rightarrow> collab \<Rightarrow> string \<Rightarrow> string \<Rightarrow> bool" where
  "amends_walk 0 s i prior = False"
| "amends_walk (Suc n) s i prior =
     (if i = '''' then False
      else if amends_parent s i = '''' then False
      else if amends_parent s i = prior then True
      else amends_walk n s (amends_parent s i) prior)"

definition amends :: "collab \<Rightarrow> string \<Rightarrow> string \<Rightarrow> bool" where
  "amends s i prior = amends_walk (Suc (length (st_Inputs s))) s i prior"

text \<open>\<open>State.evidenceLineage\<close>: a depth-first walk over amendments and natural corrections with a
  visited set. \<open>lineage_visit\<close> keeps the pending visits of the recursion as a list; an identity that
  is neither an input nor assessed has nothing to follow.\<close>

definition corrections :: "collab \<Rightarrow> string \<Rightarrow> string list" where
  "corrections s i =
     concat (map (\<lambda>a. if asm_InputID a = i \<and> asm_Disposition a = ''changed'' then asm_Corrects a else [])
       (st_Assessments s))"

definition evidence_next :: "collab \<Rightarrow> string \<Rightarrow> string list" where
  "evidence_next s i = amends_parent s i # corrections s i"

definition evidence_nodes :: "collab \<Rightarrow> string set" where
  "evidence_nodes s = inp_ID ` set (st_Inputs s) \<union> asm_InputID ` set (st_Assessments s)"

lemma finite_evidence_nodes [simp]: "finite (evidence_nodes s)"
  by (simp add: evidence_nodes_def)

function lineage_visit :: "collab \<Rightarrow> string list \<Rightarrow> string list \<Rightarrow> string list" where
  "lineage_visit s [] seen = seen"
| "lineage_visit s (i # todo) seen =
     (if i = '''' \<or> i \<in> set seen then lineage_visit s todo seen
      else if i \<in> evidence_nodes s then lineage_visit s (evidence_next s i @ todo) (i # seen)
      else lineage_visit s todo (i # seen))"
  by pat_completeness auto
termination
proof (relation "measures [\<lambda>(s, todo, seen). card (evidence_nodes s - set seen), \<lambda>(s, todo, seen). length todo]")
  fix s :: collab and i :: string and todo seen :: "string list"
  assume "\<not> (i = '''' \<or> i \<in> set seen)" "i \<in> evidence_nodes s"
  then have "evidence_nodes s - set (i # seen) \<subset> evidence_nodes s - set seen" by auto
  then show "((s, evidence_next s i @ todo, i # seen), (s, i # todo, seen))
      \<in> measures [\<lambda>(s, todo, seen). card (evidence_nodes s - set seen), \<lambda>(s, todo, seen). length todo]"
    by (simp add: psubset_card_mono)
next
  fix s :: collab and i :: string and todo seen :: "string list"
  assume "i \<notin> evidence_nodes s"
  then have "evidence_nodes s - set (i # seen) = evidence_nodes s - set seen" by auto
  then show "((s, todo, i # seen), (s, i # todo, seen))
      \<in> measures [\<lambda>(s, todo, seen). card (evidence_nodes s - set seen), \<lambda>(s, todo, seen). length todo]"
    by simp
qed auto

definition evidenceLineage :: "collab \<Rightarrow> string \<Rightarrow> string list" where
  "evidenceLineage s i = lineage_visit s [i] []"

definition explicitlyCorrects :: "collab \<Rightarrow> string \<Rightarrow> string \<Rightarrow> bool" where
  "explicitlyCorrects s i prior \<longleftrightarrow>
     list_ex (\<lambda>a. asm_InputID a = i \<and> asm_Disposition a = ''changed'' \<and> prior \<in> set (asm_Corrects a))
       (st_Assessments s)"

definition isAmendmentOfEvidence :: "collab \<Rightarrow> string \<Rightarrow> string \<Rightarrow> bool" where
  "isAmendmentOfEvidence s i prior \<longleftrightarrow>
     (if \<not> list_ex (\<lambda>inp. inp_ID inp = i \<and> inp_Amends inp \<noteq> '''') (st_Inputs s) then False
      else let lineage = evidenceLineage s i in
           list_ex (\<lambda>ancestor. ancestor \<in> set lineage) (evidenceLineage s prior))"

text \<open>What \<open>canRevise\<close>, \<open>Resolve\<close> and \<open>resolutionCurrent\<close> all ask: the input \<open>i\<close> amends or
  explicitly corrects the evidence \<open>prior\<close>.\<close>

definition revises :: "collab \<Rightarrow> string \<Rightarrow> string \<Rightarrow> bool" where
  "revises s i prior \<longleftrightarrow> isAmendmentOfEvidence s i prior \<or> explicitlyCorrects s i prior"

definition resolutionCurrent :: "collab \<Rightarrow> resolution \<Rightarrow> bool" where
  "resolutionCurrent s r \<longleftrightarrow>
     res_Obsolete r
     \<or> list_all (\<lambda>inp.
          inp_ID inp \<in> set (items (res_ResponseIDs r)) \<or> inp_ID inp \<in> set (items (res_ConsideredResponseIDs r))
          \<or> list_ex (\<lambda>cited. amends s cited (inp_ID inp)) (items (res_ResponseIDs r))
          \<or> \<not> list_ex (\<lambda>i. revises s (inp_ID inp) i) (items (res_ResponseIDs r)))
        (st_Inputs s)"

definition canRevise :: "collab \<Rightarrow> resolution option \<Rightarrow> resolution \<Rightarrow> bool" where
  "canRevise s old nxt \<longleftrightarrow>
     (case old of
        None \<Rightarrow> True
      | Some o' \<Rightarrow>
          if res_Obsolete o' \<or> res_Obsolete nxt then True
          else list_ex (\<lambda>i. list_ex (\<lambda>prior. revises s i prior) (items (res_ResponseIDs o')))
                 (items (res_ResponseIDs nxt)))"

section \<open>Updating the first match\<close>

text \<open>\<open>for i := range xs { if P(xs[i]) { ...; return } }\<close>: the update of the first element that
  satisfies \<open>P\<close>.\<close>

fun map_first :: "('a \<Rightarrow> bool) \<Rightarrow> ('a \<Rightarrow> 'a) \<Rightarrow> 'a list \<Rightarrow> 'a list" where
  "map_first P f [] = []"
| "map_first P f (x # xs) = (if P x then f x # xs else x # map_first P f xs)"

lemma map_first_map: "(\<And>x. g (f x) = g x) \<Longrightarrow> map g (map_first P f xs) = map g xs"
  by (induction xs) auto

lemma length_map_first [simp]: "length (map_first P f xs) = length xs"
  by (induction xs) auto

lemma set_map_first: "y \<in> set (map_first P f xs) \<Longrightarrow> y \<in> set xs \<or> (\<exists>x \<in> set xs. P x \<and> y = f x)"
  by (induction xs) (auto split: if_split_asm)

end
