(* ===== verification/Collab_Operations.thy ===== *)
theory Collab_Operations
  imports Collab_Model
begin

text \<open>
  The operations on a Work Item's conversation: question rounds are requested, published and
  superseded, commands of humans are accepted as inputs, frozen into a Turn's batch, read, resolved
  and assessed. Each is the method of \<open>State\<close> of that name; one that can fail returns the error next
  to the state it leaves.
\<close>

section \<open>Question rounds\<close>

text \<open>The loop over the requested questions.\<close>

fun check_questions :: "collab \<Rightarrow> string list \<Rightarrow> question list \<Rightarrow> bool" where
  "check_questions s seen [] = True"
| "check_questions s seen (q # qs) =
     (if qst_ID q = '''' \<or> trims_to_empty (qst_Body q) \<or> qst_ID q \<in> set seen then False
      else if list_ex (\<lambda>r. list_ex (\<lambda>old. qst_ID old = qst_ID q \<and> qst_Body old \<noteq> qst_Body q) (rnd_Questions r))
                (st_Rounds s) then False
      else check_questions s (qst_ID q # seen) qs)"

text \<open>Every question of the current round of the participant is resolved or carried on.\<close>

definition carried_on_questions :: "collab \<Rightarrow> string \<Rightarrow> question list \<Rightarrow> bool" where
  "carried_on_questions s participant questions \<longleftrightarrow>
     list_all (\<lambda>previous.
        rnd_ID previous = st_CurrentRound s \<and> rnd_ParticipantID previous = participant \<longrightarrow>
          list_all (\<lambda>old.
             (case latestResolution previous (qst_ID old) of
                None \<Rightarrow> False | Some r \<Rightarrow> resolutionCurrent s r)
             \<or> list_ex (\<lambda>q. qst_ID q = qst_ID old \<or> qst_Replaces q = qst_ID old) questions)
          (rnd_Questions previous))
       (st_Rounds s)"

definition inherited_resolutions :: "collab \<Rightarrow> string \<Rightarrow> question list \<Rightarrow> resolution list" where
  "inherited_resolutions s participant questions =
     concat (map (\<lambda>previous.
        if rnd_ID previous \<noteq> st_CurrentRound s \<or> rnd_ParticipantID previous \<noteq> participant then []
        else concat (map (\<lambda>q.
               (case latestResolution previous (qst_ID q) of
                  None \<Rightarrow> []
                | Some old \<Rightarrow> if resolutionCurrent s old then [old] else [])) questions))
       (st_Rounds s))"

definition RequestRound ::
  "collab \<Rightarrow> string \<Rightarrow> string \<Rightarrow> string \<Rightarrow> string \<Rightarrow> question list \<Rightarrow> (collab_error + co_round) \<times> collab" where
  "RequestRound s i participant turn head questions =
     (if i = '''' \<or> participant = '''' \<or> turn = '''' \<or> questions = [] then (Inl ErrInvalid, s)
      else if list_ex (\<lambda>r. \<not> rnd_Published r \<and> \<not> rnd_PublicationFailed r \<or> rnd_ID r = i) (st_Rounds s)
      then (Inl ErrInvalid, s)
      else if \<not> check_questions s [] questions then (Inl ErrInvalid, s)
      else if \<not> carried_on_questions s participant questions then (Inl ErrInvalid, s)
      else
        let supersedesReference =
              fold (\<lambda>prior ref. if rnd_ID prior = st_CurrentRound s then rnd_Reference prior else ref)
                (st_Rounds s) '''';
            (name, s') = reference s ''R'' i;
            r = \<lparr>rnd_SupersedesReference = supersedesReference, rnd_Artifact = None, rnd_Reference = name,
                 rnd_Introduction = '''', rnd_PublicationFailed = False, rnd_Supersedes = st_CurrentRound s,
                 rnd_ID = i, rnd_Purpose = Clarification, rnd_ParticipantID = participant,
                 rnd_TurnID = turn, rnd_HeadSHA = head, rnd_Questions = questions,
                 rnd_Resolutions = inherited_resolutions s' participant questions,
                 rnd_SupersededBy = '''', rnd_Published = False, rnd_Source = None\<rparr>
        in (Inr r, s'\<lparr>st_Rounds := st_Rounds s' @ [r]\<rparr>))"

definition PublishRound :: "collab \<Rightarrow> string \<Rightarrow> co_source \<Rightarrow> (collab_error + unit) \<times> collab" where
  "PublishRound s i source =
     (case find (\<lambda>r. rnd_ID r = i) (st_Rounds s) of
        None \<Rightarrow> (Inl ErrInvalid, s)
      | Some r \<Rightarrow>
          if rnd_PublicationFailed r then (Inl ErrInvalid, s)
          else if rnd_Published r
          then (if rnd_Source r = Some source then (Inr (), s) else (Inl ErrInvalid, s))
          else
            let rounds = (if st_CurrentRound s \<noteq> ''''
                  then map (\<lambda>x. if rnd_ID x = st_CurrentRound s then x\<lparr>rnd_SupersededBy := i\<rparr> else x) (st_Rounds s)
                  else st_Rounds s)
            in (Inr (), s\<lparr>st_Rounds := map_first (\<lambda>x. rnd_ID x = i)
                              (\<lambda>x. x\<lparr>rnd_Published := True, rnd_Source := Some source\<rparr>) rounds,
                          st_CurrentRound := i\<rparr>))"

definition FailPublication :: "collab \<Rightarrow> string \<Rightarrow> (collab_error + unit) \<times> collab" where
  "FailPublication s i =
     (case find (\<lambda>r. rnd_ID r = i) (st_Rounds s) of
        None \<Rightarrow> (Inl ErrInvalid, s)
      | Some r \<Rightarrow>
          if rnd_Published r then (Inl ErrInvalid, s)
          else (Inr (), s\<lparr>st_Rounds := map_first (\<lambda>x. rnd_ID x = i)
                           (\<lambda>x. x\<lparr>rnd_PublicationFailed := True\<rparr>) (st_Rounds s)\<rparr>))"

section \<open>Accepting commands\<close>

definition CurrentCheckpoint :: "collab \<Rightarrow> planning_revision option" where
  "CurrentCheckpoint s =
     (case st_Planning s of
        None \<Rightarrow> None
      | Some p \<Rightarrow> find (\<lambda>r. rvn_ID r = pls_CurrentRevision p) (pls_Revisions p))"

definition ready_revision :: "collab \<Rightarrow> string" where
  "ready_revision s = (case st_Planning s of None \<Rightarrow> '''' | Some p \<Rightarrow> pls_ReadyRevision p)"

definition planningConfirmationTarget :: "collab \<Rightarrow> string \<Rightarrow> string \<Rightarrow> string" where
  "planningConfirmationTarget s target participant =
     (let r = CurrentCheckpoint s;
          feedback = (\<lambda>name. ''Please review the current proposed pair ('' @ name
            @ '') and use its short reference, for example `/omnigrex confirm-plan P2`. Draft, replaced and completed pairs cannot be confirmed.'')
      in case r of
           None \<Rightarrow> feedback ''none''
         | Some c \<Rightarrow>
             if \<not> rvn_Published c \<or> plc_Status (rvn_Content c) \<noteq> ''proposed'' \<or> rvn_ID c \<noteq> target
                \<or> rvn_ParticipantID c \<noteq> participant \<or> ready_revision s \<noteq> ''''
             then feedback (rvn_Reference c) else '''')"

text \<open>The two switches over the kind of command: the addressed target and round, or the feedback of
  the rejection.\<close>

definition command_target :: "collab \<Rightarrow> command \<Rightarrow> string" where
  "command_target s c =
     (if cmd_Kind c = ''answer'' then target_of s ''R'' (cmd_Target c)
      else if cmd_Kind c = ''amend'' then target_of s ''A'' (cmd_Target c)
      else if cmd_Kind c = ''confirm-plan'' then target_of s ''P'' (cmd_Target c)
      else '''')"

definition command_round :: "collab \<Rightarrow> command \<Rightarrow> admission \<Rightarrow> string \<Rightarrow> string + string" where
  "command_round s c a target =
     (if cmd_Kind c = ''confirm-plan''
      then (let feedback = planningConfirmationTarget s target (adm_ParticipantID a)
            in if feedback \<noteq> '''' then Inl feedback else Inr '''')
      else if cmd_Kind c = ''answer''
      then (case find (\<lambda>r. rnd_ID r = target) (st_Rounds s) of
              None \<Rightarrow> Inl ''Which question round? Use its short reference, for example `/omnigrex answer R3`.''
            | Some r \<Rightarrow>
                if rnd_PublicationFailed r
                then Inl ''Rejected: this question publication failed; use the current published round after the agent retries.''
                else if rnd_SupersededBy r \<noteq> '''' \<or> rnd_Published r \<and> st_CurrentRound s \<noteq> rnd_ID r
                then Inl ''That round has been replaced. Please use the short reference in the latest questions.''
                else if rnd_ParticipantID r \<noteq> adm_ParticipantID a
                then Inl ''Rejected: the addressed round belongs to an obsolete Stage; use /omnigrex steer for current work.''
                else Inr (rnd_ID r))
      else if cmd_Kind c = ''amend''
      then (case find (\<lambda>inp. inp_ID inp = target) (st_Inputs s) of
              None \<Rightarrow> Inl ''Which earlier input? Use its short reference, for example `/omnigrex amend A7`, or `/omnigrex steer` to explain the change.''
            | Some inp \<Rightarrow>
                if inp_ParticipantID inp \<noteq> adm_ParticipantID a
                then Inl ''Rejected: response belongs to an obsolete Stage; use /omnigrex steer for current work.''
                else Inr (inp_RoundID inp))
      else if cmd_Kind c = ''steer''
      then (if cmd_Target c \<noteq> '''' then Inl ''Rejected: /omnigrex steer does not take a target.'' else Inr '''')
      else Inl ''Please include a short target: `/omnigrex answer R3`, `/omnigrex amend A7`, or `/omnigrex confirm-plan P2`. To change direction, use `/omnigrex steer`.'')"

definition reject_with :: "collab \<Rightarrow> co_receipt \<Rightarrow> string \<Rightarrow> co_receipt \<times> collab" where
  "reject_with s receipt message =
     (let r = receipt\<lparr>rct_Feedback := message\<rparr> in (r, s\<lparr>st_Receipts := st_Receipts s @ [r]\<rparr>))"

definition new_input :: "string \<Rightarrow> command \<Rightarrow> admission \<Rightarrow> string \<Rightarrow> string \<Rightarrow> string \<Rightarrow> co_input" where
  "new_input i c a name target rid =
     \<lparr>inp_Reference = name, inp_Target = target, inp_Route = adm_Route a, inp_ID = i,
      inp_Kind = cmd_Kind c, inp_RoundID = rid,
      inp_Amends = (if cmd_Kind c = ''amend'' then target else ''''),
      inp_Body = cmd_Body c, inp_Actor = adm_Actor a, inp_Source = adm_Source a,
      inp_AcceptedAt = adm_At a, inp_ParticipantID = adm_ParticipantID a,
      inp_DeliveredTo = '''', inp_DeliveryPending = False\<rparr>"

definition new_receipt :: "string \<Rightarrow> admission \<Rightarrow> co_receipt" where
  "new_receipt i a =
     \<lparr>rct_PublicationAttempt = 0, rct_PublicationRejected = False, rct_Artifact = None,
      rct_ID = i, rct_Source = adm_Source a, rct_ResponseID = '''', rct_Feedback = ''''\<rparr>"

definition Accept :: "collab \<Rightarrow> string \<Rightarrow> command \<Rightarrow> admission \<Rightarrow> co_receipt \<times> collab" where
  "Accept s i c a =
     (case find (\<lambda>rc. src_Channel (rct_Source rc) = src_Channel (adm_Source a)
                    \<and> src_ID (rct_Source rc) = src_ID (adm_Source a)) (st_Receipts s) of
        Some rc \<Rightarrow> (rc, s)
      | None \<Rightarrow>
          let receipt = new_receipt i a;
              reject = reject_with s receipt
          in
          if \<not> adm_Authorized a
          then reject ''Rejected: repository write, maintain or admin permission is required.''
          else if \<not> adm_Active a \<or> adm_ParticipantID a = '''' \<and> adm_Route a = ''''
          then reject ''Rejected: this Work Item is not accepting input; resolve Human Handoff or lifecycle state explicitly before retrying.''
          else if i = '''' \<or> act_ID (adm_Actor a) = '''' \<or> src_ID (adm_Source a) = ''''
                  \<or> src_Channel (adm_Source a) = '''' \<or> is_zero_time (adm_At a)
          then reject ''Rejected: provide nonempty content after the command.''
          else if list_ex (\<lambda>inp. inp_ID inp = i) (st_Inputs s)
          then reject ''Rejected: response identity already exists.''
          else
            let target = command_target s c in
            (case command_round s c a target of
               Inl feedback \<Rightarrow> reject feedback
             | Inr rid \<Rightarrow>
                 if trims_to_empty (cmd_Body c) \<and> cmd_Kind c \<noteq> ''confirm-plan''
                 then reject ''Please add nonempty content after the command.''
                 else
                   let (name, s') = reference s ''A'' i;
                       inp = new_input i c a name target rid;
                       rc = receipt\<lparr>rct_ResponseID := i,
                              rct_Feedback := ''Thanks, queued as '' @ name @ '' for the agent to consider.''\<rparr>
                   in (rc, s'\<lparr>st_Inputs := st_Inputs s' @ [inp], st_Receipts := st_Receipts s' @ [rc]\<rparr>)))"


section \<open>Delivery\<close>

text \<open>An input that its participant has not been given yet, or not completely.\<close>

definition undelivered :: "string \<Rightarrow> co_input \<Rightarrow> bool" where
  "undelivered participant inp \<longleftrightarrow>
     inp_ParticipantID inp = participant \<and> (inp_DeliveredTo inp = '''' \<or> inp_DeliveryPending inp)"

definition Pending :: "collab \<Rightarrow> string \<Rightarrow> bool" where
  "Pending s participant \<longleftrightarrow> list_ex (undelivered participant) (st_Inputs s)"

definition deliver_to :: "string \<Rightarrow> co_input \<Rightarrow> co_input" where
  "deliver_to turn inp = inp\<lparr>inp_DeliveredTo := turn, inp_DeliveryPending := False\<rparr>"

definition PrepareBatch :: "collab \<Rightarrow> string \<Rightarrow> string \<Rightarrow> co_input list \<times> collab" where
  "PrepareBatch s participant turn =
     (let batch = filter (\<lambda>inp. inp_DeliveredTo inp = turn) (st_Inputs s) in
      if list_ex (\<lambda>p. prp_TurnID p = turn) (st_Preparations s) then (batch, s)
      else
        (batch @ map (deliver_to turn) (filter (undelivered participant) (st_Inputs s)),
         s\<lparr>st_Preparations := st_Preparations s @ [\<lparr>prp_ParticipantID = participant, prp_TurnID = turn\<rparr>],
           st_Inputs := map (\<lambda>inp. if undelivered participant inp then deliver_to turn inp else inp)
                          (st_Inputs s)\<rparr>))"

definition MarkDelivered :: "collab \<Rightarrow> string \<Rightarrow> string \<Rightarrow> string \<Rightarrow> (collab_error + unit) \<times> collab" where
  "MarkDelivered s participant turn i =
     (let mine = (\<lambda>inp. inp_ID inp = i \<and> inp_ParticipantID inp = participant \<and> inp_DeliveredTo inp = turn) in
      if list_ex mine (st_Inputs s)
      then (Inr (), s\<lparr>st_Inputs := map_first mine (\<lambda>inp. inp\<lparr>inp_DeliveryPending := False\<rparr>) (st_Inputs s)\<rparr>)
      else (Inl ErrInvalid, s))"

section \<open>Resolutions\<close>

definition prepared_for :: "collab \<Rightarrow> string \<Rightarrow> string \<Rightarrow> bool" where
  "prepared_for s participant turn \<longleftrightarrow>
     list_ex (\<lambda>p. prp_TurnID p = turn \<and> prp_ParticipantID p = participant) (st_Preparations s)"

definition has_question :: "co_round \<Rightarrow> string \<Rightarrow> bool" where
  "has_question r question \<longleftrightarrow> list_ex (\<lambda>q. qst_ID q = question) (rnd_Questions r)"

text \<open>The current round, when it carries the question and belongs to the owner of \<open>r\<close>.\<close>

definition governs :: "collab \<Rightarrow> co_round \<Rightarrow> string \<Rightarrow> co_round \<Rightarrow> bool" where
  "governs s r question current \<longleftrightarrow>
     rnd_ID current = st_CurrentRound s \<and> rnd_ParticipantID current = rnd_ParticipantID r
     \<and> has_question current question"

text \<open>An input that may be cited for the question of a round.\<close>

definition citable :: "collab \<Rightarrow> co_round \<Rightarrow> string \<Rightarrow> string \<Rightarrow> co_input \<Rightarrow> bool" where
  "citable s r question i inp \<longleftrightarrow>
     inp_ID inp = i \<and> inp_DeliveredTo inp \<noteq> '''' \<and> \<not> inp_DeliveryPending inp
     \<and> inp_ParticipantID inp = rnd_ParticipantID r
     \<and> (inp_RoundID inp = '''' \<or> questionInRound s (inp_RoundID inp) question (rnd_ParticipantID r)
        \<or> list_ex (\<lambda>old. res_QuestionID old = question
             \<and> list_ex (\<lambda>prior. revises s (inp_ID inp) prior) (items (res_ResponseIDs old)))
            (rnd_Resolutions r))"

fun check_resolutions :: "collab \<Rightarrow> co_round \<Rightarrow> string list \<Rightarrow> resolution list \<Rightarrow> bool" where
  "check_resolutions s r seen [] = True"
| "check_resolutions s r seen (x # xs) =
     (if res_QuestionID x \<in> set seen then False
      else if trims_to_empty (res_Explanation x) \<or> items (res_ResponseIDs x) = [] \<and> \<not> res_Obsolete x then False
      else if \<not> has_question r (res_QuestionID x) then False
      else if rnd_SupersededBy r \<noteq> '''' \<and> latestResolution r (res_QuestionID x) = None then False
      else if \<not> canRevise s (latestResolution r (res_QuestionID x)) x then False
      else if rnd_SupersededBy r \<noteq> ''''
              \<and> list_ex (\<lambda>current. governs s r (res_QuestionID x) current
                   \<and> \<not> canRevise s (latestResolution current (res_QuestionID x)) x) (st_Rounds s) then False
      else if \<not> list_all (\<lambda>i. list_ex (citable s r (res_QuestionID x) i) (st_Inputs s))
                (items (res_ResponseIDs x)) then False
      else check_resolutions s r (res_QuestionID x # seen) xs)"

text \<open>\<open>resolution.ConsideredResponseIDs\<close>: the delivered inputs that compete with the cited ones.\<close>

definition considered :: "collab \<Rightarrow> resolution \<Rightarrow> slice" where
  "considered s x =
     fold (\<lambda>inp acc.
        if inp_DeliveredTo inp \<noteq> '''' \<and> \<not> inp_DeliveryPending inp
           \<and> list_ex (\<lambda>i. revises s (inp_ID inp) i) (items (res_ResponseIDs x))
        then push acc (inp_ID inp) else acc) (st_Inputs s) None"

definition freeze_coverage :: "collab \<Rightarrow> resolution \<Rightarrow> resolution" where
  "freeze_coverage s x = x\<lparr>res_ConsideredResponseIDs := considered s x\<rparr>"

text \<open>One recorded resolution: the next interpretation number, appended to its round and, when that
  round was superseded, to the current round that still carries the question.\<close>

definition record_resolution :: "co_round \<Rightarrow> resolution \<Rightarrow> collab \<Rightarrow> collab" where
  "record_resolution r x s =
     (let n = st_InterpretationSequence s + 1;
          x' = x\<lparr>res_Sequence := n\<rparr>;
          add = (\<lambda>c. c\<lparr>rnd_Resolutions := rnd_Resolutions c @ [x']\<rparr>);
          rounds = map_first (\<lambda>c. rnd_ID c = rnd_ID r) add (st_Rounds s);
          rounds' = (if rnd_SupersededBy r \<noteq> ''''
                     then map (\<lambda>c. if governs s r (res_QuestionID x) c then add c else c) rounds
                     else rounds)
      in s\<lparr>st_InterpretationSequence := n, st_Rounds := rounds'\<rparr>)"

definition Resolve :: "collab \<Rightarrow> string \<Rightarrow> string \<Rightarrow> resolution list \<Rightarrow> (collab_error + unit) \<times> collab" where
  "Resolve s roundID turn resolutions =
     (case find (\<lambda>r. rnd_ID r = roundID) (st_Rounds s) of
        None \<Rightarrow> (Inl ErrInvalid, s)
      | Some r \<Rightarrow>
          if \<not> rnd_Published r then (Inl ErrInvalid, s)
          else if \<not> prepared_for s (rnd_ParticipantID r) turn then (Inl ErrInvalid, s)
          else if \<not> check_resolutions s r [] resolutions then (Inl ErrInvalid, s)
          else
            let frozen = map (freeze_coverage s) resolutions in
            if \<not> list_all (resolutionCurrent s) frozen then (Inl ErrInvalid, s)
            else (Inr (), fold (record_resolution r) frozen s))"

text \<open>\<open>Unresolved\<close>: the effective resolution of each question of the participant's published rounds,
  by interpretation sequence; then the questions of the current round.\<close>

definition effective_step :: "co_round \<Rightarrow> question \<Rightarrow> (string, resolution) fmap \<Rightarrow> (string, resolution) fmap" where
  "effective_step round' q eff =
     (case latestResolution round' (qst_ID q) of
        None \<Rightarrow> eff
      | Some r \<Rightarrow>
          (case fmlookup eff (qst_ID q) of
             None \<Rightarrow> fmupd (qst_ID q) r eff
           | Some old \<Rightarrow> if res_Sequence r \<ge> res_Sequence old then fmupd (qst_ID q) r eff else eff))"

definition effective_resolutions :: "collab \<Rightarrow> string \<Rightarrow> (string, resolution) fmap" where
  "effective_resolutions s participant =
     fold (\<lambda>r eff. if rnd_ParticipantID r \<noteq> participant \<or> \<not> rnd_Published r then eff
                   else fold (effective_step r) (rnd_Questions r) eff) (st_Rounds s) fmempty"

definition Unresolved :: "collab \<Rightarrow> string \<Rightarrow> bool" where
  "Unresolved s participant \<longleftrightarrow>
     fmap_any (\<lambda>_ r. \<not> resolutionCurrent s r) (effective_resolutions s participant)
     \<or> list_ex (\<lambda>r. rnd_ID r = st_CurrentRound s \<and> rnd_ParticipantID r = participant
          \<and> list_ex (\<lambda>q. case latestResolution r (qst_ID q) of
                None \<Rightarrow> True | Some x \<Rightarrow> \<not> resolutionCurrent s x) (rnd_Questions r))
        (st_Rounds s)"

text \<open>\<open>Round.HasResolutionEffect\<close> compares with \<open>reflect.DeepEqual\<close> after blanking the metadata of
  the orchestrator.\<close>

definition blank_metadata :: "resolution \<Rightarrow> resolution" where
  "blank_metadata x =
     x\<lparr>res_Sequence := 0, res_OriginOperationID := '''', res_ConsideredResponseIDs := None\<rparr>"

definition HasResolutionEffect :: "co_round \<Rightarrow> string \<Rightarrow> resolution list \<Rightarrow> bool" where
  "HasResolutionEffect r operation resolutions \<longleftrightarrow>
     (if operation = '''' \<or> resolutions = [] then False
      else list_all (\<lambda>wanted. list_ex (\<lambda>actual. res_OriginOperationID actual = operation
               \<and> blank_metadata actual = blank_metadata wanted) (rnd_Resolutions r)) resolutions)"

section \<open>Assessments\<close>

definition assessment_equal :: "assessment \<Rightarrow> assessment \<Rightarrow> bool" where
  "assessment_equal a b \<longleftrightarrow>
     asm_OriginOperationID a = asm_OriginOperationID b \<and> asm_InputID a = asm_InputID b
     \<and> asm_EvidenceIDs a = asm_EvidenceIDs b \<and> asm_Disposition a = asm_Disposition b
     \<and> asm_Explanation a = asm_Explanation b \<and> asm_Corrects a = asm_Corrects b
     \<and> asm_InvalidateConfirmation a = asm_InvalidateConfirmation b"

definition latestAssessment :: "collab \<Rightarrow> string \<Rightarrow> assessment option" where
  "latestAssessment s i = find (\<lambda>a. asm_InputID a = i) (rev (st_Assessments s))"

definition HasAssessmentEffect :: "collab \<Rightarrow> string \<Rightarrow> assessment list \<Rightarrow> bool" where
  "HasAssessmentEffect s operation wanted \<longleftrightarrow>
     (if operation = '''' \<or> wanted = [] then False
      else list_all (\<lambda>a. list_ex (\<lambda>actual. assessment_equal actual (a\<lparr>asm_OriginOperationID := operation\<rparr>))
                      (st_Assessments s)) wanted)"

text \<open>An input that was read completely by its participant.\<close>

definition delivered_input :: "string \<Rightarrow> co_input \<Rightarrow> bool" where
  "delivered_input participant inp \<longleftrightarrow>
     inp_ParticipantID inp = participant \<and> inp_DeliveredTo inp \<noteq> '''' \<and> \<not> inp_DeliveryPending inp"

definition delivered :: "collab \<Rightarrow> string \<Rightarrow> string \<Rightarrow> bool" where
  "delivered s participant i \<longleftrightarrow>
     list_ex (\<lambda>inp. inp_ID inp = i \<and> delivered_input participant inp) (st_Inputs s)"

fun check_assessments :: "collab \<Rightarrow> string \<Rightarrow> string list \<Rightarrow> assessment list \<Rightarrow> bool" where
  "check_assessments s participant seen [] = True"
| "check_assessments s participant seen (a # as) =
     (if asm_InputID a \<in> set seen \<or> \<not> delivered s participant (asm_InputID a)
         \<or> trims_to_empty (asm_Explanation a) \<or> asm_EvidenceIDs a = []
         \<or> asm_InputID a \<notin> set (asm_EvidenceIDs a) then False
      else if asm_Disposition a \<noteq> ''changed'' \<and> asm_Disposition a \<noteq> ''unchanged''
              \<and> asm_Disposition a \<noteq> ''uncertain'' \<and> asm_Disposition a \<noteq> ''confirmed'' then False
      else if \<not> list_all (delivered s participant) (asm_EvidenceIDs a) then False
      else if \<not> list_all (\<lambda>i. i \<noteq> asm_InputID a \<and> delivered s participant i) (asm_Corrects a) then False
      else if asm_Disposition a = ''confirmed''
              \<and> \<not> list_ex (\<lambda>inp. inp_ID inp = asm_InputID a \<and> inp_Kind inp = ''confirm-plan'') (st_Inputs s)
      then False
      else check_assessments s participant (asm_InputID a # seen) as)"

text \<open>The confirmations that an invalidation reaches: those admitted up to the assessed input.\<close>

fun invalidate_upto :: "string \<Rightarrow> co_input list \<Rightarrow> string list \<Rightarrow> string list" where
  "invalidate_upto i [] invalidated = invalidated"
| "invalidate_upto i (inp # inps) invalidated =
     (let invalidated' = (if inp_Kind inp = ''confirm-plan'' \<and> inp_ID inp \<notin> set invalidated
                          then invalidated @ [inp_ID inp] else invalidated)
      in if inp_ID inp = i then invalidated' else invalidate_upto i inps invalidated')"

definition record_assessment :: "string \<Rightarrow> assessment \<Rightarrow> collab \<Rightarrow> collab" where
  "record_assessment operation a s =
     (let s' = s\<lparr>st_Assessments := st_Assessments s @ [a\<lparr>asm_OriginOperationID := operation\<rparr>]\<rparr>;
          invalidate = (asm_InvalidateConfirmation a
            \<or> list_ex (\<lambda>inp. inp_ID inp = asm_InputID a \<and> inp_Kind inp = ''confirm-plan''
                          \<and> asm_Disposition a \<noteq> ''confirmed'') (st_Inputs s))
      in case st_Planning s' of
           None \<Rightarrow> s'
         | Some p \<Rightarrow>
             if invalidate \<and> pls_ReadyRevision p = ''''
             then s'\<lparr>st_Planning := Some (p\<lparr>pls_InvalidatedConfirmations :=
                    invalidate_upto (asm_InputID a) (st_Inputs s) (pls_InvalidatedConfirmations p)\<rparr>)\<rparr>
             else s')"

definition Assess :: "collab \<Rightarrow> string \<Rightarrow> string \<Rightarrow> string \<Rightarrow> assessment list \<Rightarrow> (collab_error + unit) \<times> collab" where
  "Assess s operation participant turn batch =
     (if operation = '''' \<or> batch = [] \<or> \<not> prepared_for s participant turn then (Inl ErrInvalid, s)
      else if \<not> check_assessments s participant [] batch then (Inl ErrInvalid, s)
      else (Inr (), fold (record_assessment operation) batch s))"

definition AssessmentBlocked :: "collab \<Rightarrow> string \<Rightarrow> bool" where
  "AssessmentBlocked s participant \<longleftrightarrow>
     list_ex (\<lambda>inp. inp_ParticipantID inp = participant
        \<and> (inp_DeliveredTo inp = '''' \<or> inp_DeliveryPending inp
           \<or> (case latestAssessment s (inp_ID inp) of
                None \<Rightarrow> True | Some a \<Rightarrow> asm_Disposition a = ''uncertain''))) (st_Inputs s)"

end
