(* ===== verification/Collab_Planning.thy ===== *)
theory Collab_Planning
  imports Collab_Operations
begin

text \<open>
  The planning half of a conversation (\<open>collaboration/planning.go\<close>): checkpoints of the plan are
  reserved, published and superseded like question rounds, confirmed by a human, and validated
  against everything the human said before they become ready.
\<close>

definition DiscoveryProcedureVersion :: string where
  "DiscoveryProcedureVersion = ''omnigrex-discovery/v2''"

text \<open>The regular expression \<open>^(?:[0-9a-f]{40}|[0-9a-f]{64})$\<close>.\<close>

definition hex_digit :: "nat \<Rightarrow> bool" where
  "hex_digit b \<longleftrightarrow> 48 \<le> b \<and> b \<le> 57 \<or> 97 \<le> b \<and> b \<le> 102"

definition planningCommit :: "string \<Rightarrow> bool" where
  "planningCommit c \<longleftrightarrow> (length c = 40 \<or> length c = 64) \<and> list_all hex_digit (go_bytes c)"

definition CheckpointInputReason :: "collab \<Rightarrow> string \<Rightarrow> string" where
  "CheckpointInputReason s participant =
     (if list_ex (\<lambda>inp. inp_ParticipantID inp = participant \<and> inp_DeliveryPending inp) (st_Inputs s)
      then ''unread_input''
      else if Pending s participant then ''late_input'' else '''')"

definition StartPlanning :: "collab \<Rightarrow> original_request \<Rightarrow> (collab_error + unit) \<times> collab" where
  "StartPlanning s original =
     (case st_Planning s of
        Some p \<Rightarrow> if pls_OriginalRequest p = original then (Inr (), s) else (Inl ErrInvalid, s)
      | None \<Rightarrow>
          if trims_to_empty (org_Title original) \<or> src_Channel (org_Source original) = ''''
             \<or> src_ID (org_Source original) = ''''
             \<or> \<not> utf8_valid_string (org_Title original @ org_Body original)
          then (Inl ErrInvalid, s)
          else (Inr (), s\<lparr>st_Planning := Some
                 \<lparr>pls_InvalidatedConfirmations = [], pls_NonPublications = [], pls_OriginalRequest = original,
                  pls_Revisions = [], pls_CurrentRevision = '''', pls_ReadyRevision = '''',
                  pls_Revalidations = []\<rparr>\<rparr>))"

text \<open>The structural checks of a checkpoint's content.\<close>

definition valid_content :: "planning_content \<Rightarrow> bool" where
  "valid_content c \<longleftrightarrow>
     list_all (\<lambda>v. \<not> (trims_to_empty v \<or> \<not> utf8_valid_string v \<or> contains_nul v))
       [plc_Title c, plc_Summary c, plc_Changes c, plc_RequirementsBrief c, plc_TechnicalPlan c]
     \<and> (plc_Status c = ''draft'' \<or> plc_Status c = ''proposed'') \<and> planningCommit (plc_InvestigatedCommit c)
     \<and> items (plc_Evidence c) \<noteq> []
     \<and> list_all (\<lambda>v. \<not> (trims_to_empty v \<or> \<not> utf8_valid_string v))
         (items (plc_Evidence c) @ items (plc_UnresolvedDecisions c))"

text \<open>The loop over the earlier revisions: a repeated operation returns its revision, a conflicting
  one or an unconfirmed publication stops it.\<close>

fun prior_revision ::
  "string \<Rightarrow> string \<Rightarrow> string \<Rightarrow> planning_content \<Rightarrow> planning_revision list
    \<Rightarrow> (collab_error + planning_revision) option" where
  "prior_revision i participant turn c [] = None"
| "prior_revision i participant turn c (r # rs) =
     (if rvn_ID r = i
      then Some (if rvn_ParticipantID r = participant \<and> rvn_TurnID r = turn \<and> rvn_Content r = c
                 then Inr r else Inl ErrInvalid)
      else if \<not> rvn_Published r \<and> \<not> rvn_PublicationFailed r then Some (Inl ErrInvalid)
      else prior_revision i participant turn c rs)"

text \<open>The decisions a checkpoint builds on: distinct inputs of the participant that were delivered.\<close>

definition decision_input :: "string \<Rightarrow> string \<Rightarrow> string \<Rightarrow> co_input \<Rightarrow> bool" where
  "decision_input participant turn response inp \<longleftrightarrow>
     inp_ID inp = response \<and> inp_ParticipantID inp = participant \<and> inp_DeliveredTo inp \<noteq> ''''
     \<and> (\<not> inp_DeliveryPending inp \<or> inp_DeliveredTo inp = turn) \<and> inp_Kind inp \<noteq> ''confirm-plan''"

fun collect_decisions ::
  "collab \<Rightarrow> string \<Rightarrow> string \<Rightarrow> string list \<Rightarrow> string list \<Rightarrow> co_input list \<Rightarrow> co_input list option" where
  "collect_decisions s participant turn seen [] decisions = Some decisions"
| "collect_decisions s participant turn seen (response # responses) decisions =
     (if response \<in> set seen then None
      else case find (decision_input participant turn response) (st_Inputs s) of
        None \<Rightarrow> None
      | Some inp \<Rightarrow> collect_decisions s participant turn (response # seen) responses (decisions @ [inp]))"

definition new_revision ::
  "collab \<Rightarrow> planning_state \<Rightarrow> string \<Rightarrow> string \<Rightarrow> string \<Rightarrow> planning_content \<Rightarrow> co_input list \<Rightarrow> planning_revision" where
  "new_revision s p i participant turn c decisions =
     \<lparr>rvn_Artifact = None, rvn_Reference = '''',
      rvn_SupersedesReference = (case CurrentCheckpoint s of None \<Rightarrow> '''' | Some cur \<Rightarrow> rvn_Reference cur),
      rvn_ID = i, rvn_Supersedes = pls_CurrentRevision p, rvn_ParticipantID = participant, rvn_TurnID = turn,
      rvn_ProcedureVersion = DiscoveryProcedureVersion, rvn_Content = c,
      rvn_OriginalRequest = pls_OriginalRequest p, rvn_Decisions = decisions,
      rvn_PublicationFailed = False, rvn_Published = False, rvn_Source = None\<rparr>"

definition reserve_new ::
  "collab \<Rightarrow> planning_state \<Rightarrow> string \<Rightarrow> string \<Rightarrow> string \<Rightarrow> planning_content
    \<Rightarrow> (collab_error + planning_revision) \<times> collab" where
  "reserve_new s p i participant turn c =
     (if \<not> valid_content c then (Inl ErrInvalid, s)
      else if \<not> prepared_for s participant turn then (Inl ErrInvalid, s)
      else case collect_decisions s participant turn [] (items (plc_DecisionResponseIDs c)) [] of
        None \<Rightarrow> (Inl ErrInvalid, s)
      | Some decisions \<Rightarrow>
          let r = new_revision s p i participant turn c decisions;
              reason = CheckpointInputReason s participant in
          if reason \<noteq> '''' then
            let s' = snd (reference s ''P'' i);
                rejection = \<lparr>cna_OperationID = i, cna_ParticipantID = participant, cna_TurnID = turn,
                             cna_Content = c, cna_Reason = reason\<rparr>
            in (Inl (NotApplied rejection),
                s'\<lparr>st_Planning := Some (p\<lparr>pls_NonPublications := pls_NonPublications p @ [rejection]\<rparr>)\<rparr>)
          else if plc_Status c = ''proposed''
                  \<and> (items (plc_UnresolvedDecisions c) \<noteq> [] \<or> AssessmentBlocked s participant
                     \<or> Unresolved s participant)
          then (Inl ErrInvalid, s)
          else
            let (name, s') = reference s ''P'' i;
                r' = r\<lparr>rvn_Reference := name\<rparr>
            in (Inr r', s'\<lparr>st_Planning := Some (p\<lparr>pls_Revisions := pls_Revisions p @ [r']\<rparr>)\<rparr>))"

definition ReserveCheckpoint ::
  "collab \<Rightarrow> string \<Rightarrow> string \<Rightarrow> string \<Rightarrow> planning_content \<Rightarrow> (collab_error + planning_revision) \<times> collab" where
  "ReserveCheckpoint s i participant turn c =
     (case st_Planning s of
        None \<Rightarrow> (Inl ErrInvalid, s)
      | Some p \<Rightarrow>
          if i = '''' \<or> participant = '''' \<or> turn = '''' \<or> pls_ReadyRevision p \<noteq> '''' then (Inl ErrInvalid, s)
          else case find (\<lambda>n. cna_OperationID n = i) (pls_NonPublications p) of
            Some rejection \<Rightarrow>
              if cna_ParticipantID rejection \<noteq> participant \<or> cna_TurnID rejection \<noteq> turn
                 \<or> cna_Content rejection \<noteq> c
              then (Inl ErrInvalid, s) else (Inl (NotApplied rejection), s)
          | None \<Rightarrow>
              (case prior_revision i participant turn c (pls_Revisions p) of
                 Some result \<Rightarrow> (result, s)
               | None \<Rightarrow> reserve_new s p i participant turn c))"

definition ConfirmCheckpoint :: "collab \<Rightarrow> string \<Rightarrow> co_source \<Rightarrow> (collab_error + unit) \<times> collab" where
  "ConfirmCheckpoint s i source =
     (case st_Planning s of
        None \<Rightarrow> (Inl ErrInvalid, s)
      | Some p \<Rightarrow>
          if src_Channel source = '''' \<or> src_ID source = '''' then (Inl ErrInvalid, s)
          else case find (\<lambda>r. rvn_ID r = i) (pls_Revisions p) of
            None \<Rightarrow> (Inl ErrInvalid, s)
          | Some r \<Rightarrow>
              if rvn_PublicationFailed r then (Inl ErrInvalid, s)
              else if rvn_Published r
              then (if rvn_Source r = Some source then (Inr (), s) else (Inl ErrInvalid, s))
              else (Inr (), s\<lparr>st_Planning := Some (p\<lparr>pls_Revisions := map_first (\<lambda>x. rvn_ID x = i)
                               (\<lambda>x. x\<lparr>rvn_Published := True, rvn_Source := Some source\<rparr>) (pls_Revisions p),
                             pls_CurrentRevision := i\<rparr>)\<rparr>))"

definition FailCheckpoint :: "collab \<Rightarrow> string \<Rightarrow> (collab_error + unit) \<times> collab" where
  "FailCheckpoint s i =
     (case st_Planning s of
        None \<Rightarrow> (Inl ErrInvalid, s)
      | Some p \<Rightarrow>
          if list_ex (\<lambda>r. rvn_ID r = i \<and> \<not> rvn_Published r) (pls_Revisions p)
          then (Inr (), s\<lparr>st_Planning := Some (p\<lparr>pls_Revisions :=
                  map_first (\<lambda>r. rvn_ID r = i \<and> \<not> rvn_Published r) (\<lambda>r. r\<lparr>rvn_PublicationFailed := True\<rparr>)
                    (pls_Revisions p)\<rparr>)\<rparr>)
          else (Inl ErrInvalid, s))"

definition AwaitingPlanConfirmation :: "collab \<Rightarrow> string \<Rightarrow> bool" where
  "AwaitingPlanConfirmation s participant \<longleftrightarrow>
     (case CurrentCheckpoint s of
        None \<Rightarrow> False
      | Some r \<Rightarrow>
          rvn_Published r \<and> plc_Status (rvn_Content r) = ''proposed'' \<and> rvn_ParticipantID r = participant
          \<and> \<not> Unresolved s participant \<and> \<not> AssessmentBlocked s participant \<and> ready_revision s = '''')"

section \<open>Validation\<close>

text \<open>The loop over the delivered inputs of the participant: all of them are considered, and the
  last valid confirmation of the revision is the one that counts.\<close>

definition confirms :: "collab \<Rightarrow> planning_state \<Rightarrow> string \<Rightarrow> co_input \<Rightarrow> bool" where
  "confirms s p revision inp \<longleftrightarrow>
     inp_Kind inp = ''confirm-plan'' \<and> inp_Target inp = revision
     \<and> inp_ID inp \<notin> set (pls_InvalidatedConfirmations p)
     \<and> (case latestAssessment s (inp_ID inp) of None \<Rightarrow> False | Some a \<Rightarrow> asm_Disposition a = ''confirmed'')"

definition consider_input ::
  "collab \<Rightarrow> planning_state \<Rightarrow> string \<Rightarrow> string \<Rightarrow> co_input \<Rightarrow> plan_revalidation \<Rightarrow> plan_revalidation" where
  "consider_input s p participant revision inp v =
     (if \<not> delivered_input participant inp then v
      else
        let v' = v\<lparr>rvl_ConsideredInputIDs := push (rvl_ConsideredInputIDs v) (inp_ID inp)\<rparr>
        in if confirms s p revision inp then v'\<lparr>rvl_ConfirmationInputID := inp_ID inp\<rparr> else v')"

definition revalidate ::
  "collab \<Rightarrow> planning_state \<Rightarrow> string \<Rightarrow> string \<Rightarrow> string \<Rightarrow> string \<Rightarrow> string \<Rightarrow> string \<Rightarrow> plan_revalidation" where
  "revalidate s p operation revision participant turn commit evidence =
     fold (consider_input s p participant revision) (st_Inputs s)
       \<lparr>rvl_SourceInvocationID = operation, rvl_RevisionID = revision, rvl_ParticipantID = participant,
        rvl_TurnID = turn, rvl_RepositoryCommit = commit, rvl_Evidence = evidence,
        rvl_ConfirmationInputID = '''', rvl_ConsideredInputIDs = None\<rparr>"

definition ValidatePlanning ::
  "collab \<Rightarrow> string \<Rightarrow> string \<Rightarrow> string \<Rightarrow> string \<Rightarrow> string \<Rightarrow> string \<Rightarrow> bool \<Rightarrow> (collab_error + unit) \<times> collab" where
  "ValidatePlanning s operation revision participant turn commit evidence resolved =
     (if operation = '''' \<or> \<not> resolved \<or> \<not> planningCommit commit \<or> trims_to_empty evidence
         \<or> \<not> utf8_valid_string evidence \<or> Pending s participant \<or> Unresolved s participant
         \<or> AssessmentBlocked s participant then (Inl ErrInvalid, s)
      else case (st_Planning s, CurrentCheckpoint s) of
        (Some p, Some r) \<Rightarrow>
          if \<not> rvn_Published r \<or> rvn_ID r \<noteq> revision \<or> rvn_ParticipantID r \<noteq> participant
             \<or> plc_Status (rvn_Content r) \<noteq> ''proposed'' then (Inl ErrInvalid, s)
          else if \<not> prepared_for s participant turn then (Inl ErrInvalid, s)
          else
            let v = revalidate s p operation revision participant turn commit evidence in
            if rvl_ConfirmationInputID v = '''' then (Inl ErrInvalid, s)
            else (case find (\<lambda>old. rvl_TurnID old = turn) (pls_Revalidations p) of
                Some old \<Rightarrow> if old = v then (Inr (), s) else (Inl ErrInvalid, s)
              | None \<Rightarrow>
                  if pls_ReadyRevision p \<noteq> '''' then (Inl ErrInvalid, s)
                  else (Inr (), s\<lparr>st_Planning := Some (p\<lparr>pls_Revalidations := pls_Revalidations p @ [v]\<rparr>)\<rparr>))
      | _ \<Rightarrow> (Inl ErrInvalid, s))"

definition PlanningValidationCurrent :: "collab \<Rightarrow> plan_revalidation \<Rightarrow> bool" where
  "PlanningValidationCurrent s v \<longleftrightarrow>
     (case st_Planning s of
        None \<Rightarrow> False
      | Some p \<Rightarrow>
          if pls_CurrentRevision p \<noteq> rvl_RevisionID v \<or> Pending s (rvl_ParticipantID v)
             \<or> AssessmentBlocked s (rvl_ParticipantID v) \<or> Unresolved s (rvl_ParticipantID v)
             \<or> rvl_ConfirmationInputID v \<in> set (pls_InvalidatedConfirmations p) then False
          else case latestAssessment s (rvl_ConfirmationInputID v) of
            None \<Rightarrow> False
          | Some a \<Rightarrow>
              asm_Disposition a = ''confirmed''
              \<and> list_all (\<lambda>inp. inp_ParticipantID inp = rvl_ParticipantID v
                     \<longrightarrow> inp_ID inp \<in> set (items (rvl_ConsideredInputIDs v))) (st_Inputs s))"

end
