(* ===== verification/Collab_Projection.thy ===== *)
theory Collab_Projection
  imports Collab_Planning
begin

text \<open>
  What a Turn is told of the conversation (\<open>collaboration/projection.go\<close>): the records of each
  collection, the projection that leaves them out when they are too large for the envelope, and the
  pages a large record is read in. The JSON encoding is a parameter: of a collection only which
  records it holds matters here, of an encoded record only its bytes.
\<close>

section \<open>Records and the projection\<close>

definition MaxProjectionBytes :: nat where
  "MaxProjectionBytes = 96 * 1024"

definition RecordChunkRunes :: nat where
  "RecordChunkRunes = 4096"

datatype co_record =
    InputRecord co_input | RequestRecord original_request | RevisionRecord planning_revision
  | AssessmentRecord assessment | RoundRecord co_round

definition Records :: "collab \<Rightarrow> string \<Rightarrow> string \<Rightarrow> string \<Rightarrow> co_record list" where
  "Records s participant turn collection =
     (if collection = ''human_input'' \<or> collection = ''human_input_history'' then
        concat (map (\<lambda>inp.
          if inp_ParticipantID inp \<noteq> participant \<or> inp_DeliveredTo inp = '''' then []
          else if collection = ''human_input'' \<and> inp_DeliveredTo inp \<noteq> turn then []
          else if collection = ''human_input_history'' \<and> inp_DeliveredTo inp = turn then []
          else [InputRecord (inp\<lparr>inp_DeliveryPending := False\<rparr>)]) (st_Inputs s))
      else if collection = ''planning_request'' then
        (case st_Planning s of None \<Rightarrow> [] | Some p \<Rightarrow> [RequestRecord (pls_OriginalRequest p)])
      else if collection = ''planning_history'' then
        (case st_Planning s of None \<Rightarrow> [] | Some p \<Rightarrow> map RevisionRecord (pls_Revisions p))
      else if collection = ''assessment_history'' then map AssessmentRecord (st_Assessments s)
      else if collection = ''clarification_history'' then map RoundRecord (st_Rounds s)
      else [])"

record projection =
  prj_RetrievalRequired :: bool
  prj_Counts :: "(string \<times> nat) list"
  prj_Instruction :: string

definition collections :: "string list" where
  "collections = [''human_input'', ''human_input_history'', ''clarification_history'', ''planning_request'',
     ''planning_history'', ''assessment_history'']"

definition retrieval_instruction :: string where
  "retrieval_instruction = ''Before interpreting input or handing off, retrieve every human_input record with get_collaboration_record, starting index 0 and following next_offset/next_index. All pending input is frozen for this Turn; there is no collection delay. Retrieve older human_input_history and clarification_history as needed. Concatenate content chunks verbatim with one record_sha256 per record, then parse the JSON; receipt is not interpretation. Handoff remains fenced until every required chunk has a successful scoped read record.''"

definition defer_reading :: "string \<Rightarrow> string \<Rightarrow> co_input \<Rightarrow> co_input" where
  "defer_reading participant turn inp =
     (if inp_ParticipantID inp = participant \<and> inp_DeliveredTo inp = turn
      then inp\<lparr>inp_DeliveryPending := True\<rparr> else inp)"

text \<open>\<open>encoded_size\<close> is the length of the encoded object.\<close>

definition Project ::
  "((string \<times> co_record list) list \<Rightarrow> nat) \<Rightarrow> collab \<Rightarrow> string \<Rightarrow> string
    \<Rightarrow> ((string \<times> co_record list) list \<times> projection) \<times> collab" where
  "Project encoded_size s participant turn =
     (let object = map (\<lambda>name. (name, Records s participant turn name)) collections;
          counts = map (\<lambda>(name, records). (name, length records)) object
      in if encoded_size object > MaxProjectionBytes
         then ((map (\<lambda>(name, _). (name, [])) object,
                \<lparr>prj_RetrievalRequired = True, prj_Counts = counts, prj_Instruction = retrieval_instruction\<rparr>),
               s\<lparr>st_Inputs := map (defer_reading participant turn) (st_Inputs s)\<rparr>)
         else ((object, \<lparr>prj_RetrievalRequired = False, prj_Counts = counts, prj_Instruction = ''''\<rparr>), s))"

section \<open>Pages\<close>

text \<open>\<open>string(runes)\<close>: each rune in UTF-8, an invalid one as U+FFFD.\<close>

definition utf8_encode :: "nat \<Rightarrow> nat list" where
  "utf8_encode r =
     (if r < 128 then [r]
      else if r < 2048 then [192 + r div 64, 128 + r mod 64]
      else if 55296 \<le> r \<and> r \<le> 57343 \<or> 1114111 < r then [239, 191, 189]
      else if r < 65536 then [224 + r div 4096, 128 + r div 64 mod 64, 128 + r mod 64]
      else [240 + r div 262144, 128 + r div 4096 mod 64, 128 + r div 64 mod 64, 128 + r mod 64])"

definition runes_string :: "nat list \<Rightarrow> string" where
  "runes_string rs = map char_of (concat (map utf8_encode rs))"

record record_page =
  pg_RecordSHA256 :: string
  pg_Content :: string
  pg_Index :: int
  pg_Total :: int
  pg_NextOffset :: "int option"
  pg_NextIndex :: "int option"

definition PageRecord :: "(string \<Rightarrow> string) \<Rightarrow> string \<Rightarrow> int \<Rightarrow> int \<Rightarrow> int \<Rightarrow> collab_error + record_page" where
  "PageRecord sha256 raw count index offset =
     (if count < 0 \<or> index < 0 \<or> index \<ge> count \<or> offset < 0 then Inl ErrInvalid
      else if \<not> utf8_valid_string raw then Inl ErrInvalid
      else
        let runes = go_runes raw in
        if offset \<ge> int (length runes) then Inl ErrInvalid
        else
          let end' = min (int (length runes)) (offset + int RecordChunkRunes) in
          Inr \<lparr>pg_RecordSHA256 = sha256 raw,
               pg_Content = runes_string (drop (nat offset) (take (nat end') runes)),
               pg_Index = index, pg_Total = count,
               pg_NextOffset = (if end' < int (length runes) then Some end' else None),
               pg_NextIndex = (if end' < int (length runes) then None
                               else if index + 1 < count then Some (index + 1) else None)\<rparr>)"

section \<open>Pages put a record together again\<close>

text \<open>Encoding undoes decoding.\<close>

lemma sextet: "z < 64 \<Longrightarrow> (q * 64 + z) div 64 = q \<and> (q * 64 + z) mod 64 = (z :: nat)"
  by simp

lemma utf8_encode_decode1:
  assumes "utf8_decode1 (b # bs) = (r, n, True)" "b < 256"
  shows "utf8_encode r = b # take (n - 1) bs"
proof -
  consider "b < 128" | "194 \<le> b" "b \<le> 223" | "224 \<le> b" "b \<le> 239" | "240 \<le> b" "b \<le> 244"
    using assms(1) by (force simp: utf8_decode1_def)
  then show ?thesis
  proof cases
    case 1
    with assms show ?thesis by (auto simp: utf8_decode1_def utf8_encode_def)
  next
    case 2
    with assms obtain b1 bs' where bs: "bs = b1 # bs'" "utf8_cont b1" "r = (b - 192) * 64 + (b1 - 128)" "n = 2"
      by (auto simp: utf8_decode1_def split: list.split_asm if_split_asm)
    define x where "x = b - 192"
    define y where "y = b1 - 128"
    have xy: "b = 192 + x" "b1 = 128 + y" "r = x * 64 + y" "y < 64" "2 \<le> x" "x < 32"
      using 2 bs by (auto simp: x_def y_def utf8_cont_def)
    then have "r div 64 = x" "r mod 64 = y" by (simp_all add: xy(3))
    with xy bs(1,4) show ?thesis by (auto simp: utf8_encode_def)
  next
    case 3
    with assms obtain b1 b2 bs' where bs: "bs = b1 # b2 # bs'" "utf8_second b b1" "utf8_cont b2"
      "r = (b - 224) * 4096 + (b1 - 128) * 64 + (b2 - 128)" "n = 3"
      by (auto simp: utf8_decode1_def split: list.split_asm if_split_asm)
    define x where "x = b - 224"
    define y where "y = b1 - 128"
    define z where "z = b2 - 128"
    have xyz: "b = 224 + x" "b1 = 128 + y" "b2 = 128 + z" "r = (x * 64 + y) * 64 + z" "y < 64" "z < 64" "x < 16"
      "x = 0 \<longrightarrow> 32 \<le> y" "x = 13 \<longrightarrow> y < 32"
      using 3 bs by (auto simp: x_def y_def z_def utf8_cont_def utf8_second_def split: if_split_asm)
    have "r div 64 = x * 64 + y" "r mod 64 = z" using sextet [OF xyz(6), of "x * 64 + y"] xyz(4) by simp_all
    moreover from this(1) have "r div 64 mod 64 = y" "r div 4096 = x"
      using xyz(5) div_mult2_eq [of r 64 64] by simp_all
    moreover have "2048 \<le> r" "r < 65536"
      using xyz(4-8) by (cases "x = 0"; simp)+
    moreover have "\<not> (55296 \<le> r \<and> r \<le> 57343)"
      using xyz(4-9) by (cases x "13 :: nat" rule: linorder_cases) auto
    ultimately show ?thesis using xyz bs(1,5) by (simp add: utf8_encode_def)
  next
    case 4
    with assms obtain b1 b2 b3 bs' where bs: "bs = b1 # b2 # b3 # bs'" "utf8_second b b1" "utf8_cont b2" "utf8_cont b3"
      "r = (b - 240) * 262144 + (b1 - 128) * 4096 + (b2 - 128) * 64 + (b3 - 128)" "n = 4"
      by (auto simp: utf8_decode1_def split: list.split_asm if_split_asm)
    define x where "x = b - 240"
    define y where "y = b1 - 128"
    define z where "z = b2 - 128"
    define w where "w = b3 - 128"
    have r: "r = ((x * 64 + y) * 64 + z) * 64 + w"
      unfolding bs(5) x_def [symmetric] y_def [symmetric] z_def [symmetric] w_def [symmetric] by simp
    have xyzw: "b = 240 + x" "b1 = 128 + y" "b2 = 128 + z" "b3 = 128 + w" "r = ((x * 64 + y) * 64 + z) * 64 + w"
      "y < 64" "z < 64" "w < 64" "x \<le> 4" "x = 0 \<longrightarrow> 16 \<le> y" "x = 4 \<longrightarrow> y < 16"
      using 4 bs(2-4) r by (auto simp: x_def y_def z_def w_def utf8_cont_def utf8_second_def split: if_split_asm)
    have "r div 64 = (x * 64 + y) * 64 + z" "r mod 64 = w" using sextet [OF xyzw(8), of "(x * 64 + y) * 64 + z"] xyzw(5) by simp_all
    moreover from this(1) have "r div 64 mod 64 = z" "r div 4096 = x * 64 + y"
      using sextet [OF xyzw(7), of "x * 64 + y"] div_mult2_eq [of r 64 64] by simp_all
    moreover from this(2) have "r div 4096 mod 64 = y" "r div 262144 = x"
      using sextet [OF xyzw(6), of x] div_mult2_eq [of r 4096 64] by simp_all
    moreover have "65536 \<le> r" using xyzw(5-10) by (cases "x = 0") auto
    moreover have "r \<le> 1114111" using xyzw(5-11) by (cases "x = 4") auto
    ultimately show ?thesis using xyzw bs(1,6) by (simp add: utf8_encode_def)
  qed
qed

lemma utf8_encode_segments:
  assumes "list_all (\<lambda>(_, _, ok). ok) (utf8_segments bs)" "\<forall>b \<in> set bs. b < 256"
  shows "concat (map (\<lambda>(r, _, _). utf8_encode r) (utf8_segments bs)) = bs"
  using assms
proof (induction bs rule: utf8_segments.induct)
  case (2 b bs)
  let ?d = "utf8_decode1 (b # bs)" and ?n = "fst (snd (utf8_decode1 (b # bs))) - 1"
  have "utf8_encode (fst ?d) = b # take ?n bs"
    using utf8_encode_decode1 [of b bs "fst ?d" "fst (snd ?d)"] "2.prems" by (simp add: prod_eq_iff)
  moreover have "\<forall>b \<in> set (drop ?n bs). b < 256" using "2.prems"(2) by (auto dest: in_set_dropD)
  ultimately show ?case using "2.IH" "2.prems"(1) by simp
qed simp

lemma runes_string_runes:
  assumes "utf8_valid_string raw"
  shows "runes_string (go_runes raw) = raw"
proof -
  have "concat (map (\<lambda>(r, _, _). utf8_encode r) (utf8_segments (go_bytes raw))) = go_bytes raw"
    by (rule utf8_encode_segments) (use assms in \<open>auto simp: utf8_valid_string_def go_bytes_def\<close>)
  then have "concat (map utf8_encode (go_runes raw)) = go_bytes raw"
    by (simp add: go_runes_def o_def case_prod_unfold)
  then show ?thesis by (simp add: runes_string_def go_bytes_def o_def)
qed

lemma runes_string_append: "runes_string (rs @ ts) = runes_string rs @ runes_string ts"
  by (simp add: runes_string_def)

text \<open>A reader that follows \<open>next_offset\<close> and concatenates the contents; the second result is the
  \<open>next_index\<close> of the last page.\<close>

partial_function (option) read_record ::
  "(string \<Rightarrow> string) \<Rightarrow> string \<Rightarrow> int \<Rightarrow> int \<Rightarrow> int \<Rightarrow> (string \<times> int option) option" where
  "read_record sha256 raw count index offset =
     (case PageRecord sha256 raw count index offset of
        Inl _ \<Rightarrow> None
      | Inr page \<Rightarrow>
          (case pg_NextOffset page of
             None \<Rightarrow> Some (pg_Content page, pg_NextIndex page)
           | Some next_offset \<Rightarrow>
               Option.bind (read_record sha256 raw count index next_offset)
                 (\<lambda>(rest, next_index). Some (pg_Content page @ rest, next_index))))"

lemma read_record_from:
  assumes "utf8_valid_string raw" "0 \<le> index" "index < count" "n < length (go_runes raw)"
  shows "read_record sha256 raw count index (int n)
    = Some (runes_string (drop n (go_runes raw)), if index + 1 < count then Some (index + 1) else None)"
  using assms(4)
proof (induction "length (go_runes raw) - n" arbitrary: n rule: less_induct)
  case less
  let ?rs = "go_runes raw"
  show ?case
  proof (cases "n + RecordChunkRunes < length ?rs")
    case True
    have "read_record sha256 raw count index (int (n + RecordChunkRunes))
        = Some (runes_string (drop (n + RecordChunkRunes) ?rs), if index + 1 < count then Some (index + 1) else None)"
      by (rule less.hyps) (use True in \<open>simp_all add: RecordChunkRunes_def\<close>)
    moreover have "runes_string (drop n (take (n + RecordChunkRunes) ?rs)) @ runes_string (drop (n + RecordChunkRunes) ?rs)
        = runes_string (drop n ?rs)"
      by (metis append_take_drop_id drop_drop add.commute drop_take add_diff_cancel_left' runes_string_append)
    moreover have "PageRecord sha256 raw count index (int n)
        = Inr \<lparr>pg_RecordSHA256 = sha256 raw, pg_Content = runes_string (drop n (take (n + RecordChunkRunes) ?rs)),
            pg_Index = index, pg_Total = count, pg_NextOffset = Some (int (n + RecordChunkRunes)), pg_NextIndex = None\<rparr>"
      using assms(1-3) True less.prems by (simp add: PageRecord_def Let_def nat_add_distrib)
    ultimately show ?thesis by (subst read_record.simps) simp
  next
    case False
    then have "PageRecord sha256 raw count index (int n)
        = Inr \<lparr>pg_RecordSHA256 = sha256 raw, pg_Content = runes_string (drop n ?rs),
            pg_Index = index, pg_Total = count, pg_NextOffset = None,
            pg_NextIndex = (if index + 1 < count then Some (index + 1) else None)\<rparr>"
      using assms(1-3) less.prems by (simp add: PageRecord_def Let_def)
    then show ?thesis by (subst read_record.simps) simp
  qed
qed

text \<open>C35 (pages reassemble the record). Reading a nonempty, valid UTF-8 record from offset 0 along
  \<open>next_offset\<close> ends, the concatenated contents are exactly the encoded record, whatever the chunk
  boundaries cut, and the last page leads to the next record, if there is one.\<close>

theorem pages_reassemble:
  assumes "utf8_valid_string raw" "raw \<noteq> ''''" "0 \<le> index" "index < count"
  shows "read_record sha256 raw count index 0
    = Some (raw, if index + 1 < count then Some (index + 1) else None)"
proof -
  have "go_runes raw \<noteq> []"
    using runes_string_runes [OF assms(1)] assms(2) by (auto simp: runes_string_def)
  with read_record_from [OF assms(1,3,4), of 0] runes_string_runes [OF assms(1)] show ?thesis by simp
qed

theorem pages_reassemble_witness:
  "read_record (\<lambda>_. ''00'') ''{}'' 2 0 0 = Some (''{}'', Some 1)"
  using pages_reassemble [of "''{}''" 0 2 "\<lambda>_. ''00''"] by (simp add: go_simps)

end
