(* ===== verification/Collab_Store.thy ===== *)
theory Collab_Store
  imports Collab_Projection Workflow_Definition
begin

text \<open>
  The transactions on a conversation (\<open>internal/store\<close>: \<open>collaboration.go\<close>, \<open>planning.go\<close>,
  \<open>collaboration_artifact.go\<close>, \<open>collaboration_receipt.go\<close>, \<open>collaboration_assessment.go\<close>).

  A transaction locks the Workflow, reads the state, changes it and writes it back; here it maps the
  stored state to the result and the state left behind, which is the old one when the transaction
  returns an error and rolls back. What a query of another table returns is an argument, \<open>None\<close> when
  it fails or finds no row. JSON is represented by the value that is encoded.
\<close>

datatype store_error =
    CollabError collab_error | ErrMutationOperationConflict | ErrMutationAdmissionClosed
  | ErrAgentTurnRecoveryUnsettled | ErrWorkflowDecisionInvalid | ErrDatabase

text \<open>The locked Turn on whose lease an operation runs.\<close>

record locked_turn =
  lt_ID :: string
  lt_ParticipantID :: string
  lt_MutationAdmissionOpen :: bool
  lt_Status :: string

definition admits :: "locked_turn \<Rightarrow> bool" where
  "admits turn \<longleftrightarrow> lt_MutationAdmissionOpen turn \<and> lt_Status turn = ''RUNNING''"

definition TrimPrefix :: "string \<Rightarrow> string \<Rightarrow> string" where
  "TrimPrefix s prefix = (if take (length prefix) s = prefix then drop (length prefix) s else s)"

text \<open>An operation of the conversation inside a transaction.\<close>

definition transact :: "collab \<Rightarrow> (collab_error + 'a) \<times> collab \<Rightarrow> (store_error + 'a) \<times> collab" where
  "transact s result = (case result of (Inl e, _) \<Rightarrow> (Inl (CollabError e), s) | (Inr x, s') \<Rightarrow> (Inr x, s'))"

section \<open>Question rounds\<close>

text \<open>An earlier round whose tool invocation failed is failed too; \<open>ledger\<close> says whether an
  invocation failed.\<close>

definition fail_proven :: "(string \<Rightarrow> bool option) \<Rightarrow> collab \<Rightarrow> store_error + collab" where
  "fail_proven ledger s =
     foldE (\<lambda>prior t.
        if rnd_Published prior \<or> rnd_PublicationFailed prior then Inr t
        else case ledger (TrimPrefix (rnd_ID prior) ''R'') of
          None \<Rightarrow> Inl ErrDatabase
        | Some failed \<Rightarrow>
            if failed then (case FailPublication t (rnd_ID prior) of
                (Inl e, _) \<Rightarrow> Inl (CollabError e) | (Inr _, t') \<Rightarrow> Inr t')
            else Inr t) (st_Rounds s) s"

text \<open>\<open>invocation\<close> is the reserved tool invocation: its identity, the expected head, and the decoded
  introduction of its request.\<close>

definition RequestClarification ::
  "(string \<Rightarrow> bool option) \<Rightarrow> collab \<Rightarrow> locked_turn \<Rightarrow> (string \<times> string \<times> string option) option
    \<Rightarrow> question list \<Rightarrow> (store_error + co_round option) \<times> collab" where
  "RequestClarification ledger s turn invocation questions =
     (if \<not> admits turn then (Inl ErrMutationAdmissionClosed, s)
      else case invocation of
        None \<Rightarrow> (Inl ErrDatabase, s)
      | Some (mutationID, head, introduction) \<Rightarrow>
          let participant = lt_ParticipantID turn; i = ''R'' @ mutationID in
          if questions = [] \<and> (Pending s participant \<or> AwaitingPlanConfirmation s participant) then (Inr None, s)
          else (case find (\<lambda>r. rnd_ID r = i) (st_Rounds s) of
            Some r \<Rightarrow> (Inr (Some r), s)
          | None \<Rightarrow>
              (case fail_proven ledger s of
                 Inl e \<Rightarrow> (Inl e, s)
               | Inr s1 \<Rightarrow>
                   (case introduction of
                      None \<Rightarrow> (Inl ErrDatabase, s)
                    | Some intro \<Rightarrow>
                        (case RequestRound s1 i participant (lt_ID turn) head questions of
                           (Inl e, _) \<Rightarrow> (Inl (CollabError e), s)
                         | (Inr r, s2) \<Rightarrow>
                             (Inr (Some (r\<lparr>rnd_Introduction := intro\<rparr>)),
                              s2\<lparr>st_Rounds := map (\<lambda>x. if rnd_ID x = rnd_ID r then x\<lparr>rnd_Introduction := intro\<rparr> else x)
                                               (st_Rounds s2)\<rparr>))))))"

definition ConfirmClarificationPublication ::
  "collab \<Rightarrow> string \<Rightarrow> co_source \<Rightarrow> (store_error + unit) \<times> collab" where
  "ConfirmClarificationPublication s i source = transact s (PublishRound s i source)"

text \<open>\<open>intent\<close> is the decoded request of the reserved invocation.\<close>

definition ResolveClarification ::
  "collab \<Rightarrow> locked_turn \<Rightarrow> bool \<Rightarrow> (string \<times> resolution list) option \<Rightarrow> string \<Rightarrow> string \<Rightarrow> resolution list
    \<Rightarrow> (store_error + unit) \<times> collab" where
  "ResolveClarification s turn valid_uuid intent operation rid resolutions =
     (if \<not> admits turn then (Inl ErrMutationAdmissionClosed, s)
      else if \<not> valid_uuid \<or> resolutions = [] then (Inl (CollabError ErrInvalid), s)
      else if intent = None then (Inl ErrDatabase, s)
      else if intent \<noteq> Some (rid, resolutions) then (Inl ErrMutationOperationConflict, s)
      else if list_ex (\<lambda>r. rnd_ID r = rid \<and> HasResolutionEffect r operation resolutions) (st_Rounds s)
      then (Inr (), s)
      else transact s (Resolve s rid (lt_ID turn)
             (map (\<lambda>x. x\<lparr>res_OriginOperationID := operation\<rparr>) resolutions)))"

text \<open>The absence of a publication is proven only once the exact old Turn is stopped and fenced:
  \<open>stopped\<close> is the answer of the query over its row.\<close>

definition ReconcileClarificationNonPublication ::
  "collab \<Rightarrow> string \<Rightarrow> string \<Rightarrow> bool option \<Rightarrow> (store_error + bool) \<times> collab" where
  "ReconcileClarificationNonPublication s turnID operation stopped =
     (let i = ''R'' @ operation in
      if list_ex (\<lambda>r. rnd_ID r = i \<and> (rnd_Published r \<or> rnd_Artifact r \<noteq> None)) (st_Rounds s) then (Inr False, s)
      else case stopped of
        None \<Rightarrow> (Inl ErrDatabase, s)
      | Some False \<Rightarrow> (Inl ErrAgentTurnRecoveryUnsettled, s)
      | Some True \<Rightarrow>
          (case foldE (\<lambda>r t.
             if rnd_ID r \<noteq> i then Inr t
             else if rnd_TurnID r \<noteq> turnID then Inl ErrInvalid
             else (case FailPublication t (rnd_ID r) of (Inl e, _) \<Rightarrow> Inl e | (Inr _, t') \<Rightarrow> Inr t'))
             (st_Rounds s) s of
             Inl e \<Rightarrow> (Inl (CollabError e), s)
           | Inr s' \<Rightarrow> (Inr True, s')))"

section \<open>Artifacts and receipts\<close>

text \<open>\<open>SaveCollaborationArtifact\<close> freezes the rendered payload of a round or a checkpoint: the loops
  leave \<open>target\<close> at the last match, a checkpoint before a round.\<close>

definition map_last :: "('a \<Rightarrow> bool) \<Rightarrow> ('a \<Rightarrow> 'a) \<Rightarrow> 'a list \<Rightarrow> 'a list" where
  "map_last P f xs = rev (map_first P f (rev xs))"

definition artifact_round :: "locked_turn \<Rightarrow> string \<Rightarrow> co_round \<Rightarrow> bool" where
  "artifact_round turn i r \<longleftrightarrow>
     rnd_ID r = i \<and> rnd_TurnID r = lt_ID turn \<and> rnd_ParticipantID r = lt_ParticipantID turn
     \<and> \<not> rnd_PublicationFailed r"

definition artifact_revision :: "locked_turn \<Rightarrow> string \<Rightarrow> planning_revision \<Rightarrow> bool" where
  "artifact_revision turn i r \<longleftrightarrow>
     rvn_ID r = i \<and> rvn_TurnID r = lt_ID turn \<and> rvn_ParticipantID r = lt_ParticipantID turn
     \<and> \<not> rvn_PublicationFailed r"

definition freeze_artifact ::
  "collab \<Rightarrow> rendered_publication option \<Rightarrow> rendered_publication \<Rightarrow> collab \<Rightarrow> (store_error + unit) \<times> collab" where
  "freeze_artifact s current artifact s' =
     (if pub_Body artifact = '''' \<or> pub_Marker artifact = '''' then (Inl (CollabError ErrInvalid), s)
      else case current of
        Some frozen \<Rightarrow> if frozen = artifact then (Inr (), s) else (Inl ErrMutationOperationConflict, s)
      | None \<Rightarrow> (Inr (), s'))"

definition SaveCollaborationArtifact ::
  "collab \<Rightarrow> locked_turn \<Rightarrow> string \<Rightarrow> rendered_publication \<Rightarrow> (store_error + unit) \<times> collab" where
  "SaveCollaborationArtifact s turn i artifact =
     (if \<not> admits turn then (Inl ErrMutationAdmissionClosed, s)
      else
        let revisions = (case st_Planning s of None \<Rightarrow> [] | Some p \<Rightarrow> pls_Revisions p) in
        case find (artifact_revision turn i) (rev revisions) of
          Some r \<Rightarrow>
            freeze_artifact s (rvn_Artifact r) artifact
              (s\<lparr>st_Planning := map_option (\<lambda>p. p\<lparr>pls_Revisions := map_last (artifact_revision turn i)
                   (\<lambda>x. x\<lparr>rvn_Artifact := Some artifact\<rparr>) (pls_Revisions p)\<rparr>) (st_Planning s)\<rparr>)
        | None \<Rightarrow>
            (case find (artifact_round turn i) (rev (st_Rounds s)) of
               Some r \<Rightarrow>
                 freeze_artifact s (rnd_Artifact r) artifact
                   (s\<lparr>st_Rounds := map_last (artifact_round turn i) (\<lambda>x. x\<lparr>rnd_Artifact := Some artifact\<rparr>)
                        (st_Rounds s)\<rparr>)
             | None \<Rightarrow> (Inl (CollabError ErrInvalid), s)))"

text \<open>One contender at a time owns the attempt to publish a receipt: \<open>ReserveCollaborationReceipt\<close>
  returns the number of the attempt it grants, or 0 to a contender that may only reconcile.\<close>

definition grant_attempt :: "rendered_publication \<Rightarrow> co_receipt \<Rightarrow> co_receipt" where
  "grant_attempt artifact r =
     r\<lparr>rct_Artifact := (case rct_Artifact r of None \<Rightarrow> Some artifact | Some a \<Rightarrow> Some a),
       rct_PublicationAttempt := rct_PublicationAttempt r + 1, rct_PublicationRejected := False\<rparr>"

definition ReserveCollaborationReceipt ::
  "collab \<Rightarrow> string \<Rightarrow> rendered_publication \<Rightarrow> (store_error + (rendered_publication \<times> u64)) \<times> collab" where
  "ReserveCollaborationReceipt s i artifact =
     (case find (\<lambda>r. rct_ID r = i) (st_Receipts s) of
        None \<Rightarrow> (Inl (CollabError ErrInvalid), s)
      | Some r \<Rightarrow>
          (case (rct_Artifact r, rct_PublicationRejected r) of
             (Some frozen, False) \<Rightarrow> (Inr (frozen, 0), s)
           | _ \<Rightarrow>
               if pub_Body artifact = '''' \<or> pub_Marker artifact = '''' then (Inl (CollabError ErrInvalid), s)
               else (Inr (case rct_Artifact r of None \<Rightarrow> artifact | Some a \<Rightarrow> a, rct_PublicationAttempt r + 1),
                     s\<lparr>st_Receipts := map_first (\<lambda>r. rct_ID r = i) (grant_attempt artifact) (st_Receipts s)\<rparr>)))"

definition RejectCollaborationReceipt :: "collab \<Rightarrow> string \<Rightarrow> u64 \<Rightarrow> (store_error + unit) \<times> collab" where
  "RejectCollaborationReceipt s i attempt =
     (case find (\<lambda>r. rct_ID r = i) (st_Receipts s) of
        None \<Rightarrow> (Inl (CollabError ErrInvalid), s)
      | Some r \<Rightarrow>
          if attempt = 0 \<or> rct_Artifact r = None \<or> rct_PublicationAttempt r \<noteq> attempt
          then (Inl (CollabError ErrInvalid), s)
          else (Inr (), s\<lparr>st_Receipts := map_first (\<lambda>r. rct_ID r = i) (\<lambda>r. r\<lparr>rct_PublicationRejected := True\<rparr>)
                            (st_Receipts s)\<rparr>))"

section \<open>Reading the records of a batch\<close>

text \<open>\<open>getCollaborationRecordTx\<close>: \<open>counts\<close> are the counts frozen in the Turn's projection (\<open>None\<close> if
  its configuration cannot be read), \<open>encode\<close> the database's encoding of a record. A query past the
  end of an array column yields NULL, hence no bytes; a query over the inputs yields no row.\<close>

definition getCollaborationRecord ::
  "(co_record \<Rightarrow> string) \<Rightarrow> collab \<Rightarrow> string \<Rightarrow> string \<Rightarrow> (string \<Rightarrow> int option) option \<Rightarrow> string \<Rightarrow> int
    \<Rightarrow> store_error + (string \<times> co_record option \<times> int)" where
  "getCollaborationRecord encode s participant turn counts collection index =
     (case counts of
        None \<Rightarrow> Inl ErrDatabase
      | Some limits \<Rightarrow>
          (case limits collection of
             None \<Rightarrow> Inl (CollabError ErrInvalid)
           | Some limit \<Rightarrow>
               if index < 0 \<or> index \<ge> limit then Inl (CollabError ErrInvalid)
               else if collection \<notin> set collections then Inl (CollabError ErrInvalid)
               else
                 let records = Records s participant turn collection;
                     position = (if collection = ''planning_request'' then 0 else nat index) in
                 if position < length records
                 then Inr (encode (records ! position), Some (records ! position), limit)
                 else if collection = ''human_input'' \<or> collection = ''human_input_history'' then Inl ErrDatabase
                 else Inr ('''', None, limit)))"

definition GetCollaborationRecord ::
  "(string \<Rightarrow> string) \<Rightarrow> (co_record \<Rightarrow> string) \<Rightarrow> collab \<Rightarrow> string \<Rightarrow> string \<Rightarrow> (string \<Rightarrow> int option) option
    \<Rightarrow> string \<Rightarrow> int \<Rightarrow> int \<Rightarrow> store_error + record_page" where
  "GetCollaborationRecord sha256 encode s participant turn counts collection index offset =
     (case getCollaborationRecord encode s participant turn counts collection index of
        Inl e \<Rightarrow> Inl e
      | Inr (raw, _, count) \<Rightarrow>
          (case PageRecord sha256 raw count index offset of Inl e \<Rightarrow> Inl (CollabError e) | Inr page \<Rightarrow> Inr page))"

text \<open>\<open>recordCollaborationDeliveryTx\<close>: \<open>reads\<close> are the offsets of the Turn's successful reads of the
  record with this fingerprint. Only when every chunk was read is the input delivered.\<close>

definition chunk_offsets :: "nat \<Rightarrow> int list \<Rightarrow> int list" where
  "chunk_offsets len reads =
     remdups (filter (\<lambda>o'. 0 \<le> o' \<and> o' < int len \<and> o' mod int RecordChunkRunes = 0) reads)"

definition recordCollaborationDelivery ::
  "(string \<Rightarrow> string) \<Rightarrow> (co_record \<Rightarrow> string) \<Rightarrow> collab \<Rightarrow> locked_turn \<Rightarrow> (string \<Rightarrow> int option) option
    \<Rightarrow> string \<Rightarrow> int \<Rightarrow> int \<Rightarrow> record_page \<Rightarrow> int list \<Rightarrow> (store_error + unit) \<times> collab" where
  "recordCollaborationDelivery sha256 encode s turn counts collection index offset actual reads =
     (if collection \<noteq> ''human_input'' then (Inr (), s)
      else case getCollaborationRecord encode s (lt_ParticipantID turn) (lt_ID turn) counts collection index of
        Inl e \<Rightarrow> (Inl e, s)
      | Inr (raw, rec, count) \<Rightarrow>
          (case rec of
             Some (InputRecord inp) \<Rightarrow>
               (case PageRecord sha256 raw count index offset of
                  Inl e \<Rightarrow> (Inl (CollabError e), s)
                | Inr expected \<Rightarrow>
                    if expected \<noteq> actual then (Inl (CollabError ErrInvalid), s)
                    else
                      let len = length (go_runes raw) in
                      if length (chunk_offsets len reads) \<noteq> (len + RecordChunkRunes - 1) div RecordChunkRunes
                      then (Inr (), s)
                      else if list_ex (\<lambda>x. inp_ID x = inp_ID inp \<and> \<not> inp_DeliveryPending x) (st_Inputs s)
                      then (Inr (), s)
                      else transact s (MarkDelivered s (lt_ParticipantID turn) (lt_ID turn) (inp_ID inp)))
           | _ \<Rightarrow> (Inl ErrDatabase, s)))"

section \<open>Preparing a Turn\<close>

text \<open>\<open>prepareCollaborationTx\<close>: inputs admitted for the Stage before it had a participant are bound,
  the batch is frozen and projected. Only the state is returned; the projection goes into the Turn's
  configuration.\<close>

definition bind_route :: "string \<Rightarrow> string \<Rightarrow> co_input \<Rightarrow> co_input" where
  "bind_route participant route inp =
     (if inp_ParticipantID inp = '''' \<and> inp_Route inp = route then inp\<lparr>inp_ParticipantID := participant\<rparr> else inp)"

definition prepareCollaboration ::
  "((string \<times> co_record list) list \<Rightarrow> nat) \<Rightarrow> collab \<Rightarrow> string \<Rightarrow> string \<Rightarrow> string \<Rightarrow> collab" where
  "prepareCollaboration encoded_size s participant turn route =
     (if st_Inputs s = [] \<and> st_Rounds s = [] \<and> st_Planning s = None then s
      else
        let s1 = s\<lparr>st_Inputs := map (bind_route participant route) (st_Inputs s)\<rparr>;
            s2 = (snd (PrepareBatch s1 participant turn))\<lparr>st_Waiting := False\<rparr>
        in snd (Project encoded_size s2 participant turn))"

section \<open>Assessments\<close>

definition AssessHumanInput ::
  "collab \<Rightarrow> locked_turn \<Rightarrow> assessment list option \<Rightarrow> string \<Rightarrow> assessment list \<Rightarrow> (store_error + unit) \<times> collab" where
  "AssessHumanInput s turn intent operation assessments =
     (if \<not> admits turn then (Inl ErrMutationAdmissionClosed, s)
      else case intent of
        None \<Rightarrow> (Inl ErrDatabase, s)
      | Some intended \<Rightarrow>
          if \<not> list_all2 assessment_equal intended assessments then (Inl ErrMutationOperationConflict, s)
          else if HasAssessmentEffect s operation assessments then (Inr (), s)
          else transact s (Assess s operation (lt_ParticipantID turn) (lt_ID turn) assessments))"

section \<open>Planning\<close>

text \<open>\<open>planningInvocation\<close>: \<open>reserved\<close> says whether the in-flight invocation of a Planner exists.\<close>

definition planningInvocation :: "locked_turn \<Rightarrow> bool option \<Rightarrow> store_error option" where
  "planningInvocation turn reserved =
     (if \<not> admits turn then Some ErrMutationAdmissionClosed
      else case reserved of
        None \<Rightarrow> Some ErrDatabase
      | Some valid \<Rightarrow> if \<not> valid then Some (CollabError ErrInvalid) else None)"

definition fail_proven_checkpoints :: "(string \<Rightarrow> bool option) \<Rightarrow> collab \<Rightarrow> store_error + collab" where
  "fail_proven_checkpoints ledger s =
     foldE (\<lambda>prior t.
        if rvn_Published prior \<or> rvn_PublicationFailed prior then Inr t
        else case ledger (TrimPrefix (rvn_ID prior) ''P'') of
          None \<Rightarrow> Inl ErrDatabase
        | Some failed \<Rightarrow>
            if failed then (case FailCheckpoint t (rvn_ID prior) of
                (Inl e, _) \<Rightarrow> Inl (CollabError e) | (Inr _, t') \<Rightarrow> Inr t')
            else Inr t)
       (case st_Planning s of None \<Rightarrow> [] | Some p \<Rightarrow> pls_Revisions p) s"

text \<open>A checkpoint that is rejected because of unread input is recorded: the state is saved, and the
  rejection is the error.\<close>

definition ReservePlanningCheckpoint ::
  "(string \<Rightarrow> bool option) \<Rightarrow> collab \<Rightarrow> locked_turn \<Rightarrow> bool option \<Rightarrow> string \<Rightarrow> planning_content
    \<Rightarrow> (store_error + planning_revision) \<times> collab" where
  "ReservePlanningCheckpoint ledger s turn reserved operation content =
     (case planningInvocation turn reserved of
        Some e \<Rightarrow> (Inl e, s)
      | None \<Rightarrow>
          (case fail_proven_checkpoints ledger s of
             Inl e \<Rightarrow> (Inl e, s)
           | Inr s1 \<Rightarrow>
               (case ReserveCheckpoint s1 (''P'' @ operation) (lt_ParticipantID turn) (lt_ID turn) content of
                  (Inr r, s2) \<Rightarrow> (Inr r, s2)
                | (Inl (NotApplied rejection), s2) \<Rightarrow> (Inl (CollabError (NotApplied rejection)), s2)
                | (Inl ErrInvalid, _) \<Rightarrow> (Inl (CollabError ErrInvalid), s))))"

definition ConfirmPlanningPublication :: "collab \<Rightarrow> string \<Rightarrow> co_source \<Rightarrow> (store_error + unit) \<times> collab" where
  "ConfirmPlanningPublication s i source = transact s (ConfirmCheckpoint s i source)"

text \<open>\<open>refreshed\<close> is the status and commit of the latest successful refresh of the default branch.\<close>

definition CompletePlanning ::
  "collab \<Rightarrow> locked_turn \<Rightarrow> bool option \<Rightarrow> (string \<times> string) option \<Rightarrow> string \<Rightarrow> string \<Rightarrow> string \<Rightarrow> string \<Rightarrow> bool
    \<Rightarrow> (store_error + unit) \<times> collab" where
  "CompletePlanning s turn reserved refreshed operation revision commit evidence resolved =
     (case planningInvocation turn reserved of
        Some e \<Rightarrow> (Inl e, s)
      | None \<Rightarrow>
          (case refreshed of
             None \<Rightarrow> (Inl ErrDatabase, s)
           | Some (status, sha) \<Rightarrow>
               if status \<noteq> ''current'' \<or> sha \<noteq> commit then (Inl (CollabError ErrInvalid), s)
               else transact s (ValidatePlanning s operation revision (lt_ParticipantID turn) (lt_ID turn)
                      commit evidence resolved)))"

text \<open>\<open>stopped\<close>: the fenced Turn's row, its participant and the decoded content of the request.\<close>

definition interrupt_revisions ::
  "string \<Rightarrow> string \<Rightarrow> string \<Rightarrow> planning_revision list \<Rightarrow> string \<Rightarrow> (planning_revision list \<times> string) option" where
  "interrupt_revisions i participant turnID revisions reason =
     (if list_ex (\<lambda>r. rvn_ID r = i \<and> (rvn_ParticipantID r \<noteq> participant \<or> rvn_TurnID r \<noteq> turnID)) revisions
      then None
      else Some (map (\<lambda>r. if rvn_ID r = i then r\<lparr>rvn_PublicationFailed := True\<rparr> else r) revisions,
                 if reason = ''interrupted_before_reservation'' \<and> list_ex (\<lambda>r. rvn_ID r = i) revisions
                 then ''interrupted_before_publication'' else reason))"

definition ReconcilePlanningNonPublication ::
  "collab \<Rightarrow> string \<Rightarrow> string \<Rightarrow> (bool \<times> string \<times> planning_content option) option
    \<Rightarrow> (store_error + checkpoint_not_applied option) \<times> collab" where
  "ReconcilePlanningNonPublication s turnID operation stopped =
     (case st_Planning s of
        None \<Rightarrow> (Inl (CollabError ErrInvalid), s)
      | Some p \<Rightarrow>
          let i = ''P'' @ operation in
          case find (\<lambda>n. cna_OperationID n = i) (pls_NonPublications p) of
            Some n \<Rightarrow> (Inr (Some n), s)
          | None \<Rightarrow>
              if list_ex (\<lambda>r. rvn_ID r = i \<and> (rvn_Published r \<or> rvn_Artifact r \<noteq> None)) (pls_Revisions p)
              then (Inr None, s)
              else case stopped of
                None \<Rightarrow> (Inl ErrDatabase, s)
              | Some (halted, participant, request) \<Rightarrow>
                  if \<not> halted then (Inl ErrAgentTurnRecoveryUnsettled, s)
                  else case request of
                    None \<Rightarrow> (Inl (CollabError ErrInvalid), s)
                  | Some content \<Rightarrow>
                      let late = CheckpointInputReason s participant;
                          reason = (if late = '''' then ''interrupted_before_reservation'' else late) in
                      (case interrupt_revisions i participant turnID (pls_Revisions p) reason of
                         None \<Rightarrow> (Inl (CollabError ErrInvalid), s)
                       | Some (revisions, reason') \<Rightarrow>
                           let n = \<lparr>cna_OperationID = i, cna_ParticipantID = participant, cna_TurnID = turnID,
                                    cna_Content = content, cna_Reason = reason'\<rparr>
                           in (Inr (Some n), s\<lparr>st_Planning := Some (p\<lparr>pls_Revisions := revisions,
                                 pls_NonPublications := pls_NonPublications p @ [n]\<rparr>)\<rparr>)))"

definition rejectable_revision :: "locked_turn \<Rightarrow> string \<Rightarrow> planning_revision \<Rightarrow> bool" where
  "rejectable_revision turn i r \<longleftrightarrow>
     \<not> (rvn_ID r \<noteq> i \<or> rvn_TurnID r \<noteq> lt_ID turn \<or> rvn_ParticipantID r \<noteq> lt_ParticipantID turn)"

definition RejectPlanningPublication ::
  "collab \<Rightarrow> locked_turn \<Rightarrow> string \<Rightarrow> string \<Rightarrow> (store_error + unit) \<times> collab" where
  "RejectPlanningPublication s turn i reason =
     (if \<not> admits turn then (Inl ErrMutationAdmissionClosed, s)
      else case st_Planning s of
        None \<Rightarrow> (Inl (CollabError ErrInvalid), s)
      | Some p \<Rightarrow>
          if reason \<noteq> ''payload_too_large'' then (Inl (CollabError ErrInvalid), s)
          else if list_ex (\<lambda>n. cna_OperationID n = i \<and> cna_Reason n = reason) (pls_NonPublications p)
          then (Inr (), s)
          else case find (rejectable_revision turn i) (pls_Revisions p) of
            None \<Rightarrow> (Inl (CollabError ErrInvalid), s)
          | Some r \<Rightarrow>
              if rvn_Published r \<or> rvn_Artifact r \<noteq> None then (Inl (CollabError ErrInvalid), s)
              else (Inr (), s\<lparr>st_Planning := Some (p\<lparr>
                      pls_Revisions := map_first (rejectable_revision turn i)
                        (\<lambda>x. x\<lparr>rvn_PublicationFailed := True\<rparr>) (pls_Revisions p),
                      pls_NonPublications := pls_NonPublications p
                        @ [\<lparr>cna_OperationID = i, cna_ParticipantID = rvn_ParticipantID r, cna_TurnID = rvn_TurnID r,
                            cna_Content = rvn_Content r, cna_Reason = reason\<rparr>]\<rparr>)\<rparr>))"

section \<open>Human input and the Workflow\<close>

text \<open>\<open>collaborationRoute\<close>: input is routed to a Stage of an Attempt.\<close>

definition collaborationRoute :: "snapshot \<Rightarrow> string" where
  "collaborationRoute n =
     (case sn_CurrentAttempt n of None \<Rightarrow> '''' | Some a \<Rightarrow> at_ID a @ '':'' @ at_CurrentStage a)"

definition accepts_input :: "snapshot \<Rightarrow> bool" where
  "accepts_input n \<longleftrightarrow>
     sn_CurrentAttempt n \<noteq> None
     \<and> (sn_State n = StatePlanning \<or> sn_State n = StateDeveloping \<or> sn_State n = StateReviewing)"

text \<open>The job that \<open>ensureHumanInputTurnTx\<close> inserts so that an idle Workflow reads the input:
  \<open>pending\<close> says whether the queue will prepare a Turn anyway. The outer \<open>None\<close> is a nil
  dereference.\<close>

record human_turn_job =
  hj_IdempotencyKey :: string
  hj_AttemptID :: string
  hj_Stage :: stage_id
  hj_Role :: role_id
  hj_ExpectedHeadSHA :: string
  hj_Revision :: u64

definition ensureHumanInputTurn ::
  "wf_definition \<Rightarrow> bool option \<Rightarrow> snapshot \<Rightarrow> string
    \<Rightarrow> (store_error + human_turn_job option) option" where
  "ensureHumanInputTurn df pending n identity =
     (case pending of
        None \<Rightarrow> Some (Inl ErrDatabase)
      | Some True \<Rightarrow> Some (Inr None)
      | Some False \<Rightarrow>
          (case sn_CurrentAttempt n of
             None \<Rightarrow> None
           | Some a \<Rightarrow>
               (case Stage df (at_CurrentStage a) of
                  None \<Rightarrow> Some (Inl ErrWorkflowDecisionInvalid)
                | Some stage \<Rightarrow>
                    Some (Inr (Some
                      \<lparr>hj_IdempotencyKey = ''human-input:'' @ identity, hj_AttemptID = at_ID a,
                       hj_Stage = sd_ID stage, hj_Role = sd_Role stage,
                       hj_ExpectedHeadSHA = (case sn_ChangeProposal n of None \<Rightarrow> '''' | Some p \<Rightarrow> cp_HeadSHA p),
                       hj_Revision = sn_Revision n\<rparr>)))))"

text \<open>\<open>AdmitHumanInput\<close>: \<open>assigned\<close> is the participant of the current Stage (\<open>''''\<close> if it has none yet),
  \<open>uuid\<close> the fresh identity.\<close>

definition AdmitHumanInput ::
  "wf_definition \<Rightarrow> bool option \<Rightarrow> snapshot \<Rightarrow> string \<Rightarrow> string \<Rightarrow> collab
    \<Rightarrow> command \<Rightarrow> co_actor \<Rightarrow> co_source \<Rightarrow> bool \<Rightarrow> instant
    \<Rightarrow> ((store_error + (co_receipt \<times> human_turn_job option)) \<times> collab) option" where
  "AdmitHumanInput df pending n assigned uuid s c actor source authorized at =
     (let active = accepts_input n;
          (receipt, s') = Accept s (''A'' @ uuid) c
             \<lparr>adm_Route = collaborationRoute n, adm_Active = active, adm_Authorized = authorized,
              adm_ParticipantID = (if active then assigned else ''''), adm_Actor = actor, adm_Source = source,
              adm_At = at\<rparr>
      in if length (st_Inputs s') > length (st_Inputs s) \<and> sn_ActiveTurn n = None
         then (case ensureHumanInputTurn df pending n (rct_ResponseID receipt) of
                 None \<Rightarrow> None
               | Some (Inl e) \<Rightarrow> Some (Inl e, s)
               | Some (Inr job) \<Rightarrow> Some (Inr (receipt, job), s'))
         else Some (Inr (receipt, None), s'))"

section \<open>The fence at settlement\<close>

text \<open>The outcomes by which a Turn hands its work on.\<close>

definition hands_on :: "turn_outcome \<Rightarrow> bool" where
  "hands_on out \<longleftrightarrow>
     out = TurnOutcomePlanningReady \<or> out = TurnOutcomeChangeProposalReady \<or> out = TurnOutcomeApproved
     \<or> out = TurnOutcomeChangesRequested"

definition human_blocked :: "collab \<Rightarrow> string \<Rightarrow> bool" where
  "human_blocked s participant \<longleftrightarrow> AssessmentBlocked s participant \<or> Unresolved s participant"

text \<open>A validation of the settling Turn that still counts.\<close>

definition grants_readiness :: "collab \<Rightarrow> planning_state \<Rightarrow> string \<Rightarrow> plan_revalidation \<Rightarrow> bool" where
  "grants_readiness s p turnID v \<longleftrightarrow>
     rvl_TurnID v = turnID \<and> rvl_RevisionID v = pls_CurrentRevision p \<and> PlanningValidationCurrent s v"

definition fenceCollaborationSettlement ::
  "collab \<Rightarrow> string \<Rightarrow> turn_settled_event \<Rightarrow> (store_error + turn_settled_event) \<times> collab" where
  "fenceCollaborationSettlement s participant event =
     (let e1 = event\<lparr>ts_HumanInputPending := Pending s participant\<rparr>;
          e2 = (if (ts_HumanInputPending e1 \<or> human_blocked s participant) \<and> hands_on (ts_Outcome e1)
                then e1\<lparr>ts_Outcome := TurnOutcomeClarificationWait, ts_Review := None, ts_ExistingReview := None,
                        ts_AuthorizedReviewerActorID := 0\<rparr>
                else e1)
      in if ts_Outcome e2 = TurnOutcomePlanningReady then
           (case st_Planning s of
              None \<Rightarrow> (Inl (CollabError ErrInvalid), s)
            | Some p \<Rightarrow>
                if Pending s participant \<or> Unresolved s participant \<or> AssessmentBlocked s participant
                then (Inl (CollabError ErrInvalid), s)
                else if list_ex (grants_readiness s p (tg_TurnID (ts_Turn e2))) (pls_Revalidations p)
                then (Inr e2, s\<lparr>st_Planning := Some (p\<lparr>pls_ReadyRevision := pls_CurrentRevision p\<rparr>)\<rparr>)
                else (Inl (CollabError ErrInvalid), s))
         else if ts_Outcome e2 = TurnOutcomeClarificationWait then (Inr e2, s\<lparr>st_Waiting := True\<rparr>)
         else (Inr e2, s))"

text \<open>\<open>IntentRevalidated\<close> in \<open>terminal_revalidation.go\<close> marks the wait as well.\<close>

definition mark_waiting :: "collab \<Rightarrow> turn_outcome \<Rightarrow> collab" where
  "mark_waiting s out = (if out = TurnOutcomeClarificationWait then s\<lparr>st_Waiting := True\<rparr> else s)"

end
