(* ===== verification/Collab_Evidence.thy ===== *)
theory Collab_Evidence
  imports Collab_Planning
begin

text \<open>
  The two walks over recorded evidence. \<open>evidenceLineage\<close> computes exactly the identities reachable
  by amendments and corrections, however assessments refer back to each other; \<open>amends_loop\<close>, which
  keeps no visited set, returns because an accepted amendment names an earlier input.
\<close>

section \<open>The lineage is reachability\<close>

definition evidence_edge :: "collab \<Rightarrow> string \<Rightarrow> string \<Rightarrow> bool" where
  "evidence_edge s a b \<longleftrightarrow> b \<noteq> '''' \<and> b \<in> set (evidence_next s a)"

lemma amends_parent_unknown: "i \<notin> inp_ID ` set (st_Inputs s) \<Longrightarrow> amends_parent s i = ''''"
  by (auto simp: amends_parent_def find_None_iff split: option.split dest!: find_Some_iff [THEN iffD1])

lemma no_evidence_edge: "a \<notin> evidence_nodes s \<Longrightarrow> \<not> evidence_edge s a b"
  by (auto simp: evidence_edge_def evidence_next_def evidence_nodes_def corrections_def
      amends_parent_unknown split: if_split_asm)

lemma lineage_visit_sound:
  "set (lineage_visit s todo seen)
     \<subseteq> set seen \<union> {y. \<exists>x \<in> set todo. x \<noteq> '''' \<and> (evidence_edge s)\<^sup>*\<^sup>* x y}"
proof (induction s todo seen rule: lineage_visit.induct)
  case (2 s i todo seen)
  show ?case
  proof (cases "i = '''' \<or> i \<in> set seen")
    case True
    with "2.IH"(1) show ?thesis by auto
  next
    case new: False
    show ?thesis
    proof (cases "i \<in> evidence_nodes s")
      case True
      note eq = lineage_visit.simps(2) [of s i todo seen, unfolded if_not_P [OF new] if_P [OF True]]
      show ?thesis
      proof
        fix y
        assume "y \<in> set (lineage_visit s (i # todo) seen)"
        with "2.IH"(2) [OF new True] eq consider "y = i" | "y \<in> set seen"
          | x where "x \<in> set (evidence_next s i)" "x \<noteq> ''''" "(evidence_edge s)\<^sup>*\<^sup>* x y"
          | x where "x \<in> set todo" "x \<noteq> ''''" "(evidence_edge s)\<^sup>*\<^sup>* x y"
          by auto
        then show "y \<in> set seen \<union> {y. \<exists>x \<in> set (i # todo). x \<noteq> '''' \<and> (evidence_edge s)\<^sup>*\<^sup>* x y}"
        proof cases
          case (3 x)
          then have "(evidence_edge s)\<^sup>*\<^sup>* i y"
            by (intro converse_rtranclp_into_rtranclp [of _ i x]) (auto simp: evidence_edge_def)
          with new show ?thesis by auto
        qed (use new in auto)
      qed
    next
      case False
      with "2.IH"(3) [OF new False] new show ?thesis by auto
    qed
  qed
qed simp

text \<open>The walk keeps the visited set closed up to what is still to do.\<close>

definition closed_upto :: "collab \<Rightarrow> string list \<Rightarrow> string list \<Rightarrow> bool" where
  "closed_upto s todo seen \<longleftrightarrow>
     (\<forall>x \<in> set seen. \<forall>y. evidence_edge s x y \<longrightarrow> y \<in> set seen \<union> set todo)"

lemma lineage_visit_closed:
  assumes "closed_upto s todo seen"
  shows "set seen \<union> (set todo - {''''}) \<subseteq> set (lineage_visit s todo seen)
    \<and> closed_upto s [] (lineage_visit s todo seen)"
  using assms
proof (induction s todo seen rule: lineage_visit.induct)
  case (1 s seen)
  then show ?case by simp
next
  case (2 s i todo seen)
  have nonempty: "y \<noteq> ''''" if "evidence_edge s x y" for x y using that by (simp add: evidence_edge_def)
  show ?case
  proof (cases "i = '''' \<or> i \<in> set seen")
    case True
    have "closed_upto s todo seen"
      using "2.prems" True nonempty by (fastforce simp: closed_upto_def)
    from "2.IH"(1) [OF True this] True show ?thesis by auto
  next
    case new: False
    show ?thesis
    proof (cases "i \<in> evidence_nodes s")
      case True
      have "closed_upto s (evidence_next s i @ todo) (i # seen)"
        using "2.prems" by (auto simp: closed_upto_def evidence_edge_def)
      from "2.IH"(2) [OF new True this] new True show ?thesis by auto
    next
      case False
      have "closed_upto s todo (i # seen)"
        using "2.prems" no_evidence_edge [OF False] by (auto simp: closed_upto_def)
      from "2.IH"(3) [OF new False this] new False show ?thesis by auto
    qed
  qed
qed

lemma evidenceLineage_eq:
  assumes "i \<noteq> ''''"
  shows "set (evidenceLineage s i) = {y. (evidence_edge s)\<^sup>*\<^sup>* i y}"
proof
  show "set (evidenceLineage s i) \<subseteq> {y. (evidence_edge s)\<^sup>*\<^sup>* i y}"
    using lineage_visit_sound [of s "[i]" "[]"] by (auto simp: evidenceLineage_def)
next
  have closed: "i \<in> set (evidenceLineage s i)"
    "\<And>x y. x \<in> set (evidenceLineage s i) \<Longrightarrow> evidence_edge s x y \<Longrightarrow> y \<in> set (evidenceLineage s i)"
    using lineage_visit_closed [of s "[i]" "[]"] assms
    by (auto simp: evidenceLineage_def closed_upto_def)
  show "{y. (evidence_edge s)\<^sup>*\<^sup>* i y} \<subseteq> set (evidenceLineage s i)"
  proof safe
    fix y
    assume "(evidence_edge s)\<^sup>*\<^sup>* i y"
    then show "y \<in> set (evidenceLineage s i)" by induction (use closed in auto)
  qed
qed

lemma evidenceLineage_empty [simp]: "evidenceLineage s '''' = []"
  by (simp add: evidenceLineage_def)

section \<open>Amendment chains end\<close>

text \<open>Every amendment names an input that was accepted before it.\<close>

definition amends_earlier :: "co_input list \<Rightarrow> bool" where
  "amends_earlier inps \<longleftrightarrow>
     (\<forall>k < length inps. inp_Amends (inps ! k) = '''' \<or> inp_Amends (inps ! k) \<in> inp_ID ` set (take k inps))"

definition input_rank :: "collab \<Rightarrow> string \<Rightarrow> nat" where
  "input_rank s i = length (takeWhile (\<lambda>inp. inp_ID inp \<noteq> i) (st_Inputs s))"

lemma amends_parent_rank:
  assumes "amends_earlier (st_Inputs s)" "amends_parent s i \<noteq> ''''"
  shows "input_rank s (amends_parent s i) < input_rank s i"
proof -
  let ?xs = "st_Inputs s" and ?k = "input_rank s i"
  from assms(2) obtain inp where f: "find (\<lambda>inp. inp_ID inp = i) ?xs = Some inp" "amends_parent s i = inp_Amends inp"
    by (auto simp: amends_parent_def split: option.split_asm)
  from f(1) obtain j where j: "j < length ?xs" "inp_ID (?xs ! j) = i" "inp = ?xs ! j"
    "\<And>m. m < j \<Longrightarrow> inp_ID (?xs ! m) \<noteq> i" by (auto simp: find_Some_iff)
  have "takeWhile (\<lambda>inp. inp_ID inp \<noteq> i) ?xs = take j ?xs"
    by (rule takeWhile_eq_take_P_nth) (use j in auto)
  with j have k: "?k < length ?xs" and "?xs ! ?k = inp" by (simp_all add: input_rank_def)
  with assms k f(2) obtain q where q: "q \<in> set (take ?k ?xs)" "inp_ID q = amends_parent s i"
    unfolding amends_earlier_def by (metis (mono_tags) image_iff)
  then obtain m where m: "m < ?k" "?xs ! m = q" using k by (auto simp: in_set_conv_nth)
  have "input_rank s (amends_parent s i) \<le> m"
  proof (rule ccontr)
    assume "\<not> input_rank s (amends_parent s i) \<le> m"
    then have "m < length (takeWhile (\<lambda>inp. inp_ID inp \<noteq> amends_parent s i) ?xs)"
      by (simp add: input_rank_def)
    then have "inp_ID (?xs ! m) \<noteq> amends_parent s i"
      by (metis (mono_tags, lifting) nth_mem set_takeWhileD takeWhile_nth)
    with m(2) q(2) show False by simp
  qed
  with m(1) show ?thesis by simp
qed

lemma amends_walk_loop:
  assumes "amends_earlier (st_Inputs s)" "input_rank s i < n"
  shows "amends_loop s i prior = Some (amends_walk n s i prior)"
  using assms(2)
proof (induction n arbitrary: i)
  case (Suc n)
  show ?case
  proof (cases "i = '''' \<or> amends_parent s i = '''' \<or> amends_parent s i = prior")
    case True
    then show ?thesis by (subst amends_loop.simps) auto
  next
    case False
    with amends_parent_rank [OF assms(1)] Suc.prems have "input_rank s (amends_parent s i) < n" by fastforce
    with Suc.IH False show ?thesis by (subst amends_loop.simps) auto
  qed
qed simp

lemma amends_loop_terminates:
  assumes "amends_earlier (st_Inputs s)"
  shows "amends_loop s i prior = Some (amends s i prior)"
proof -
  have "input_rank s i < Suc (length (st_Inputs s))"
    by (simp add: input_rank_def length_takeWhile_le le_imp_less_Suc)
  then show ?thesis unfolding amends_def by (rule amends_walk_loop [OF assms])
qed

end
