(* ===== verification/Collab_History.thy ===== *)
theory Collab_History
  imports Collab_Store Collab_Evidence
begin

text \<open>
  The life of a conversation: \<open>collab_op\<close> lists every transaction that writes it, whatever the
  environment answers, and \<open>conversation\<close> the states they reach. The invariants hold for all of
  those.
\<close>

section \<open>Reachable conversations\<close>

inductive collab_op :: "collab \<Rightarrow> collab \<Rightarrow> bool" for s where
  op_request: "collab_op s (snd (RequestClarification ledger s turn invocation questions))"
| op_publish: "collab_op s (snd (ConfirmClarificationPublication s i source))"
| op_absent: "collab_op s (snd (ReconcileClarificationNonPublication s turnID operation stopped))"
| op_artifact: "collab_op s (snd (SaveCollaborationArtifact s turn i artifact))"
| op_attempt: "collab_op s (snd (ReserveCollaborationReceipt s i artifact))"
| op_rejected: "collab_op s (snd (RejectCollaborationReceipt s i attempt))"
| op_accept: "AdmitHumanInput df pending n assigned uuid s c actor source authorized at = Some (r, s') \<Longrightarrow> collab_op s s'"
| op_prepare: "collab_op s (prepareCollaboration encoded_size s participant turnID route)"
| op_delivered: "collab_op s (snd (recordCollaborationDelivery sha256 encode s turn counts collection index offset actual reads))"
| op_resolve: "collab_op s (snd (ResolveClarification s turn valid_uuid intent operation rid resolutions))"
| op_assess: "collab_op s (snd (AssessHumanInput s turn assessed operation batch))"
| op_start_planning: "collab_op s (snd (StartPlanning s original))"
| op_reserve: "collab_op s (snd (ReservePlanningCheckpoint ledger s turn reserved operation content))"
| op_confirm: "collab_op s (snd (ConfirmPlanningPublication s i source))"
| op_validate: "collab_op s (snd (CompletePlanning s turn reserved refreshed operation revision commit evidence resolved))"
| op_absent_checkpoint: "collab_op s (snd (ReconcilePlanningNonPublication s turnID operation halted))"
| op_reject_checkpoint: "collab_op s (snd (RejectPlanningPublication s turn i reason))"
| op_settle: "collab_op s (snd (fenceCollaborationSettlement s participant event))"
| op_waiting: "collab_op s (mark_waiting s out)"

inductive conversation :: "collab \<Rightarrow> bool" where
  conversation_start: "conversation collab_empty"
| conversation_op: "conversation s \<Longrightarrow> collab_op s s' \<Longrightarrow> conversation s'"

text \<open>The inputs as the invariants see them: identities and amendments. Only \<open>Accept\<close> changes them.\<close>

definition input_links :: "collab \<Rightarrow> (string \<times> string) list" where
  "input_links s = map (\<lambda>inp. (inp_ID inp, inp_Amends inp)) (st_Inputs s)"

lemma input_links_map:
  "(\<And>inp. inp_ID (f inp) = inp_ID inp \<and> inp_Amends (f inp) = inp_Amends inp) \<Longrightarrow>
   st_Inputs t = map f (st_Inputs s) \<Longrightarrow> input_links t = input_links s"
  by (simp add: input_links_def)

lemma input_links_eqI: "st_Inputs t = st_Inputs s \<Longrightarrow> input_links t = input_links s"
  by (simp add: input_links_def)

lemma reference_kept:
  "reference s k i = (n, t) \<Longrightarrow> st_Inputs t = st_Inputs s \<and> st_Rounds t = st_Rounds s
     \<and> st_Receipts t = st_Receipts s \<and> st_Planning t = st_Planning s \<and> st_CurrentRound t = st_CurrentRound s
     \<and> st_Preparations t = st_Preparations s \<and> st_Assessments t = st_Assessments s"
  by (auto simp: reference_def Let_def split: option.split_asm)

lemma reference_inputs [simp]:
  "st_Inputs (snd (reference s k i)) = st_Inputs s" "st_Rounds (snd (reference s k i)) = st_Rounds s"
  "st_Receipts (snd (reference s k i)) = st_Receipts s" "st_Planning (snd (reference s k i)) = st_Planning s"
  "st_CurrentRound (snd (reference s k i)) = st_CurrentRound s"
  "st_Preparations (snd (reference s k i)) = st_Preparations s"
  "st_Assessments (snd (reference s k i)) = st_Assessments s"
  by (auto simp: reference_def Let_def split: option.split)

section \<open>What accepting a command does\<close>

lemma command_round_amend:
  assumes "command_round s c a t = Inr rid" "cmd_Kind c = ''amend''"
  shows "\<exists>x \<in> set (st_Inputs s). inp_ID x = t"
  using assms
  by (auto simp: command_round_def find_Some_iff split: option.split_asm if_split_asm)

text \<open>An accepted input: new, bound to the admission it came with, and amending an input that exists.\<close>

definition accepted_input :: "collab \<Rightarrow> string \<Rightarrow> command \<Rightarrow> admission \<Rightarrow> co_input \<Rightarrow> bool" where
  "accepted_input s i c a inp \<longleftrightarrow>
     adm_Authorized a \<and> adm_Active a \<and> i \<noteq> '''' \<and> i \<notin> inp_ID ` set (st_Inputs s)
     \<and> inp_ID inp = i \<and> inp_Kind inp = cmd_Kind c \<and> inp_Source inp = adm_Source a
     \<and> inp_ParticipantID inp = adm_ParticipantID a \<and> inp_Route inp = adm_Route a
     \<and> inp_Actor inp = adm_Actor a \<and> inp_Body inp = cmd_Body c
     \<and> inp_DeliveredTo inp = '''' \<and> \<not> inp_DeliveryPending inp
     \<and> (inp_Amends inp = '''' \<or> inp_Amends inp \<in> inp_ID ` set (st_Inputs s))"

definition same_source :: "co_source \<Rightarrow> co_receipt \<Rightarrow> bool" where
  "same_source src rc \<longleftrightarrow> src_Channel (rct_Source rc) = src_Channel src \<and> src_ID (rct_Source rc) = src_ID src"

lemma Accept_shape:
  assumes "Accept s i c a = (rc, s')"
  shows "(rc \<in> set (st_Receipts s) \<and> same_source (adm_Source a) rc \<and> s' = s)
    \<or> (\<not> list_ex (same_source (adm_Source a)) (st_Receipts s) \<and> rct_Source rc = adm_Source a
       \<and> (s' = s\<lparr>st_Receipts := st_Receipts s @ [rc]\<rparr> \<and> rct_ResponseID rc = ''''
          \<or> (\<exists>inp. accepted_input s i c a inp \<and> rct_ResponseID rc = i
               \<and> s' = (snd (reference s ''A'' i))\<lparr>st_Inputs := st_Inputs s @ [inp],
                        st_Receipts := st_Receipts s @ [rc]\<rparr>)))"
proof (cases "find (same_source (adm_Source a)) (st_Receipts s)")
  case (Some r)
  then have "r \<in> set (st_Receipts s)" "same_source (adm_Source a) r"
    by (auto simp: find_Some_iff)
  with Some assms show ?thesis by (simp add: Accept_def same_source_def [abs_def])
next
  case None
  then have fresh: "\<not> list_ex (same_source (adm_Source a)) (st_Receipts s)"
    by (simp add: find_None_iff list_ex_iff)
  let ?receipt = "new_receipt i a"
  have rejected: "rct_Source r = adm_Source a \<and> t = s\<lparr>st_Receipts := st_Receipts s @ [r]\<rparr> \<and> rct_ResponseID r = ''''"
    if "reject_with s ?receipt m = (r, t)" for m r t
    using that by (auto simp: reject_with_def new_receipt_def Let_def)
  let ?t = "command_target s c"
  show ?thesis
  proof (cases "\<exists>m. reject_with s ?receipt m = (rc, s')")
    case True
    with rejected fresh show ?thesis by blast
  next
    case False
    with assms None have ok: "adm_Authorized a" "adm_Active a" "i \<noteq> ''''"
      "\<not> list_ex (\<lambda>inp. inp_ID inp = i) (st_Inputs s)"
      by (auto simp: Accept_def same_source_def [abs_def] Let_def split: if_split_asm)
    from assms None False obtain rid where
      round': "command_round s c a ?t = Inr rid"
      by (auto simp: Accept_def same_source_def [abs_def] Let_def split: if_split_asm sum.split_asm)
    obtain name t where ref: "reference s ''A'' i = (name, t)" by (cases "reference s ''A'' i") auto
    let ?inp = "new_input i c a name ?t rid"
    from assms None False round' ref have
      s': "s' = t\<lparr>st_Inputs := st_Inputs t @ [?inp], st_Receipts := st_Receipts t @ [rc]\<rparr>" and
      rc: "rct_Source rc = adm_Source a" "rct_ResponseID rc = i"
      by (auto simp: Accept_def same_source_def [abs_def] Let_def new_receipt_def split: if_split_asm)
    have "?t \<in> inp_ID ` set (st_Inputs s)" if "cmd_Kind c = ''amend''"
      using command_round_amend [OF round' that] by force
    then have "accepted_input s i c a ?inp"
      using ok by (auto simp: accepted_input_def new_input_def list_ex_iff)
    with fresh s' rc reference_kept [OF ref] ref show ?thesis by auto
  qed
qed

end
