(* ===== verification/Collab_Frames.thy ===== *)
theory Collab_Frames
  imports Collab_History
begin

text \<open>
  What each transaction leaves alone. An operation touches one part of the conversation: its inputs,
  its receipts, its rounds or its plan; the lemmas here say so, so that the invariants of a part only
  look at the operations that touch it.
\<close>

section \<open>One part at a time\<close>

definition only_rounds :: "collab \<Rightarrow> collab \<Rightarrow> bool" where
  "only_rounds s t \<longleftrightarrow> t = s\<lparr>st_Rounds := st_Rounds t\<rparr>"

definition only_planning :: "collab \<Rightarrow> collab \<Rightarrow> bool" where
  "only_planning s t \<longleftrightarrow> t = s\<lparr>st_Planning := st_Planning t\<rparr>"

definition only_receipts :: "collab \<Rightarrow> collab \<Rightarrow> bool" where
  "only_receipts s t \<longleftrightarrow> t = s\<lparr>st_Receipts := st_Receipts t\<rparr>"

lemma only_refl [simp]: "only_rounds s s" "only_planning s s" "only_receipts s s"
  by (simp_all add: only_rounds_def only_planning_def only_receipts_def)

lemma only_update [simp]:
  "only_rounds s (s\<lparr>st_Rounds := rs\<rparr>)" "only_planning s (s\<lparr>st_Planning := p\<rparr>)"
  "only_receipts s (s\<lparr>st_Receipts := rcs\<rparr>)"
  by (simp_all add: only_rounds_def only_planning_def only_receipts_def)

lemma only_trans:
  "only_rounds s t \<Longrightarrow> only_rounds t u \<Longrightarrow> only_rounds s u"
  "only_planning s t \<Longrightarrow> only_planning t u \<Longrightarrow> only_planning s u"
  by (cases s; cases t; cases u; simp add: only_rounds_def only_planning_def)+

lemma only_rounds_fields:
  "only_rounds s t \<Longrightarrow> st_Inputs t = st_Inputs s \<and> st_Receipts t = st_Receipts s
     \<and> st_References t = st_References s \<and> st_CurrentRound t = st_CurrentRound s \<and> st_Planning t = st_Planning s"
  by (cases s; cases t) (simp add: only_rounds_def)

lemma only_planning_fields:
  "only_planning s t \<Longrightarrow> st_Inputs t = st_Inputs s \<and> st_Receipts t = st_Receipts s
     \<and> st_References t = st_References s \<and> st_CurrentRound t = st_CurrentRound s \<and> st_Rounds t = st_Rounds s"
  by (cases s; cases t) (simp add: only_planning_def)

lemma only_receipts_fields:
  "only_receipts s t \<Longrightarrow> st_Inputs t = st_Inputs s \<and> st_Rounds t = st_Rounds s
     \<and> st_References t = st_References s \<and> st_CurrentRound t = st_CurrentRound s \<and> st_Planning t = st_Planning s"
  by (cases s; cases t) (simp add: only_receipts_def)

lemma transact_cases:
  "snd (transact s r) = s \<or> snd (transact s r) = snd r \<and> (\<exists>x. fst r = Inr x)"
  by (auto simp: transact_def split: prod.split sum.split)

section \<open>Inputs\<close>

text \<open>What an operation other than \<open>Accept\<close> may do to an input: update its bookkeeping.\<close>

definition kept_input :: "co_input \<Rightarrow> co_input \<Rightarrow> bool" where
  "kept_input x y \<longleftrightarrow>
     y = x\<lparr>inp_ParticipantID := inp_ParticipantID y, inp_DeliveredTo := inp_DeliveredTo y,
           inp_DeliveryPending := inp_DeliveryPending y\<rparr>
     \<and> (inp_ParticipantID x \<noteq> '''' \<longrightarrow> inp_ParticipantID y = inp_ParticipantID x)"

lemma kept_input_refl [simp]: "kept_input x x"
  by (simp add: kept_input_def)

lemma kept_input_sel: "kept_input x y \<Longrightarrow> inp_ID y = inp_ID x \<and> inp_Amends y = inp_Amends x
    \<and> inp_Kind y = inp_Kind x \<and> inp_Target y = inp_Target x \<and> inp_Source y = inp_Source x"
  by (cases x; cases y) (simp add: kept_input_def)

definition inputs_kept :: "collab \<Rightarrow> collab \<Rightarrow> bool" where
  "inputs_kept s t \<longleftrightarrow> list_all2 kept_input (st_Inputs s) (st_Inputs t)"

lemma inputs_kept_same: "st_Inputs t = st_Inputs s \<Longrightarrow> inputs_kept s t"
  by (simp add: inputs_kept_def list_all2_same)

lemma inputs_kept_map:
  "(\<And>x. kept_input x (f x)) \<Longrightarrow> st_Inputs t = map f (st_Inputs s) \<Longrightarrow> inputs_kept s t"
  by (simp add: inputs_kept_def list_all2_conv_all_nth)

lemma list_all2_map_first: "(\<And>x. R x x) \<Longrightarrow> (\<And>x. R x (f x)) \<Longrightarrow> list_all2 R xs (map_first P f xs)"
  by (induction xs) (auto simp: list_all2_same)

lemma fail_publication_inputs [simp]:
  "st_Inputs (snd (FailPublication s i)) = st_Inputs s"
  "st_Receipts (snd (FailPublication s i)) = st_Receipts s"
  "st_References (snd (FailPublication s i)) = st_References s"
  "st_CurrentRound (snd (FailPublication s i)) = st_CurrentRound s"
  "st_Planning (snd (FailPublication s i)) = st_Planning s"
  by (auto simp: FailPublication_def split: option.split)

lemma reserve_new_inputs [simp]:
  "st_Inputs (snd (reserve_new s p i pa t c)) = st_Inputs s"
  "st_Receipts (snd (reserve_new s p i pa t c)) = st_Receipts s"
  "st_Rounds (snd (reserve_new s p i pa t c)) = st_Rounds s"
  "st_CurrentRound (snd (reserve_new s p i pa t c)) = st_CurrentRound s"
  by (auto simp: reserve_new_def Let_def dest!: reference_kept split: option.split prod.split)

lemma record_assessment_inputs [simp]:
  "st_Inputs (record_assessment o' a s) = st_Inputs s" "st_Receipts (record_assessment o' a s) = st_Receipts s"
  "st_Rounds (record_assessment o' a s) = st_Rounds s"
  "st_CurrentRound (record_assessment o' a s) = st_CurrentRound s"
  "st_References (record_assessment o' a s) = st_References s"
  by (auto simp: record_assessment_def Let_def split: option.split)

lemma inputs_kept_refl [simp]: "inputs_kept s s"
  by (rule inputs_kept_same) simp

lemma bind_route_kept [simp]: "kept_input inp (bind_route participant route inp)"
  by (simp add: bind_route_def kept_input_def)

lemma deliver_to_kept [simp]: "kept_input inp (deliver_to turn inp)"
  by (simp add: deliver_to_def kept_input_def)

lemma defer_reading_kept [simp]: "kept_input inp (defer_reading participant turn inp)"
  by (simp add: defer_reading_def kept_input_def)

lemma kept_input_trans: "kept_input x y \<Longrightarrow> kept_input y z \<Longrightarrow> kept_input x z"
  by (cases x; cases y; cases z) (auto simp: kept_input_def)

lemma inputs_kept_trans: "inputs_kept s t \<Longrightarrow> inputs_kept t u \<Longrightarrow> inputs_kept s u"
  unfolding inputs_kept_def by (rule list_all2_trans [of kept_input kept_input kept_input]) (auto intro: kept_input_trans)

lemma PrepareBatch_kept: "inputs_kept s (snd (PrepareBatch s participant turn))"
proof (cases "list_ex (\<lambda>p. prp_TurnID p = turn) (st_Preparations s)")
  case False
  then show ?thesis
    by (intro inputs_kept_map [where f = "\<lambda>inp. if undelivered participant inp then deliver_to turn inp else inp"])
      (simp_all add: PrepareBatch_def)
qed (simp add: PrepareBatch_def)

lemma Project_kept:
  "inputs_kept s (snd (Project encoded_size s participant turn))"
  "\<exists>inps. snd (Project encoded_size s participant turn) = s\<lparr>st_Inputs := inps\<rparr>"
proof -
  have "inputs_kept s (s\<lparr>st_Inputs := map (defer_reading participant turn) (st_Inputs s)\<rparr>)"
    by (rule inputs_kept_map [where f = "defer_reading participant turn"]) simp_all
  then show "inputs_kept s (snd (Project encoded_size s participant turn))"
    by (simp add: Project_def Let_def)
  have "\<exists>inps. s = s\<lparr>st_Inputs := inps\<rparr>" by (rule exI [of _ "st_Inputs s"]) simp
  then show "\<exists>inps. snd (Project encoded_size s participant turn) = s\<lparr>st_Inputs := inps\<rparr>"
    unfolding Project_def Let_def by (auto simp: snd_def)
qed

lemma prepareCollaboration_kept: "inputs_kept s (prepareCollaboration encoded_size s participant turn route)"
proof (cases "st_Inputs s = [] \<and> st_Rounds s = [] \<and> st_Planning s = None")
  case False
  define s1 where "s1 = s\<lparr>st_Inputs := map (bind_route participant route) (st_Inputs s)\<rparr>"
  define s2 where "s2 = (snd (PrepareBatch s1 participant turn))\<lparr>st_Waiting := False\<rparr>"
  have s1: "inputs_kept s s1"
    by (rule inputs_kept_map [where f = "bind_route participant route"]) (simp_all add: s1_def)
  have "inputs_kept s1 s2"
    using PrepareBatch_kept [of s1 participant turn] by (simp add: s2_def inputs_kept_def)
  with s1 have kept: "inputs_kept s s2" by (rule inputs_kept_trans)
  have "prepareCollaboration encoded_size s participant turn route = snd (Project encoded_size s2 participant turn)"
    unfolding prepareCollaboration_def Let_def if_not_P [OF False] s1_def s2_def by (rule refl)
  with inputs_kept_trans [OF kept Project_kept(1)] show ?thesis by simp
qed (simp add: prepareCollaboration_def)

lemma prepareCollaboration_fields [simp]:
  fixes encoded_size s participant turn route
  defines "t \<equiv> prepareCollaboration encoded_size s participant turn route"
  shows "st_Receipts t = st_Receipts s" "st_Rounds t = st_Rounds s" "st_CurrentRound t = st_CurrentRound s"
    "st_References t = st_References s" "st_Planning t = st_Planning s"
proof -
  have "st_Receipts (snd (Project e u p q)) = st_Receipts u \<and> st_Rounds (snd (Project e u p q)) = st_Rounds u
      \<and> st_CurrentRound (snd (Project e u p q)) = st_CurrentRound u
      \<and> st_References (snd (Project e u p q)) = st_References u \<and> st_Planning (snd (Project e u p q)) = st_Planning u"
    for e u p q
    using Project_kept(2) [of e u p q] by auto
  then show "st_Receipts t = st_Receipts s" "st_Rounds t = st_Rounds s" "st_CurrentRound t = st_CurrentRound s"
    "st_References t = st_References s" "st_Planning t = st_Planning s"
    by (simp_all add: t_def prepareCollaboration_def Let_def PrepareBatch_def)
qed

lemma MarkDelivered_kept: "inputs_kept s (snd (MarkDelivered s participant turn i))"
  by (auto simp: MarkDelivered_def Let_def inputs_kept_def list_all2_same kept_input_def
      intro!: list_all2_map_first)

lemma RequestRound_inputs:
  "st_Inputs (snd (RequestRound s i participant turn head questions)) = st_Inputs s"
  "st_Receipts (snd (RequestRound s i participant turn head questions)) = st_Receipts s"
  "st_CurrentRound (snd (RequestRound s i participant turn head questions)) = st_CurrentRound s"
  "st_Planning (snd (RequestRound s i participant turn head questions)) = st_Planning s"
  by (auto simp: RequestRound_def Let_def dest!: reference_kept split: prod.split)

lemma fold_record_resolution_kept:
  "st_Inputs (fold (record_resolution r) xs t) = st_Inputs t
   \<and> st_Receipts (fold (record_resolution r) xs t) = st_Receipts t
   \<and> st_References (fold (record_resolution r) xs t) = st_References t
   \<and> st_CurrentRound (fold (record_resolution r) xs t) = st_CurrentRound t
   \<and> st_Planning (fold (record_resolution r) xs t) = st_Planning t"
  by (induction xs arbitrary: t) (simp_all add: record_resolution_def Let_def)

lemma Resolve_kept:
  "st_Inputs (snd (Resolve s rid turn resolutions)) = st_Inputs s"
  "st_Receipts (snd (Resolve s rid turn resolutions)) = st_Receipts s"
  "st_References (snd (Resolve s rid turn resolutions)) = st_References s"
  "st_CurrentRound (snd (Resolve s rid turn resolutions)) = st_CurrentRound s"
  "st_Planning (snd (Resolve s rid turn resolutions)) = st_Planning s"
  by (auto simp: Resolve_def Let_def fold_record_resolution_kept split: option.split)

lemma fold_record_assessment_kept [simp]:
  "st_Inputs (fold (record_assessment operation) batch s) = st_Inputs s"
  "st_Receipts (fold (record_assessment operation) batch s) = st_Receipts s"
  "st_Rounds (fold (record_assessment operation) batch s) = st_Rounds s"
  "st_CurrentRound (fold (record_assessment operation) batch s) = st_CurrentRound s"
  "st_References (fold (record_assessment operation) batch s) = st_References s"
  by (induction batch arbitrary: s) simp_all

lemma Assess_kept:
  "st_Inputs (snd (Assess s operation participant turn batch)) = st_Inputs s"
  "st_Receipts (snd (Assess s operation participant turn batch)) = st_Receipts s"
  "st_Rounds (snd (Assess s operation participant turn batch)) = st_Rounds s"
  "st_CurrentRound (snd (Assess s operation participant turn batch)) = st_CurrentRound s"
  "st_References (snd (Assess s operation participant turn batch)) = st_References s"
  by (simp_all add: Assess_def)

lemma PublishRound_kept:
  "st_Inputs (snd (PublishRound s i source)) = st_Inputs s"
  "st_Receipts (snd (PublishRound s i source)) = st_Receipts s"
  "st_References (snd (PublishRound s i source)) = st_References s"
  "st_Planning (snd (PublishRound s i source)) = st_Planning s"
  by (auto simp: PublishRound_def Let_def split: option.split)

lemma recordCollaborationDelivery_cases:
  fixes sha256 encode s turn counts collection index offset actual reads
  defines "t \<equiv> snd (recordCollaborationDelivery sha256 encode s turn counts collection index offset actual reads)"
  shows "t = s \<or> (\<exists>i. t = snd (MarkDelivered s (lt_ParticipantID turn) (lt_ID turn) i))"
  unfolding t_def recordCollaborationDelivery_def Let_def
  by (auto split: sum.split option.split co_record.split) (metis transact_cases)+

lemma MarkDelivered_fields [simp]:
  "st_Receipts (snd (MarkDelivered s participant turn i)) = st_Receipts s"
  "st_Rounds (snd (MarkDelivered s participant turn i)) = st_Rounds s"
  "st_CurrentRound (snd (MarkDelivered s participant turn i)) = st_CurrentRound s"
  "st_References (snd (MarkDelivered s participant turn i)) = st_References s"
  "st_Planning (snd (MarkDelivered s participant turn i)) = st_Planning s"
  by (simp_all add: MarkDelivered_def Let_def)

lemma AdmitHumanInput_cases:
  assumes "AdmitHumanInput df pending n assigned uuid s c actor source authorized at = Some (r, s')"
  shows "s' = s \<or> (\<exists>i a rc. Accept s i c a = (rc, s'))"
  using assms by (auto simp: AdmitHumanInput_def Let_def split: prod.split_asm if_split_asm option.split_asm sum.split_asm)

section \<open>Rounds\<close>

lemma FailPublication_only: "only_rounds s (snd (FailPublication s i))"
  by (auto simp: FailPublication_def split: option.split)

text \<open>The two loops that fail rounds keep what every \<open>FailPublication\<close> keeps.\<close>

lemma fail_proven_rule:
  assumes "fail_proven ledger s = Inr t" "P s" "\<And>u i. P u \<Longrightarrow> P (snd (FailPublication u i))"
  shows "P t"
  using assms(1) unfolding fail_proven_def
proof (rule foldE_invariant)
  fix x u v
  assume "P u" "(if rnd_Published x \<or> rnd_PublicationFailed x then Inr u
      else case ledger (TrimPrefix (rnd_ID x) ''R'') of None \<Rightarrow> Inl ErrDatabase
        | Some failed \<Rightarrow> if failed then case FailPublication u (rnd_ID x) of
            (Inl e, xa) \<Rightarrow> Inl (CollabError e) | (Inr xa, t') \<Rightarrow> Inr t' else Inr u) = Inr v"
  with assms(3) [of u "rnd_ID x"] show "P v"
    by (auto split: if_split_asm option.split_asm prod.split_asm sum.split_asm)
qed (rule assms(2))

lemma ReconcileClarificationNonPublication_rule:
  fixes s turnID operation stopped
  assumes "P s" "\<And>u i. P u \<Longrightarrow> P (snd (FailPublication u i))"
  shows "P (snd (ReconcileClarificationNonPublication s turnID operation stopped))"
proof -
  have "P t" if "foldE (\<lambda>r t. if rnd_ID r \<noteq> i then Inr t else if rnd_TurnID r \<noteq> turnID then Inl ErrInvalid
      else (case FailPublication t (rnd_ID r) of (Inl e, _) \<Rightarrow> Inl e | (Inr _, t') \<Rightarrow> Inr t')) rs s = Inr t" for i rs t
    using that
  proof (rule foldE_invariant)
    fix x u v
    assume "P u" "(if rnd_ID x \<noteq> i then Inr u else if rnd_TurnID x \<noteq> turnID then Inl ErrInvalid
      else (case FailPublication u (rnd_ID x) of (Inl e, _) \<Rightarrow> Inl e | (Inr _, t') \<Rightarrow> Inr t')) = Inr v"
    with assms(2) [of u "rnd_ID x"] show "P v"
      by (auto split: if_split_asm prod.split_asm sum.split_asm)
  qed (rule assms(1))
  with assms(1) show ?thesis
    by (auto simp: ReconcileClarificationNonPublication_def Let_def split: option.split bool.split sum.split)
qed

lemma fail_proven_only: "fail_proven ledger s = Inr t \<Longrightarrow> only_rounds s t"
  by (rule fail_proven_rule [where P = "only_rounds s"]) (auto intro: only_trans FailPublication_only)

lemma ReconcileClarificationNonPublication_only:
  "only_rounds s (snd (ReconcileClarificationNonPublication s turnID operation stopped))"
  by (rule ReconcileClarificationNonPublication_rule [where P = "only_rounds s"])
    (auto intro: only_trans FailPublication_only)

text \<open>A request leaves the conversation alone or appends one round, whose introduction it fills in.\<close>

definition introduced :: "string \<Rightarrow> string \<Rightarrow> collab \<Rightarrow> collab" where
  "introduced i intro s =
     s\<lparr>st_Rounds := map (\<lambda>x. if rnd_ID x = i then x\<lparr>rnd_Introduction := intro\<rparr> else x) (st_Rounds s)\<rparr>"

lemma RequestClarification_cases:
  fixes ledger s turn invocation questions
  defines "t \<equiv> snd (RequestClarification ledger s turn invocation questions)"
  obtains "t = s" | u i head r v intro where "fail_proven ledger s = Inr u"
    "RequestRound u i (lt_ParticipantID turn) (lt_ID turn) head questions = (Inr r, v)"
    "t = introduced (rnd_ID r) intro v"
proof (cases "admits turn \<and> invocation \<noteq> None")
  case False
  then have "t = s" by (cases "admits turn"; cases invocation) (auto simp: t_def RequestClarification_def)
  with that(1) show ?thesis .
next
  case True
  then obtain mutationID head introduction where turn: "admits turn" "invocation = Some (mutationID, head, introduction)"
    by auto
  show ?thesis
  proof (cases "questions = [] \<and> (Pending s (lt_ParticipantID turn) \<or> AwaitingPlanConfirmation s (lt_ParticipantID turn))
      \<or> find (\<lambda>r. rnd_ID r = ''R'' @ mutationID) (st_Rounds s) \<noteq> None")
    case True
    with turn that(1) show ?thesis by (auto simp: t_def RequestClarification_def Let_def)
  next
    case fresh: False
    show ?thesis
    proof (cases "fail_proven ledger s")
      case (Inl e)
      with turn fresh that(1) show ?thesis by (auto simp: t_def RequestClarification_def Let_def)
    next
      case (Inr u)
      obtain q v where q: "RequestRound u (''R'' @ mutationID) (lt_ParticipantID turn) (lt_ID turn) head questions = (q, v)"
        by fastforce
      have eq: "t = snd (case introduction of None \<Rightarrow> (Inl ErrDatabase, s)
            | Some intro \<Rightarrow> (case q of Inl e \<Rightarrow> (Inl (CollabError e), s)
                | Inr r \<Rightarrow> (Inr (Some (r\<lparr>rnd_Introduction := intro\<rparr>)), introduced (rnd_ID r) intro v)))"
        using turn fresh Inr q
        by (auto simp: t_def RequestClarification_def Let_def introduced_def split: option.split sum.split)
      show ?thesis
      proof (cases introduction; cases q)
        fix intro r
        assume "introduction = Some intro" "q = Inr r"
        with eq q that(2) [OF Inr] show ?thesis by simp
      qed (use eq that(1) in simp_all)
    qed
  qed
qed

lemma RequestClarification_kept:
  fixes ledger s turn invocation questions
  defines "t \<equiv> snd (RequestClarification ledger s turn invocation questions)"
  shows "st_Inputs t = st_Inputs s \<and> st_Receipts t = st_Receipts s \<and> st_CurrentRound t = st_CurrentRound s
    \<and> st_Planning t = st_Planning s"
proof (cases rule: RequestClarification_cases [of ledger s turn invocation questions, folded t_def])
  case (2 u i head r v intro)
  from only_rounds_fields [OF fail_proven_only [OF 2(1)]] 2(2,3)
    RequestRound_inputs [of u i "lt_ParticipantID turn" "lt_ID turn" head questions]
  show ?thesis by (simp add: introduced_def)
qed simp

section \<open>The plan\<close>

lemma planning_only:
  "only_planning s (snd (StartPlanning s original))"
  "only_planning s (snd (ConfirmCheckpoint s i source))"
  "only_planning s (snd (FailCheckpoint s i))"
  "only_planning s (snd (ReconcilePlanningNonPublication s turnID operation halted))"
  "only_planning s (snd (RejectPlanningPublication s turn i reason))"
  by (simp_all add: StartPlanning_def ConfirmCheckpoint_def FailCheckpoint_def ReconcilePlanningNonPublication_def
      RejectPlanningPublication_def Let_def split: option.split prod.split)

lemma ValidatePlanning_only:
  "only_planning s (snd (ValidatePlanning s operation revision participant turn commit evidence resolved))"
  unfolding ValidatePlanning_def Let_def
  by (cases "st_Planning s"; cases "CurrentCheckpoint s") (auto split: option.split)

lemma store_planning_only:
  "only_planning s (snd (ConfirmPlanningPublication s i source))"
  "only_planning s (snd (CompletePlanning s lt reserved refreshed operation revision commit evidence resolved))"
proof -
  show "only_planning s (snd (ConfirmPlanningPublication s i source))"
    using planning_only(2) [of s i source] transact_cases [of s "ConfirmCheckpoint s i source"]
    by (auto simp: ConfirmPlanningPublication_def)
  have "only_planning s (snd (transact s (ValidatePlanning s operation revision pa tu commit evidence resolved)))" for pa tu
    using ValidatePlanning_only [of s operation revision pa tu commit evidence resolved]
      transact_cases [of s "ValidatePlanning s operation revision pa tu commit evidence resolved"] by auto
  then show "only_planning s (snd (CompletePlanning s lt reserved refreshed operation revision commit evidence resolved))"
    by (auto simp: CompletePlanning_def split: option.split)
qed

lemmas planning_fields [simp] =
  planning_only [THEN only_planning_fields] store_planning_only [THEN only_planning_fields]

lemma fail_proven_checkpoints_rule:
  assumes "fail_proven_checkpoints ledger s = Inr t" "P s" "\<And>u i. P u \<Longrightarrow> P (snd (FailCheckpoint u i))"
  shows "P t"
  using assms(1) unfolding fail_proven_checkpoints_def
proof (rule foldE_invariant)
  fix x u v
  assume "P u" "(if rvn_Published x \<or> rvn_PublicationFailed x then Inr u
      else case ledger (TrimPrefix (rvn_ID x) ''P'') of None \<Rightarrow> Inl ErrDatabase
        | Some failed \<Rightarrow> if failed then case FailCheckpoint u (rvn_ID x) of
            (Inl e, xa) \<Rightarrow> Inl (CollabError e) | (Inr xa, t') \<Rightarrow> Inr t' else Inr u) = Inr v"
  with assms(3) [of u "rvn_ID x"] show "P v"
    by (auto split: if_split_asm option.split_asm prod.split_asm sum.split_asm)
qed (rule assms(2))

lemma fail_proven_checkpoints_only: "fail_proven_checkpoints ledger s = Inr t \<Longrightarrow> only_planning s t"
  by (rule fail_proven_checkpoints_rule [where P = "only_planning s"]) (auto intro: only_trans planning_only)

lemma ReserveCheckpoint_kept:
  fixes s i participant turnID content
  defines "t \<equiv> snd (ReserveCheckpoint s i participant turnID content)"
  shows "st_Inputs t = st_Inputs s" "st_Receipts t = st_Receipts s" "st_Rounds t = st_Rounds s"
    "st_CurrentRound t = st_CurrentRound s"
  by (simp_all add: t_def ReserveCheckpoint_def split: option.split)

lemma ReservePlanningCheckpoint_cases:
  fixes ledger s turn reserved operation content
  defines "t \<equiv> snd (ReservePlanningCheckpoint ledger s turn reserved operation content)"
  obtains "t = s" | u where "fail_proven_checkpoints ledger s = Inr u"
    "t = snd (ReserveCheckpoint u (''P'' @ operation) (lt_ParticipantID turn) (lt_ID turn) content)"
proof (cases "planningInvocation turn reserved")
  case (Some e)
  with that(1) show ?thesis by (simp add: t_def ReservePlanningCheckpoint_def)
next
  case None
  show ?thesis
  proof (cases "fail_proven_checkpoints ledger s")
    case (Inl e)
    with None that(1) show ?thesis by (simp add: t_def ReservePlanningCheckpoint_def)
  next
    case (Inr u)
    obtain r v where r: "ReserveCheckpoint u (''P'' @ operation) (lt_ParticipantID turn) (lt_ID turn) content = (r, v)"
      by fastforce
    with None Inr have "t = s \<or> t = v"
      by (simp add: t_def ReservePlanningCheckpoint_def split: sum.split collab_error.split)
    with that(1) that(2) [OF Inr] r show ?thesis by auto
  qed
qed

lemma ReservePlanningCheckpoint_kept:
  fixes ledger s turn reserved operation content
  defines "t \<equiv> snd (ReservePlanningCheckpoint ledger s turn reserved operation content)"
  shows "st_Inputs t = st_Inputs s \<and> st_Receipts t = st_Receipts s \<and> st_Rounds t = st_Rounds s
    \<and> st_CurrentRound t = st_CurrentRound s"
proof (cases rule: ReservePlanningCheckpoint_cases [of ledger s turn reserved operation content, folded t_def])
  case (2 u)
  from only_planning_fields [OF fail_proven_checkpoints_only [OF 2(1)]] show ?thesis
    unfolding 2(2) by (simp add: ReserveCheckpoint_kept)
qed simp

section \<open>Artifacts, receipts and the fence\<close>

lemma SaveCollaborationArtifact_kept:
  fixes s turn i artifact
  defines "t \<equiv> snd (SaveCollaborationArtifact s turn i artifact)"
  shows "st_Inputs t = st_Inputs s" "st_Receipts t = st_Receipts s" "st_References t = st_References s"
    "st_CurrentRound t = st_CurrentRound s"
  by (simp_all add: t_def SaveCollaborationArtifact_def freeze_artifact_def Let_def split: option.split)

lemma receipts_only:
  "only_receipts s (snd (ReserveCollaborationReceipt s i artifact))"
  "only_receipts s (snd (RejectCollaborationReceipt s i attempt))"
  by (auto simp: ReserveCollaborationReceipt_def RejectCollaborationReceipt_def split: option.split bool.split)

lemma fence_shape:
  "\<exists>p w. snd (fenceCollaborationSettlement s participant event) = s\<lparr>st_Planning := p, st_Waiting := w\<rparr>"
proof -
  have "\<exists>p w. s = s\<lparr>st_Planning := p, st_Waiting := w\<rparr>" "\<exists>p' w'. s\<lparr>st_Planning := p\<rparr> = s\<lparr>st_Planning := p', st_Waiting := w'\<rparr>"
    "\<exists>p w'. s\<lparr>st_Waiting := w\<rparr> = s\<lparr>st_Planning := p, st_Waiting := w'\<rparr>" for p w
    by (rule exI [of _ "st_Planning s"] exI [of _ p], rule exI [of _ "st_Waiting s"] exI [of _ w], simp)+
  then show ?thesis
    by (auto simp: fenceCollaborationSettlement_def Let_def split: option.split)
qed

lemma fence_fields [simp]:
  fixes s participant event
  defines "t \<equiv> snd (fenceCollaborationSettlement s participant event)"
  shows "st_Inputs t = st_Inputs s" "st_Receipts t = st_Receipts s" "st_Rounds t = st_Rounds s"
    "st_CurrentRound t = st_CurrentRound s" "st_References t = st_References s"
  using fence_shape [of s participant event] unfolding t_def by auto

lemma mark_waiting_fields [simp]:
  "st_Inputs (mark_waiting s out) = st_Inputs s" "st_Receipts (mark_waiting s out) = st_Receipts s"
  "st_Rounds (mark_waiting s out) = st_Rounds s" "st_CurrentRound (mark_waiting s out) = st_CurrentRound s"
  "st_References (mark_waiting s out) = st_References s" "st_Planning (mark_waiting s out) = st_Planning s"
  by (simp_all add: mark_waiting_def)

end
