(* ===== verification/Collab_Invariants.thy ===== *)
theory Collab_Invariants
  imports Collab_Frames
begin

text \<open>
  Invariants of every reachable conversation: inputs are distinct and amend only earlier ones,
  short references name one thing forever, one source is accepted once, question rounds are
  published one at a time and a question keeps its text.
\<close>

section \<open>Inputs\<close>

definition links_ok :: "(string \<times> string) list \<Rightarrow> bool" where
  "links_ok l \<longleftrightarrow>
     distinct (map fst l) \<and> '''' \<notin> fst ` set l
     \<and> (\<forall>k < length l. snd (l ! k) = '''' \<or> snd (l ! k) \<in> fst ` set (take k l))"

lemma links_ok_snoc:
  assumes "links_ok l" "i \<noteq> ''''" "i \<notin> fst ` set l" "am = '''' \<or> am \<in> fst ` set l"
  shows "links_ok (l @ [(i, am)])"
  using assms by (auto simp: links_ok_def nth_append less_Suc_eq)

lemma links_amends_earlier:
  assumes "links_ok (input_links s)"
  shows "amends_earlier (st_Inputs s)"
  unfolding amends_earlier_def
proof (intro allI impI)
  fix k
  assume k: "k < length (st_Inputs s)"
  have "fst ` set (take k (input_links s)) = inp_ID ` set (take k (st_Inputs s))"
    by (simp add: input_links_def take_map image_image)
  moreover have "snd (input_links s ! k) = inp_Amends (st_Inputs s ! k)" "k < length (input_links s)"
    using k by (simp_all add: input_links_def)
  ultimately show "inp_Amends (st_Inputs s ! k) = '''' \<or> inp_Amends (st_Inputs s ! k) \<in> inp_ID ` set (take k (st_Inputs s))"
    using assms unfolding links_ok_def by metis
qed

text \<open>Every step leaves the inputs and receipts alone, up to the bookkeeping of delivery and
  publication, or is \<open>Accept\<close>.\<close>

definition receipt_core :: "co_receipt \<Rightarrow> string \<times> co_source \<times> string" where
  "receipt_core rc = (rct_ID rc, rct_Source rc, rct_ResponseID rc)"

definition intake_kept :: "collab \<Rightarrow> collab \<Rightarrow> bool" where
  "intake_kept s t \<longleftrightarrow> inputs_kept s t \<and> map receipt_core (st_Receipts t) = map receipt_core (st_Receipts s)"

lemma intake_keptI: "st_Inputs t = st_Inputs s \<Longrightarrow> st_Receipts t = st_Receipts s \<Longrightarrow> intake_kept s t"
  by (simp add: intake_kept_def inputs_kept_same)

lemma receipts_core:
  "map receipt_core (st_Receipts (snd (ReserveCollaborationReceipt s i artifact))) = map receipt_core (st_Receipts s)"
  "map receipt_core (st_Receipts (snd (RejectCollaborationReceipt s i attempt))) = map receipt_core (st_Receipts s)"
  by (auto simp: ReserveCollaborationReceipt_def RejectCollaborationReceipt_def grant_attempt_def receipt_core_def
      split: option.split bool.split intro!: map_first_map)

lemma transact_intake: "intake_kept s (snd r) \<Longrightarrow> intake_kept s (snd (transact s r))"
  using transact_cases [of s r] by (auto intro: intake_keptI)

lemma collab_op_inputs:
  assumes "collab_op s s'"
  shows "intake_kept s s' \<or> (\<exists>i c a rc. Accept s i c a = (rc, s'))"
  using assms
proof cases
  case op_accept
  from AdmitHumanInput_cases [OF this] show ?thesis by (auto intro: intake_keptI)
next
  case op_prepare
  then show ?thesis by (simp add: intake_kept_def prepareCollaboration_kept)
next
  case (op_delivered sha256 encode turn counts collection index offset actual reads)
  with recordCollaborationDelivery_cases [of sha256 encode s turn counts collection index offset actual reads]
  show ?thesis by (auto simp: intake_kept_def MarkDelivered_kept)
next
  case (op_attempt i artifact)
  with receipts_core(1) [of s i artifact] only_receipts_fields [OF receipts_only(1) [of s i artifact]]
  show ?thesis by (simp add: intake_kept_def inputs_kept_same)
next
  case (op_rejected i attempt)
  with receipts_core(2) [of s i attempt] only_receipts_fields [OF receipts_only(2) [of s i attempt]]
  show ?thesis by (simp add: intake_kept_def inputs_kept_same)
next
  case (op_absent turnID operation stopped)
  with only_rounds_fields [OF ReconcileClarificationNonPublication_only [of s turnID operation stopped]]
  show ?thesis by (auto intro: intake_keptI)
next
  case op_resolve
  then show ?thesis
    by (auto simp: ResolveClarification_def Resolve_kept intro!: intake_keptI transact_intake)
next
  case op_assess
  then show ?thesis
    by (auto simp: AssessHumanInput_def Assess_kept split: option.split intro!: intake_keptI transact_intake)
next
  case op_publish
  then show ?thesis
    by (auto simp: ConfirmClarificationPublication_def PublishRound_kept intro!: intake_keptI transact_intake)
qed (auto simp: RequestClarification_kept SaveCollaborationArtifact_kept ReservePlanningCheckpoint_kept
    intro!: intake_keptI)

lemma inputs_kept_links: "inputs_kept s t \<Longrightarrow> input_links t = input_links s"
  by (rule nth_equalityI)
    (auto simp: inputs_kept_def input_links_def list_all2_conv_all_nth dest: kept_input_sel)

lemma accepted_links:
  assumes "accepted_input s i c a inp" "st_Inputs t = st_Inputs s @ [inp]" "links_ok (input_links s)"
  shows "links_ok (input_links t)"
proof -
  have "input_links t = input_links s @ [(i, inp_Amends inp)]" and
    ids: "fst ` set (input_links s) = inp_ID ` set (st_Inputs s)"
    using assms(1,2) by (simp_all add: input_links_def accepted_input_def image_image)
  moreover have "links_ok (input_links s @ [(i, inp_Amends inp)])"
    by (rule links_ok_snoc) (use assms ids in \<open>auto simp: accepted_input_def\<close>)
  ultimately show ?thesis by simp
qed

lemma conversation_links: "conversation s \<Longrightarrow> links_ok (input_links s)"
proof (induction rule: conversation.induct)
  case conversation_start
  then show ?case by (simp add: links_ok_def input_links_def collab_empty_def)
next
  case (conversation_op s s')
  from collab_op_inputs [OF conversation_op(2)] show ?case
  proof (elim disjE exE conjE)
    assume "intake_kept s s'"
    with conversation_op.IH inputs_kept_links [of s s'] show ?thesis by (simp add: intake_kept_def)
  next
    fix i c a rc
    assume "Accept s i c a = (rc, s')"
    from Accept_shape [OF this] show ?thesis
      using conversation_op.IH by (auto simp: input_links_def intro: accepted_links [unfolded input_links_def])
  qed
qed

lemma conversation_amends_earlier: "conversation s \<Longrightarrow> amends_earlier (st_Inputs s)"
  by (intro links_amends_earlier conversation_links)

section \<open>One input per source\<close>

definition source_key :: "co_source \<Rightarrow> string \<times> string" where
  "source_key src = (src_Channel src, src_ID src)"

text \<open>Each source has one receipt, and each input the receipt that acknowledged it.\<close>

definition sources_ok :: "collab \<Rightarrow> bool" where
  "sources_ok s \<longleftrightarrow>
     distinct (map (\<lambda>(_, src, _). source_key src) (map receipt_core (st_Receipts s)))
     \<and> distinct (map (\<lambda>inp. source_key (inp_Source inp)) (st_Inputs s))
     \<and> (\<forall>inp \<in> set (st_Inputs s). \<exists>(_, src, response) \<in> set (map receipt_core (st_Receipts s)).
          response = inp_ID inp \<and> src = inp_Source inp)"

lemma sources_ok_iff:
  "sources_ok s \<longleftrightarrow>
     distinct (map (\<lambda>rc. source_key (rct_Source rc)) (st_Receipts s))
     \<and> distinct (map (\<lambda>inp. source_key (inp_Source inp)) (st_Inputs s))
     \<and> (\<forall>inp \<in> set (st_Inputs s). \<exists>rc \<in> set (st_Receipts s).
          rct_ResponseID rc = inp_ID inp \<and> rct_Source rc = inp_Source inp)"
  by (simp add: sources_ok_def receipt_core_def o_def)

lemma same_source_key: "same_source src rc \<longleftrightarrow> source_key (rct_Source rc) = source_key src"
  by (simp add: same_source_def source_key_def)

lemma sources_ok_kept:
  assumes "intake_kept s t" "sources_ok s"
  shows "sources_ok t"
proof -
  have "map (\<lambda>inp. (inp_ID inp, inp_Source inp)) (st_Inputs t) = map (\<lambda>inp. (inp_ID inp, inp_Source inp)) (st_Inputs s)"
    using assms(1) by (intro nth_equalityI)
      (auto simp: intake_kept_def inputs_kept_def list_all2_conv_all_nth dest: kept_input_sel)
  then have keys: "map (\<lambda>p. source_key (snd p)) (map (\<lambda>inp. (inp_ID inp, inp_Source inp)) (st_Inputs t))
      = map (\<lambda>p. source_key (snd p)) (map (\<lambda>inp. (inp_ID inp, inp_Source inp)) (st_Inputs s))"
    and pairs: "set (map (\<lambda>inp. (inp_ID inp, inp_Source inp)) (st_Inputs t))
        = set (map (\<lambda>inp. (inp_ID inp, inp_Source inp)) (st_Inputs s))"
    by simp_all
  have "\<exists>(_, src, response) \<in> set (map receipt_core (st_Receipts s)). response = inp_ID inp \<and> src = inp_Source inp"
    if "inp \<in> set (st_Inputs t)" for inp
  proof -
    from that have "(inp_ID inp, inp_Source inp) \<in> set (map (\<lambda>inp. (inp_ID inp, inp_Source inp)) (st_Inputs s))"
      unfolding pairs [symmetric] by auto
    then obtain x where "x \<in> set (st_Inputs s)" "inp_ID x = inp_ID inp" "inp_Source x = inp_Source inp" by auto
    with assms(2) show ?thesis unfolding sources_ok_def by metis
  qed
  moreover have "map receipt_core (st_Receipts t) = map receipt_core (st_Receipts s)"
    using assms(1) by (simp add: intake_kept_def)
  ultimately show ?thesis using keys assms(2) by (simp only: sources_ok_def) (simp add: o_def)
qed

lemma Accept_sources:
  assumes "sources_ok s" "Accept s i c a = (rc, s')"
  shows "sources_ok s'"
proof -
  from Accept_shape [OF assms(2)] consider "s' = s"
    | "\<not> list_ex (same_source (adm_Source a)) (st_Receipts s)" "rct_Source rc = adm_Source a"
      "s' = s\<lparr>st_Receipts := st_Receipts s @ [rc]\<rparr>"
    | inp where "\<not> list_ex (same_source (adm_Source a)) (st_Receipts s)" "rct_Source rc = adm_Source a"
      "accepted_input s i c a inp" "rct_ResponseID rc = i"
      "s' = (snd (reference s ''A'' i))\<lparr>st_Inputs := st_Inputs s @ [inp], st_Receipts := st_Receipts s @ [rc]\<rparr>"
    by blast
  then show ?thesis
  proof cases
    case 1
    with assms(1) show ?thesis by simp
  next
    case 2
    then have "source_key (adm_Source a) \<notin> (\<lambda>rc. source_key (rct_Source rc)) ` set (st_Receipts s)"
      by (auto simp: list_ex_iff same_source_key)
    with assms(1) 2 show ?thesis by (auto simp: sources_ok_iff)
  next
    case 3
    then have "source_key (adm_Source a) \<notin> (\<lambda>rc. source_key (rct_Source rc)) ` set (st_Receipts s)"
      by (auto simp: list_ex_iff same_source_key)
    moreover from this assms(1)
    have "source_key (adm_Source a) \<notin> (\<lambda>inp. source_key (inp_Source inp)) ` set (st_Inputs s)"
      unfolding sources_ok_iff by (metis (mono_tags, lifting) image_iff)
    ultimately show ?thesis using assms(1) 3
      by (auto simp: sources_ok_iff accepted_input_def)
  qed
qed

lemma conversation_sources: "conversation s \<Longrightarrow> sources_ok s"
proof (induction rule: conversation.induct)
  case conversation_start
  then show ?case by (simp add: sources_ok_def collab_empty_def)
next
  case (conversation_op s s')
  from collab_op_inputs [OF conversation_op(2)] show ?case
    using sources_ok_kept Accept_sources conversation_op.IH by blast
qed

end
