(* ===== verification/Collab_References.thy ===== *)
theory Collab_References
  imports Collab_Invariants
begin

text \<open>
  The short references that humans use to address a round, an answer or a plan (\<open>R3\<close>, \<open>A7\<close>,
  \<open>P2\<close>; \<open>collaboration/references.go\<close>). Names are numbered per kind, name one identity forever
  and resolve back to it.
\<close>

section \<open>Decimal numerals are unambiguous\<close>

lemma digit_inj: "a < 10 \<Longrightarrow> b < 10 \<Longrightarrow> (char_of (48 + a) :: char) = char_of (48 + b) \<Longrightarrow> a = (b :: nat)"
proof -
  assume "a < 10" "b < 10" "(char_of (48 + a) :: char) = char_of (48 + b)"
  then have "(of_char (char_of (48 + a) :: char) :: nat) = of_char (char_of (48 + b) :: char)" by simp
  with \<open>a < 10\<close> \<open>b < 10\<close> show "a = b" by simp
qed

lemma decimal_nonempty [simp]: "decimal n \<noteq> []"
  by (subst decimal.simps) simp

lemma decimal_inject [simp]: "decimal m = decimal n \<longleftrightarrow> m = n"
proof
  assume "decimal m = decimal n"
  then show "m = n"
  proof (induction m arbitrary: n rule: less_induct)
    case (less m)
    have digit: "decimal k = [char_of (48 + k)]" if "k < 10" for k
      using that by (subst decimal.simps) simp
    have longer: "decimal k = decimal (k div 10) @ [char_of (48 + k mod 10)]" if "\<not> k < 10" for k
      using that by (subst decimal.simps) simp
    show ?case
    proof (cases "m < 10"; cases "n < 10")
      assume "m < 10" "n < 10"
      with less.prems show ?thesis by (auto simp: digit dest: digit_inj)
    next
      assume "\<not> m < 10" "\<not> n < 10"
      with less.prems have "decimal (m div 10) = decimal (n div 10)"
        "(char_of (48 + m mod 10) :: char) = char_of (48 + n mod 10)"
        by (simp_all add: longer)
      with less.IH [of "m div 10" "n div 10"] \<open>\<not> m < 10\<close> have "m div 10 = n div 10" "m mod 10 = n mod 10"
        by (auto dest: digit_inj [rotated 2])
      then show ?thesis by (metis div_mult_mod_eq)
    qed (use less.prems in \<open>auto simp: digit longer dest: sym [of "[]"]\<close>)
  qed
qed simp

section \<open>The table of references\<close>

definition refs_of :: "string \<Rightarrow> collab \<Rightarrow> co_reference list" where
  "refs_of k s = filter (\<lambda>ref. ref_Kind ref = k) (st_References s)"

definition references_ok :: "collab \<Rightarrow> bool" where
  "references_ok s \<longleftrightarrow>
     (\<forall>k. map ref_Name (refs_of k s) = map (\<lambda>n. k @ decimal (n + 1)) [0..<length (refs_of k s)]
        \<and> distinct (map ref_ID (refs_of k s)))"

lemma find_reference_None: "find_reference k i refs = None \<longleftrightarrow> (\<forall>ref \<in> set refs. ref_Kind ref = k \<longrightarrow> ref_ID ref \<noteq> i)"
  by (induction refs) auto

lemma find_reference_Some:
  "find_reference k i refs = Some n \<Longrightarrow> \<exists>ref \<in> set refs. ref_Kind ref = k \<and> ref_ID ref = i \<and> ref_Name ref = n"
  by (induction refs) (auto split: if_split_asm)

lemma reference_cases:
  obtains ref where "ref \<in> set (st_References s)" "ref_Kind ref = k" "ref_ID ref = i"
    "reference s k i = (ref_Name ref, s)"
  | "\<forall>ref \<in> set (st_References s). ref_Kind ref = k \<longrightarrow> ref_ID ref \<noteq> i"
    "fst (reference s k i) = k @ decimal (length (refs_of k s) + 1)"
    "st_References (snd (reference s k i))
       = st_References s @ [\<lparr>ref_Name = k @ decimal (length (refs_of k s) + 1), ref_ID = i, ref_Kind = k\<rparr>]"
proof (cases "find_reference k i (st_References s)")
  case None
  then have "\<forall>ref \<in> set (st_References s). ref_Kind ref = k \<longrightarrow> ref_ID ref \<noteq> i"
    by (simp add: find_reference_None)
  with None that(2) show ?thesis by (auto simp: reference_def refs_of_def Let_def)
next
  case (Some n)
  from find_reference_Some [OF this] obtain ref where
    "ref \<in> set (st_References s)" "ref_Kind ref = k" "ref_ID ref = i" "ref_Name ref = n" by blast
  with Some that(1) show ?thesis by (simp add: reference_def)
qed

lemma reference_step_ok:
  assumes "references_ok s"
  shows "references_ok (snd (reference s k i))"
proof (cases rule: reference_cases [of s k i])
  case 1
  with assms show ?thesis by simp
next
  case 2
  let ?new = "\<lparr>ref_Name = k @ decimal (length (refs_of k s) + 1), ref_ID = i, ref_Kind = k\<rparr>"
  have "refs_of k' (snd (reference s k i)) = (if k' = k then refs_of k' s @ [?new] else refs_of k' s)" for k'
    using 2(3) by (simp add: refs_of_def)
  moreover have "i \<notin> ref_ID ` set (refs_of k s)" using 2(1) by (auto simp: refs_of_def)
  ultimately show ?thesis using assms unfolding references_ok_def by simp
qed

lemma target_of_unique:
  assumes "references_ok s" "ref \<in> set (st_References s)" "ref_Kind ref = k" "ref_Name ref = n"
  shows "target_of s k n = ref_ID ref"
proof -
  have "distinct (map ref_Name (refs_of k s))"
    using assms(1) unfolding references_ok_def by (simp add: distinct_map inj_on_def)
  moreover have "ref \<in> set (refs_of k s)" using assms(2,3) by (simp add: refs_of_def)
  ultimately have unique: "ref' = ref" if "ref' \<in> set (st_References s)" "ref_Kind ref' = k" "ref_Name ref' = n" for ref'
    using that assms(4) by (auto simp: distinct_map inj_on_def refs_of_def)
  show ?thesis
  proof (cases "find (\<lambda>ref. ref_Kind ref = k \<and> ref_Name ref = n) (st_References s)")
    case None
    with assms show ?thesis by (auto simp: find_None_iff)
  next
    case (Some x)
    then have "x = ref" by (intro unique) (auto simp: find_Some_iff)
    with Some show ?thesis by (simp add: target_of_def)
  qed
qed

lemma target_of_reference:
  assumes "references_ok s" "reference s k i = (n, t)"
  shows "target_of t k n = i"
proof -
  have ok: "references_ok t" using reference_step_ok [OF assms(1), of k i] assms(2) by simp
  have "\<exists>ref \<in> set (st_References t). ref_Kind ref = k \<and> ref_Name ref = n \<and> ref_ID ref = i"
    by (cases rule: reference_cases [of s k i]) (use assms(2) in auto)
  with target_of_unique [OF ok] show ?thesis by auto
qed

section \<open>Every step keeps or extends the table\<close>

definition references_step :: "collab \<Rightarrow> collab \<Rightarrow> bool" where
  "references_step s t \<longleftrightarrow>
     st_References t = st_References s \<or> (\<exists>k i. st_References t = st_References (snd (reference s k i)))"

lemma reference_only_reads: "st_References s = st_References u \<Longrightarrow>
    st_References (snd (reference s k i)) = st_References (snd (reference u k i))"
  by (auto simp: reference_def Let_def split: option.split)

lemma references_step_same: "st_References t = st_References s \<Longrightarrow> references_step s t"
  by (simp add: references_step_def)

lemma references_step_reads:
  "references_step u v \<Longrightarrow> st_References u = st_References s \<Longrightarrow> st_References v = st_References t \<Longrightarrow> references_step s t"
  unfolding references_step_def using reference_only_reads by metis

lemma RequestRound_references:
  "references_step s (snd (RequestRound s i participant turnID head questions))"
  by (auto simp: references_step_def RequestRound_def Let_def split: prod.split) (metis snd_conv)

lemma RequestClarification_references:
  "references_step s (snd (RequestClarification ledger s turn invocation questions))"
proof (cases rule: RequestClarification_cases [of ledger s turn invocation questions])
  case 1
  then show ?thesis by (simp add: references_step_same)
next
  case (2 u i head r v intro)
  have "references_step u v"
    using RequestRound_references [of u i "lt_ParticipantID turn" "lt_ID turn" head questions] 2(2) by simp
  then show ?thesis
    by (rule references_step_reads)
      (use only_rounds_fields [OF fail_proven_only [OF 2(1)]] 2(3) in \<open>simp_all add: introduced_def\<close>)
qed

lemma ReserveCheckpoint_references:
  "references_step s (snd (ReserveCheckpoint s i participant turn content))"
  by (auto simp: references_step_def ReserveCheckpoint_def reserve_new_def Let_def split: option.split prod.split)
    (metis snd_conv)+

lemma ReservePlanningCheckpoint_references:
  "references_step s (snd (ReservePlanningCheckpoint ledger s turn reserved operation content))"
proof (cases rule: ReservePlanningCheckpoint_cases [of ledger s turn reserved operation content])
  case 1
  then show ?thesis by (simp add: references_step_same)
next
  case (2 u)
  show ?thesis unfolding 2(2)
    by (rule references_step_reads [OF ReserveCheckpoint_references])
      (use only_planning_fields [OF fail_proven_checkpoints_only [OF 2(1)]] in simp_all)
qed

lemma transact_references: "references_step s (snd r) \<Longrightarrow> references_step s (snd (transact s r))"
  using transact_cases [of s r] by (auto intro: references_step_same)

lemma collab_op_references:
  assumes "collab_op s s'"
  shows "references_step s s'"
  using assms
proof cases
  case op_request
  then show ?thesis by (simp add: RequestClarification_references)
next
  case op_reserve
  then show ?thesis by (simp add: ReservePlanningCheckpoint_references)
next
  case (op_accept df pending n assigned uuid c actor source authorized at r)
  from AdmitHumanInput_cases [OF this] show ?thesis
  proof (elim disjE exE)
    fix i a rc
    assume "Accept s i c a = (rc, s')"
    from Accept_shape [OF this] show ?thesis unfolding references_step_def
      by (elim disjE conjE exE) (simp_all, blast)
  qed (simp add: references_step_same)
next
  case (op_delivered sha256 encode turn counts collection index offset actual reads)
  with recordCollaborationDelivery_cases [of sha256 encode s turn counts collection index offset actual reads]
  show ?thesis by (auto intro: references_step_same)
next
  case (op_attempt i artifact)
  with only_receipts_fields [OF receipts_only(1) [of s i artifact]] show ?thesis by (simp add: references_step_same)
next
  case (op_rejected i attempt)
  with only_receipts_fields [OF receipts_only(2) [of s i attempt]] show ?thesis by (simp add: references_step_same)
next
  case (op_absent turnID operation stopped)
  with only_rounds_fields [OF ReconcileClarificationNonPublication_only [of s turnID operation stopped]]
  show ?thesis by (simp add: references_step_same)
next
  case op_resolve
  then show ?thesis
    by (auto simp: ResolveClarification_def Resolve_kept intro!: references_step_same transact_references)
next
  case op_assess
  then show ?thesis
    by (auto simp: AssessHumanInput_def Assess_kept split: option.split intro!: references_step_same transact_references)
next
  case op_publish
  then show ?thesis
    by (auto simp: ConfirmClarificationPublication_def PublishRound_kept intro!: references_step_same transact_references)
qed (simp_all add: references_step_same SaveCollaborationArtifact_kept)

lemma references_ok_only_reads: "st_References t = st_References s \<Longrightarrow> references_ok t = references_ok s"
  by (simp add: references_ok_def refs_of_def)

lemma references_step_ok: "references_step s t \<Longrightarrow> references_ok s \<Longrightarrow> references_ok t"
  using reference_step_ok references_ok_only_reads unfolding references_step_def by blast

lemma references_step_extends: "references_step s t \<Longrightarrow> \<exists>new. st_References t = st_References s @ new"
  unfolding references_step_def
proof (elim disjE exE)
  fix k i
  assume "st_References t = st_References (snd (reference s k i))"
  then show ?thesis by (cases rule: reference_cases [of s k i]) auto
qed simp

lemma conversation_references: "conversation s \<Longrightarrow> references_ok s"
proof (induction rule: conversation.induct)
  case conversation_start
  then show ?case by (simp add: references_ok_def refs_of_def collab_empty_def)
next
  case (conversation_op s s')
  then show ?case by (blast intro: references_step_ok collab_op_references)
qed

lemma target_of_kept:
  assumes "references_step s t" "target_of s k n \<noteq> ''''"
  shows "target_of t k n = target_of s k n"
proof -
  from references_step_extends [OF assms(1)] obtain new where "st_References t = st_References s @ new" by blast
  moreover have "find P (xs @ ys) = (case find P xs of None \<Rightarrow> find P ys | Some x \<Rightarrow> Some x)"
    for P and xs ys :: "co_reference list" by (induction xs) auto
  ultimately show ?thesis using assms(2) by (auto simp: target_of_def split: option.splits)
qed

lemma target_of_permanent:
  "collab_op\<^sup>*\<^sup>* s t \<Longrightarrow> target_of s k n \<noteq> '''' \<Longrightarrow> target_of t k n = target_of s k n"
proof (induction rule: rtranclp_induct)
  case (step y z)
  then show ?case using target_of_kept [OF collab_op_references] by metis
qed simp

end
