(* ===== verification/Collab_Rounds.thy ===== *)
theory Collab_Rounds
  imports Collab_References
begin

text \<open>
  Question rounds are published one at a time: every reachable conversation has at most one round
  whose publication is undecided, it is the latest one, and the current round is the only published
  round that was not replaced. A question keeps its wording for the whole conversation.
\<close>

section \<open>The invariant\<close>

definition open_round :: "co_round \<Rightarrow> bool" where
  "open_round r \<longleftrightarrow> \<not> rnd_Published r \<and> \<not> rnd_PublicationFailed r"

definition round_ok :: "string \<Rightarrow> co_round \<Rightarrow> bool" where
  "round_ok current r \<longleftrightarrow>
     rnd_ID r \<noteq> '''' \<and> \<not> (rnd_Published r \<and> rnd_PublicationFailed r)
     \<and> (rnd_SupersededBy r \<noteq> '''' \<longrightarrow> rnd_Published r)
     \<and> (rnd_Published r \<and> rnd_SupersededBy r = '''' \<longleftrightarrow> rnd_ID r = current)
     \<and> distinct (map qst_ID (rnd_Questions r)) \<and> rnd_Questions r \<noteq> []"

definition texts_ok :: "co_round list \<Rightarrow> bool" where
  "texts_ok rs \<longleftrightarrow>
     (\<forall>r \<in> set rs. \<forall>t \<in> set rs. \<forall>p \<in> set (rnd_Questions r). \<forall>q \<in> set (rnd_Questions t).
        qst_ID p = qst_ID q \<longrightarrow> qst_Body p = qst_Body q)"

definition rounds_inv :: "co_round list \<Rightarrow> string \<Rightarrow> bool" where
  "rounds_inv rs current \<longleftrightarrow>
     distinct (map rnd_ID rs) \<and> (\<forall>r \<in> set rs. round_ok current r)
     \<and> (\<forall>r \<in> set (butlast rs). \<not> open_round r)
     \<and> (current = '''' \<or> current \<in> rnd_ID ` set rs) \<and> texts_ok rs"

text \<open>What the invariant reads of a round.\<close>

definition round_core :: "co_round \<Rightarrow> co_round" where
  "round_core r = r\<lparr>rnd_Introduction := '''', rnd_Resolutions := [], rnd_Artifact := None\<rparr>"

lemma rounds_inv_core: "rounds_inv (map round_core rs) current = rounds_inv rs current"
proof -
  have "round_ok current (round_core r) = round_ok current r" "open_round (round_core r) = open_round r"
    "rnd_ID (round_core r) = rnd_ID r" "rnd_Questions (round_core r) = rnd_Questions r" for r
    by (simp_all add: round_core_def round_ok_def open_round_def)
  then show ?thesis
    by (simp add: rounds_inv_def texts_ok_def o_def map_butlast [symmetric] image_image)
qed

lemma rounds_inv_same_core:
  "map round_core rs = map round_core rs' \<Longrightarrow> rounds_inv rs current = rounds_inv rs' current"
  by (metis rounds_inv_core)

section \<open>Every step keeps it\<close>

lemma map_first_distinct:
  "distinct (map rnd_ID rs) \<Longrightarrow>
   map_first (\<lambda>x. rnd_ID x = i) f rs = map (\<lambda>x. if rnd_ID x = i then f x else x) rs"
proof (induction rs)
  case (Cons r rs)
  have "map (\<lambda>x. if rnd_ID x = i then f x else x) rs = rs" if "i \<notin> rnd_ID ` set rs"
    using that by (intro map_idI) auto
  with Cons show ?case by auto
qed simp

text \<open>An update of single rounds.\<close>

lemma rounds_inv_map:
  assumes "rounds_inv rs current" "\<And>x. rnd_ID (f x) = rnd_ID x" "\<And>x. rnd_Questions (f x) = rnd_Questions x"
    "\<And>x. \<not> open_round x \<Longrightarrow> \<not> open_round (f x)" "\<And>x. x \<in> set rs \<Longrightarrow> round_ok current' (f x)"
    "current' = '''' \<or> current' \<in> rnd_ID ` set rs"
  shows "rounds_inv (map f rs) current'"
proof -
  have "map rnd_ID (map f rs) = map rnd_ID rs" "rnd_ID ` set (map f rs) = rnd_ID ` set rs"
    using assms(2) by (simp_all add: image_image)
  moreover have "texts_ok (map f rs)"
  proof -
    have "texts_ok (map f rs) = texts_ok rs" using assms(3) by (simp add: texts_ok_def)
    with assms(1) show ?thesis by (simp add: rounds_inv_def)
  qed
  moreover have "\<forall>x \<in> set (butlast (map f rs)). \<not> open_round x"
    using assms(1,4) by (auto simp: rounds_inv_def map_butlast [symmetric])
  moreover have "\<forall>x \<in> set (map f rs). round_ok current' x" using assms(5) by simp
  ultimately show ?thesis using assms(1,6) unfolding rounds_inv_def by metis
qed

lemma FailPublication_rounds:
  assumes "rounds_inv (st_Rounds s) current"
  shows "rounds_inv (st_Rounds (snd (FailPublication s i))) current"
proof (cases "find (\<lambda>r. rnd_ID r = i) (st_Rounds s)")
  case (Some r)
  then have r: "r \<in> set (st_Rounds s)" "rnd_ID r = i" by (auto simp: find_Some_iff)
  let ?fail = "\<lambda>x. if rnd_ID x = i then x\<lparr>rnd_PublicationFailed := True\<rparr> else x"
  show ?thesis
  proof (cases "rnd_Published r")
    case False
    have unpublished: "\<not> rnd_Published x" if "x \<in> set (st_Rounds s)" "rnd_ID x = i" for x
      using that r False assms by (auto simp: rounds_inv_def distinct_map inj_on_def)
    have "st_Rounds (snd (FailPublication s i)) = map ?fail (st_Rounds s)"
      using Some False assms by (simp add: FailPublication_def rounds_inv_def map_first_distinct)
    moreover have "rounds_inv (map ?fail (st_Rounds s)) current"
      by (rule rounds_inv_map [OF assms])
        (use assms unpublished in \<open>auto simp: rounds_inv_def round_ok_def open_round_def\<close>)
    ultimately show ?thesis by simp
  qed (use Some assms in \<open>simp add: FailPublication_def\<close>)
qed (use assms in \<open>simp add: FailPublication_def\<close>)


lemma check_questions_sound:
  assumes "check_questions s seen qs"
  shows "distinct (map qst_ID qs) \<and> set (map qst_ID qs) \<inter> set seen = {}
    \<and> (\<forall>q \<in> set qs. qst_ID q \<noteq> '''' \<and> \<not> trims_to_empty (qst_Body q)
        \<and> (\<forall>r \<in> set (st_Rounds s). \<forall>old \<in> set (rnd_Questions r). qst_ID old = qst_ID q \<longrightarrow> qst_Body old = qst_Body q))"
  using assms
proof (induction qs arbitrary: seen)
  case (Cons q qs)
  then have "check_questions s (qst_ID q # seen) qs" by (simp split: if_split_asm)
  from Cons.IH [OF this] Cons.prems show ?case
    by (auto simp: list_ex_iff split: if_split_asm)
qed simp

lemma RequestRound_shape:
  assumes "RequestRound s i participant turn head questions = (Inr r, t)"
  shows "st_Rounds t = st_Rounds s @ [r] \<and> rnd_ID r = i \<and> i \<noteq> '''' \<and> i \<notin> rnd_ID ` set (st_Rounds s)
    \<and> (\<forall>x \<in> set (st_Rounds s). \<not> open_round x) \<and> check_questions s [] questions \<and> questions \<noteq> []
    \<and> rnd_Questions r = questions \<and> \<not> rnd_Published r \<and> \<not> rnd_PublicationFailed r \<and> rnd_SupersededBy r = ''''
    \<and> rnd_ParticipantID r = participant \<and> rnd_Supersedes r = st_CurrentRound s
    \<and> st_CurrentRound t = st_CurrentRound s"
  using assms unfolding RequestRound_def Let_def
  by (auto simp: list_ex_iff open_round_def dest!: reference_kept split: if_split_asm prod.split_asm)

lemma RequestRound_error: "RequestRound s i participant turn head questions = (Inl e, t) \<Longrightarrow> t = s"
  unfolding RequestRound_def Let_def by (auto split: if_split_asm prod.split_asm)

lemma rounds_inv_snoc:
  assumes "rounds_inv rs current" "\<forall>x \<in> set rs. \<not> open_round x" "rnd_ID r \<notin> rnd_ID ` set rs" "rnd_ID r \<noteq> ''''"
    "\<not> rnd_Published r" "rnd_SupersededBy r = ''''" "distinct (map qst_ID (rnd_Questions r))" "rnd_Questions r \<noteq> []"
    "\<forall>q \<in> set (rnd_Questions r). \<forall>x \<in> set rs. \<forall>old \<in> set (rnd_Questions x). qst_ID old = qst_ID q \<longrightarrow> qst_Body old = qst_Body q"
  shows "rounds_inv (rs @ [r]) current"
proof -
  have "round_ok current r"
    using assms by (auto simp: rounds_inv_def round_ok_def)
  moreover have "texts_ok (rs @ [r])"
  proof -
    have "qst_Body p = qst_Body q" if "p \<in> set (rnd_Questions r)" "q \<in> set (rnd_Questions r)" "qst_ID p = qst_ID q" for p q
      using that assms(7) by (auto simp: distinct_map inj_on_def)
    moreover have "qst_Body p = qst_Body q"
      if "x \<in> set rs" "p \<in> set (rnd_Questions x)" "q \<in> set (rnd_Questions r)" "qst_ID p = qst_ID q" for x p q
      using that assms(9) by blast
    ultimately show ?thesis using assms(1) unfolding rounds_inv_def texts_ok_def
      by (metis (no_types, opaque_lifting) Un_iff empty_iff list.set(1) set_ConsD set_append)
  qed
  ultimately show ?thesis using assms by (auto simp: rounds_inv_def)
qed

lemma introduced_core: "map round_core (st_Rounds (introduced i intro s)) = map round_core (st_Rounds s)"
  by (simp add: introduced_def round_core_def)

lemma RequestClarification_rounds:
  assumes "rounds_inv (st_Rounds s) (st_CurrentRound s)"
  shows "rounds_inv (st_Rounds (snd (RequestClarification ledger s turn invocation questions))) (st_CurrentRound s)"
proof (cases rule: RequestClarification_cases [of ledger s turn invocation questions])
  case 1
  with assms show ?thesis by simp
next
  case (2 u i head r v intro)
  have inv: "rounds_inv (st_Rounds u) (st_CurrentRound s)"
    by (rule fail_proven_rule [OF 2(1), where P = "\<lambda>u. rounds_inv (st_Rounds u) (st_CurrentRound s)"])
      (use assms FailPublication_rounds in auto)
  note shape = RequestRound_shape [OF 2(2)]
  from shape have "check_questions u [] questions" by blast
  note qs = check_questions_sound [OF this]
  have "rounds_inv (st_Rounds u @ [r]) (st_CurrentRound s)"
  proof (rule rounds_inv_snoc [OF inv])
    show "\<forall>q \<in> set (rnd_Questions r). \<forall>x \<in> set (st_Rounds u).
        \<forall>old \<in> set (rnd_Questions x). qst_ID old = qst_ID q \<longrightarrow> qst_Body old = qst_Body q"
      using qs shape by metis
  qed (use qs shape in metis)+
  with shape have "rounds_inv (st_Rounds v) (st_CurrentRound s)" by metis
  with rounds_inv_same_core [OF introduced_core] 2(3) show ?thesis by metis
qed

lemma PublishRound_rounds:
  assumes "rounds_inv (st_Rounds s) (st_CurrentRound s)"
  shows "rounds_inv (st_Rounds (snd (PublishRound s i source))) (st_CurrentRound (snd (PublishRound s i source)))"
proof (cases "find (\<lambda>r. rnd_ID r = i) (st_Rounds s)")
  case (Some r)
  then have r: "r \<in> set (st_Rounds s)" "rnd_ID r = i" by (auto simp: find_Some_iff)
  show ?thesis
  proof (cases "open_round r")
    case True
    let ?cur = "st_CurrentRound s"
    let ?step = "\<lambda>x. if rnd_ID x = i then x\<lparr>rnd_Published := True, rnd_Source := Some source\<rparr>
                     else if rnd_ID x = ?cur then x\<lparr>rnd_SupersededBy := i\<rparr> else x"
    have ok: "round_ok ?cur x" if "x \<in> set (st_Rounds s)" for x using that assms by (simp add: rounds_inv_def)
    have "i \<noteq> ?cur" using ok [OF r(1)] r(2) True by (auto simp: round_ok_def open_round_def)
    have "map_first (\<lambda>x. rnd_ID x = i) g (map h (st_Rounds s)) = map (\<lambda>x. if rnd_ID x = i then g (h x) else h x) (st_Rounds s)"
      if "\<And>x. rnd_ID (h x) = rnd_ID x" for g h
      using map_first_distinct [of "map h (st_Rounds s)" i g] assms that by (simp add: rounds_inv_def o_def)
    from this [of "\<lambda>x. if rnd_ID x = ?cur then x\<lparr>rnd_SupersededBy := i\<rparr> else x" "\<lambda>x. x\<lparr>rnd_Published := True, rnd_Source := Some source\<rparr>"]
      this [of "\<lambda>x. x" "\<lambda>x. x\<lparr>rnd_Published := True, rnd_Source := Some source\<rparr>"]
    have first: "map_first (\<lambda>x. rnd_ID x = i) (\<lambda>x. x\<lparr>rnd_Published := True, rnd_Source := Some source\<rparr>)
        (if ?cur \<noteq> '''' then map (\<lambda>x. if rnd_ID x = ?cur then x\<lparr>rnd_SupersededBy := i\<rparr> else x) (st_Rounds s) else st_Rounds s)
        = map ?step (st_Rounds s)"
      using ok \<open>i \<noteq> ?cur\<close> by (auto simp: round_ok_def intro!: map_cong)
    have "\<not> rnd_Published r" "\<not> rnd_PublicationFailed r" using True by (simp_all add: open_round_def)
    with Some first have "st_Rounds (snd (PublishRound s i source)) = map ?step (st_Rounds s)"
      "st_CurrentRound (snd (PublishRound s i source)) = i"
      by (simp_all add: PublishRound_def Let_def)
    moreover have "rounds_inv (map ?step (st_Rounds s)) i"
    proof (rule rounds_inv_map [OF assms])
      fix x
      assume x: "x \<in> set (st_Rounds s)"
      show "round_ok i (?step x)"
      proof (cases "rnd_ID x = i")
        case True
        with x r assms have "x = r" by (auto simp: rounds_inv_def distinct_map inj_on_def)
        with ok [OF r(1)] r(2) \<open>open_round r\<close> \<open>i \<noteq> ?cur\<close> show ?thesis
          by (auto simp: round_ok_def open_round_def)
      next
        case False
        have "i \<noteq> ''''" using ok [OF r(1)] r(2) by (simp add: round_ok_def)
        with ok [OF x] False \<open>i \<noteq> ?cur\<close> show ?thesis
          by (cases "rnd_ID x = ?cur") (simp_all add: round_ok_def)
      qed
    qed (use r in \<open>auto simp: open_round_def\<close>)
    ultimately show ?thesis by simp
  next
    case False
    with Some assms show ?thesis by (auto simp: PublishRound_def open_round_def)
  qed
qed (use assms in \<open>simp add: PublishRound_def\<close>)

lemma record_resolution_core:
  "map round_core (st_Rounds (record_resolution r x s)) = map round_core (st_Rounds s)"
proof -
  have "map round_core (map_first P f rs) = map round_core rs" if "\<And>c. round_core (f c) = round_core c" for P f rs
    using that by (rule map_first_map)
  moreover have "round_core (c\<lparr>rnd_Resolutions := z\<rparr>) = round_core c" for c z by (simp add: round_core_def)
  ultimately show ?thesis by (simp add: record_resolution_def Let_def o_def if_distrib [of round_core] cong: if_cong)
qed

lemma Resolve_core: "map round_core (st_Rounds (snd (Resolve s rid turn resolutions))) = map round_core (st_Rounds s)"
proof -
  have "map round_core (st_Rounds (fold (record_resolution r) xs t)) = map round_core (st_Rounds t)" for r xs t
    by (induction xs arbitrary: t) (simp_all add: record_resolution_core)
  then show ?thesis by (auto simp: Resolve_def Let_def split: option.split)
qed

lemma SaveCollaborationArtifact_core:
  "map round_core (st_Rounds (snd (SaveCollaborationArtifact s turn i artifact))) = map round_core (st_Rounds s)"
proof -
  have "map round_core (map_last P (\<lambda>x. x\<lparr>rnd_Artifact := a\<rparr>) rs) = map round_core rs" for P a rs
  proof -
    have "map round_core (map_first P (\<lambda>x. x\<lparr>rnd_Artifact := a\<rparr>) (rev rs)) = map round_core (rev rs)"
      by (rule map_first_map) (simp add: round_core_def)
    then show ?thesis unfolding map_last_def by (simp add: rev_map [symmetric])
  qed
  then show ?thesis
    by (auto simp: SaveCollaborationArtifact_def freeze_artifact_def Let_def split: option.split)
qed

text \<open>The invariant of a whole conversation, and the operations that leave the rounds alone.\<close>

definition rounds_ok :: "collab \<Rightarrow> bool" where
  "rounds_ok s \<longleftrightarrow> rounds_inv (st_Rounds s) (st_CurrentRound s)"

lemma rounds_ok_core:
  "map round_core (st_Rounds t) = map round_core (st_Rounds s) \<Longrightarrow> st_CurrentRound t = st_CurrentRound s \<Longrightarrow>
   rounds_ok s \<Longrightarrow> rounds_ok t"
  unfolding rounds_ok_def by (metis rounds_inv_same_core)

lemma rounds_ok_same:
  "st_Rounds t = st_Rounds s \<Longrightarrow> st_CurrentRound t = st_CurrentRound s \<Longrightarrow> rounds_ok s \<Longrightarrow> rounds_ok t"
  by (simp add: rounds_ok_def)

lemma transact_rounds: "rounds_ok s \<Longrightarrow> rounds_ok (snd r) \<Longrightarrow> rounds_ok (snd (transact s r))"
  using transact_cases [of s r] by auto

lemma collab_op_rounds:
  assumes "collab_op s s'" "rounds_ok s"
  shows "rounds_ok s'"
  using assms(1)
proof cases
  case op_request
  with assms(2) show ?thesis by (simp add: rounds_ok_def RequestClarification_rounds RequestClarification_kept)
next
  case op_publish
  with assms(2) show ?thesis
    by (auto simp: ConfirmClarificationPublication_def rounds_ok_def PublishRound_rounds
        intro!: transact_rounds [unfolded rounds_ok_def])
next
  case (op_absent turnID operation stopped)
  have "rounds_inv (st_Rounds s') (st_CurrentRound s)"
    unfolding op_absent
    by (rule ReconcileClarificationNonPublication_rule [where P = "\<lambda>u. rounds_inv (st_Rounds u) (st_CurrentRound s)"])
      (use assms(2) FailPublication_rounds in \<open>auto simp: rounds_ok_def\<close>)
  with only_rounds_fields [OF ReconcileClarificationNonPublication_only [of s turnID operation stopped]] op_absent
  show ?thesis by (simp add: rounds_ok_def)
next
  case op_artifact
  with SaveCollaborationArtifact_core [of s] SaveCollaborationArtifact_kept(4) [of s] rounds_ok_core assms(2)
  show ?thesis by metis
next
  case (op_accept df pending n assigned uuid c actor source authorized at r)
  from AdmitHumanInput_cases [OF this] show ?thesis
  proof (elim disjE exE)
    fix i a rc
    assume "Accept s i c a = (rc, s')"
    from Accept_shape [OF this] assms(2) show ?thesis by (auto simp: rounds_ok_def)
  qed (use assms(2) in simp)
next
  case (op_delivered sha256 encode turn counts collection index offset actual reads)
  with recordCollaborationDelivery_cases [of sha256 encode s turn counts collection index offset actual reads] assms(2)
  show ?thesis by (auto intro: rounds_ok_same)
next
  case (op_attempt i artifact)
  with only_receipts_fields [OF receipts_only(1) [of s i artifact]] assms(2) show ?thesis by (auto intro: rounds_ok_same)
next
  case (op_rejected i attempt)
  with only_receipts_fields [OF receipts_only(2) [of s i attempt]] assms(2) show ?thesis by (auto intro: rounds_ok_same)
next
  case op_resolve
  with assms(2) rounds_ok_core [OF Resolve_core] show ?thesis
    by (auto simp: ResolveClarification_def Resolve_kept intro!: transact_rounds)
next
  case op_assess
  with assms(2) show ?thesis
    by (auto simp: AssessHumanInput_def Assess_kept split: option.split intro!: transact_rounds
        intro: rounds_ok_same [of "snd (Assess _ _ _ _ _)"])
qed (use assms(2) in \<open>simp_all add: rounds_ok_def ReservePlanningCheckpoint_kept\<close>)

lemma conversation_rounds: "conversation s \<Longrightarrow> rounds_ok s"
proof (induction rule: conversation.induct)
  case conversation_start
  then show ?case by (simp add: rounds_ok_def rounds_inv_def texts_ok_def collab_empty_def)
qed (rule collab_op_rounds)

end
