(* ===== verification/Collab_Plan.thy ===== *)
theory Collab_Plan
  imports Collab_Rounds
begin

text \<open>
  The plan of a conversation: its history is only ever extended, revisions are published one at a
  time, and every validation rests on a published proposal and on the confirmation a human sent for
  it.
\<close>

section \<open>The history of a plan\<close>

text \<open>A recorded revision keeps its content, provenance and decisions; its artifact is frozen once
  and a confirmed publication is final.\<close>

definition revision_core :: "planning_revision \<Rightarrow> planning_revision" where
  "revision_core r =
     r\<lparr>rvn_Artifact := None, rvn_PublicationFailed := False, rvn_Published := False, rvn_Source := None\<rparr>"

definition kept_revision :: "planning_revision \<Rightarrow> planning_revision \<Rightarrow> bool" where
  "kept_revision r t \<longleftrightarrow>
     revision_core t = revision_core r
     \<and> (rvn_Artifact r \<noteq> None \<longrightarrow> rvn_Artifact t = rvn_Artifact r)
     \<and> (rvn_Published r \<longrightarrow> rvn_Published t \<and> rvn_Source t = rvn_Source r)
     \<and> (rvn_PublicationFailed r \<longrightarrow> rvn_PublicationFailed t)"

lemma kept_revision_refl [simp]: "kept_revision r r"
  by (simp add: kept_revision_def)

lemma kept_revision_sel:
  "kept_revision r t \<Longrightarrow> rvn_ID t = rvn_ID r \<and> rvn_ParticipantID t = rvn_ParticipantID r \<and> rvn_Content t = rvn_Content r
     \<and> rvn_TurnID t = rvn_TurnID r"
  by (cases r; cases t) (simp add: kept_revision_def revision_core_def)

definition plan_extends :: "planning_state \<Rightarrow> planning_state \<Rightarrow> bool" where
  "plan_extends p t \<longleftrightarrow>
     pls_OriginalRequest t = pls_OriginalRequest p
     \<and> (\<exists>rs new. pls_Revisions t = rs @ new \<and> list_all2 kept_revision (pls_Revisions p) rs)
     \<and> (\<exists>new. pls_InvalidatedConfirmations t = pls_InvalidatedConfirmations p @ new)
     \<and> (\<exists>new. pls_NonPublications t = pls_NonPublications p @ new)
     \<and> (\<exists>new. pls_Revalidations t = pls_Revalidations p @ new)"

lemma list_all2_kept_refl [simp]: "list_all2 kept_revision rs rs"
  by (simp add: list_all2_same)

lemma plan_extends_refl [simp]: "plan_extends p p"
  unfolding plan_extends_def using list_all2_kept_refl by (metis append_Nil2)

lemma kept_revision_mono:
  "kept_revision r t \<Longrightarrow> rvn_Published r \<Longrightarrow> rvn_Published t"
  "kept_revision r t \<Longrightarrow> rvn_PublicationFailed r \<Longrightarrow> rvn_PublicationFailed t"
  unfolding kept_revision_def by blast+

lemma list_all2_member: "list_all2 P xs ys \<Longrightarrow> x \<in> set xs \<Longrightarrow> \<exists>y \<in> set ys. P x y"
  by (induction rule: list_all2_induct) auto

lemmas kept_revision_member = list_all2_member [of kept_revision]

lemma kept_revision_trans: "kept_revision r t \<Longrightarrow> kept_revision t u \<Longrightarrow> kept_revision r u"
  by (auto simp: kept_revision_def)

lemma plan_extends_trans:
  assumes "plan_extends p t" "plan_extends t u"
  shows "plan_extends p u"
proof -
  from assms obtain rs new rs' new' where
    "pls_Revisions t = rs @ new" "list_all2 kept_revision (pls_Revisions p) rs"
    "pls_Revisions u = rs' @ new'" "list_all2 kept_revision (rs @ new) rs'"
    by (auto simp: plan_extends_def)
  moreover from this(4) obtain as bs where "rs' = as @ bs" "list_all2 kept_revision rs as"
    by (auto simp: list_all2_append1)
  ultimately have "pls_Revisions u = as @ (bs @ new')" "list_all2 kept_revision (pls_Revisions p) as"
    by (auto intro: list_all2_trans [of kept_revision kept_revision kept_revision] kept_revision_trans)
  with assms show ?thesis unfolding plan_extends_def by (metis append_assoc)
qed

definition planning_extends :: "collab \<Rightarrow> collab \<Rightarrow> bool" where
  "planning_extends s t \<longleftrightarrow>
     (case st_Planning s of None \<Rightarrow> True | Some p \<Rightarrow> (\<exists>p'. st_Planning t = Some p' \<and> plan_extends p p'))"

lemma planning_extends_same: "st_Planning t = st_Planning s \<Longrightarrow> planning_extends s t"
  by (simp add: planning_extends_def split: option.split)

lemma planning_extends_trans: "planning_extends s t \<Longrightarrow> planning_extends t u \<Longrightarrow> planning_extends s u"
  by (auto simp: planning_extends_def split: option.split_asm intro: plan_extends_trans)

section \<open>The invariant\<close>

definition open_revision :: "planning_revision \<Rightarrow> bool" where
  "open_revision r \<longleftrightarrow> \<not> rvn_Published r \<and> \<not> rvn_PublicationFailed r"

text \<open>A validation names a published proposal and the confirmation of exactly this proposal.\<close>

definition validation_ok :: "co_input list \<Rightarrow> planning_revision list \<Rightarrow> plan_revalidation \<Rightarrow> bool" where
  "validation_ok inps revisions v \<longleftrightarrow>
     (\<exists>r \<in> set revisions. rvn_ID r = rvl_RevisionID v \<and> rvn_Published r \<and> plc_Status (rvn_Content r) = ''proposed''
        \<and> rvn_ParticipantID r = rvl_ParticipantID v)
     \<and> (\<exists>inp \<in> set inps. inp_ID inp = rvl_ConfirmationInputID v \<and> inp_Kind inp = ''confirm-plan''
        \<and> inp_Target inp = rvl_RevisionID v)"

definition revisions_ok :: "planning_revision list \<Rightarrow> bool" where
  "revisions_ok rs \<longleftrightarrow>
     distinct (map rvn_ID rs) \<and> (\<forall>r \<in> set (butlast rs). \<not> open_revision r)
     \<and> (\<forall>r \<in> set rs. rvn_ID r \<noteq> '''' \<and> \<not> (rvn_Published r \<and> rvn_PublicationFailed r))"

definition plan_ok :: "co_input list \<Rightarrow> planning_state \<Rightarrow> bool" where
  "plan_ok inps p \<longleftrightarrow>
     revisions_ok (pls_Revisions p)
     \<and> (\<forall>v \<in> set (pls_Revalidations p). validation_ok inps (pls_Revisions p) v)
     \<and> distinct (map rvl_TurnID (pls_Revalidations p))
     \<and> (pls_CurrentRevision p = '''' \<or> (\<exists>r \<in> set (pls_Revisions p). rvn_ID r = pls_CurrentRevision p \<and> rvn_Published r))
     \<and> (pls_ReadyRevision p = '''' \<or> (\<exists>v \<in> set (pls_Revalidations p). rvl_RevisionID v = pls_ReadyRevision p))"

definition planning_ok :: "collab \<Rightarrow> bool" where
  "planning_ok s \<longleftrightarrow> (case st_Planning s of None \<Rightarrow> True | Some p \<Rightarrow> plan_ok (st_Inputs s) p)"

lemma revisions_ok_kept:
  assumes "revisions_ok rs" "list_all2 kept_revision rs rs'"
    "\<forall>r \<in> set rs'. \<not> (rvn_Published r \<and> rvn_PublicationFailed r)"
  shows "revisions_ok rs'"
proof -
  have len: "length rs' = length rs" using assms(2) by (auto dest: list_all2_lengthD)
  have nth: "kept_revision (rs ! k) (rs' ! k)" if "k < length rs" for k
    using assms(2) that by (simp add: list_all2_conv_all_nth)
  have ids: "map rvn_ID rs' = map rvn_ID rs"
    by (rule nth_equalityI) (use len nth kept_revision_sel in auto)
  have "\<not> open_revision r" if "r \<in> set (butlast rs')" for r
  proof -
    from that obtain k where k: "k < length rs - 1" "r = rs' ! k"
      by (auto simp: in_set_conv_nth nth_butlast len)
    then have "rs ! k \<in> set (butlast rs)" by (metis length_butlast nth_butlast nth_mem)
    with assms(1) have "\<not> open_revision (rs ! k)" by (simp add: revisions_ok_def)
    moreover have "kept_revision (rs ! k) r" using nth [of k] k by simp
    ultimately show ?thesis using kept_revision_mono [of "rs ! k" r] by (auto simp: open_revision_def)
  qed
  moreover have "rvn_ID r \<noteq> ''''" if "r \<in> set rs'" for r
  proof -
    from that have "rvn_ID r \<in> set (map rvn_ID rs)" unfolding ids [symmetric] by simp
    with assms(1) show ?thesis by (auto simp: revisions_ok_def)
  qed
  ultimately show ?thesis using assms(1,3) ids by (auto simp: revisions_ok_def)
qed

text \<open>A validation stays sound when revisions and inputs are kept or added.\<close>

definition inputs_grow :: "co_input list \<Rightarrow> co_input list \<Rightarrow> bool" where
  "inputs_grow inps inps' \<longleftrightarrow>
     (\<forall>x \<in> set inps. \<exists>y \<in> set inps'. inp_ID y = inp_ID x \<and> inp_Kind y = inp_Kind x \<and> inp_Target y = inp_Target x)"

lemma validation_ok_kept:
  assumes "validation_ok inps rs v" "inputs_grow inps inps'" "list_all2 kept_revision rs rs'"
  shows "validation_ok inps' (rs' @ new) v"
proof -
  from assms(1) obtain r where r: "r \<in> set rs" "rvn_ID r = rvl_RevisionID v" "rvn_Published r"
    "plc_Status (rvn_Content r) = ''proposed''" "rvn_ParticipantID r = rvl_ParticipantID v"
    by (auto simp: validation_ok_def)
  from kept_revision_member [OF assms(3) r(1)] obtain t where t: "t \<in> set rs'" "kept_revision r t" by blast
  have "rvn_ID t = rvl_RevisionID v" "rvn_Published t" "plc_Status (rvn_Content t) = ''proposed''"
    "rvn_ParticipantID t = rvl_ParticipantID v"
    using kept_revision_sel [OF t(2)] kept_revision_mono(1) [OF t(2)] r by simp_all
  with t(1) have "\<exists>r \<in> set (rs' @ new). rvn_ID r = rvl_RevisionID v \<and> rvn_Published r
      \<and> plc_Status (rvn_Content r) = ''proposed'' \<and> rvn_ParticipantID r = rvl_ParticipantID v" by auto
  moreover from assms(1) obtain inp where inp: "inp \<in> set inps" "inp_ID inp = rvl_ConfirmationInputID v"
    "inp_Kind inp = ''confirm-plan''" "inp_Target inp = rvl_RevisionID v"
    by (auto simp: validation_ok_def)
  moreover from inp(1) assms(2) obtain inp' where "inp' \<in> set inps'" "inp_ID inp' = inp_ID inp"
    "inp_Kind inp' = inp_Kind inp" "inp_Target inp' = inp_Target inp"
    unfolding inputs_grow_def by blast
  ultimately show ?thesis unfolding validation_ok_def by metis
qed

lemma inputs_grow_refl [simp]: "inputs_grow inps inps"
  by (auto simp: inputs_grow_def)

lemma inputs_kept_grow: "inputs_kept s t \<Longrightarrow> inputs_grow (st_Inputs s) (st_Inputs t)"
  unfolding inputs_grow_def
proof
  fix x
  assume "inputs_kept s t" "x \<in> set (st_Inputs s)"
  then obtain y where "y \<in> set (st_Inputs t)" "kept_input x y"
    unfolding inputs_kept_def by (blast dest: list_all2_member)
  with kept_input_sel [OF this(2)]
  show "\<exists>y \<in> set (st_Inputs t). inp_ID y = inp_ID x \<and> inp_Kind y = inp_Kind x \<and> inp_Target y = inp_Target x"
    by blast
qed

lemma plan_ok_grow:
  assumes "plan_ok inps p" "inputs_grow inps inps'"
  shows "plan_ok inps' p"
proof -
  have "validation_ok inps' (pls_Revisions p) v" if "v \<in> set (pls_Revalidations p)" for v
    using validation_ok_kept [OF _ assms(2) list_all2_kept_refl, of "pls_Revisions p" v "[]"] that assms(1)
    by (simp add: plan_ok_def)
  with assms(1) show ?thesis unfolding plan_ok_def by blast
qed

text \<open>Updates of the revisions alone.\<close>

lemma plan_ok_revisions:
  assumes "plan_ok inps p" "list_all2 kept_revision (pls_Revisions p) rs" "revisions_ok (rs @ new)"
  shows "plan_ok inps (p\<lparr>pls_Revisions := rs @ new\<rparr>)"
proof -
  have "\<exists>r \<in> set (rs @ new). rvn_ID r = pls_CurrentRevision p \<and> rvn_Published r" if "pls_CurrentRevision p \<noteq> ''''"
  proof -
    from that assms(1) obtain r where "r \<in> set (pls_Revisions p)" "rvn_ID r = pls_CurrentRevision p" "rvn_Published r"
      by (auto simp: plan_ok_def)
    moreover from kept_revision_member [OF assms(2) this(1)] obtain t where "t \<in> set rs" "kept_revision r t" by blast
    ultimately have "t \<in> set (rs @ new)" "rvn_ID t = pls_CurrentRevision p" "rvn_Published t"
      using kept_revision_sel [of r t] kept_revision_mono(1) [of r t] by auto
    then show ?thesis by blast
  qed
  moreover have "validation_ok inps (rs @ new) v" if "v \<in> set (pls_Revalidations p)" for v
    using validation_ok_kept [OF _ inputs_grow_refl assms(2)] that assms(1) by (simp add: plan_ok_def)
  ultimately show ?thesis using assms(1,3) by (cases "pls_CurrentRevision p = ''''") (simp_all add: plan_ok_def)
qed

lemma plan_extends_revisions:
  "list_all2 kept_revision (pls_Revisions p) rs \<Longrightarrow> plan_extends p (p\<lparr>pls_Revisions := rs @ new\<rparr>)"
  by (auto simp: plan_extends_def)

lemma plan_ok_nonpublications: "plan_ok inps (p\<lparr>pls_NonPublications := n\<rparr>) = plan_ok inps p"
  by (simp add: plan_ok_def)

lemma plan_ok_invalidated: "plan_ok inps (p\<lparr>pls_InvalidatedConfirmations := n\<rparr>) = plan_ok inps p"
  by (simp add: plan_ok_def)

lemma plan_extends_append:
  "plan_extends p t \<Longrightarrow> plan_extends p (t\<lparr>pls_NonPublications := pls_NonPublications t @ n\<rparr>)"
  "plan_extends p t \<Longrightarrow> plan_extends p (t\<lparr>pls_CurrentRevision := c\<rparr>)"
  "plan_extends p t \<Longrightarrow> plan_extends p (t\<lparr>pls_ReadyRevision := c\<rparr>)"
  "plan_extends p t \<Longrightarrow> plan_extends p (t\<lparr>pls_Revalidations := pls_Revalidations t @ vs\<rparr>)"
  "plan_extends p t \<Longrightarrow> plan_extends p (t\<lparr>pls_InvalidatedConfirmations := pls_InvalidatedConfirmations t @ is\<rparr>)"
  by (auto simp: plan_extends_def)


section \<open>Every step keeps the invariant and extends the history\<close>

lemma map_first_kept:
  assumes "\<And>x. x \<in> set rs \<Longrightarrow> P x \<Longrightarrow> kept_revision x (f x)"
  shows "list_all2 kept_revision rs (map_first P f rs)"
  using assms by (induction rs) auto

lemma map_first_all:
  assumes "\<And>x. x \<in> set rs \<Longrightarrow> Q x" "\<And>x. x \<in> set rs \<Longrightarrow> P x \<Longrightarrow> Q (f x)"
  shows "\<forall>x \<in> set (map_first P f rs). Q x"
  using assms by (induction rs) auto

lemma map_last_kept:
  assumes "\<And>x. x \<in> set rs \<Longrightarrow> P x \<Longrightarrow> kept_revision x (f x)"
  shows "list_all2 kept_revision rs (map_last P f rs)"
  using map_first_kept [of "rev rs" P f] assms by (simp add: map_last_def list_all2_rev1)

lemma map_last_all:
  assumes "\<And>x. x \<in> set rs \<Longrightarrow> Q x" "\<And>x. x \<in> set rs \<Longrightarrow> P x \<Longrightarrow> Q (f x)"
  shows "\<forall>x \<in> set (map_last P f rs). Q x"
  using map_first_all [of "rev rs" Q P f] assms by (simp add: map_last_def)

text \<open>One step of the plan: from a sound plan to a sound plan that extends it.\<close>

definition plan_step :: "co_input list \<Rightarrow> planning_state \<Rightarrow> planning_state \<Rightarrow> bool" where
  "plan_step inps p t \<longleftrightarrow> (plan_ok inps p \<longrightarrow> plan_ok inps t \<and> plan_extends p t)"

lemma plan_step_revisions:
  assumes "plan_ok inps p \<Longrightarrow> list_all2 kept_revision (pls_Revisions p) rs"
    "plan_ok inps p \<Longrightarrow> \<forall>r \<in> set rs. \<not> (rvn_Published r \<and> rvn_PublicationFailed r)"
  shows "plan_step inps p (p\<lparr>pls_Revisions := rs\<rparr>)"
  unfolding plan_step_def
proof
  assume ok: "plan_ok inps p"
  with assms have "revisions_ok (rs @ [])" by (auto simp: plan_ok_def intro: revisions_ok_kept)
  from plan_ok_revisions [OF ok assms(1) this] plan_extends_revisions [OF assms(1), of "[]"] ok
  show "plan_ok inps (p\<lparr>pls_Revisions := rs\<rparr>) \<and> plan_extends p (p\<lparr>pls_Revisions := rs\<rparr>)" by simp
qed

lemma plan_step_nonpublication:
  "plan_step inps p t \<Longrightarrow> plan_step inps p (t\<lparr>pls_NonPublications := pls_NonPublications t @ n\<rparr>)"
  by (simp add: plan_step_def plan_ok_nonpublications plan_extends_append)

lemma unpublished_failed_kept: "\<not> rvn_Published r \<Longrightarrow> kept_revision r (r\<lparr>rvn_PublicationFailed := True\<rparr>)"
  by (simp add: kept_revision_def revision_core_def)

lemma plan_revision_unique:
  assumes "plan_ok inps p" "r \<in> set (pls_Revisions p)" "t \<in> set (pls_Revisions p)" "rvn_ID r = rvn_ID t"
  shows "r = t"
  using assms by (auto simp: plan_ok_def revisions_ok_def distinct_map inj_on_def)

lemma plan_ok_exclusive:
  "plan_ok inps p \<Longrightarrow> r \<in> set (pls_Revisions p) \<Longrightarrow> \<not> (rvn_Published r \<and> rvn_PublicationFailed r)"
  by (simp add: plan_ok_def revisions_ok_def)

text \<open>What a transition of the whole conversation does to its plan.\<close>

definition planning_step :: "collab \<Rightarrow> collab \<Rightarrow> bool" where
  "planning_step s t \<longleftrightarrow> (planning_ok s \<longrightarrow> planning_ok t \<and> planning_extends s t)"

lemma planning_stepI:
  assumes "st_Planning s = Some p" "st_Planning t = Some p'" "plan_step (st_Inputs s) p p'" "st_Inputs t = st_Inputs s"
  shows "planning_step s t"
  using assms by (simp add: planning_step_def planning_ok_def planning_extends_def plan_step_def)

lemma planning_step_same:
  "st_Planning t = st_Planning s \<Longrightarrow> inputs_grow (st_Inputs s) (st_Inputs t) \<Longrightarrow> planning_step s t"
  by (auto simp: planning_step_def planning_ok_def planning_extends_def split: option.split intro: plan_ok_grow)

lemma planning_step_refl [simp]: "planning_step s s"
  by (rule planning_step_same) simp_all

lemma planning_step_trans: "planning_step s t \<Longrightarrow> planning_step t u \<Longrightarrow> planning_step s u"
  by (auto simp: planning_step_def intro: planning_extends_trans)

lemma transact_planning: "planning_step s (snd r) \<Longrightarrow> planning_step s (snd (transact s r))"
  using transact_cases [of s r] by auto

lemma StartPlanning_step: "planning_step s (snd (StartPlanning s original))"
  by (auto simp: StartPlanning_def planning_step_def planning_ok_def planning_extends_def plan_ok_def
      revisions_ok_def split: option.split)

lemma FailCheckpoint_step: "planning_step s (snd (FailCheckpoint s i))"
proof (cases "st_Planning s")
  case (Some p)
  let ?rs = "map_first (\<lambda>r. rvn_ID r = i \<and> \<not> rvn_Published r) (\<lambda>r. r\<lparr>rvn_PublicationFailed := True\<rparr>) (pls_Revisions p)"
  have "plan_step (st_Inputs s) p (p\<lparr>pls_Revisions := ?rs\<rparr>)"
  proof (rule plan_step_revisions)
    assume ok: "plan_ok (st_Inputs s) p"
    show "list_all2 kept_revision (pls_Revisions p) ?rs"
      by (rule map_first_kept) (simp add: unpublished_failed_kept)
    show "\<forall>r \<in> set ?rs. \<not> (rvn_Published r \<and> rvn_PublicationFailed r)"
      by (rule map_first_all) (use plan_ok_exclusive [OF ok] in auto)
  qed
  with Some show ?thesis by (auto simp: FailCheckpoint_def intro: planning_stepI)
qed (simp add: FailCheckpoint_def)

lemma ConfirmCheckpoint_step: "planning_step s (snd (ConfirmCheckpoint s i source))"
proof (cases "st_Planning s")
  case (Some p)
  show ?thesis
  proof (cases "snd (ConfirmCheckpoint s i source) = s")
    case False
    let ?rs = "map_first (\<lambda>x. rvn_ID x = i) (\<lambda>x. x\<lparr>rvn_Published := True, rvn_Source := Some source\<rparr>) (pls_Revisions p)"
    from False Some obtain r where find: "find (\<lambda>r. rvn_ID r = i) (pls_Revisions p) = Some r"
      and r: "\<not> rvn_PublicationFailed r" "\<not> rvn_Published r"
      and eq: "snd (ConfirmCheckpoint s i source)
        = s\<lparr>st_Planning := Some (p\<lparr>pls_Revisions := ?rs, pls_CurrentRevision := i\<rparr>)\<rparr>"
      by (auto simp: ConfirmCheckpoint_def split: option.split_asm if_split_asm)
    from find have mem: "r \<in> set (pls_Revisions p)" "rvn_ID r = i" by (auto simp: find_Some_iff)
    have step: "plan_step (st_Inputs s) p (p\<lparr>pls_Revisions := ?rs\<rparr>)"
    proof (rule plan_step_revisions)
      assume ok: "plan_ok (st_Inputs s) p"
      have r': "x = r" if "x \<in> set (pls_Revisions p)" "rvn_ID x = i" for x
        using plan_revision_unique [OF ok that(1) mem(1)] that(2) mem(2) by simp
      show "list_all2 kept_revision (pls_Revisions p) ?rs"
        by (rule map_first_kept) (use r' r in \<open>auto simp: kept_revision_def revision_core_def\<close>)
      show "\<forall>r \<in> set ?rs. \<not> (rvn_Published r \<and> rvn_PublicationFailed r)"
        by (rule map_first_all) (use r' r plan_ok_exclusive [OF ok] in auto)
    qed
    have "\<exists>t \<in> set (map_first (\<lambda>x. rvn_ID x = i) f rs). rvn_ID t = i \<and> rvn_Published t"
      if "x \<in> set rs" "rvn_ID x = i" "\<And>x. rvn_ID (f x) = rvn_ID x" "\<And>x. rvn_Published (f x)" for x f rs
      using that by (induction rs) auto
    from this [OF mem] have "\<exists>t \<in> set ?rs. rvn_ID t = i \<and> rvn_Published t" by simp
    with step have "plan_step (st_Inputs s) p (p\<lparr>pls_Revisions := ?rs, pls_CurrentRevision := i\<rparr>)"
      by (auto simp: plan_step_def plan_ok_def plan_extends_def)
    with Some eq show ?thesis by (auto intro: planning_stepI)
  qed simp
qed (simp add: ConfirmCheckpoint_def)

lemma prior_revision_None:
  "prior_revision i participant turn c rs = None \<Longrightarrow> r \<in> set rs \<Longrightarrow> rvn_ID r \<noteq> i \<and> \<not> open_revision r"
  by (induction rs) (auto simp: open_revision_def split: if_split_asm)

lemma reserve_new_shape:
  fixes s p i participant turn c
  defines "t \<equiv> snd (reserve_new s p i participant turn c)"
  shows "t = s \<or> (\<exists>n. st_Planning t = Some (p\<lparr>pls_NonPublications := pls_NonPublications p @ [n]\<rparr>))
    \<or> (\<exists>r. st_Planning t = Some (p\<lparr>pls_Revisions := pls_Revisions p @ [r]\<rparr>) \<and> rvn_ID r = i
          \<and> \<not> rvn_Published r \<and> \<not> rvn_PublicationFailed r)"
  unfolding t_def reserve_new_def new_revision_def Let_def
  by (auto split: option.split prod.split)

lemma ReserveCheckpoint_shape:
  assumes "st_Planning s = Some p"
  shows "snd (ReserveCheckpoint s i participant turn c) = s
    \<or> i \<noteq> '''' \<and> prior_revision i participant turn c (pls_Revisions p) = None
      \<and> snd (ReserveCheckpoint s i participant turn c) = snd (reserve_new s p i participant turn c)"
  using assms by (auto simp: ReserveCheckpoint_def split: option.split)

lemma ReserveCheckpoint_step: "planning_step s (snd (ReserveCheckpoint s i participant turn c))"
proof (cases "st_Planning s")
  case None
  then show ?thesis by (simp add: ReserveCheckpoint_def)
next
  case (Some p)
  let ?t = "snd (ReserveCheckpoint s i participant turn c)"
  consider "?t = s"
    | n where "st_Planning ?t = Some (p\<lparr>pls_NonPublications := pls_NonPublications p @ [n]\<rparr>)"
    | r where "st_Planning ?t = Some (p\<lparr>pls_Revisions := pls_Revisions p @ [r]\<rparr>)" "rvn_ID r = i" "i \<noteq> ''''"
        "\<not> rvn_Published r" "\<not> rvn_PublicationFailed r" "\<forall>x \<in> set (pls_Revisions p). rvn_ID x \<noteq> i \<and> \<not> open_revision x"
    using ReserveCheckpoint_shape [OF Some, of i participant turn c] reserve_new_shape [of s p i participant turn c]
      prior_revision_None [of i participant turn c "pls_Revisions p"] by metis
  then show ?thesis
  proof cases
    case 2
    with Some plan_step_nonpublication [of "st_Inputs s" p p] show ?thesis
      by (intro planning_stepI) (auto simp: plan_step_def ReserveCheckpoint_kept)
  next
    case 3
    have "plan_step (st_Inputs s) p (p\<lparr>pls_Revisions := pls_Revisions p @ [r]\<rparr>)"
      unfolding plan_step_def
    proof
      assume ok: "plan_ok (st_Inputs s) p"
      then have "revisions_ok (pls_Revisions p @ [r])"
        using 3 by (auto simp: plan_ok_def revisions_ok_def dest: in_set_butlastD)
      from plan_ok_revisions [OF ok list_all2_kept_refl this] plan_extends_revisions [OF list_all2_kept_refl]
      show "plan_ok (st_Inputs s) (p\<lparr>pls_Revisions := pls_Revisions p @ [r]\<rparr>)
          \<and> plan_extends p (p\<lparr>pls_Revisions := pls_Revisions p @ [r]\<rparr>)" by blast
    qed
    with Some 3(1) show ?thesis by (intro planning_stepI) (auto simp: ReserveCheckpoint_kept)
  qed simp
qed


lemma ReservePlanningCheckpoint_step:
  "planning_step s (snd (ReservePlanningCheckpoint ledger s turn reserved operation content))"
proof (cases rule: ReservePlanningCheckpoint_cases [of ledger s turn reserved operation content])
  case (2 u)
  have "planning_step s u"
    by (rule fail_proven_checkpoints_rule [OF 2(1), where P = "planning_step s"])
      (auto intro: planning_step_trans FailCheckpoint_step)
  with 2(2) show ?thesis by (auto intro: planning_step_trans ReserveCheckpoint_step)
qed simp

lemma revalidate_sel:
  "rvl_RevisionID (revalidate s p operation revision participant turn commit evidence) = revision"
  "rvl_ParticipantID (revalidate s p operation revision participant turn commit evidence) = participant"
  "rvl_TurnID (revalidate s p operation revision participant turn commit evidence) = turn"
  "rvl_RepositoryCommit (revalidate s p operation revision participant turn commit evidence) = commit"
proof -
  have *: "rvl_RevisionID (fold (consider_input s p pa re) inps v) = rvl_RevisionID v
      \<and> rvl_ParticipantID (fold (consider_input s p pa re) inps v) = rvl_ParticipantID v
      \<and> rvl_TurnID (fold (consider_input s p pa re) inps v) = rvl_TurnID v
      \<and> rvl_RepositoryCommit (fold (consider_input s p pa re) inps v) = rvl_RepositoryCommit v" for pa re inps v
    by (induction inps arbitrary: v) (simp_all add: consider_input_def Let_def)
  show "rvl_RevisionID (revalidate s p operation revision participant turn commit evidence) = revision"
    "rvl_ParticipantID (revalidate s p operation revision participant turn commit evidence) = participant"
    "rvl_TurnID (revalidate s p operation revision participant turn commit evidence) = turn"
    "rvl_RepositoryCommit (revalidate s p operation revision participant turn commit evidence) = commit"
    by (simp_all add: revalidate_def *)
qed

text \<open>The confirmation a validation names is one the loop accepted.\<close>

lemma revalidate_confirmation:
  assumes "rvl_ConfirmationInputID (revalidate s p operation revision participant turn commit evidence) \<noteq> ''''"
  shows "\<exists>inp \<in> set (st_Inputs s). inp_ID inp = rvl_ConfirmationInputID (revalidate s p operation revision participant turn commit evidence)
    \<and> delivered_input participant inp \<and> confirms s p revision inp"
proof -
  have "rvl_ConfirmationInputID (fold (consider_input s p participant revision) inps v) = rvl_ConfirmationInputID v
      \<or> (\<exists>inp \<in> set inps. inp_ID inp = rvl_ConfirmationInputID (fold (consider_input s p participant revision) inps v)
           \<and> delivered_input participant inp \<and> confirms s p revision inp)" for inps v
  proof (induction inps arbitrary: v)
    case (Cons inp inps)
    from Cons.IH [of "consider_input s p participant revision inp v"] show ?case
      by (auto simp: consider_input_def Let_def split: if_split_asm)
  qed simp
  from this [of "st_Inputs s" "\<lparr>rvl_SourceInvocationID = operation, rvl_RevisionID = revision,
      rvl_ParticipantID = participant, rvl_TurnID = turn, rvl_RepositoryCommit = commit, rvl_Evidence = evidence,
      rvl_ConfirmationInputID = '''', rvl_ConsideredInputIDs = None\<rparr>"] assms
  show ?thesis by (simp add: revalidate_def)
qed

lemma ValidatePlanning_shape:
  fixes s operation revision participant turn commit evidence resolved
  defines "t \<equiv> snd (ValidatePlanning s operation revision participant turn commit evidence resolved)"
  assumes "t \<noteq> s"
  obtains p v r where "st_Planning s = Some p" "st_Planning t = Some (p\<lparr>pls_Revalidations := pls_Revalidations p @ [v]\<rparr>)"
    "v = revalidate s p operation revision participant turn commit evidence" "rvl_ConfirmationInputID v \<noteq> ''''"
    "r \<in> set (pls_Revisions p)" "rvn_ID r = revision" "rvn_Published r" "plc_Status (rvn_Content r) = ''proposed''"
    "rvn_ParticipantID r = participant" "turn \<notin> rvl_TurnID ` set (pls_Revalidations p)" "pls_ReadyRevision p = ''''"
proof -
  from assms(2) obtain p r where p: "st_Planning s = Some p" and r: "CurrentCheckpoint s = Some r"
    unfolding t_def ValidatePlanning_def
    by (cases "st_Planning s"; cases "CurrentCheckpoint s") (auto split: if_split_asm)
  let ?v = "revalidate s p operation revision participant turn commit evidence"
  from p r assms(2) have "rvn_Published r" "rvn_ID r = revision" "rvn_ParticipantID r = participant"
    "plc_Status (rvn_Content r) = ''proposed''" "rvl_ConfirmationInputID ?v \<noteq> ''''" "pls_ReadyRevision p = ''''"
    "find (\<lambda>old. rvl_TurnID old = turn) (pls_Revalidations p) = None"
    "st_Planning t = Some (p\<lparr>pls_Revalidations := pls_Revalidations p @ [?v]\<rparr>)"
    unfolding t_def ValidatePlanning_def Let_def by (auto split: if_split_asm option.split_asm)
  moreover from r p have "r \<in> set (pls_Revisions p)" by (auto simp: CurrentCheckpoint_def find_Some_iff)
  ultimately show ?thesis using that [OF p, of ?v r] by (auto simp: find_None_iff)
qed

lemma ValidatePlanning_step:
  "planning_step s (snd (ValidatePlanning s operation revision participant turn commit evidence resolved))"
proof (cases "snd (ValidatePlanning s operation revision participant turn commit evidence resolved) = s")
  case False
  from False show ?thesis
  proof (rule ValidatePlanning_shape)
    fix p v r
    assume *: "st_Planning s = Some p"
      "st_Planning (snd (ValidatePlanning s operation revision participant turn commit evidence resolved))
        = Some (p\<lparr>pls_Revalidations := pls_Revalidations p @ [v]\<rparr>)"
      "v = revalidate s p operation revision participant turn commit evidence" "rvl_ConfirmationInputID v \<noteq> ''''"
      "r \<in> set (pls_Revisions p)" "rvn_ID r = revision" "rvn_Published r" "plc_Status (rvn_Content r) = ''proposed''"
      "rvn_ParticipantID r = participant" "turn \<notin> rvl_TurnID ` set (pls_Revalidations p)"
    have "\<exists>inp \<in> set (st_Inputs s). inp_ID inp = rvl_ConfirmationInputID v \<and> inp_Kind inp = ''confirm-plan''
        \<and> inp_Target inp = revision"
      using revalidate_confirmation [of s p operation revision participant turn commit evidence] *(3,4)
      by (auto simp: confirms_def)
    then have "validation_ok (st_Inputs s) (pls_Revisions p) v"
      using *(3,5-9) by (auto simp: validation_ok_def revalidate_sel)
    then have "plan_step (st_Inputs s) p (p\<lparr>pls_Revalidations := pls_Revalidations p @ [v]\<rparr>)"
      using *(3,10) plan_extends_append(4) [OF plan_extends_refl, of p "[v]"]
      by (auto simp: plan_step_def plan_ok_def revalidate_sel)
    with *(1,2) show ?thesis
      by (rule planning_stepI) (use only_planning_fields [OF ValidatePlanning_only] in blast)
  qed
qed simp

lemma ReconcilePlanningNonPublication_step:
  "planning_step s (snd (ReconcilePlanningNonPublication s turnID operation halted))"
proof (cases "st_Planning s")
  case (Some p)
  let ?t = "snd (ReconcilePlanningNonPublication s turnID operation halted)"
  let ?rs = "map (\<lambda>r. if rvn_ID r = ''P'' @ operation then r\<lparr>rvn_PublicationFailed := True\<rparr> else r) (pls_Revisions p)"
  have "?t = s \<or> \<not> list_ex (\<lambda>r. rvn_ID r = ''P'' @ operation \<and> (rvn_Published r \<or> rvn_Artifact r \<noteq> None)) (pls_Revisions p)
      \<and> (\<exists>n. st_Planning ?t = Some (p\<lparr>pls_Revisions := ?rs, pls_NonPublications := pls_NonPublications p @ [n]\<rparr>))"
    using Some
    by (auto simp: ReconcilePlanningNonPublication_def interrupt_revisions_def Let_def split: option.split prod.split)
  then show ?thesis
  proof (elim disjE conjE exE)
    fix n
    assume fresh: "\<not> list_ex (\<lambda>r. rvn_ID r = ''P'' @ operation \<and> (rvn_Published r \<or> rvn_Artifact r \<noteq> None)) (pls_Revisions p)"
      and t: "st_Planning ?t = Some (p\<lparr>pls_Revisions := ?rs, pls_NonPublications := pls_NonPublications p @ [n]\<rparr>)"
    have "plan_step (st_Inputs s) p (p\<lparr>pls_Revisions := ?rs\<rparr>)"
    proof (rule plan_step_revisions)
      assume ok: "plan_ok (st_Inputs s) p"
      show "list_all2 kept_revision (pls_Revisions p) ?rs"
        using fresh by (auto simp: list_all2_conv_all_nth list_ex_iff unpublished_failed_kept)
      show "\<forall>r \<in> set ?rs. \<not> (rvn_Published r \<and> rvn_PublicationFailed r)"
        using fresh plan_ok_exclusive [OF ok] by (auto simp: list_ex_iff)
    qed
    from plan_step_nonpublication [OF this, of "[n]"]
    have "plan_step (st_Inputs s) p (p\<lparr>pls_Revisions := ?rs, pls_NonPublications := pls_NonPublications p @ [n]\<rparr>)" by simp
    with Some t show ?thesis by (rule planning_stepI) simp
  qed simp
qed (simp add: ReconcilePlanningNonPublication_def)

lemma RejectPlanningPublication_step: "planning_step s (snd (RejectPlanningPublication s turn i reason))"
proof (cases "st_Planning s")
  case (Some p)
  let ?t = "snd (RejectPlanningPublication s turn i reason)"
  let ?rs = "map_first (rejectable_revision turn i) (\<lambda>x. x\<lparr>rvn_PublicationFailed := True\<rparr>) (pls_Revisions p)"
  have "?t = s \<or> (\<exists>n r. find (rejectable_revision turn i) (pls_Revisions p) = Some r \<and> \<not> rvn_Published r
      \<and> st_Planning ?t = Some (p\<lparr>pls_Revisions := ?rs, pls_NonPublications := pls_NonPublications p @ [n]\<rparr>))"
    using Some by (auto simp: RejectPlanningPublication_def split: option.split)
  then show ?thesis
  proof (elim disjE conjE exE)
    fix n r
    assume find: "find (rejectable_revision turn i) (pls_Revisions p) = Some r" and r: "\<not> rvn_Published r"
      and t: "st_Planning ?t = Some (p\<lparr>pls_Revisions := ?rs, pls_NonPublications := pls_NonPublications p @ [n]\<rparr>)"
    from find have mem: "r \<in> set (pls_Revisions p)" "rejectable_revision turn i r" by (auto simp: find_Some_iff)
    have "plan_step (st_Inputs s) p (p\<lparr>pls_Revisions := ?rs\<rparr>)"
    proof (rule plan_step_revisions)
      assume ok: "plan_ok (st_Inputs s) p"
      have r': "x = r" if "x \<in> set (pls_Revisions p)" "rejectable_revision turn i x" for x
        using plan_revision_unique [OF ok that(1) mem(1)] that(2) mem(2) by (simp add: rejectable_revision_def)
      show "list_all2 kept_revision (pls_Revisions p) ?rs"
        by (rule map_first_kept) (use r' r unpublished_failed_kept in auto)
      show "\<forall>r \<in> set ?rs. \<not> (rvn_Published r \<and> rvn_PublicationFailed r)"
        by (rule map_first_all) (use r' r plan_ok_exclusive [OF ok] in auto)
    qed
    from plan_step_nonpublication [OF this, of "[n]"]
    have "plan_step (st_Inputs s) p (p\<lparr>pls_Revisions := ?rs, pls_NonPublications := pls_NonPublications p @ [n]\<rparr>)" by simp
    with Some t show ?thesis by (rule planning_stepI) simp
  qed simp
qed (simp add: RejectPlanningPublication_def)


lemma SaveCollaborationArtifact_step: "planning_step s (snd (SaveCollaborationArtifact s turn i artifact))"
proof (cases "st_Planning (snd (SaveCollaborationArtifact s turn i artifact)) = st_Planning s")
  case True
  then show ?thesis by (rule planning_step_same) (simp add: SaveCollaborationArtifact_kept)
next
  case False
  then obtain p r where p: "st_Planning s = Some p"
    and find: "find (artifact_revision turn i) (rev (pls_Revisions p)) = Some r" and r: "rvn_Artifact r = None"
    and t: "st_Planning (snd (SaveCollaborationArtifact s turn i artifact))
      = Some (p\<lparr>pls_Revisions := map_last (artifact_revision turn i) (\<lambda>x. x\<lparr>rvn_Artifact := Some artifact\<rparr>) (pls_Revisions p)\<rparr>)"
    by (cases "st_Planning s") (auto simp: SaveCollaborationArtifact_def freeze_artifact_def Let_def
        split: option.split_asm if_split_asm)
  from find have "r \<in> set (rev (pls_Revisions p)) \<and> artifact_revision turn i r" by (metis find_Some_iff nth_mem)
  then have mem: "r \<in> set (pls_Revisions p)" "artifact_revision turn i r" by simp_all
  have "plan_step (st_Inputs s) p (p\<lparr>pls_Revisions :=
      map_last (artifact_revision turn i) (\<lambda>x. x\<lparr>rvn_Artifact := Some artifact\<rparr>) (pls_Revisions p)\<rparr>)" (is "plan_step _ p (p\<lparr>pls_Revisions := ?rs\<rparr>)")
  proof (rule plan_step_revisions)
    assume ok: "plan_ok (st_Inputs s) p"
    have r': "x = r" if "x \<in> set (pls_Revisions p)" "artifact_revision turn i x" for x
      using plan_revision_unique [OF ok that(1) mem(1)] that(2) mem(2) by (simp add: artifact_revision_def)
    show "list_all2 kept_revision (pls_Revisions p) ?rs"
      by (rule map_last_kept) (use r' r in \<open>auto simp: kept_revision_def revision_core_def\<close>)
    show "\<forall>r \<in> set ?rs. \<not> (rvn_Published r \<and> rvn_PublicationFailed r)"
      by (rule map_last_all) (use plan_ok_exclusive [OF ok] in auto)
  qed
  with p t show ?thesis by (rule planning_stepI) (simp add: SaveCollaborationArtifact_kept)
qed

lemma invalidate_upto_extends: "\<exists>new. invalidate_upto i inps ids = ids @ new"
proof (induction inps arbitrary: ids)
  case (Cons inp inps)
  have "\<exists>new. ids' = ids @ new \<Longrightarrow> \<exists>new. invalidate_upto i inps ids' = ids @ new" for ids'
    using Cons.IH [of ids'] by fastforce
  then show ?case by (simp add: Let_def)
qed simp

lemma record_assessment_step: "planning_step s (record_assessment operation a s)"
proof (cases "st_Planning (record_assessment operation a s) = st_Planning s")
  case True
  then show ?thesis by (rule planning_step_same) simp
next
  case False
  then obtain p where p: "st_Planning s = Some p"
    and t: "st_Planning (record_assessment operation a s) = Some (p\<lparr>pls_InvalidatedConfirmations :=
      invalidate_upto (asm_InputID a) (st_Inputs s) (pls_InvalidatedConfirmations p)\<rparr>)"
    by (auto simp: record_assessment_def Let_def split: option.split_asm if_split_asm)
  obtain new where "invalidate_upto (asm_InputID a) (st_Inputs s) (pls_InvalidatedConfirmations p)
      = pls_InvalidatedConfirmations p @ new" using invalidate_upto_extends by blast
  with plan_extends_append(5) [OF plan_extends_refl, of p new]
  have "plan_step (st_Inputs s) p (p\<lparr>pls_InvalidatedConfirmations :=
      invalidate_upto (asm_InputID a) (st_Inputs s) (pls_InvalidatedConfirmations p)\<rparr>)"
    by (simp add: plan_step_def plan_ok_invalidated)
  with p t show ?thesis by (rule planning_stepI) simp
qed

lemma Assess_step: "planning_step s (snd (Assess s operation participant turn batch))"
proof -
  have "planning_step t (fold (record_assessment operation) batch t)" for t
    by (induction batch arbitrary: t) (auto intro: planning_step_trans record_assessment_step)
  then show ?thesis by (simp add: Assess_def)
qed

text \<open>The fence declares a revision ready only on a current validation of it.\<close>

lemma fence_planning:
  fixes s participant event
  defines "t \<equiv> snd (fenceCollaborationSettlement s participant event)"
  shows "st_Planning t = st_Planning s
    \<or> (\<exists>p v. st_Planning s = Some p \<and> v \<in> set (pls_Revalidations p)
          \<and> grants_readiness s p (tg_TurnID (ts_Turn event)) v
          \<and> st_Planning t = Some (p\<lparr>pls_ReadyRevision := pls_CurrentRevision p\<rparr>))"
  unfolding t_def fenceCollaborationSettlement_def Let_def
  by (auto simp: list_ex_iff split: option.split)

lemma fence_shape_ready:
  assumes "st_Planning (snd (fenceCollaborationSettlement s participant event)) \<noteq> st_Planning s"
  obtains p v where "st_Planning s = Some p" "v \<in> set (pls_Revalidations p)"
    "grants_readiness s p (tg_TurnID (ts_Turn event)) v"
    "st_Planning (snd (fenceCollaborationSettlement s participant event))
       = Some (p\<lparr>pls_ReadyRevision := pls_CurrentRevision p\<rparr>)"
  using fence_planning [of s participant event] assms that by blast

lemma fence_step: "planning_step s (snd (fenceCollaborationSettlement s participant event))"
proof (cases "st_Planning (snd (fenceCollaborationSettlement s participant event)) = st_Planning s")
  case True
  then show ?thesis by (rule planning_step_same) simp
next
  case False
  then obtain p v where p: "st_Planning s = Some p" "v \<in> set (pls_Revalidations p)"
    "grants_readiness s p (tg_TurnID (ts_Turn event)) v"
    and t: "st_Planning (snd (fenceCollaborationSettlement s participant event))
       = Some (p\<lparr>pls_ReadyRevision := pls_CurrentRevision p\<rparr>)"
    by (rule fence_shape_ready)
  from p(2,3) have "plan_step (st_Inputs s) p (p\<lparr>pls_ReadyRevision := pls_CurrentRevision p\<rparr>)"
    using plan_extends_append(3) [OF plan_extends_refl]
    by (auto simp: plan_step_def plan_ok_def grants_readiness_def)
  with p(1) t show ?thesis by (rule planning_stepI) simp
qed

theorem collab_op_planning:
  assumes "collab_op s s'"
  shows "planning_step s s'"
  using assms
proof cases
  case op_request
  then show ?thesis by (auto simp: RequestClarification_kept intro: planning_step_same)
next
  case (op_publish i source)
  then show ?thesis
    by (auto simp: ConfirmClarificationPublication_def PublishRound_kept intro!: transact_planning planning_step_same)
next
  case (op_absent turnID operation stopped)
  with only_rounds_fields [OF ReconcileClarificationNonPublication_only [of s turnID operation stopped]]
  show ?thesis by (auto intro: planning_step_same)
next
  case op_artifact
  then show ?thesis by (simp add: SaveCollaborationArtifact_step)
next
  case (op_attempt i artifact)
  with only_receipts_fields [OF receipts_only(1) [of s i artifact]] show ?thesis by (auto intro: planning_step_same)
next
  case (op_rejected i attempt)
  with only_receipts_fields [OF receipts_only(2) [of s i attempt]] show ?thesis by (auto intro: planning_step_same)
next
  case (op_accept df pending n assigned uuid c actor source authorized at r)
  from AdmitHumanInput_cases [OF this] show ?thesis
  proof (elim disjE exE)
    fix i a rc
    assume "Accept s i c a = (rc, s')"
    from Accept_shape [OF this] have "st_Planning s' = st_Planning s \<and> inputs_grow (st_Inputs s) (st_Inputs s')"
      by (auto simp: inputs_grow_def)
    then show ?thesis by (simp add: planning_step_same)
  qed simp
next
  case (op_prepare encoded_size participant turnID route)
  with inputs_kept_grow [OF prepareCollaboration_kept [of s encoded_size participant turnID route]]
  show ?thesis by (auto intro: planning_step_same)
next
  case (op_delivered sha256 encode turn counts collection index offset actual reads)
  with recordCollaborationDelivery_cases [of sha256 encode s turn counts collection index offset actual reads]
  show ?thesis by (auto intro!: planning_step_same inputs_kept_grow [OF MarkDelivered_kept])
next
  case op_resolve
  then show ?thesis
    by (auto simp: ResolveClarification_def Resolve_kept intro!: transact_planning planning_step_same)
next
  case op_assess
  then show ?thesis
    by (auto simp: AssessHumanInput_def split: option.split intro!: transact_planning Assess_step)
next
  case op_validate
  then show ?thesis
    by (auto simp: CompletePlanning_def split: option.split intro!: transact_planning ValidatePlanning_step)
next
  case op_confirm
  then show ?thesis
    by (auto simp: ConfirmPlanningPublication_def intro!: transact_planning ConfirmCheckpoint_step)
next
  case op_waiting
  then show ?thesis by (auto simp: intro: planning_step_same)
qed (simp_all add: StartPlanning_step ReservePlanningCheckpoint_step ReconcilePlanningNonPublication_step
    RejectPlanningPublication_step fence_step)

lemma conversation_planning: "conversation s \<Longrightarrow> planning_ok s"
proof (induction rule: conversation.induct)
  case conversation_start
  then show ?case by (simp add: planning_ok_def collab_empty_def)
next
  case (conversation_op s s')
  with collab_op_planning [OF conversation_op(2)] show ?case by (simp add: planning_step_def)
qed


lemma plan_history_kept:
  assumes "conversation s" "collab_op\<^sup>*\<^sup>* s t" "st_Planning s = Some p"
  shows "\<exists>q. st_Planning t = Some q \<and> plan_extends p q"
proof -
  from assms(2,1) have "conversation t \<and> planning_extends s t"
  proof (induction rule: rtranclp_induct)
    case base
    then show ?case by (simp add: planning_extends_same)
  next
    case (step y z)
    then have "planning_ok y" "conversation z" by (auto intro: conversation_planning conversation_op)
    with step collab_op_planning [OF step.hyps(2)] show ?case
      by (auto simp: planning_step_def intro: planning_extends_trans)
  qed
  with assms(3) show ?thesis by (simp add: planning_extends_def)
qed

end
