(* ===== verification/Collab_Properties.thy ===== *)
theory Collab_Properties
  imports Collab_Plan
begin

text \<open>
  What the conversation of a Work Item guarantees, as properties over every reachable state and every
  transaction.
\<close>

section \<open>A small conversation\<close>

definition demo_source :: co_source where
  "demo_source = \<lparr>src_Channel = ''c'', src_ID = ''1'', src_URL = ''''\<rparr>"

definition demo_planner_turn :: locked_turn where
  "demo_planner_turn = \<lparr>lt_ID = ''T'', lt_ParticipantID = ''P'', lt_MutationAdmissionOpen = True, lt_Status = ''RUNNING''\<rparr>"

definition demo_admission :: admission where
  "demo_admission = \<lparr>adm_Route = ''r'', adm_Active = True, adm_Authorized = True, adm_ParticipantID = ''P'',
     adm_Actor = \<lparr>act_ID = ''h'', act_Name = ''h''\<rparr>, adm_Source = demo_source, adm_At = 1\<rparr>"

definition demo_command :: command where
  "demo_command = \<lparr>cmd_Kind = ''steer'', cmd_Target = '''', cmd_Body = ''x''\<rparr>"

definition demo_input :: co_input where
  "demo_input = new_input ''A1'' demo_command demo_admission ''A1'' '''' ''''"

section \<open>Inputs\<close>

text \<open>C38 (chains of amendments end). In every reachable conversation the loop \<open>State.amends\<close>, which
  follows amendments without remembering where it was, returns, whatever the two identities are.\<close>

theorem amends_returns:
  assumes "conversation s"
  shows "amends_loop s i prior = Some (amends s i prior)"
  by (rule amends_loop_terminates [OF conversation_amends_earlier [OF assms]])

theorem amends_returns_witness: "amends_loop collab_empty ''a'' ''b'' = Some (amends collab_empty ''a'' ''b'')"
  by (rule amends_returns [OF conversation_start])

lemma lineage_visit_distinct: "distinct seen \<Longrightarrow> distinct (lineage_visit s todo seen)"
  by (induction s todo seen rule: lineage_visit.induct) auto

text \<open>C37 (lineage is reachability). The depth-first walk \<open>State.evidenceLineage\<close> with its visited set
  returns exactly the identities reachable from the input over amendments and corrections, also when
  assessments correct each other in circles, and each of them once.\<close>

theorem lineage_is_reachability:
  assumes "i \<noteq> ''''"
  shows "set (evidenceLineage s i) = {y. (evidence_edge s)\<^sup>*\<^sup>* i y} \<and> distinct (evidenceLineage s i)"
  using evidenceLineage_eq [OF assms] lineage_visit_distinct [of "[]" s "[i]"]
  unfolding evidenceLineage_def by simp

theorem lineage_is_reachability_witness:
  "set (evidenceLineage collab_empty ''a'') = {y. (evidence_edge collab_empty)\<^sup>*\<^sup>* ''a'' y}"
  using lineage_is_reachability [of "''a''" collab_empty] by simp

lemma Accept_again:
  assumes "distinct (map (\<lambda>rc. source_key (rct_Source rc)) (st_Receipts s))" "rc \<in> set (st_Receipts s)"
    "source_key (rct_Source rc) = source_key (adm_Source a)"
  shows "Accept s i c a = (rc, s)"
proof -
  have "find (\<lambda>rc. src_Channel (rct_Source rc) = src_Channel (adm_Source a)
      \<and> src_ID (rct_Source rc) = src_ID (adm_Source a)) (st_Receipts s) = Some rc"
  proof (cases "find (\<lambda>rc. src_Channel (rct_Source rc) = src_Channel (adm_Source a)
      \<and> src_ID (rct_Source rc) = src_ID (adm_Source a)) (st_Receipts s)")
    case None
    with assms(2,3) show ?thesis by (auto simp: find_None_iff source_key_def)
  next
    case (Some x)
    then have "x \<in> set (st_Receipts s)" "source_key (rct_Source x) = source_key (adm_Source a)"
      by (auto simp: find_Some_iff source_key_def)
    with assms have "x = rc" by (auto simp: distinct_map inj_on_def)
    with Some show ?thesis by simp
  qed
  then show ?thesis by (simp add: Accept_def)
qed

text \<open>C31 (one source, one input). In every reachable conversation, a command that arrives again from
  the same source, with whatever content, identity or authority, gets the recorded receipt and
  changes nothing, and no source ever has more than one input.\<close>

theorem accepted_once:
  assumes "conversation s" "Accept s i c a = (rc, t)" "source_key (adm_Source b) = source_key (adm_Source a)"
  shows "Accept t j d b = (rc, t) \<and> distinct (map (\<lambda>inp. source_key (inp_Source inp)) (st_Inputs t))"
proof -
  have ok: "sources_ok t"
    by (rule Accept_sources [OF conversation_sources [OF assms(1)] assms(2)])
  have "rc \<in> set (st_Receipts t) \<and> source_key (rct_Source rc) = source_key (adm_Source a)"
    using Accept_shape [OF assms(2)] by (auto simp: same_source_key)
  with Accept_again [of t rc b] ok assms(3) show ?thesis by (auto simp: sources_ok_iff)
qed

theorem accepted_once_witness:
  "Accept (snd (Accept collab_empty ''A1'' demo_command demo_admission)) ''A2'' demo_command demo_admission
     = (fst (Accept collab_empty ''A1'' demo_command demo_admission),
        snd (Accept collab_empty ''A1'' demo_command demo_admission))"
  by (rule conjunct1 [OF accepted_once [OF conversation_start]]) simp_all

section \<open>Batches\<close>

text \<open>A Turn's batch is frozen. The first preparation of a Turn gives it every input its
  participant has not read completely, in order of admission; afterwards nothing is pending, and
  however many commands are accepted meanwhile, preparing the Turn again returns the same batch and
  changes nothing.\<close>

theorem batch_frozen:
  assumes "PrepareBatch s participant turn = (batch, t)"
    "\<not> list_ex (\<lambda>p. prp_TurnID p = turn) (st_Preparations s)"
    "\<forall>inp \<in> set (st_Inputs s). inp_DeliveredTo inp \<noteq> turn" "turn \<noteq> ''''"
    "st_Inputs u = st_Inputs t @ later" "\<forall>inp \<in> set later. inp_DeliveredTo inp = ''''"
    "st_Preparations u = st_Preparations t"
  shows "batch = map (deliver_to turn) (filter (undelivered participant) (st_Inputs s))
    \<and> \<not> Pending t participant \<and> PrepareBatch u participant turn = (batch, u)"
proof -
  let ?f = "\<lambda>inp. if undelivered participant inp then deliver_to turn inp else inp"
  from assms(1,2,3) have t: "st_Inputs t = map ?f (st_Inputs s)"
    and batch: "batch = map (deliver_to turn) (filter (undelivered participant) (st_Inputs s))"
    and prep: "list_ex (\<lambda>p. prp_TurnID p = turn) (st_Preparations t)"
    by (auto simp: PrepareBatch_def Let_def filter_empty_conv)
  have mine: "filter (\<lambda>inp. inp_DeliveredTo inp = turn) (map ?f inps)
      = map (deliver_to turn) (filter (undelivered participant) inps)"
    if "\<forall>inp \<in> set inps. inp_DeliveredTo inp \<noteq> turn" for inps
    using that by (induction inps) (auto simp: deliver_to_def)
  have "filter (\<lambda>inp. inp_DeliveredTo inp = turn) later = []"
    using assms(4,6) by (auto simp: filter_empty_conv)
  then have "filter (\<lambda>inp. inp_DeliveredTo inp = turn) (st_Inputs u) = batch"
    unfolding assms(5) filter_append t batch mine [OF assms(3)] by simp
  with prep assms(7) have "PrepareBatch u participant turn = (batch, u)"
    by (simp add: PrepareBatch_def Let_def)
  moreover have "\<not> Pending t participant"
  proof -
    have "\<not> undelivered participant (deliver_to turn inp)" for inp
      using assms(4) by (simp add: undelivered_def deliver_to_def)
    then show ?thesis by (auto simp: Pending_def t list_ex_iff)
  qed
  ultimately show ?thesis using batch by simp
qed

theorem batch_frozen_witness:
  "PrepareBatch ((snd (PrepareBatch (collab_empty\<lparr>st_Inputs := [demo_input]\<rparr>) ''P'' ''T''))
       \<lparr>st_Inputs := [deliver_to ''T'' demo_input, demo_input]\<rparr>) ''P'' ''T''
     = ([deliver_to ''T'' demo_input],
        (snd (PrepareBatch (collab_empty\<lparr>st_Inputs := [demo_input]\<rparr>) ''P'' ''T''))
       \<lparr>st_Inputs := [deliver_to ''T'' demo_input, demo_input]\<rparr>)"
proof -
  let ?s = "collab_empty\<lparr>st_Inputs := [demo_input]\<rparr>"
  have inp: "inp_DeliveredTo demo_input = ''''" "inp_ParticipantID demo_input = ''P''"
    by (simp_all add: demo_input_def new_input_def demo_admission_def)
  have *: "snd (PrepareBatch ?s ''P'' ''T'') = ?s\<lparr>st_Preparations := [\<lparr>prp_ParticipantID = ''P'', prp_TurnID = ''T''\<rparr>],
      st_Inputs := [deliver_to ''T'' demo_input]\<rparr>" "fst (PrepareBatch ?s ''P'' ''T'') = [deliver_to ''T'' demo_input]"
    using inp by (simp_all add: PrepareBatch_def collab_empty_def undelivered_def)
  then have step: "PrepareBatch ?s ''P'' ''T'' = ([deliver_to ''T'' demo_input], snd (PrepareBatch ?s ''P'' ''T''))"
    by (metis prod.collapse)
  show ?thesis
    by (rule conjunct2 [OF conjunct2 [OF batch_frozen [OF step, where later = "[demo_input]"]]])
      (use inp in \<open>simp_all add: *(1)\<close>, simp_all add: collab_empty_def)
qed


section \<open>Question rounds\<close>

text \<open>C34 (one round at a time). In every reachable conversation the rounds have distinct identities,
  only the latest can have an undecided publication, no round is both published and failed, and the
  current round is exactly the published round that was not replaced; a question identity always
  carries the same wording.\<close>

theorem one_round_at_a_time:
  assumes "conversation s"
  shows "distinct (map rnd_ID (st_Rounds s))
    \<and> (\<forall>r \<in> set (butlast (st_Rounds s)). rnd_Published r \<or> rnd_PublicationFailed r)
    \<and> (\<forall>r \<in> set (st_Rounds s). \<not> (rnd_Published r \<and> rnd_PublicationFailed r)
         \<and> (rnd_Published r \<and> rnd_SupersededBy r = '''' \<longleftrightarrow> rnd_ID r = st_CurrentRound s))
    \<and> (st_CurrentRound s = '''' \<or> st_CurrentRound s \<in> rnd_ID ` set (st_Rounds s))
    \<and> (\<forall>r \<in> set (st_Rounds s). \<forall>t \<in> set (st_Rounds s). \<forall>p \<in> set (rnd_Questions r). \<forall>q \<in> set (rnd_Questions t).
         qst_ID p = qst_ID q \<longrightarrow> qst_Body p = qst_Body q)"
proof -
  have inv: "rounds_inv (st_Rounds s) (st_CurrentRound s)"
    using conversation_rounds [OF assms] by (simp add: rounds_ok_def)
  then have "\<forall>r \<in> set (st_Rounds s). \<not> (rnd_Published r \<and> rnd_PublicationFailed r)
      \<and> (rnd_Published r \<and> rnd_SupersededBy r = '''' \<longleftrightarrow> rnd_ID r = st_CurrentRound s)"
    unfolding rounds_inv_def round_ok_def by blast
  with inv show ?thesis unfolding rounds_inv_def texts_ok_def open_round_def by blast
qed

theorem one_round_at_a_time_witness: "distinct (map rnd_ID (st_Rounds collab_empty))"
  using one_round_at_a_time [OF conversation_start] by blast

section \<open>Short references\<close>

text \<open>References are permanent. In every reachable conversation the name that \<open>State.reference\<close>
  returns resolves back to the identity it was asked for, distinct identities of a kind have
  distinct names, and whatever happens afterwards, the name keeps its meaning.\<close>

theorem references_permanent:
  assumes "conversation s" "reference s k i = (n, t)" "i \<noteq> ''''"
  shows "target_of t k n = i \<and> (fst (reference t k j) = n \<longrightarrow> j = i)
    \<and> (\<forall>u v. st_References u = st_References t \<longrightarrow> collab_op\<^sup>*\<^sup>* u v \<longrightarrow> target_of v k n = i)"
proof -
  have ok: "references_ok s" by (rule conversation_references [OF assms(1)])
  have t: "target_of t k n = i" by (rule target_of_reference [OF ok assms(2)])
  have ok': "references_ok t" using reference_step_ok [OF ok, of k i] assms(2) by simp
  have "j = i" if name: "fst (reference t k j) = n"
  proof -
    obtain u where u: "reference t k j = (n, u)" using name by (metis prod.collapse)
    have "target_of u k n = j" by (rule target_of_reference [OF ok' u])
    moreover have "references_step t u" using u unfolding references_step_def by (metis snd_conv)
    ultimately show ?thesis using target_of_kept [of t u k n] t assms(3) by simp
  qed
  moreover have "target_of v k n = i" if "st_References u = st_References t" "collab_op\<^sup>*\<^sup>* u v" for u v
  proof -
    have "target_of u k n = i" using that(1) t by (simp add: target_of_def)
    with target_of_permanent [OF that(2)] assms(3) show ?thesis by simp
  qed
  ultimately show ?thesis using t by blast
qed

theorem references_permanent_witness:
  "target_of (snd (reference collab_empty ''R'' ''id'')) ''R'' ''R1'' = ''id''"
proof -
  have "decimal 1 = ''1''" by code_simp
  then have "reference collab_empty ''R'' ''id'' = (''R1'', snd (reference collab_empty ''R'' ''id''))"
    by (simp add: reference_def collab_empty_def Let_def)
  from references_permanent [OF conversation_start this] show ?thesis by simp
qed

section \<open>The plan\<close>

text \<open>C33 (the plan's history is only extended). From every reachable conversation on, whatever
  happens, the original request, the content and provenance of each revision, a published revision's
  place of publication, a frozen artifact, the recorded validations, rejections and invalidated
  confirmations stay as they are; histories only grow at the end.\<close>

theorem plan_history_extended:
  assumes "conversation s" "collab_op\<^sup>*\<^sup>* s t" "st_Planning s = Some p"
  shows "\<exists>q. st_Planning t = Some q \<and> plan_extends p q"
  by (rule plan_history_kept [OF assms])

definition demo_request :: original_request where
  "demo_request = \<lparr>org_Title = ''t'', org_Body = '''', org_Source = demo_source\<rparr>"

definition demo_planning :: planning_state where
  "demo_planning = \<lparr>pls_InvalidatedConfirmations = [], pls_NonPublications = [], pls_OriginalRequest = demo_request,
     pls_Revisions = [], pls_CurrentRevision = '''', pls_ReadyRevision = '''', pls_Revalidations = []\<rparr>"

lemma demo_start: "snd (StartPlanning collab_empty demo_request) = collab_empty\<lparr>st_Planning := Some demo_planning\<rparr>"
  by (simp add: StartPlanning_def collab_empty_def demo_request_def demo_planning_def demo_source_def go_simps
      is_space_rune_def)

theorem plan_history_extended_witness:
  "\<exists>q. st_Planning (mark_waiting (collab_empty\<lparr>st_Planning := Some demo_planning\<rparr>) TurnOutcomeClarificationWait) = Some q
     \<and> plan_extends demo_planning q"
proof (rule plan_history_extended)
  show "conversation (collab_empty\<lparr>st_Planning := Some demo_planning\<rparr>)"
    using conversation_op [OF conversation_start op_start_planning [of collab_empty demo_request]] by (simp add: demo_start)
qed (simp_all add: op_waiting r_into_rtranclp)

section \<open>Reading in pages\<close>

lemma chunk_offsets_all:
  assumes "length (chunk_offsets len reads) = (len + RecordChunkRunes - 1) div RecordChunkRunes"
    "RecordChunkRunes * k < len"
  shows "int (RecordChunkRunes * k) \<in> set reads"
proof -
  let ?c = RecordChunkRunes and ?n = "(len + RecordChunkRunes - 1) div RecordChunkRunes"
  have c: "?c > 0" by (simp add: RecordChunkRunes_def)
  have "set (chunk_offsets len reads) \<subseteq> (\<lambda>j. int (?c * j)) ` {..<?n}"
  proof
    fix x
    assume "x \<in> set (chunk_offsets len reads)"
    then have x: "0 \<le> x" "x < int len" "x mod int ?c = 0" by (auto simp: chunk_offsets_def)
    define j where "j = nat x div ?c"
    have "nat x mod ?c = 0" using x(1,3) by (metis nat_mod_distrib nat_int nat_zero_as_int of_nat_0_le_iff)
    then have "nat x = ?c * j" using mult_div_mod_eq [of ?c "nat x"] by (simp add: j_def)
    then have x': "x = int (?c * j)" using x(1) by (metis int_nat_eq)
    moreover have "j < ?n"
    proof -
      have "?c * j < len" using x(2) x' by linarith
      then have "?c * (j + 1) \<le> len + ?c - 1" by simp
      then have "j + 1 \<le> ?n" using c by (metis div_le_mono nonzero_mult_div_cancel_left gr_implies_not0)
      then show ?thesis by simp
    qed
    ultimately show "x \<in> (\<lambda>j. int (?c * j)) ` {..<?n}" by auto
  qed
  moreover have "card (set (chunk_offsets len reads)) = ?n"
    unfolding assms(1) [symmetric] by (rule distinct_card) (simp add: chunk_offsets_def)
  moreover have "card ((\<lambda>j. int (?c * j)) ` {..<?n}) = ?n"
    using c by (subst card_image) (auto simp: inj_on_def)
  ultimately have eq: "set (chunk_offsets len reads) = (\<lambda>j. int (?c * j)) ` {..<?n}"
    by (intro card_subset_eq) auto
  have "k < ?n"
  proof -
    have "?c * (k + 1) \<le> len + ?c - 1" using assms(2) by simp
    then have "k + 1 \<le> ?n" using c by (metis div_le_mono nonzero_mult_div_cancel_left gr_implies_not0)
    then show ?thesis by simp
  qed
  with eq have "int (?c * k) \<in> set (chunk_offsets len reads)" by auto
  then show ?thesis by (auto simp: chunk_offsets_def)
qed

text \<open>C30 (no input counts as read before all of it was read). When a recorded read makes an input
  delivered, every chunk of its record, from the first to the last, is among the Turn's successful
  reads.\<close>

theorem delivered_means_read:
  assumes "recordCollaborationDelivery sha256 encode s turn counts ''human_input'' index offset actual reads = (Inr (), t)"
    "t \<noteq> s"
  shows "\<exists>inp count. getCollaborationRecord encode s (lt_ParticipantID turn) (lt_ID turn) counts ''human_input'' index
        = Inr (encode (InputRecord inp), Some (InputRecord inp), count)
    \<and> t = snd (MarkDelivered s (lt_ParticipantID turn) (lt_ID turn) (inp_ID inp))
    \<and> (\<forall>k. RecordChunkRunes * k < length (go_runes (encode (InputRecord inp)))
          \<longrightarrow> int (RecordChunkRunes * k) \<in> set reads)"
proof -
  from assms obtain raw inp count where looked: "getCollaborationRecord encode s (lt_ParticipantID turn) (lt_ID turn) counts
      ''human_input'' index = Inr (raw, Some (InputRecord inp), count)"
    and chunks: "length (chunk_offsets (length (go_runes raw)) reads)
      = (length (go_runes raw) + RecordChunkRunes - 1) div RecordChunkRunes"
    and t: "t = snd (transact s (MarkDelivered s (lt_ParticipantID turn) (lt_ID turn) (inp_ID inp)))"
    unfolding recordCollaborationDelivery_def Let_def
    by (auto split: sum.split_asm option.split_asm co_record.split_asm if_split_asm) 
  have "raw = encode (InputRecord inp)"
    using looked by (auto simp: getCollaborationRecord_def Let_def split: option.split_asm if_split_asm)
  moreover have "t = snd (MarkDelivered s (lt_ParticipantID turn) (lt_ID turn) (inp_ID inp))"
    using t assms(2) transact_cases by metis
  ultimately show ?thesis using looked chunk_offsets_all [OF chunks] by blast
qed


definition demo_assigned :: co_input where
  "demo_assigned = demo_input\<lparr>inp_DeliveredTo := ''T'', inp_DeliveryPending := True\<rparr>"

definition demo_page :: record_page where
  "demo_page = \<lparr>pg_RecordSHA256 = '''', pg_Content = ''{}'', pg_Index = 0, pg_Total = 1, pg_NextOffset = None,
     pg_NextIndex = None\<rparr>"

lemma demo_assigned_sel [simp]:
  "inp_ParticipantID demo_assigned = ''P''" "inp_DeliveredTo demo_assigned = ''T''" "inp_DeliveryPending demo_assigned"
  by (simp_all add: demo_assigned_def demo_input_def new_input_def demo_admission_def)

theorem delivered_means_read_witness:
  "snd (MarkDelivered (collab_empty\<lparr>st_Inputs := [demo_assigned]\<rparr>) ''P'' ''T'' (inp_ID demo_assigned))
     \<noteq> collab_empty\<lparr>st_Inputs := [demo_assigned]\<rparr> \<and> (0 :: int) \<in> set [0]"
proof -
  let ?s = "collab_empty\<lparr>st_Inputs := [demo_assigned]\<rparr>"
  let ?t = "snd (MarkDelivered ?s ''P'' ''T'' (inp_ID demo_assigned))"
  have records: "Records ?s ''P'' ''T'' ''human_input'' = [InputRecord (demo_assigned\<lparr>inp_DeliveryPending := False\<rparr>)]"
    by (simp add: Records_def collab_empty_def)
  have page: "PageRecord (\<lambda>_. '''') ''{}'' 1 0 0 = Inr demo_page"
    using runes_string_runes [of "''{}''"] by (simp add: PageRecord_def demo_page_def go_simps RecordChunkRunes_def)
  obtain t where t: "?t = t" by blast
  have mark: "MarkDelivered ?s ''P'' ''T'' (inp_ID demo_assigned) = (Inr (), t)"
    unfolding t [symmetric] by (simp add: MarkDelivered_def collab_empty_def)
  have ne: "?t \<noteq> ?s"
    by (simp add: MarkDelivered_def collab_empty_def) (metis co_input.surjective co_input.update_convs(14) co_input.select_convs(14) demo_assigned_sel(3))
  have "recordCollaborationDelivery (\<lambda>_. '''') (\<lambda>_. ''{}'') ?s demo_planner_turn (Some (\<lambda>_. Some 1)) ''human_input'' 0 0 demo_page [0]
      = (Inr (), t)"
    using mark by (simp add: recordCollaborationDelivery_def getCollaborationRecord_def records page demo_planner_turn_def
        collections_def go_simps chunk_offsets_def RecordChunkRunes_def transact_def Let_def)
  from delivered_means_read [OF this ne [unfolded t]] obtain inp count where
    "\<forall>k. RecordChunkRunes * k < length (go_runes ''{}'') \<longrightarrow> int (RecordChunkRunes * k) \<in> set [0]" by auto
  then have "int (RecordChunkRunes * 0) \<in> set [0]" by (simp add: go_simps)
  with ne show ?thesis by simp
qed


section \<open>Redelivered operations\<close>


text \<open>The first round with the identity receives the resolution.\<close>

lemma record_resolution_first:
  assumes "find (\<lambda>c. rnd_ID c = i) (st_Rounds s) = Some b" "rnd_ID r = i"
  shows "\<exists>c. find (\<lambda>c. rnd_ID c = i) (st_Rounds (record_resolution r x s)) = Some c
    \<and> set (rnd_Resolutions b) \<subseteq> set (rnd_Resolutions c)
    \<and> (\<exists>y \<in> set (rnd_Resolutions c). y = x\<lparr>res_Sequence := st_InterpretationSequence s + 1\<rparr>)"
proof -
  let ?y = "x\<lparr>res_Sequence := st_InterpretationSequence s + 1\<rparr>"
  let ?add = "\<lambda>c. c\<lparr>rnd_Resolutions := rnd_Resolutions c @ [?y]\<rparr>"
  have first: "find (\<lambda>c. rnd_ID c = i) (map_first (\<lambda>c. rnd_ID c = i) ?add rs) = Some (?add b)"
    if "find (\<lambda>c. rnd_ID c = i) rs = Some b" for rs
    using that by (induction rs) (auto split: if_split_asm)
  have mapped: "find (\<lambda>c. rnd_ID c = i) (map h rs) = map_option h (find (\<lambda>c. rnd_ID c = i) rs)"
    if "\<And>c. rnd_ID (h c) = rnd_ID c" for h rs
    using that by (induction rs) auto
  show ?thesis
    using first [OF assms(1)] assms(2)
    by (auto simp: record_resolution_def Let_def mapped)
qed

lemma fold_record_resolution_first:
  assumes "find (\<lambda>c. rnd_ID c = i) (st_Rounds s) = Some b" "rnd_ID r = i"
  shows "\<exists>c. find (\<lambda>c. rnd_ID c = i) (st_Rounds (fold (record_resolution r) xs s)) = Some c
    \<and> set (rnd_Resolutions b) \<subseteq> set (rnd_Resolutions c)
    \<and> (\<forall>x \<in> set xs. \<exists>y \<in> set (rnd_Resolutions c). \<exists>n. y = x\<lparr>res_Sequence := n\<rparr>)"
  using assms(1)
proof (induction xs arbitrary: s b)
  case (Cons x xs)
  from record_resolution_first [OF Cons.prems assms(2), of x] obtain c y where c:
    "find (\<lambda>c. rnd_ID c = i) (st_Rounds (record_resolution r x s)) = Some c"
    "set (rnd_Resolutions b) \<subseteq> set (rnd_Resolutions c)" "y \<in> set (rnd_Resolutions c)"
    "y = x\<lparr>res_Sequence := st_InterpretationSequence s + 1\<rparr>" by blast
  from Cons.IH [OF c(1)] obtain d where d:
    "find (\<lambda>c. rnd_ID c = i) (st_Rounds (fold (record_resolution r) xs (record_resolution r x s))) = Some d"
    "set (rnd_Resolutions c) \<subseteq> set (rnd_Resolutions d)"
    "\<forall>x \<in> set xs. \<exists>y \<in> set (rnd_Resolutions d). \<exists>n. y = x\<lparr>res_Sequence := n\<rparr>" by blast
  with c show ?case by fastforce
qed simp

text \<open>A resolution is applied once. When an invocation of \<open>resolve_clarification\<close> succeeded and the
  same invocation is delivered again, it succeeds again without changing the conversation: no second
  resolution is recorded, in whatever Turn and however often.\<close>

theorem resolution_applied_once:
  assumes "ResolveClarification s turn valid_uuid intent operation rid resolutions = (Inr (), t)" "operation \<noteq> ''''"
  shows "ResolveClarification t turn valid_uuid intent operation rid resolutions = (Inr (), t)"
proof -
  from assms(1) have guard: "admits turn" "valid_uuid" "resolutions \<noteq> []" "intent = Some (rid, resolutions)"
    by (auto simp: ResolveClarification_def split: if_split_asm)
  have "list_ex (\<lambda>r. rnd_ID r = rid \<and> HasResolutionEffect r operation resolutions) (st_Rounds t)"
  proof (cases "list_ex (\<lambda>r. rnd_ID r = rid \<and> HasResolutionEffect r operation resolutions) (st_Rounds s)")
    case True
    with assms(1) guard show ?thesis by (simp add: ResolveClarification_def)
  next
    case False
    let ?bound = "map (\<lambda>x. x\<lparr>res_OriginOperationID := operation\<rparr>) resolutions"
    from assms(1) guard False have "Resolve s rid (lt_ID turn) ?bound = (Inr (), t)"
      by (auto simp: ResolveClarification_def transact_def split: prod.split_asm sum.split_asm)
    then obtain r where find: "find (\<lambda>r. rnd_ID r = rid) (st_Rounds s) = Some r"
      and t: "t = fold (record_resolution r) (map (freeze_coverage s) ?bound) s"
      by (auto simp: Resolve_def Let_def split: option.split_asm if_split_asm)
    then have "rnd_ID r = rid" by (auto simp: find_Some_iff)
    from fold_record_resolution_first [OF find this, of "map (freeze_coverage s) ?bound"] obtain c where
      c: "find (\<lambda>c. rnd_ID c = rid) (st_Rounds t) = Some c" and
      recorded: "\<forall>x \<in> set (map (freeze_coverage s) ?bound). \<exists>y \<in> set (rnd_Resolutions c). \<exists>n. y = x\<lparr>res_Sequence := n\<rparr>"
      unfolding t by blast
    have "HasResolutionEffect c operation resolutions"
      unfolding HasResolutionEffect_def list_all_iff
    proof (simp add: assms(2) guard(3), intro ballI)
      fix wanted
      assume "wanted \<in> set resolutions"
      with recorded obtain y n where y: "y \<in> set (rnd_Resolutions c)"
        "y = (freeze_coverage s (wanted\<lparr>res_OriginOperationID := operation\<rparr>))\<lparr>res_Sequence := n\<rparr>" by auto
      from y(2) have "res_OriginOperationID y = operation \<and> blank_metadata y = blank_metadata wanted"
        by (simp add: freeze_coverage_def blank_metadata_def)
      with y(1) show "list_ex (\<lambda>actual. res_OriginOperationID actual = operation \<and> blank_metadata actual = blank_metadata wanted)
          (rnd_Resolutions c)" by (auto simp: list_ex_iff)
    qed
    moreover from c have "c \<in> set (st_Rounds t)" "rnd_ID c = rid" by (auto simp: find_Some_iff)
    ultimately show ?thesis by (auto simp: list_ex_iff)
  qed
  with guard show ?thesis by (simp add: ResolveClarification_def)
qed


definition demo_round :: co_round where
  "demo_round = \<lparr>rnd_SupersedesReference = '''', rnd_Artifact = None, rnd_Reference = ''R1'', rnd_Introduction = '''',
     rnd_PublicationFailed = False, rnd_Supersedes = '''', rnd_ID = ''R1'', rnd_Purpose = Clarification,
     rnd_ParticipantID = ''P'', rnd_TurnID = ''T'', rnd_HeadSHA = '''',
     rnd_Questions = [\<lparr>qst_Replaces = '''', qst_ID = ''q'', qst_Body = ''b''\<rparr>], rnd_Resolutions = [],
     rnd_SupersededBy = '''', rnd_Published = True, rnd_Source = Some demo_source\<rparr>"

definition demo_resolution :: resolution where
  "demo_resolution = \<lparr>res_Sequence = 0, res_OriginOperationID = '''', res_ConsideredResponseIDs = None,
     res_Obsolete = True, res_QuestionID = ''q'', res_ResponseIDs = None, res_Explanation = ''e''\<rparr>"

definition demo_asked :: collab where
  "demo_asked = collab_empty\<lparr>st_Rounds := [demo_round],
     st_Preparations := [\<lparr>prp_ParticipantID = ''P'', prp_TurnID = ''T''\<rparr>]\<rparr>"

lemma demo_resolved:
  "ResolveClarification demo_asked demo_planner_turn True (Some (''R1'', [demo_resolution])) ''o'' ''R1'' [demo_resolution]
    = (Inr (), record_resolution demo_round
         (freeze_coverage demo_asked (demo_resolution\<lparr>res_OriginOperationID := ''o''\<rparr>)) demo_asked)"
  by (simp add: ResolveClarification_def admits_def demo_planner_turn_def demo_asked_def demo_round_def demo_resolution_def
      HasResolutionEffect_def Resolve_def prepared_for_def has_question_def latestResolution_def canRevise_def
      freeze_coverage_def resolutionCurrent_def transact_def go_simps is_space_rune_def)

theorem resolution_applied_once_witness:
  "\<exists>t. t \<noteq> demo_asked \<and> ResolveClarification t demo_planner_turn True (Some (''R1'', [demo_resolution])) ''o'' ''R1'' [demo_resolution]
     = (Inr (), t)"
proof -
  have "st_InterpretationSequence (record_resolution demo_round
       (freeze_coverage demo_asked (demo_resolution\<lparr>res_OriginOperationID := ''o''\<rparr>)) demo_asked) = 1"
    by (simp add: record_resolution_def Let_def demo_asked_def collab_empty_def)
  then have "record_resolution demo_round
       (freeze_coverage demo_asked (demo_resolution\<lparr>res_OriginOperationID := ''o''\<rparr>)) demo_asked \<noteq> demo_asked"
    by (auto simp: demo_asked_def collab_empty_def)
  with resolution_applied_once [OF demo_resolved] show ?thesis by auto
qed

section \<open>Publishing receipts\<close>

text \<open>One contender publishes a receipt. Once an attempt to publish a receipt was granted, every
  other contender gets the frozen artifact and no attempt, and changes nothing; only a rejection
  report with exactly the granted number releases it, whatever artifact the contenders bring.\<close>

theorem receipt_attempt_exclusive:
  assumes "ReserveCollaborationReceipt s i artifact = (Inr (frozen, n), t)" "n \<noteq> 0"
  shows "ReserveCollaborationReceipt t i other = (Inr (frozen, 0), t)
    \<and> (m \<noteq> n \<longrightarrow> RejectCollaborationReceipt t i m = (Inl (CollabError ErrInvalid), t))
    \<and> (pub_Body other \<noteq> '''' \<and> pub_Marker other \<noteq> '''' \<longrightarrow>
        (\<exists>u. RejectCollaborationReceipt t i n = (Inr (), u)
           \<and> (\<exists>v. ReserveCollaborationReceipt u i other = (Inr (frozen, n + 1), v))))"
proof -
  from assms obtain r where find: "find (\<lambda>r. rct_ID r = i) (st_Receipts s) = Some r"
    and free: "\<not> (rct_Artifact r \<noteq> None \<and> \<not> rct_PublicationRejected r)"
    and frozen: "frozen = (case rct_Artifact r of None \<Rightarrow> artifact | Some a \<Rightarrow> a)" "n = rct_PublicationAttempt r + 1"
    and t: "t = s\<lparr>st_Receipts := map_first (\<lambda>r. rct_ID r = i) (grant_attempt artifact) (st_Receipts s)\<rparr>"
    by (auto simp: ReserveCollaborationReceipt_def split: option.split_asm if_split_asm bool.split_asm)
  have first: "find (\<lambda>r. rct_ID r = i) (map_first (\<lambda>r. rct_ID r = i) f rs) = map_option f (find (\<lambda>r. rct_ID r = i) rs)"
    if "\<And>r. rct_ID (f r) = rct_ID r" for f rs
    using that by (induction rs) auto
  have g: "find (\<lambda>r. rct_ID r = i) (st_Receipts t) = Some (grant_attempt artifact r)"
    using find by (simp add: t first grant_attempt_def)
  moreover have sel: "rct_Artifact (grant_attempt artifact r) = Some frozen"
    "rct_PublicationAttempt (grant_attempt artifact r) = n" "\<not> rct_PublicationRejected (grant_attempt artifact r)"
    by (simp_all add: grant_attempt_def frozen split: option.split)
  ultimately have "ReserveCollaborationReceipt t i other = (Inr (frozen, 0), t)"
    "m \<noteq> n \<longrightarrow> RejectCollaborationReceipt t i m = (Inl (CollabError ErrInvalid), t)"
    by (simp_all add: ReserveCollaborationReceipt_def RejectCollaborationReceipt_def)
  moreover have "\<exists>u. RejectCollaborationReceipt t i n = (Inr (), u)
      \<and> (\<exists>v. ReserveCollaborationReceipt u i other = (Inr (frozen, n + 1), v))"
    if "pub_Body other \<noteq> ''''" "pub_Marker other \<noteq> ''''"
    using that g sel assms(2)
    by (auto simp: ReserveCollaborationReceipt_def RejectCollaborationReceipt_def first)
  ultimately show ?thesis by blast
qed

definition demo_receipts :: collab where
  "demo_receipts = collab_empty\<lparr>st_Receipts := [new_receipt ''A1'' demo_admission]\<rparr>"

definition demo_artifact :: rendered_publication where
  "demo_artifact = \<lparr>pub_Body = ''b'', pub_Marker = ''m''\<rparr>"

theorem receipt_attempt_exclusive_witness:
  "ReserveCollaborationReceipt (demo_receipts\<lparr>st_Receipts := [grant_attempt demo_artifact (new_receipt ''A1'' demo_admission)]\<rparr>)
       ''A1'' demo_artifact
     = (Inr (demo_artifact, 0),
        demo_receipts\<lparr>st_Receipts := [grant_attempt demo_artifact (new_receipt ''A1'' demo_admission)]\<rparr>)"
proof -
  have "ReserveCollaborationReceipt demo_receipts ''A1'' demo_artifact
      = (Inr (demo_artifact, 1), demo_receipts\<lparr>st_Receipts := [grant_attempt demo_artifact (new_receipt ''A1'' demo_admission)]\<rparr>)"
    by (simp add: ReserveCollaborationReceipt_def demo_receipts_def new_receipt_def demo_artifact_def)
  from receipt_attempt_exclusive [OF this, of demo_artifact] show ?thesis by simp
qed

end
