(* ===== verification/Collab_Demo.thy ===== *)
theory Collab_Demo
  imports Collab_Properties
begin

text \<open>
  A whole planning conversation, transaction by transaction: a plan is started, a checkpoint
  reserved and published, a human confirms it, the next Turn reads and assesses the confirmation,
  validates the plan and settles. It is the concrete run on which properties of reachable
  conversations are instantiated.
\<close>

definition demo_sha :: string where
  "demo_sha = replicate 40 (CHR ''a'')"

definition demo_content :: planning_content where
  "demo_content = \<lparr>plc_Summary = ''s'', plc_UnresolvedDecisions = None, plc_Title = ''t'', plc_Status = ''proposed'',
     plc_Changes = ''c'', plc_RequirementsBrief = ''r'', plc_TechnicalPlan = ''p'', plc_InvestigatedCommit = demo_sha,
     plc_Evidence = Some [''e''], plc_DecisionResponseIDs = None\<rparr>"

definition demo_revision :: planning_revision where
  "demo_revision = \<lparr>rvn_Artifact = None, rvn_Reference = ''P1'', rvn_SupersedesReference = '''', rvn_ID = ''Px'',
     rvn_Supersedes = '''', rvn_ParticipantID = ''P'', rvn_TurnID = ''T'',
     rvn_ProcedureVersion = DiscoveryProcedureVersion, rvn_Content = demo_content,
     rvn_OriginalRequest = demo_request, rvn_Decisions = [], rvn_PublicationFailed = False,
     rvn_Published = False, rvn_Source = None\<rparr>"

definition demo_planner_turn2 :: locked_turn where
  "demo_planner_turn2 = demo_planner_turn\<lparr>lt_ID := ''T2''\<rparr>"

definition demo_confirm :: command where
  "demo_confirm = \<lparr>cmd_Kind = ''confirm-plan'', cmd_Target = ''P1'', cmd_Body = ''''\<rparr>"

definition demo_confirmation :: co_input where
  "demo_confirmation = \<lparr>inp_Reference = ''A1'', inp_Target = ''Px'', inp_Route = ''a:planning'', inp_ID = ''A1'',
     inp_Kind = ''confirm-plan'', inp_RoundID = '''', inp_Amends = '''', inp_Body = '''',
     inp_Actor = \<lparr>act_ID = ''h'', act_Name = ''h''\<rparr>, inp_Source = demo_source, inp_AcceptedAt = 1,
     inp_ParticipantID = ''P'', inp_DeliveredTo = '''', inp_DeliveryPending = False\<rparr>"

definition demo_assessment :: assessment where
  "demo_assessment = \<lparr>asm_OriginOperationID = '''', asm_InputID = ''A1'', asm_EvidenceIDs = [''A1''],
     asm_Disposition = ''confirmed'', asm_Explanation = ''e'', asm_Corrects = [], asm_InvalidateConfirmation = False\<rparr>"

definition demo_validation :: plan_revalidation where
  "demo_validation = \<lparr>rvl_SourceInvocationID = ''o'', rvl_RevisionID = ''Px'', rvl_ParticipantID = ''P'',
     rvl_TurnID = ''T2'', rvl_RepositoryCommit = demo_sha, rvl_Evidence = ''e'', rvl_ConfirmationInputID = ''A1'',
     rvl_ConsideredInputIDs = Some [''A1'']\<rparr>"

definition demo_receipt :: co_receipt where
  "demo_receipt = \<lparr>rct_PublicationAttempt = 0, rct_PublicationRejected = False, rct_Artifact = None, rct_ID = ''A1'',
     rct_Source = demo_source, rct_ResponseID = ''A1'', rct_Feedback = ''Thanks, queued as A1 for the agent to consider.''\<rparr>"

text \<open>The states of the run.\<close>

definition demo1 :: collab where
  "demo1 = collab_empty\<lparr>st_Planning := Some demo_planning\<rparr>"

definition demo2 :: collab where
  "demo2 = demo1\<lparr>st_Preparations := [\<lparr>prp_ParticipantID = ''P'', prp_TurnID = ''T''\<rparr>]\<rparr>"

definition demo3 :: collab where
  "demo3 = demo2\<lparr>st_References := [\<lparr>ref_Name = ''P1'', ref_ID = ''Px'', ref_Kind = ''P''\<rparr>],
     st_Planning := Some (demo_planning\<lparr>pls_Revisions := [demo_revision]\<rparr>)\<rparr>"

definition demo_published :: planning_state where
  "demo_published = demo_planning\<lparr>pls_Revisions := [demo_revision\<lparr>rvn_Published := True, rvn_Source := Some demo_source\<rparr>],
     pls_CurrentRevision := ''Px''\<rparr>"

definition demo4 :: collab where
  "demo4 = demo3\<lparr>st_Planning := Some demo_published\<rparr>"

definition demo5 :: collab where
  "demo5 = demo4\<lparr>st_References := st_References demo3 @ [\<lparr>ref_Name = ''A1'', ref_ID = ''A1'', ref_Kind = ''A''\<rparr>],
     st_Inputs := [demo_confirmation], st_Receipts := [demo_receipt]\<rparr>"

definition demo6 :: collab where
  "demo6 = demo5\<lparr>st_Preparations := st_Preparations demo2 @ [\<lparr>prp_ParticipantID = ''P'', prp_TurnID = ''T2''\<rparr>],
     st_Inputs := [demo_confirmation\<lparr>inp_DeliveredTo := ''T2''\<rparr>]\<rparr>"

definition demo7 :: collab where
  "demo7 = demo6\<lparr>st_Assessments := [demo_assessment\<lparr>asm_OriginOperationID := ''v''\<rparr>]\<rparr>"

definition demo8 :: collab where
  "demo8 = demo7\<lparr>st_Planning := Some (demo_published\<lparr>pls_Revalidations := [demo_validation]\<rparr>)\<rparr>"

lemmas demo_states = demo1_def demo2_def demo3_def demo4_def demo5_def demo6_def demo7_def demo8_def
  demo_published_def demo_planning_def collab_empty_def

text \<open>The steps.\<close>

lemma decimal_1 [simp]: "decimal (Suc 0) = ''1''"
  by code_simp

lemma demo_step1: "snd (StartPlanning collab_empty demo_request) = demo1"
  by (simp add: demo_start demo1_def)

lemma demo_step2: "prepareCollaboration (\<lambda>_. 0) demo1 ''P'' ''T'' ''r'' = demo2"
  by (simp add: prepareCollaboration_def PrepareBatch_def Project_def demo_states Let_def)

lemma demo_commit [simp]: "planningCommit demo_sha"
  by (simp add: planningCommit_def demo_sha_def go_bytes_def list_all_iff hex_digit_def)

lemma demo_content_valid [simp]: "valid_content demo_content"
  by (simp add: valid_content_def demo_content_def go_simps is_space_rune_def contains_nul_def)

lemma demo_content_sel [simp]:
  "plc_Status demo_content = ''proposed''" "plc_UnresolvedDecisions demo_content = None"
  "plc_DecisionResponseIDs demo_content = None"
  by (simp_all add: demo_content_def)

lemmas demo_blockers = Pending_def AssessmentBlocked_def Unresolved_def effective_resolutions_def fmap_any_iff
  undelivered_def latestAssessment_def

lemma demo_step3: "snd (ReservePlanningCheckpoint (\<lambda>_. None) demo2 demo_planner_turn (Some True) ''x'' demo_content) = demo3"
  by (simp add: ReservePlanningCheckpoint_def planningInvocation_def admits_def demo_planner_turn_def
      fail_proven_checkpoints_def ReserveCheckpoint_def reserve_new_def prepared_for_def new_revision_def
      CheckpointInputReason_def reference_def demo_states Let_def demo_blockers CurrentCheckpoint_def demo_revision_def)

lemma demo_step4: "snd (ConfirmPlanningPublication demo3 ''Px'' demo_source) = demo4"
  by (simp add: ConfirmPlanningPublication_def transact_def ConfirmCheckpoint_def demo_states demo_source_def demo_revision_def)

definition demo_planning_attempt :: workflow_attempt where
  "demo_planning_attempt = \<lparr>at_ID = ''a'', at_Number = 1, at_StartedAt = 0, at_Lifecycle = AttemptActive,
     at_CurrentStage = ''planning'', at_ReviewUsage = fmempty,
     at_InfrastructureRetryBudget = \<lparr>ab_Used = 0, ab_Limit = 0\<rparr>\<rparr>"

definition demo_planning_snapshot :: snapshot where
  "demo_planning_snapshot = absent_snapshot\<lparr>sn_State := StatePlanning, sn_CurrentAttempt := Some demo_planning_attempt,
     sn_ActiveTurn := Some \<lparr>tn_ID = ''T'', tn_SessionID = '''', tn_AttemptID = ''a'', tn_Stage = ''planning'',
       tn_Role = Planner, tn_Epoch = 0, tn_ControlRevision = 0, tn_ChangeProposalID = 0, tn_ExpectedHeadSHA = ''''\<rparr>\<rparr>"

lemma demo_step5:
  "AdmitHumanInput df pending demo_planning_snapshot ''P'' ''1'' demo4 demo_confirm
     \<lparr>act_ID = ''h'', act_Name = ''h''\<rparr> demo_source True 1 = Some (Inr (demo_receipt, None), demo5)"
  by (simp add: AdmitHumanInput_def Accept_def accepts_input_def demo_planning_snapshot_def absent_snapshot_def
      collaborationRoute_def demo_planning_attempt_def new_receipt_def demo_states demo_source_def demo_confirm_def
      command_target_def target_of_def command_round_def planningConfirmationTarget_def CurrentCheckpoint_def
      demo_revision_def ready_revision_def reference_def new_input_def demo_receipt_def demo_confirmation_def
      is_zero_time_def zero_time_def Let_def)

lemma demo_step6: "prepareCollaboration (\<lambda>_. 0) demo5 ''P'' ''T2'' ''r'' = demo6"
  by (simp add: prepareCollaboration_def PrepareBatch_def Project_def demo_states Let_def bind_route_def
      undelivered_def deliver_to_def demo_confirmation_def MaxProjectionBytes_def)

lemma demo_step7:
  "snd (AssessHumanInput demo6 demo_planner_turn2 (Some [demo_assessment]) ''v'' [demo_assessment]) = demo7"
  by (simp add: AssessHumanInput_def admits_def demo_planner_turn2_def demo_planner_turn_def assessment_equal_def
      HasAssessmentEffect_def demo_states transact_def Assess_def prepared_for_def delivered_def delivered_input_def
      demo_assessment_def demo_confirmation_def go_simps is_space_rune_def record_assessment_def Let_def)

lemma demo_step8:
  "snd (CompletePlanning demo7 demo_planner_turn2 (Some True) (Some (''current'', demo_sha)) ''o'' ''Px'' demo_sha ''e'' True)
    = demo8"
  by (simp add: CompletePlanning_def planningInvocation_def admits_def demo_planner_turn2_def demo_planner_turn_def
      transact_def ValidatePlanning_def go_simps is_space_rune_def demo_states demo_blockers CurrentCheckpoint_def
      demo_revision_def demo_confirmation_def demo_assessment_def prepared_for_def revalidate_def consider_input_def
      delivered_input_def confirms_def push_def demo_validation_def Let_def)

lemma demo_conversation6: "conversation demo6"
proof -
  have "conversation demo1" using conversation_op [OF conversation_start op_start_planning] demo_step1 by metis
  then have "conversation demo2" using conversation_op [OF _ op_prepare] demo_step2 by metis
  then have "conversation demo3" using conversation_op [OF _ op_reserve] demo_step3 by metis
  then have "conversation demo4" using conversation_op [OF _ op_confirm] demo_step4 by metis
  then have "conversation demo5" using conversation_op [OF _ op_accept [OF demo_step5]] by blast
  then show ?thesis using conversation_op [OF _ op_prepare] demo_step6 by metis
qed

lemma demo_conversation: "conversation demo8"
proof -
  have "conversation demo7" using conversation_op [OF demo_conversation6 op_assess] demo_step7 by metis
  then show ?thesis using conversation_op [OF _ op_validate] demo_step8 by metis
qed

end
