(* ===== verification/Collab_Settlement.thy ===== *)
theory Collab_Settlement
  imports Collab_Demo
begin

text \<open>
  Where the conversation meets the Workflow: the fence that a settling Turn has to pass, and the
  admission of human input.
\<close>

section \<open>The fence\<close>

text \<open>What the fence lets through.\<close>

lemma fence_result:
  assumes "fenceCollaborationSettlement s participant e = (Inr e', t)"
  shows "ts_HumanInputPending e' = Pending s participant"
    "hands_on (ts_Outcome e') \<Longrightarrow> \<not> Pending s participant \<and> \<not> human_blocked s participant"
    "ts_Outcome e' = ts_Outcome e \<or> ts_Outcome e' = TurnOutcomeClarificationWait"
    "ts_Turn e' = ts_Turn e"
  using assms
  by (auto simp: fenceCollaborationSettlement_def Let_def hands_on_def split: if_split_asm option.split_asm)

lemma fence_ready:
  assumes "fenceCollaborationSettlement s participant e = (Inr e', t)" "ts_Outcome e' = TurnOutcomePlanningReady"
  obtains p v where "st_Planning s = Some p" "v \<in> set (pls_Revalidations p)"
    "grants_readiness s p (tg_TurnID (ts_Turn e)) v"
    "st_Planning t = Some (p\<lparr>pls_ReadyRevision := pls_CurrentRevision p\<rparr>)"
  using assms
  by (auto simp: fenceCollaborationSettlement_def Let_def list_ex_iff split: if_split_asm option.split_asm)

definition human_confirmed :: "collab \<Rightarrow> planning_state \<Rightarrow> planning_revision \<Rightarrow> co_input \<Rightarrow> bool" where
  "human_confirmed s p r inp \<longleftrightarrow>
     inp \<in> set (st_Inputs s) \<and> inp_Kind inp = ''confirm-plan'' \<and> inp_Target inp = rvn_ID r
     \<and> inp_ID inp \<notin> set (pls_InvalidatedConfirmations p)
     \<and> (\<exists>a. latestAssessment s (inp_ID inp) = Some a \<and> asm_Disposition a = ''confirmed'')"

text \<open>C20 (a plan becomes ready only by a human's confirmation). When a reachable conversation lets a Turn
  settle as planning-ready, the current revision is a published proposal, an accepted input of a human
  confirms exactly this revision, the confirmation was not invalidated and its latest assessment is
  \<open>confirmed\<close>; every input for the revision's participant was read completely and assessed without
  doubt; and this revision is what the state records as ready.\<close>

theorem plan_ready_needs_confirmation:
  assumes "conversation s" "fenceCollaborationSettlement s participant e = (Inr e', t)"
    "ts_Outcome e' = TurnOutcomePlanningReady"
  shows "\<exists>p r inp. st_Planning s = Some p \<and> r \<in> set (pls_Revisions p) \<and> rvn_ID r = pls_CurrentRevision p
    \<and> rvn_Published r \<and> plc_Status (rvn_Content r) = ''proposed'' \<and> human_confirmed s p r inp
    \<and> \<not> Pending s (rvn_ParticipantID r) \<and> \<not> human_blocked s (rvn_ParticipantID r)
    \<and> st_Planning t = Some (p\<lparr>pls_ReadyRevision := rvn_ID r\<rparr>)"
proof -
  from assms(2,3) obtain p v where v: "st_Planning s = Some p" "v \<in> set (pls_Revalidations p)"
    "grants_readiness s p (tg_TurnID (ts_Turn e)) v" and t: "st_Planning t = Some (p\<lparr>pls_ReadyRevision := pls_CurrentRevision p\<rparr>)"
    by (rule fence_ready)
  have "validation_ok (st_Inputs s) (pls_Revisions p) v"
    using conversation_planning [OF assms(1)] v(1,2) by (simp add: planning_ok_def plan_ok_def)
  then obtain r inp where r: "r \<in> set (pls_Revisions p)" "rvn_ID r = rvl_RevisionID v" "rvn_Published r"
      "plc_Status (rvn_Content r) = ''proposed''" "rvn_ParticipantID r = rvl_ParticipantID v"
    and inp: "inp \<in> set (st_Inputs s)" "inp_ID inp = rvl_ConfirmationInputID v" "inp_Kind inp = ''confirm-plan''"
      "inp_Target inp = rvl_RevisionID v"
    by (auto simp: validation_ok_def)
  from v(1,3) have current: "rvl_RevisionID v = pls_CurrentRevision p" "\<not> Pending s (rvl_ParticipantID v)"
    "\<not> human_blocked s (rvl_ParticipantID v)" "rvl_ConfirmationInputID v \<notin> set (pls_InvalidatedConfirmations p)"
    "\<exists>a. latestAssessment s (rvl_ConfirmationInputID v) = Some a \<and> asm_Disposition a = ''confirmed''"
    by (auto simp: grants_readiness_def PlanningValidationCurrent_def human_blocked_def split: if_split_asm option.split_asm)
  with r inp have "human_confirmed s p r inp" by (simp add: human_confirmed_def)
  with v(1) t r current show ?thesis by metis
qed

definition demo_planning_settled :: turn_settled_event where
  "demo_planning_settled = \<lparr>ts_PublicationAssociation = None,
     ts_EventMetadata = \<lparr>em_ID = ''e'', em_ObservedAt = 1,
       em_WorkItem = \<lparr>wi_RepositoryID = 1, wi_IssueID = 1, wi_IssueNumber = 1\<rparr>, em_ExpectedRevision = 1\<rparr>,
     ts_Turn = \<lparr>tg_RetryOfTurnID = '''', tg_TurnID = ''T2'', tg_SessionID = '''', tg_AttemptID = ''a'',
       tg_Stage = ''planning'', tg_Role = Planner, tg_Epoch = 0, tg_ControlRevision = 0, tg_ChangeProposalID = 0,
       tg_ExpectedHeadSHA = ''''\<rparr>,
     ts_Outcome = TurnOutcomePlanningReady, ts_ChangeProposal = None, ts_Review = None, ts_ExistingReview = None,
     ts_AuthorizedReviewerActorID = 0, ts_HumanInputPending = False,
     ts_PendingEvents = \<lparr>pe_Count = 0, pe_RequiresReconciliation = False, pe_LatestObservedHeadSHA = ''''\<rparr>,
     ts_Diagnostic = '''', ts_CorroborationHandoffReason = NoReason\<rparr>"

lemma demo_step9:
  "fenceCollaborationSettlement demo8 ''P'' demo_planning_settled
    = (Inr demo_planning_settled, demo8\<lparr>st_Planning := Some (demo_published\<lparr>pls_Revalidations := [demo_validation],
         pls_ReadyRevision := ''Px''\<rparr>)\<rparr>)"
  by (simp add: fenceCollaborationSettlement_def demo_planning_settled_def demo_states demo_blockers human_blocked_def
      hands_on_def demo_confirmation_def demo_assessment_def grants_readiness_def demo_validation_def
      PlanningValidationCurrent_def Let_def)

theorem plan_ready_needs_confirmation_witness:
  "\<exists>p r inp. st_Planning demo8 = Some p \<and> r \<in> set (pls_Revisions p) \<and> rvn_ID r = ''Px'' \<and> human_confirmed demo8 p r inp"
proof -
  have "ts_Outcome demo_planning_settled = TurnOutcomePlanningReady" by (simp add: demo_planning_settled_def)
  from plan_ready_needs_confirmation [OF demo_conversation demo_step9 this] obtain p r inp where
    *: "st_Planning demo8 = Some p" "r \<in> set (pls_Revisions p)" "rvn_ID r = pls_CurrentRevision p" "human_confirmed demo8 p r inp"
    by blast
  moreover from *(1) have "pls_CurrentRevision p = ''Px''" by (auto simp: demo8_def demo_published_def)
  ultimately show ?thesis by metis
qed

section \<open>Invalidated confirmations\<close>

text \<open>C32 (an invalidated confirmation never counts again). Once an assessment has invalidated a
  confirmation, then in every later state no validation that names it is current: a plan is not ready
  by it, even if the same input is assessed as confirmed afterwards.\<close>

theorem invalidated_stays_invalid:
  assumes "conversation s" "collab_op\<^sup>*\<^sup>* s t" "st_Planning s = Some p"
    "i \<in> set (pls_InvalidatedConfirmations p)" "rvl_ConfirmationInputID v = i"
  shows "\<not> PlanningValidationCurrent t v
    \<and> (\<forall>q inp. st_Planning t = Some q \<longrightarrow> inp_ID inp = i \<longrightarrow> \<not> confirms t q revision inp)"
proof -
  from plan_history_kept [OF assms(1,2,3)] obtain q where q: "st_Planning t = Some q" "plan_extends p q" by blast
  with assms(4) have "i \<in> set (pls_InvalidatedConfirmations q)" by (auto simp: plan_extends_def)
  with q(1) assms(5) show ?thesis by (auto simp: PlanningValidationCurrent_def confirms_def)
qed

definition demo_doubt :: assessment where
  "demo_doubt = demo_assessment\<lparr>asm_Disposition := ''changed''\<rparr>"

definition demo_withdrawn :: collab where
  "demo_withdrawn = demo6\<lparr>st_Assessments := [demo_doubt\<lparr>asm_OriginOperationID := ''v''\<rparr>],
     st_Planning := Some (demo_published\<lparr>pls_InvalidatedConfirmations := [''A1'']\<rparr>)\<rparr>"

lemma demo_withdraw_step:
  "snd (AssessHumanInput demo6 demo_planner_turn2 (Some [demo_doubt]) ''v'' [demo_doubt]) = demo_withdrawn"
  by (simp add: AssessHumanInput_def admits_def demo_planner_turn2_def demo_planner_turn_def assessment_equal_def
      HasAssessmentEffect_def demo_states transact_def Assess_def prepared_for_def delivered_def delivered_input_def
      demo_assessment_def demo_doubt_def demo_withdrawn_def demo_confirmation_def go_simps is_space_rune_def
      record_assessment_def Let_def)

theorem invalidated_stays_invalid_witness: "\<not> PlanningValidationCurrent demo_withdrawn demo_validation"
proof -
  have "conversation demo_withdrawn" using conversation_op [OF demo_conversation6 op_assess] demo_withdraw_step by metis
  from invalidated_stays_invalid [OF this rtranclp.rtrancl_refl, of _ "''A1''" demo_validation]
  show ?thesis by (simp add: demo_withdrawn_def demo_published_def demo_validation_def)
qed

section \<open>Admission\<close>




end
