(* ===== verification/Settlement_Safety.thy ===== *)
theory Settlement_Safety
  imports Collab_Settlement Workflow_Turns Workflow_Examples
begin

text \<open>
  The conversation and the reducer together: what a Turn's settlement can do to the Workflow while a
  human's input is unread, unassessed or unresolved, and what stands behind a plan that is ready.
\<close>

section \<open>Unread input\<close>

text \<open>A Turn that settles by waiting for clarification keeps the Workflow where it is.\<close>

lemma Reduce_waits:
  assumes "Reduce r s (TurnSettledEvent e) = Some d" "de_Disposition d = DispositionApplied"
    "ts_Outcome e = TurnOutcomeClarificationWait"
  shows "sn_State (de_Snapshot d) = sn_State s \<and> sn_CurrentAttempt (de_Snapshot d) = sn_CurrentAttempt s
    \<and> sn_ActiveTurn (de_Snapshot d) = None \<and> sn_ClarificationWaiting (de_Snapshot d)
    \<and> (if ts_HumanInputPending e
       then \<exists>head. de_Actions d = [EnqueueTurnAction (enqueue (tg_Stage (ts_Turn e)) (tg_Role (ts_Turn e))
              TurnPurposeReactivation head)]
       else de_Actions d = [])"
proof (rule Reduce_applied [OF assms(1,2)])
  fix m k d0
  assume d0: "dispatch r s (TurnSettledEvent e) = Some d0" "\<not> refused s d0"
    "de_Snapshot d = de_Snapshot d0" "de_Actions d = de_Actions d0"
  with turn_settled_shape [of r s e d0] have "settle_outcome r s (settling s e) e = Some d0" by auto
  with assms(3) have "reduceClarificationWait s (settling s e) e = d0" by (simp add: settle_outcome_def)
  from clarification_shape [OF this] d0(2) obtain proposal where
    "d0 = clarificationWaitDecision ((settling s e)\<lparr>sn_ChangeProposal := proposal\<rparr>) (ts_Turn e) (ts_HumanInputPending e)"
    by blast
  with d0(3,4) show ?thesis by (auto simp: clarificationWaitDecision_def Let_def)
qed

text \<open>C5 (no hand over while a human waits). While the Turn's participant has input it has not read
  completely, not assessed, or a question whose resolution is not current, no report of the Turn
  hands work on: a Change Proposal, a review verdict or a plan becomes a wait for clarification. If
  the reducer then applies the Event, the Workflow stays in its state and Attempt and is marked as
  waiting. When input is unread it asks for a Turn of the same Stage and Role, which can read it; when the
  input is read and only its assessment or resolution is missing, it asks for nothing and just waits.\<close>

theorem unread_input_stops_handover:
  assumes "fenceCollaborationSettlement c participant e = (Inr e', t)" "hands_on (ts_Outcome e)"
    "Pending c participant \<or> human_blocked c participant"
    "Reduce r s (TurnSettledEvent e') = Some d" "de_Disposition d = DispositionApplied"
  shows "st_Waiting t \<and> sn_State (de_Snapshot d) = sn_State s
    \<and> sn_CurrentAttempt (de_Snapshot d) = sn_CurrentAttempt s
    \<and> sn_ActiveTurn (de_Snapshot d) = None \<and> sn_ClarificationWaiting (de_Snapshot d)
    \<and> (if Pending c participant
       then \<exists>head. de_Actions d = [EnqueueTurnAction (enqueue (tg_Stage (ts_Turn e)) (tg_Role (ts_Turn e))
              TurnPurposeReactivation head)]
       else de_Actions d = [])"
proof -
  have e': "ts_Outcome e' = TurnOutcomeClarificationWait" "ts_HumanInputPending e' = Pending c participant"
    "ts_Turn e' = ts_Turn e" "st_Waiting t"
    using assms(1-3) by (auto simp: fenceCollaborationSettlement_def Let_def split: if_split_asm option.split_asm)
  show ?thesis using Reduce_waits [OF assms(4,5) e'(1), unfolded e'(2) e'(3)] e'(4) by simp
qed

definition demo_waiting :: turn_settled_event where
  "demo_waiting = (demo_settled 1 demo_developer_turn TurnOutcomeClarificationWait (Some (demo_proposal '''')) None)
     \<lparr>ts_HumanInputPending := True, ts_AuthorizedReviewerActorID := 0\<rparr>"

lemma demo_fence_waits:
  "fenceCollaborationSettlement demo5 ''P''
     (demo_settled 1 demo_developer_turn TurnOutcomeChangeProposalReady (Some (demo_proposal '''')) None)
   = (Inr demo_waiting, demo5\<lparr>st_Waiting := True\<rparr>)"
  by (simp add: fenceCollaborationSettlement_def demo_waiting_def demo_settled_def demo_states demo_blockers
      hands_on_def demo_confirmation_def Let_def)

lemma demo_waits_step:
  "Reduce demo_reducer (demo_developing (Some demo_developer_turn)) (TurnSettledEvent demo_waiting)
   = Some (Applied ((demo_snapshot StateDeveloping 2 (demo_attempt StageImplementation 0) (Some (demo_proposal '''')) None)
        \<lparr>sn_ClarificationWaiting := True\<rparr>) (ReasonOther ''clarification_wait'')
      [EnqueueTurnAction (enqueue StageImplementation Developer TurnPurposeReactivation ''head'')])"
  by (rule Reduce_applies)
    (simp_all add: settle_simps reduceClarificationWait_def clarificationWaitDecision_def proposal_head_def
      demo_waiting_def valid_event_simps valid_snapshot_simps demo_simps, simp_all?)

theorem unread_input_stops_handover_witness:
  "hands_on TurnOutcomeChangeProposalReady \<and> Pending demo5 ''P''
   \<and> (\<exists>d. Reduce demo_reducer (demo_developing (Some demo_developer_turn)) (TurnSettledEvent demo_waiting) = Some d
        \<and> sn_State (de_Snapshot d) = StateDeveloping \<and> sn_ClarificationWaiting (de_Snapshot d))"
proof -
  have *: "hands_on TurnOutcomeChangeProposalReady" "Pending demo5 ''P''"
    by (simp_all add: hands_on_def demo_states demo_blockers demo_confirmation_def)
  then show ?thesis
    using unread_input_stops_handover [OF demo_fence_waits _ _ demo_waits_step] demo_waits_step
    by (simp add: demo_simps demo_settled_def)
qed

section \<open>Ready plans\<close>

text \<open>\<open>reduceWorkflowEvent\<close> tells a trigger whether the plan was completed.\<close>

definition planning_trigger :: "collab \<Rightarrow> snapshot \<Rightarrow> trigger_event \<Rightarrow> trigger_event" where
  "planning_trigger c n x =
     (if sn_PlanningOnly n \<and> sn_State n = StateNeedsHuman
      then x\<lparr>te_PlanningCompleted := (ready_revision c \<noteq> '''')\<rparr> else x)"

text \<open>C3 (a Workflow is PLAN_READY only with a confirmed plan). Whether a settled Turn or a human's
  trigger moves a Workflow of the built-in Definition to \<open>PLAN_READY\<close>, its reachable conversation
  holds a validation of a published proposal that a human confirmed.\<close>

theorem plan_ready_is_confirmed:
  assumes "conversation c" "builtin_reducer r" "Reduce r s e = Some d" "de_Disposition d = DispositionApplied"
    "sn_State (de_Snapshot d) = StatePlanReady" "sn_State s \<noteq> StatePlanReady"
    "e = TriggerEvent (planning_trigger c s x)
     \<or> e = TurnSettledEvent e' \<and> fenceCollaborationSettlement c participant e0 = (Inr e', t)"
  shows "\<exists>p v. st_Planning c = Some p \<and> v \<in> set (pls_Revalidations p)
    \<and> validation_ok (st_Inputs c) (pls_Revisions p) v"
proof -
  note built = builtin_reducer_built [OF assms(2)] and pipe = builtin_reducer_pipeline [OF assms(2)]
  note turning = stage_state_cases [OF built]
  have sound: "validation_ok (st_Inputs c) (pls_Revisions p) v"
    if "st_Planning c = Some p" "v \<in> set (pls_Revalidations p)" for p v
    using conversation_planning [OF assms(1)] that by (simp add: planning_ok_def plan_ok_def)
  obtain d0 where "effect r s e d0" "de_Snapshot d = de_Snapshot d0"
    by (rule Reduce_effect [OF built assms(3,4)])
  with assms(5) have eff: "effect r s e d0" "sn_State (de_Snapshot d0) = StatePlanReady" by simp_all
  then consider y where "e = TriggerEvent y" "sn_PlanningOnly s" "sn_State s = StateNeedsHuman" "te_PlanningCompleted y"
    | y n where "settles r s e y n" "ts_Outcome y = TurnOutcomePlanningReady"
  proof cases
    case (reviewed y n cp review observed a u)
    obtain st where "Stage (rd_definition r) (at_CurrentStage a) = Some st"
      using stage_graph.Transition_in_stage [OF built_stage_graph [OF built] reviewed(5)] by auto
    then have "turn_state (sd_State (stage_or_zero (rd_definition r) (at_CurrentStage a)))"
      using stage_state_active [OF built] by (simp add: stage_or_zero_def)
    moreover have "ot_TerminalState (transition_or_zero (rd_definition r) (at_CurrentStage a)
        TurnOutcomeApproved) = StatePRReady" if "ts_Outcome y = TurnOutcomeApproved"
      using review_pipeline.approval_ready [OF pipe] reviewed(5) that by simp
    ultimately show ?thesis using eff(2) reviewed(2,6) assms(6) settles_sel(2) [OF reviewed(1)]
      by (auto simp: review_branch_def effect_simps dest: turning)
  next
    case (previous_review y n review cp observed a u)
    have "ot_TerminalState u = StatePRReady" if "ti_Outcome y = TurnOutcomeApproved"
      using review_pipeline.approval_ready [OF pipe] previous_review(6) that by metis
    with eff(2) previous_review(7) assms(6) show ?thesis by (auto simp: effect_simps dest: turning)
  qed (use that eff(2) assms(6) in \<open>auto simp: effect_simps dest: turning settles_sel(2,13) split: if_split_asm\<close>)
  then show ?thesis
  proof cases
    case 1
    with assms(7) have "ready_revision c \<noteq> ''''" by (auto simp: planning_trigger_def)
    then obtain p where p: "st_Planning c = Some p" "pls_ReadyRevision p \<noteq> ''''"
      by (auto simp: ready_revision_def split: option.split_asm)
    with conversation_planning [OF assms(1)] obtain v where "v \<in> set (pls_Revalidations p)"
      by (auto simp: planning_ok_def plan_ok_def)
    with p(1) sound show ?thesis by blast
  next
    case 2
    with assms(7) have "e = TurnSettledEvent e'" "y = e'" and fence: "fenceCollaborationSettlement c participant e0 = (Inr e', t)"
      by (auto simp: settles_def)
    from fence 2(2) this(2) obtain p v where "st_Planning c = Some p" "v \<in> set (pls_Revalidations p)"
      by (metis fence_ready)
    with sound show ?thesis by blast
  qed
qed


definition demo_planner_active :: active_turn where
  "demo_planner_active = (demo_turn StagePlanning Planner 0 '''')\<lparr>tn_ID := ''T2''\<rparr>"

definition demo_planning_now :: snapshot where
  "demo_planning_now = (demo_snapshot StatePlanning 1 (demo_attempt StagePlanning 0) None (Some demo_planner_active))
     \<lparr>sn_PlanningOnly := True\<rparr>"

definition demo_plan_report :: turn_settled_event where
  "demo_plan_report = demo_settled 1 demo_planner_active TurnOutcomePlanningReady None None"

lemma demo_fence_grants:
  "fenceCollaborationSettlement demo8 ''P'' demo_plan_report
    = (Inr demo_plan_report, demo8\<lparr>st_Planning := Some (demo_published\<lparr>pls_Revalidations := [demo_validation],
         pls_ReadyRevision := ''Px''\<rparr>)\<rparr>)"
  by (simp add: fenceCollaborationSettlement_def demo_plan_report_def demo_settled_def demo_planner_active_def
      demo_turn_def guardFromTurn_def demo_states demo_blockers human_blocked_def hands_on_def
      demo_confirmation_def demo_assessment_def grants_readiness_def demo_validation_def
      PlanningValidationCurrent_def Let_def)

lemma demo_plan_Transition [simp]:
  "Transition (builtin_definition impl revw) StagePlanning TurnOutcomePlanningReady =
     Some ((no_transition TurnOutcomePlanningReady)\<lparr>ot_TerminalState := StatePlanReady,
       ot_ContinuationStage := StagePlanning\<rparr>)"
  by (simp add: Transition_def builtin_stages no_transition_def)

definition demo_planned :: snapshot where
  "demo_planned = (demo_snapshot StatePlanReady 2 (demo_attempt StagePlanning 0) None None)\<lparr>sn_PlanningOnly := True\<rparr>"

lemma demo_plan_step:
  "Reduce demo_reducer demo_planning_now (TurnSettledEvent demo_plan_report)
   = Some (Applied demo_planned ReasonApproved [ReconcileLabelsAction StatePlanReady ''''])"
  by (rule Reduce_applies)
    (simp_all add: settle_simps reducePlanningReady_def demo_planning_now_def demo_plan_report_def demo_planned_def
      demo_planner_active_def valid_event_simps valid_snapshot_simps demo_simps, simp_all?)

theorem plan_ready_is_confirmed_witness:
  "\<exists>p v. st_Planning demo8 = Some p \<and> v \<in> set (pls_Revalidations p) \<and> validation_ok (st_Inputs demo8) (pls_Revisions p) v"
proof -
  have "sn_State demo_planned = StatePlanReady" "sn_State demo_planning_now \<noteq> StatePlanReady"
    by (simp_all add: demo_planned_def demo_planning_now_def demo_snapshot_def)
  with demo_fence_grants show ?thesis
    using plan_ready_is_confirmed [OF demo_conversation demo_builtin demo_plan_step] by simp
qed

end
