(* ===== verification/One_Shot.thy ===== *)
theory One_Shot
  imports Main
begin

text \<open>
  Operations that may succeed at most once. Several parts of the program share this contract: the
  dispatch of an execution phase, the completion of a job, the revocation that ends both. A system is
  a step function that answers whether an operation was performed; \<open>performed\<close> is what a sequence
  of operations achieved, \<open>after\<close> the state it leaves.
\<close>

primrec performed :: "('o \<Rightarrow> 's \<Rightarrow> bool \<times> 's) \<Rightarrow> 'o list \<Rightarrow> 's \<Rightarrow> 'o list" where
  "performed step [] s = []"
| "performed step (x # xs) s =
     (if fst (step x s) then x # performed step xs (snd (step x s)) else performed step xs (snd (step x s)))"

primrec after :: "('o \<Rightarrow> 's \<Rightarrow> bool \<times> 's) \<Rightarrow> 'o list \<Rightarrow> 's \<Rightarrow> 's" where
  "after step [] s = s"
| "after step (x # xs) s = after step xs (snd (step x s))"

lemma after_append [simp]: "after step (xs @ ys) s = after step ys (after step xs s)"
  by (induction xs arbitrary: s) simp_all

lemma performed_append [simp]:
  "performed step (xs @ ys) s = performed step xs s @ performed step ys (after step xs s)"
  by (induction xs arbitrary: s) simp_all

lemma after_invariant:
  assumes "I s" "\<And>x s. I s \<Longrightarrow> I (snd (step x s))"
  shows "I (after step xs s)"
  using assms(1) by (induction xs arbitrary: s) (simp_all add: assms(2))

text \<open>A gate: what can still be done depends on a shared state, and the gate only ever closes. \<open>ok\<close> is an
  invariant of the system.\<close>

locale gate =
  fixes step :: "'o \<Rightarrow> 's \<Rightarrow> bool \<times> 's" and ok :: "'s \<Rightarrow> bool" and shut :: "'s \<Rightarrow> bool"
  assumes ok_step: "ok s \<Longrightarrow> ok (snd (step x s))"
    and shut_step: "shut s \<Longrightarrow> ok s \<Longrightarrow> shut (snd (step x s))"
begin

lemma ok_after: "ok s \<Longrightarrow> ok (after step xs s)"
  by (rule after_invariant) (auto intro: ok_step)

lemma shut_after: "shut s \<Longrightarrow> ok s \<Longrightarrow> shut (after step xs s)"
  by (induction xs arbitrary: s) (auto intro: ok_step shut_step)

end

text \<open>The operations \<open>shoots\<close> pass only an open gate.\<close>

locale barrier = gate step ok shut
  for step :: "'o \<Rightarrow> 's \<Rightarrow> bool \<times> 's" and ok :: "'s \<Rightarrow> bool" and shut :: "'s \<Rightarrow> bool" +
  fixes shoots :: "'o \<Rightarrow> bool"
  assumes shoots_open: "shoots x \<Longrightarrow> fst (step x s) \<Longrightarrow> ok s \<Longrightarrow> \<not> shut s"
begin

lemma no_shot: "shut s \<Longrightarrow> ok s \<Longrightarrow> filter shoots (performed step xs s) = []"
proof (induction xs arbitrary: s)
  case (Cons x xs)
  with ok_step [of s x] shut_step [of s x] shoots_open [of x s] show ?case by auto
qed simp

end

text \<open>A passage that shuts the gate behind it.\<close>

locale one_shot = barrier step ok shut shoots
  for step :: "'o \<Rightarrow> 's \<Rightarrow> bool \<times> 's" and ok :: "'s \<Rightarrow> bool" and shut :: "'s \<Rightarrow> bool" and shoots :: "'o \<Rightarrow> bool" +
  assumes shoots_shuts: "shoots x \<Longrightarrow> fst (step x s) \<Longrightarrow> ok s \<Longrightarrow> shut (snd (step x s))"
begin

lemma at_most_one_shot: "ok s \<Longrightarrow> length (filter shoots (performed step xs s)) \<le> 1"
proof (induction xs arbitrary: s)
  case (Cons x xs)
  then show ?case using no_shot [OF shoots_shuts [of x s] ok_step [of s x]] ok_step [of s x] by auto
qed simp

end

end
