(* ===== verification/Execution_Ledger.thy ===== *)
theory Execution_Ledger
  imports Prelude One_Shot
begin

text \<open>
  The ledger of executions (\<open>runtime/execution/execution.go\<close>, \<open>store/execution_reservations.go\<close>,
  \<open>store/terminal_capture.go\<close>, \<open>store/snapshot_installation.go\<close>): every external process of an Agent
  Turn is reserved here before it is created, and revocation denies whatever was not dispatched yet.

  The table is a map from its primary key, the Turn and its execution epoch, to the row. A statement
  that violates a CHECK of the table, or a query of another table that fails, is \<open>ExecDatabase\<close>; the
  transaction rolls back. The \<open>identity\<close> column holds the key itself.
\<close>

section \<open>Reservations\<close>

record execution_key =
  ek_AssignmentID :: string
  ek_AgentSessionID :: string
  ek_AgentTurnID :: string
  ek_ExecutionEpoch :: int64
  ek_RuntimeProfileName :: string
  ek_RuntimeProfileVersion :: string

datatype exec_phase = Reserved | Setup | Main | PhaseOther string

datatype exec_error = ErrConflict | ErrInvalidSpec | ErrAgentTurnFenceLost | ErrUnpromptedConflict | ExecDatabase

text \<open>A row of \<open>execution_reservations\<close>, NULL as \<open>None\<close>, and what the code reads of it.\<close>

record reservation_row =
  er_identity :: execution_key
  er_specification :: "string option"
  er_phase :: exec_phase
  er_setup_resource :: "string option"
  er_setup_settled :: bool
  er_resource :: "string option"
  er_creation_settled :: bool
  er_revoked :: bool
  er_preparation_only :: bool

record reservation =
  rs_Key :: execution_key
  rs_Digest :: string
  rs_Resource :: string
  rs_Revoked :: bool
  rs_CreationSettled :: bool
  rs_Phase :: exec_phase
  rs_SetupResource :: string
  rs_SetupSettled :: bool

type_synonym ledger = "(string \<times> int64) \<rightharpoonup> reservation_row"

definition coalesce :: "string option \<Rightarrow> string" where
  "coalesce x = (case x of None \<Rightarrow> '''' | Some v \<Rightarrow> v)"

definition scanExecutionReservation :: "reservation_row \<Rightarrow> reservation" where
  "scanExecutionReservation r =
     \<lparr>rs_Key = er_identity r, rs_Digest = coalesce (er_specification r), rs_Resource = coalesce (er_resource r),
      rs_Revoked = er_revoked r, rs_CreationSettled = er_creation_settled r, rs_Phase = er_phase r,
      rs_SetupResource = coalesce (er_setup_resource r), rs_SetupSettled = er_setup_settled r\<rparr>"

definition primary_key :: "execution_key \<Rightarrow> string \<times> int64" where
  "primary_key key = (ek_AgentTurnID key, ek_ExecutionEpoch key)"

text \<open>The CHECK constraints of the table.\<close>

definition sha256_text :: "string \<Rightarrow> bool" where
  "sha256_text d \<longleftrightarrow> length d = 64
     \<and> list_all (\<lambda>b. 48 \<le> b \<and> b \<le> 57 \<or> 97 \<le> b \<and> b \<le> 102) (go_bytes d)"

definition row_checks :: "execution_key \<Rightarrow> reservation_row \<Rightarrow> bool" where
  "row_checks key r \<longleftrightarrow>
     (er_specification r \<noteq> None \<or> er_revoked r)
     \<and> (er_resource r = None \<or> er_phase r = Main)
     \<and> (er_setup_resource r = None \<or> er_phase r = Setup \<or> er_phase r = Main)
     \<and> (er_phase r \<noteq> Main \<or> er_setup_resource r = None \<or> er_setup_settled r)
     \<and> er_phase r \<in> {Reserved, Setup, Main}
     \<and> ek_ExecutionEpoch key > 0
     \<and> (case er_specification r of None \<Rightarrow> True | Some d \<Rightarrow> sha256_text d)"

section \<open>Statements\<close>

text \<open>\<open>INSERT ... ON CONFLICT DO NOTHING\<close>: whether a row was inserted, \<open>None\<close> if a CHECK fails.\<close>

definition insert_row :: "ledger \<Rightarrow> execution_key \<Rightarrow> reservation_row \<Rightarrow> (bool \<times> ledger) option" where
  "insert_row l key r =
     (if \<not> row_checks key r then None
      else if l (primary_key key) \<noteq> None then Some (False, l)
      else Some (True, l(primary_key key \<mapsto> r)))"

text \<open>An \<open>UPDATE\<close> of the row of a key under a condition, which must affect exactly one row.\<close>

definition update_row ::
  "ledger \<Rightarrow> execution_key \<Rightarrow> (reservation_row \<Rightarrow> bool) \<Rightarrow> (reservation_row \<Rightarrow> reservation_row)
    \<Rightarrow> (exec_error + unit) \<times> ledger" where
  "update_row l key cond upd =
     (case l (primary_key key) of
        None \<Rightarrow> (Inl ErrConflict, l)
      | Some r \<Rightarrow>
          if \<not> (er_identity r = key \<and> cond r) then (Inl ErrConflict, l)
          else if \<not> row_checks key (upd r) then (Inl ExecDatabase, l)
          else (Inr (), l(primary_key key \<mapsto> upd r)))"

section \<open>Operations of the ledger\<close>

definition new_row :: "execution_key \<Rightarrow> string \<Rightarrow> reservation_row" where
  "new_row key digest =
     \<lparr>er_identity = key, er_specification = Some digest, er_phase = Reserved, er_setup_resource = None,
      er_setup_settled = False, er_resource = None, er_creation_settled = False, er_revoked = False,
      er_preparation_only = False\<rparr>"

definition ReserveExecution ::
  "ledger \<Rightarrow> execution_key \<Rightarrow> string \<Rightarrow> (exec_error + reservation \<times> bool) \<times> ledger" where
  "ReserveExecution l key digest =
     (case insert_row l key (new_row key digest) of
        None \<Rightarrow> (Inl ExecDatabase, l)
      | Some (fresh, l') \<Rightarrow>
          (case l' (primary_key key) of
             None \<Rightarrow> (Inl ExecDatabase, l)
           | Some r \<Rightarrow>
               let reservation = scanExecutionReservation r in
               if rs_Revoked reservation \<or> rs_Key reservation \<noteq> key \<or> rs_Digest reservation \<noteq> digest
               then (Inl ErrConflict, l) else (Inr (reservation, fresh), l')))"

definition BeginExecutionPhase ::
  "ledger \<Rightarrow> execution_key \<Rightarrow> exec_phase \<Rightarrow> (exec_error + unit) \<times> ledger" where
  "BeginExecutionPhase l key phase =
     (if phase \<noteq> Setup \<and> phase \<noteq> Main then (Inl ErrInvalidSpec, l)
      else update_row l key
        (\<lambda>r. \<not> er_revoked r \<and> \<not> er_creation_settled r
           \<and> (er_phase r = Reserved \<or> phase = Main \<and> er_phase r = Setup \<and> er_setup_settled r))
        (\<lambda>r. r\<lparr>er_phase := phase\<rparr>))"

definition BindSetupResource :: "ledger \<Rightarrow> execution_key \<Rightarrow> string \<Rightarrow> (exec_error + unit) \<times> ledger" where
  "BindSetupResource l key resource =
     (if resource = '''' then (Inl ErrConflict, l)
      else update_row l key
        (\<lambda>r. er_phase r = Setup \<and> \<not> er_setup_settled r
           \<and> (er_setup_resource r = None \<or> er_setup_resource r = Some resource))
        (\<lambda>r. r\<lparr>er_setup_resource := Some resource\<rparr>))"

definition RecordSetupStopped :: "ledger \<Rightarrow> execution_key \<Rightarrow> string \<Rightarrow> (exec_error + unit) \<times> ledger" where
  "RecordSetupStopped l key resource =
     (if resource = '''' then (Inl ErrConflict, l)
      else update_row l key (\<lambda>r. er_setup_resource r = Some resource) (\<lambda>r. r\<lparr>er_setup_settled := True\<rparr>))"

definition BindExecution :: "ledger \<Rightarrow> execution_key \<Rightarrow> string \<Rightarrow> (exec_error + unit) \<times> ledger" where
  "BindExecution l key resource =
     (if resource = '''' then (Inl ErrConflict, l)
      else update_row l key
        (\<lambda>r. er_phase r = Main \<and> (er_resource r = None \<and> \<not> er_creation_settled r \<or> er_resource r = Some resource))
        (\<lambda>r. r\<lparr>er_resource := Some resource, er_creation_settled := True\<rparr>))"

definition RecordNoExecution :: "ledger \<Rightarrow> execution_key \<Rightarrow> (exec_error + unit) \<times> ledger" where
  "RecordNoExecution l key =
     update_row l key
       (\<lambda>r. er_resource r = None \<and> (er_setup_resource r = None \<or> er_setup_settled r))
       (\<lambda>r. r\<lparr>er_creation_settled := True\<rparr>)"

text \<open>Revocation inserts a tombstone even when nothing was reserved.\<close>

definition tombstone :: "execution_key \<Rightarrow> reservation_row" where
  "tombstone key =
     \<lparr>er_identity = key, er_specification = None, er_phase = Reserved, er_setup_resource = None,
      er_setup_settled = False, er_resource = None, er_creation_settled = True, er_revoked = True,
      er_preparation_only = False\<rparr>"

definition revoke_row :: "reservation_row \<Rightarrow> reservation_row" where
  "revoke_row r = r\<lparr>er_revoked := True, er_creation_settled := er_creation_settled r \<or> er_phase r = Reserved\<rparr>"

definition RevokeExecution ::
  "ledger \<Rightarrow> execution_key \<Rightarrow> (exec_error + reservation \<times> bool) \<times> ledger" where
  "RevokeExecution l key =
     (case insert_row l key (tombstone key) of
        None \<Rightarrow> (Inl ExecDatabase, l)
      | Some (_, l') \<Rightarrow>
          (case l' (primary_key key) of
             None \<Rightarrow> (Inl ExecDatabase, l)
           | Some r \<Rightarrow>
               let recorded = er_identity r; reservation = scanExecutionReservation r in
               if ek_AssignmentID recorded \<noteq> ek_AssignmentID key \<or> ek_AgentSessionID recorded \<noteq> ek_AgentSessionID key
                  \<or> (ek_RuntimeProfileName key \<noteq> '''' \<and> ek_RuntimeProfileName recorded \<noteq> ''''
                     \<and> (ek_RuntimeProfileName recorded \<noteq> ek_RuntimeProfileName key
                        \<or> ek_RuntimeProfileVersion recorded \<noteq> ek_RuntimeProfileVersion key))
               then (Inl ErrConflict, l)
               else if \<not> row_checks key (revoke_row r) then (Inl ExecDatabase, l)
               else (Inr (reservation\<lparr>rs_Revoked := True,
                            rs_CreationSettled := rs_CreationSettled reservation \<or> rs_Phase reservation = Reserved\<rparr>, True),
                     l'(primary_key key \<mapsto> revoke_row r))))"


section \<open>Admission under the fence of a Turn\<close>

text \<open>\<open>admittedExecutionLedger.admit\<close>: reserving and dispatching run only for the exact execution whose
  lease is held; \<open>fence\<close> is the answer of the lease check, the status of the locked Turn.\<close>

record turn_lease =
  tl_ID :: string
  tl_ParticipantID :: string
  tl_SessionID :: string
  tl_Epoch :: int64

definition lease_of_key :: "turn_lease \<Rightarrow> execution_key \<Rightarrow> bool" where
  "lease_of_key lease key \<longleftrightarrow>
     ek_AgentTurnID key = tl_ID lease \<and> ek_AssignmentID key = tl_ParticipantID lease
     \<and> ek_AgentSessionID key = tl_SessionID lease \<and> ek_ExecutionEpoch key = tl_Epoch lease"

definition admit ::
  "turn_lease \<Rightarrow> execution_key \<Rightarrow> exec_error + string \<Rightarrow> ledger \<Rightarrow> (ledger \<Rightarrow> (exec_error + 'a) \<times> ledger)
    \<Rightarrow> (exec_error + 'a) \<times> ledger" where
  "admit lease key fence l operation =
     (if \<not> lease_of_key lease key then (Inl ErrAgentTurnFenceLost, l)
      else case fence of
        Inl e \<Rightarrow> (Inl e, l)
      | Inr status \<Rightarrow> if status \<noteq> ''RUNNING'' then (Inl ErrAgentTurnFenceLost, l) else operation l)"

definition AdmittedReserveExecution ::
  "turn_lease \<Rightarrow> exec_error + string \<Rightarrow> ledger \<Rightarrow> execution_key \<Rightarrow> string
    \<Rightarrow> (exec_error + reservation \<times> bool) \<times> ledger" where
  "AdmittedReserveExecution lease fence l key digest =
     admit lease key fence l (\<lambda>l. ReserveExecution l key digest)"

definition AdmittedBeginExecutionPhase ::
  "turn_lease \<Rightarrow> exec_error + string \<Rightarrow> ledger \<Rightarrow> execution_key \<Rightarrow> exec_phase \<Rightarrow> (exec_error + unit) \<times> ledger" where
  "AdmittedBeginExecutionPhase lease fence l key phase =
     admit lease key fence l (\<lambda>l. BeginExecutionPhase l key phase)"

text \<open>\<open>WithSnapshotInstallationFence\<close>: \<open>before\<close> and \<open>later\<close> are the two checks of the lease, \<open>operation\<close>
  the error of the callback between them.\<close>

definition running_turn :: "exec_error + string \<Rightarrow> exec_error option" where
  "running_turn fence =
     (case fence of Inl e \<Rightarrow> Some e | Inr status \<Rightarrow> if status \<noteq> ''RUNNING'' then Some ErrAgentTurnFenceLost else None)"

definition WithSnapshotInstallationFence ::
  "ledger \<Rightarrow> turn_lease \<Rightarrow> execution_key \<Rightarrow> exec_error + string \<Rightarrow> exec_error option \<Rightarrow> exec_error + string
    \<Rightarrow> exec_error option" where
  "WithSnapshotInstallationFence l lease key before operation later =
     (if \<not> lease_of_key lease key then Some ErrAgentTurnFenceLost
      else case map_option scanExecutionReservation (l (primary_key key)) of
        None \<Rightarrow> Some ErrAgentTurnFenceLost
      | Some reservation \<Rightarrow>
          if rs_Key reservation \<noteq> key \<or> rs_Revoked reservation \<or> \<not> rs_CreationSettled reservation
             \<or> rs_Phase reservation \<noteq> Main \<or> rs_Resource reservation = ''''
          then Some ErrAgentTurnFenceLost
          else case running_turn before of
            Some e \<Rightarrow> Some e
          | None \<Rightarrow> (case operation of Some e \<Rightarrow> Some e | None \<Rightarrow> running_turn later))"

section \<open>Cleaning up a stopped execution\<close>

text \<open>The key of a recovery job: \<open>profile\<close> is the participant's runtime profile. \<open>locked\<close> is the error
  of the recovery fence, \<open>eligible\<close> and \<open>activity\<close> what the queries say of the Turn.\<close>

definition turn_key :: "turn_lease \<Rightarrow> string \<times> string \<Rightarrow> execution_key" where
  "turn_key turn profile =
     \<lparr>ek_AssignmentID = tl_ParticipantID turn, ek_AgentSessionID = tl_SessionID turn, ek_AgentTurnID = tl_ID turn,
      ek_ExecutionEpoch = tl_Epoch turn, ek_RuntimeProfileName = fst profile, ek_RuntimeProfileVersion = snd profile\<rparr>"

definition RecordRecoveredRuntimeNeverStarted ::
  "ledger \<Rightarrow> turn_lease \<Rightarrow> exec_error option \<Rightarrow> bool \<Rightarrow> bool option \<Rightarrow> (string \<times> string) option \<Rightarrow> string
    \<Rightarrow> (exec_error + unit) \<times> ledger" where
  "RecordRecoveredRuntimeNeverStarted l turn locked mutation_admission_open eligible profile resource =
     (if resource = '''' \<or> length resource > 128 \<or> \<not> trim_space_fixed resource then (Inl ErrConflict, l)
      else case locked of
        Some e \<Rightarrow> (Inl e, l)
      | None \<Rightarrow>
          if mutation_admission_open then (Inl ErrConflict, l)
          else case eligible of
            None \<Rightarrow> (Inl ExecDatabase, l)
          | Some False \<Rightarrow> (Inl ErrConflict, l)
          | Some True \<Rightarrow>
              (case profile of
                 None \<Rightarrow> (Inl ExecDatabase, l)
               | Some p \<Rightarrow>
                   update_row l (turn_key turn p)
                     (\<lambda>r. er_phase r = Main \<and> er_revoked r \<and> er_resource r = Some resource \<and> er_creation_settled r)
                     (\<lambda>r. r\<lparr>er_preparation_only := True\<rparr>)))"

definition RecordAgentTurnUnpromptedCleanup ::
  "ledger \<Rightarrow> turn_lease \<Rightarrow> exec_error + string \<times> bool \<Rightarrow> bool option \<Rightarrow> (string \<times> string) option
    \<Rightarrow> (exec_error + unit) \<times> ledger" where
  "RecordAgentTurnUnpromptedCleanup l turn fence eligible profile =
     (case fence of
        Inl e \<Rightarrow> (Inl e, l)
      | Inr (status, mutation_admission_open) \<Rightarrow>
          if status \<noteq> ''RUNNING'' \<and> status \<noteq> ''SETTLING'' \<and> status \<noteq> ''RECONCILING'' \<or> mutation_admission_open
          then (Inl ErrAgentTurnFenceLost, l)
          else case eligible of
            None \<Rightarrow> (Inl ExecDatabase, l)
          | Some False \<Rightarrow> (Inl ErrUnpromptedConflict, l)
          | Some True \<Rightarrow>
              (case profile of
                 None \<Rightarrow> (Inl ExecDatabase, l)
               | Some p \<Rightarrow>
                   update_row l (turn_key turn p)
                     (\<lambda>r. er_phase r = Main \<and> er_resource r \<noteq> None \<and> er_creation_settled r)
                     (\<lambda>r. r\<lparr>er_preparation_only := True\<rparr>)))"

text \<open>\<open>AgentTurnTerminalCaptureRequired\<close> revokes the execution and says whether its end must be
  captured before it is recovered.\<close>

definition capture_needed :: "bool \<Rightarrow> bool \<Rightarrow> reservation \<Rightarrow> bool" where
  "capture_needed activity preparation_only reservation \<longleftrightarrow>
     (let noMainDispatch = rs_Phase reservation = Reserved \<or> rs_Phase reservation = Setup;
          noCreationEffects = rs_Phase reservation = Main \<and> rs_CreationSettled reservation
                              \<and> rs_Resource reservation = ''''
      in activity \<or> \<not> preparation_only
           \<and> (\<not> (noMainDispatch \<or> noCreationEffects) \<or> rs_Resource reservation \<noteq> ''''))"

definition AgentTurnTerminalCaptureRequired ::
  "ledger \<Rightarrow> turn_lease \<Rightarrow> exec_error option \<Rightarrow> (string \<times> string) option \<Rightarrow> bool option
    \<Rightarrow> (exec_error + bool) \<times> ledger" where
  "AgentTurnTerminalCaptureRequired l turn locked profile activity =
     (case (locked, profile) of
        (Some e, _) \<Rightarrow> (Inl e, l)
      | (None, None) \<Rightarrow> (Inl ExecDatabase, l)
      | (None, Some p) \<Rightarrow>
          let key = turn_key turn p in
          (case insert_row l key (tombstone key) of
             None \<Rightarrow> (Inl ExecDatabase, l)
           | Some (_, l') \<Rightarrow>
               (case l' (primary_key key) of
                  None \<Rightarrow> (Inl ExecDatabase, l)
                | Some r \<Rightarrow>
                    let recorded = er_identity r in
                    if ek_AssignmentID recorded \<noteq> ek_AssignmentID key \<or> ek_AgentSessionID recorded \<noteq> ek_AgentSessionID key
                       \<or> ek_AgentTurnID recorded \<noteq> ek_AgentTurnID key \<or> ek_ExecutionEpoch recorded \<noteq> ek_ExecutionEpoch key
                       \<or> (ek_RuntimeProfileName recorded \<noteq> ''''
                          \<and> (ek_RuntimeProfileName recorded \<noteq> ek_RuntimeProfileName key
                             \<or> ek_RuntimeProfileVersion recorded \<noteq> ek_RuntimeProfileVersion key))
                    then (Inl ErrConflict, l)
                    else if \<not> row_checks key (revoke_row r) then (Inl ExecDatabase, l)
                    else case activity of
                      None \<Rightarrow> (Inl ExecDatabase, l)
                    | Some act \<Rightarrow>
                        (Inr (capture_needed act (er_preparation_only r) (scanExecutionReservation r)),
                         l'(primary_key key \<mapsto> revoke_row r)))))"

end
