(* ===== verification/Execution_Safety.thy ===== *)
theory Execution_Safety
  imports Execution_Ledger
begin

text \<open>
  What the execution ledger guarantees over any interleaving of its operations: rows only grow, a
  phase is dispatched at most once and never after revocation, and an execution that is exempted from
  capture has no process that could still appear.
\<close>

section \<open>The operations as one step function\<close>

datatype ledger_op =
    Reserve execution_key string | Begin execution_key exec_phase
  | Bind_Setup execution_key string | Setup_Stopped execution_key string
  | Bind execution_key string | No_Execution execution_key | Revoke execution_key
  | Never_Started turn_lease "exec_error option" bool "bool option" "(string \<times> string) option" string
  | Unprompted turn_lease "exec_error + string \<times> bool" "bool option" "(string \<times> string) option"
  | Capture turn_lease "exec_error option" "(string \<times> string) option" "bool option"

definition is_done :: "(exec_error + 'a) \<times> ledger \<Rightarrow> bool \<times> ledger" where
  "is_done result = (case result of (Inl _, l) \<Rightarrow> (False, l) | (Inr _, l) \<Rightarrow> (True, l))"

fun ledger_step :: "ledger_op \<Rightarrow> ledger \<Rightarrow> bool \<times> ledger" where
  "ledger_step (Reserve key digest) l = is_done (ReserveExecution l key digest)"
| "ledger_step (Begin key phase) l = is_done (BeginExecutionPhase l key phase)"
| "ledger_step (Bind_Setup key resource) l = is_done (BindSetupResource l key resource)"
| "ledger_step (Setup_Stopped key resource) l = is_done (RecordSetupStopped l key resource)"
| "ledger_step (Bind key resource) l = is_done (BindExecution l key resource)"
| "ledger_step (No_Execution key) l = is_done (RecordNoExecution l key)"
| "ledger_step (Revoke key) l = is_done (RevokeExecution l key)"
| "ledger_step (Never_Started turn locked adm eligible profile resource) l =
     is_done (RecordRecoveredRuntimeNeverStarted l turn locked adm eligible profile resource)"
| "ledger_step (Unprompted turn fence eligible profile) l =
     is_done (RecordAgentTurnUnpromptedCleanup l turn fence eligible profile)"
| "ledger_step (Capture turn locked profile activity) l =
     is_done (AgentTurnTerminalCaptureRequired l turn locked profile activity)"

text \<open>What every operation does to the table: nothing, one new row, or one changed row.\<close>

definition phase_le :: "exec_phase \<Rightarrow> exec_phase \<Rightarrow> bool" where
  "phase_le p q \<longleftrightarrow> p = q \<or> p = Reserved \<and> (q = Setup \<or> q = Main) \<or> p = Setup \<and> q = Main"

lemma phase_le_refl [simp]: "phase_le p p"
  by (simp add: phase_le_def)

lemma phase_le_trans: "phase_le p q \<Longrightarrow> phase_le q r \<Longrightarrow> phase_le p r"
  by (cases q) (auto simp: phase_le_def)

lemma phase_le_Main [simp]: "phase_le Main q \<longleftrightarrow> q = Main"
  by (auto simp: phase_le_def)

definition row_grows :: "reservation_row \<Rightarrow> reservation_row \<Rightarrow> bool" where
  "row_grows r t \<longleftrightarrow>
     er_identity t = er_identity r \<and> er_specification t = er_specification r \<and> phase_le (er_phase r) (er_phase t)
     \<and> (er_revoked r \<longrightarrow> er_revoked t \<and> er_phase t = er_phase r)
     \<and> (er_creation_settled r \<longrightarrow> er_creation_settled t \<and> er_phase t = er_phase r \<and> er_resource t = er_resource r)
     \<and> (er_setup_settled r \<longrightarrow> er_setup_settled t) \<and> (er_preparation_only r \<longrightarrow> er_preparation_only t)
     \<and> (er_resource t = er_resource r \<or> er_resource r = None \<and> er_phase t = Main \<and> er_resource t \<noteq> Some '''')
     \<and> (er_setup_resource t = er_setup_resource r \<or> er_setup_resource r = None)"

lemma row_grows_refl [simp]: "row_grows r r"
  by (simp add: row_grows_def)

lemma row_grows_trans:
  assumes "row_grows r t" "row_grows t u"
  shows "row_grows r u"
  using assms phase_le_trans [of "er_phase r" "er_phase t" "er_phase u"]
  unfolding row_grows_def by (metis phase_le_Main)
definition ledger_grows :: "ledger \<Rightarrow> ledger \<Rightarrow> bool" where
  "ledger_grows l t \<longleftrightarrow> (\<forall>k r. l k = Some r \<longrightarrow> (\<exists>r'. t k = Some r' \<and> row_grows r r'))"

lemma ledger_grows_refl [simp]: "ledger_grows l l"
  by (simp add: ledger_grows_def)

lemma ledger_grows_trans: "ledger_grows l t \<Longrightarrow> ledger_grows t u \<Longrightarrow> ledger_grows l u"
  unfolding ledger_grows_def by (metis row_grows_trans)

lemma ledger_growsD:
  assumes "ledger_grows l t" "l k = Some r"
  obtains r' where "t k = Some r'" "row_grows r r'"
  using assms unfolding ledger_grows_def by blast

lemma ledger_grows_update:
  assumes "l k = None \<or> (\<exists>r. l k = Some r \<and> row_grows r r')"
  shows "ledger_grows l (l(k \<mapsto> r'))"
  using assms by (auto simp: ledger_grows_def)

lemma update_row_cases:
  assumes "update_row l key cond upd = (result, t)"
  obtains (failed) e where "result = Inl e" "t = l"
  | (updated) r where "result = Inr ()" "l (primary_key key) = Some r" "er_identity r = key" "cond r"
      "row_checks key (upd r)" "t = l(primary_key key \<mapsto> upd r)"
  using assms by (auto simp: update_row_def split: option.split_asm if_split_asm)

lemma update_row_grows:
  assumes "\<And>r. cond r \<Longrightarrow> row_grows r (upd r)"
  shows "ledger_grows l (snd (update_row l key cond upd))"
  using assms by (cases "update_row l key cond upd") (auto elim!: update_row_cases intro: ledger_grows_update)

lemma insert_row_cases:
  assumes "insert_row l key new = Some (fresh, t)"
  obtains (old) r where "\<not> fresh" "t = l" "l (primary_key key) = Some r"
  | (new) "fresh" "l (primary_key key) = None" "t = l(primary_key key \<mapsto> new)" "row_checks key new"
  using assms by (auto simp: insert_row_def split: if_split_asm)

lemma insert_row_grows: "insert_row l key new = Some (fresh, t) \<Longrightarrow> ledger_grows l t"
  by (auto elim!: insert_row_cases intro: ledger_grows_update)

lemma row_grows_revoke [simp]: "row_grows r (revoke_row r)"
  by (cases "er_phase r") (auto simp: row_grows_def revoke_row_def)

lemma is_done_snd [simp]: "snd (is_done result) = snd result"
  by (auto simp: is_done_def split: prod.split sum.split)

lemma is_done_fst: "fst (is_done result) \<longleftrightarrow> (\<exists>x. fst result = Inr x)"
  by (auto simp: is_done_def split: prod.split sum.split)


lemma scan_sel [simp]:
  "rs_Key (scanExecutionReservation r) = er_identity r" "rs_Revoked (scanExecutionReservation r) = er_revoked r"
  "rs_Digest (scanExecutionReservation r) = coalesce (er_specification r)"
  "rs_Resource (scanExecutionReservation r) = coalesce (er_resource r)"
  "rs_Phase (scanExecutionReservation r) = er_phase r"
  "rs_CreationSettled (scanExecutionReservation r) = er_creation_settled r"
  by (simp_all add: scanExecutionReservation_def)

lemma new_row_sel [simp]:
  "er_identity (new_row key digest) = key" "\<not> er_revoked (new_row key digest)"
  "er_specification (new_row key digest) = Some digest" "er_phase (new_row key digest) = Reserved"
  "er_resource (new_row key digest) = None" "\<not> er_creation_settled (new_row key digest)"
  by (simp_all add: new_row_def)

lemma tombstone_sel [simp]:
  "er_identity (tombstone key) = key" "er_revoked (tombstone key)" "er_phase (tombstone key) = Reserved"
  "er_resource (tombstone key) = None" "er_creation_settled (tombstone key)" "\<not> er_preparation_only (tombstone key)"
  by (simp_all add: tombstone_def)

lemma coalesce_Some [simp]: "coalesce (Some x) = x"
  by (simp add: coalesce_def)

lemma primary_key_turn [simp]: "primary_key (turn_key turn p) = (tl_ID turn, tl_Epoch turn)"
  by (simp add: primary_key_def turn_key_def)

lemma Reserve_cases:
  assumes "ReserveExecution l key digest = (result, t)"
  obtains (failed) e where "result = Inl e" "t = l"
  | (held) r where "result = Inr (scanExecutionReservation r, False)" "l (primary_key key) = Some r" "t = l"
      "\<not> er_revoked r" "er_identity r = key" "coalesce (er_specification r) = digest"
  | (fresh) "result = Inr (scanExecutionReservation (new_row key digest), True)" "l (primary_key key) = None"
      "t = l(primary_key key \<mapsto> new_row key digest)" "row_checks key (new_row key digest)"
proof (cases "row_checks key (new_row key digest)")
  case False
  with assms failed show thesis by (auto simp: ReserveExecution_def insert_row_def)
next
  case checked: True
  show thesis
  proof (cases "l (primary_key key)")
    case None
    with assms checked fresh show thesis by (simp add: ReserveExecution_def insert_row_def)
  next
    case (Some r)
    show thesis
    proof (cases "er_revoked r \<or> er_identity r \<noteq> key \<or> coalesce (er_specification r) \<noteq> digest")
      case True
      with assms checked Some failed show thesis by (auto simp: ReserveExecution_def insert_row_def)
    next
      case False
      with assms checked Some held [of r] show thesis by (simp add: ReserveExecution_def insert_row_def)
    qed
  qed
qed

text \<open>Revoking the row of a key, or burying the key where there is none: the common part of
  \<open>RevokeExecution\<close> and the capture check.\<close>

definition buried_or :: "ledger \<Rightarrow> execution_key \<Rightarrow> reservation_row" where
  "buried_or l key = (case l (primary_key key) of None \<Rightarrow> tombstone key | Some r \<Rightarrow> r)"

lemma revoke_updates [simp]: "(l(k \<mapsto> x))(k \<mapsto> y) = l(k \<mapsto> y)"
  by (rule fun_upd_upd)

lemma Revoke_cases:
  assumes "RevokeExecution l key = (result, t)"
  obtains (failed) e where "result = Inl e" "t = l"
  | (revoked) x where "result = Inr x" "t = l(primary_key key \<mapsto> revoke_row (buried_or l key))"
      "row_checks key (revoke_row (buried_or l key))" "row_checks key (tombstone key)"
proof (cases "row_checks key (tombstone key)")
  case False
  with assms failed show thesis by (auto simp: RevokeExecution_def insert_row_def)
next
  case True
  with assms failed revoked show thesis
    by (cases "l (primary_key key)") (auto simp: RevokeExecution_def insert_row_def buried_or_def Let_def split: if_split_asm)
qed

lemma Capture_cases:
  assumes "AgentTurnTerminalCaptureRequired l turn locked profile activity = (result, t)"
  obtains (failed) e where "result = Inl e" "t = l"
  | (revoked) act p r where "r = buried_or l (turn_key turn p)"
      "result = Inr (capture_needed act (er_preparation_only r) (scanExecutionReservation r))"
      "activity = Some act" "t = l((tl_ID turn, tl_Epoch turn) \<mapsto> revoke_row r)"
      "row_checks (turn_key turn p) (revoke_row r)" "primary_key (er_identity r) = (tl_ID turn, tl_Epoch turn)"
proof (cases "locked = None \<and> profile \<noteq> None \<and> row_checks (turn_key turn (the profile)) (tombstone (turn_key turn (the profile)))")
  case False
  with assms failed show thesis
    by (auto simp: AgentTurnTerminalCaptureRequired_def insert_row_def Let_def split: option.split_asm)
next
  case True
  then obtain p where p: "profile = Some p" by blast
  note checked = True [unfolded p, simplified]
  show thesis
  proof (cases "l (tl_ID turn, tl_Epoch turn)")
    case None
    with assms checked p failed revoked [of "tombstone (turn_key turn p)" p] show thesis
      by (cases activity) (auto simp: AgentTurnTerminalCaptureRequired_def insert_row_def buried_or_def Let_def
          split: if_split_asm)
  next
    case (Some r)
    show thesis
    proof (cases "primary_key (er_identity r) = (tl_ID turn, tl_Epoch turn)")
      case True
      with assms checked p Some failed revoked [of r p] show thesis
        by (cases activity) (auto simp: AgentTurnTerminalCaptureRequired_def insert_row_def buried_or_def Let_def
            split: if_split_asm)
    next
      case False
      with assms checked p Some failed show thesis
        by (auto simp: AgentTurnTerminalCaptureRequired_def insert_row_def primary_key_def turn_key_def Let_def
            split: if_split_asm)
    qed
  qed
qed

lemma revoke_grows: "ledger_grows l (l(primary_key key \<mapsto> revoke_row (buried_or l key)))"
  by (rule ledger_grows_update) (simp add: buried_or_def split: option.split)
lemmas ledger_updates = BeginExecutionPhase_def BindSetupResource_def RecordSetupStopped_def BindExecution_def
  RecordNoExecution_def RecordRecoveredRuntimeNeverStarted_def RecordAgentTurnUnpromptedCleanup_def

lemma update_row_grows':
  "(\<And>r. cond r \<Longrightarrow> row_grows r (upd r)) \<Longrightarrow> update_row l key cond upd = (result, t) \<Longrightarrow> ledger_grows l t"
  using update_row_grows [of cond upd l key] by simp

lemma ledger_step_grows: "ledger_grows l (snd (ledger_step x l))"
proof (cases x)
  case (Reserve key digest)
  show ?thesis unfolding Reserve ledger_step.simps is_done_snd
    by (cases "ReserveExecution l key digest") (auto elim!: Reserve_cases intro: ledger_grows_update)
next
  case (Revoke key)
  show ?thesis unfolding Revoke ledger_step.simps is_done_snd
    by (cases "RevokeExecution l key") (auto elim!: Revoke_cases simp: revoke_grows)
next
  case (Capture turn locked profile activity)
  show ?thesis unfolding Capture ledger_step.simps is_done_snd
    by (cases "AgentTurnTerminalCaptureRequired l turn locked profile activity")
      (auto elim!: Capture_cases simp: revoke_grows [of l "turn_key turn _", simplified])
next
  case (Begin key phase)
  show ?thesis unfolding Begin by (auto simp: ledger_updates row_grows_def phase_le_def intro!: update_row_grows)
next
  case (Bind_Setup key resource)
  show ?thesis unfolding Bind_Setup by (auto simp: ledger_updates row_grows_def intro!: update_row_grows)
next
  case (Setup_Stopped key resource)
  show ?thesis unfolding Setup_Stopped by (auto simp: ledger_updates row_grows_def intro!: update_row_grows)
next
  case (Bind key resource)
  show ?thesis unfolding Bind by (auto simp: ledger_updates row_grows_def intro!: update_row_grows)
next
  case (No_Execution key)
  show ?thesis unfolding No_Execution by (auto simp: ledger_updates row_grows_def intro!: update_row_grows)
next
  case (Never_Started turn locked adm eligible profile resource)
  show ?thesis unfolding Never_Started
    by (auto simp: ledger_updates row_grows_def intro!: update_row_grows split: option.split bool.split)
next
  case (Unprompted turn fence eligible profile)
  show ?thesis unfolding Unprompted
    by (auto simp: ledger_updates row_grows_def intro!: update_row_grows split: option.split bool.split sum.split)
qed

lemma ledger_after_grows: "ledger_grows l (after ledger_step xs l)"
proof (induction xs arbitrary: l)
  case (Cons x xs)
  show ?case using ledger_grows_trans [OF ledger_step_grows Cons] by simp
qed simp


section \<open>Gates\<close>

text \<open>Nothing is dispatched for a revoked execution, nor reserved again; and each phase is dispatched
  from a gate that the dispatch itself shuts.\<close>

definition revoked_at :: "string \<times> int64 \<Rightarrow> ledger \<Rightarrow> bool" where
  "revoked_at k l \<longleftrightarrow> (case l k of None \<Rightarrow> False | Some r \<Rightarrow> er_revoked r)"

definition past :: "exec_phase \<Rightarrow> string \<times> int64 \<Rightarrow> ledger \<Rightarrow> bool" where
  "past phase k l \<longleftrightarrow> (case l k of None \<Rightarrow> False | Some r \<Rightarrow> phase_le phase (er_phase r))"

fun begins :: "string \<times> int64 \<Rightarrow> exec_phase \<Rightarrow> ledger_op \<Rightarrow> bool" where
  "begins k phase (Begin key p) = (primary_key key = k \<and> p = phase)"
| "begins k phase _ = False"

fun dispatches :: "string \<times> int64 \<Rightarrow> ledger_op \<Rightarrow> bool" where
  "dispatches k (Begin key p) = (primary_key key = k)"
| "dispatches k (Reserve key digest) = (primary_key key = k)"
| "dispatches k _ = False"

lemma revoked_at_step: "revoked_at k l \<Longrightarrow> revoked_at k (snd (ledger_step x l))"
  using ledger_step_grows [of l x]
  by (auto simp: revoked_at_def row_grows_def elim: ledger_growsD split: option.split_asm)

lemma past_step: "past phase k l \<Longrightarrow> past phase k (snd (ledger_step x l))"
  using ledger_step_grows [of l x]
  by (auto simp: past_def row_grows_def elim!: ledger_growsD split: option.split_asm intro: phase_le_trans)

lemma Begin_done:
  assumes "fst (is_done (BeginExecutionPhase l key phase))"
  obtains r where "l (primary_key key) = Some r" "er_identity r = key" "\<not> er_revoked r" "\<not> er_creation_settled r"
    "phase = Setup \<and> er_phase r = Reserved
     \<or> phase = Main \<and> (er_phase r = Reserved \<or> er_phase r = Setup \<and> er_setup_settled r)"
    "snd (BeginExecutionPhase l key phase) = l(primary_key key \<mapsto> r\<lparr>er_phase := phase\<rparr>)"
proof -
  from assms obtain u where "fst (BeginExecutionPhase l key phase) = Inr u" by (auto simp: is_done_fst)
  then obtain t where t: "BeginExecutionPhase l key phase = (Inr u, t)" by (metis prod.collapse)
  then have "phase = Setup \<or> phase = Main" by (auto simp: BeginExecutionPhase_def split: if_split_asm)
  with t that show thesis
    by (auto simp: BeginExecutionPhase_def elim!: update_row_cases split: if_split_asm)
qed

lemma Reserve_done:
  assumes "fst (is_done (ReserveExecution l key digest))" "l (primary_key key) = Some r"
  shows "\<not> er_revoked r"
  using assms by (cases "ReserveExecution l key digest") (auto simp: is_done_fst elim!: Reserve_cases)

interpretation revocation: barrier ledger_step "\<lambda>_. True" "revoked_at k" "dispatches k" for k
proof unfold_locales
  show "\<not> revoked_at k l" if "dispatches k x" "fst (ledger_step x l)" for x l
    using that by (cases x) (auto simp: revoked_at_def elim: Begin_done dest: Reserve_done split: option.split)
qed (simp_all add: revoked_at_step)

interpretation setup_once: one_shot ledger_step "\<lambda>_. True" "past Setup k" "begins k Setup" for k
proof unfold_locales
  show "\<not> past Setup k l" if "begins k Setup x" "fst (ledger_step x l)" for x l
    using that by (cases x) (auto simp: past_def phase_le_def elim: Begin_done)
  show "past Setup k (snd (ledger_step x l))" if "begins k Setup x" "fst (ledger_step x l)" for x l
    using that by (cases x) (auto simp: past_def elim: Begin_done)
qed (simp_all add: past_step)

interpretation main_once: one_shot ledger_step "\<lambda>_. True" "past Main k" "begins k Main" for k
proof unfold_locales
  show "\<not> past Main k l" if "begins k Main x" "fst (ledger_step x l)" for x l
    using that by (cases x) (auto simp: past_def elim: Begin_done)
  show "past Main k (snd (ledger_step x l))" if "begins k Main x" "fst (ledger_step x l)" for x l
    using that by (cases x) (auto simp: past_def elim: Begin_done)
qed (simp_all add: past_step)

section \<open>Properties\<close>

fun begun :: "string \<times> int64 \<Rightarrow> ledger_op \<Rightarrow> exec_phase list" where
  "begun k (Begin key p) = (if primary_key key = k then [p] else [])"
| "begun k _ = []"

lemma Begin_phase: "fst (ledger_step (Begin key p) l) \<Longrightarrow> p = Setup \<or> p = Main"
  by (auto elim: Begin_done)

lemma begun_past_Main: "past Main k l \<Longrightarrow> concat (map (begun k) (performed ledger_step xs l)) = []"
proof (induction xs arbitrary: l)
  case (Cons x xs)
  have "begun k x = []" if "fst (ledger_step x l)"
    using that Cons.prems by (cases x) (auto simp: past_def elim: Begin_done)
  with Cons past_step [OF Cons.prems] show ?case by auto
qed simp

lemma begun_past_Setup:
  "past Setup k l \<Longrightarrow> concat (map (begun k) (performed ledger_step xs l)) \<in> {[], [Main]}"
proof (induction xs arbitrary: l)
  case (Cons x xs)
  note rest = Cons.IH [OF past_step [OF Cons.prems]]
  show ?case
  proof (cases "fst (ledger_step x l) \<and> begun k x \<noteq> []")
    case True
    then obtain key p where x: "x = Begin key p" "primary_key key = k" by (cases x) (auto split: if_split_asm)
    with True Begin_phase have "p = Setup \<or> p = Main" by blast
    moreover have "p \<noteq> Setup" using setup_once.shoots_open [of k x l] x True Cons.prems by auto
    ultimately have "p = Main" by simp
    moreover then have "past Main k (snd (ledger_step x l))" using main_once.shoots_shuts [of k x l] x True by auto
    ultimately show ?thesis using True x begun_past_Main by auto
  qed (use rest in auto)
qed simp

text \<open>C23 (each phase is dispatched once). Whatever happens to the ledger, for one Turn and execution
  epoch the successful dispatches are at most one set-up, at most one main process, and in this order.\<close>

theorem phases_dispatched_once:
  "concat (map (begun k) (performed ledger_step xs l)) \<in> {[], [Setup], [Main], [Setup, Main]}"
proof (induction xs arbitrary: l)
  case (Cons x xs)
  show ?case
  proof (cases "fst (ledger_step x l) \<and> begun k x \<noteq> []")
    case True
    then obtain key p where x: "x = Begin key p" "primary_key key = k" by (cases x) (auto split: if_split_asm)
    with True Begin_phase have "p = Setup \<or> p = Main" by blast
    then show ?thesis
    proof
      assume p: "p = Setup"
      then have "past Setup k (snd (ledger_step x l))" using setup_once.shoots_shuts [of k x l] x True by auto
      from begun_past_Setup [OF this, of xs] show ?thesis using True x p by auto
    next
      assume p: "p = Main"
      then have "past Main k (snd (ledger_step x l))" using main_once.shoots_shuts [of k x l] x True by auto
      from begun_past_Main [OF this, of xs] show ?thesis using True x p by auto
    qed
  qed (use Cons in auto)
qed simp

lemma revoked_by: "RevokeExecution l key = (Inr x, t) \<Longrightarrow> revoked_at (primary_key key) t"
  by (auto simp: revoked_at_def revoke_row_def elim!: Revoke_cases)

text \<open>C24 (revocation is final). Once an execution is revoked, whether or not it was reserved before,
  then however the ledger goes on nothing is reserved or dispatched for its Turn and epoch, under no
  key and no lease; and a reservation that had not been dispatched is settled.\<close>

theorem revocation_final:
  assumes "RevokeExecution l key = (Inr (reservation, found), t)" "primary_key other = primary_key key"
  shows "filter (dispatches (primary_key key)) (performed ledger_step xs t) = []
    \<and> (\<exists>e. fst (ReserveExecution (after ledger_step xs t) other digest) = Inl e)
    \<and> (\<exists>e. fst (AdmittedBeginExecutionPhase lease fence (after ledger_step xs t) other phase) = Inl e)
    \<and> (rs_Phase reservation = Reserved \<longrightarrow> rs_CreationSettled reservation)"
proof -
  let ?k = "primary_key key" and ?u = "after ledger_step xs t"
  have shut: "revoked_at ?k t" by (rule revoked_by [OF assms(1)])
  have "revoked_at ?k ?u" by (rule revocation.shut_after [OF shut TrueI])
  then have no: "\<not> fst (ledger_step x ?u)" if "dispatches ?k x" for x
    using revocation.shoots_open that by blast
  have "\<exists>e. fst (ReserveExecution ?u other digest) = Inl e"
    using no [of "Reserve other digest"] assms(2) by (cases "fst (ReserveExecution ?u other digest)") (auto simp: is_done_fst)
  moreover have "\<exists>e. fst (BeginExecutionPhase ?u other phase) = Inl e"
    using no [of "Begin other phase"] assms(2) by (cases "fst (BeginExecutionPhase ?u other phase)") (auto simp: is_done_fst)
  moreover have "rs_Phase reservation = Reserved \<longrightarrow> rs_CreationSettled reservation"
    using assms(1) by (auto simp: RevokeExecution_def Let_def split: option.split_asm if_split_asm)
  ultimately show ?thesis using revocation.no_shot [OF shut TrueI, of xs]
    by (auto simp: AdmittedBeginExecutionPhase_def admit_def split: sum.split)
qed


section \<open>The table's constraints\<close>

definition row_ok :: "string \<times> int64 \<Rightarrow> reservation_row \<Rightarrow> bool" where
  "row_ok k r \<longleftrightarrow> primary_key (er_identity r) = k \<and> row_checks (er_identity r) r \<and> er_resource r \<noteq> Some ''''"

definition ledger_ok :: "ledger \<Rightarrow> bool" where
  "ledger_ok l \<longleftrightarrow> (\<forall>k r. l k = Some r \<longrightarrow> row_ok k r)"

lemma ledger_okD: "ledger_ok l \<Longrightarrow> l k = Some r \<Longrightarrow> row_ok k r"
  unfolding ledger_ok_def by blast

lemma ledger_ok_upd: "ledger_ok l \<Longrightarrow> row_ok k r \<Longrightarrow> ledger_ok (l(k \<mapsto> r))"
  by (simp add: ledger_ok_def)

lemma row_checks_epoch: "primary_key key = primary_key other \<Longrightarrow> row_checks key r = row_checks other r"
  by (simp add: row_checks_def primary_key_def)

lemma update_row_ok:
  assumes "ledger_ok l" "\<And>r. cond r \<Longrightarrow> er_resource r \<noteq> Some '''' \<Longrightarrow>
    er_identity (upd r) = er_identity r \<and> er_resource (upd r) \<noteq> Some ''''"
  shows "ledger_ok (snd (update_row l key cond upd))"
proof (cases "update_row l key cond upd")
  case (Pair result t)
  then show ?thesis
  proof (cases rule: update_row_cases)
    case (updated r)
    with ledger_okD [OF assms(1) updated(2)] assms(2) [of r] have "row_ok (primary_key key) (upd r)"
      by (auto simp: row_ok_def)
    with ledger_ok_upd [OF assms(1)] updated(6) Pair show ?thesis by simp
  qed (use Pair assms(1) in simp)
qed

lemma revoked_row_ok:
  assumes "ledger_ok l" "row_checks key (revoke_row (buried_or l key))"
  shows "ledger_ok (l(primary_key key \<mapsto> revoke_row (buried_or l key)))"
proof (rule ledger_ok_upd [OF assms(1)])
  show "row_ok (primary_key key) (revoke_row (buried_or l key))"
  proof (cases "l (primary_key key)")
    case None
    with assms(2) show ?thesis by (simp add: row_ok_def buried_or_def revoke_row_def)
  next
    case (Some r)
    with ledger_okD [OF assms(1) Some] assms(2) row_checks_epoch [of key "er_identity r" "revoke_row r"] show ?thesis
      by (auto simp: row_ok_def buried_or_def revoke_row_def)
  qed
qed

lemma ledger_step_ok: "ledger_ok l \<Longrightarrow> ledger_ok (snd (ledger_step x l))"
proof (cases x)
  assume ok: "ledger_ok l"
  {
    case (Reserve key digest)
    show ?thesis unfolding Reserve ledger_step.simps is_done_snd using ok
      by (cases "ReserveExecution l key digest") (auto elim!: Reserve_cases intro!: ledger_ok_upd simp: row_ok_def)
  next
    case (Revoke key)
    show ?thesis unfolding Revoke ledger_step.simps is_done_snd using ok
      by (cases "RevokeExecution l key") (auto elim!: Revoke_cases intro: revoked_row_ok)
  next
    case (Capture turn locked profile activity)
    show ?thesis unfolding Capture ledger_step.simps is_done_snd using ok
      by (cases "AgentTurnTerminalCaptureRequired l turn locked profile activity")
        (auto elim!: Capture_cases intro: revoked_row_ok [of l "turn_key turn _", simplified])
  }
qed (auto simp: ledger_updates intro!: update_row_ok split: option.split bool.split sum.split)

lemma ledger_ok_after: "ledger_ok l \<Longrightarrow> ledger_ok (after ledger_step xs l)"
  by (rule after_invariant [where I = ledger_ok]) (auto intro: ledger_step_ok)

lemma update_row_checked:
  assumes "ledger_ok l" "\<And>r. cond r \<Longrightarrow> row_checks key r \<Longrightarrow> row_checks key (upd r)"
  shows "fst (update_row l key cond upd) \<noteq> Inl ExecDatabase"
  using assms by (auto simp: update_row_def row_ok_def dest: ledger_okD split: option.split)

text \<open>C39 (the table's constraints never fire). In every ledger that starts empty, no report of a process
  and no dispatch is ever turned down by a CHECK of the table: the conditions of the statements imply
  the constraints. Reserving fails on a CHECK only for an epoch that is not positive or a digest that is
  not a SHA-256 in hexadecimal.\<close>

theorem ledger_checks_hold:
  assumes "l = after ledger_step xs (\<lambda>_. None)"
  shows "fst (BeginExecutionPhase l key phase) \<noteq> Inl ExecDatabase
    \<and> fst (BindSetupResource l key resource) \<noteq> Inl ExecDatabase
    \<and> fst (RecordSetupStopped l key resource) \<noteq> Inl ExecDatabase
    \<and> fst (BindExecution l key resource) \<noteq> Inl ExecDatabase
    \<and> fst (RecordNoExecution l key) \<noteq> Inl ExecDatabase
    \<and> (fst (ReserveExecution l key digest) = Inl ExecDatabase \<longleftrightarrow> ek_ExecutionEpoch key \<le> 0 \<or> \<not> sha256_text digest)"
proof -
  have ok: "ledger_ok l" unfolding assms by (rule ledger_ok_after) (simp add: ledger_ok_def)
  have "fst (BeginExecutionPhase l key phase) \<noteq> Inl ExecDatabase"
    by (auto simp: BeginExecutionPhase_def row_checks_def intro!: update_row_checked [OF ok])
  moreover have "fst (BindSetupResource l key resource) \<noteq> Inl ExecDatabase"
    by (auto simp: BindSetupResource_def row_checks_def intro!: update_row_checked [OF ok])
  moreover have "fst (RecordSetupStopped l key resource) \<noteq> Inl ExecDatabase"
    by (auto simp: RecordSetupStopped_def row_checks_def intro!: update_row_checked [OF ok])
  moreover have "fst (BindExecution l key resource) \<noteq> Inl ExecDatabase"
    by (auto simp: BindExecution_def row_checks_def intro!: update_row_checked [OF ok])
  moreover have "fst (RecordNoExecution l key) \<noteq> Inl ExecDatabase"
    by (auto simp: RecordNoExecution_def row_checks_def intro!: update_row_checked [OF ok])
  moreover have "fst (ReserveExecution l key digest) = Inl ExecDatabase \<longleftrightarrow> \<not> row_checks key (new_row key digest)"
    by (cases "l (primary_key key)") (auto simp: ReserveExecution_def insert_row_def Let_def)
  moreover have "row_checks key (new_row key digest) \<longleftrightarrow> ek_ExecutionEpoch key > 0 \<and> sha256_text digest"
    by (simp add: row_checks_def new_row_def)
  ultimately show ?thesis by linarith
qed

section \<open>Exemption from capture\<close>

text \<open>A row whose phase or creation can no longer change never gets a process.\<close>

lemma no_process:
  assumes "row_grows r t" "er_revoked r" "er_phase r \<noteq> Main \<or> er_creation_settled r"
  shows "er_resource t = er_resource r"
  using assms by (auto simp: row_grows_def)

text \<open>Exempted executions have no process. When the recovery of a Turn is told that nothing needs to
  be captured, the Turn shows no activity, its execution is revoked, and unless its main process was
  proven to have been cleaned up before any prompt, no main process is recorded, however long the ledger
  goes on: what could not be seen at that moment can also not appear later.\<close>

theorem exempt_from_capture:
  assumes "l = after ledger_step before (\<lambda>_. None)"
    "AgentTurnTerminalCaptureRequired l turn locked profile activity = (Inr False, t)"
  shows "activity = Some False
    \<and> (\<exists>r. after ledger_step xs t (tl_ID turn, tl_Epoch turn) = Some r \<and> er_revoked r
         \<and> (er_resource r = None \<or> (\<exists>r0. l (tl_ID turn, tl_Epoch turn) = Some r0 \<and> er_preparation_only r0)))"
proof -
  let ?k = "(tl_ID turn, tl_Epoch turn)"
  have ok: "ledger_ok l" unfolding assms(1) by (rule ledger_ok_after) (simp add: ledger_ok_def)
  from assms(2) show ?thesis
  proof (cases rule: Capture_cases)
    case (revoked act p r)
    from revoked(4) obtain u where u: "after ledger_step xs t ?k = Some u" "row_grows (revoke_row r) u"
      using ledger_growsD [OF ledger_after_grows [of t xs], of ?k "revoke_row r"] by auto
    have act: "\<not> act" and need: "er_preparation_only r \<or> coalesce (er_resource r) = ''''
        \<and> (er_phase r = Reserved \<or> er_phase r = Setup \<or> er_phase r = Main \<and> er_creation_settled r)"
      using revoked(2) by (auto simp: capture_needed_def)
    have "er_resource r \<noteq> Some ''''"
      using ok revoked(1) by (auto simp: buried_or_def row_ok_def dest: ledger_okD split: option.split)
    with need have "er_preparation_only r \<or> er_resource r = None" by (auto simp: coalesce_def split: option.split_asm)
    moreover have "er_resource u = er_resource r" if "\<not> er_preparation_only r"
      using no_process [OF u(2)] need that by (auto simp: revoke_row_def)
    moreover have "\<exists>r0. l ?k = Some r0 \<and> er_preparation_only r0" if "er_preparation_only r"
      using that revoked(1) by (auto simp: buried_or_def split: option.split_asm)
    moreover have "er_revoked u" using u(2) by (simp add: row_grows_def revoke_row_def)
    ultimately show ?thesis using u(1) act revoked(3) by metis
  qed simp
qed


section \<open>A run\<close>

text \<open>An execution with a set-up process, then its main process, which is revoked while it runs.\<close>

definition demo_key :: execution_key where
  "demo_key = \<lparr>ek_AssignmentID = ''p'', ek_AgentSessionID = ''s'', ek_AgentTurnID = ''t'', ek_ExecutionEpoch = 1,
     ek_RuntimeProfileName = ''n'', ek_RuntimeProfileVersion = ''v''\<rparr>"

definition demo_digest :: string where
  "demo_digest = replicate 64 (CHR ''0'')"

lemma demo_digest_ok [simp]: "sha256_text demo_digest"
  by (simp add: sha256_text_def demo_digest_def go_bytes_def list_all_iff)

definition demo_lease :: turn_lease where
  "demo_lease = \<lparr>tl_ID = ''t'', tl_ParticipantID = ''p'', tl_SessionID = ''s'', tl_Epoch = 1\<rparr>"

lemma demo_key_sel [simp]: "primary_key demo_key = (''t'', 1)" "ek_ExecutionEpoch demo_key = 1"
  "tl_ID demo_lease = ''t''" "tl_Epoch demo_lease = 1"
  by (simp_all add: demo_key_def demo_lease_def primary_key_def)

lemmas demo_ledger_simps = ReserveExecution_def insert_row_def row_checks_def new_row_def scanExecutionReservation_def
  is_done_def ledger_updates update_row_def Let_def

text \<open>The main process is dispatched once; a second attempt fails.\<close>

lemma demo_phases:
  "concat (map (begun (''t'', 1)) (performed ledger_step
      [Reserve demo_key demo_digest, Begin demo_key Setup, Begin demo_key Main, Bind_Setup demo_key ''a'',
       Setup_Stopped demo_key ''a'', Begin demo_key Main, Begin demo_key Main, Begin demo_key Setup] (\<lambda>_. None)))
   = [Setup, Main]"
  by (simp add: demo_ledger_simps)

lemma demo_bury:
  "RevokeExecution (\<lambda>_. None) demo_key
     = (Inr (scanExecutionReservation (tombstone demo_key), True), [(''t'', 1) \<mapsto> revoke_row (tombstone demo_key)])"
  by (simp add: RevokeExecution_def insert_row_def row_checks_def tombstone_def revoke_row_def scanExecutionReservation_def
      coalesce_def)

theorem revocation_final_witness:
  "\<exists>e. fst (ReserveExecution (after ledger_step [] [(''t'', 1) \<mapsto> revoke_row (tombstone demo_key)]) demo_key demo_digest) = Inl e"
  using revocation_final [OF demo_bury refl] by blast

lemma demo_exempt:
  "AgentTurnTerminalCaptureRequired (after ledger_step [Reserve demo_key demo_digest, Begin demo_key Setup] (\<lambda>_. None))
      demo_lease None (Some (''n'', ''v'')) (Some False)
   = (Inr False, [(''t'', 1) \<mapsto> revoke_row ((new_row demo_key demo_digest)\<lparr>er_phase := Setup\<rparr>)])"
  by (simp add: demo_ledger_simps AgentTurnTerminalCaptureRequired_def capture_needed_def tombstone_def revoke_row_def
      demo_lease_def demo_key_def primary_key_def turn_key_def coalesce_def)

theorem exempt_from_capture_witness:
  "\<exists>r. after ledger_step [Begin demo_key Main, Bind demo_key ''a'']
        [(''t'', 1) \<mapsto> revoke_row ((new_row demo_key demo_digest)\<lparr>er_phase := Setup\<rparr>)] (''t'', 1) = Some r \<and> er_revoked r"
  using exempt_from_capture [OF refl demo_exempt, of "[Begin demo_key Main, Bind demo_key ''a'']"] by auto

theorem ledger_checks_hold_witness:
  "fst (BindExecution (after ledger_step [Reserve demo_key demo_digest, Begin demo_key Main] (\<lambda>_. None)) demo_key ''a'')
     \<noteq> Inl ExecDatabase"
  using ledger_checks_hold [OF refl] by blast

end
