(* ===== verification/Job_Queue.thy ===== *)
theory Job_Queue
  imports Workflow_Model "HOL-Library.List_Lexorder" "HOL-Library.Char_ord" "HOL-Library.Product_Lexorder"
begin

text \<open>
  The durable jobs (\<open>store/jobs.go\<close>, \<open>store/job_writes.go\<close>): their tables and how rows get there.

  A transaction maps the tables to its result and the tables it leaves, the old ones if it returns an
  error. It reads the clock once; times and durations in the tables are microseconds. What it asks of
  other tables, and the JSON texts it writes, come from the environment. \<open>randomUUID\<close> is taken not to fail.
\<close>

section \<open>Jobs\<close>

datatype job_status = JobAvailable | JobLeased | JobSucceeded | JobFailed | JobCancelled

datatype jobs_error =
    ErrJobIdempotencyConflict | ErrJobLeaseLost | ErrAgentTurnJobRequiresTurnFence
  | ErrWorkflowJobRequiresAcknowledgement | ErrAgentTurnRecoveryFenceLost | ErrPendingEventReconciliationFenceLost
  | ErrClosureSettlementFenceLost | ErrWorkflowGitHubEffectFenceLost | ErrWorkflowDecisionInvalid | ErrAgentTurnPreparationFenceLost
  | ErrAgentTurnPreparationVerificationStale | ErrReviewAdmissionPending | ErrAssignmentCollectionIrrevocable
  | ErrAssignmentCollectionFenceLost | ErrJobInput | ErrJobQuery

record job_scope =
  sc_workflowID :: string
  sc_workflowAttemptID :: string
  sc_agentParticipantID :: string
  sc_agentSessionID :: string
  sc_agentTurnID :: string
  sc_executionEpoch :: int64

record job_provenance =
  pv_normalizedEventID :: string
  pv_agentTurnSettlementID :: string
  pv_workflowInternalEventID :: string
  pv_actionKey :: string

text \<open>A row of \<open>jobs\<close>; the columns of the scope and the provenance hold NULL for the empty string.\<close>

record job =
  jb_ID :: string
  jb_Queue :: string
  jb_Kind :: string
  jb_Payload :: string
  jb_Priority :: int
  jb_AvailableDelay :: int
  jb_MaxAttempts :: int
  jb_IdempotencyKey :: "string option"
  jb_Scope :: job_scope
  jb_Provenance :: job_provenance
  jb_RetentionGeneration :: string
  jb_Status :: job_status
  jb_AvailableAt :: instant
  jb_AttemptCount :: int
  jb_LeaseOwner :: "string option"
  jb_LeaseToken :: "string option"
  jb_LeasedAt :: "instant option"
  jb_LeaseExpiresAt :: "instant option"
  jb_HeartbeatAt :: "instant option"
  jb_CreatedAt :: instant
  jb_UpdatedAt :: instant
  jb_CompletedAt :: "instant option"
  jb_Result :: "string option"
  jb_LastError :: "string option"

datatype attempt_status = AttemptLeased | AttemptSucceeded | AttemptFailed | AttemptExpired

record job_attempt =
  ja_JobID :: string
  ja_Number :: int
  ja_LeaseOwner :: string
  ja_LeaseToken :: string
  ja_Status :: attempt_status
  ja_LeasedAt :: instant
  ja_LeaseExpiresAt :: instant
  ja_HeartbeatAt :: "instant option"
  ja_FinishedAt :: "instant option"
  ja_Retryable :: "bool option"
  ja_Result :: "string option"
  ja_LastError :: "string option"

text \<open>A row of \<open>workflow_action_failures\<close>.\<close>

record action_failure =
  af_SourceJobID :: string
  af_WorkflowID :: string
  af_EscalationJobID :: string
  af_SourceKind :: string
  af_Diagnostic :: string
  af_ResumeRole :: role_id
  af_ObservedAt :: instant
  af_Status :: string

record jobs_db =
  db_Jobs :: "job list"
  db_Attempts :: "job_attempt list"
  db_Failures :: "action_failure list"

text \<open>The fence that a claim grants.\<close>

record job_lease =
  jl_Job :: job
  jl_Attempt :: int

text \<open>What a transaction learns from elsewhere: rows that another transaction has locked, identities for
  the rows it inserts, foreign keys, the rows of other tables and the JSON encodings. \<open>None\<close> is a query that
  fails or finds no row. Columns of type \<open>jsonb\<close> hold the text that \<open>je_Jsonb\<close> makes of a document.\<close>

record job_env =
  je_Locked :: "string \<Rightarrow> bool"
  je_UUID :: "string \<Rightarrow> string"
  je_ValidUUID :: "string \<Rightarrow> bool"
  je_ValidJSON :: "string \<Rightarrow> bool"
  je_Jsonb :: "string \<Rightarrow> string"
  je_Canonical :: "string \<Rightarrow> string option"
  je_Linked :: "job \<Rightarrow> bool"
  je_Collecting :: "string \<Rightarrow> bool option"
  je_WorkflowExists :: "string \<Rightarrow> bool"
  je_Recovery :: "job \<Rightarrow> (bool \<times> bool) option"
  je_HandoffContext :: "string \<Rightarrow> (int64 \<times> int64) option"
  je_HandoffPayload :: "int64 \<Rightarrow> string \<Rightarrow> string \<Rightarrow> int64 option \<Rightarrow> string"
  je_WorkflowState :: "string \<Rightarrow> wf_state option"
  je_WorkflowRevision :: "string \<Rightarrow> int64 option"
  je_FailurePayload :: "job \<Rightarrow> role_id \<Rightarrow> string \<Rightarrow> instant \<Rightarrow> string"
  je_FallbackRole :: "string \<Rightarrow> role_id"
  je_KnownRole :: "role_id \<Rightarrow> bool"
  je_ParticipantRole :: "job \<Rightarrow> role_id option"
  je_CleanupPending :: "string \<Rightarrow> bool option"
  je_ExhaustCleanup :: "job \<Rightarrow> string \<Rightarrow> jobs_error option"
  je_ClosureBarrier :: "job \<Rightarrow> bool"
  je_RecoveryTurn :: "job \<Rightarrow> jobs_error option"

section \<open>Kinds\<close>

abbreviation RunAgentTurnJobKind :: string where "RunAgentTurnJobKind \<equiv> ''RUN_AGENT_TURN''"
abbreviation StopStaleRuntimeJobKind :: string where "StopStaleRuntimeJobKind \<equiv> ''STOP_STALE_RUNTIME''"
abbreviation ReconcileAgentTurnMutationsJobKind :: string where "ReconcileAgentTurnMutationsJobKind \<equiv> ''RECONCILE_AGENT_TURN_MUTATIONS''"
abbreviation VerifyTerminalIntentJobKind :: string where "VerifyTerminalIntentJobKind \<equiv> ''VERIFY_TERMINAL_INTENT''"
abbreviation RevalidateTerminalIntentJobKind :: string where "RevalidateTerminalIntentJobKind \<equiv> ''REVALIDATE_TERMINAL_INTENT''"
abbreviation ReconcilePendingEventsJobKind :: string where "ReconcilePendingEventsJobKind \<equiv> ''RECONCILE_PENDING_EVENTS''"
abbreviation StopAgentTurnJobKind :: string where "StopAgentTurnJobKind \<equiv> ''STOP_AGENT_TURN''"
abbreviation SettleClosureJobKind :: string where "SettleClosureJobKind \<equiv> ''SETTLE_CLOSURE''"
abbreviation PrepareAgentTurnJobKind :: string where "PrepareAgentTurnJobKind \<equiv> ''PREPARE_AGENT_TURN''"
abbreviation CollectAssignmentsJobKind :: string where "CollectAssignmentsJobKind \<equiv> ''COLLECT_ASSIGNMENTS''"
abbreviation ReconcileGitHubLabelsJobKind :: string where "ReconcileGitHubLabelsJobKind \<equiv> ''RECONCILE_GITHUB_LABELS''"
abbreviation PublishHumanHandoffJobKind :: string where "PublishHumanHandoffJobKind \<equiv> ''PUBLISH_HUMAN_HANDOFF''"
abbreviation EscalateWorkflowActionFailureJobKind :: string where "EscalateWorkflowActionFailureJobKind \<equiv> ''ESCALATE_WORKFLOW_ACTION_FAILURE''"
abbreviation ProvisionManagedLabelsJobKind :: string where "ProvisionManagedLabelsJobKind \<equiv> ''PROVISION_MANAGED_LABELS''"
abbreviation WorkflowActionQueue :: string where "WorkflowActionQueue \<equiv> ''workflow''"
abbreviation AgentTurnRecoveryQueue :: string where "AgentTurnRecoveryQueue \<equiv> ''agent-turn-recovery''"

definition isAgentTurnRecoveryJob :: "string \<Rightarrow> bool" where
  "isAgentTurnRecoveryJob kind \<longleftrightarrow>
     kind \<in> {StopStaleRuntimeJobKind, ReconcileAgentTurnMutationsJobKind, VerifyTerminalIntentJobKind,
             RevalidateTerminalIntentJobKind}"

definition isFencedWorkflowJob :: "string \<Rightarrow> bool" where
  "isFencedWorkflowJob kind \<longleftrightarrow>
     kind \<in> {ReconcilePendingEventsJobKind, StopAgentTurnJobKind, SettleClosureJobKind, PrepareAgentTurnJobKind,
             CollectAssignmentsJobKind, ''COMPLETE_ASSIGNMENTS'', ''CANCEL_ASSIGNMENT_RETENTION'',
             ReconcileGitHubLabelsJobKind, PublishHumanHandoffJobKind, EscalateWorkflowActionFailureJobKind}"

definition isExhaustionAwareWorkflowAction :: "string \<Rightarrow> bool" where
  "isExhaustionAwareWorkflowAction kind \<longleftrightarrow>
     kind \<in> {ReconcilePendingEventsJobKind, StopAgentTurnJobKind, SettleClosureJobKind,
             ReconcileGitHubLabelsJobKind, PublishHumanHandoffJobKind}"

text \<open>Durations are nanoseconds; \<open>Duration.Microseconds\<close> cuts off.\<close>

definition maximumJobDelay :: int where
  "maximumJobDelay = 365 * 24 * 3600 * 1000000000"

definition microseconds :: "int \<Rightarrow> int" where
  "microseconds d = (if d < 0 then - ((- d) div 1000) else d div 1000)"

definition valid_positive_duration :: "int \<Rightarrow> bool" where
  "valid_positive_duration d \<longleftrightarrow> \<not> (d < 1000 \<or> d > maximumJobDelay)"

definition irreversibleRetryDelay :: int where
  "irreversibleRetryDelay = 1000000000"

section \<open>Statements\<close>

text \<open>The CHECK constraints of \<open>jobs\<close> and \<open>job_attempts\<close>; counts and priorities are 32-bit columns.\<close>

definition job_checks :: "job \<Rightarrow> bool" where
  "job_checks j \<longleftrightarrow>
     (let p = jb_Provenance j;
          sources = length (filter (\<lambda>x. x \<noteq> '''')
            [pv_normalizedEventID p, pv_agentTurnSettlementID p, pv_workflowInternalEventID p])
      in sources = 0 \<and> pv_actionKey p = '''' \<or> sources = 1 \<and> pv_actionKey p \<noteq> '''')
     \<and> jb_AttemptCount j \<ge> 0 \<and> jb_AttemptCount j \<le> jb_MaxAttempts j \<and> jb_AvailableDelay j \<ge> 0
     \<and> jb_Kind j \<noteq> '''' \<and> jb_MaxAttempts j > 0 \<and> jb_MaxAttempts j < 2 ^ 31 \<and> jb_Priority j < 2 ^ 31 \<and> jb_Priority j \<ge> - (2 ^ 31)
     \<and> jb_Queue j \<noteq> ''''
     \<and> (if jb_Status j = JobLeased
        then jb_LeaseOwner j \<noteq> None \<and> jb_LeaseToken j \<noteq> None \<and> jb_LeasedAt j \<noteq> None \<and> jb_LeaseExpiresAt j \<noteq> None
        else jb_LeaseOwner j = None \<and> jb_LeaseToken j = None \<and> jb_LeasedAt j = None \<and> jb_LeaseExpiresAt j = None)
     \<and> (jb_Result j = None \<or> jb_Status j = JobSucceeded)"

definition attempt_checks :: "job_attempt \<Rightarrow> bool" where
  "attempt_checks a \<longleftrightarrow>
     ja_Number a > 0 \<and> ja_LeaseOwner a \<noteq> '''' \<and> (ja_Status a = AttemptLeased \<longleftrightarrow> ja_FinishedAt a = None)
     \<and> (case ja_Status a of
          AttemptLeased \<Rightarrow> ja_Retryable a = None \<and> ja_Result a = None \<and> ja_LastError a = None
        | AttemptSucceeded \<Rightarrow> ja_Retryable a = None \<and> ja_Result a \<noteq> None \<and> ja_LastError a = None
        | _ \<Rightarrow> ja_Retryable a \<noteq> None \<and> ja_Result a = None \<and> ja_LastError a \<noteq> None)"

definition failure_checks :: "action_failure \<Rightarrow> bool" where
  "failure_checks f \<longleftrightarrow> af_Diagnostic f \<noteq> '''' \<and> af_SourceKind f \<noteq> ''''
     \<and> (af_Status f = ''PENDING'' \<longrightarrow> af_EscalationJobID f \<noteq> '''')
     \<and> (af_ResumeRole f = '''' \<or> ValidID (af_ResumeRole f))"

definition job_by_id :: "jobs_db \<Rightarrow> string \<Rightarrow> job option" where
  "job_by_id db i = find (\<lambda>j. jb_ID j = i) (db_Jobs db)"

definition attempt_of :: "jobs_db \<Rightarrow> string \<Rightarrow> int \<Rightarrow> job_attempt option" where
  "attempt_of db i n = find (\<lambda>a. ja_JobID a = i \<and> ja_Number a = n) (db_Attempts db)"

text \<open>\<open>UPDATE ... WHERE\<close>: the number of rows changed and the table after it; the statement fails when a
  changed row violates a CHECK.\<close>

definition update_jobs :: "(job \<Rightarrow> bool) \<Rightarrow> (job \<Rightarrow> job) \<Rightarrow> jobs_db \<Rightarrow> (nat \<times> jobs_db) option" where
  "update_jobs cond f db =
     (if list_all (\<lambda>j. cond j \<longrightarrow> job_checks (f j)) (db_Jobs db)
      then Some (length (filter cond (db_Jobs db)),
                 db\<lparr>db_Jobs := map (\<lambda>j. if cond j then f j else j) (db_Jobs db)\<rparr>)
      else None)"

definition update_attempts :: "(job_attempt \<Rightarrow> bool) \<Rightarrow> (job_attempt \<Rightarrow> job_attempt) \<Rightarrow> jobs_db \<Rightarrow> (nat \<times> jobs_db) option" where
  "update_attempts cond f db =
     (if list_all (\<lambda>a. cond a \<longrightarrow> attempt_checks (f a)) (db_Attempts db)
      then Some (length (filter cond (db_Attempts db)),
                 db\<lparr>db_Attempts := map (\<lambda>a. if cond a then f a else a) (db_Attempts db)\<rparr>)
      else None)"

text \<open>The row of a job or an attempt under the fence of a token and an attempt number.\<close>

definition fenced_job :: "string \<Rightarrow> string \<Rightarrow> int \<Rightarrow> job \<Rightarrow> bool" where
  "fenced_job i token n j \<longleftrightarrow> jb_ID j = i \<and> jb_LeaseToken j = Some token \<and> jb_AttemptCount j = n"

definition fenced_attempt :: "string \<Rightarrow> string \<Rightarrow> int \<Rightarrow> job_attempt \<Rightarrow> bool" where
  "fenced_attempt i token n a \<longleftrightarrow>
     ja_JobID a = i \<and> ja_LeaseToken a = token \<and> ja_Number a = n \<and> ja_Status a = AttemptLeased"

text \<open>Two rows that a unique index of \<open>jobs\<close> keeps apart.\<close>

definition same_key :: "job \<Rightarrow> job \<Rightarrow> bool" where
  "same_key j k \<longleftrightarrow> jb_IdempotencyKey j \<noteq> None \<and> jb_IdempotencyKey j = jb_IdempotencyKey k"

definition live_successor :: "job \<Rightarrow> bool" where
  "live_successor j \<longleftrightarrow> sc_workflowID (jb_Scope j) \<noteq> '''' \<and> jb_Kind j = PrepareAgentTurnJobKind
     \<and> jb_Status j \<in> {JobAvailable, JobLeased}"

definition unique_conflict :: "job \<Rightarrow> job \<Rightarrow> bool" where
  "unique_conflict j k \<longleftrightarrow>
     (let p = jb_Provenance j; q = jb_Provenance k; s = jb_Scope j; t = jb_Scope k;
          same_turn = (sc_agentTurnID s \<noteq> '''' \<and> sc_agentTurnID s = sc_agentTurnID t
                       \<and> sc_executionEpoch s = sc_executionEpoch t)
      in jb_ID j = jb_ID k \<or> same_key j k
         \<or> same_turn \<and> jb_Kind j = jb_Kind k
           \<and> jb_Kind j \<in> {RunAgentTurnJobKind, StopStaleRuntimeJobKind, ReconcileAgentTurnMutationsJobKind}
         \<or> pv_agentTurnSettlementID p \<noteq> '''' \<and> pv_agentTurnSettlementID p = pv_agentTurnSettlementID q
           \<and> pv_actionKey p = pv_actionKey q
         \<or> pv_normalizedEventID p \<noteq> '''' \<and> pv_normalizedEventID p = pv_normalizedEventID q
           \<and> pv_actionKey p = pv_actionKey q
         \<or> pv_workflowInternalEventID p \<noteq> '''' \<and> pv_workflowInternalEventID p = pv_workflowInternalEventID q
           \<and> pv_actionKey p = pv_actionKey q
         \<or> live_successor j \<and> live_successor k \<and> sc_workflowID s = sc_workflowID t
         \<or> jb_RetentionGeneration j \<noteq> '''' \<and> jb_RetentionGeneration j = jb_RetentionGeneration k)"

definition conflicting :: "jobs_db \<Rightarrow> job \<Rightarrow> bool" where
  "conflicting db j \<longleftrightarrow> list_ex (unique_conflict j) (db_Jobs db)"

definition append_job :: "job \<Rightarrow> jobs_db \<Rightarrow> jobs_db" where
  "append_job j db = db\<lparr>db_Jobs := db_Jobs db @ [j]\<rparr>"

text \<open>A row that violates a CHECK or a foreign key is refused.\<close>

definition admissible :: "job_env \<Rightarrow> job \<Rightarrow> bool" where
  "admissible env j \<longleftrightarrow> job_checks j \<and> je_Linked env j"


text \<open>\<open>scanJob\<close>: the row as the code sees it. A NULL idempotency key does not fit its Go field.\<close>

definition scanJob :: "job_env \<Rightarrow> job \<Rightarrow> job option" where
  "scanJob env j =
     (if jb_IdempotencyKey j = None then None
      else map_option (\<lambda>payload. j\<lparr>jb_Payload := payload\<rparr>) (je_Canonical env (jb_Payload j)))"

section \<open>Inserting jobs\<close>

record job_insert =
  ji_queue :: string
  ji_kind :: string
  ji_payload :: string
  ji_priority :: int
  ji_maxAttempts :: int
  ji_idempotencyKey :: string
  ji_scope :: job_scope
  ji_provenance :: job_provenance

definition no_scope :: job_scope where
  "no_scope = \<lparr>sc_workflowID = '''', sc_workflowAttemptID = '''', sc_agentParticipantID = '''',
     sc_agentSessionID = '''', sc_agentTurnID = '''', sc_executionEpoch = 0\<rparr>"

definition no_provenance :: job_provenance where
  "no_provenance = \<lparr>pv_normalizedEventID = '''', pv_agentTurnSettlementID = '''', pv_workflowInternalEventID = '''',
     pv_actionKey = ''''\<rparr>"

definition isWorkflowlessProvisioningJob :: "job_insert \<Rightarrow> bool" where
  "isWorkflowlessProvisioningJob job \<longleftrightarrow>
     ji_kind job = ProvisionManagedLabelsJobKind \<and> ji_scope job = no_scope \<and> ji_provenance job = no_provenance"

definition validateJobInsert :: "job_env \<Rightarrow> job_insert \<Rightarrow> jobs_error option" where
  "validateJobInsert env job =
     (let s = ji_scope job; p = ji_provenance job;
          sources = [pv_normalizedEventID p, pv_agentTurnSettlementID p, pv_workflowInternalEventID p];
          ids = [sc_workflowID s, sc_workflowAttemptID s, sc_agentParticipantID s, sc_agentSessionID s,
                 sc_agentTurnID s] @ sources;
          provenanceCount = length (filter (\<lambda>i. i \<noteq> '''') sources)
      in if trims_to_empty (ji_queue job) \<or> trims_to_empty (ji_kind job) then Some ErrJobInput
         else if trims_to_empty (ji_idempotencyKey job) then Some ErrJobInput
         else if ji_maxAttempts job \<le> 0 then Some ErrJobInput
         else if \<not> je_ValidJSON env (ji_payload job) then Some ErrJobInput
         else if list_ex (\<lambda>i. i \<noteq> '''' \<and> \<not> je_ValidUUID env i) ids then Some ErrJobInput
         else if sc_workflowID s = '''' \<and> \<not> isWorkflowlessProvisioningJob job
              \<or> sc_workflowAttemptID s \<noteq> '''' \<and> sc_workflowID s = ''''
              \<or> sc_agentParticipantID s \<noteq> '''' \<and> sc_workflowID s = ''''
              \<or> sc_agentSessionID s \<noteq> '''' \<and> sc_agentParticipantID s = ''''
              \<or> sc_agentTurnID s \<noteq> '''' \<and> sc_agentSessionID s = ''''
              \<or> (sc_agentTurnID s = '''') \<noteq> (sc_executionEpoch s = 0) then Some ErrJobInput
         else if provenanceCount > 1 \<or> provenanceCount = 0 \<and> pv_actionKey p \<noteq> ''''
              \<or> provenanceCount = 1 \<and> trims_to_empty (pv_actionKey p) then Some ErrJobInput
         else None)"

text \<open>The row that \<open>jobInsertSQL\<close> inserts.\<close>

definition new_job :: "job_env \<Rightarrow> instant \<Rightarrow> job_insert \<Rightarrow> job" where
  "new_job env now job =
     \<lparr>jb_ID = je_UUID env (ji_idempotencyKey job), jb_Queue = ji_queue job, jb_Kind = ji_kind job,
      jb_Payload = je_Jsonb env (ji_payload job), jb_Priority = ji_priority job, jb_AvailableDelay = 0,
      jb_MaxAttempts = ji_maxAttempts job, jb_IdempotencyKey = Some (ji_idempotencyKey job),
      jb_Scope = ji_scope job, jb_Provenance = ji_provenance job, jb_RetentionGeneration = '''',
      jb_Status = JobAvailable, jb_AvailableAt = now, jb_AttemptCount = 0, jb_LeaseOwner = None,
      jb_LeaseToken = None, jb_LeasedAt = None, jb_LeaseExpiresAt = None, jb_HeartbeatAt = None,
      jb_CreatedAt = now, jb_UpdatedAt = now, jb_CompletedAt = None, jb_Result = None, jb_LastError = None\<rparr>"

definition insertJobTx :: "job_env \<Rightarrow> instant \<Rightarrow> job_insert \<Rightarrow> jobs_db \<Rightarrow> jobs_error + string \<times> jobs_db" where
  "insertJobTx env now job db =
     (case validateJobInsert env job of
        Some e \<Rightarrow> Inl e
      | None \<Rightarrow>
          let row = new_job env now job
          in if \<not> admissible env row \<or> conflicting db row then Inl ErrJobQuery
             else Inr (jb_ID row, append_job row db))"

definition job_by_key :: "jobs_db \<Rightarrow> string \<Rightarrow> job option" where
  "job_by_key db key = find (\<lambda>j. jb_IdempotencyKey j = Some key) (db_Jobs db)"

text \<open>Whether a stored job is the one that is inserted again.\<close>

definition matching_job :: "job_env \<Rightarrow> job_insert \<Rightarrow> job \<Rightarrow> bool" where
  "matching_job env job j \<longleftrightarrow>
     jb_Queue j = ji_queue job \<and> jb_Kind j = ji_kind job \<and> jb_Payload j = je_Jsonb env (ji_payload job)
     \<and> jb_Priority j = ji_priority job \<and> jb_MaxAttempts j = ji_maxAttempts job \<and> jb_AvailableDelay j = 0
     \<and> jb_Scope j = ji_scope job \<and> jb_Provenance j = ji_provenance job \<and> jb_RetentionGeneration j = ''''"

definition insertIdempotentJobTx :: "job_env \<Rightarrow> instant \<Rightarrow> job_insert \<Rightarrow> jobs_db \<Rightarrow> jobs_error + string \<times> jobs_db" where
  "insertIdempotentJobTx env now job db =
     (case validateJobInsert env job of
        Some e \<Rightarrow> Inl e
      | None \<Rightarrow>
          let row = new_job env now job
          in if \<not> job_checks row then Inl ErrJobQuery
             else if conflicting db row
             then (case job_by_key db (ji_idempotencyKey job) of
                     None \<Rightarrow> Inl ErrJobIdempotencyConflict
                   | Some j \<Rightarrow> if matching_job env job j then Inr (jb_ID j, db) else Inl ErrJobIdempotencyConflict)
             else if \<not> je_Linked env row then Inl ErrJobQuery
             else Inr (jb_ID row, append_job row db))"

end
