(* ===== verification/Job_Leases.thy ===== *)
theory Job_Leases
  imports Job_Queue
begin

text \<open>
  Leases on jobs (\<open>store/jobs.go\<close>, \<open>store/safety_handoffs.go\<close>, \<open>store/workflow_action_failures.go\<close>):
  claiming a job, working under its fence, and what becomes of a job whose lease expires or whose
  attempts are used up.
\<close>

section \<open>Rows that a worker has finished with\<close>

definition row_token :: "job \<Rightarrow> string" where
  "row_token j = (case jb_LeaseToken j of None \<Rightarrow> '''' | Some t \<Rightarrow> t)"

definition released :: "instant \<Rightarrow> job_status \<Rightarrow> job \<Rightarrow> job" where
  "released now status j =
     j\<lparr>jb_Status := status, jb_LeaseOwner := None, jb_LeaseToken := None, jb_LeasedAt := None,
       jb_LeaseExpiresAt := None, jb_HeartbeatAt := None, jb_UpdatedAt := now\<rparr>"

definition retried :: "instant \<Rightarrow> bool \<Rightarrow> int \<Rightarrow> string \<Rightarrow> job \<Rightarrow> job" where
  "retried now willRetry retryDelay cause j =
     (released now (if willRetry then JobAvailable else JobFailed) j)
       \<lparr>jb_AvailableAt := if willRetry then now + microseconds retryDelay else jb_AvailableAt j,
        jb_CompletedAt := if willRetry then None else Some now, jb_LastError := Some cause\<rparr>"

section \<open>Leasing\<close>

definition lease_row :: "instant \<Rightarrow> string \<Rightarrow> string \<Rightarrow> int \<Rightarrow> job \<Rightarrow> job" where
  "lease_row now owner token lease j =
     j\<lparr>jb_Status := JobLeased, jb_AttemptCount := jb_AttemptCount j + 1, jb_LeaseOwner := Some owner,
       jb_LeaseToken := Some token, jb_LeasedAt := Some now, jb_LeaseExpiresAt := Some (now + microseconds lease),
       jb_HeartbeatAt := None, jb_UpdatedAt := now, jb_CompletedAt := None, jb_Result := None, jb_LastError := None\<rparr>"

definition leaseJobTx ::
  "job_env \<Rightarrow> instant \<Rightarrow> string \<Rightarrow> string \<Rightarrow> string \<Rightarrow> int \<Rightarrow> jobs_db \<Rightarrow> jobs_error + job_lease \<times> jobs_db" where
  "leaseJobTx env now i owner token lease db =
     (case job_by_id db i of
        None \<Rightarrow> Inl ErrJobQuery
      | Some before \<Rightarrow>
          if \<not> (jb_Status before = JobAvailable \<and> jb_AttemptCount before < jb_MaxAttempts before) then Inl ErrJobQuery
          else
            let attempt = jb_AttemptCount before + 1; expiresAt = now + microseconds lease;
                row = \<lparr>ja_JobID = i, ja_Number = attempt, ja_LeaseOwner = owner, ja_LeaseToken = token,
                       ja_Status = AttemptLeased, ja_LeasedAt = now, ja_LeaseExpiresAt = expiresAt,
                       ja_HeartbeatAt = None, ja_FinishedAt = None, ja_Retryable = None, ja_Result = None,
                       ja_LastError = None\<rparr>
            in (case update_jobs (\<lambda>j. jb_ID j = i \<and> jb_Status j = JobAvailable \<and> jb_AttemptCount j < jb_MaxAttempts j)
                  (lease_row now owner token lease) db of
                  None \<Rightarrow> Inl ErrJobQuery
                | Some (_, db1) \<Rightarrow>
                    if \<not> attempt_checks row
                       \<or> list_ex (\<lambda>a. ja_JobID a = i \<and> ja_Number a = attempt \<or> ja_LeaseToken a = token) (db_Attempts db1)
                    then Inl ErrJobQuery
                    else let db2 = db1\<lparr>db_Attempts := db_Attempts db1 @ [row]\<rparr>
                         in case Option.bind (job_by_id db2 i) (scanJob env) of
                              None \<Rightarrow> Inl ErrJobQuery
                            | Some j \<Rightarrow> Inr (\<lparr>jl_Job = j, jl_Attempt = attempt\<rparr>, db2)))"


section \<open>Attempts used up\<close>

text \<open>\<open>enqueueSafetyHandoffTx\<close>: one Human Handoff per source job; whether it is new.\<close>

definition safety_handoff_key :: "job \<Rightarrow> string" where
  "safety_handoff_key source =
     ''workflow:'' @ sc_workflowID (jb_Scope source) @ '':source-job:'' @ jb_ID source @ '':safety-handoff''"

definition handoff_row :: "job_env \<Rightarrow> instant \<Rightarrow> job \<Rightarrow> string \<Rightarrow> job \<Rightarrow> job" where
  "handoff_row env now source encoded stored =
     (let p = jb_Provenance stored;
          sources = length (filter (\<lambda>x. x \<noteq> '''')
            [pv_normalizedEventID p, pv_agentTurnSettlementID p, pv_workflowInternalEventID p])
      in new_job env now
           \<lparr>ji_queue = WorkflowActionQueue, ji_kind = PublishHumanHandoffJobKind, ji_payload = encoded,
            ji_priority = 100, ji_maxAttempts = 3, ji_idempotencyKey = safety_handoff_key source,
            ji_scope = no_scope\<lparr>sc_workflowID := sc_workflowID (jb_Scope stored),
                                sc_workflowAttemptID := sc_workflowAttemptID (jb_Scope stored)\<rparr>,
            ji_provenance = p\<lparr>pv_actionKey := if sources = 1 then ''safety-handoff:'' @ jb_ID source else ''''\<rparr>\<rparr>)"

definition enqueueSafetyHandoffTx ::
  "job_env \<Rightarrow> instant \<Rightarrow> job \<Rightarrow> string \<Rightarrow> string \<Rightarrow> jobs_db \<Rightarrow> jobs_error + bool \<times> jobs_db" where
  "enqueueSafetyHandoffTx env now source reason diagnostic db =
     (let workflow = sc_workflowID (jb_Scope source); key = safety_handoff_key source
      in if trims_to_empty reason \<or> trims_to_empty diagnostic then Inl ErrWorkflowDecisionInvalid
         else case je_HandoffContext env workflow of
           None \<Rightarrow> Inl ErrJobQuery
         | Some (revision, pullRequestNumber) \<Rightarrow>
             let encoded = je_HandoffPayload env revision reason diagnostic
                             (if pullRequestNumber > 0 then Some pullRequestNumber else None);
                 matching = (case job_by_key db key of
                     None \<Rightarrow> Inl ErrJobIdempotencyConflict
                   | Some j \<Rightarrow>
                       if sc_workflowID (jb_Scope j) = workflow \<and> jb_Kind j = PublishHumanHandoffJobKind
                          \<and> jb_Payload j = je_Jsonb env encoded
                       then Inr (False, db) else Inl ErrJobIdempotencyConflict)
             in case find (\<lambda>j. jb_ID j = jb_ID source \<and> sc_workflowID (jb_Scope j) = workflow) (db_Jobs db) of
                  None \<Rightarrow> matching
                | Some stored \<Rightarrow>
                    let row = handoff_row env now source encoded stored
                    in if \<not> job_checks row then Inl ErrJobQuery
                       else if job_by_key db key \<noteq> None then matching
                       else if conflicting db row \<or> \<not> je_Linked env row then Inl ErrJobQuery
                       else Inr (True, append_job row db))"

text \<open>\<open>continueIrreversibleJobAfterExhaustionTx\<close>: work that must not be abandoned, once its attempts are used up,
  gets one more attempt, and a person is told. Whether it continues, and whether the handoff is new.\<close>

definition exhaustion_reason :: "job_env \<Rightarrow> job \<Rightarrow> jobs_error + (string \<times> string) option" where
  "exhaustion_reason env job =
     (let kind = jb_Kind job
      in if kind = StopAgentTurnJobKind then
           Inr (Some (''closure_cleanup_exhausted'',
                      ''Agent Turn stop failed three times; safe cleanup retries will continue.''))
         else if kind = SettleClosureJobKind then
           Inr (Some (''closure_cleanup_exhausted'',
                      ''Workflow closure settlement failed three times; safe retries will continue.''))
         else if kind = CollectAssignmentsJobKind then
           (case je_Collecting env (jb_ID job) of
              None \<Rightarrow> Inl ErrJobQuery
            | Some collecting \<Rightarrow>
                Inr (if collecting
                     then Some (''assignment_collection_exhausted'',
                                ''Assignment collection failed three times; safe cleanup retries will continue.'')
                     else None))
         else if kind = StopStaleRuntimeJobKind \<or> kind = ReconcileAgentTurnMutationsJobKind then
           (if \<not> je_WorkflowExists env (sc_workflowID (jb_Scope job)) then Inl ErrAgentTurnRecoveryFenceLost
            else case je_Recovery env job of
              None \<Rightarrow> Inl ErrJobQuery
            | Some (unsettled, registered) \<Rightarrow>
                if \<not> unsettled then Inr None
                else if \<not> registered then Inl ErrAgentTurnRecoveryFenceLost
                else Inr (Some (''agent_turn_recovery_exhausted'',
                       if kind = StopStaleRuntimeJobKind
                       then ''Stale Runtime Process recovery failed three times; safe recovery retries will continue.''
                       else ''Agent Turn mutation recovery expired three times; safe recovery retries will continue.'')))
         else Inr None)"

definition continueIrreversibleJobAfterExhaustionTx ::
  "job_env \<Rightarrow> instant \<Rightarrow> job \<Rightarrow> jobs_db \<Rightarrow> jobs_error + (bool \<times> bool) \<times> jobs_db" where
  "continueIrreversibleJobAfterExhaustionTx env now job db =
     (case exhaustion_reason env job of
        Inl e \<Rightarrow> Inl e
      | Inr None \<Rightarrow> Inr ((False, False), db)
      | Inr (Some (reason, diagnostic)) \<Rightarrow>
          (case enqueueSafetyHandoffTx env now job reason diagnostic db of
             Inl e \<Rightarrow> Inl e
           | Inr (scheduled, db1) \<Rightarrow>
               (case update_jobs
                   (\<lambda>j. jb_ID j = jb_ID job \<and> jb_Status j = JobLeased \<and> jb_LeaseToken j = jb_LeaseToken job
                        \<and> jb_LeaseToken j \<noteq> None \<and> jb_AttemptCount j = jb_AttemptCount job)
                   (\<lambda>j. j\<lparr>jb_MaxAttempts := max (jb_MaxAttempts j) (jb_AttemptCount j + 1), jb_UpdatedAt := now\<rparr>) db1 of
                  None \<Rightarrow> Inl ErrJobLeaseLost
                | Some (n, db2) \<Rightarrow> if n \<noteq> 1 then Inl ErrJobLeaseLost else Inr ((True, scheduled), db2))))"

definition observedJobTime :: "job \<Rightarrow> instant" where
  "observedJobTime job = (case jb_LeasedAt job of Some t \<Rightarrow> t | None \<Rightarrow> jb_CreatedAt job)"

text \<open>\<open>INSERT INTO workflow_action_failures ... ON CONFLICT (source_job_id) DO NOTHING\<close>: the number of rows.\<close>

definition insert_failure :: "action_failure \<Rightarrow> jobs_db \<Rightarrow> (nat \<times> jobs_db) option" where
  "insert_failure f db =
     (if \<not> failure_checks f then None
      else if list_ex (\<lambda>g. af_SourceJobID g = af_SourceJobID f) (db_Failures db) then Some (0, db)
      else if af_EscalationJobID f \<noteq> ''''
              \<and> list_ex (\<lambda>g. af_EscalationJobID g = af_EscalationJobID f) (db_Failures db)
              \<or> job_by_id db (af_SourceJobID f) = None then None
      else Some (1, db\<lparr>db_Failures := db_Failures db @ [f]\<rparr>))"

definition escalation_job :: "job_env \<Rightarrow> job \<Rightarrow> role_id \<Rightarrow> string \<Rightarrow> job_insert" where
  "escalation_job env job resumeRole diagnostic =
     \<lparr>ji_queue = WorkflowActionQueue, ji_kind = EscalateWorkflowActionFailureJobKind,
      ji_payload = je_FailurePayload env job resumeRole diagnostic (observedJobTime job),
      ji_priority = 100, ji_maxAttempts = 1,
      ji_idempotencyKey = ''workflow:'' @ sc_workflowID (jb_Scope job) @ '':source-job:'' @ jb_ID job
        @ '':escalate-action-failure'',
      ji_scope = no_scope\<lparr>sc_workflowID := sc_workflowID (jb_Scope job),
                          sc_workflowAttemptID := sc_workflowAttemptID (jb_Scope job)\<rparr>,
      ji_provenance = no_provenance\<rparr>"

definition shouldEscalate :: "wf_state \<Rightarrow> job \<Rightarrow> bool" where
  "shouldEscalate state job \<longleftrightarrow>
     state \<in> {StatePlanning, StatePlanReady, StateDeveloping, StateReviewing, StatePRReady}
     \<or> jb_Kind job = ReconcilePendingEventsJobKind"

definition requestWorkflowActionFailureEscalationTx ::
  "job_env \<Rightarrow> instant \<Rightarrow> job \<Rightarrow> role_id \<Rightarrow> string \<Rightarrow> jobs_db \<Rightarrow> jobs_error + bool \<times> jobs_db" where
  "requestWorkflowActionFailureEscalationTx env now job resumeRole diagnostic db =
     (let failure = (\<lambda>escalation status.
            \<lparr>af_SourceJobID = jb_ID job, af_WorkflowID = sc_workflowID (jb_Scope job), af_EscalationJobID = escalation,
             af_SourceKind = jb_Kind job, af_Diagnostic = diagnostic, af_ResumeRole = resumeRole,
             af_ObservedAt = observedJobTime job, af_Status = status\<rparr>)
      in case je_WorkflowState env (sc_workflowID (jb_Scope job)) of
           None \<Rightarrow> Inl ErrJobQuery
         | Some state \<Rightarrow>
             if \<not> shouldEscalate state job
             then (case insert_failure (failure '''' ''TERMINAL'') db of
                     None \<Rightarrow> Inl ErrJobQuery
                   | Some (_, db1) \<Rightarrow> Inr (False, db1))
             else (case insertIdempotentJobTx env now (escalation_job env job resumeRole diagnostic) db of
                     Inl e \<Rightarrow> Inl e
                   | Inr (escalationID, db1) \<Rightarrow>
                       (case insert_failure (failure escalationID ''PENDING'') db1 of
                          None \<Rightarrow> Inl ErrJobQuery
                        | Some (n, db2) \<Rightarrow>
                            if n = 0
                            then (case find (\<lambda>f. af_SourceJobID f = jb_ID job) (db_Failures db2) of
                                    None \<Rightarrow> Inl ErrJobIdempotencyConflict
                                  | Some f \<Rightarrow>
                                      if af_EscalationJobID f \<noteq> escalationID \<or> af_Diagnostic f \<noteq> diagnostic
                                      then Inl ErrJobIdempotencyConflict else Inr (True, db2))
                            else Inr (True, db2))))"

definition exhaustExpiredWorkflowActionTx :: "job_env \<Rightarrow> instant \<Rightarrow> job \<Rightarrow> jobs_db \<Rightarrow> jobs_error + bool \<times> jobs_db" where
  "exhaustExpiredWorkflowActionTx env now job db =
     (let diagnostic = ''durable Workflow action lease expired on its final attempt'';
          fallback = je_FallbackRole env (jb_Payload job);
          role = (if jb_Kind job = ReconcilePendingEventsJobKind
                  then if ValidID fallback then Some fallback else je_ParticipantRole env job
                  else Some '''')
      in case role of
           None \<Rightarrow> Inl ErrPendingEventReconciliationFenceLost
         | Some r \<Rightarrow>
             if jb_Kind job = PublishHumanHandoffJobKind
             then (case je_CleanupPending env (jb_ID job) of
                     None \<Rightarrow> Inl ErrJobQuery
                   | Some cleanupPending \<Rightarrow>
                       (case if cleanupPending then je_ExhaustCleanup env job diagnostic else None of
                          Some e \<Rightarrow> Inl e
                        | None \<Rightarrow> requestWorkflowActionFailureEscalationTx env now job r diagnostic db))
             else requestWorkflowActionFailureEscalationTx env now job r diagnostic db)"


section \<open>Reclaiming and claiming\<close>

text \<open>The end of an attempt whose lease expired; \<open>e\<close> is the row as it was selected, \<open>action\<close> as it was read again.\<close>

definition expire_lease ::
  "job_env \<Rightarrow> instant \<Rightarrow> job \<Rightarrow> bool \<Rightarrow> int \<Rightarrow> job \<Rightarrow> jobs_db \<Rightarrow> jobs_error + jobs_db" where
  "expire_lease env now e retryScheduled retryDelay action db =
     (case update_attempts (fenced_attempt (jb_ID e) (row_token e) (jb_AttemptCount e))
         (\<lambda>a. a\<lparr>ja_Status := AttemptExpired, ja_FinishedAt := Some now, ja_Retryable := Some retryScheduled,
                ja_LastError := Some ''lease expired''\<rparr>) db of
        None \<Rightarrow> Inl ErrJobQuery
      | Some (_, db1) \<Rightarrow>
          (case if \<not> retryScheduled \<and> isExhaustionAwareWorkflowAction (jb_Kind e)
                then exhaustExpiredWorkflowActionTx env now action db1 else Inr (False, db1) of
             Inl err \<Rightarrow> Inl err
           | Inr (_, db2) \<Rightarrow>
               (case update_jobs
                   (\<lambda>j. fenced_job (jb_ID e) (row_token e) (jb_AttemptCount e) j \<and> jb_Status j = JobLeased)
                   (retried now retryScheduled retryDelay ''lease expired'') db2 of
                  None \<Rightarrow> Inl ErrJobQuery
                | Some (_, db3) \<Rightarrow> Inr db3)))"

definition reclaim_job :: "job_env \<Rightarrow> instant \<Rightarrow> job \<Rightarrow> jobs_db \<Rightarrow> jobs_error + jobs_db" where
  "reclaim_job env now e db =
     (if jb_AttemptCount e < jb_MaxAttempts e then expire_lease env now e True 0 e db
      else case Option.bind (job_by_id db (jb_ID e)) (scanJob env) of
        None \<Rightarrow> Inl ErrJobQuery
      | Some action \<Rightarrow>
          (case continueIrreversibleJobAfterExhaustionTx env now action db of
             Inl err \<Rightarrow> Inl err
           | Inr ((continued, _), db1) \<Rightarrow>
               if continued then expire_lease env now e True irreversibleRetryDelay action db1
               else expire_lease env now e False 0 action db1))"

definition expired_jobs :: "job_env \<Rightarrow> instant \<Rightarrow> string \<Rightarrow> string \<Rightarrow> jobs_db \<Rightarrow> job list" where
  "expired_jobs env now queue kind db =
     sort_key (\<lambda>j. (case jb_LeaseExpiresAt j of None \<Rightarrow> 0 | Some t \<Rightarrow> t, jb_ID j))
       (filter (\<lambda>j. jb_Status j = JobLeased \<and> jb_Kind j \<noteq> RunAgentTurnJobKind
                  \<and> (case jb_LeaseExpiresAt j of None \<Rightarrow> False | Some t \<Rightarrow> t \<le> now)
                  \<and> jb_Queue j = queue \<and> jb_Kind j = kind \<and> \<not> je_Locked env (jb_ID j)) (db_Jobs db))"

definition reclaimExpiredJobsTx ::
  "job_env \<Rightarrow> instant \<Rightarrow> nat \<Rightarrow> string \<Rightarrow> string \<Rightarrow> jobs_db \<Rightarrow> jobs_error + jobs_db" where
  "reclaimExpiredJobsTx env now limit queue kind db =
     foldE (reclaim_job env now) (take limit (expired_jobs env now queue kind db)) db"

definition jobClaimReclaimLimit :: nat where
  "jobClaimReclaimLimit = 32"

definition claimable_jobs :: "job_env \<Rightarrow> instant \<Rightarrow> string \<Rightarrow> string \<Rightarrow> jobs_db \<Rightarrow> job list" where
  "claimable_jobs env now queue kind db =
     sort_key (\<lambda>j. (- jb_Priority j, jb_AvailableAt j, jb_ID j))
       (filter (\<lambda>j. jb_Queue j = queue \<and> jb_Kind j = kind \<and> jb_Status j = JobAvailable \<and> jb_AvailableAt j \<le> now
                  \<and> jb_AttemptCount j < jb_MaxAttempts j \<and> \<not> je_Locked env (jb_ID j)) (db_Jobs db))"

definition ClaimJobKind ::
  "job_env \<Rightarrow> instant \<Rightarrow> string \<Rightarrow> string \<Rightarrow> string \<Rightarrow> int \<Rightarrow> jobs_db \<Rightarrow> jobs_error + job_lease option \<times> jobs_db" where
  "ClaimJobKind env now queue kind owner lease db =
     (if trims_to_empty kind then Inl ErrJobInput
      else if trims_to_empty queue then Inl ErrJobInput
      else if trims_to_empty owner then Inl ErrJobInput
      else if \<not> valid_positive_duration lease then Inl ErrJobInput
      else case reclaimExpiredJobsTx env now jobClaimReclaimLimit queue kind db of
        Inl e \<Rightarrow> Inl e
      | Inr db1 \<Rightarrow>
          (case claimable_jobs env now queue kind db1 of
             [] \<Rightarrow> Inr (None, db1)
           | j # _ \<Rightarrow>
               (case leaseJobTx env now (jb_ID j) owner (je_UUID env ''lease'') lease db1 of
                  Inl e \<Rightarrow> Inl e
                | Inr (claimed, db2) \<Rightarrow> Inr (Some claimed, db2))))"

section \<open>Working under a lease\<close>

datatype lease_action = HeartbeatAction | CompleteAction | FailAction

definition lease_id :: "job_lease \<Rightarrow> string" where
  "lease_id lease = jb_ID (jl_Job lease)"

definition lease_token :: "job_lease \<Rightarrow> string" where
  "lease_token lease = row_token (jl_Job lease)"

definition live_lease :: "instant \<Rightarrow> job_lease \<Rightarrow> job \<Rightarrow> bool" where
  "live_lease now lease j \<longleftrightarrow>
     jb_Status j = JobLeased \<and> jb_LeaseToken j = Some (lease_token lease) \<and> jb_AttemptCount j = jl_Attempt lease
     \<and> (case jb_LeaseExpiresAt j of None \<Rightarrow> False | Some t \<Rightarrow> t > now)"

definition withLockedJobLease ::
  "job_env \<Rightarrow> instant \<Rightarrow> job_lease \<Rightarrow> lease_action \<Rightarrow> (jobs_db \<Rightarrow> jobs_error + jobs_db) \<Rightarrow> jobs_db \<Rightarrow> jobs_error + jobs_db" where
  "withLockedJobLease env now lease action operation db =
     (if \<not> je_ValidUUID env (lease_id lease) \<or> \<not> je_ValidUUID env (lease_token lease) \<or> jl_Attempt lease \<le> 0
      then Inl ErrJobLeaseLost
      else case job_by_id db (lease_id lease) of
        None \<Rightarrow> Inl ErrJobLeaseLost
      | Some j \<Rightarrow>
          if \<not> live_lease now lease j then Inl ErrJobLeaseLost
          else if jb_Kind j = RunAgentTurnJobKind \<or> isAgentTurnRecoveryJob (jb_Kind j) \<and> action \<noteq> HeartbeatAction
          then Inl ErrAgentTurnJobRequiresTurnFence
          else if action = CompleteAction \<and> isFencedWorkflowJob (jb_Kind j)
          then Inl ErrWorkflowJobRequiresAcknowledgement
          else operation db)"

text \<open>One row of \<open>job_attempts\<close> and one of \<open>jobs\<close>, under the fence of the lease; each must change exactly one row.\<close>

definition change_attempt ::
  "string \<Rightarrow> string \<Rightarrow> int \<Rightarrow> jobs_error \<Rightarrow> (job_attempt \<Rightarrow> job_attempt) \<Rightarrow> jobs_db \<Rightarrow> jobs_error + jobs_db" where
  "change_attempt i token n e f db =
     (case update_attempts (fenced_attempt i token n) f db of
        None \<Rightarrow> Inl e
      | Some (rows, db1) \<Rightarrow> if rows \<noteq> 1 then Inl e else Inr db1)"

definition change_job ::
  "(job \<Rightarrow> bool) \<Rightarrow> jobs_error \<Rightarrow> (job \<Rightarrow> job) \<Rightarrow> jobs_db \<Rightarrow> jobs_error + jobs_db" where
  "change_job cond e f db =
     (case update_jobs cond f db of
        None \<Rightarrow> Inl e
      | Some (rows, db1) \<Rightarrow> if rows \<noteq> 1 then Inl e else Inr db1)"

definition HeartbeatJob :: "job_env \<Rightarrow> instant \<Rightarrow> job_lease \<Rightarrow> int \<Rightarrow> jobs_db \<Rightarrow> jobs_error + jobs_db" where
  "HeartbeatJob env now lease extension db =
     (if \<not> valid_positive_duration extension then Inl ErrJobInput
      else withLockedJobLease env now lease HeartbeatAction
        (\<lambda>db. let expiresAt = now + microseconds extension
              in case change_job (fenced_job (lease_id lease) (lease_token lease) (jl_Attempt lease)) ErrJobQuery
                   (\<lambda>j. j\<lparr>jb_HeartbeatAt := Some now, jb_LeaseExpiresAt := Some expiresAt, jb_UpdatedAt := now\<rparr>) db of
                   Inl e \<Rightarrow> Inl e
                 | Inr db1 \<Rightarrow>
                     change_attempt (lease_id lease) (lease_token lease) (jl_Attempt lease) ErrJobQuery
                       (\<lambda>a. a\<lparr>ja_HeartbeatAt := Some now, ja_LeaseExpiresAt := expiresAt\<rparr>) db1) db)"

definition CompleteJob :: "job_env \<Rightarrow> instant \<Rightarrow> job_lease \<Rightarrow> string \<Rightarrow> jobs_db \<Rightarrow> jobs_error + jobs_db" where
  "CompleteJob env now lease result db =
     (case je_Canonical env result of
        None \<Rightarrow> Inl ErrJobInput
      | Some canonical \<Rightarrow>
          withLockedJobLease env now lease CompleteAction
            (\<lambda>db. case change_attempt (lease_id lease) (lease_token lease) (jl_Attempt lease) ErrJobQuery
                     (\<lambda>a. a\<lparr>ja_Status := AttemptSucceeded, ja_FinishedAt := Some now,
                            ja_Result := Some (je_Jsonb env canonical)\<rparr>) db of
                   Inl e \<Rightarrow> Inl e
                 | Inr db1 \<Rightarrow>
                     change_job (fenced_job (lease_id lease) (lease_token lease) (jl_Attempt lease)) ErrJobQuery
                       (\<lambda>j. (released now JobSucceeded j)\<lparr>jb_CompletedAt := Some now,
                              jb_Result := Some (je_Jsonb env canonical), jb_LastError := None\<rparr>) db1) db)"

definition valid_retry_delay :: "int \<Rightarrow> bool" where
  "valid_retry_delay d \<longleftrightarrow> \<not> (d < 0 \<or> d > maximumJobDelay)"

definition FailJob ::
  "job_env \<Rightarrow> instant \<Rightarrow> job_lease \<Rightarrow> string option \<Rightarrow> bool \<Rightarrow> int \<Rightarrow> jobs_db \<Rightarrow> jobs_error + jobs_db" where
  "FailJob env now lease cause retryable retryDelay db =
     (case cause of
        None \<Rightarrow> Inl ErrJobInput
      | Some message \<Rightarrow>
          if \<not> valid_retry_delay retryDelay then Inl ErrJobInput
          else withLockedJobLease env now lease FailAction
            (\<lambda>db. case job_by_id db (lease_id lease) of
                   None \<Rightarrow> Inl ErrJobQuery
                 | Some before \<Rightarrow>
                     let willRetry = (retryable \<and> jl_Attempt lease < jb_MaxAttempts before)
                     in case change_attempt (lease_id lease) (lease_token lease) (jl_Attempt lease) ErrJobQuery
                          (\<lambda>a. a\<lparr>ja_Status := AttemptFailed, ja_FinishedAt := Some now,
                                 ja_Retryable := Some retryable, ja_LastError := Some message\<rparr>) db of
                          Inl e \<Rightarrow> Inl e
                        | Inr db1 \<Rightarrow>
                            change_job (fenced_job (lease_id lease) (lease_token lease) (jl_Attempt lease)) ErrJobQuery
                              (retried now willRetry retryDelay message) db1) db)"

end
