(* ===== verification/Job_Acknowledgements.thy ===== *)
theory Job_Acknowledgements
  imports Job_Leases
begin

text \<open>
  Acknowledgements of workflow jobs (\<open>store/workflow_acknowledgements.go\<close>,
  \<open>store/workflow_action_failures.go\<close>, \<open>store/mutation_recovery.go\<close>, \<open>store/turns.go\<close>): the fence that ties
  them to the leased row and its attempt, and the failure of a pending-event reconciliation, of a
  closure action and of the stop of a stale runtime.
\<close>

section \<open>The fence\<close>

definition fenced_row :: "string \<Rightarrow> string \<Rightarrow> job_lease \<Rightarrow> job \<Rightarrow> bool" where
  "fenced_row queue expectedKind lease job \<longleftrightarrow>
     (let l = jl_Job lease
      in jb_Kind job = expectedKind \<and> jb_Queue job = queue \<and> jb_Status job = JobLeased
         \<and> jb_LeaseOwner job = jb_LeaseOwner l \<and> jb_LeaseToken job = Some (lease_token lease)
         \<and> jb_AttemptCount job = jl_Attempt lease \<and> jb_Scope job = jb_Scope l \<and> jb_Payload job = jb_Payload l)"

definition valid_fence :: "job_env \<Rightarrow> job_lease \<Rightarrow> bool" where
  "valid_fence env lease \<longleftrightarrow>
     je_ValidUUID env (lease_id lease) \<and> je_ValidUUID env (lease_token lease) \<and> jl_Attempt lease > 0
     \<and> \<not> trims_to_empty (case jb_LeaseOwner (jl_Job lease) of None \<Rightarrow> '''' | Some owner \<Rightarrow> owner)"

definition unexpired :: "instant \<Rightarrow> job \<Rightarrow> bool" where
  "unexpired now job \<longleftrightarrow> (case jb_LeaseExpiresAt job of None \<Rightarrow> False | Some t \<Rightarrow> t > now)"

definition lockFencedWorkflowJob ::
  "job_env \<Rightarrow> instant \<Rightarrow> job_lease \<Rightarrow> string \<Rightarrow> jobs_error \<Rightarrow> jobs_db \<Rightarrow> jobs_error + job" where
  "lockFencedWorkflowJob env now lease expectedKind fenceErr db =
     (if \<not> valid_fence env lease then Inl fenceErr
      else case Option.bind (job_by_id db (lease_id lease)) (scanJob env) of
        None \<Rightarrow> Inl fenceErr
      | Some job \<Rightarrow>
          if \<not> fenced_row WorkflowActionQueue expectedKind lease job then Inl fenceErr
          else if \<not> unexpired now job then Inl fenceErr
          else case attempt_of db (jb_ID job) (jl_Attempt lease) of
            None \<Rightarrow> Inl fenceErr
          | Some a \<Rightarrow>
              if ja_Status a = AttemptLeased \<and> Some (ja_LeaseOwner a) = jb_LeaseOwner (jl_Job lease)
                 \<and> ja_LeaseToken a = lease_token lease \<and> ja_LeaseExpiresAt a > now
              then Inr job else Inl fenceErr)"

text \<open>Its counterpart for the recovery of an Agent Turn; \<open>je_RecoveryTurn\<close> is what it goes on to ask of the
  Turn (\<open>store/turns.go\<close>).\<close>

definition lockAgentTurnRecoveryJob ::
  "job_env \<Rightarrow> instant \<Rightarrow> job_lease \<Rightarrow> string \<Rightarrow> jobs_db \<Rightarrow> jobs_error + job" where
  "lockAgentTurnRecoveryJob env now lease expectedKind db =
     (if \<not> valid_fence env lease then Inl ErrAgentTurnRecoveryFenceLost
      else case Option.bind (job_by_id db (lease_id lease)) (scanJob env) of
        None \<Rightarrow> Inl ErrAgentTurnRecoveryFenceLost
      | Some job \<Rightarrow>
          if \<not> fenced_row AgentTurnRecoveryQueue expectedKind lease job then Inl ErrAgentTurnRecoveryFenceLost
          else if \<not> unexpired now job then Inl ErrAgentTurnRecoveryFenceLost
          else case attempt_of db (jb_ID job) (jl_Attempt lease) of
            None \<Rightarrow> Inl ErrAgentTurnRecoveryFenceLost
          | Some a \<Rightarrow>
              if ja_Status a = AttemptLeased \<and> ja_LeaseToken a = lease_token lease \<and> ja_LeaseExpiresAt a > now
              then (case je_RecoveryTurn env job of Some e \<Rightarrow> Inl e | None \<Rightarrow> Inr job)
              else Inl ErrAgentTurnRecoveryFenceLost)"

definition lockClosureJob :: "job_env \<Rightarrow> instant \<Rightarrow> job_lease \<Rightarrow> string \<Rightarrow> jobs_db \<Rightarrow> jobs_error + job" where
  "lockClosureJob env now lease expectedKind db =
     (case lockFencedWorkflowJob env now lease expectedKind ErrClosureSettlementFenceLost db of
        Inl e \<Rightarrow> Inl e
      | Inr job \<Rightarrow> if je_ClosureBarrier env job then Inr job else Inl ErrClosureSettlementFenceLost)"

definition lockClosureWorkflow :: "job_env \<Rightarrow> job_lease \<Rightarrow> jobs_error option" where
  "lockClosureWorkflow env lease =
     (let workflow = sc_workflowID (jb_Scope (jl_Job lease))
      in if \<not> je_ValidUUID env workflow then Some ErrClosureSettlementFenceLost
         else if \<not> je_WorkflowExists env workflow then Some ErrClosureSettlementFenceLost
         else None)"

section \<open>Finishing a fenced job\<close>

definition own_job :: "job \<Rightarrow> job \<Rightarrow> bool" where
  "own_job job j \<longleftrightarrow>
     jb_ID j = jb_ID job \<and> jb_LeaseToken j \<noteq> None \<and> jb_LeaseToken j = jb_LeaseToken job
     \<and> jb_AttemptCount j = jb_AttemptCount job \<and> jb_Status j = JobLeased"

definition failWorkflowActionJobTx ::
  "instant \<Rightarrow> job \<Rightarrow> string \<Rightarrow> bool \<Rightarrow> bool \<Rightarrow> int \<Rightarrow> jobs_db \<Rightarrow> jobs_error + jobs_db" where
  "failWorkflowActionJobTx now job diagnostic retryable retryScheduled retryDelay db =
     (case change_attempt (jb_ID job) (row_token job) (jb_AttemptCount job) ErrJobLeaseLost
         (\<lambda>a. a\<lparr>ja_Status := AttemptFailed, ja_FinishedAt := Some now, ja_Retryable := Some retryable,
                ja_LastError := Some diagnostic\<rparr>) db of
        Inl e \<Rightarrow> Inl e
      | Inr db1 \<Rightarrow>
          change_job (own_job job) ErrJobLeaseLost
            (\<lambda>j. (retried now retryScheduled retryDelay diagnostic j)\<lparr>jb_Result := None\<rparr>) db1)"

definition completeAcknowledgementJobTx ::
  "job_env \<Rightarrow> instant \<Rightarrow> job \<Rightarrow> string \<Rightarrow> jobs_error \<Rightarrow> jobs_db \<Rightarrow> jobs_error + jobs_db" where
  "completeAcknowledgementJobTx env now job result fenceErr db =
     (case je_Canonical env result of
        None \<Rightarrow> Inl ErrJobInput
      | Some canonical \<Rightarrow>
          (case change_attempt (jb_ID job) (row_token job) (jb_AttemptCount job) fenceErr
              (\<lambda>a. a\<lparr>ja_Status := AttemptSucceeded, ja_FinishedAt := Some now,
                     ja_Result := Some (je_Jsonb env canonical)\<rparr>) db of
             Inl e \<Rightarrow> Inl e
           | Inr db1 \<Rightarrow>
               change_job (own_job job) fenceErr
                 (\<lambda>j. (released now JobSucceeded j)\<lparr>jb_CompletedAt := Some now,
                        jb_Result := Some (je_Jsonb env canonical), jb_LastError := None\<rparr>) db1))"

text \<open>Irreversible work whose attempts are used up continues, or the fence is lost.\<close>

definition keep_going :: "job_env \<Rightarrow> instant \<Rightarrow> job \<Rightarrow> jobs_error \<Rightarrow> jobs_db \<Rightarrow> jobs_error + bool \<times> jobs_db" where
  "keep_going env now job fenceErr db =
     (if jb_AttemptCount job \<ge> jb_MaxAttempts job
      then (case continueIrreversibleJobAfterExhaustionTx env now job db of
              Inl e \<Rightarrow> Inl e
            | Inr ((continued, scheduled), db1) \<Rightarrow> if \<not> continued then Inl fenceErr else Inr (scheduled, db1))
      else Inr (False, db))"

section \<open>Failures of workflow actions\<close>

record failure_acknowledgement =
  fa_JobID :: string
  fa_WorkflowID :: string
  fa_RetryScheduled :: bool
  fa_EscalationScheduled :: bool
  fa_WorkflowRevision :: int64

text \<open>The cause of a failure is its message, absent for a nil error.\<close>

definition validateWorkflowActionFailure :: "string option \<Rightarrow> int \<Rightarrow> bool" where
  "validateWorkflowActionFailure cause retryDelay \<longleftrightarrow>
     (case cause of None \<Rightarrow> False | Some message \<Rightarrow> \<not> trims_to_empty message) \<and> valid_retry_delay retryDelay"

definition failure_role :: "job_env \<Rightarrow> job \<Rightarrow> role_id option" where
  "failure_role env job =
     (let fallback = je_FallbackRole env (jb_Payload job)
      in if je_KnownRole env fallback then Some fallback else je_ParticipantRole env job)"

definition AcknowledgePendingEventReconciliationFailure ::
  "job_env \<Rightarrow> instant \<Rightarrow> job_lease \<Rightarrow> string option \<Rightarrow> bool \<Rightarrow> int \<Rightarrow> jobs_db
    \<Rightarrow> jobs_error + failure_acknowledgement \<times> jobs_db" where
  "AcknowledgePendingEventReconciliationFailure env now lease cause retryable retryDelay db =
     (if \<not> validateWorkflowActionFailure cause retryDelay then Inl ErrJobInput
      else let message = the cause in
      case lockFencedWorkflowJob env now lease ReconcilePendingEventsJobKind ErrPendingEventReconciliationFenceLost db of
        Inl e \<Rightarrow> Inl e
      | Inr job \<Rightarrow>
          let retryScheduled = (retryable \<and> jb_AttemptCount job < jb_MaxAttempts job);
              workflow = sc_workflowID (jb_Scope job);
              acknowledgement = \<lparr>fa_JobID = jb_ID job, fa_WorkflowID = workflow, fa_RetryScheduled = retryScheduled,
                                 fa_EscalationScheduled = False, fa_WorkflowRevision = 0\<rparr>
          in (case failWorkflowActionJobTx now job message retryable retryScheduled retryDelay db of
                Inl _ \<Rightarrow> Inl ErrPendingEventReconciliationFenceLost
              | Inr db1 \<Rightarrow>
                  if retryScheduled then Inr (acknowledgement, db1)
                  else
                       (case failure_role env job of
                          None \<Rightarrow> Inl ErrPendingEventReconciliationFenceLost
                        | Some role \<Rightarrow>
                            (case requestWorkflowActionFailureEscalationTx env now job role message db1 of
                               Inl e \<Rightarrow> Inl e
                             | Inr (scheduled, db2) \<Rightarrow>
                                 (case je_WorkflowRevision env workflow of
                                    None \<Rightarrow> Inl ErrJobQuery
                                  | Some revision \<Rightarrow>
                                      Inr (acknowledgement\<lparr>fa_EscalationScheduled := scheduled,
                                             fa_WorkflowRevision := revision\<rparr>, db2))))))"

text \<open>A wait costs no attempt: the budget grows by the one that is used.\<close>

definition extend_attempts :: "job_env \<Rightarrow> instant \<Rightarrow> job \<Rightarrow> bool \<Rightarrow> jobs_db \<Rightarrow> jobs_error + bool \<times> jobs_db" where
  "extend_attempts env now job actualFailure db =
     (if \<not> actualFailure
      then (case update_jobs (\<lambda>j. jb_ID j = jb_ID job) (\<lambda>j. j\<lparr>jb_MaxAttempts := jb_MaxAttempts j + 1\<rparr>) db of
              None \<Rightarrow> Inl ErrJobQuery
            | Some (_, db1) \<Rightarrow> Inr (False, db1))
      else keep_going env now job ErrClosureSettlementFenceLost db)"

definition closure_kind :: "string \<Rightarrow> bool" where
  "closure_kind kind \<longleftrightarrow> kind = StopAgentTurnJobKind \<or> kind = SettleClosureJobKind"

definition acknowledgeClosureActionFailure ::
  "job_env \<Rightarrow> instant \<Rightarrow> job_lease \<Rightarrow> string option \<Rightarrow> int \<Rightarrow> bool \<Rightarrow> jobs_db
    \<Rightarrow> jobs_error + failure_acknowledgement \<times> jobs_db" where
  "acknowledgeClosureActionFailure env now lease cause retryDelay actualFailure db =
     (let expectedKind = jb_Kind (jl_Job lease) in
      if \<not> validateWorkflowActionFailure cause retryDelay then Inl ErrJobInput
      else if \<not> closure_kind expectedKind
      then Inl ErrClosureSettlementFenceLost
      else case lockClosureWorkflow env lease of
        Some e \<Rightarrow> Inl e
      | None \<Rightarrow>
          (case lockClosureJob env now lease expectedKind db of
             Inl e \<Rightarrow> Inl e
           | Inr job \<Rightarrow>
               (case extend_attempts env now job actualFailure db of
                     Inl e \<Rightarrow> Inl e
                   | Inr (scheduled, db1) \<Rightarrow>
                       (case failWorkflowActionJobTx now job (the cause) True True retryDelay db1 of
                          Inl _ \<Rightarrow> Inl ErrClosureSettlementFenceLost
                        | Inr db2 \<Rightarrow>
                            (case je_WorkflowRevision env (sc_workflowID (jb_Scope job)) of
                               None \<Rightarrow> Inl ErrJobQuery
                             | Some revision \<Rightarrow>
                                 Inr (\<lparr>fa_JobID = jb_ID job, fa_WorkflowID = sc_workflowID (jb_Scope job),
                                       fa_RetryScheduled = True, fa_EscalationScheduled = scheduled,
                                       fa_WorkflowRevision = revision\<rparr>, db2))))))"

definition AcknowledgeClosureActionFailure ::
  "job_env \<Rightarrow> instant \<Rightarrow> job_lease \<Rightarrow> string option \<Rightarrow> int \<Rightarrow> jobs_db
    \<Rightarrow> jobs_error + failure_acknowledgement \<times> jobs_db" where
  "AcknowledgeClosureActionFailure env now lease cause retryDelay db =
     acknowledgeClosureActionFailure env now lease cause retryDelay True db"

text \<open>The message of \<open>ErrClosureSettlementUnsettled\<close> is \<open>unsettled\<close>.\<close>

definition AcknowledgeClosureSettlementWait ::
  "job_env \<Rightarrow> instant \<Rightarrow> string \<Rightarrow> job_lease \<Rightarrow> int \<Rightarrow> jobs_db \<Rightarrow> jobs_error + failure_acknowledgement \<times> jobs_db" where
  "AcknowledgeClosureSettlementWait env now unsettled lease retryDelay db =
     acknowledgeClosureActionFailure env now lease (Some unsettled) retryDelay False db"

text \<open>The stop of a stale runtime is never given up: the attempt fails, the job goes on. Whether a handoff was
  scheduled.\<close>

definition AcknowledgeRecoveredRuntimeStopFailure ::
  "job_env \<Rightarrow> instant \<Rightarrow> job_lease \<Rightarrow> string option \<Rightarrow> int \<Rightarrow> jobs_db \<Rightarrow> jobs_error + bool \<times> jobs_db" where
  "AcknowledgeRecoveredRuntimeStopFailure env now lease cause retryDelay db =
     (if \<not> validateWorkflowActionFailure cause retryDelay then Inl ErrJobInput
      else case lockAgentTurnRecoveryJob env now lease StopStaleRuntimeJobKind db of
        Inl e \<Rightarrow> Inl e
      | Inr job \<Rightarrow>
          (case keep_going env now job ErrAgentTurnRecoveryFenceLost db of
             Inl e \<Rightarrow> Inl e
           | Inr (scheduled, db1) \<Rightarrow>
               (case failWorkflowActionJobTx now job (the cause) True True retryDelay db1 of
                  Inl _ \<Rightarrow> Inl ErrAgentTurnRecoveryFenceLost
                | Inr db2 \<Rightarrow> Inr (scheduled, db2))))"

end
