(* ===== verification/Job_Preparations.thy ===== *)
theory Job_Preparations
  imports Job_Acknowledgements Workflow_Definition
begin

text \<open>
  Jobs that other transactions change (\<open>store/preparation.go\<close>, \<open>store/review_admission.go\<close>,
  \<open>store/workflow.go\<close>, \<open>store/retention.go\<close>, \<open>store/workflow_acknowledgements.go\<close>): the preparation of an
  Agent Turn, whose payload follows the Workflow while it waits; a revalidation, bound to its Turn; and work
  that is cancelled.

  Of these transactions the changes of the tables of jobs are modelled, and what they check before. The rows
  of other tables that they read are arguments; what they write to other tables is left out.
\<close>

section \<open>Preparations\<close>

record preparation_payload =
  pp_Mode :: "assignment_generation option"
  pp_Stage :: stage_id
  pp_Role :: role_id
  pp_Purpose :: turn_purpose
  pp_ExpectedHeadSHA :: string
  pp_RetryOfTurnID :: string
  pp_Revision :: int64

text \<open>What a preparation reads elsewhere: the JSON text of a payload (a mode is absent if it is none of the
  three), the Definition and the policies of the deployment, a Workflow (status, revision, desired status of its
  Assignments and of the runtime), an Attempt (whether it is active, its Stage), whether the Workflow has an active
  Turn or a Session under human control, and its active Change Proposal (identity, head, Pull Request and its
  number), a row at most. The outer option is a query that fails, for a Workflow or an Attempt also one without
  rows. \<open>pr_Admission\<close> is the verdict on the review admission of the job, \<open>pr_Failed\<close> the revision that the Workflow
  reaches if a preparation fails for good.\<close>

record preparation_reads =
  pr_Decode :: "string \<Rightarrow> preparation_payload option"
  pr_Encode :: "preparation_payload \<Rightarrow> string"
  pr_Definition :: wf_definition
  pr_Policies :: policy_catalog
  pr_Workflow :: "string \<Rightarrow> (wf_state \<times> int64 \<times> string \<times> string) option"
  pr_Attempt :: "string \<Rightarrow> string \<Rightarrow> (bool \<times> stage_id) option"
  pr_ActiveTurn :: "string \<Rightarrow> bool option"
  pr_HumanControlled :: "string \<Rightarrow> bool option"
  pr_Proposal :: "string \<Rightarrow> (string \<times> string \<times> int64 \<times> int64) option option"
  pr_Admission :: "job \<Rightarrow> jobs_error option"
  pr_Failed :: "job \<Rightarrow> preparation_payload \<Rightarrow> jobs_error + int64"

abbreviation job_workflow :: "job \<Rightarrow> string" where "job_workflow j \<equiv> sc_workflowID (jb_Scope j)"

definition validAgentTurnPreparationPayload ::
  "job_env \<Rightarrow> preparation_reads \<Rightarrow> preparation_payload \<Rightarrow> job \<Rightarrow> bool" where
  "validAgentTurnPreparationPayload env r p job \<longleftrightarrow>
     (let s = jb_Scope job in
      \<not> (sc_workflowID s = '''' \<or> sc_workflowAttemptID s = '''' \<or> sc_agentParticipantID s \<noteq> ''''
         \<or> sc_agentSessionID s \<noteq> '''' \<or> sc_agentTurnID s \<noteq> '''' \<or> sc_executionEpoch s \<noteq> 0 \<or> pp_Revision p \<le> 0)
      \<and> pp_Mode p \<noteq> None \<and> Stage (pr_Definition r) (pp_Stage p) \<noteq> None \<and> policy_Contains (pr_Policies r) (pp_Role p)
      \<and> pp_Purpose p \<in> {TurnPurposeInitialPlanning, TurnPurposeInitialDevelopment, TurnPurposeReview,
           TurnPurposeRequestedChanges, TurnPurposeRetry, TurnPurposeSynchronization, TurnPurposeReactivation}
      \<and> (pp_RetryOfTurnID p = '''') = (pp_Purpose p \<noteq> TurnPurposeRetry)
      \<and> (pp_RetryOfTurnID p = '''' \<or> je_ValidUUID env (pp_RetryOfTurnID p)))"

definition lockAgentTurnPreparationWorkflow :: "job_env \<Rightarrow> job_lease \<Rightarrow> bool" where
  "lockAgentTurnPreparationWorkflow env lease \<longleftrightarrow>
     (let w = job_workflow (jl_Job lease) in je_ValidUUID env w \<and> je_WorkflowExists env w)"

text \<open>While a synchronisation moved the payload on, the lease of the Reviewer's preparation stays good.\<close>

definition retargeted_lease :: "preparation_reads \<Rightarrow> string \<Rightarrow> job_lease \<Rightarrow> job_lease option" where
  "retargeted_lease r current lease =
     (if current = jb_Payload (jl_Job lease) then Some lease
      else case (pr_Decode r (jb_Payload (jl_Job lease)), pr_Decode r current) of
        (Some old, Some updated) \<Rightarrow>
          if old\<lparr>pp_ExpectedHeadSHA := pp_ExpectedHeadSHA updated, pp_Revision := pp_Revision updated\<rparr> \<noteq> updated
             \<or> pp_Role updated \<noteq> Reviewer
          then None
          else Some (lease\<lparr>jl_Job := (jl_Job lease)\<lparr>jb_Payload := current\<rparr>\<rparr>)
      | _ \<Rightarrow> None)"

definition lockPreparationJobTx ::
  "job_env \<Rightarrow> preparation_reads \<Rightarrow> instant \<Rightarrow> job_lease \<Rightarrow> jobs_db \<Rightarrow> jobs_error + job" where
  "lockPreparationJobTx env r now lease db =
     (case Option.bind (job_by_id db (lease_id lease)) (je_Canonical env \<circ> jb_Payload) of
        None \<Rightarrow> Inl ErrAgentTurnPreparationFenceLost
      | Some current \<Rightarrow>
          (case retargeted_lease r current lease of
             None \<Rightarrow> Inl ErrAgentTurnPreparationFenceLost
           | Some lease' \<Rightarrow>
               lockFencedWorkflowJob env now lease' PrepareAgentTurnJobKind ErrAgentTurnPreparationFenceLost db))"

definition state_allows_turns :: "wf_state \<Rightarrow> bool" where
  "state_allows_turns status \<longleftrightarrow> status \<notin> {StateClosing, StateClosed, StateNeedsHuman}"

text \<open>The Stage of the payload is the one that the Workflow is in.\<close>

definition stage_fits :: "preparation_reads \<Rightarrow> wf_state \<Rightarrow> preparation_payload \<Rightarrow> bool" where
  "stage_fits r status p \<longleftrightarrow>
     (case Stage (pr_Definition r) (pp_Stage p) of
        None \<Rightarrow> False
      | Some stage \<Rightarrow> sd_State stage = status \<and> sd_Role stage = pp_Role p
          \<and> AcceptsPurpose (pr_Definition r) (pp_Stage p) (pp_Purpose p))"

definition workflow_fits :: "preparation_reads \<Rightarrow> job \<Rightarrow> preparation_payload \<Rightarrow> bool" where
  "workflow_fits r job p \<longleftrightarrow>
     (case pr_Workflow r (job_workflow job) of
        None \<Rightarrow> False
      | Some (status, revision, assignments, runtime) \<Rightarrow>
          revision = pp_Revision p \<and> state_allows_turns status \<and> assignments = ''ACTIVE'' \<and> runtime = ''ACTIVE''
          \<and> stage_fits r status p
          \<and> pr_Attempt r (sc_workflowAttemptID (jb_Scope job)) (job_workflow job) = Some (True, pp_Stage p)
          \<and> pr_ActiveTurn r (job_workflow job) = Some False)"

text \<open>The identity of the Change Proposal, empty if there is none.\<close>

definition lockPreparationWorkflow :: "preparation_reads \<Rightarrow> job \<Rightarrow> preparation_payload \<Rightarrow> jobs_error + string" where
  "lockPreparationWorkflow r job p =
     (if \<not> workflow_fits r job p then Inl ErrAgentTurnPreparationFenceLost
      else case pr_Proposal r (job_workflow job) of
        Some None \<Rightarrow>
          if pp_ExpectedHeadSHA p \<noteq> ''''
             \<or> (case policy_Lookup (pr_Policies r) (pp_Role p) of None \<Rightarrow> True | Some policy \<Rightarrow> pol_RequiresChangeProposal policy)
          then Inl ErrAgentTurnPreparationFenceLost else Inr ''''
      | Some (Some (proposal, head, _)) \<Rightarrow>
          if pp_ExpectedHeadSHA p = '''' \<or> pp_ExpectedHeadSHA p \<noteq> head
          then Inl ErrAgentTurnPreparationFenceLost else Inr proposal
      | None \<Rightarrow> Inl ErrAgentTurnPreparationFenceLost)"

definition validVerifiedHeadSHA :: "string \<Rightarrow> bool" where
  "validVerifiedHeadSHA value \<longleftrightarrow>
     (length value = 40 \<or> length value = 64)
     \<and> list_all (\<lambda>b. 48 \<le> b \<and> b \<le> 57 \<or> 97 \<le> b \<and> b \<le> 102 \<or> 65 \<le> b \<and> b \<le> 70) (go_bytes value)"

text \<open>With a head that was verified at GitHub, and the head that the Turn gets if it is not the expected one.\<close>

definition lockPreparationWorkflowVerified ::
  "preparation_reads \<Rightarrow> job \<Rightarrow> preparation_payload \<Rightarrow> string \<Rightarrow> int64 \<Rightarrow> int64 \<Rightarrow> jobs_error + string \<times> string" where
  "lockPreparationWorkflowVerified r job p verified pr number =
     (if verified = ''''
      then (case lockPreparationWorkflow r job p of Inl e \<Rightarrow> Inl e | Inr proposal \<Rightarrow> Inr (proposal, ''''))
      else if \<not> validVerifiedHeadSHA verified \<or> pr \<le> 0 \<or> number \<le> 0 then Inl ErrAgentTurnPreparationFenceLost
      else if \<not> workflow_fits r job p then Inl ErrAgentTurnPreparationFenceLost
      else case pr_Proposal r (job_workflow job) of
        None \<Rightarrow> Inl ErrJobQuery
      | Some None \<Rightarrow> Inl ErrAgentTurnPreparationFenceLost
      | Some (Some (proposal, stored, stored_pr, stored_number)) \<Rightarrow>
          if stored_pr \<noteq> pr \<or> stored_number \<noteq> number then Inl ErrAgentTurnPreparationFenceLost
          else if stored = pp_ExpectedHeadSHA p \<and> stored = verified then Inr (proposal, '''')
          else if stored = pp_ExpectedHeadSHA p \<or> stored = verified then Inr (proposal, verified)
          else Inl ErrAgentTurnPreparationVerificationStale)"

section \<open>Waiting for a review\<close>

definition lockReviewAdmissionJob ::
  "job_env \<Rightarrow> preparation_reads \<Rightarrow> instant \<Rightarrow> job_lease \<Rightarrow> jobs_db \<Rightarrow> jobs_error + job \<times> preparation_payload" where
  "lockReviewAdmissionJob env r now lease db =
     (if \<not> lockAgentTurnPreparationWorkflow env lease then Inl ErrAgentTurnPreparationFenceLost
      else case lockPreparationJobTx env r now lease db of
        Inl e \<Rightarrow> Inl e
      | Inr job \<Rightarrow>
          (case pr_Decode r (jb_Payload job) of
             None \<Rightarrow> Inl ErrAgentTurnPreparationFenceLost
           | Some p \<Rightarrow>
               if \<not> validAgentTurnPreparationPayload env r p job \<or> pp_Role p \<noteq> Reviewer
               then Inl ErrAgentTurnPreparationFenceLost
               else case pr_HumanControlled r (job_workflow job) of
                 None \<Rightarrow> Inl ErrJobQuery
               | Some controlled \<Rightarrow>
                   if controlled then Inl ErrAgentTurnPreparationFenceLost else Inr (job, p)))"

definition set_payload :: "job_env \<Rightarrow> string \<Rightarrow> job \<Rightarrow> job" where
  "set_payload env payload j = j\<lparr>jb_Payload := je_Jsonb env payload\<rparr>"

text \<open>\<open>RecordReviewAdmission\<close>: an observation of another head moves the preparation there. The checks of the
  admission itself come first here.\<close>

definition RecordReviewAdmission ::
  "job_env \<Rightarrow> preparation_reads \<Rightarrow> instant \<Rightarrow> job_lease \<Rightarrow> string \<Rightarrow> jobs_db \<Rightarrow> jobs_error + jobs_db" where
  "RecordReviewAdmission env r now lease head db =
     (case lockReviewAdmissionJob env r now lease db of
        Inl e \<Rightarrow> Inl e
      | Inr (job, p) \<Rightarrow>
     (case lockPreparationWorkflow r job p of
        Inl e \<Rightarrow> Inl e
      | Inr _ \<Rightarrow>
     (case pr_Admission r job of
        Some e \<Rightarrow> Inl e
      | None \<Rightarrow>
          if head = pp_ExpectedHeadSHA p then Inr db
          else case pr_Proposal r (job_workflow job) of
            Some (Some (_, _, pr, number)) \<Rightarrow>
              (case lockPreparationWorkflowVerified r job p head pr number of
                 Inl e \<Rightarrow> Inl e
               | Inr _ \<Rightarrow>
                   (case update_jobs (\<lambda>j. jb_ID j = jb_ID job)
                       (set_payload env (pr_Encode r (p\<lparr>pp_ExpectedHeadSHA := head\<rparr>))) db of
                      None \<Rightarrow> Inl ErrJobQuery
                    | Some (_, db1) \<Rightarrow> Inr db1))
          | _ \<Rightarrow> Inl ErrJobQuery)))"

text \<open>\<open>DeferReviewAdmission\<close>: the attempt succeeded, the job waits, and the wait costs no attempt.\<close>

definition deferred :: "instant \<Rightarrow> int \<Rightarrow> job \<Rightarrow> job" where
  "deferred now delay j =
     (released now JobAvailable j)\<lparr>jb_MaxAttempts := jb_MaxAttempts j + 1, jb_AvailableAt := now + microseconds delay\<rparr>"

definition DeferReviewAdmission ::
  "job_env \<Rightarrow> preparation_reads \<Rightarrow> instant \<Rightarrow> job_lease \<Rightarrow> int \<Rightarrow> jobs_db \<Rightarrow> jobs_error + jobs_db" where
  "DeferReviewAdmission env r now lease delay db =
     (if delay < 1000000000 \<or> delay > 60 * 1000000000 then Inl ErrJobInput
      else case lockReviewAdmissionJob env r now lease db of
        Inl e \<Rightarrow> Inl e
      | Inr (job, p) \<Rightarrow>
     (case lockPreparationWorkflow r job p of
        Inl e \<Rightarrow> Inl e
      | Inr _ \<Rightarrow>
     (case update_attempts (fenced_attempt (jb_ID job) (lease_token lease) (jl_Attempt lease))
         (\<lambda>a. a\<lparr>ja_Status := AttemptSucceeded, ja_FinishedAt := Some now,
                ja_Result := Some (je_Jsonb env ''{\"healthy_ci_wait\":true}'')\<rparr>) db of
        None \<Rightarrow> Inl ErrJobQuery
      | Some (_, db1) \<Rightarrow>
     (case update_jobs (\<lambda>j. jb_ID j = jb_ID job) (deferred now delay) db1 of
        None \<Rightarrow> Inl ErrJobQuery
      | Some (_, db2) \<Rightarrow> Inr db2))))"

section \<open>A preparation that fails\<close>

text \<open>\<open>refreshSupersededPreparationTx\<close>: the payload for the Workflow as it is now, if it still wants the Turn.\<close>

definition refreshed_payload :: "preparation_reads \<Rightarrow> job \<Rightarrow> preparation_payload \<Rightarrow> jobs_error + preparation_payload option" where
  "refreshed_payload r job p =
     (case pr_Workflow r (job_workflow job) of
        None \<Rightarrow> Inl ErrJobQuery
      | Some (status, revision, assignments, runtime) \<Rightarrow>
          if revision = pp_Revision p \<or> \<not> state_allows_turns status \<or> assignments \<noteq> ''ACTIVE'' \<or> runtime \<noteq> ''ACTIVE''
             \<or> \<not> stage_fits r status p
             \<or> pr_Attempt r (sc_workflowAttemptID (jb_Scope job)) (job_workflow job) \<noteq> Some (True, pp_Stage p)
          then Inr None
          else case pr_ActiveTurn r (job_workflow job) of
            None \<Rightarrow> Inl ErrJobQuery
          | Some active \<Rightarrow>
              if active then Inr None
              else case pr_Proposal r (job_workflow job) of
                None \<Rightarrow> Inl ErrJobQuery
              | Some None \<Rightarrow> Inr None
              | Some (Some (_, head, _)) \<Rightarrow> Inr (Some (p\<lparr>pp_Revision := revision, pp_ExpectedHeadSHA := head\<rparr>)))"

definition refreshSupersededPreparationTx ::
  "job_env \<Rightarrow> preparation_reads \<Rightarrow> instant \<Rightarrow> job \<Rightarrow> preparation_payload \<Rightarrow> jobs_db
    \<Rightarrow> jobs_error + preparation_payload option \<times> jobs_db" where
  "refreshSupersededPreparationTx env r now job p db =
     (case refreshed_payload r job p of
        Inl e \<Rightarrow> Inl e
      | Inr None \<Rightarrow> Inr (None, db)
      | Inr (Some q) \<Rightarrow>
          (case update_jobs (\<lambda>j. jb_ID j = jb_ID job)
              (\<lambda>j. (set_payload env (pr_Encode r q) j)\<lparr>jb_UpdatedAt := now\<rparr>) db of
             None \<Rightarrow> Inl ErrJobQuery
           | Some (_, db1) \<Rightarrow> Inr (Some q, db1)))"

text \<open>A failed preparation is tried again, on a fresh payload if the Workflow went on (\<open>superseded\<close> tells whether the
  cause may come from that), or hands the Workflow over to a person. Whether it is tried again, and the
  revision of the Workflow.\<close>

definition restaged ::
  "job_env \<Rightarrow> preparation_reads \<Rightarrow> instant \<Rightarrow> job \<Rightarrow> preparation_payload \<Rightarrow> bool \<Rightarrow> bool \<Rightarrow> jobs_db
    \<Rightarrow> jobs_error + (preparation_payload \<times> bool) \<times> jobs_db" where
  "restaged env r now job p retryable superseded db =
     (case lockPreparationWorkflow r job p of
        Inr _ \<Rightarrow> Inr ((p, retryable), db)
      | Inl e \<Rightarrow>
          if e \<noteq> ErrAgentTurnPreparationFenceLost \<or> \<not> retryable \<and> \<not> superseded then Inl e
          else case refreshSupersededPreparationTx env r now job p db of
            Inl e' \<Rightarrow> Inl e'
          | Inr (None, _) \<Rightarrow> Inl e
          | Inr (Some q, db1) \<Rightarrow> Inr ((q, True), db1))"

definition AcknowledgeAgentTurnPreparationFailure ::
  "job_env \<Rightarrow> preparation_reads \<Rightarrow> instant \<Rightarrow> job_lease \<Rightarrow> string option \<Rightarrow> bool \<Rightarrow> bool \<Rightarrow> int \<Rightarrow> jobs_db
    \<Rightarrow> jobs_error + (bool \<times> int64) \<times> jobs_db" where
  "AcknowledgeAgentTurnPreparationFailure env r now lease cause superseded retryable retryDelay db =
     (if \<not> validateWorkflowActionFailure cause retryDelay then Inl ErrJobInput
      else if \<not> lockAgentTurnPreparationWorkflow env lease then Inl ErrAgentTurnPreparationFenceLost
      else case lockFencedWorkflowJob env now lease PrepareAgentTurnJobKind ErrAgentTurnPreparationFenceLost db of
        Inl e \<Rightarrow> Inl e
      | Inr job \<Rightarrow>
     (case pr_Decode r (jb_Payload job) of
        None \<Rightarrow> Inl ErrAgentTurnPreparationFenceLost
      | Some p \<Rightarrow>
          if \<not> validAgentTurnPreparationPayload env r p job then Inl ErrAgentTurnPreparationFenceLost
          else case restaged env r now job p retryable superseded db of
            Inl e \<Rightarrow> Inl e
          | Inr ((q, again), db1) \<Rightarrow>
              let retryScheduled = (again \<and> jb_AttemptCount job < jb_MaxAttempts job) in
              (case change_attempt (jb_ID job) (row_token job) (jb_AttemptCount job) ErrAgentTurnPreparationFenceLost
                  (\<lambda>a. a\<lparr>ja_Status := AttemptFailed, ja_FinishedAt := Some now, ja_Retryable := Some again,
                         ja_LastError := cause\<rparr>) db1 of
                 Inl e \<Rightarrow> Inl e
               | Inr db2 \<Rightarrow>
              (case change_job (own_job job) ErrAgentTurnPreparationFenceLost
                  (retried now retryScheduled retryDelay (the cause)) db2 of
                 Inl e \<Rightarrow> Inl e
               | Inr db3 \<Rightarrow>
                   if retryScheduled then Inr ((True, pp_Revision q), db3)
                   else case pr_Failed r job q of
                     Inl e \<Rightarrow> Inl e
                   | Inr revision \<Rightarrow> Inr ((False, revision), db3)))))"

section \<open>Actions of a Workflow\<close>

text \<open>What an action is enqueued for, and the key that makes it so once.\<close>

record action_source =
  as_Delivery :: string
  as_Settlement :: string
  as_InternalEvent :: string
  as_Workflow :: string
  as_Attempt :: string

definition workflowActionIdempotencyKey :: "action_source \<Rightarrow> string \<Rightarrow> string" where
  "workflowActionIdempotencyKey s actionKey =
     ''workflow:'' @ as_Workflow s
     @ (if as_InternalEvent s \<noteq> '''' then '':internal-event:'' @ as_InternalEvent s
        else if as_Settlement s \<noteq> '''' then '':settlement:'' @ as_Settlement s
        else '':delivery:'' @ as_Delivery s)
     @ '':action:'' @ actionKey"

definition action_job :: "action_source \<Rightarrow> string \<Rightarrow> string \<Rightarrow> string \<Rightarrow> job_insert" where
  "action_job s actionKey kind payload =
     \<lparr>ji_queue = WorkflowActionQueue, ji_kind = kind, ji_payload = payload, ji_priority = 0, ji_maxAttempts = 3,
      ji_idempotencyKey = workflowActionIdempotencyKey s actionKey,
      ji_scope = no_scope\<lparr>sc_workflowID := as_Workflow s, sc_workflowAttemptID := as_Attempt s\<rparr>,
      ji_provenance = \<lparr>pv_normalizedEventID = as_Delivery s, pv_agentTurnSettlementID = as_Settlement s,
        pv_workflowInternalEventID = as_InternalEvent s,
        pv_actionKey = if as_Delivery s = '''' \<and> as_Settlement s = '''' \<and> as_InternalEvent s = '''' then ''''
                       else actionKey\<rparr>\<rparr>"

text \<open>A synchronisation of the Reviewer moves the preparation that waits, if there is one, to the new head.\<close>

definition pending_preparation :: "action_source \<Rightarrow> jobs_db \<Rightarrow> job option" where
  "pending_preparation s db =
     find (\<lambda>j. job_workflow j = as_Workflow s \<and> sc_workflowAttemptID (jb_Scope j) = as_Attempt s
               \<and> jb_Kind j = PrepareAgentTurnJobKind \<and> (jb_Status j = JobAvailable \<or> jb_Status j = JobLeased)) (db_Jobs db)"

definition synchronizes :: "preparation_payload option \<Rightarrow> bool" where
  "synchronizes incoming \<longleftrightarrow>
     (case incoming of None \<Rightarrow> False | Some p \<Rightarrow> pp_Role p = Reviewer \<and> pp_Purpose p = TurnPurposeSynchronization)"

definition enqueueWorkflowJobWithInternalProvenance ::
  "job_env \<Rightarrow> preparation_reads \<Rightarrow> instant \<Rightarrow> action_source \<Rightarrow> string \<Rightarrow> string \<Rightarrow> string \<Rightarrow> jobs_db
    \<Rightarrow> jobs_error + string \<times> jobs_db" where
  "enqueueWorkflowJobWithInternalProvenance env r now s actionKey kind payload db =
     (let insert = insertIdempotentJobTx env now (action_job s actionKey kind payload) db;
          incoming = (if kind = PrepareAgentTurnJobKind then pr_Decode r payload else None) in
      if \<not> synchronizes incoming then insert
      else case pending_preparation s db of
        None \<Rightarrow> insert
      | Some j \<Rightarrow>
          (case pr_Decode r (jb_Payload j) of
             None \<Rightarrow> Inl ErrJobInput
           | Some pending \<Rightarrow>
               let p = the incoming in
               if pp_Role pending \<noteq> pp_Role p \<or> pp_Stage pending \<noteq> pp_Stage p then Inl ErrWorkflowDecisionInvalid
               else case update_jobs (\<lambda>k. jb_ID k = jb_ID j)
                   (\<lambda>k. (set_payload env (pr_Encode r (pending\<lparr>pp_ExpectedHeadSHA := pp_ExpectedHeadSHA p,
                             pp_Revision := pp_Revision p\<rparr>)) k)\<lparr>jb_AvailableAt := now, jb_UpdatedAt := now\<rparr>) db of
                 None \<Rightarrow> Inl ErrJobQuery
               | Some (_, db1) \<Rightarrow> Inr (jb_ID j, db1)))"

text \<open>A revalidation (\<open>EnqueueTerminalRevalidationAction\<close>) is bound to the Turn it starts from, whose
  participant, session and epoch are read if they fit; it may be tried a million times.\<close>

definition bound :: "string \<Rightarrow> string \<times> string \<times> int64 \<Rightarrow> job \<Rightarrow> job" where
  "bound turn source j =
     (case source of (participant, session, epoch) \<Rightarrow>
        j\<lparr>jb_Queue := AgentTurnRecoveryQueue, jb_MaxAttempts := 1000000,
          jb_Scope := (jb_Scope j)\<lparr>sc_agentParticipantID := participant, sc_agentSessionID := session,
                                   sc_agentTurnID := turn, sc_executionEpoch := epoch\<rparr>\<rparr>)"

definition enqueue_revalidation ::
  "job_env \<Rightarrow> preparation_reads \<Rightarrow> instant \<Rightarrow> action_source \<Rightarrow> string \<Rightarrow> string
    \<Rightarrow> (string \<times> string \<times> int64) option \<Rightarrow> jobs_db \<Rightarrow> jobs_error + jobs_db" where
  "enqueue_revalidation env r now s turn payload source db =
     (if as_Delivery s = '''' \<or> \<not> je_ValidUUID env turn then Inl ErrWorkflowDecisionInvalid
      else case enqueueWorkflowJobWithInternalProvenance env r now (s\<lparr>as_Settlement := '''', as_InternalEvent := ''''\<rparr>)
                  ''revalidate-terminal-intent'' RevalidateTerminalIntentJobKind payload db of
        Inl e \<Rightarrow> Inl e
      | Inr (i, db1) \<Rightarrow>
          (case source of
             None \<Rightarrow> Inl ErrWorkflowDecisionInvalid
           | Some read \<Rightarrow> change_job (\<lambda>j. jb_ID j = i) ErrWorkflowDecisionInvalid (bound turn read) db1))"

section \<open>Cancelled work\<close>

definition failed_attempt :: "instant \<Rightarrow> string \<Rightarrow> job_attempt \<Rightarrow> job_attempt" where
  "failed_attempt now cause a =
     a\<lparr>ja_Status := AttemptFailed, ja_FinishedAt := Some now, ja_Retryable := Some False, ja_LastError := Some cause\<rparr>"

definition cancelled_job :: "instant \<Rightarrow> string \<Rightarrow> job \<Rightarrow> job" where
  "cancelled_job now cause j =
     (released now JobCancelled j)\<lparr>jb_CompletedAt := Some now, jb_LastError := Some cause\<rparr>"

definition live_job :: "job \<Rightarrow> bool" where
  "live_job j \<longleftrightarrow> jb_Status j = JobAvailable \<or> jb_Status j = JobLeased"

text \<open>A live job is cancelled with its attempt; \<open>job\<close> is the row as it was read.\<close>

definition cancel_live_job :: "instant \<Rightarrow> string \<Rightarrow> jobs_error \<Rightarrow> job \<Rightarrow> jobs_db \<Rightarrow> jobs_error + jobs_db" where
  "cancel_live_job now cause lost job db =
     (case (if jb_Status job = JobLeased
            then change_attempt (jb_ID job) (row_token job) (jb_AttemptCount job) lost (failed_attempt now cause) db
            else Inr db) of
        Inl e \<Rightarrow> Inl e
      | Inr db1 \<Rightarrow> change_job (\<lambda>j. jb_ID j = jb_ID job \<and> live_job j) lost (cancelled_job now cause) db1)"

definition cancelOutstandingTerminalRevalidationTx :: "instant \<Rightarrow> string \<Rightarrow> jobs_db \<Rightarrow> jobs_error + jobs_db" where
  "cancelOutstandingTerminalRevalidationTx now attempt db =
     foldE (cancel_live_job now ''Workflow superseded terminal revalidation'' ErrJobLeaseLost)
       (filter (\<lambda>j. sc_workflowAttemptID (jb_Scope j) = attempt \<and> jb_Kind j = RevalidateTerminalIntentJobKind
                    \<and> live_job j) (db_Jobs db)) db"

definition cancelPendingPreparations :: "instant \<Rightarrow> string \<Rightarrow> jobs_db \<Rightarrow> jobs_error + jobs_db" where
  "cancelPendingPreparations now workflow db =
     (let pending = (\<lambda>j. job_workflow j = workflow \<and> jb_Kind j = PrepareAgentTurnJobKind);
          cause = ''Issue closure cancelled Agent Turn preparation'' in
      case update_attempts
          (\<lambda>a. ja_Status a = AttemptLeased
               \<and> list_ex (\<lambda>j. pending j \<and> jb_Status j = JobLeased \<and> jb_ID j = ja_JobID a
                              \<and> ja_Number a = jb_AttemptCount j \<and> jb_LeaseToken j = Some (ja_LeaseToken a)) (db_Jobs db))
          (failed_attempt now cause) db of
        None \<Rightarrow> Inl ErrJobQuery
      | Some (_, db1) \<Rightarrow>
          (case update_jobs (\<lambda>j. pending j \<and> live_job j) (cancelled_job now cause) db1 of
             None \<Rightarrow> Inl ErrJobQuery
           | Some (_, db2) \<Rightarrow> Inr db2))"

text \<open>The collection of a retention generation that was only scheduled is cancelled; the generation is read as
  its status and the identity of its job, absent if there is none.\<close>

definition cancelAssignmentRetentionTx ::
  "instant \<Rightarrow> (string \<times> string) option \<Rightarrow> jobs_db \<Rightarrow> jobs_error + jobs_db" where
  "cancelAssignmentRetentionTx now generation db =
     (let cause = ''Assignment retention cancelled before collection authorization'' in
      case generation of
        None \<Rightarrow> Inr db
      | Some (status, i) \<Rightarrow>
          if status = ''CANCELLED'' then Inr db
          else if status = ''COLLECTING'' then Inl ErrAssignmentCollectionIrrevocable
          else if status = ''COLLECTED'' then Inr db
          else if status \<noteq> ''SCHEDULED'' then Inl ErrAssignmentCollectionFenceLost
          else case job_by_id db i of
            None \<Rightarrow> Inl ErrJobQuery
          | Some j \<Rightarrow>
              (case (if jb_Status j = JobLeased
                     then update_attempts (fenced_attempt i (row_token j) (jb_AttemptCount j)) (failed_attempt now cause) db
                     else Some (0, db)) of
                 None \<Rightarrow> Inl ErrJobQuery
               | Some (_, db1) \<Rightarrow>
                   if live_job j
                   then (case update_jobs (\<lambda>k. jb_ID k = i) (cancelled_job now cause) db1 of
                           None \<Rightarrow> Inl ErrJobQuery
                         | Some (_, db2) \<Rightarrow> Inr db2)
                   else Inr db1))"

end
