(* ===== verification/Job_Steps.thy ===== *)
theory Job_Steps
  imports Job_Preparations
begin

text \<open>
  The table of jobs as a transition system. Every operation is a sequence of small steps: a job is
  inserted, granted to a worker, extended, rewritten, cancelled while it waits, or an attempt is finished
  and then its job released. Between the last two a job is \<^emph>\<open>busy\<close>; the state carries the set of busy jobs.
  \<open>jobs_ok\<close> is the invariant that the steps keep.
\<close>

section \<open>Views\<close>

definition put_job :: "job \<Rightarrow> jobs_db \<Rightarrow> jobs_db" where
  "put_job j db = db\<lparr>db_Jobs := map (\<lambda>k. if jb_ID k = jb_ID j then j else k) (db_Jobs db)\<rparr>"

definition put_attempt :: "job_attempt \<Rightarrow> jobs_db \<Rightarrow> jobs_db" where
  "put_attempt a db =
     db\<lparr>db_Attempts := map (\<lambda>b. if ja_JobID b = ja_JobID a \<and> ja_Number b = ja_Number a then a else b) (db_Attempts db)\<rparr>"

definition append_attempt :: "job_attempt \<Rightarrow> jobs_db \<Rightarrow> jobs_db" where
  "append_attempt a db = db\<lparr>db_Attempts := db_Attempts db @ [a]\<rparr>"

lemma find_map_id:
  assumes "\<And>x. key (f x) = key x"
  shows "find (\<lambda>x. key x = k) (map f xs) = map_option f (find (\<lambda>x. key x = k) xs)"
  using assms by (induction xs) auto

lemma find_append: "find P (xs @ ys) = (case find P xs of None \<Rightarrow> find P ys | Some x \<Rightarrow> Some x)"
  by (induction xs) auto

lemma find_key: "find (\<lambda>x. key x = k) xs = Some x \<Longrightarrow> key x = k \<and> x \<in> set xs"
  by (auto simp: find_Some_iff)

lemma find_key_unique:
  assumes "distinct (map key xs)" "x \<in> set xs"
  shows "find (\<lambda>y. key y = key x) xs = Some x"
  using assms by (induction xs) force+

lemma job_by_id_ID: "job_by_id db i = Some j \<Longrightarrow> jb_ID j = i"
  by (auto simp: job_by_id_def dest: find_key)

lemma job_by_id_set: "job_by_id db i = Some j \<Longrightarrow> j \<in> set (db_Jobs db)"
  by (auto simp: job_by_id_def dest: find_key)

lemma attempt_of_key: "attempt_of db i n = Some a \<Longrightarrow> ja_JobID a = i \<and> ja_Number a = n"
  by (auto simp: attempt_of_def find_Some_iff)

lemma job_by_id_put [simp]:
  "job_by_id (put_job j db) i =
     (if i = jb_ID j \<and> job_by_id db i \<noteq> None then Some j else job_by_id db i)"
proof -
  have "job_by_id (put_job j db) i = map_option (\<lambda>k. if jb_ID k = jb_ID j then j else k) (job_by_id db i)"
    unfolding job_by_id_def put_job_def by (simp add: find_map_id)
  then show ?thesis by (cases "job_by_id db i") (auto dest: job_by_id_ID)
qed

lemma job_by_id_append [simp]:
  "job_by_id (append_job j db) i =
     (case job_by_id db i of Some k \<Rightarrow> Some k | None \<Rightarrow> if jb_ID j = i then Some j else None)"
  by (simp add: job_by_id_def append_job_def find_append split: option.split)

lemma attempt_of_put [simp]:
  "attempt_of (put_attempt a db) i n =
     (if i = ja_JobID a \<and> n = ja_Number a \<and> attempt_of db i n \<noteq> None then Some a else attempt_of db i n)"
proof -
  have "find (\<lambda>b. ja_JobID b = i \<and> ja_Number b = n)
        (map (\<lambda>b. if ja_JobID b = ja_JobID a \<and> ja_Number b = ja_Number a then a else b) as)
      = map_option (\<lambda>b. if ja_JobID b = ja_JobID a \<and> ja_Number b = ja_Number a then a else b)
        (find (\<lambda>b. ja_JobID b = i \<and> ja_Number b = n) as)" for as
    by (induction as) auto
  then have "attempt_of (put_attempt a db) i n
      = map_option (\<lambda>b. if ja_JobID b = ja_JobID a \<and> ja_Number b = ja_Number a then a else b) (attempt_of db i n)"
    by (simp add: attempt_of_def put_attempt_def)
  then show ?thesis by (cases "attempt_of db i n") (auto dest: attempt_of_key)
qed

lemma attempt_of_append [simp]:
  "attempt_of (append_attempt a db) i n =
     (case attempt_of db i n of Some b \<Rightarrow> Some b | None \<Rightarrow> if ja_JobID a = i \<and> ja_Number a = n then Some a else None)"
  by (simp add: attempt_of_def append_attempt_def find_append split: option.split)

lemma views_frame [simp]:
  "job_by_id (put_attempt a db) = job_by_id db" "job_by_id (append_attempt a db) = job_by_id db"
  "job_by_id (db\<lparr>db_Failures := fs\<rparr>) = job_by_id db" "job_by_id (db\<lparr>db_Attempts := as\<rparr>) = job_by_id db"
  "attempt_of (put_job j db) = attempt_of db" "attempt_of (append_job j db) = attempt_of db"
  "attempt_of (db\<lparr>db_Failures := fs\<rparr>) = attempt_of db" "attempt_of (db\<lparr>db_Jobs := js\<rparr>) = attempt_of db"
  by (auto simp: fun_eq_iff job_by_id_def attempt_of_def put_attempt_def append_attempt_def put_job_def append_job_def)

text \<open>The keys of the rows, which updates leave alone.\<close>

definition job_ids :: "jobs_db \<Rightarrow> string list" where
  "job_ids db = map jb_ID (db_Jobs db)"

definition attempt_keys :: "jobs_db \<Rightarrow> (string \<times> int) list" where
  "attempt_keys db = map (\<lambda>a. (ja_JobID a, ja_Number a)) (db_Attempts db)"

lemma keys_frame [simp]:
  "job_ids (put_job j db) = job_ids db" "job_ids (append_job j db) = job_ids db @ [jb_ID j]"
  "job_ids (put_attempt a db) = job_ids db" "job_ids (append_attempt a db) = job_ids db"
  "job_ids (db\<lparr>db_Failures := fs\<rparr>) = job_ids db"
  "attempt_keys (put_job j db) = attempt_keys db" "attempt_keys (append_job j db) = attempt_keys db"
  "attempt_keys (put_attempt a db) = attempt_keys db"
  "attempt_keys (append_attempt a db) = attempt_keys db @ [(ja_JobID a, ja_Number a)]"
  "attempt_keys (db\<lparr>db_Failures := fs\<rparr>) = attempt_keys db"
  by (auto simp: job_ids_def attempt_keys_def put_job_def append_job_def put_attempt_def append_attempt_def)

lemma job_by_id_None: "job_by_id db i = None \<longleftrightarrow> i \<notin> set (job_ids db)"
  by (auto simp: job_by_id_def job_ids_def find_None_iff)

lemma attempt_of_None: "attempt_of db i n = None \<longleftrightarrow> (i, n) \<notin> set (attempt_keys db)"
  by (auto simp: attempt_of_def attempt_keys_def find_None_iff)

lemma job_by_id_mem:
  assumes "distinct (job_ids db)" "j \<in> set (db_Jobs db)"
  shows "job_by_id db (jb_ID j) = Some j"
  using find_key_unique [of jb_ID] assms by (simp add: job_ids_def job_by_id_def)

lemma attempt_of_mem:
  assumes "distinct (attempt_keys db)" "a \<in> set (db_Attempts db)"
  shows "attempt_of db (ja_JobID a) (ja_Number a) = Some a"
  using find_key_unique [of "\<lambda>a. (ja_JobID a, ja_Number a)"] assms by (simp add: attempt_keys_def attempt_of_def)

text \<open>An update that is confined to one row.\<close>

lemma update_none:
  assumes "distinct (map key xs)" "\<And>x. cond x \<Longrightarrow> key x = k"
    and "case find (\<lambda>x. key x = k) xs of None \<Rightarrow> True | Some y \<Rightarrow> \<not> cond y"
  shows "filter cond xs = []" "map (\<lambda>x. if cond x then f x else x) xs = xs"
proof -
  have no: "\<not> cond x" if "x \<in> set xs" for x
  proof
    assume "cond x"
    with find_key_unique [OF assms(1) that] assms(2) [of x] assms(3) show False by simp
  qed
  show "filter cond xs = []" by (simp add: filter_empty_conv no)
  show "map (\<lambda>x. if cond x then f x else x) xs = xs" by (rule map_idI) (simp add: no)
qed

lemma update_one:
  assumes "distinct (map key xs)" "\<And>x. cond x \<Longrightarrow> key x = k" "find (\<lambda>x. key x = k) xs = Some y" "cond y"
  shows "length (filter cond xs) = 1"
    "map (\<lambda>x. if cond x then f x else x) xs = map (\<lambda>x. if key x = k then f y else x) xs"
proof -
  have y: "key y = k" "y \<in> set xs" using find_key [OF assms(3)] by simp_all
  have only: "key x = k \<longleftrightarrow> x = y" if "x \<in> set xs" for x
  proof
    assume "key x = k"
    with find_key_unique [OF assms(1) that] assms(3) show "x = y" by simp
  qed (simp add: y(1))
  then have only': "cond x \<longleftrightarrow> x = y" if "x \<in> set xs" for x
    using that assms(2,4) by blast
  show "map (\<lambda>x. if cond x then f x else x) xs = map (\<lambda>x. if key x = k then f y else x) xs"
    by (rule map_cong [OF refl]) (simp add: only only')
  have "filter cond xs = filter (\<lambda>x. x = y) xs"
    using only' by (intro filter_cong) auto
  moreover have "length (filter (\<lambda>x. x = y) xs) = 1"
    using assms(1) y(2) by (induction xs) (auto simp: filter_empty_conv)
  ultimately show "length (filter cond xs) = 1" by simp
qed


section \<open>Updates as changes of one row\<close>

lemma update_jobs_one:
  assumes "distinct (job_ids db)" "\<And>j. cond j \<Longrightarrow> jb_ID j = i" "\<And>j. jb_ID (f j) = jb_ID j"
    and "update_jobs cond f db = Some (n, t)"
  obtains (none) "n = 0" "t = db" "\<And>j. job_by_id db i = Some j \<Longrightarrow> \<not> cond j"
  | (one) j where "n = 1" "job_by_id db i = Some j" "cond j" "job_checks (f j)" "t = put_job (f j) db"
proof -
  note d = assms(1) [unfolded job_ids_def]
  have result: "n = length (filter cond (db_Jobs db))" "\<And>j. j \<in> set (db_Jobs db) \<Longrightarrow> cond j \<Longrightarrow> job_checks (f j)"
      "t = db\<lparr>db_Jobs := map (\<lambda>j. if cond j then f j else j) (db_Jobs db)\<rparr>"
    using assms(4) by (auto simp: update_jobs_def list_all_iff split: if_split_asm)
  show thesis
  proof (cases "\<exists>j. job_by_id db i = Some j \<and> cond j")
    case True
    then obtain j where j: "job_by_id db i = Some j" "cond j" by blast
    note u = update_one(1) [where key = jb_ID and cond = cond, OF d assms(2) j(1) [unfolded job_by_id_def] j(2)]
      update_one(2) [where key = jb_ID and cond = cond and f = f, OF d assms(2) j(1) [unfolded job_by_id_def] j(2)]
    have "jb_ID (f j) = i" using job_by_id_ID [OF j(1)] assms(3) by simp
    then have "t = put_job (f j) db" using u(2) by (simp add: result(3) put_job_def)
    with one [OF _ j] u(1) result(1,2) j job_by_id_set [OF j(1)] show thesis by simp
  next
    case False
    have "case find (\<lambda>x. jb_ID x = i) (db_Jobs db) of None \<Rightarrow> True | Some y \<Rightarrow> \<not> cond y"
      using False by (auto simp: job_by_id_def split: option.split)
    note u = update_none(1) [where key = jb_ID and cond = cond, OF d assms(2) this]
      update_none(2) [where key = jb_ID and cond = cond and f = f, OF d assms(2) this]
    from u(2) have "t = db" unfolding result(3) by simp
    with none u(1) result(1) False show thesis by auto
  qed
qed

lemma update_attempts_one:
  assumes "distinct (attempt_keys db)" "\<And>a. ja_JobID (f a) = ja_JobID a \<and> ja_Number (f a) = ja_Number a"
    and "update_attempts (fenced_attempt i token m) f db = Some (n, t)"
  obtains (none) "n = 0" "t = db" "\<And>a. attempt_of db i m = Some a \<Longrightarrow> \<not> fenced_attempt i token m a"
  | (one) a where "n = 1" "attempt_of db i m = Some a" "fenced_attempt i token m a" "attempt_checks (f a)"
      "t = put_attempt (f a) db"
proof -
  let ?key = "\<lambda>a. (ja_JobID a, ja_Number a)"
  have key: "fenced_attempt i token m a \<Longrightarrow> ?key a = (i, m)" for a by (simp add: fenced_attempt_def)
  have view: "attempt_of db i m = find (\<lambda>a. ?key a = (i, m)) (db_Attempts db)" by (simp add: attempt_of_def)
  note d = assms(1) [unfolded attempt_keys_def]
  let ?cond = "fenced_attempt i token m"
  have result: "n = length (filter ?cond (db_Attempts db))"
      "\<And>a. a \<in> set (db_Attempts db) \<Longrightarrow> ?cond a \<Longrightarrow> attempt_checks (f a)"
      "t = db\<lparr>db_Attempts := map (\<lambda>a. if ?cond a then f a else a) (db_Attempts db)\<rparr>"
    using assms(3) by (auto simp: update_attempts_def list_all_iff split: if_split_asm)
  show thesis
  proof (cases "\<exists>a. attempt_of db i m = Some a \<and> fenced_attempt i token m a")
    case True
    then obtain a where a: "attempt_of db i m = Some a" "fenced_attempt i token m a" by blast
    note u = update_one(1) [where key = ?key and cond = "fenced_attempt i token m", OF d key a(1) [unfolded view] a(2)]
      update_one(2) [where key = ?key and cond = "fenced_attempt i token m" and f = f, OF d key a(1) [unfolded view] a(2)]
    have "ja_JobID (f a) = i \<and> ja_Number (f a) = m" using a(2) assms(2) [of a] by (simp add: fenced_attempt_def)
    then have "t = put_attempt (f a) db" using u(2) by (simp add: result(3) put_attempt_def)
    with one [OF _ a] u(1) result(1,2) a find_key [OF a(1) [unfolded view]] show thesis by simp
  next
    case False
    have "case find (\<lambda>a. ?key a = (i, m)) (db_Attempts db) of None \<Rightarrow> True | Some y \<Rightarrow> \<not> fenced_attempt i token m y"
      using False by (auto simp: view split: option.split)
    note u = update_none(1) [where key = ?key and cond = "fenced_attempt i token m", OF d key this]
      update_none(2) [where key = ?key and cond = "fenced_attempt i token m" and f = f, OF d key this]
    from u(2) have "t = db" unfolding result(3) by simp
    with none u(1) result(1) False show thesis by auto
  qed
qed

lemma update_jobs_changed:
  assumes "distinct (job_ids db)" "\<And>j. cond j \<Longrightarrow> jb_ID j = i" "\<And>j. jb_ID (f j) = jb_ID j"
    and "update_jobs cond f db = Some (n, t)" "job_by_id db i = Some j" "cond j"
  shows "n = 1 \<and> job_checks (f j) \<and> t = put_job (f j) db"
  using assms(5,6) by (auto intro: update_jobs_one [OF assms(1-4)])

lemma update_jobs_hit:
  assumes "distinct (job_ids db)" "\<And>j. cond j \<Longrightarrow> jb_ID j = i" "\<And>j. jb_ID (f j) = jb_ID j"
    and "update_jobs cond f db = Some (n, t)" "job_by_id db i = Some j" "n \<noteq> 0"
  shows "cond j \<and> job_checks (f j) \<and> t = put_job (f j) db"
  using assms(5,6) by (auto intro: update_jobs_one [OF assms(1-4)])

section \<open>Steps\<close>

text \<open>What no operation changes: a preparation follows its Workflow in its payload, a revalidation moves to the
  recovery queue with its Turn, and everything else stays as it was inserted.\<close>

definition same_identity :: "job \<Rightarrow> job \<Rightarrow> bool" where
  "same_identity j k \<longleftrightarrow>
     jb_ID k = jb_ID j \<and> jb_Kind k = jb_Kind j \<and> jb_Priority k = jb_Priority j
     \<and> jb_AvailableDelay k = jb_AvailableDelay j \<and> jb_IdempotencyKey k = jb_IdempotencyKey j
     \<and> jb_Provenance k = jb_Provenance j \<and> jb_RetentionGeneration k = jb_RetentionGeneration j
     \<and> jb_CreatedAt k = jb_CreatedAt j \<and> (jb_Kind j \<noteq> PrepareAgentTurnJobKind \<longrightarrow> jb_Payload k = jb_Payload j)
     \<and> (jb_Kind j \<noteq> RevalidateTerminalIntentJobKind \<longrightarrow> jb_Queue k = jb_Queue j \<and> jb_Scope k = jb_Scope j)"

lemma same_identity_refl [simp]: "same_identity j j"
  by (simp add: same_identity_def)

lemma same_identity_trans: "same_identity i j \<Longrightarrow> same_identity j k \<Longrightarrow> same_identity i k"
  by (simp add: same_identity_def)

text \<open>The lease that a job row carries is the one of its current attempt.\<close>

definition same_lease :: "job \<Rightarrow> job_attempt \<Rightarrow> bool" where
  "same_lease j a \<longleftrightarrow>
     ja_JobID a = jb_ID j \<and> ja_Number a = jb_AttemptCount j \<and> jb_LeaseOwner j = Some (ja_LeaseOwner a)
     \<and> jb_LeaseToken j = Some (ja_LeaseToken a) \<and> jb_LeaseExpiresAt j = Some (ja_LeaseExpiresAt a)"

definition irreversible :: "string \<Rightarrow> bool" where
  "irreversible kind \<longleftrightarrow>
     kind \<in> {StopAgentTurnJobKind, SettleClosureJobKind, CollectAssignmentsJobKind, StopStaleRuntimeJobKind,
             ReconcileAgentTurnMutationsJobKind}"

text \<open>The kinds whose budget of attempts is the one they were inserted with.\<close>

definition fixed_budget :: "string \<Rightarrow> bool" where
  "fixed_budget kind \<longleftrightarrow>
     \<not> irreversible kind \<and> kind \<noteq> PrepareAgentTurnJobKind \<and> kind \<noteq> RevalidateTerminalIntentJobKind"

definition budget_kept :: "job \<Rightarrow> job \<Rightarrow> bool" where
  "budget_kept j k \<longleftrightarrow>
     jb_MaxAttempts j \<le> jb_MaxAttempts k \<and> (fixed_budget (jb_Kind j) \<longrightarrow> jb_MaxAttempts k = jb_MaxAttempts j)"

lemma budget_keptI [intro]: "jb_MaxAttempts k = jb_MaxAttempts j \<Longrightarrow> budget_kept j k"
  by (simp add: budget_kept_def)

inductive micro :: "string \<Rightarrow> string set \<times> jobs_db \<Rightarrow> string set \<times> jobs_db \<Rightarrow> bool" for i where
  insert: "\<not> conflicting db row \<Longrightarrow> job_checks row \<Longrightarrow> jb_Status row = JobAvailable \<Longrightarrow> jb_AttemptCount row = 0
    \<Longrightarrow> micro i (D, db) (D, append_job row db)"
| failure: "micro i (D, db) (D, db\<lparr>db_Failures := fs\<rparr>)"
| rewrite: "job_by_id db i = Some j \<Longrightarrow> same_identity j k \<Longrightarrow> budget_kept j k \<Longrightarrow> jb_Status k = jb_Status j
    \<Longrightarrow> jb_AttemptCount k = jb_AttemptCount j \<Longrightarrow> jb_LeaseOwner k = jb_LeaseOwner j
    \<Longrightarrow> jb_LeaseToken k = jb_LeaseToken j \<Longrightarrow> jb_LeaseExpiresAt k = jb_LeaseExpiresAt j \<Longrightarrow> job_checks k
    \<Longrightarrow> micro i (D, db) (D, put_job k db)"
| cancel: "job_by_id db i = Some j \<Longrightarrow> jb_Status j = JobAvailable \<Longrightarrow> i \<notin> D \<Longrightarrow> same_identity j k
    \<Longrightarrow> jb_MaxAttempts k = jb_MaxAttempts j \<Longrightarrow> jb_AttemptCount k = jb_AttemptCount j
    \<Longrightarrow> jb_Status k = JobCancelled \<Longrightarrow> job_checks k
    \<Longrightarrow> micro i (D, db) (D, put_job k db)"
| lease: "job_by_id db i = Some j \<Longrightarrow> jb_Status j = JobAvailable \<Longrightarrow> i \<notin> D \<Longrightarrow> same_identity j k
    \<Longrightarrow> jb_MaxAttempts k = jb_MaxAttempts j \<Longrightarrow> jb_Status k = JobLeased \<Longrightarrow> jb_AttemptCount k = jb_AttemptCount j + 1
    \<Longrightarrow> job_checks k \<Longrightarrow> same_lease k a \<Longrightarrow> ja_Status a = AttemptLeased \<Longrightarrow> attempt_checks a
    \<Longrightarrow> attempt_of db i (jb_AttemptCount k) = None
    \<Longrightarrow> micro i (D, db) (D, append_attempt a (put_job k db))"
| extend: "job_by_id db i = Some j \<Longrightarrow> jb_Status j = JobLeased \<Longrightarrow> i \<notin> D \<Longrightarrow> same_identity j k
    \<Longrightarrow> jb_MaxAttempts k = jb_MaxAttempts j \<Longrightarrow> jb_Status k = JobLeased \<Longrightarrow> jb_AttemptCount k = jb_AttemptCount j
    \<Longrightarrow> jb_LeaseOwner k = jb_LeaseOwner j \<Longrightarrow> jb_LeaseToken k = jb_LeaseToken j
    \<Longrightarrow> job_checks k \<Longrightarrow> same_lease k a \<Longrightarrow> ja_Status a = AttemptLeased \<Longrightarrow> attempt_checks a
    \<Longrightarrow> attempt_of db i (jb_AttemptCount k) \<noteq> None
    \<Longrightarrow> micro i (D, db) (D, put_attempt a (put_job k db))"
| finish: "job_by_id db i = Some j \<Longrightarrow> jb_Status j = JobLeased \<Longrightarrow> i \<notin> D
    \<Longrightarrow> attempt_of db i (jb_AttemptCount j) \<noteq> None \<Longrightarrow> ja_JobID a = i \<Longrightarrow> ja_Number a = jb_AttemptCount j
    \<Longrightarrow> ja_Status a \<noteq> AttemptLeased \<Longrightarrow> attempt_checks a
    \<Longrightarrow> micro i (D, db) (Set.insert i D, put_attempt a db)"
| release: "job_by_id db i = Some j \<Longrightarrow> jb_Status j = JobLeased \<Longrightarrow> i \<in> D \<Longrightarrow> same_identity j k
    \<Longrightarrow> budget_kept j k \<Longrightarrow> jb_AttemptCount k = jb_AttemptCount j \<Longrightarrow> jb_Status k \<noteq> JobLeased
    \<Longrightarrow> (jb_Status k = JobAvailable \<longrightarrow> jb_AttemptCount k < jb_MaxAttempts k) \<Longrightarrow> job_checks k
    \<Longrightarrow> micro i (D, db) (D - {i}, put_job k db)"

inductive_cases micro_cases: "micro i (D, db) (E, t)"

section \<open>The invariant\<close>

definition attempt_ok :: "bool \<Rightarrow> job \<Rightarrow> int \<Rightarrow> job_attempt \<Rightarrow> bool" where
  "attempt_ok busy j n a \<longleftrightarrow>
     attempt_checks a \<and> n \<le> jb_AttemptCount j
     \<and> (ja_Status a = AttemptLeased \<longleftrightarrow> jb_Status j = JobLeased \<and> n = jb_AttemptCount j \<and> \<not> busy)
     \<and> (ja_Status a = AttemptLeased \<longrightarrow> same_lease j a)"

definition attempts_ok :: "string set \<Rightarrow> jobs_db \<Rightarrow> bool" where
  "attempts_ok D db \<longleftrightarrow>
     (\<forall>i n a. attempt_of db i n = Some a \<longrightarrow> (\<exists>j. job_by_id db i = Some j \<and> attempt_ok (i \<in> D) j n a))"

definition rows_ok :: "jobs_db \<Rightarrow> bool" where
  "rows_ok db \<longleftrightarrow>
     (\<forall>i j. job_by_id db i = Some j \<longrightarrow> job_checks j
        \<and> (jb_Status j = JobAvailable \<longrightarrow> jb_AttemptCount j < jb_MaxAttempts j)
        \<and> (jb_Status j = JobLeased \<longrightarrow> 0 < jb_AttemptCount j)
        \<and> (\<forall>n. 0 < n \<longrightarrow> n \<le> jb_AttemptCount j \<longrightarrow> attempt_of db i n \<noteq> None))"

definition keys_ok :: "jobs_db \<Rightarrow> bool" where
  "keys_ok db \<longleftrightarrow>
     (\<forall>i k j l. job_by_id db i = Some j \<longrightarrow> job_by_id db k = Some l \<longrightarrow> same_key j l \<longrightarrow> i = k)"

definition jobs_ok :: "string set \<times> jobs_db \<Rightarrow> bool" where
  "jobs_ok s \<longleftrightarrow> (case s of (D, db) \<Rightarrow>
     distinct (job_ids db) \<and> distinct (attempt_keys db) \<and> attempts_ok D db \<and> rows_ok db \<and> keys_ok db
     \<and> (\<forall>i\<in>D. \<exists>j. job_by_id db i = Some j \<and> jb_Status j = JobLeased))"


lemma jobs_okD:
  assumes "jobs_ok (D, db)"
  shows "distinct (job_ids db)" "distinct (attempt_keys db)" "attempts_ok D db" "rows_ok db" "keys_ok db"
    "i \<in> D \<Longrightarrow> \<exists>j. job_by_id db i = Some j \<and> jb_Status j = JobLeased"
  using assms by (auto simp: jobs_ok_def)

lemma jobs_okI:
  assumes "distinct (job_ids db)" "distinct (attempt_keys db)" "attempts_ok D db" "rows_ok db" "keys_ok db"
    and "\<And>i. i \<in> D \<Longrightarrow> \<exists>j. job_by_id db i = Some j \<and> jb_Status j = JobLeased"
  shows "jobs_ok (D, db)"
  using assms by (simp add: jobs_ok_def)

lemma busy_put:
  assumes "jobs_ok (D, db)" "job_by_id db i = Some j" "jb_ID k = i" "i \<in> E \<Longrightarrow> jb_Status k = JobLeased" "E \<subseteq> D"
  shows "\<forall>l\<in>E. \<exists>r. job_by_id (put_job k db) l = Some r \<and> jb_Status r = JobLeased"
proof
  fix l assume l: "l \<in> E"
  with assms(5) have "l \<in> D" by blast
  from jobs_okD(6) [OF assms(1) this] assms(2,3,4) l
  show "\<exists>r. job_by_id (put_job k db) l = Some r \<and> jb_Status r = JobLeased" by (cases "l = i") simp_all
qed

lemma attempts_okE:
  assumes "jobs_ok (D, db)" "attempt_of db i n = Some a"
  obtains j where "job_by_id db i = Some j" "attempt_ok (i \<in> D) j n a"
  using assms unfolding jobs_ok_def attempts_ok_def by blast

lemma attempts_okI:
  assumes "\<And>i n a. attempt_of db i n = Some a \<Longrightarrow> \<exists>j. job_by_id db i = Some j \<and> attempt_ok (i \<in> D) j n a"
  shows "attempts_ok D db"
  using assms unfolding attempts_ok_def by blast

lemma rows_okD:
  assumes "rows_ok db" "job_by_id db i = Some j"
  shows "job_checks j" "jb_Status j = JobAvailable \<Longrightarrow> jb_AttemptCount j < jb_MaxAttempts j"
    "jb_Status j = JobLeased \<Longrightarrow> 0 < jb_AttemptCount j"
    "0 < n \<Longrightarrow> n \<le> jb_AttemptCount j \<Longrightarrow> attempt_of db i n \<noteq> None"
  using assms unfolding rows_ok_def by blast+

text \<open>A change of one row that keeps its identity and its count.\<close>

lemma rows_ok_put:
  assumes "rows_ok db" "job_by_id db i = Some j" "jb_ID k = i" "job_checks k" "jb_AttemptCount k = jb_AttemptCount j"
    and "jb_Status k = JobAvailable \<Longrightarrow> jb_AttemptCount k < jb_MaxAttempts k"
    and "jb_Status k = JobLeased \<Longrightarrow> 0 < jb_AttemptCount k"
  shows "rows_ok (put_job k db)"
  using assms unfolding rows_ok_def by (auto split: if_split_asm)

lemma keys_ok_put:
  assumes "keys_ok db" "job_by_id db i = Some j" "same_identity j k"
  shows "keys_ok (put_job k db)"
  using assms unfolding keys_ok_def same_key_def same_identity_def
  by (smt (verit) job_by_id_ID job_by_id_put option.inject)

lemma keys_ok_frame [simp]:
  "keys_ok (put_attempt a db) = keys_ok db" "keys_ok (append_attempt a db) = keys_ok db"
  "keys_ok (db\<lparr>db_Failures := fs\<rparr>) = keys_ok db"
  unfolding keys_ok_def by (simp_all only: views_frame)

lemma micro_insert_ok:
  assumes ok: "jobs_ok (D, db)" and row: "\<not> conflicting db row" "job_checks row" "jb_Status row = JobAvailable"
      "jb_AttemptCount row = 0"
  shows "jobs_ok (D, append_job row db)"
proof -
  have fresh: "job_by_id db (jb_ID row) = None"
    using row(1) by (auto simp: conflicting_def list_ex_iff unique_conflict_def Let_def job_by_id_None job_ids_def)
  have key: "\<not> same_key row j" if "job_by_id db i = Some j" for i j
    using row(1) job_by_id_set [OF that] by (auto simp: conflicting_def list_ex_iff unique_conflict_def Let_def)
  have key': "\<not> same_key j row" if "job_by_id db i = Some j" for i j
    using key [OF that] by (auto simp: same_key_def)
  have "jb_MaxAttempts row > 0" using row(2) by (simp add: job_checks_def)
  with ok fresh row have "rows_ok (append_job row db)"
    unfolding jobs_ok_def rows_ok_def by (auto split: option.split_asm if_split_asm)
  moreover have "attempts_ok D (append_job row db)"
    using jobs_okD(3) [OF ok] unfolding attempts_ok_def by (fastforce split: option.split)
  moreover have "keys_ok (append_job row db)"
    using jobs_okD(5) [OF ok] key key' fresh unfolding keys_ok_def
    by (auto split: option.split_asm if_split_asm)
  ultimately show ?thesis
    using ok fresh unfolding jobs_ok_def by (fastforce simp: job_by_id_None split: option.split)
qed

lemma micro_put_ok:
  assumes ok: "jobs_ok (D, db)" and j: "job_by_id db i = Some j" "same_identity j k" "job_checks k"
    and same: "jb_AttemptCount k = jb_AttemptCount j" "jb_Status k = jb_Status j" "jb_MaxAttempts j \<le> jb_MaxAttempts k"
      "jb_LeaseOwner k = jb_LeaseOwner j" "jb_LeaseToken k = jb_LeaseToken j" "jb_LeaseExpiresAt k = jb_LeaseExpiresAt j"
  shows "jobs_ok (D, put_job k db)"
proof -
  have id: "jb_ID j = i" "jb_ID k = i" using j job_by_id_ID by (auto simp: same_identity_def)
  have "rows_ok (put_job k db)"
    using rows_ok_put [OF jobs_okD(4) [OF ok] j(1) id(2) j(3) same(1)] same rows_okD [OF jobs_okD(4) [OF ok] j(1)]
    by fastforce
  moreover have "attempts_ok D (put_job k db)"
  proof (rule attempts_okI)
    fix l n a assume "attempt_of (put_job k db) l n = Some a"
    then have "attempt_of db l n = Some a" by simp
    from attempts_okE [OF ok this] obtain r where r: "job_by_id db l = Some r" "attempt_ok (l \<in> D) r n a" .
    show "\<exists>j. job_by_id (put_job k db) l = Some j \<and> attempt_ok (l \<in> D) j n a"
    proof (cases "l = i")
      case True
      with r(1) j(1) have "r = j" by simp
      with r(2) have "attempt_ok (l \<in> D) k n a" by (simp add: attempt_ok_def same_lease_def same id)
      with True j(1) id show ?thesis by simp
    next
      case False
      with r id show ?thesis by simp
    qed
  qed
  moreover have "keys_ok (put_job k db)" by (rule keys_ok_put [OF jobs_okD(5) [OF ok] j(1,2)])
  moreover have "jb_Status k = JobLeased" if "i \<in> D" using jobs_okD(6) [OF ok that] j(1) same(2) by simp
  moreover note busy_put [OF ok j(1) id(2) this order_refl]
  ultimately show ?thesis using jobs_okD(1,2) [OF ok] by (simp add: jobs_ok_def)
qed

lemma micro_cancel_ok:
  assumes ok: "jobs_ok (D, db)" and j: "job_by_id db i = Some j" "jb_Status j = JobAvailable" "i \<notin> D" "same_identity j k"
      "jb_AttemptCount k = jb_AttemptCount j" "jb_Status k = JobCancelled" "job_checks k"
  shows "jobs_ok (D, put_job k db)"
proof -
  have id: "jb_ID j = i" "jb_ID k = i" using j job_by_id_ID by (auto simp: same_identity_def)
  have "rows_ok (put_job k db)"
    using rows_ok_put [OF jobs_okD(4) [OF ok] j(1) id(2) j(7,5)] j(6) by simp
  moreover have "attempts_ok D (put_job k db)"
  proof (rule attempts_okI)
    fix l n a assume "attempt_of (put_job k db) l n = Some a"
    then have "attempt_of db l n = Some a" by simp
    from attempts_okE [OF ok this] obtain r where r: "job_by_id db l = Some r" "attempt_ok (l \<in> D) r n a" .
    show "\<exists>j. job_by_id (put_job k db) l = Some j \<and> attempt_ok (l \<in> D) j n a"
    proof (cases "l = i")
      case True
      with r(1) j(1) have "r = j" by simp
      with r(2) j(2,6) have "attempt_ok (l \<in> D) k n a" by (simp add: attempt_ok_def j(5))
      with True j(1) id show ?thesis by simp
    next
      case False
      with r id show ?thesis by simp
    qed
  qed
  moreover have "keys_ok (put_job k db)" by (rule keys_ok_put [OF jobs_okD(5) [OF ok] j(1,4)])
  moreover have "i \<in> D \<Longrightarrow> jb_Status k = JobLeased" using j(3) by simp
  moreover note busy_put [OF ok j(1) id(2) this order_refl]
  ultimately show ?thesis using jobs_okD(1,2) [OF ok] by (simp add: jobs_ok_def)
qed

lemma micro_lease_ok:
  assumes ok: "jobs_ok (D, db)" and j: "job_by_id db i = Some j" "jb_Status j = JobAvailable" "i \<notin> D"
      "same_identity j k" "jb_MaxAttempts k = jb_MaxAttempts j" "jb_Status k = JobLeased"
      "jb_AttemptCount k = jb_AttemptCount j + 1" "job_checks k"
    and a: "same_lease k a" "ja_Status a = AttemptLeased" "attempt_checks a" "attempt_of db i (jb_AttemptCount k) = None"
  shows "jobs_ok (D, append_attempt a (put_job k db))"
proof -
  have id: "jb_ID j = i" "jb_ID k = i" "ja_JobID a = i" "ja_Number a = jb_AttemptCount k"
    using j job_by_id_ID a(1) by (auto simp: same_identity_def same_lease_def)
  have pos: "0 \<le> jb_AttemptCount j"
    using rows_okD(1) [OF jobs_okD(4) [OF ok] j(1)] by (simp add: job_checks_def)
  have "rows_ok (append_attempt a (put_job k db))"
    unfolding rows_ok_def
  proof (intro allI impI)
    fix l r assume "job_by_id (append_attempt a (put_job k db)) l = Some r"
    then consider "l = i" "r = k" | "l \<noteq> i" "job_by_id db l = Some r" using j(1) id by (auto split: if_split_asm)
    then show "job_checks r \<and> (jb_Status r = JobAvailable \<longrightarrow> jb_AttemptCount r < jb_MaxAttempts r)
        \<and> (jb_Status r = JobLeased \<longrightarrow> 0 < jb_AttemptCount r)
        \<and> (\<forall>n. 0 < n \<longrightarrow> n \<le> jb_AttemptCount r \<longrightarrow> attempt_of (append_attempt a (put_job k db)) l n \<noteq> None)"
    proof cases
      case 1
      have "attempt_of (append_attempt a (put_job k db)) i n \<noteq> None" if "0 < n" "n \<le> jb_AttemptCount k" for n
        using rows_okD(4) [OF jobs_okD(4) [OF ok] j(1), of n] that id j(7)
        by (cases "n = jb_AttemptCount k") (auto split: option.split)
      with 1 j pos show ?thesis by auto
    next
      case 2
      then show ?thesis
        using rows_okD [OF jobs_okD(4) [OF ok] 2(2)] by (fastforce split: option.split)
    qed
  qed
  moreover have "attempts_ok D (append_attempt a (put_job k db))"
  proof (rule attempts_okI)
    fix l n b assume b: "attempt_of (append_attempt a (put_job k db)) l n = Some b"
    show "\<exists>j. job_by_id (append_attempt a (put_job k db)) l = Some j \<and> attempt_ok (l \<in> D) j n b"
    proof (cases "attempt_of db l n")
      case None
      with b have b: "b = a" "l = i" "n = jb_AttemptCount k" using id by (auto split: if_split_asm)
      have "attempt_ok (l \<in> D) k n b" unfolding attempt_ok_def b using a j(3,6) by simp
      with b j(1) id show ?thesis by simp
    next
      case (Some c)
      with b have "attempt_of db l n = Some b" by simp
      from attempts_okE [OF ok this] obtain r where r: "job_by_id db l = Some r" "attempt_ok (l \<in> D) r n b" .
      show ?thesis
      proof (cases "l = i")
        case True
        with r(1) j(1) have "r = j" by simp
        with r(2) Some j(2,7) have "n \<noteq> jb_AttemptCount k" "attempt_ok (l \<in> D) k n b"
          using a(4) True by (auto simp: attempt_ok_def)
        with True j(1) id show ?thesis by simp
      next
        case False
        with r id show ?thesis by simp
      qed
    qed
  qed
  moreover have "keys_ok (append_attempt a (put_job k db))"
    using keys_ok_put [OF jobs_okD(5) [OF ok] j(1,4)] by simp
  moreover have "distinct (attempt_keys (append_attempt a (put_job k db)))"
    using jobs_okD(2) [OF ok] a(4) id by (simp add: attempt_of_None)
  moreover note busy_put [OF ok j(1) id(2) j(6) order_refl]
  ultimately show ?thesis using jobs_okD(1,2) [OF ok] by (simp add: jobs_ok_def)
qed


lemma micro_extend_ok:
  assumes ok: "jobs_ok (D, db)" and j: "job_by_id db i = Some j" "jb_Status j = JobLeased" "i \<notin> D" "same_identity j k"
      "jb_Status k = JobLeased" "jb_AttemptCount k = jb_AttemptCount j" "job_checks k"
    and a: "same_lease k a" "ja_Status a = AttemptLeased" "attempt_checks a"
  shows "jobs_ok (D, put_attempt a (put_job k db))"
proof -
  have id: "jb_ID j = i" "jb_ID k = i" "ja_JobID a = i" "ja_Number a = jb_AttemptCount j"
    using j job_by_id_ID a(1) by (auto simp: same_identity_def same_lease_def)
  have "rows_ok (put_job k db)"
    using rows_ok_put [OF jobs_okD(4) [OF ok] j(1) id(2) j(7,6)] j rows_okD(3) [OF jobs_okD(4) [OF ok] j(1)] by simp
  then have "rows_ok (put_attempt a (put_job k db))"
    unfolding rows_ok_def by (auto split: if_split_asm)
  moreover have "attempts_ok D (put_attempt a (put_job k db))"
  proof (rule attempts_okI)
    fix l n b assume b: "attempt_of (put_attempt a (put_job k db)) l n = Some b"
    show "\<exists>j. job_by_id (put_attempt a (put_job k db)) l = Some j \<and> attempt_ok (l \<in> D) j n b"
    proof (cases "l = i \<and> n = jb_AttemptCount j")
      case True
      with b id have "b = a" by (simp split: if_split_asm)
      then have "attempt_ok (l \<in> D) k n b" using True a j(3,5,6) by (simp add: attempt_ok_def)
      with True j(1) id show ?thesis by simp
    next
      case other: False
      with b id have "attempt_of db l n = Some b" by (auto split: if_split_asm)
      from attempts_okE [OF ok this] obtain r where r: "job_by_id db l = Some r" "attempt_ok (l \<in> D) r n b" .
      show ?thesis
      proof (cases "l = i")
        case True
        with r(1) j(1) have "r = j" by simp
        with r(2) other True have "attempt_ok (l \<in> D) k n b" by (simp add: attempt_ok_def j(6))
        with True j(1) id show ?thesis by simp
      next
        case False
        with r id show ?thesis by simp
      qed
    qed
  qed
  moreover have "keys_ok (put_attempt a (put_job k db))"
    using keys_ok_put [OF jobs_okD(5) [OF ok] j(1,4)] by simp
  moreover note busy_put [OF ok j(1) id(2) j(5) order_refl]
  ultimately show ?thesis using jobs_okD(1,2) [OF ok] by (simp add: jobs_ok_def)
qed

lemma micro_finish_ok:
  assumes ok: "jobs_ok (D, db)" and j: "job_by_id db i = Some j" "jb_Status j = JobLeased"
    and a: "ja_JobID a = i" "ja_Number a = jb_AttemptCount j" "ja_Status a \<noteq> AttemptLeased" "attempt_checks a"
  shows "jobs_ok (Set.insert i D, put_attempt a db)"
proof -
  have "rows_ok (put_attempt a db)"
    using jobs_okD(4) [OF ok] unfolding rows_ok_def by (auto split: if_split_asm)
  moreover have "attempts_ok (Set.insert i D) (put_attempt a db)"
  proof (rule attempts_okI)
    fix l n b assume b: "attempt_of (put_attempt a db) l n = Some b"
    show "\<exists>j. job_by_id (put_attempt a db) l = Some j \<and> attempt_ok (l \<in> Set.insert i D) j n b"
    proof (cases "l = i \<and> n = jb_AttemptCount j")
      case True
      with b a have "b = a" by (simp split: if_split_asm)
      then have "attempt_ok (l \<in> Set.insert i D) j n b" using True a by (simp add: attempt_ok_def)
      with True j(1) show ?thesis by simp
    next
      case other: False
      with b a have "attempt_of db l n = Some b" by (auto split: if_split_asm)
      from attempts_okE [OF ok this] obtain r where r: "job_by_id db l = Some r" "attempt_ok (l \<in> D) r n b" .
      show ?thesis
      proof (cases "l = i")
        case True
        with r(1) j(1) have "r = j" by simp
        with r(2) other True have "attempt_ok True r n b" by (simp add: attempt_ok_def)
        with True r(1) show ?thesis by simp
      next
        case False
        with r show ?thesis by simp
      qed
    qed
  qed
  moreover have "keys_ok (put_attempt a db)" using jobs_okD(5) [OF ok] by simp
  ultimately show ?thesis
    by (intro jobs_okI) (use jobs_okD(1,2,6) [OF ok] j(1,2) in auto)
qed

lemma micro_release_ok:
  assumes ok: "jobs_ok (D, db)" and j: "job_by_id db i = Some j" "i \<in> D" "same_identity j k"
      "jb_AttemptCount k = jb_AttemptCount j" "jb_Status k \<noteq> JobLeased"
      "jb_Status k = JobAvailable \<longrightarrow> jb_AttemptCount k < jb_MaxAttempts k" "job_checks k"
  shows "jobs_ok (D - {i}, put_job k db)"
proof -
  have id: "jb_ID j = i" "jb_ID k = i" using j job_by_id_ID by (auto simp: same_identity_def)
  have "rows_ok (put_job k db)"
    using rows_ok_put [OF jobs_okD(4) [OF ok] j(1) id(2) j(7,4)] j by simp
  moreover have "attempts_ok (D - {i}) (put_job k db)"
  proof (rule attempts_okI)
    fix l n b assume "attempt_of (put_job k db) l n = Some b"
    then have "attempt_of db l n = Some b" by simp
    from attempts_okE [OF ok this] obtain r where r: "job_by_id db l = Some r" "attempt_ok (l \<in> D) r n b" .
    show "\<exists>j. job_by_id (put_job k db) l = Some j \<and> attempt_ok (l \<in> D - {i}) j n b"
    proof (cases "l = i")
      case True
      with r(1) j(1) have "r = j" by simp
      with r(2) True j(2,5) have "attempt_ok (l \<in> D - {i}) k n b" by (simp add: attempt_ok_def j(4))
      with True j(1) id show ?thesis by simp
    next
      case False
      with r id show ?thesis by simp
    qed
  qed
  moreover have "keys_ok (put_job k db)" by (rule keys_ok_put [OF jobs_okD(5) [OF ok] j(1,3)])
  moreover have "jb_Status k = JobLeased" if "i \<in> D - {i}" using that by simp
  moreover note busy_put [where E = "D - {i}", OF ok j(1) id(2) this Diff_subset]
  ultimately show ?thesis using jobs_okD(1,2) [OF ok] by (simp add: jobs_ok_def)
qed

lemma micro_ok:
  assumes "micro i s t" "jobs_ok s"
  shows "jobs_ok t"
  using assms
proof cases
  case (rewrite db j k D)
  with assms(2) show ?thesis
    by (auto intro!: micro_put_ok [of D db i j] simp: budget_kept_def)
next
  case (failure D db fs)
  with assms(2) show ?thesis
    by (simp add: jobs_ok_def attempts_ok_def rows_ok_def)
qed (use assms(2) in \<open>auto intro: micro_insert_ok micro_cancel_ok micro_lease_ok micro_extend_ok micro_finish_ok
  micro_release_ok\<close>)

lemma micros_ok: "(micro i)\<^sup>*\<^sup>* s t \<Longrightarrow> jobs_ok s \<Longrightarrow> jobs_ok t"
  by (induction rule: rtranclp_induct) (auto intro: micro_ok)

text \<open>Steps on one job leave the others alone.\<close>

lemma micro_frame:
  assumes "micro i (D, db) (E, t)" "job_by_id db k = Some j" "k \<noteq> i"
  shows "job_by_id t k = Some j"
  using assms
  by cases (use assms(2,3) in \<open>auto simp: same_identity_def dest: job_by_id_ID\<close>)

lemma micros_frame:
  assumes "(micro i)\<^sup>*\<^sup>* s t" "job_by_id (snd s) k = Some j" "k \<noteq> i"
  shows "job_by_id (snd t) k = Some j"
  using assms(1,2) by (induction rule: rtranclp_induct) (auto intro: micro_frame [OF _ _ assms(3)])

end
