(* ===== verification/Job_Runs.thy ===== *)
theory Job_Runs
  imports Job_Steps
begin

text \<open>
  The operations on jobs as runs of small steps: from a state where \<open>jobs_ok\<close> holds and no job is busy,
  every operation that succeeds leads to another one, and touches no existing job but its own.
\<close>

section \<open>Insertions\<close>

lemma new_job_sel [simp]:
  "jb_ID (new_job env now job) = je_UUID env (ji_idempotencyKey job)" "jb_Status (new_job env now job) = JobAvailable"
  "jb_AttemptCount (new_job env now job) = 0" "jb_MaxAttempts (new_job env now job) = ji_maxAttempts job"
  "jb_IdempotencyKey (new_job env now job) = Some (ji_idempotencyKey job)" "jb_Queue (new_job env now job) = ji_queue job"
  "jb_Kind (new_job env now job) = ji_kind job" "jb_Payload (new_job env now job) = je_Jsonb env (ji_payload job)"
  "jb_Priority (new_job env now job) = ji_priority job" "jb_AvailableDelay (new_job env now job) = 0"
  "jb_Scope (new_job env now job) = ji_scope job" "jb_Provenance (new_job env now job) = ji_provenance job"
  "jb_RetentionGeneration (new_job env now job) = ''''"
  by (simp_all add: new_job_def)

lemma insertIdempotentJobTx_cases:
  assumes "insertIdempotentJobTx env now job db = Inr (i, t)"
  obtains (old) j where "job_by_key db (ji_idempotencyKey job) = Some j" "matching_job env job j" "i = jb_ID j" "t = db"
  | (new) "validateJobInsert env job = None" "job_checks (new_job env now job)" "\<not> conflicting db (new_job env now job)"
      "i = je_UUID env (ji_idempotencyKey job)" "t = append_job (new_job env now job) db"
proof (cases "validateJobInsert env job")
  case (Some e)
  with assms show thesis by (simp add: insertIdempotentJobTx_def)
next
  case None
  show thesis
  proof (cases "conflicting db (new_job env now job)")
    case True
    with None assms old show thesis
      by (auto simp: insertIdempotentJobTx_def Let_def split: if_split_asm option.split_asm)
  next
    case False
    with None assms new show thesis
      by (auto simp: insertIdempotentJobTx_def Let_def split: if_split_asm)
  qed
qed

lemma insert_run:
  "\<not> conflicting db row \<Longrightarrow> job_checks row \<Longrightarrow> jb_Status row = JobAvailable \<Longrightarrow> jb_AttemptCount row = 0
    \<Longrightarrow> (micro i)\<^sup>*\<^sup>* (D, db) (D, append_job row db)"
  by (intro r_into_rtranclp micro.insert)

lemma insertIdempotentJobTx_run:
  assumes "insertIdempotentJobTx env now job db = Inr (x, t)"
  shows "(micro i)\<^sup>*\<^sup>* (D, db) (D, t)"
  using assms by (cases rule: insertIdempotentJobTx_cases) (auto intro: insert_run)

lemma insertJobTx_run:
  assumes "insertJobTx env now job db = Inr (x, t)"
  shows "(micro i)\<^sup>*\<^sup>* (D, db) (D, t)"
  using assms by (auto simp: insertJobTx_def Let_def admissible_def split: option.split_asm if_split_asm
      intro!: insert_run)

lemma enqueueSafetyHandoffTx_run:
  assumes "enqueueSafetyHandoffTx env now source reason diagnostic db = Inr (x, t)"
  shows "(micro i)\<^sup>*\<^sup>* (D, db) (D, t)"
proof -
  have row: "jb_Status (handoff_row env now source encoded stored) = JobAvailable"
      "jb_AttemptCount (handoff_row env now source encoded stored) = 0" for encoded stored
    by (simp_all add: handoff_row_def Let_def)
  show ?thesis
    using assms unfolding enqueueSafetyHandoffTx_def Let_def
    by (auto split: if_split_asm option.split_asm intro!: insert_run row)
qed

lemma insert_failure_run:
  assumes "insert_failure f db = Some (n, t)"
  shows "(micro i)\<^sup>*\<^sup>* (D, db) (D, t)"
  using assms by (auto simp: insert_failure_def split: if_split_asm intro: micro.failure)

lemma insert_and_failure_run:
  assumes "insertIdempotentJobTx env now job db = Inr (x, u)" "insert_failure f u = Some (n, t)"
  shows "(micro i)\<^sup>*\<^sup>* (D, db) (D, t)"
  by (rule rtranclp_trans [OF insertIdempotentJobTx_run [OF assms(1)] insert_failure_run [OF assms(2)]])

lemma requestWorkflowActionFailureEscalationTx_run:
  assumes "requestWorkflowActionFailureEscalationTx env now job resumeRole diagnostic db = Inr (x, t)"
  shows "(micro i)\<^sup>*\<^sup>* (D, db) (D, t)"
proof -
  from assms obtain state where state: "je_WorkflowState env (sc_workflowID (jb_Scope job)) = Some state"
    by (auto simp: requestWorkflowActionFailureEscalationTx_def Let_def split: option.split_asm)
  show ?thesis
  proof (cases "shouldEscalate state job")
    case False
    with assms state show ?thesis
      by (auto simp: requestWorkflowActionFailureEscalationTx_def Let_def split: option.split_asm
          intro: insert_failure_run)
  next
    case True
    with assms state show ?thesis
      by (simp add: requestWorkflowActionFailureEscalationTx_def Let_def
          split: option.split_asm sum.split_asm prod.split_asm if_split_asm)
        (blast intro: insert_and_failure_run)+
  qed
qed

lemma exhaustExpiredWorkflowActionTx_run:
  assumes "exhaustExpiredWorkflowActionTx env now job db = Inr (x, t)"
  shows "(micro i)\<^sup>*\<^sup>* (D, db) (D, t)"
proof -
  from assms obtain r diagnostic
    where "requestWorkflowActionFailureEscalationTx env now job r diagnostic db = Inr (x, t)"
    by (simp add: exhaustExpiredWorkflowActionTx_def Let_def split: option.split_asm if_split_asm)
  then show ?thesis by (rule requestWorkflowActionFailureEscalationTx_run)
qed

section \<open>Another attempt for irreversible work\<close>

lemma exhaustion_reason_irreversible:
  "exhaustion_reason env job = Inr (Some x) \<Longrightarrow> irreversible (jb_Kind job)"
  by (auto simp: exhaustion_reason_def irreversible_def Let_def split: if_split_asm option.split_asm)

lemma continueIrreversible_run:
  assumes "continueIrreversibleJobAfterExhaustionTx env now job db = Inr ((continued, scheduled), t)"
    and ok: "jobs_ok (D, db)" and r: "job_by_id db (jb_ID job) = Some r" "jb_Kind job = jb_Kind r"
  shows "(micro (jb_ID job))\<^sup>*\<^sup>* (D, db) (D, t)"
    and "continued \<Longrightarrow> \<exists>m u. job_by_id t (jb_ID job) = Some (r\<lparr>jb_MaxAttempts := m, jb_UpdatedAt := u\<rparr>)
      \<and> jb_AttemptCount r < m \<and> jb_MaxAttempts r \<le> m"
    and "\<not> continued \<Longrightarrow> t = db"
proof -
  let ?i = "jb_ID job"
  let ?goal = "(micro ?i)\<^sup>*\<^sup>* (D, db) (D, t) \<and> (continued \<longrightarrow> (\<exists>m u. job_by_id t ?i
      = Some (r\<lparr>jb_MaxAttempts := m, jb_UpdatedAt := u\<rparr>) \<and> jb_AttemptCount r < m \<and> jb_MaxAttempts r \<le> m))
      \<and> (\<not> continued \<longrightarrow> t = db)"
  have ?goal
  proof (cases "exhaustion_reason env job")
    case (Inr x)
    show ?thesis
    proof (cases x)
      case None
      with Inr assms(1) show ?thesis by (simp add: continueIrreversibleJobAfterExhaustionTx_def)
    next
      case (Some y)
      let ?cond = "\<lambda>j. jb_ID j = ?i \<and> jb_Status j = JobLeased \<and> jb_LeaseToken j = jb_LeaseToken job
                        \<and> jb_LeaseToken j \<noteq> None \<and> jb_AttemptCount j = jb_AttemptCount job"
      let ?f = "\<lambda>j. j\<lparr>jb_MaxAttempts := max (jb_MaxAttempts j) (jb_AttemptCount j + 1), jb_UpdatedAt := now\<rparr>"
      from Inr Some assms(1) obtain u where u:
        "enqueueSafetyHandoffTx env now job (fst y) (snd y) db = Inr (scheduled, u)"
        "update_jobs ?cond ?f u = Some (1, t)" "continued"
        by (auto simp: continueIrreversibleJobAfterExhaustionTx_def split: prod.split_asm sum.split_asm option.split_asm
            if_split_asm)
      have run: "(micro k)\<^sup>*\<^sup>* (D, db) (D, u)" for k by (rule enqueueSafetyHandoffTx_run [OF u(1)])
      have ok': "jobs_ok (D, u)" by (rule micros_ok [OF run ok])
      obtain k where k: "k \<noteq> ?i" by (metis list.distinct(1))
      have r': "job_by_id u ?i = Some r" using micros_frame [OF run [of k], of ?i r] r(1) k by simp
      have hit: "?cond r \<and> job_checks (?f r) \<and> t = put_job (?f r) u"
        by (rule update_jobs_hit [OF jobs_okD(1) [OF ok'] _ _ u(2) r']) auto
      have "irreversible (jb_Kind r)" using r(2) exhaustion_reason_irreversible [of env job y] Inr Some by simp
      then have "micro ?i (D, u) (D, t)"
        unfolding conjunct2 [OF conjunct2 [OF hit]]
        using hit by (intro micro.rewrite [OF r']) (auto simp: same_identity_def budget_kept_def fixed_budget_def)
      then have "(micro ?i)\<^sup>*\<^sup>* (D, db) (D, t)" by (rule rtranclp.rtrancl_into_rtrancl [OF run])
      moreover have "job_by_id t ?i = Some (?f r)"
        unfolding conjunct2 [OF conjunct2 [OF hit]] using job_by_id_ID [OF r'] r' by simp
      moreover have "jb_AttemptCount r < max (jb_MaxAttempts r) (jb_AttemptCount r + 1)"
          "jb_MaxAttempts r \<le> max (jb_MaxAttempts r) (jb_AttemptCount r + 1)" by simp_all
      ultimately show ?thesis using u(3) by blast
    qed
  qed (use assms(1) in \<open>simp add: continueIrreversibleJobAfterExhaustionTx_def\<close>)
  then show "(micro ?i)\<^sup>*\<^sup>* (D, db) (D, t)"
    "continued \<Longrightarrow> \<exists>m u. job_by_id t ?i = Some (r\<lparr>jb_MaxAttempts := m, jb_UpdatedAt := u\<rparr>)
      \<and> jb_AttemptCount r < m \<and> jb_MaxAttempts r \<le> m"
    "\<not> continued \<Longrightarrow> t = db" by blast+
qed


section \<open>Ending an attempt\<close>

lemma current_attempt:
  assumes ok: "jobs_ok (D, db)" and j: "job_by_id db i = Some j" "jb_Status j = JobLeased" "i \<notin> D"
  obtains a where "attempt_of db i (jb_AttemptCount j) = Some a" "ja_Status a = AttemptLeased" "same_lease j a"
    "attempt_checks a"
proof -
  from rows_okD(3,4) [OF jobs_okD(4) [OF ok] j(1)] j(2)
  obtain a where a: "attempt_of db i (jb_AttemptCount j) = Some a" by blast
  from attempts_okE [OF ok a] j(1) have "attempt_ok (i \<in> D) j (jb_AttemptCount j) a" by auto
  with that [OF a] j show thesis by (simp add: attempt_ok_def)
qed

lemma finish_run:
  assumes ok: "jobs_ok (D, db)" and j: "job_by_id db i = Some j" "jb_Status j = JobLeased" "i \<notin> D"
    and f: "\<And>a. ja_JobID (f a) = ja_JobID a \<and> ja_Number (f a) = ja_Number a \<and> ja_Status (f a) \<noteq> AttemptLeased"
    and upd: "update_attempts (fenced_attempt i (row_token j) (jb_AttemptCount j)) f db = Some (n, t)"
  shows "n = 1 \<and> micro i (D, db) (Set.insert i D, t) \<and> (\<exists>a. t = put_attempt a db)"
proof -
  obtain a where a: "attempt_of db i (jb_AttemptCount j) = Some a" "ja_Status a = AttemptLeased" "same_lease j a"
    using current_attempt [OF ok j] .
  have fenced: "fenced_attempt i (row_token j) (jb_AttemptCount j) a"
    using a job_by_id_ID [OF j(1)] by (simp add: fenced_attempt_def same_lease_def row_token_def)
  have keys: "\<And>a. ja_JobID (f a) = ja_JobID a \<and> ja_Number (f a) = ja_Number a" using f by blast
  show ?thesis
  proof (rule update_attempts_one [OF jobs_okD(2) [OF ok] keys upd])
    assume "\<And>b. attempt_of db i (jb_AttemptCount j) = Some b
      \<Longrightarrow> \<not> fenced_attempt i (row_token j) (jb_AttemptCount j) b"
    with a(1) fenced show ?thesis by blast
  next
    fix b assume b: "n = 1" "attempt_of db i (jb_AttemptCount j) = Some b" "attempt_checks (f b)" "t = put_attempt (f b) db"
    have "micro i (D, db) (Set.insert i D, put_attempt (f b) db)"
      using a(1) b f attempt_of_key [OF b(2)] by (intro micro.finish [OF j]) auto
    with b show ?thesis by blast
  qed
qed

lemma release_run:
  assumes ok: "jobs_ok (D, db)" and j: "job_by_id db i = Some j" "i \<in> D" "cond j"
    and cond: "\<And>j. cond j \<Longrightarrow> jb_ID j = i" and f: "\<And>j. jb_ID (f j) = jb_ID j"
    and k: "same_identity j (f j)" "budget_kept j (f j)" "jb_AttemptCount (f j) = jb_AttemptCount j" "jb_Status (f j) \<noteq> JobLeased"
      "jb_Status (f j) = JobAvailable \<longrightarrow> jb_AttemptCount j < jb_MaxAttempts (f j)"
    and upd: "update_jobs cond f db = Some (n, t)"
  shows "n = 1 \<and> micro i (D, db) (D - {i}, t) \<and> job_by_id t i = Some (f j)"
proof -
  have t: "n = 1 \<and> job_checks (f j) \<and> t = put_job (f j) db"
    using update_jobs_changed [OF jobs_okD(1) [OF ok] cond f upd j(1,3)] .
  have "jb_Status j = JobLeased" using jobs_okD(6) [OF ok j(2)] j(1) by simp
  with t k have "micro i (D, db) (D - {i}, put_job (f j) db)"
    by (intro micro.release [OF j(1) _ j(2)]) auto
  with t show ?thesis using j(1) job_by_id_ID [OF j(1)] f [of j] by simp
qed

lemma retried_sel [simp]:
  "same_identity j (retried now again d cause j)" "jb_MaxAttempts (retried now again d cause j) = jb_MaxAttempts j"
  "jb_AttemptCount (retried now again d cause j) = jb_AttemptCount j"
  "jb_Status (retried now again d cause j) = (if again then JobAvailable else JobFailed)"
  "jb_ID (retried now again d cause j) = jb_ID j"
  by (simp_all add: retried_def released_def same_identity_def)

lemma row_token_fenced:
  "job_checks j \<Longrightarrow> jb_Status j = JobLeased \<Longrightarrow> jb_LeaseToken j = Some (row_token j)"
  by (auto simp: job_checks_def row_token_def)

text \<open>An attempt ends and its job is released; in between, other rows may be added.\<close>

lemma settle_run:
  assumes ok: "jobs_ok ({}, db)" and j: "job_by_id db i = Some j" "jb_Status j = JobLeased"
    and f: "\<And>a. ja_JobID (f a) = ja_JobID a \<and> ja_Number (f a) = ja_Number a \<and> ja_Status (f a) \<noteq> AttemptLeased"
    and upd: "update_attempts (fenced_attempt i (row_token j) (jb_AttemptCount j)) f db = Some (n, u)"
    and mid: "\<And>D k. (micro k)\<^sup>*\<^sup>* (D, u) (D, v)"
    and cond: "cond j" "\<And>j. cond j \<Longrightarrow> jb_ID j = i" and g: "\<And>j. jb_ID (g j) = jb_ID j"
    and k: "same_identity j (g j)" "budget_kept j (g j)" "jb_AttemptCount (g j) = jb_AttemptCount j" "jb_Status (g j) \<noteq> JobLeased"
      "jb_Status (g j) = JobAvailable \<longrightarrow> jb_AttemptCount j < jb_MaxAttempts (g j)"
    and upd': "update_jobs cond g v = Some (m, t)"
  shows "n = 1 \<and> m = 1 \<and> (micro i)\<^sup>*\<^sup>* ({}, db) ({}, t) \<and> job_by_id t i = Some (g j)"
proof -
  from finish_run [OF ok j _ f upd] have fin: "n = 1" "micro i ({}, db) ({i}, u)" "job_by_id u = job_by_id db"
    by auto
  have run: "(micro i)\<^sup>*\<^sup>* ({}, db) ({i}, v)"
    using fin(2) mid [of i "{i}"] by (rule converse_rtranclp_into_rtranclp)
  obtain k where k': "k \<noteq> i" by (metis list.distinct(1))
  have j': "job_by_id v i = Some j" using micros_frame [OF mid [of k "{}"], of i j] k' fin(3) j(1) by simp
  from release_run [OF micros_ok [OF run ok] j' _ cond(1) cond(2) g k upd']
  have "m = 1" "micro i ({i}, v) ({}, t)" "job_by_id t i = Some (g j)" by auto
  with run fin(1) show ?thesis by (auto intro: rtranclp.rtrancl_into_rtrancl)
qed

section \<open>Reclaiming\<close>

lemma expire_lease_run:
  assumes ok: "jobs_ok ({}, db)" and j: "job_by_id db (jb_ID e) = Some j" "jb_Status j = JobLeased"
      "row_token e = row_token j" "jb_AttemptCount e = jb_AttemptCount j"
    and again: "again \<Longrightarrow> jb_AttemptCount j < jb_MaxAttempts j"
    and t: "expire_lease env now e again d action db = Inr t"
  shows "(micro (jb_ID e))\<^sup>*\<^sup>* ({}, db) ({}, t)"
proof -
  have fenced: "fenced_job (jb_ID e) (row_token e) (jb_AttemptCount e) j \<and> jb_Status j = JobLeased"
    using job_by_id_ID [OF j(1)] j row_token_fenced [OF rows_okD(1) [OF jobs_okD(4) [OF ok] j(1)] j(2)]
    by (simp add: fenced_job_def)
  from t [unfolded expire_lease_def] obtain n u v x m where
    u: "update_attempts (fenced_attempt (jb_ID e) (row_token j) (jb_AttemptCount j))
       (\<lambda>a. a\<lparr>ja_Status := AttemptExpired, ja_FinishedAt := Some now, ja_Retryable := Some again,
              ja_LastError := Some ''lease expired''\<rparr>) db = Some (n, u)" and
    v: "(if \<not> again \<and> isExhaustionAwareWorkflowAction (jb_Kind e)
        then exhaustExpiredWorkflowActionTx env now action u else Inr (False, u)) = Inr (x, v)" and
    w: "update_jobs (\<lambda>j. fenced_job (jb_ID e) (row_token e) (jb_AttemptCount e) j \<and> jb_Status j = JobLeased)
       (retried now again d ''lease expired'') v = Some (m, t)"
    unfolding j(3,4) by (auto split: option.split_asm sum.split_asm)
  have mid: "(micro k)\<^sup>*\<^sup>* (D, u) (D, v)" for D k
    using v by (auto split: if_split_asm intro: exhaustExpiredWorkflowActionTx_run)
  have "n = 1 \<and> m = 1 \<and> (micro (jb_ID e))\<^sup>*\<^sup>* ({}, db) ({}, t)
      \<and> job_by_id t (jb_ID e) = Some (retried now again d ''lease expired'' j)"
    by (rule settle_run [OF ok j(1,2) _ u mid fenced _ _ _ _ _ _ _ w]) (auto simp: fenced_job_def again)
  then show ?thesis by blast
qed


lemma scanJob_sel:
  assumes "scanJob env r = Some j"
  shows "j = r\<lparr>jb_Payload := jb_Payload j\<rparr>"
  using assms by (cases "je_Canonical env (jb_Payload r)") (auto simp: scanJob_def split: if_split_asm)

lemma reclaim_job_run:
  assumes ok: "jobs_ok ({}, db)" and e: "job_by_id db (jb_ID e) = Some e" "jb_Status e = JobLeased"
    and t: "reclaim_job env now e db = Inr t"
  shows "(micro (jb_ID e))\<^sup>*\<^sup>* ({}, db) ({}, t)"
proof (cases "jb_AttemptCount e < jb_MaxAttempts e")
  case True
  with t expire_lease_run [OF ok e refl refl, where again = True] show ?thesis by (simp add: reclaim_job_def)
next
  case False
  with t e(1) obtain action c s u where action: "scanJob env e = Some action" and
    c: "continueIrreversibleJobAfterExhaustionTx env now action db = Inr ((c, s), u)" and
    u: "expire_lease env now e c (if c then irreversibleRetryDelay else 0) action u = Inr t"
    by (auto simp: reclaim_job_def split: option.split_asm sum.split_asm prod.split_asm if_split_asm)
  have id: "jb_ID action = jb_ID e" "jb_Kind action = jb_Kind e"
    using arg_cong [OF scanJob_sel [OF action], of jb_ID] arg_cong [OF scanJob_sel [OF action], of jb_Kind] by simp_all
  have e': "job_by_id db (jb_ID action) = Some e" using e(1) id by simp
  note run = continueIrreversible_run [OF c ok e' id(2), unfolded id]
  have ok': "jobs_ok ({}, u)" by (rule micros_ok [OF run(1) ok])
  have "(micro (jb_ID e))\<^sup>*\<^sup>* ({}, u) ({}, t)"
  proof (cases c)
    case True
    then obtain m v where e': "job_by_id u (jb_ID e) = Some (e\<lparr>jb_MaxAttempts := m, jb_UpdatedAt := v\<rparr>)"
      and m: "jb_AttemptCount e < m"
      using run(2) by blast
    show ?thesis
      by (rule expire_lease_run [OF ok' e' _ _ _ _ u]) (use e(2) m in \<open>simp_all add: row_token_def\<close>)
  next
    case False
    with run(3) e show ?thesis by (intro expire_lease_run [OF ok' _ _ refl refl _ u]) auto
  qed
  with run(1) show ?thesis by (rule rtranclp_trans)
qed

abbreviation any_micro :: "string set \<times> jobs_db \<Rightarrow> string set \<times> jobs_db \<Rightarrow> bool" where
  "any_micro s t \<equiv> \<exists>i. micro i s t"

lemma any_micro: "(micro i)\<^sup>*\<^sup>* s t \<Longrightarrow> any_micro\<^sup>*\<^sup>* s t"
  by (erule rtranclp_mono [THEN predicate2D, rotated]) blast

lemma any_micros_ok: "any_micro\<^sup>*\<^sup>* s t \<Longrightarrow> jobs_ok s \<Longrightarrow> jobs_ok t"
  by (induction rule: rtranclp_induct) (auto intro: micro_ok)

lemma expired_jobs_set:
  "e \<in> set (expired_jobs env now queue kind db) \<Longrightarrow> e \<in> set (db_Jobs db) \<and> jb_Status e = JobLeased"
  by (simp add: expired_jobs_def)

lemma distinct_expired:
  "distinct (job_ids db) \<Longrightarrow> distinct (map jb_ID (expired_jobs env now queue kind db))"
  unfolding expired_jobs_def job_ids_def
  by (simp add: distinct_map inj_on_def distinct_sort)

text \<open>A loop over jobs, each of which is worked on alone.\<close>

lemma loop_run:
  assumes "foldE f es db = Inr t" "jobs_ok ({}, db)" "distinct (map jb_ID es)"
    and "\<And>e. e \<in> set es \<Longrightarrow> job_by_id db (jb_ID e) = Some e"
    and f: "\<And>e db t. e \<in> set es \<Longrightarrow> f e db = Inr t \<Longrightarrow> jobs_ok ({}, db) \<Longrightarrow> job_by_id db (jb_ID e) = Some e
      \<Longrightarrow> (micro (jb_ID e))\<^sup>*\<^sup>* ({}, db) ({}, t)"
  shows "any_micro\<^sup>*\<^sup>* ({}, db) ({}, t)"
    and "\<And>k j. job_by_id db k = Some j \<Longrightarrow> k \<notin> set (map jb_ID es) \<Longrightarrow> job_by_id t k = Some j"
proof -
  have "any_micro\<^sup>*\<^sup>* ({}, db) ({}, t) \<and>
    (\<forall>k j. job_by_id db k = Some j \<longrightarrow> k \<notin> set (map jb_ID es) \<longrightarrow> job_by_id t k = Some j)"
    using assms
  proof (induction es arbitrary: db)
    case (Cons e es)
    from Cons.prems(1) obtain u where u: "f e db = Inr u" "foldE f es u = Inr t"
      by (auto split: sum.split_asm)
    have run: "(micro (jb_ID e))\<^sup>*\<^sup>* ({}, db) ({}, u)"
      using Cons.prems(5) [of e db u] Cons.prems(2,4) u(1) by simp
    have keep: "job_by_id u k = Some j" if "job_by_id db k = Some j" "k \<noteq> jb_ID e" for k j
      using micros_frame [OF run, of k j] that by simp
    have "any_micro\<^sup>*\<^sup>* ({}, u) ({}, t) \<and>
        (\<forall>k j. job_by_id u k = Some j \<longrightarrow> k \<notin> set (map jb_ID es) \<longrightarrow> job_by_id t k = Some j)"
    proof (rule Cons.IH [OF u(2) micros_ok [OF run Cons.prems(2)]])
      show "distinct (map jb_ID es)" using Cons.prems(3) by simp
      fix h assume h: "h \<in> set es"
      then have "jb_ID h \<noteq> jb_ID e" using Cons.prems(3) by (metis distinct.simps(2) image_eqI list.map(2) list.set_map)
      with h Cons.prems(4) [of h] keep show "job_by_id u (jb_ID h) = Some h" by simp
    qed (use Cons.prems(5) in simp)
    with keep rtranclp_trans [OF any_micro [OF run]] show ?case by auto
  qed simp
  then show "any_micro\<^sup>*\<^sup>* ({}, db) ({}, t)"
    "\<And>k j. job_by_id db k = Some j \<Longrightarrow> k \<notin> set (map jb_ID es) \<Longrightarrow> job_by_id t k = Some j" by blast+
qed

lemma reclaim_run:
  assumes "reclaimExpiredJobsTx env now limit queue kind db = Inr t" "jobs_ok ({}, db)"
  shows "any_micro\<^sup>*\<^sup>* ({}, db) ({}, t)"
    and "job_by_id db k = Some j \<Longrightarrow> jb_Status j \<noteq> JobLeased \<Longrightarrow> job_by_id t k = Some j"
proof -
  let ?es = "take limit (expired_jobs env now queue kind db)"
  have d: "distinct (job_ids db)" by (rule jobs_okD(1) [OF assms(2)])
  have es: "e \<in> set (db_Jobs db) \<and> jb_Status e = JobLeased" if "e \<in> set ?es" for e
    using expired_jobs_set in_set_takeD [OF that] by blast
  have rows: "job_by_id db (jb_ID e) = Some e" if "e \<in> set ?es" for e
    using es [OF that] job_by_id_mem [OF d] by blast
  have dist: "distinct (map jb_ID ?es)"
    using distinct_expired [OF d] by (simp add: take_map [symmetric])
  have step: "(micro (jb_ID e))\<^sup>*\<^sup>* ({}, u) ({}, v)"
    if "e \<in> set ?es" "reclaim_job env now e u = Inr v" "jobs_ok ({}, u)" "job_by_id u (jb_ID e) = Some e" for e u v
    using reclaim_job_run [OF that(3,4) _ that(2)] es [OF that(1)] by simp
  note loop = loop_run [OF assms(1) [unfolded reclaimExpiredJobsTx_def] assms(2) dist rows step]
  show "any_micro\<^sup>*\<^sup>* ({}, db) ({}, t)" by (rule loop(1))
  assume j: "job_by_id db k = Some j" "jb_Status j \<noteq> JobLeased"
  then have "k \<notin> set (map jb_ID ?es)" using es rows by fastforce
  with loop(2) j(1) show "job_by_id t k = Some j" by blast
qed

section \<open>Claiming\<close>

lemma lease_row_sel [simp]:
  "jb_ID (lease_row now owner token lease j) = jb_ID j" "jb_Status (lease_row now owner token lease j) = JobLeased"
  "jb_AttemptCount (lease_row now owner token lease j) = jb_AttemptCount j + 1"
  "jb_MaxAttempts (lease_row now owner token lease j) = jb_MaxAttempts j"
  "jb_LeaseOwner (lease_row now owner token lease j) = Some owner"
  "jb_LeaseToken (lease_row now owner token lease j) = Some token"
  "jb_LeaseExpiresAt (lease_row now owner token lease j) = Some (now + microseconds lease)"
  "jb_IdempotencyKey (lease_row now owner token lease j) = jb_IdempotencyKey j"
  "jb_Payload (lease_row now owner token lease j) = jb_Payload j"
  "same_identity j (lease_row now owner token lease j)"
  by (simp_all add: lease_row_def same_identity_def)

lemma leaseJobTx_run:
  assumes t: "leaseJobTx env now i owner token lease db = Inr (claimed, t)" and ok: "jobs_ok ({}, db)"
  obtains j where "job_by_id db i = Some j" "jb_Status j = JobAvailable" "micro i ({}, db) ({}, t)"
    "job_by_id t i = Some (lease_row now owner token lease j)"
    "scanJob env (lease_row now owner token lease j) = Some (jl_Job claimed)"
    "jl_Attempt claimed = jb_AttemptCount j + 1"
proof -
  let ?cond = "\<lambda>j. jb_ID j = i \<and> jb_Status j = JobAvailable \<and> jb_AttemptCount j < jb_MaxAttempts j"
  let ?f = "lease_row now owner token lease"
  from t obtain j where j: "job_by_id db i = Some j" "jb_Status j = JobAvailable"
      "jb_AttemptCount j < jb_MaxAttempts j"
    by (auto simp: leaseJobTx_def split: option.split_asm if_split_asm)
  define a where "a = \<lparr>ja_JobID = i, ja_Number = jb_AttemptCount j + 1, ja_LeaseOwner = owner, ja_LeaseToken = token,
                       ja_Status = AttemptLeased, ja_LeasedAt = now, ja_LeaseExpiresAt = now + microseconds lease,
                       ja_HeartbeatAt = None, ja_FinishedAt = None, ja_Retryable = None, ja_Result = None,
                       ja_LastError = None\<rparr>"
  from t j obtain n u where u: "update_jobs ?cond ?f db = Some (n, u)" and
    a: "attempt_checks a" "\<not> list_ex (\<lambda>b. ja_JobID b = i \<and> ja_Number b = jb_AttemptCount j + 1 \<or> ja_LeaseToken b = token) (db_Attempts u)" and
    t': "t = append_attempt a u" and
    claimed: "Option.bind (job_by_id (append_attempt a u) i) (scanJob env) = Some (jl_Job claimed)" "jl_Attempt claimed = jb_AttemptCount j + 1"
    unfolding leaseJobTx_def Let_def a_def append_attempt_def
    by (auto split: option.split_asm if_split_asm prod.split_asm)
  have id: "jb_ID j = i" by (rule job_by_id_ID [OF j(1)])
  have hit: "n = 1 \<and> job_checks (?f j) \<and> u = put_job (?f j) db"
    by (rule update_jobs_changed [OF jobs_okD(1) [OF ok] _ _ u j(1)]) (use j id in auto)
  then have u': "u = put_job (?f j) db" "job_checks (?f j)" by simp_all
  have "attempt_of db i (jb_AttemptCount j + 1) = None"
    using a(2) unfolding u'(1) attempt_of_def by (auto simp: put_job_def list_ex_iff find_None_iff)
  then have "micro i ({}, db) ({}, append_attempt a (put_job (?f j) db))"
    using j id u'(2) a(1) by (intro micro.lease [OF j(1)]) (auto simp: same_lease_def a_def)
  moreover have "job_by_id t i = Some (?f j)" unfolding t' u'(1) using j(1) id by simp
  ultimately show thesis using that [OF j(1,2)] claimed t' u'(1) by (auto simp: bind_eq_Some_conv)
qed

lemma ClaimJobKind_cases:
  assumes t: "ClaimJobKind env now queue kind owner lease db = Inr (claimed, t)" and ok: "jobs_ok ({}, db)"
  obtains (none) "claimed = None" "reclaimExpiredJobsTx env now jobClaimReclaimLimit queue kind db = Inr t"
      "claimable_jobs env now queue kind t = []"
  | (some) u j l where "claimed = Some l" "reclaimExpiredJobsTx env now jobClaimReclaimLimit queue kind db = Inr u"
      "hd (claimable_jobs env now queue kind u) = j" "claimable_jobs env now queue kind u \<noteq> []"
      "leaseJobTx env now (jb_ID j) owner (je_UUID env ''lease'') lease u = Inr (l, t)"
  using t none some by (auto simp: ClaimJobKind_def split: if_split_asm sum.split_asm list.split_asm prod.split_asm)

lemma ClaimJobKind_run:
  assumes t: "ClaimJobKind env now queue kind owner lease db = Inr (claimed, t)" and ok: "jobs_ok ({}, db)"
  shows "any_micro\<^sup>*\<^sup>* ({}, db) ({}, t)"
  using t ok
proof (cases rule: ClaimJobKind_cases)
  case none
  then show ?thesis using reclaim_run(1) ok by blast
next
  case (some u j l)
  have run: "any_micro\<^sup>*\<^sup>* ({}, db) ({}, u)" by (rule reclaim_run(1) [OF some(2) ok])
  from leaseJobTx_run [OF some(5) any_micros_ok [OF run ok]] have "any_micro ({}, u) ({}, t)" by blast
  with run show ?thesis by (rule rtranclp.rtrancl_into_rtrancl)
qed


section \<open>Working under a lease\<close>

definition holds_lease :: "jobs_db \<Rightarrow> job_lease \<Rightarrow> job \<Rightarrow> bool" where
  "holds_lease db lease j \<longleftrightarrow>
     job_by_id db (lease_id lease) = Some j \<and> jb_Status j = JobLeased
     \<and> jb_LeaseToken j = Some (lease_token lease) \<and> jb_AttemptCount j = jl_Attempt lease"

lemma holds_leaseD:
  assumes "holds_lease db lease j"
  shows "job_by_id db (lease_id lease) = Some j" "jb_Status j = JobLeased" "row_token j = lease_token lease"
    "jb_AttemptCount j = jl_Attempt lease" "fenced_job (lease_id lease) (lease_token lease) (jl_Attempt lease) j"
    "jb_ID j = lease_id lease" "jb_LeaseToken j = Some (lease_token lease)"
  using assms job_by_id_ID [of db "lease_id lease" j]
  by (auto simp: holds_lease_def row_token_def fenced_job_def)

lemma withLockedJobLease_cases:
  assumes "withLockedJobLease env now lease action operation db = Inr t"
  obtains j where "holds_lease db lease j" "operation db = Inr t"
  using assms by (auto simp: withLockedJobLease_def live_lease_def holds_lease_def
      split: if_split_asm option.split_asm)

lemma change_attempt_cases:
  assumes "change_attempt i token n e f db = Inr t"
  obtains "update_attempts (fenced_attempt i token n) f db = Some (1, t)"
  using assms by (auto simp: change_attempt_def split: option.split_asm if_split_asm)

lemma change_job_cases:
  assumes "change_job cond e f db = Inr t"
  obtains "update_jobs cond f db = Some (1, t)"
  using assms by (auto simp: change_job_def split: option.split_asm if_split_asm)

lemma HeartbeatJob_run:
  assumes t: "HeartbeatJob env now lease extension db = Inr t" and ok: "jobs_ok ({}, db)"
  obtains j where "holds_lease db lease j" "(micro (lease_id lease))\<^sup>*\<^sup>* ({}, db) ({}, t)"
    "job_by_id t (lease_id lease) = Some (j\<lparr>jb_HeartbeatAt := Some now,
       jb_LeaseExpiresAt := Some (now + microseconds extension), jb_UpdatedAt := now\<rparr>)"
proof -
  let ?i = "lease_id lease" and ?x = "now + microseconds extension"
  let ?f = "\<lambda>j. j\<lparr>jb_HeartbeatAt := Some now, jb_LeaseExpiresAt := Some ?x, jb_UpdatedAt := now\<rparr>"
  let ?g = "\<lambda>a. a\<lparr>ja_HeartbeatAt := Some now, ja_LeaseExpiresAt := ?x\<rparr>"
  from t have "withLockedJobLease env now lease HeartbeatAction
      (\<lambda>db. case change_job (fenced_job ?i (lease_token lease) (jl_Attempt lease)) ErrJobQuery ?f db of
              Inl e \<Rightarrow> Inl e
            | Inr db1 \<Rightarrow> change_attempt ?i (lease_token lease) (jl_Attempt lease) ErrJobQuery ?g db1) db = Inr t"
    by (simp add: HeartbeatJob_def Let_def split: if_split_asm)
  then obtain j u where j: "holds_lease db lease j" and
    u: "update_jobs (fenced_job ?i (lease_token lease) (jl_Attempt lease)) ?f db = Some (1, u)" and
    v: "update_attempts (fenced_attempt ?i (lease_token lease) (jl_Attempt lease)) ?g u = Some (1, t)"
    by (elim withLockedJobLease_cases)
      (auto split: sum.split_asm elim!: change_job_cases change_attempt_cases)
  note h = holds_leaseD [OF j]
  have hit: "job_checks (?f j) \<and> u = put_job (?f j) db"
    using update_jobs_changed [OF jobs_okD(1) [OF ok] _ _ u h(1,5)] by (auto simp: fenced_job_def)
  then have u': "u = put_job (?f j) db" by simp
  obtain a where a: "attempt_of db ?i (jb_AttemptCount j) = Some a" "ja_Status a = AttemptLeased" "same_lease j a"
    using current_attempt [OF ok h(1,2)] by auto
  have keys: "distinct (attempt_keys u)" using jobs_okD(2) [OF ok] by (simp add: u')
  have same: "ja_JobID (?g a) = ja_JobID a \<and> ja_Number (?g a) = ja_Number a" for a by simp
  have "micro ?i ({}, db) ({}, t)"
  proof (rule update_attempts_one [OF keys same v])
    fix b assume b: "attempt_of u ?i (jl_Attempt lease) = Some b" "attempt_checks (?g b)" "t = put_attempt (?g b) u"
    with a h(4) have "b = a" by (simp add: u')
    then have "same_lease (?f j) (?g b)" using a(3) by (simp add: same_lease_def)
    with b hit a \<open>b = a\<close> show ?thesis unfolding b(3) u'
      by (intro micro.extend [OF h(1,2)]) (auto simp: same_identity_def h(2))
  qed simp
  moreover have "job_by_id t ?i = job_by_id u ?i"
    by (rule update_attempts_one [OF keys same v]) auto
  ultimately show thesis using that [OF j] u' h(1,6) by auto
qed

lemma released_sel [simp]:
  "same_identity j (released now status j)" "jb_MaxAttempts (released now status j) = jb_MaxAttempts j"
  "jb_AttemptCount (released now status j) = jb_AttemptCount j" "jb_Status (released now status j) = status"
  "jb_ID (released now status j) = jb_ID j"
  by (simp_all add: released_def same_identity_def)

lemma budget_kept_result [simp]:
  "budget_kept j (released now status j)" "budget_kept j (retried now again d cause j)"
  "budget_kept j (k\<lparr>jb_Result := r\<rparr>) = budget_kept j k" "budget_kept j (k\<lparr>jb_CompletedAt := c\<rparr>) = budget_kept j k"
  "budget_kept j (k\<lparr>jb_LastError := e\<rparr>) = budget_kept j k"
  by (auto simp: budget_kept_def)

lemma same_identity_result [simp]:
  "same_identity j (k\<lparr>jb_Result := r\<rparr>) = same_identity j k"
  "same_identity j (k\<lparr>jb_CompletedAt := c\<rparr>) = same_identity j k"
  "same_identity j (k\<lparr>jb_LastError := e\<rparr>) = same_identity j k"
  by (simp_all add: same_identity_def)

text \<open>An attempt and its job, each changed in one row.\<close>

lemma change_both_run:
  assumes ok: "jobs_ok ({}, db)" and j: "job_by_id db i = Some j" "jb_Status j = JobLeased"
    and f: "\<And>a. ja_JobID (f a) = ja_JobID a \<and> ja_Number (f a) = ja_Number a \<and> ja_Status (f a) \<noteq> AttemptLeased"
    and u: "change_attempt i (row_token j) (jb_AttemptCount j) e f db = Inr u"
    and t: "change_job cond e' g u = Inr t" and cond: "cond j" "\<And>j. cond j \<Longrightarrow> jb_ID j = i"
    and g: "\<And>j. jb_ID (g j) = jb_ID j"
    and k: "same_identity j (g j)" "budget_kept j (g j)" "jb_AttemptCount (g j) = jb_AttemptCount j" "jb_Status (g j) \<noteq> JobLeased"
      "jb_Status (g j) = JobAvailable \<longrightarrow> jb_AttemptCount j < jb_MaxAttempts (g j)"
  shows "(micro i)\<^sup>*\<^sup>* ({}, db) ({}, t) \<and> job_by_id t i = Some (g j)"
proof -
  have up: "update_attempts (fenced_attempt i (row_token j) (jb_AttemptCount j)) f db = Some (1, u)"
    using u by (rule change_attempt_cases)
  have "update_jobs cond g u = Some (1, t)" using t by (rule change_job_cases)
  from settle_run [OF ok j f up rtranclp.rtrancl_refl cond g k this] show ?thesis by blast
qed

lemma CompleteJob_run:
  assumes t: "CompleteJob env now lease result db = Inr t" and ok: "jobs_ok ({}, db)"
  obtains j c where "holds_lease db lease j" "(micro (lease_id lease))\<^sup>*\<^sup>* ({}, db) ({}, t)"
    "job_by_id t (lease_id lease) = Some ((released now JobSucceeded j)\<lparr>jb_CompletedAt := Some now,
       jb_Result := Some (je_Jsonb env c), jb_LastError := None\<rparr>)"
proof -
  from t obtain c where c: "je_Canonical env result = Some c" by (cases "je_Canonical env result") (auto simp: CompleteJob_def)
  from t [unfolded CompleteJob_def c option.case] obtain j u where j: "holds_lease db lease j" and
    u: "change_attempt (lease_id lease) (lease_token lease) (jl_Attempt lease) ErrJobQuery
      (\<lambda>a. a\<lparr>ja_Status := AttemptSucceeded, ja_FinishedAt := Some now, ja_Result := Some (je_Jsonb env c)\<rparr>) db = Inr u" and
    v: "change_job (fenced_job (lease_id lease) (lease_token lease) (jl_Attempt lease)) ErrJobQuery
      (\<lambda>j. (released now JobSucceeded j)\<lparr>jb_CompletedAt := Some now, jb_Result := Some (je_Jsonb env c), jb_LastError := None\<rparr>) u = Inr t"
    by (elim withLockedJobLease_cases) (auto split: sum.split_asm)
  note h = holds_leaseD [OF j]
  from change_both_run [OF ok h(1,2) _ u [folded h(3,4)] v h(5)] that [OF j, of c]
  show thesis by (auto simp: fenced_job_def)
qed

lemma FailJob_run:
  assumes t: "FailJob env now lease cause retryable d db = Inr t" and ok: "jobs_ok ({}, db)"
  obtains j message where "holds_lease db lease j" "(micro (lease_id lease))\<^sup>*\<^sup>* ({}, db) ({}, t)"
    "job_by_id t (lease_id lease)
      = Some (retried now (retryable \<and> jb_AttemptCount j < jb_MaxAttempts j) d message j)"
proof -
  from t obtain message where m: "cause = Some message" by (cases cause) (auto simp: FailJob_def)
  from t [unfolded FailJob_def m option.case] obtain j where j: "holds_lease db lease j" and
    op: "(case job_by_id db (lease_id lease) of None \<Rightarrow> Inl ErrJobQuery
       | Some before \<Rightarrow> let willRetry = retryable \<and> jl_Attempt lease < jb_MaxAttempts before
           in case change_attempt (lease_id lease) (lease_token lease) (jl_Attempt lease) ErrJobQuery
                (\<lambda>a. a\<lparr>ja_Status := AttemptFailed, ja_FinishedAt := Some now, ja_Retryable := Some retryable,
                       ja_LastError := Some message\<rparr>) db of
                Inl e \<Rightarrow> Inl e
              | Inr db1 \<Rightarrow> change_job (fenced_job (lease_id lease) (lease_token lease) (jl_Attempt lease)) ErrJobQuery
                  (retried now willRetry d message) db1) = Inr t"
    by (auto split: if_split_asm elim: withLockedJobLease_cases)
  note h = holds_leaseD [OF j]
  let ?again = "retryable \<and> jb_AttemptCount j < jb_MaxAttempts j"
  from op obtain u where
    u: "change_attempt (lease_id lease) (lease_token lease) (jl_Attempt lease) ErrJobQuery
      (\<lambda>a. a\<lparr>ja_Status := AttemptFailed, ja_FinishedAt := Some now, ja_Retryable := Some retryable,
             ja_LastError := Some message\<rparr>) db = Inr u" and
    v: "change_job (fenced_job (lease_id lease) (lease_token lease) (jl_Attempt lease)) ErrJobQuery
      (retried now ?again d message) u = Inr t"
    unfolding h(4) by (auto simp: h(1) Let_def split: sum.split_asm)
  have "(micro (lease_id lease))\<^sup>*\<^sup>* ({}, db) ({}, t)
      \<and> job_by_id t (lease_id lease) = Some (retried now ?again d message j)"
    by (rule change_both_run [OF ok h(1,2) _ u [folded h(3,4)] v h(5)]) (auto simp: fenced_job_def)
  with that [OF j] show thesis by blast
qed


section \<open>Acknowledgements\<close>

text \<open>The job that a fence returns is the leased row, up to the encoding of its payload.\<close>

definition fenced_by :: "jobs_db \<Rightarrow> job_lease \<Rightarrow> job \<Rightarrow> bool" where
  "fenced_by db lease job \<longleftrightarrow>
     (\<exists>r. holds_lease db lease r \<and> job = r\<lparr>jb_Payload := jb_Payload job\<rparr>)"

lemma fenced_byI:
  assumes "job_by_id db (lease_id lease) = Some r" "scanJob env r = Some job" "fenced_row queue kind lease job"
  shows "fenced_by db lease job \<and> jb_Kind job = kind"
proof -
  note s = scanJob_sel [OF assms(2)]
  have "holds_lease db lease r"
    using assms(1,3) arg_cong [OF s, of jb_Status] arg_cong [OF s, of jb_LeaseToken] arg_cong [OF s, of jb_AttemptCount]
    by (simp add: fenced_row_def holds_lease_def Let_def)
  with s assms(3) show ?thesis unfolding fenced_by_def by (auto simp: fenced_row_def Let_def)
qed

lemma lockFencedWorkflowJob_fenced:
  assumes "lockFencedWorkflowJob env now lease kind e db = Inr job"
  shows "fenced_by db lease job \<and> jb_Kind job = kind"
proof -
  from assms obtain j where j: "Option.bind (job_by_id db (lease_id lease)) (scanJob env) = Some j"
    by (cases "Option.bind (job_by_id db (lease_id lease)) (scanJob env)")
      (simp_all add: lockFencedWorkflowJob_def split: if_split_asm)
  with assms have "fenced_row WorkflowActionQueue kind lease j" "job = j"
    by (simp_all add: lockFencedWorkflowJob_def split: if_split_asm option.split_asm)
  moreover from j obtain r where "job_by_id db (lease_id lease) = Some r" "scanJob env r = Some j"
    by (auto simp: bind_eq_Some_conv)
  ultimately show ?thesis using fenced_byI by blast
qed

lemma lockAgentTurnRecoveryJob_fenced:
  assumes "lockAgentTurnRecoveryJob env now lease kind db = Inr job"
  shows "fenced_by db lease job \<and> jb_Kind job = kind"
proof -
  from assms obtain j where j: "Option.bind (job_by_id db (lease_id lease)) (scanJob env) = Some j"
    by (cases "Option.bind (job_by_id db (lease_id lease)) (scanJob env)")
      (simp_all add: lockAgentTurnRecoveryJob_def split: if_split_asm)
  with assms have "fenced_row AgentTurnRecoveryQueue kind lease j" "job = j"
    by (simp_all add: lockAgentTurnRecoveryJob_def split: if_split_asm option.split_asm)
  moreover from j obtain r where "job_by_id db (lease_id lease) = Some r" "scanJob env r = Some j"
    by (auto simp: bind_eq_Some_conv)
  ultimately show ?thesis using fenced_byI by blast
qed

lemma lockClosureJob_fenced:
  assumes "lockClosureJob env now lease kind db = Inr job"
  shows "fenced_by db lease job \<and> jb_Kind job = kind"
  using assms lockFencedWorkflowJob_fenced
  by (auto simp: lockClosureJob_def split: sum.split_asm if_split_asm)

lemma fencedE:
  assumes "fenced_by db lease job \<and> jb_Kind job = kind"
  obtains r where "holds_lease db lease r" "jb_ID job = lease_id lease" "jb_Kind job = jb_Kind r" "jb_Kind job = kind"
    "jb_AttemptCount job = jb_AttemptCount r" "jb_MaxAttempts job = jb_MaxAttempts r"
    "jb_LeaseToken job = jb_LeaseToken r"
proof -
  from assms obtain r where r: "holds_lease db lease r" "job = r\<lparr>jb_Payload := jb_Payload job\<rparr>"
    unfolding fenced_by_def by blast
  have "jb_ID job = jb_ID r" "jb_Kind job = jb_Kind r" "jb_AttemptCount job = jb_AttemptCount r"
    "jb_MaxAttempts job = jb_MaxAttempts r" "jb_LeaseToken job = jb_LeaseToken r"
    using arg_cong [OF r(2), of jb_ID] arg_cong [OF r(2), of jb_Kind] arg_cong [OF r(2), of jb_AttemptCount]
      arg_cong [OF r(2), of jb_MaxAttempts] arg_cong [OF r(2), of jb_LeaseToken] by simp_all
  with that [OF r(1)] assms holds_leaseD(6) [OF r(1)] show thesis by simp
qed

text \<open>A failed attempt, on the row that may have been granted another one.\<close>

lemma failWorkflowActionJobTx_run:
  assumes ok: "jobs_ok ({}, db)" and j: "job_by_id db (jb_ID job) = Some j" "jb_Status j = JobLeased"
      "jb_LeaseToken job = jb_LeaseToken j" "jb_AttemptCount job = jb_AttemptCount j"
    and again: "again \<Longrightarrow> jb_AttemptCount j < jb_MaxAttempts j"
    and t: "failWorkflowActionJobTx now job message retryable again d db = Inr t"
  shows "(micro (jb_ID job))\<^sup>*\<^sup>* ({}, db) ({}, t)
    \<and> job_by_id t (jb_ID job) = Some ((retried now again d message j)\<lparr>jb_Result := None\<rparr>)"
proof -
  have token: "row_token job = row_token j" using j(3) by (simp add: row_token_def)
  have own: "own_job job j"
    using j job_by_id_ID [OF j(1)] row_token_fenced [OF rows_okD(1) [OF jobs_okD(4) [OF ok] j(1)] j(2)]
    by (simp add: own_job_def)
  from t [unfolded failWorkflowActionJobTx_def] obtain u where
    u: "change_attempt (jb_ID job) (row_token j) (jb_AttemptCount j) ErrJobLeaseLost
      (\<lambda>a. a\<lparr>ja_Status := AttemptFailed, ja_FinishedAt := Some now, ja_Retryable := Some retryable,
             ja_LastError := Some message\<rparr>) db = Inr u" and
    v: "change_job (own_job job) ErrJobLeaseLost (\<lambda>j. (retried now again d message j)\<lparr>jb_Result := None\<rparr>) u = Inr t"
    unfolding token j(4) by (auto split: sum.split_asm)
  show ?thesis
    by (rule change_both_run [OF ok j(1,2) _ u v own]) (auto simp: own_job_def again)
qed


lemma keep_going_run:
  assumes t: "keep_going env now job e db = Inr (s, t)" and ok: "jobs_ok ({}, db)"
    and r: "job_by_id db (jb_ID job) = Some r" "jb_Kind job = jb_Kind r" "jb_AttemptCount job = jb_AttemptCount r"
      "jb_MaxAttempts job = jb_MaxAttempts r"
  obtains m w where "(micro (jb_ID job))\<^sup>*\<^sup>* ({}, db) ({}, t)" "jb_AttemptCount r < m"
    "job_by_id t (jb_ID job) = Some (r\<lparr>jb_MaxAttempts := m, jb_UpdatedAt := w\<rparr>)"
proof (cases "jb_AttemptCount job \<ge> jb_MaxAttempts job")
  case True
  with t have "continueIrreversibleJobAfterExhaustionTx env now job db = Inr ((True, s), t)"
    by (simp add: keep_going_def split: sum.split_asm prod.split_asm if_split_asm)
  from continueIrreversible_run [OF this ok r(1,2)] that show thesis by blast
next
  case False
  with t have "t = db" by (simp add: keep_going_def)
  with False r that [of "jb_MaxAttempts r" "jb_UpdatedAt r"] show thesis by simp
qed

lemma AcknowledgePendingEventReconciliationFailure_run:
  assumes t: "AcknowledgePendingEventReconciliationFailure env now lease cause retryable d db = Inr (x, t)"
    and ok: "jobs_ok ({}, db)"
  obtains r k where "holds_lease db lease r" "(micro (lease_id lease))\<^sup>*\<^sup>* ({}, db) ({}, t)"
    "job_by_id t (lease_id lease) = Some k" "jb_Status k \<noteq> JobLeased" "jb_AttemptCount k = jb_AttemptCount r"
proof -
  note t' = t [unfolded AcknowledgePendingEventReconciliationFailure_def Let_def]
  have valid: "validateWorkflowActionFailure cause d" by (rule ccontr) (use t' in simp)
  from t' valid obtain job where
    job: "lockFencedWorkflowJob env now lease ReconcilePendingEventsJobKind ErrPendingEventReconciliationFenceLost db = Inr job"
    by (cases "lockFencedWorkflowJob env now lease ReconcilePendingEventsJobKind ErrPendingEventReconciliationFenceLost db")
      simp_all
  let ?again = "retryable \<and> jb_AttemptCount job < jb_MaxAttempts job"
  from t' valid job obtain u where u: "failWorkflowActionJobTx now job (the cause) retryable ?again d db = Inr u"
    by (cases "failWorkflowActionJobTx now job (the cause) retryable ?again d db") simp_all
  have v: "u = t \<or> (\<exists>role y. requestWorkflowActionFailureEscalationTx env now job role (the cause) u = Inr (y, t))"
  proof (cases ?again)
    case True
    with t' valid job u show ?thesis by simp
  next
    case False
    from t' valid job u obtain role where role: "failure_role env job = Some role"
      by (cases "failure_role env job") (simp_all add: False)
    with t' valid job u obtain y v where y: "requestWorkflowActionFailureEscalationTx env now job role (the cause) u = Inr (y, v)"
      by (cases "requestWorkflowActionFailureEscalationTx env now job role (the cause) u") (auto simp: False)
    with t' valid job u role have "v = t" by (simp add: False split: option.split_asm)
    with y show ?thesis by blast
  qed
  from lockFencedWorkflowJob_fenced [OF job] obtain r where r: "holds_lease db lease r" "jb_ID job = lease_id lease"
    "jb_AttemptCount job = jb_AttemptCount r" "jb_MaxAttempts job = jb_MaxAttempts r" "jb_LeaseToken job = jb_LeaseToken r"
    by (rule fencedE)
  note h = holds_leaseD [OF r(1)]
  let ?k = "(retried now ?again d (the cause) r)\<lparr>jb_Result := None\<rparr>"
  have fail: "(micro (lease_id lease))\<^sup>*\<^sup>* ({}, db) ({}, u) \<and> job_by_id u (lease_id lease) = Some ?k"
    using failWorkflowActionJobTx_run [OF ok _ h(2) r(5,3) _ u] h r by simp
  have mid: "(micro i)\<^sup>*\<^sup>* ({}, u) ({}, t)" for i
    using v by (auto intro: requestWorkflowActionFailureEscalationTx_run)
  obtain i where "i \<noteq> lease_id lease" by (metis list.distinct(1))
  then have k: "job_by_id t (lease_id lease) = Some ?k"
    using micros_frame [OF mid [of i], of "lease_id lease" ?k] fail by simp
  show thesis
    by (rule that [OF r(1) rtranclp_trans [OF conjunct1 [OF fail] mid] k]) simp_all
qed

lemma acknowledgeClosureActionFailure_run:
  assumes t: "acknowledgeClosureActionFailure env now lease cause d actual db = Inr (x, t)"
    and ok: "jobs_ok ({}, db)"
  obtains r k where "holds_lease db lease r" "(micro (lease_id lease))\<^sup>*\<^sup>* ({}, db) ({}, t)"
    "job_by_id t (lease_id lease) = Some k" "jb_Status k = JobAvailable" "jb_AttemptCount k = jb_AttemptCount r"
proof -
  let ?i = "lease_id lease"
  let ?f = "\<lambda>j. j\<lparr>jb_MaxAttempts := jb_MaxAttempts j + 1\<rparr>"
  note t' = t [unfolded acknowledgeClosureActionFailure_def Let_def]
  have valid: "validateWorkflowActionFailure cause d" by (rule ccontr) (use t' in simp)
  have kind: "closure_kind (jb_Kind (jl_Job lease))" by (rule ccontr) (use t' valid in simp)
  have workflow: "lockClosureWorkflow env lease = None"
    by (cases "lockClosureWorkflow env lease") (use t' valid kind in simp_all)
  from t' valid kind workflow obtain job where job: "lockClosureJob env now lease (jb_Kind (jl_Job lease)) db = Inr job"
    by (cases "lockClosureJob env now lease (jb_Kind (jl_Job lease)) db") simp_all
  from t' valid kind workflow job obtain s u where u: "extend_attempts env now job actual db = Inr (s, u)"
    by (cases "extend_attempts env now job actual db") auto
  from t' valid kind workflow job u obtain w where w: "failWorkflowActionJobTx now job (the cause) True True d u = Inr w"
    by (cases "failWorkflowActionJobTx now job (the cause) True True d u") simp_all
  with t' valid kind workflow job u have v: "failWorkflowActionJobTx now job (the cause) True True d u = Inr t"
    by (simp split: option.split_asm)
  from lockClosureJob_fenced [OF job] obtain r where r: "holds_lease db lease r" "jb_ID job = ?i"
    "jb_Kind job = jb_Kind r" "jb_AttemptCount job = jb_AttemptCount r" "jb_MaxAttempts job = jb_MaxAttempts r"
    "jb_LeaseToken job = jb_LeaseToken r" "jb_Kind job = jb_Kind (jl_Job lease)"
    by (rule fencedE)
  note h = holds_leaseD [OF r(1)]
  obtain m w where u': "(micro ?i)\<^sup>*\<^sup>* ({}, db) ({}, u)" "jb_AttemptCount r < m"
    "job_by_id u ?i = Some (r\<lparr>jb_MaxAttempts := m, jb_UpdatedAt := w\<rparr>)"
  proof (cases actual)
    case True
    with u have "keep_going env now job ErrClosureSettlementFenceLost db = Inr (s, u)"
      by (simp add: extend_attempts_def)
    from keep_going_run [OF this ok _ r(3,4,5)] that h(1) show thesis unfolding r(2) by blast
  next
    case False
    with u obtain n where wait: "update_jobs (\<lambda>j. jb_ID j = jb_ID job) ?f db = Some (n, u)"
      by (auto simp: extend_attempts_def split: option.split_asm)
    have hit: "job_checks (?f r) \<and> u = put_job (?f r) db"
      using update_jobs_changed [OF jobs_okD(1) [OF ok] _ _ wait h(1)] r(2) h(6) by simp
    have irr: "irreversible (jb_Kind r)" using kind r(3,7) by (auto simp: irreversible_def closure_kind_def)
    have "micro ?i ({}, db) ({}, u)"
      unfolding conjunct2 [OF hit]
      by (rule micro.rewrite [OF h(1)]) (use hit irr in \<open>auto simp: same_identity_def budget_kept_def fixed_budget_def\<close>)
    then have "(micro ?i)\<^sup>*\<^sup>* ({}, db) ({}, u)" by (rule r_into_rtranclp)
    moreover have "job_by_id u ?i = Some (r\<lparr>jb_MaxAttempts := jb_MaxAttempts r + 1, jb_UpdatedAt := jb_UpdatedAt r\<rparr>)"
      using hit h(1,6) by simp
    moreover have "jb_AttemptCount r < jb_MaxAttempts r + 1"
      using rows_okD(1) [OF jobs_okD(4) [OF ok] h(1)] by (simp add: job_checks_def)
    ultimately show thesis using that by blast
  qed
  have "(micro (jb_ID job))\<^sup>*\<^sup>* ({}, u) ({}, t) \<and> job_by_id t (jb_ID job)
      = Some ((retried now True d (the cause) (r\<lparr>jb_MaxAttempts := m, jb_UpdatedAt := w\<rparr>))\<lparr>jb_Result := None\<rparr>)"
    by (rule failWorkflowActionJobTx_run [OF micros_ok [OF u'(1) ok] _ _ _ _ _ v]) (use u' r h in simp_all)
  then have run: "(micro ?i)\<^sup>*\<^sup>* ({}, u) ({}, t)" and k: "job_by_id t ?i
      = Some ((retried now True d (the cause) (r\<lparr>jb_MaxAttempts := m, jb_UpdatedAt := w\<rparr>))\<lparr>jb_Result := None\<rparr>)"
    unfolding r(2) by blast+
  show thesis
    by (rule that [OF r(1) rtranclp_trans [OF u'(1) run] k]) simp_all
qed

lemma AcknowledgeRecoveredRuntimeStopFailure_run:
  assumes t: "AcknowledgeRecoveredRuntimeStopFailure env now lease cause d db = Inr (x, t)"
    and ok: "jobs_ok ({}, db)"
  obtains r k where "holds_lease db lease r" "(micro (lease_id lease))\<^sup>*\<^sup>* ({}, db) ({}, t)"
    "job_by_id t (lease_id lease) = Some k" "jb_Status k = JobAvailable" "jb_AttemptCount k = jb_AttemptCount r"
proof -
  let ?i = "lease_id lease"
  note t' = t [unfolded AcknowledgeRecoveredRuntimeStopFailure_def]
  have valid: "validateWorkflowActionFailure cause d" by (rule ccontr) (use t' in simp)
  from t' valid obtain job where job: "lockAgentTurnRecoveryJob env now lease StopStaleRuntimeJobKind db = Inr job"
    by (cases "lockAgentTurnRecoveryJob env now lease StopStaleRuntimeJobKind db") simp_all
  from t' valid job obtain s u where u: "keep_going env now job ErrAgentTurnRecoveryFenceLost db = Inr (s, u)"
    by (cases "keep_going env now job ErrAgentTurnRecoveryFenceLost db") auto
  from t' valid job u have v: "failWorkflowActionJobTx now job (the cause) True True d u = Inr t"
    by (cases "failWorkflowActionJobTx now job (the cause) True True d u") simp_all
  from lockAgentTurnRecoveryJob_fenced [OF job] obtain r where r: "holds_lease db lease r" "jb_ID job = ?i"
    "jb_Kind job = jb_Kind r" "jb_AttemptCount job = jb_AttemptCount r" "jb_MaxAttempts job = jb_MaxAttempts r"
    "jb_LeaseToken job = jb_LeaseToken r"
    by (rule fencedE)
  note h = holds_leaseD [OF r(1)]
  obtain m w where u': "(micro ?i)\<^sup>*\<^sup>* ({}, db) ({}, u)" "jb_AttemptCount r < m"
    "job_by_id u ?i = Some (r\<lparr>jb_MaxAttempts := m, jb_UpdatedAt := w\<rparr>)"
    using keep_going_run [OF u ok _ r(3,4,5)] h(1) unfolding r(2) by blast
  have "(micro (jb_ID job))\<^sup>*\<^sup>* ({}, u) ({}, t) \<and> job_by_id t (jb_ID job)
      = Some ((retried now True d (the cause) (r\<lparr>jb_MaxAttempts := m, jb_UpdatedAt := w\<rparr>))\<lparr>jb_Result := None\<rparr>)"
    by (rule failWorkflowActionJobTx_run [OF micros_ok [OF u'(1) ok] _ _ _ _ _ v]) (use u' r h in simp_all)
  then have run: "(micro ?i)\<^sup>*\<^sup>* ({}, u) ({}, t)" and k: "job_by_id t ?i
      = Some ((retried now True d (the cause) (r\<lparr>jb_MaxAttempts := m, jb_UpdatedAt := w\<rparr>))\<lparr>jb_Result := None\<rparr>)"
    unfolding r(2) by blast+
  show thesis
    by (rule that [OF r(1) rtranclp_trans [OF u'(1) run] k]) simp_all
qed

end
