(* ===== verification/Job_Preparation_Runs.thy ===== *)
theory Job_Preparation_Runs
  imports Job_Runs
begin

text \<open>
  The changes of jobs by other transactions (\<open>Job_Preparations\<close>) as runs of small steps.
\<close>

section \<open>Rewriting a row\<close>

definition same_lease_columns :: "job \<Rightarrow> job \<Rightarrow> bool" where
  "same_lease_columns j k \<longleftrightarrow>
     jb_Status k = jb_Status j \<and> jb_AttemptCount k = jb_AttemptCount j \<and> jb_LeaseOwner k = jb_LeaseOwner j
     \<and> jb_LeaseToken k = jb_LeaseToken j \<and> jb_LeaseExpiresAt k = jb_LeaseExpiresAt j"

lemma rewrite_run:
  assumes ok: "jobs_ok (D, db)" and j: "job_by_id db i = Some j" and f: "\<And>j. jb_ID (f j) = jb_ID j"
    and k: "same_identity j (f j)" "budget_kept j (f j)" "same_lease_columns j (f j)"
    and upd: "update_jobs (\<lambda>j. jb_ID j = i) f db = Some (n, t)"
  shows "micro i (D, db) (D, t) \<and> job_by_id t i = Some (f j)"
proof -
  have t: "job_checks (f j) \<and> t = put_job (f j) db"
    using update_jobs_changed [OF jobs_okD(1) [OF ok] _ f upd j] job_by_id_ID [OF j] by simp
  with k have "micro i (D, db) (D, put_job (f j) db)"
    by (intro micro.rewrite [OF j]) (simp_all add: same_lease_columns_def)
  with t show ?thesis using j job_by_id_ID [OF j] f [of j] by simp
qed

lemma set_payload_sel [simp]:
  "jb_ID (set_payload env p j) = jb_ID j" "jb_Status (set_payload env p j) = jb_Status j"
  "jb_AttemptCount (set_payload env p j) = jb_AttemptCount j" "jb_MaxAttempts (set_payload env p j) = jb_MaxAttempts j"
  "jb_LeaseToken (set_payload env p j) = jb_LeaseToken j" "jb_Kind (set_payload env p j) = jb_Kind j"
  by (simp_all add: set_payload_def)

lemma set_payload_kept:
  assumes "jb_Kind j = PrepareAgentTurnJobKind"
  shows "same_identity j ((set_payload env p j)\<lparr>jb_AvailableAt := a, jb_UpdatedAt := u\<rparr>)"
    "same_identity j ((set_payload env p j)\<lparr>jb_UpdatedAt := u\<rparr>)" "same_identity j (set_payload env p j)"
    "budget_kept j ((set_payload env p j)\<lparr>jb_AvailableAt := a, jb_UpdatedAt := u\<rparr>)"
    "budget_kept j ((set_payload env p j)\<lparr>jb_UpdatedAt := u\<rparr>)" "budget_kept j (set_payload env p j)"
    "same_lease_columns j ((set_payload env p j)\<lparr>jb_AvailableAt := a, jb_UpdatedAt := u\<rparr>)"
    "same_lease_columns j ((set_payload env p j)\<lparr>jb_UpdatedAt := u\<rparr>)" "same_lease_columns j (set_payload env p j)"
  using assms by (simp_all add: same_identity_def budget_kept_def same_lease_columns_def set_payload_def)

section \<open>Actions\<close>

lemma enqueue_cases:
  assumes "enqueueWorkflowJobWithInternalProvenance env r now s actionKey kind payload db = Inr (i, t)"
  obtains (insert) "insertIdempotentJobTx env now (action_job s actionKey kind payload) db = Inr (i, t)"
  | (pending) j q n where "pending_preparation s db = Some j" "i = jb_ID j" "kind = PrepareAgentTurnJobKind"
      "update_jobs (\<lambda>k. jb_ID k = jb_ID j)
         (\<lambda>k. (set_payload env q k)\<lparr>jb_AvailableAt := now, jb_UpdatedAt := now\<rparr>) db = Some (n, t)"
proof -
  let ?incoming = "if kind = PrepareAgentTurnJobKind then pr_Decode r payload else None"
  show thesis
  proof (cases "synchronizes ?incoming \<and> pending_preparation s db \<noteq> None")
    case False
    with assms have "insertIdempotentJobTx env now (action_job s actionKey kind payload) db = Inr (i, t)"
      by (auto simp: enqueueWorkflowJobWithInternalProvenance_def Let_def split: if_split_asm)
    then show thesis by (rule insert)
  next
    case True
    then obtain j where j: "pending_preparation s db = Some j" "synchronizes ?incoming" by auto
    then have "kind = PrepareAgentTurnJobKind" by (auto simp: synchronizes_def split: if_split_asm)
    with assms j pending [OF j(1)] show thesis
      by (auto simp: enqueueWorkflowJobWithInternalProvenance_def Let_def
          split: option.split_asm if_split_asm)
  qed
qed

lemma pending_preparationD:
  assumes "pending_preparation s db = Some j"
  shows "j \<in> set (db_Jobs db)" "jb_Kind j = PrepareAgentTurnJobKind" "live_job j"
  using assms by (auto simp: pending_preparation_def find_Some_iff live_job_def)

lemma enqueue_run:
  assumes "enqueueWorkflowJobWithInternalProvenance env r now s actionKey kind payload db = Inr (i, t)" "jobs_ok ({}, db)"
  shows "any_micro\<^sup>*\<^sup>* ({}, db) ({}, t)"
  using assms(1)
proof (cases rule: enqueue_cases)
  case insert
  then show ?thesis by (rule any_micro [OF insertIdempotentJobTx_run])
next
  case (pending j q n)
  note j = pending_preparationD [OF pending(1)]
  have row: "job_by_id db (jb_ID j) = Some j" by (rule job_by_id_mem [OF jobs_okD(1) [OF assms(2)] j(1)])
  have "micro (jb_ID j) ({}, db) ({}, t) \<and> job_by_id t (jb_ID j)
      = Some ((set_payload env q j)\<lparr>jb_AvailableAt := now, jb_UpdatedAt := now\<rparr>)"
    by (rule rewrite_run [OF assms(2) row _ _ _ _ pending(4)]) (simp_all add: set_payload_kept [OF j(2)])
  then have "micro (jb_ID j) ({}, db) ({}, t)" ..
  then show ?thesis by (intro any_micro r_into_rtranclp)
qed

lemma bound_sel [simp]:
  "jb_ID (bound turn source j) = jb_ID j" "jb_MaxAttempts (bound turn source j) = 1000000"
  by (simp_all add: bound_def split: prod.split)

lemma bound_kept:
  "jb_Kind j = RevalidateTerminalIntentJobKind \<Longrightarrow> same_identity j (bound turn source j)"
  "same_lease_columns j (bound turn source j)"
  by (simp_all add: bound_def same_identity_def same_lease_columns_def split: prod.split)

lemma enqueue_revalidation_run:
  assumes "enqueue_revalidation env r now s turn payload source db = Inr t" "jobs_ok ({}, db)"
  shows "any_micro\<^sup>*\<^sup>* ({}, db) ({}, t)"
proof -
  let ?s = "s\<lparr>as_Settlement := '''', as_InternalEvent := ''''\<rparr>"
  let ?job = "action_job ?s ''revalidate-terminal-intent'' RevalidateTerminalIntentJobKind payload"
  from assms(1) obtain i u read where
    u: "enqueueWorkflowJobWithInternalProvenance env r now ?s ''revalidate-terminal-intent''
      RevalidateTerminalIntentJobKind payload db = Inr (i, u)" and
    t: "change_job (\<lambda>j. jb_ID j = i) ErrWorkflowDecisionInvalid (bound turn read) u = Inr t"
    by (auto simp: enqueue_revalidation_def split: if_split_asm sum.split_asm option.split_asm)
  from u have ins: "insertIdempotentJobTx env now ?job db = Inr (i, u)" by (rule enqueue_cases) simp_all
  have run: "any_micro\<^sup>*\<^sup>* ({}, db) ({}, u)" by (rule any_micro [OF insertIdempotentJobTx_run [OF ins]])
  have ok: "jobs_ok ({}, u)" by (rule any_micros_ok [OF run assms(2)])
  obtain j where j: "j \<in> set (db_Jobs u)" "jb_ID j = i" "jb_Kind j = RevalidateTerminalIntentJobKind" "jb_MaxAttempts j = 3"
    using ins
  proof (cases rule: insertIdempotentJobTx_cases)
    case (old j)
    then have "j \<in> set (db_Jobs u)" by (auto simp: job_by_key_def find_Some_iff)
    with old that show thesis by (simp add: matching_job_def action_job_def)
  next
    case new
    then show thesis by (intro that [of "new_job env now ?job"]) (simp_all add: append_job_def action_job_def)
  qed
  have row: "job_by_id u i = Some j" using job_by_id_mem [OF jobs_okD(1) [OF ok] j(1)] j(2) by simp
  have upd: "update_jobs (\<lambda>j. jb_ID j = i) (bound turn read) u = Some (1, t)" using t by (rule change_job_cases)
  have "micro i ({}, u) ({}, t) \<and> job_by_id t i = Some (bound turn read j)"
    by (rule rewrite_run [OF ok row _ _ _ _ upd])
      (use j(3,4) in \<open>simp_all add: bound_kept budget_kept_def fixed_budget_def\<close>)
  then have "any_micro ({}, u) ({}, t)" by blast
  with run show ?thesis by (rule rtranclp.rtrancl_into_rtrancl)
qed

section \<open>Cancelling\<close>

lemma failed_attempt_sel:
  "ja_JobID (failed_attempt now cause a) = ja_JobID a \<and> ja_Number (failed_attempt now cause a) = ja_Number a
    \<and> ja_Status (failed_attempt now cause a) \<noteq> AttemptLeased"
  by (simp add: failed_attempt_def)

lemma cancelled_job_sel [simp]:
  "jb_ID (cancelled_job now cause j) = jb_ID j" "jb_AttemptCount (cancelled_job now cause j) = jb_AttemptCount j"
  "jb_MaxAttempts (cancelled_job now cause j) = jb_MaxAttempts j" "jb_Status (cancelled_job now cause j) = JobCancelled"
  "same_identity j (cancelled_job now cause j)" "budget_kept j (cancelled_job now cause j)"
  by (simp_all add: cancelled_job_def)

lemma cancel_waiting_run:
  assumes ok: "jobs_ok ({}, db)" and j: "job_by_id db i = Some j" "jb_Status j = JobAvailable" "cond j"
    and cond: "\<And>j. cond j \<Longrightarrow> jb_ID j = i"
    and upd: "update_jobs cond (cancelled_job now cause) db = Some (n, t)"
  shows "(micro i)\<^sup>*\<^sup>* ({}, db) ({}, t)"
proof -
  have "job_checks (cancelled_job now cause j) \<and> t = put_job (cancelled_job now cause j) db"
    using update_jobs_changed [OF jobs_okD(1) [OF ok] cond _ upd j(1,3)] by simp
  then have "micro i ({}, db) ({}, t)" using micro.cancel [OF j(1,2)] by simp
  then show ?thesis by (rule r_into_rtranclp)
qed

lemma cancel_leased_run:
  assumes ok: "jobs_ok ({}, db)" and j: "job_by_id db i = Some j" "jb_Status j = JobLeased" "cond j"
    and cond: "\<And>j. cond j \<Longrightarrow> jb_ID j = i"
    and upd: "update_attempts (fenced_attempt i (row_token j) (jb_AttemptCount j)) (failed_attempt now cause) db = Some (m, u)"
      "update_jobs cond (cancelled_job now cause) u = Some (n, t)"
  shows "(micro i)\<^sup>*\<^sup>* ({}, db) ({}, t)"
  using settle_run [OF ok j(1,2) failed_attempt_sel upd(1) rtranclp.rtrancl_refl j(3) cond _ _ _ _ _ _ upd(2)] by simp

lemma cancel_live_job_run:
  assumes "cancel_live_job now cause lost j db = Inr t" "jobs_ok ({}, db)" "job_by_id db (jb_ID j) = Some j" "live_job j"
  shows "(micro (jb_ID j))\<^sup>*\<^sup>* ({}, db) ({}, t)"
proof -
  let ?cond = "\<lambda>k. jb_ID k = jb_ID j \<and> live_job k"
  show ?thesis
  proof (cases "jb_Status j = JobLeased")
    case True
    with assms(1) obtain u where
      "change_attempt (jb_ID j) (row_token j) (jb_AttemptCount j) lost (failed_attempt now cause) db = Inr u"
      "change_job ?cond lost (cancelled_job now cause) u = Inr t"
      by (auto simp: cancel_live_job_def split: sum.split_asm)
    with True assms(4) show ?thesis
      by (auto elim!: change_attempt_cases change_job_cases intro!: cancel_leased_run [OF assms(2,3), of ?cond])
  next
    case False
    with assms(1,4) show ?thesis
      by (auto simp: cancel_live_job_def live_job_def elim!: change_job_cases
          intro!: cancel_waiting_run [OF assms(2,3), of ?cond])
  qed
qed

lemma cancelOutstanding_run:
  assumes "cancelOutstandingTerminalRevalidationTx now attempt db = Inr t" "jobs_ok ({}, db)"
  shows "any_micro\<^sup>*\<^sup>* ({}, db) ({}, t)"
  using assms(1) unfolding cancelOutstandingTerminalRevalidationTx_def
proof (rule loop_run(1) [OF _ assms(2)])
  note d = jobs_okD(1) [OF assms(2)]
  show "distinct (map jb_ID (filter (\<lambda>j. sc_workflowAttemptID (jb_Scope j) = attempt
      \<and> jb_Kind j = RevalidateTerminalIntentJobKind \<and> live_job j) (db_Jobs db)))"
    using d by (simp add: job_ids_def distinct_map_filter)
qed (auto intro: cancel_live_job_run job_by_id_mem [OF jobs_okD(1) [OF assms(2)]])

lemma cancelAssignmentRetention_run:
  assumes "cancelAssignmentRetentionTx now generation db = Inr t" "jobs_ok ({}, db)"
  shows "any_micro\<^sup>*\<^sup>* ({}, db) ({}, t)"
proof (cases "t = db")
  case False
  let ?cause = "''Assignment retention cancelled before collection authorization''"
  from assms(1) False obtain i j u m where j: "job_by_id db i = Some j" and
    u: "(if jb_Status j = JobLeased
        then update_attempts (fenced_attempt i (row_token j) (jb_AttemptCount j)) (failed_attempt now ?cause) db
        else Some (0, db)) = Some (m, u)" and
    t: "if live_job j then \<exists>n. update_jobs (\<lambda>k. jb_ID k = i) (cancelled_job now ?cause) u = Some (n, t) else t = u"
    by (auto simp: cancelAssignmentRetentionTx_def Let_def split: option.split_asm if_split_asm)
  have id: "jb_ID j = i" by (rule job_by_id_ID [OF j])
  have live: "live_job j" using t u False by (cases "live_job j") (auto simp: live_job_def)
  with t obtain n where n: "update_jobs (\<lambda>k. jb_ID k = i) (cancelled_job now ?cause) u = Some (n, t)" by auto
  have "(micro i)\<^sup>*\<^sup>* ({}, db) ({}, t)"
  proof (cases "jb_Status j = JobLeased")
    case True
    with u have u': "update_attempts (fenced_attempt i (row_token j) (jb_AttemptCount j)) (failed_attempt now ?cause) db
      = Some (m, u)" by simp
    show ?thesis by (rule cancel_leased_run [OF assms(2) j True _ _ u' n]) (simp_all add: id)
  next
    case False
    with u live have "u = db" "jb_Status j = JobAvailable" by (auto simp: live_job_def)
    with cancel_waiting_run [OF assms(2) j _ _ _ n [unfolded \<open>u = db\<close>]] id show ?thesis by simp
  qed
  then show ?thesis by (rule any_micro)
qed simp

text \<open>The preparations of a Workflow are cancelled in one statement: job by job, up to a set \<open>S\<close> of them.\<close>

definition cancelled_up_to ::
  "(job \<Rightarrow> bool) \<Rightarrow> (job_attempt \<Rightarrow> bool) \<Rightarrow> instant \<Rightarrow> string \<Rightarrow> jobs_db \<Rightarrow> string set \<Rightarrow> jobs_db" where
  "cancelled_up_to C A now cause db S =
     db\<lparr>db_Jobs := map (\<lambda>j. if C j \<and> jb_ID j \<in> S then cancelled_job now cause j else j) (db_Jobs db),
        db_Attempts := map (\<lambda>a. if A a \<and> ja_JobID a \<in> S then failed_attempt now cause a else a) (db_Attempts db)\<rparr>"


lemma same_row: "jobs_ok (D, db) \<Longrightarrow> k \<in> set (db_Jobs db) \<Longrightarrow> j \<in> set (db_Jobs db) \<Longrightarrow> jb_ID k = jb_ID j \<Longrightarrow> k = j"
  using job_by_id_mem [OF jobs_okD(1)] by (metis option.inject)

lemma cancelled_up_to_step:
  assumes ok: "jobs_ok ({}, db)" and ok': "jobs_ok ({}, cancelled_up_to C A now cause db S)"
    and j: "j \<in> set (db_Jobs db)" "C j" "live_job j" "jb_ID j \<notin> S"
    and own: "\<And>a. a \<in> set (db_Attempts db) \<Longrightarrow> ja_JobID a = jb_ID j
      \<Longrightarrow> A a \<longleftrightarrow> fenced_attempt (jb_ID j) (row_token j) (jb_AttemptCount j) a \<and> jb_Status j = JobLeased"
    and checks: "job_checks (cancelled_job now cause j)"
      "\<And>a. a \<in> set (db_Attempts db) \<Longrightarrow> A a \<Longrightarrow> attempt_checks (failed_attempt now cause a)"
  shows "(micro (jb_ID j))\<^sup>*\<^sup>* ({}, cancelled_up_to C A now cause db S)
      ({}, cancelled_up_to C A now cause db (insert (jb_ID j) S))"
proof -
  let ?u = "cancelled_up_to C A now cause db S" and ?t = "cancelled_up_to C A now cause db (insert (jb_ID j) S)"
  let ?cond = "\<lambda>k. jb_ID k = jb_ID j"
  note only = same_row [OF ok _ j(1)]
  have "j \<in> set (db_Jobs ?u)" using j(1,4) by (force simp: cancelled_up_to_def)
  then have row: "job_by_id ?u (jb_ID j) = Some j" by (rule job_by_id_mem [OF jobs_okD(1) [OF ok']])
  have jobs: "update_jobs ?cond (cancelled_job now cause) v = Some (length (filter ?cond (db_Jobs v)), v\<lparr>db_Jobs := db_Jobs ?t\<rparr>)"
    if "db_Jobs v = db_Jobs ?u" for v
  proof -
    let ?g = "\<lambda>k. if C k \<and> jb_ID k \<in> S then cancelled_job now cause k else k"
    have u: "db_Jobs ?u = map ?g (db_Jobs db)" by (simp add: cancelled_up_to_def)
    have one: "(if ?cond (?g k) then cancelled_job now cause (?g k) else ?g k)
        = (if C k \<and> jb_ID k \<in> insert (jb_ID j) S then cancelled_job now cause k else k)
        \<and> (?cond (?g k) \<longrightarrow> job_checks (cancelled_job now cause (?g k)))" if "k \<in> set (db_Jobs db)" for k
    proof (cases "jb_ID k = jb_ID j")
      case True
      from only [OF that True] show ?thesis using j(2,4) checks(1) by simp
    qed simp
    then have "map (\<lambda>k. if ?cond k then cancelled_job now cause k else k) (db_Jobs ?u) = db_Jobs ?t"
      unfolding u map_map comp_def cancelled_up_to_def by (simp cong: map_cong)
    moreover have "list_all (\<lambda>k. ?cond k \<longrightarrow> job_checks (cancelled_job now cause k)) (db_Jobs ?u)"
      unfolding u list.pred_map using one by (simp add: list_all_iff)
    ultimately show ?thesis by (simp add: update_jobs_def that)
  qed
  show ?thesis
  proof (cases "jb_Status j = JobLeased")
    case True
    let ?fenced = "fenced_attempt (jb_ID j) (row_token j) (jb_AttemptCount j)"
    let ?g = "\<lambda>a. if A a \<and> ja_JobID a \<in> S then failed_attempt now cause a else a"
    have u: "db_Attempts ?u = map ?g (db_Attempts db)" by (simp add: cancelled_up_to_def)
    have one: "(if ?fenced (?g a) then failed_attempt now cause (?g a) else ?g a)
        = (if A a \<and> ja_JobID a \<in> insert (jb_ID j) S then failed_attempt now cause a else a)
        \<and> (?fenced (?g a) \<longrightarrow> attempt_checks (failed_attempt now cause (?g a)))" if a: "a \<in> set (db_Attempts db)" for a
    proof (cases "ja_JobID a = jb_ID j")
      case same: True
      with j(4) own [OF a same] True checks(2) [OF a] show ?thesis by simp
    next
      case False
      then show ?thesis using failed_attempt_sel by (simp add: fenced_attempt_def)
    qed
    then have "map (\<lambda>a. if ?fenced a then failed_attempt now cause a else a) (db_Attempts ?u) = db_Attempts ?t"
      unfolding u map_map comp_def cancelled_up_to_def by (simp cong: map_cong)
    moreover have "list_all (\<lambda>a. ?fenced a \<longrightarrow> attempt_checks (failed_attempt now cause a)) (db_Attempts ?u)"
      unfolding u list.pred_map using one by (simp add: list_all_iff)
    ultimately have upd: "update_attempts ?fenced (failed_attempt now cause) ?u
        = Some (length (filter ?fenced (db_Attempts ?u)), ?u\<lparr>db_Attempts := db_Attempts ?t\<rparr>)"
      by (simp add: update_attempts_def)
    have "(micro (jb_ID j))\<^sup>*\<^sup>* ({}, ?u) ({}, ?u\<lparr>db_Attempts := db_Attempts ?t, db_Jobs := db_Jobs ?t\<rparr>)"
      by (rule cancel_leased_run [OF ok' row True _ _ upd jobs]) simp_all
    moreover have "?u\<lparr>db_Attempts := db_Attempts ?t, db_Jobs := db_Jobs ?t\<rparr> = ?t"
      by (rule jobs_db.equality) (simp_all add: cancelled_up_to_def)
    ultimately show ?thesis by simp
  next
    case False
    then have waiting: "jb_Status j = JobAvailable" using j(3) by (simp add: live_job_def)
    have "(micro (jb_ID j))\<^sup>*\<^sup>* ({}, ?u) ({}, ?u\<lparr>db_Jobs := db_Jobs ?t\<rparr>)"
      by (rule cancel_waiting_run [OF ok' row waiting _ _ jobs]) simp_all
    moreover have "db_Attempts ?t = db_Attempts ?u" using own False by (auto simp: cancelled_up_to_def)
    then have "?u\<lparr>db_Jobs := db_Jobs ?t\<rparr> = ?t" by (simp add: cancelled_up_to_def)
    ultimately show ?thesis by simp
  qed
qed

lemma cancelled_up_to_run:
  assumes "finite S" "jobs_ok ({}, db)" "S \<subseteq> jb_ID ` {j \<in> set (db_Jobs db). C j}" "\<And>j. C j \<Longrightarrow> live_job j"
    and own: "\<And>a j. a \<in> set (db_Attempts db) \<Longrightarrow> j \<in> set (db_Jobs db) \<Longrightarrow> C j \<Longrightarrow> ja_JobID a = jb_ID j
      \<Longrightarrow> A a \<longleftrightarrow> fenced_attempt (jb_ID j) (row_token j) (jb_AttemptCount j) a \<and> jb_Status j = JobLeased"
    and checks: "\<And>j. j \<in> set (db_Jobs db) \<Longrightarrow> C j \<Longrightarrow> job_checks (cancelled_job now cause j)"
      "\<And>a. a \<in> set (db_Attempts db) \<Longrightarrow> A a \<Longrightarrow> attempt_checks (failed_attempt now cause a)"
  shows "any_micro\<^sup>*\<^sup>* ({}, db) ({}, cancelled_up_to C A now cause db S)"
  using assms(1,3)
proof (induction S rule: finite_induct)
  case empty
  then show ?case by (simp add: cancelled_up_to_def)
next
  case (insert i S)
  then obtain j where j: "j \<in> set (db_Jobs db)" "C j" "i = jb_ID j" by auto
  from insert have run: "any_micro\<^sup>*\<^sup>* ({}, db) ({}, cancelled_up_to C A now cause db S)" by simp
  have "(micro i)\<^sup>*\<^sup>* ({}, cancelled_up_to C A now cause db S) ({}, cancelled_up_to C A now cause db (insert i S))"
    unfolding j(3)
    by (rule cancelled_up_to_step [OF assms(2) any_micros_ok [OF run assms(2)] j(1,2) assms(4) [OF j(2)]])
      (use insert(2) j(3) own [OF _ j(1,2)] checks(1) [OF j(1,2)] checks(2) in blast)+
  from rtranclp_trans [OF run any_micro [OF this]] show ?case .
qed

text \<open>All of them, as two statements.\<close>

lemma cancel_all_run:
  assumes "update_attempts A (failed_attempt now cause) db = Some (m, u)" "update_jobs C (cancelled_job now cause) u = Some (n, t)"
    and ok: "jobs_ok ({}, db)" and live: "\<And>j. C j \<Longrightarrow> live_job j"
    and own: "\<And>a j. j \<in> set (db_Jobs db) \<Longrightarrow> C j \<Longrightarrow> ja_JobID a = jb_ID j
      \<Longrightarrow> A a \<longleftrightarrow> fenced_attempt (jb_ID j) (row_token j) (jb_AttemptCount j) a \<and> jb_Status j = JobLeased"
    and owned: "\<And>a. A a \<Longrightarrow> ja_JobID a \<in> jb_ID ` {j \<in> set (db_Jobs db). C j}"
  shows "any_micro\<^sup>*\<^sup>* ({}, db) ({}, t)"
proof -
  let ?S = "jb_ID ` {j \<in> set (db_Jobs db). C j}"
  from assms(1) have u: "list_all (\<lambda>a. A a \<longrightarrow> attempt_checks (failed_attempt now cause a)) (db_Attempts db)"
    "u = db\<lparr>db_Attempts := map (\<lambda>a. if A a then failed_attempt now cause a else a) (db_Attempts db)\<rparr>"
    by (simp_all add: update_attempts_def split: if_split_asm)
  from assms(2) have t: "list_all (\<lambda>j. C j \<longrightarrow> job_checks (cancelled_job now cause j)) (db_Jobs db)"
    "t = u\<lparr>db_Jobs := map (\<lambda>j. if C j then cancelled_job now cause j else j) (db_Jobs db)\<rparr>"
    by (simp_all add: update_jobs_def u(2) split: if_split_asm)
  have jobs: "map (\<lambda>j. if C j \<and> jb_ID j \<in> ?S then cancelled_job now cause j else j) (db_Jobs db)
      = map (\<lambda>j. if C j then cancelled_job now cause j else j) (db_Jobs db)" by (auto intro!: map_cong)
  have attempts: "map (\<lambda>a. if A a \<and> ja_JobID a \<in> ?S then failed_attempt now cause a else a) (db_Attempts db)
      = map (\<lambda>a. if A a then failed_attempt now cause a else a) (db_Attempts db)" using owned by (intro map_cong) auto
  have "t = cancelled_up_to C A now cause db ?S" unfolding cancelled_up_to_def jobs attempts t(2) u(2) by simp
  moreover have "any_micro\<^sup>*\<^sup>* ({}, db) ({}, cancelled_up_to C A now cause db ?S)"
    by (rule cancelled_up_to_run [OF _ ok order_refl live own]) (use u(1) t(1) in \<open>simp_all add: list_all_iff\<close>)
  ultimately show ?thesis by simp
qed

lemma cancelPendingPreparations_run:
  assumes "cancelPendingPreparations now workflow db = Inr t" "jobs_ok ({}, db)"
  shows "any_micro\<^sup>*\<^sup>* ({}, db) ({}, t)"
proof -
  let ?cause = "''Issue closure cancelled Agent Turn preparation''"
  let ?C = "\<lambda>j. (job_workflow j = workflow \<and> jb_Kind j = PrepareAgentTurnJobKind) \<and> live_job j"
  let ?A = "\<lambda>a. ja_Status a = AttemptLeased
      \<and> list_ex (\<lambda>j. (job_workflow j = workflow \<and> jb_Kind j = PrepareAgentTurnJobKind) \<and> jb_Status j = JobLeased
          \<and> jb_ID j = ja_JobID a \<and> ja_Number a = jb_AttemptCount j \<and> jb_LeaseToken j = Some (ja_LeaseToken a)) (db_Jobs db)"
  from assms(1) obtain m u n where u: "update_attempts ?A (failed_attempt now ?cause) db = Some (m, u)"
    "update_jobs ?C (cancelled_job now ?cause) u = Some (n, t)"
    by (auto simp: cancelPendingPreparations_def Let_def split: option.split_asm)
  have own: "?A a \<longleftrightarrow> fenced_attempt (jb_ID j) (row_token j) (jb_AttemptCount j) a \<and> jb_Status j = JobLeased"
    if "j \<in> set (db_Jobs db)" "?C j" "ja_JobID a = jb_ID j" for a j
  proof -
    have only: "jb_ID k = ja_JobID a \<longleftrightarrow> k = j" if "k \<in> set (db_Jobs db)" for k
      using same_row [OF assms(2) that \<open>j \<in> set (db_Jobs db)\<close>] \<open>ja_JobID a = jb_ID j\<close> by auto
    have row: "?A a \<longleftrightarrow> ja_Status a = AttemptLeased \<and> jb_Status j = JobLeased \<and> ja_Number a = jb_AttemptCount j
        \<and> jb_LeaseToken j = Some (ja_LeaseToken a)"
      unfolding list_ex_iff using only that(1,2) by metis
    have token: "jb_Status j = JobLeased \<Longrightarrow> jb_LeaseToken j = Some (row_token j)"
      using row_token_fenced rows_okD(1) [OF jobs_okD(4) [OF assms(2)] job_by_id_mem [OF jobs_okD(1) [OF assms(2)] that(1)]] .
    show ?thesis unfolding row using token that(3) by (auto simp: fenced_attempt_def)
  qed
  show ?thesis
    by (rule cancel_all_run [OF u assms(2) _ own]) (auto simp: list_ex_iff live_job_def image_iff)
qed

section \<open>Under the lease of a preparation\<close>

lemma retargeted_lease_same:
  "retargeted_lease r current lease = Some lease' \<Longrightarrow>
    lease_id lease' = lease_id lease \<and> lease_token lease' = lease_token lease \<and> jl_Attempt lease' = jl_Attempt lease"
  by (auto simp: retargeted_lease_def lease_id_def lease_token_def row_token_def split: if_split_asm option.split_asm)

lemma fenced_by_same:
  "fenced_by db lease' job \<Longrightarrow> lease_id lease' = lease_id lease \<and> lease_token lease' = lease_token lease
    \<and> jl_Attempt lease' = jl_Attempt lease \<Longrightarrow> fenced_by db lease job"
  by (simp add: fenced_by_def holds_lease_def)

lemma lockPreparationJobTx_fenced:
  assumes "lockPreparationJobTx env r now lease db = Inr job"
  shows "fenced_by db lease job \<and> jb_Kind job = PrepareAgentTurnJobKind"
proof -
  from assms obtain current lease' where l: "retargeted_lease r current lease = Some lease'" and
    lock: "lockFencedWorkflowJob env now lease' PrepareAgentTurnJobKind ErrAgentTurnPreparationFenceLost db = Inr job"
    by (auto simp: lockPreparationJobTx_def split: option.split_asm)
  show ?thesis using lockFencedWorkflowJob_fenced [OF lock] fenced_by_same [OF _ retargeted_lease_same [OF l]] by blast
qed

lemma lockReviewAdmissionJob_fenced:
  assumes "lockReviewAdmissionJob env r now lease db = Inr (job, p)"
  shows "fenced_by db lease job \<and> jb_Kind job = PrepareAgentTurnJobKind"
proof -
  from assms have "lockPreparationJobTx env r now lease db = Inr job"
    by (auto simp: lockReviewAdmissionJob_def split: if_split_asm sum.split_asm option.split_asm)
  then show ?thesis by (rule lockPreparationJobTx_fenced)
qed

lemma payload_run:
  assumes ok: "jobs_ok ({}, db)" and j: "job_by_id db i = Some j" "jb_Kind j = PrepareAgentTurnJobKind"
    and f: "f = set_payload env q \<or> f = (\<lambda>j. (set_payload env q j)\<lparr>jb_UpdatedAt := now\<rparr>)"
    and upd: "update_jobs (\<lambda>j. jb_ID j = i) f db = Some (n, t)"
  shows "(micro i)\<^sup>*\<^sup>* ({}, db) ({}, t) \<and> job_by_id t i = Some (f j)"
proof -
  have "micro i ({}, db) ({}, t) \<and> job_by_id t i = Some (f j)"
    by (rule rewrite_run [OF ok j(1) _ _ _ _ upd]) (use f set_payload_kept [OF j(2)] in auto)
  then show ?thesis by blast
qed

lemma RecordReviewAdmission_run:
  assumes t: "RecordReviewAdmission env r now lease head db = Inr t" and ok: "jobs_ok ({}, db)"
  obtains j k where "holds_lease db lease j" "(micro (lease_id lease))\<^sup>*\<^sup>* ({}, db) ({}, t)"
    "job_by_id t (lease_id lease) = Some k" "jb_AttemptCount k = jb_AttemptCount j" "jb_Status k = JobLeased"
    "row_token k = row_token j"
proof -
  from t obtain job p where lock: "lockReviewAdmissionJob env r now lease db = Inr (job, p)" and
    u: "t = db \<or> (\<exists>q n. update_jobs (\<lambda>j. jb_ID j = jb_ID job) (set_payload env q) db = Some (n, t))"
    unfolding RecordReviewAdmission_def
    by (auto split: sum.split_asm option.split_asm if_split_asm) blast+
  from lockReviewAdmissionJob_fenced [OF lock] obtain j where j: "holds_lease db lease j" "jb_ID job = lease_id lease"
    "jb_Kind j = PrepareAgentTurnJobKind" by (rule fencedE) simp
  note h = holds_leaseD [OF j(1)]
  from u show thesis
  proof
    assume "t = db"
    with that [OF j(1), of j] h show thesis by simp
  next
    assume "\<exists>q n. update_jobs (\<lambda>j. jb_ID j = jb_ID job) (set_payload env q) db = Some (n, t)"
    then obtain q n where upd: "update_jobs (\<lambda>j. jb_ID j = lease_id lease) (set_payload env q) db = Some (n, t)"
      unfolding j(2) by blast
    from payload_run [OF ok h(1) j(3) disjI1 [OF refl] upd] that [OF j(1), of "set_payload env q j"] h(2)
    show thesis by (simp add: row_token_def)
  qed
qed

lemma deferred_sel [simp]:
  "jb_ID (deferred now d j) = jb_ID j" "jb_Status (deferred now d j) = JobAvailable"
  "jb_AttemptCount (deferred now d j) = jb_AttemptCount j" "jb_MaxAttempts (deferred now d j) = jb_MaxAttempts j + 1"
  "same_identity j (deferred now d j)"
  by (simp_all add: deferred_def released_def same_identity_def)

lemma DeferReviewAdmission_run:
  assumes t: "DeferReviewAdmission env r now lease d db = Inr t" and ok: "jobs_ok ({}, db)"
  obtains j k where "holds_lease db lease j" "(micro (lease_id lease))\<^sup>*\<^sup>* ({}, db) ({}, t)"
    "job_by_id t (lease_id lease) = Some k" "jb_AttemptCount k = jb_AttemptCount j" "jb_Status k = JobAvailable"
proof -
  let ?f = "\<lambda>a. a\<lparr>ja_Status := AttemptSucceeded, ja_FinishedAt := Some now,
                ja_Result := Some (je_Jsonb env ''{\"healthy_ci_wait\":true}'')\<rparr>"
  from t obtain job p n u m where lock: "lockReviewAdmissionJob env r now lease db = Inr (job, p)" and
    u: "update_attempts (fenced_attempt (jb_ID job) (lease_token lease) (jl_Attempt lease)) ?f db = Some (n, u)"
    "update_jobs (\<lambda>j. jb_ID j = jb_ID job) (deferred now d) u = Some (m, t)"
    by (auto simp: DeferReviewAdmission_def split: if_split_asm sum.split_asm option.split_asm)
  from lockReviewAdmissionJob_fenced [OF lock] obtain j where j: "holds_lease db lease j" "jb_ID job = lease_id lease"
    "jb_Kind j = PrepareAgentTurnJobKind" by (rule fencedE) simp
  note h = holds_leaseD [OF j(1)]
  have "jb_AttemptCount j < jb_MaxAttempts j + 1"
    using rows_okD(1) [OF jobs_okD(4) [OF ok] h(1)] by (simp add: job_checks_def)
  moreover have "budget_kept j (deferred now d j)" using j(3) by (simp add: budget_kept_def fixed_budget_def)
  ultimately have "n = 1 \<and> m = 1 \<and> (micro (lease_id lease))\<^sup>*\<^sup>* ({}, db) ({}, t)
      \<and> job_by_id t (lease_id lease) = Some (deferred now d j)"
    by (intro settle_run [OF ok h(1,2) _ u(1) [unfolded j(2), folded h(3,4)] rtranclp.rtrancl_refl _ _ _ _ _ _ _ _
        u(2) [unfolded j(2)]]) (simp_all add: h(6))
  with that [OF j(1), of "deferred now d j"] show thesis by simp
qed

lemma restaged_run:
  assumes t: "restaged env r now job p retryable superseded db = Inr (x, t)" and ok: "jobs_ok ({}, db)"
    and j: "job_by_id db (jb_ID job) = Some j" "jb_Kind j = PrepareAgentTurnJobKind"
  obtains k where "(micro (jb_ID job))\<^sup>*\<^sup>* ({}, db) ({}, t)" "job_by_id t (jb_ID job) = Some k" "same_lease_columns j k"
    "jb_MaxAttempts k = jb_MaxAttempts j"
proof (cases "t = db")
  case True
  with that [of j] j(1) show thesis by (simp add: same_lease_columns_def)
next
  case False
  from t False obtain q where "refreshSupersededPreparationTx env r now job p db = Inr (Some q, t)"
    by (auto simp: restaged_def split: sum.split_asm if_split_asm prod.split_asm option.split_asm)
  then obtain n where upd: "update_jobs (\<lambda>j. jb_ID j = jb_ID job)
      (\<lambda>j. (set_payload env (pr_Encode r q) j)\<lparr>jb_UpdatedAt := now\<rparr>) db = Some (n, t)"
    by (auto simp: refreshSupersededPreparationTx_def split: sum.split_asm option.split_asm)
  from payload_run [OF ok j disjI2 [OF refl] upd] that set_payload_kept(8) [OF j(2)] show thesis by simp
qed

lemma AcknowledgeAgentTurnPreparationFailure_run:
  assumes t: "AcknowledgeAgentTurnPreparationFailure env r now lease cause superseded retryable d db = Inr (x, t)"
    and ok: "jobs_ok ({}, db)"
  obtains j k where "holds_lease db lease j" "(micro (lease_id lease))\<^sup>*\<^sup>* ({}, db) ({}, t)"
    "job_by_id t (lease_id lease) = Some k" "jb_AttemptCount k = jb_AttemptCount j" "jb_Status k \<noteq> JobLeased"
proof -
  from t obtain job p q again u v where
    lock: "lockFencedWorkflowJob env now lease PrepareAgentTurnJobKind ErrAgentTurnPreparationFenceLost db = Inr job" and
    u: "restaged env r now job p retryable superseded db = Inr ((q, again), u)" and
    v: "change_attempt (jb_ID job) (row_token job) (jb_AttemptCount job) ErrAgentTurnPreparationFenceLost
       (\<lambda>a. a\<lparr>ja_Status := AttemptFailed, ja_FinishedAt := Some now, ja_Retryable := Some again, ja_LastError := cause\<rparr>) u
       = Inr v" and
    w: "change_job (own_job job) ErrAgentTurnPreparationFenceLost
       (retried now (again \<and> jb_AttemptCount job < jb_MaxAttempts job) d (the cause)) v = Inr t"
    by (auto simp: AcknowledgeAgentTurnPreparationFailure_def Let_def
        split: if_split_asm sum.split_asm option.split_asm prod.split_asm)
  from lockFencedWorkflowJob_fenced [OF lock] obtain j where j: "holds_lease db lease j" "jb_ID job = lease_id lease"
    "jb_Kind j = PrepareAgentTurnJobKind" "jb_AttemptCount job = jb_AttemptCount j" "jb_MaxAttempts job = jb_MaxAttempts j"
    "jb_LeaseToken job = jb_LeaseToken j" by (rule fencedE) simp
  note h = holds_leaseD [OF j(1)]
  from restaged_run [OF u ok _ j(3)] h(1) j(2) obtain k where k: "(micro (lease_id lease))\<^sup>*\<^sup>* ({}, db) ({}, u)"
    "job_by_id u (lease_id lease) = Some k" "same_lease_columns j k" "jb_MaxAttempts k = jb_MaxAttempts j" by auto
  have oku: "jobs_ok ({}, u)" by (rule micros_ok [OF k(1) ok])
  have same: "jb_Status k = JobLeased" "jb_AttemptCount k = jb_AttemptCount j" "jb_LeaseToken k = jb_LeaseToken j"
    "row_token job = row_token k" "jb_ID k = lease_id lease"
    using k(3) h(2) j(6) job_by_id_ID [OF k(2)] by (simp_all add: same_lease_columns_def row_token_def)
  let ?g = "retried now (again \<and> jb_AttemptCount job < jb_MaxAttempts job) d (the cause)"
  have own: "own_job job k" using same h(7) j by (simp add: own_job_def)
  have "(micro (lease_id lease))\<^sup>*\<^sup>* ({}, u) ({}, t) \<and> job_by_id t (lease_id lease) = Some (?g k)"
    by (rule change_both_run [OF oku k(2) same(1) _ _ w own])
      (use v same j k(4) in \<open>auto simp: own_job_def\<close>)
  with that [OF j(1), of "?g k"] rtranclp_trans [OF k(1)] same(2) show thesis by simp
qed

end
