(* ===== verification/Job_Safety.thy ===== *)
theory Job_Safety
  imports Job_Preparation_Runs One_Shot
begin

text \<open>
  What the job queue guarantees over any interleaving of its operations, those of the workers and those of
  the transactions that rewrite or cancel jobs: an attempt is settled at most once and never after its lease
  is lost. The operations are one step function here.
\<close>

section \<open>The operations as one step function\<close>

datatype job_op =
    Insert job_insert | Insert_Idempotent job_insert | Claim string string string int
  | Heartbeat job_lease int | Complete job_lease string | Fail job_lease "string option" bool int
  | Reconciliation_Failure job_lease "string option" bool int | Closure_Failure job_lease "string option" int bool
  | Stop_Failure job_lease "string option" int
  | Enqueue preparation_reads action_source string string string
  | Enqueue_Revalidation preparation_reads action_source string string "(string \<times> string \<times> int64) option"
  | Retarget preparation_reads job_lease string | Defer preparation_reads job_lease int
  | Preparation_Failure preparation_reads job_lease "string option" bool bool int
  | Cancel_Preparations string | Cancel_Revalidations string | Cancel_Collection "(string \<times> string) option"
  | Cancel string string jobs_error

type_synonym job_call = "job_env \<times> instant \<times> job_op"

definition commit :: "jobs_db \<Rightarrow> (jobs_error + jobs_db) \<Rightarrow> bool \<times> jobs_db" where
  "commit db result = (case result of Inl _ \<Rightarrow> (False, db) | Inr t \<Rightarrow> (True, t))"

definition commit_with :: "jobs_db \<Rightarrow> (jobs_error + 'a \<times> jobs_db) \<Rightarrow> bool \<times> jobs_db" where
  "commit_with db result = (case result of Inl _ \<Rightarrow> (False, db) | Inr (_, t) \<Rightarrow> (True, t))"

fun job_step :: "job_call \<Rightarrow> jobs_db \<Rightarrow> bool \<times> jobs_db" where
  "job_step (env, now, Insert job) db = commit_with db (insertJobTx env now job db)"
| "job_step (env, now, Insert_Idempotent job) db = commit_with db (insertIdempotentJobTx env now job db)"
| "job_step (env, now, Claim queue kind owner lease) db = commit_with db (ClaimJobKind env now queue kind owner lease db)"
| "job_step (env, now, Heartbeat lease extension) db = commit db (HeartbeatJob env now lease extension db)"
| "job_step (env, now, Complete lease result) db = commit db (CompleteJob env now lease result db)"
| "job_step (env, now, Fail lease cause retryable d) db = commit db (FailJob env now lease cause retryable d db)"
| "job_step (env, now, Reconciliation_Failure lease cause retryable d) db =
     commit_with db (AcknowledgePendingEventReconciliationFailure env now lease cause retryable d db)"
| "job_step (env, now, Closure_Failure lease cause d actual) db =
     commit_with db (acknowledgeClosureActionFailure env now lease cause d actual db)"
| "job_step (env, now, Stop_Failure lease cause d) db =
     commit_with db (AcknowledgeRecoveredRuntimeStopFailure env now lease cause d db)"
| "job_step (env, now, Enqueue r s key kind payload) db =
     commit_with db (enqueueWorkflowJobWithInternalProvenance env r now s key kind payload db)"
| "job_step (env, now, Enqueue_Revalidation r s turn payload source) db =
     commit db (enqueue_revalidation env r now s turn payload source db)"
| "job_step (env, now, Retarget r lease head) db = commit db (RecordReviewAdmission env r now lease head db)"
| "job_step (env, now, Defer r lease d) db = commit db (DeferReviewAdmission env r now lease d db)"
| "job_step (env, now, Preparation_Failure r lease cause superseded retryable d) db =
     commit_with db (AcknowledgeAgentTurnPreparationFailure env r now lease cause superseded retryable d db)"
| "job_step (env, now, Cancel_Preparations workflow) db = commit db (cancelPendingPreparations now workflow db)"
| "job_step (env, now, Cancel_Revalidations attempt) db =
     commit db (cancelOutstandingTerminalRevalidationTx now attempt db)"
| "job_step (env, now, Cancel_Collection generation) db = commit db (cancelAssignmentRetentionTx now generation db)"
| "job_step (env, now, Cancel i cause lost) db =
     (case job_by_id db i of
        None \<Rightarrow> (False, db)
      | Some j \<Rightarrow> if live_job j then commit db (cancel_live_job now cause lost j db) else (False, db))"

text \<open>The lease an operation works under, and whether it ends the attempt.\<close>

fun lease_of :: "job_op \<Rightarrow> job_lease option" where
  "lease_of (Heartbeat lease _) = Some lease"
| "lease_of (Complete lease _) = Some lease"
| "lease_of (Fail lease _ _ _) = Some lease"
| "lease_of (Reconciliation_Failure lease _ _ _) = Some lease"
| "lease_of (Closure_Failure lease _ _ _) = Some lease"
| "lease_of (Stop_Failure lease _ _) = Some lease"
| "lease_of (Retarget _ lease _) = Some lease"
| "lease_of (Defer _ lease _) = Some lease"
| "lease_of (Preparation_Failure _ lease _ _ _ _) = Some lease"
| "lease_of _ = None"

fun ends_attempt :: "job_op \<Rightarrow> bool" where
  "ends_attempt (Heartbeat _ _) = False"
| "ends_attempt (Retarget _ _ _) = False"
| "ends_attempt op = (lease_of op \<noteq> None)"

definition no_jobs :: jobs_db where
  "no_jobs = \<lparr>db_Jobs = [], db_Attempts = [], db_Failures = []\<rparr>"

lemma no_jobs_ok: "jobs_ok ({}, no_jobs)"
  by (simp add: jobs_ok_def no_jobs_def job_ids_def attempt_keys_def attempts_ok_def rows_ok_def keys_ok_def
      attempt_of_def job_by_id_def)

lemma commit_simps [simp]:
  "fst (commit db result) \<longleftrightarrow> (\<exists>t. result = Inr t)" "fst (commit_with db result') \<longleftrightarrow> (\<exists>x t. result' = Inr (x, t))"
  "commit db (Inr t) = (True, t)" "commit_with db (Inr (x, t)) = (True, t)"
  by (auto simp: commit_def commit_with_def split: sum.split)

lemma commit_cases:
  "snd (commit db result) = db \<or> result = Inr (snd (commit db result))"
  "snd (commit_with db result') = db \<or> (\<exists>x. result' = Inr (x, snd (commit_with db result')))"
  by (auto simp: commit_def commit_with_def split: sum.split)

text \<open>A lease operation that succeeds: the row before it, and what it leaves.\<close>

lemma leased_step:
  assumes perf: "fst (job_step (env, now, op) db)" and lease: "lease_of op = Some lease" and ok: "jobs_ok ({}, db)"
  obtains j k where "holds_lease db lease j" "(micro (lease_id lease))\<^sup>*\<^sup>* ({}, db) ({}, snd (job_step (env, now, op) db))"
    "job_by_id (snd (job_step (env, now, op) db)) (lease_id lease) = Some k" "jb_AttemptCount k = jb_AttemptCount j"
    "ends_attempt op \<Longrightarrow> jb_Status k \<noteq> JobLeased" "\<not> ends_attempt op \<Longrightarrow> jb_Status k = JobLeased \<and> row_token k = row_token j"
proof (cases op)
  case (Heartbeat l d)
  with perf obtain t where t: "HeartbeatJob env now l d db = Inr t" by auto
  from HeartbeatJob_run [OF t ok] obtain j where j: "holds_lease db l j" "(micro (lease_id l))\<^sup>*\<^sup>* ({}, db) ({}, t)"
    "job_by_id t (lease_id l) = Some (j\<lparr>jb_HeartbeatAt := Some now,
       jb_LeaseExpiresAt := Some (now + microseconds d), jb_UpdatedAt := now\<rparr>)" by blast
  show thesis
    by (rule that [of j "j\<lparr>jb_HeartbeatAt := Some now,
       jb_LeaseExpiresAt := Some (now + microseconds d), jb_UpdatedAt := now\<rparr>"])
      (use Heartbeat lease j t holds_leaseD(2) [OF j(1)] in \<open>simp_all add: row_token_def\<close>)
next
  case (Complete l r)
  with perf obtain t where t: "CompleteJob env now l r db = Inr t" by auto
  from CompleteJob_run [OF t ok] obtain j c where "holds_lease db l j" "(micro (lease_id l))\<^sup>*\<^sup>* ({}, db) ({}, t)"
    "job_by_id t (lease_id l) = Some ((released now JobSucceeded j)\<lparr>jb_CompletedAt := Some now,
       jb_Result := Some (je_Jsonb env c), jb_LastError := None\<rparr>)" by blast
  then show thesis
    by (intro that [of j "(released now JobSucceeded j)\<lparr>jb_CompletedAt := Some now,
       jb_Result := Some (je_Jsonb env c), jb_LastError := None\<rparr>"]) (use Complete lease t in simp_all)
next
  case (Fail l c r d)
  with perf obtain t where t: "FailJob env now l c r d db = Inr t" by auto
  from FailJob_run [OF t ok] obtain j message where "holds_lease db l j" "(micro (lease_id l))\<^sup>*\<^sup>* ({}, db) ({}, t)"
    "job_by_id t (lease_id l) = Some (retried now (r \<and> jb_AttemptCount j < jb_MaxAttempts j) d message j)" by blast
  then show thesis
    by (intro that [of j "retried now (r \<and> jb_AttemptCount j < jb_MaxAttempts j) d message j"])
      (use Fail lease t in simp_all)
next
  case (Reconciliation_Failure l c r d)
  with perf obtain x t where t: "AcknowledgePendingEventReconciliationFailure env now l c r d db = Inr (x, t)" by auto
  from AcknowledgePendingEventReconciliationFailure_run [OF t ok] obtain j k where "holds_lease db l j"
    "(micro (lease_id l))\<^sup>*\<^sup>* ({}, db) ({}, t)" "job_by_id t (lease_id l) = Some k"
    "jb_AttemptCount k = jb_AttemptCount j" "jb_Status k \<noteq> JobLeased" by blast
  then show thesis by (intro that [of j k]) (use Reconciliation_Failure lease t in simp_all)
next
  case (Closure_Failure l c d a)
  with perf obtain x t where t: "acknowledgeClosureActionFailure env now l c d a db = Inr (x, t)" by auto
  from acknowledgeClosureActionFailure_run [OF t ok] obtain j k where "holds_lease db l j"
    "(micro (lease_id l))\<^sup>*\<^sup>* ({}, db) ({}, t)" "job_by_id t (lease_id l) = Some k"
    "jb_AttemptCount k = jb_AttemptCount j" "jb_Status k = JobAvailable" by blast
  then show thesis by (intro that [of j k]) (use Closure_Failure lease t in simp_all)
next
  case (Stop_Failure l c d)
  with perf obtain x t where t: "AcknowledgeRecoveredRuntimeStopFailure env now l c d db = Inr (x, t)" by auto
  from AcknowledgeRecoveredRuntimeStopFailure_run [OF t ok] obtain j k where "holds_lease db l j"
    "(micro (lease_id l))\<^sup>*\<^sup>* ({}, db) ({}, t)" "job_by_id t (lease_id l) = Some k"
    "jb_AttemptCount k = jb_AttemptCount j" "jb_Status k = JobAvailable" by blast
  then show thesis by (intro that [of j k]) (use Stop_Failure lease t in simp_all)
next
  case (Retarget r l head)
  with perf obtain t where t: "RecordReviewAdmission env r now l head db = Inr t" by auto
  from RecordReviewAdmission_run [OF t ok] obtain j k where "holds_lease db l j"
    "(micro (lease_id l))\<^sup>*\<^sup>* ({}, db) ({}, t)" "job_by_id t (lease_id l) = Some k"
    "jb_AttemptCount k = jb_AttemptCount j" "jb_Status k = JobLeased" "row_token k = row_token j" by blast
  then show thesis by (intro that [of j k]) (use Retarget lease t in simp_all)
next
  case (Defer r l d)
  with perf obtain t where t: "DeferReviewAdmission env r now l d db = Inr t" by auto
  from DeferReviewAdmission_run [OF t ok] obtain j k where "holds_lease db l j"
    "(micro (lease_id l))\<^sup>*\<^sup>* ({}, db) ({}, t)" "job_by_id t (lease_id l) = Some k"
    "jb_AttemptCount k = jb_AttemptCount j" "jb_Status k = JobAvailable" by blast
  then show thesis by (intro that [of j k]) (use Defer lease t in simp_all)
next
  case (Preparation_Failure r l c s a d)
  with perf obtain x t where t: "AcknowledgeAgentTurnPreparationFailure env r now l c s a d db = Inr (x, t)" by auto
  from AcknowledgeAgentTurnPreparationFailure_run [OF t ok] obtain j k where "holds_lease db l j"
    "(micro (lease_id l))\<^sup>*\<^sup>* ({}, db) ({}, t)" "job_by_id t (lease_id l) = Some k"
    "jb_AttemptCount k = jb_AttemptCount j" "jb_Status k \<noteq> JobLeased" by blast
  then show thesis by (intro that [of j k]) (use Preparation_Failure lease t in simp_all)
qed (use lease in auto)

lemma job_step_failed: "\<not> fst (job_step x db) \<Longrightarrow> snd (job_step x db) = db"
  by (cases "(x, db)" rule: job_step.cases)
    (auto simp: commit_def commit_with_def split: sum.splits prod.splits option.splits)

text \<open>The operations that do not work under a lease.\<close>

lemma unleased_step_run:
  assumes perf: "fst (job_step (env, now, op) db)" and "lease_of op = None" and ok: "jobs_ok ({}, db)"
  shows "any_micro\<^sup>*\<^sup>* ({}, db) ({}, snd (job_step (env, now, op) db))"
proof (cases op)
  case (Cancel i cause lost)
  with perf obtain j where j: "job_by_id db i = Some j" "live_job j" by (auto split: option.split_asm if_split_asm)
  with perf Cancel obtain t where t: "cancel_live_job now cause lost j db = Inr t" by auto
  have "job_by_id db (jb_ID j) = Some j" using j(1) job_by_id_ID [OF j(1)] by simp
  from any_micro [OF cancel_live_job_run [OF t ok this j(2)]] show ?thesis using t j by (simp add: Cancel)
qed (use perf assms(2) in \<open>auto intro: any_micro [OF insertJobTx_run] any_micro [OF insertIdempotentJobTx_run]
  ClaimJobKind_run [OF _ ok] enqueue_run [OF _ ok] enqueue_revalidation_run [OF _ ok] cancelPendingPreparations_run [OF _ ok]
  cancelOutstanding_run [OF _ ok] cancelAssignmentRetention_run [OF _ ok]\<close>)

lemma job_step_run:
  assumes ok: "jobs_ok ({}, db)"
  shows "any_micro\<^sup>*\<^sup>* ({}, db) ({}, snd (job_step x db))"
proof (cases "fst (job_step x db)")
  case False
  then show ?thesis using job_step_failed [of x db] by simp
next
  case perf: True
  obtain env now op where x: "x = (env, now, op)" by (metis prod_cases3)
  show ?thesis
  proof (cases "lease_of op")
    case (Some lease)
    from leased_step [OF perf [unfolded x] Some ok] show ?thesis unfolding x by (blast intro: any_micro)
  next
    case None
    from unleased_step_run [OF perf [unfolded x] this ok] show ?thesis unfolding x .
  qed
qed

lemma job_step_ok: "jobs_ok ({}, db) \<Longrightarrow> jobs_ok ({}, snd (job_step x db))"
  using any_micros_ok [OF job_step_run] by blast

lemma jobs_after_run:
  "jobs_ok ({}, db) \<Longrightarrow> any_micro\<^sup>*\<^sup>* ({}, db) ({}, after job_step xs db)"
proof (induction xs arbitrary: db)
  case (Cons x xs)
  from rtranclp_trans [OF job_step_run [OF Cons.prems] Cons.IH [OF job_step_ok [OF Cons.prems]]] show ?case by simp
qed simp

lemma jobs_after_ok: "jobs_ok ({}, db) \<Longrightarrow> jobs_ok ({}, after job_step xs db)"
  using any_micros_ok [OF jobs_after_run] by blast


section \<open>Gates\<close>

text \<open>An attempt is spent when its job has gone on to another one or is no longer leased.\<close>

definition spent :: "string \<Rightarrow> int \<Rightarrow> jobs_db \<Rightarrow> bool" where
  "spent i n db \<longleftrightarrow>
     (case job_by_id db i of
        None \<Rightarrow> False
      | Some j \<Rightarrow> n < jb_AttemptCount j \<or> n = jb_AttemptCount j \<and> jb_Status j \<noteq> JobLeased)"

fun works_under :: "string \<Rightarrow> int \<Rightarrow> job_call \<Rightarrow> bool" where
  "works_under i n (env, now, op) =
     (case lease_of op of None \<Rightarrow> False | Some lease \<Rightarrow> lease_id lease = i \<and> jl_Attempt lease = n)"

fun settles_call :: "string \<Rightarrow> int \<Rightarrow> job_call \<Rightarrow> bool" where
  "settles_call i n (env, now, op) = (works_under i n (env, now, op) \<and> ends_attempt op)"

lemma micro_count:
  assumes "micro l (D, db) (E, t)" "job_by_id db i = Some j"
  obtains k where "job_by_id t i = Some k" "same_identity j k" "jb_AttemptCount j \<le> jb_AttemptCount k"
    "jb_Status j \<noteq> JobLeased \<Longrightarrow> jb_AttemptCount j = jb_AttemptCount k \<Longrightarrow> jb_Status k \<noteq> JobLeased"
    "fixed_budget (jb_Kind j) \<Longrightarrow> jb_MaxAttempts k = jb_MaxAttempts j"
proof (cases "i = l")
  case False
  with micro_frame [OF assms(1,2)] that [of j] show thesis by simp
next
  case True
  note found = assms(2) [unfolded True]
  have id: "jb_ID j = l" by (rule job_by_id_ID [OF found])
  from assms(1) show thesis
  proof cases
    case (insert row)
    with found that [of j] show thesis by (simp add: True)
  next
    case (failure fs)
    with found that [of j] show thesis by (simp add: True)
  next
    case (rewrite j' k)
    with found id that [of k] show thesis by (simp add: True same_identity_def budget_kept_def)
  next
    case (cancel j' k)
    with found id that [of k] show thesis by (simp add: True same_identity_def)
  next
    case (lease j' k a)
    with found id that [of k] show thesis by (simp add: True same_identity_def)
  next
    case (extend j' k a)
    with found id that [of k] show thesis by (simp add: True same_identity_def)
  next
    case (finish j' a)
    with found that [of j] show thesis by (simp add: True)
  next
    case (release j' k)
    with found id that [of k] show thesis by (simp add: True same_identity_def budget_kept_def)
  qed
qed

lemma micros_count:
  assumes "any_micro\<^sup>*\<^sup>* s t" "job_by_id (snd s) i = Some j"
  shows "\<exists>k. job_by_id (snd t) i = Some k \<and> same_identity j k \<and> jb_AttemptCount j \<le> jb_AttemptCount k
    \<and> (jb_Status j \<noteq> JobLeased \<longrightarrow> jb_AttemptCount j = jb_AttemptCount k \<longrightarrow> jb_Status k \<noteq> JobLeased)
    \<and> (fixed_budget (jb_Kind j) \<longrightarrow> jb_MaxAttempts k = jb_MaxAttempts j)"
  using assms
proof (induction rule: rtranclp_induct)
  case (step u v)
  then obtain k where k: "job_by_id (snd u) i = Some k" "same_identity j k" "jb_AttemptCount j \<le> jb_AttemptCount k"
    "jb_Status j \<noteq> JobLeased \<longrightarrow> jb_AttemptCount j = jb_AttemptCount k \<longrightarrow> jb_Status k \<noteq> JobLeased"
    "fixed_budget (jb_Kind j) \<longrightarrow> jb_MaxAttempts k = jb_MaxAttempts j" by blast
  from step.hyps(2) obtain l D E where m: "micro l (D, snd u) (E, snd v)" by (metis prod.collapse)
  from micro_count [OF m k(1)] obtain r where r: "job_by_id (snd v) i = Some r" "same_identity k r"
    "jb_AttemptCount k \<le> jb_AttemptCount r"
    "jb_Status k \<noteq> JobLeased \<Longrightarrow> jb_AttemptCount k = jb_AttemptCount r \<Longrightarrow> jb_Status r \<noteq> JobLeased"
    "fixed_budget (jb_Kind k) \<Longrightarrow> jb_MaxAttempts r = jb_MaxAttempts k" by blast
  have kind: "jb_Kind k = jb_Kind j" using k(2) by (simp add: same_identity_def)
  have "jb_Status r \<noteq> JobLeased" if "jb_Status j \<noteq> JobLeased" "jb_AttemptCount j = jb_AttemptCount r"
    using that k(3,4) r(3,4) by simp
  with k r kind same_identity_trans [OF k(2) r(2)] show ?case by (intro exI [of _ r]) auto
qed simp

lemma spent_step: "spent i n db \<Longrightarrow> jobs_ok ({}, db) \<Longrightarrow> spent i n (snd (job_step x db))"
proof -
  assume s: "spent i n db" and ok: "jobs_ok ({}, db)"
  then obtain j where j: "job_by_id db i = Some j" "n < jb_AttemptCount j \<or> n = jb_AttemptCount j \<and> jb_Status j \<noteq> JobLeased"
    by (auto simp: spent_def split: option.split_asm)
  from micros_count [OF job_step_run [OF ok], of i j x] j
  show "spent i n (snd (job_step x db))" by (auto simp: spent_def)
qed

interpretation lost: barrier job_step "\<lambda>db. jobs_ok ({}, db)" "spent i n" "works_under i n" for i n
proof unfold_locales
  fix x and db assume x: "works_under i n x" "fst (job_step x db)" "jobs_ok ({}, db)"
  obtain env now op where op: "x = (env, now, op)" by (metis prod_cases3)
  with x(1) obtain lease where lease: "lease_of op = Some lease" "lease_id lease = i" "jl_Attempt lease = n"
    by (auto split: option.split_asm)
  from leased_step [OF x(2) [unfolded op] lease(1) x(3)] obtain j where "holds_lease db lease j" by blast
  from holds_leaseD [OF this] lease show "\<not> spent i n db" by (simp add: spent_def)
qed (simp_all add: job_step_ok spent_step)

interpretation settled: one_shot job_step "\<lambda>db. jobs_ok ({}, db)" "spent i n" "settles_call i n" for i n
proof unfold_locales
  fix x and db assume x: "settles_call i n x" "fst (job_step x db)" "jobs_ok ({}, db)"
  obtain env now op where op: "x = (env, now, op)" by (metis prod_cases3)
  with x(1) show "\<not> spent i n db" using lost.shoots_open [OF _ x(2,3)] by simp
  from op x(1) obtain lease where lease: "lease_of op = Some lease" "lease_id lease = i" "jl_Attempt lease = n" "ends_attempt op"
    by (auto split: option.split_asm)
  from leased_step [OF x(2) [unfolded op] lease(1) x(3)] obtain j k where "holds_lease db lease j"
    "job_by_id (snd (job_step x db)) (lease_id lease) = Some k" "jb_AttemptCount k = jb_AttemptCount j"
    "jb_Status k \<noteq> JobLeased"
    unfolding op using lease(4) by metis
  with lease holds_leaseD(4) show "spent i n (snd (job_step x db))" by (auto simp: spent_def)
qed

end
