(* ===== verification/Job_Properties.thy ===== *)
theory Job_Properties
  imports Job_Safety
begin

text \<open>
  The properties of the job queue, with an abstract life cycle of a lease that the table refines.
\<close>

section \<open>Attempts\<close>

abbreviation jobs_after :: "job_call list \<Rightarrow> jobs_db" where
  "jobs_after xs \<equiv> after job_step xs no_jobs"

lemma jobs_after_no_jobs: "jobs_ok ({}, jobs_after xs)"
  by (rule jobs_after_ok [OF no_jobs_ok])

lemma settled_last:
  "jobs_ok ({}, db) \<Longrightarrow> \<exists>hs ss. filter (works_under i n) (performed job_step xs db) = hs @ ss
     \<and> filter (settles_call i n) hs = [] \<and> length ss \<le> 1"
proof (induction xs arbitrary: db)
  case (Cons x xs)
  show ?case
  proof (cases "works_under i n x \<and> fst (job_step x db)")
    case False
    with Cons.IH [OF job_step_ok [OF Cons.prems], of x] show ?thesis by auto
  next
    case used: True
    show ?thesis
    proof (cases "settles_call i n x")
      case True
      with used settled.shoots_shuts [of i n x db] Cons.prems have "spent i n (snd (job_step x db))" by blast
      from lost.no_shot [OF this job_step_ok [OF Cons.prems]] used show ?thesis
        by (intro exI [of _ "[]"] exI [of _ "[x]"]) simp
    next
      case False
      from Cons.IH [OF job_step_ok [OF Cons.prems], of x] obtain hs ss where
        "filter (works_under i n) (performed job_step xs (snd (job_step x db))) = hs @ ss"
        "filter (settles_call i n) hs = []" "length ss \<le> 1" by blast
      with used False show ?thesis by (intro exI [of _ "x # hs"] exI [of _ ss]) simp
    qed
  qed
qed simp

text \<open>C16 (an attempt is settled at most once): whatever workers do, the operations that succeed under the
  lease of one attempt are those that keep it (heartbeats, and the move of a preparation to an observed head)
  followed by at most one completion, failure or deferral. A worker whose lease was reclaimed or cancelled, or
  who already finished, changes nothing.\<close>

theorem attempt_settled_once:
  "\<exists>hs ss. filter (works_under i n) (performed job_step xs no_jobs) = hs @ ss
     \<and> filter (settles_call i n) hs = [] \<and> length ss \<le> 1"
  by (rule settled_last [OF no_jobs_ok])

section \<open>The history of a job\<close>

lemma attempt_range:
  assumes ok: "jobs_ok ({}, db)" and j: "job_by_id db i = Some j"
  shows "{n. attempt_of db i n \<noteq> None} = {1..jb_AttemptCount j}"
proof (intro set_eqI iffI)
  fix n assume "n \<in> {n. attempt_of db i n \<noteq> None}"
  then obtain a where a: "attempt_of db i n = Some a" by auto
  from attempts_okE [OF ok a] j have a': "attempt_ok (i \<in> {}) j n a" by auto
  then have "n > 0" "n \<le> jb_AttemptCount j"
    using attempt_of_key [OF a] by (auto simp: attempt_ok_def attempt_checks_def)
  then show "n \<in> {1..jb_AttemptCount j}" by simp
next
  fix n assume "n \<in> {1..jb_AttemptCount j}"
  with rows_okD(4) [OF jobs_okD(4) [OF ok] j, of n] show "n \<in> {n. attempt_of db i n \<noteq> None}" by simp
qed

text \<open>C40 (the history of attempts is complete): the attempts recorded for a job are numbered one to its count,
  within its budget; exactly the last one is leased, with the job's owner, token and expiry, as long as
  the job is, and none otherwise; and a job that waits can be tried again.\<close>

theorem attempt_history:
  assumes "db = jobs_after xs" "job_by_id db i = Some j"
  shows "{n. attempt_of db i n \<noteq> None} = {1..jb_AttemptCount j} \<and> jb_AttemptCount j \<le> jb_MaxAttempts j
    \<and> {n. \<exists>a. attempt_of db i n = Some a \<and> ja_Status a = AttemptLeased}
      = (if jb_Status j = JobLeased then {jb_AttemptCount j} else {})
    \<and> (jb_Status j = JobLeased \<longrightarrow> same_lease j (the (attempt_of db i (jb_AttemptCount j))))
    \<and> (jb_Status j = JobAvailable \<longrightarrow> jb_AttemptCount j < jb_MaxAttempts j)"
proof -
  have ok: "jobs_ok ({}, db)" using jobs_after_no_jobs assms(1) by simp
  have "{n. \<exists>a. attempt_of db i n = Some a \<and> ja_Status a = AttemptLeased}
      = (if jb_Status j = JobLeased then {jb_AttemptCount j} else {})"
  proof (intro set_eqI iffI)
    fix n assume "n \<in> {n. \<exists>a. attempt_of db i n = Some a \<and> ja_Status a = AttemptLeased}"
    then obtain a where a: "attempt_of db i n = Some a" "ja_Status a = AttemptLeased" by auto
    from attempts_okE [OF ok a(1)] assms(2) a(2)
    show "n \<in> (if jb_Status j = JobLeased then {jb_AttemptCount j} else {})" by (auto simp: attempt_ok_def)
  next
    fix n assume "n \<in> (if jb_Status j = JobLeased then {jb_AttemptCount j} else {})"
    then show "n \<in> {n. \<exists>a. attempt_of db i n = Some a \<and> ja_Status a = AttemptLeased}"
      using current_attempt [OF ok assms(2)] by (auto split: if_split_asm)
  qed
  moreover have "jb_AttemptCount j \<le> jb_MaxAttempts j"
    using rows_okD(1) [OF jobs_okD(4) [OF ok] assms(2)] by (simp add: job_checks_def)
  moreover have "jb_Status j = JobAvailable \<longrightarrow> jb_AttemptCount j < jb_MaxAttempts j"
    using rows_okD(2) [OF jobs_okD(4) [OF ok] assms(2)] by blast
  moreover have "jb_Status j = JobLeased \<longrightarrow> same_lease j (the (attempt_of db i (jb_AttemptCount j)))"
    using current_attempt [OF ok assms(2)] by fastforce
  ultimately show ?thesis using attempt_range [OF ok assms(2)] by blast
qed


section \<open>The life cycle of a lease\<close>

datatype lease_state = Absent | Waiting int | Held int string | Over int

text \<open>What a component that uses the queue may assume of a job: it waits, one worker holds it under a numbered
  lease, and from there it waits again or is over; a job that waits may be cancelled.\<close>

inductive lease_step :: "lease_state \<Rightarrow> lease_state \<Rightarrow> bool" where
  create: "lease_step Absent (Waiting 0)"
| drop: "lease_step (Waiting n) (Over n)"
| grant: "lease_step (Waiting n) (Held (n + 1) token)"
| return: "lease_step (Held n token) (Waiting n)"
| over: "lease_step (Held n token) (Over n)"

inductive_cases over_cases: "lease_step (Over n) s"

lemma over_stays: "lease_step\<^sup>*\<^sup>* (Over n) s \<Longrightarrow> s = Over n"
  by (induction rule: rtranclp_induct) (auto elim: over_cases)

definition abs_lease :: "jobs_db \<Rightarrow> string \<Rightarrow> lease_state" where
  "abs_lease db i =
     (case job_by_id db i of
        None \<Rightarrow> Absent
      | Some j \<Rightarrow> (case jb_Status j of
            JobAvailable \<Rightarrow> Waiting (jb_AttemptCount j)
          | JobLeased \<Rightarrow> Held (jb_AttemptCount j) (row_token j)
          | _ \<Rightarrow> Over (jb_AttemptCount j)))"

lemma abs_lease_same: "job_by_id t i = job_by_id db i \<Longrightarrow> abs_lease t i = abs_lease db i"
  by (simp add: abs_lease_def)

lemma abs_lease_put:
  assumes "job_by_id db l = Some j" "jb_ID k = l"
  shows "abs_lease (put_job k db) i = (if i = l then
      (case jb_Status k of JobAvailable \<Rightarrow> Waiting (jb_AttemptCount k)
          | JobLeased \<Rightarrow> Held (jb_AttemptCount k) (row_token k) | _ \<Rightarrow> Over (jb_AttemptCount k)) else abs_lease db i)"
  using assms by (simp add: abs_lease_def)

lemma abs_lease_frame [simp]:
  "abs_lease (put_attempt a db) = abs_lease db" "abs_lease (append_attempt a db) = abs_lease db"
  "abs_lease (db\<lparr>db_Failures := fs\<rparr>) = abs_lease db"
  by (simp_all add: abs_lease_def fun_eq_iff)

lemma micro_refines:
  assumes "micro l (D, db) (E, t)"
  shows "lease_step\<^sup>=\<^sup>= (abs_lease db i) (abs_lease t i)"
  using assms
proof cases
  case (insert row)
  then show ?thesis by (auto simp: abs_lease_def split: option.split intro: lease_step.intros)
next
  case (failure fs)
  then show ?thesis by simp
next
  case (rewrite j k)
  have id: "jb_ID k = l" using rewrite(4) job_by_id_ID [OF rewrite(3)] by (simp add: same_identity_def)
  have "abs_lease t l = abs_lease db l"
    unfolding rewrite(2) using rewrite(3,6,7,9)
    by (cases "jb_Status j") (simp_all add: abs_lease_put [OF rewrite(3) id] abs_lease_def row_token_def id)
  moreover have "abs_lease t i = abs_lease db i" if "i \<noteq> l"
    unfolding rewrite(2) using that by (simp add: abs_lease_put [OF rewrite(3) id])
  ultimately show ?thesis by (cases "i = l") auto
next
  case (cancel j k)
  have id: "jb_ID k = l" using cancel(6) job_by_id_ID [OF cancel(3)] by (simp add: same_identity_def)
  have "lease_step (abs_lease db l) (abs_lease t l)"
    unfolding cancel(2) using cancel(3,4,8,9) lease_step.drop
    by (simp add: abs_lease_put [OF cancel(3) id] abs_lease_def id)
  moreover have "abs_lease t i = abs_lease db i" if "i \<noteq> l"
    unfolding cancel(2) using that by (simp add: abs_lease_put [OF cancel(3) id])
  ultimately show ?thesis by (cases "i = l") auto
next
  case (lease j k a)
  have id: "jb_ID k = l" using lease(6) job_by_id_ID [OF lease(3)] by (simp add: same_identity_def)
  have "lease_step (abs_lease db l) (abs_lease t l)"
    unfolding lease(2) using lease(3,4,8,9) lease_step.grant
    by (simp add: abs_lease_put [OF lease(3) id] abs_lease_def id)
  moreover have "abs_lease t i = abs_lease db i" if "i \<noteq> l"
    unfolding lease(2) using that by (simp add: abs_lease_put [OF lease(3) id])
  ultimately show ?thesis by (cases "i = l") auto
next
  case (extend j k a)
  have id: "jb_ID k = l" using extend(6) job_by_id_ID [OF extend(3)] by (simp add: same_identity_def)
  have "abs_lease t l = abs_lease db l"
    unfolding extend(2) using extend(3,4,8,9,11)
    by (simp add: abs_lease_put [OF extend(3) id] abs_lease_def row_token_def id)
  moreover have "abs_lease t i = abs_lease db i" if "i \<noteq> l"
    unfolding extend(2) using that by (simp add: abs_lease_put [OF extend(3) id])
  ultimately show ?thesis by (cases "i = l") auto
next
  case (finish j a)
  then show ?thesis by simp
next
  case (release j k)
  have id: "jb_ID k = l" using release(6) job_by_id_ID [OF release(3)] by (simp add: same_identity_def)
  have "lease_step (abs_lease db l) (abs_lease t l)"
    unfolding release(2) using release(3,4,8,9) lease_step.return lease_step.over
    by (cases "jb_Status k") (simp_all add: abs_lease_put [OF release(3) id] abs_lease_def id)
  moreover have "abs_lease t i = abs_lease db i" if "i \<noteq> l"
    unfolding release(2) using that by (simp add: abs_lease_put [OF release(3) id])
  ultimately show ?thesis by (cases "i = l") auto
qed

lemma micros_refine: "any_micro\<^sup>*\<^sup>* s t \<Longrightarrow> lease_step\<^sup>*\<^sup>* (abs_lease (snd s) i) (abs_lease (snd t) i)"
proof (induction rule: rtranclp_induct)
  case (step u v)
  then obtain l where "micro l (fst u, snd u) (fst v, snd v)" by auto
  from micro_refines [OF this, of i] step.IH show ?case by auto
qed simp

lemma abs_lease_held: "holds_lease db lease j \<Longrightarrow> abs_lease db (lease_id lease) = Held (jl_Attempt lease) (lease_token lease)"
  using holds_leaseD [of db lease j] by (simp add: abs_lease_def)

text \<open>C17 (the table refines the life cycle of a lease): whatever operation of \<open>job_step\<close> succeeds after any others
  (the queue's own, failures of workflow actions, enqueued and retargeted actions, deferrals and
  cancellations), each job moves only along the abstract life cycle, where a waiting job may also be cancelled;
  an operation under a lease finds the job held under that very lease, and leaves it held, waiting or over
  under the same attempt number.\<close>

theorem jobs_refine_leases:
  assumes "db = jobs_after xs" "job_step (env, now, op) db = (True, t)"
  shows "lease_step\<^sup>*\<^sup>* (abs_lease db i) (abs_lease t i)
    \<and> (case lease_of op of None \<Rightarrow> True
       | Some lease \<Rightarrow> abs_lease db (lease_id lease) = Held (jl_Attempt lease) (lease_token lease)
           \<and> abs_lease t (lease_id lease) \<in>
               (if ends_attempt op then {Waiting (jl_Attempt lease), Over (jl_Attempt lease)}
                else {Held (jl_Attempt lease) (lease_token lease)}))"
proof -
  have ok: "jobs_ok ({}, db)" using jobs_after_no_jobs assms(1) by simp
  have "lease_step\<^sup>*\<^sup>* (abs_lease db i) (abs_lease t i)"
    using micros_refine [OF job_step_run [OF ok, of "(env, now, op)"], of i] assms(2) by simp
  moreover have "abs_lease db (lease_id lease) = Held (jl_Attempt lease) (lease_token lease)
      \<and> abs_lease t (lease_id lease) \<in> (if ends_attempt op then {Waiting (jl_Attempt lease), Over (jl_Attempt lease)}
                else {Held (jl_Attempt lease) (lease_token lease)})"
    if lease: "lease_of op = Some lease" for lease
  proof -
    have "fst (job_step (env, now, op) db)" using assms(2) by simp
    from leased_step [OF this lease ok] assms(2) obtain j k where j: "holds_lease db lease j"
      "job_by_id t (lease_id lease) = Some k" "jb_AttemptCount k = jb_AttemptCount j"
      "ends_attempt op \<longrightarrow> jb_Status k \<noteq> JobLeased" "\<not> ends_attempt op \<longrightarrow> jb_Status k = JobLeased \<and> row_token k = row_token j"
      by (metis snd_conv)
    with holds_leaseD [OF j(1)] abs_lease_held [OF j(1)] show ?thesis
      by (auto simp: abs_lease_def split: job_status.split)
  qed
  ultimately show ?thesis by (cases "lease_of op") simp_all
qed

section \<open>Cancelled work\<close>

definition is_over :: "string \<Rightarrow> int \<Rightarrow> jobs_db \<Rightarrow> bool" where
  "is_over i n db \<longleftrightarrow> abs_lease db i = Over n"

lemma is_over_step: "is_over i n db \<Longrightarrow> jobs_ok ({}, db) \<Longrightarrow> is_over i n (snd (job_step x db))"
  using micros_refine [OF job_step_run, of db i x] over_stays by (fastforce simp: is_over_def)

text \<open>A job that is over shuts out every lease.\<close>

interpretation dead: barrier job_step "\<lambda>db. jobs_ok ({}, db)" "is_over i n" "works_under i m" for i n m
proof unfold_locales
  fix x and db assume x: "works_under i m x" "fst (job_step x db)" "jobs_ok ({}, db)"
  obtain env now op where op: "x = (env, now, op)" by (metis prod_cases3)
  with x(1) obtain lease where lease: "lease_of op = Some lease" "lease_id lease = i" by (auto split: option.split_asm)
  from leased_step [OF x(2) [unfolded op] lease(1) x(3)] obtain j where "holds_lease db lease j" by blast
  from abs_lease_held [OF this] lease show "\<not> is_over i n db" by (simp add: is_over_def)
qed (simp_all add: job_step_ok is_over_step)

lemma cancelled_row:
  assumes "cancelPendingPreparations now workflow db = Inr t" "job_by_id db i = Some j"
    "jb_Kind j = PrepareAgentTurnJobKind" "job_workflow j = workflow"
  shows "is_over i (jb_AttemptCount j) t"
proof -
  let ?f = "\<lambda>j. if (job_workflow j = workflow \<and> jb_Kind j = PrepareAgentTurnJobKind) \<and> live_job j
      then cancelled_job now ''Issue closure cancelled Agent Turn preparation'' j else j"
  from assms(1) have jobs: "db_Jobs t = map ?f (db_Jobs db)"
    by (auto simp: cancelPendingPreparations_def update_jobs_def update_attempts_def Let_def
        split: option.split_asm if_split_asm)
  have "job_by_id t i = map_option ?f (job_by_id db i)"
    unfolding job_by_id_def jobs by (rule find_map_id) (simp add: cancelled_job_def released_def)
  with assms(2-4) show ?thesis
    by (cases "jb_Status j") (simp_all add: is_over_def abs_lease_def live_job_def cancelled_job_def released_def)
qed

text \<open>C18 (a cancelled preparation is dead): when the closure of an Issue cancels the preparations of its Workflow,
  each one that was stored, waiting or held by a worker, is over; whatever happens afterwards it never runs
  again, with no attempt more than before, and no operation under any lease of it, that of the worker who was
  preparing included, succeeds.\<close>

theorem cancelled_preparation_is_dead:
  assumes "db = jobs_after xs" "job_step (env, now, Cancel_Preparations workflow) db = (True, t)"
    "job_by_id db i = Some j" "jb_Kind j = PrepareAgentTurnJobKind" "job_workflow j = workflow"
  shows "abs_lease (after job_step ys t) i = Over (jb_AttemptCount j)
    \<and> filter (works_under i n) (performed job_step ys t) = []"
proof -
  have ok: "jobs_ok ({}, t)"
    using job_step_ok [of db "(env, now, Cancel_Preparations workflow)"] jobs_after_no_jobs assms(1,2) by simp
  have "cancelPendingPreparations now workflow db = Inr t"
    using assms(2) by (auto simp: commit_def split: sum.split_asm)
  from cancelled_row [OF this assms(3-5)] have over: "is_over i (jb_AttemptCount j) t" .
  from dead.shut_after [OF this ok, of ys] dead.no_shot [OF over ok] show ?thesis by (simp add: is_over_def)
qed

section \<open>Insertion\<close>

lemma job_by_key_SomeI:
  assumes "jobs_ok (D, db)" "job_by_id db i = Some j" "jb_IdempotencyKey j = Some key"
  shows "job_by_key db key = Some j"
proof -
  obtain k where k: "job_by_key db key = Some k"
    using job_by_id_set [OF assms(2)] assms(3) unfolding job_by_key_def
    by (cases "find (\<lambda>j. jb_IdempotencyKey j = Some key) (db_Jobs db)") (auto simp: find_None_iff)
  then have k': "k \<in> set (db_Jobs db)" "jb_IdempotencyKey k = Some key"
    by (auto simp: job_by_key_def find_Some_iff)
  have "job_by_id db (jb_ID k) = Some k" by (rule job_by_id_mem [OF jobs_okD(1) [OF assms(1)] k'(1)])
  with jobs_okD(5) [OF assms(1)] assms(2,3) k'(2) have "jb_ID k = i"
    unfolding keys_ok_def same_key_def by (metis option.distinct(1))
  with \<open>job_by_id db (jb_ID k) = Some k\<close> assms(2) k show ?thesis by simp
qed

lemma inserted_row:
  assumes "insertIdempotentJobTx env now job db = Inr (i, t)" "jobs_ok ({}, db)"
  obtains j where "validateJobInsert env job = None" "job_checks (new_job env now job)" "jobs_ok ({}, t)"
    "job_by_id t i = Some j" "matching_job env job j" "jb_IdempotencyKey j = Some (ji_idempotencyKey job)"
proof -
  have ok: "jobs_ok ({}, t)" by (rule micros_ok [OF insertIdempotentJobTx_run [OF assms(1)] assms(2)])
  have valid: "validateJobInsert env job = None" "job_checks (new_job env now job)"
    using assms(1) by (auto simp: insertIdempotentJobTx_def Let_def split: option.split_asm if_split_asm)
  from assms(1) show thesis
  proof (cases rule: insertIdempotentJobTx_cases)
    case (old j)
    then have "j \<in> set (db_Jobs t)" "jb_IdempotencyKey j = Some (ji_idempotencyKey job)"
      by (auto simp: job_by_key_def find_Some_iff)
    with old job_by_id_mem [OF jobs_okD(1) [OF ok]] that [OF valid ok, of j] show thesis by simp
  next
    case new
    have "new_job env now job \<in> set (db_Jobs t)" by (simp add: new append_job_def)
    from job_by_id_mem [OF jobs_okD(1) [OF ok] this] that [OF valid ok] new(4) show thesis
      by (simp add: matching_job_def)
  qed
qed

text \<open>C21 (insertion is idempotent): once a job of a kind whose rows keep what they were inserted with was
  inserted, or found, under its key, inserting the same job again after any operations of \<open>job_step\<close> (those
  that claim, settle, retry or cancel it included) returns the same identity and changes nothing. The kinds
  left out are those that are rewritten: irreversible work, whose budget of attempts grows, preparations, whose
  payload follows the Workflow, and revalidations, which are bound to a Turn.\<close>

theorem insertion_idempotent:
  assumes "insertIdempotentJobTx env now job (jobs_after xs) = Inr (i, t)" "fixed_budget (ji_kind job)"
  shows "insertIdempotentJobTx env later job (after job_step ys t) = Inr (i, after job_step ys t)"
proof -
  let ?u = "after job_step ys t"
  from inserted_row [OF assms(1) jobs_after_no_jobs] obtain j where valid: "validateJobInsert env job = None"
    "job_checks (new_job env now job)" and ok: "jobs_ok ({}, t)" and j: "job_by_id t i = Some j" "matching_job env job j"
    "jb_IdempotencyKey j = Some (ji_idempotencyKey job)" .
  have ok': "jobs_ok ({}, ?u)" by (rule jobs_after_ok [OF ok])
  from micros_count [OF jobs_after_run [OF ok], of i j ys] j(1) obtain k where k: "job_by_id ?u i = Some k"
    "same_identity j k" "fixed_budget (jb_Kind j) \<longrightarrow> jb_MaxAttempts k = jb_MaxAttempts j" by auto
  have key: "jb_IdempotencyKey k = Some (ji_idempotencyKey job)" using k(2) j(3) by (simp add: same_identity_def)
  have match: "matching_job env job k"
    using j(2) k(2,3) assms(2) by (simp add: matching_job_def same_identity_def fixed_budget_def)
  have "unique_conflict (new_job env later job) k" using key by (simp add: unique_conflict_def same_key_def Let_def)
  then have "conflicting ?u (new_job env later job)"
    using job_by_id_set [OF k(1)] by (auto simp: conflicting_def list_ex_iff)
  moreover have "job_checks (new_job env later job)" using valid(2) by (simp add: job_checks_def new_job_def)
  ultimately show ?thesis
    using valid(1) job_by_key_SomeI [OF ok' k(1) key] match job_by_id_ID [OF k(1)]
    by (simp add: insertIdempotentJobTx_def Let_def)
qed

section \<open>Bounds\<close>

lemma attempts_length:
  assumes ok: "jobs_ok ({}, db)" and j: "job_by_id db i = Some j"
  shows "int (length (filter (\<lambda>a. ja_JobID a = i) (db_Attempts db))) = jb_AttemptCount j"
proof -
  let ?as = "filter (\<lambda>a. ja_JobID a = i) (db_Attempts db)"
  have "distinct (map (\<lambda>a. (ja_JobID a, ja_Number a)) ?as)"
    using jobs_okD(2) [OF ok] unfolding attempt_keys_def by (rule distinct_map_filter)
  then have "distinct (map ja_Number ?as)" by (auto simp: distinct_map inj_on_def)
  then have "length ?as = card (ja_Number ` set ?as)" by (metis distinct_card length_map list.set_map)
  also have "ja_Number ` set ?as = {n. attempt_of db i n \<noteq> None}"
    by (auto simp: attempt_of_None attempt_keys_def image_iff)
  also have "\<dots> = {1..jb_AttemptCount j}" by (rule attempt_range [OF ok j])
  finally show ?thesis
    using rows_okD(1) [OF jobs_okD(4) [OF ok] j] by (simp add: job_checks_def)
qed

text \<open>Attempts are bounded: a job whose budget is fixed is never tried more often than the budget
  it was stored with, whatever happens to it.\<close>

theorem attempts_bounded:
  assumes "job_by_id (jobs_after xs) i = Some j" "fixed_budget (jb_Kind j)"
  shows "int (length (filter (\<lambda>a. ja_JobID a = i) (db_Attempts (jobs_after (xs @ ys))))) \<le> jb_MaxAttempts j"
proof -
  let ?u = "jobs_after (xs @ ys)"
  from micros_count [OF jobs_after_run [OF jobs_after_no_jobs [of xs], of ys], of i j] assms
  obtain k where k: "job_by_id ?u i = Some k" "jb_MaxAttempts k = jb_MaxAttempts j" by auto
  have "jb_AttemptCount k \<le> jb_MaxAttempts k"
    using rows_okD(1) [OF jobs_okD(4) [OF jobs_after_no_jobs] k(1)] by (simp add: job_checks_def)
  with attempts_length [OF jobs_after_no_jobs k(1)] k(2) show ?thesis by simp
qed


section \<open>Claiming\<close>

definition due_job :: "job_env \<Rightarrow> instant \<Rightarrow> string \<Rightarrow> string \<Rightarrow> job \<Rightarrow> bool" where
  "due_job env now queue kind j \<longleftrightarrow>
     jb_Queue j = queue \<and> jb_Kind j = kind \<and> jb_Status j = JobAvailable \<and> jb_AvailableAt j \<le> now
     \<and> \<not> je_Locked env (jb_ID j)"

lemma leaseJobTx_returns:
  assumes ok: "jobs_ok ({}, db)" and j: "job_by_id db i = Some j" "jb_Status j = JobAvailable"
    and owner: "owner \<noteq> ''''" and scan: "jb_IdempotencyKey j \<noteq> None" "je_Canonical env (jb_Payload j) \<noteq> None"
    and fresh: "\<not> list_ex (\<lambda>a. ja_LeaseToken a = token) (db_Attempts db)"
  shows "\<exists>l t. leaseJobTx env now i owner token lease db = Inr (l, t)"
proof -
  let ?cond = "\<lambda>j. jb_ID j = i \<and> jb_Status j = JobAvailable \<and> jb_AttemptCount j < jb_MaxAttempts j"
  let ?f = "lease_row now owner token lease"
  note d = jobs_okD(1) [OF ok, unfolded job_ids_def]
  have id: "jb_ID j = i" by (rule job_by_id_ID [OF j(1)])
  have checks: "job_checks j" "jb_AttemptCount j < jb_MaxAttempts j"
    using rows_okD(1,2) [OF jobs_okD(4) [OF ok] j(1)] j(2) by auto
  then have checks': "job_checks (?f j)" by (auto simp: job_checks_def lease_row_def Let_def)
  have only: "k = j" if "k \<in> set (db_Jobs db)" "?cond k" for k
    using job_by_id_mem [OF jobs_okD(1) [OF ok] that(1)] that(2) j(1) by simp
  obtain n u where u: "update_jobs ?cond ?f db = Some (n, u)"
    using only checks' by (fastforce simp: update_jobs_def list_all_iff)
  have u': "u = put_job (?f j) db"
    using update_jobs_changed [OF jobs_okD(1) [OF ok] _ _ u j(1)] id j(2) checks(2) by auto
  have "attempt_of db i (jb_AttemptCount j + 1) = None"
    using attempt_range [OF ok j(1)] by (auto simp: set_eq_iff dest: spec [of _ "jb_AttemptCount j + 1"])
  then have new: "\<not> list_ex (\<lambda>a. ja_JobID a = i \<and> ja_Number a = jb_AttemptCount j + 1 \<or> ja_LeaseToken a = token) (db_Attempts u)"
    using fresh by (auto simp: u' put_job_def attempt_of_def find_None_iff list_ex_iff)
  have scan': "Option.bind (job_by_id u i) (scanJob env) \<noteq> None"
    using j(1) id scan by (simp add: u' scanJob_def)
  have count: "0 < jb_AttemptCount j + 1" using checks(1) by (simp add: job_checks_def)
  show ?thesis
    using j checks(2) u new scan' count owner
    by (auto simp: leaseJobTx_def Let_def attempt_checks_def split: option.split)
qed

lemma claimable_iff:
  assumes "jobs_ok ({}, db)"
  shows "k \<in> set (claimable_jobs env now queue kind db) \<longleftrightarrow> k \<in> set (db_Jobs db) \<and> due_job env now queue kind k"
  using rows_okD(2) [OF jobs_okD(4) [OF assms] job_by_id_mem [OF jobs_okD(1) [OF assms]]]
  by (auto simp: claimable_jobs_def due_job_def)

lemma hd_sort_key:
  assumes "sort_key f xs = y # ys" "x \<in> set xs"
  shows "f y \<le> f x"
  using assms sorted_sort_key [of f xs] by (metis list.simps(9) set_ConsD set_sort sorted_simps(2) list.set_map image_eqI order_refl)

text \<open>C19 (a claim makes progress, in order): when no lease of this queue and kind has run out and a job is due, a
  claim under a fresh token grants a lease, on a due job than which no other has a higher priority or, with
  the same priority, is available earlier; its attempt is the next one of the job.\<close>

theorem claim_takes_first_due_job:
  assumes "db = jobs_after xs" "\<not> trims_to_empty kind" "\<not> trims_to_empty queue" "\<not> trims_to_empty owner"
    "valid_positive_duration lease" "expired_jobs env now queue kind db = []"
    and "j \<in> set (db_Jobs db)" "due_job env now queue kind j"
    and "list_all (\<lambda>k. jb_IdempotencyKey k \<noteq> None \<and> je_Canonical env (jb_Payload k) \<noteq> None) (db_Jobs db)"
    and "\<not> list_ex (\<lambda>a. ja_LeaseToken a = je_UUID env ''lease'') (db_Attempts db)"
  shows "\<exists>l t k. ClaimJobKind env now queue kind owner lease db = Inr (Some l, t)
    \<and> job_by_id db (lease_id l) = Some k \<and> due_job env now queue kind k
    \<and> (jb_Priority j < jb_Priority k \<or> jb_Priority j = jb_Priority k \<and> jb_AvailableAt k \<le> jb_AvailableAt j)
    \<and> abs_lease t (lease_id l) = Held (jb_AttemptCount k + 1) (je_UUID env ''lease'')"
proof -
  let ?token = "je_UUID env ''lease''"
  have ok: "jobs_ok ({}, db)" using jobs_after_no_jobs assms(1) by simp
  have reclaim: "reclaimExpiredJobsTx env now jobClaimReclaimLimit queue kind db = Inr db"
    using assms(6) by (simp add: reclaimExpiredJobsTx_def)
  have "j \<in> set (claimable_jobs env now queue kind db)" using claimable_iff [OF ok] assms(7,8) by blast
  then obtain k ks where k: "claimable_jobs env now queue kind db = k # ks"
    by (cases "claimable_jobs env now queue kind db") auto
  then have due: "k \<in> set (db_Jobs db)" "due_job env now queue kind k"
    using claimable_iff [OF ok, of k env now queue kind] by simp_all
  have "(- jb_Priority k, jb_AvailableAt k, jb_ID k) \<le> (- jb_Priority j, jb_AvailableAt j, jb_ID j)"
    by (rule hd_sort_key [OF k [unfolded claimable_jobs_def]])
      (use \<open>j \<in> set (claimable_jobs env now queue kind db)\<close> in \<open>simp add: claimable_jobs_def\<close>)
  then have order: "jb_Priority j < jb_Priority k \<or> jb_Priority j = jb_Priority k \<and> jb_AvailableAt k \<le> jb_AvailableAt j"
    by auto
  have row: "job_by_id db (jb_ID k) = Some k" by (rule job_by_id_mem [OF jobs_okD(1) [OF ok] due(1)])
  have avail: "jb_Status k = JobAvailable" using due(2) by (simp add: due_job_def)
  have owner: "owner \<noteq> ''''" using assms(4) by (auto simp: trims_to_empty_ascii ascii_def go_bytes_def)
  have scan: "jb_IdempotencyKey k \<noteq> None" "je_Canonical env (jb_Payload k) \<noteq> None"
    using assms(9) due(1) by (auto simp: list_all_iff)
  obtain l t where t: "leaseJobTx env now (jb_ID k) owner ?token lease db = Inr (l, t)"
    using leaseJobTx_returns [OF ok row avail owner scan assms(10)] by blast
  from leaseJobTx_run [OF t ok] row obtain lt: "job_by_id t (jb_ID k) = Some (lease_row now owner ?token lease k)"
    "scanJob env (lease_row now owner ?token lease k) = Some (jl_Job l)" by auto
  have id: "lease_id l = jb_ID k"
    using arg_cong [OF scanJob_sel [OF lt(2)], of jb_ID] by (simp add: lease_id_def)
  have "abs_lease t (jb_ID k) = Held (jb_AttemptCount k + 1) ?token"
    using lt(1) by (simp add: abs_lease_def row_token_def)
  moreover have "ClaimJobKind env now queue kind owner lease db = Inr (Some l, t)"
    using assms(2,3,4,5) reclaim k t by (simp add: ClaimJobKind_def)
  ultimately show ?thesis using row due(2) order id by auto
qed

end
