(* ===== verification/Job_Demo.thy ===== *)
theory Job_Demo
  imports Job_Properties
begin

text \<open>
  Concrete runs of the job queue, where a label provisioning job is inserted, claimed and completed, and a
  preparation is cancelled under its worker, as witnesses of the hypotheses of its properties.
\<close>

section \<open>A run\<close>

definition demo_env :: job_env where
  "demo_env =
     \<lparr>je_Locked = (\<lambda>_. False), je_UUID = (\<lambda>s. ''id:'' @ s), je_ValidUUID = (\<lambda>_. True), je_ValidJSON = (\<lambda>_. True),
      je_Jsonb = (\<lambda>s. s), je_Canonical = Some, je_Linked = (\<lambda>_. True), je_Collecting = (\<lambda>_. None),
      je_WorkflowExists = (\<lambda>_. True), je_Recovery = (\<lambda>_. None), je_HandoffContext = (\<lambda>_. None),
      je_HandoffPayload = (\<lambda>_ _ _ _. ''{}''), je_WorkflowState = (\<lambda>_. None), je_WorkflowRevision = (\<lambda>_. None),
      je_FailurePayload = (\<lambda>_ _ _ _. ''{}''), je_FallbackRole = (\<lambda>_. ''''), je_KnownRole = (\<lambda>_. False),
      je_ParticipantRole = (\<lambda>_. None), je_CleanupPending = (\<lambda>_. None), je_ExhaustCleanup = (\<lambda>_ _. None),
      je_ClosureBarrier = (\<lambda>_. False), je_RecoveryTurn = (\<lambda>_. None)\<rparr>"

definition demo_job :: job_insert where
  "demo_job =
     \<lparr>ji_queue = ''labels'', ji_kind = ProvisionManagedLabelsJobKind, ji_payload = ''{}'', ji_priority = 0,
      ji_maxAttempts = 5, ji_idempotencyKey = ''key'', ji_scope = no_scope, ji_provenance = no_provenance\<rparr>"

abbreviation "demo_row \<equiv> new_job demo_env 0 demo_job"
abbreviation "demo_leased \<equiv> lease_row 5 ''worker'' ''id:lease'' 1000000 demo_row"

definition demo_job_lease :: job_lease where
  "demo_job_lease = \<lparr>jl_Job = demo_leased, jl_Attempt = 1\<rparr>"

definition demo_attempt :: job_attempt where
  "demo_attempt =
     \<lparr>ja_JobID = ''id:key'', ja_Number = 1, ja_LeaseOwner = ''worker'', ja_LeaseToken = ''id:lease'',
      ja_Status = AttemptLeased, ja_LeasedAt = 5, ja_LeaseExpiresAt = 1005, ja_HeartbeatAt = None,
      ja_FinishedAt = None, ja_Retryable = None, ja_Result = None, ja_LastError = None\<rparr>"

abbreviation "demo_insertion \<equiv> (demo_env, 0, Insert_Idempotent demo_job)"
abbreviation "demo_claim \<equiv> (demo_env, 5, Claim ''labels'' ProvisionManagedLabelsJobKind ''worker'' 1000000)"
abbreviation "demo_inserted_db \<equiv> \<lparr>db_Jobs = [demo_row], db_Attempts = [], db_Failures = []\<rparr>"
abbreviation "demo_claimed_db \<equiv> \<lparr>db_Jobs = [demo_leased], db_Attempts = [demo_attempt], db_Failures = []\<rparr>"

lemmas demo_simps = demo_env_def demo_job_def no_scope_def no_provenance_def go_simps is_space_rune_def Let_def

lemma demo_validates: "validateJobInsert demo_env demo_job = None"
  by (simp add: validateJobInsert_def isWorkflowlessProvisioningJob_def demo_simps)

lemma demo_row_checks: "job_checks demo_row"
  by (simp add: job_checks_def new_job_def demo_simps Let_def)

lemma demo_inserted:
  "insertIdempotentJobTx demo_env 0 demo_job no_jobs = Inr (''id:key'', demo_inserted_db)"
  using demo_validates demo_row_checks
  by (simp add: insertIdempotentJobTx_def Let_def conflicting_def no_jobs_def append_job_def)
    (simp add: demo_env_def demo_job_def)

lemma demo_after_insertion: "jobs_after [demo_insertion] = demo_inserted_db"
  by (simp add: demo_inserted)

lemma demo_leases:
  "leaseJobTx demo_env 5 ''id:key'' ''worker'' ''id:lease'' 1000000 demo_inserted_db = Inr (demo_job_lease, demo_claimed_db)"
  by (simp add: leaseJobTx_def Let_def job_by_id_def update_jobs_def attempt_checks_def scanJob_def lease_row_def
      job_checks_def new_job_def demo_simps microseconds_def demo_job_lease_def demo_attempt_def)

lemma demo_claimable: "claimable_jobs demo_env 5 ''labels'' ProvisionManagedLabelsJobKind demo_inserted_db = [demo_row]"
  by (simp add: claimable_jobs_def new_job_def demo_env_def demo_job_def)

lemma demo_unexpired: "expired_jobs demo_env 5 ''labels'' ProvisionManagedLabelsJobKind demo_inserted_db = []"
  by (simp add: expired_jobs_def)

lemma demo_claimed:
  "ClaimJobKind demo_env 5 ''labels'' ProvisionManagedLabelsJobKind ''worker'' 1000000 demo_inserted_db
    = Inr (Some demo_job_lease, demo_claimed_db)"
proof -
  have "je_UUID demo_env ''lease'' = ''id:lease''" "jb_ID demo_row = ''id:key''"
    by (simp_all add: demo_env_def demo_job_def)
  then show ?thesis
    using demo_leases demo_claimable
    by (simp add: ClaimJobKind_def go_simps is_space_rune_def reclaimExpiredJobsTx_def demo_unexpired valid_positive_duration_def
        maximumJobDelay_def)
qed

lemma demo_after_claim: "jobs_after [demo_insertion, demo_claim] = demo_claimed_db"
  by (simp add: demo_inserted demo_claimed)


section \<open>Witnesses\<close>

lemma demo_row_sel:
  "job_by_id demo_inserted_db ''id:key'' = Some demo_row" "job_by_id demo_claimed_db ''id:key'' = Some demo_leased"
  "fixed_budget (jb_Kind demo_row)" "fixed_budget (ji_kind demo_job)"
  by (simp_all add: job_by_id_def demo_env_def demo_job_def irreversible_def fixed_budget_def)

theorem attempt_history_witness:
  "job_by_id demo_claimed_db ''id:key'' = Some demo_leased
   \<and> {n. attempt_of demo_claimed_db ''id:key'' n \<noteq> None} = {1..1}"
  using attempt_history [OF demo_after_claim [symmetric] demo_row_sel(2)] demo_row_sel(2) by simp

lemma demo_completes:
  "job_step (demo_env, 9, Complete demo_job_lease ''{}'') demo_claimed_db
    = (True, \<lparr>db_Jobs = [(released 9 JobSucceeded demo_leased)\<lparr>jb_CompletedAt := Some 9, jb_Result := Some ''{}'',
                jb_LastError := None\<rparr>],
              db_Attempts = [demo_attempt\<lparr>ja_Status := AttemptSucceeded, ja_FinishedAt := Some 9,
                ja_Result := Some ''{}''\<rparr>], db_Failures = []\<rparr>)"
  by (simp add: CompleteJob_def withLockedJobLease_def lease_id_def lease_token_def demo_job_lease_def job_by_id_def
      live_lease_def row_token_def change_attempt_def change_job_def update_attempts_def update_jobs_def fenced_attempt_def
      fenced_job_def attempt_checks_def job_checks_def released_def demo_attempt_def lease_row_def new_job_def
      isAgentTurnRecoveryJob_def isFencedWorkflowJob_def microseconds_def demo_simps)

theorem jobs_refine_leases_witness:
  "fst (job_step (demo_env, 9, Complete demo_job_lease ''{}'') demo_claimed_db)
   \<and> abs_lease demo_claimed_db ''id:key'' = Held 1 ''id:lease''"
  using jobs_refine_leases [OF demo_after_claim [symmetric] demo_completes] demo_completes
  by (simp add: demo_job_lease_def lease_id_def lease_token_def row_token_def demo_env_def demo_job_def)

theorem insertion_idempotent_witness:
  "insertIdempotentJobTx demo_env 7 demo_job demo_claimed_db = Inr (''id:key'', demo_claimed_db)"
  using insertion_idempotent [of demo_env 0 demo_job "[]" "''id:key''" demo_inserted_db 7 "[demo_claim]"]
    demo_inserted demo_claimed demo_row_sel(4) by simp

theorem attempts_bounded_witness:
  "length (filter (\<lambda>a. ja_JobID a = ''id:key'') (db_Attempts demo_claimed_db)) = 1 \<and> (1 :: int) \<le> jb_MaxAttempts demo_row"
proof -
  have "jobs_after ([demo_insertion] @ [demo_claim]) = demo_claimed_db" using demo_after_claim by simp
  moreover have "job_by_id (jobs_after [demo_insertion]) ''id:key'' = Some demo_row"
    using demo_after_insertion demo_row_sel(1) by simp
  moreover have "length (filter (\<lambda>a. ja_JobID a = ''id:key'') (db_Attempts demo_claimed_db)) = 1"
    by (simp add: demo_attempt_def)
  ultimately show ?thesis
    using attempts_bounded [of "[demo_insertion]" "''id:key''" demo_row "[demo_claim]"] demo_row_sel(3) by simp
qed

text \<open>The preparation of a Turn that the closure of its Issue cancels under the worker.\<close>

definition demo_preparation :: job_insert where
  "demo_preparation =
     action_job \<lparr>as_Delivery = ''event'', as_Settlement = '''', as_InternalEvent = '''', as_Workflow = ''wf'',
                 as_Attempt = ''attempt''\<rparr> ''prepare-turn'' PrepareAgentTurnJobKind ''{}''"

abbreviation "demo_prepared \<equiv> (demo_env, 0, Insert_Idempotent demo_preparation)"
abbreviation "demo_prepares \<equiv> (demo_env, 5, Claim WorkflowActionQueue PrepareAgentTurnJobKind ''worker'' 1000000)"
abbreviation "demo_preparation_row \<equiv> new_job demo_env 0 demo_preparation"
abbreviation "demo_preparation_leased \<equiv> lease_row 5 ''worker'' ''id:lease'' 1000000 demo_preparation_row"
abbreviation "demo_preparation_lease \<equiv> \<lparr>jl_Job = demo_preparation_leased, jl_Attempt = 1\<rparr>"
abbreviation "demo_preparation_attempt \<equiv> demo_attempt\<lparr>ja_JobID := jb_ID demo_preparation_row\<rparr>"
abbreviation "demo_prepared_db \<equiv> \<lparr>db_Jobs = [demo_preparation_row], db_Attempts = [], db_Failures = []\<rparr>"
abbreviation "demo_preparing_db \<equiv>
  \<lparr>db_Jobs = [demo_preparation_leased], db_Attempts = [demo_preparation_attempt], db_Failures = []\<rparr>"

lemmas demo_preparation_simps = demo_preparation_def action_job_def workflowActionIdempotencyKey_def
  demo_env_def no_scope_def go_simps is_space_rune_def Let_def

lemma demo_preparation_inserted:
  "insertIdempotentJobTx demo_env 0 demo_preparation no_jobs = Inr (jb_ID demo_preparation_row, demo_prepared_db)"
proof -
  have "validateJobInsert demo_env demo_preparation = None"
    by (simp add: validateJobInsert_def isWorkflowlessProvisioningJob_def demo_preparation_simps)
  moreover have "job_checks demo_preparation_row" by (simp add: job_checks_def new_job_def demo_preparation_simps)
  ultimately show ?thesis
    by (simp add: insertIdempotentJobTx_def Let_def conflicting_def no_jobs_def append_job_def) (simp add: demo_env_def)
qed

lemma demo_preparation_claimed:
  "ClaimJobKind demo_env 5 WorkflowActionQueue PrepareAgentTurnJobKind ''worker'' 1000000 demo_prepared_db
    = Inr (Some demo_preparation_lease, demo_preparing_db)"
proof -
  have "claimable_jobs demo_env 5 WorkflowActionQueue PrepareAgentTurnJobKind demo_prepared_db = [demo_preparation_row]"
    by (simp add: claimable_jobs_def new_job_def demo_preparation_simps)
  moreover have "expired_jobs demo_env 5 WorkflowActionQueue PrepareAgentTurnJobKind demo_prepared_db = []"
    by (simp add: expired_jobs_def)
  moreover have "leaseJobTx demo_env 5 (jb_ID demo_preparation_row) ''worker'' ''id:lease'' 1000000 demo_prepared_db
      = Inr (demo_preparation_lease, demo_preparing_db)"
    by (simp add: leaseJobTx_def Let_def job_by_id_def update_jobs_def attempt_checks_def scanJob_def lease_row_def
      job_checks_def new_job_def demo_preparation_simps microseconds_def demo_attempt_def)
  moreover have "je_UUID demo_env ''lease'' = ''id:lease''" by (simp add: demo_env_def)
  ultimately show ?thesis
    by (simp add: ClaimJobKind_def go_simps is_space_rune_def reclaimExpiredJobsTx_def valid_positive_duration_def
        maximumJobDelay_def)
qed

lemma demo_preparation_cancelled:
  "\<exists>t. job_step (demo_env, 9, Cancel_Preparations ''wf'') demo_preparing_db = (True, t)"
  by (simp add: cancelPendingPreparations_def update_attempts_def update_jobs_def Let_def failed_attempt_def
      cancelled_job_def released_def live_job_def attempt_checks_def job_checks_def lease_row_def new_job_def
      demo_preparation_simps demo_attempt_def microseconds_def)

theorem cancelled_preparation_is_dead_witness:
  "\<exists>t. job_step (demo_env, 9, Cancel_Preparations ''wf'') demo_preparing_db = (True, t)
     \<and> abs_lease demo_preparing_db (jb_ID demo_preparation_row) = Held 1 ''id:lease''
     \<and> performed job_step [(demo_env, 9, Complete demo_preparation_lease ''{}'')] t = []"
proof -
  obtain t where t: "job_step (demo_env, 9, Cancel_Preparations ''wf'') demo_preparing_db = (True, t)"
    using demo_preparation_cancelled by blast
  have "demo_preparing_db = jobs_after [demo_prepared, demo_prepares]"
    by (simp add: demo_preparation_inserted demo_preparation_claimed)
  moreover have row: "job_by_id demo_preparing_db (jb_ID demo_preparation_row) = Some demo_preparation_leased"
    by (simp add: job_by_id_def)
  moreover have "jb_Kind demo_preparation_leased = PrepareAgentTurnJobKind" "job_workflow demo_preparation_leased = ''wf''"
    by (simp_all add: lease_row_def new_job_def demo_preparation_simps)
  ultimately have dead: "filter (works_under (jb_ID demo_preparation_row) 1)
      (performed job_step [(demo_env, 9, Complete demo_preparation_lease ''{}'')] t) = []"
    using cancelled_preparation_is_dead [of demo_preparing_db _ demo_env 9 "''wf''" t _ demo_preparation_leased] t by blast
  have "works_under (jb_ID demo_preparation_row) 1 (demo_env, 9, Complete demo_preparation_lease ''{}'')"
    by (simp add: lease_id_def)
  with dead have "performed job_step [(demo_env, 9, Complete demo_preparation_lease ''{}'')] t = []"
    by (auto split: if_split_asm)
  moreover have "abs_lease demo_preparing_db (jb_ID demo_preparation_row) = Held 1 ''id:lease''"
    unfolding abs_lease_def row by (simp add: row_token_def lease_row_def new_job_def demo_preparation_simps)
  ultimately show ?thesis using t by blast
qed

theorem claim_takes_first_due_job_witness:
  "\<exists>l t k. ClaimJobKind demo_env 5 ''labels'' ProvisionManagedLabelsJobKind ''worker'' 1000000 demo_inserted_db
       = Inr (Some l, t)
     \<and> job_by_id demo_inserted_db (lease_id l) = Some k \<and> jb_Priority demo_row \<le> jb_Priority k"
proof -
  have "due_job demo_env 5 ''labels'' ProvisionManagedLabelsJobKind demo_row"
    by (simp add: due_job_def new_job_def demo_env_def demo_job_def)
  moreover have "\<not> trims_to_empty ''labels''" "\<not> trims_to_empty ''worker''" "\<not> trims_to_empty ProvisionManagedLabelsJobKind"
    by (simp_all add: go_simps is_space_rune_def)
  moreover have "valid_positive_duration 1000000" by (simp add: valid_positive_duration_def maximumJobDelay_def)
  moreover have "je_Canonical demo_env (jb_Payload demo_row) \<noteq> None" by (simp add: demo_env_def)
  ultimately show ?thesis
    using claim_takes_first_due_job [OF demo_after_insertion [symmetric], of ProvisionManagedLabelsJobKind "''labels''"
        "''worker''" 1000000 demo_env 5 demo_row] demo_unexpired by fastforce
qed

end
