(* ===== verification/Turn_Model.thy ===== *)
theory Turn_Model
  imports Job_Runs Collab_Operations
begin

text \<open>
  Agent Turns and their tool calls (\<open>store/turns.go\<close>): the tables, and the rows a transaction locks.

  As for the jobs, a transaction maps the tables to its result and the tables it leaves, the old ones if
  it returns an error; it reads the clock once, and the identities it draws are not checked for errors.
  Columns that the modelled code never reads again (profile, configuration, purpose) are left out of a
  Turn. The hierarchy above a Turn (Workflow, Attempt, participant, session) belongs to other
  components: what a transaction reads of it is an argument.
\<close>

section \<open>Tables\<close>

datatype turn_status =
    AgentTurnQueued | AgentTurnStarting | AgentTurnRunning | AgentTurnCancelling | AgentTurnSettling
  | AgentTurnReconciling | AgentTurnCorroborating | AgentTurnSucceeded | AgentTurnFailed
  | AgentTurnInterrupted | AgentTurnTimedOut

datatype mutation_state =
    MutationReserved | MutationInFlight | MutationUnknown | MutationSucceeded | MutationFailed | MutationReconciling

datatype turn_error =
    ErrAgentTurnFenceLost | ErrAgentTurnMutationsUnsettled | ErrAgentTurnHierarchyInactive
  | ErrAgentTurnNotExpired | ErrAgentTurnRecoveryUnsettled | ErrMutationAdmissionClosed
  | ErrMutationOperationConflict | ErrMutationStateConflict | ErrReviewerActorConflict | ErrPendingHumanInput
  | ErrUnresolvedClarification | ErrTerminalCorroborationConflict | ErrClosureSettlementUnsettled | JobsError jobs_error | TurnInput | TurnQuery

text \<open>Recovery of a Turn whose execution was fenced; all of it is NULL or none of it, apart from the times at
  which the barrier moves on.\<close>

record recovery_barrier =
  rb_StartedAt :: instant
  rb_RuntimeStoppedAt :: "instant option"
  rb_SettledAt :: "instant option"
  rb_StopRuntimeJob :: string
  rb_ReconcileMutationsJob :: string
  rb_OriginalOwner :: string
  rb_OriginalOwnerProof :: string
  rb_Continuation :: string
  rb_Settlement :: string

record turn =
  tr_ID :: string
  tr_Workflow :: string
  tr_Session :: string
  tr_Attempt :: string
  tr_Lineage :: string
  tr_RetryOf :: string
  tr_Number :: int64
  tr_Epoch :: int64
  tr_ControlRevision :: int64
  tr_Status :: turn_status
  tr_Active :: bool
  tr_OwnerID :: "string option"
  tr_OwnerToken :: "string option"
  tr_LeasedAt :: "instant option"
  tr_LeaseExpiresAt :: "instant option"
  tr_HeartbeatAt :: "instant option"
  tr_AdmissionOpen :: bool
  tr_AdmissionClosedAt :: "instant option"
  tr_StartedAt :: "instant option"
  tr_CompletedAt :: "instant option"
  tr_NextInvocation :: int64
  tr_Outcome :: "string option"
  tr_LastError :: "string option"
  tr_PromptStopReason :: "string option"
  tr_PromptErrorClass :: "string option"
  tr_PromptRecordedAt :: "instant option"
  tr_Recovery :: "recovery_barrier option"

text \<open>The one slot that a running Turn occupies.\<close>

record slot =
  sl_Turn :: string
  sl_Session :: string
  sl_Epoch :: int64
  sl_ControlRevision :: int64
  sl_OwnerID :: string
  sl_OwnerToken :: string
  sl_LeaseExpiresAt :: instant

text \<open>A tool call, of kind MUTATION or READ.\<close>

record invocation =
  iv_ID :: string
  iv_Turn :: string
  iv_Epoch :: int64
  iv_Lineage :: string
  iv_Number :: int64
  iv_Mutation :: bool
  iv_OperationID :: "string option"
  iv_Tool :: string
  iv_Request :: string
  iv_State :: mutation_state
  iv_ExternalService :: string
  iv_ExternalResource :: string
  iv_ExpectedSHA :: string
  iv_ProposedSHA :: "string option"
  iv_HistoryPublication :: bool
  iv_Result :: "string option"
  iv_LastError :: "string option"
  iv_AdmittedAt :: instant
  iv_StartedAt :: "instant option"
  iv_FinishedAt :: "instant option"

text \<open>The projection of an ancestor's tool call into the ledger of a retry.\<close>

record replay =
  rp_Turn :: string
  rp_Epoch :: int64
  rp_Lineage :: string
  rp_Number :: int64
  rp_Source :: string
  rp_SourceTurn :: string
  rp_SourceEpoch :: int64

text \<open>What a closing Workflow waits for (\<open>workflow_closure_barriers\<close>); the source Turn is absent if none was active.\<close>

record closure_barrier =
  cb_Workflow :: string
  cb_Closure :: string
  cb_Revision :: int64
  cb_Turn :: string
  cb_Session :: string
  cb_Attempt :: string
  cb_Epoch :: int64
  cb_ControlRevision :: int64
  cb_AdmissionClosedAt :: instant
  cb_RuntimeStoppedAt :: "instant option"
  cb_SettledAt :: "instant option"
  cb_StopJob :: string
  cb_SettlementJob :: string

record turns_db =
  td_Jobs :: jobs_db
  td_Turns :: "turn list"
  td_Slots :: "slot list"
  td_Invocations :: "invocation list"
  td_Replays :: "replay list"
  td_ReviewerActor :: "string \<Rightarrow> int64 option"
  td_Closures :: "closure_barrier list"

text \<open>What the holder of a Turn presents: the Turn as it was acquired, the lease of its job, its owner.\<close>

record agent_turn_lease =
  al_Turn :: turn
  al_Participant :: string
  al_Job :: job_lease
  al_OwnerID :: string
  al_OwnerToken :: string

text \<open>The identity that a recovery job carries in its payload, and how the Workflow goes on once a Turn is
  recovered: its last tool call is corroborated, or it settles with a diagnostic and a settlement.\<close>

record recovery_identity =
  ri_Scope :: job_scope
  ri_ControlRevision :: int64
  ri_ExecutionJob :: string
  ri_OwnerID :: string
  ri_OwnerProof :: string

datatype recovery_end = Corroborate | Continue string string

text \<open>The payload of the jobs that close a Workflow.\<close>

record closure_payload =
  cl_Workflow :: string
  cl_Attempt :: string
  cl_Closure :: string
  cl_Turn :: string
  cl_Session :: string
  cl_Epoch :: int64
  cl_ControlRevision :: int64
  cl_Revision :: int64

text \<open>What a transaction learns from elsewhere: the rows of the hierarchy (session: status, control owner,
  control revision), the conversation, the row of a participant (Role, status, whether its state was deleted), the
  Role policies of the deployment, what a JSON text says or how one is written, the SHA-256 hash, and what the
  Workflow makes of a Turn that settles or of a closure that is over.\<close>

record turn_env =
  te_Jobs :: job_env
  te_WorkflowStatus :: "string \<Rightarrow> string option"
  te_AttemptActive :: "string \<Rightarrow> string \<Rightarrow> bool option"
  te_AssignmentStatus :: "string \<Rightarrow> string \<Rightarrow> string option"
  te_Session :: "string \<Rightarrow> string \<Rightarrow> (string \<times> string \<times> int64) option"
  te_Conversation :: "string \<Rightarrow> collab option"
  te_Delivery :: "turn \<Rightarrow> string \<Rightarrow> string \<Rightarrow> turn_error option"
  te_Participant :: "string \<Rightarrow> (role_id \<times> string \<times> bool) option"
  te_Policies :: policy_catalog
  te_ReviewActor :: "string \<Rightarrow> int64 option"
  te_Unsigned :: "string \<Rightarrow> string option"
  te_OutcomeCompleted :: "string \<Rightarrow> bool"
  te_TurnPayload :: "string \<Rightarrow> (string \<times> string \<times> int64 \<times> int64) option"
  te_Hash :: "string \<Rightarrow> string"
  te_TurnResult :: "turn_status \<Rightarrow> string option \<Rightarrow> string"
  te_RecoveryIdentity :: "job \<Rightarrow> turn \<Rightarrow> string"
  te_DecodeIdentity :: "string \<Rightarrow> recovery_identity option"
  te_Escalate :: "turn \<Rightarrow> string \<Rightarrow> turn_error + bool"
  te_Diagnostic :: "int \<Rightarrow> string \<Rightarrow> string"
  te_Continue :: "turn \<Rightarrow> turn_error + recovery_end"
  te_SameRecovery :: "string \<Rightarrow> job \<Rightarrow> agent_turn_lease \<Rightarrow> bool"
  te_Settled :: "turn \<Rightarrow> turn_error + turn_status \<times> string option \<times> string option \<times> string"
  te_SessionParticipant :: "string \<Rightarrow> string option"
  te_Closing :: "string \<Rightarrow> (int64 \<times> string) option"
  te_ClosurePayload :: "string \<Rightarrow> closure_payload option"
  te_ClosureText :: "closure_payload \<Rightarrow> string"
  te_ClosureDecision :: "closure_barrier \<Rightarrow> turn_error option"
  te_ClosureResult :: "closure_barrier \<Rightarrow> string"
  te_Verifier :: "string \<Rightarrow> int64 \<Rightarrow> string option"

section \<open>Statements\<close>

text \<open>Rows are found and changed by primary key.\<close>

definition row_of :: "('r \<Rightarrow> 'k) \<Rightarrow> 'k \<Rightarrow> 'r list \<Rightarrow> 'r option" where
  "row_of key k rows = find (\<lambda>r. key r = k) rows"

definition alter :: "('r \<Rightarrow> 'k) \<Rightarrow> 'k \<Rightarrow> ('r \<Rightarrow> 'r) \<Rightarrow> 'r list \<Rightarrow> 'r list" where
  "alter key k f rows = map (\<lambda>r. if key r = k then f r else r) rows"

abbreviation turn_of :: "turns_db \<Rightarrow> string \<Rightarrow> turn option" where
  "turn_of db i \<equiv> row_of tr_ID i (td_Turns db)"

abbreviation slot_of :: "turns_db \<Rightarrow> string \<Rightarrow> slot option" where
  "slot_of db i \<equiv> row_of sl_Turn i (td_Slots db)"

abbreviation invocation_of :: "turns_db \<Rightarrow> string \<Rightarrow> invocation option" where
  "invocation_of db i \<equiv> row_of iv_ID i (td_Invocations db)"

text \<open>The CHECK constraints that a change of the modelled columns could violate.\<close>

definition turn_checks :: "turn \<Rightarrow> bool" where
  "turn_checks t \<longleftrightarrow>
     (tr_Active t \<longrightarrow> tr_CompletedAt t = None) \<and> tr_NextInvocation t > 0
     \<and> tr_ControlRevision t > 0 \<and> tr_Epoch t > 0 \<and> tr_Number t > 0
     \<and> (if tr_RetryOf t = '''' then tr_Lineage t = tr_ID t else tr_Lineage t \<noteq> tr_ID t \<and> tr_RetryOf t \<noteq> tr_ID t)
     \<and> (tr_OwnerID t = None \<longleftrightarrow> tr_OwnerToken t = None) \<and> (tr_OwnerID t = None \<longleftrightarrow> tr_LeasedAt t = None)
     \<and> (tr_OwnerID t = None \<longleftrightarrow> tr_LeaseExpiresAt t = None)
     \<and> (case tr_PromptRecordedAt t of
          None \<Rightarrow> tr_PromptStopReason t = None \<and> tr_PromptErrorClass t = None
        | Some _ \<Rightarrow> (tr_PromptStopReason t = None) \<noteq> (tr_PromptErrorClass t = None))
     \<and> (case tr_Recovery t of
          None \<Rightarrow> True
        | Some b \<Rightarrow> rb_StopRuntimeJob b \<noteq> '''' \<and> rb_OriginalOwner b \<noteq> ''''
            \<and> (rb_SettledAt b \<noteq> None \<longrightarrow> rb_RuntimeStoppedAt b \<noteq> None)
            \<and> (rb_Continuation b = ''INFRASTRUCTURE_FAILURE_APPLIED'' \<longleftrightarrow> rb_Settlement b \<noteq> ''''))"

definition validPublicationObjectID :: "string \<Rightarrow> bool" where
  "validPublicationObjectID value \<longleftrightarrow>
     \<not> (length value \<noteq> 40 \<and> length value \<noteq> 64)
     \<and> list_all (\<lambda>b. 48 \<le> b \<and> b \<le> 57 \<or> 97 \<le> b \<and> b \<le> 102) (go_bytes value)"

definition invocation_checks :: "invocation \<Rightarrow> bool" where
  "invocation_checks v \<longleftrightarrow>
     iv_Epoch v > 0 \<and> iv_Number v > 0 \<and> iv_Tool v \<noteq> ''''
     \<and> (iv_HistoryPublication v \<longrightarrow> iv_Mutation v \<and> iv_Tool v = ''publish_changes'')
     \<and> (case iv_ProposedSHA v of
          None \<Rightarrow> True
        | Some sha \<Rightarrow> iv_HistoryPublication v \<and> iv_Tool v = ''publish_changes'' \<and> validPublicationObjectID sha)"

text \<open>\<open>INSERT INTO agent_turns\<close> (\<open>store/preparation.go\<close>): a prepared Turn is queued, under the unique
  indexes and the foreign keys of its retry.\<close>

definition prepared_turn :: "turn \<Rightarrow> turn" where
  "prepared_turn t = t\<lparr>tr_Status := AgentTurnQueued, tr_Active := True, tr_OwnerID := None, tr_OwnerToken := None,
     tr_LeasedAt := None, tr_LeaseExpiresAt := None, tr_HeartbeatAt := None, tr_AdmissionOpen := False,
     tr_AdmissionClosedAt := None, tr_StartedAt := None, tr_CompletedAt := None, tr_NextInvocation := 1,
     tr_Outcome := None, tr_LastError := None, tr_PromptStopReason := None, tr_PromptErrorClass := None,
     tr_PromptRecordedAt := None, tr_Recovery := None\<rparr>"

definition turn_conflict :: "turn \<Rightarrow> turn \<Rightarrow> bool" where
  "turn_conflict t r \<longleftrightarrow>
     tr_ID t = tr_ID r \<or> tr_Session t = tr_Session r \<and> (tr_Epoch t = tr_Epoch r \<or> tr_Number t = tr_Number r)
     \<or> tr_Active t \<and> tr_Active r \<and> (tr_Session t = tr_Session r \<or> tr_Workflow t = tr_Workflow r)"

definition insert_turn :: "turn \<Rightarrow> turns_db \<Rightarrow> turn_error + turns_db" where
  "insert_turn t0 db =
     (let t = prepared_turn t0 in
      if \<not> turn_checks t \<or> list_ex (turn_conflict t) (td_Turns db)
         \<or> tr_RetryOf t \<noteq> ''''
           \<and> \<not> list_ex (\<lambda>r. tr_ID r = tr_RetryOf t \<and> tr_Session r = tr_Session t \<and> tr_Lineage r = tr_Lineage t) (td_Turns db)
      then Inl TurnQuery else Inr (db\<lparr>td_Turns := td_Turns db @ [t]\<rparr>))"

text \<open>\<open>UPDATE agent_turns ... WHERE id = ...\<close> under a condition; an error if no row qualifies, or if the new row
  violates a check or a unique index.\<close>

definition update_turn ::
  "string \<Rightarrow> (turn \<Rightarrow> bool) \<Rightarrow> (turn \<Rightarrow> turn) \<Rightarrow> turn_error \<Rightarrow> turns_db \<Rightarrow> turn_error + turns_db" where
  "update_turn i cond f missing db =
     (case turn_of db i of
        None \<Rightarrow> Inl missing
      | Some t \<Rightarrow>
          if \<not> cond t then Inl missing
          else if \<not> turn_checks (f t) \<or> list_ex (\<lambda>r. tr_ID r \<noteq> i \<and> turn_conflict (f t) r) (td_Turns db)
          then Inl TurnQuery
          else Inr (db\<lparr>td_Turns := alter tr_ID i f (td_Turns db)\<rparr>))"

definition update_invocation ::
  "string \<Rightarrow> (invocation \<Rightarrow> bool) \<Rightarrow> (invocation \<Rightarrow> invocation) \<Rightarrow> turn_error \<Rightarrow> turns_db \<Rightarrow> turn_error + turns_db" where
  "update_invocation i cond f missing db =
     (case invocation_of db i of
        None \<Rightarrow> Inl missing
      | Some v \<Rightarrow>
          if \<not> cond v then Inl missing
          else if \<not> invocation_checks (f v) then Inl TurnQuery
          else Inr (db\<lparr>td_Invocations := alter iv_ID i f (td_Invocations db)\<rparr>))"

text \<open>A change of every tool call that qualifies.\<close>

definition update_invocations :: "(invocation \<Rightarrow> bool) \<Rightarrow> (invocation \<Rightarrow> invocation) \<Rightarrow> turns_db \<Rightarrow> turns_db" where
  "update_invocations cond f db =
     db\<lparr>td_Invocations := map (\<lambda>v. if cond v then f v else v) (td_Invocations db)\<rparr>"

text \<open>The mutations of one execution of a Turn that are in one of the given states.\<close>

definition own_mutation :: "turn \<Rightarrow> mutation_state list \<Rightarrow> invocation \<Rightarrow> bool" where
  "own_mutation t states v \<longleftrightarrow>
     iv_Turn v = tr_ID t \<and> iv_Epoch v = tr_Epoch t \<and> iv_Mutation v \<and> iv_State v \<in> set states"

abbreviation unsettled_states :: "mutation_state list" where
  "unsettled_states \<equiv> [MutationReserved, MutationInFlight, MutationUnknown, MutationReconciling]"

definition unsettledMutationsForTurn :: "turns_db \<Rightarrow> turn \<Rightarrow> bool" where
  "unsettledMutationsForTurn db t \<longleftrightarrow> list_ex (own_mutation t unsettled_states) (td_Invocations db)"

text \<open>\<open>INSERT INTO tool_invocations\<close> and its unique indexes.\<close>

definition invocation_conflict :: "invocation \<Rightarrow> invocation \<Rightarrow> bool" where
  "invocation_conflict v w \<longleftrightarrow>
     iv_ID v = iv_ID w \<or> iv_Turn v = iv_Turn w \<and> iv_Number v = iv_Number w
     \<or> iv_OperationID v \<noteq> None \<and> iv_OperationID v = iv_OperationID w \<and> iv_Tool v = iv_Tool w
       \<and> (iv_Turn v = iv_Turn w \<and> iv_Epoch v = iv_Epoch w
          \<or> iv_Mutation v \<and> iv_Mutation w \<and> iv_Lineage v = iv_Lineage w)"

definition insert_invocation :: "invocation \<Rightarrow> turns_db \<Rightarrow> turn_error + turns_db" where
  "insert_invocation v db =
     (if \<not> invocation_checks v \<or> list_ex (invocation_conflict v) (td_Invocations db) then Inl TurnQuery
      else Inr (db\<lparr>td_Invocations := td_Invocations db @ [v]\<rparr>))"

text \<open>\<open>next_invocation_number\<close>: the number taken and the Turn that counts on.\<close>

definition next_invocation :: "turn \<Rightarrow> turns_db \<Rightarrow> turn_error + int64 \<times> turns_db" where
  "next_invocation t db =
     (case update_turn (tr_ID t) (\<lambda>r. tr_Epoch r = tr_Epoch t) (\<lambda>r. r\<lparr>tr_NextInvocation := tr_NextInvocation r + 1\<rparr>) TurnQuery db of
        Inl e \<Rightarrow> Inl e
      | Inr db1 \<Rightarrow> Inr (case turn_of db (tr_ID t) of None \<Rightarrow> 0 | Some r \<Rightarrow> tr_NextInvocation r, db1))"

end
