(* ===== verification/Turn_Fence.thy ===== *)
theory Turn_Fence
  imports Turn_Model
begin

text \<open>
  The fence of an Agent Turn (\<open>store/turns.go\<close>): every transaction of the holder of a Turn first checks the
  live attempt of its job, the hierarchy above it, the owner of the Turn and its slot.
\<close>

section \<open>The rows that are locked\<close>

record locked_hierarchy =
  lh_ControlRevision :: int64
  lh_WorkflowStatus :: string
  lh_AttemptActive :: bool
  lh_AssignmentStatus :: string
  lh_SessionStatus :: string
  lh_ControlOwner :: string

abbreviation job_turn :: "job \<Rightarrow> string" where "job_turn j \<equiv> sc_agentTurnID (jb_Scope j)"
abbreviation job_session :: "job \<Rightarrow> string" where "job_session j \<equiv> sc_agentSessionID (jb_Scope j)"
abbreviation job_participant :: "job \<Rightarrow> string" where "job_participant j \<equiv> sc_agentParticipantID (jb_Scope j)"
abbreviation job_epoch :: "job \<Rightarrow> int64" where "job_epoch j \<equiv> sc_executionEpoch (jb_Scope j)"

definition lockHierarchy :: "turn_env \<Rightarrow> job_scope \<Rightarrow> turn_error + locked_hierarchy" where
  "lockHierarchy env h =
     (case te_WorkflowStatus env (sc_workflowID h) of
        None \<Rightarrow> Inl ErrAgentTurnHierarchyInactive
      | Some workflow \<Rightarrow>
     (case te_AttemptActive env (sc_workflowAttemptID h) (sc_workflowID h) of
        None \<Rightarrow> Inl ErrAgentTurnHierarchyInactive
      | Some attempt \<Rightarrow>
     (case te_AssignmentStatus env (sc_agentParticipantID h) (sc_workflowID h) of
        None \<Rightarrow> Inl ErrAgentTurnHierarchyInactive
      | Some assignment \<Rightarrow>
     (case te_Session env (sc_agentSessionID h) (sc_agentParticipantID h) of
        None \<Rightarrow> Inl ErrAgentTurnHierarchyInactive
      | Some (session, owner, revision) \<Rightarrow>
          Inr \<lparr>lh_ControlRevision = revision, lh_WorkflowStatus = workflow, lh_AttemptActive = attempt,
               lh_AssignmentStatus = assignment, lh_SessionStatus = session, lh_ControlOwner = owner\<rparr>))))"

definition workflowAllowsTurns :: "string \<Rightarrow> bool" where
  "workflowAllowsTurns status \<longleftrightarrow> status \<noteq> ''CLOSING'' \<and> status \<noteq> ''CLOSED'' \<and> status \<noteq> ''NEEDS_HUMAN''"

definition allowsActiveTurn :: "locked_hierarchy \<Rightarrow> bool" where
  "allowsActiveTurn h \<longleftrightarrow>
     workflowAllowsTurns (lh_WorkflowStatus h) \<and> lh_AttemptActive h \<and> lh_AssignmentStatus h = ''ACTIVE''
     \<and> lh_SessionStatus h = ''ACTIVE'' \<and> lh_ControlOwner h = ''AUTOMATION''"

definition allowsAcquisition :: "locked_hierarchy \<Rightarrow> bool" where
  "allowsAcquisition h \<longleftrightarrow>
     allowsActiveTurn h
     \<or> workflowAllowsTurns (lh_WorkflowStatus h) \<and> lh_AttemptActive h \<and> lh_AssignmentStatus h = ''ACTIVE''
       \<and> lh_SessionStatus h = ''CREATING'' \<and> lh_ControlOwner h = ''AUTOMATION''"

text \<open>\<open>lockAgentTurnJob\<close>, always with a live attempt required.\<close>

definition lockAgentTurnJob :: "turn_env \<Rightarrow> instant \<Rightarrow> job_lease \<Rightarrow> turns_db \<Rightarrow> turn_error + job" where
  "lockAgentTurnJob env now lease db =
     (if \<not> je_ValidUUID (te_Jobs env) (lease_id lease) \<or> \<not> je_ValidUUID (te_Jobs env) (lease_token lease)
         \<or> jl_Attempt lease \<le> 0
      then Inl ErrAgentTurnFenceLost
      else case job_by_id (td_Jobs db) (lease_id lease) of
        None \<Rightarrow> Inl ErrAgentTurnFenceLost
      | Some row \<Rightarrow>
     (case scanJob (te_Jobs env) row of
        None \<Rightarrow> Inl TurnQuery
      | Some job \<Rightarrow>
          if jb_Kind job \<noteq> RunAgentTurnJobKind \<or> jb_MaxAttempts job \<noteq> 1 \<or> job_turn job = '''' \<or> job_epoch job \<le> 0
             \<or> jb_Status job \<noteq> JobLeased \<or> row_token job \<noteq> lease_token lease \<or> jb_AttemptCount job \<noteq> jl_Attempt lease
          then Inl ErrAgentTurnFenceLost
          else case attempt_of (td_Jobs db) (jb_ID job) (jl_Attempt lease) of
            None \<Rightarrow> Inl ErrAgentTurnFenceLost
          | Some a \<Rightarrow>
              if \<not> (ja_Status a = AttemptLeased \<and> ja_LeaseToken a = lease_token lease \<and> ja_LeaseExpiresAt a > now)
                 \<or> jb_LeaseExpiresAt job = None
              then Inl ErrAgentTurnFenceLost
              else if (case jb_LeaseOwner (jl_Job lease) of None \<Rightarrow> False | Some owner \<Rightarrow> owner \<noteq> '''' \<and> ja_LeaseOwner a \<noteq> owner)
              then Inl ErrAgentTurnFenceLost
              else if \<not> unexpired now job then Inl ErrAgentTurnFenceLost
              else Inr job))"


definition owner_of :: "turn \<Rightarrow> string" where
  "owner_of t = (case tr_OwnerID t of None \<Rightarrow> '''' | Some owner \<Rightarrow> owner)"

definition owner_token_of :: "turn \<Rightarrow> string" where
  "owner_token_of t = (case tr_OwnerToken t of None \<Rightarrow> '''' | Some token \<Rightarrow> token)"

definition lease_live :: "instant \<Rightarrow> turn \<Rightarrow> bool" where
  "lease_live now t \<longleftrightarrow> (case tr_LeaseExpiresAt t of None \<Rightarrow> False | Some e \<Rightarrow> e > now)"

abbreviation lease_turn :: "agent_turn_lease \<Rightarrow> string" where "lease_turn lease \<equiv> tr_ID (al_Turn lease)"

section \<open>The fence\<close>

definition sameAgentTurnExecutionIdentity :: "job \<Rightarrow> agent_turn_lease \<Rightarrow> bool" where
  "sameAgentTurnExecutionIdentity job lease \<longleftrightarrow>
     (let l = jl_Job (al_Job lease); s = jb_Scope job; t = al_Turn lease
      in jb_ID job = jb_ID l \<and> jb_Queue job = ''agent-turns'' \<and> jb_Kind job = RunAgentTurnJobKind
         \<and> jb_MaxAttempts job = 1 \<and> jb_AttemptCount job = jl_Attempt (al_Job lease)
         \<and> jb_IdempotencyKey job = jb_IdempotencyKey l \<and> s = jb_Scope l \<and> jb_Payload job = jb_Payload l
         \<and> sc_workflowAttemptID s = tr_Attempt t \<and> sc_agentParticipantID s = al_Participant lease
         \<and> sc_agentSessionID s = tr_Session t \<and> sc_agentTurnID s = tr_ID t \<and> sc_executionEpoch s = tr_Epoch t)"

definition valid_turn_lease :: "turn_env \<Rightarrow> agent_turn_lease \<Rightarrow> bool" where
  "valid_turn_lease env lease \<longleftrightarrow>
     je_ValidUUID (te_Jobs env) (lease_turn lease) \<and> je_ValidUUID (te_Jobs env) (tr_Session (al_Turn lease))
     \<and> je_ValidUUID (te_Jobs env) (al_OwnerToken lease) \<and> tr_Epoch (al_Turn lease) > 0
     \<and> tr_ControlRevision (al_Turn lease) > 0 \<and> \<not> trims_to_empty (al_OwnerID lease)"

definition owns_turn :: "instant \<Rightarrow> locked_hierarchy \<Rightarrow> agent_turn_lease \<Rightarrow> turn \<Rightarrow> bool" where
  "owns_turn now h lease t \<longleftrightarrow>
     \<not> (\<not> tr_Active t \<or> lh_ControlRevision h \<noteq> tr_ControlRevision (al_Turn lease)
        \<or> tr_Session t \<noteq> tr_Session (al_Turn lease) \<or> tr_Epoch t \<noteq> tr_Epoch (al_Turn lease)
        \<or> tr_ControlRevision t \<noteq> tr_ControlRevision (al_Turn lease) \<or> owner_of t \<noteq> al_OwnerID lease
        \<or> owner_token_of t \<noteq> al_OwnerToken lease \<or> \<not> lease_live now t)"

definition owns_slot :: "agent_turn_lease \<Rightarrow> slot \<Rightarrow> bool" where
  "owns_slot lease s \<longleftrightarrow>
     sl_Session s = tr_Session (al_Turn lease) \<and> sl_Epoch s = tr_Epoch (al_Turn lease)
     \<and> sl_ControlRevision s = tr_ControlRevision (al_Turn lease)
     \<and> sl_OwnerID s = al_OwnerID lease \<and> sl_OwnerToken s = al_OwnerToken lease"

text \<open>The locked Turn and the participant that its job runs for.\<close>

definition validateAgentTurnLease ::
  "turn_env \<Rightarrow> instant \<Rightarrow> agent_turn_lease \<Rightarrow> bool \<Rightarrow> bool \<Rightarrow> turns_db \<Rightarrow> turn_error + turn \<times> string" where
  "validateAgentTurnLease env now lease allowCreating requireExact db =
     (case lockAgentTurnJob env now (al_Job lease) db of
        Inl _ \<Rightarrow> Inl ErrAgentTurnFenceLost
      | Inr job \<Rightarrow>
          if requireExact \<and> (jb_LeaseOwner job \<noteq> jb_LeaseOwner (jl_Job (al_Job lease))
                             \<or> \<not> sameAgentTurnExecutionIdentity job lease)
          then Inl ErrAgentTurnFenceLost
          else if job_turn job \<noteq> lease_turn lease \<or> job_session job \<noteq> tr_Session (al_Turn lease)
             \<or> job_epoch job \<noteq> tr_Epoch (al_Turn lease)
          then Inl ErrAgentTurnFenceLost
          else case lockHierarchy env (jb_Scope job) of
            Inl e \<Rightarrow> Inl e
          | Inr h \<Rightarrow>
         (case turn_of db (lease_turn lease) of
            None \<Rightarrow> Inl ErrAgentTurnFenceLost
          | Some t \<Rightarrow>
              if requireExact \<and> (job_participant job \<noteq> al_Participant lease \<or> tr_Attempt t \<noteq> tr_Attempt (al_Turn lease))
              then Inl ErrAgentTurnFenceLost
              else if \<not> allowsActiveTurn h \<and> \<not> (allowCreating \<and> allowsAcquisition h) then Inl ErrAgentTurnFenceLost
              else if \<not> owns_turn now h lease t then Inl ErrAgentTurnFenceLost
              else case slot_of db (lease_turn lease) of
                None \<Rightarrow> Inl ErrAgentTurnFenceLost
              | Some s \<Rightarrow>
                  if \<not> owns_slot lease s \<or> sl_LeaseExpiresAt s \<le> now then Inl ErrAgentTurnFenceLost
                  else Inr (t, job_participant job)))"

definition withLockedAgentTurnLeaseOptions ::
  "turn_env \<Rightarrow> instant \<Rightarrow> agent_turn_lease \<Rightarrow> bool \<Rightarrow> bool
    \<Rightarrow> (turn \<Rightarrow> string \<Rightarrow> turns_db \<Rightarrow> turn_error + 'a \<times> turns_db) \<Rightarrow> turns_db \<Rightarrow> turn_error + 'a \<times> turns_db" where
  "withLockedAgentTurnLeaseOptions env now lease allowCreating requireExact operation db =
     (if \<not> valid_turn_lease env lease then Inl ErrAgentTurnFenceLost
      else case validateAgentTurnLease env now lease allowCreating requireExact db of
        Inl e \<Rightarrow> Inl e
      | Inr (t, participant) \<Rightarrow> operation t participant db)"

abbreviation withLockedAgentTurnLease where
  "withLockedAgentTurnLease env now lease \<equiv> withLockedAgentTurnLeaseOptions env now lease False False"

text \<open>Holding the fence while something outside the database is done; \<open>operation\<close> answers its error.\<close>

definition ValidateTurnFence :: "turn_env \<Rightarrow> instant \<Rightarrow> agent_turn_lease \<Rightarrow> turns_db \<Rightarrow> turn_error + unit \<times> turns_db" where
  "ValidateTurnFence env now lease db =
     withLockedAgentTurnLeaseOptions env now lease True False (\<lambda>t p db. Inr ((), db)) db"

definition WithAgentTurnFence ::
  "turn_env \<Rightarrow> instant \<Rightarrow> agent_turn_lease \<Rightarrow> turn_error option option \<Rightarrow> turns_db \<Rightarrow> turn_error + unit \<times> turns_db" where
  "WithAgentTurnFence env now lease operation db =
     (case operation of
        None \<Rightarrow> Inl TurnInput
      | Some result \<Rightarrow>
          withLockedAgentTurnLeaseOptions env now lease True True
            (\<lambda>t p db. if tr_Status t \<noteq> AgentTurnRunning then Inl ErrAgentTurnFenceLost
                      else case result of Some e \<Rightarrow> Inl e | None \<Rightarrow> Inr ((), db)) db)"

definition WithAgentTurnCleanupFence ::
  "turn_env \<Rightarrow> instant \<Rightarrow> agent_turn_lease \<Rightarrow> turn_error option option \<Rightarrow> turns_db \<Rightarrow> turn_error + unit \<times> turns_db" where
  "WithAgentTurnCleanupFence env now lease operation db =
     (case operation of
        None \<Rightarrow> Inl TurnInput
      | Some result \<Rightarrow>
          withLockedAgentTurnLeaseOptions env now lease True True
            (\<lambda>t p db. if tr_Status t \<noteq> AgentTurnRunning \<and> tr_Status t \<noteq> AgentTurnSettling
                         \<and> tr_Status t \<noteq> AgentTurnReconciling
                      then Inl ErrAgentTurnFenceLost
                      else case result of Some e \<Rightarrow> Inl e | None \<Rightarrow> Inr ((), db)) db)"

text \<open>What a transaction under the fence has seen.\<close>

definition holds_turn :: "instant \<Rightarrow> turns_db \<Rightarrow> agent_turn_lease \<Rightarrow> turn \<Rightarrow> bool" where
  "holds_turn now db lease t \<longleftrightarrow>
     turn_of db (lease_turn lease) = Some t \<and> tr_Active t \<and> tr_Epoch t = tr_Epoch (al_Turn lease)
     \<and> owner_token_of t = al_OwnerToken lease \<and> lease_live now t
     \<and> (\<exists>s. slot_of db (lease_turn lease) = Some s \<and> owns_slot lease s \<and> sl_LeaseExpiresAt s > now)"

lemma validateAgentTurnLease_holds:
  "validateAgentTurnLease env now lease c x db = Inr (t, p) \<Longrightarrow> holds_turn now db lease t"
  by (auto simp: validateAgentTurnLease_def holds_turn_def owns_turn_def
      split: sum.split_asm option.split_asm if_split_asm)

lemma withLocked_cases:
  assumes "withLockedAgentTurnLeaseOptions env now lease c x operation db = Inr (r, u)"
  obtains t p where "valid_turn_lease env lease" "holds_turn now db lease t" "operation t p db = Inr (r, u)"
  using assms validateAgentTurnLease_holds [of env now lease c x db]
  by (auto simp: withLockedAgentTurnLeaseOptions_def split: sum.split_asm if_split_asm)

end
