(* ===== verification/Turn_Mutations.thy ===== *)
theory Turn_Mutations
  imports Turn_Fence
begin

text \<open>
  The ledger of tool calls (\<open>store/turns.go\<close>): an external mutation is reserved under the identity of its
  operation, started once, and ends with a known outcome or is reconciled; a retry of the Turn finds the
  reservation of its ancestor and replays it instead of acting again. Reads are recorded when they are over.
  The duration of a call, derived from its times, is left out.
\<close>

section \<open>Reservations\<close>

record mutation_spec =
  ms_OperationID :: string
  ms_ToolName :: string
  ms_Request :: string
  ms_ExternalService :: string
  ms_ExternalResourceID :: string
  ms_ExpectedSHA :: string

definition validateMutationSpec :: "turn_env \<Rightarrow> mutation_spec \<Rightarrow> turn_error + string" where
  "validateMutationSpec env spec =
     (if trims_to_empty (ms_OperationID spec) \<or> trims_to_empty (ms_ToolName spec) then Inl TurnInput
      else case je_Canonical (te_Jobs env) (ms_Request spec) of
        None \<Rightarrow> Inl TurnInput
      | Some request \<Rightarrow> Inr request)"

text \<open>\<open>scanMutation\<close>: the row as the code sees it; \<open>getMutationByID\<close>, \<open>getMutationByOperation\<close>.\<close>

definition scanMutation :: "turn_env \<Rightarrow> invocation \<Rightarrow> invocation option" where
  "scanMutation env v = map_option (\<lambda>request. v\<lparr>iv_Request := request\<rparr>) (je_Canonical (te_Jobs env) (iv_Request v))"

definition operation_row :: "string \<Rightarrow> string \<Rightarrow> string \<Rightarrow> invocation \<Rightarrow> bool" where
  "operation_row lineage tool operation v \<longleftrightarrow>
     iv_Lineage v = lineage \<and> iv_Tool v = tool \<and> iv_OperationID v = Some operation \<and> iv_Mutation v"

definition mutation_by_operation :: "turns_db \<Rightarrow> string \<Rightarrow> string \<Rightarrow> string \<Rightarrow> invocation option" where
  "mutation_by_operation db lineage tool operation = find (operation_row lineage tool operation) (td_Invocations db)"

definition getMutationByID :: "turn_env \<Rightarrow> string \<Rightarrow> turns_db \<Rightarrow> turn_error + invocation" where
  "getMutationByID env i db =
     (case Option.bind (invocation_of db i) (scanMutation env) of None \<Rightarrow> Inl TurnQuery | Some v \<Rightarrow> Inr v)"

text \<open>The footer that signs a comment is not part of the identity of the request; \<open>te_Unsigned\<close> removes it
  from a request that has one.\<close>

definition WithoutReservationSignature :: "turn_env \<Rightarrow> string \<Rightarrow> string \<Rightarrow> string" where
  "WithoutReservationSignature env tool request =
     (if tool \<in> {''publish_plan_checkpoint'', ''request_clarification'', ''comment_on_issue'',
                 ''comment_on_pull_request'', ''submit_review'', ''request_review''}
      then case te_Unsigned env request of None \<Rightarrow> request | Some bare \<Rightarrow> bare
      else request)"

definition sameAgentMutationDefinition :: "turn_env \<Rightarrow> invocation \<Rightarrow> mutation_spec \<Rightarrow> bool" where
  "sameAgentMutationDefinition env v spec \<longleftrightarrow>
     iv_OperationID v = Some (ms_OperationID spec) \<and> iv_Tool v = ms_ToolName spec
     \<and> WithoutReservationSignature env (iv_Tool v) (iv_Request v)
       = WithoutReservationSignature env (ms_ToolName spec) (ms_Request spec)"

definition sameMutationDefinition :: "turn_env \<Rightarrow> invocation \<Rightarrow> mutation_spec \<Rightarrow> bool" where
  "sameMutationDefinition env v spec \<longleftrightarrow>
     sameAgentMutationDefinition env v spec \<and> iv_ExternalService v = ms_ExternalService spec
     \<and> iv_ExternalResource v = ms_ExternalResourceID spec \<and> iv_ExpectedSHA v = ms_ExpectedSHA spec"

text \<open>The Turns that a Turn retries, oldest last. The chain has no more members than there are Turns.\<close>

fun retried_turns :: "nat \<Rightarrow> turns_db \<Rightarrow> string \<Rightarrow> string list" where
  "retried_turns 0 db i = []"
| "retried_turns (Suc n) db i =
     (case turn_of db i of
        None \<Rightarrow> []
      | Some t \<Rightarrow> if tr_RetryOf t = '''' then [] else tr_RetryOf t # retried_turns n db (tr_RetryOf t))"

definition validateMutationReplayAncestor :: "turns_db \<Rightarrow> string \<Rightarrow> string \<Rightarrow> bool" where
  "validateMutationReplayAncestor db turnID sourceTurnID \<longleftrightarrow>
     sourceTurnID \<in> set (retried_turns (length (td_Turns db)) db turnID)"

definition has_prefix :: "string \<Rightarrow> string \<Rightarrow> bool" where
  "has_prefix p s \<longleftrightarrow> take (length p) s = p"

definition replay_eligible :: "turn_env \<Rightarrow> turn \<Rightarrow> bool" where
  "replay_eligible env t \<longleftrightarrow>
     (case tr_Outcome t of None \<Rightarrow> True | Some outcome \<Rightarrow> te_OutcomeCompleted env outcome)
     \<and> (tr_PromptRecordedAt t = None \<or> tr_PromptStopReason t = Some ''completed''
        \<or> tr_PromptErrorClass t \<in> Some ` {''FAILURE'', ''DEADLINE'', ''SUBSCRIPTION_QUOTA'', ''SUBSCRIPTION_AUTH'',
                                          ''SUBSCRIPTION_CONFIGURATION''})
     \<and> (case tr_LastError t of
          None \<Rightarrow> True
        | Some e \<Rightarrow> \<not> has_prefix ''Agent prompt was cancelled'' e
                   \<and> \<not> has_prefix ''Agent prompt returned an invalid outcome'' e)"

definition terminal_tools :: "string list" where
  "terminal_tools = [''complete_planning'', ''request_clarification'', ''request_review'', ''submit_review'',
     ''report_blocked'', ''confirm_prior_terminal_intent'']"

definition rejectIneligibleTerminalReplay :: "turn_env \<Rightarrow> turns_db \<Rightarrow> invocation \<Rightarrow> turn_error option" where
  "rejectIneligibleTerminalReplay env db source =
     (if iv_State source \<noteq> MutationSucceeded then None
      else if iv_Tool source \<notin> set terminal_tools then None
      else case turn_of db (iv_Turn source) of
        None \<Rightarrow> Some TurnQuery
      | Some t \<Rightarrow> if replay_eligible env t then None else Some ErrMutationOperationConflict)"

text \<open>Tools that hand work on are refused while the participant has human input it has not dealt with.\<close>

definition hand_over_tools :: "string list" where
  "hand_over_tools = [''complete_planning'', ''request_review'', ''submit_review'', ''confirm_prior_terminal_intent'']"

definition open_human_input :: "turn_env \<Rightarrow> string \<Rightarrow> string \<Rightarrow> turn_error option" where
  "open_human_input env workflow participant =
     (case te_Conversation env workflow of
        None \<Rightarrow> Some TurnQuery
      | Some state \<Rightarrow>
          if Pending state participant then Some ErrPendingHumanInput
          else if Unresolved state participant \<or> AssessmentBlocked state participant then Some ErrUnresolvedClarification
          else None)"

definition reserved_row ::
  "turn_env \<Rightarrow> instant \<Rightarrow> turn \<Rightarrow> agent_turn_lease \<Rightarrow> mutation_spec \<Rightarrow> string \<Rightarrow> int64 \<Rightarrow> invocation" where
  "reserved_row env now t lease spec request number =
     \<lparr>iv_ID = je_UUID (te_Jobs env) ''invocation'', iv_Turn = lease_turn lease, iv_Epoch = tr_Epoch (al_Turn lease),
      iv_Lineage = tr_Lineage t, iv_Number = number, iv_Mutation = True, iv_OperationID = Some (ms_OperationID spec),
      iv_Tool = ms_ToolName spec, iv_Request = request, iv_State = MutationReserved,
      iv_ExternalService = ms_ExternalService spec, iv_ExternalResource = ms_ExternalResourceID spec,
      iv_ExpectedSHA = ms_ExpectedSHA spec, iv_ProposedSHA = None,
      iv_HistoryPublication = (ms_ToolName spec = ''publish_changes''), iv_Result = None, iv_LastError = None,
      iv_AdmittedAt = now, iv_StartedAt = None, iv_FinishedAt = None\<rparr>"

text \<open>A reservation made before, by this Turn or by one that it retries.\<close>

definition existing_reservation ::
  "turn_env \<Rightarrow> turns_db \<Rightarrow> turn \<Rightarrow> mutation_spec \<Rightarrow> invocation \<Rightarrow> turn_error + invocation" where
  "existing_reservation env db t spec existing =
     (if iv_Turn existing = tr_ID t \<and> \<not> sameMutationDefinition env existing spec
         \<or> iv_Turn existing \<noteq> tr_ID t \<and> \<not> sameAgentMutationDefinition env existing spec
      then Inl ErrMutationOperationConflict
      else if iv_Turn existing \<noteq> tr_ID t then
        (if \<not> validateMutationReplayAncestor db (tr_ID t) (iv_Turn existing) then Inl ErrMutationOperationConflict
         else case rejectIneligibleTerminalReplay env db existing of Some e \<Rightarrow> Inl e | None \<Rightarrow> Inr existing)
      else Inr existing)"

definition new_reservation ::
  "turn_env \<Rightarrow> instant \<Rightarrow> agent_turn_lease \<Rightarrow> mutation_spec \<Rightarrow> turn \<Rightarrow> string \<Rightarrow> turns_db
    \<Rightarrow> turn_error + invocation \<times> turns_db" where
  "new_reservation env now lease spec t participant db =
     (if \<not> tr_AdmissionOpen t \<or> tr_Status t \<noteq> AgentTurnRunning then Inl ErrMutationAdmissionClosed
      else case if ms_ToolName spec \<in> set hand_over_tools
                then open_human_input env (sc_workflowID (jb_Scope (jl_Job (al_Job lease)))) participant else None of
        Some e \<Rightarrow> Inl e
      | None \<Rightarrow>
     (case next_invocation t db of
        Inl e \<Rightarrow> Inl e
      | Inr (number, db1) \<Rightarrow>
     (case insert_invocation (reserved_row env now t lease spec (je_Jsonb (te_Jobs env) (ms_Request spec)) number) db1 of
        Inl e \<Rightarrow> Inl e
      | Inr db2 \<Rightarrow> Inr (reserved_row env now t lease spec (ms_Request spec) number, db2))))"

definition ReserveMutation ::
  "turn_env \<Rightarrow> instant \<Rightarrow> agent_turn_lease \<Rightarrow> mutation_spec \<Rightarrow> turns_db \<Rightarrow> turn_error + invocation \<times> turns_db" where
  "ReserveMutation env now lease spec0 db =
     (case validateMutationSpec env spec0 of
        Inl e \<Rightarrow> Inl e
      | Inr request \<Rightarrow>
          let spec = spec0\<lparr>ms_Request := request\<rparr> in
          withLockedAgentTurnLease env now lease
            (\<lambda>t participant db.
               case mutation_by_operation db (tr_Lineage t) (ms_ToolName spec) (ms_OperationID spec) of
                 None \<Rightarrow> new_reservation env now lease spec t participant db
               | Some row \<Rightarrow>
                  (case scanMutation env row of
                     None \<Rightarrow> Inl TurnQuery
                   | Some existing \<Rightarrow>
                      (case existing_reservation env db t spec existing of
                         Inl e \<Rightarrow> Inl e
                       | Inr v \<Rightarrow> Inr (v, db)))) db)"

section \<open>Replays\<close>

definition recordTerminalMutationReplay :: "turn \<Rightarrow> invocation \<Rightarrow> turns_db \<Rightarrow> turn_error + turns_db" where
  "recordTerminalMutationReplay t source db =
     (if iv_Turn source = tr_ID t \<or> iv_State source \<noteq> MutationSucceeded \<and> iv_State source \<noteq> MutationFailed then Inr db
      else if \<not> validateMutationReplayAncestor db (tr_ID t) (iv_Turn source) then Inl ErrMutationOperationConflict
      else if list_ex (\<lambda>r. rp_Turn r = tr_ID t \<and> rp_Source r = iv_ID source) (td_Replays db) then Inr db
      else if \<not> tr_AdmissionOpen t \<or> tr_Status t \<noteq> AgentTurnRunning then Inl ErrMutationAdmissionClosed
      else case next_invocation t db of
        Inl e \<Rightarrow> Inl e
      | Inr (number, db1) \<Rightarrow>
          if list_ex (\<lambda>r. rp_Turn r = tr_ID t \<and> rp_Number r = number) (td_Replays db1) then Inl TurnQuery
          else Inr (db1\<lparr>td_Replays := td_Replays db1 @
            [\<lparr>rp_Turn = tr_ID t, rp_Epoch = tr_Epoch t, rp_Lineage = tr_Lineage t, rp_Number = number,
              rp_Source = iv_ID source, rp_SourceTurn = iv_Turn source, rp_SourceEpoch = iv_Epoch source\<rparr>]\<rparr>))"

definition AcknowledgeMutationReplay ::
  "turn_env \<Rightarrow> instant \<Rightarrow> agent_turn_lease \<Rightarrow> string \<Rightarrow> mutation_spec \<Rightarrow> turns_db \<Rightarrow> turn_error + unit \<times> turns_db" where
  "AcknowledgeMutationReplay env now lease sourceID spec0 db =
     (case validateMutationSpec env spec0 of
        Inl e \<Rightarrow> Inl e
      | Inr request \<Rightarrow>
          let spec = spec0\<lparr>ms_Request := request\<rparr> in
          if \<not> je_ValidUUID (te_Jobs env) sourceID then Inl ErrMutationOperationConflict
          else withLockedAgentTurnLease env now lease
            (\<lambda>t participant db.
               case Option.bind (mutation_by_operation db (tr_Lineage t) (ms_ToolName spec) (ms_OperationID spec))
                      (scanMutation env) of
                 None \<Rightarrow> Inl TurnQuery
               | Some source \<Rightarrow>
                   if iv_ID source \<noteq> sourceID \<or> iv_Turn source = tr_ID t \<or> \<not> sameAgentMutationDefinition env source spec
                      \<or> iv_State source \<noteq> MutationSucceeded \<and> iv_State source \<noteq> MutationFailed
                   then Inl ErrMutationOperationConflict
                   else if \<not> validateMutationReplayAncestor db (tr_ID t) (iv_Turn source)
                   then Inl ErrMutationOperationConflict
                   else case rejectIneligibleTerminalReplay env db source of
                     Some e \<Rightarrow> Inl e
                   | None \<Rightarrow>
                       (case recordTerminalMutationReplay t source db of Inl e \<Rightarrow> Inl e | Inr db1 \<Rightarrow> Inr ((), db1))) db)"

section \<open>Reads\<close>

record read_invocation =
  ri_ToolName :: string
  ri_Request :: string
  ri_Result :: string
  ri_LastError :: string
  ri_StartedAt :: instant
  ri_FinishedAt :: instant

text \<open>The canonical result of a read that succeeded, nothing of one that failed.\<close>

definition read_result :: "turn_env \<Rightarrow> read_invocation \<Rightarrow> turn_error + string option" where
  "read_result env r =
     (if ri_LastError r = '''' then
        (case je_Canonical (te_Jobs env) (ri_Result r) of None \<Rightarrow> Inl TurnInput | Some result \<Rightarrow> Inr (Some result))
      else if trims_to_empty (ri_LastError r) \<or> ri_Result r \<noteq> '''' then Inl TurnInput
      else Inr None)"

definition read_row ::
  "turn_env \<Rightarrow> instant \<Rightarrow> turn \<Rightarrow> agent_turn_lease \<Rightarrow> read_invocation \<Rightarrow> string \<Rightarrow> string option \<Rightarrow> int64 \<Rightarrow> invocation" where
  "read_row env now t lease r request result number =
     \<lparr>iv_ID = je_UUID (te_Jobs env) ''invocation'', iv_Turn = lease_turn lease, iv_Epoch = tr_Epoch (al_Turn lease),
      iv_Lineage = tr_Lineage t, iv_Number = number, iv_Mutation = False, iv_OperationID = None,
      iv_Tool = ri_ToolName r, iv_Request = je_Jsonb (te_Jobs env) request,
      iv_State = (if ri_LastError r = '''' then MutationSucceeded else MutationFailed),
      iv_ExternalService = '''', iv_ExternalResource = '''', iv_ExpectedSHA = '''', iv_ProposedSHA = None,
      iv_HistoryPublication = False, iv_Result = map_option (je_Jsonb (te_Jobs env)) result,
      iv_LastError = (if ri_LastError r = '''' then None else Some (ri_LastError r)),
      iv_AdmittedAt = now, iv_StartedAt = Some (ri_StartedAt r), iv_FinishedAt = Some (ri_FinishedAt r)\<rparr>"

text \<open>The number and identity of the record. What the read of a conversation delivers is recorded with the
  conversation (\<open>te_Delivery\<close> is the error of that).\<close>

definition RecordReadInvocation ::
  "turn_env \<Rightarrow> instant \<Rightarrow> agent_turn_lease \<Rightarrow> read_invocation \<Rightarrow> turns_db \<Rightarrow> turn_error + (string \<times> int64) \<times> turns_db" where
  "RecordReadInvocation env now lease r db =
     (if trims_to_empty (ri_ToolName r) \<or> is_zero_time (ri_StartedAt r) \<or> ri_FinishedAt r < ri_StartedAt r then Inl TurnInput
      else case je_Canonical (te_Jobs env) (ri_Request r) of
        None \<Rightarrow> Inl TurnInput
      | Some request \<Rightarrow>
     (case read_result env r of
        Inl e \<Rightarrow> Inl e
      | Inr result \<Rightarrow>
          withLockedAgentTurnLease env now lease
            (\<lambda>t participant db.
               if tr_Status t \<noteq> AgentTurnRunning then Inl ErrAgentTurnFenceLost
               else case next_invocation t db of
                 Inl e \<Rightarrow> Inl e
               | Inr (number, db1) \<Rightarrow>
              (case insert_invocation (read_row env now t lease r request result number) db1 of
                 Inl e \<Rightarrow> Inl e
               | Inr db2 \<Rightarrow>
                  (case if ri_LastError r = '''' \<and> ri_ToolName r = ''get_collaboration_record''
                        then te_Delivery env t request (the result) else None of
                     Some e \<Rightarrow> Inl e
                   | None \<Rightarrow> Inr ((je_UUID (te_Jobs env) ''invocation'', number), db2)))) db))"

section \<open>The life of a mutation\<close>

definition fenced_mutation :: "agent_turn_lease \<Rightarrow> mutation_state list \<Rightarrow> invocation \<Rightarrow> bool" where
  "fenced_mutation lease from_states v \<longleftrightarrow>
     iv_Turn v = lease_turn lease \<and> iv_Epoch v = tr_Epoch (al_Turn lease) \<and> iv_Mutation v \<and> iv_State v \<in> set from_states"

definition StartMutation ::
  "turn_env \<Rightarrow> instant \<Rightarrow> agent_turn_lease \<Rightarrow> string \<Rightarrow> turns_db \<Rightarrow> turn_error + invocation \<times> turns_db" where
  "StartMutation env now lease mutationID db =
     (if \<not> je_ValidUUID (te_Jobs env) mutationID then Inl ErrMutationStateConflict
      else withLockedAgentTurnLease env now lease
        (\<lambda>t participant db.
           case update_invocation mutationID (fenced_mutation lease [MutationReserved])
                  (\<lambda>v. v\<lparr>iv_State := MutationInFlight, iv_StartedAt := Some now\<rparr>) ErrMutationStateConflict db of
             Inl e \<Rightarrow> Inl e
           | Inr db1 \<Rightarrow> (case getMutationByID env mutationID db1 of Inl e \<Rightarrow> Inl e | Inr v \<Rightarrow> Inr (v, db1))) db)"

definition RecordProposedPublicationTip ::
  "turn_env \<Rightarrow> instant \<Rightarrow> agent_turn_lease \<Rightarrow> string \<Rightarrow> string \<Rightarrow> turns_db \<Rightarrow> turn_error + unit \<times> turns_db" where
  "RecordProposedPublicationTip env now lease mutationID tip db =
     (if \<not> je_ValidUUID (te_Jobs env) mutationID \<or> \<not> validPublicationObjectID tip then Inl ErrMutationStateConflict
      else withLockedAgentTurnLease env now lease
        (\<lambda>t participant db.
           if tr_Status t \<noteq> AgentTurnRunning then Inl ErrAgentTurnFenceLost
           else case update_invocation mutationID
                  (\<lambda>v. fenced_mutation lease [MutationInFlight] v \<and> iv_Tool v = ''publish_changes''
                       \<and> iv_HistoryPublication v \<and> iv_ProposedSHA v = None)
                  (\<lambda>v. v\<lparr>iv_ProposedSHA := Some tip\<rparr>) ErrMutationStateConflict db of
             Inl e \<Rightarrow> Inl e
           | Inr db1 \<Rightarrow> Inr ((), db1)) db)"

text \<open>The participant that submits reviews is bound to the GitHub actor of its first review.\<close>

definition bindReviewerActorForSubmitReview ::
  "turn_env \<Rightarrow> string \<Rightarrow> string \<Rightarrow> string \<Rightarrow> bool \<Rightarrow> turns_db \<Rightarrow> turn_error + turns_db" where
  "bindReviewerActorForSubmitReview env participant tool result recovery db =
     (if tool \<noteq> ''submit_review'' then Inr db
      else case te_ReviewActor env result of
        None \<Rightarrow> Inl TurnInput
      | Some actor \<Rightarrow>
          if actor \<le> 0 then Inl TurnInput
          else case te_Participant env participant of
            None \<Rightarrow> Inl ErrReviewerActorConflict
          | Some (role, status, deleted) \<Rightarrow>
              let policy = policy_Lookup (te_Policies env) role;
                  authority = Option.bind policy (\<lambda>p. CredentialAuthorityForTool p ''submit_review'') in
              if policy \<noteq> None \<and> authority \<noteq> Some ReviewerAuthority then Inl ErrReviewerActorConflict
              else if policy = None \<and> (\<not> recovery \<or> \<not> ValidID role) then Inl ErrReviewerActorConflict
              else if \<not> ((status = ''ACTIVE'' \<or> recovery \<and> status = ''WAITING_FOR_HUMAN'') \<and> \<not> deleted
                         \<and> td_ReviewerActor db participant \<in> {None, Some actor})
              then Inl ErrReviewerActorConflict
              else Inr (db\<lparr>td_ReviewerActor := (td_ReviewerActor db)(participant \<mapsto> actor)\<rparr>))"

definition nonempty :: "string \<Rightarrow> string option" where
  "nonempty s = (if s = '''' then None else Some s)"

definition settled_row :: "instant \<Rightarrow> mutation_state \<Rightarrow> string option \<Rightarrow> string \<Rightarrow> invocation \<Rightarrow> invocation" where
  "settled_row now to_state result cause v =
     v\<lparr>iv_State := to_state, iv_Result := result, iv_LastError := nonempty cause,
       iv_FinishedAt := if to_state = MutationSucceeded \<or> to_state = MutationFailed then Some now else None\<rparr>"

definition mutateMutationState ::
  "turn_env \<Rightarrow> instant \<Rightarrow> agent_turn_lease \<Rightarrow> string \<Rightarrow> mutation_state list \<Rightarrow> mutation_state \<Rightarrow> string option \<Rightarrow> string
    \<Rightarrow> turns_db \<Rightarrow> turn_error + unit \<times> turns_db" where
  "mutateMutationState env now lease mutationID from_states to_state result cause db =
     (if \<not> je_ValidUUID (te_Jobs env) mutationID then Inl ErrMutationStateConflict
      else withLockedAgentTurnLease env now lease
        (\<lambda>t participant db.
           case update_invocation mutationID (fenced_mutation lease from_states)
                  (settled_row now to_state (map_option (je_Jsonb (te_Jobs env)) result) cause) ErrMutationStateConflict db of
             Inl e \<Rightarrow> Inl e
           | Inr db1 \<Rightarrow>
               if to_state = MutationSucceeded
               then (case bindReviewerActorForSubmitReview env participant
                            (case invocation_of db1 mutationID of None \<Rightarrow> '''' | Some v \<Rightarrow> iv_Tool v) (the result) False db1 of
                       Inl e \<Rightarrow> Inl e
                     | Inr db2 \<Rightarrow> Inr ((), db2))
               else Inr ((), db1)) db)"

definition CompleteMutation ::
  "turn_env \<Rightarrow> instant \<Rightarrow> agent_turn_lease \<Rightarrow> string \<Rightarrow> string \<Rightarrow> turns_db \<Rightarrow> turn_error + unit \<times> turns_db" where
  "CompleteMutation env now lease mutationID result db =
     (case je_Canonical (te_Jobs env) result of
        None \<Rightarrow> Inl TurnInput
      | Some canonical \<Rightarrow>
          mutateMutationState env now lease mutationID [MutationInFlight, MutationReconciling] MutationSucceeded
            (Some canonical) '''' db)"

text \<open>A cause is its message, absent for a nil error.\<close>

definition FailMutation ::
  "turn_env \<Rightarrow> instant \<Rightarrow> agent_turn_lease \<Rightarrow> string \<Rightarrow> string option \<Rightarrow> turns_db \<Rightarrow> turn_error + unit \<times> turns_db" where
  "FailMutation env now lease mutationID cause db =
     (case cause of
        None \<Rightarrow> Inl TurnInput
      | Some message \<Rightarrow>
          mutateMutationState env now lease mutationID [MutationReserved, MutationInFlight, MutationReconciling]
            MutationFailed None message db)"

definition MarkMutationUnknown ::
  "turn_env \<Rightarrow> instant \<Rightarrow> agent_turn_lease \<Rightarrow> string \<Rightarrow> string option \<Rightarrow> turns_db \<Rightarrow> turn_error + unit \<times> turns_db" where
  "MarkMutationUnknown env now lease mutationID cause db =
     (case cause of
        None \<Rightarrow> Inl TurnInput
      | Some message \<Rightarrow>
          mutateMutationState env now lease mutationID [MutationInFlight] MutationUnknown None message db)"

definition BeginMutationReconciliation ::
  "turn_env \<Rightarrow> instant \<Rightarrow> agent_turn_lease \<Rightarrow> string \<Rightarrow> turns_db \<Rightarrow> turn_error + unit \<times> turns_db" where
  "BeginMutationReconciliation env now lease mutationID db =
     mutateMutationState env now lease mutationID [MutationUnknown] MutationReconciling None '''' db"

section \<open>Reading the ledger\<close>

definition scan_all :: "turn_env \<Rightarrow> invocation list \<Rightarrow> turn_error + invocation list" where
  "scan_all env vs =
     (if list_all (\<lambda>v. scanMutation env v \<noteq> None) vs then Inr (map (\<lambda>v. the (scanMutation env v)) vs) else Inl TurnQuery)"

definition ListUnsettledMutations ::
  "turn_env \<Rightarrow> instant \<Rightarrow> agent_turn_lease \<Rightarrow> turns_db \<Rightarrow> turn_error + invocation list \<times> turns_db" where
  "ListUnsettledMutations env now lease db =
     withLockedAgentTurnLease env now lease
       (\<lambda>t participant db.
          case scan_all env (sort_key iv_Number (filter (own_mutation t unsettled_states) (td_Invocations db))) of
            Inl e \<Rightarrow> Inl e
          | Inr vs \<Rightarrow> Inr (vs, db)) db"

text \<open>The ledger of an execution: its own mutations and the ones it replayed, under its own numbers.\<close>

definition replayed :: "turns_db \<Rightarrow> replay \<Rightarrow> invocation option" where
  "replayed db r =
     map_option (\<lambda>v. v\<lparr>iv_Turn := rp_Turn r, iv_Epoch := rp_Epoch r, iv_Number := rp_Number r\<rparr>)
       (find (\<lambda>v. iv_ID v = rp_Source r \<and> iv_Turn v = rp_SourceTurn r \<and> iv_Epoch v = rp_SourceEpoch r
                  \<and> iv_Lineage v = rp_Lineage r) (td_Invocations db))"

definition mutation_ledger :: "turns_db \<Rightarrow> turn \<Rightarrow> invocation list" where
  "mutation_ledger db t =
     sort_key iv_Number
       (filter (\<lambda>v. iv_Turn v = tr_ID t \<and> iv_Epoch v = tr_Epoch t \<and> iv_Mutation v) (td_Invocations db)
        @ List.map_filter (replayed db) (filter (\<lambda>r. rp_Turn r = tr_ID t \<and> rp_Epoch r = tr_Epoch t) (td_Replays db)))"

fun scan_settled :: "turn_env \<Rightarrow> invocation list \<Rightarrow> turn_error + invocation list" where
  "scan_settled env [] = Inr []"
| "scan_settled env (row # rows) =
     (case scanMutation env row of
        None \<Rightarrow> Inl TurnQuery
      | Some v \<Rightarrow>
          if iv_State v \<noteq> MutationSucceeded \<and> iv_State v \<noteq> MutationFailed then Inl ErrAgentTurnMutationsUnsettled
          else case scan_settled env rows of Inl e \<Rightarrow> Inl e | Inr vs \<Rightarrow> Inr (v # vs))"

definition ListAgentTurnMutationInvocations ::
  "turn_env \<Rightarrow> instant \<Rightarrow> agent_turn_lease \<Rightarrow> turns_db \<Rightarrow> turn_error + invocation list \<times> turns_db" where
  "ListAgentTurnMutationInvocations env now lease db =
     withLockedAgentTurnLeaseOptions env now lease False True
       (\<lambda>t participant db.
          if tr_AdmissionOpen t \<or> tr_Status t \<noteq> AgentTurnSettling \<and> tr_Status t \<noteq> AgentTurnReconciling
          then Inl ErrMutationAdmissionClosed
          else if unsettledMutationsForTurn db t then Inl ErrAgentTurnMutationsUnsettled
          else case scan_settled env (mutation_ledger db t) of Inl e \<Rightarrow> Inl e | Inr vs \<Rightarrow> Inr (vs, db)) db"

end
