(* ===== verification/Turn_Leases.thy ===== *)
theory Turn_Leases
  imports Turn_Mutations
begin

text \<open>
  Owning an Agent Turn (\<open>store/turns.go\<close>, \<open>store/terminal_prompt.go\<close>): a worker acquires a queued Turn
  together with its job and a slot, renews the lease, closes the admission of mutations, and ends the
  Turn or hands it to recovery. A Turn whose lease ran out is fenced by anyone who notices.
\<close>

section \<open>Acquiring a Turn\<close>

definition AgentTurnQueue :: string where
  "AgentTurnQueue = ''agent-turns''"

definition validAgentTurnJobPayload :: "string \<times> string \<times> int64 \<times> int64 \<Rightarrow> job \<Rightarrow> bool" where
  "validAgentTurnJobPayload payload job =
     (case payload of (turn, session, epoch, revision) \<Rightarrow>
        let s = jb_Scope job in
        jb_Queue job = AgentTurnQueue \<and> jb_Kind job = RunAgentTurnJobKind \<and> jb_MaxAttempts job = 1
        \<and> sc_workflowID s \<noteq> '''' \<and> sc_workflowAttemptID s \<noteq> '''' \<and> sc_agentParticipantID s \<noteq> ''''
        \<and> sc_agentSessionID s \<noteq> '''' \<and> sc_agentTurnID s \<noteq> '''' \<and> sc_executionEpoch s > 0
        \<and> turn = sc_agentTurnID s \<and> session = sc_agentSessionID s \<and> epoch = sc_executionEpoch s \<and> revision > 0)"

text \<open>The job is leased as any other, with a heartbeat at once.\<close>

definition lease_turn_job ::
  "turn_env \<Rightarrow> instant \<Rightarrow> job \<Rightarrow> string \<Rightarrow> int \<Rightarrow> jobs_db \<Rightarrow> (int \<times> instant \<times> jobs_db) option" where
  "lease_turn_job env now job owner lease db =
     (let token = je_UUID (te_Jobs env) ''job-token''; attempt = jb_AttemptCount job + 1;
          expiresAt = now + microseconds lease;
          row = \<lparr>ja_JobID = jb_ID job, ja_Number = attempt, ja_LeaseOwner = owner, ja_LeaseToken = token,
                 ja_Status = AttemptLeased, ja_LeasedAt = now, ja_LeaseExpiresAt = expiresAt,
                 ja_HeartbeatAt = Some now, ja_FinishedAt = None, ja_Retryable = None, ja_Result = None,
                 ja_LastError = None\<rparr>
      in case update_jobs
            (\<lambda>j. jb_ID j = jb_ID job \<and> jb_Status j = JobAvailable \<and> jb_AttemptCount j < jb_MaxAttempts j)
            (\<lambda>j. (lease_row now owner token lease j)\<lparr>jb_HeartbeatAt := Some now\<rparr>) db of
           None \<Rightarrow> None
         | Some (n, db1) \<Rightarrow>
             if n = 0 \<or> \<not> attempt_checks row
                \<or> list_ex (\<lambda>a. ja_JobID a = jb_ID job \<and> ja_Number a = attempt \<or> ja_LeaseToken a = token) (db_Attempts db1)
             then None
             else Some (attempt, expiresAt, db1\<lparr>db_Attempts := db_Attempts db1 @ [row]\<rparr>))"

definition insert_slot :: "slot \<Rightarrow> turns_db \<Rightarrow> turn_error + turns_db" where
  "insert_slot s db =
     (if sl_ControlRevision s \<le> 0 \<or> sl_Epoch s \<le> 0 \<or> sl_OwnerID s = ''''
         \<or> list_ex (\<lambda>r. sl_Turn r = sl_Turn s \<or> sl_OwnerToken r = sl_OwnerToken s) (td_Slots db)
      then Inl TurnQuery else Inr (db\<lparr>td_Slots := td_Slots db @ [s]\<rparr>))"

text \<open>Whether a queued Turn may be started by the job that was selected for it.\<close>

definition acquirable :: "job \<Rightarrow> int64 \<Rightarrow> turn \<Rightarrow> bool" where
  "acquirable job revision t \<longleftrightarrow>
     \<not> (\<not> tr_Active t \<or> tr_Session t \<noteq> job_session job \<or> tr_Attempt t \<noteq> sc_workflowAttemptID (jb_Scope job)
        \<or> tr_Epoch t \<noteq> job_epoch job \<or> tr_ControlRevision t \<noteq> revision
        \<or> tr_Status t \<noteq> AgentTurnQueued \<and> tr_Status t \<noteq> AgentTurnStarting
        \<or> owner_of t \<noteq> '''' \<or> owner_token_of t \<noteq> '''' \<or> tr_LeaseExpiresAt t \<noteq> None)"

definition acquired :: "instant \<Rightarrow> string \<Rightarrow> string \<Rightarrow> instant \<Rightarrow> turn \<Rightarrow> turn" where
  "acquired now owner token expiresAt t =
     t\<lparr>tr_Status := AgentTurnRunning, tr_OwnerID := Some owner, tr_OwnerToken := Some token,
       tr_LeasedAt := Some now, tr_LeaseExpiresAt := Some expiresAt, tr_HeartbeatAt := None,
       tr_AdmissionOpen := False, tr_AdmissionClosedAt := None,
       tr_StartedAt := (case tr_StartedAt t of None \<Rightarrow> Some now | Some s \<Rightarrow> Some s)\<rparr>"

definition occupied_slots :: "instant \<Rightarrow> turns_db \<Rightarrow> nat" where
  "occupied_slots now db = length (filter (\<lambda>s. sl_LeaseExpiresAt s > now) (td_Slots db))"

text \<open>The Turn that a job was selected for, once all that guards it has been checked.\<close>

definition acquire ::
  "turn_env \<Rightarrow> instant \<Rightarrow> string \<Rightarrow> int \<Rightarrow> job \<Rightarrow> turns_db \<Rightarrow> turn_error + agent_turn_lease \<times> turns_db" where
  "acquire env now owner lease job db =
     (case te_TurnPayload env (jb_Payload job) of
        None \<Rightarrow> Inl ErrAgentTurnFenceLost
      | Some payload \<Rightarrow>
          if \<not> validAgentTurnJobPayload payload job then Inl ErrAgentTurnFenceLost
          else case lockHierarchy env (jb_Scope job) of
            Inl e \<Rightarrow> Inl e
          | Inr h \<Rightarrow>
              if lh_ControlRevision h \<noteq> snd (snd (snd payload)) then Inl ErrAgentTurnFenceLost
              else case turn_of db (job_turn job) of
                None \<Rightarrow> Inl ErrAgentTurnFenceLost
              | Some t \<Rightarrow>
                  if \<not> allowsAcquisition h then Inl ErrAgentTurnHierarchyInactive
                  else if \<not> acquirable job (snd (snd (snd payload))) t then Inl ErrAgentTurnFenceLost
                  else case lease_turn_job env now job owner lease (td_Jobs db) of
                    None \<Rightarrow> Inl TurnQuery
                  | Some (attempt, expiresAt, jobs) \<Rightarrow>
                      let token = je_UUID (te_Jobs env) ''owner-token'' in
                      (case insert_slot
                          \<lparr>sl_Turn = tr_ID t, sl_Session = tr_Session t, sl_Epoch = tr_Epoch t,
                           sl_ControlRevision = tr_ControlRevision t, sl_OwnerID = owner, sl_OwnerToken = token,
                           sl_LeaseExpiresAt = expiresAt\<rparr> (db\<lparr>td_Jobs := jobs\<rparr>) of
                        Inl e \<Rightarrow> Inl e
                      | Inr db1 \<Rightarrow>
                     (case update_turn (tr_ID t)
                          (\<lambda>r. tr_Epoch r = tr_Epoch t \<and> tr_ControlRevision r = tr_ControlRevision t \<and> tr_Active r
                               \<and> (tr_Status r = AgentTurnQueued \<or> tr_Status r = AgentTurnStarting)
                               \<and> tr_OwnerID r = None \<and> tr_OwnerToken r = None)
                          (acquired now owner token expiresAt) ErrAgentTurnFenceLost db1 of
                        Inl e \<Rightarrow> Inl e
                      | Inr db2 \<Rightarrow>
                     (case Option.bind (job_by_id (td_Jobs db2) (jb_ID job)) (scanJob (te_Jobs env)) of
                        None \<Rightarrow> Inl TurnQuery
                      | Some leased \<Rightarrow>
                          Inr (\<lparr>al_Turn = t\<lparr>tr_Status := AgentTurnRunning, tr_AdmissionOpen := False\<rparr>,
                                al_Participant = job_participant leased,
                                al_Job = \<lparr>jl_Job = leased, jl_Attempt = attempt\<rparr>,
                                al_OwnerID = owner, al_OwnerToken = token\<rparr>, db2)))))"

definition ClaimAndAcquireAgentTurn ::
  "turn_env \<Rightarrow> instant \<Rightarrow> string \<Rightarrow> int \<Rightarrow> int \<Rightarrow> turns_db \<Rightarrow> turn_error + agent_turn_lease option \<times> turns_db" where
  "ClaimAndAcquireAgentTurn env now owner lease concurrencyLimit db =
     (if trims_to_empty owner then Inl TurnInput
      else if \<not> valid_positive_duration lease then Inl TurnInput
      else if concurrencyLimit \<le> 0 \<or> concurrencyLimit > 10000 then Inl TurnInput
      else if int (occupied_slots now db) \<ge> concurrencyLimit then Inr (None, db)
      else case claimable_jobs (te_Jobs env) now AgentTurnQueue RunAgentTurnJobKind (td_Jobs db) of
        [] \<Rightarrow> Inr (None, db)
      | row # _ \<Rightarrow>
          (case scanJob (te_Jobs env) row of
             None \<Rightarrow> Inl TurnQuery
           | Some job \<Rightarrow>
               (case acquire env now owner lease job db of Inl e \<Rightarrow> Inl e | Inr (l, db1) \<Rightarrow> Inr (Some l, db1))))"

section \<open>Holding a Turn\<close>

text \<open>One row of a job attempt and of a job, changed under the fence of the Turn's job.\<close>

definition change_jobs ::
  "turn_error \<Rightarrow> (jobs_db \<Rightarrow> (nat \<times> jobs_db) option) \<Rightarrow> turns_db \<Rightarrow> turn_error + turns_db" where
  "change_jobs missing f db =
     (case f (td_Jobs db) of
        None \<Rightarrow> Inl TurnQuery
      | Some (n, jobs) \<Rightarrow> if n \<noteq> 1 then Inl missing else Inr (db\<lparr>td_Jobs := jobs\<rparr>))"

definition own_turn_row :: "agent_turn_lease \<Rightarrow> turn \<Rightarrow> bool" where
  "own_turn_row lease t \<longleftrightarrow>
     tr_Epoch t = tr_Epoch (al_Turn lease) \<and> tr_ControlRevision t = tr_ControlRevision (al_Turn lease)
     \<and> tr_OwnerToken t = Some (al_OwnerToken lease)"

abbreviation job_fence :: "agent_turn_lease \<Rightarrow> job \<Rightarrow> bool" where
  "job_fence lease \<equiv> fenced_job (lease_id (al_Job lease)) (lease_token (al_Job lease)) (jl_Attempt (al_Job lease))"

abbreviation attempt_fence :: "agent_turn_lease \<Rightarrow> job_attempt \<Rightarrow> bool" where
  "attempt_fence lease \<equiv> fenced_attempt (lease_id (al_Job lease)) (lease_token (al_Job lease)) (jl_Attempt (al_Job lease))"

definition update_slot :: "string \<Rightarrow> (slot \<Rightarrow> bool) \<Rightarrow> (slot \<Rightarrow> slot) \<Rightarrow> turns_db \<Rightarrow> turn_error + turns_db" where
  "update_slot i cond f db =
     (case slot_of db i of
        None \<Rightarrow> Inl ErrAgentTurnFenceLost
      | Some s \<Rightarrow> if \<not> cond s then Inl ErrAgentTurnFenceLost
                  else Inr (db\<lparr>td_Slots := alter sl_Turn i f (td_Slots db)\<rparr>))"

text \<open>The lease with its new expiration.\<close>

definition RefreshAgentTurnLease ::
  "turn_env \<Rightarrow> instant \<Rightarrow> agent_turn_lease \<Rightarrow> int \<Rightarrow> turns_db \<Rightarrow> turn_error + agent_turn_lease \<times> turns_db" where
  "RefreshAgentTurnLease env now lease extension db =
     (if \<not> valid_positive_duration extension then Inl TurnInput
      else withLockedAgentTurnLeaseOptions env now lease True False
        (\<lambda>t participant db.
           let expiresAt = now + microseconds extension in
           case change_jobs ErrAgentTurnFenceLost (update_jobs (job_fence lease)
                  (\<lambda>j. j\<lparr>jb_HeartbeatAt := Some now, jb_LeaseExpiresAt := Some expiresAt, jb_UpdatedAt := now\<rparr>)) db of
             Inl e \<Rightarrow> Inl e
           | Inr db1 \<Rightarrow>
          (case change_jobs ErrAgentTurnFenceLost (update_attempts (attempt_fence lease)
                  (\<lambda>a. a\<lparr>ja_HeartbeatAt := Some now, ja_LeaseExpiresAt := expiresAt\<rparr>)) db1 of
             Inl e \<Rightarrow> Inl e
           | Inr db2 \<Rightarrow>
          (case update_turn (lease_turn lease) (own_turn_row lease)
                  (\<lambda>t. t\<lparr>tr_HeartbeatAt := Some now, tr_LeaseExpiresAt := Some expiresAt\<rparr>) ErrAgentTurnFenceLost db2 of
             Inl e \<Rightarrow> Inl e
           | Inr db3 \<Rightarrow>
          (case update_slot (lease_turn lease)
                  (\<lambda>s. sl_Epoch s = tr_Epoch (al_Turn lease) \<and> sl_ControlRevision s = tr_ControlRevision (al_Turn lease)
                       \<and> sl_OwnerToken s = al_OwnerToken lease)
                  (\<lambda>s. s\<lparr>sl_LeaseExpiresAt := expiresAt\<rparr>) db3 of
             Inl e \<Rightarrow> Inl e
           | Inr db4 \<Rightarrow>
               Inr (lease\<lparr>al_Job := (al_Job lease)\<lparr>jl_Job := (jl_Job (al_Job lease))\<lparr>jb_LeaseExpiresAt := Some expiresAt\<rparr>\<rparr>\<rparr>,
                    db4))))) db)"

definition OpenMutationAdmission ::
  "turn_env \<Rightarrow> instant \<Rightarrow> agent_turn_lease \<Rightarrow> turns_db \<Rightarrow> turn_error + unit \<times> turns_db" where
  "OpenMutationAdmission env now lease db =
     withLockedAgentTurnLease env now lease
       (\<lambda>t participant db.
          if tr_Status t \<noteq> AgentTurnRunning then Inl ErrAgentTurnFenceLost
          else case update_turn (lease_turn lease) (\<lambda>_. True)
                 (\<lambda>t. t\<lparr>tr_AdmissionOpen := True, tr_AdmissionClosedAt := None\<rparr>) TurnQuery db of
            Inl e \<Rightarrow> Inl e
          | Inr db1 \<Rightarrow> Inr ((), db1)) db"

definition validAgentTurnPromptEvidence :: "string \<Rightarrow> string \<Rightarrow> bool" where
  "validAgentTurnPromptEvidence stopReason errorClass \<longleftrightarrow>
     (stopReason = '''') \<noteq> (errorClass = '''')
     \<and> (if errorClass \<noteq> ''''
        then errorClass \<in> {''FAILURE'', ''DEADLINE'', ''CANCELLATION'', ''INVALID_RESPONSE'', ''SUBSCRIPTION_QUOTA'',
                           ''SUBSCRIPTION_AUTH'', ''SUBSCRIPTION_CONFIGURATION''}
        else stopReason \<in> {''completed'', ''limit_reached'', ''aborted''})"

definition subscriptionPrerequisiteClass :: "string \<Rightarrow> bool" where
  "subscriptionPrerequisiteClass class \<longleftrightarrow>
     class \<in> {''SUBSCRIPTION_QUOTA'', ''SUBSCRIPTION_AUTH'', ''SUBSCRIPTION_CONFIGURATION''}"

definition text_of :: "string option \<Rightarrow> string" where
  "text_of x = (case x of None \<Rightarrow> '''' | Some s \<Rightarrow> s)"

definition coalesce_with :: "'a option \<Rightarrow> 'a option \<Rightarrow> 'a option" where
  "coalesce_with x y = (case x of None \<Rightarrow> y | Some v \<Rightarrow> Some v)"

definition closed_admission :: "instant \<Rightarrow> bool \<Rightarrow> bool \<Rightarrow> string \<Rightarrow> string \<Rightarrow> turn \<Rightarrow> turn" where
  "closed_admission now reconciliation recordPrompt stopReason errorClass t =
     t\<lparr>tr_AdmissionOpen := False, tr_AdmissionClosedAt := coalesce_with (tr_AdmissionClosedAt t) (Some now),
       tr_Status := if reconciliation then AgentTurnReconciling else AgentTurnSettling,
       tr_PromptStopReason := if recordPrompt then coalesce_with (tr_PromptStopReason t) (nonempty stopReason)
                              else tr_PromptStopReason t,
       tr_PromptErrorClass := if recordPrompt then coalesce_with (tr_PromptErrorClass t) (nonempty errorClass)
                              else tr_PromptErrorClass t,
       tr_PromptRecordedAt := if recordPrompt then coalesce_with (tr_PromptRecordedAt t) (Some now)
                              else tr_PromptRecordedAt t\<rparr>"

definition closeLiveMutationAdmission ::
  "instant \<Rightarrow> turn \<Rightarrow> bool \<Rightarrow> string \<Rightarrow> string \<Rightarrow> turns_db \<Rightarrow> turn_error + turns_db" where
  "closeLiveMutationAdmission now t recordPrompt stopReason errorClass db =
     (let recorded = (tr_PromptRecordedAt t \<noteq> None);
          early = (tr_Status t = AgentTurnRunning \<and> subscriptionPrerequisiteClass errorClass) in
      if tr_Status t \<noteq> AgentTurnRunning \<and> tr_Status t \<noteq> AgentTurnSettling \<and> tr_Status t \<noteq> AgentTurnReconciling
      then Inl ErrAgentTurnFenceLost
      else if recordPrompt \<and> recorded
              \<and> (text_of (tr_PromptStopReason t) \<noteq> stopReason \<or> text_of (tr_PromptErrorClass t) \<noteq> errorClass)
      then Inl ErrTerminalCorroborationConflict
      else if recordPrompt \<and> \<not> recorded \<and> \<not> tr_AdmissionOpen t \<and> \<not> early then Inl ErrAgentTurnFenceLost
      else update_turn (tr_ID t) (\<lambda>_. True)
             (closed_admission now (list_ex (own_mutation t [MutationUnknown, MutationReconciling]) (td_Invocations db))
                recordPrompt stopReason errorClass) ErrAgentTurnFenceLost db)"

definition CloseMutationAdmission ::
  "turn_env \<Rightarrow> instant \<Rightarrow> agent_turn_lease \<Rightarrow> turns_db \<Rightarrow> turn_error + unit \<times> turns_db" where
  "CloseMutationAdmission env now lease db =
     withLockedAgentTurnLease env now lease
       (\<lambda>t participant db. case closeLiveMutationAdmission now t False '''' '''' db of
          Inl e \<Rightarrow> Inl e | Inr db1 \<Rightarrow> Inr ((), db1)) db"

definition CloseMutationAdmissionWithPromptEvidence ::
  "turn_env \<Rightarrow> instant \<Rightarrow> agent_turn_lease \<Rightarrow> string \<Rightarrow> string \<Rightarrow> turns_db \<Rightarrow> turn_error + unit \<times> turns_db" where
  "CloseMutationAdmissionWithPromptEvidence env now lease stopReason errorClass db =
     (if \<not> validAgentTurnPromptEvidence stopReason errorClass then Inl ErrTerminalCorroborationConflict
      else withLockedAgentTurnLease env now lease
        (\<lambda>t participant db. case closeLiveMutationAdmission now t True stopReason errorClass db of
           Inl e \<Rightarrow> Inl e | Inr db1 \<Rightarrow> Inr ((), db1)) db)"

section \<open>Ending a Turn\<close>

definition terminalAgentTurnStatus :: "turn_status \<Rightarrow> bool" where
  "terminalAgentTurnStatus status \<longleftrightarrow>
     status \<in> {AgentTurnSucceeded, AgentTurnFailed, AgentTurnInterrupted, AgentTurnTimedOut}"

definition disowned :: "turn \<Rightarrow> turn" where
  "disowned t = t\<lparr>tr_Active := False, tr_OwnerID := None, tr_OwnerToken := None, tr_LeasedAt := None,
     tr_LeaseExpiresAt := None, tr_HeartbeatAt := None\<rparr>"

definition delete_slot :: "(slot \<Rightarrow> bool) \<Rightarrow> turns_db \<Rightarrow> turns_db" where
  "delete_slot cond db = db\<lparr>td_Slots := filter (\<lambda>s. \<not> cond s) (td_Slots db)\<rparr>"

text \<open>The execution job of the Turn and its attempt succeed with a result.\<close>

definition succeed_turn_job :: "instant \<Rightarrow> agent_turn_lease \<Rightarrow> string \<Rightarrow> turns_db \<Rightarrow> turn_error + turns_db" where
  "succeed_turn_job now lease result db =
     (case change_jobs ErrAgentTurnFenceLost (update_attempts (attempt_fence lease)
          (\<lambda>a. a\<lparr>ja_Status := AttemptSucceeded, ja_FinishedAt := Some now, ja_Result := Some result\<rparr>)) db of
        Inl e \<Rightarrow> Inl e
      | Inr db1 \<Rightarrow>
          change_jobs ErrAgentTurnFenceLost (update_jobs (job_fence lease)
            (\<lambda>j. (released now JobSucceeded j)\<lparr>jb_CompletedAt := Some now, jb_Result := Some result, jb_LastError := None\<rparr>)) db1)"

definition FinalizeAgentTurn ::
  "turn_env \<Rightarrow> instant \<Rightarrow> agent_turn_lease \<Rightarrow> turn_status \<Rightarrow> string \<Rightarrow> string
    \<Rightarrow> turns_db \<Rightarrow> turn_error + unit \<times> turns_db" where
  "FinalizeAgentTurn env now lease status outcome0 lastError db =
     (if \<not> terminalAgentTurnStatus status then Inl TurnInput
      else case if outcome0 = '''' then Some None else map_option Some (je_Canonical (te_Jobs env) outcome0) of
        None \<Rightarrow> Inl TurnInput
      | Some outcome \<Rightarrow>
          withLockedAgentTurnLease env now lease
            (\<lambda>t participant db.
               if tr_AdmissionOpen t \<or> tr_Status t \<noteq> AgentTurnSettling \<and> tr_Status t \<noteq> AgentTurnReconciling
               then Inl ErrMutationAdmissionClosed
               else if unsettledMutationsForTurn db t then Inl ErrAgentTurnMutationsUnsettled
               else case succeed_turn_job now lease (je_Jsonb (te_Jobs env) (te_TurnResult env status outcome))
                      (delete_slot (\<lambda>s. sl_Turn s = lease_turn lease \<and> sl_OwnerToken s = al_OwnerToken lease) db) of
                 Inl e \<Rightarrow> Inl e
               | Inr db1 \<Rightarrow>
              (case update_turn (lease_turn lease) (own_turn_row lease)
                  (\<lambda>t. (disowned t)\<lparr>tr_Status := status, tr_CompletedAt := Some now,
                         tr_Outcome := map_option (je_Jsonb (te_Jobs env)) outcome, tr_LastError := nonempty lastError\<rparr>)
                  ErrAgentTurnFenceLost db1 of
                 Inl e \<Rightarrow> Inl e
               | Inr db2 \<Rightarrow> Inr ((), db2))) db)"

section \<open>Handing a Turn to recovery\<close>

text \<open>The jobs that stop a stale runtime and reconcile what it may have done.\<close>

definition recovery_job ::
  "turn_env \<Rightarrow> job \<Rightarrow> turn \<Rightarrow> string \<Rightarrow> string \<Rightarrow> int \<Rightarrow> job_insert" where
  "recovery_job env job t kind lower priority =
     \<lparr>ji_queue = AgentTurnRecoveryQueue, ji_kind = kind, ji_payload = te_RecoveryIdentity env job t, ji_priority = priority,
      ji_maxAttempts = 3,
      ji_idempotencyKey = ''agent-turn-recovery:'' @ job_turn job @ '':epoch:'' @ decimal (nat (job_epoch job)) @ '':'' @ lower,
      ji_scope = jb_Scope job, ji_provenance = no_provenance\<rparr>"

definition enqueueAgentTurnRecoveryJob ::
  "turn_env \<Rightarrow> instant \<Rightarrow> job \<Rightarrow> turn \<Rightarrow> string \<Rightarrow> string \<Rightarrow> int \<Rightarrow> turns_db
    \<Rightarrow> turn_error + string \<times> turns_db" where
  "enqueueAgentTurnRecoveryJob env now job t kind lower priority db =
     (case insertIdempotentJobTx (te_Jobs env) now (recovery_job env job t kind lower priority) (td_Jobs db) of
        Inl e \<Rightarrow> Inl (JobsError e)
      | Inr (i, jobs) \<Rightarrow> Inr (i, db\<lparr>td_Jobs := jobs\<rparr>))"

text \<open>Both jobs, the second only if there is something to reconcile.\<close>

definition enqueue_recovery ::
  "turn_env \<Rightarrow> instant \<Rightarrow> job \<Rightarrow> turn \<Rightarrow> bool \<Rightarrow> turns_db
    \<Rightarrow> turn_error + (string \<times> string) \<times> turns_db" where
  "enqueue_recovery env now job t reconcile db =
     (case enqueueAgentTurnRecoveryJob env now job t StopStaleRuntimeJobKind ''stop_stale_runtime'' 100 db of
        Inl e \<Rightarrow> Inl e
      | Inr (stop, db1) \<Rightarrow>
          if \<not> reconcile then Inr ((stop, ''''), db1)
          else (case enqueueAgentTurnRecoveryJob env now job t ReconcileAgentTurnMutationsJobKind
                    ''reconcile_agent_turn_mutations'' 90 db1 of
                  Inl e \<Rightarrow> Inl e
                | Inr (rec, db2) \<Rightarrow> Inr ((stop, rec), db2)))"

definition recovery_started :: "turn_env \<Rightarrow> instant \<Rightarrow> turn \<Rightarrow> string \<times> string \<Rightarrow> recovery_barrier" where
  "recovery_started env now t enqueued =
     \<lparr>rb_StartedAt = now, rb_RuntimeStoppedAt = None, rb_SettledAt = None, rb_StopRuntimeJob = fst enqueued,
      rb_ReconcileMutationsJob = snd enqueued, rb_OriginalOwner = owner_of t,
      rb_OriginalOwnerProof = te_Hash env (owner_token_of t),
      rb_Continuation = ''PENDING_INFRASTRUCTURE_FAILURE'', rb_Settlement = ''''\<rparr>"

definition fenced_turn :: "turn_env \<Rightarrow> instant \<Rightarrow> turn \<Rightarrow> bool \<Rightarrow> string \<times> string \<Rightarrow> string option \<Rightarrow> turn \<Rightarrow> turn" where
  "fenced_turn env now locked reconcile enqueued lastError t =
     (disowned t)\<lparr>tr_Status := if reconcile then AgentTurnReconciling else AgentTurnInterrupted,
        tr_AdmissionOpen := False, tr_CompletedAt := Some now, tr_LastError := lastError,
        tr_Recovery := Some (recovery_started env now locked enqueued)\<rparr>"

text \<open>\<open>AgentTurnRecovery\<close>, as \<open>readAgentTurnRecovery\<close> reads it.\<close>

record turn_recovery =
  rc_TurnID :: string
  rc_JobID :: string
  rc_Epoch :: int64
  rc_Status :: turn_status
  rc_MutationsUnsettled :: bool
  rc_SuccessorAllowed :: bool
  rc_Barrier :: recovery_barrier

definition readAgentTurnRecovery :: "turns_db \<Rightarrow> string \<Rightarrow> int64 \<Rightarrow> turn_recovery option" where
  "readAgentTurnRecovery db i epoch =
     (case turn_of db i of
        None \<Rightarrow> None
      | Some t \<Rightarrow>
          (case (tr_Recovery t, find (\<lambda>j. job_turn j = i \<and> job_epoch j = epoch \<and> jb_Kind j = RunAgentTurnJobKind)
                                  (db_Jobs (td_Jobs db))) of
             (Some b, Some job) \<Rightarrow>
               if tr_Epoch t \<noteq> epoch then None
               else Some \<lparr>rc_TurnID = i, rc_JobID = jb_ID job, rc_Epoch = epoch, rc_Status = tr_Status t,
                          rc_MutationsUnsettled = unsettledMutationsForTurn db t,
                          rc_SuccessorAllowed = (rb_SettledAt b \<noteq> None
                            \<and> rb_Continuation b \<noteq> ''TERMINAL_CORROBORATION_PENDING''
                            \<and> rb_Continuation b \<noteq> ''TERMINAL_CORROBORATION_APPLIED''),
                          rc_Barrier = b\<rparr>
           | _ \<Rightarrow> None))"

definition controlledHandoffResult :: "turn_env \<Rightarrow> string option \<Rightarrow> bool" where
  "controlledHandoffResult env result =
     (case result of
        None \<Rightarrow> False
      | Some text \<Rightarrow> je_Canonical (te_Jobs env) text = Some ''{\"controlled_handoff\":true}'')"

text \<open>A repeated handoff finds the barrier that the first one left.\<close>

definition lockRepeatedLiveRecovery ::
  "turn_env \<Rightarrow> job \<Rightarrow> agent_turn_lease \<Rightarrow> turns_db \<Rightarrow> turn_error + turn_recovery" where
  "lockRepeatedLiveRecovery env job lease db =
     (let live = (case attempt_of (td_Jobs db) (jb_ID job) (jl_Attempt (al_Job lease)) of
           None \<Rightarrow> False
         | Some a \<Rightarrow> ja_Status a = AttemptSucceeded \<and> Some (ja_LeaseOwner a) = jb_LeaseOwner (jl_Job (al_Job lease))
             \<and> ja_LeaseToken a = lease_token (al_Job lease) \<and> controlledHandoffResult env (ja_Result a)) in
      if \<not> controlledHandoffResult env (jb_Result job) then Inl ErrAgentTurnFenceLost
      else if \<not> live then Inl ErrAgentTurnFenceLost
      else case lockHierarchy env (jb_Scope job) of
        Inl e \<Rightarrow> Inl e
      | Inr _ \<Rightarrow>
     (case turn_of db (lease_turn lease) of
        None \<Rightarrow> Inl ErrAgentTurnFenceLost
      | Some t \<Rightarrow>
          if tr_Active t \<or> tr_Status t \<noteq> AgentTurnInterrupted \<and> tr_Status t \<noteq> AgentTurnReconciling
             \<or> tr_AdmissionOpen t \<or> tr_LeaseExpiresAt t \<noteq> None \<or> tr_Session t \<noteq> tr_Session (al_Turn lease)
             \<or> tr_Attempt t \<noteq> tr_Attempt (al_Turn lease) \<or> tr_Epoch t \<noteq> tr_Epoch (al_Turn lease)
             \<or> tr_ControlRevision t \<noteq> tr_ControlRevision (al_Turn lease) \<or> owner_of t \<noteq> '''' \<or> owner_token_of t \<noteq> ''''
          then Inl ErrAgentTurnFenceLost
          else case readAgentTurnRecovery db (lease_turn lease) (tr_Epoch (al_Turn lease)) of
            None \<Rightarrow> Inl ErrAgentTurnFenceLost
          | Some r \<Rightarrow>
              if rb_SettledAt (rc_Barrier r) \<noteq> None \<or> rc_JobID r \<noteq> jb_ID job
                 \<or> rc_Status r \<noteq> AgentTurnInterrupted \<and> rc_Status r \<noteq> AgentTurnReconciling
                 \<or> rb_StopRuntimeJob (rc_Barrier r) = ''''
                 \<or> rc_Status r = AgentTurnReconciling \<and> rb_ReconcileMutationsJob (rc_Barrier r) = ''''
                 \<or> rc_Status r = AgentTurnInterrupted \<and> rb_ReconcileMutationsJob (rc_Barrier r) \<noteq> ''''
              then Inl ErrAgentTurnFenceLost
              else case job_by_id (td_Jobs db) (rb_StopRuntimeJob (rc_Barrier r)) of
                None \<Rightarrow> Inl ErrAgentTurnFenceLost
              | Some stop \<Rightarrow>
                  if jb_Kind stop \<noteq> StopStaleRuntimeJobKind \<or> \<not> te_SameRecovery env (jb_Payload stop) job lease
                  then Inl ErrAgentTurnFenceLost else Inr r))"

text \<open>The exact live rows of the handoff: job, attempt, hierarchy, Turn and slot.\<close>

definition handoff_fence ::
  "turn_env \<Rightarrow> instant \<Rightarrow> job \<Rightarrow> agent_turn_lease \<Rightarrow> turns_db \<Rightarrow> turn_error + turn" where
  "handoff_fence env now job lease db =
     (let l = al_Job lease;
          live = (case attempt_of (td_Jobs db) (jb_ID job) (jl_Attempt l) of
            None \<Rightarrow> False
          | Some a \<Rightarrow> ja_Status a = AttemptLeased \<and> Some (ja_LeaseOwner a) = jb_LeaseOwner (jl_Job l)
              \<and> ja_LeaseToken a = lease_token l \<and> ja_LeaseExpiresAt a > now) in
      if jb_Status job \<noteq> JobLeased \<or> jb_LeaseOwner job \<noteq> jb_LeaseOwner (jl_Job l)
         \<or> row_token job \<noteq> lease_token l \<or> jb_AttemptCount job \<noteq> jl_Attempt l \<or> jb_LeaseExpiresAt job = None
      then Inl ErrAgentTurnFenceLost
      else if \<not> live then Inl ErrAgentTurnFenceLost
      else if \<not> unexpired now job then Inl ErrAgentTurnFenceLost
      else case lockHierarchy env (jb_Scope job) of
        Inl e \<Rightarrow> Inl e
      | Inr h \<Rightarrow>
          if \<not> allowsActiveTurn h \<or> lh_ControlRevision h \<noteq> tr_ControlRevision (al_Turn lease)
          then Inl ErrAgentTurnFenceLost
          else case turn_of db (lease_turn lease) of
            None \<Rightarrow> Inl ErrAgentTurnFenceLost
          | Some t \<Rightarrow>
              if \<not> owns_turn now h lease t \<or> tr_Status t \<noteq> AgentTurnSettling \<and> tr_Status t \<noteq> AgentTurnReconciling
                 \<or> tr_AdmissionOpen t \<or> job_participant job \<noteq> al_Participant lease
                 \<or> tr_Attempt t \<noteq> tr_Attempt (al_Turn lease)
                 \<or> tr_AdmissionClosedAt t = None \<or> tr_Recovery t \<noteq> None
              then Inl ErrAgentTurnFenceLost
              else case slot_of db (lease_turn lease) of
                None \<Rightarrow> Inl ErrAgentTurnFenceLost
              | Some s \<Rightarrow> if \<not> owns_slot lease s \<or> sl_LeaseExpiresAt s \<le> now then Inl ErrAgentTurnFenceLost else Inr t)"

definition valid_handoff :: "turn_env \<Rightarrow> agent_turn_lease \<Rightarrow> bool" where
  "valid_handoff env lease \<longleftrightarrow>
     valid_turn_lease env lease \<and> je_ValidUUID (te_Jobs env) (al_Participant lease)
     \<and> je_ValidUUID (te_Jobs env) (lease_id (al_Job lease)) \<and> je_ValidUUID (te_Jobs env) (lease_token (al_Job lease))
     \<and> jl_Attempt (al_Job lease) > 0 \<and> \<not> trims_to_empty (text_of (jb_LeaseOwner (jl_Job (al_Job lease))))"

text \<open>The work of a handoff once the fence holds.\<close>

definition hand_to_recovery ::
  "turn_env \<Rightarrow> instant \<Rightarrow> job \<Rightarrow> agent_turn_lease \<Rightarrow> turn \<Rightarrow> turns_db \<Rightarrow> turn_error + turn_recovery \<times> turns_db" where
  "hand_to_recovery env now job lease t db =
     (if list_ex (own_mutation t [MutationReserved, MutationInFlight]) (td_Invocations db)
      then Inl ErrAgentTurnMutationsUnsettled
      else
        let reconcile = list_ex (own_mutation t [MutationUnknown, MutationReconciling, MutationSucceeded]) (td_Invocations db);
            db1 = update_invocations (own_mutation t [MutationUnknown]) (\<lambda>v. v\<lparr>iv_State := MutationReconciling\<rparr>) db
        in case enqueue_recovery env now job t reconcile db1 of
             Inl e \<Rightarrow> Inl e
           | Inr (enqueued, db2) \<Rightarrow>
          (case succeed_turn_job now lease ''{\"controlled_handoff\":true}'' db2 of
             Inl e \<Rightarrow> Inl e
           | Inr db3 \<Rightarrow>
          (case update_turn (lease_turn lease)
               (\<lambda>r. own_turn_row lease r \<and> tr_Active r \<and> (tr_Status r = AgentTurnSettling \<or> tr_Status r = AgentTurnReconciling)
                    \<and> \<not> tr_AdmissionOpen r \<and> tr_AdmissionClosedAt r \<noteq> None \<and> tr_Recovery r = None)
               (fenced_turn env now t reconcile enqueued None) ErrAgentTurnFenceLost
               (delete_slot (\<lambda>s. sl_Turn s = lease_turn lease \<and> owns_slot lease s) db3) of
             Inl e \<Rightarrow> Inl e
           | Inr db4 \<Rightarrow>
               (case readAgentTurnRecovery db4 (lease_turn lease) (tr_Epoch (al_Turn lease)) of
                  None \<Rightarrow> Inl TurnQuery | Some r \<Rightarrow> Inr (r, db4)))))"

definition BeginAgentTurnRecovery ::
  "turn_env \<Rightarrow> instant \<Rightarrow> agent_turn_lease \<Rightarrow> turns_db \<Rightarrow> turn_error + turn_recovery \<times> turns_db" where
  "BeginAgentTurnRecovery env now lease db =
     (if \<not> valid_handoff env lease then Inl ErrAgentTurnFenceLost
      else case job_by_id (td_Jobs db) (lease_id (al_Job lease)) of
        None \<Rightarrow> Inl ErrAgentTurnFenceLost
      | Some row \<Rightarrow>
     (case scanJob (te_Jobs env) row of
        None \<Rightarrow> Inl TurnQuery
      | Some job \<Rightarrow>
          if \<not> sameAgentTurnExecutionIdentity job lease then Inl ErrAgentTurnFenceLost
          else if jb_Status job = JobSucceeded
          then (case lockRepeatedLiveRecovery env job lease db of Inl e \<Rightarrow> Inl e | Inr r \<Rightarrow> Inr (r, db))
          else case handoff_fence env now job lease db of
            Inl e \<Rightarrow> Inl e
          | Inr t \<Rightarrow> hand_to_recovery env now job lease t db))"

section \<open>A Turn whose lease ran out\<close>

definition lockExpiredAgentTurnJob ::
  "turn_env \<Rightarrow> instant \<Rightarrow> string \<Rightarrow> string \<Rightarrow> int64 \<Rightarrow> turns_db \<Rightarrow> turn_error + job" where
  "lockExpiredAgentTurnJob env now jobID turnID epoch db =
     (case Option.bind (job_by_id (td_Jobs db) jobID) (scanJob (te_Jobs env)) of
        None \<Rightarrow> Inl TurnQuery
      | Some job \<Rightarrow>
          if jb_Kind job \<noteq> RunAgentTurnJobKind \<or> jb_Status job \<noteq> JobLeased \<or> job_turn job \<noteq> turnID
             \<or> job_epoch job \<noteq> epoch \<or> jb_LeaseExpiresAt job = None
          then Inl ErrAgentTurnFenceLost
          else if unexpired now job then Inl ErrAgentTurnNotExpired
          else case attempt_of (td_Jobs db) (jb_ID job) (jb_AttemptCount job) of
            None \<Rightarrow> Inl ErrAgentTurnNotExpired
          | Some a \<Rightarrow>
              if ja_LeaseToken a = row_token job \<and> ja_Status a = AttemptLeased \<and> ja_LeaseExpiresAt a \<le> now
              then Inr job else Inl ErrAgentTurnNotExpired)"

text \<open>What was not started fails, what was in flight has an unknown outcome.\<close>

definition expire_mutations :: "instant \<Rightarrow> turn \<Rightarrow> turns_db \<Rightarrow> turns_db" where
  "expire_mutations now t db =
     update_invocations (own_mutation t [MutationInFlight])
       (\<lambda>v. v\<lparr>iv_State := MutationUnknown, iv_LastError := Some ''execution expired with mutation in flight''\<rparr>)
       (update_invocations (\<lambda>v. own_mutation t [MutationReserved] v \<and> iv_StartedAt v = None)
         (\<lambda>v. v\<lparr>iv_State := MutationFailed, iv_FinishedAt := Some now,
               iv_LastError := Some ''execution expired before mutation started''\<rparr>) db)"

definition expire_turn_job :: "instant \<Rightarrow> job \<Rightarrow> turns_db \<Rightarrow> turn_error + turns_db" where
  "expire_turn_job now job db =
     (case change_jobs ErrAgentTurnFenceLost
          (update_attempts (fenced_attempt (jb_ID job) (row_token job) (jb_AttemptCount job))
            (\<lambda>a. a\<lparr>ja_Status := AttemptExpired, ja_FinishedAt := Some now, ja_Retryable := Some False,
                   ja_LastError := Some ''agent turn execution lease expired''\<rparr>)) db of
        Inl e \<Rightarrow> Inl e
      | Inr db1 \<Rightarrow>
          change_jobs ErrAgentTurnFenceLost (update_jobs (\<lambda>j. jb_ID j = jb_ID job \<and> jb_Status j = JobLeased)
            (\<lambda>j. (released now JobFailed j)\<lparr>jb_CompletedAt := Some now,
                   jb_LastError := Some ''agent turn execution lease expired''\<rparr>)) db1)"

definition recoverExpiredAgentTurn ::
  "turn_env \<Rightarrow> instant \<Rightarrow> job \<Rightarrow> turns_db \<Rightarrow> turn_error + turn_recovery \<times> turns_db" where
  "recoverExpiredAgentTurn env now claimed db =
     (case lockExpiredAgentTurnJob env now (jb_ID claimed) (job_turn claimed) (job_epoch claimed) db of
        Inl e \<Rightarrow> Inl e
      | Inr job \<Rightarrow>
     (case lockHierarchy env (jb_Scope job) of
        Inl e \<Rightarrow> Inl e
      | Inr _ \<Rightarrow>
     (case turn_of db (job_turn job) of
        None \<Rightarrow> Inl ErrAgentTurnFenceLost
      | Some t \<Rightarrow>
          if \<not> tr_Active t \<or> tr_Epoch t \<noteq> job_epoch job \<or> owner_of t = '''' \<or> owner_token_of t = ''''
             \<or> tr_Status t \<notin> {AgentTurnQueued, AgentTurnStarting, AgentTurnRunning, AgentTurnCancelling,
                               AgentTurnSettling, AgentTurnReconciling}
          then Inl ErrAgentTurnFenceLost
          else if lease_live now t then Inl ErrAgentTurnNotExpired
          else if (case slot_of db (tr_ID t) of None \<Rightarrow> False | Some s \<Rightarrow> sl_LeaseExpiresAt s > now)
          then Inl ErrAgentTurnNotExpired
          else
            let db1 = expire_mutations now t db;
                reconcile = list_ex (own_mutation t [MutationUnknown, MutationReconciling, MutationSucceeded])
                              (td_Invocations db1)
            in case enqueue_recovery env now job t reconcile db1 of
                 Inl e \<Rightarrow> Inl e
               | Inr (enqueued, db2) \<Rightarrow>
              (case expire_turn_job now job (delete_slot (\<lambda>s. sl_Turn s = tr_ID t) db2) of
                 Inl e \<Rightarrow> Inl e
               | Inr db3 \<Rightarrow>
              (case update_turn (tr_ID t) tr_Active
                   (\<lambda>r. (fenced_turn env now t reconcile enqueued (Some ''execution lease expired'') r)
                          \<lparr>tr_AdmissionClosedAt := coalesce_with (tr_AdmissionClosedAt r) (Some now)\<rparr>) TurnQuery db3 of
                 Inl e \<Rightarrow> Inl e
               | Inr db4 \<Rightarrow>
                   (case readAgentTurnRecovery db4 (tr_ID t) (tr_Epoch t) of
                      None \<Rightarrow> Inl TurnQuery | Some r \<Rightarrow> Inr (r, db4)))))))"

definition RecoverExpiredAgentTurn ::
  "turn_env \<Rightarrow> instant \<Rightarrow> string \<Rightarrow> int64 \<Rightarrow> turns_db \<Rightarrow> turn_error + turn_recovery \<times> turns_db" where
  "RecoverExpiredAgentTurn env now turnID epoch db =
     (if \<not> je_ValidUUID (te_Jobs env) turnID \<or> epoch \<le> 0 then Inl ErrAgentTurnFenceLost
      else case find (\<lambda>j. jb_Kind j = RunAgentTurnJobKind \<and> job_turn j = turnID \<and> job_epoch j = epoch)
                  (db_Jobs (td_Jobs db)) of
        None \<Rightarrow> Inl ErrAgentTurnFenceLost
      | Some row \<Rightarrow>
     (case scanJob (te_Jobs env) row of
        None \<Rightarrow> Inl TurnQuery
      | Some job \<Rightarrow>
          if jb_Status job \<noteq> JobLeased
          then (case readAgentTurnRecovery db turnID epoch of
                  None \<Rightarrow> Inl ErrAgentTurnFenceLost
                | Some r \<Rightarrow> if rc_JobID r \<noteq> jb_ID job then Inl ErrAgentTurnFenceLost else Inr (r, db))
          else recoverExpiredAgentTurn env now job db))"

end
