(* ===== verification/Turn_Recovery.thy ===== *)
theory Turn_Recovery
  imports Turn_Leases
begin

text \<open>
  Recovery of a fenced Turn (\<open>store/turns.go\<close>, \<open>store/mutation_recovery.go\<close>, \<open>store/settlement.go\<close>): the stale
  runtime is stopped, what is ambiguous among its mutations is reconciled, each under the lease of its
  job, and the last of the two settles the Turn.

  How the Workflow goes on from there is decided elsewhere: \<open>te_Continue\<close> answers it.
\<close>

section \<open>The fence of a recovery job\<close>

definition registered_job :: "string \<Rightarrow> recovery_barrier \<Rightarrow> string" where
  "registered_job kind b =
     (if kind = StopStaleRuntimeJobKind then rb_StopRuntimeJob b else rb_ReconcileMutationsJob b)"

text \<open>\<open>lockAgentTurnRecoveryJob\<close>: the job and its attempt as before, then the Turn that it recovers.\<close>

definition recovery_turn :: "turn_env \<Rightarrow> job \<Rightarrow> string \<Rightarrow> turns_db \<Rightarrow> turn_error + job \<times> turn" where
  "recovery_turn env job kind db =
     (let lost = Inl (JobsError ErrAgentTurnRecoveryFenceLost) in
      case lockHierarchy env (jb_Scope job) of
        Inl e \<Rightarrow> Inl e
      | Inr _ \<Rightarrow>
     (case turn_of db (job_turn job) of
        None \<Rightarrow> Inl ErrAgentTurnFenceLost
      | Some t \<Rightarrow>
     (case te_DecodeIdentity env (jb_Payload job) of
        None \<Rightarrow> lost
      | Some identity \<Rightarrow>
          if ri_Scope identity \<noteq> jb_Scope job \<or> ri_ControlRevision identity \<noteq> tr_ControlRevision t
             \<or> ri_ExecutionJob identity = '''' \<or> tr_Active t
             \<or> tr_Status t \<noteq> AgentTurnInterrupted \<and> tr_Status t \<noteq> AgentTurnReconciling
          then lost
          else case tr_Recovery t of
            None \<Rightarrow> lost
          | Some b \<Rightarrow>
              if tr_Epoch t \<noteq> job_epoch job \<or> rb_SettledAt b \<noteq> None \<or> registered_job kind b \<noteq> jb_ID job
                 \<or> ri_OwnerID identity \<noteq> rb_OriginalOwner b \<or> ri_OwnerProof identity \<noteq> rb_OriginalOwnerProof b
              then lost else Inr (job, t))))"

definition lockRecovery :: "turn_env \<Rightarrow> instant \<Rightarrow> job_lease \<Rightarrow> string \<Rightarrow> turns_db \<Rightarrow> turn_error + job \<times> turn" where
  "lockRecovery env now lease kind db =
     (case lockAgentTurnRecoveryJob ((te_Jobs env)\<lparr>je_RecoveryTurn := \<lambda>_. None\<rparr>) now lease kind (td_Jobs db) of
        Inl e \<Rightarrow> Inl (JobsError e)
      | Inr job \<Rightarrow> recovery_turn env job kind db)"

definition completeRecoveryJob :: "instant \<Rightarrow> job \<Rightarrow> string \<Rightarrow> turns_db \<Rightarrow> turn_error + turns_db" where
  "completeRecoveryJob now job result db =
     (let lost = JobsError ErrAgentTurnRecoveryFenceLost in
      case change_jobs lost (update_attempts (fenced_attempt (jb_ID job) (row_token job) (jb_AttemptCount job))
            (\<lambda>a. a\<lparr>ja_Status := AttemptSucceeded, ja_FinishedAt := Some now, ja_Result := Some result\<rparr>)) db of
        Inl e \<Rightarrow> Inl e
      | Inr db1 \<Rightarrow>
          change_jobs lost (update_jobs (own_job job)
            (\<lambda>j. (released now JobSucceeded j)\<lparr>jb_CompletedAt := Some now, jb_Result := Some result, jb_LastError := None\<rparr>)) db1)"

definition job_succeeded :: "turns_db \<Rightarrow> string \<Rightarrow> bool" where
  "job_succeeded db i = (case job_by_id (td_Jobs db) i of None \<Rightarrow> False | Some j \<Rightarrow> jb_Status j = JobSucceeded)"

definition requireRecoveredRuntimeStopped :: "job \<Rightarrow> turns_db \<Rightarrow> turn_error option" where
  "requireRecoveredRuntimeStopped job db =
     (let lost = Some (JobsError ErrAgentTurnRecoveryFenceLost) in
      case turn_of db (job_turn job) of
        None \<Rightarrow> lost
      | Some t \<Rightarrow>
          (case tr_Recovery t of
             None \<Rightarrow> lost
           | Some b \<Rightarrow>
               if tr_Epoch t \<noteq> job_epoch job \<or> job_by_id (td_Jobs db) (rb_StopRuntimeJob b) = None then lost
               else if rb_RuntimeStoppedAt b = None \<or> \<not> job_succeeded db (rb_StopRuntimeJob b)
               then Some ErrAgentTurnRecoveryUnsettled else None))"

section \<open>Settling a recovery\<close>

text \<open>The barrier of \<open>settleAgentTurnRecoveryTx\<close>: whether the Turn still has to be settled, and can be.\<close>

definition recovery_authority :: "job \<Rightarrow> recovery_barrier \<Rightarrow> turns_db \<Rightarrow> bool" where
  "recovery_authority authority b db \<longleftrightarrow>
     registered_job (jb_Kind authority) b = jb_ID authority \<and> jb_Status authority = JobLeased
     \<and> jb_AttemptCount authority > 0 \<and> text_of (jb_LeaseOwner authority) \<noteq> '''' \<and> row_token authority \<noteq> ''''
     \<and> (case attempt_of (td_Jobs db) (jb_ID authority) (jb_AttemptCount authority) of
          None \<Rightarrow> False
        | Some a \<Rightarrow> Some (ja_LeaseOwner a) = jb_LeaseOwner authority \<and> ja_LeaseToken a = row_token authority
            \<and> ja_Status a = AttemptSucceeded)"

definition recovery_complete :: "turn \<Rightarrow> recovery_barrier \<Rightarrow> turns_db \<Rightarrow> bool" where
  "recovery_complete t b db \<longleftrightarrow>
     \<not> (rb_RuntimeStoppedAt b = None \<or> \<not> job_succeeded db (rb_StopRuntimeJob b)
        \<or> rb_ReconcileMutationsJob b \<noteq> '''' \<and> \<not> job_succeeded db (rb_ReconcileMutationsJob b)
        \<or> unsettledMutationsForTurn db t)"

text \<open>The status of a recovered Turn: a prompt that failed for want of a subscription prerequisite has failed.\<close>

definition recovered_status :: "turn \<Rightarrow> turn_status" where
  "recovered_status t =
     (if subscriptionPrerequisiteClass (text_of (tr_PromptErrorClass t)) then AgentTurnFailed else AgentTurnInterrupted)"

definition settled_barrier :: "instant \<Rightarrow> recovery_end \<Rightarrow> turn \<Rightarrow> turn" where
  "settled_barrier now ending t =
     (case tr_Recovery t of
        None \<Rightarrow> t
      | Some b \<Rightarrow>
          (case ending of
             Corroborate \<Rightarrow>
               t\<lparr>tr_Status := AgentTurnCorroborating, tr_Active := True, tr_CompletedAt := None,
                 tr_Recovery := Some (b\<lparr>rb_SettledAt := Some now, rb_Continuation := ''TERMINAL_CORROBORATION_PENDING''\<rparr>)\<rparr>
           | Continue diagnostic settlement \<Rightarrow>
               t\<lparr>tr_Status := recovered_status t, tr_LastError := Some diagnostic,
                 tr_CompletedAt := coalesce_with (tr_CompletedAt t) (Some now),
                 tr_Recovery := Some (b\<lparr>rb_SettledAt := Some now, rb_Continuation := ''INFRASTRUCTURE_FAILURE_APPLIED'',
                                       rb_Settlement := settlement\<rparr>)\<rparr>))"

definition settleAgentTurnRecovery :: "turn_env \<Rightarrow> instant \<Rightarrow> job \<Rightarrow> turns_db \<Rightarrow> turn_error + bool \<times> turns_db" where
  "settleAgentTurnRecovery env now authority db =
     (let lost = JobsError ErrAgentTurnRecoveryFenceLost in
      if jb_Kind authority \<noteq> StopStaleRuntimeJobKind \<and> jb_Kind authority \<noteq> ReconcileAgentTurnMutationsJobKind
      then Inl lost
      else case turn_of db (job_turn authority) of
        None \<Rightarrow> Inl ErrAgentTurnFenceLost
      | Some t \<Rightarrow>
     (case tr_Recovery t of
        None \<Rightarrow> Inl TurnQuery
      | Some b \<Rightarrow>
          if tr_Epoch t \<noteq> job_epoch authority \<or> job_by_id (td_Jobs db) (rb_StopRuntimeJob b) = None then Inl TurnQuery
          else if rb_SettledAt b \<noteq> None then Inr (False, db)
          else if \<not> recovery_authority authority b db then Inl lost
          else if \<not> recovery_complete t b db then Inr (False, db)
          else if rb_Continuation b = ''MUTATION_RECONCILIATION_HANDOFF_APPLIED''
                  \<or> rb_Continuation b = ''WORKFLOW_DEFINITION_HANDOFF_APPLIED''
          then (case update_turn (tr_ID t) (\<lambda>_. True)
                   (\<lambda>r. r\<lparr>tr_Status := AgentTurnInterrupted, tr_Recovery := Some (b\<lparr>rb_SettledAt := Some now\<rparr>)\<rparr>) TurnQuery db of
                  Inl e \<Rightarrow> Inl e | Inr db1 \<Rightarrow> Inr (True, db1))
          else if rb_Continuation b \<noteq> ''PENDING_INFRASTRUCTURE_FAILURE'' \<or> rb_OriginalOwner b = '''' then Inl lost
          else case te_Continue env t of
            Inl e \<Rightarrow> Inl e
          | Inr ending \<Rightarrow>
              (case update_turn (tr_ID t) (\<lambda>_. True) (settled_barrier now ending) lost db of
                 Inl e \<Rightarrow> Inl e | Inr db1 \<Rightarrow> Inr (True, db1))))"

text \<open>The end of a recovery job: it succeeds, and the Turn settles if that was the last of them.\<close>

definition finish_recovery_job ::
  "turn_env \<Rightarrow> instant \<Rightarrow> job \<Rightarrow> string \<Rightarrow> turns_db \<Rightarrow> turn_error + turn_recovery \<times> turns_db" where
  "finish_recovery_job env now job result db =
     (case completeRecoveryJob now job result db of
        Inl e \<Rightarrow> Inl e
      | Inr db1 \<Rightarrow>
     (case settleAgentTurnRecovery env now job db1 of
        Inl e \<Rightarrow> Inl e
      | Inr (_, db2) \<Rightarrow>
     (case readAgentTurnRecovery db2 (job_turn job) (job_epoch job) of
        None \<Rightarrow> Inl TurnQuery | Some r \<Rightarrow> Inr (r, db2))))"

section \<open>Stopping and reconciling\<close>

definition AcknowledgeRecoveredRuntimeStopped ::
  "turn_env \<Rightarrow> instant \<Rightarrow> job_lease \<Rightarrow> turns_db \<Rightarrow> turn_error + turn_recovery \<times> turns_db" where
  "AcknowledgeRecoveredRuntimeStopped env now lease db =
     (case lockRecovery env now lease StopStaleRuntimeJobKind db of
        Inl e \<Rightarrow> Inl e
      | Inr (job, _) \<Rightarrow>
     (case update_turn (job_turn job)
          (\<lambda>t. tr_Session t = job_session job \<and> tr_Epoch t = job_epoch job
               \<and> (case tr_Recovery t of None \<Rightarrow> False | Some b \<Rightarrow> rb_SettledAt b = None))
          (\<lambda>t. t\<lparr>tr_Recovery := map_option
                   (\<lambda>b. b\<lparr>rb_RuntimeStoppedAt := coalesce_with (rb_RuntimeStoppedAt b) (Some now)\<rparr>) (tr_Recovery t)\<rparr>)
          (JobsError ErrAgentTurnRecoveryFenceLost) db of
        Inl e \<Rightarrow> Inl e
      | Inr db1 \<Rightarrow> finish_recovery_job env now job ''{\"runtime_stopped\":true}'' db1))"

text \<open>The known outcome of a mutation whose runtime is stopped: its canonical result, or an error.\<close>

definition recovered_outcome ::
  "turn_env \<Rightarrow> mutation_state \<Rightarrow> string \<Rightarrow> string \<Rightarrow> turn_error + string option" where
  "recovered_outcome env state result lastError =
     (case state of
        MutationSucceeded \<Rightarrow>
          (case je_Canonical (te_Jobs env) result of
             None \<Rightarrow> Inl TurnInput
           | Some canonical \<Rightarrow> if lastError \<noteq> '''' then Inl TurnInput else Inr (Some canonical))
      | MutationFailed \<Rightarrow> if trims_to_empty lastError \<or> result \<noteq> '''' then Inl TurnInput else Inr None
      | _ \<Rightarrow> Inl TurnInput)"

definition ReconcileRecoveredMutation ::
  "turn_env \<Rightarrow> instant \<Rightarrow> job_lease \<Rightarrow> string \<Rightarrow> mutation_state \<Rightarrow> string \<Rightarrow> string \<Rightarrow> turns_db
    \<Rightarrow> turn_error + invocation \<times> turns_db" where
  "ReconcileRecoveredMutation env now lease mutationID state result lastError db =
     (if \<not> je_ValidUUID (te_Jobs env) mutationID then Inl ErrMutationStateConflict
      else case recovered_outcome env state result lastError of
        Inl e \<Rightarrow> Inl e
      | Inr outcome \<Rightarrow>
     (case lockRecovery env now lease ReconcileAgentTurnMutationsJobKind db of
        Inl e \<Rightarrow> Inl e
      | Inr (job, _) \<Rightarrow>
     (case requireRecoveredRuntimeStopped job db of
        Some e \<Rightarrow> Inl e
      | None \<Rightarrow>
     (case update_invocation mutationID
          (\<lambda>v. iv_Turn v = job_turn job \<and> iv_Epoch v = job_epoch job \<and> iv_Mutation v
               \<and> iv_State v \<in> {MutationUnknown, MutationReconciling})
          (settled_row now state (map_option (je_Jsonb (te_Jobs env)) outcome) lastError) ErrMutationStateConflict db of
        Inl e \<Rightarrow> Inl e
      | Inr db1 \<Rightarrow>
     (case getMutationByID env mutationID db1 of
        Inl e \<Rightarrow> Inl e
      | Inr mutation \<Rightarrow>
          (case if state = MutationSucceeded
                then bindReviewerActorForSubmitReview env (job_participant job) (iv_Tool mutation) (the outcome) True db1
                else Inr db1 of
             Inl e \<Rightarrow> Inl e
           | Inr db2 \<Rightarrow> Inr (mutation, db2)))))))"

definition CompleteAgentTurnMutationReconciliation ::
  "turn_env \<Rightarrow> instant \<Rightarrow> job_lease \<Rightarrow> turns_db \<Rightarrow> turn_error + turn_recovery \<times> turns_db" where
  "CompleteAgentTurnMutationReconciliation env now lease db =
     (case lockRecovery env now lease ReconcileAgentTurnMutationsJobKind db of
        Inl e \<Rightarrow> Inl e
      | Inr (job, t) \<Rightarrow>
     (case requireRecoveredRuntimeStopped job db of
        Some e \<Rightarrow> Inl e
      | None \<Rightarrow>
          if list_ex (own_mutation t [MutationUnknown, MutationReconciling]) (td_Invocations db)
          then Inl ErrAgentTurnRecoveryUnsettled
          else finish_recovery_job env now job ''{\"mutations_reconciled\":true}'' db))"

text \<open>\<open>CompleteAgentTurnRecovery\<close> only checks that the barrier has been crossed.\<close>

definition CompleteAgentTurnRecovery ::
  "turn_env \<Rightarrow> string \<Rightarrow> int64 \<Rightarrow> turns_db \<Rightarrow> turn_error + turn_recovery" where
  "CompleteAgentTurnRecovery env turnID epoch db =
     (if \<not> je_ValidUUID (te_Jobs env) turnID \<or> epoch \<le> 0 then Inl ErrAgentTurnFenceLost
      else case readAgentTurnRecovery db turnID epoch of
        None \<Rightarrow> Inl ErrAgentTurnFenceLost
      | Some r \<Rightarrow>
          let b = rc_Barrier r in
          if rb_SettledAt b = None \<or> rb_Continuation b = ''PENDING_INFRASTRUCTURE_FAILURE''
             \<or> rb_Continuation b = ''INFRASTRUCTURE_FAILURE_APPLIED'' \<and> rb_Settlement b = ''''
          then Inl ErrAgentTurnRecoveryUnsettled else Inr r)"

section \<open>Reconciliation that fails\<close>

definition failAgentTurnMutationReconciliationAttempt ::
  "instant \<Rightarrow> job \<Rightarrow> string \<Rightarrow> int \<Rightarrow> turns_db \<Rightarrow> turn_error + turns_db" where
  "failAgentTurnMutationReconciliationAttempt now job diagnostic retryDelay db =
     (case failWorkflowActionJobTx now job diagnostic True True retryDelay (td_Jobs db) of
        Inl _ \<Rightarrow> Inl (JobsError ErrAgentTurnRecoveryFenceLost)
      | Inr jobs \<Rightarrow> Inr (db\<lparr>td_Jobs := jobs\<rparr>))"

text \<open>After the last attempt whatever is still ambiguous is given up as failed and a person takes over:
  \<open>te_Escalate\<close> applies the decision to the Workflow and answers whether its Definition still fitted.\<close>

definition escalate_reconciliation ::
  "turn_env \<Rightarrow> instant \<Rightarrow> job \<Rightarrow> turn \<Rightarrow> string \<Rightarrow> turns_db \<Rightarrow> turn_error + turns_db" where
  "escalate_reconciliation env now job t cause db =
     (let lost = JobsError ErrAgentTurnRecoveryFenceLost; diagnostic = te_Diagnostic env (jb_AttemptCount job) cause;
          continuation = (case tr_Recovery t of None \<Rightarrow> '''' | Some b \<Rightarrow> rb_Continuation b) in
      case if continuation = ''PENDING_INFRASTRUCTURE_FAILURE''
           then (case te_Escalate env t diagnostic of
                   Inl e \<Rightarrow> Inl e
                 | Inr compatible \<Rightarrow>
                     Inr (if compatible then ''MUTATION_RECONCILIATION_HANDOFF_APPLIED''
                          else ''WORKFLOW_DEFINITION_HANDOFF_APPLIED''))
           else if continuation \<noteq> ''WORKFLOW_DEFINITION_HANDOFF_APPLIED'' then Inl lost else Inr continuation of
        Inl e \<Rightarrow> Inl e
      | Inr next_continuation \<Rightarrow>
          update_turn (tr_ID t)
            (\<lambda>r. case tr_Recovery r of None \<Rightarrow> False | Some b \<Rightarrow> rb_Continuation b = continuation \<and> rb_Settlement b = '''')
            (\<lambda>r. r\<lparr>tr_Recovery := map_option (\<lambda>b. b\<lparr>rb_Continuation := next_continuation\<rparr>) (tr_Recovery r)\<rparr>) lost
            (update_invocations (own_mutation t [MutationUnknown, MutationReconciling])
              (settled_row now MutationFailed None diagnostic) db))"

text \<open>Whether the work was escalated; the JSON text of the job's result is that of \<open>te_TurnResult\<close>.\<close>

definition AcknowledgeAgentTurnMutationReconciliationFailure ::
  "turn_env \<Rightarrow> instant \<Rightarrow> job_lease \<Rightarrow> string option \<Rightarrow> int \<Rightarrow> turns_db \<Rightarrow> turn_error + bool \<times> turns_db" where
  "AcknowledgeAgentTurnMutationReconciliationFailure env now lease cause retryDelay db =
     (if \<not> validateWorkflowActionFailure cause retryDelay then Inl TurnInput
      else case lockRecovery env now lease ReconcileAgentTurnMutationsJobKind db of
        Inl e \<Rightarrow> Inl e
      | Inr (job, t) \<Rightarrow>
     (case requireRecoveredRuntimeStopped job db of
        Some e \<Rightarrow> Inl e
      | None \<Rightarrow>
          if \<not> list_ex (own_mutation t [MutationUnknown, MutationReconciling, MutationSucceeded]) (td_Invocations db)
          then Inl ErrAgentTurnRecoveryUnsettled
          else if jb_AttemptCount job < jb_MaxAttempts job
          then (case failAgentTurnMutationReconciliationAttempt now job (the cause) retryDelay db of
                  Inl e \<Rightarrow> Inl e | Inr db1 \<Rightarrow> Inr (False, db1))
          else case escalate_reconciliation env now job t (the cause) db of
            Inl e \<Rightarrow> Inl e
          | Inr db1 \<Rightarrow>
         (case completeRecoveryJob now job (je_Jsonb (te_Jobs env) (te_TurnResult env AgentTurnFailed cause)) db1 of
            Inl e \<Rightarrow> Inl e
          | Inr db2 \<Rightarrow>
              (case settleAgentTurnRecovery env now job db2 of Inl e \<Rightarrow> Inl e | Inr (_, db3) \<Rightarrow> Inr (True, db3)))))"

end
