(* ===== verification/Turn_Endings.thy ===== *)
theory Turn_Endings
  imports Turn_Recovery Job_Preparations
begin

text \<open>
  The other ways in which a Turn ends (\<open>store/settlement.go\<close>, \<open>store/workflow.go\<close>,
  \<open>store/workflow_acknowledgements.go\<close>): its owner settles it together with the Workflow, the Issue is closed
  and the Turn is cancelled behind a barrier, or the Workflow no longer fits its Definition and a person
  takes over.

  What the Workflow decides is an argument (\<open>te_Settled\<close>, \<open>te_ClosureDecision\<close>), and so are the
  corroborations of recorded intents (\<open>te_Verifier\<close> is the job of a pending one).
\<close>

section \<open>Settling a Turn\<close>

definition lockLiveAgentTurnSettlement ::
  "turn_env \<Rightarrow> instant \<Rightarrow> agent_turn_lease \<Rightarrow> turns_db \<Rightarrow> turn_error + job \<times> turn" where
  "lockLiveAgentTurnSettlement env now lease db =
     (case lockAgentTurnJob env now (al_Job lease) db of
        Inl _ \<Rightarrow> Inl ErrAgentTurnFenceLost
      | Inr job \<Rightarrow>
          if jb_LeaseOwner job \<noteq> jb_LeaseOwner (jl_Job (al_Job lease)) \<or> \<not> sameAgentTurnExecutionIdentity job lease
          then Inl ErrAgentTurnFenceLost
          else case lockHierarchy env (jb_Scope job) of
            Inl e \<Rightarrow> Inl e
          | Inr h \<Rightarrow>
         (case turn_of db (lease_turn lease) of
            None \<Rightarrow> Inl ErrAgentTurnFenceLost
          | Some t \<Rightarrow>
              if \<not> allowsActiveTurn h \<or> \<not> owns_turn now h lease t \<or> tr_Status t \<noteq> AgentTurnSettling
                 \<or> tr_AdmissionOpen t \<or> job_participant job \<noteq> al_Participant lease
                 \<or> tr_Attempt t \<noteq> tr_Attempt (al_Turn lease)
              then Inl ErrAgentTurnFenceLost
              else if tr_AdmissionClosedAt t = None then Inl ErrMutationAdmissionClosed
              else if unsettledMutationsForTurn db t then Inl ErrAgentTurnMutationsUnsettled
              else case slot_of db (lease_turn lease) of
                None \<Rightarrow> Inl ErrAgentTurnFenceLost
              | Some s \<Rightarrow>
                  if \<not> owns_slot lease s \<or> sl_LeaseExpiresAt s \<le> now then Inl ErrAgentTurnFenceLost
                  else Inr (job, t)))"

definition finalizeSettledAgentTurn ::
  "instant \<Rightarrow> agent_turn_lease \<Rightarrow> job \<Rightarrow> turn \<Rightarrow> turn_status \<times> string option \<times> string option \<times> string
    \<Rightarrow> turns_db \<Rightarrow> turn_error + turns_db" where
  "finalizeSettledAgentTurn now lease job t settled db =
     (case settled of (status, outcome, lastError, result) \<Rightarrow>
      case change_jobs ErrAgentTurnFenceLost
          (update_attempts (\<lambda>a. fenced_attempt (jb_ID job) (row_token job) (jb_AttemptCount job) a
                                \<and> Some (ja_LeaseOwner a) = jb_LeaseOwner job)
            (\<lambda>a. a\<lparr>ja_Status := AttemptSucceeded, ja_FinishedAt := Some now, ja_Result := Some result\<rparr>)) db of
        Inl e \<Rightarrow> Inl e
      | Inr db1 \<Rightarrow>
     (case change_jobs ErrAgentTurnFenceLost (update_jobs (own_job job)
          (\<lambda>j. (released now JobSucceeded j)\<lparr>jb_CompletedAt := Some now, jb_Result := Some result, jb_LastError := None\<rparr>)) db1 of
        Inl e \<Rightarrow> Inl e
      | Inr db2 \<Rightarrow>
     (case update_turn (tr_ID t)
          (\<lambda>r. tr_Epoch r = tr_Epoch t \<and> tr_ControlRevision r = tr_ControlRevision t
               \<and> tr_OwnerToken r = Some (al_OwnerToken lease) \<and> tr_Active r \<and> tr_Status r = AgentTurnSettling
               \<and> \<not> tr_AdmissionOpen r \<and> tr_AdmissionClosedAt r \<noteq> None)
          (\<lambda>r. (disowned r)\<lparr>tr_Status := status, tr_CompletedAt := Some now, tr_Outcome := outcome, tr_LastError := lastError\<rparr>)
          ErrAgentTurnFenceLost db2 of
        Inl e \<Rightarrow> Inl e
      | Inr db3 \<Rightarrow>
          if \<not> list_ex (\<lambda>s. sl_Turn s = tr_ID t \<and> owns_slot lease s) (td_Slots db3) then Inl ErrAgentTurnFenceLost
          else Inr (delete_slot (\<lambda>s. sl_Turn s = tr_ID t \<and> owns_slot lease s) db3))))"

text \<open>The Turn of \<open>SettleAgentTurn\<close>, the first time it is settled; its status is a terminal one.\<close>

definition settle_live_turn ::
  "turn_env \<Rightarrow> instant \<Rightarrow> agent_turn_lease \<Rightarrow> turns_db \<Rightarrow> turn_error + unit \<times> turns_db" where
  "settle_live_turn env now lease db =
     (if \<not> valid_handoff env lease then Inl ErrAgentTurnFenceLost
      else case lockLiveAgentTurnSettlement env now lease db of
        Inl e \<Rightarrow> Inl e
      | Inr (job, t) \<Rightarrow>
     (case te_Settled env t of
        Inl e \<Rightarrow> Inl e
      | Inr settled \<Rightarrow>
          if \<not> terminalAgentTurnStatus (fst settled) then Inl TurnInput
          else case finalizeSettledAgentTurn now lease job t settled db of Inl e \<Rightarrow> Inl e | Inr db1 \<Rightarrow> Inr ((), db1)))"

section \<open>Cancelling a Turn\<close>

text \<open>The columns of a guard are 64-bit integers, signed in the database.\<close>

definition meets_guard :: "turn_env \<Rightarrow> turn_guard \<Rightarrow> turn \<Rightarrow> bool" where
  "meets_guard env g t \<longleftrightarrow>
     tr_Session t = tg_SessionID g \<and> tr_Attempt t = tg_AttemptID g \<and> tr_Epoch t = sint (tg_Epoch g)
     \<and> tr_ControlRevision t = sint (tg_ControlRevision g)"

definition session_role :: "turn_env \<Rightarrow> string \<Rightarrow> role_id option" where
  "session_role env session =
     map_option fst (Option.bind (te_SessionParticipant env session) (te_Participant env))"

text \<open>What was not started fails, what was in flight has an unknown outcome.\<close>

definition close_mutations :: "instant \<Rightarrow> turn_guard \<Rightarrow> turns_db \<Rightarrow> turns_db" where
  "close_mutations now g db =
     (let own = (\<lambda>v. iv_Turn v = tg_TurnID g \<and> iv_Epoch v = sint (tg_Epoch g) \<and> iv_Mutation v) in
      update_invocations (\<lambda>v. own v \<and> iv_State v = MutationInFlight)
        (\<lambda>v. v\<lparr>iv_State := MutationUnknown, iv_LastError := Some ''Issue closed with mutation in flight''\<rparr>)
        (update_invocations (\<lambda>v. own v \<and> iv_State v = MutationReserved \<and> iv_StartedAt v = None)
          (\<lambda>v. v\<lparr>iv_State := MutationFailed, iv_FinishedAt := Some now,
                iv_LastError := Some ''Issue closed before mutation started''\<rparr>) db))"

definition cancelled_turn :: "instant \<Rightarrow> turn \<Rightarrow> turn" where
  "cancelled_turn now t =
     t\<lparr>tr_AdmissionOpen := False, tr_AdmissionClosedAt := coalesce_with (tr_AdmissionClosedAt t) (Some now),
       tr_Status := AgentTurnCancelling\<rparr>"

definition closeMutationAdmissionTx :: "turn_env \<Rightarrow> instant \<Rightarrow> turn_guard \<Rightarrow> turns_db \<Rightarrow> turn_error + turns_db" where
  "closeMutationAdmissionTx env now g db =
     (case update_turn (tg_TurnID g)
          (\<lambda>t. meets_guard env g t \<and> tr_Active t \<and> session_role env (tr_Session t) = Some (tg_Role g))
          (cancelled_turn now) ErrAgentTurnFenceLost db of
        Inl e \<Rightarrow> Inl e
      | Inr db1 \<Rightarrow> Inr (close_mutations now g db1))"

section \<open>Interrupting a Turn\<close>

text \<open>An error of the database counts as a lost fence here.\<close>

definition or_lost :: "turn_error \<Rightarrow> turn_error + 'a \<Rightarrow> turn_error + 'a" where
  "or_lost lost r = (case r of Inl _ \<Rightarrow> Inl lost | Inr x \<Rightarrow> Inr x)"

definition incompatible :: string where
  "incompatible = ''Workflow Definition incompatible''"

text \<open>A Turn that no worker has claimed ends at once.\<close>

definition interrupt_queued :: "instant \<Rightarrow> job \<Rightarrow> turn \<Rightarrow> turns_db \<Rightarrow> turn_error + turns_db" where
  "interrupt_queued now job t db =
     (case or_lost ErrAgentTurnFenceLost (change_jobs ErrAgentTurnFenceLost
          (update_jobs (\<lambda>j. jb_ID j = jb_ID job \<and> jb_Status j = JobAvailable)
            (\<lambda>j. j\<lparr>jb_Status := JobCancelled, jb_CompletedAt := Some now, jb_UpdatedAt := now,
                   jb_LastError := Some incompatible\<rparr>)) db) of
        Inl e \<Rightarrow> Inl e
      | Inr db1 \<Rightarrow>
     (case or_lost ErrAgentTurnFenceLost (update_turn (tr_ID t) (\<lambda>r. tr_Epoch r = tr_Epoch t \<and> tr_Active r)
          (\<lambda>r. (disowned r)\<lparr>tr_Status := AgentTurnInterrupted, tr_CompletedAt := Some now, tr_LastError := Some incompatible\<rparr>)
          ErrAgentTurnFenceLost db1) of
        Inl e \<Rightarrow> Inl e
      | Inr db2 \<Rightarrow> Inr (delete_slot (\<lambda>s. sl_Turn s = tr_ID t) db2)))"

text \<open>The lease of a claimed Turn ends before it is recovered: the job's, its attempt's, the Turn's, the slot's.\<close>

definition revoke_lease :: "instant \<Rightarrow> job \<Rightarrow> turn \<Rightarrow> turns_db \<Rightarrow> turn_error + turns_db" where
  "revoke_lease now job t db =
     (let lost = ErrAgentTurnFenceLost; revokedAt = now - 1 in
      case or_lost lost (change_jobs lost (update_jobs (\<lambda>j. jb_ID j = jb_ID job \<and> jb_Status j = JobLeased)
             (\<lambda>j. j\<lparr>jb_LeaseExpiresAt := Some revokedAt\<rparr>)) db) of
        Inl e \<Rightarrow> Inl e
      | Inr db1 \<Rightarrow>
     (case or_lost lost (change_jobs lost
             (update_attempts (fenced_attempt (jb_ID job) (row_token job) (jb_AttemptCount job))
               (\<lambda>a. a\<lparr>ja_LeaseExpiresAt := revokedAt\<rparr>)) db1) of
        Inl e \<Rightarrow> Inl e
      | Inr db2 \<Rightarrow>
     (case or_lost lost (update_turn (tr_ID t) (\<lambda>r. tr_Epoch r = tr_Epoch t \<and> tr_Active r)
             (\<lambda>r. r\<lparr>tr_LeaseExpiresAt := Some revokedAt\<rparr>) lost db2) of
        Inl e \<Rightarrow> Inl e
      | Inr db3 \<Rightarrow>
          update_slot (tr_ID t) (\<lambda>s. sl_Epoch s = tr_Epoch t) (\<lambda>s. s\<lparr>sl_LeaseExpiresAt := revokedAt\<rparr>) db3)))"

definition interruptTurnForHumanHandoffTx ::
  "turn_env \<Rightarrow> instant \<Rightarrow> turn_guard \<Rightarrow> turns_db \<Rightarrow> turn_error + turns_db" where
  "interruptTurnForHumanHandoffTx env now g db =
     (case find (\<lambda>j. jb_Kind j = RunAgentTurnJobKind \<and> job_turn j = tg_TurnID g \<and> job_epoch j = sint (tg_Epoch g))
             (db_Jobs (td_Jobs db)) of
        None \<Rightarrow> Inl TurnQuery
      | Some row \<Rightarrow>
     (case scanJob (te_Jobs env) row of
        None \<Rightarrow> Inl TurnQuery
      | Some job \<Rightarrow>
     (case turn_of db (tg_TurnID g) of
        None \<Rightarrow> Inl ErrAgentTurnFenceLost
      | Some t \<Rightarrow>
          if \<not> tr_Active t \<or> \<not> meets_guard env g t \<or> sc_workflowAttemptID (jb_Scope job) \<noteq> tg_AttemptID g
             \<or> job_session job \<noteq> tg_SessionID g
          then Inl ErrAgentTurnFenceLost
          else if jb_Status job = JobAvailable then interrupt_queued now job t db
          else if jb_Status job \<noteq> JobLeased \<or> row_token job = '''' \<or> jb_AttemptCount job \<le> 0
          then Inl ErrAgentTurnFenceLost
          else if slot_of db (tr_ID t) = None then Inl ErrAgentTurnFenceLost
          else case revoke_lease now job t db of
            Inl e \<Rightarrow> Inl e
          | Inr db1 \<Rightarrow>
         (case recoverExpiredAgentTurn env now job db1 of
            Inl e \<Rightarrow> Inl e
          | Inr (r, db2) \<Rightarrow>
              update_turn (rc_TurnID r)
                (\<lambda>u. case tr_Recovery u of
                       None \<Rightarrow> False
                     | Some b \<Rightarrow> rb_StopRuntimeJob b = rb_StopRuntimeJob (rc_Barrier r)
                         \<and> rb_Continuation b = ''PENDING_INFRASTRUCTURE_FAILURE'' \<and> rb_SettledAt b = None)
                (\<lambda>u. u\<lparr>tr_LastError := Some incompatible,
                       tr_Recovery := map_option (\<lambda>b. b\<lparr>rb_Continuation := ''WORKFLOW_DEFINITION_HANDOFF_APPLIED''\<rparr>)
                                        (tr_Recovery u)\<rparr>)
                (JobsError ErrAgentTurnRecoveryFenceLost) db2))))"

section \<open>Closing a Workflow\<close>

definition closure_job ::
  "turn_env \<Rightarrow> string \<Rightarrow> int \<Rightarrow> string \<Rightarrow> closure_payload \<Rightarrow> string \<Rightarrow> job_provenance \<Rightarrow> job_insert" where
  "closure_job env kind priority key p participant provenance =
     \<lparr>ji_queue = WorkflowActionQueue, ji_kind = kind, ji_payload = te_ClosureText env p, ji_priority = priority,
      ji_maxAttempts = 3, ji_idempotencyKey = key,
      ji_scope = \<lparr>sc_workflowID = cl_Workflow p, sc_workflowAttemptID = cl_Attempt p, sc_agentParticipantID = participant,
                  sc_agentSessionID = cl_Session p, sc_agentTurnID = cl_Turn p, sc_executionEpoch = cl_Epoch p\<rparr>,
      ji_provenance = provenance\<rparr>"

text \<open>The payload of either job; \<open>guard\<close> is the Turn that is stopped.\<close>

definition closing_payload ::
  "string \<Rightarrow> string \<Rightarrow> string \<Rightarrow> int64 \<Rightarrow> turn_guard option \<Rightarrow> closure_payload" where
  "closing_payload workflow attempt closure revision guard =
     (case guard of
        None \<Rightarrow> \<lparr>cl_Workflow = workflow, cl_Attempt = attempt, cl_Closure = closure, cl_Turn = '''', cl_Session = '''',
                  cl_Epoch = 0, cl_ControlRevision = 0, cl_Revision = revision\<rparr>
      | Some g \<Rightarrow> \<lparr>cl_Workflow = workflow, cl_Attempt = attempt, cl_Closure = closure, cl_Turn = tg_TurnID g,
                    cl_Session = tg_SessionID g, cl_Epoch = sint (tg_Epoch g),
                    cl_ControlRevision = sint (tg_ControlRevision g), cl_Revision = revision\<rparr>)"

definition enqueueStopTurnJob ::
  "turn_env \<Rightarrow> instant \<Rightarrow> string \<Rightarrow> string \<Rightarrow> string \<Rightarrow> turn_guard \<Rightarrow> int64 \<Rightarrow> turns_db \<Rightarrow> turn_error + string \<times> turns_db" where
  "enqueueStopTurnJob env now delivery workflow closure g revision db =
     (case turn_of db (tg_TurnID g) of
        None \<Rightarrow> Inl TurnQuery
      | Some t \<Rightarrow>
          if \<not> meets_guard env g t then Inl TurnQuery
          else case te_SessionParticipant env (tr_Session t) of
            None \<Rightarrow> Inl TurnQuery
          | Some participant \<Rightarrow>
         (case insertIdempotentJobTx (te_Jobs env) now
              (closure_job env StopAgentTurnJobKind 100
                (''workflow:'' @ workflow @ '':delivery:'' @ delivery @ '':action:stop-agent-turn'')
                (closing_payload workflow (tg_AttemptID g) closure revision (Some g)) participant
                (no_provenance\<lparr>pv_normalizedEventID := delivery, pv_actionKey := ''stop-agent-turn''\<rparr>)) (td_Jobs db) of
            Inl e \<Rightarrow> Inl (JobsError e)
          | Inr (i, jobs) \<Rightarrow> Inr (i, db\<lparr>td_Jobs := jobs\<rparr>)))"

definition enqueueClosureSettlementJob ::
  "turn_env \<Rightarrow> instant \<Rightarrow> string \<Rightarrow> string \<Rightarrow> string \<Rightarrow> string \<Rightarrow> int64 \<Rightarrow> turn_guard option \<Rightarrow> turns_db
    \<Rightarrow> turn_error + string \<times> turns_db" where
  "enqueueClosureSettlementJob env now delivery workflow attempt closure revision guard db =
     (case (case guard of None \<Rightarrow> Some '''' | Some g \<Rightarrow> te_SessionParticipant env (tg_SessionID g)) of
        None \<Rightarrow> Inl TurnQuery
      | Some participant \<Rightarrow>
         (case insertJobTx (te_Jobs env) now
              (closure_job env SettleClosureJobKind 80 (''workflow:'' @ workflow @ '':closure:'' @ closure @ '':settle'')
                (closing_payload workflow attempt closure revision guard) participant
                (no_provenance\<lparr>pv_normalizedEventID := delivery, pv_actionKey := ''settle-closure''\<rparr>)) (td_Jobs db) of
            Inl e \<Rightarrow> Inl (JobsError e)
          | Inr (i, jobs) \<Rightarrow> Inr (i, db\<lparr>td_Jobs := jobs\<rparr>)))"

text \<open>A barrier has a source Turn with the job that stops it, or neither.\<close>

definition barrier_checks :: "closure_barrier \<Rightarrow> bool" where
  "barrier_checks b \<longleftrightarrow>
     cb_Closure b \<noteq> '''' \<and> cb_Revision b > 0
     \<and> (if cb_Turn b = '''' then cb_Session b = '''' \<and> cb_Attempt b = '''' \<and> cb_Epoch b = 0 \<and> cb_ControlRevision b = 0
                                \<and> cb_StopJob b = '''' \<and> cb_RuntimeStoppedAt b = None
        else cb_Session b \<noteq> '''' \<and> cb_Attempt b \<noteq> '''' \<and> cb_Epoch b > 0 \<and> cb_ControlRevision b > 0 \<and> cb_StopJob b \<noteq> '''')"

definition barrier_conflict :: "closure_barrier \<Rightarrow> closure_barrier \<Rightarrow> bool" where
  "barrier_conflict b c \<longleftrightarrow>
     cb_Workflow b = cb_Workflow c \<and> cb_Closure b = cb_Closure c \<or> cb_SettlementJob b = cb_SettlementJob c
     \<or> cb_StopJob b \<noteq> '''' \<and> cb_StopJob b = cb_StopJob c"

definition createClosureBarrier ::
  "turn_env \<Rightarrow> instant \<Rightarrow> string \<Rightarrow> string \<Rightarrow> int64 \<Rightarrow> turn_guard option \<Rightarrow> string \<Rightarrow> string \<Rightarrow> turns_db
    \<Rightarrow> turn_error + turns_db" where
  "createClosureBarrier env now workflow closure revision guard stopJob settlementJob db =
     (case (case guard of
              None \<Rightarrow> Inr now
            | Some g \<Rightarrow>
                if stopJob = '''' then Inl TurnInput
                else case turn_of db (tg_TurnID g) of
                  None \<Rightarrow> Inl TurnQuery
                | Some t \<Rightarrow>
                    if \<not> meets_guard env g t \<or> tr_Status t \<noteq> AgentTurnCancelling \<or> tr_AdmissionOpen t then Inl TurnQuery
                    else case tr_AdmissionClosedAt t of None \<Rightarrow> Inl TurnQuery | Some at \<Rightarrow> Inr at) of
        Inl e \<Rightarrow> Inl e
      | Inr closedAt \<Rightarrow>
          let p = closing_payload workflow '''' closure revision guard;
              b = \<lparr>cb_Workflow = workflow, cb_Closure = closure, cb_Revision = revision, cb_Turn = cl_Turn p,
                   cb_Session = cl_Session p, cb_Attempt = (case guard of None \<Rightarrow> '''' | Some g \<Rightarrow> tg_AttemptID g),
                   cb_Epoch = cl_Epoch p, cb_ControlRevision = cl_ControlRevision p, cb_AdmissionClosedAt = closedAt,
                   cb_RuntimeStoppedAt = None, cb_SettledAt = None, cb_StopJob = stopJob, cb_SettlementJob = settlementJob\<rparr>
          in if \<not> barrier_checks b \<or> list_ex (barrier_conflict b) (td_Closures db) then Inl TurnQuery
             else Inr (db\<lparr>td_Closures := td_Closures db @ [b]\<rparr>))"

text \<open>What the actions of a decision that closes the Issue do to the Turn, in their order.\<close>

definition begin_closure ::
  "turn_env \<Rightarrow> instant \<Rightarrow> string \<Rightarrow> string \<Rightarrow> string \<Rightarrow> string \<Rightarrow> int64 \<Rightarrow> turn_guard option \<Rightarrow> turns_db
    \<Rightarrow> turn_error + unit \<times> turns_db" where
  "begin_closure env now delivery workflow attempt closure revision guard db =
     (case (case guard of
              None \<Rightarrow> Inr ('''', db)
            | Some g \<Rightarrow>
                (case closeMutationAdmissionTx env now g db of
                   Inl e \<Rightarrow> Inl e
                 | Inr db1 \<Rightarrow> enqueueStopTurnJob env now delivery workflow closure g revision db1)) of
        Inl e \<Rightarrow> Inl e
      | Inr (stopJob, db2) \<Rightarrow>
     (case enqueueClosureSettlementJob env now delivery workflow attempt closure revision guard db2 of
        Inl e \<Rightarrow> Inl e
      | Inr (settlementJob, db3) \<Rightarrow>
          (case createClosureBarrier env now workflow closure revision guard stopJob settlementJob db3 of
             Inl e \<Rightarrow> Inl e
           | Inr db4 \<Rightarrow> Inr ((), db4))))"

text \<open>An incompatible Workflow: the admission is closed, then the Turn is interrupted.\<close>

definition begin_handoff ::
  "turn_env \<Rightarrow> instant \<Rightarrow> turn_guard \<Rightarrow> turns_db \<Rightarrow> turn_error + unit \<times> turns_db" where
  "begin_handoff env now g db =
     (case closeMutationAdmissionTx env now g db of
        Inl e \<Rightarrow> Inl e
      | Inr db1 \<Rightarrow> (case interruptTurnForHumanHandoffTx env now g db1 of Inl e \<Rightarrow> Inl e | Inr db2 \<Rightarrow> Inr ((), db2)))"

section \<open>The barrier of a closure\<close>

definition closure_payload_fits :: "closure_payload \<Rightarrow> job \<Rightarrow> bool" where
  "closure_payload_fits p job \<longleftrightarrow>
     (let s = jb_Scope job in
      \<not> (cl_Workflow p \<noteq> sc_workflowID s \<or> cl_Attempt p \<noteq> sc_workflowAttemptID s \<or> cl_Revision p \<le> 0
         \<or> cl_Closure p = '''' \<or> cl_Turn p \<noteq> sc_agentTurnID s \<or> cl_Session p \<noteq> sc_agentSessionID s
         \<or> cl_Epoch p \<noteq> sc_executionEpoch s))"

definition barrier_open :: "string \<Rightarrow> closure_payload \<Rightarrow> job \<Rightarrow> closure_barrier \<Rightarrow> bool" where
  "barrier_open kind p job b \<longleftrightarrow>
     \<not> (cb_SettledAt b \<noteq> None \<or> cb_Revision b \<noteq> cl_Revision p \<or> cb_Turn b \<noteq> cl_Turn p \<or> cb_Session b \<noteq> cl_Session p
        \<or> cb_Epoch b \<noteq> cl_Epoch p \<or> cb_ControlRevision b \<noteq> cl_ControlRevision p
        \<or> kind = StopAgentTurnJobKind \<and> cb_StopJob b \<noteq> jb_ID job
        \<or> kind = SettleClosureJobKind \<and> cb_SettlementJob b \<noteq> jb_ID job)
     \<and> \<not> (cb_Turn b \<noteq> '''' \<and> cb_Attempt b \<noteq> cl_Attempt p)"

text \<open>The Turn that the closure cancelled, in the hierarchy of the job.\<close>

definition closing_turn :: "turn_env \<Rightarrow> job \<Rightarrow> closure_barrier \<Rightarrow> turn \<Rightarrow> bool" where
  "closing_turn env job b t \<longleftrightarrow>
     tr_Attempt t = sc_workflowAttemptID (jb_Scope job) \<and> tr_Session t = job_session job \<and> tr_Epoch t = job_epoch job
     \<and> tr_ControlRevision t = cb_ControlRevision b \<and> tr_Status t = AgentTurnCancelling \<and> \<not> tr_AdmissionOpen t
     \<and> te_AssignmentStatus env (job_participant job) (sc_workflowID (jb_Scope job)) \<noteq> None
     \<and> (case te_Session env (tr_Session t) (job_participant job) of
          None \<Rightarrow> False
        | Some (_, _, revision) \<Rightarrow> revision = cb_ControlRevision b)"

text \<open>\<open>lockClosureJob\<close>, the job and its barrier.\<close>

definition lockClosureBarrier ::
  "turn_env \<Rightarrow> instant \<Rightarrow> job_lease \<Rightarrow> string \<Rightarrow> turns_db \<Rightarrow> turn_error + job \<times> closure_barrier" where
  "lockClosureBarrier env now lease kind db =
     (let lost = Inl (JobsError ErrClosureSettlementFenceLost) in
      case lockFencedWorkflowJob (te_Jobs env) now lease kind ErrClosureSettlementFenceLost (td_Jobs db) of
        Inl e \<Rightarrow> Inl (JobsError e)
      | Inr job \<Rightarrow>
     (case te_ClosurePayload env (jb_Payload job) of
        None \<Rightarrow> lost
      | Some p \<Rightarrow>
          if \<not> closure_payload_fits p job then lost
          else case find (\<lambda>b. cb_Workflow b = cl_Workflow p \<and> cb_Closure b = cl_Closure p) (td_Closures db) of
            None \<Rightarrow> lost
          | Some b \<Rightarrow>
              if \<not> barrier_open kind p job b then lost
              else case te_Closing env (cl_Workflow p) of
                None \<Rightarrow> lost
              | Some (revision, closure) \<Rightarrow>
                  if revision < cl_Revision p \<or> closure \<noteq> cl_Closure p then lost
                  else if cb_Turn b = '''' then Inr (job, b)
                  else case turn_of db (cb_Turn b) of
                    None \<Rightarrow> lost
                  | Some t \<Rightarrow> if \<not> closing_turn env job b t then lost else Inr (job, b)))"

definition lockClosure ::
  "turn_env \<Rightarrow> instant \<Rightarrow> job_lease \<Rightarrow> string \<Rightarrow> turns_db \<Rightarrow> turn_error + job \<times> closure_barrier" where
  "lockClosure env now lease kind db =
     (case lockClosureWorkflow (te_Jobs env) lease of
        Some e \<Rightarrow> Inl (JobsError e)
      | None \<Rightarrow> lockClosureBarrier env now lease kind db)"

definition update_barrier ::
  "closure_barrier \<Rightarrow> (closure_barrier \<Rightarrow> closure_barrier) \<Rightarrow> turns_db \<Rightarrow> turns_db" where
  "update_barrier b f db =
     db\<lparr>td_Closures := map (\<lambda>c. if cb_Workflow c = cb_Workflow b \<and> cb_Closure c = cb_Closure b then f c else c) (td_Closures db)\<rparr>"

definition AcknowledgeClosureTurnStopped ::
  "turn_env \<Rightarrow> instant \<Rightarrow> job_lease \<Rightarrow> turns_db \<Rightarrow> turn_error + closure_barrier \<times> turns_db" where
  "AcknowledgeClosureTurnStopped env now lease db =
     (case lockClosure env now lease StopAgentTurnJobKind db of
        Inl e \<Rightarrow> Inl e
      | Inr (job, b) \<Rightarrow>
          if cb_Turn b = '''' \<or> cb_StopJob b \<noteq> jb_ID job then Inl (JobsError ErrClosureSettlementFenceLost)
          else
            let stopped = coalesce_with (cb_RuntimeStoppedAt b) (Some now);
                db1 = update_barrier b (\<lambda>c. c\<lparr>cb_RuntimeStoppedAt := stopped\<rparr>) db in
            (case completeAcknowledgementJobTx (te_Jobs env) now job ''{\"runtime_stopped\":true}''
                    ErrClosureSettlementFenceLost (td_Jobs db1) of
               Inl e \<Rightarrow> Inl (JobsError e)
             | Inr jobs \<Rightarrow> Inr (b\<lparr>cb_RuntimeStoppedAt := stopped\<rparr>, db1\<lparr>td_Jobs := jobs\<rparr>)))"

definition ReconcileClosureMutation ::
  "turn_env \<Rightarrow> instant \<Rightarrow> job_lease \<Rightarrow> string \<Rightarrow> mutation_state \<Rightarrow> string \<Rightarrow> string \<Rightarrow> turns_db
    \<Rightarrow> turn_error + invocation \<times> turns_db" where
  "ReconcileClosureMutation env now lease mutationID state result lastError db =
     (case recovered_outcome env state result lastError of
        Inl e \<Rightarrow> Inl e
      | Inr outcome \<Rightarrow>
          if \<not> je_ValidUUID (te_Jobs env) mutationID then Inl ErrMutationStateConflict
          else case lockClosure env now lease SettleClosureJobKind db of
            Inl e \<Rightarrow> Inl e
          | Inr (_, b) \<Rightarrow>
              if cb_Turn b = '''' \<or> cb_RuntimeStoppedAt b = None then Inl ErrClosureSettlementUnsettled
              else case update_invocation mutationID
                  (\<lambda>v. iv_Turn v = cb_Turn b \<and> iv_Epoch v = cb_Epoch b \<and> iv_Mutation v
                       \<and> iv_State v \<in> {MutationUnknown, MutationReconciling})
                  (settled_row now state (map_option (je_Jsonb (te_Jobs env)) outcome) lastError) ErrMutationStateConflict db of
                Inl e \<Rightarrow> Inl e
              | Inr db1 \<Rightarrow> (case getMutationByID env mutationID db1 of Inl e \<Rightarrow> Inl e | Inr v \<Rightarrow> Inr (v, db1)))"

section \<open>The closure is settled\<close>

definition requireClosureRuntimeStopped :: "closure_barrier \<Rightarrow> turns_db \<Rightarrow> turn_error option" where
  "requireClosureRuntimeStopped b db =
     (if cb_Turn b = '''' \<or> cb_StopJob b = '''' then Some (JobsError ErrClosureSettlementFenceLost)
      else case job_by_id (td_Jobs db) (cb_StopJob b) of
        None \<Rightarrow> Some (JobsError ErrClosureSettlementFenceLost)
      | Some j \<Rightarrow>
          if cb_RuntimeStoppedAt b = None \<or> jb_Status j \<noteq> JobSucceeded then Some ErrClosureSettlementUnsettled else None)"

text \<open>What \<open>Job_Preparations\<close> says of the tables of jobs, as part of a closure.\<close>

definition cancelPendingAgentTurnPreparationsTx :: "instant \<Rightarrow> string \<Rightarrow> turns_db \<Rightarrow> turn_error + turns_db" where
  "cancelPendingAgentTurnPreparationsTx now workflow db =
     (case cancelPendingPreparations now workflow (td_Jobs db) of
        Inl _ \<Rightarrow> Inl TurnQuery
      | Inr jobs \<Rightarrow> Inr (db\<lparr>td_Jobs := jobs\<rparr>))"

text \<open>A live job that a closure cancels, with its attempt.\<close>

definition cancel_job :: "instant \<Rightarrow> string \<Rightarrow> job \<Rightarrow> turns_db \<Rightarrow> turn_error + turns_db" where
  "cancel_job now cause job db =
     (case cancel_live_job now cause ErrClosureSettlementFenceLost job (td_Jobs db) of
        Inl e \<Rightarrow> Inl (JobsError e)
      | Inr jobs \<Rightarrow> Inr (db\<lparr>td_Jobs := jobs\<rparr>))"

text \<open>A Turn whose execution is over is being corroborated: then its verifier is cancelled instead of its job.\<close>

definition settleClosedAgentTurnTx ::
  "turn_env \<Rightarrow> instant \<Rightarrow> closure_barrier \<Rightarrow> turns_db \<Rightarrow> turn_error + turns_db" where
  "settleClosedAgentTurnTx env now b db =
     (let lost = Inl (JobsError ErrClosureSettlementFenceLost) in
      case Option.bind (find (\<lambda>j. jb_Kind j = RunAgentTurnJobKind \<and> job_turn j = cb_Turn b \<and> job_epoch j = cb_Epoch b)
               (db_Jobs (td_Jobs db))) (scanJob (te_Jobs env)) of
        None \<Rightarrow> Inl TurnQuery
      | Some execution \<Rightarrow>
     (case (if jb_Status execution = JobSucceeded \<or> jb_Status execution = JobFailed
            then (case Option.bind (Option.bind (te_Verifier env (cb_Turn b) (cb_Epoch b)) (job_by_id (td_Jobs db)))
                         (scanJob (te_Jobs env)) of
                    None \<Rightarrow> lost
                  | Some verifier \<Rightarrow>
                      if jb_Kind verifier \<noteq> VerifyTerminalIntentJobKind \<or> job_turn verifier \<noteq> cb_Turn b
                         \<or> job_epoch verifier \<noteq> cb_Epoch b
                         \<or> jb_Status verifier \<noteq> JobAvailable \<and> jb_Status verifier \<noteq> JobLeased
                      then lost
                      else cancel_job now ''Issue closure cancelled terminal corroboration'' verifier db)
            else if jb_Status execution = JobLeased \<or> jb_Status execution = JobAvailable
            then cancel_job now ''Issue closure stopped Agent Turn'' execution db
            else lost) of
        Inl e \<Rightarrow> Inl e
      | Inr db1 \<Rightarrow>
          or_lost (JobsError ErrClosureSettlementFenceLost)
            (update_turn (cb_Turn b)
              (\<lambda>t. tr_Session t = cb_Session b \<and> tr_Attempt t = cb_Attempt b \<and> tr_Epoch t = cb_Epoch b
                   \<and> tr_ControlRevision t = cb_ControlRevision b \<and> tr_Status t = AgentTurnCancelling
                   \<and> \<not> tr_AdmissionOpen t \<and> tr_Active t)
              (\<lambda>t. (disowned t)\<lparr>tr_Status := AgentTurnInterrupted, tr_CompletedAt := Some now,
                     tr_LastError := Some ''Issue closure stopped Agent Turn''\<rparr>)
              (JobsError ErrClosureSettlementFenceLost) (delete_slot (\<lambda>s. sl_Turn s = cb_Turn b) db1))))"

text \<open>A settlement that is repeated finds the barrier that its job settled.\<close>

definition resolveCompletedClosureSettlement ::
  "turn_env \<Rightarrow> job_lease \<Rightarrow> turns_db \<Rightarrow> closure_barrier option" where
  "resolveCompletedClosureSettlement env lease db =
     (let l = jl_Job lease in
      if \<not> je_ValidUUID (te_Jobs env) (lease_id lease) \<or> \<not> je_ValidUUID (te_Jobs env) (lease_token lease)
         \<or> jl_Attempt lease \<le> 0 \<or> trims_to_empty (text_of (jb_LeaseOwner l))
      then None
      else case Option.bind (job_by_id (td_Jobs db) (lease_id lease)) (scanJob (te_Jobs env)) of
        None \<Rightarrow> None
      | Some job \<Rightarrow>
          if jb_Kind job \<noteq> SettleClosureJobKind \<or> jb_Queue job \<noteq> WorkflowActionQueue \<or> jb_Status job \<noteq> JobSucceeded
             \<or> jb_Scope job \<noteq> jb_Scope l \<or> jb_AttemptCount job \<noteq> jl_Attempt lease \<or> jb_Payload job \<noteq> jb_Payload l
          then None
          else if (case attempt_of (td_Jobs db) (lease_id lease) (jl_Attempt lease) of
                     None \<Rightarrow> True
                   | Some a \<Rightarrow> \<not> (Some (ja_LeaseOwner a) = jb_LeaseOwner l \<and> ja_LeaseToken a = lease_token lease
                                  \<and> ja_Status a = AttemptSucceeded))
          then None
          else find (\<lambda>b. cb_SettlementJob b = lease_id lease \<and> cb_SettledAt b \<noteq> None) (td_Closures db))"

text \<open>The settled barrier.\<close>

definition CompleteClosureSettlement ::
  "turn_env \<Rightarrow> instant \<Rightarrow> job_lease \<Rightarrow> turns_db \<Rightarrow> turn_error + closure_barrier \<times> turns_db" where
  "CompleteClosureSettlement env now lease db =
     (case lockClosureWorkflow (te_Jobs env) lease of
        Some e \<Rightarrow> Inl (JobsError e)
      | None \<Rightarrow>
     (case resolveCompletedClosureSettlement env lease db of
        Some b \<Rightarrow> Inr (b, db)
      | None \<Rightarrow>
     (case lockClosureBarrier env now lease SettleClosureJobKind db of
        Inl e \<Rightarrow> Inl e
      | Inr (job, b) \<Rightarrow>
     (case (if cb_Turn b = '''' then None
            else case requireClosureRuntimeStopped b db of
              Some e \<Rightarrow> Some e
            | None \<Rightarrow>
                if list_ex (\<lambda>v. iv_Turn v = cb_Turn b \<and> iv_Epoch v = cb_Epoch b \<and> iv_Mutation v
                              \<and> iv_State v \<in> set unsettled_states) (td_Invocations db)
                then Some ErrClosureSettlementUnsettled else None) of
        Some e \<Rightarrow> Inl e
      | None \<Rightarrow>
     (case cancelPendingAgentTurnPreparationsTx now (cb_Workflow b) db of
        Inl e \<Rightarrow> Inl e
      | Inr db1 \<Rightarrow>
     (case te_ClosureDecision env b of
        Some e \<Rightarrow> Inl e
      | None \<Rightarrow>
     (case (if cb_Turn b = '''' then Inr db1 else settleClosedAgentTurnTx env now b db1) of
        Inl e \<Rightarrow> Inl e
      | Inr db2 \<Rightarrow>
          let db3 = update_barrier b (\<lambda>c. c\<lparr>cb_SettledAt := Some now\<rparr>) db2 in
          (case completeAcknowledgementJobTx (te_Jobs env) now job (te_ClosureResult env b)
                  ErrClosureSettlementFenceLost (td_Jobs db3) of
             Inl e \<Rightarrow> Inl (JobsError e)
           | Inr jobs \<Rightarrow> Inr (b\<lparr>cb_SettledAt := Some now\<rparr>, db3\<lparr>td_Jobs := jobs\<rparr>)))))))))"

end
