(* ===== verification/Turn_Steps.thy ===== *)
theory Turn_Steps
  imports Turn_Endings
begin

text \<open>
  The operations on Turns in small steps: what may happen to a Turn and to its tool calls, and the
  invariant that these steps keep. \<open>Turn_Runs\<close> shows that every operation is made of them.
\<close>

section \<open>Tables\<close>

lemma row_of_Nil [simp]: "row_of key k [] = None"
  by (simp add: row_of_def)

lemma row_of_key: "row_of key k rows = Some r \<Longrightarrow> key r = k"
  by (auto simp: row_of_def find_Some_iff)

lemma row_of_set: "row_of key k rows = Some r \<Longrightarrow> r \<in> set rows"
  by (auto simp: row_of_def find_Some_iff)

lemma row_of_None: "row_of key k rows = None \<longleftrightarrow> k \<notin> key ` set rows"
  by (auto simp: row_of_def find_None_iff)

lemma row_of_mem:
  assumes "distinct (map key rows)" "r \<in> set rows"
  shows "row_of key (key r) rows = Some r"
  using assms by (induction rows) (auto simp: row_of_def)

lemma row_of_append [simp]:
  "row_of key k (rows @ [r]) = (case row_of key k rows of None \<Rightarrow> if key r = k then Some r else None | Some x \<Rightarrow> Some x)"
  by (induction rows) (simp_all add: row_of_def)

lemma row_of_map:
  assumes "\<And>r. r \<in> set rows \<Longrightarrow> key (g r) = key r"
  shows "row_of key k (map g rows) = map_option g (row_of key k rows)"
  using assms by (induction rows) (simp_all add: row_of_def)

lemma alter_map: "alter key k f rows = map (\<lambda>r. if key r = k then f r else r) rows"
  by (simp add: alter_def)

lemma row_of_alter:
  assumes "\<And>r. row_of key l rows = Some r \<Longrightarrow> key (f r) = l" "distinct (map key rows)"
  shows "row_of key k (alter key l f rows) = (if k = l then map_option f (row_of key l rows) else row_of key k rows)"
proof -
  have "key (if key r = l then f r else r) = key r" if "r \<in> set rows" for r
    using assms(1) row_of_mem [OF assms(2) that] by auto
  then have "row_of key k (alter key l f rows) = map_option (\<lambda>r. if key r = l then f r else r) (row_of key k rows)"
    unfolding alter_map by (rule row_of_map)
  then show ?thesis by (cases "row_of key k rows") (auto dest: row_of_key)
qed

lemma keys_alter:
  assumes "\<And>r. row_of key l rows = Some r \<Longrightarrow> key (f r) = l" "distinct (map key rows)"
  shows "map key (alter key l f rows) = map key rows"
  using assms(1) row_of_mem [OF assms(2)] by (force simp: alter_map)

section \<open>Turns and tool calls\<close>

definition waiting_turn :: "turn \<Rightarrow> bool" where
  "waiting_turn t \<longleftrightarrow> tr_Status t = AgentTurnQueued \<or> tr_Status t = AgentTurnStarting"

text \<open>A Turn is fenced once it was started and nobody owns it; it is closed once its recovery, if it has one,
  is over too.\<close>

definition fenced :: "turn \<Rightarrow> bool" where
  "fenced t \<longleftrightarrow> tr_OwnerToken t = None \<and> \<not> waiting_turn t"

definition closed :: "turn \<Rightarrow> bool" where
  "closed t \<longleftrightarrow> fenced t \<and> (case tr_Recovery t of None \<Rightarrow> True | Some b \<Rightarrow> rb_SettledAt b \<noteq> None)"

definition same_turn :: "turn \<Rightarrow> turn \<Rightarrow> bool" where
  "same_turn t u \<longleftrightarrow>
     tr_ID u = tr_ID t \<and> tr_Workflow u = tr_Workflow t \<and> tr_Session u = tr_Session t \<and> tr_Attempt u = tr_Attempt t
     \<and> tr_Lineage u = tr_Lineage t \<and> tr_RetryOf u = tr_RetryOf t \<and> tr_Number u = tr_Number t \<and> tr_Epoch u = tr_Epoch t
     \<and> tr_ControlRevision u = tr_ControlRevision t"

definition same_invocation :: "invocation \<Rightarrow> invocation \<Rightarrow> bool" where
  "same_invocation v w \<longleftrightarrow>
     iv_ID w = iv_ID v \<and> iv_Turn w = iv_Turn v \<and> iv_Epoch w = iv_Epoch v \<and> iv_Lineage w = iv_Lineage v
     \<and> iv_Number w = iv_Number v \<and> iv_Mutation w = iv_Mutation v \<and> iv_OperationID w = iv_OperationID v
     \<and> iv_Tool w = iv_Tool v \<and> iv_Request w = iv_Request v \<and> iv_ExternalService w = iv_ExternalService v
     \<and> iv_ExternalResource w = iv_ExternalResource v \<and> iv_ExpectedSHA w = iv_ExpectedSHA v
     \<and> iv_HistoryPublication w = iv_HistoryPublication v \<and> iv_AdmittedAt w = iv_AdmittedAt v"

text \<open>The life of a mutation: what is known of its outcome only grows, except that a failing runtime leaves an
  outcome unknown until it is reconciled.\<close>

inductive mutation_step :: "mutation_state \<Rightarrow> mutation_state \<Rightarrow> bool" where
  "mutation_step MutationReserved MutationInFlight"
| "mutation_step MutationReserved MutationFailed"
| "mutation_step MutationInFlight MutationSucceeded"
| "mutation_step MutationInFlight MutationFailed"
| "mutation_step MutationInFlight MutationUnknown"
| "mutation_step MutationUnknown MutationReconciling"
| "mutation_step MutationUnknown MutationSucceeded"
| "mutation_step MutationUnknown MutationFailed"
| "mutation_step MutationReconciling MutationSucceeded"
| "mutation_step MutationReconciling MutationFailed"

inductive_cases from_succeeded: "mutation_step MutationSucceeded s"
inductive_cases from_failed: "mutation_step MutationFailed s"
inductive_cases to_reserved: "mutation_step s MutationReserved"

definition terminal_state :: "mutation_state \<Rightarrow> bool" where
  "terminal_state s \<longleftrightarrow> s = MutationSucceeded \<or> s = MutationFailed"

text \<open>A mutation moves on, or its tip is recorded while it is in flight.\<close>

definition mutation_moves :: "invocation \<Rightarrow> invocation \<Rightarrow> bool" where
  "mutation_moves v w \<longleftrightarrow>
     iv_Mutation v \<and> same_invocation v w
     \<and> (mutation_step (iv_State v) (iv_State w) \<or> iv_State v = MutationInFlight \<and> iv_State w = MutationInFlight)"

lemma mutation_moves_not_terminal: "mutation_moves v w \<Longrightarrow> \<not> terminal_state (iv_State v)"
  by (auto simp: mutation_moves_def terminal_state_def elim: from_succeeded from_failed)

lemma mutation_moves_started: "mutation_moves v w \<Longrightarrow> iv_State w \<noteq> MutationReserved"
  by (auto simp: mutation_moves_def elim: to_reserved)

lemma terminal_unsettled: "terminal_state s \<longleftrightarrow> s \<notin> set unsettled_states"
  by (cases s) (simp_all add: terminal_state_def)

section \<open>Steps\<close>

definition started_turn :: "turn \<Rightarrow> bool" where
  "started_turn t \<longleftrightarrow> tr_OwnerToken t \<noteq> None \<and> \<not> waiting_turn t"

text \<open>A Turn holds its session as long as it is active or its recovery is not settled.\<close>

definition held :: "turn \<Rightarrow> bool" where
  "held t \<longleftrightarrow> tr_Active t \<or> (\<exists>b. tr_Recovery t = Some b \<and> rb_SettledAt b = None)"

text \<open>It has run, or was cancelled before.\<close>

definition stopped :: "turn \<Rightarrow> bool" where
  "stopped t \<longleftrightarrow> \<not> waiting_turn t \<and> tr_Status t \<noteq> AgentTurnRunning"

text \<open>How the row of a Turn may change: it is acquired, kept, or given up; a recovery begins and goes on. It
  is closed only when nothing is left unsettled, and stays closed; what it does not hold it never gets back, and
  what has stopped never runs again.\<close>

definition turn_moves :: "turns_db \<Rightarrow> turn \<Rightarrow> turn \<Rightarrow> bool" where
  "turn_moves db t u \<longleftrightarrow>
     same_turn t u \<and> tr_NextInvocation u = tr_NextInvocation t \<and> (closed t \<longrightarrow> closed u) \<and> \<not> waiting_turn u
     \<and> (tr_OwnerToken u \<noteq> None \<longrightarrow> tr_OwnerToken t = tr_OwnerToken u \<or> tr_OwnerToken t = None \<and> waiting_turn t)
     \<and> (tr_OwnerToken u \<noteq> None \<longrightarrow> tr_Active t \<longrightarrow> tr_Active u)
     \<and> (tr_OwnerToken u = None \<longrightarrow> tr_LeaseExpiresAt u = None)
     \<and> (held u \<longrightarrow> held t)
     \<and> (closed u \<longrightarrow> \<not> unsettledMutationsForTurn db t)
     \<and> (stopped t \<longrightarrow> stopped u)"

text \<open>The next number of a Turn's ledger is taken.\<close>

definition bumped :: "turn \<Rightarrow> turn" where
  "bumped r = r\<lparr>tr_NextInvocation := tr_NextInvocation r + 1\<rparr>"

text \<open>A mutation is admitted as reserved, by a running Turn whose admission is open; a read with its outcome.\<close>

definition call_admitted :: "turn \<Rightarrow> invocation \<Rightarrow> bool" where
  "call_admitted t v \<longleftrightarrow>
     (if iv_Mutation v
      then tr_AdmissionOpen t \<and> tr_Status t = AgentTurnRunning \<and> iv_State v = MutationReserved
        \<and> iv_StartedAt v = None \<and> iv_OperationID v \<noteq> None
      else terminal_state (iv_State v) \<and> iv_OperationID v = None)"

inductive turn_micro :: "turns_db \<Rightarrow> turns_db \<Rightarrow> bool" where
  other: "\<lbrakk>td_Turns u = td_Turns db; td_Invocations u = td_Invocations db; td_Replays u = td_Replays db\<rbrakk>
    \<Longrightarrow> turn_micro db u"
| queue: "\<lbrakk>td_Turns u = td_Turns db @ [t]; td_Invocations u = td_Invocations db; td_Replays u = td_Replays db;
     list_all (\<lambda>r. \<not> turn_conflict t r) (td_Turns db); t = prepared_turn t;
     tr_RetryOf t = '''' \<and> tr_Lineage t = tr_ID t
     \<or> (\<exists>r. turn_of db (tr_RetryOf t) = Some r \<and> tr_Lineage r = tr_Lineage t)\<rbrakk>
    \<Longrightarrow> turn_micro db u"
| move: "\<lbrakk>turn_of db i = Some t; turn_moves db t (f t); td_Turns u = alter tr_ID i f (td_Turns db);
     td_Invocations u = td_Invocations db; td_Replays u = td_Replays db;
     list_all (\<lambda>r. tr_ID r \<noteq> i \<longrightarrow> \<not> turn_conflict (f t) r) (td_Turns db)\<rbrakk>
    \<Longrightarrow> turn_micro db u"
| admit: "\<lbrakk>turn_of db i = Some t; started_turn t; td_Replays u = td_Replays db;
     td_Turns u = alter tr_ID i bumped (td_Turns db);
     td_Invocations u = td_Invocations db @ [v]; list_all (\<lambda>w. \<not> invocation_conflict v w) (td_Invocations db);
     iv_Turn v = i; iv_Epoch v = tr_Epoch t; iv_Lineage v = tr_Lineage t; iv_Number v = tr_NextInvocation t;
     call_admitted t v\<rbrakk>
    \<Longrightarrow> turn_micro db u"
| project: "\<lbrakk>turn_of db i = Some t; started_turn t; td_Invocations u = td_Invocations db;
     td_Turns u = alter tr_ID i bumped (td_Turns db);
     td_Replays u = td_Replays db @ [r]; rp_Turn r = i; rp_Number r = tr_NextInvocation t;
     invocation_of db (rp_Source r) = Some v; iv_Mutation v; terminal_state (iv_State v); iv_Turn v = rp_SourceTurn r;
     iv_Lineage v = tr_Lineage t; rp_SourceTurn r \<noteq> i;
     rp_SourceTurn r \<in> set (retried_turns (length (td_Turns db)) db i);
     rp_Epoch r = tr_Epoch t; rp_SourceEpoch r = iv_Epoch v; rp_Lineage r = tr_Lineage t\<rbrakk>
    \<Longrightarrow> turn_micro db u"
| settle: "\<lbrakk>td_Turns u = td_Turns db; td_Replays u = td_Replays db; td_Invocations u = map g (td_Invocations db);
     \<And>v. v \<in> set (td_Invocations db) \<Longrightarrow> g v \<noteq> v \<Longrightarrow>
       mutation_moves v (g v) \<and> (\<exists>t. turn_of db (iv_Turn v) = Some t \<and> \<not> closed t \<and> \<not> waiting_turn t)\<rbrakk>
    \<Longrightarrow> turn_micro db u"

section \<open>The invariant\<close>

definition calls_ok :: "turns_db \<Rightarrow> bool" where
  "calls_ok db \<longleftrightarrow> (\<forall>v \<in> set (td_Invocations db). \<exists>t. turn_of db (iv_Turn v) = Some t \<and> \<not> waiting_turn t
     \<and> iv_Epoch v = tr_Epoch t \<and> iv_Lineage v = tr_Lineage t \<and> 0 < iv_Number v \<and> iv_Number v < tr_NextInvocation t
     \<and> (if iv_Mutation v then iv_OperationID v \<noteq> None else terminal_state (iv_State v))
     \<and> (iv_State v = MutationReserved \<longrightarrow> iv_StartedAt v = None))"

definition operations_ok :: "turns_db \<Rightarrow> bool" where
  "operations_ok db \<longleftrightarrow> (\<forall>v \<in> set (td_Invocations db). \<forall>w \<in> set (td_Invocations db).
     iv_Mutation v \<and> iv_Mutation w \<and> iv_Lineage v = iv_Lineage w \<and> iv_Tool v = iv_Tool w
     \<and> iv_OperationID v = iv_OperationID w \<longrightarrow> v = w)"

definition owners_ok :: "turns_db \<Rightarrow> bool" where
  "owners_ok db \<longleftrightarrow> (\<forall>t \<in> set (td_Turns db). (tr_OwnerToken t \<noteq> None \<longrightarrow> \<not> waiting_turn t)
     \<and> (tr_OwnerToken t = None \<longrightarrow> tr_LeaseExpiresAt t = None) \<and> 0 < tr_NextInvocation t
     \<and> (closed t \<longrightarrow> \<not> unsettledMutationsForTurn db t) \<and> (tr_OwnerToken t \<noteq> None \<or> waiting_turn t \<longrightarrow> tr_Active t))"

definition replays_ok :: "turns_db \<Rightarrow> bool" where
  "replays_ok db \<longleftrightarrow> (\<forall>r \<in> set (td_Replays db). \<exists>t v. turn_of db (rp_Turn r) = Some t \<and> 0 < rp_Number r
     \<and> rp_Number r < tr_NextInvocation t \<and> invocation_of db (rp_Source r) = Some v \<and> iv_Mutation v
     \<and> terminal_state (iv_State v) \<and> iv_Turn v = rp_SourceTurn r \<and> iv_Lineage v = tr_Lineage t
     \<and> rp_SourceTurn r \<noteq> rp_Turn r
     \<and> rp_SourceTurn r \<in> set (retried_turns (length (td_Turns db)) db (rp_Turn r))
     \<and> rp_Epoch r = tr_Epoch t \<and> rp_SourceEpoch r = iv_Epoch v \<and> rp_Lineage r = tr_Lineage t)"

definition ledger_numbers :: "turns_db \<Rightarrow> (string \<times> int64) list" where
  "ledger_numbers db =
     map (\<lambda>v. (iv_Turn v, iv_Number v)) (td_Invocations db) @ map (\<lambda>r. (rp_Turn r, rp_Number r)) (td_Replays db)"

text \<open>A Turn retries one that was queued before it.\<close>

definition retries_ok :: "turn list \<Rightarrow> bool" where
  "retries_ok ts \<longleftrightarrow>
     (\<forall>k < length ts. tr_RetryOf (ts ! k) = '''' \<or> tr_RetryOf (ts ! k) \<in> tr_ID ` set (take k ts))"

text \<open>One Turn at a time in a session, and in a Workflow.\<close>

definition rivals :: "turn \<Rightarrow> turn \<Rightarrow> bool" where
  "rivals t u \<longleftrightarrow> tr_Active t \<and> tr_Active u \<and> (tr_Session t = tr_Session u \<or> tr_Workflow t = tr_Workflow u)"

definition one_active :: "turn list \<Rightarrow> bool" where
  "one_active ts \<longleftrightarrow> (\<forall>t \<in> set ts. \<forall>u \<in> set ts. rivals t u \<longrightarrow> tr_ID t = tr_ID u)"

definition turns_ok :: "turns_db \<Rightarrow> bool" where
  "turns_ok db \<longleftrightarrow> distinct (map tr_ID (td_Turns db)) \<and> distinct (map iv_ID (td_Invocations db)) \<and> calls_ok db
     \<and> operations_ok db \<and> owners_ok db \<and> replays_ok db \<and> distinct (ledger_numbers db) \<and> retries_ok (td_Turns db)
     \<and> one_active (td_Turns db)"

lemma turns_okD:
  assumes "turns_ok db"
  shows "distinct (map tr_ID (td_Turns db))" "distinct (map iv_ID (td_Invocations db))" "calls_ok db" "operations_ok db"
    "owners_ok db" "replays_ok db" "distinct (ledger_numbers db)" "retries_ok (td_Turns db)" "one_active (td_Turns db)"
  using assms by (simp_all add: turns_ok_def)

lemma turn_mem: "turns_ok db \<Longrightarrow> t \<in> set (td_Turns db) \<longleftrightarrow> turn_of db (tr_ID t) = Some t"
  by (metis row_of_mem row_of_set turns_okD(1))

lemma call_mem: "turns_ok db \<Longrightarrow> v \<in> set (td_Invocations db) \<longleftrightarrow> invocation_of db (iv_ID v) = Some v"
  by (metis row_of_mem row_of_set turns_okD(2))

lemma owners_okD:
  assumes "turns_ok db" "turn_of db i = Some t"
  shows "tr_OwnerToken t \<noteq> None \<Longrightarrow> started_turn t" "0 < tr_NextInvocation t" "closed t \<Longrightarrow> \<not> unsettledMutationsForTurn db t"
    "tr_OwnerToken t = None \<Longrightarrow> tr_LeaseExpiresAt t = None" "tr_OwnerToken t \<noteq> None \<or> waiting_turn t \<Longrightarrow> tr_Active t"
  using turns_okD(5) [OF assms(1)] row_of_set [OF assms(2)] by (auto simp: owners_ok_def started_turn_def)

lemma started_held:
  assumes "turns_ok db" "turn_of db i = Some t" "started_turn t"
  shows "held t" "tr_Active t"
  using owners_okD(5) [OF assms(1,2)] assms(3) by (auto simp: started_turn_def held_def)

lemma calls_okE:
  assumes "turns_ok db" "invocation_of db m = Some v"
  obtains t where "turn_of db (iv_Turn v) = Some t" "\<not> waiting_turn t" "iv_Epoch v = tr_Epoch t"
    "iv_Lineage v = tr_Lineage t" "0 < iv_Number v" "iv_Number v < tr_NextInvocation t"
    "iv_Mutation v \<Longrightarrow> iv_OperationID v \<noteq> None" "\<not> iv_Mutation v \<Longrightarrow> terminal_state (iv_State v)"
    "iv_State v = MutationReserved \<Longrightarrow> iv_StartedAt v = None"
  using turns_okD(3) [OF assms(1)] row_of_set [OF assms(2)] unfolding calls_ok_def by (metis (full_types))

section \<open>What a step does to one row\<close>

lemma bumped_sel [simp]:
  "same_turn t (bumped t)" "tr_NextInvocation (bumped t) = tr_NextInvocation t + 1" "tr_ID (bumped t) = tr_ID t"
  "closed (bumped t) = closed t" "fenced (bumped t) = fenced t" "waiting_turn (bumped t) = waiting_turn t"
  "tr_OwnerToken (bumped t) = tr_OwnerToken t" "tr_LeaseExpiresAt (bumped t) = tr_LeaseExpiresAt t" "tr_RetryOf (bumped t) = tr_RetryOf t" "tr_Epoch (bumped t) = tr_Epoch t"
  by (simp_all add: bumped_def same_turn_def closed_def fenced_def waiting_turn_def)

lemma bumped_held [simp]: "held (bumped t) \<longleftrightarrow> held t" "tr_Active (bumped t) \<longleftrightarrow> tr_Active t"
  "stopped (bumped t) \<longleftrightarrow> stopped t" "rivals (bumped t) r \<longleftrightarrow> rivals t r" "rivals r (bumped t) \<longleftrightarrow> rivals r t"
  by (simp_all add: held_def bumped_def stopped_def waiting_turn_def rivals_def)

lemma same_turn_refl [simp]: "same_turn t t"
  by (simp add: same_turn_def)

lemma turn_movesD:
  assumes "turn_moves db t u"
  shows "same_turn t u" "tr_ID u = tr_ID t" "tr_NextInvocation u = tr_NextInvocation t" "closed t \<Longrightarrow> closed u" "\<not> waiting_turn u"
    "tr_OwnerToken u \<noteq> None \<Longrightarrow> tr_OwnerToken t = tr_OwnerToken u \<or> tr_OwnerToken t = None \<and> waiting_turn t"
    "tr_OwnerToken u \<noteq> None \<Longrightarrow> tr_Active t \<Longrightarrow> tr_Active u" "closed u \<Longrightarrow> \<not> unsettledMutationsForTurn db t"
    "tr_OwnerToken u = None \<Longrightarrow> tr_LeaseExpiresAt u = None" "held u \<Longrightarrow> held t" "stopped t \<Longrightarrow> stopped u"
  using assms by (simp_all add: turn_moves_def same_turn_def)

lemma turn_step_cases:
  assumes "turn_micro db u" "turns_ok db" "turn_of db i = Some t"
  obtains t' where "turn_of u i = Some t'"
    "t' = t \<or> started_turn t \<and> t' = bumped t \<or> turn_moves db t t' \<and> td_Invocations u = td_Invocations db"
  using assms(1)
proof cases
  case other
  then show thesis using that assms(3) by simp
next
  case (queue r)
  then show thesis using that assms(3) by simp
next
  case (move j r f)
  have id: "tr_ID (f s) = j" if "turn_of db j = Some s" for s
    using turn_movesD(2) [OF move(2)] that move(1) row_of_key [OF that] by simp
  show thesis
    using that assms(3) move(1,2) row_of_alter [where key = tr_ID and f = f, OF id turns_okD(1) [OF assms(2)], of i]
    by (cases "i = j") (auto simp: move(3,4))
next
  case (admit j r v)
  have id: "tr_ID (bumped s) = j" if "turn_of db j = Some s" for s using row_of_key [OF that] by simp
  show thesis
    using that assms(3) admit(1,2) row_of_alter [where key = tr_ID and f = bumped, OF id turns_okD(1) [OF assms(2)], of i]
    by (cases "i = j") (auto simp: admit(4))
next
  case (project j r p v)
  have id: "tr_ID (bumped s) = j" if "turn_of db j = Some s" for s using row_of_key [OF that] by simp
  show thesis
    using that assms(3) project(1,2) row_of_alter [where key = tr_ID and f = bumped, OF id turns_okD(1) [OF assms(2)], of i]
    by (cases "i = j") (auto simp: project(4))
next
  case (settle g)
  then show thesis using that assms(3) by simp
qed

lemma call_step_cases:
  assumes "turn_micro db u" "turns_ok db" "invocation_of db m = Some v"
  obtains "invocation_of u m = Some v"
  | w t where "invocation_of u m = Some w" "mutation_moves v w" "turn_of db (iv_Turn v) = Some t" "\<not> closed t" "\<not> waiting_turn t"
  using assms(1)
proof cases
  case (admit j r w)
  then show thesis using that(1) assms(3) by simp
next
  case (settle g)
  have moves: "mutation_moves w (g w)" if "w \<in> set (td_Invocations db)" "g w \<noteq> w" for w using settle(4) [OF that] by blast
  then have "iv_ID (g w) = iv_ID w" if "w \<in> set (td_Invocations db)" for w
    using that by (cases "g w = w") (auto simp: mutation_moves_def same_invocation_def)
  from row_of_map [where key = iv_ID and g = g, OF this] have "invocation_of u m = Some (g v)"
    using assms(3) by (simp add: settle(3))
  then show thesis using that settle(4) [OF row_of_set [OF assms(3)]] by (cases "g v = v") auto
qed (use that(1) assms(3) in simp_all)

text \<open>A tool call that a step adds.\<close>

lemma call_step_new:
  assumes "turn_micro db u" "turns_ok db" "invocation_of u m = Some w" "invocation_of db m = None"
  obtains t where "turn_of db (iv_Turn w) = Some t" "started_turn t" "iv_Epoch w = tr_Epoch t" "iv_Lineage w = tr_Lineage t"
    "iv_Number w = tr_NextInvocation t" "td_Invocations u = td_Invocations db @ [w]"
    "list_all (\<lambda>v. \<not> invocation_conflict w v) (td_Invocations db)" "call_admitted t w"
  using assms(1)
proof cases
  case (admit j r v)
  have "w = v" using assms(3,4) admit(5) by (simp split: if_split_asm)
  then show thesis using that [of r] admit by simp
next
  case (settle g)
  have moves: "mutation_moves w (g w)" if "w \<in> set (td_Invocations db)" "g w \<noteq> w" for w using settle(4) [OF that] by blast
  then have "iv_ID (g w) = iv_ID w" if "w \<in> set (td_Invocations db)" for w
    using that by (cases "g w = w") (auto simp: mutation_moves_def same_invocation_def)
  from row_of_map [where key = iv_ID and g = g, OF this] have False using assms(3,4) by (simp add: settle(3))
  then show thesis ..
qed (use assms(3,4) in simp_all)

lemma started_not_closed: "started_turn t \<Longrightarrow> \<not> closed t \<and> \<not> fenced t \<and> \<not> waiting_turn t"
  by (simp add: started_turn_def closed_def fenced_def)

text \<open>What stays of a row, whatever the step.\<close>

lemma turn_kept:
  assumes "turn_micro db u" "turns_ok db" "turn_of db i = Some t"
  obtains t' where "turn_of u i = Some t'" "same_turn t t'" "tr_NextInvocation t \<le> tr_NextInvocation t'"
    "\<not> waiting_turn t \<Longrightarrow> \<not> waiting_turn t'" "closed t \<Longrightarrow> closed t'" "held t' \<Longrightarrow> held t" "stopped t \<Longrightarrow> stopped t'"
proof -
  from turn_step_cases [OF assms] obtain t' where t': "turn_of u i = Some t'"
    "t' = t \<or> started_turn t \<and> t' = bumped t \<or> turn_moves db t t' \<and> td_Invocations u = td_Invocations db" .
  from t'(2) consider "t' = t" | "started_turn t" "t' = bumped t" | "turn_moves db t t'" by blast
  then show thesis
  proof cases
    case 1
    then show thesis using that [OF t'(1)] by simp
  next
    case 2
    then show thesis using that [OF t'(1)] started_not_closed [of t] by simp
  next
    case 3
    from turn_movesD [OF this] show thesis using that [OF t'(1)] by simp
  qed
qed

lemma call_kept:
  assumes "turn_micro db u" "turns_ok db" "invocation_of db m = Some v"
  obtains w where "invocation_of u m = Some w" "w = v \<or> mutation_moves v w" "same_invocation v w"
    "terminal_state (iv_State v) \<Longrightarrow> w = v"
  using call_step_cases [OF assms]
proof cases
  case 1
  then show thesis using that [of v] by (simp add: same_invocation_def)
next
  case (2 w t)
  then show thesis using that [of w] mutation_moves_not_terminal [of v w] by (simp add: mutation_moves_def)
qed

lemma same_invocationD:
  assumes "same_invocation v w"
  shows "iv_ID w = iv_ID v" "iv_Turn w = iv_Turn v" "iv_Epoch w = iv_Epoch v" "iv_Lineage w = iv_Lineage v"
    "iv_Number w = iv_Number v" "iv_Mutation w = iv_Mutation v" "iv_OperationID w = iv_OperationID v" "iv_Tool w = iv_Tool v"
  using assms by (simp_all add: same_invocation_def)

lemma same_turnD:
  assumes "same_turn t u"
  shows "tr_ID u = tr_ID t" "tr_Session u = tr_Session t" "tr_Attempt u = tr_Attempt t" "tr_Lineage u = tr_Lineage t"
    "tr_RetryOf u = tr_RetryOf t" "tr_Epoch u = tr_Epoch t" "tr_ControlRevision u = tr_ControlRevision t"
  using assms by (simp_all add: same_turn_def)

lemma own_mutation_same: "same_turn t u \<Longrightarrow> own_mutation u = own_mutation t"
  by (simp add: same_turn_def own_mutation_def fun_eq_iff)

lemma same_turn_trans: "same_turn t u \<Longrightarrow> same_turn u v \<Longrightarrow> same_turn t v"
  by (simp add: same_turn_def)

lemma same_invocation_trans: "same_invocation t u \<Longrightarrow> same_invocation u v \<Longrightarrow> same_invocation t v"
  by (simp add: same_invocation_def)

section \<open>The invariant is kept\<close>

lemma settled_key:
  assumes "\<And>v. v \<in> set vs \<Longrightarrow> g v \<noteq> v \<Longrightarrow> mutation_moves v (g v) \<and> P v" "v \<in> set vs"
  shows "same_invocation v (g v)"
  using assms by (cases "g v = v") (auto simp: mutation_moves_def same_invocation_def)

lemma retries_ok_same:
  assumes "map tr_ID ts = map tr_ID us" "map tr_RetryOf ts = map tr_RetryOf us" "retries_ok ts"
  shows "retries_ok us"
  unfolding retries_ok_def
proof (intro allI impI)
  fix k assume k: "k < length us"
  have l: "length ts = length us" using assms(1) by (metis length_map)
  have t: "tr_ID ` set (take k us) = tr_ID ` set (take k ts)"
    using assms(1) by (metis list.set_map take_map)
  have r: "tr_RetryOf (us ! k) = tr_RetryOf (ts ! k)"
    using assms(2) k l by (metis nth_map)
  from k l have k': "k < length ts" by simp
  from assms(3) k' show "tr_RetryOf (us ! k) = '''' \<or> tr_RetryOf (us ! k) \<in> tr_ID ` set (take k us)"
    unfolding retries_ok_def t r by blast
qed

lemma retries_ok_append:
  assumes "retries_ok ts" "tr_RetryOf t = '''' \<or> tr_RetryOf t \<in> tr_ID ` set ts"
  shows "retries_ok (ts @ [t])"
  using assms by (auto simp: retries_ok_def nth_append less_Suc_eq)

lemma micro_turns:
  assumes "turn_micro db u" "turns_ok db"
  shows "distinct (map tr_ID (td_Turns u)) \<and> retries_ok (td_Turns u) \<and> length (td_Turns db) \<le> length (td_Turns u)"
proof -
  note D = turns_okD(1,8) [OF assms(2)]
  have alter: "distinct (map tr_ID (alter tr_ID j f (td_Turns db))) \<and> retries_ok (alter tr_ID j f (td_Turns db))
      \<and> length (td_Turns db) \<le> length (alter tr_ID j f (td_Turns db))"
    if f: "\<And>s. turn_of db j = Some s \<Longrightarrow> tr_ID (f s) = tr_ID s \<and> tr_RetryOf (f s) = tr_RetryOf s" for j f
  proof -
    have ids: "map tr_ID (alter tr_ID j f (td_Turns db)) = map tr_ID (td_Turns db)"
      using f row_of_mem [OF D(1)] by (force simp: alter_map)
    have retries: "map tr_RetryOf (alter tr_ID j f (td_Turns db)) = map tr_RetryOf (td_Turns db)"
      using f row_of_mem [OF D(1)] by (force simp: alter_map)
    have "length (td_Turns db) \<le> length (alter tr_ID j f (td_Turns db))" by (simp add: alter_map)
    then show ?thesis using D(1) retries_ok_same [OF ids [symmetric] retries [symmetric] D(2)] unfolding ids by blast
  qed
  from assms(1) show ?thesis
  proof cases
    case (queue t)
    have "tr_ID t \<notin> tr_ID ` set (td_Turns db)" using queue(4) by (auto simp: list_all_iff turn_conflict_def)
    moreover have "tr_RetryOf t = '''' \<or> tr_RetryOf t \<in> tr_ID ` set (td_Turns db)"
      using queue(6) row_of_None [of tr_ID "tr_RetryOf t" "td_Turns db"] by auto
    ultimately show ?thesis using D by (simp add: queue(1) retries_ok_append)
  next
    case (move i t f)
    show ?thesis unfolding move(3) by (rule alter) (use move(1,2) turn_movesD(1) [OF move(2)] in \<open>simp add: same_turnD\<close>)
  next
    case (admit i t v)
    show ?thesis unfolding admit(4) by (rule alter) simp
  next
    case (project i t r v)
    show ?thesis unfolding project(4) by (rule alter) simp
  qed (use D in simp_all)
qed

lemma micro_call_ids:
  assumes "turn_micro db u" "turns_ok db"
  shows "distinct (map iv_ID (td_Invocations u))"
  using assms(1)
proof cases
  case (admit i t v)
  then show ?thesis using turns_okD(2) [OF assms(2)] by (auto simp: list_all_iff invocation_conflict_def)
next
  case (settle g)
  have "map iv_ID (map g (td_Invocations db)) = map iv_ID (td_Invocations db)"
    using settled_key [OF settle(4)] by (simp add: same_invocationD)
  then show ?thesis using turns_okD(2) [OF assms(2)] unfolding settle(3) by argo
qed (use turns_okD(2) [OF assms(2)] in simp_all)

text \<open>A tool call of the table that a step leaves is an old one, possibly moved on, or the new one.\<close>

lemma call_origin:
  assumes "turn_micro db u" "turns_ok db" "w \<in> set (td_Invocations u)"
  obtains (old) v where "invocation_of db (iv_ID w) = Some v" "same_invocation v w" "w = v \<or> mutation_moves v w"
  | (new) "invocation_of db (iv_ID w) = None" "invocation_of u (iv_ID w) = Some w"
proof -
  have w: "invocation_of u (iv_ID w) = Some w" by (rule row_of_mem [OF micro_call_ids [OF assms(1,2)] assms(3)])
  show thesis
  proof (cases "invocation_of db (iv_ID w)")
    case None
    then show thesis using w by (rule new)
  next
    case (Some v)
    from call_kept [OF assms(1,2) Some] obtain w' where "invocation_of u (iv_ID w) = Some w'" "w' = v \<or> mutation_moves v w'"
      "same_invocation v w'" by blast
    with w show thesis by (intro old [OF Some]) simp_all
  qed
qed

lemma micro_calls:
  assumes "turn_micro db u" "turns_ok db"
  shows "calls_ok u"
  unfolding calls_ok_def
proof
  fix w assume w: "w \<in> set (td_Invocations u)"
  show "\<exists>t. turn_of u (iv_Turn w) = Some t \<and> \<not> waiting_turn t \<and> iv_Epoch w = tr_Epoch t \<and> iv_Lineage w = tr_Lineage t
     \<and> 0 < iv_Number w \<and> iv_Number w < tr_NextInvocation t
     \<and> (if iv_Mutation w then iv_OperationID w \<noteq> None else terminal_state (iv_State w))
     \<and> (iv_State w = MutationReserved \<longrightarrow> iv_StartedAt w = None)"
    using assms w
  proof (cases rule: call_origin)
    case (old v)
    from calls_okE [OF assms(2) old(1)] obtain t where t: "turn_of db (iv_Turn v) = Some t" "\<not> waiting_turn t"
      "iv_Epoch v = tr_Epoch t" "iv_Lineage v = tr_Lineage t" "0 < iv_Number v" "iv_Number v < tr_NextInvocation t"
      "iv_Mutation v \<Longrightarrow> iv_OperationID v \<noteq> None" "\<not> iv_Mutation v \<Longrightarrow> terminal_state (iv_State v)"
      "iv_State v = MutationReserved \<Longrightarrow> iv_StartedAt v = None" by blast
    from turn_kept [OF assms t(1)] obtain t' where t': "turn_of u (iv_Turn v) = Some t'" "same_turn t t'"
      "tr_NextInvocation t \<le> tr_NextInvocation t'" "\<not> waiting_turn t \<Longrightarrow> \<not> waiting_turn t'" by blast
    have "\<not> iv_Mutation v \<Longrightarrow> w = v" using old(3) by (auto simp: mutation_moves_def)
    moreover have "iv_State w = MutationReserved \<longrightarrow> iv_StartedAt w = None"
      using old(3) t(9) mutation_moves_started [of v w] by auto
    ultimately show ?thesis using t t' same_turnD [OF t'(2)] same_invocationD [OF old(2)] by auto
  next
    case new
    from call_step_new [OF assms new(2,1)] obtain t where t: "turn_of db (iv_Turn w) = Some t" "started_turn t"
      "iv_Epoch w = tr_Epoch t" "iv_Lineage w = tr_Lineage t" "iv_Number w = tr_NextInvocation t"
      "td_Invocations u = td_Invocations db @ [w]" "call_admitted t w" by blast
    from assms(1) obtain t' where t': "turn_of u (iv_Turn w) = Some t'" "t' = bumped t"
    proof cases
      case (admit i r v)
      have v: "w = v" using admit(5) t(6) by simp
      have id: "tr_ID (bumped s) = i" if "turn_of db i = Some s" for s using row_of_key [OF that] by simp
      from row_of_alter [where key = tr_ID and f = bumped, OF id turns_okD(1) [OF assms(2)], of i] show thesis
        using that [of "bumped t"] admit(1,7) v t(1) by (simp add: admit(4))
    next
      case (settle g)
      have "length (td_Invocations u) = length (td_Invocations db)" by (simp add: settle(3))
      with t(6) show thesis by simp
    qed (use t(6) in simp_all)
    have "tr_Lineage (bumped t) = tr_Lineage t" by (simp add: bumped_def)
    with t t' owners_okD(2) [OF assms(2) t(1)] show ?thesis
      by (auto simp: started_turn_def call_admitted_def terminal_state_def split: if_split_asm)
  qed
qed

lemma micro_operations:
  assumes "turn_micro db u" "turns_ok db"
  shows "operations_ok u"
  unfolding operations_ok_def
proof (intro ballI impI)
  have clash: "False" if x: "invocation_of db (iv_ID x) = None" "invocation_of u (iv_ID x) = Some x"
    and y: "invocation_of db (iv_ID y) = Some v" "same_invocation v y" and m: "iv_Mutation x" "iv_Mutation y"
    and e: "iv_Lineage x = iv_Lineage y" "iv_Tool x = iv_Tool y" "iv_OperationID x = iv_OperationID y" for x y v
  proof -
    have n: "list_all (\<lambda>v. \<not> invocation_conflict x v) (td_Invocations db) \<and> (iv_Mutation x \<longrightarrow> iv_OperationID x \<noteq> None)"
      by (rule call_step_new [OF assms x(2,1)]) (simp add: call_admitted_def)
    from n row_of_set [OF y(1)] have "\<not> invocation_conflict x v" by (simp add: list_all_iff)
    with n show False using m e same_invocationD [OF y(2)] by (simp add: invocation_conflict_def)
  qed
  fix w y assume w: "w \<in> set (td_Invocations u)" and y: "y \<in> set (td_Invocations u)"
    and same: "iv_Mutation w \<and> iv_Mutation y \<and> iv_Lineage w = iv_Lineage y \<and> iv_Tool w = iv_Tool y
      \<and> iv_OperationID w = iv_OperationID y"
  have mem: "invocation_of u (iv_ID w) = Some w" "invocation_of u (iv_ID y) = Some y"
    using row_of_mem [OF micro_call_ids [OF assms]] w y by blast+
  show "w = y" using assms w
  proof (cases rule: call_origin)
    case w': (old v)
    show ?thesis using assms y
    proof (cases rule: call_origin)
      case y': (old x)
      from same same_invocationD [OF w'(2)] same_invocationD [OF y'(2)] have "iv_Mutation v \<and> iv_Mutation x
        \<and> iv_Lineage v = iv_Lineage x \<and> iv_Tool v = iv_Tool x \<and> iv_OperationID v = iv_OperationID x" by simp
      with turns_okD(4) [OF assms(2), unfolded operations_ok_def, rule_format, of v x] row_of_set [OF w'(1)]
        row_of_set [OF y'(1)] have "v = x" by simp
      with row_of_key [OF w'(1)] row_of_key [OF y'(1)] have "iv_ID w = iv_ID y" by simp
      with mem show ?thesis by (metis option.inject)
    next
      case new
      from clash [OF new w'(1,2)] same show ?thesis by simp
    qed
  next
    case w': new
    show ?thesis using assms y
    proof (cases rule: call_origin)
      case (old x)
      from clash [OF w' old(1,2)] same show ?thesis by simp
    next
      case y': new
      from call_step_new [OF assms w'(2,1)] have "td_Invocations u = td_Invocations db @ [w]" .
      moreover from call_step_new [OF assms y'(2,1)] have "td_Invocations u = td_Invocations db @ [y]" .
      ultimately show ?thesis by simp
    qed
  qed
qed

lemma prepared_turn_fresh:
  assumes "t = prepared_turn t"
  shows "tr_OwnerToken t = None" "waiting_turn t" "tr_NextInvocation t = 1" "tr_LeaseExpiresAt t = None" "tr_Active t"
proof -
  have "tr_OwnerToken (prepared_turn t) = None" "waiting_turn (prepared_turn t)" "tr_NextInvocation (prepared_turn t) = 1"
    "tr_LeaseExpiresAt (prepared_turn t) = None" "tr_Active (prepared_turn t)"
    by (simp_all add: prepared_turn_def waiting_turn_def)
  with assms show "tr_OwnerToken t = None" "waiting_turn t" "tr_NextInvocation t = 1" "tr_LeaseExpiresAt t = None" "tr_Active t"
    by simp_all
qed

lemma micro_owners:
  assumes "turn_micro db u" "turns_ok db"
  shows "owners_ok u"
  unfolding owners_ok_def
proof
  fix t' assume mem: "t' \<in> set (td_Turns u)"
  let ?i = "tr_ID t'"
  have t': "turn_of u ?i = Some t'" using row_of_mem [OF _ mem] micro_turns [OF assms] by blast
  show "(tr_OwnerToken t' \<noteq> None \<longrightarrow> \<not> waiting_turn t') \<and> (tr_OwnerToken t' = None \<longrightarrow> tr_LeaseExpiresAt t' = None)
    \<and> 0 < tr_NextInvocation t' \<and> (closed t' \<longrightarrow> \<not> unsettledMutationsForTurn u t')
    \<and> (tr_OwnerToken t' \<noteq> None \<or> waiting_turn t' \<longrightarrow> tr_Active t')"
  proof (cases "turn_of db ?i")
    case None
    from assms(1) obtain t where "td_Turns u = td_Turns db @ [t]" "t = prepared_turn t"
    proof cases
      case (move i t f)
      have id: "tr_ID (f s) = i" if "turn_of db i = Some s" for s
        using turn_movesD(2) [OF move(2)] that move(1) row_of_key [OF that] by simp
      from row_of_alter [where key = tr_ID and f = f, OF id turns_okD(1) [OF assms(2)], of ?i] None t' move(1)
      show thesis by (simp add: move(3) split: if_split_asm)
    next
      case (admit i t v)
      have id: "tr_ID (bumped s) = i" if "turn_of db i = Some s" for s using row_of_key [OF that] by simp
      from row_of_alter [where key = tr_ID and f = bumped, OF id turns_okD(1) [OF assms(2)], of ?i] None t' admit(1)
      show thesis by (simp add: admit(4) split: if_split_asm)
    next
      case (project i t r v)
      have id: "tr_ID (bumped s) = i" if "turn_of db i = Some s" for s using row_of_key [OF that] by simp
      from row_of_alter [where key = tr_ID and f = bumped, OF id turns_okD(1) [OF assms(2)], of ?i] None t' project(1)
      show thesis by (simp add: project(4) split: if_split_asm)
    qed (use None t' that in simp_all)
    with None t' have "t' = prepared_turn t'" by (simp split: if_split_asm)
    from prepared_turn_fresh [OF this] show ?thesis by (simp add: closed_def fenced_def)
  next
    case (Some t)
    note okt = owners_okD [OF assms(2) Some]
    from turn_step_cases [OF assms Some] t' consider "t' = t" | "started_turn t" "t' = bumped t"
      | "turn_moves db t t'" "td_Invocations u = td_Invocations db" by (metis option.inject)
    then show ?thesis
    proof cases
      case 1
      have "\<not> unsettledMutationsForTurn u t" if c: "closed t"
      proof
        assume "unsettledMutationsForTurn u t"
        then obtain w where w: "w \<in> set (td_Invocations u)" "own_mutation t unsettled_states w"
          by (auto simp: unsettledMutationsForTurn_def list_ex_iff)
        from assms w(1) show False
        proof (cases rule: call_origin)
          case (old v)
          have turn: "turn_of db (iv_Turn v) = Some t" using w(2) Some 1 same_invocationD(2) [OF old(2)]
            by (simp add: own_mutation_def)
          from call_step_cases [OF assms old(1)] have "invocation_of u (iv_ID w) = Some v"
            using turn c by (metis option.inject)
          then have "v = w" using row_of_mem [OF micro_call_ids [OF assms] w(1)] by simp
          with w(2) row_of_set [OF old(1)] okt(3) [OF c] show False
            by (auto simp: unsettledMutationsForTurn_def list_ex_iff)
        next
          case new
          from call_step_new [OF assms new(2,1)] obtain s where "turn_of db (iv_Turn w) = Some s" "started_turn s" by blast
          with w(2) Some 1 c started_not_closed [of t] show False by (simp add: own_mutation_def)
        qed
      qed
      with 1 okt show ?thesis by (auto simp: started_turn_def)
    next
      case 2
      with okt started_not_closed [OF 2(1)] show ?thesis by (simp add: started_turn_def)
    next
      case 3
      have "tr_OwnerToken t' \<noteq> None \<Longrightarrow> tr_Active t'" using turn_movesD(6,7) [OF 3(1)] okt(5) by fastforce
      with turn_movesD [OF 3(1)] 3(2) okt(2) own_mutation_same [OF turn_movesD(1) [OF 3(1)]] show ?thesis
        by (simp add: unsettledMutationsForTurn_def)
    qed
  qed
qed

text \<open>The chain of retries of a Turn does not change.\<close>

lemma retried_turns_mono:
  assumes "\<And>i t. turn_of db i = Some t \<Longrightarrow> \<exists>t'. turn_of u i = Some t' \<and> tr_RetryOf t' = tr_RetryOf t" "n \<le> m"
  shows "set (retried_turns n db i) \<subseteq> set (retried_turns m u i)"
  using assms(2)
proof (induction n arbitrary: m i)
  case (Suc n)
  then obtain k where m: "m = Suc k" "n \<le> k" by (cases m) auto
  show ?case
  proof (cases "turn_of db i")
    case (Some t)
    with assms(1) obtain t' where "turn_of u i = Some t'" "tr_RetryOf t' = tr_RetryOf t" by blast
    with Some Suc.IH [OF m(2), of "tr_RetryOf t"] show ?thesis by (auto simp: m(1))
  qed simp
qed simp

lemma micro_replays:
  assumes "turn_micro db u" "turns_ok db"
  shows "replays_ok u"
  unfolding replays_ok_def
proof
  fix r assume r: "r \<in> set (td_Replays u)"
  have chain: "set (retried_turns (length (td_Turns db)) db i) \<subseteq> set (retried_turns (length (td_Turns u)) u i)" for i
  proof (rule retried_turns_mono)
    fix i t assume "turn_of db i = Some t"
    from turn_kept [OF assms this] show "\<exists>t'. turn_of u i = Some t' \<and> tr_RetryOf t' = tr_RetryOf t"
      by (metis same_turnD(5))
  qed (use micro_turns [OF assms] in simp)
  have "\<exists>t v. turn_of db (rp_Turn r) = Some t \<and> 0 < rp_Number r
     \<and> (\<exists>t'. turn_of u (rp_Turn r) = Some t' \<and> tr_Lineage t' = tr_Lineage t \<and> tr_Epoch t' = tr_Epoch t
           \<and> rp_Number r < tr_NextInvocation t')
     \<and> invocation_of db (rp_Source r) = Some v \<and> iv_Mutation v
     \<and> terminal_state (iv_State v) \<and> iv_Turn v = rp_SourceTurn r \<and> iv_Lineage v = tr_Lineage t
     \<and> rp_SourceTurn r \<noteq> rp_Turn r
     \<and> rp_SourceTurn r \<in> set (retried_turns (length (td_Turns db)) db (rp_Turn r))
     \<and> rp_Epoch r = tr_Epoch t \<and> rp_SourceEpoch r = iv_Epoch v \<and> rp_Lineage r = tr_Lineage t"
  proof (cases "r \<in> set (td_Replays db)")
    case True
    with turns_okD(6) [OF assms(2)] obtain t v where tv: "turn_of db (rp_Turn r) = Some t" "0 < rp_Number r"
      "rp_Number r < tr_NextInvocation t" "invocation_of db (rp_Source r) = Some v" "iv_Mutation v"
      "terminal_state (iv_State v)" "iv_Turn v = rp_SourceTurn r" "iv_Lineage v = tr_Lineage t"
      "rp_SourceTurn r \<noteq> rp_Turn r" "rp_SourceTurn r \<in> set (retried_turns (length (td_Turns db)) db (rp_Turn r))"
      "rp_Epoch r = tr_Epoch t" "rp_SourceEpoch r = iv_Epoch v" "rp_Lineage r = tr_Lineage t"
      unfolding replays_ok_def by blast
    from turn_kept [OF assms tv(1)] obtain t' where "turn_of u (rp_Turn r) = Some t'" "same_turn t t'"
      "tr_NextInvocation t \<le> tr_NextInvocation t'" by blast
    with tv same_turnD(4) [of t t'] show ?thesis by (intro exI [of _ t] exI [of _ v]) (auto simp: same_turn_def)
  next
    case False
    from assms(1) show ?thesis
    proof cases
      case (project i t p v)
      have p: "r = p" using r False project(5) by simp
      have id: "tr_ID (bumped s) = i" if "turn_of db i = Some s" for s using row_of_key [OF that] by simp
      from row_of_alter [where key = tr_ID and f = bumped, OF id turns_okD(1) [OF assms(2)], of i]
      have "turn_of u i = Some (bumped t)" using project(1) by (simp add: project(4))
      moreover have "tr_Lineage (bumped t) = tr_Lineage t" "tr_Epoch (bumped t) = tr_Epoch t" by (simp_all add: bumped_def)
      ultimately show ?thesis using p project owners_okD(2) [OF assms(2) project(1)]
        by (intro exI [of _ t] exI [of _ v]) auto
    qed (use r False in simp_all)
  qed
  then obtain t t' v where "turn_of db (rp_Turn r) = Some t" and tv: "turn_of u (rp_Turn r) = Some t'" "tr_Lineage t' = tr_Lineage t"
    "tr_Epoch t' = tr_Epoch t" "0 < rp_Number r"
    "rp_Number r < tr_NextInvocation t'" "invocation_of db (rp_Source r) = Some v" "iv_Mutation v"
    "terminal_state (iv_State v)" "iv_Turn v = rp_SourceTurn r" "iv_Lineage v = tr_Lineage t"
    "rp_SourceTurn r \<noteq> rp_Turn r" "rp_SourceTurn r \<in> set (retried_turns (length (td_Turns db)) db (rp_Turn r))"
    "rp_Epoch r = tr_Epoch t" "rp_SourceEpoch r = iv_Epoch v" "rp_Lineage r = tr_Lineage t"
    by (elim exE conjE) (rule that, assumption+)
  from call_kept [OF assms tv(6)] tv(8) have "invocation_of u (rp_Source r) = Some v" by metis
  with tv chain [of "rp_Turn r"] show "\<exists>t v. turn_of u (rp_Turn r) = Some t \<and> 0 < rp_Number r
     \<and> rp_Number r < tr_NextInvocation t \<and> invocation_of u (rp_Source r) = Some v \<and> iv_Mutation v
     \<and> terminal_state (iv_State v) \<and> iv_Turn v = rp_SourceTurn r \<and> iv_Lineage v = tr_Lineage t
     \<and> rp_SourceTurn r \<noteq> rp_Turn r
     \<and> rp_SourceTurn r \<in> set (retried_turns (length (td_Turns u)) u (rp_Turn r))
     \<and> rp_Epoch r = tr_Epoch t \<and> rp_SourceEpoch r = iv_Epoch v \<and> rp_Lineage r = tr_Lineage t"
    by (intro exI [of _ t'] exI [of _ v]) auto
qed

lemma ledger_below:
  assumes "turns_ok db" "(i, n) \<in> set (ledger_numbers db)" "turn_of db i = Some t"
  shows "n < tr_NextInvocation t"
proof -
  from assms(2) consider v where "v \<in> set (td_Invocations db)" "i = iv_Turn v" "n = iv_Number v"
    | r where "r \<in> set (td_Replays db)" "i = rp_Turn r" "n = rp_Number r"
    by (auto simp: ledger_numbers_def)
  then show ?thesis
  proof cases
    case 1
    with turns_okD(3) [OF assms(1)] assms(3) show ?thesis by (auto simp: calls_ok_def)
  next
    case 2
    with turns_okD(6) [OF assms(1)] assms(3) show ?thesis by (auto simp: replays_ok_def)
  qed
qed

lemma micro_numbers:
  assumes "turn_micro db u" "turns_ok db"
  shows "distinct (ledger_numbers u)"
  using assms(1)
proof cases
  case (admit i t v)
  have "(iv_Turn v, iv_Number v) \<notin> set (ledger_numbers db)"
    using ledger_below [OF assms(2) _ admit(1)] admit(7,10) by fastforce
  then show ?thesis using turns_okD(7) [OF assms(2)] by (auto simp: ledger_numbers_def admit(3,5))
next
  case (project i t r v)
  have "(rp_Turn r, rp_Number r) \<notin> set (ledger_numbers db)"
    using ledger_below [OF assms(2) _ project(1)] project(6,7) by fastforce
  then show ?thesis using turns_okD(7) [OF assms(2)] by (auto simp: ledger_numbers_def project(3,5))
next
  case (settle g)
  have "map (\<lambda>v. (iv_Turn v, iv_Number v)) (map g (td_Invocations db)) = map (\<lambda>v. (iv_Turn v, iv_Number v)) (td_Invocations db)"
    using settled_key [OF settle(4)] by (simp add: same_invocationD)
  then show ?thesis using turns_okD(7) [OF assms(2)] unfolding ledger_numbers_def settle(2,3) by argo
qed (use turns_okD(7) [OF assms(2)] in \<open>simp_all add: ledger_numbers_def\<close>)

lemma not_conflict_rivals: "\<not> turn_conflict t r \<Longrightarrow> \<not> rivals t r \<and> \<not> rivals r t"
  by (auto simp: turn_conflict_def rivals_def)

lemma one_active_alter:
  assumes "one_active ts" "distinct (map tr_ID ts)" "\<And>s. s \<in> set ts \<Longrightarrow> tr_ID s = i \<Longrightarrow> tr_ID (f s) = i"
    "\<And>s r. s \<in> set ts \<Longrightarrow> r \<in> set ts \<Longrightarrow> tr_ID s = i \<Longrightarrow> tr_ID r \<noteq> i \<Longrightarrow> \<not> rivals (f s) r \<and> \<not> rivals r (f s)"
  shows "one_active (alter tr_ID i f ts)"
  unfolding one_active_def alter_map
proof (intro ballI impI)
  fix x y assume "x \<in> set (map (\<lambda>r. if tr_ID r = i then f r else r) ts)" "y \<in> set (map (\<lambda>r. if tr_ID r = i then f r else r) ts)"
    and r: "rivals x y"
  then obtain s r where s: "s \<in> set ts" "x = (if tr_ID s = i then f s else s)" "r \<in> set ts" "y = (if tr_ID r = i then f r else r)"
    by auto
  show "tr_ID x = tr_ID y"
  proof (cases "tr_ID s = i")
    case True
    with s have x: "x = f s" "tr_ID (f s) = i" by (simp_all add: assms(3))
    show ?thesis
    proof (cases "tr_ID r = i")
      case True
      with s x show ?thesis by (simp add: assms(3))
    next
      case False
      with assms(4) [OF s(1,3) \<open>tr_ID s = i\<close>] r s(4) x(1) show ?thesis by simp
    qed
  next
    case False
    then have x: "x = s" using s(2) by simp
    show ?thesis
    proof (cases "tr_ID r = i")
      case True
      with assms(4) [OF s(3,1)] False r s(4) x show ?thesis by simp
    next
      case other: False
      then have "y = r" using s(4) by simp
      with x r s(1,3) assms(1) show ?thesis by (simp add: one_active_def)
    qed
  qed
qed

lemma micro_one_active:
  assumes "turn_micro db u" "turns_ok db"
  shows "one_active (td_Turns u)"
proof -
  note one = turns_okD(9,1) [OF assms(2)]
  have bump: "one_active (alter tr_ID i bumped (td_Turns db))" for i
    using one by (intro one_active_alter) (auto simp: one_active_def)
  from assms(1) show ?thesis
  proof cases
    case (queue t)
    from queue(4) have "\<forall>r \<in> set (td_Turns db). \<not> rivals t r \<and> \<not> rivals r t"
      by (auto simp: list_all_iff dest: not_conflict_rivals)
    with one(1) show ?thesis by (auto simp: queue(1) one_active_def)
  next
    case (move i t f)
    have t: "s = t" if "s \<in> set (td_Turns db)" "tr_ID s = i" for s
      using row_of_mem [OF one(2) that(1)] that(2) move(1) by simp
    show ?thesis unfolding move(3)
    proof (rule one_active_alter [OF one])
      show "tr_ID (f s) = i" if "s \<in> set (td_Turns db)" "tr_ID s = i" for s
        using t [OF that] turn_movesD(2) [OF move(2)] that by simp
      show "\<not> rivals (f s) r \<and> \<not> rivals r (f s)" if "s \<in> set (td_Turns db)" "r \<in> set (td_Turns db)" "tr_ID s = i" "tr_ID r \<noteq> i"
        for s r using t [OF that(1,3)] move(6) that by (intro not_conflict_rivals) (auto simp: list_all_iff)
    qed
  qed (use one(1) bump in simp_all)
qed

theorem micro_turns_ok: "turn_micro db u \<Longrightarrow> turns_ok db \<Longrightarrow> turns_ok u"
  unfolding turns_ok_def [of u]
  by (simp add: micro_turns micro_call_ids micro_calls micro_operations micro_owners micro_replays micro_numbers
      micro_one_active)

lemma micros_turns_ok: "turn_micro\<^sup>*\<^sup>* db u \<Longrightarrow> turns_ok db \<Longrightarrow> turns_ok u"
  by (induction rule: rtranclp_induct) (auto intro: micro_turns_ok)

section \<open>What steps never undo\<close>

lemma fenced_kept:
  assumes "turn_micro db u" "turns_ok db" "turn_of db i = Some t" "fenced t"
  shows "\<exists>t'. turn_of u i = Some t' \<and> fenced t'"
  using turn_step_cases [OF assms(1-3)]
proof cases
  case (1 t')
  from 1(2) consider "t' = t" | "started_turn t" | "turn_moves db t t'" by blast
  then show ?thesis
  proof cases
    case 2
    with assms(4) show ?thesis by (simp add: fenced_def started_turn_def)
  next
    case 3
    from turn_movesD(5,6) [OF 3] assms(4) have "fenced t'" by (cases "tr_OwnerToken t'") (auto simp: fenced_def)
    with 1(1) show ?thesis by blast
  qed (use 1(1) assms(4) in blast)
qed

lemma micros_turn:
  assumes "turn_micro\<^sup>*\<^sup>* db u" "turns_ok db" "turn_of db i = Some t"
  shows "\<exists>t'. turn_of u i = Some t' \<and> same_turn t t' \<and> (fenced t \<longrightarrow> fenced t') \<and> (closed t \<longrightarrow> closed t')
    \<and> (held t' \<longrightarrow> held t) \<and> (stopped t \<longrightarrow> stopped t')"
  using assms
proof (induction rule: rtranclp_induct)
  case (step v w)
  then obtain s where s: "turn_of v i = Some s" "same_turn t s" "fenced t \<longrightarrow> fenced s" "closed t \<longrightarrow> closed s"
    "held s \<longrightarrow> held t" "stopped t \<longrightarrow> stopped s" by blast
  have ok: "turns_ok v" by (rule micros_turns_ok [OF step.hyps(1) step.prems(1)])
  from turn_kept [OF step.hyps(2) ok s(1)] obtain r where r: "turn_of w i = Some r" "same_turn s r" "closed s \<Longrightarrow> closed r"
    "held r \<Longrightarrow> held s" "stopped s \<Longrightarrow> stopped r" by blast
  from fenced_kept [OF step.hyps(2) ok s(1)] r(1) have "fenced s \<longrightarrow> fenced r" by auto
  with r s same_turn_trans [OF s(2) r(2)] show ?case by blast
qed simp

text \<open>A mutation only moves on in its life cycle, and what is known of its outcome stays.\<close>

lemma micros_call:
  assumes "turn_micro\<^sup>*\<^sup>* db u" "turns_ok db" "invocation_of db m = Some v"
  shows "\<exists>w. invocation_of u m = Some w \<and> same_invocation v w \<and> mutation_step\<^sup>*\<^sup>* (iv_State v) (iv_State w)
    \<and> (terminal_state (iv_State v) \<longrightarrow> w = v) \<and> ((\<exists>t. turn_of db (iv_Turn v) = Some t \<and> closed t) \<longrightarrow> w = v)"
  using assms
proof (induction rule: rtranclp_induct)
  case base
  then show ?case by (simp add: same_invocation_def)
next
  case (step x y)
  then obtain w where w: "invocation_of x m = Some w" "same_invocation v w" "mutation_step\<^sup>*\<^sup>* (iv_State v) (iv_State w)"
    "terminal_state (iv_State v) \<longrightarrow> w = v" "(\<exists>t. turn_of db (iv_Turn v) = Some t \<and> closed t) \<longrightarrow> w = v" by blast
  have ok: "turns_ok x" by (rule micros_turns_ok [OF step.hyps(1) step.prems(1)])
  from call_step_cases [OF step.hyps(2) ok w(1)] show ?case
  proof cases
    case 1
    with w show ?thesis by blast
  next
    case (2 z t)
    have "\<not> closed r" if r: "turn_of db (iv_Turn v) = Some r" for r
    proof
      assume "closed r"
      with micros_turn [OF step.hyps(1) step.prems(1) r] obtain s where "turn_of x (iv_Turn v) = Some s" "closed s" by blast
      with 2(3,4) same_invocationD(2) [OF w(2)] show False by simp
    qed
    moreover have "\<not> terminal_state (iv_State v)" using w(4) mutation_moves_not_terminal [OF 2(2)] by auto
    moreover have "mutation_step\<^sup>*\<^sup>* (iv_State v) (iv_State z)"
      using w(3) 2(2) by (auto simp: mutation_moves_def)
    moreover have "same_invocation v z"
      using same_invocation_trans [OF w(2)] 2(2) by (simp add: mutation_moves_def)
    ultimately show ?thesis using 2(1) by blast
  qed
qed

end
