(* ===== verification/Turn_Runs.thy ===== *)
theory Turn_Runs
  imports Turn_Steps
begin

text \<open>
  Every operation on Turns that succeeds is a run of the steps of \<open>Turn_Steps\<close>; apart from the acquisition
  of a Turn, none of them occupies a further slot.
\<close>

section \<open>Runs\<close>

text \<open>A Turn has one slot at most.\<close>

definition slots_ok :: "turns_db \<Rightarrow> bool" where
  "slots_ok db \<longleftrightarrow> distinct (map sl_Turn (td_Slots db))"

definition turn_run :: "instant \<Rightarrow> turns_db \<Rightarrow> turns_db \<Rightarrow> bool" where
  "turn_run now db u \<longleftrightarrow>
     turn_micro\<^sup>*\<^sup>* db u \<and> occupied_slots now u \<le> occupied_slots now db \<and> (slots_ok db \<longrightarrow> slots_ok u)"

lemma turn_run_refl [simp]: "turn_run now db db"
  by (simp add: turn_run_def)

lemma turn_run_trans [trans]: "turn_run now db u \<Longrightarrow> turn_run now u v \<Longrightarrow> turn_run now db v"
  by (auto simp: turn_run_def)

lemma turn_run_micro: "turn_micro db u \<Longrightarrow> td_Slots u = td_Slots db \<Longrightarrow> turn_run now db u"
  by (simp add: turn_run_def occupied_slots_def slots_ok_def r_into_rtranclp)

lemma turn_run_ok: "turn_run now db u \<Longrightarrow> turns_ok db \<Longrightarrow> turns_ok u"
  by (auto simp: turn_run_def intro: micros_turns_ok)

text \<open>Everything but the tables of Turns and tool calls.\<close>

definition same_ledger :: "turns_db \<Rightarrow> turns_db \<Rightarrow> bool" where
  "same_ledger db u \<longleftrightarrow> td_Turns u = td_Turns db \<and> td_Invocations u = td_Invocations db \<and> td_Replays u = td_Replays db"

lemma same_ledger_trans [trans]: "same_ledger db u \<Longrightarrow> same_ledger u v \<Longrightarrow> same_ledger db v"
  by (simp add: same_ledger_def)

lemma same_ledger_micro: "same_ledger db u \<Longrightarrow> turn_micro db u"
  by (auto simp: same_ledger_def intro: turn_micro.other)

lemma same_ledger_run:
  "same_ledger db u \<Longrightarrow> occupied_slots now u \<le> occupied_slots now db \<Longrightarrow> (slots_ok db \<Longrightarrow> slots_ok u) \<Longrightarrow> turn_run now db u"
  by (simp add: turn_run_def same_ledger_micro r_into_rtranclp)

text \<open>Only the jobs, or what is no part of the ledger, change.\<close>

definition side_change :: "turns_db \<Rightarrow> turns_db \<Rightarrow> bool" where
  "side_change db u \<longleftrightarrow> same_ledger db u \<and> td_Slots u = td_Slots db"

lemma side_change_refl [simp]: "side_change db db"
  by (simp add: side_change_def same_ledger_def)

lemma side_change_trans [trans]: "side_change db u \<Longrightarrow> side_change u v \<Longrightarrow> side_change db v"
  by (auto simp: side_change_def intro: same_ledger_trans)

lemma side_change_run: "side_change db u \<Longrightarrow> turn_run now db u"
  unfolding side_change_def by (rule same_ledger_run) (simp_all add: occupied_slots_def slots_ok_def)

lemma side_changeD:
  assumes "side_change db u"
  shows "td_Turns u = td_Turns db" "td_Invocations u = td_Invocations db" "td_Replays u = td_Replays db"
    "td_Slots u = td_Slots db"
  using assms by (simp_all add: side_change_def same_ledger_def)

lemma side_change_jobs [simp]: "side_change db (db\<lparr>td_Jobs := jobs\<rparr>)" "side_change db (db\<lparr>td_ReviewerActor := actors\<rparr>)"
  by (simp_all add: side_change_def same_ledger_def)

lemma change_jobs_side: "change_jobs missing f db = Inr u \<Longrightarrow> side_change db u"
  by (auto simp: change_jobs_def split: option.split_asm prod.split_asm if_split_asm)

lemma succeed_turn_job_side: "succeed_turn_job now lease result db = Inr u \<Longrightarrow> side_change db u"
  by (auto simp: succeed_turn_job_def split: sum.split_asm dest!: change_jobs_side intro: side_change_trans)

lemma expire_turn_job_side: "expire_turn_job now job db = Inr u \<Longrightarrow> side_change db u"
  by (auto simp: expire_turn_job_def split: sum.split_asm dest!: change_jobs_side intro: side_change_trans)

lemma completeRecoveryJob_side: "completeRecoveryJob now job result db = Inr u \<Longrightarrow> side_change db u"
  by (auto simp: completeRecoveryJob_def Let_def split: sum.split_asm dest!: change_jobs_side intro: side_change_trans)

lemma enqueue_job_side: "enqueueAgentTurnRecoveryJob env now job t kind lower priority db = Inr (i, u) \<Longrightarrow> side_change db u"
  by (auto simp: enqueueAgentTurnRecoveryJob_def split: sum.split_asm)

lemma enqueue_recovery_side: "enqueue_recovery env now job t reconcile db = Inr (i, u) \<Longrightarrow> side_change db u"
  by (auto simp: enqueue_recovery_def split: sum.split_asm if_split_asm prod.split_asm dest!: enqueue_job_side
      intro: side_change_trans)

lemma failAttempt_side: "failAgentTurnMutationReconciliationAttempt now job d r db = Inr u \<Longrightarrow> side_change db u"
  by (auto simp: failAgentTurnMutationReconciliationAttempt_def split: sum.split_asm)

lemma bind_actor_side: "bindReviewerActorForSubmitReview env p tool result rec db = Inr u \<Longrightarrow> side_change db u"
  by (auto simp: bindReviewerActorForSubmitReview_def Let_def split: if_split_asm option.split_asm prod.split_asm)

text \<open>Slots are given up.\<close>

lemma delete_slot_run: "turn_run now db (delete_slot cond db)"
  unfolding delete_slot_def
proof (rule same_ledger_run)
  have "length (filter P (filter Q xs)) \<le> length (filter P xs)" for P Q and xs :: "slot list"
    by (induction xs) auto
  then show "occupied_slots now (db\<lparr>td_Slots := filter (\<lambda>s. \<not> cond s) (td_Slots db)\<rparr>) \<le> occupied_slots now db"
    by (simp add: occupied_slots_def)
qed (simp_all add: same_ledger_def slots_ok_def distinct_map_filter)

section \<open>Rows\<close>

lemma update_turnE:
  assumes "update_turn i cond f missing db = Inr u"
  obtains t where "turn_of db i = Some t" "cond t" "turn_checks (f t)" "u = db\<lparr>td_Turns := alter tr_ID i f (td_Turns db)\<rparr>"
    "list_all (\<lambda>r. tr_ID r \<noteq> i \<longrightarrow> \<not> turn_conflict (f t) r) (td_Turns db)"
  using assms by (auto simp: update_turn_def list_all_iff list_ex_iff split: option.split_asm if_split_asm)

lemma turn_checks_owner: "turn_checks t \<Longrightarrow> tr_OwnerToken t = None \<Longrightarrow> tr_LeaseExpiresAt t = None"
  unfolding turn_checks_def by blast

lemma update_turn_row:
  assumes "update_turn i cond f missing db = Inr u" "turn_of db i = Some t" "distinct (map tr_ID (td_Turns db))"
    "tr_ID (f t) = tr_ID t"
  shows "turn_of u i = Some (f t)"
proof (rule update_turnE [OF assms(1)])
  assume u: "u = db\<lparr>td_Turns := alter tr_ID i f (td_Turns db)\<rparr>"
  have "tr_ID (f s) = i" if "turn_of db i = Some s" for s
    using row_of_key [OF that] that assms(2,4) by simp
  from row_of_alter [where f = f, OF this assms(3), of i] assms(2) show ?thesis by (simp add: u)
qed

lemma update_turn_run:
  assumes "update_turn i cond f missing db = Inr u"
    and "\<And>t. turn_of db i = Some t \<Longrightarrow> cond t \<Longrightarrow> turn_checks (f t) \<Longrightarrow> turn_moves db t (f t)"
  shows "turn_run now db u"
proof -
  from update_turnE [OF assms(1)] obtain t where t: "turn_of db i = Some t" "cond t" "turn_checks (f t)"
    "u = db\<lparr>td_Turns := alter tr_ID i f (td_Turns db)\<rparr>"
    "list_all (\<lambda>r. tr_ID r \<noteq> i \<longrightarrow> \<not> turn_conflict (f t) r) (td_Turns db)" .
  have "turn_micro db u"
    by (rule turn_micro.move [where f = f, OF t(1) assms(2) [OF t(1-3)]]) (simp_all only: t(4,5), simp_all)
  then show ?thesis by (rule turn_run_micro) (simp add: t(4))
qed

lemma update_invocationE:
  assumes "update_invocation i cond f missing db = Inr u"
  obtains v where "invocation_of db i = Some v" "cond v" "invocation_checks (f v)"
    "u = db\<lparr>td_Invocations := alter iv_ID i f (td_Invocations db)\<rparr>"
  using assms by (auto simp: update_invocation_def split: option.split_asm if_split_asm)

definition live_turn :: "turns_db \<Rightarrow> string \<Rightarrow> bool" where
  "live_turn db i \<longleftrightarrow> (\<exists>t. turn_of db i = Some t \<and> \<not> closed t \<and> \<not> waiting_turn t)"

lemma started_live: "turn_of db i = Some t \<Longrightarrow> started_turn t \<Longrightarrow> live_turn db i"
  by (auto simp: live_turn_def dest: started_not_closed)

lemma update_invocation_run:
  assumes "update_invocation i cond f missing db = Inr u" "turns_ok db"
    and "\<And>v. invocation_of db i = Some v \<Longrightarrow> cond v \<Longrightarrow> mutation_moves v (f v) \<and> live_turn db (iv_Turn v)"
  shows "turn_run now db u"
proof -
  from update_invocationE [OF assms(1)] obtain v where v: "invocation_of db i = Some v" "cond v"
    "u = db\<lparr>td_Invocations := alter iv_ID i f (td_Invocations db)\<rparr>" by blast
  have "turn_micro db u"
  proof (rule turn_micro.settle)
    show "td_Invocations u = map (\<lambda>w. if iv_ID w = i then f w else w) (td_Invocations db)" by (simp add: v(3) alter_map)
    fix w assume w: "w \<in> set (td_Invocations db)" "(if iv_ID w = i then f w else w) \<noteq> w"
    then have "iv_ID w = i" by (simp split: if_split_asm)
    moreover from this have "w = v" using row_of_mem [OF turns_okD(2) [OF assms(2)] w(1)] v(1) by simp
    ultimately show "mutation_moves w (if iv_ID w = i then f w else w)
        \<and> (\<exists>t. turn_of db (iv_Turn w) = Some t \<and> \<not> closed t \<and> \<not> waiting_turn t)"
      using assms(3) [OF v(1,2)] by (simp add: live_turn_def)
  qed (simp_all add: v(3))
  then show ?thesis by (rule turn_run_micro) (simp add: v(3))
qed

lemma update_invocations_run:
  assumes "\<And>v. v \<in> set (td_Invocations db) \<Longrightarrow> cond v \<Longrightarrow> mutation_moves v (f v) \<and> live_turn db (iv_Turn v)"
  shows "turn_run now db (update_invocations cond f db)"
proof -
  have "turn_micro db (update_invocations cond f db)"
  proof (rule turn_micro.settle)
    show "td_Invocations (update_invocations cond f db) = map (\<lambda>v. if cond v then f v else v) (td_Invocations db)"
      by (simp add: update_invocations_def)
    fix v assume v: "v \<in> set (td_Invocations db)" "(if cond v then f v else v) \<noteq> v"
    then have "cond v" by (simp split: if_split_asm)
    with assms [OF v(1)] show "mutation_moves v (if cond v then f v else v)
        \<and> (\<exists>t. turn_of db (iv_Turn v) = Some t \<and> \<not> closed t \<and> \<not> waiting_turn t)"
      by (simp add: live_turn_def)
  qed (simp_all add: update_invocations_def)
  then show ?thesis by (rule turn_run_micro) (simp add: update_invocations_def)
qed

lemma insert_turn_run:
  assumes "insert_turn t db = Inr u" "turns_ok db"
  shows "turn_run now db u"
proof -
  let ?t = "prepared_turn t"
  from assms(1) have u: "u = db\<lparr>td_Turns := td_Turns db @ [?t]\<rparr>" "turn_checks ?t" "\<not> list_ex (turn_conflict ?t) (td_Turns db)"
    "tr_RetryOf ?t \<noteq> '''' \<Longrightarrow> list_ex (\<lambda>r. tr_ID r = tr_RetryOf ?t \<and> tr_Session r = tr_Session ?t
       \<and> tr_Lineage r = tr_Lineage ?t) (td_Turns db)"
    by (auto simp: insert_turn_def Let_def split: if_split_asm)
  have "tr_RetryOf ?t = '''' \<and> tr_Lineage ?t = tr_ID ?t
     \<or> (\<exists>r. turn_of db (tr_RetryOf ?t) = Some r \<and> tr_Lineage r = tr_Lineage ?t)"
  proof (cases "tr_RetryOf ?t = ''''")
    case True
    with u(2) show ?thesis by (simp add: turn_checks_def)
  next
    case False
    from u(4) [OF this] obtain r where "r \<in> set (td_Turns db)" "tr_ID r = tr_RetryOf ?t" "tr_Lineage r = tr_Lineage ?t"
      by (auto simp: list_ex_iff)
    with row_of_mem [OF turns_okD(1) [OF assms(2)]] show ?thesis by metis
  qed
  moreover have "list_all (\<lambda>r. \<not> turn_conflict ?t r) (td_Turns db)" using u(3) by (simp add: list_all_iff list_ex_iff)
  moreover have "?t = prepared_turn ?t" by (simp add: prepared_turn_def)
  ultimately have "turn_micro db u" by (intro turn_micro.queue [where t = ?t]) (simp_all add: u(1))
  then show ?thesis by (rule turn_run_micro) (simp add: u(1))
qed

text \<open>Taking the next number and recording a call under it.\<close>

lemma next_invocationE:
  assumes "next_invocation t db = Inr (n, u)" "turn_of db (tr_ID t) = Some t"
  shows "n = tr_NextInvocation t" "u = db\<lparr>td_Turns := alter tr_ID (tr_ID t) bumped (td_Turns db)\<rparr>"
proof -
  have b: "bumped = (\<lambda>r. r\<lparr>tr_NextInvocation := tr_NextInvocation r + 1\<rparr>)" by (simp add: bumped_def fun_eq_iff)
  show "n = tr_NextInvocation t" using assms by (simp add: next_invocation_def split: sum.split_asm)
  show "u = db\<lparr>td_Turns := alter tr_ID (tr_ID t) bumped (td_Turns db)\<rparr>"
  proof (cases "update_turn (tr_ID t) (\<lambda>r. tr_Epoch r = tr_Epoch t) bumped TurnQuery db")
    case (Inr v)
    with assms(1) have "v = u" by (simp add: next_invocation_def b [symmetric])
    from update_turnE [OF Inr] show ?thesis unfolding \<open>v = u\<close> .
  qed (use assms(1) in \<open>simp add: next_invocation_def b [symmetric]\<close>)
qed

lemma admit_run:
  assumes "next_invocation t db = Inr (n, db1)" "insert_invocation v db1 = Inr u" "turn_of db (tr_ID t) = Some t"
    "started_turn t" "iv_Turn v = tr_ID t" "iv_Epoch v = tr_Epoch t" "iv_Lineage v = tr_Lineage t" "iv_Number v = n"
    "call_admitted t v"
  shows "turn_run now db u" "td_Invocations u = td_Invocations db @ [v]"
proof -
  note n = next_invocationE [OF assms(1,3)]
  from assms(2) have u: "u = db1\<lparr>td_Invocations := td_Invocations db @ [v]\<rparr>"
    "list_all (\<lambda>w. \<not> invocation_conflict v w) (td_Invocations db)"
    by (auto simp: insert_invocation_def n(2) list_all_iff list_ex_iff split: if_split_asm)
  have "turn_micro db u"
    by (rule turn_micro.admit [where v = v, OF assms(3,4)]) (use assms(5-9) in \<open>simp_all add: u n\<close>)
  then show "turn_run now db u" by (rule turn_run_micro) (simp add: u n)
  show "td_Invocations u = td_Invocations db @ [v]" by (simp add: u)
qed

section \<open>The fence\<close>

lemma held_started:
  assumes "holds_turn now db lease t" "turns_ok db"
  shows "turn_of db (lease_turn lease) = Some t" "tr_ID t = lease_turn lease" "started_turn t"
    "tr_Epoch t = tr_Epoch (al_Turn lease)"
proof -
  show t: "turn_of db (lease_turn lease) = Some t" "tr_Epoch t = tr_Epoch (al_Turn lease)"
    using assms(1) by (simp_all add: holds_turn_def)
  show "tr_ID t = lease_turn lease" by (rule row_of_key [OF t(1)])
  have "tr_LeaseExpiresAt t \<noteq> None" using assms(1) by (auto simp: holds_turn_def lease_live_def split: option.split_asm)
  with owners_okD(1,4) [OF assms(2) t(1)] show "started_turn t" by blast
qed

lemma withLocked_run:
  assumes "withLockedAgentTurnLeaseOptions env now lease c x operation db = Inr (r, u)" "turns_ok db"
    and "\<And>t p. holds_turn now db lease t \<Longrightarrow> turn_of db (lease_turn lease) = Some t \<Longrightarrow> tr_ID t = lease_turn lease
      \<Longrightarrow> started_turn t \<Longrightarrow> operation t p db = Inr (r, u) \<Longrightarrow> turn_run now db u"
  shows "turn_run now db u"
  using assms(1) by (rule withLocked_cases) (use assms(3) held_started [OF _ assms(2)] in blast)

section \<open>The ledger of tool calls\<close>

lemma operation_rowD:
  assumes "mutation_by_operation db lineage tool operation = Some v"
  shows "v \<in> set (td_Invocations db)" "iv_Lineage v = lineage" "iv_Tool v = tool" "iv_OperationID v = Some operation"
    "iv_Mutation v"
  using assms by (auto simp: mutation_by_operation_def operation_row_def find_Some_iff)

lemma new_reservation_run:
  assumes "new_reservation env now lease spec t p db = Inr (r, u)" "turn_of db (tr_ID t) = Some t" "started_turn t"
    "tr_ID t = lease_turn lease" "tr_Epoch t = tr_Epoch (al_Turn lease)"
  obtains v where "turn_run now db u" "td_Invocations u = td_Invocations db @ [v]" "iv_Mutation v"
    "iv_State v = MutationReserved" "iv_ID v = iv_ID r" "iv_Tool v = ms_ToolName spec"
    "iv_OperationID v = Some (ms_OperationID spec)" "iv_Lineage v = tr_Lineage t" "iv_Lineage r = tr_Lineage t"
proof -
  note r = assms(1) [unfolded new_reservation_def]
  have open_: "tr_AdmissionOpen t" "tr_Status t = AgentTurnRunning" using r by (simp_all split: if_split_asm)
  from r obtain number db1 where n: "next_invocation t db = Inr (number, db1)"
    by (simp split: if_split_asm option.split_asm sum.split_asm prod.split_asm)
  let ?v = "reserved_row env now t lease spec (je_Jsonb (te_Jobs env) (ms_Request spec)) number"
  from r n have i: "insert_invocation ?v db1 = Inr u" "r = reserved_row env now t lease spec (ms_Request spec) number"
    by (auto split: if_split_asm option.split_asm sum.split_asm)
  have "turn_run now db u \<and> td_Invocations u = td_Invocations db @ [?v]"
    using admit_run [OF n i(1) assms(2,3)] assms(4,5) open_ by (simp add: reserved_row_def call_admitted_def)
  then show thesis by (intro that [of ?v]) (simp_all add: reserved_row_def i(2))
qed

text \<open>What a reservation answers: an operation that was reserved before is found, by the row of its lineage.\<close>

lemma ReserveMutationE:
  assumes "ReserveMutation env now lease spec db = Inr (r, u)" "turns_ok db"
  obtains (found) t v where "turn_of db (lease_turn lease) = Some t" "u = db"
      "mutation_by_operation db (tr_Lineage t) (ms_ToolName spec) (ms_OperationID spec) = Some v" "scanMutation env v = Some r"
  | (new) t v where "turn_of db (lease_turn lease) = Some t" "turn_run now db u"
      "mutation_by_operation db (tr_Lineage t) (ms_ToolName spec) (ms_OperationID spec) = None"
      "td_Invocations u = td_Invocations db @ [v]" "iv_ID v = iv_ID r" "iv_Mutation v" "iv_State v = MutationReserved"
      "iv_Tool v = ms_ToolName spec" "iv_OperationID v = Some (ms_OperationID spec)" "iv_Lineage v = tr_Lineage t"
      "iv_Lineage r = tr_Lineage t"
proof -
  note r = assms(1) [unfolded ReserveMutation_def Let_def]
  from r obtain request where request: "validateMutationSpec env spec = Inr request"
    by (cases "validateMutationSpec env spec") simp_all
  let ?spec = "spec\<lparr>ms_Request := request\<rparr>"
  from r request have "withLockedAgentTurnLease env now lease
      (\<lambda>t participant db.
         case mutation_by_operation db (tr_Lineage t) (ms_ToolName ?spec) (ms_OperationID ?spec) of
           None \<Rightarrow> new_reservation env now lease ?spec t participant db
         | Some row \<Rightarrow>
            (case scanMutation env row of
               None \<Rightarrow> Inl TurnQuery
             | Some existing \<Rightarrow>
                (case existing_reservation env db t ?spec existing of
                   Inl e \<Rightarrow> Inl e
                 | Inr v \<Rightarrow> Inr (v, db)))) db = Inr (r, u)" by simp
  then show thesis
  proof (cases rule: withLocked_cases)
    case (1 t p)
    note held = held_started [OF 1(2) assms(2)]
    show thesis
    proof (cases "mutation_by_operation db (tr_Lineage t) (ms_ToolName spec) (ms_OperationID spec)")
      case None
      with 1(3) have "new_reservation env now lease ?spec t p db = Inr (r, u)" by simp
      from new_reservation_run [OF this _ held(3,2,4)] held(1,2) obtain v where "turn_run now db u"
        "td_Invocations u = td_Invocations db @ [v]" "iv_Mutation v" "iv_State v = MutationReserved" "iv_ID v = iv_ID r"
        "iv_Tool v = ms_ToolName ?spec" "iv_OperationID v = Some (ms_OperationID ?spec)" "iv_Lineage v = tr_Lineage t"
        "iv_Lineage r = tr_Lineage t" by metis
      then show thesis by (intro new [OF held(1) _ None]) simp_all
    next
      case (Some row)
      from 1(3) Some obtain existing where e: "scanMutation env row = Some existing"
        by (cases "scanMutation env row") simp_all
      from 1(3) Some e obtain v where v: "existing_reservation env db t ?spec existing = Inr v" "r = v" "u = db"
        by (cases "existing_reservation env db t ?spec existing") simp_all
      have "v = existing"
        using v(1) by (simp add: existing_reservation_def split: if_split_asm option.split_asm)
      with e v Some held(1) show thesis by (intro found) simp_all
    qed
  qed
qed

lemma ReserveMutation_run:
  assumes "ReserveMutation env now lease spec db = Inr (r, u)" "turns_ok db"
  shows "turn_run now db u"
  using assms by (cases rule: ReserveMutationE) simp_all

lemma RecordReadInvocation_run:
  assumes "RecordReadInvocation env now lease r db = Inr (x, u)" "turns_ok db"
  shows "turn_run now db u"
proof -
  note r = assms(1) [unfolded RecordReadInvocation_def]
  from r obtain request where request: "je_Canonical (te_Jobs env) (ri_Request r) = Some request"
    by (simp split: if_split_asm option.split_asm)
  from r request obtain result where result: "read_result env r = Inr result"
    by (simp split: if_split_asm sum.split_asm)
  let ?op = "\<lambda>t participant db.
     if tr_Status t \<noteq> AgentTurnRunning then Inl ErrAgentTurnFenceLost
     else case next_invocation t db of
       Inl e \<Rightarrow> Inl e
     | Inr (number, db1) \<Rightarrow>
    (case insert_invocation (read_row env now t lease r request result number) db1 of
       Inl e \<Rightarrow> Inl e
     | Inr db2 \<Rightarrow>
        (case if ri_LastError r = '''' \<and> ri_ToolName r = ''get_collaboration_record''
              then te_Delivery env t request (the result) else None of
           Some e \<Rightarrow> Inl e
         | None \<Rightarrow> Inr ((je_UUID (te_Jobs env) ''invocation'', number), db2)))"
  from r request result have "withLockedAgentTurnLease env now lease ?op db = Inr (x, u)"
    by (simp split: if_split_asm)
  then show ?thesis using assms(2)
  proof (rule withLocked_run)
    fix t p assume t: "holds_turn now db lease t" "turn_of db (lease_turn lease) = Some t" "tr_ID t = lease_turn lease"
      "started_turn t" and op: "?op t p db = Inr (x, u)"
    note held = held_started [OF t(1) assms(2)]
    from op obtain number db1 where n: "next_invocation t db = Inr (number, db1)"
      by (simp split: if_split_asm sum.split_asm prod.split_asm)
    from op n have i: "insert_invocation (read_row env now t lease r request result number) db1 = Inr u"
      by (auto split: if_split_asm sum.split_asm option.split_asm)
    show "turn_run now db u"
      by (rule admit_run(1) [OF n i _ t(4)])
        (use t held in \<open>simp_all add: read_row_def terminal_state_def call_admitted_def\<close>)
  qed
qed

lemma scanMutationD:
  assumes "scanMutation env v = Some w"
  shows "iv_ID w = iv_ID v" "iv_Turn w = iv_Turn v" "iv_State w = iv_State v" "iv_Lineage w = iv_Lineage v"
    "iv_Mutation w = iv_Mutation v" "iv_Tool w = iv_Tool v" "iv_OperationID w = iv_OperationID v" "iv_Epoch w = iv_Epoch v"
  using assms by (auto simp: scanMutation_def)

lemma recordTerminalMutationReplay_run:
  assumes "recordTerminalMutationReplay t source db = Inr u" "turn_of db (tr_ID t) = Some t" "started_turn t"
    "invocation_of db (iv_ID source) = Some v" "iv_Mutation v" "iv_State v = iv_State source" "iv_Turn v = iv_Turn source"
    "iv_Lineage v = tr_Lineage t" "iv_Epoch v = iv_Epoch source"
  shows "turn_run now db u"
proof (cases "u = db")
  case False
  note r = assms(1) [unfolded recordTerminalMutationReplay_def]
  from r False have c: "iv_Turn source \<noteq> tr_ID t" "terminal_state (iv_State source)"
    "validateMutationReplayAncestor db (tr_ID t) (iv_Turn source)"
    by (auto simp: terminal_state_def split: if_split_asm)
  from r False obtain number db1 where n: "next_invocation t db = Inr (number, db1)"
    by (simp split: if_split_asm sum.split_asm prod.split_asm)
  let ?r = "\<lparr>rp_Turn = tr_ID t, rp_Epoch = tr_Epoch t, rp_Lineage = tr_Lineage t, rp_Number = number,
              rp_Source = iv_ID source, rp_SourceTurn = iv_Turn source, rp_SourceEpoch = iv_Epoch source\<rparr>"
  from r False n have u: "u = db1\<lparr>td_Replays := td_Replays db1 @ [?r]\<rparr>" by (simp split: if_split_asm)
  note n' = next_invocationE [OF n assms(2)]
  have "turn_micro db u"
    by (rule turn_micro.project [where r = ?r and v = v, OF assms(2,3)])
      (use assms(4-9) c in \<open>simp_all add: u n' validateMutationReplayAncestor_def\<close>)
  then show ?thesis by (rule turn_run_micro) (simp add: u n')
qed simp

lemma AcknowledgeMutationReplay_run:
  assumes "AcknowledgeMutationReplay env now lease source spec db = Inr (x, u)" "turns_ok db"
  shows "turn_run now db u"
proof -
  note r = assms(1) [unfolded AcknowledgeMutationReplay_def Let_def]
  from r obtain request where request: "validateMutationSpec env spec = Inr request"
    by (cases "validateMutationSpec env spec") simp_all
  have valid: "\<not> \<not> je_ValidUUID (te_Jobs env) source" by (rule notI) (use r request in simp)
  note run = r [unfolded request sum.case if_not_P [OF valid]]
  show ?thesis using run assms(2)
  proof (rule withLocked_run)
    fix t :: turn and p :: string
    let ?find = "Option.bind (mutation_by_operation db (tr_Lineage t) (ms_ToolName spec) (ms_OperationID spec))
                   (scanMutation env)"
    assume t: "holds_turn now db lease t" "turn_of db (lease_turn lease) = Some t" "tr_ID t = lease_turn lease"
      "started_turn t"
    assume op: "(case Option.bind (mutation_by_operation db (tr_Lineage t) (ms_ToolName (spec\<lparr>ms_Request := request\<rparr>))
                        (ms_OperationID (spec\<lparr>ms_Request := request\<rparr>))) (scanMutation env) of
         None \<Rightarrow> Inl TurnQuery
       | Some w \<Rightarrow>
           if iv_ID w \<noteq> source \<or> iv_Turn w = tr_ID t \<or> \<not> sameAgentMutationDefinition env w (spec\<lparr>ms_Request := request\<rparr>)
              \<or> iv_State w \<noteq> MutationSucceeded \<and> iv_State w \<noteq> MutationFailed
           then Inl ErrMutationOperationConflict
           else if \<not> validateMutationReplayAncestor db (tr_ID t) (iv_Turn w)
           then Inl ErrMutationOperationConflict
           else case rejectIneligibleTerminalReplay env db w of
             None \<Rightarrow> (case recordTerminalMutationReplay t w db of Inl e \<Rightarrow> Inl e | Inr db1 \<Rightarrow> Inr ((), db1))
           | Some e \<Rightarrow> Inl e) = Inr (x, u)"
    from op obtain w where w: "?find = Some w" by (cases ?find) simp_all
    from op w have u: "recordTerminalMutationReplay t w db = Inr u"
      by (simp split: if_split_asm option.split_asm sum.split_asm)
    from w obtain v where v: "mutation_by_operation db (tr_Lineage t) (ms_ToolName spec) (ms_OperationID spec) = Some v"
      "scanMutation env v = Some w" by (auto simp: bind_eq_Some_conv)
    note row = operation_rowD [OF v(1)] and scan = scanMutationD [OF v(2)]
    show "turn_run now db u"
      by (rule recordTerminalMutationReplay_run [OF u _ t(4), of v])
        (use t row scan row_of_mem [OF turns_okD(2) [OF assms(2)] row(1)] in simp_all)
  qed
qed

text \<open>Under the fence, a mutation of the Turn itself moves.\<close>

lemma fenced_mutation_run:
  assumes "update_invocation m cond f missing db = Inr u" "turns_ok db" "turn_of db (lease_turn lease) = Some t"
    "started_turn t" "\<And>v. cond v \<Longrightarrow> fenced_mutation lease states v"
    "\<And>v. cond v \<Longrightarrow> iv_Mutation v \<Longrightarrow> mutation_moves v (f v)"
  shows "turn_run now db u"
  using assms(1,2)
proof (rule update_invocation_run)
  fix v assume "invocation_of db m = Some v" "cond v"
  with assms(5) [of v] assms(6) [of v] started_live [OF assms(3,4)]
  show "mutation_moves v (f v) \<and> live_turn db (iv_Turn v)" by (simp add: fenced_mutation_def)
qed

lemma same_invocation_settled [simp]: "same_invocation v (settled_row now s result cause v)"
  by (simp add: same_invocation_def settled_row_def)

lemma settled_row_State [simp]: "iv_State (settled_row now s result cause v) = s"
  by (simp add: settled_row_def)

lemma StartMutation_run:
  assumes "StartMutation env now lease m db = Inr (x, u)" "turns_ok db"
  shows "turn_run now db u"
proof -
  have "\<not> \<not> je_ValidUUID (te_Jobs env) m" by (rule notI) (use assms(1) in \<open>simp add: StartMutation_def\<close>)
  note run = assms(1) [unfolded StartMutation_def if_not_P [OF this]]
  show ?thesis using run assms(2)
  proof (rule withLocked_run)
    fix t p assume t: "turn_of db (lease_turn lease) = Some t" "started_turn t"
      and op: "(case update_invocation m (fenced_mutation lease [MutationReserved])
          (\<lambda>v. v\<lparr>iv_State := MutationInFlight, iv_StartedAt := Some now\<rparr>) ErrMutationStateConflict db of
        Inl e \<Rightarrow> Inl e
      | Inr db1 \<Rightarrow> (case getMutationByID env m db1 of Inl e \<Rightarrow> Inl e | Inr v \<Rightarrow> Inr (v, db1))) = Inr (x, u)"
    then have "update_invocation m (fenced_mutation lease [MutationReserved])
        (\<lambda>v. v\<lparr>iv_State := MutationInFlight, iv_StartedAt := Some now\<rparr>) ErrMutationStateConflict db = Inr u"
      by (simp split: sum.split_asm)
    then show "turn_run now db u" using assms(2) t
      by (rule fenced_mutation_run [where states = "[MutationReserved]"])
        (simp_all add: fenced_mutation_def mutation_moves_def same_invocation_def mutation_step.intros)
  qed
qed

lemma RecordProposedPublicationTip_run:
  assumes "RecordProposedPublicationTip env now lease m tip db = Inr (x, u)" "turns_ok db"
  shows "turn_run now db u"
proof -
  have "\<not> (\<not> je_ValidUUID (te_Jobs env) m \<or> \<not> validPublicationObjectID tip)"
    by (rule notI) (use assms(1) in \<open>simp add: RecordProposedPublicationTip_def\<close>)
  note run = assms(1) [unfolded RecordProposedPublicationTip_def if_not_P [OF this]]
  show ?thesis using run assms(2)
  proof (rule withLocked_run)
    let ?cond = "\<lambda>v. fenced_mutation lease [MutationInFlight] v \<and> iv_Tool v = ''publish_changes''
        \<and> iv_HistoryPublication v \<and> iv_ProposedSHA v = None"
    fix t p assume t: "turn_of db (lease_turn lease) = Some t" "started_turn t"
      and op: "(if tr_Status t \<noteq> AgentTurnRunning then Inl ErrAgentTurnFenceLost
         else case update_invocation m ?cond (\<lambda>v. v\<lparr>iv_ProposedSHA := Some tip\<rparr>) ErrMutationStateConflict db of
           Inl e \<Rightarrow> Inl e | Inr db1 \<Rightarrow> Inr ((), db1)) = Inr (x, u)"
    then have "update_invocation m ?cond (\<lambda>v. v\<lparr>iv_ProposedSHA := Some tip\<rparr>) ErrMutationStateConflict db = Inr u"
      by (simp split: sum.split_asm if_split_asm)
    then show "turn_run now db u" using assms(2) t
      by (rule fenced_mutation_run [where states = "[MutationInFlight]"])
        (auto simp: fenced_mutation_def mutation_moves_def same_invocation_def)
  qed
qed

lemma mutateMutationState_run:
  assumes "mutateMutationState env now lease m from_states to_state result cause db = Inr (x, u)" "turns_ok db"
    "\<And>s. s \<in> set from_states \<Longrightarrow> mutation_step s to_state"
  shows "turn_run now db u"
proof -
  have "\<not> \<not> je_ValidUUID (te_Jobs env) m" by (rule notI) (use assms(1) in \<open>simp add: mutateMutationState_def\<close>)
  note run = assms(1) [unfolded mutateMutationState_def if_not_P [OF this]]
  show ?thesis using run assms(2)
  proof (rule withLocked_run)
    let ?f = "settled_row now to_state (map_option (je_Jsonb (te_Jobs env)) result) cause"
    fix t p assume t: "turn_of db (lease_turn lease) = Some t" "started_turn t"
      and op: "(case update_invocation m (fenced_mutation lease from_states) ?f ErrMutationStateConflict db of
             Inl e \<Rightarrow> Inl e
           | Inr db1 \<Rightarrow>
               if to_state = MutationSucceeded
               then (case bindReviewerActorForSubmitReview env p
                            (case invocation_of db1 m of None \<Rightarrow> '''' | Some v \<Rightarrow> iv_Tool v) (the result) False db1 of
                       Inl e \<Rightarrow> Inl e
                     | Inr db2 \<Rightarrow> Inr ((), db2))
               else Inr ((), db1)) = Inr (x, u)"
    from op obtain db1 where db1: "update_invocation m (fenced_mutation lease from_states) ?f ErrMutationStateConflict db = Inr db1"
      by (simp split: sum.split_asm)
    have "side_change db1 u"
      using op db1 by (auto split: sum.split_asm if_split_asm dest: bind_actor_side)
    moreover have "turn_run now db db1" using db1 assms(2) t
      by (rule fenced_mutation_run [where states = from_states]) (auto simp: fenced_mutation_def mutation_moves_def intro: assms(3))
    ultimately show "turn_run now db u" by (blast intro: turn_run_trans side_change_run)
  qed
qed

lemma CompleteMutation_run: "CompleteMutation env now lease m result db = Inr (x, u) \<Longrightarrow> turns_ok db \<Longrightarrow> turn_run now db u"
  unfolding CompleteMutation_def
  by (simp split: option.split_asm) (erule mutateMutationState_run; auto intro: mutation_step.intros)

lemma FailMutation_run: "FailMutation env now lease m cause db = Inr (x, u) \<Longrightarrow> turns_ok db \<Longrightarrow> turn_run now db u"
  unfolding FailMutation_def
  by (simp split: option.split_asm) (erule mutateMutationState_run; auto intro: mutation_step.intros)

lemma MarkMutationUnknown_run: "MarkMutationUnknown env now lease m cause db = Inr (x, u) \<Longrightarrow> turns_ok db \<Longrightarrow> turn_run now db u"
  unfolding MarkMutationUnknown_def
  by (simp split: option.split_asm) (erule mutateMutationState_run; auto intro: mutation_step.intros)

lemma BeginMutationReconciliation_run:
  "BeginMutationReconciliation env now lease m db = Inr (x, u) \<Longrightarrow> turns_ok db \<Longrightarrow> turn_run now db u"
  unfolding BeginMutationReconciliation_def
  by (erule mutateMutationState_run; auto intro: mutation_step.intros)

lemma reads_only:
  "ListUnsettledMutations env now lease db = Inr (vs, u) \<Longrightarrow> u = db"
  "ListAgentTurnMutationInvocations env now lease db = Inr (ws, u) \<Longrightarrow> u = db"
  unfolding ListUnsettledMutations_def ListAgentTurnMutationInvocations_def
  by (auto elim!: withLocked_cases split: sum.split_asm if_split_asm)

section \<open>Holding a Turn\<close>

text \<open>Changes of a row that its owner makes.\<close>

lemma owned_moves:
  assumes "started_turn t" "same_turn t u" "tr_NextInvocation u = tr_NextInvocation t"
    "tr_OwnerToken u = tr_OwnerToken t" "\<not> waiting_turn u" "tr_Active u = tr_Active t" "tr_Recovery u = tr_Recovery t"
    "tr_Status u = AgentTurnRunning \<longrightarrow> tr_Status t = AgentTurnRunning"
  shows "turn_moves db t u"
  using assms by (auto simp: turn_moves_def started_turn_def closed_def fenced_def held_def stopped_def)

text \<open>The owner gives the Turn up: to recovery, or with nothing left unsettled.\<close>

lemma disowned_moves:
  assumes "started_turn t" "same_turn t u" "tr_NextInvocation u = tr_NextInvocation t" "turn_checks u"
    "tr_OwnerToken u = None" "stopped u" "\<not> unsettledMutationsForTurn db t \<or> \<not> closed u" "held u \<longrightarrow> held t"
  shows "turn_moves db t u"
  using assms turn_checks_owner [of u] started_not_closed [of t] by (auto simp: turn_moves_def stopped_def)

lemma update_slotE:
  assumes "update_slot i cond f db = Inr u"
  obtains s where "slot_of db i = Some s" "cond s" "u = db\<lparr>td_Slots := alter sl_Turn i f (td_Slots db)\<rparr>"
  using assms by (auto simp: update_slot_def split: option.split_asm if_split_asm)

text \<open>A slot that is renewed was occupied before.\<close>

lemma update_slot_run:
  assumes "update_slot i cond f db = Inr u" "\<And>s. sl_Turn (f s) = sl_Turn s" "\<And>s. s \<in> set (td_Slots db) \<Longrightarrow> sl_Turn s = i \<Longrightarrow> sl_LeaseExpiresAt s > now"
  shows "turn_run now db u"
proof -
  from update_slotE [OF assms(1)] have u: "u = db\<lparr>td_Slots := alter sl_Turn i f (td_Slots db)\<rparr>" .
  have "length (filter (\<lambda>s. sl_LeaseExpiresAt s > now) (map (\<lambda>s. if sl_Turn s = i then f s else s) ss))
      \<le> length (filter (\<lambda>s. sl_LeaseExpiresAt s > now) ss)"
    if "\<And>s. s \<in> set ss \<Longrightarrow> sl_Turn s = i \<Longrightarrow> sl_LeaseExpiresAt s > now" for ss
    using that by (induction ss) (auto simp: le_SucI)
  moreover have keys: "map (sl_Turn \<circ> (\<lambda>s. if sl_Turn s = i then f s else s)) ss = map sl_Turn ss" for ss
    using assms(2) by simp
  ultimately show ?thesis using assms(3)
    by (intro same_ledger_run) (simp_all add: u same_ledger_def occupied_slots_def alter_map slots_ok_def keys)
qed

lemma RefreshAgentTurnLease_run:
  assumes "RefreshAgentTurnLease env now lease d db = Inr (l, u)" "turns_ok db" "slots_ok db"
  shows "turn_run now db u"
proof -
  have "\<not> \<not> valid_positive_duration d" by (rule notI) (use assms(1) in \<open>simp add: RefreshAgentTurnLease_def\<close>)
  note run = assms(1) [unfolded RefreshAgentTurnLease_def if_not_P [OF this] Let_def]
  show ?thesis using run assms(2)
  proof (rule withLocked_run)
    let ?e = "now + microseconds d"
    let ?j = "update_jobs (job_fence lease) (\<lambda>j. j\<lparr>jb_HeartbeatAt := Some now, jb_LeaseExpiresAt := Some ?e, jb_UpdatedAt := now\<rparr>)"
    let ?a = "update_attempts (attempt_fence lease) (\<lambda>a. a\<lparr>ja_HeartbeatAt := Some now, ja_LeaseExpiresAt := ?e\<rparr>)"
    let ?t = "\<lambda>t. t\<lparr>tr_HeartbeatAt := Some now, tr_LeaseExpiresAt := Some ?e\<rparr>"
    let ?c = "\<lambda>s. sl_Epoch s = tr_Epoch (al_Turn lease) \<and> sl_ControlRevision s = tr_ControlRevision (al_Turn lease)
                 \<and> sl_OwnerToken s = al_OwnerToken lease"
    let ?s = "\<lambda>s. s\<lparr>sl_LeaseExpiresAt := ?e\<rparr>"
    fix t :: turn and p :: string
    assume t: "holds_turn now db lease t" "turn_of db (lease_turn lease) = Some t" "started_turn t"
      and op: "(case change_jobs ErrAgentTurnFenceLost ?j db of
             Inl e \<Rightarrow> Inl e
           | Inr db1 \<Rightarrow>
          (case change_jobs ErrAgentTurnFenceLost ?a db1 of
             Inl e \<Rightarrow> Inl e
           | Inr db2 \<Rightarrow>
          (case update_turn (lease_turn lease) (own_turn_row lease) ?t ErrAgentTurnFenceLost db2 of
             Inl e \<Rightarrow> Inl e
           | Inr db3 \<Rightarrow>
          (case update_slot (lease_turn lease) ?c ?s db3 of
             Inl e \<Rightarrow> Inl e
           | Inr db4 \<Rightarrow>
               Inr (lease\<lparr>al_Job := (al_Job lease)\<lparr>jl_Job := (jl_Job (al_Job lease))\<lparr>jb_LeaseExpiresAt := Some ?e\<rparr>\<rparr>\<rparr>,
                    db4))))) = Inr (l, u)"
    from op obtain db1 where db1: "change_jobs ErrAgentTurnFenceLost ?j db = Inr db1" by (simp split: sum.split_asm)
    from op db1 obtain db2 where db2: "change_jobs ErrAgentTurnFenceLost ?a db1 = Inr db2" by (simp split: sum.split_asm)
    from op db1 db2 obtain db3 where
      db3: "update_turn (lease_turn lease) (own_turn_row lease) ?t ErrAgentTurnFenceLost db2 = Inr db3"
      by (simp split: sum.split_asm)
    from op db1 db2 db3 have u: "update_slot (lease_turn lease) ?c ?s db3 = Inr u" by (simp split: sum.split_asm)
    have side: "side_change db db2"
      using change_jobs_side [OF db1] change_jobs_side [OF db2] by (rule side_change_trans)
    note same = side_changeD [OF side]
    have "turn_run now db2 db3" using db3
    proof (rule update_turn_run)
      fix r assume "turn_of db2 (lease_turn lease) = Some r"
      with t same have "r = t" by simp
      then show "turn_moves db2 r (?t r)"
        using t(3) by (intro owned_moves) (simp_all add: same_turn_def started_turn_def waiting_turn_def)
    qed
    moreover have "turn_run now db3 u" using u
    proof (rule update_slot_run)
      show "sl_Turn (?s s) = sl_Turn s" for s by simp
      fix s assume s: "s \<in> set (td_Slots db3)" "sl_Turn s = lease_turn lease"
      have "td_Slots db3 = td_Slots db" by (rule update_turnE [OF db3]) (simp add: same)
      with s assms(3) have "slot_of db (lease_turn lease) = Some s"
        using row_of_mem [of sl_Turn "td_Slots db" s] by (simp add: slots_ok_def)
      with t(1) show "sl_LeaseExpiresAt s > now" by (auto simp: holds_turn_def)
    qed
    ultimately show "turn_run now db u" using side_change_run [OF side] by (blast intro: turn_run_trans)
  qed
qed

lemma OpenMutationAdmission_run:
  assumes "OpenMutationAdmission env now lease db = Inr (x, u)" "turns_ok db"
  shows "turn_run now db u"
  using assms(1) [unfolded OpenMutationAdmission_def] assms(2)
proof (rule withLocked_run)
  let ?f = "\<lambda>t. t\<lparr>tr_AdmissionOpen := True, tr_AdmissionClosedAt := None\<rparr>"
  fix t :: turn and p :: string
  assume t: "turn_of db (lease_turn lease) = Some t" "started_turn t"
    and op: "(if tr_Status t \<noteq> AgentTurnRunning then Inl ErrAgentTurnFenceLost
       else case update_turn (lease_turn lease) (\<lambda>_. True) ?f TurnQuery db of
         Inl e \<Rightarrow> Inl e | Inr db1 \<Rightarrow> Inr ((), db1)) = Inr (x, u)"
  then have "update_turn (lease_turn lease) (\<lambda>_. True) ?f TurnQuery db = Inr u"
    by (simp split: if_split_asm sum.split_asm)
  then show "turn_run now db u"
  proof (rule update_turn_run)
    fix r assume "turn_of db (lease_turn lease) = Some r"
    with t show "turn_moves db r (?f r)"
      by (intro owned_moves) (simp_all add: same_turn_def started_turn_def waiting_turn_def)
  qed
qed

lemma closed_admission_moves:
  assumes "started_turn t"
  shows "turn_moves db t (closed_admission now rec p s e t)"
  using assms by (intro owned_moves) (simp_all add: closed_admission_def same_turn_def started_turn_def waiting_turn_def)

lemma closeLiveMutationAdmission_run:
  assumes "closeLiveMutationAdmission now t p s e db = Inr u" "turn_of db (tr_ID t) = Some t" "started_turn t"
  shows "turn_run now db u"
proof -
  let ?f = "closed_admission now (list_ex (own_mutation t [MutationUnknown, MutationReconciling]) (td_Invocations db)) p s e"
  from assms(1) have "update_turn (tr_ID t) (\<lambda>_. True) ?f ErrAgentTurnFenceLost db = Inr u"
    by (simp add: closeLiveMutationAdmission_def Let_def split: if_split_asm)
  then show ?thesis by (rule update_turn_run) (use assms(2,3) in \<open>simp add: closed_admission_moves\<close>)
qed

lemma CloseMutationAdmission_run:
  assumes "CloseMutationAdmission env now lease db = Inr (x, u)" "turns_ok db"
  shows "turn_run now db u"
  using assms(1) [unfolded CloseMutationAdmission_def] assms(2)
  by (rule withLocked_run) (auto split: sum.split_asm elim: closeLiveMutationAdmission_run)

lemma CloseMutationAdmissionWithPromptEvidence_run:
  assumes "CloseMutationAdmissionWithPromptEvidence env now lease s e db = Inr (x, u)" "turns_ok db"
  shows "turn_run now db u"
proof -
  have "\<not> \<not> validAgentTurnPromptEvidence s e"
    by (rule notI) (use assms(1) in \<open>simp add: CloseMutationAdmissionWithPromptEvidence_def\<close>)
  from assms(1) [unfolded CloseMutationAdmissionWithPromptEvidence_def if_not_P [OF this]] assms(2) show ?thesis
    by (rule withLocked_run) (auto split: sum.split_asm elim: closeLiveMutationAdmission_run)
qed

section \<open>Giving a Turn up\<close>

text \<open>The last update of an operation, made on tables that have the same Turns as before.\<close>

lemma same_unsettled:
  "td_Invocations u = td_Invocations db \<Longrightarrow> unsettledMutationsForTurn u t = unsettledMutationsForTurn db t"
  by (simp add: unsettledMutationsForTurn_def)

lemma disowned_sel [simp]:
  "same_turn t (disowned t)" "tr_NextInvocation (disowned t) = tr_NextInvocation t" "tr_OwnerToken (disowned t) = None"
  by (simp_all add: disowned_def same_turn_def)

lemma terminal_not_waiting:
  "terminalAgentTurnStatus s \<Longrightarrow> s \<noteq> AgentTurnQueued \<and> s \<noteq> AgentTurnStarting \<and> s \<noteq> AgentTurnRunning"
  by (auto simp: terminalAgentTurnStatus_def)

lemma FinalizeAgentTurn_run:
  assumes "FinalizeAgentTurn env now lease status outcome e db = Inr (x, u)" "turns_ok db"
  shows "turn_run now db u" "\<exists>t. turn_of u (lease_turn lease) = Some t \<and> fenced t"
proof -
  have status: "terminalAgentTurnStatus status"
    by (rule ccontr) (use assms(1) in \<open>simp add: FinalizeAgentTurn_def\<close>)
  from assms(1) status obtain canonical where
    "(if outcome = '''' then Some None else map_option Some (je_Canonical (te_Jobs env) outcome)) = Some canonical"
    by (cases "if outcome = '''' then Some None else map_option Some (je_Canonical (te_Jobs env) outcome)")
      (simp_all add: FinalizeAgentTurn_def)
  note canonical = this
  have "\<not> \<not> terminalAgentTurnStatus status" using status by simp
  note run = assms(1) [unfolded FinalizeAgentTurn_def if_not_P [OF this] canonical option.case]
  let ?f = "\<lambda>t. (disowned t)\<lparr>tr_Status := status, tr_CompletedAt := Some now,
       tr_Outcome := map_option (je_Jsonb (te_Jobs env)) canonical, tr_LastError := nonempty e\<rparr>"
  let ?d = "delete_slot (\<lambda>s. sl_Turn s = lease_turn lease \<and> sl_OwnerToken s = al_OwnerToken lease)"
  let ?j = "succeed_turn_job now lease (je_Jsonb (te_Jobs env) (te_TurnResult env status canonical))"
  let ?op = "\<lambda>t participant db.
     if tr_AdmissionOpen t \<or> tr_Status t \<noteq> AgentTurnSettling \<and> tr_Status t \<noteq> AgentTurnReconciling
     then Inl ErrMutationAdmissionClosed
     else if unsettledMutationsForTurn db t then Inl ErrAgentTurnMutationsUnsettled
     else case ?j (?d db) of
       Inl e \<Rightarrow> Inl e
     | Inr db1 \<Rightarrow>
    (case update_turn (lease_turn lease) (own_turn_row lease) ?f ErrAgentTurnFenceLost db1 of
       Inl e \<Rightarrow> Inl e | Inr db2 \<Rightarrow> Inr ((), db2))"
  have "turn_run now db u \<and> (\<exists>t. turn_of u (lease_turn lease) = Some t \<and> fenced t)"
    using run
  proof (rule withLocked_cases)
    fix t p assume h: "holds_turn now db lease t" and op: "?op t p db = Inr (x, u)"
    note t = held_started [OF h assms(2)]
    from op obtain db1 where db1: "?j (?d db) = Inr db1" and settled: "\<not> unsettledMutationsForTurn db t"
      by (simp split: if_split_asm sum.split_asm)
    from op db1 settled have upd: "update_turn (lease_turn lease) (own_turn_row lease) ?f ErrAgentTurnFenceLost db1 = Inr u"
      by (simp split: if_split_asm sum.split_asm)
    note same = side_changeD [OF succeed_turn_job_side [OF db1]]
    have turns: "td_Turns db1 = td_Turns db" "td_Invocations db1 = td_Invocations db" by (simp_all add: same delete_slot_def)
    have moves: "turn_moves db1 t (?f t)" if "turn_checks (?f t)"
      using t(3) that settled terminal_not_waiting [OF status]
      by (intro disowned_moves)
        (auto simp: same_unsettled [OF turns(2)] same_turn_def disowned_def waiting_turn_def held_def stopped_def)
    have "turn_run now db1 u"
      using upd by (rule update_turn_run) (use t(1) moves in \<open>simp add: turns\<close>)
    then have "turn_run now db u"
      using side_change_run [OF succeed_turn_job_side [OF db1]] delete_slot_run by (blast intro: turn_run_trans)
    moreover have "turn_of u (lease_turn lease) = Some (?f t)"
      by (rule update_turn_row [OF upd]) (use t turns_okD(1) [OF assms(2)] in \<open>simp_all add: turns disowned_def\<close>)
    moreover have "fenced (?f t)" using terminal_not_waiting [OF status] by (simp add: fenced_def disowned_def waiting_turn_def)
    ultimately show ?thesis by blast
  qed
  then show "turn_run now db u" "\<exists>t. turn_of u (lease_turn lease) = Some t \<and> fenced t" by blast+
qed

lemma fenced_turn_sel [simp]:
  "same_turn t (fenced_turn env now l r q e t)" "tr_NextInvocation (fenced_turn env now l r q e t) = tr_NextInvocation t"
  "tr_OwnerToken (fenced_turn env now l r q e t) = None" "stopped (fenced_turn env now l r q e t)"
  "\<not> closed (fenced_turn env now l r q e t)" "fenced (fenced_turn env now l r q e t)"
  by (simp_all add: fenced_turn_def disowned_def same_turn_def waiting_turn_def closed_def fenced_def recovery_started_def
      stopped_def)

lemma own_mutation_live:
  assumes "own_mutation t states v" "turn_of db (tr_ID t) = Some t" "started_turn t"
  shows "live_turn db (iv_Turn v)" "iv_Mutation v" "iv_State v \<in> set states"
  using assms started_live [OF assms(2,3)] by (simp_all add: own_mutation_def)

lemma hand_to_recovery_run:
  assumes "hand_to_recovery env now job lease t db = Inr (x, u)" "turns_ok db" "turn_of db (lease_turn lease) = Some t"
    "started_turn t"
  shows "turn_run now db u \<and> (\<exists>t. turn_of u (lease_turn lease) = Some t \<and> fenced t)"
proof -
  let ?reconcile = "list_ex (own_mutation t [MutationUnknown, MutationReconciling, MutationSucceeded]) (td_Invocations db)"
  let ?db1 = "update_invocations (own_mutation t [MutationUnknown]) (\<lambda>v. v\<lparr>iv_State := MutationReconciling\<rparr>) db"
  let ?d = "delete_slot (\<lambda>s. sl_Turn s = lease_turn lease \<and> owns_slot lease s)"
  let ?cond = "\<lambda>r. own_turn_row lease r \<and> tr_Active r \<and> (tr_Status r = AgentTurnSettling \<or> tr_Status r = AgentTurnReconciling)
       \<and> \<not> tr_AdmissionOpen r \<and> tr_AdmissionClosedAt r \<noteq> None \<and> tr_Recovery r = None"
  note r = assms(1) [unfolded hand_to_recovery_def Let_def]
  from r obtain q db2 where db2: "enqueue_recovery env now job t ?reconcile ?db1 = Inr (q, db2)"
    by (simp split: if_split_asm sum.split_asm prod.split_asm)
  from r db2 obtain db3 where db3: "succeed_turn_job now lease ''{\"controlled_handoff\":true}'' db2 = Inr db3"
    by (simp split: if_split_asm sum.split_asm)
  let ?f = "fenced_turn env now t ?reconcile q None"
  from r db2 db3 have upd: "update_turn (lease_turn lease) ?cond ?f ErrAgentTurnFenceLost (?d db3) = Inr u"
    by (auto split: if_split_asm sum.split_asm option.split_asm)
  have side: "side_change ?db1 db3" using enqueue_recovery_side [OF db2] succeed_turn_job_side [OF db3] by (rule side_change_trans)
  have turns: "td_Turns (?d db3) = td_Turns db"
    using side_changeD(1) [OF side] by (simp add: delete_slot_def update_invocations_def)
  have id: "tr_ID t = lease_turn lease" by (rule row_of_key [OF assms(3)])
  have "turn_run now db ?db1"
  proof (rule update_invocations_run)
    fix v assume "own_mutation t [MutationUnknown] v"
    from own_mutation_live [OF this _ assms(4)] assms(3) id
    show "mutation_moves v (v\<lparr>iv_State := MutationReconciling\<rparr>) \<and> live_turn db (iv_Turn v)"
      by (simp add: mutation_moves_def same_invocation_def mutation_step.intros)
  qed
  moreover have "turn_run now (?d db3) u" using upd
  proof (rule update_turn_run)
    fix s assume "turn_of (?d db3) (lease_turn lease) = Some s" "turn_checks (?f s)"
    with assms(3,4) started_held [OF assms(2-4)] show "turn_moves (?d db3) s (?f s)"
      by (intro disowned_moves) (simp_all add: turns)
  qed
  ultimately have "turn_run now db u" using side_change_run [OF side] delete_slot_run by (blast intro: turn_run_trans)
  moreover have "turn_of u (lease_turn lease) = Some (?f t)"
    by (rule update_turn_row [OF upd])
      (use assms(3) turns_okD(1) [OF assms(2)] fenced_turn_sel(1) in \<open>simp_all add: turns same_turnD(1)\<close>)
  ultimately show ?thesis using fenced_turn_sel(6) by blast
qed

lemma live_lease_started:
  assumes "turn_of db i = Some t" "turns_ok db" "lease_live now t \<or> owner_token_of t \<noteq> ''''"
  shows "started_turn t"
proof -
  have "tr_OwnerToken t \<noteq> None"
    using assms(3) owners_okD(4) [OF assms(2,1)]
    by (auto simp: lease_live_def owner_token_of_def split: option.split_asm)
  then show ?thesis by (rule owners_okD(1) [OF assms(2,1)])
qed

lemma handoff_fenceD:
  assumes "handoff_fence env now job lease db = Inr t" "turns_ok db"
  shows "turn_of db (lease_turn lease) = Some t" "started_turn t"
proof -
  from assms(1) have t: "turn_of db (lease_turn lease) = Some t" "lease_live now t"
    unfolding handoff_fence_def Let_def by (auto simp: owns_turn_def split: if_split_asm sum.split_asm option.split_asm)
  show "turn_of db (lease_turn lease) = Some t" by (rule t)
  show "started_turn t" using live_lease_started [OF t(1) assms(2)] t(2) by blast
qed

lemma BeginAgentTurnRecovery_run:
  assumes "BeginAgentTurnRecovery env now lease db = Inr (x, u)" "turns_ok db"
  shows "turn_run now db u"
proof -
  have valid: "valid_handoff env lease" by (rule ccontr) (use assms(1) in \<open>simp add: BeginAgentTurnRecovery_def\<close>)
  note r = assms(1) [unfolded BeginAgentTurnRecovery_def]
  from r valid obtain row job where job: "job_by_id (td_Jobs db) (lease_id (al_Job lease)) = Some row"
    "scanJob (te_Jobs env) row = Some job" by (simp split: option.split_asm)
  show ?thesis
  proof (cases "jb_Status job = JobSucceeded")
    case True
    with r valid job have "u = db" by (simp split: if_split_asm sum.split_asm)
    then show ?thesis by simp
  next
    case False
    with r valid job obtain t where t: "handoff_fence env now job lease db = Inr t"
      "hand_to_recovery env now job lease t db = Inr (x, u)" by (simp split: if_split_asm sum.split_asm)
    from hand_to_recovery_run [OF t(2) assms(2) handoff_fenceD [OF t(1) assms(2)]] show ?thesis by blast
  qed
qed

section \<open>A Turn whose lease ran out\<close>

lemma expire_mutations_run:
  assumes "turn_of db (tr_ID t) = Some t" "started_turn t"
  shows "turn_run now db (expire_mutations now t db)" "td_Turns (expire_mutations now t db) = td_Turns db"
    "td_Slots (expire_mutations now t db) = td_Slots db"
proof -
  let ?f = "\<lambda>v. v\<lparr>iv_State := MutationFailed, iv_FinishedAt := Some now,
               iv_LastError := Some ''execution expired before mutation started''\<rparr>"
  let ?g = "\<lambda>v. v\<lparr>iv_State := MutationUnknown, iv_LastError := Some ''execution expired with mutation in flight''\<rparr>"
  let ?db1 = "update_invocations (\<lambda>v. own_mutation t [MutationReserved] v \<and> iv_StartedAt v = None) ?f db"
  have t1: "turn_of ?db1 (tr_ID t) = Some t" using assms(1) by (simp add: update_invocations_def)
  have "turn_run now db ?db1"
  proof (rule update_invocations_run)
    fix v assume "own_mutation t [MutationReserved] v \<and> iv_StartedAt v = None"
    then have "own_mutation t [MutationReserved] v" ..
    from own_mutation_live [OF this assms] show "mutation_moves v (?f v) \<and> live_turn db (iv_Turn v)"
      by (simp add: mutation_moves_def same_invocation_def mutation_step.intros)
  qed
  also have "turn_run now ?db1 (update_invocations (own_mutation t [MutationInFlight]) ?g ?db1)"
  proof (rule update_invocations_run)
    fix v assume "own_mutation t [MutationInFlight] v"
    from own_mutation_live [OF this t1 assms(2)] show "mutation_moves v (?g v) \<and> live_turn ?db1 (iv_Turn v)"
      by (simp add: mutation_moves_def same_invocation_def mutation_step.intros)
  qed
  finally show "turn_run now db (expire_mutations now t db)" unfolding expire_mutations_def .
qed (simp_all add: expire_mutations_def update_invocations_def)

lemma recoverExpiredAgentTurn_run:
  assumes "recoverExpiredAgentTurn env now claimed db = Inr (x, u)" "turns_ok db"
  shows "turn_run now db u \<and> (\<exists>t. turn_of u (job_turn claimed) = Some t \<and> fenced t \<and> stopped t)
    \<and> (\<exists>t. turn_of db (job_turn claimed) = Some t \<and> td_Invocations u = td_Invocations (expire_mutations now t db))"
proof -
  note r = assms(1) [unfolded recoverExpiredAgentTurn_def Let_def]
  from r obtain job where job: "lockExpiredAgentTurnJob env now (jb_ID claimed) (job_turn claimed) (job_epoch claimed) db = Inr job"
    by (simp split: sum.split_asm)
  have jt: "job_turn job = job_turn claimed"
    using job by (auto simp: lockExpiredAgentTurnJob_def split: option.split_asm if_split_asm)
  from r job obtain h where h: "lockHierarchy env (jb_Scope job) = Inr h" by (simp split: sum.split_asm)
  from r job h obtain t where t: "turn_of db (job_turn job) = Some t" by (simp split: option.split_asm)
  note r2 = r [unfolded job sum.case h t option.case]
  let ?db1 = "expire_mutations now t db"
  let ?reconcile = "list_ex (own_mutation t [MutationUnknown, MutationReconciling, MutationSucceeded]) (td_Invocations ?db1)"
  from r2 have token: "owner_token_of t \<noteq> ''''" by (simp split: if_split_asm)
  from r2 obtain q db2 where db2: "enqueue_recovery env now job t ?reconcile ?db1 = Inr (q, db2)"
    by (simp split: if_split_asm sum.split_asm prod.split_asm)
  let ?d = "delete_slot (\<lambda>s. sl_Turn s = tr_ID t) db2"
  from r2 db2 obtain db3 where db3: "expire_turn_job now job ?d = Inr db3"
    by (simp split: if_split_asm sum.split_asm)
  let ?f = "\<lambda>r. (fenced_turn env now t ?reconcile q (Some ''execution lease expired'') r)
                  \<lparr>tr_AdmissionClosedAt := coalesce_with (tr_AdmissionClosedAt r) (Some now)\<rparr>"
  from r2 db2 db3 have upd: "update_turn (tr_ID t) tr_Active ?f TurnQuery db3 = Inr u"
    by (auto split: if_split_asm sum.split_asm option.split_asm)
  have id: "tr_ID t = job_turn job" by (rule row_of_key [OF t])
  have started: "started_turn t" using live_lease_started [OF t assms(2)] token by blast
  note expire = expire_mutations_run [OF _ started, of db now] 
  have t': "turn_of db (tr_ID t) = Some t" using t id by simp
  have turns: "td_Turns db3 = td_Turns db"
    using side_changeD(1) [OF expire_turn_job_side [OF db3]] side_changeD(1) [OF enqueue_recovery_side [OF db2]]
      expire(2) [OF t'] by (simp add: delete_slot_def)
  have sel: "same_turn r (?f r)" "tr_NextInvocation (?f r) = tr_NextInvocation r" "tr_OwnerToken (?f r) = None"
    "stopped (?f r)" "\<not> closed (?f r)" "fenced (?f r)" for r
    by (simp_all add: fenced_turn_def disowned_def same_turn_def waiting_turn_def closed_def fenced_def recovery_started_def
        stopped_def)
  have "turn_run now db3 u" using upd
  proof (rule update_turn_run)
    fix s assume s: "turn_of db3 (tr_ID t) = Some s" "turn_checks (?f s)"
    then have "s = t" using t' by (simp add: turns)
    then show "turn_moves db3 s (?f s)"
      by (intro disowned_moves disjI2 sel s(2)) (use started started_held [OF assms(2) t' started] in simp_all)
  qed
  then have "turn_run now db u"
    using side_change_run [OF expire_turn_job_side [OF db3]] side_change_run [OF enqueue_recovery_side [OF db2]]
      expire(1) [OF t'] delete_slot_run by (blast intro: turn_run_trans)
  moreover have "turn_of u (tr_ID t) = Some (?f t)"
    by (rule update_turn_row [OF upd]) (use t' turns_okD(1) [OF assms(2)] sel(1) in \<open>simp_all add: turns same_turnD(1)\<close>)
  moreover have "td_Invocations u = td_Invocations (expire_mutations now t db)"
  proof (rule update_turnE [OF upd])
    assume "u = db3\<lparr>td_Turns := alter tr_ID (tr_ID t) ?f (td_Turns db3)\<rparr>"
    then show ?thesis
      using side_changeD(2) [OF expire_turn_job_side [OF db3]] side_changeD(2) [OF enqueue_recovery_side [OF db2]]
      by (simp add: delete_slot_def)
  qed
  ultimately show ?thesis using sel(4,6) id jt t by auto
qed

lemma RecoverExpiredAgentTurnE:
  assumes "RecoverExpiredAgentTurn env now i epoch db = Inr (x, u)" "u \<noteq> db"
  obtains job where "recoverExpiredAgentTurn env now job db = Inr (x, u)" "job_turn job = i"
proof -
  let ?P = "\<lambda>j. jb_Kind j = RunAgentTurnJobKind \<and> job_turn j = i \<and> job_epoch j = epoch"
  note r = assms(1) [unfolded RecoverExpiredAgentTurn_def]
  from r obtain row where row: "find ?P (db_Jobs (td_Jobs db)) = Some row" by (simp split: if_split_asm option.split_asm)
  from r row obtain job where job: "scanJob (te_Jobs env) row = Some job" by (simp split: if_split_asm option.split_asm)
  from r row job assms(2) have "recoverExpiredAgentTurn env now job db = Inr (x, u)"
    by (simp split: if_split_asm option.split_asm)
  moreover have "job_turn job = i"
    using row job by (auto simp: find_Some_iff scanJob_def split: if_split_asm)
  ultimately show thesis by (rule that)
qed

lemma RecoverExpiredAgentTurn_run:
  assumes "RecoverExpiredAgentTurn env now i epoch db = Inr (x, u)" "turns_ok db"
  shows "turn_run now db u"
proof (cases "u = db")
  case False
  from RecoverExpiredAgentTurnE [OF assms(1) False] obtain job where "recoverExpiredAgentTurn env now job db = Inr (x, u)" .
  from recoverExpiredAgentTurn_run [OF this assms(2)] show ?thesis by blast
qed simp

section \<open>Acquiring a Turn\<close>

text \<open>An acquisition occupies one slot more.\<close>

definition acquires :: "instant \<Rightarrow> turns_db \<Rightarrow> turns_db \<Rightarrow> bool" where
  "acquires now db u \<longleftrightarrow>
     turn_micro\<^sup>*\<^sup>* db u \<and> occupied_slots now u \<le> occupied_slots now db + 1 \<and> (slots_ok db \<longrightarrow> slots_ok u)"

lemma insert_slotD:
  assumes "insert_slot s db = Inr u"
  shows "u = db\<lparr>td_Slots := td_Slots db @ [s]\<rparr>" "sl_Turn s \<notin> sl_Turn ` set (td_Slots db)"
  using assms by (auto simp: insert_slot_def list_ex_iff split: if_split_asm)

lemma acquired_sel [simp]:
  "same_turn t (acquired now owner token e t)" "tr_NextInvocation (acquired now owner token e t) = tr_NextInvocation t"
  "tr_OwnerToken (acquired now owner token e t) = Some token" "\<not> waiting_turn (acquired now owner token e t)"
  "\<not> closed (acquired now owner token e t)"
  by (simp_all add: acquired_def same_turn_def waiting_turn_def closed_def fenced_def)

lemma acquire_run:
  assumes "acquire env now owner lease job db = Inr (l, u)" "turns_ok db"
  shows "acquires now db u"
proof -
  note r = assms(1) [unfolded acquire_def Let_def]
  from r obtain payload where payload: "te_TurnPayload env (jb_Payload job) = Some payload" by (simp split: option.split_asm)
  from r payload obtain h where h: "lockHierarchy env (jb_Scope job) = Inr h" by (simp split: if_split_asm sum.split_asm)
  from r payload h obtain t where t: "turn_of db (job_turn job) = Some t" by (simp split: if_split_asm option.split_asm)
  note r2 = r [unfolded payload h t option.case sum.case]
  from r2 obtain attempt e jobs where jobs: "lease_turn_job env now job owner lease (td_Jobs db) = Some (attempt, e, jobs)"
    by (simp split: if_split_asm option.split_asm prod.split_asm)
  let ?token = "je_UUID (te_Jobs env) ''owner-token''"
  let ?s = "\<lparr>sl_Turn = tr_ID t, sl_Session = tr_Session t, sl_Epoch = tr_Epoch t,
              sl_ControlRevision = tr_ControlRevision t, sl_OwnerID = owner, sl_OwnerToken = ?token, sl_LeaseExpiresAt = e\<rparr>"
  from r2 jobs obtain db1 where db1: "insert_slot ?s (db\<lparr>td_Jobs := jobs\<rparr>) = Inr db1"
    by (simp split: if_split_asm sum.split_asm)
  let ?cond = "\<lambda>r. tr_Epoch r = tr_Epoch t \<and> tr_ControlRevision r = tr_ControlRevision t \<and> tr_Active r
       \<and> (tr_Status r = AgentTurnQueued \<or> tr_Status r = AgentTurnStarting) \<and> tr_OwnerID r = None \<and> tr_OwnerToken r = None"
  let ?f = "acquired now owner ?token e"
  from r2 jobs db1 have upd: "update_turn (tr_ID t) ?cond ?f ErrAgentTurnFenceLost db1 = Inr u"
    by (auto split: if_split_asm sum.split_asm option.split_asm)
  have d1: "db1 = db\<lparr>td_Jobs := jobs, td_Slots := td_Slots db @ [?s]\<rparr>" "sl_Turn ?s \<notin> sl_Turn ` set (td_Slots db)"
    using insert_slotD [OF db1] by simp_all
  have "turn_micro db db1" by (rule same_ledger_micro) (simp add: same_ledger_def d1(1))
  moreover have "turn_run now db1 u" using upd
  proof (rule update_turn_run)
    fix r assume "?cond r" "turn_checks (?f r)"
    then show "turn_moves db1 r (?f r)"
      by (auto simp: turn_moves_def waiting_turn_def closed_def fenced_def acquired_def same_turn_def held_def stopped_def)
  qed
  moreover have "occupied_slots now db1 \<le> occupied_slots now db + 1" "slots_ok db \<Longrightarrow> slots_ok db1"
    using d1(2) by (simp_all add: occupied_slots_def slots_ok_def d1(1))
  ultimately show ?thesis unfolding acquires_def turn_run_def by (auto intro: converse_rtranclp_into_rtranclp)
qed

lemma ClaimAndAcquireAgentTurn_run:
  assumes "ClaimAndAcquireAgentTurn env now owner lease limit db = Inr (l, u)" "turns_ok db"
  shows "u = db \<or> acquires now db u \<and> int (occupied_slots now u) \<le> limit"
proof (cases "l = None")
  case True
  with assms(1) show ?thesis
    by (auto simp: ClaimAndAcquireAgentTurn_def split: if_split_asm list.split_asm option.split_asm sum.split_asm)
next
  case False
  note r = assms(1) [unfolded ClaimAndAcquireAgentTurn_def]
  from r False have limit: "int (occupied_slots now db) < limit" by (simp split: if_split_asm)
  from r False obtain row rows where rows: "claimable_jobs (te_Jobs env) now AgentTurnQueue RunAgentTurnJobKind (td_Jobs db) = row # rows"
    by (simp split: if_split_asm list.split_asm)
  from r False rows obtain job where job: "scanJob (te_Jobs env) row = Some job"
    by (simp split: if_split_asm option.split_asm)
  from r False rows job obtain a where "acquire env now owner lease job db = Inr (a, u)"
    by (auto split: if_split_asm sum.split_asm)
  from acquire_run [OF this assms(2)] limit show ?thesis by (simp add: acquires_def)
qed

section \<open>Recovery\<close>

definition recovering :: "turn \<Rightarrow> bool" where
  "recovering t \<longleftrightarrow> \<not> waiting_turn t \<and> (\<exists>b. tr_Recovery t = Some b \<and> rb_SettledAt b = None)"

lemma recovering_open: "recovering t \<Longrightarrow> \<not> closed t \<and> \<not> waiting_turn t"
  by (auto simp: recovering_def closed_def)

lemma recovering_live: "turn_of db i = Some t \<Longrightarrow> recovering t \<Longrightarrow> live_turn db i"
  by (auto simp: live_turn_def dest: recovering_open)

lemma lockRecoveryD:
  assumes "lockRecovery env now lease kind db = Inr (job, t)"
  shows "turn_of db (job_turn job) = Some t" "recovering t"
  using assms
  by (auto simp: lockRecovery_def recovery_turn_def Let_def recovering_def waiting_turn_def
      split: sum.split_asm option.split_asm if_split_asm)

text \<open>The owner, if there is one, stays.\<close>

lemma recovery_moves:
  assumes "recovering t" "same_turn t u" "tr_NextInvocation u = tr_NextInvocation t" "turn_checks u"
    "tr_OwnerToken u = tr_OwnerToken t" "\<not> waiting_turn u" "\<not> unsettledMutationsForTurn db t \<or> \<not> closed u"
    "tr_Active t \<longrightarrow> tr_Active u" "tr_Status u = AgentTurnRunning \<longrightarrow> tr_Status t = AgentTurnRunning"
  shows "turn_moves db t u"
proof -
  have "held t" using assms(1) by (auto simp: recovering_def held_def)
  with assms turn_checks_owner [of u] recovering_open [of t] show ?thesis by (auto simp: turn_moves_def stopped_def)
qed

lemma settleAgentTurnRecovery_run:
  assumes "settleAgentTurnRecovery env now authority db = Inr (x, u)" "turn_of db (job_turn authority) = Some t"
    "\<not> waiting_turn t"
  shows "turn_run now db u"
proof (cases "u = db")
  case False
  let ?lost = "JobsError ErrAgentTurnRecoveryFenceLost"
  note r = assms(1) [unfolded settleAgentTurnRecovery_def Let_def assms(2) option.case]
  from r obtain b where b: "tr_Recovery t = Some b" by (simp split: if_split_asm option.split_asm)
  note r2 = r [unfolded b option.case]
  from r2 False have open_: "rb_SettledAt b = None" and complete: "recovery_complete t b db"
    by (auto split: if_split_asm)
  have recovering: "recovering t" using b open_ assms(3) by (simp add: recovering_def)
  have settled: "\<not> unsettledMutationsForTurn db t" using complete by (simp add: recovery_complete_def)
  have id: "tr_ID t = job_turn authority" by (rule row_of_key [OF assms(2)])
  show ?thesis
  proof (cases "rb_Continuation b = ''MUTATION_RECONCILIATION_HANDOFF_APPLIED''
                  \<or> rb_Continuation b = ''WORKFLOW_DEFINITION_HANDOFF_APPLIED''")
    case True
    let ?f = "\<lambda>r. r\<lparr>tr_Status := AgentTurnInterrupted, tr_Recovery := Some (b\<lparr>rb_SettledAt := Some now\<rparr>)\<rparr>"
    from r2 False open_ complete True have "update_turn (tr_ID t) (\<lambda>_. True) ?f TurnQuery db = Inr u"
      by (simp split: if_split_asm sum.split_asm)
    then show ?thesis
    proof (rule update_turn_run)
      fix s assume "turn_of db (tr_ID t) = Some s" "turn_checks (?f s)"
      with assms(2) id recovering settled show "turn_moves db s (?f s)"
        by (intro recovery_moves) (simp_all add: same_turn_def waiting_turn_def)
    qed
  next
    case other: False
    from r2 False open_ complete other obtain ending where e: "te_Continue env t = Inr ending"
      by (simp split: if_split_asm sum.split_asm)
    from r2 False open_ complete other e have "update_turn (tr_ID t) (\<lambda>_. True) (settled_barrier now ending) ?lost db = Inr u"
      by (simp split: if_split_asm sum.split_asm)
    then show ?thesis
    proof (rule update_turn_run)
      fix s assume s: "turn_of db (tr_ID t) = Some s" "turn_checks (settled_barrier now ending s)"
      with assms(2) id have "s = t" by simp
      with s recovering settled b show "turn_moves db s (settled_barrier now ending s)"
        by (intro recovery_moves)
          (auto simp: settled_barrier_def recovered_status_def same_turn_def waiting_turn_def split: recovery_end.splits)
    qed
  qed
qed simp

lemma finish_recovery_job_run:
  assumes "finish_recovery_job env now job result db = Inr (x, u)" "turn_of db (job_turn job) = Some t" "\<not> waiting_turn t"
  shows "turn_run now db u"
proof -
  note r = assms(1) [unfolded finish_recovery_job_def]
  from r obtain db1 where db1: "completeRecoveryJob now job result db = Inr db1" by (simp split: sum.split_asm)
  note r2 = r [unfolded db1 sum.case]
  from r2 obtain y v where v: "settleAgentTurnRecovery env now job db1 = Inr (y, v)"
    by (cases "settleAgentTurnRecovery env now job db1") auto
  from r2 [unfolded v sum.case prod.case] have "v = u" by (simp split: option.split_asm)
  note u = v [unfolded this]
  note side = completeRecoveryJob_side [OF db1]
  have "turn_of db1 (job_turn job) = Some t" using assms(2) by (simp add: side_changeD(1) [OF side])
  from settleAgentTurnRecovery_run [OF u this assms(3)] side_change_run [OF side] show ?thesis
    by (blast intro: turn_run_trans)
qed

lemma AcknowledgeRecoveredRuntimeStopped_run:
  assumes "AcknowledgeRecoveredRuntimeStopped env now lease db = Inr (x, u)" "turns_ok db"
  shows "turn_run now db u"
proof -
  note r = assms(1) [unfolded AcknowledgeRecoveredRuntimeStopped_def]
  let ?f = "\<lambda>t. t\<lparr>tr_Recovery := map_option
      (\<lambda>b. b\<lparr>rb_RuntimeStoppedAt := coalesce_with (rb_RuntimeStoppedAt b) (Some now)\<rparr>) (tr_Recovery t)\<rparr>"
  from r obtain job t where job: "lockRecovery env now lease StopStaleRuntimeJobKind db = Inr (job, t)"
    by (cases "lockRecovery env now lease StopStaleRuntimeJobKind db") auto
  let ?cond = "\<lambda>t. tr_Session t = job_session job \<and> tr_Epoch t = job_epoch job
      \<and> (case tr_Recovery t of None \<Rightarrow> False | Some b \<Rightarrow> rb_SettledAt b = None)"
  note r2 = r [unfolded job sum.case prod.case]
  note t = lockRecoveryD [OF job]
  from r2 obtain db1 where db1: "update_turn (job_turn job) ?cond ?f (JobsError ErrAgentTurnRecoveryFenceLost) db = Inr db1"
    by (cases "update_turn (job_turn job) ?cond ?f (JobsError ErrAgentTurnRecoveryFenceLost) db") auto
  from r2 [unfolded db1 sum.case] have u: "finish_recovery_job env now job ''{\"runtime_stopped\":true}'' db1 = Inr (x, u)" .
  have open_: "recovering (?f t)" using t(2) by (auto simp: recovering_def waiting_turn_def)
  have "turn_run now db db1" using db1
  proof (rule update_turn_run)
    fix s assume "turn_of db (job_turn job) = Some s" "turn_checks (?f s)"
    with t open_ show "turn_moves db s (?f s)"
      by (intro recovery_moves) (auto simp: same_turn_def dest: recovering_open)
  qed
  moreover have "turn_of db1 (job_turn job) = Some (?f t)"
    by (rule update_turn_row [OF db1 t(1) turns_okD(1) [OF assms(2)]]) simp
  ultimately show ?thesis
    using finish_recovery_job_run [OF u] recovering_open [OF open_] by (blast intro: turn_run_trans)
qed

lemma recovered_mutation_moves:
  assumes "iv_Mutation v" "iv_State v \<in> {MutationUnknown, MutationReconciling}" "terminal_state s"
  shows "mutation_moves v (settled_row now s result cause v)"
  using assms by (auto simp: mutation_moves_def terminal_state_def intro: mutation_step.intros)

lemma ReconcileRecoveredMutation_run:
  assumes "ReconcileRecoveredMutation env now lease m s result e db = Inr (x, u)" "turns_ok db"
  shows "turn_run now db u"
proof -
  have valid: "je_ValidUUID (te_Jobs env) m" by (rule ccontr) (use assms(1) in \<open>simp add: ReconcileRecoveredMutation_def\<close>)
  note r = assms(1) [unfolded ReconcileRecoveredMutation_def]
  from r valid obtain outcome where outcome: "recovered_outcome env s result e = Inr outcome"
    by (cases "recovered_outcome env s result e") simp_all
  have s: "terminal_state s"
    using outcome by (cases s) (simp_all add: recovered_outcome_def terminal_state_def)
  from r valid outcome obtain job t where job: "lockRecovery env now lease ReconcileAgentTurnMutationsJobKind db = Inr (job, t)"
    by (cases "lockRecovery env now lease ReconcileAgentTurnMutationsJobKind db") auto
  note t = lockRecoveryD [OF job]
  have stopped: "requireRecoveredRuntimeStopped job db = None"
    by (cases "requireRecoveredRuntimeStopped job db") (use r valid outcome job in simp_all)
  let ?cond = "\<lambda>v. iv_Turn v = job_turn job \<and> iv_Epoch v = job_epoch job \<and> iv_Mutation v
      \<and> iv_State v \<in> {MutationUnknown, MutationReconciling}"
  let ?f = "settled_row now s (map_option (je_Jsonb (te_Jobs env)) outcome) e"
  from r valid outcome job stopped obtain db1 where db1: "update_invocation m ?cond ?f ErrMutationStateConflict db = Inr db1"
    by (cases "update_invocation m ?cond ?f ErrMutationStateConflict db") simp_all
  from r valid outcome job stopped db1 obtain mutation where mutation: "getMutationByID env m db1 = Inr mutation"
    by (cases "getMutationByID env m db1") simp_all
  let ?bind = "bindReviewerActorForSubmitReview env (job_participant job) (iv_Tool mutation) (the outcome) True db1"
  from r valid outcome job stopped db1 mutation have "(if s = MutationSucceeded then ?bind else Inr db1) = Inr u"
    by (cases "if s = MutationSucceeded then ?bind else Inr db1") simp_all
  then have "side_change db1 u" by (auto split: if_split_asm dest: bind_actor_side)
  moreover have "turn_run now db db1" using db1 assms(2)
  proof (rule update_invocation_run)
    fix v :: invocation assume "?cond v"
    with recovered_mutation_moves [OF _ _ s] recovering_live [OF t]
    show "mutation_moves v (?f v) \<and> live_turn db (iv_Turn v)" by metis
  qed
  ultimately show ?thesis by (blast intro: turn_run_trans side_change_run)
qed

lemma CompleteAgentTurnMutationReconciliation_run:
  assumes "CompleteAgentTurnMutationReconciliation env now lease db = Inr (x, u)" "turns_ok db"
  shows "turn_run now db u"
proof -
  note r = assms(1) [unfolded CompleteAgentTurnMutationReconciliation_def]
  from r obtain job t where job: "lockRecovery env now lease ReconcileAgentTurnMutationsJobKind db = Inr (job, t)"
    by (cases "lockRecovery env now lease ReconcileAgentTurnMutationsJobKind db") auto
  note t = lockRecoveryD [OF job]
  from r [unfolded job sum.case prod.case] have "finish_recovery_job env now job ''{\"mutations_reconciled\":true}'' db = Inr (x, u)"
    by (simp split: option.split_asm if_split_asm)
  from finish_recovery_job_run [OF this t(1)] recovering_open [OF t(2)] show ?thesis by blast
qed

lemma escalate_reconciliation_run:
  assumes "escalate_reconciliation env now job t cause db = Inr u" "turns_ok db" "turn_of db (tr_ID t) = Some t" "recovering t"
  shows "turn_run now db u \<and> (\<exists>t'. turn_of u (tr_ID t) = Some t' \<and> recovering t')"
proof -
  let ?diagnostic = "te_Diagnostic env (jb_AttemptCount job) cause"
  let ?continuation = "case tr_Recovery t of None \<Rightarrow> '''' | Some b \<Rightarrow> rb_Continuation b"
  let ?db1 = "update_invocations (own_mutation t [MutationUnknown, MutationReconciling])
      (settled_row now MutationFailed None ?diagnostic) db"
  let ?cond = "\<lambda>r. case tr_Recovery r of None \<Rightarrow> False | Some b \<Rightarrow> rb_Continuation b = ?continuation \<and> rb_Settlement b = ''''"
  let ?f = "\<lambda>k r. r\<lparr>tr_Recovery := map_option (\<lambda>b. b\<lparr>rb_Continuation := k\<rparr>) (tr_Recovery r)\<rparr>"
  from assms(1) obtain k where
    upd: "update_turn (tr_ID t) ?cond (?f k) (JobsError ErrAgentTurnRecoveryFenceLost) ?db1 = Inr u"
    unfolding escalate_reconciliation_def Let_def by (auto split: sum.split_asm if_split_asm)
  have turns: "td_Turns ?db1 = td_Turns db" by (simp add: update_invocations_def)
  have open_: "recovering (?f k t)" using assms(4) by (auto simp: recovering_def waiting_turn_def)
  have "turn_run now db ?db1"
  proof (rule update_invocations_run)
    fix v assume "own_mutation t [MutationUnknown, MutationReconciling] v"
    then have "iv_Mutation v" "iv_State v \<in> {MutationUnknown, MutationReconciling}" "iv_Turn v = tr_ID t"
      by (simp_all add: own_mutation_def)
    with recovering_live [OF assms(3,4)] recovered_mutation_moves [of v MutationFailed]
    show "mutation_moves v (settled_row now MutationFailed None ?diagnostic v) \<and> live_turn db (iv_Turn v)"
      by (simp add: terminal_state_def)
  qed
  moreover have "turn_run now ?db1 u" using upd
  proof (rule update_turn_run)
    fix s assume "turn_of ?db1 (tr_ID t) = Some s" "turn_checks (?f k s)"
    with assms(3,4) open_ show "turn_moves ?db1 s (?f k s)"
      by (intro recovery_moves) (auto simp: turns same_turn_def dest: recovering_open)
  qed
  moreover have "turn_of u (tr_ID t) = Some (?f k t)"
    by (rule update_turn_row [OF upd]) (use assms(3) turns_okD(1) [OF assms(2)] in \<open>simp_all add: turns\<close>)
  ultimately show ?thesis using open_ by (blast intro: turn_run_trans)
qed

lemma AcknowledgeAgentTurnMutationReconciliationFailure_run:
  assumes "AcknowledgeAgentTurnMutationReconciliationFailure env now lease cause d db = Inr (x, u)" "turns_ok db"
  shows "turn_run now db u"
proof -
  have valid: "validateWorkflowActionFailure cause d"
    by (rule ccontr) (use assms(1) in \<open>simp add: AcknowledgeAgentTurnMutationReconciliationFailure_def\<close>)
  note r = assms(1) [unfolded AcknowledgeAgentTurnMutationReconciliationFailure_def]
  from r valid obtain job t where job: "lockRecovery env now lease ReconcileAgentTurnMutationsJobKind db = Inr (job, t)"
    by (cases "lockRecovery env now lease ReconcileAgentTurnMutationsJobKind db") auto
  note t = lockRecoveryD [OF job]
  have id: "tr_ID t = job_turn job" by (rule row_of_key [OF t(1)])
  have stopped: "requireRecoveredRuntimeStopped job db = None"
    by (cases "requireRecoveredRuntimeStopped job db") (use r valid job in simp_all)
  show ?thesis
  proof (cases "jb_AttemptCount job < jb_MaxAttempts job")
    case True
    with r valid job stopped have "failAgentTurnMutationReconciliationAttempt now job (the cause) d db = Inr u"
      by (simp split: if_split_asm sum.split_asm)
    from failAttempt_side [OF this] show ?thesis by (rule side_change_run)
  next
    case False
    note r2 = r [unfolded job stopped sum.case prod.case option.case]
    from r2 valid False obtain db1 where db1: "escalate_reconciliation env now job t (the cause) db = Inr db1"
      by (simp split: if_split_asm sum.split_asm)
    let ?complete = "completeRecoveryJob now job (je_Jsonb (te_Jobs env) (te_TurnResult env AgentTurnFailed cause)) db1"
    from r2 valid False db1 obtain db2 where db2: "?complete = Inr db2"
      by (cases ?complete) (simp_all split: if_split_asm)
    from r2 valid False db1 db2 obtain y where y: "settleAgentTurnRecovery env now job db2 = Inr (y, u)"
      by (cases "settleAgentTurnRecovery env now job db2") (auto split: if_split_asm)
    from escalate_reconciliation_run [OF db1 assms(2) _ t(2)] t(1) id obtain t' where
      t': "turn_run now db db1" "turn_of db1 (job_turn job) = Some t'" "recovering t'" by auto
    note side = completeRecoveryJob_side [OF db2]
    have "turn_of db2 (job_turn job) = Some t'" using t'(2) by (simp add: side_changeD(1) [OF side])
    from settleAgentTurnRecovery_run [OF y this] recovering_open [OF t'(3)] t'(1) side_change_run [OF side]
    show ?thesis by (blast intro: turn_run_trans)
  qed
qed

end
