(* ===== verification/Turn_Ending_Runs.thy ===== *)
theory Turn_Ending_Runs
  imports Turn_Runs
begin

text \<open>
  The other endings of a Turn (\<open>Turn_Endings\<close>) are runs of the same steps: none of them leaves a Turn that is
  over with an unsettled mutation, and none occupies a slot.
\<close>

section \<open>What is unsettled\<close>

lemma call_facts:
  assumes "turns_ok db" "v \<in> set (td_Invocations db)"
  shows "\<not> terminal_state (iv_State v) \<Longrightarrow> iv_Mutation v" "turn_of db (iv_Turn v) = Some t \<Longrightarrow> iv_Epoch v = tr_Epoch t"
proof -
  have "invocation_of db (iv_ID v) = Some v" using assms(2) by (simp add: call_mem [OF assms(1)])
  from calls_okE [OF assms(1) this]
  show "\<not> terminal_state (iv_State v) \<Longrightarrow> iv_Mutation v" "turn_of db (iv_Turn v) = Some t \<Longrightarrow> iv_Epoch v = tr_Epoch t"
    by fastforce+
qed

lemma unsettled_live:
  assumes "turns_ok db" "v \<in> set (td_Invocations db)" "iv_Mutation v" "\<not> terminal_state (iv_State v)"
  shows "live_turn db (iv_Turn v)"
proof -
  from assms(2) have "invocation_of db (iv_ID v) = Some v" by (simp add: call_mem [OF assms(1)])
  from calls_okE [OF assms(1) this] obtain t where t: "turn_of db (iv_Turn v) = Some t" "\<not> waiting_turn t"
    "iv_Epoch v = tr_Epoch t" by metis
  have "own_mutation t unsettled_states v"
    using row_of_key [OF t(1)] t(3) assms(3,4) by (simp add: own_mutation_def terminal_unsettled)
  with assms(2) have "unsettledMutationsForTurn db t" by (auto simp: unsettledMutationsForTurn_def list_ex_iff)
  with owners_okD(3) [OF assms(1) t(1)] have "\<not> closed t" by blast
  with t show ?thesis by (auto simp: live_turn_def)
qed

lemma waiting_settled:
  assumes "turns_ok db" "turn_of db i = Some t" "waiting_turn t"
  shows "\<not> unsettledMutationsForTurn db t"
proof
  assume "unsettledMutationsForTurn db t"
  then obtain v where "v \<in> set (td_Invocations db)" "iv_Turn v = tr_ID t"
    by (auto simp: unsettledMutationsForTurn_def list_ex_iff own_mutation_def)
  with turns_okD(3) [OF assms(1)] row_of_key [OF assms(2)] assms(2,3) show False by (auto simp: calls_ok_def)
qed

text \<open>A Turn is given up with nothing left unsettled.\<close>

lemma given_up_moves:
  assumes "same_turn t u" "tr_NextInvocation u = tr_NextInvocation t" "turn_checks u" "tr_OwnerToken u = None"
    "stopped u" "\<not> unsettledMutationsForTurn db t" "held u \<longrightarrow> held t" "closed t \<longrightarrow> closed u"
  shows "turn_moves db t u"
  using assms turn_checks_owner [of u] by (simp add: turn_moves_def stopped_def)

text \<open>A Turn that is cancelled, or whose lease is revoked, keeps its owner.\<close>

lemma kept_owner_moves:
  assumes "turns_ok db" "turn_of db i = Some t" "same_turn t u" "tr_NextInvocation u = tr_NextInvocation t"
    "turn_checks u" "tr_OwnerToken u = tr_OwnerToken t" "\<not> waiting_turn u" "tr_Active u = tr_Active t"
    "tr_Recovery u = tr_Recovery t" "tr_Status u = AgentTurnRunning \<longrightarrow> tr_Status t = AgentTurnRunning"
  shows "turn_moves db t u"
proof -
  have "\<not> unsettledMutationsForTurn db t" if "closed u"
    using that waiting_settled [OF assms(1,2)] owners_okD(3) [OF assms(1,2)] assms(6,9)
    by (cases "waiting_turn t") (simp_all add: closed_def fenced_def)
  with assms turn_checks_owner [of u] show ?thesis
    by (auto simp: turn_moves_def closed_def fenced_def held_def stopped_def)
qed

section \<open>Settling\<close>

lemma side_change_closures [simp]: "side_change db (db\<lparr>td_Closures := cs\<rparr>)"
  by (simp add: side_change_def same_ledger_def)

lemma update_barrier_side [simp]: "side_change db (update_barrier b f db)"
  by (simp add: update_barrier_def)

lemma lockLiveAgentTurnSettlementD:
  assumes "lockLiveAgentTurnSettlement env now l db = Inr (job, t)" "turns_ok db"
  shows "turn_of db (lease_turn l) = Some t" "tr_ID t = lease_turn l" "started_turn t" "\<not> unsettledMutationsForTurn db t"
proof -
  note r = assms(1) [unfolded lockLiveAgentTurnSettlement_def]
  from r obtain h where t: "turn_of db (lease_turn l) = Some t" "owns_turn now h l t" "\<not> unsettledMutationsForTurn db t"
    by (auto split: sum.split_asm if_split_asm option.split_asm)
  from t(2) have "tr_LeaseExpiresAt t \<noteq> None" by (auto simp: owns_turn_def lease_live_def split: option.split_asm)
  with owners_okD(1,4) [OF assms(2) t(1)] t row_of_key [OF t(1)]
  show "turn_of db (lease_turn l) = Some t" "tr_ID t = lease_turn l" "started_turn t" "\<not> unsettledMutationsForTurn db t"
    by blast+
qed

lemma finalizeSettledAgentTurn_run:
  assumes "finalizeSettledAgentTurn now l job t (status, outcome, e, result) db = Inr u" "turns_ok db"
    "turn_of db (tr_ID t) = Some t" "started_turn t" "\<not> unsettledMutationsForTurn db t" "terminalAgentTurnStatus status"
  shows "turn_run now db u" "\<exists>t'. turn_of u (tr_ID t) = Some t' \<and> fenced t'"
proof -
  let ?a = "update_attempts (\<lambda>a. fenced_attempt (jb_ID job) (row_token job) (jb_AttemptCount job) a
      \<and> Some (ja_LeaseOwner a) = jb_LeaseOwner job)
    (\<lambda>a. a\<lparr>ja_Status := AttemptSucceeded, ja_FinishedAt := Some now, ja_Result := Some result\<rparr>)"
  let ?j = "update_jobs (own_job job)
    (\<lambda>j. (released now JobSucceeded j)\<lparr>jb_CompletedAt := Some now, jb_Result := Some result, jb_LastError := None\<rparr>)"
  let ?cond = "\<lambda>r. tr_Epoch r = tr_Epoch t \<and> tr_ControlRevision r = tr_ControlRevision t
    \<and> tr_OwnerToken r = Some (al_OwnerToken l) \<and> tr_Active r \<and> tr_Status r = AgentTurnSettling
    \<and> \<not> tr_AdmissionOpen r \<and> tr_AdmissionClosedAt r \<noteq> None"
  let ?f = "\<lambda>r. (disowned r)\<lparr>tr_Status := status, tr_CompletedAt := Some now, tr_Outcome := outcome, tr_LastError := e\<rparr>"
  let ?d = "delete_slot (\<lambda>s. sl_Turn s = tr_ID t \<and> owns_slot l s)"
  note r = assms(1) [unfolded finalizeSettledAgentTurn_def prod.case]
  from r obtain db1 where db1: "change_jobs ErrAgentTurnFenceLost ?a db = Inr db1"
    by (cases "change_jobs ErrAgentTurnFenceLost ?a db") simp_all
  note r1 = r [unfolded db1 sum.case]
  from r1 obtain db2 where db2: "change_jobs ErrAgentTurnFenceLost ?j db1 = Inr db2"
    by (cases "change_jobs ErrAgentTurnFenceLost ?j db1") simp_all
  note r2 = r1 [unfolded db2 sum.case]
  from r2 obtain db3 where db3: "update_turn (tr_ID t) ?cond ?f ErrAgentTurnFenceLost db2 = Inr db3"
    by (cases "update_turn (tr_ID t) ?cond ?f ErrAgentTurnFenceLost db2") simp_all
  from r2 [unfolded db3 sum.case] have u: "u = ?d db3" by (simp split: if_split_asm)
  have side: "side_change db db2" using change_jobs_side [OF db1] change_jobs_side [OF db2] by (rule side_change_trans)
  have sel: "same_turn r (?f r)" "stopped (?f r)" "fenced (?f r)" for r
    using terminal_not_waiting [OF assms(6)]
    by (simp_all add: same_turn_def waiting_turn_def disowned_def fenced_def stopped_def)
  have "turn_run now db2 db3" using db3
  proof (rule update_turn_run)
    fix s assume s: "turn_of db2 (tr_ID t) = Some s" "turn_checks (?f s)"
    with assms(3) have "s = t" by (simp add: side_changeD [OF side])
    moreover have "\<not> unsettledMutationsForTurn db2 t"
      using assms(5) by (simp add: unsettledMutationsForTurn_def side_changeD [OF side])
    ultimately show "turn_moves db2 s (?f s)"
      using s sel assms(4) started_held(1) [OF assms(2,3,4)] by (intro disowned_moves) simp_all
  qed
  then show "turn_run now db u"
    unfolding u using side_change_run [OF side] delete_slot_run by (blast intro: turn_run_trans)
  have "turn_of db3 (tr_ID t) = Some (?f t)"
    by (rule update_turn_row [OF db3])
      (use assms(3) turns_okD(1) [OF assms(2)] sel(1) in \<open>simp_all add: side_changeD [OF side] same_turnD(1)\<close>)
  then show "\<exists>t'. turn_of u (tr_ID t) = Some t' \<and> fenced t'" using sel(3) by (simp add: u delete_slot_def)
qed

lemma settle_live_turn_run:
  assumes "settle_live_turn env now l db = Inr (x, u)" "turns_ok db"
  shows "turn_run now db u" "\<exists>t. turn_of u (lease_turn l) = Some t \<and> fenced t"
proof -
  note r = assms(1) [unfolded settle_live_turn_def]
  from r obtain job t where l: "lockLiveAgentTurnSettlement env now l db = Inr (job, t)"
    by (auto split: if_split_asm sum.split_asm)
  from r l obtain settled where s: "te_Settled env t = Inr settled" by (simp split: if_split_asm sum.split_asm)
  obtain status outcome e result where settled: "settled = (status, outcome, e, result)" by (metis prod.collapse)
  from r l s settled have f: "finalizeSettledAgentTurn now l job t (status, outcome, e, result) db = Inr u"
    "terminalAgentTurnStatus status" by (simp_all split: if_split_asm sum.split_asm)
  note t = lockLiveAgentTurnSettlementD [OF l assms(2)]
  from finalizeSettledAgentTurn_run [OF f(1) assms(2) _ t(3,4) f(2)] t(1,2)
  show "turn_run now db u" "\<exists>t. turn_of u (lease_turn l) = Some t \<and> fenced t" by simp_all
qed

section \<open>Cancelling\<close>

lemma close_mutations_run:
  assumes "turns_ok db"
  shows "turn_run now db (close_mutations now g db)"
proof -
  let ?own = "\<lambda>v. iv_Turn v = tg_TurnID g \<and> iv_Epoch v = sint (tg_Epoch g) \<and> iv_Mutation v"
  let ?f = "\<lambda>v. v\<lparr>iv_State := MutationFailed, iv_FinishedAt := Some now,
               iv_LastError := Some ''Issue closed before mutation started''\<rparr>"
  let ?g = "\<lambda>v. v\<lparr>iv_State := MutationUnknown, iv_LastError := Some ''Issue closed with mutation in flight''\<rparr>"
  let ?db1 = "update_invocations (\<lambda>v. ?own v \<and> iv_State v = MutationReserved \<and> iv_StartedAt v = None) ?f db"
  have first: "turn_run now db ?db1"
  proof (rule update_invocations_run)
    fix v assume v: "v \<in> set (td_Invocations db)" "?own v \<and> iv_State v = MutationReserved \<and> iv_StartedAt v = None"
    with unsettled_live [OF assms v(1)] show "mutation_moves v (?f v) \<and> live_turn db (iv_Turn v)"
      by (simp add: mutation_moves_def same_invocation_def mutation_step.intros terminal_state_def)
  qed
  have "turn_run now ?db1 (update_invocations (\<lambda>v. ?own v \<and> iv_State v = MutationInFlight) ?g ?db1)"
  proof (rule update_invocations_run)
    fix v assume v: "v \<in> set (td_Invocations ?db1)" "?own v \<and> iv_State v = MutationInFlight"
    with unsettled_live [OF turn_run_ok [OF first assms] v(1)]
    show "mutation_moves v (?g v) \<and> live_turn ?db1 (iv_Turn v)"
      by (simp add: mutation_moves_def same_invocation_def mutation_step.intros terminal_state_def)
  qed
  with first show ?thesis unfolding close_mutations_def Let_def by (rule turn_run_trans)
qed

lemma close_mutations_turns [simp]:
  "td_Turns (close_mutations now g db) = td_Turns db" "td_Slots (close_mutations now g db) = td_Slots db"
  by (simp_all add: close_mutations_def update_invocations_def)

text \<open>Without a tool call of the Turn there is nothing to close.\<close>

definition silent :: "turns_db \<Rightarrow> string \<Rightarrow> bool" where
  "silent db i \<longleftrightarrow> list_all (\<lambda>v. iv_Turn v \<noteq> i) (td_Invocations db)"

lemma silent_settled: "silent db i \<Longrightarrow> tr_ID t = i \<Longrightarrow> \<not> unsettledMutationsForTurn db t"
  by (auto simp: silent_def unsettledMutationsForTurn_def list_all_iff list_ex_iff own_mutation_def)

lemma silent_iff: "silent db i \<longleftrightarrow> i \<notin> set (map iv_Turn (td_Invocations db))"
  by (auto simp: silent_def list_all_iff)

lemma close_mutations_silent: "silent db i \<Longrightarrow> silent (close_mutations now g db) i"
proof -
  have "map iv_Turn (td_Invocations (close_mutations now g db)) = map iv_Turn (td_Invocations db)"
    by (simp add: close_mutations_def update_invocations_def)
  then show "silent db i \<Longrightarrow> silent (close_mutations now g db) i" unfolding silent_iff by simp
qed

lemma closeMutationAdmissionTx_run:
  assumes "closeMutationAdmissionTx env now g db = Inr u" "turns_ok db"
  shows "turn_run now db u" "\<exists>t. turn_of u (tg_TurnID g) = Some t \<and> tr_Status t = AgentTurnCancelling"
    "td_Jobs u = td_Jobs db" "silent db i \<Longrightarrow> silent u i"
proof -
  let ?cond = "\<lambda>t. meets_guard env g t \<and> tr_Active t \<and> session_role env (tr_Session t) = Some (tg_Role g)"
  note r = assms(1) [unfolded closeMutationAdmissionTx_def]
  from r obtain db1 where db1: "update_turn (tg_TurnID g) ?cond (cancelled_turn now) ErrAgentTurnFenceLost db = Inr db1"
    by (simp split: sum.split_asm)
  from r [unfolded db1 sum.case] have u: "u = close_mutations now g db1" by simp
  from update_turnE [OF db1] obtain t where t: "turn_of db (tg_TurnID g) = Some t"
    and d1: "db1 = db\<lparr>td_Turns := alter tr_ID (tg_TurnID g) (cancelled_turn now) (td_Turns db)\<rparr>" by blast
  have run1: "turn_run now db db1" using db1
  proof (rule update_turn_run)
    fix s assume "turn_of db (tg_TurnID g) = Some s" "turn_checks (cancelled_turn now s)"
    then show "turn_moves db s (cancelled_turn now s)"
      by (intro kept_owner_moves [OF assms(2)]) (simp_all add: cancelled_turn_def same_turn_def waiting_turn_def)
  qed
  then show "turn_run now db u" unfolding u
    using close_mutations_run [OF turn_run_ok [OF run1 assms(2)]] by (blast intro: turn_run_trans)
  have "turn_of db1 (tg_TurnID g) = Some (cancelled_turn now t)"
    by (rule update_turn_row [OF db1 t turns_okD(1) [OF assms(2)]]) (simp add: cancelled_turn_def)
  then show "\<exists>t. turn_of u (tg_TurnID g) = Some t \<and> tr_Status t = AgentTurnCancelling"
    by (simp add: u cancelled_turn_def)
  show "td_Jobs u = td_Jobs db" by (simp add: u d1 close_mutations_def update_invocations_def)
  show "silent u i" if "silent db i" unfolding u using that by (intro close_mutations_silent) (simp add: d1 silent_def)
qed

section \<open>Interrupting\<close>

lemma or_lostD: "or_lost lost r = Inr x \<Longrightarrow> r = Inr x"
  by (simp add: or_lost_def split: sum.split_asm)

lemma or_lost_jobs_side: "or_lost lost (change_jobs missing f db) = Inr u \<Longrightarrow> side_change db u"
  by (rule change_jobs_side, rule or_lostD)

lemma interrupt_queued_run:
  assumes "interrupt_queued now job t db = Inr u" "turns_ok db" "silent db (tr_ID t)"
  shows "turn_run now db u"
proof -
  let ?f = "\<lambda>r. (disowned r)\<lparr>tr_Status := AgentTurnInterrupted, tr_CompletedAt := Some now, tr_LastError := Some incompatible\<rparr>"
  let ?j = "update_jobs (\<lambda>j. jb_ID j = jb_ID job \<and> jb_Status j = JobAvailable)
      (\<lambda>j. j\<lparr>jb_Status := JobCancelled, jb_CompletedAt := Some now, jb_UpdatedAt := now, jb_LastError := Some incompatible\<rparr>)"
  let ?cond = "\<lambda>r. tr_Epoch r = tr_Epoch t \<and> tr_Active r"
  note r = assms(1) [unfolded interrupt_queued_def]
  from r obtain db1 where db1: "or_lost ErrAgentTurnFenceLost (change_jobs ErrAgentTurnFenceLost ?j db) = Inr db1"
    by (simp split: sum.split_asm)
  note r1 = r [unfolded db1 sum.case] and side = or_lost_jobs_side [OF db1]
  let ?upd = "update_turn (tr_ID t) ?cond ?f ErrAgentTurnFenceLost db1"
  from r1 obtain db2 where db2: "or_lost ErrAgentTurnFenceLost ?upd = Inr db2"
    by (cases "or_lost ErrAgentTurnFenceLost ?upd") simp_all
  from r1 [unfolded db2 sum.case] have u: "u = delete_slot (\<lambda>s. sl_Turn s = tr_ID t) db2" by simp
  have "turn_run now db1 db2" using or_lostD [OF db2]
  proof (rule update_turn_run)
    fix s assume s: "turn_of db1 (tr_ID t) = Some s" "?cond s" "turn_checks (?f s)"
    have "silent db1 (tr_ID t)" using assms(3) by (simp add: silent_def side_changeD [OF side])
    from silent_settled [OF this row_of_key [OF s(1)]] s show "turn_moves db1 s (?f s)"
      by (intro given_up_moves)
        (auto simp: same_turn_def waiting_turn_def disowned_def held_def closed_def fenced_def stopped_def)
  qed
  with side_change_run [OF side] show ?thesis unfolding u
    using delete_slot_run by (blast intro: turn_run_trans)
qed

text \<open>A lease that is revoked frees its slot.\<close>

lemma update_slot_freed:
  assumes "update_slot i cond f db = Inr u" "\<And>s. sl_Turn (f s) = sl_Turn s" "\<And>s. sl_LeaseExpiresAt (f s) \<le> now"
  shows "turn_run now db u"
proof -
  from update_slotE [OF assms(1)] have u: "u = db\<lparr>td_Slots := alter sl_Turn i f (td_Slots db)\<rparr>" .
  have "length (filter (\<lambda>s. sl_LeaseExpiresAt s > now) (map (\<lambda>s. if sl_Turn s = i then f s else s) ss))
      \<le> length (filter (\<lambda>s. sl_LeaseExpiresAt s > now) ss)" for ss
  proof (induction ss)
    case (Cons s ss)
    have "\<not> now < sl_LeaseExpiresAt (f s)" using assms(3) [of s] by simp
    with Cons show ?case by simp
  qed simp
  moreover have keys: "map (sl_Turn \<circ> (\<lambda>s. if sl_Turn s = i then f s else s)) ss = map sl_Turn ss" for ss
    using assms(2) by simp
  ultimately show ?thesis
    by (intro same_ledger_run) (simp_all add: u same_ledger_def occupied_slots_def alter_map slots_ok_def keys)
qed

lemma revoke_lease_run:
  assumes "revoke_lease now job t db = Inr u" "turns_ok db" "turn_of db (tr_ID t) = Some t" "\<not> waiting_turn t"
  shows "turn_run now db u"
proof -
  let ?lost = ErrAgentTurnFenceLost
  let ?j = "update_jobs (\<lambda>j. jb_ID j = jb_ID job \<and> jb_Status j = JobLeased) (\<lambda>j. j\<lparr>jb_LeaseExpiresAt := Some (now - 1)\<rparr>)"
  let ?a = "update_attempts (fenced_attempt (jb_ID job) (row_token job) (jb_AttemptCount job))
      (\<lambda>a. a\<lparr>ja_LeaseExpiresAt := now - 1\<rparr>)"
  let ?f = "\<lambda>r. r\<lparr>tr_LeaseExpiresAt := Some (now - 1)\<rparr>"
  let ?cond = "\<lambda>r. tr_Epoch r = tr_Epoch t \<and> tr_Active r"
  note r = assms(1) [unfolded revoke_lease_def Let_def]
  from r obtain db1 where db1: "or_lost ?lost (change_jobs ?lost ?j db) = Inr db1" by (simp split: sum.split_asm)
  note r1 = r [unfolded db1 sum.case]
  from r1 obtain db2 where db2: "or_lost ?lost (change_jobs ?lost ?a db1) = Inr db2"
    by (cases "or_lost ?lost (change_jobs ?lost ?a db1)") simp_all
  note r2 = r1 [unfolded db2 sum.case]
  let ?upd = "update_turn (tr_ID t) ?cond ?f ?lost db2"
  from r2 obtain db3 where db3: "or_lost ?lost ?upd = Inr db3" by (cases "or_lost ?lost ?upd") simp_all
  note u = r2 [unfolded db3 sum.case]
  note side = side_change_trans [OF or_lost_jobs_side [OF db1] or_lost_jobs_side [OF db2]]
  have ok: "turns_ok db2" by (rule turn_run_ok [OF side_change_run [OF side] assms(2)])
  have "turn_run now db2 db3" using or_lostD [OF db3]
  proof (rule update_turn_run)
    fix s assume s: "turn_of db2 (tr_ID t) = Some s" "turn_checks (?f s)"
    with assms(3) have "s = t" by (simp add: side_changeD [OF side])
    with s assms(4) show "turn_moves db2 s (?f s)"
      by (intro kept_owner_moves [OF ok s(1)]) (simp_all add: same_turn_def waiting_turn_def)
  qed
  moreover have "turn_run now db3 u" by (rule update_slot_freed [OF u]) simp_all
  ultimately show ?thesis using side_change_run [OF side] by (blast intro: turn_run_trans)
qed

lemma readAgentTurnRecoveryD: "readAgentTurnRecovery db i epoch = Some r \<Longrightarrow> rc_TurnID r = i"
  by (auto simp: readAgentTurnRecovery_def split: option.split_asm if_split_asm)

lemma recoverExpired_turn:
  assumes "recoverExpiredAgentTurn env now claimed db = Inr (x, u)"
  shows "rc_TurnID x = job_turn claimed"
proof -
  note r = assms [unfolded recoverExpiredAgentTurn_def Let_def]
  from r obtain job where job: "lockExpiredAgentTurnJob env now (jb_ID claimed) (job_turn claimed) (job_epoch claimed) db = Inr job"
    by (simp split: sum.split_asm)
  have jt: "job_turn job = job_turn claimed"
    using job by (auto simp: lockExpiredAgentTurnJob_def split: option.split_asm if_split_asm)
  from r job obtain h where h: "lockHierarchy env (jb_Scope job) = Inr h" by (simp split: sum.split_asm)
  from r job h obtain t where t: "turn_of db (job_turn job) = Some t" by (simp split: option.split_asm)
  note r2 = r [unfolded job sum.case h t option.case]
  from r2 obtain epoch where "readAgentTurnRecovery u (tr_ID t) epoch = Some x"
    by (auto split: if_split_asm sum.split_asm prod.split_asm option.split_asm)
  from readAgentTurnRecoveryD [OF this] row_of_key [OF t] jt show ?thesis by simp
qed

text \<open>A Turn whose execution is still to be claimed has made no tool call: a hand-over relies on it.\<close>

definition unclaimed_silent :: "turn_guard \<Rightarrow> turns_db \<Rightarrow> bool" where
  "unclaimed_silent g db \<longleftrightarrow>
     list_all (\<lambda>j. jb_Kind j = RunAgentTurnJobKind \<and> job_turn j = tg_TurnID g \<and> job_epoch j = sint (tg_Epoch g)
                  \<and> jb_Status j = JobAvailable \<longrightarrow> silent db (tg_TurnID g)) (db_Jobs (td_Jobs db))"

lemma interruptTurnForHumanHandoffTx_run:
  assumes "interruptTurnForHumanHandoffTx env now g db = Inr u" "turns_ok db" "unclaimed_silent g db"
    "turn_of db (tg_TurnID g) = Some t" "tr_Status t = AgentTurnCancelling"
  shows "turn_run now db u"
proof -
  let ?P = "\<lambda>j. jb_Kind j = RunAgentTurnJobKind \<and> job_turn j = tg_TurnID g \<and> job_epoch j = sint (tg_Epoch g)"
  note r = assms(1) [unfolded interruptTurnForHumanHandoffTx_def assms(4) option.case]
  from r obtain row where row: "find ?P (db_Jobs (td_Jobs db)) = Some row" by (simp split: option.split_asm)
  from r row obtain job where job: "scanJob (te_Jobs env) row = Some job" by (simp split: option.split_asm)
  note r2 = r [unfolded row job option.case]
  have scan: "job_turn job = tg_TurnID g" "jb_Status job = jb_Status row" "?P row" "row \<in> set (db_Jobs (td_Jobs db))"
    using row job by (auto simp: find_Some_iff scanJob_def split: if_split_asm)
  have id: "tr_ID t = tg_TurnID g" by (rule row_of_key [OF assms(4)])
  show ?thesis
  proof (cases "jb_Status job = JobAvailable")
    case True
    with r2 have "interrupt_queued now job t db = Inr u" by (simp split: if_split_asm)
    moreover have "silent db (tr_ID t)" unfolding id
      using assms(3) [unfolded unclaimed_silent_def list_all_iff, rule_format, OF scan(4)] scan True by argo
    ultimately show ?thesis by (rule interrupt_queued_run [OF _ assms(2)])
  next
    case False
    from r2 False obtain db1 where db1: "revoke_lease now job t db = Inr db1"
      by (cases "revoke_lease now job t db") (simp_all split: if_split_asm)
    from r2 False db1 obtain x db2 where db2: "recoverExpiredAgentTurn env now job db1 = Inr (x, db2)"
      by (cases "recoverExpiredAgentTurn env now job db1") (auto split: if_split_asm)
    let ?f = "\<lambda>u. u\<lparr>tr_LastError := Some incompatible,
        tr_Recovery := map_option (\<lambda>b. b\<lparr>rb_Continuation := ''WORKFLOW_DEFINITION_HANDOFF_APPLIED''\<rparr>) (tr_Recovery u)\<rparr>"
    let ?cond = "\<lambda>u. case tr_Recovery u of None \<Rightarrow> False
        | Some b \<Rightarrow> rb_StopRuntimeJob b = rb_StopRuntimeJob (rc_Barrier x)
            \<and> rb_Continuation b = ''PENDING_INFRASTRUCTURE_FAILURE'' \<and> rb_SettledAt b = None"
    from r2 False db1 db2 have upd: "update_turn (rc_TurnID x) ?cond ?f (JobsError ErrAgentTurnRecoveryFenceLost) db2 = Inr u"
      by (simp split: if_split_asm)
    have run1: "turn_run now db db1"
      by (rule revoke_lease_run [OF db1 assms(2)]) (use assms(4,5) id in \<open>simp_all add: waiting_turn_def\<close>)
    note run2 = recoverExpiredAgentTurn_run [OF db2 turn_run_ok [OF run1 assms(2)]]
    then obtain v where v: "turn_of db2 (rc_TurnID x) = Some v" "fenced v" using recoverExpired_turn [OF db2] by auto
    have "turn_run now db2 u" using upd
    proof (rule update_turn_run)
      fix s assume s: "turn_of db2 (rc_TurnID x) = Some s" "?cond s"
      then have "recovering s" using v by (auto simp: recovering_def fenced_def split: option.split_asm)
      moreover from this have "recovering (?f s)" by (auto simp: recovering_def waiting_turn_def)
      ultimately show "turn_moves db2 s (?f s)" if "turn_checks (?f s)"
        using that by (intro recovery_moves) (auto simp: same_turn_def dest: recovering_open)
    qed
    with run1 run2 show ?thesis by (blast intro: turn_run_trans)
  qed
qed

lemma begin_handoff_run:
  assumes "begin_handoff env now g db = Inr (x, u)" "turns_ok db" "unclaimed_silent g db"
  shows "turn_run now db u"
proof -
  from assms(1) obtain db1 where db1: "closeMutationAdmissionTx env now g db = Inr db1"
    "interruptTurnForHumanHandoffTx env now g db1 = Inr u"
    by (auto simp: begin_handoff_def split: sum.split_asm)
  note c = closeMutationAdmissionTx_run [OF db1(1) assms(2)]
  from c(2) obtain t where t: "turn_of db1 (tg_TurnID g) = Some t" "tr_Status t = AgentTurnCancelling" by blast
  have "unclaimed_silent g db1" using assms(3) c(3,4) by (auto simp: unclaimed_silent_def list_all_iff)
  from interruptTurnForHumanHandoffTx_run [OF db1(2) turn_run_ok [OF c(1) assms(2)] this t] c(1)
  show ?thesis by (rule turn_run_trans [rotated])
qed

section \<open>The closure and its barrier\<close>

lemma enqueueStopTurnJob_side: "enqueueStopTurnJob env now d w c g r db = Inr (i, u) \<Longrightarrow> side_change db u"
  by (auto simp: enqueueStopTurnJob_def split: option.split_asm if_split_asm sum.split_asm)

lemma enqueueClosureSettlementJob_side:
  "enqueueClosureSettlementJob env now d w a c r g db = Inr (i, u) \<Longrightarrow> side_change db u"
  by (auto simp: enqueueClosureSettlementJob_def split: option.split_asm sum.split_asm)

lemma createClosureBarrier_side: "createClosureBarrier env now w c r g s t db = Inr u \<Longrightarrow> side_change db u"
  by (auto simp: createClosureBarrier_def Let_def split: option.split_asm if_split_asm sum.split_asm)

lemma begin_closure_run:
  assumes "begin_closure env now d w a c r g db = Inr (x, u)" "turns_ok db"
  shows "turn_run now db u"
proof -
  let ?first = "case g of None \<Rightarrow> Inr ('''', db)
    | Some g \<Rightarrow> (case closeMutationAdmissionTx env now g db of Inl e \<Rightarrow> Inl e
                | Inr db1 \<Rightarrow> enqueueStopTurnJob env now d w c g r db1)"
  note b = assms(1) [unfolded begin_closure_def]
  from b obtain stop db2 where db2: "?first = Inr (stop, db2)" by (cases ?first) auto
  note b2 = b [unfolded db2 sum.case prod.case]
  from b2 obtain j db3 where db3: "enqueueClosureSettlementJob env now d w a c r g db2 = Inr (j, db3)"
    by (cases "enqueueClosureSettlementJob env now d w a c r g db2") auto
  from b2 [unfolded db3 sum.case prod.case] have "createClosureBarrier env now w c r g stop j db3 = Inr u"
    by (simp split: sum.split_asm)
  then have "turn_run now db2 u"
    by (intro side_change_run side_change_trans [OF enqueueClosureSettlementJob_side [OF db3] createClosureBarrier_side])
  moreover have "turn_run now db db2"
  proof (cases g)
    case (Some guard)
    with db2 obtain db1 where db1: "closeMutationAdmissionTx env now guard db = Inr db1"
      "enqueueStopTurnJob env now d w c guard r db1 = Inr (stop, db2)" by (auto split: sum.split_asm)
    from closeMutationAdmissionTx_run(1) [OF db1(1) assms(2)] side_change_run [OF enqueueStopTurnJob_side [OF db1(2)]]
    show ?thesis by (rule turn_run_trans)
  qed (use db2 in simp)
  ultimately show ?thesis by (rule turn_run_trans [rotated])
qed

lemma AcknowledgeClosureTurnStopped_run:
  assumes "AcknowledgeClosureTurnStopped env now lease db = Inr (x, u)"
  shows "turn_run now db u"
proof (rule side_change_run)
  from assms obtain b jobs f where "u = (update_barrier b f db)\<lparr>td_Jobs := jobs\<rparr>"
    by (auto simp: AcknowledgeClosureTurnStopped_def Let_def split: sum.split_asm if_split_asm)
  then show "side_change db u" by (simp add: side_change_trans [OF update_barrier_side side_change_jobs(1)])
qed

lemma ReconcileClosureMutation_run:
  assumes "ReconcileClosureMutation env now lease m s result e db = Inr (x, u)" "turns_ok db"
  shows "turn_run now db u"
proof -
  note r = assms(1) [unfolded ReconcileClosureMutation_def]
  from r obtain outcome where outcome: "recovered_outcome env s result e = Inr outcome"
    by (cases "recovered_outcome env s result e") simp_all
  have s: "terminal_state s"
    using outcome by (cases s) (simp_all add: recovered_outcome_def terminal_state_def)
  from r outcome obtain job b where job: "lockClosure env now lease SettleClosureJobKind db = Inr (job, b)"
    by (cases "lockClosure env now lease SettleClosureJobKind db") (auto split: if_split_asm)
  let ?cond = "\<lambda>v. iv_Turn v = cb_Turn b \<and> iv_Epoch v = cb_Epoch b \<and> iv_Mutation v
      \<and> iv_State v \<in> {MutationUnknown, MutationReconciling}"
  let ?f = "settled_row now s (map_option (je_Jsonb (te_Jobs env)) outcome) e"
  let ?upd = "update_invocation m ?cond ?f ErrMutationStateConflict db"
  from r outcome job have upd: "?upd = Inr u"
    by (cases ?upd) (simp_all split: if_split_asm sum.split_asm)
  show ?thesis using upd assms(2)
  proof (rule update_invocation_run)
    fix v assume v: "invocation_of db m = Some v" "?cond v"
    then have "\<not> terminal_state (iv_State v)" by (auto simp: terminal_state_def)
    with v recovered_mutation_moves [OF _ _ s] unsettled_live [OF assms(2) row_of_set [OF v(1)]]
    show "mutation_moves v (?f v) \<and> live_turn db (iv_Turn v)" by blast
  qed
qed

section \<open>The closure is settled\<close>

lemma cancel_job_side: "cancel_job now cause job db = Inr u \<Longrightarrow> side_change db u"
  by (auto simp: cancel_job_def split: sum.split_asm)

lemma cancelPending_side: "cancelPendingAgentTurnPreparationsTx now w db = Inr u \<Longrightarrow> side_change db u"
  by (auto simp: cancelPendingAgentTurnPreparationsTx_def split: sum.split_asm)

text \<open>A Turn that a closure settles has nothing left unsettled.\<close>

lemma settleClosedAgentTurnTx_run:
  assumes "settleClosedAgentTurnTx env now b db = Inr u" "turns_ok db"
    and settled: "\<And>v. v \<in> set (td_Invocations db) \<Longrightarrow> iv_Turn v = cb_Turn b \<Longrightarrow> iv_Epoch v = cb_Epoch b
      \<Longrightarrow> iv_Mutation v \<Longrightarrow> terminal_state (iv_State v)"
  shows "turn_run now db u"
proof -
  let ?lost = "JobsError ErrClosureSettlementFenceLost"
  let ?cond = "\<lambda>t. tr_Session t = cb_Session b \<and> tr_Attempt t = cb_Attempt b \<and> tr_Epoch t = cb_Epoch b
     \<and> tr_ControlRevision t = cb_ControlRevision b \<and> tr_Status t = AgentTurnCancelling
     \<and> \<not> tr_AdmissionOpen t \<and> tr_Active t"
  let ?f = "\<lambda>t. (disowned t)\<lparr>tr_Status := AgentTurnInterrupted, tr_CompletedAt := Some now,
     tr_LastError := Some ''Issue closure stopped Agent Turn''\<rparr>"
  from assms(1) obtain cause job db1 where db1: "cancel_job now cause job db = Inr db1"
    "or_lost ?lost (update_turn (cb_Turn b) ?cond ?f ?lost (delete_slot (\<lambda>s. sl_Turn s = cb_Turn b) db1)) = Inr u"
    unfolding settleClosedAgentTurnTx_def Let_def
    by (auto split: option.split_asm sum.split_asm if_split_asm)
  let ?d = "delete_slot (\<lambda>s. sl_Turn s = cb_Turn b) db1"
  note side = cancel_job_side [OF db1(1)]
  have same: "td_Turns ?d = td_Turns db" "td_Invocations ?d = td_Invocations db"
    by (simp_all add: delete_slot_def side_changeD [OF side])
  have "turn_run now ?d u" using or_lostD [OF db1(2)]
  proof (rule update_turn_run)
    fix s assume s: "turn_of ?d (cb_Turn b) = Some s" "?cond s" "turn_checks (?f s)"
    have "\<not> unsettledMutationsForTurn ?d s"
    proof
      assume "unsettledMutationsForTurn ?d s"
      then obtain v where v: "v \<in> set (td_Invocations db)" "own_mutation s unsettled_states v"
        by (auto simp: unsettledMutationsForTurn_def list_ex_iff same)
      with settled [OF v(1)] row_of_key [OF s(1)] s(2) show False by (simp add: own_mutation_def terminal_unsettled)
    qed
    with s show "turn_moves ?d s (?f s)"
      by (intro given_up_moves)
        (auto simp: same_turn_def waiting_turn_def disowned_def held_def closed_def fenced_def stopped_def)
  qed
  with side_change_run [OF side] show ?thesis using delete_slot_run by (blast intro: turn_run_trans)
qed

lemma CompleteClosureSettlement_run:
  assumes "CompleteClosureSettlement env now lease db = Inr (x, u)" "turns_ok db"
  shows "turn_run now db u"
proof (cases "u = db")
  case False
  note r = assms(1) [unfolded CompleteClosureSettlement_def]
  from r have w: "lockClosureWorkflow (te_Jobs env) lease = None" by (simp split: option.split_asm)
  from r w False have again: "resolveCompletedClosureSettlement env lease db = None" by (simp split: option.split_asm)
  from r w again obtain job b where job: "lockClosureBarrier env now lease SettleClosureJobKind db = Inr (job, b)"
    by (cases "lockClosureBarrier env now lease SettleClosureJobKind db") auto
  note r2 = r [unfolded w again job option.case sum.case prod.case]
  let ?open = "if cb_Turn b = '''' then None else case requireClosureRuntimeStopped b db of
      Some e \<Rightarrow> Some e
    | None \<Rightarrow> if list_ex (\<lambda>v. iv_Turn v = cb_Turn b \<and> iv_Epoch v = cb_Epoch b \<and> iv_Mutation v
                      \<and> iv_State v \<in> set unsettled_states) (td_Invocations db)
            then Some ErrClosureSettlementUnsettled else None"
  from r2 have open_: "?open = None" by (cases ?open) simp_all
  note r3 = r2 [unfolded open_ option.case]
  from r3 obtain db1 where db1: "cancelPendingAgentTurnPreparationsTx now (cb_Workflow b) db = Inr db1"
    by (cases "cancelPendingAgentTurnPreparationsTx now (cb_Workflow b) db") simp_all
  from r3 db1 have decided: "te_ClosureDecision env b = None" by (simp split: option.split_asm)
  note r4 = r3 [unfolded db1 decided option.case sum.case]
  let ?settle = "if cb_Turn b = '''' then Inr db1 else settleClosedAgentTurnTx env now b db1"
  from r4 obtain db2 where db2: "?settle = Inr db2" by (cases ?settle) simp_all
  from r4 [unfolded db2 sum.case Let_def] obtain jobs f where u: "u = (update_barrier b f db2)\<lparr>td_Jobs := jobs\<rparr>"
    by (auto split: sum.split_asm)
  note side = cancelPending_side [OF db1]
  have "turn_run now db1 db2"
  proof (cases "cb_Turn b = ''''")
    case other: False
    with db2 have "settleClosedAgentTurnTx env now b db1 = Inr db2" by simp
    then show ?thesis
    proof (rule settleClosedAgentTurnTx_run)
      show "turns_ok db1" by (rule turn_run_ok [OF side_change_run [OF side] assms(2)])
      fix v assume "v \<in> set (td_Invocations db1)" "iv_Turn v = cb_Turn b" "iv_Epoch v = cb_Epoch b" "iv_Mutation v"
      with open_ other show "terminal_state (iv_State v)"
        by (auto simp: terminal_unsettled list_ex_iff side_changeD [OF side] split: option.split_asm if_split_asm)
    qed
  qed (use db2 in simp)
  moreover have "turn_run now db2 u"
    unfolding u by (rule side_change_run, rule side_change_trans [OF update_barrier_side side_change_jobs(1)])
  ultimately show ?thesis using side_change_run [OF side] by (blast intro: turn_run_trans)
qed simp

end
