(* ===== verification/Turn_Safety.thy ===== *)
theory Turn_Safety
  imports Turn_Ending_Runs Job_Safety
begin

text \<open>
  The operations on Agent Turns as one step function, in any interleaving, among them those of the job
  queue; and the gates that such a sequence passes at most once: a fenced Turn, a started mutation.
\<close>

section \<open>The operations as one step function\<close>

text \<open>What the holder of a Turn does under its lease, and what the jobs of a recovery and of a closure do under
  theirs.\<close>

datatype lease_op =
    Validate_Fence | Fence "turn_error option option" | Cleanup_Fence "turn_error option option"
  | Reserve mutation_spec | Replay string mutation_spec | Read read_invocation | Start string | Tip string string
  | Complete_Mutation string string | Fail_Mutation string "string option" | Mark_Unknown string "string option"
  | Reconcile string | List_Unsettled | List_Ledger | Refresh int | Open_Admission | Close_Admission
  | Close_Admission_With string string | Finalize turn_status string string | Settle

datatype recovery_op =
    Runtime_Stopped | Reconciled string mutation_state string string | All_Reconciled
  | Reconciliation_Failed "string option" int

datatype closing_op =
    Turn_Stopped | Reconcile_Closed string mutation_state string string | Settle_Closure

datatype turn_op =
    Queue_Turn turn | Queue_Op job_op | Acquire string int int | Under agent_turn_lease lease_op
  | Begin_Recovery agent_turn_lease | Recover_Expired string int64 | Recover job_lease recovery_op
  | Close_Issue string string string string int64 "turn_guard option" | Hand_Over turn_guard
  | Closing job_lease closing_op

type_synonym turn_call = "turn_env \<times> instant \<times> turn_op"

definition close_tx :: "turns_db \<Rightarrow> (turn_error + 'a \<times> turns_db) \<Rightarrow> bool \<times> turns_db" where
  "close_tx db result = (case result of Inl _ \<Rightarrow> (False, db) | Inr (_, u) \<Rightarrow> (True, u))"

fun under_lease :: "turn_env \<Rightarrow> instant \<Rightarrow> agent_turn_lease \<Rightarrow> lease_op \<Rightarrow> turns_db \<Rightarrow> bool \<times> turns_db" where
  "under_lease env now l Validate_Fence db = close_tx db (ValidateTurnFence env now l db)"
| "under_lease env now l (Fence f) db = close_tx db (WithAgentTurnFence env now l f db)"
| "under_lease env now l (Cleanup_Fence f) db = close_tx db (WithAgentTurnCleanupFence env now l f db)"
| "under_lease env now l (Reserve spec) db = close_tx db (ReserveMutation env now l spec db)"
| "under_lease env now l (Replay source spec) db = close_tx db (AcknowledgeMutationReplay env now l source spec db)"
| "under_lease env now l (Read r) db = close_tx db (RecordReadInvocation env now l r db)"
| "under_lease env now l (Start m) db = close_tx db (StartMutation env now l m db)"
| "under_lease env now l (Tip m tip) db = close_tx db (RecordProposedPublicationTip env now l m tip db)"
| "under_lease env now l (Complete_Mutation m result) db = close_tx db (CompleteMutation env now l m result db)"
| "under_lease env now l (Fail_Mutation m cause) db = close_tx db (FailMutation env now l m cause db)"
| "under_lease env now l (Mark_Unknown m cause) db = close_tx db (MarkMutationUnknown env now l m cause db)"
| "under_lease env now l (Reconcile m) db = close_tx db (BeginMutationReconciliation env now l m db)"
| "under_lease env now l List_Unsettled db = close_tx db (ListUnsettledMutations env now l db)"
| "under_lease env now l List_Ledger db = close_tx db (ListAgentTurnMutationInvocations env now l db)"
| "under_lease env now l (Refresh d) db = close_tx db (RefreshAgentTurnLease env now l d db)"
| "under_lease env now l Open_Admission db = close_tx db (OpenMutationAdmission env now l db)"
| "under_lease env now l Close_Admission db = close_tx db (CloseMutationAdmission env now l db)"
| "under_lease env now l (Close_Admission_With stop class) db =
     close_tx db (CloseMutationAdmissionWithPromptEvidence env now l stop class db)"
| "under_lease env now l (Finalize status outcome e) db = close_tx db (FinalizeAgentTurn env now l status outcome e db)"
| "under_lease env now l Settle db = close_tx db (settle_live_turn env now l db)"

fun in_recovery :: "turn_env \<Rightarrow> instant \<Rightarrow> job_lease \<Rightarrow> recovery_op \<Rightarrow> turns_db \<Rightarrow> bool \<times> turns_db" where
  "in_recovery env now l Runtime_Stopped db = close_tx db (AcknowledgeRecoveredRuntimeStopped env now l db)"
| "in_recovery env now l (Reconciled m s result e) db = close_tx db (ReconcileRecoveredMutation env now l m s result e db)"
| "in_recovery env now l All_Reconciled db = close_tx db (CompleteAgentTurnMutationReconciliation env now l db)"
| "in_recovery env now l (Reconciliation_Failed cause d) db =
     close_tx db (AcknowledgeAgentTurnMutationReconciliationFailure env now l cause d db)"

fun in_closing :: "turn_env \<Rightarrow> instant \<Rightarrow> job_lease \<Rightarrow> closing_op \<Rightarrow> turns_db \<Rightarrow> bool \<times> turns_db" where
  "in_closing env now l Turn_Stopped db = close_tx db (AcknowledgeClosureTurnStopped env now l db)"
| "in_closing env now l (Reconcile_Closed m s result e) db = close_tx db (ReconcileClosureMutation env now l m s result e db)"
| "in_closing env now l Settle_Closure db = close_tx db (CompleteClosureSettlement env now l db)"

text \<open>A hand-over meets no tool call of a Turn whose execution nobody has claimed: that job is claimed once at
  most, and only by an acquisition.\<close>

fun turn_step :: "turn_call \<Rightarrow> turns_db \<Rightarrow> bool \<times> turns_db" where
  "turn_step (env, now, Queue_Turn t) db = (case insert_turn t db of Inl _ \<Rightarrow> (False, db) | Inr u \<Rightarrow> (True, u))"
| "turn_step (env, now, Queue_Op op) db =
     (case job_step (te_Jobs env, now, op) (td_Jobs db) of (ok, jobs) \<Rightarrow> (ok, db\<lparr>td_Jobs := jobs\<rparr>))"
| "turn_step (env, now, Acquire owner lease limit) db =
     close_tx db (ClaimAndAcquireAgentTurn env now owner lease limit db)"
| "turn_step (env, now, Under l op) db = under_lease env now l op db"
| "turn_step (env, now, Begin_Recovery l) db = close_tx db (BeginAgentTurnRecovery env now l db)"
| "turn_step (env, now, Recover_Expired i epoch) db = close_tx db (RecoverExpiredAgentTurn env now i epoch db)"
| "turn_step (env, now, Recover l op) db = in_recovery env now l op db"
| "turn_step (env, now, Close_Issue delivery workflow attempt closure revision guard) db =
     close_tx db (begin_closure env now delivery workflow attempt closure revision guard db)"
| "turn_step (env, now, Hand_Over g) db =
     (if unclaimed_silent g db then close_tx db (begin_handoff env now g db) else (False, db))"
| "turn_step (env, now, Closing l op) db = in_closing env now l op db"

lemma close_tx_cases:
  obtains "close_tx db result = (False, db)" | x u where "result = Inr (x, u)" "close_tx db result = (True, u)"
  by (cases result) (auto simp: close_tx_def split: prod.split)

lemma close_tx_run: "(\<And>x u. result = Inr (x, u) \<Longrightarrow> turn_run now db u) \<Longrightarrow> turn_run now db (snd (close_tx db result))"
  by (cases rule: close_tx_cases [of db result]) auto

lemma close_tx_fst: "fst (close_tx db result) \<longleftrightarrow> (\<exists>x u. result = Inr (x, u))"
  by (cases result) (auto simp: close_tx_def split: prod.split)

section \<open>Every operation is a run\<close>

lemma fences_only:
  "ValidateTurnFence env now l db = Inr (x, u) \<Longrightarrow> u = db"
  "WithAgentTurnFence env now l f db = Inr (y, u) \<Longrightarrow> u = db"
  "WithAgentTurnCleanupFence env now l f db = Inr (z, u) \<Longrightarrow> u = db"
  unfolding ValidateTurnFence_def WithAgentTurnFence_def WithAgentTurnCleanupFence_def
  by (auto elim!: withLocked_cases split: option.split_asm if_split_asm)

lemma under_lease_run:
  assumes "turns_ok db" "slots_ok db"
  shows "turn_run now db (snd (under_lease env now l op db))"
proof (cases op)
  case (Refresh d)
  show ?thesis unfolding Refresh under_lease.simps
    by (rule close_tx_run) (rule RefreshAgentTurnLease_run [OF _ assms])
next
  case (Finalize s outcome e)
  show ?thesis unfolding Finalize under_lease.simps
    by (rule close_tx_run) (rule FinalizeAgentTurn_run(1) [OF _ assms(1)])
next
  case Settle
  show ?thesis unfolding Settle under_lease.simps
    by (rule close_tx_run) (rule settle_live_turn_run(1) [OF _ assms(1)])
next
  case (Reserve spec)
  show ?thesis unfolding Reserve under_lease.simps
    by (rule close_tx_run) (rule ReserveMutation_run [OF _ assms(1)])
next
  case (Replay source spec)
  show ?thesis unfolding Replay under_lease.simps
    by (rule close_tx_run) (rule AcknowledgeMutationReplay_run [OF _ assms(1)])
next
  case (Read r)
  show ?thesis unfolding Read under_lease.simps
    by (rule close_tx_run) (rule RecordReadInvocation_run [OF _ assms(1)])
next
  case (Start m)
  show ?thesis unfolding Start under_lease.simps
    by (rule close_tx_run) (rule StartMutation_run [OF _ assms(1)])
next
  case (Tip m tip)
  show ?thesis unfolding Tip under_lease.simps
    by (rule close_tx_run) (rule RecordProposedPublicationTip_run [OF _ assms(1)])
next
  case (Complete_Mutation m result)
  show ?thesis unfolding Complete_Mutation under_lease.simps
    by (rule close_tx_run) (rule CompleteMutation_run [OF _ assms(1)])
next
  case (Fail_Mutation m cause)
  show ?thesis unfolding Fail_Mutation under_lease.simps
    by (rule close_tx_run) (rule FailMutation_run [OF _ assms(1)])
next
  case (Mark_Unknown m cause)
  show ?thesis unfolding Mark_Unknown under_lease.simps
    by (rule close_tx_run) (rule MarkMutationUnknown_run [OF _ assms(1)])
next
  case (Reconcile m)
  show ?thesis unfolding Reconcile under_lease.simps
    by (rule close_tx_run) (rule BeginMutationReconciliation_run [OF _ assms(1)])
next
  case Open_Admission
  show ?thesis unfolding Open_Admission under_lease.simps
    by (rule close_tx_run) (rule OpenMutationAdmission_run [OF _ assms(1)])
next
  case Close_Admission
  show ?thesis unfolding Close_Admission under_lease.simps
    by (rule close_tx_run) (rule CloseMutationAdmission_run [OF _ assms(1)])
next
  case (Close_Admission_With s e)
  show ?thesis unfolding Close_Admission_With under_lease.simps
    by (rule close_tx_run) (rule CloseMutationAdmissionWithPromptEvidence_run [OF _ assms(1)])
qed (auto intro!: close_tx_run dest!: fences_only reads_only)

lemma in_recovery_run:
  assumes "turns_ok db"
  shows "turn_run now db (snd (in_recovery env now l op db))"
proof (cases op)
  case Runtime_Stopped
  show ?thesis unfolding Runtime_Stopped in_recovery.simps
    by (rule close_tx_run) (rule AcknowledgeRecoveredRuntimeStopped_run [OF _ assms])
next
  case (Reconciled m s result e)
  show ?thesis unfolding Reconciled in_recovery.simps
    by (rule close_tx_run) (rule ReconcileRecoveredMutation_run [OF _ assms])
next
  case All_Reconciled
  show ?thesis unfolding All_Reconciled in_recovery.simps
    by (rule close_tx_run) (rule CompleteAgentTurnMutationReconciliation_run [OF _ assms])
next
  case (Reconciliation_Failed cause d)
  show ?thesis unfolding Reconciliation_Failed in_recovery.simps
    by (rule close_tx_run) (rule AcknowledgeAgentTurnMutationReconciliationFailure_run [OF _ assms])
qed

lemma in_closing_run:
  assumes "turns_ok db"
  shows "turn_run now db (snd (in_closing env now l op db))"
proof (cases op)
  case Turn_Stopped
  show ?thesis unfolding Turn_Stopped in_closing.simps
    by (rule close_tx_run) (rule AcknowledgeClosureTurnStopped_run)
next
  case (Reconcile_Closed m s result e)
  show ?thesis unfolding Reconcile_Closed in_closing.simps
    by (rule close_tx_run) (rule ReconcileClosureMutation_run [OF _ assms])
next
  case Settle_Closure
  show ?thesis unfolding Settle_Closure in_closing.simps
    by (rule close_tx_run) (rule CompleteClosureSettlement_run [OF _ assms])
qed

text \<open>Only an acquisition occupies a further slot, and none beyond its limit.\<close>

lemma turn_step_cases':
  assumes "turns_ok db" "slots_ok db"
  obtains "turn_run now db (snd (turn_step (env, now, op) db))"
  | owner lease limit where "op = Acquire owner lease limit" "acquires now db (snd (turn_step (env, now, op) db))"
      "int (occupied_slots now (snd (turn_step (env, now, op) db))) \<le> limit"
proof (cases op)
  case (Queue_Turn t)
  have "turn_run now db (snd (turn_step (env, now, op) db))" unfolding Queue_Turn
    using insert_turn_run [OF _ assms(1)] by (cases "insert_turn t db") simp_all
  then show thesis by (rule that(1))
next
  case (Queue_Op j)
  have "turn_run now db (snd (turn_step (env, now, op) db))" unfolding Queue_Op
    by (rule side_change_run) (simp split: prod.split)
  then show thesis by (rule that(1))
next
  case (Acquire owner lease limit)
  show thesis
  proof (rule close_tx_cases [of db "ClaimAndAcquireAgentTurn env now owner lease limit db"])
    assume "close_tx db (ClaimAndAcquireAgentTurn env now owner lease limit db) = (False, db)"
    then show thesis by (intro that(1)) (simp add: Acquire)
  next
    fix x u assume r: "ClaimAndAcquireAgentTurn env now owner lease limit db = Inr (x, u)"
      "close_tx db (ClaimAndAcquireAgentTurn env now owner lease limit db) = (True, u)"
    from ClaimAndAcquireAgentTurn_run [OF r(1) assms(1)] consider "u = db"
      | "acquires now db u" "int (occupied_slots now u) \<le> limit" by blast
    then show thesis
    proof cases
      case 1
      then show thesis using r by (intro that(1)) (simp add: Acquire)
    next
      case 2
      then show thesis using r by (intro that(2) [of owner lease limit]) (simp_all add: Acquire)
    qed
  qed
next
  case (Under l o')
  then show thesis using under_lease_run [OF assms] by (intro that(1)) simp
next
  case (Begin_Recovery l)
  show thesis by (rule that(1)) (simp add: Begin_Recovery close_tx_run BeginAgentTurnRecovery_run [OF _ assms(1)])
next
  case (Recover_Expired i epoch)
  show thesis by (rule that(1)) (simp add: Recover_Expired close_tx_run RecoverExpiredAgentTurn_run [OF _ assms(1)])
next
  case (Recover l o')
  then show thesis using in_recovery_run [OF assms(1)] by (intro that(1)) simp
next
  case (Close_Issue d w a c r g)
  show thesis unfolding Close_Issue
    by (rule that(1), unfold Close_Issue turn_step.simps, rule close_tx_run) (rule begin_closure_run [OF _ assms(1)])
next
  case (Hand_Over g)
  have "turn_run now db (snd (close_tx db (begin_handoff env now g db)))" if "unclaimed_silent g db"
    by (rule close_tx_run) (rule begin_handoff_run [OF _ assms(1) that])
  then show thesis by (intro that(1)) (simp add: Hand_Over)
next
  case (Closing l o')
  then show thesis using in_closing_run [OF assms(1)] by (intro that(1)) simp
qed

definition tables_ok :: "turns_db \<Rightarrow> bool" where
  "tables_ok db \<longleftrightarrow> turns_ok db \<and> slots_ok db"

lemma turn_step_run:
  assumes "tables_ok db"
  shows "turn_micro\<^sup>*\<^sup>* db (snd (turn_step x db))" "slots_ok (snd (turn_step x db))"
proof -
  obtain env now op where x: "x = (env, now, op)" by (metis prod_cases3)
  from assms have ok: "turns_ok db" "slots_ok db" by (simp_all add: tables_ok_def)
  have "turn_micro\<^sup>*\<^sup>* db (snd (turn_step x db)) \<and> slots_ok (snd (turn_step x db))"
    unfolding x by (rule turn_step_cases' [OF ok, of now env op]) (use ok in \<open>simp_all add: turn_run_def acquires_def\<close>)
  then show "turn_micro\<^sup>*\<^sup>* db (snd (turn_step x db))" "slots_ok (snd (turn_step x db))" by blast+
qed

lemma turn_step_ok: "tables_ok db \<Longrightarrow> tables_ok (snd (turn_step x db))"
  using turn_step_run [of db x] micros_turns_ok by (auto simp: tables_ok_def)

lemma turns_after_ok: "tables_ok db \<Longrightarrow> tables_ok (after turn_step xs db)"
  by (rule after_invariant) (auto intro: turn_step_ok)

lemma turns_after_run: "tables_ok db \<Longrightarrow> turn_micro\<^sup>*\<^sup>* db (after turn_step xs db)"
proof (induction xs arbitrary: db)
  case (Cons x xs)
  from rtranclp_trans [OF turn_step_run(1) [OF Cons.prems] Cons.IH [OF turn_step_ok [OF Cons.prems]]] show ?case by simp
qed simp

definition no_turns :: turns_db where
  "no_turns = \<lparr>td_Jobs = no_jobs, td_Turns = [], td_Slots = [], td_Invocations = [], td_Replays = [],
               td_ReviewerActor = \<lambda>_. None, td_Closures = []\<rparr>"

lemma no_turns_ok: "tables_ok no_turns"
  by (simp add: tables_ok_def turns_ok_def slots_ok_def no_turns_def calls_ok_def operations_ok_def owners_ok_def
      replays_ok_def ledger_numbers_def retries_ok_def one_active_def)

section \<open>Gates\<close>

text \<open>An operation under a lease only succeeds for the holder of the Turn.\<close>

lemma under_lease_holds:
  assumes "fst (under_lease env now l op db)" "op \<noteq> Settle"
  shows "\<exists>t. holds_turn now db l t"
proof -
  show ?thesis
    using assms
    by (cases op)
      (auto simp: close_tx_fst ValidateTurnFence_def WithAgentTurnFence_def WithAgentTurnCleanupFence_def
        ReserveMutation_def AcknowledgeMutationReplay_def RecordReadInvocation_def StartMutation_def
        RecordProposedPublicationTip_def CompleteMutation_def FailMutation_def MarkMutationUnknown_def
        BeginMutationReconciliation_def mutateMutationState_def ListUnsettledMutations_def
        ListAgentTurnMutationInvocations_def RefreshAgentTurnLease_def OpenMutationAdmission_def CloseMutationAdmission_def
        CloseMutationAdmissionWithPromptEvidence_def FinalizeAgentTurn_def Let_def
        elim!: withLocked_cases split: option.split_asm if_split_asm sum.split_asm)
qed

lemma under_lease_started:
  assumes "fst (under_lease env now l op db)" "turns_ok db"
  obtains t where "turn_of db (lease_turn l) = Some t" "started_turn t"
proof (cases "op = Settle")
  case True
  with assms(1) obtain x u where "settle_live_turn env now l db = Inr (x, u)" by (auto simp: close_tx_fst)
  then obtain job t where "lockLiveAgentTurnSettlement env now l db = Inr (job, t)"
    unfolding settle_live_turn_def by (auto split: if_split_asm sum.split_asm)
  from lockLiveAgentTurnSettlementD [OF this assms(2)] show thesis using that by blast
next
  case False
  with under_lease_holds [OF assms(1)] held_started [OF _ assms(2)] show thesis using that by blast
qed

definition fenced_in :: "string \<Rightarrow> turns_db \<Rightarrow> bool" where
  "fenced_in i db \<longleftrightarrow> (case turn_of db i of None \<Rightarrow> False | Some t \<Rightarrow> fenced t)"

fun works_on :: "string \<Rightarrow> turn_call \<Rightarrow> bool" where
  "works_on i (env, now, op) = (case op of Under l _ \<Rightarrow> lease_turn l = i | _ \<Rightarrow> False)"

fun finishes :: "string \<Rightarrow> turn_call \<Rightarrow> bool" where
  "finishes i (env, now, op) =
     (case op of Under l (Finalize _ _ _) \<Rightarrow> lease_turn l = i | Under l Settle \<Rightarrow> lease_turn l = i | _ \<Rightarrow> False)"

fun starts :: "string \<Rightarrow> turn_call \<Rightarrow> bool" where
  "starts m (env, now, op) = (case op of Under _ (Start n) \<Rightarrow> n = m | _ \<Rightarrow> False)"

definition started_in :: "string \<Rightarrow> turns_db \<Rightarrow> bool" where
  "started_in m db \<longleftrightarrow> (case invocation_of db m of None \<Rightarrow> False | Some v \<Rightarrow> iv_State v \<noteq> MutationReserved)"

lemma fenced_in_step:
  assumes "fenced_in i db" "tables_ok db"
  shows "fenced_in i (snd (turn_step x db))"
proof -
  from assms(1) obtain t where "turn_of db i = Some t" "fenced t" by (auto simp: fenced_in_def split: option.split_asm)
  with micros_turn [OF turn_step_run(1) [OF assms(2)], of i t x] assms(2) show ?thesis
    by (auto simp: fenced_in_def tables_ok_def)
qed

text \<open>Nobody holds a fenced Turn.\<close>

interpretation fence: barrier turn_step tables_ok "fenced_in i" "works_on i" for i
proof unfold_locales
  fix x and db assume x: "works_on i x" "fst (turn_step x db)" "tables_ok db"
  obtain env now op where op: "x = (env, now, op)" by (metis prod_cases3)
  with x(1) obtain l o' where u: "op = Under l o'" "lease_turn l = i" by (auto split: turn_op.split_asm)
  from x(2) op u have "fst (under_lease env now l o' db)" by simp
  moreover have "turns_ok db" using x(3) by (simp add: tables_ok_def)
  ultimately obtain t where "turn_of db (lease_turn l) = Some t" "started_turn t" by (rule under_lease_started)
  with u(2) show "\<not> fenced_in i db" by (auto simp: fenced_in_def dest: started_not_closed)
qed (simp_all add: turn_step_ok fenced_in_step)

text \<open>A Turn is finalized or settled once at most.\<close>

interpretation final: one_shot turn_step tables_ok "fenced_in i" "finishes i" for i
proof unfold_locales
  fix x and db assume x: "finishes i x" "fst (turn_step x db)" "tables_ok db"
  obtain env now op where op: "x = (env, now, op)" by (metis prod_cases3)
  have ok: "turns_ok db" using x(3) by (simp add: tables_ok_def)
  from x(1) op obtain l o' where f: "op = Under l o'" "lease_turn l = i" "o' = Settle \<or> (\<exists>s r e. o' = Finalize s r e)"
    by (auto split: turn_op.split_asm lease_op.split_asm)
  show "\<not> fenced_in i db" using fence.shoots_open [of i x db] x f op by simp
  from x(2) op f(1,3) obtain y u where u: "turn_step x db = (True, u)"
    "(\<exists>s r e. FinalizeAgentTurn env now l s r e db = Inr (y, u)) \<or> settle_live_turn env now l db = Inr (y, u)"
    by (auto simp: close_tx_def split: sum.split_asm) blast
  from u(2) FinalizeAgentTurn_run(2) [OF _ ok] settle_live_turn_run(2) [OF _ ok] f(2)
  obtain t where "turn_of u i = Some t" "fenced t" by blast
  with u(1) show "fenced_in i (snd (turn_step x db))" by (simp add: fenced_in_def)
qed

text \<open>A mutation is started once at most.\<close>

lemma StartMutationE:
  assumes "StartMutation env now l m db = Inr (x, u)"
  obtains v where "invocation_of db m = Some v" "iv_Turn v = lease_turn l" "iv_Mutation v" "iv_State v = MutationReserved"
    "invocation_of u m = Some (v\<lparr>iv_State := MutationInFlight, iv_StartedAt := Some now\<rparr>)"
    "scanMutation env (v\<lparr>iv_State := MutationInFlight, iv_StartedAt := Some now\<rparr>) = Some x"
proof -
  let ?f = "\<lambda>v. v\<lparr>iv_State := MutationInFlight, iv_StartedAt := Some now\<rparr>"
  have "\<not> \<not> je_ValidUUID (te_Jobs env) m" by (rule notI) (use assms in \<open>simp add: StartMutation_def\<close>)
  note run = assms [unfolded StartMutation_def if_not_P [OF this]]
  from run show thesis
  proof (rule withLocked_cases)
    assume op: "(case update_invocation m (fenced_mutation l [MutationReserved]) ?f ErrMutationStateConflict db of
        Inl e \<Rightarrow> Inl e
      | Inr db1 \<Rightarrow> (case getMutationByID env m db1 of Inl e \<Rightarrow> Inl e | Inr v \<Rightarrow> Inr (v, db1))) = Inr (x, u)"
    then have u: "update_invocation m (fenced_mutation l [MutationReserved]) ?f ErrMutationStateConflict db = Inr u"
      "getMutationByID env m u = Inr x" by (simp_all split: sum.split_asm)
    from update_invocationE [OF u(1)] obtain v where v: "invocation_of db m = Some v" "fenced_mutation l [MutationReserved] v"
      "u = db\<lparr>td_Invocations := alter iv_ID m ?f (td_Invocations db)\<rparr>" by blast
    have "iv_ID (if iv_ID r = m then ?f r else r) = iv_ID r" for r by simp
    then have "row_of iv_ID m (alter iv_ID m ?f (td_Invocations db)) = map_option ?f (invocation_of db m)"
      unfolding alter_map by (subst row_of_map) (use v(1) in \<open>auto dest: row_of_key\<close>)
    then have "invocation_of u m = Some (?f v)" by (simp add: v)
    moreover from this u(2) have "scanMutation env (?f v) = Some x" by (simp add: getMutationByID_def split: option.split_asm)
    ultimately show thesis using that v by (simp add: fenced_mutation_def)
  qed
qed

lemma step_not_reserved: "mutation_step\<^sup>*\<^sup>* s t \<Longrightarrow> s \<noteq> MutationReserved \<Longrightarrow> t \<noteq> MutationReserved"
  by (induction rule: rtranclp_induct) (auto elim: to_reserved)

lemma started_in_step:
  assumes "started_in m db" "tables_ok db"
  shows "started_in m (snd (turn_step x db))"
proof -
  from assms(1) obtain v where v: "invocation_of db m = Some v" "iv_State v \<noteq> MutationReserved"
    by (auto simp: started_in_def split: option.split_asm)
  have ok: "turns_ok db" using assms(2) by (simp add: tables_ok_def)
  from micros_call [OF turn_step_run(1) [OF assms(2)] ok v(1)] obtain w where
    "invocation_of (snd (turn_step x db)) m = Some w" "mutation_step\<^sup>*\<^sup>* (iv_State v) (iv_State w)" by blast
  with step_not_reserved [of "iv_State v" "iv_State w"] v(2) show ?thesis by (simp add: started_in_def)
qed

interpretation start: one_shot turn_step tables_ok "started_in m" "starts m" for m
proof unfold_locales
  fix x and db assume x: "starts m x" "fst (turn_step x db)" "tables_ok db"
  obtain env now op where op: "x = (env, now, op)" by (metis prod_cases3)
  with x(1) obtain l where l: "op = Under l (Start m)" by (auto split: turn_op.split_asm lease_op.split_asm)
  with x(2) op obtain y u where u: "StartMutation env now l m db = Inr (y, u)" by (auto simp: close_tx_fst)
  then have s: "snd (turn_step x db) = u" by (simp add: op l close_tx_def)
  from StartMutationE [OF u] obtain v where "invocation_of db m = Some v" "iv_State v = MutationReserved"
    "invocation_of u m = Some (v\<lparr>iv_State := MutationInFlight, iv_StartedAt := Some now\<rparr>)" .
  then show "\<not> started_in m db" "started_in m (snd (turn_step x db))"
    unfolding s by (simp_all add: started_in_def)
qed (simp_all add: turn_step_ok started_in_step)

section \<open>A Turn that has stopped\<close>

text \<open>Nothing of it is reserved or in flight.\<close>

definition quiet :: "string \<Rightarrow> turns_db \<Rightarrow> bool" where
  "quiet i db \<longleftrightarrow> (\<exists>t. turn_of db i = Some t \<and> stopped t)
     \<and> (\<forall>v \<in> set (td_Invocations db). iv_Turn v = i \<longrightarrow> iv_State v \<noteq> MutationReserved \<and> iv_State v \<noteq> MutationInFlight)"

lemma moved_not_in_flight:
  assumes "mutation_moves v w" "iv_State v \<noteq> MutationReserved" "iv_State v \<noteq> MutationInFlight"
  shows "iv_State w \<noteq> MutationReserved \<and> iv_State w \<noteq> MutationInFlight"
  using assms by (auto simp: mutation_moves_def elim: mutation_step.cases)

lemma micro_quiet:
  assumes "turn_micro db u" "turns_ok db" "quiet i db"
  shows "quiet i u"
proof -
  from assms(3) obtain t where t: "turn_of db i = Some t" "stopped t" by (auto simp: quiet_def)
  from turn_kept [OF assms(1,2) t(1)] t(2) have "\<exists>t. turn_of u i = Some t \<and> stopped t" by metis
  moreover have "iv_State w \<noteq> MutationReserved \<and> iv_State w \<noteq> MutationInFlight"
    if w: "w \<in> set (td_Invocations u)" "iv_Turn w = i" for w
    using assms(1,2) w(1)
  proof (cases rule: call_origin)
    case (old v)
    have "iv_State v \<noteq> MutationReserved \<and> iv_State v \<noteq> MutationInFlight"
      using assms(3) row_of_set [OF old(1)] same_invocationD(2) [OF old(2)] w(2) by (simp add: quiet_def)
    with old(3) moved_not_in_flight [of v w] show ?thesis by blast
  next
    case new
    from call_step_new [OF assms(1,2) new(2,1)] obtain s where "turn_of db (iv_Turn w) = Some s" "call_admitted s w" by metis
    with t w(2) show ?thesis by (auto simp: call_admitted_def stopped_def terminal_state_def split: if_split_asm)
  qed
  ultimately show ?thesis unfolding quiet_def by blast
qed

lemma micros_quiet: "turn_micro\<^sup>*\<^sup>* db u \<Longrightarrow> turns_ok db \<Longrightarrow> quiet i db \<Longrightarrow> quiet i u"
  by (induction rule: rtranclp_induct) (auto intro: micro_quiet micros_turns_ok)

lemma after_quiet: "tables_ok db \<Longrightarrow> quiet i db \<Longrightarrow> quiet i (after turn_step xs db)"
  by (rule micros_quiet [OF turns_after_run]) (simp_all add: tables_ok_def)

text \<open>The closure of an Issue quiets the Turn that it meets.\<close>

lemma closeMutationAdmissionTx_quiet:
  assumes "closeMutationAdmissionTx env now g db = Inr u" "turns_ok db"
  shows "quiet (tg_TurnID g) u"
proof -
  let ?cond = "\<lambda>t. meets_guard env g t \<and> tr_Active t \<and> session_role env (tr_Session t) = Some (tg_Role g)"
  note r = assms(1) [unfolded closeMutationAdmissionTx_def]
  from r obtain db1 where db1: "update_turn (tg_TurnID g) ?cond (cancelled_turn now) ErrAgentTurnFenceLost db = Inr db1"
    by (simp split: sum.split_asm)
  from r [unfolded db1 sum.case] have u: "u = close_mutations now g db1" by simp
  from update_turnE [OF db1] obtain t where t: "turn_of db (tg_TurnID g) = Some t" "?cond t"
    and d1: "td_Invocations db1 = td_Invocations db" by force
  from closeMutationAdmissionTx_run(2) [OF assms] have "\<exists>t. turn_of u (tg_TurnID g) = Some t \<and> stopped t"
    by (auto simp: stopped_def waiting_turn_def)
  moreover have "iv_State w \<noteq> MutationReserved \<and> iv_State w \<noteq> MutationInFlight"
    if w: "w \<in> set (td_Invocations u)" "iv_Turn w = tg_TurnID g" for w
  proof -
    let ?close = "\<lambda>v. let own = iv_Turn v = tg_TurnID g \<and> iv_Epoch v = sint (tg_Epoch g) \<and> iv_Mutation v;
        v1 = if own \<and> iv_State v = MutationReserved \<and> iv_StartedAt v = None
             then v\<lparr>iv_State := MutationFailed, iv_FinishedAt := Some now,
                    iv_LastError := Some ''Issue closed before mutation started''\<rparr> else v
      in if own \<and> iv_State v1 = MutationInFlight
         then v1\<lparr>iv_State := MutationUnknown, iv_LastError := Some ''Issue closed with mutation in flight''\<rparr> else v1"
    have "td_Invocations u = map ?close (td_Invocations db)"
      by (simp add: u close_mutations_def update_invocations_def d1 Let_def)
    with w(1) obtain v where v: "v \<in> set (td_Invocations db)" "w = ?close v" by auto
    have "iv_Turn v = tg_TurnID g" using w(2) v(2) by (simp add: Let_def split: if_split_asm)
    moreover from v(1) have "invocation_of db (iv_ID v) = Some v" by (simp add: call_mem [OF assms(2)])
    from calls_okE [OF assms(2) this] obtain s where "turn_of db (iv_Turn v) = Some s" "iv_Epoch v = tr_Epoch s"
      "iv_State v = MutationReserved \<longrightarrow> iv_StartedAt v = None" "\<not> iv_Mutation v \<longrightarrow> terminal_state (iv_State v)" by metis
    ultimately show ?thesis
      using t v(2) by (auto simp: meets_guard_def Let_def terminal_state_def split: if_split_asm)
  qed
  ultimately show ?thesis unfolding quiet_def by blast
qed

end
