(* ===== verification/Turn_Properties.thy ===== *)
theory Turn_Properties
  imports Turn_Safety
begin

text \<open>
  What the store promises about Agent Turns and their tool calls, over any interleaving of the operations
  of \<open>Turn_Safety\<close>, by any number of workers.
\<close>

section \<open>Operations across retries\<close>

lemma after_call:
  assumes "tables_ok db" "invocation_of db m = Some v"
  obtains w where "invocation_of (after turn_step xs db) m = Some w" "same_invocation v w"
    "mutation_step\<^sup>*\<^sup>* (iv_State v) (iv_State w)" "terminal_state (iv_State v) \<Longrightarrow> w = v"
  using micros_call [OF turns_after_run [OF assms(1)] _ assms(2), of xs] assms(1) by (auto simp: tables_ok_def)

lemma started_ok:
  assumes "StartMutation env now l m db = Inr (v, u)" "tables_ok db"
  shows "tables_ok u"
  using turn_step_ok [OF assms(2), of "(env, now, Under l (Start m))"] assms(1) by (simp add: close_tx_def)

lemma reserved_ok:
  assumes "ReserveMutation env now l spec db = Inr (r, u)" "tables_ok db"
  shows "tables_ok u"
  using turn_step_ok [OF assms(2), of "(env, now, Under l (Reserve spec))"] assms(1) by (simp add: close_tx_def)

text \<open>C2 (exactly-once effects). Once the holder of a Turn has been told to carry out a mutation, neither it nor
  any later Turn of the same lineage is ever told to carry out the same operation of the same tool again:
  two successful starts, with any operations between them, are of different operations or lineages.\<close>

theorem operation_started_once:
  assumes "tables_ok db" "StartMutation env now l m db = Inr (v, u)"
    and "StartMutation env' now' l' n (after turn_step xs u) = Inr (w, u')"
  shows "\<not> (iv_Lineage v = iv_Lineage w \<and> iv_Tool v = iv_Tool w \<and> iv_OperationID v = iv_OperationID w)"
proof
  assume same: "iv_Lineage v = iv_Lineage w \<and> iv_Tool v = iv_Tool w \<and> iv_OperationID v = iv_OperationID w"
  have ok: "tables_ok u" by (rule started_ok [OF assms(2,1)])
  have ok': "turns_ok (after turn_step xs u)" using turns_after_ok [OF ok] by (simp add: tables_ok_def)
  from StartMutationE [OF assms(2)] obtain a where a: "iv_Mutation a"
    "invocation_of u m = Some (a\<lparr>iv_State := MutationInFlight, iv_StartedAt := Some now\<rparr>)"
    "scanMutation env (a\<lparr>iv_State := MutationInFlight, iv_StartedAt := Some now\<rparr>) = Some v" .
  from StartMutationE [OF assms(3)] obtain b where b: "invocation_of (after turn_step xs u) n = Some b" "iv_Mutation b"
    "iv_State b = MutationReserved" "scanMutation env' (b\<lparr>iv_State := MutationInFlight, iv_StartedAt := Some now'\<rparr>) = Some w" .
  from after_call [OF ok a(2)] obtain c where c: "invocation_of (after turn_step xs u) m = Some c"
    "same_invocation (a\<lparr>iv_State := MutationInFlight, iv_StartedAt := Some now\<rparr>) c"
    "mutation_step\<^sup>*\<^sup>* MutationInFlight (iv_State c)" by auto
  have "b = c"
    using turns_okD(4) [OF ok', unfolded operations_ok_def, rule_format, of b c] row_of_set [OF b(1)] row_of_set [OF c(1)]
      same b(2) scanMutationD [OF b(4)] a(1) scanMutationD [OF a(3)] same_invocationD [OF c(2)] by simp
  with step_not_reserved [OF c(3)] b(3) show False by simp
qed

text \<open>C6 (reservations are found again). Reserving an operation that was reserved before, by this Turn or by one it
  retries, however long ago, answers the same mutation and changes nothing: no second row for an operation.\<close>

theorem reservation_found_again:
  assumes "tables_ok db" "ReserveMutation env now l spec db = Inr (r, u)"
    and "ReserveMutation env' now' l' spec' (after turn_step xs u) = Inr (r', u')"
    and "iv_Lineage r' = iv_Lineage r" "ms_ToolName spec' = ms_ToolName spec" "ms_OperationID spec' = ms_OperationID spec"
  shows "iv_ID r' = iv_ID r \<and> u' = after turn_step xs u"
proof -
  have ok: "tables_ok u" by (rule reserved_ok [OF assms(2,1)])
  have oku: "turns_ok u" using ok by (simp add: tables_ok_def)
  have ok': "turns_ok (after turn_step xs u)" using turns_after_ok [OF ok] by (simp add: tables_ok_def)
  have db: "turns_ok db" using assms(1) by (simp add: tables_ok_def)
  obtain v where v: "invocation_of u (iv_ID r) = Some v" "iv_Mutation v" "iv_Lineage v = iv_Lineage r"
    "iv_Tool v = ms_ToolName spec" "iv_OperationID v = Some (ms_OperationID spec)"
    using assms(2) db
  proof (cases rule: ReserveMutationE)
    case (found t v)
    note row = operation_rowD [OF found(3)] and scan = scanMutationD [OF found(4)]
    show thesis using that [of v] row scan row_of_mem [OF turns_okD(2) [OF db] row(1)] found(2) by simp
  next
    case (new t v)
    have "v \<in> set (td_Invocations u)" by (simp add: new(4))
    from row_of_mem [OF turns_okD(2) [OF oku] this] new show thesis using that [of v] by simp
  qed
  from after_call [OF ok v(1)] obtain w where w: "invocation_of (after turn_step xs u) (iv_ID r) = Some w" "same_invocation v w" .
  note same = same_invocationD [OF w(2)]
  from assms(3) ok' show ?thesis
  proof (cases rule: ReserveMutationE)
    case (found t x)
    note row = operation_rowD [OF found(3)] and scan = scanMutationD [OF found(4)]
    have "x = w"
      using turns_okD(4) [OF ok', unfolded operations_ok_def, rule_format, of x w] row row_of_set [OF w(1)] same v scan
        assms(4-6) by simp
    with found(2) scan(1) row_of_key [OF w(1)] show ?thesis by simp
  next
    case (new t x)
    have "operation_row (tr_Lineage t) (ms_ToolName spec') (ms_OperationID spec') w"
      using same v new assms(4-6) by (simp add: operation_row_def)
    with new(3) row_of_set [OF w(1)] show ?thesis by (auto simp: mutation_by_operation_def find_None_iff)
  qed
qed

text \<open>C4 (life cycle). Whatever happens, a mutation stays in the ledger, keeps its definition, and moves only
  along the abstract life cycle \<open>mutation_step\<close>: reserved, in flight, unknown, reconciling, and an outcome; once its
  outcome is known, the row never changes again.\<close>

theorem mutations_refine_life_cycle:
  assumes "tables_ok db" "invocation_of db m = Some v"
  shows "\<exists>w. invocation_of (after turn_step xs db) m = Some w \<and> same_invocation v w
    \<and> mutation_step\<^sup>*\<^sup>* (iv_State v) (iv_State w) \<and> (terminal_state (iv_State v) \<longrightarrow> w = v)"
  using after_call [OF assms] by metis

definition retries :: "turns_db \<Rightarrow> string \<Rightarrow> string \<Rightarrow> bool" where
  "retries db i j \<longleftrightarrow> (\<exists>t. turn_of db i = Some t \<and> tr_RetryOf t = j \<and> j \<noteq> '''')"

lemma retried_turns_sound: "j \<in> set (retried_turns n db i) \<Longrightarrow> (retries db)\<^sup>+\<^sup>+ i j"
proof (induction n arbitrary: i)
  case (Suc n)
  then obtain t where t: "turn_of db i = Some t" "tr_RetryOf t \<noteq> ''''"
    "j = tr_RetryOf t \<or> j \<in> set (retried_turns n db (tr_RetryOf t))"
    by (cases "turn_of db i") (simp_all split: if_split_asm)
  have "retries db i (tr_RetryOf t)" using t by (simp add: retries_def)
  with t(3) Suc.IH [of "tr_RetryOf t"] show ?case by (auto intro: tranclp_into_tranclp2)
qed simp

text \<open>A Turn at place \<open>k\<close> of the table retries no more than \<open>k\<close> others.\<close>

lemma retried_turns_complete:
  assumes "turns_ok db" "(retries db)\<^sup>+\<^sup>+ i j" "k < length (td_Turns db)" "tr_ID (td_Turns db ! k) = i" "k \<le> n"
  shows "j \<in> set (retried_turns n db i)"
  using assms(2-5)
proof (induction i arbitrary: k n rule: converse_tranclp_induct)
  case (base i)
  then obtain t where t: "turn_of db i = Some t" "tr_RetryOf t = j" "j \<noteq> ''''" by (auto simp: retries_def)
  have "td_Turns db ! k = t" using row_of_mem [OF turns_okD(1) [OF assms(1)], of "td_Turns db ! k"] base t(1) by simp
  with turns_okD(8) [OF assms(1), unfolded retries_ok_def, rule_format, of k] base(2) t have "k \<noteq> 0"
    by (cases k) simp_all
  with base(4) obtain m where "n = Suc m" by (cases n) auto
  with t show ?case by simp
next
  case (step i h)
  then obtain t where t: "turn_of db i = Some t" "tr_RetryOf t = h" "h \<noteq> ''''" by (auto simp: retries_def)
  have "td_Turns db ! k = t" using row_of_mem [OF turns_okD(1) [OF assms(1)], of "td_Turns db ! k"] step t(1) by simp
  with turns_okD(8) [OF assms(1)] step.prems(1) t have "h \<in> tr_ID ` set (take k (td_Turns db))" by (auto simp: retries_ok_def)
  then obtain k' where k': "k' < k" "tr_ID (td_Turns db ! k') = h"
    using step.prems(1) by (auto simp: in_set_conv_nth)
  with step.prems(3) obtain m where m: "n = Suc m" "k' \<le> m" by (cases n) auto
  from step.IH [OF _ k'(2) m(2)] k'(1) step.prems(1) t m(1) show ?case by simp
qed

text \<open>Replay ancestors: a retry may replay exactly what one of the Turns did that it retries: the walk along
  \<open>retry_of_turn_id\<close> finds a Turn just if the retry relation leads there.\<close>

theorem replay_ancestor_is_retried:
  assumes "tables_ok db"
  shows "validateMutationReplayAncestor db i j \<longleftrightarrow> (retries db)\<^sup>+\<^sup>+ i j"
proof
  show "(retries db)\<^sup>+\<^sup>+ i j" if "validateMutationReplayAncestor db i j"
    using that unfolding validateMutationReplayAncestor_def by (rule retried_turns_sound)
  assume path: "(retries db)\<^sup>+\<^sup>+ i j"
  then obtain h where "retries db i h" by (blast dest: tranclpD)
  then obtain t where "turn_of db i = Some t" by (auto simp: retries_def)
  from row_of_set [OF this] row_of_key [OF this] obtain k where "k < length (td_Turns db)" "tr_ID (td_Turns db ! k) = i"
    by (auto simp: in_set_conv_nth)
  with retried_turns_complete [OF _ path this] assms show "validateMutationReplayAncestor db i j"
    by (simp add: validateMutationReplayAncestor_def tables_ok_def)
qed

section \<open>The end of a Turn\<close>

text \<open>C10 (a finalized Turn is over). Once a Turn has been finalized, no operation under any lease of it ever
  succeeds again, nor is it finalized a second time, whatever else goes on.\<close>

theorem finalized_turn_is_over:
  assumes "tables_ok db" "FinalizeAgentTurn env now l status outcome e db = Inr (x, u)"
  shows "filter (works_on (lease_turn l)) (performed turn_step xs u) = []"
proof (rule fence.no_shot)
  show "tables_ok u"
    using turn_step_ok [OF assms(1), of "(env, now, Under l (Finalize status outcome e))"] assms(2) by (simp add: close_tx_def)
  show "fenced_in (lease_turn l) u"
    using FinalizeAgentTurn_run(2) [OF assms(2)] assms(1) by (auto simp: fenced_in_def tables_ok_def)
qed

lemma expired_calls:
  assumes "turns_ok db" "turn_of db i = Some t" "td_Invocations u = td_Invocations (expire_mutations now t db)"
    and "v \<in> set (td_Invocations db)" "iv_Turn v = i"
  obtains w where "w \<in> set (td_Invocations u)" "iv_ID w = iv_ID v"
    "iv_State w = (case iv_State v of MutationReserved \<Rightarrow> MutationFailed | MutationInFlight \<Rightarrow> MutationUnknown | s \<Rightarrow> s)"
proof -
  have id: "tr_ID t = i" by (rule row_of_key [OF assms(2)])
  from turns_okD(3) [OF assms(1), unfolded calls_ok_def, rule_format, OF assms(4)] assms(2,5)
  have v: "iv_Epoch v = tr_Epoch t" "iv_State v \<in> {MutationReserved, MutationInFlight} \<Longrightarrow> iv_Mutation v"
    "iv_State v = MutationReserved \<Longrightarrow> iv_StartedAt v = None"
    by (auto simp: terminal_state_def split: if_split_asm)
  let ?reserved = "\<lambda>v. if own_mutation t [MutationReserved] v \<and> iv_StartedAt v = None
      then v\<lparr>iv_State := MutationFailed, iv_FinishedAt := Some now,
             iv_LastError := Some ''execution expired before mutation started''\<rparr> else v"
  let ?expire = "\<lambda>v. if own_mutation t [MutationInFlight] v
      then v\<lparr>iv_State := MutationUnknown, iv_LastError := Some ''execution expired with mutation in flight''\<rparr> else v"
  have "?expire (?reserved v) \<in> set (td_Invocations u)"
    using assms(4) by (auto simp: assms(3) expire_mutations_def update_invocations_def)
  then show thesis
    by (rule that) (cases "iv_State v"; use v id assms(5) in \<open>simp add: own_mutation_def\<close>)+
qed

text \<open>C9 (an expired Turn is fenced). When a Turn whose lease ran out is recovered, its former holder can do nothing
  more under that lease. Each of its mutations that was reserved but not started has failed, each that was in flight
  has an unknown outcome, which recovery reconciles; and whatever happens afterwards, none of its mutations is
  reserved or in flight again.\<close>

theorem expired_turn_is_fenced:
  assumes "tables_ok db" "RecoverExpiredAgentTurn env now i epoch db = Inr (r, u)" "u \<noteq> db"
  shows "filter (works_on i) (performed turn_step xs u) = []
    \<and> (\<forall>v \<in> set (td_Invocations db). iv_Turn v = i \<longrightarrow> iv_State v = MutationReserved \<longrightarrow>
         map_option iv_State (invocation_of u (iv_ID v)) = Some MutationFailed)
    \<and> (\<forall>v \<in> set (td_Invocations db). iv_Turn v = i \<longrightarrow> iv_State v = MutationInFlight \<longrightarrow>
         map_option iv_State (invocation_of u (iv_ID v)) = Some MutationUnknown)
    \<and> (\<forall>v \<in> set (td_Invocations (after turn_step xs u)). iv_Turn v = i \<longrightarrow>
         iv_State v \<noteq> MutationReserved \<and> iv_State v \<noteq> MutationInFlight)"
proof -
  have ok: "turns_ok db" using assms(1) by (simp add: tables_ok_def)
  from RecoverExpiredAgentTurnE [OF assms(2,3)] obtain job where
    job: "recoverExpiredAgentTurn env now job db = Inr (r, u)" "job_turn job = i" .
  note run = recoverExpiredAgentTurn_run [OF job(1) ok, unfolded job(2)]
  have oku: "tables_ok u"
    using turn_step_ok [OF assms(1), of "(env, now, Recover_Expired i epoch)"] assms(2) by (simp add: close_tx_def)
  then have turns: "turns_ok u" by (simp add: tables_ok_def)
  have "fenced_in i u" using run by (auto simp: fenced_in_def)
  then have holder: "filter (works_on i) (performed turn_step xs u) = []" using oku by (intro fence.no_shot)
  from run obtain t where t: "turn_of db i = Some t" "td_Invocations u = td_Invocations (expire_mutations now t db)" by blast
  have expired: "map_option iv_State (invocation_of u (iv_ID v)) =
      Some (case iv_State v of MutationReserved \<Rightarrow> MutationFailed | MutationInFlight \<Rightarrow> MutationUnknown | s \<Rightarrow> s)"
    if "v \<in> set (td_Invocations db)" "iv_Turn v = i" for v
    using expired_calls [OF ok t that] call_mem [OF turns] by (metis option.map(2))
  have "iv_State w \<noteq> MutationReserved \<and> iv_State w \<noteq> MutationInFlight"
    if w: "w \<in> set (td_Invocations u)" "iv_Turn w = i" for w
  proof -
    from w t(2) obtain v where v: "v \<in> set (td_Invocations db)" "iv_ID v = iv_ID w" "iv_Turn v = i"
      by (auto simp: expire_mutations_def update_invocations_def split: if_split_asm)
    from expired [OF v(1,3)] call_mem [OF turns] w(1) v(2) show ?thesis by (auto split: mutation_state.split_asm)
  qed
  then have "quiet i u" using run by (auto simp: quiet_def)
  from after_quiet [OF oku this] have later: "quiet i (after turn_step xs u)" .
  have "map_option iv_State (invocation_of u (iv_ID v)) = Some MutationFailed"
    if "v \<in> set (td_Invocations db)" "iv_Turn v = i" "iv_State v = MutationReserved" for v
    using expired [OF that(1,2)] unfolding that(3) by simp
  moreover have "map_option iv_State (invocation_of u (iv_ID v)) = Some MutationUnknown"
    if "v \<in> set (td_Invocations db)" "iv_Turn v = i" "iv_State v = MutationInFlight" for v
    using expired [OF that(1,2)] unfolding that(3) by simp
  ultimately show ?thesis using later holder unfolding quiet_def by blast
qed

text \<open>A Turn that nobody owns any more has settled everything.\<close>

definition calls_of :: "string \<Rightarrow> turns_db \<Rightarrow> invocation list" where
  "calls_of i db = filter (\<lambda>v. iv_Turn v = i) (td_Invocations db)"

definition finished :: "string \<Rightarrow> turns_db \<Rightarrow> bool" where
  "finished i db \<longleftrightarrow> (\<exists>t. turn_of db i = Some t \<and> fenced t) \<and> list_all (\<lambda>v. terminal_state (iv_State v)) (calls_of i db)"

lemma finished_calls:
  assumes "turn_micro db u" "finished i db"
  shows "calls_of i u = calls_of i db"
  using assms(1)
proof cases
  case (admit j r v)
  then have "j \<noteq> i" using assms(2) started_not_closed [of r] by (auto simp: finished_def)
  then show ?thesis by (simp add: admit(5,7) calls_of_def)
next
  case (settle g)
  have "calls_of i (db\<lparr>td_Invocations := map g vs\<rparr>) = calls_of i (db\<lparr>td_Invocations := vs\<rparr>)"
    if "set vs \<subseteq> set (td_Invocations db)" for vs
    using that
  proof (induction vs)
    case (Cons v vs)
    have "g v = v" if "iv_Turn v = i"
      using that settle(4) [of v] Cons.prems assms(2) mutation_moves_not_terminal [of v "g v"]
      by (cases "g v = v") (auto simp: finished_def calls_of_def list_all_iff)
    moreover have "iv_Turn (g v) = iv_Turn v" using settled_key [OF settle(4)] Cons.prems by (simp add: same_invocationD)
    ultimately show ?case using Cons by (auto simp: calls_of_def)
  qed simp
  from this [of "td_Invocations db"] show ?thesis by (simp add: settle(3) calls_of_def)
qed (simp_all add: calls_of_def)

lemma finished_run:
  assumes "turn_micro\<^sup>*\<^sup>* db u" "turns_ok db" "finished i db"
  shows "finished i u \<and> calls_of i u = calls_of i db"
  using assms
proof (induction rule: rtranclp_induct)
  case (step v w)
  have ok: "turns_ok v" by (rule micros_turns_ok [OF step.hyps(1) step.prems(1)])
  from step have v: "finished i v" "calls_of i v = calls_of i db" by simp_all
  then obtain t where "turn_of v i = Some t" "fenced t" by (auto simp: finished_def)
  from fenced_kept [OF step.hyps(2) ok this] finished_calls [OF step.hyps(2) v(1)] v show ?case by (simp add: finished_def)
qed simp

text \<open>C11 (a settled ledger is frozen). Once a Turn is over, and its recovery, if it had one, is settled, nothing of it
  is unsettled, and none of its tool calls ever changes again; no call is added either, and the Turn stays over.\<close>

theorem settled_ledger_frozen:
  assumes "tables_ok db" "turn_of db i = Some t" "closed t"
  shows "(\<exists>t'. turn_of (after turn_step xs db) i = Some t' \<and> same_turn t t' \<and> closed t')
    \<and> \<not> unsettledMutationsForTurn (after turn_step xs db) t \<and> calls_of i (after turn_step xs db) = calls_of i db"
proof -
  have ok: "turns_ok db" "turns_ok (after turn_step xs db)"
    using assms(1) turns_after_ok [OF assms(1)] by (simp_all add: tables_ok_def)
  obtain t' where t: "turn_of (after turn_step xs db) i = Some t'" "same_turn t t'" "closed t'"
    using micros_turn [OF turns_after_run [OF assms(1)] ok(1) assms(2)] assms(3) by blast
  have "terminal_state (iv_State v)" if v: "v \<in> set (td_Invocations db)" "iv_Turn v = i" for v
  proof (rule ccontr)
    assume open_: "\<not> terminal_state (iv_State v)"
    from unsettled_live [OF ok(1) v(1) call_facts(1) [OF ok(1) v(1) open_] open_] assms(2,3) v(2)
    show False by (auto simp: live_turn_def)
  qed
  then have "finished i db" using assms(2,3) by (auto simp: finished_def closed_def calls_of_def list_all_iff)
  from finished_run [OF turns_after_run [OF assms(1)] ok(1) this]
  have "calls_of i (after turn_step xs db) = calls_of i db" ..
  moreover have "\<not> unsettledMutationsForTurn (after turn_step xs db) t"
    using owners_okD(3) [OF ok(2) t(1,3)] own_mutation_same [OF t(2)] by (simp add: unsettledMutationsForTurn_def)
  ultimately show ?thesis using t by blast
qed

section \<open>The ledger and the slots\<close>

text \<open>C12 (the tables are well-formed). Starting from no Turns, whatever operations are performed: Turns and tool calls
  have one row each, an operation of a lineage has one mutation, a Turn that is owned is running, a call belongs to
  a started execution and has its lineage, calls and replays of an execution have distinct numbers, a replay is of a
  settled mutation of an ancestor, a Turn that is over has no unsettled mutation, and no Turn has two slots.\<close>

theorem turn_tables_well_formed: "tables_ok (after turn_step xs no_turns)"
  by (rule turns_after_ok [OF no_turns_ok])

fun limit_of :: "turn_call \<Rightarrow> int option" where
  "limit_of (env, now, Acquire owner lease limit) = Some limit"
| "limit_of _ = None"

lemma occupied_later:
  assumes "now \<le> later"
  shows "occupied_slots later db \<le> occupied_slots now db"
proof -
  have "length (filter (\<lambda>s. sl_LeaseExpiresAt s > later) ss) \<le> length (filter (\<lambda>s. sl_LeaseExpiresAt s > now) ss)" for ss
    using assms by (induction ss) auto
  then show ?thesis by (simp add: occupied_slots_def)
qed

lemma step_slots_bounded:
  assumes "tables_ok db" "int (occupied_slots now db) \<le> L" "\<And>limit. limit_of (env, now, op) = Some limit \<Longrightarrow> limit \<le> L"
  shows "int (occupied_slots now (snd (turn_step (env, now, op) db))) \<le> L"
proof -
  from assms(1) have ok: "turns_ok db" "slots_ok db" by (simp_all add: tables_ok_def)
  show ?thesis by (rule turn_step_cases' [OF ok, of now env op]) (use assms(2,3) in \<open>force simp: turn_run_def\<close>)+
qed

text \<open>C13 (slots are bounded). If no worker acquires Turns with a limit above \<open>L\<close>, then at no time more than \<open>L\<close>
  Turns hold a live slot, however the workers interleave, as long as the clock does not run backwards.\<close>

theorem slots_bounded:
  assumes "tables_ok db" "int (occupied_slots start db) \<le> L" "sorted (start # map (fst \<circ> snd) xs)"
    and "\<forall>x \<in> set xs. \<forall>limit. limit_of x = Some limit \<longrightarrow> limit \<le> L"
  shows "int (occupied_slots (last (start # map (fst \<circ> snd) xs)) (after turn_step xs db)) \<le> L"
  using assms
proof (induction xs arbitrary: db start)
  case (Cons x xs)
  obtain env now op where x: "x = (env, now, op)" by (metis prod_cases3)
  have "int (occupied_slots now db) \<le> L" using Cons.prems(2,3) occupied_later [of start now db] by (simp add: x)
  then have "int (occupied_slots now (snd (turn_step x db))) \<le> L"
    unfolding x using Cons.prems(1,4) by (intro step_slots_bounded) (auto simp: x)
  from Cons.IH [OF turn_step_ok [OF Cons.prems(1)] this] Cons.prems(3,4) show ?case by (simp add: x)
qed simp

lemma replayedD:
  assumes "replayed db r = Some v"
  shows "iv_Turn v = rp_Turn r" "iv_Number v = rp_Number r"
  using assms by (auto simp: replayed_def)

lemma replayed_keys:
  "map (\<lambda>v. (iv_Turn v, iv_Number v)) (List.map_filter (replayed db) rs)
     = map (\<lambda>r. (rp_Turn r, rp_Number r)) (filter (\<lambda>r. replayed db r \<noteq> None) rs)"
  by (induction rs) (auto simp: List.map_filter_simps replayedD split: option.split)

lemma distinct_filtered:
  assumes "distinct (map f xs @ map g ys)"
  shows "distinct (map f (filter P xs) @ map g (filter Q ys))"
proof -
  have "set (map f (filter P xs)) \<subseteq> set (map f xs)" "set (map g (filter Q ys)) \<subseteq> set (map g ys)" by auto
  moreover have "distinct (map f (filter P xs))" "distinct (map g (filter Q ys))"
    using assms by (simp_all add: distinct_map_filter)
  ultimately show ?thesis using assms unfolding distinct_append by blast
qed

lemma distinct_second: "distinct (map (\<lambda>v. (f v, g v)) xs) \<Longrightarrow> \<forall>v \<in> set xs. f v = c \<Longrightarrow> distinct (map g xs)"
  by (induction xs) (auto simp: image_iff)

lemma mutation_ledger_numbers:
  assumes "turns_ok db"
  shows "distinct (map iv_Number (mutation_ledger db t))" "\<forall>v \<in> set (mutation_ledger db t). iv_Turn v = tr_ID t"
proof -
  let ?own = "filter (\<lambda>v. iv_Turn v = tr_ID t \<and> iv_Epoch v = tr_Epoch t \<and> iv_Mutation v) (td_Invocations db)"
  let ?rs = "filter (\<lambda>r. rp_Turn r = tr_ID t \<and> rp_Epoch r = tr_Epoch t) (td_Replays db)"
  let ?ledger = "?own @ List.map_filter (replayed db) ?rs"
  let ?key = "\<lambda>v. (iv_Turn v, iv_Number v)"
  show turns: "\<forall>v \<in> set (mutation_ledger db t). iv_Turn v = tr_ID t"
    by (auto simp: mutation_ledger_def List.map_filter_def replayed_def)
  have keys: "map ?key ?ledger = map ?key ?own @ map (\<lambda>r. (rp_Turn r, rp_Number r)) (filter (\<lambda>r. replayed db r \<noteq> None) ?rs)"
    unfolding map_append replayed_keys ..
  have "distinct (map ?key ?ledger)"
    unfolding keys using turns_okD(7) [OF assms] unfolding ledger_numbers_def filter_filter by (rule distinct_filtered)
  moreover have "\<forall>v \<in> set ?ledger. iv_Turn v = tr_ID t" using turns by (simp only: mutation_ledger_def set_sort)
  ultimately have "distinct (map iv_Number ?ledger)" by (rule distinct_second)
  then show "distinct (map iv_Number (mutation_ledger db t))"
    unfolding mutation_ledger_def distinct_map distinct_sort set_sort .
qed

lemma scan_settledD:
  assumes "scan_settled env rows = Inr vs"
  shows "map iv_Number vs = map iv_Number rows" "\<forall>v \<in> set vs. terminal_state (iv_State v)" "map iv_Turn vs = map iv_Turn rows"
    "map Some vs = map (scanMutation env) rows"
  using assms
  by (induction rows arbitrary: vs)
    (auto simp: terminal_state_def scanMutation_def split: option.split_asm if_split_asm sum.split_asm)

text \<open>No replay of a Turn is lost: its source is found.\<close>

definition replay_row :: "replay \<Rightarrow> invocation \<Rightarrow> invocation" where
  "replay_row r v = v\<lparr>iv_Turn := rp_Turn r, iv_Epoch := rp_Epoch r, iv_Number := rp_Number r\<rparr>"

lemma replayed_source:
  assumes "turns_ok db" "r \<in> set (td_Replays db)"
  obtains v where "invocation_of db (rp_Source r) = Some v" "replayed db r = Some (replay_row r v)"
proof -
  let ?source = "\<lambda>v. iv_ID v = rp_Source r \<and> iv_Turn v = rp_SourceTurn r \<and> iv_Epoch v = rp_SourceEpoch r \<and> iv_Lineage v = rp_Lineage r"
  from turns_okD(6) [OF assms(1), unfolded replays_ok_def, rule_format, OF assms(2)] obtain t :: turn and v where
    v: "invocation_of db (rp_Source r) = Some v" and same: "iv_Turn v = rp_SourceTurn r" "iv_Lineage v = tr_Lineage t"
      "rp_SourceEpoch r = iv_Epoch v" "rp_Lineage r = tr_Lineage t" by (elim exE conjE) (rule that, assumption+)
  have source: "?source v" using row_of_key [OF v] same by simp
  have "find ?source (td_Invocations db) = Some v"
  proof (cases "find ?source (td_Invocations db)")
    case None
    with row_of_set [OF v] source show ?thesis unfolding find_None_iff by blast
  next
    case (Some w)
    then have "w \<in> set (td_Invocations db)" "iv_ID w = rp_Source r" by (auto simp: find_Some_iff)
    with call_mem [OF assms(1)] v Some show ?thesis by simp
  qed
  with v that show thesis by (simp add: replayed_def replay_row_def)
qed

lemma set_map_filter: "set (List.map_filter f xs) = {y. \<exists>x \<in> set xs. f x = Some y}"
  by (auto simp: List.map_filter_def image_iff) force

lemma mutation_ledger_complete:
  assumes ok: "turns_ok db" and t: "turn_of db i = Some t"
  shows "set (mutation_ledger db t) =
      {v \<in> set (td_Invocations db). iv_Turn v = i \<and> iv_Mutation v}
      \<union> {replay_row r v | r v. r \<in> set (td_Replays db) \<and> rp_Turn r = i \<and> invocation_of db (rp_Source r) = Some v}"
proof -
  have id: "tr_ID t = i" by (rule row_of_key [OF t])
  have call: "iv_Epoch v = tr_Epoch t" if "v \<in> set (td_Invocations db)" "iv_Turn v = i" for v
    using call_facts(2) [OF ok that(1)] that(2) t by simp
  have replay: "rp_Epoch r = tr_Epoch t" if "r \<in> set (td_Replays db)" "rp_Turn r = i" for r
    using turns_okD(6) [OF ok, unfolded replays_ok_def, rule_format, OF that(1)] that(2) t by auto
  have source: "replayed db r = Some w \<longleftrightarrow> (\<exists>v. invocation_of db (rp_Source r) = Some v \<and> w = replay_row r v)"
    if "r \<in> set (td_Replays db)" for r w
    using replayed_source [OF ok that] by (metis option.inject)
  show ?thesis
    unfolding mutation_ledger_def set_sort set_append set_map_filter set_filter id
    by (intro arg_cong2 [where f = "(\<union>)"]) (use call in blast, use replay source in blast)
qed

text \<open>C22 (the whole ledger in order). What settlement reads of a Turn is its whole ledger and nothing else: every
  mutation of the Turn and every mutation that it replayed of one it retries, the latter under its own identity and
  number, each decoded; in the order of the numbers, each number once, and all with a known outcome.\<close>

theorem ledger_listed_in_order:
  assumes "tables_ok db" "ListAgentTurnMutationInvocations env now l db = Inr (vs, u)"
  shows "sorted_wrt (<) (map iv_Number vs) \<and> (\<forall>v \<in> set vs. iv_Turn v = lease_turn l \<and> terminal_state (iv_State v))
    \<and> Some ` set vs = scanMutation env `
        ({v \<in> set (td_Invocations db). iv_Turn v = lease_turn l \<and> iv_Mutation v}
         \<union> {replay_row r v | r v. r \<in> set (td_Replays db) \<and> rp_Turn r = lease_turn l \<and> invocation_of db (rp_Source r) = Some v})"
  using assms(2) [unfolded ListAgentTurnMutationInvocations_def]
proof (rule withLocked_cases)
  have ok: "turns_ok db" using assms(1) by (simp add: tables_ok_def)
  fix t p assume h: "holds_turn now db l t"
    and op: "(if tr_AdmissionOpen t \<or> tr_Status t \<noteq> AgentTurnSettling \<and> tr_Status t \<noteq> AgentTurnReconciling
       then Inl ErrMutationAdmissionClosed
       else if unsettledMutationsForTurn db t then Inl ErrAgentTurnMutationsUnsettled
       else case scan_settled env (mutation_ledger db t) of Inl e \<Rightarrow> Inl e | Inr vs \<Rightarrow> Inr (vs, db)) = Inr (vs, u)"
  from op have "scan_settled env (mutation_ledger db t) = Inr vs" by (simp split: if_split_asm sum.split_asm)
  note scan = scan_settledD [OF this] and ledger = mutation_ledger_numbers [OF ok, of t]
  have turn: "tr_ID t = lease_turn l" using held_started(2) [OF h ok] by simp
  have "sorted (map iv_Number (mutation_ledger db t))" by (simp add: mutation_ledger_def)
  with ledger(1) have "sorted_wrt (<) (map iv_Number vs)" unfolding scan(1) by (simp add: strict_sorted_iff)
  moreover have "set (map iv_Turn vs) \<subseteq> {tr_ID t}" unfolding scan(3) using ledger(2) by auto
  moreover have "Some ` set vs = scanMutation env ` set (mutation_ledger db t)"
    using arg_cong [OF scan(4), of set] by simp
  moreover have "turn_of db (lease_turn l) = Some t" using h by (simp add: holds_turn_def)
  ultimately show ?thesis using scan(2) turn unfolding mutation_ledger_complete [OF ok \<open>turn_of db (lease_turn l) = Some t\<close>]
    by auto
qed

section \<open>The end of an Issue\<close>

lemma turn_step_result: "close_tx db (Inr (x, u)) = (True, u)"
  by (simp add: close_tx_def)

text \<open>C7 (a closed Issue starts nothing). Once the Issue of a running Turn is closed, none of the Turn's mutations is
  reserved or in flight, at that moment or ever after: what had not started has failed, what had is unknown, and
  no operation of any worker, not even one that still holds the lease, starts another.\<close>

theorem closed_issue_starts_nothing:
  assumes "tables_ok db" "begin_closure env now delivery workflow attempt closure revision (Some g) db = Inr (x, u)"
    and "v \<in> set (td_Invocations (after turn_step xs u))" "iv_Turn v = tg_TurnID g"
  shows "iv_State v \<noteq> MutationReserved \<and> iv_State v \<noteq> MutationInFlight"
proof -
  have db: "turns_ok db" using assms(1) by (simp add: tables_ok_def)
  note b = assms(2) [unfolded begin_closure_def]
  from b obtain db1 stop db2 where db2: "closeMutationAdmissionTx env now g db = Inr db1"
    "enqueueStopTurnJob env now delivery workflow closure g revision db1 = Inr (stop, db2)"
    by (auto split: sum.split_asm)
  note b2 = b [unfolded option.case db2 sum.case prod.case]
  let ?settle = "enqueueClosureSettlementJob env now delivery workflow attempt closure revision (Some g) db2"
  from b2 obtain j db3 where db3: "?settle = Inr (j, db3)" by (cases ?settle) auto
  from b2 [unfolded db3 sum.case prod.case]
  have db4: "createClosureBarrier env now workflow closure revision (Some g) stop j db3 = Inr u"
    by (simp split: sum.split_asm)
  note side = side_change_trans [OF enqueueStopTurnJob_side [OF db2(2)]
      side_change_trans [OF enqueueClosureSettlementJob_side [OF db3] createClosureBarrier_side [OF db4]]]
  have "quiet (tg_TurnID g) u"
    using closeMutationAdmissionTx_quiet [OF db2(1) db] by (simp add: quiet_def side_changeD [OF side])
  moreover have "tables_ok u"
    using turn_step_ok [OF assms(1), of "(env, now, Close_Issue delivery workflow attempt closure revision (Some g))"]
    by (simp add: assms(2) turn_step_result)
  ultimately have "quiet (tg_TurnID g) (after turn_step xs u)" by (intro after_quiet)
  with assms(3,4) show ?thesis by (simp add: quiet_def)
qed

text \<open>What a settlement of a closure has checked, and what it leaves of the Turn.\<close>

lemma CompleteClosureSettlementE:
  assumes "CompleteClosureSettlement env now lease db = Inr (b, u)" "turns_ok db" "u \<noteq> db" "cb_Turn b \<noteq> ''''"
  obtains j where "cb_RuntimeStoppedAt b \<noteq> None" "job_by_id (td_Jobs db) (cb_StopJob b) = Some j" "jb_Status j = JobSucceeded"
    "finished (cb_Turn b) u"
proof -
  note r = assms(1) [unfolded CompleteClosureSettlement_def]
  from r have w: "lockClosureWorkflow (te_Jobs env) lease = None" by (simp split: option.split_asm)
  from r w assms(3) have again: "resolveCompletedClosureSettlement env lease db = None" by (simp split: option.split_asm)
  from r w again obtain job c where job: "lockClosureBarrier env now lease SettleClosureJobKind db = Inr (job, c)"
    by (cases "lockClosureBarrier env now lease SettleClosureJobKind db") auto
  note r2 = r [unfolded w again job option.case sum.case prod.case]
  let ?open = "if cb_Turn c = '''' then None else case requireClosureRuntimeStopped c db of
      Some e \<Rightarrow> Some e
    | None \<Rightarrow> if list_ex (\<lambda>v. iv_Turn v = cb_Turn c \<and> iv_Epoch v = cb_Epoch c \<and> iv_Mutation v
                      \<and> iv_State v \<in> set unsettled_states) (td_Invocations db)
            then Some ErrClosureSettlementUnsettled else None"
  from r2 have open_: "?open = None" by (cases ?open) simp_all
  note r3 = r2 [unfolded open_ option.case]
  from r3 obtain db1 where db1: "cancelPendingAgentTurnPreparationsTx now (cb_Workflow c) db = Inr db1"
    by (cases "cancelPendingAgentTurnPreparationsTx now (cb_Workflow c) db") simp_all
  from r3 db1 have decided: "te_ClosureDecision env c = None" by (simp split: option.split_asm)
  note r4 = r3 [unfolded db1 decided option.case sum.case]
  let ?settle = "if cb_Turn c = '''' then Inr db1 else settleClosedAgentTurnTx env now c db1"
  from r4 obtain db2 where db2: "?settle = Inr db2" by (cases ?settle) simp_all
  let ?bar = "update_barrier c (\<lambda>c. c\<lparr>cb_SettledAt := Some now\<rparr>) db2"
  from r4 [unfolded db2 sum.case Let_def] obtain jobs where u: "u = ?bar\<lparr>td_Jobs := jobs\<rparr>"
    "b = c\<lparr>cb_SettledAt := Some now\<rparr>" by (auto split: sum.split_asm)
  have c: "cb_Turn c = cb_Turn b" "cb_RuntimeStoppedAt c = cb_RuntimeStoppedAt b" "cb_StopJob c = cb_StopJob b"
    "cb_Turn c \<noteq> ''''" using assms(4) by (simp_all add: u(2))
  from open_ c(4) obtain j where stop: "cb_RuntimeStoppedAt c \<noteq> None" "job_by_id (td_Jobs db) (cb_StopJob c) = Some j"
    "jb_Status j = JobSucceeded"
    by (auto simp: requireClosureRuntimeStopped_def split: option.split_asm if_split_asm)
  from open_ c(4) have settled: "iv_Turn v = cb_Turn c \<Longrightarrow> iv_Epoch v = cb_Epoch c \<Longrightarrow> iv_Mutation v
      \<Longrightarrow> terminal_state (iv_State v)" if "v \<in> set (td_Invocations db)" for v
    using that by (auto simp: terminal_unsettled list_ex_iff split: option.split_asm if_split_asm)
  let ?lost = "JobsError ErrClosureSettlementFenceLost"
  let ?cond = "\<lambda>t. tr_Session t = cb_Session c \<and> tr_Attempt t = cb_Attempt c \<and> tr_Epoch t = cb_Epoch c
     \<and> tr_ControlRevision t = cb_ControlRevision c \<and> tr_Status t = AgentTurnCancelling
     \<and> \<not> tr_AdmissionOpen t \<and> tr_Active t"
  let ?f = "\<lambda>t. (disowned t)\<lparr>tr_Status := AgentTurnInterrupted, tr_CompletedAt := Some now,
     tr_LastError := Some ''Issue closure stopped Agent Turn''\<rparr>"
  from db2 c(4) obtain cause execution db3 where db3: "cancel_job now cause execution db1 = Inr db3"
    "or_lost ?lost (update_turn (cb_Turn c) ?cond ?f ?lost (delete_slot (\<lambda>s. sl_Turn s = cb_Turn c) db3)) = Inr db2"
    unfolding settleClosedAgentTurnTx_def Let_def
    by (auto split: option.split_asm sum.split_asm if_split_asm)
  note side = side_change_trans [OF cancelPending_side [OF db1] cancel_job_side [OF db3(1)]]
  let ?d = "delete_slot (\<lambda>s. sl_Turn s = cb_Turn c) db3"
  from update_turnE [OF or_lostD [OF db3(2)]] obtain t where t0: "turn_of ?d (cb_Turn c) = Some t" "?cond t"
    "db2 = ?d\<lparr>td_Turns := alter tr_ID (cb_Turn c) ?f (td_Turns ?d)\<rparr>" .
  have t: "turn_of db (cb_Turn c) = Some t" "tr_Epoch t = cb_Epoch c"
    using t0(1,2) by (simp_all add: delete_slot_def side_changeD [OF side])
  have calls: "td_Invocations db2 = td_Invocations db"
    unfolding t0(3) by (simp add: delete_slot_def side_changeD [OF side])
  have "turn_of db2 (cb_Turn c) = Some (?f t)"
    by (rule update_turn_row [OF or_lostD [OF db3(2)]])
      (use t turns_okD(1) [OF assms(2)] in \<open>simp_all add: delete_slot_def side_changeD [OF side] disowned_def\<close>)
  then have "turn_of u (cb_Turn b) = Some (?f t)" by (simp add: u(1) c(1) [symmetric] update_barrier_def)
  moreover have "fenced (?f t)" by (simp add: fenced_def disowned_def waiting_turn_def)
  moreover have "terminal_state (iv_State v)" if v: "v \<in> set (td_Invocations db)" "iv_Turn v = cb_Turn c" for v
    using settled [OF v] call_facts [OF assms(2) v(1)] v(2) t by metis
  ultimately have "finished (cb_Turn b) u"
    by (auto simp: finished_def calls_of_def list_all_iff u(1) update_barrier_def calls c(1) [symmetric])
  with stop c show thesis by (intro that) simp_all
qed

text \<open>C8 (a settled closure is final). When the closure of an Issue is settled, the Turn that it cancelled has no
  running runtime and no mutation whose outcome is open, its former holder can do nothing more, and its tool calls
  never change again.\<close>

theorem settled_closure_is_final:
  assumes "tables_ok db" "CompleteClosureSettlement env now lease db = Inr (b, u)" "u \<noteq> db" "cb_Turn b \<noteq> ''''"
  shows "cb_RuntimeStoppedAt b \<noteq> None \<and> list_all (\<lambda>v. terminal_state (iv_State v)) (calls_of (cb_Turn b) u)
    \<and> calls_of (cb_Turn b) (after turn_step xs u) = calls_of (cb_Turn b) u
    \<and> filter (works_on (cb_Turn b)) (performed turn_step xs u) = []"
proof -
  have ok: "turns_ok db" using assms(1) by (simp add: tables_ok_def)
  from CompleteClosureSettlementE [OF assms(2) ok assms(3,4)]
  have c: "cb_RuntimeStoppedAt b \<noteq> None" "finished (cb_Turn b) u" by blast+
  have oku: "tables_ok u"
    using turn_step_ok [OF assms(1), of "(env, now, Closing lease Settle_Closure)"] assms(2) by (simp add: turn_step_result)
  then have "calls_of (cb_Turn b) (after turn_step xs u) = calls_of (cb_Turn b) u"
    using finished_run [OF turns_after_run _ c(2)] by (simp add: tables_ok_def)
  moreover have "filter (works_on (cb_Turn b)) (performed turn_step xs u) = []"
    by (rule fence.no_shot [OF _ oku]) (use c(2) in \<open>auto simp: finished_def fenced_in_def\<close>)
  ultimately show ?thesis using c by (simp add: finished_def)
qed

text \<open>One Turn at a time: however the operations of the workers interleave, a session never has two active
  Turns, and neither has a Workflow.\<close>

theorem one_turn_at_a_time:
  assumes "tables_ok db" "t \<in> set (td_Turns (after turn_step xs db))" "r \<in> set (td_Turns (after turn_step xs db))"
    and "tr_Active t" "tr_Active r" "tr_Session t = tr_Session r \<or> tr_Workflow t = tr_Workflow r"
  shows "t = r"
proof -
  have ok: "turns_ok (after turn_step xs db)" using turns_after_ok [OF assms(1)] by (simp add: tables_ok_def)
  have "rivals t r" using assms(4-6) by (simp add: rivals_def)
  with turns_okD(9) [OF ok, unfolded one_active_def, rule_format, OF assms(2,3)] have "tr_ID t = tr_ID r" .
  from row_of_mem [OF turns_okD(1) [OF ok] assms(2)] row_of_mem [OF turns_okD(1) [OF ok] assms(3)]
  show ?thesis unfolding \<open>tr_ID t = tr_ID r\<close> by (rule option.inject [THEN iffD1, OF trans [OF sym]])
qed

end
