(* ===== verification/Turn_Demo.thy ===== *)
theory Turn_Demo
  imports Turn_Properties Job_Demo
begin

text \<open>
  A concrete Turn, the retry of one that was interrupted, as a witness of the hypotheses of the properties
  of \<open>Turn_Properties\<close>.
\<close>

section \<open>A Turn that is running\<close>

definition demo_turn_env :: turn_env where
  "demo_turn_env =
     \<lparr>te_Jobs = demo_env, te_WorkflowStatus = (\<lambda>_. Some ''DEVELOPING''), te_AttemptActive = (\<lambda>_ _. Some True),
      te_AssignmentStatus = (\<lambda>_ _. Some ''ACTIVE''), te_Session = (\<lambda>_ _. Some (''ACTIVE'', ''AUTOMATION'', 1)),
      te_Conversation = (\<lambda>_. None), te_Delivery = (\<lambda>_ _ _. None), te_Participant = (\<lambda>_. Some (''dev'', ''ACTIVE'', False)),
      te_Policies = \<lparr>pc_ordered = [], pc_byRole = fmempty\<rparr>, te_ReviewActor = (\<lambda>_. None), te_Unsigned = (\<lambda>_. None),
      te_OutcomeCompleted = (\<lambda>_. True), te_TurnPayload = (\<lambda>_. Some (''t2'', ''s'', 2, 1)), te_Hash = (\<lambda>s. s),
      te_TurnResult = (\<lambda>_ _. ''{}''), te_RecoveryIdentity = (\<lambda>_ _. ''{}''), te_DecodeIdentity = (\<lambda>_. None),
      te_Escalate = (\<lambda>_ _. Inr True), te_Diagnostic = (\<lambda>_ cause. cause), te_Continue = (\<lambda>_. Inr Corroborate),
      te_SameRecovery = (\<lambda>_ _ _. True), te_Settled = (\<lambda>_. Inl TurnInput), te_SessionParticipant = (\<lambda>_. Some ''p''),
      te_Closing = (\<lambda>_. Some (1, ''c'')),
      te_ClosurePayload = (\<lambda>_. Some \<lparr>cl_Workflow = ''w'', cl_Attempt = ''a'', cl_Closure = ''c'', cl_Turn = ''t2'',
        cl_Session = ''s'', cl_Epoch = 2, cl_ControlRevision = 1, cl_Revision = 1\<rparr>),
      te_ClosureText = (\<lambda>_. ''{}''), te_ClosureDecision = (\<lambda>_. None), te_ClosureResult = (\<lambda>_. ''{}''),
      te_Verifier = (\<lambda>_ _. None)\<rparr>"

definition demo_turn :: "turn_status \<Rightarrow> bool \<Rightarrow> turn" where
  "demo_turn status admission =
     \<lparr>tr_ID = ''t2'', tr_Workflow = ''w'', tr_Session = ''s'', tr_Attempt = ''a'', tr_Lineage = ''t1'', tr_RetryOf = ''t1'',
      tr_Number = 2, tr_Epoch = 2, tr_ControlRevision = 1, tr_Status = status, tr_Active = True,
      tr_OwnerID = Some ''worker'', tr_OwnerToken = Some ''owner'', tr_LeasedAt = Some 0, tr_LeaseExpiresAt = Some 1000,
      tr_HeartbeatAt = None, tr_AdmissionOpen = admission, tr_AdmissionClosedAt = None, tr_StartedAt = Some 0,
      tr_CompletedAt = None, tr_NextInvocation = 4, tr_Outcome = None, tr_LastError = None, tr_PromptStopReason = None,
      tr_PromptErrorClass = None, tr_PromptRecordedAt = None, tr_Recovery = None\<rparr>"

definition demo_ancestor :: turn where
  "demo_ancestor = (demo_turn AgentTurnInterrupted False)\<lparr>tr_ID := ''t1'', tr_RetryOf := '''', tr_Number := 1, tr_Epoch := 1,
     tr_Active := False, tr_OwnerID := None, tr_OwnerToken := None, tr_LeasedAt := None, tr_LeaseExpiresAt := None,
     tr_CompletedAt := Some 0, tr_NextInvocation := 2\<rparr>"

definition demo_call :: "string \<Rightarrow> string \<Rightarrow> int64 \<Rightarrow> int64 \<Rightarrow> string \<Rightarrow> mutation_state \<Rightarrow> invocation" where
  "demo_call i t epoch number operation state =
     \<lparr>iv_ID = i, iv_Turn = t, iv_Epoch = epoch, iv_Lineage = ''t1'', iv_Number = number, iv_Mutation = True,
      iv_OperationID = Some operation, iv_Tool = ''comment_on_issue'', iv_Request = ''{}'', iv_State = state,
      iv_ExternalService = '''', iv_ExternalResource = '''', iv_ExpectedSHA = '''', iv_ProposedSHA = None,
      iv_HistoryPublication = False, iv_Result = None, iv_LastError = None, iv_AdmittedAt = 0, iv_StartedAt = None,
      iv_FinishedAt = None\<rparr>"

definition demo_slot :: slot where
  "demo_slot = \<lparr>sl_Turn = ''t2'', sl_Session = ''s'', sl_Epoch = 2, sl_ControlRevision = 1, sl_OwnerID = ''worker'',
     sl_OwnerToken = ''owner'', sl_LeaseExpiresAt = 1000\<rparr>"

definition demo_turn_job :: job where
  "demo_turn_job = (lease_row 0 ''worker'' ''token'' 1000000 demo_row)\<lparr>jb_ID := ''job'', jb_Queue := ''agent-turns'',
     jb_Kind := RunAgentTurnJobKind, jb_MaxAttempts := 1,
     jb_Scope := \<lparr>sc_workflowID = ''w'', sc_workflowAttemptID = ''a'', sc_agentParticipantID = ''p'',
                  sc_agentSessionID = ''s'', sc_agentTurnID = ''t2'', sc_executionEpoch = 2\<rparr>\<rparr>"

definition demo_turn_attempt :: job_attempt where
  "demo_turn_attempt = demo_attempt\<lparr>ja_JobID := ''job'', ja_LeaseToken := ''token'', ja_LeaseExpiresAt := 1000\<rparr>"

definition demo_lease :: agent_turn_lease where
  "demo_lease = \<lparr>al_Turn = demo_turn AgentTurnRunning False, al_Participant = ''p'',
     al_Job = \<lparr>jl_Job = demo_turn_job, jl_Attempt = 1\<rparr>, al_OwnerID = ''worker'', al_OwnerToken = ''owner''\<rparr>"

definition demo_turns :: "turn_status \<Rightarrow> bool \<Rightarrow> invocation list \<Rightarrow> turns_db" where
  "demo_turns status admission calls =
     \<lparr>td_Jobs = \<lparr>db_Jobs = [demo_turn_job], db_Attempts = [demo_turn_attempt], db_Failures = []\<rparr>,
      td_Turns = [demo_ancestor, demo_turn status admission], td_Slots = [demo_slot],
      td_Invocations = demo_call ''m1'' ''t1'' 1 1 ''one'' MutationSucceeded # calls,
      td_Replays = [\<lparr>rp_Turn = ''t2'', rp_Epoch = 2, rp_Lineage = ''t1'', rp_Number = 3, rp_Source = ''m1'',
                     rp_SourceTurn = ''t1'', rp_SourceEpoch = 1\<rparr>],
      td_ReviewerActor = (\<lambda>_. None), td_Closures = []\<rparr>"

abbreviation "demo_reserved \<equiv>
  [demo_call ''m2'' ''t2'' 2 1 ''two'' MutationReserved, demo_call ''m3'' ''t2'' 2 2 ''three'' MutationReserved]"

lemmas demo_turn_simps = demo_turns_def demo_turn_def demo_ancestor_def demo_call_def demo_slot_def demo_lease_def
  demo_turn_env_def row_of_def lease_id_def lease_token_def

lemma demo_turns_ok:
  assumes "status = AgentTurnRunning \<or> status = AgentTurnSettling \<or> status = AgentTurnCancelling"
    "calls = [] \<or> calls = demo_reserved"
  shows "tables_ok (demo_turns status admission calls)"
proof -
  have calls: "calls_ok (demo_turns status admission calls)"
    using assms by (elim disjE; simp add: calls_ok_def demo_turn_simps waiting_turn_def terminal_state_def)
  have operations: "operations_ok (demo_turns status admission calls)"
    using assms(2) by (elim disjE; simp add: operations_ok_def demo_turn_simps)
  have owners: "owners_ok (demo_turns status admission calls)"
    using assms by (elim disjE; simp add: owners_ok_def demo_turn_simps waiting_turn_def closed_def fenced_def
        unsettledMutationsForTurn_def own_mutation_def)
  have replays: "replays_ok (demo_turns status admission calls)"
    using assms(1) by (elim disjE; simp add: replays_ok_def demo_turn_simps terminal_state_def)
  have "one_active [demo_ancestor, demo_turn status admission]"
    by (simp add: one_active_def rivals_def demo_turn_simps)
  moreover have "retries_ok [demo_ancestor, demo_turn status admission]"
    by (auto simp: retries_ok_def demo_turn_simps less_Suc_eq)
  moreover have "distinct (ledger_numbers (demo_turns status admission calls))"
    using assms(2) by (elim disjE; simp add: ledger_numbers_def demo_turn_simps)
  moreover have "distinct (map iv_ID (td_Invocations (demo_turns status admission calls)))"
    using assms(2) by (elim disjE; simp add: demo_turn_simps)
  moreover have "distinct (map tr_ID [demo_ancestor, demo_turn status admission])"
    by (simp add: demo_turn_simps)
  ultimately show ?thesis
    using calls operations owners replays by (simp add: tables_ok_def turns_ok_def slots_ok_def demo_turns_def)
qed

lemma demo_job_locked:
  "lockAgentTurnJob demo_turn_env 5 (al_Job demo_lease) (demo_turns status admission calls) = Inr demo_turn_job"
  by (simp add: lockAgentTurnJob_def demo_turn_simps demo_env_def job_by_id_def attempt_of_def scanJob_def demo_turn_job_def
      demo_turn_attempt_def demo_attempt_def unexpired_def row_token_def new_job_def demo_job_def microseconds_def)

lemma demo_held:
  "validateAgentTurnLease demo_turn_env 5 demo_lease c x (demo_turns status admission calls)
     = Inr (demo_turn status admission, ''p'')"
  unfolding validateAgentTurnLease_def demo_job_locked
  by (simp add: demo_turn_simps demo_turn_job_def sameAgentTurnExecutionIdentity_def Let_def lockHierarchy_def
      allowsActiveTurn_def workflowAllowsTurns_def owns_turn_def owner_of_def owner_token_of_def lease_live_def owns_slot_def
      new_job_def demo_simps)

lemma demo_lease_valid: "valid_turn_lease demo_turn_env demo_lease"
  by (simp add: valid_turn_lease_def demo_turn_simps demo_simps)

lemma demo_locked:
  "withLockedAgentTurnLeaseOptions demo_turn_env 5 demo_lease c x f (demo_turns status admission calls)
     = f (demo_turn status admission) ''p'' (demo_turns status admission calls)"
  by (simp add: withLockedAgentTurnLeaseOptions_def demo_lease_valid demo_held)

lemmas demo_running = demo_turns_ok [of AgentTurnRunning demo_reserved True, simplified]
lemmas demo_settling = demo_turns_ok [of AgentTurnSettling "[]" False, simplified]

lemma demo_turn_jobs [simp]: "te_Jobs demo_turn_env = demo_env" "je_Canonical demo_env = Some"
  by (simp_all add: demo_turn_env_def demo_env_def)

abbreviation "demo_m2 \<equiv> demo_call ''m2'' ''t2'' 2 1 ''two''"
abbreviation "demo_m3 \<equiv> demo_call ''m3'' ''t2'' 2 2 ''three''"
abbreviation "in_flight v \<equiv> v\<lparr>iv_State := MutationInFlight, iv_StartedAt := Some 5\<rparr>"

lemma demo_starts:
  "StartMutation demo_turn_env 5 demo_lease ''m2'' (demo_turns AgentTurnRunning True demo_reserved)
     = Inr (in_flight (demo_m2 MutationReserved),
            demo_turns AgentTurnRunning True [in_flight (demo_m2 MutationReserved), demo_m3 MutationReserved])"
  "StartMutation demo_turn_env 5 demo_lease ''m3''
       (demo_turns AgentTurnRunning True [in_flight (demo_m2 MutationReserved), demo_m3 MutationReserved])
     = Inr (in_flight (demo_m3 MutationReserved),
            demo_turns AgentTurnRunning True [in_flight (demo_m2 MutationReserved), in_flight (demo_m3 MutationReserved)])"
  by (simp_all add: StartMutation_def demo_locked,
      simp_all add: demo_turn_simps demo_simps update_invocation_def alter_def fenced_mutation_def invocation_checks_def
        getMutationByID_def scanMutation_def)

theorem operation_started_once_witness:
  "\<exists>v u w u'. StartMutation demo_turn_env 5 demo_lease ''m2'' (demo_turns AgentTurnRunning True demo_reserved) = Inr (v, u)
     \<and> StartMutation demo_turn_env 5 demo_lease ''m3'' u = Inr (w, u')
     \<and> \<not> (iv_Lineage v = iv_Lineage w \<and> iv_Tool v = iv_Tool w \<and> iv_OperationID v = iv_OperationID w)"
  using operation_started_once [OF demo_running demo_starts(1), where xs = "[]", unfolded after.simps, OF demo_starts(2)]
    demo_starts by blast

theorem mutations_refine_life_cycle_witness:
  "\<exists>w. invocation_of (after turn_step [(demo_turn_env, 5, Under demo_lease (Start ''m2''))]
          (demo_turns AgentTurnRunning True demo_reserved)) ''m2'' = Some w
     \<and> mutation_step\<^sup>*\<^sup>* MutationReserved (iv_State w)"
proof -
  have "invocation_of (demo_turns AgentTurnRunning True demo_reserved) ''m2'' = Some (demo_m2 MutationReserved)"
    by (simp add: demo_turn_simps)
  moreover have "iv_State (demo_m2 MutationReserved) = MutationReserved" by (simp add: demo_call_def)
  ultimately show ?thesis
    using mutations_refine_life_cycle [OF demo_running, of "''m2''"
      "demo_m2 MutationReserved" "[(demo_turn_env, 5, Under demo_lease (Start ''m2''))]"] by metis
qed

text \<open>The Turn asks again for an operation that it has reserved.\<close>

definition demo_spec :: mutation_spec where
  "demo_spec = \<lparr>ms_OperationID = ''two'', ms_ToolName = ''comment_on_issue'', ms_Request = ''{}'', ms_ExternalService = '''',
     ms_ExternalResourceID = '''', ms_ExpectedSHA = ''''\<rparr>"

lemma demo_reserves:
  "ReserveMutation demo_turn_env 5 demo_lease demo_spec (demo_turns AgentTurnRunning True demo_reserved)
     = Inr (demo_m2 MutationReserved, demo_turns AgentTurnRunning True demo_reserved)"
  by (simp add: ReserveMutation_def validateMutationSpec_def demo_spec_def go_simps is_space_rune_def demo_locked Let_def,
      simp add: demo_turn_simps demo_simps mutation_by_operation_def operation_row_def scanMutation_def
        existing_reservation_def sameMutationDefinition_def sameAgentMutationDefinition_def)

theorem reservation_found_again_witness:
  "\<exists>r u r' u'. ReserveMutation demo_turn_env 5 demo_lease demo_spec (demo_turns AgentTurnRunning True demo_reserved) = Inr (r, u)
     \<and> ReserveMutation demo_turn_env 5 demo_lease demo_spec u = Inr (r', u') \<and> iv_ID r' = iv_ID r \<and> u' = u"
  using reservation_found_again [OF demo_running demo_reserves, where xs = "[]", unfolded after.simps, OF demo_reserves]
    demo_reserves by blast

theorem replay_ancestor_is_retried_witness:
  "validateMutationReplayAncestor (demo_turns AgentTurnRunning True demo_reserved) ''t2'' ''t1''
   \<and> (retries (demo_turns AgentTurnRunning True demo_reserved))\<^sup>+\<^sup>+ ''t2'' ''t1''"
proof -
  have "validateMutationReplayAncestor (demo_turns AgentTurnRunning True demo_reserved) ''t2'' ''t1''"
    by (simp add: validateMutationReplayAncestor_def demo_turn_simps)
  with replay_ancestor_is_retried [OF demo_running, of "''t2''" "''t1''"]
  show ?thesis by blast
qed

theorem settled_ledger_frozen_witness:
  "calls_of ''t1'' (after turn_step [(demo_turn_env, 5, Under demo_lease (Start ''m2''))]
     (demo_turns AgentTurnRunning True demo_reserved)) = [demo_call ''m1'' ''t1'' 1 1 ''one'' MutationSucceeded]"
proof -
  have "turn_of (demo_turns AgentTurnRunning True demo_reserved) ''t1'' = Some demo_ancestor" "closed demo_ancestor"
    by (simp_all add: demo_turn_simps closed_def fenced_def waiting_turn_def)
  with settled_ledger_frozen [OF demo_running, of "''t1''" demo_ancestor
      "[(demo_turn_env, 5, Under demo_lease (Start ''m2''))]"]
  have "calls_of ''t1'' (after turn_step [(demo_turn_env, 5, Under demo_lease (Start ''m2''))]
      (demo_turns AgentTurnRunning True demo_reserved)) = calls_of ''t1'' (demo_turns AgentTurnRunning True demo_reserved)"
    by blast
  also have "\<dots> = [demo_call ''m1'' ''t1'' 1 1 ''one'' MutationSucceeded]"
    by (simp add: calls_of_def demo_turn_simps)
  finally show ?thesis .
qed

theorem slots_bounded_witness:
  "int (occupied_slots 7 (after turn_step [(demo_turn_env, 7, Acquire ''worker'' 1000000 1)]
     (demo_turns AgentTurnRunning True demo_reserved))) \<le> 1"
proof -
  have "int (occupied_slots 5 (demo_turns AgentTurnRunning True demo_reserved)) \<le> 1"
    by (simp add: occupied_slots_def demo_turn_simps)
  with slots_bounded [OF demo_running, of 5 1
      "[(demo_turn_env, 7, Acquire ''worker'' 1000000 1)]"] show ?thesis by simp
qed

section \<open>A Turn that settles\<close>

lemma demo_lists:
  "ListAgentTurnMutationInvocations demo_turn_env 5 demo_lease (demo_turns AgentTurnSettling False [])
     = Inr ([demo_call ''m1'' ''t2'' 2 3 ''one'' MutationSucceeded], demo_turns AgentTurnSettling False [])"
  by (simp add: ListAgentTurnMutationInvocations_def demo_locked,
      simp add: demo_turn_simps demo_simps unsettledMutationsForTurn_def own_mutation_def mutation_ledger_def
        replayed_def List.map_filter_simps scanMutation_def)

theorem ledger_listed_in_order_witness:
  "\<exists>vs u. ListAgentTurnMutationInvocations demo_turn_env 5 demo_lease (demo_turns AgentTurnSettling False []) = Inr (vs, u)
     \<and> sorted_wrt (<) (map iv_Number vs) \<and> demo_call ''m1'' ''t2'' 2 3 ''one'' MutationSucceeded \<in> set vs"
proof -
  let ?db = "demo_turns AgentTurnSettling False []"
  have "sorted_wrt (<) (map iv_Number [demo_call ''m1'' ''t2'' 2 3 ''one'' MutationSucceeded])"
    using ledger_listed_in_order [OF demo_settling demo_lists] by blast
  with demo_lists show ?thesis by fastforce
qed

lemma demo_finalizes:
  "\<exists>u. FinalizeAgentTurn demo_turn_env 5 demo_lease AgentTurnSucceeded '''' '''' (demo_turns AgentTurnSettling False [])
     = Inr ((), u)"
  by (simp add: FinalizeAgentTurn_def terminalAgentTurnStatus_def demo_locked,
      simp add: demo_turn_simps demo_simps unsettledMutationsForTurn_def own_mutation_def succeed_turn_job_def
        change_jobs_def update_attempts_def update_jobs_def fenced_attempt_def fenced_job_def demo_turn_job_def
        demo_turn_attempt_def demo_attempt_def attempt_checks_def job_checks_def new_job_def released_def
        delete_slot_def update_turn_def own_turn_row_def turn_checks_def turn_conflict_def disowned_def nonempty_def
        lease_row_def microseconds_def row_token_def)

theorem finalized_turn_is_over_witness:
  "\<exists>u. FinalizeAgentTurn demo_turn_env 5 demo_lease AgentTurnSucceeded '''' '''' (demo_turns AgentTurnSettling False [])
       = Inr ((), u)
     \<and> performed turn_step [(demo_turn_env, 6, Under demo_lease Validate_Fence)] u = []"
proof -
  from demo_finalizes obtain u where u: "FinalizeAgentTurn demo_turn_env 5 demo_lease AgentTurnSucceeded '''' ''''
      (demo_turns AgentTurnSettling False []) = Inr ((), u)" ..
  have l: "lease_turn demo_lease = ''t2''" by (simp add: demo_lease_def demo_turn_def)
  have "filter (works_on ''t2'') (performed turn_step [(demo_turn_env, 6, Under demo_lease Validate_Fence)] u) = []"
    using finalized_turn_is_over [OF demo_settling u, of "[(demo_turn_env, 6, Under demo_lease Validate_Fence)]"]
    unfolding l .
  then have "performed turn_step [(demo_turn_env, 6, Under demo_lease Validate_Fence)] u = []"
    using l by (simp del: turn_step.simps split: if_split_asm)
  with u show ?thesis by blast
qed

section \<open>A Turn whose lease ran out\<close>

lemma decimal_2: "decimal 2 = ''2''"
  by code_simp

lemma demo_recovery_inserts:
  "insertIdempotentJobTx demo_env 2000 (recovery_job demo_turn_env demo_turn_job t StopStaleRuntimeJobKind ''stop_stale_runtime'' 100)
       \<lparr>db_Jobs = [demo_turn_job], db_Attempts = [demo_turn_attempt], db_Failures = []\<rparr>
     = Inr (''id:agent-turn-recovery:t2:epoch:2:stop_stale_runtime'',
            append_job (new_job demo_env 2000 (recovery_job demo_turn_env demo_turn_job t StopStaleRuntimeJobKind ''stop_stale_runtime'' 100))
              \<lparr>db_Jobs = [demo_turn_job], db_Attempts = [demo_turn_attempt], db_Failures = []\<rparr>)"
  by (simp add: insertIdempotentJobTx_def Let_def validateJobInsert_def recovery_job_def job_checks_def new_job_def
      conflicting_def unique_conflict_def same_key_def live_successor_def demo_simps demo_turn_job_def demo_turn_env_def
      lease_row_def microseconds_def decimal_2)

text \<open>Nothing of the Turn was started, so only its runtime has to be stopped.\<close>

lemma demo_recovers:
  "\<exists>r u. RecoverExpiredAgentTurn demo_turn_env 2000 ''t2'' 2 (demo_turns AgentTurnRunning True demo_reserved) = Inr (r, u)
     \<and> u \<noteq> demo_turns AgentTurnRunning True demo_reserved"
proof -
  let ?db = "demo_turns AgentTurnRunning True demo_reserved"
  let ?t = "demo_turn AgentTurnRunning True"
  let ?new = "new_job demo_env 2000 (recovery_job demo_turn_env demo_turn_job ?t StopStaleRuntimeJobKind ''stop_stale_runtime'' 100)"
  let ?db1 = "expire_mutations 2000 ?t ?db"
  let ?db2 = "?db1\<lparr>td_Jobs := \<lparr>db_Jobs = [demo_turn_job, ?new], db_Attempts = [demo_turn_attempt], db_Failures = []\<rparr>\<rparr>"
  have job: "lockExpiredAgentTurnJob demo_turn_env 2000 ''job'' ''t2'' 2 ?db = Inr demo_turn_job"
    by (simp add: lockExpiredAgentTurnJob_def demo_turns_def job_by_id_def scanJob_def demo_turn_job_def lease_row_def
        unexpired_def attempt_of_def demo_turn_attempt_def demo_attempt_def row_token_def new_job_def demo_job_def
        microseconds_def)
  have jobs: "td_Jobs ?db1 = \<lparr>db_Jobs = [demo_turn_job], db_Attempts = [demo_turn_attempt], db_Failures = []\<rparr>"
    by (simp add: expire_mutations_def update_invocations_def demo_turns_def)
  have calls: "\<not> list_ex (own_mutation ?t [MutationUnknown, MutationReconciling, MutationSucceeded]) (td_Invocations ?db1)"
    by (simp add: expire_mutations_def update_invocations_def own_mutation_def demo_turn_simps)
  have enqueue: "enqueue_recovery demo_turn_env 2000 demo_turn_job ?t False ?db1
      = Inr ((''id:agent-turn-recovery:t2:epoch:2:stop_stale_runtime'', ''''), ?db2)"
    by (simp add: enqueue_recovery_def enqueueAgentTurnRecoveryJob_def jobs demo_recovery_inserts append_job_def)
  let ?d = "delete_slot (\<lambda>s. sl_Turn s = tr_ID ?t) ?db2"
  let ?failed = "(released 2000 JobFailed demo_turn_job)\<lparr>jb_CompletedAt := Some 2000,
      jb_LastError := Some ''agent turn execution lease expired''\<rparr>"
  let ?db3 = "?d\<lparr>td_Jobs := \<lparr>db_Jobs = [?failed, ?new], db_Attempts = [demo_turn_attempt\<lparr>ja_Status := AttemptExpired,
      ja_FinishedAt := Some 2000, ja_Retryable := Some False,
      ja_LastError := Some ''agent turn execution lease expired''\<rparr>], db_Failures = []\<rparr>\<rparr>"
  have jd: "td_Jobs ?d = \<lparr>db_Jobs = [demo_turn_job, ?new], db_Attempts = [demo_turn_attempt], db_Failures = []\<rparr>"
    by (simp add: delete_slot_def)
  have new: "jb_ID ?new \<noteq> ''job''" "jb_Kind ?new \<noteq> RunAgentTurnJobKind"
    by (simp_all add: new_job_def recovery_job_def demo_env_def)
  have failed: "job_checks ?failed" "jb_ID demo_turn_job = ''job''" "jb_Status demo_turn_job = JobLeased"
    "row_token demo_turn_job = ''token''" "jb_AttemptCount demo_turn_job = 1"
    "job_turn demo_turn_job = ''t2''" "job_epoch demo_turn_job = 2" "jb_Kind demo_turn_job = RunAgentTurnJobKind"
    by (simp_all add: job_checks_def released_def demo_turn_job_def lease_row_def new_job_def demo_simps row_token_def)
  have expired: "attempt_checks (demo_turn_attempt\<lparr>ja_Status := AttemptExpired, ja_FinishedAt := Some 2000,
      ja_Retryable := Some False, ja_LastError := Some ''agent turn execution lease expired''\<rparr>)"
    "ja_JobID demo_turn_attempt = ''job''" "ja_LeaseToken demo_turn_attempt = ''token''" "ja_Number demo_turn_attempt = 1"
    "ja_Status demo_turn_attempt = AttemptLeased"
    by (simp_all add: attempt_checks_def demo_turn_attempt_def demo_attempt_def)
  have expire: "expire_turn_job 2000 demo_turn_job ?d = Inr ?db3"
    unfolding expire_turn_job_def change_jobs_def jd
    by (simp add: update_attempts_def update_jobs_def fenced_attempt_def failed new expired)
  let ?q = "(''id:agent-turn-recovery:t2:epoch:2:stop_stale_runtime'', '''')"
  let ?f = "\<lambda>r. (fenced_turn demo_turn_env 2000 ?t False ?q (Some ''execution lease expired'') r)
      \<lparr>tr_AdmissionClosedAt := coalesce_with (tr_AdmissionClosedAt r) (Some 2000)\<rparr>"
  let ?u = "?db3\<lparr>td_Turns := [demo_ancestor, ?f ?t]\<rparr>"
  have turns: "td_Turns ?db3 = [demo_ancestor, ?t]"
    by (simp add: delete_slot_def expire_mutations_def update_invocations_def demo_turns_def)
  have upd: "update_turn (tr_ID ?t) tr_Active ?f TurnQuery ?db3 = Inr ?u"
    unfolding update_turn_def turns
    by (simp add: demo_turn_simps alter_def turn_checks_def turn_conflict_def fenced_turn_def disowned_def recovery_started_def
        coalesce_with_def owner_of_def)
  have read: "\<exists>r. readAgentTurnRecovery ?u (tr_ID ?t) (tr_Epoch ?t) = Some r"
    by (simp add: readAgentTurnRecovery_def demo_turn_simps fenced_turn_def disowned_def recovery_started_def released_def
        failed)
  then obtain r where r: "readAgentTurnRecovery ?u (tr_ID ?t) (tr_Epoch ?t) = Some r" ..
  have h: "\<exists>h. lockHierarchy demo_turn_env (jb_Scope demo_turn_job) = Inr h" by (simp add: lockHierarchy_def demo_turn_env_def)
  have t: "turn_of ?db ''t2'' = Some ?t" by (simp add: demo_turn_simps)
  have guards: "tr_Active ?t" "tr_Epoch ?t = 2" "owner_of ?t \<noteq> ''''" "owner_token_of ?t \<noteq> ''''"
    "tr_Status ?t = AgentTurnRunning" "\<not> lease_live 2000 ?t" "tr_ID ?t = ''t2''"
    "slot_of ?db ''t2'' = Some demo_slot" "sl_LeaseExpiresAt demo_slot = 1000"
    by (simp_all add: demo_turn_simps owner_of_def owner_token_of_def lease_live_def)
  have "recoverExpiredAgentTurn demo_turn_env 2000 demo_turn_job ?db = Inr (r, ?u)"
    unfolding recoverExpiredAgentTurn_def Let_def failed job
    using h calls enqueue expire upd r by (auto simp: t guards failed)
  moreover have "find (\<lambda>j. jb_Kind j = RunAgentTurnJobKind \<and> job_turn j = ''t2'' \<and> job_epoch j = 2) (db_Jobs (td_Jobs ?db))
      = Some demo_turn_job" by (simp add: demo_turns_def failed)
  moreover have "scanJob demo_env demo_turn_job = Some demo_turn_job"
    by (simp add: scanJob_def demo_turn_job_def lease_row_def new_job_def)
  ultimately have "RecoverExpiredAgentTurn demo_turn_env 2000 ''t2'' 2 ?db = Inr (r, ?u)"
    by (simp add: RecoverExpiredAgentTurn_def failed demo_env_def)
  moreover have "?u \<noteq> ?db"
  proof
    assume e: "?u = ?db"
    have "length (db_Jobs (td_Jobs ?u)) = 2" by simp
    then show False unfolding e by (simp add: demo_turns_def)
  qed
  ultimately show ?thesis by blast
qed

theorem expired_turn_is_fenced_witness:
  "\<exists>r u. RecoverExpiredAgentTurn demo_turn_env 2000 ''t2'' 2 (demo_turns AgentTurnRunning True demo_reserved) = Inr (r, u)
     \<and> (\<forall>xs. filter (works_on ''t2'') (performed turn_step xs u) = [])
     \<and> map_option iv_State (invocation_of u ''m2'') = Some MutationFailed"
proof -
  obtain r u where u: "RecoverExpiredAgentTurn demo_turn_env 2000 ''t2'' 2 (demo_turns AgentTurnRunning True demo_reserved) = Inr (r, u)"
    "u \<noteq> demo_turns AgentTurnRunning True demo_reserved" using demo_recovers by blast
  note expired = expired_turn_is_fenced [OF demo_running u]
  let ?call = "demo_call ''m2'' ''t2'' 2 1 ''two'' MutationReserved"
  have "?call \<in> set (td_Invocations (demo_turns AgentTurnRunning True demo_reserved))"
    "iv_Turn ?call = ''t2''" "iv_State ?call = MutationReserved" "iv_ID ?call = ''m2''" by (simp_all add: demo_turn_simps)
  with expired [of "[]"] have "map_option iv_State (invocation_of u ''m2'') = Some MutationFailed" by metis
  with u expired show ?thesis by blast
qed

section \<open>An Issue that is closed\<close>

definition demo_guard :: turn_guard where
  "demo_guard = \<lparr>tg_RetryOfTurnID = '''', tg_TurnID = ''t2'', tg_SessionID = ''s'', tg_AttemptID = ''a'',
     tg_Stage = ''stage'', tg_Role = ''dev'', tg_Epoch = 2, tg_ControlRevision = 1, tg_ChangeProposalID = 0, tg_ExpectedHeadSHA = ''''\<rparr>"

abbreviation "demo_cancelled \<equiv> cancelled_turn 5 (demo_turn AgentTurnRunning True)"
abbreviation "demo_closing \<equiv> close_mutations 5 demo_guard
  ((demo_turns AgentTurnRunning True demo_reserved)\<lparr>td_Turns := [demo_ancestor, demo_cancelled]\<rparr>)"

lemma demo_guarded: "meets_guard demo_turn_env demo_guard (demo_turn s a)" "meets_guard demo_turn_env demo_guard demo_cancelled"
  by (simp_all add: meets_guard_def demo_guard_def demo_turn_def cancelled_turn_def)

lemma demo_closes_admission:
  "closeMutationAdmissionTx demo_turn_env 5 demo_guard (demo_turns AgentTurnRunning True demo_reserved) = Inr demo_closing"
proof -
  let ?cond = "\<lambda>t. meets_guard demo_turn_env demo_guard t \<and> tr_Active t
      \<and> session_role demo_turn_env (tr_Session t) = Some (tg_Role demo_guard)"
  let ?db = "demo_turns AgentTurnRunning True demo_reserved"
  have t: "turn_of ?db ''t2'' = Some (demo_turn AgentTurnRunning True)" "tg_TurnID demo_guard = ''t2''"
    by (simp_all add: demo_turn_simps demo_guard_def)
  have c: "?cond (demo_turn AgentTurnRunning True)"
    using demo_guarded(1) by (simp add: session_role_def demo_turn_simps demo_guard_def)
  have k: "turn_checks demo_cancelled" "\<not> turn_conflict demo_cancelled demo_ancestor" "tr_ID demo_cancelled = ''t2''"
    by (simp_all add: turn_checks_def turn_conflict_def cancelled_turn_def demo_turn_simps)
  have "update_turn ''t2'' ?cond (cancelled_turn 5) ErrAgentTurnFenceLost ?db = Inr (?db\<lparr>td_Turns := [demo_ancestor, demo_cancelled]\<rparr>)"
    unfolding update_turn_def t using c k by (simp add: demo_turns_def alter_def) (simp add: demo_turn_simps)
  then show ?thesis by (simp add: closeMutationAdmissionTx_def t(2))
qed

abbreviation "demo_payload \<equiv> closing_payload ''w'' ''a'' ''c'' 1 (Some demo_guard)"
abbreviation "demo_stop_job \<equiv> new_job demo_env 5 (closure_job demo_turn_env StopAgentTurnJobKind 100
   (''workflow:w:delivery:d:action:stop-agent-turn'') demo_payload ''p''
   (no_provenance\<lparr>pv_normalizedEventID := ''d'', pv_actionKey := ''stop-agent-turn''\<rparr>))"
abbreviation "demo_settle_job \<equiv> new_job demo_env 5 (closure_job demo_turn_env SettleClosureJobKind 80
   (''workflow:w:closure:c:settle'') demo_payload ''p''
   (no_provenance\<lparr>pv_normalizedEventID := ''d'', pv_actionKey := ''settle-closure''\<rparr>))"
abbreviation "demo_jobs js \<equiv> \<lparr>db_Jobs = js, db_Attempts = [demo_turn_attempt], db_Failures = []\<rparr>"

lemmas demo_insert_simps = Let_def validateJobInsert_def closure_job_def closing_payload_def demo_guard_def job_checks_def
  new_job_def conflicting_def unique_conflict_def same_key_def live_successor_def demo_simps demo_turn_job_def
  demo_turn_env_def lease_row_def microseconds_def append_job_def

lemma demo_enqueues_stop:
  "insertIdempotentJobTx demo_env 5 (closure_job demo_turn_env StopAgentTurnJobKind 100
      (''workflow:w:delivery:d:action:stop-agent-turn'') demo_payload ''p''
      (no_provenance\<lparr>pv_normalizedEventID := ''d'', pv_actionKey := ''stop-agent-turn''\<rparr>)) (demo_jobs [demo_turn_job])
   = Inr (''id:workflow:w:delivery:d:action:stop-agent-turn'', demo_jobs [demo_turn_job, demo_stop_job])"
  by (simp add: insertIdempotentJobTx_def demo_insert_simps)

lemma demo_enqueues_settlement:
  "insertJobTx demo_env 5 (closure_job demo_turn_env SettleClosureJobKind 80
      (''workflow:w:closure:c:settle'') demo_payload ''p''
      (no_provenance\<lparr>pv_normalizedEventID := ''d'', pv_actionKey := ''settle-closure''\<rparr>)) (demo_jobs [demo_turn_job, demo_stop_job])
   = Inr (''id:workflow:w:closure:c:settle'', demo_jobs [demo_turn_job, demo_stop_job, demo_settle_job])"
  by (simp add: insertJobTx_def Job_Queue.admissible_def demo_insert_simps)

definition demo_barrier :: closure_barrier where
  "demo_barrier = \<lparr>cb_Workflow = ''w'', cb_Closure = ''c'', cb_Revision = 1, cb_Turn = ''t2'', cb_Session = ''s'',
     cb_Attempt = ''a'', cb_Epoch = 2, cb_ControlRevision = 1, cb_AdmissionClosedAt = 5, cb_RuntimeStoppedAt = None,
     cb_SettledAt = None, cb_StopJob = ''id:workflow:w:delivery:d:action:stop-agent-turn'',
     cb_SettlementJob = ''id:workflow:w:closure:c:settle''\<rparr>"

abbreviation "demo_closed \<equiv> demo_closing\<lparr>td_Jobs := demo_jobs [demo_turn_job, demo_stop_job, demo_settle_job],
  td_Closures := [demo_barrier]\<rparr>"

lemma demo_closes:
  "begin_closure demo_turn_env 5 ''d'' ''w'' ''a'' ''c'' 1 (Some demo_guard) (demo_turns AgentTurnRunning True demo_reserved)
     = Inr ((), demo_closed)"
proof -
  have g: "tg_TurnID demo_guard = ''t2''" "tg_SessionID demo_guard = ''s''" "tg_AttemptID demo_guard = ''a''"
    by (simp_all add: demo_guard_def)
  have t: "turn_of demo_closing ''t2'' = Some demo_cancelled" "td_Jobs demo_closing = demo_jobs [demo_turn_job]"
    "td_Closures demo_closing = []"
    by (simp_all add: close_mutations_def update_invocations_def cancelled_turn_def demo_turn_simps)
  have participant: "te_SessionParticipant demo_turn_env = (\<lambda>_. Some ''p'')" by (simp add: demo_turn_env_def)
  have stop: "enqueueStopTurnJob demo_turn_env 5 ''d'' ''w'' ''c'' demo_guard 1 demo_closing
      = Inr (''id:workflow:w:delivery:d:action:stop-agent-turn'', demo_closing\<lparr>td_Jobs := demo_jobs [demo_turn_job, demo_stop_job]\<rparr>)"
    unfolding enqueueStopTurnJob_def g t option.case participant using demo_enqueues_stop demo_guarded(2)
    by (simp add: demo_turn_jobs(1))
  let ?db2 = "demo_closing\<lparr>td_Jobs := demo_jobs [demo_turn_job, demo_stop_job]\<rparr>"
  let ?db3 = "demo_closing\<lparr>td_Jobs := demo_jobs [demo_turn_job, demo_stop_job, demo_settle_job]\<rparr>"
  have settle: "enqueueClosureSettlementJob demo_turn_env 5 ''d'' ''w'' ''a'' ''c'' 1 (Some demo_guard) ?db2
      = Inr (''id:workflow:w:closure:c:settle'', ?db3)"
    unfolding enqueueClosureSettlementJob_def option.case participant using demo_enqueues_settlement by simp
  have cancelled: "tr_Status demo_cancelled = AgentTurnCancelling" "\<not> tr_AdmissionOpen demo_cancelled"
    "tr_AdmissionClosedAt demo_cancelled = Some 5"
    by (simp_all add: cancelled_turn_def demo_turn_def coalesce_with_def)
  have p: "cl_Turn (closing_payload ''w'' '''' ''c'' 1 (Some demo_guard)) = ''t2''"
    "cl_Session (closing_payload ''w'' '''' ''c'' 1 (Some demo_guard)) = ''s''"
    "cl_Epoch (closing_payload ''w'' '''' ''c'' 1 (Some demo_guard)) = 2"
    "cl_ControlRevision (closing_payload ''w'' '''' ''c'' 1 (Some demo_guard)) = 1"
    by (simp_all add: closing_payload_def demo_guard_def)
  have checks: "barrier_checks demo_barrier" by (simp add: barrier_checks_def demo_barrier_def)
  have "turn_of ?db3 ''t2'' = Some demo_cancelled" "td_Closures ?db3 = []" using t by simp_all
  then have barrier: "createClosureBarrier demo_turn_env 5 ''w'' ''c'' 1 (Some demo_guard)
      ''id:workflow:w:delivery:d:action:stop-agent-turn'' ''id:workflow:w:closure:c:settle'' ?db3 = Inr demo_closed"
    unfolding createClosureBarrier_def option.case g Let_def p using demo_guarded(2) cancelled checks
    by (simp add: demo_barrier_def)
  show ?thesis
    unfolding begin_closure_def demo_closes_admission option.case sum.case stop prod.case settle barrier ..
qed

theorem closed_issue_starts_nothing_witness:
  "begin_closure demo_turn_env 5 ''d'' ''w'' ''a'' ''c'' 1 (Some demo_guard) (demo_turns AgentTurnRunning True demo_reserved)
     = Inr ((), demo_closed)
   \<and> list_ex (\<lambda>v. iv_ID v = ''m2'' \<and> iv_State v \<noteq> MutationReserved \<and> iv_State v \<noteq> MutationInFlight) (td_Invocations demo_closed)"
proof
  have "list_ex (\<lambda>v. iv_ID v = ''m2'' \<and> iv_Turn v = tg_TurnID demo_guard) (td_Invocations demo_closed)"
    by (simp add: close_mutations_def update_invocations_def demo_turn_simps demo_guard_def)
  with closed_issue_starts_nothing [OF demo_running demo_closes, where xs = "[]", unfolded after.simps]
  show "list_ex (\<lambda>v. iv_ID v = ''m2'' \<and> iv_State v \<noteq> MutationReserved \<and> iv_State v \<noteq> MutationInFlight) (td_Invocations demo_closed)"
    unfolding list_ex_iff by blast
qed (rule demo_closes)

section \<open>Its closure is settled\<close>

definition demo_stopped_job :: job where
  "demo_stopped_job = (released 5 JobSucceeded demo_stop_job)\<lparr>jb_CompletedAt := Some 5\<rparr>"

definition demo_closer :: job where
  "demo_closer = lease_row 0 ''worker'' ''closer'' 1000000 demo_settle_job"

definition demo_closer_attempt :: job_attempt where
  "demo_closer_attempt = demo_attempt\<lparr>ja_JobID := ''id:workflow:w:closure:c:settle'', ja_LeaseToken := ''closer''\<rparr>"

definition demo_closer_lease :: job_lease where
  "demo_closer_lease = \<lparr>jl_Job = demo_closer, jl_Attempt = 1\<rparr>"

abbreviation "demo_stopped_barrier \<equiv> demo_barrier\<lparr>cb_RuntimeStoppedAt := Some 5\<rparr>"

definition demo_ending :: turns_db where
  "demo_ending = (demo_turns AgentTurnCancelling False [])
     \<lparr>td_Jobs := \<lparr>db_Jobs = [demo_turn_job, demo_stopped_job, demo_closer],
                  db_Attempts = [demo_turn_attempt, demo_closer_attempt], db_Failures = []\<rparr>,
      td_Closures := [demo_stopped_barrier]\<rparr>"

lemma demo_ending_ok: "tables_ok demo_ending"
proof -
  have "side_change (demo_turns AgentTurnCancelling False []) demo_ending"
    by (simp add: demo_ending_def side_change_def same_ledger_def)
  from side_change_run [OF this] demo_turns_ok [of AgentTurnCancelling "[]" False] show ?thesis
    unfolding tables_ok_def turn_run_def by (auto intro: micros_turns_ok)
qed

lemma demo_job_facts:
  "jb_ID demo_turn_job = ''job''" "jb_ID demo_stopped_job = ''id:workflow:w:delivery:d:action:stop-agent-turn''"
  "jb_ID demo_closer = ''id:workflow:w:closure:c:settle''" "jb_Kind demo_turn_job = RunAgentTurnJobKind"
  "jb_Kind demo_closer = SettleClosureJobKind" "jb_Queue demo_closer = WorkflowActionQueue" "jb_Status demo_closer = JobLeased"
  "jb_Status demo_turn_job = JobLeased" "jb_Status demo_stopped_job = JobSucceeded" "jb_AttemptCount demo_closer = 1"
  "jb_AttemptCount demo_turn_job = 1" "row_token demo_closer = ''closer''" "row_token demo_turn_job = ''token''"
  "jb_Scope demo_closer = \<lparr>sc_workflowID = ''w'', sc_workflowAttemptID = ''a'', sc_agentParticipantID = ''p'',
     sc_agentSessionID = ''s'', sc_agentTurnID = ''t2'', sc_executionEpoch = 2\<rparr>"
  "job_turn demo_turn_job = ''t2''" "job_epoch demo_turn_job = 2" "jb_LeaseOwner demo_closer = Some ''worker''"
  "jb_LeaseExpiresAt demo_closer = Some 1000" "jb_LeaseToken demo_closer = Some ''closer''" "jb_Payload demo_closer = ''{}''"
  "jb_LeaseToken demo_turn_job = Some ''token''" "scanJob demo_env demo_closer = Some demo_closer"
  "scanJob demo_env demo_turn_job = Some demo_turn_job" "jb_Kind demo_stopped_job = StopAgentTurnJobKind"
  by (simp_all add: demo_turn_job_def demo_stopped_job_def demo_closer_def new_job_def released_def lease_row_def
      closure_job_def closing_payload_def demo_guard_def row_token_def microseconds_def demo_simps scanJob_def
      demo_turn_env_def)

lemma demo_ending_sel [simp]:
  "td_Jobs demo_ending = \<lparr>db_Jobs = [demo_turn_job, demo_stopped_job, demo_closer],
     db_Attempts = [demo_turn_attempt, demo_closer_attempt], db_Failures = []\<rparr>"
  "td_Closures demo_ending = [demo_stopped_barrier]" "td_Turns demo_ending = [demo_ancestor, demo_turn AgentTurnCancelling False]"
  "td_Invocations demo_ending = [demo_call ''m1'' ''t1'' 1 1 ''one'' MutationSucceeded]"
  by (simp_all add: demo_ending_def demo_turns_def)

lemma demo_closer_lease_sel [simp]:
  "jl_Job demo_closer_lease = demo_closer" "jl_Attempt demo_closer_lease = 1"
  "lease_id demo_closer_lease = ''id:workflow:w:closure:c:settle''" "lease_token demo_closer_lease = ''closer''"
  by (simp_all add: demo_closer_lease_def lease_id_def lease_token_def demo_job_facts)

lemma demo_attempt_facts:
  "ja_JobID demo_turn_attempt = ''job''" "ja_JobID demo_closer_attempt = ''id:workflow:w:closure:c:settle''"
  "ja_LeaseToken demo_turn_attempt = ''token''" "ja_LeaseToken demo_closer_attempt = ''closer''"
  "ja_Number demo_turn_attempt = 1" "ja_Number demo_closer_attempt = 1" "ja_Status demo_turn_attempt = AttemptLeased"
  "ja_Status demo_closer_attempt = AttemptLeased" "ja_LeaseOwner demo_closer_attempt = ''worker''"
  "ja_LeaseExpiresAt demo_closer_attempt = 1005"
  by (simp_all add: demo_turn_attempt_def demo_closer_attempt_def demo_attempt_def)

lemma demo_barrier_locked:
  "lockClosureBarrier demo_turn_env 5 demo_closer_lease SettleClosureJobKind demo_ending
     = Inr (demo_closer, demo_stopped_barrier)"
proof -
  have job: "lockFencedWorkflowJob demo_env 5 demo_closer_lease SettleClosureJobKind ErrClosureSettlementFenceLost (td_Jobs demo_ending)
      = Inr demo_closer"
    by (simp add: lockFencedWorkflowJob_def valid_fence_def fenced_row_def unexpired_def demo_job_facts demo_attempt_facts
        job_by_id_def attempt_of_def) (simp add: demo_simps)
  have t: "row_of tr_ID ''t2'' [demo_ancestor, demo_turn AgentTurnCancelling False] = Some (demo_turn AgentTurnCancelling False)"
    by (simp add: demo_turn_simps)
  have turn: "closing_turn demo_turn_env demo_closer demo_stopped_barrier (demo_turn AgentTurnCancelling False)"
    by (simp add: closing_turn_def demo_job_facts demo_turn_def demo_barrier_def demo_turn_env_def)
  show ?thesis
    unfolding lockClosureBarrier_def Let_def demo_turn_jobs job sum.case
    using turn t
    by (simp add: demo_job_facts)
      (simp add: demo_turn_env_def closure_payload_fits_def barrier_open_def demo_job_facts demo_barrier_def)
qed

abbreviation "demo_cancelled_job \<equiv> (released 5 JobCancelled demo_turn_job)\<lparr>jb_CompletedAt := Some 5,
  jb_LastError := Some ''Issue closure stopped Agent Turn''\<rparr>"
abbreviation "demo_failed_attempt \<equiv> demo_turn_attempt\<lparr>ja_Status := AttemptFailed, ja_FinishedAt := Some 5,
  ja_Retryable := Some False, ja_LastError := Some ''Issue closure stopped Agent Turn''\<rparr>"
abbreviation "demo_interrupted \<equiv> (disowned (demo_turn AgentTurnCancelling False))\<lparr>tr_Status := AgentTurnInterrupted,
  tr_CompletedAt := Some 5, tr_LastError := Some ''Issue closure stopped Agent Turn''\<rparr>"
abbreviation "demo_settled_db \<equiv> (delete_slot (\<lambda>s. sl_Turn s = ''t2'') demo_ending)
  \<lparr>td_Jobs := \<lparr>db_Jobs = [demo_cancelled_job, demo_stopped_job, demo_closer],
               db_Attempts = [demo_failed_attempt, demo_closer_attempt], db_Failures = []\<rparr>,
   td_Turns := [demo_ancestor, demo_interrupted]\<rparr>"

lemma demo_cancels_preparations: "cancelPendingAgentTurnPreparationsTx 5 ''w'' demo_ending = Inr demo_ending"
  by (simp add: cancelPendingAgentTurnPreparationsTx_def cancelPendingPreparations_def Let_def update_attempts_def
      update_jobs_def demo_job_facts)

lemma demo_settles_turn:
  "settleClosedAgentTurnTx demo_turn_env 5 demo_stopped_barrier demo_ending = Inr demo_settled_db"
proof -
  have row: "Option.bind (find (\<lambda>j. jb_Kind j = RunAgentTurnJobKind \<and> job_turn j = cb_Turn demo_stopped_barrier
        \<and> job_epoch j = cb_Epoch demo_stopped_barrier) (db_Jobs (td_Jobs demo_ending))) (scanJob demo_env) = Some demo_turn_job"
    by (simp add: demo_job_facts demo_barrier_def)
  have checks: "job_checks demo_cancelled_job" "attempt_checks demo_failed_attempt" "jb_ID demo_cancelled_job = ''job''"
    by (simp_all add: job_checks_def attempt_checks_def released_def demo_turn_job_def lease_row_def new_job_def demo_simps
        demo_turn_attempt_def demo_attempt_def)
  let ?cancelled = "demo_ending\<lparr>td_Jobs := \<lparr>db_Jobs = [demo_cancelled_job, demo_stopped_job, demo_closer],
      db_Attempts = [demo_failed_attempt, demo_closer_attempt], db_Failures = []\<rparr>\<rparr>"
  have cancel: "cancel_job 5 ''Issue closure stopped Agent Turn'' demo_turn_job demo_ending = Inr ?cancelled"
    using checks
    by (simp add: cancel_job_def cancel_live_job_def change_attempt_def change_job_def update_attempts_def update_jobs_def
        fenced_attempt_def live_job_def failed_attempt_def [abs_def] cancelled_job_def [abs_def]
        demo_job_facts demo_attempt_facts)
  let ?d = "delete_slot (\<lambda>s. sl_Turn s = ''t2'') ?cancelled"
  have turns: "td_Turns ?d = [demo_ancestor, demo_turn AgentTurnCancelling False]" by (simp add: delete_slot_def)
  have interrupted: "turn_checks demo_interrupted" "\<not> turn_conflict demo_interrupted demo_ancestor"
    by (simp_all add: turn_checks_def turn_conflict_def disowned_def demo_turn_simps)
  have barrier: "cb_Turn demo_barrier = ''t2''" "cb_Session demo_barrier = ''s''" "cb_Attempt demo_barrier = ''a''"
    "cb_Epoch demo_barrier = 2" "cb_ControlRevision demo_barrier = 1" by (simp_all add: demo_barrier_def)
  have old: "row_of tr_ID ''t2'' [demo_ancestor, demo_turn AgentTurnCancelling False] = Some (demo_turn AgentTurnCancelling False)"
    "tr_ID demo_ancestor = ''t1''" "tr_ID (demo_turn AgentTurnCancelling False) = ''t2''"
    "tr_Session (demo_turn AgentTurnCancelling False) = ''s''" "tr_Attempt (demo_turn AgentTurnCancelling False) = ''a''"
    "tr_Epoch (demo_turn AgentTurnCancelling False) = 2" "tr_ControlRevision (demo_turn AgentTurnCancelling False) = 1"
    "tr_Status (demo_turn AgentTurnCancelling False) = AgentTurnCancelling"
    "\<not> tr_AdmissionOpen (demo_turn AgentTurnCancelling False)" "tr_Active (demo_turn AgentTurnCancelling False)"
    by (simp_all add: demo_turn_simps)
  have "update_turn ''t2'' (\<lambda>t. tr_Session t = ''s'' \<and> tr_Attempt t = ''a'' \<and> tr_Epoch t = 2 \<and> tr_ControlRevision t = 1
      \<and> tr_Status t = AgentTurnCancelling \<and> \<not> tr_AdmissionOpen t \<and> tr_Active t)
    (\<lambda>t. (disowned t)\<lparr>tr_Status := AgentTurnInterrupted, tr_CompletedAt := Some 5,
       tr_LastError := Some ''Issue closure stopped Agent Turn''\<rparr>) (JobsError ErrClosureSettlementFenceLost) ?d
    = Inr demo_settled_db"
    unfolding update_turn_def turns old option.case using interrupted by (simp add: old alter_def) (simp add: delete_slot_def)
  then show ?thesis
    unfolding settleClosedAgentTurnTx_def Let_def demo_turn_jobs row option.case
    by (simp add: demo_job_facts cancel or_lost_def barrier)
qed

lemma demo_closure_settles:
  "\<exists>u. CompleteClosureSettlement demo_turn_env 5 demo_closer_lease demo_ending
     = Inr (demo_stopped_barrier\<lparr>cb_SettledAt := Some 5\<rparr>, u) \<and> u \<noteq> demo_ending"
proof -
  have workflow: "lockClosureWorkflow demo_env demo_closer_lease = None"
    by (simp add: lockClosureWorkflow_def) (simp add: demo_env_def)
  have again: "resolveCompletedClosureSettlement demo_turn_env demo_closer_lease demo_ending = None"
    by (simp add: resolveCompletedClosureSettlement_def Let_def job_by_id_def demo_job_facts)
  have barrier: "cb_Turn demo_barrier = ''t2''" "cb_Workflow demo_barrier = ''w''" "cb_Epoch demo_barrier = 2"
    "cb_StopJob demo_barrier = ''id:workflow:w:delivery:d:action:stop-agent-turn''" by (simp_all add: demo_barrier_def)
  have stopped: "requireClosureRuntimeStopped demo_stopped_barrier demo_ending = None"
    by (simp add: requireClosureRuntimeStopped_def barrier job_by_id_def demo_job_facts)
  have settled: "\<not> list_ex (\<lambda>v. iv_Turn v = ''t2'' \<and> iv_Epoch v = 2 \<and> iv_Mutation v
      \<and> iv_State v \<in> set unsettled_states) (td_Invocations demo_ending)"
    by (simp add: demo_call_def)
  have decided: "te_ClosureDecision demo_turn_env b = None" "te_ClosureResult demo_turn_env b = ''{}''" for b
    by (simp_all add: demo_turn_env_def)
  let ?db = "update_barrier demo_stopped_barrier (\<lambda>c. c\<lparr>cb_SettledAt := Some 5\<rparr>) demo_settled_db"
  obtain jobs where jobs: "completeAcknowledgementJobTx demo_env 5 demo_closer ''{}'' ErrClosureSettlementFenceLost (td_Jobs ?db)
      = Inr jobs"
  proof -
    let ?a = "demo_closer_attempt\<lparr>ja_Status := AttemptSucceeded, ja_FinishedAt := Some 5, ja_Result := Some ''{}''\<rparr>"
    let ?j = "(released 5 JobSucceeded demo_closer)\<lparr>jb_CompletedAt := Some 5, jb_Result := Some ''{}'', jb_LastError := None\<rparr>"
    have "attempt_checks ?a" by (simp add: attempt_checks_def demo_closer_attempt_def demo_attempt_def)
    moreover have "job_checks ?j"
      by (simp add: job_checks_def released_def demo_closer_def lease_row_def new_job_def closure_job_def demo_simps
          demo_turn_env_def)
    moreover have "je_Jsonb demo_env ''{}'' = ''{}''" by (simp add: demo_env_def)
    moreover have "jb_ID demo_cancelled_job = ''job''" by (simp add: released_def demo_job_facts)
    ultimately show thesis
      by (intro that) (simp add: update_barrier_def completeAcknowledgementJobTx_def change_attempt_def change_job_def
          update_attempts_def update_jobs_def fenced_attempt_def own_job_def demo_job_facts demo_attempt_facts)
  qed
  have "CompleteClosureSettlement demo_turn_env 5 demo_closer_lease demo_ending
     = Inr (demo_stopped_barrier\<lparr>cb_SettledAt := Some 5\<rparr>, ?db\<lparr>td_Jobs := jobs\<rparr>)"
    unfolding CompleteClosureSettlement_def demo_turn_jobs workflow again demo_barrier_locked option.case sum.case prod.case
      stopped decided Let_def
    using settled demo_cancels_preparations demo_settles_turn jobs by (simp add: barrier)
  moreover have "?db\<lparr>td_Jobs := jobs\<rparr> \<noteq> demo_ending"
  proof
    assume e: "?db\<lparr>td_Jobs := jobs\<rparr> = demo_ending"
    have "td_Turns (?db\<lparr>td_Jobs := jobs\<rparr>) = [demo_ancestor, demo_interrupted]" by (simp add: update_barrier_def)
    then show False unfolding e by (simp add: demo_turn_simps disowned_def)
  qed
  ultimately show ?thesis by blast
qed

theorem settled_closure_is_final_witness:
  "\<exists>u. CompleteClosureSettlement demo_turn_env 5 demo_closer_lease demo_ending
       = Inr (demo_stopped_barrier\<lparr>cb_SettledAt := Some 5\<rparr>, u)
     \<and> filter (works_on ''t2'') (performed turn_step [(demo_turn_env, 6, Under demo_lease Validate_Fence)] u) = []"
proof -
  from demo_closure_settles obtain u where u: "CompleteClosureSettlement demo_turn_env 5 demo_closer_lease demo_ending
      = Inr (demo_stopped_barrier\<lparr>cb_SettledAt := Some 5\<rparr>, u)" "u \<noteq> demo_ending" by blast
  have t: "cb_Turn (demo_stopped_barrier\<lparr>cb_SettledAt := Some 5\<rparr>) = ''t2''" by (simp add: demo_barrier_def)
  from settled_closure_is_final [OF demo_ending_ok u, of "[(demo_turn_env, 6, Under demo_lease Validate_Fence)]"] u(1)
  show ?thesis unfolding t by blast
qed

end
