(* ===== verification/Spec2Isabelle.thy ===== *)
theory Spec2Isabelle
  imports Workflow_Progress Settlement_Safety Execution_Safety Job_Demo Turn_Demo
begin

text \<open>
  A verification development for Omnigrex, the orchestrator that drives coding agents through GitHub
  issues (Go, under \<open>src/internal\<close>).

  \<^bold>\<open>The program.\<close> A Work Item is an issue with the label that triggers Omnigrex. Its
  \<^emph>\<open>Workflow\<close> is a state machine, given by an immutable Definition: a pure reducer maps a Snapshot
  and an Event (a webhook, a settled Turn, a finished job) to a Decision, the next Snapshot and a list of
  Actions. The store applies a Decision in one transaction of a PostgreSQL database: it writes the Snapshot and turns
  the Actions into rows, most of them \<^emph>\<open>jobs\<close> of a durable queue. Workers lease jobs. One kind of job runs an
  \<^emph>\<open>Agent Turn\<close>: one execution of an agent in a container, which works on the issue through tool calls; the
  external ones among them are \<^emph>\<open>mutations\<close> that have to happen once at most, although workers crash and
  leases run out. Humans take part through the issue's \<^emph>\<open>conversation\<close>: question rounds, answers, amendments
  and, for a planning Workflow, the plan and its confirmation. The \<^emph>\<open>execution ledger\<close> records which
  processes an execution may start. Every part is guarded by fences (revisions, lease tokens, epochs, owner
  tokens), and what they guarantee under any interleaving is what this development proves.

  \<^bold>\<open>Theories and code.\<close>
  \<^item> \<open>Prelude\<close>: machine integers, Go strings as lists of code points (with their UTF-8 bytes), the functions of
    Go's library that the modelled packages call, finite maps and lists. \<open>One_Shot\<close>: the locales \<open>barrier\<close>,
    \<open>one_shot\<close> and their kin, for operations that may succeed once at most or never again; they are interpreted by
    the execution ledger, the job queue and the Turns.
  \<^item> \<open>Role_Catalog\<close> (\<open>role/catalog.go\<close>, \<open>role/policy.go\<close>): Roles, their policies and their catalogs.
  \<^item> \<open>Workflow_Model\<close> (\<open>workflow/model.go\<close>), \<open>Workflow_Definition\<close> (\<open>workflow/definition.go\<close>, \<open>builtin.go\<close>,
    \<open>instructions.go\<close>), \<open>Workflow_Validation\<close> (\<open>validation.go\<close>) and \<open>Workflow_Reducer\<close> (\<open>reducer.go\<close>): the whole
    reducer, one definition per Go function, Actions and reasons included. \<open>Workflow_Shapes\<close> has one lemma per handler,
    \<open>Workflow_Effects\<close> an inductive relation \<open>effect\<close> with a rule per way in which an Event is applied, equivalent
    to it; \<open>Workflow_Fence\<close>, \<open>Workflow_Safety\<close>, \<open>Workflow_Turns\<close>, \<open>Workflow_Runs\<close> and \<open>Workflow_Progress\<close> have the
    properties, \<open>Workflow_Examples\<close> a concrete Workflow.
  \<^item> \<open>Collab_Model\<close>, \<open>Collab_Operations\<close>, \<open>Collab_Planning\<close>, \<open>Collab_Projection\<close> (\<open>collaboration/*.go\<close>): the
    conversation and the methods of \<open>State\<close>. \<open>Collab_Store\<close> (\<open>store/collaboration.go\<close>, \<open>planning.go\<close>,
    \<open>collaboration_projection.go\<close> and the fence of a settlement): the transactions on it. \<open>Collab_Evidence\<close> proves the two
    walks over evidence correct; \<open>Collab_History\<close> has the relation \<open>collab_op\<close> of all transactions, \<open>Collab_Frames\<close> what
    each leaves alone, \<open>Collab_Invariants\<close>, \<open>Collab_References\<close>, \<open>Collab_Rounds\<close> and \<open>Collab_Plan\<close> the invariants of
    the conversations they reach; \<open>Collab_Properties\<close> and \<open>Collab_Settlement\<close> the properties, \<open>Collab_Demo\<close> a
    concrete run. \<open>Settlement_Safety\<close> composes the conversation with the reducer.
  \<^item> \<open>Execution_Ledger\<close> (\<open>runtime/execution/execution.go\<close>, \<open>store/execution_reservations.go\<close>,
    \<open>execution_evidence.go\<close>) and \<open>Execution_Safety\<close>: the phases of an execution, their revocation, what is captured.
  \<^item> \<open>Job_Queue\<close>, \<open>Job_Leases\<close> (\<open>store/jobs.go\<close>, \<open>job_writes.go\<close>, \<open>safety_handoffs.go\<close>,
    \<open>workflow_action_failures.go\<close>) and \<open>Job_Acknowledgements\<close> (\<open>workflow_acknowledgements.go\<close> and its siblings): the tables
    of jobs, attempts and failures with their checks and unique indexes, and every operation of their workers.
    \<open>Job_Preparations\<close> (\<open>preparation.go\<close>, \<open>review_admission.go\<close>, \<open>workflow.go\<close>, \<open>retention.go\<close>): the jobs that other
    transactions rewrite or cancel: preparations that follow their Workflow, wait for a review or fail, Actions
    enqueued once, revalidations bound to a Turn, and what is cancelled. \<open>Job_Steps\<close>, \<open>Job_Runs\<close> and
    \<open>Job_Preparation_Runs\<close> split the operations into small steps, \<open>Job_Safety\<close> has the step function \<open>job_step\<close> over
    all of them, \<open>Job_Properties\<close> what follows, \<open>Job_Demo\<close> concrete runs.
  \<^item> \<open>Turn_Model\<close>, \<open>Turn_Fence\<close>, \<open>Turn_Mutations\<close>, \<open>Turn_Leases\<close> (\<open>store/turns.go\<close>, \<open>terminal_prompt.go\<close>),
    \<open>Turn_Recovery\<close> (\<open>turns.go\<close>, \<open>mutation_recovery.go\<close>, \<open>settlement.go\<close>) and \<open>Turn_Endings\<close> (\<open>settlement.go\<close>,
    \<open>workflow.go\<close>, \<open>workflow_acknowledgements.go\<close>): Turns, their slots, tool calls and replays; acquiring, renewing and
    losing a Turn; the ledger of mutations; recovery of a Turn whose worker is gone; settlement, the closure of an Issue
    and the hand-over to a human. \<open>Turn_Steps\<close> has the small steps and the invariant, \<open>Turn_Runs\<close> and
    \<open>Turn_Ending_Runs\<close> show that each operation is made of them, \<open>Turn_Safety\<close> has the step function over all
    operations, \<open>Turn_Properties\<close> the properties, \<open>Turn_Demo\<close> concrete Turns.

  \<^bold>\<open>How code is modelled.\<close> A Go struct is a record with its field names behind a two-letter prefix, an enumeration a
  datatype; \<open>uint8\<close>, \<open>uint32\<close> and \<open>uint64\<close> are words, an \<open>int64\<close> that is only compared or counted up is an \<open>int\<close>; a nil
  pointer is \<open>None\<close>, a nil dereference an outcome of its own in the reducer (\<open>Reduce\<close> returns an option, and is proved
  never to be \<open>None\<close>); nil and empty slices are not distinguished where the code does not. An error is \<open>Inl\<close>. A
  transaction maps the tables to an error, then nothing is written, or to a result and the tables it commits; it reads one
  time, draws identities that do not fail, and transactions are ordered as they commit (the row locks that the code
  takes are not modelled further). An SQL statement is a function on the lists of rows, with the CHECK constraints and
  unique indexes that its columns could violate. A client's view is any sequence of operations with arbitrary
  arguments, times and environments (\<open>after step xs db\<close>), so every worker, crash and repetition is covered: a crash
  is an operation that never comes.

  \<^bold>\<open>What is assumed.\<close> What a transaction learns from elsewhere is a field of an environment (\<open>job_env\<close>, \<open>turn_env\<close>,
  \<open>preparation_reads\<close>, the arguments of \<open>Collab_Store\<close>): whether a string is a UUID, canonical JSON and what a payload says, hashes, rows of
  tables of other parts (sessions, participants, workflows) and, in the theories of Turns, what the Workflow decides when a
  Turn settles or a closure is over. Nothing is assumed of these fields. Two steps have guards: \<open>Queue_Op\<close> lets the job queue
  act between the operations on Turns, and \<open>Hand_Over\<close> only applies if a Turn whose execution job nobody has claimed has made no tool
  call, which holds because a Turn calls tools only under the lease of that job.

  \<^bold>\<open>What is shown.\<close> Of the reducer: revisions fence and Events count once, states and Turns change only as the Definition
  says, review and retry budgets hold, a Workflow is ready only on a current approval, requested Turns fit, autonomous work
  terminates (as long as no head is replaced and no human input is waited for). Of the conversation: one source is accepted once, references are permanent, rounds come one at a time, a
  plan is ready only on a human's confirmation that nothing contradicts, what is invalidated stays so, a Turn cannot settle
  over unread input. Of the ledger: a phase is dispatched once and never after revocation. Of the queue: attempts are
  numbered, bounded and settled once, the table refines the life cycle of a lease, a cancelled preparation never runs
  again, and inserting again what no operation rewrites changes nothing. Of Turns: a mutation is started once
  at most, across all retries of a lineage; its row refines a life cycle whose outcomes are final; a holder that has lost
  its lease, finalized, or was closed can do nothing more; no Turn ends with an open mutation, and then its ledger is
  frozen; what settlement reads of it is the whole ledger; a closed Issue starts nothing; slots are bounded. The components share lemmas by interpretation of the
  locales of \<open>One_Shot\<close>, \<open>Role_Catalog\<close>, \<open>Workflow_Definition\<close> and \<open>Workflow_Fence\<close> on the model's own definitions.

  \<^bold>\<open>Bounds and fuel.\<close> The walk over amendments has as much fuel as there are inputs, which \<open>amends_returns\<close> proves to
  be enough for every reachable conversation; the walk over retried Turns has as much as there are Turns, and a Turn only
  retries one that was queued before it (\<open>retries_ok\<close>). \<open>lineage_visit\<close>, the depth-first walk with its visited set, has
  a termination proof. The limits of the code are kept as they are: 32 expired jobs reclaimed at a time, three attempts
  for recovery and closure jobs, the retry and review budgets of the Definition.

  \<^bold>\<open>Not modelled.\<close> The clients of GitHub, Docker, MCP and of the agents' harnesses, configuration, HTTP, the command
  line and the logging: they are input and output around the modelled parts. Of the store: the ingestion of
  webhooks, the rehydration of a Snapshot from its tables and its writing back (encodings between records and
  columns), the allocation of a Turn by its preparation (participants, sessions, profiles; \<open>Queue_Turn\<close> inserts the Turn)
  and the rows of review admissions, terminal corroboration and the acknowledgement of pending events beyond what their
  jobs do, the collection of retained Assignments and the reads for the user interface. The worker loops of \<open>agentturn\<close>, which call the
  modelled operations around these services, are covered only in that any sequence of calls is. Time-outs of contexts,
  lost connections and serialization failures of the database are errors before the commit, that is, nothing.
\<close>

end
